(* ===== verification/Prelude.thy ===== *)
theory Prelude
  imports Main "HOL-Library.Sublist"
begin

text \<open>
  Shared ground of the development: the collections of rewrite rules the component theories fill,
  the generic facts on lists, options and sums their proofs rest on, and the one abstract notion of
  a system whose steps keep an invariant, which the stateful components interpret.
\<close>

named_theorems js_simps \<open>evaluation rules of the JavaScript string and number primitives\<close>
named_theorems cidr_simps \<open>facts about the address arithmetic of cidr.ts\<close>
named_theorems store_simps \<open>facts about the tables of the database\<close>

section \<open>Lists\<close>

text \<open>The first element that satisfies a predicate: \<^verbatim>\<open>Array.prototype.find\<close> is \<open>List.find\<close>.\<close>

lemma find_None_iff_filter: "find P xs = None \<longleftrightarrow> filter P xs = []"
  by (auto simp: find_None_iff filter_empty_conv)

lemma find_SomeD: "find P xs = Some x \<Longrightarrow> x \<in> set xs \<and> P x"
  by (auto simp: find_Some_iff)

lemma find_Some_ex: "x \<in> set xs \<Longrightarrow> P x \<Longrightarrow> \<exists>y. find P xs = Some y"
  by (metis find_None_iff not_None_eq)

lemma find_distinct_key:
  assumes "distinct (map f xs)" and "x \<in> set xs"
  shows "find (\<lambda>y. f y = f x) xs = Some x"
  using assms by (induction xs) (auto simp: rev_image_eqI)

lemma find_append_fresh:
  "find P xs = None \<Longrightarrow> P x \<Longrightarrow> find P (xs @ [x]) = Some x"
  by (induction xs) (auto split: if_splits)

lemma list_ex_find: "list_ex P xs \<longleftrightarrow> find P xs \<noteq> None"
  by (auto simp: find_None_iff list_ex_iff)

lemma map_if_key_id:
  assumes "\<And>x. x \<in> set xs \<Longrightarrow> P x \<Longrightarrow> f x = x"
  shows "map (\<lambda>x. if P x then f x else x) xs = xs"
  by (rule map_idI) (use assms in auto)

lemma distinct_map_upd:
  assumes "\<And>x. k (f x) = k x"
  shows "map k (map (\<lambda>x. if P x then f x else x) xs) = map k xs"
  by (induction xs) (auto simp: assms)

section \<open>Results\<close>

text \<open>A computation that may throw: \<^term>\<open>Inl\<close> carries the exception, \<^term>\<open>Inr\<close> the value.\<close>

primrec is_ok :: "'e + 'a \<Rightarrow> bool" where
  "is_ok (Inl e) = False"
| "is_ok (Inr a) = True"

lemma is_ok_iff: "is_ok r \<longleftrightarrow> (\<exists>a. r = Inr a)"
  by (cases r) auto

section \<open>Systems whose steps keep an invariant\<close>

text \<open>
  Every stateful component promises its clients one thing: whatever sequence of its operations
  runs, a predicate on its state survives. The locale states the two obligations and proves the
  consequence once, by induction over the run.
\<close>

locale kept_invariant =
  fixes step :: "'s \<Rightarrow> 'e \<Rightarrow> 's"
    and good :: "'s \<Rightarrow> bool"
  assumes step_good: "good s \<Longrightarrow> good (step s e)"
begin

lemma run_good: "good s \<Longrightarrow> good (foldl step s es)"
  by (induction es arbitrary: s) (auto intro: step_good)

lemma prefix_good: "good s \<Longrightarrow> prefix es fs \<Longrightarrow> good (foldl step s es)"
  by (rule run_good)

end

end
