(* ===== verification/JsStd.thy ===== *)
theory JsStd
  imports Prelude "HOL-Library.Word" "HOL-Library.Code_Target_Nat"
begin

unbundle bit_operations_syntax

text \<open>
  The part of the JavaScript language and its standard library the modelled sources use: exceptions
  as values, string methods on ASCII text, decimal printing and \<^verbatim>\<open>parseInt\<close>, and the 32-bit integer
  conversions behind the operators \<^verbatim>\<open><<\<close>, \<^verbatim>\<open>>>>\<close> and \<^verbatim>\<open>&\<close>. A JavaScript number that is only
  ever an integer is an \<^typ>\<open>int\<close> (or \<^typ>\<open>nat\<close>); \<^verbatim>\<open>NaN\<close> is \<^term>\<open>None\<close>. Text is a list of bytes; the
  few non-ASCII characters of the source's messages are spelled as their UTF-8 bytes.
\<close>

section \<open>Exceptions\<close>

text \<open>
  \<^verbatim>\<open>AppError\<close> is the application's own error class (HTTP status and message). The other
  constructors are what the platform throws through the modelled code: a unique-constraint
  violation reported by the database client, a \<^verbatim>\<open>TypeError\<close> of the language, and any other
  \<^verbatim>\<open>Error\<close> (network failures, aborts, a library's own exceptions) with its message.
\<close>

datatype error =
    AppError (httpStatus: nat) (message: string)
  | UniqueViolation
  | TypeError
  | NativeError string

type_synonym 'a result = "error + 'a"

section \<open>Strings\<close>

definition emdash :: string where
  "emdash = [CHR 0xE2, CHR 0x80, CHR 0x94]"

definition rarrow :: string where
  "rarrow = [CHR 0xE2, CHR 0x86, CHR 0x92]"

text \<open>\<^verbatim>\<open>s.split(c)\<close> for a one-character separator; the empty string splits into one empty part.\<close>

fun split_on :: "char \<Rightarrow> string \<Rightarrow> string list" where
  "split_on c [] = [[]]"
| "split_on c (x # xs) =
     (if x = c then [] # split_on c xs
      else (case split_on c xs of [] \<Rightarrow> [[x]] | p # ps \<Rightarrow> (x # p) # ps))"

fun join :: "string \<Rightarrow> string list \<Rightarrow> string" where
  "join sep [] = []"
| "join sep [p] = p"
| "join sep (p # q # ps) = p @ sep @ join sep (q # ps)"

definition startsWith :: "string \<Rightarrow> string \<Rightarrow> bool" where
  "startsWith s p \<longleftrightarrow> take (length p) s = p"

definition endsWith :: "string \<Rightarrow> string \<Rightarrow> bool" where
  "endsWith s p \<longleftrightarrow> length p \<le> length s \<and> drop (length s - length p) s = p"

fun includes_str :: "string \<Rightarrow> string \<Rightarrow> bool" where
  "includes_str [] p = (p = [])"
| "includes_str (c # s) p = (startsWith (c # s) p \<or> includes_str s p)"

definition is_space :: "char \<Rightarrow> bool" where
  "is_space c \<longleftrightarrow> c \<in> {CHR 0x20, CHR 0x09, CHR 0x0A, CHR 0x0B, CHR 0x0C, CHR 0x0D}"

definition trim :: "string \<Rightarrow> string" where
  "trim s = rev (dropWhile is_space (rev (dropWhile is_space s)))"

lemma dropWhile_rev_kept:
  assumes "\<not> P (hd xs)"
  shows "dropWhile P (rev (dropWhile P (rev xs))) = rev (dropWhile P (rev xs))"
proof -
  obtain ys zs where z: "dropWhile P (rev xs) = zs" "xs = rev zs @ rev ys"
    by (metis rev_append rev_rev_ident takeWhile_dropWhile_id)
  show ?thesis using assms z(2) unfolding z(1) by (cases "rev zs") auto
qed

lemma trim_idem [simp]: "trim (trim s) = trim s"
proof (cases "dropWhile is_space s = []")
  case True
  then show ?thesis by (simp add: trim_def del: dropWhile_eq_Nil_conv)
next
  case False
  then have "\<not> is_space (hd (dropWhile is_space s))" by (rule hd_dropWhile)
  then show ?thesis by (simp add: trim_def dropWhile_rev_kept)
qed

definition lower_char :: "char \<Rightarrow> char" where
  "lower_char c = (if 65 \<le> (of_char c :: nat) \<and> (of_char c :: nat) \<le> 90
                   then char_of ((of_char c :: nat) + 32) else c)"

definition toLowerCase :: "string \<Rightarrow> string" where
  "toLowerCase = map lower_char"

definition is_digit :: "char \<Rightarrow> bool" where
  "is_digit c \<longleftrightarrow> 48 \<le> (of_char c :: nat) \<and> (of_char c :: nat) \<le> 57"

definition is_hex_lower :: "char \<Rightarrow> bool" where
  "is_hex_lower c \<longleftrightarrow> is_digit c \<or> (97 \<le> (of_char c :: nat) \<and> (of_char c :: nat) \<le> 102)"

definition is_hex :: "char \<Rightarrow> bool" where
  "is_hex c \<longleftrightarrow> is_hex_lower c \<or> (65 \<le> (of_char c :: nat) \<and> (of_char c :: nat) \<le> 70)"

text \<open>
  Truthiness of an optional string: \<^verbatim>\<open>undefined\<close>, \<^verbatim>\<open>null\<close> and the empty string are falsy.
  \<^verbatim>\<open>or_str s d\<close> is \<^verbatim>\<open>s || d\<close>, \<^verbatim>\<open>or_null s\<close> is \<^verbatim>\<open>s || null\<close>.
\<close>

definition truthy :: "string option \<Rightarrow> bool" where
  "truthy s \<longleftrightarrow> s \<noteq> None \<and> s \<noteq> Some []"

definition or_str :: "string option \<Rightarrow> string \<Rightarrow> string" where
  "or_str s d = (case s of None \<Rightarrow> d | Some [] \<Rightarrow> d | Some t \<Rightarrow> t)"

definition or_null :: "string option \<Rightarrow> string option" where
  "or_null s = (if truthy s then s else None)"

lemma startsWith_iff: "startsWith s p \<longleftrightarrow> (\<exists>u. s = p @ u)"
  unfolding startsWith_def by (metis append_eq_conv_conj append_take_drop_id)

lemma endsWith_iff: "endsWith s p \<longleftrightarrow> (\<exists>u. s = u @ p)"
  unfolding endsWith_def by (metis append_eq_conv_conj append_take_drop_id diff_add_inverse2 le_add2 length_append)

lemma includes_iff: "includes_str s p \<longleftrightarrow> (\<exists>u w. s = u @ p @ w)"
proof (induction s)
  case (Cons c s)
  have "(\<exists>u w. c # s = u @ p @ w) \<longleftrightarrow> (\<exists>w. c # s = p @ w) \<or> (\<exists>u w. s = u @ p @ w)"
    by (metis append_Cons append_Nil list.inject neq_Nil_conv)
  then show ?case by (simp add: Cons startsWith_iff)
qed auto

section \<open>Decimal numbers\<close>

definition digit_char :: "nat \<Rightarrow> char" where
  "digit_char d = char_of (48 + d)"

definition digit_val :: "char \<Rightarrow> nat" where
  "digit_val c = of_char c - 48"

fun string_of_nat :: "nat \<Rightarrow> string" where
  "string_of_nat n =
     (if n < 10 then [digit_char n] else string_of_nat (n div 10) @ [digit_char (n mod 10)])"

declare string_of_nat.simps [simp del]

definition nat_of_digits :: "string \<Rightarrow> nat" where
  "nat_of_digits = foldl (\<lambda>n c. 10 * n + digit_val c) 0"

text \<open>
  \<^verbatim>\<open>parseInt(s, 10)\<close>: leading white space is skipped, an optional sign is read, then the longest
  run of digits; no digit gives \<^verbatim>\<open>NaN\<close>.
\<close>

definition parse_digits :: "string \<Rightarrow> nat option" where
  "parse_digits s = (let ds = takeWhile is_digit s in if ds = [] then None else Some (nat_of_digits ds))"

definition parseInt10 :: "string \<Rightarrow> int option" where
  "parseInt10 s =
     (case dropWhile is_space s of
        [] \<Rightarrow> None
      | c # cs \<Rightarrow>
          (if c = CHR ''-'' then map_option (\<lambda>n. - int n) (parse_digits cs)
           else if c = CHR ''+'' then map_option int (parse_digits cs)
           else map_option int (parse_digits (c # cs))))"

definition padStart :: "string \<Rightarrow> nat \<Rightarrow> char \<Rightarrow> string" where
  "padStart s w c = replicate (w - length s) c @ s"

section \<open>32-bit conversions\<close>

definition toInt32 :: "int option \<Rightarrow> int" where
  "toInt32 x = (case x of None \<Rightarrow> 0 | Some i \<Rightarrow> sint (word_of_int i :: 32 word))"

definition toUint32 :: "int option \<Rightarrow> int" where
  "toUint32 x = (case x of None \<Rightarrow> 0 | Some i \<Rightarrow> uint (word_of_int i :: 32 word))"

definition js_shl :: "int option \<Rightarrow> nat \<Rightarrow> int" where
  "js_shl x k = sint (push_bit k (word_of_int (toInt32 x) :: 32 word))"

definition js_byte :: "int \<Rightarrow> nat \<Rightarrow> nat" where
  \<comment> \<open>\<^verbatim>\<open>(n >>> k) & 255\<close>\<close>
  "js_byte n k = unat (drop_bit k (word_of_int n :: 32 word) AND 255)"

definition js_add :: "int option \<Rightarrow> int option \<Rightarrow> int option" where
  "js_add x y = (case x of None \<Rightarrow> None | Some a \<Rightarrow> map_option (\<lambda>b. a + b) y)"

section \<open>Printing and parsing decimals\<close>

lemma digit_char_digit: "d < 10 \<Longrightarrow> is_digit (digit_char d)"
  by (simp add: is_digit_def digit_char_def)

lemma digit_val_char: "d < 10 \<Longrightarrow> digit_val (digit_char d) = d"
  by (simp add: digit_val_def digit_char_def)

lemma string_of_nat_digits: "\<forall>c \<in> set (string_of_nat n). is_digit c"
proof (induction n rule: string_of_nat.induct)
  case (1 n)
  then show ?case
    by (cases "n < 10") (auto simp: string_of_nat.simps [of n] digit_char_digit)
qed

lemma string_of_nat_nonempty [simp]: "string_of_nat n \<noteq> []"
  by (simp add: string_of_nat.simps [of n])

lemma nat_of_digits_snoc: "nat_of_digits (s @ [c]) = 10 * nat_of_digits s + digit_val c"
  by (simp add: nat_of_digits_def)

lemma nat_of_digits_string_of_nat [simp]: "nat_of_digits (string_of_nat n) = n"
proof (induction n rule: string_of_nat.induct)
  case (1 n)
  show ?case
  proof (cases "n < 10")
    case True
    then show ?thesis
      by (simp add: string_of_nat.simps [of n] nat_of_digits_def digit_val_char)
  next
    case False
    with 1 show ?thesis
      by (simp add: string_of_nat.simps [of n] nat_of_digits_snoc digit_val_char)
  qed
qed

lemma takeWhile_string_of_nat:
  "takeWhile is_digit (string_of_nat n) = string_of_nat n"
  using string_of_nat_digits [of n] by (simp add: takeWhile_eq_all_conv)

lemma parse_digits_string_of_nat [simp]: "parse_digits (string_of_nat n) = Some n"
  by (simp add: parse_digits_def takeWhile_string_of_nat Let_def)

lemma digit_not_space: "is_digit c \<Longrightarrow> \<not> is_space c"
  by (auto simp: is_digit_def is_space_def)

lemma digit_not_sign: "is_digit c \<Longrightarrow> c \<noteq> CHR ''-'' \<and> c \<noteq> CHR ''+'' \<and> c \<noteq> CHR ''.'' \<and> c \<noteq> CHR ''/'' \<and> c \<noteq> CHR '':''"
  by (auto simp: is_digit_def)

lemma parseInt10_string_of_nat [simp]: "parseInt10 (string_of_nat n) = Some (int n)"
proof (cases "string_of_nat n")
  case Nil
  then show ?thesis by simp
next
  case (Cons c cs)
  with string_of_nat_digits [of n] have "is_digit c" by simp
  then have "dropWhile is_space (string_of_nat n) = c # cs"
    using Cons by (simp add: digit_not_space)
  moreover have "parse_digits (c # cs) = Some n"
    using Cons parse_digits_string_of_nat [of n] by simp
  ultimately show ?thesis
    using digit_not_sign [OF \<open>is_digit c\<close>] by (simp add: parseInt10_def)
qed

lemma string_of_nat_inj: "string_of_nat m = string_of_nat n \<longleftrightarrow> m = n"
  by (metis nat_of_digits_string_of_nat)

lemma split_on_free: "c \<notin> set s \<Longrightarrow> split_on c s = [s]"
  by (induction s) auto

lemma split_on_cons: "c \<notin> set p \<Longrightarrow> split_on c (p @ c # s) = p # split_on c s"
  by (induction p) auto

lemma split_on_nonempty [simp]: "split_on c s \<noteq> []"
  by (induction s) (auto split: list.splits)

lemma split_on_join:
  "ps \<noteq> [] \<Longrightarrow> \<forall>p \<in> set ps. c \<notin> set p \<Longrightarrow> split_on c (join [c] ps) = ps"
  by (induction "[c]" ps rule: join.induct) (auto simp: split_on_free split_on_cons)

lemma join_split_on: "join [c] (split_on c s) = s"
proof (induction s)
  case Nil
  then show ?case by simp
next
  case (Cons x s)
  then show ?case
    by (cases "split_on c s"; cases "tl (split_on c s)") (auto split: list.splits)
qed

lemma dot_notin_string_of_nat: "\<not> is_digit c \<Longrightarrow> c \<notin> set (string_of_nat n)"
  using string_of_nat_digits [of n] by auto

lemma toUint32_mod: "toUint32 (Some i) = i mod 2 ^ 32"
  by (simp add: toUint32_def uint_word_of_int)

lemma js_byte_eq: "js_byte n k = nat ((n mod 2 ^ 32) div 2 ^ k mod 256)"
proof -
  have u: "uint (word_of_int n :: 32 word) = n mod 2 ^ 32"
    by (simp add: uint_word_of_int)
  have m: "(255 :: 32 word) = mask 8"
    by (simp add: mask_eq_exp_minus_1)
  have "uint (drop_bit k (word_of_int n :: 32 word) AND 255) = uint (take_bit 8 (drop_bit k (word_of_int n :: 32 word)))"
    unfolding m by (simp add: take_bit_eq_mask)
  also have "\<dots> = (n mod 2 ^ 32) div 2 ^ k mod 256"
    unfolding unsigned_take_bit_eq unsigned_drop_bit_eq u by (simp add: take_bit_eq_mod drop_bit_eq_div min_def)
  finally show ?thesis
    by (simp add: js_byte_def flip: nat_uint_eq)
qed
section \<open>Executable forms of the 32-bit conversions\<close>

lemma toInt32_code [code]:
  "toInt32 x = (case x of None \<Rightarrow> 0 | Some i \<Rightarrow> let m = i mod 4294967296 in if m < 2147483648 then m else m - 4294967296)"
proof (cases x)
  case (Some i)
  define m where "m = i mod 4294967296"
  have "sint (word_of_int i :: 32 word) = (i + 2147483648) mod 4294967296 - 2147483648"
    by (simp add: sint_sbintrunc' signed_take_bit_eq_take_bit_shift take_bit_eq_mod)
  also have "(i + 2147483648) mod 4294967296 = (m + 2147483648) mod 4294967296"
    by (simp add: m_def mod_add_left_eq)
  also have "\<dots> = (if m < 2147483648 then m + 2147483648 else m - 2147483648)"
  proof -
    have m: "0 \<le> m" "m < 4294967296" by (simp_all add: m_def)
    show ?thesis
    proof (cases "m < 2147483648")
      case True
      with m(1) show ?thesis by simp
    next
      case False
      have "(m + 2147483648) mod 4294967296 = (m - 2147483648) mod 4294967296"
        using mod_add_self2 [of "m - 2147483648" 4294967296] by (simp add: add.commute)
      also have "\<dots> = m - 2147483648" using m False by (intro mod_pos_pos_trivial) linarith+
      finally show ?thesis using False by simp
    qed
  qed
  finally show ?thesis by (simp add: Some toInt32_def m_def Let_def)
qed (simp add: toInt32_def)

lemma js_shl_code [code]: "js_shl x k = toInt32 (Some (toInt32 x * 2 ^ k))"
  by (simp add: js_shl_def toInt32_def push_bit_eq_mult)

lemma toUint32_code [code]: "toUint32 x = (case x of None \<Rightarrow> 0 | Some i \<Rightarrow> i mod 4294967296)"
  by (cases x) (simp_all add: toUint32_def uint_word_of_int)

lemma js_byte_code [code]: "js_byte n k = nat (n mod 4294967296 div 2 ^ k mod 256)"
  by (simp add: js_byte_eq)
end
