(* ===== verification/Cidr.thy ===== *)
theory Cidr
  imports JsStd "HOL-Library.Log_Nat"
begin

text \<open>
  \<^verbatim>\<open>src/utils/cidr.ts\<close>: all IP arithmetic of the program. Addresses and CIDRs stay the strings
  the code passes around; the conversions \<^verbatim>\<open>ipToInt\<close> and \<^verbatim>\<open>intToIp\<close> are modelled at 32 bits.
  The npm package \<^verbatim>\<open>netmask\<close> is not part of the repository: it is the parameter \<open>N\<close> of every
  definition that uses it, a constructor that may throw and the method \<^verbatim>\<open>contains\<close>. A prefix length
  is a natural number, at most 32 in every call the services make.
\<close>

section \<open>The netmask library as a parameter\<close>

text \<open>
  An instance of the class \<^verbatim>\<open>Netmask\<close>. Its \<^verbatim>\<open>broadcast\<close> is optional in the library's type
  declarations; \<^term>\<open>None\<close> is JavaScript's \<^verbatim>\<open>undefined\<close>.
\<close>

record netmask =
  nm_base :: string
  nm_bitmask :: nat
  nm_broadcast :: "string option"
  nm_size :: nat

record netmask_lib =
  new_Netmask :: "string \<Rightarrow> netmask result"
  nm_contains :: "netmask \<Rightarrow> string option \<Rightarrow> bool result"

lemma climb_le: "c + 2 ^ n - 1 \<le> e \<Longrightarrow> c \<le> (e :: int)"
proof -
  have "(1 :: int) \<le> 2 ^ n" by simp
  then show "c + 2 ^ n - 1 \<le> e \<Longrightarrow> c \<le> e" by linarith
qed

section \<open>Conversion utilities\<close>

text \<open>\<^verbatim>\<open>ip.split(".").reduce((acc, octet) => (acc << 8) + parseInt(octet, 10), 0) >>> 0\<close>\<close>

definition ipToInt :: "string \<Rightarrow> int" where
  "ipToInt ip =
     toUint32 (foldl (\<lambda>acc octet. js_add (Some (js_shl acc 8)) (parseInt10 octet))
                     (Some 0) (split_on CHR ''.'' ip))"

text \<open>Applied to an optional value: a method call on \<^verbatim>\<open>undefined\<close> is a \<^verbatim>\<open>TypeError\<close>.\<close>

definition ipToInt_opt :: "string option \<Rightarrow> int result" where
  "ipToInt_opt ip = (case ip of None \<Rightarrow> Inl TypeError | Some s \<Rightarrow> Inr (ipToInt s))"

definition intToIp :: "int \<Rightarrow> string" where
  "intToIp n = join ''.'' (map string_of_nat [js_byte n 24, js_byte n 16, js_byte n 8, js_byte n 0])"

text \<open>The template \<^verbatim>\<open>`${ip}/${prefix}`\<close>.\<close>

definition cidr_str :: "string \<Rightarrow> nat \<Rightarrow> string" where
  "cidr_str ip p = ip @ ''/'' @ string_of_nat p"

section \<open>Parsing and normalisation\<close>

definition normalizeCidr :: "netmask_lib \<Rightarrow> string \<Rightarrow> string result" where
  "normalizeCidr N cidr =
     (case new_Netmask N cidr of
        Inl e \<Rightarrow> Inl e
      | Inr block \<Rightarrow> Inr (cidr_str (nm_base block) (nm_bitmask block)))"

datatype ipVersion = V4 | V6

definition detectIpVersion :: "string \<Rightarrow> ipVersion" where
  "detectIpVersion cidr = (if CHR '':'' \<in> set cidr then V6 else V4)"

definition isValidCidr :: "netmask_lib \<Rightarrow> string \<Rightarrow> bool" where
  "isValidCidr N cidr =
     (if CHR ''/'' \<notin> set cidr then False
      else if detectIpVersion cidr = V4 then is_ok (new_Netmask N cidr)
      else (case split_on CHR ''/'' cidr of
              addr # pfx # _ \<Rightarrow>
                (if addr = [] \<or> pfx = [] then False
                 else (case parseInt10 pfx of
                         None \<Rightarrow> False
                       | Some prefixNum \<Rightarrow> \<not> (prefixNum < 0 \<or> prefixNum > 128)))
            | _ \<Rightarrow> False))"

text \<open>
  The two regular expressions, read on the parts between the separators:
  \<^verbatim>\<open>^(\d{1,3}\.){3}\d{1,3}$\<close> and \<^verbatim>\<open>^([0-9a-fA-F]{0,4}:){2,7}[0-9a-fA-F]{0,4}$\<close>.
\<close>

definition ipv4Regex :: "string \<Rightarrow> bool" where
  "ipv4Regex ip =
     (let ps = split_on CHR ''.'' ip
      in length ps = 4 \<and> list_all (\<lambda>p. 1 \<le> length p \<and> length p \<le> 3 \<and> list_all is_digit p) ps)"

definition ipv6Regex :: "string \<Rightarrow> bool" where
  "ipv6Regex ip =
     (let ps = split_on CHR '':'' ip
      in 3 \<le> length ps \<and> length ps \<le> 8 \<and> list_all (\<lambda>p. length p \<le> 4 \<and> list_all is_hex p) ps)"

definition isValidIpAddress :: "string \<Rightarrow> bool" where
  "isValidIpAddress ip =
     (if ipv4Regex ip
      then list_all (\<lambda>octet. case parseInt10 octet of None \<Rightarrow> False | Some v \<Rightarrow> v \<le> 255)
             (split_on CHR ''.'' ip)
      else ipv6Regex ip)"

section \<open>Containment and overlap\<close>

text \<open>\<^verbatim>\<open>try { ... } catch { return false }\<close>: an exception of the library counts as \<^term>\<open>False\<close>.\<close>

definition or_false :: "bool result \<Rightarrow> bool" where
  "or_false r = (case r of Inl _ \<Rightarrow> False | Inr b \<Rightarrow> b)"

definition cidrContains :: "netmask_lib \<Rightarrow> string \<Rightarrow> string \<Rightarrow> bool" where
  "cidrContains N outer inner =
     (case new_Netmask N outer of
        Inl _ \<Rightarrow> False
      | Inr outerBlock \<Rightarrow>
          (case new_Netmask N inner of
             Inl _ \<Rightarrow> False
           | Inr innerBlock \<Rightarrow>
               or_false (nm_contains N outerBlock (Some (nm_base innerBlock))) \<and>
               or_false (nm_contains N outerBlock (nm_broadcast innerBlock))))"

definition cidrOverlaps :: "netmask_lib \<Rightarrow> string \<Rightarrow> string \<Rightarrow> bool" where
  "cidrOverlaps N a b =
     (case new_Netmask N a of
        Inl _ \<Rightarrow> False
      | Inr blockA \<Rightarrow>
          (case new_Netmask N b of
             Inl _ \<Rightarrow> False
           | Inr blockB \<Rightarrow>
               (case nm_contains N blockA (Some (nm_base blockB)) of
                  Inl _ \<Rightarrow> False
                | Inr True \<Rightarrow> True
                | Inr False \<Rightarrow> or_false (nm_contains N blockB (Some (nm_base blockA))))))"

definition ipInCidr :: "netmask_lib \<Rightarrow> string \<Rightarrow> string \<Rightarrow> bool" where
  "ipInCidr N ip cidr =
     (case new_Netmask N cidr of Inl _ \<Rightarrow> False | Inr block \<Rightarrow> or_false (nm_contains N block (Some ip)))"

section \<open>Allocation helpers\<close>

definition usableHostCount :: "netmask_lib \<Rightarrow> string \<Rightarrow> int result" where
  "usableHostCount N cidr =
     (case new_Netmask N cidr of
        Inl e \<Rightarrow> Inl e
      | Inr block \<Rightarrow>
          Inr (if nm_bitmask block = 32 then 1
               else if nm_bitmask block = 31 then 2
               else int (nm_size block) - 2))"

text \<open>
  The \<^verbatim>\<open>while\<close> loop of \<^verbatim>\<open>findNextAvailableSubnet\<close>: \<open>candidate\<close> climbs by the block size until the
  candidate no longer ends inside the parent.
\<close>

function find_next_loop :: "netmask_lib \<Rightarrow> string list \<Rightarrow> nat \<Rightarrow> int \<Rightarrow> int \<Rightarrow> string option result" where
  "find_next_loop N allocatedCidrs requestedPrefix endInt candidate =
     (let blockSize = 2 ^ (32 - requestedPrefix);
          candidateCidr = cidr_str (intToIp candidate) requestedPrefix
      in if candidate + blockSize - 1 \<le> endInt
         then (if list_ex (\<lambda>existing. cidrOverlaps N candidateCidr existing) allocatedCidrs
               then find_next_loop N allocatedCidrs requestedPrefix endInt (candidate + blockSize)
               else (case normalizeCidr N candidateCidr of Inl e \<Rightarrow> Inl e | Inr c \<Rightarrow> Inr (Some c)))
         else Inr None)"
  by pat_completeness auto
termination
  by (relation "measure (\<lambda>(N, al, p, endInt, candidate). nat (endInt + 1 - candidate))") (auto dest: climb_le)

declare find_next_loop.simps [simp del]

definition findNextAvailableSubnet :: "netmask_lib \<Rightarrow> string \<Rightarrow> string list \<Rightarrow> nat \<Rightarrow> string option result" where
  "findNextAvailableSubnet N parentCidr allocatedCidrs requestedPrefix =
     (case new_Netmask N parentCidr of
        Inl e \<Rightarrow> Inl e
      | Inr parent \<Rightarrow>
          (case ipToInt_opt (nm_broadcast parent) of
             Inl e \<Rightarrow> Inl e
           | Inr endInt \<Rightarrow>
               find_next_loop N allocatedCidrs requestedPrefix endInt (ipToInt (nm_base parent))))"

section \<open>Enumeration\<close>

datatype ipType = IpNetwork | IpBroadcast | IpHost

record enumeratedIp =
  address :: string
  ip_type :: ipType

definition enumerated_type :: "nat \<Rightarrow> int \<Rightarrow> int \<Rightarrow> ipType" where
  "enumerated_type bits tot i =
     (if bits \<ge> 31 then IpHost
      else if i = 0 then IpNetwork
      else if i = tot - 1 then IpBroadcast
      else IpHost)"

definition enumerateSubnetIps :: "netmask_lib \<Rightarrow> string \<Rightarrow> int \<Rightarrow> int \<Rightarrow> (enumeratedIp list \<times> int) result" where
  "enumerateSubnetIps N cidr page pageSize =
     (case new_Netmask N cidr of
        Inl e \<Rightarrow> Inl e
      | Inr block \<Rightarrow>
          (case ipToInt_opt (nm_broadcast block) of
             Inl e \<Rightarrow> Inl e
           | Inr broadcastInt \<Rightarrow>
               (let baseInt = ipToInt (nm_base block);
                    tot = broadcastInt - baseInt + 1;
                    startIdx = (page - 1) * pageSize;
                    endIdx = min (startIdx + pageSize) tot
                in Inr (map (\<lambda>i. \<lparr>address = intToIp (baseInt + i),
                                  ip_type = enumerated_type (nm_bitmask block) tot i\<rparr>)
                            [startIdx .. endIdx - 1],
                        tot))))"

section \<open>Template packing and anchor allocation\<close>

text \<open>
  Offsets and sizes are natural numbers; the division \<^verbatim>\<open>Math.ceil(cursor / size)\<close> and the
  logarithm \<^verbatim>\<open>Math.ceil(Math.log2(totalSpan))\<close> are on integers far below \<open>2\<^sup>5\<^sup>3\<close> and divisors that
  are powers of two, where the doubles are exact. The entry type \<^verbatim>\<open>T\<close> is a type variable with
  its selector \<^verbatim>\<open>prefixLength\<close>.
\<close>

definition align_up :: "nat \<Rightarrow> nat \<Rightarrow> nat" where
  "align_up cursor sz =
     (if cursor mod sz \<noteq> 0 then ((cursor + sz - 1) div sz) * sz else cursor)"

record 'e packedEntry =
  pk_entry :: 'e
  pk_offset :: nat
  pk_prefixLength :: nat

fun pack_loop :: "('e \<Rightarrow> nat) \<Rightarrow> nat \<Rightarrow> 'e list \<Rightarrow> 'e packedEntry list \<times> nat" where
  "pack_loop prefixLength cursor [] = ([], cursor)"
| "pack_loop prefixLength cursor (e # es) =
     (let sz = 2 ^ (32 - prefixLength e);
          off = align_up cursor sz;
          (packed, fin) = pack_loop prefixLength (off + sz) es
      in (\<lparr>pk_entry = e, pk_offset = off, pk_prefixLength = prefixLength e\<rparr> # packed, fin))"

record 'e packResult =
  pr_packed :: "'e packedEntry list"
  totalSpan :: nat
  containingPrefix :: int

definition packTemplateEntries :: "('e \<Rightarrow> nat) \<Rightarrow> 'e list \<Rightarrow> 'e packResult" where
  "packTemplateEntries prefixLength entries =
     (if entries = [] then \<lparr>pr_packed = [], totalSpan = 0, containingPrefix = 32\<rparr>
      else (let (packed, cursor) = pack_loop prefixLength 0 entries
            in \<lparr>pr_packed = packed, totalSpan = cursor, containingPrefix = 32 - int (ceillog2 cursor)\<rparr>))"

record 'e anchoredPackResult =
  assignments :: "('e \<times> string) list"
  anchorCidr :: string
  effectiveAnchorPrefix :: nat

function pack_anchor_loop ::
  "netmask_lib \<Rightarrow> string list \<Rightarrow> 'e packedEntry list \<Rightarrow> nat \<Rightarrow> int \<Rightarrow> int \<Rightarrow> 'e anchoredPackResult option" where
  "pack_anchor_loop N allocatedCidrs packed eff endInt candidate =
     (let anchorSize = 2 ^ (32 - eff);
          anchor = cidr_str (intToIp candidate) eff
      in if candidate + anchorSize - 1 \<le> endInt
         then (if list_ex (\<lambda>existing. cidrOverlaps N anchor existing) allocatedCidrs
               then pack_anchor_loop N allocatedCidrs packed eff endInt (candidate + anchorSize)
               else Some \<lparr>assignments =
                            map (\<lambda>p. (pk_entry p, cidr_str (intToIp (candidate + int (pk_offset p))) (pk_prefixLength p))) packed,
                          anchorCidr = anchor, effectiveAnchorPrefix = eff\<rparr>)
         else None)"
  by pat_completeness auto
termination
  by (relation "measure (\<lambda>(N, al, pk, eff, endInt, candidate). nat (endInt + 1 - candidate))") (auto dest: climb_le)

declare pack_anchor_loop.simps [simp del]

definition packIntoAnchor ::
  "netmask_lib \<Rightarrow> ('e \<Rightarrow> nat) \<Rightarrow> string \<Rightarrow> string list \<Rightarrow> 'e list \<Rightarrow> nat \<Rightarrow> 'e anchoredPackResult option result" where
  "packIntoAnchor N prefixLength parentCidr allocatedCidrs entries requestedAnchorPrefix =
     (if entries = []
      then Inr (Some \<lparr>assignments = [], anchorCidr = parentCidr, effectiveAnchorPrefix = requestedAnchorPrefix\<rparr>)
      else
        (case new_Netmask N parentCidr of
           Inl e \<Rightarrow> Inl e
         | Inr parent \<Rightarrow>
             (let packed = packTemplateEntries prefixLength entries;
                  eff0 = min (int requestedAnchorPrefix) (containingPrefix packed);
                  eff = (if eff0 < int (nm_bitmask parent) then nm_bitmask parent else nat eff0)
              in (case ipToInt_opt (nm_broadcast parent) of
                    Inl e \<Rightarrow> Inl e
                  | Inr endInt \<Rightarrow>
                      Inr (pack_anchor_loop N allocatedCidrs (pr_packed packed) eff endInt
                             (ipToInt (nm_base parent)))))))"

end
