(* ===== verification/CidrSpec.thy ===== *)
theory CidrSpec
  imports Cidr
begin

unbundle bit_operations_syntax

text \<open>
  What the address arithmetic of \<^verbatim>\<open>cidr.ts\<close> computes. The abstract view of a CIDR is the set of
  addresses it covers (\<open>cidr_range\<close>); the contract of the \<^verbatim>\<open>netmask\<close> package is the locale
  \<open>netmask_spec\<close>, in which overlap, containment, normalisation, the search for a free block and the
  anchored packing are shown to mean what their names say. The locale is interpreted on a reference
  implementation at the end.
\<close>

section \<open>Addresses\<close>

lemma word_of_int_js_shl: "(word_of_int (js_shl x k) :: 32 word) = push_bit k (word_of_int (toInt32 x))"
  by (simp add: js_shl_def)

lemma word_of_int_toInt32 [simp]: "(word_of_int (toInt32 (Some i)) :: 32 word) = word_of_int i"
  by (simp add: toInt32_def)

lemma reduce_octets:
  "foldl (\<lambda>acc octet. js_add (Some (js_shl acc 8)) (parseInt10 octet)) (Some z)
     (map string_of_nat os) = Some r \<Longrightarrow>
   (word_of_int r :: 32 word) = foldl (\<lambda>w b. push_bit 8 w + word_of_int (int b)) (word_of_int z) os"
  by (induction os arbitrary: z) (auto simp: js_add_def word_of_int_js_shl)

lemma reduce_octets_Some:
  "\<exists>r. foldl (\<lambda>acc octet. js_add (Some (js_shl acc 8)) (parseInt10 octet)) (Some z)
     (map string_of_nat os) = Some r"
  by (induction os arbitrary: z) (auto simp: js_add_def)

lemma split_intToIp:
  "split_on CHR ''.'' (intToIp n) = map string_of_nat [js_byte n 24, js_byte n 16, js_byte n 8, js_byte n 0]"
  unfolding intToIp_def
  by (rule split_on_join) (auto simp: dot_notin_string_of_nat is_digit_def)

lemma bytes_horner:
  fixes m :: int
  assumes "0 \<le> m" "m < 2 ^ 32"
  shows "((m div 2 ^ 24 mod 256 * 256 + m div 2 ^ 16 mod 256) * 256 + m div 2 ^ 8 mod 256) * 256 + m mod 256 = m"
proof -
  define a b c where "a = m div 256" and "b = a div 256" and "c = b div 256"
  have e: "m div 2 ^ 8 = a" "m div 2 ^ 16 = b" "m div 2 ^ 24 = c"
    by (simp_all add: a_def b_def c_def flip: zdiv_zmult2_eq)
  have "0 \<le> c" "c < 256"
    using assms by (simp_all add: a_def b_def c_def flip: zdiv_zmult2_eq)
  then have "c mod 256 = c" by simp
  moreover have "c * 256 + b mod 256 = b" "b * 256 + a mod 256 = a" "a * 256 + m mod 256 = m"
    by (simp_all add: a_def b_def c_def)
  ultimately show ?thesis
    unfolding e by simp
qed

lemma ipToInt_intToIp: "ipToInt (intToIp n) = n mod 2 ^ 32"
proof -
  define os where "os = [js_byte n 24, js_byte n 16, js_byte n 8, js_byte n 0]"
  obtain r where r: "foldl (\<lambda>acc octet. js_add (Some (js_shl acc 8)) (parseInt10 octet)) (Some 0)
     (map string_of_nat os) = Some r"
    using reduce_octets_Some by blast
  let ?m = "n mod 2 ^ 32"
  have "(word_of_int r :: 32 word) = foldl (\<lambda>w b. push_bit 8 w + word_of_int (int b)) 0 os"
    using reduce_octets [OF r] by simp
  also have "\<dots> = word_of_int (((?m div 2 ^ 24 mod 256 * 256 + ?m div 2 ^ 16 mod 256) * 256 + ?m div 2 ^ 8 mod 256) * 256 + ?m mod 256)"
    by (simp add: os_def js_byte_eq push_bit_eq_mult)
  also have "\<dots> = word_of_int ?m"
    by (simp only: bytes_horner pos_mod_sign pos_mod_bound zero_less_power zero_less_numeral)
  finally have "uint (word_of_int r :: 32 word) = ?m"
    by (simp add: uint_word_of_int)
  then show ?thesis
    using r by (simp add: ipToInt_def split_intToIp os_def toUint32_def)
qed

lemma intToIp_inj: "0 \<le> a \<Longrightarrow> a < 2 ^ 32 \<Longrightarrow> 0 \<le> b \<Longrightarrow> b < 2 ^ 32 \<Longrightarrow> intToIp a = intToIp b \<longleftrightarrow> a = b"
  by (metis mod_pos_pos_trivial ipToInt_intToIp)

lemma byte_string_length: "b \<le> 255 \<Longrightarrow> 1 \<le> length (string_of_nat b) \<and> length (string_of_nat b) \<le> 3"
  by (auto simp: string_of_nat.simps [of b] string_of_nat.simps [of "b div 10"] string_of_nat.simps [of "b div 10 div 10"])

lemma js_byte_le: "js_byte n k \<le> 255"
  by (simp add: js_byte_eq nat_le_iff)

lemma intToIp_regex: "ipv4Regex (intToIp n)"
  using byte_string_length js_byte_le string_of_nat_digits
  by (simp add: ipv4Regex_def split_intToIp Let_def list_all_iff)

lemma valid_intToIp: "isValidIpAddress (intToIp n)"
  using js_byte_le by (simp add: isValidIpAddress_def intToIp_regex split_intToIp)

section \<open>Blocks as sets of addresses\<close>

definition is_block :: "int \<Rightarrow> nat \<Rightarrow> netmask \<Rightarrow> bool" where
  "is_block a p nm \<longleftrightarrow>
     p \<le> 32 \<and> 0 \<le> a \<and> a + 2 ^ (32 - p) \<le> 2 ^ 32 \<and> 2 ^ (32 - p) dvd a \<and>
     nm_base nm = intToIp a \<and> nm_bitmask nm = p \<and> nm_size nm = 2 ^ (32 - p) \<and>
     (p \<le> 30 \<longrightarrow> nm_broadcast nm = Some (intToIp (a + 2 ^ (32 - p) - 1)))"

definition block_range :: "int \<Rightarrow> nat \<Rightarrow> int set" where
  "block_range a p = {a ..< a + 2 ^ (32 - p)}"

definition nm_range :: "netmask \<Rightarrow> int set" where
  "nm_range nm = block_range (ipToInt (nm_base nm)) (nm_bitmask nm)"

definition cidr_range :: "netmask_lib \<Rightarrow> string \<Rightarrow> int set" where
  "cidr_range N s = (case new_Netmask N s of Inl _ \<Rightarrow> {} | Inr nm \<Rightarrow> nm_range nm)"

lemma is_blockD:
  assumes "is_block a p nm"
  shows "p \<le> 32" "0 \<le> a" "a + 2 ^ (32 - p) \<le> 2 ^ 32" "2 ^ (32 - p) dvd a" "a < 2 ^ 32"
    "nm_base nm = intToIp a" "nm_bitmask nm = p" "nm_size nm = 2 ^ (32 - p)"
    "p \<le> 30 \<Longrightarrow> nm_broadcast nm = Some (intToIp (a + 2 ^ (32 - p) - 1))"
    "ipToInt (nm_base nm) = a" "nm_range nm = block_range a p"
proof -
  have "(1 :: int) \<le> 2 ^ (32 - p)" by simp
  with assms show lt: "a < 2 ^ 32" unfolding is_block_def by linarith
  from assms show "p \<le> 32" "0 \<le> a" "a + 2 ^ (32 - p) \<le> 2 ^ 32" "2 ^ (32 - p) dvd a"
    "nm_base nm = intToIp a" "nm_bitmask nm = p" "nm_size nm = 2 ^ (32 - p)"
    "p \<le> 30 \<Longrightarrow> nm_broadcast nm = Some (intToIp (a + 2 ^ (32 - p) - 1))"
    unfolding is_block_def by blast+
  with lt show "ipToInt (nm_base nm) = a" "nm_range nm = block_range a p"
    by (simp_all add: ipToInt_intToIp nm_range_def)
qed

text \<open>Two aligned blocks are nested or disjoint.\<close>

lemma aligned_div:
  assumes "0 < (d :: int)" "d dvd a"
  shows "x \<in> {a ..< a + d} \<longleftrightarrow> x div d = a div d"
proof -
  from assms(2) obtain k where k: "a = d * k" by (elim dvdE)
  have "x = d * (x div d) + x mod d" "0 \<le> x mod d" "x mod d < d"
    using assms(1) by simp_all
  moreover have "x div d = k" if "d * k \<le> x" "x < d * k + d"
    by (rule int_div_pos_eq [of _ _ _ "x - d * k"]) (use that in auto)
  ultimately have "x \<in> {a ..< a + d} \<longleftrightarrow> x div d = k"
    unfolding k atLeastLessThan_iff by (metis add_less_cancel_left le_add_same_cancel1)
  then show ?thesis using assms(1) by (simp add: k)
qed

lemma aligned_nested:
  fixes a b :: int
  assumes "2 ^ m dvd a" "2 ^ n dvd b" "m \<le> n" "{a ..< a + 2 ^ m} \<inter> {b ..< b + 2 ^ n} \<noteq> {}"
  shows "{a ..< a + 2 ^ m} \<subseteq> {b ..< b + 2 ^ n}"
proof
  fix y assume "y \<in> {a ..< a + 2 ^ m}"
  then have y: "y div 2 ^ m = a div 2 ^ m" using aligned_div [OF _ assms(1)] by simp
  from assms(4) obtain x where "x \<in> {a ..< a + 2 ^ m}" "x \<in> {b ..< b + 2 ^ n}" by blast
  then have x: "x div 2 ^ m = a div 2 ^ m" "x div 2 ^ n = b div 2 ^ n"
    using aligned_div [OF _ assms(1)] aligned_div [OF _ assms(2)] by simp_all
  have e: "z div 2 ^ n = z div 2 ^ m div 2 ^ (n - m)" for z :: int
  proof -
    have "(2 :: int) ^ n = 2 ^ m * 2 ^ (n - m)" using assms(3) by (simp flip: power_add)
    then show ?thesis by (simp add: zdiv_zmult2_eq)
  qed
  have "y div 2 ^ n = b div 2 ^ n" using x y e by metis
  then show "y \<in> {b ..< b + 2 ^ n}" using aligned_div [OF _ assms(2)] by simp
qed

lemma interval_ends:
  "(1 :: int) \<le> s \<Longrightarrow> (x \<le> y \<and> y < x + t) \<and> x \<le> y + s - 1 \<and> y + s - 1 < x + t \<longleftrightarrow> {y ..< y + s} \<subseteq> {x ..< x + t}"
  by auto

lemma block_range_meet:
  assumes "p \<le> 32" "q \<le> 32" "2 ^ (32 - p) dvd a" "2 ^ (32 - q) dvd b"
  shows "block_range a p \<inter> block_range b q \<noteq> {} \<longleftrightarrow> b \<in> block_range a p \<or> a \<in> block_range b q"
proof
  assume meet: "block_range a p \<inter> block_range b q \<noteq> {}"
  have "a \<in> block_range a p" "b \<in> block_range b q" by (simp_all add: block_range_def)
  moreover consider "32 - p \<le> 32 - q" | "32 - q \<le> 32 - p" by linarith
  then have "block_range a p \<subseteq> block_range b q \<or> block_range b q \<subseteq> block_range a p"
    using aligned_nested [OF assms(3,4)] aligned_nested [OF assms(4,3)] meet
    unfolding block_range_def by cases (auto simp: Int_commute)
  ultimately show "b \<in> block_range a p \<or> a \<in> block_range b q" by blast
next
  have "a \<in> block_range a p" "b \<in> block_range b q" by (simp_all add: block_range_def)
  then show "b \<in> block_range a p \<or> a \<in> block_range b q \<Longrightarrow> block_range a p \<inter> block_range b q \<noteq> {}" by blast
qed

lemma printed_v4 [simp]: "detectIpVersion (cidr_str (intToIp x) p) = V4" "detectIpVersion (intToIp x) = V4"
  by (auto simp: detectIpVersion_def cidr_str_def intToIp_def dot_notin_string_of_nat is_digit_def)

section \<open>The contract of the netmask package\<close>

text \<open>
  Documented behaviour of \<^verbatim>\<open>new Netmask(cidr)\<close> and \<^verbatim>\<open>contains\<close> on IPv4: a printed address with a
  prefix length parses to the aligned block around it; whatever parses without a colon is such a
  block; \<^verbatim>\<open>contains\<close> of a dotted quad is membership. The broadcast address is promised only up to
  \<^verbatim>\<open>/30\<close>.
\<close>

locale netmask_spec =
  fixes N :: netmask_lib
  assumes parse_printed: "0 \<le> x \<Longrightarrow> x < 2 ^ 32 \<Longrightarrow> p \<le> 32 \<Longrightarrow>
      \<exists>nm. new_Netmask N (cidr_str (intToIp x) p) = Inr nm \<and> is_block (x - x mod 2 ^ (32 - p)) p nm"
    and parsed_block: "detectIpVersion s = V4 \<Longrightarrow> new_Netmask N s = Inr nm \<Longrightarrow> \<exists>a p. is_block a p nm"
    and contains_addr: "is_block a p nm \<Longrightarrow> 0 \<le> x \<Longrightarrow> x < 2 ^ 32 \<Longrightarrow>
      nm_contains N nm (Some (intToIp x)) = Inr (x \<in> block_range a p)"
begin

lemma cidr_range_printed:
  assumes "0 \<le> x" "x < 2 ^ 32" "p \<le> 32" "2 ^ (32 - p) dvd x"
  shows "cidr_range N (cidr_str (intToIp x) p) = block_range x p"
proof -
  obtain nm where "new_Netmask N (cidr_str (intToIp x) p) = Inr nm" "is_block (x - x mod 2 ^ (32 - p)) p nm"
    using parse_printed assms by blast
  then show ?thesis
    using assms(4) by (simp add: cidr_range_def is_blockD(11) dvd_imp_mod_0)
qed

lemma overlaps_iff:
  assumes "detectIpVersion a = V4" "detectIpVersion b = V4"
  shows "cidrOverlaps N a b \<longleftrightarrow> cidr_range N a \<inter> cidr_range N b \<noteq> {}"
proof (cases "new_Netmask N a")
  case (Inl e)
  then show ?thesis by (simp add: cidrOverlaps_def cidr_range_def)
next
  case A: (Inr na)
  show ?thesis
  proof (cases "new_Netmask N b")
    case (Inl e)
    with A show ?thesis by (simp add: cidrOverlaps_def cidr_range_def)
  next
    case B: (Inr nb)
    obtain x p where x: "is_block x p na" using parsed_block [OF assms(1) A] by blast
    obtain y q where y: "is_block y q nb" using parsed_block [OF assms(2) B] by blast
    have "cidrOverlaps N a b \<longleftrightarrow> y \<in> block_range x p \<or> x \<in> block_range y q"
      using A B is_blockD [OF x] is_blockD [OF y] contains_addr [OF x] contains_addr [OF y]
      by (simp add: cidrOverlaps_def or_false_def split: bool.splits)
    moreover have "cidr_range N a \<inter> cidr_range N b = block_range x p \<inter> block_range y q"
      using A B is_blockD(11) [OF x] is_blockD(11) [OF y] by (simp add: cidr_range_def)
    ultimately show ?thesis
      using block_range_meet [of p q x y] is_blockD(1,4) [OF x] is_blockD(1,4) [OF y] by simp
  qed
qed

lemma contains_iff:
  assumes "detectIpVersion outer = V4" "detectIpVersion inner = V4"
    and "new_Netmask N inner = Inr ib" "nm_bitmask ib \<le> 30"
  shows "cidrContains N outer inner \<longleftrightarrow> cidr_range N inner \<subseteq> cidr_range N outer"
proof (cases "new_Netmask N outer")
  case (Inl e)
  obtain y q where y: "is_block y q ib" using parsed_block [OF assms(2,3)] by blast
  have "y \<in> cidr_range N inner"
    using assms(3) is_blockD(11) [OF y] by (simp add: cidr_range_def block_range_def)
  with Inl show ?thesis by (auto simp: cidrContains_def cidr_range_def)
next
  case (Inr ob)
  obtain x p where x: "is_block x p ob" using parsed_block [OF assms(1) Inr] by blast
  obtain y q where y: "is_block y q ib" using parsed_block [OF assms(2,3)] by blast
  let ?l = "y + 2 ^ (32 - q) - 1"
  have q: "q \<le> 30" using assms(4) is_blockD(7) [OF y] by simp
  have one: "(1 :: int) \<le> 2 ^ (32 - q)" by simp
  have "cidrContains N outer inner \<longleftrightarrow> y \<in> block_range x p \<and> ?l \<in> block_range x p"
    using Inr assms(3) is_blockD [OF y] q contains_addr [OF x, of y] contains_addr [OF x, of ?l] one
    by (simp add: cidrContains_def or_false_def)
  also have "\<dots> \<longleftrightarrow> block_range y q \<subseteq> block_range x p"
    using interval_ends [OF one, of x y "2 ^ (32 - p)"] by (simp add: block_range_def)
  finally show ?thesis
    using Inr assms(3) is_blockD(11) [OF x] is_blockD(11) [OF y] by (simp add: cidr_range_def)
qed
end

section \<open>Searching for a free block\<close>

definition fits :: "netmask \<Rightarrow> nat \<Rightarrow> int \<Rightarrow> bool" where
  "fits nm p x \<longleftrightarrow> 2 ^ (32 - p) dvd x \<and> block_range x p \<subseteq> nm_range nm"

definition taken :: "netmask_lib \<Rightarrow> string list \<Rightarrow> nat \<Rightarrow> int \<Rightarrow> bool" where
  "taken N allocated p x \<longleftrightarrow> (\<exists>s \<in> set allocated. block_range x p \<inter> cidr_range N s \<noteq> {})"

context netmask_spec
begin

lemma normalize_printed:
  assumes "0 \<le> x" "x < 2 ^ 32" "p \<le> 32" "2 ^ (32 - p) dvd x"
  shows "normalizeCidr N (cidr_str (intToIp x) p) = Inr (cidr_str (intToIp x) p)"
proof -
  obtain nm where nm: "new_Netmask N (cidr_str (intToIp x) p) = Inr nm" "is_block (x - x mod 2 ^ (32 - p)) p nm"
    using parse_printed assms by blast
  then show ?thesis
    using is_blockD(6,7) [OF nm(2)] assms(4) by (simp add: normalizeCidr_def dvd_imp_mod_0)
qed

lemma normalize_ok:
  assumes "detectIpVersion s = V4" "normalizeCidr N s = Inr c"
  shows "cidr_range N c = cidr_range N s" "normalizeCidr N c = Inr c" "detectIpVersion c = V4"
    "isValidCidr N c"
proof -
  obtain nm where nm: "new_Netmask N s = Inr nm" "c = cidr_str (nm_base nm) (nm_bitmask nm)"
    using assms(2) by (auto simp: normalizeCidr_def split: sum.splits)
  obtain a p where b: "is_block a p nm" using parsed_block [OF assms(1) nm(1)] by blast
  note d = is_blockD [OF b]
  have c: "c = cidr_str (intToIp a) p" using nm(2) d(6,7) by simp
  show "cidr_range N c = cidr_range N s"
    unfolding c using cidr_range_printed [OF d(2,5,1,4)] nm(1) d(11) by (simp add: cidr_range_def)
  show "normalizeCidr N c = Inr c" unfolding c by (rule normalize_printed [OF d(2,5,1,4)])
  show v: "detectIpVersion c = V4" unfolding c by simp
  obtain nm' where "new_Netmask N c = Inr nm'"
    using parse_printed [OF d(2,5,1)] unfolding c by blast
  then show "isValidCidr N c"
    using v by (simp add: isValidCidr_def) (simp add: c cidr_str_def)
qed

lemma taken_iff_overlaps:
  assumes "0 \<le> x" "x < 2 ^ 32" "p \<le> 32" "2 ^ (32 - p) dvd x" "\<forall>s \<in> set al. detectIpVersion s = V4"
  shows "list_ex (\<lambda>existing. cidrOverlaps N (cidr_str (intToIp x) p) existing) al \<longleftrightarrow> taken N al p x"
  using assms(5) overlaps_iff [OF printed_v4(1)] cidr_range_printed [OF assms(1-4)]
  by (auto simp: list_ex_iff taken_def)

lemma find_next_loop_spec:
  assumes b: "is_block a P nm" and al: "\<forall>s \<in> set al. detectIpVersion s = V4"
    and p: "p \<le> 32" "2 ^ (32 - p) dvd a" and c: "2 ^ (32 - p) dvd candidate" "a \<le> candidate"
    and before: "\<forall>y. fits nm p y \<and> y < candidate \<longrightarrow> taken N al p y"
  shows "\<exists>r. find_next_loop N al p (a + 2 ^ (32 - P) - 1) candidate = Inr r \<and>
     (case r of None \<Rightarrow> \<forall>y. fits nm p y \<longrightarrow> taken N al p y
      | Some s \<Rightarrow> \<exists>x. fits nm p x \<and> \<not> taken N al p x \<and> s = cidr_str (intToIp x) p \<and>
                    (\<forall>y. fits nm p y \<and> y < x \<longrightarrow> taken N al p y))"
  using c before
proof (induction "nat (a + 2 ^ (32 - P) - candidate)" arbitrary: candidate rule: less_induct)
  case less
  note d = is_blockD [OF b]
  let ?sz = "2 ^ (32 - p) :: int"
  have one: "1 \<le> ?sz" by simp
  have fits_iff: "fits nm p y \<longleftrightarrow> ?sz dvd y \<and> a \<le> y \<and> y + ?sz \<le> a + 2 ^ (32 - P)" for y
    using one d(11) by (auto simp: fits_def block_range_def ivl_subset)
  show ?case
  proof (cases "candidate + ?sz - 1 \<le> a + 2 ^ (32 - P) - 1")
    case inside: True
    have range: "0 \<le> candidate" "candidate < 2 ^ 32" and fit: "fits nm p candidate"
      using inside one d(2,3) less.prems(1,2) unfolding fits_iff by linarith+
    note tk = taken_iff_overlaps [OF range p(1) less.prems(1) al]
    show ?thesis
    proof (cases "taken N al p candidate")
      case True
      have *: "\<forall>y. fits nm p y \<and> y < candidate + ?sz \<longrightarrow> taken N al p y"
      proof (intro allI impI, elim conjE)
        fix y assume y: "fits nm p y" "y < candidate + ?sz"
        show "taken N al p y"
        proof (cases "y < candidate")
          case True with y less.prems(3) show ?thesis by blast
        next
          case False
          have "y div ?sz = candidate div ?sz"
            using aligned_div [OF _ less.prems(1), of y] False y(2) by simp
          moreover have "?sz dvd y" using y(1) by (simp add: fits_iff)
          ultimately have "y = candidate" using less.prems(1) by (metis dvd_mult_div_cancel)
          with \<open>taken N al p candidate\<close> show ?thesis by simp
        qed
      qed
      have "nat (a + 2 ^ (32 - P) - (candidate + ?sz)) < nat (a + 2 ^ (32 - P) - candidate)"
        using inside one by linarith
      from less.hyps [OF this _ _ *] less.prems(1,2) one True inside show ?thesis
        by (subst find_next_loop.simps) (simp add: tk Let_def)
    next
      case False
      with inside fit less.prems(3) show ?thesis
        by (subst find_next_loop.simps)
           (auto simp: tk Let_def normalize_printed [OF range p(1) less.prems(1)] intro!: exI [of _ candidate])
    qed
  next
    case False
    have "taken N al p y" if "fits nm p y" for y
      using that less.prems(3) False unfolding fits_iff by (meson linorder_not_less order_less_le_trans add_le_cancel_right diff_right_mono order_trans)
    then show ?thesis
      using False by (subst find_next_loop.simps) (simp add: Let_def)
  qed
qed

lemma find_next_spec:
  assumes "detectIpVersion parent = V4" "new_Netmask N parent = Inr nm" "nm_bitmask nm \<le> 30"
    and al: "\<forall>s \<in> set al. detectIpVersion s = V4" and p: "p \<le> 32"
  shows "\<exists>r. findNextAvailableSubnet N parent al p = Inr r \<and>
     (case r of None \<Rightarrow> \<forall>y. fits nm p y \<longrightarrow> taken N al p y
      | Some s \<Rightarrow> \<exists>x. fits nm p x \<and> \<not> taken N al p x \<and> s = cidr_str (intToIp x) p \<and>
                    (\<forall>y. fits nm p y \<and> y < x \<longrightarrow> taken N al p y))"
proof -
  obtain a P where b: "is_block a P nm" using parsed_block assms(1,2) by blast
  note d = is_blockD [OF b]
  have one: "(1 :: int) \<le> 2 ^ (32 - P)" by simp
  have bc: "nm_broadcast nm = Some (intToIp (a + 2 ^ (32 - P) - 1))" using d(7,9) assms(3) by simp
  have e: "ipToInt (intToIp (a + 2 ^ (32 - P) - 1)) = a + 2 ^ (32 - P) - 1"
    using one d(2,3) unfolding ipToInt_intToIp by (intro mod_pos_pos_trivial) linarith+
  have run: "findNextAvailableSubnet N parent al p = find_next_loop N al p (a + 2 ^ (32 - P) - 1) a"
    using assms(2) bc d(10) by (simp add: findNextAvailableSubnet_def ipToInt_opt_def e)
  show ?thesis
  proof (cases "P \<le> p")
    case True
    then have "(2 :: int) ^ (32 - p) dvd 2 ^ (32 - P)" by (intro le_imp_power_dvd) simp
    then have "2 ^ (32 - p) dvd a" using d(4) by (rule dvd_trans)
    moreover have "\<forall>y. fits nm p y \<and> y < a \<longrightarrow> taken N al p y"
      using d(11) by (auto simp: fits_def block_range_def ivl_subset)
    ultimately show ?thesis
      unfolding run by (intro find_next_loop_spec [OF b al p]) auto
  next
    case False
    then have lt: "(2 :: int) ^ (32 - P) < 2 ^ (32 - p)"
      using p d(1) by (intro power_strict_increasing) auto
    then have "\<not> a + 2 ^ (32 - p) - 1 \<le> a + 2 ^ (32 - P) - 1" by linarith
    then have "find_next_loop N al p (a + 2 ^ (32 - P) - 1) a = Inr None"
      by (subst find_next_loop.simps) (simp only: Let_def if_False)
    moreover have "\<not> fits nm p y" for y
    proof
      assume "fits nm p y"
      then have "a \<le> y \<and> y + 2 ^ (32 - p) \<le> a + 2 ^ (32 - P)"
        using d(11) by (simp add: fits_def block_range_def ivl_subset)
      with lt show False by linarith
    qed
    ultimately show ?thesis unfolding run by simp
  qed
qed
end

section \<open>Packing a template\<close>

abbreviation pk_size :: "'e packedEntry \<Rightarrow> nat" where
  "pk_size p \<equiv> 2 ^ (32 - pk_prefixLength p)"

lemma align_up_spec:
  assumes "0 < sz"
  shows "cursor \<le> align_up cursor sz" "sz dvd align_up cursor sz" "align_up cursor sz < cursor + sz"
proof -
  show "sz dvd align_up cursor sz" by (auto simp: align_up_def dvd_eq_mod_eq_0)
  define q where "q = (cursor + sz - 1) div sz"
  have "cursor + sz - 1 = sz * q + (cursor + sz - 1) mod sz" by (simp add: q_def)
  moreover have "(cursor + sz - 1) mod sz < sz" using assms by simp
  ultimately have "cursor \<le> sz * q \<and> sz * q < cursor + sz" using assms by linarith
  moreover have "align_up cursor sz = (if cursor mod sz \<noteq> 0 then sz * q else cursor)"
    by (simp add: align_up_def q_def mult.commute)
  ultimately show "cursor \<le> align_up cursor sz" "align_up cursor sz < cursor + sz"
    using assms by auto
qed

lemma pack_loop_spec:
  assumes "pack_loop pl c es = (ps, fin)"
  shows "map pk_entry ps = es" "\<forall>p \<in> set ps. pk_prefixLength p = pl (pk_entry p)"
    "c \<le> fin" "\<forall>p \<in> set ps. c \<le> pk_offset p \<and> pk_offset p + pk_size p \<le> fin \<and> pk_size p dvd pk_offset p"
    "sorted_wrt (\<lambda>p q. pk_offset p + pk_size p \<le> pk_offset q) ps"
  using assms
proof (atomize (full), induction es arbitrary: c ps fin)
  case Nil
  then show ?case by simp
next
  case (Cons e es)
  let ?sz = "2 ^ (32 - pl e) :: nat"
  let ?o = "align_up c ?sz"
  obtain qs where qs: "pack_loop pl (?o + ?sz) es = (qs, fin)"
    and ps: "ps = \<lparr>pk_entry = e, pk_offset = ?o, pk_prefixLength = pl e\<rparr> # qs"
    using Cons.prems by (auto simp: Let_def split: prod.splits)
  have "c \<le> ?o" "?sz dvd ?o" using align_up_spec [of ?sz c] by simp_all
  with Cons.IH qs show ?case
    by (fastforce simp: ps)
qed

lemma pack_loop_last:
  "es \<noteq> [] \<Longrightarrow> pack_loop pl c es = (ps, fin) \<Longrightarrow> ps \<noteq> [] \<and> fin = pk_offset (last ps) + pk_size (last ps)"
proof (induction es arbitrary: c ps)
  case Nil
  then show ?case by simp
next
  case (Cons e es)
  then show ?case
    by (cases "es = []") (fastforce simp: Let_def split: prod.splits)+
qed

lemma packTemplate_spec:
  assumes "es \<noteq> []"
  obtains ps where "pack_loop pl 0 es = (ps, totalSpan (packTemplateEntries pl es))"
    "pr_packed (packTemplateEntries pl es) = ps"
    "containingPrefix (packTemplateEntries pl es) = 32 - int (ceillog2 (totalSpan (packTemplateEntries pl es)))"
  using assms by (cases "pack_loop pl 0 es") (auto simp: packTemplateEntries_def)

definition anchor_prefix :: "netmask \<Rightarrow> nat \<Rightarrow> int \<Rightarrow> nat" where
  "anchor_prefix parent requested containing =
     (let eff0 = min (int requested) containing
      in if eff0 < int (nm_bitmask parent) then nm_bitmask parent else nat eff0)"

lemma anchor_prefix_le: "nm_bitmask nm \<le> 32 \<Longrightarrow> r \<le> 32 \<Longrightarrow> nm_bitmask nm \<le> anchor_prefix nm r c \<and> anchor_prefix nm r c \<le> 32"
  by (auto simp: anchor_prefix_def Let_def min_def nat_le_iff)

lemma anchor_holds_span:
  assumes "0 < n" "n \<le> 2 ^ (32 - nm_bitmask nm)" 
  shows "n \<le> 2 ^ (32 - anchor_prefix nm r (32 - int (ceillog2 n)))"
proof (cases "min (int r) (32 - int (ceillog2 n)) < int (nm_bitmask nm)")
  case True
  then show ?thesis using assms by (simp add: anchor_prefix_def Let_def)
next
  case False
  then have "ceillog2 n \<le> 32 - anchor_prefix nm r (32 - int (ceillog2 n))"
    by (auto simp: anchor_prefix_def Let_def min_def nat_le_iff split: if_splits)
  with assms(1) show ?thesis by (simp add: ceillog2_le_iff)
qed

context netmask_spec
begin

lemma anchor_loop_spec:
  assumes b: "is_block a P nm" and al: "\<forall>s \<in> set al. detectIpVersion s = V4"
    and e: "P \<le> eff" "eff \<le> 32" and c: "2 ^ (32 - eff) dvd candidate" "a \<le> candidate"
    and r: "pack_anchor_loop N al ps eff (a + 2 ^ (32 - P) - 1) candidate = Some r"
  shows "\<exists>x. fits nm eff x \<and> \<not> taken N al eff x \<and> anchorCidr r = cidr_str (intToIp x) eff \<and>
     effectiveAnchorPrefix r = eff \<and>
     assignments r = map (\<lambda>p. (pk_entry p, cidr_str (intToIp (x + int (pk_offset p))) (pk_prefixLength p))) ps"
  using c r
proof (induction "nat (a + 2 ^ (32 - P) - candidate)" arbitrary: candidate rule: less_induct)
  case less
  note d = is_blockD [OF b]
  let ?sz = "2 ^ (32 - eff) :: int"
  have one: "1 \<le> ?sz" by simp
  show ?case
  proof (cases "candidate + ?sz - 1 \<le> a + 2 ^ (32 - P) - 1")
    case inside: True
    have range: "0 \<le> candidate" "candidate < 2 ^ 32"
      using inside one d(2,3) less.prems(2) by linarith+
    have fit: "fits nm eff candidate"
      using inside less.prems(1,2) d(11) by (simp add: fits_def block_range_def ivl_subset)
    note tk = taken_iff_overlaps [OF range e(2) less.prems(1) al]
    show ?thesis
    proof (cases "taken N al eff candidate")
      case True
      then have "pack_anchor_loop N al ps eff (a + 2 ^ (32 - P) - 1) (candidate + ?sz) = Some r"
        using less.prems(3) inside by (subst (asm) pack_anchor_loop.simps) (simp add: tk Let_def)
      moreover have "nat (a + 2 ^ (32 - P) - (candidate + ?sz)) < nat (a + 2 ^ (32 - P) - candidate)"
        using inside one by linarith
      moreover have "?sz dvd candidate + ?sz" "a \<le> candidate + ?sz"
        using less.prems(1,2) one by (simp, linarith)
      ultimately show ?thesis using less.hyps by blast
    next
      case False
      with less.prems(3) inside fit show ?thesis
        by (subst (asm) pack_anchor_loop.simps) (auto simp: tk Let_def intro!: exI [of _ candidate])
    qed
  next
    case False
    with less.prems(3) show ?thesis
      by (subst (asm) pack_anchor_loop.simps) (simp add: Let_def)
  qed
qed

lemma packIntoAnchor_run:
  assumes "detectIpVersion parent = V4" "new_Netmask N parent = Inr nm" "nm_bitmask nm \<le> 30" "es \<noteq> []"
    and "is_block a P nm"
  shows "packIntoAnchor N pl parent al es req = Inr (pack_anchor_loop N al (pr_packed (packTemplateEntries pl es))
     (anchor_prefix nm req (containingPrefix (packTemplateEntries pl es))) (a + 2 ^ (32 - P) - 1) a)"
proof -
  note d = is_blockD [OF assms(5)]
  have one: "(1 :: int) \<le> 2 ^ (32 - P)" by simp
  have bc: "nm_broadcast nm = Some (intToIp (a + 2 ^ (32 - P) - 1))" using d(7,9) assms(3) by simp
  have e: "ipToInt (intToIp (a + 2 ^ (32 - P) - 1)) = a + 2 ^ (32 - P) - 1"
    using one d(2,3) unfolding ipToInt_intToIp by (intro mod_pos_pos_trivial) linarith+
  show ?thesis
    using assms(2,4) bc d(10) e by (simp add: packIntoAnchor_def Let_def ipToInt_opt_def anchor_prefix_def)
qed
end

text \<open>
  A template laid out in the region \<open>R\<close>: every entry, in caller order, on a block of its own prefix
  length inside \<open>R\<close>, and no two blocks meet.
\<close>

definition laid_out :: "netmask_lib \<Rightarrow> ('e \<Rightarrow> nat) \<Rightarrow> 'e list \<Rightarrow> int set \<Rightarrow> ('e \<times> string) list \<Rightarrow> bool" where
  "laid_out N pl es R asg \<longleftrightarrow>
     map fst asg = es \<and>
     (\<forall>(e, c) \<in> set asg. \<exists>x. 0 \<le> x \<and> x < 2 ^ 32 \<and> 2 ^ (32 - pl e) dvd x \<and>
        c = cidr_str (intToIp x) (pl e) \<and> cidr_range N c = block_range x (pl e) \<and> cidr_range N c \<subseteq> R) \<and>
     sorted_wrt (\<lambda>s t. cidr_range N (snd s) \<inter> cidr_range N (snd t) = {}) asg"

lemma entry_in_anchor:
  fixes x :: int
  assumes x: "2 ^ (32 - eff) dvd x" "0 \<le> x" "x + 2 ^ (32 - eff) \<le> 2 ^ 32"
    and off: "2 ^ (32 - k) dvd off" "off + 2 ^ (32 - k) \<le> n" and n: "n \<le> (2 :: nat) ^ (32 - eff)"
  shows "0 \<le> x + int off" "x + int off < 2 ^ 32" "2 ^ (32 - k) dvd x + int off"
    "block_range (x + int off) k \<subseteq> block_range x eff"
proof -
  have n': "int n \<le> 2 ^ (32 - eff)" using n by (metis of_nat_le_iff of_nat_numeral of_nat_power)
  have o1: "int off + 2 ^ (32 - k) \<le> int n" using off(2) by (metis of_nat_add of_nat_le_iff of_nat_numeral of_nat_power)
  have o2: "2 ^ (32 - k) dvd int off" using off(1) by (metis of_nat_dvd_iff of_nat_numeral of_nat_power)
  have "32 - k \<le> 32 - eff"
  proof (rule ccontr)
    assume "\<not> 32 - k \<le> 32 - eff"
    then have "(2 :: int) ^ (32 - eff) < 2 ^ (32 - k)" by (intro power_strict_increasing) auto
    with o1 n' show False by linarith
  qed
  then have "(2 :: int) ^ (32 - k) dvd 2 ^ (32 - eff)" by (intro le_imp_power_dvd)
  then show "2 ^ (32 - k) dvd x + int off" using x(1) o2 by (meson dvd_add dvd_trans)
  have "(1 :: int) \<le> 2 ^ (32 - k)" by simp
  then show "0 \<le> x + int off" "x + int off < 2 ^ 32" using x n' o1 by linarith+
  show "block_range (x + int off) k \<subseteq> block_range x eff"
    using o1 n' unfolding block_range_def ivl_subset by linarith
qed

lemma block_range_after: "y + 2 ^ (32 - k) \<le> z \<Longrightarrow> block_range y k \<inter> block_range z m = {}"
  by (auto simp: block_range_def)

context netmask_spec
begin

lemma assignments_laid_out:
  assumes pk: "pack_loop pl 0 es = (ps, n)" and es: "\<forall>e \<in> set es. pl e \<le> 32" and n: "n \<le> 2 ^ (32 - eff)"
    and x: "2 ^ (32 - eff) dvd x" "0 \<le> x" "x + 2 ^ (32 - eff) \<le> 2 ^ 32"
  shows "laid_out N pl es (block_range x eff)
     (map (\<lambda>p. (pk_entry p, cidr_str (intToIp (x + int (pk_offset p))) (pk_prefixLength p))) ps)"
proof -
  note sp = pack_loop_spec [OF pk]
  have entry: "0 \<le> x + int (pk_offset p) \<and> x + int (pk_offset p) < 2 ^ 32 \<and>
      2 ^ (32 - pk_prefixLength p) dvd x + int (pk_offset p) \<and>
      cidr_range N (cidr_str (intToIp (x + int (pk_offset p))) (pk_prefixLength p)) =
        block_range (x + int (pk_offset p)) (pk_prefixLength p) \<and>
      block_range (x + int (pk_offset p)) (pk_prefixLength p) \<subseteq> block_range x eff"
    if p: "p \<in> set ps" for p
  proof -
    have "pk_entry p \<in> set es" using p sp(1) by force
    then have k: "pk_prefixLength p \<le> 32" using es sp(2) p by auto
    note e = entry_in_anchor [OF x _ _ n, of "pk_prefixLength p" "pk_offset p"]
    show ?thesis using e sp(4) p cidr_range_printed [OF _ _ k] by simp
  qed
  have "sorted_wrt (\<lambda>p q. cidr_range N (cidr_str (intToIp (x + int (pk_offset p))) (pk_prefixLength p)) \<inter>
      cidr_range N (cidr_str (intToIp (x + int (pk_offset q))) (pk_prefixLength q)) = {}) ps"
  proof (rule sorted_wrt_mono_rel [OF _ sp(5)])
    fix p q assume pq: "p \<in> set ps" "q \<in> set ps" "pk_offset p + pk_size p \<le> pk_offset q"
    have "int (pk_offset p) + 2 ^ (32 - pk_prefixLength p) \<le> int (pk_offset q)"
      using pq(3) by (metis of_nat_add of_nat_le_iff of_nat_numeral of_nat_power)
    then show "cidr_range N (cidr_str (intToIp (x + int (pk_offset p))) (pk_prefixLength p)) \<inter>
      cidr_range N (cidr_str (intToIp (x + int (pk_offset q))) (pk_prefixLength q)) = {}"
      using entry [OF pq(1)] entry [OF pq(2)] by (simp add: block_range_after)
  qed
  then show ?thesis
    using sp(1,2) entry by (fastforce simp: laid_out_def sorted_wrt_map comp_def)
qed

lemma packIntoAnchor_sound:
  assumes v: "detectIpVersion parent = V4" "new_Netmask N parent = Inr nm" "nm_bitmask nm \<le> 30"
    and es: "es \<noteq> []" "\<forall>e \<in> set es. pl e \<le> 32" and req: "req \<le> 32"
    and al: "\<forall>s \<in> set al. detectIpVersion s = V4"
    and span: "totalSpan (packTemplateEntries pl es) \<le> 2 ^ (32 - nm_bitmask nm)"
    and r: "packIntoAnchor N pl parent al es req = Inr (Some res)"
  shows "laid_out N pl es (cidr_range N (anchorCidr res)) (assignments res) \<and>
    cidr_range N (anchorCidr res) \<subseteq> cidr_range N parent \<and>
    (\<forall>s \<in> set al. cidr_range N (anchorCidr res) \<inter> cidr_range N s = {})"
proof -
  obtain a P where b: "is_block a P nm" using parsed_block v by blast
  note d = is_blockD [OF b]
  define n where "n = totalSpan (packTemplateEntries pl es)"
  define eff where "eff = anchor_prefix nm req (32 - int (ceillog2 n))"
  obtain ps where ps: "pack_loop pl 0 es = (ps, n)" "pr_packed (packTemplateEntries pl es) = ps"
      "containingPrefix (packTemplateEntries pl es) = 32 - int (ceillog2 n)"
    using packTemplate_spec [OF es(1)] unfolding n_def by blast
  have eff: "P \<le> eff" "eff \<le> 32" using anchor_prefix_le [of nm req] d(1,7) req by (simp_all add: eff_def)
  have "0 < n" using pack_loop_last [OF es(1) ps(1)] by simp
  then have n_le: "n \<le> 2 ^ (32 - eff)" using anchor_holds_span span by (simp add: eff_def n_def)
  have "(2 :: int) ^ (32 - eff) dvd 2 ^ (32 - P)" using eff(1) by (intro le_imp_power_dvd) simp
  then have dv: "2 ^ (32 - eff) dvd a" using d(4) by (rule dvd_trans)
  have "pack_anchor_loop N al ps eff (a + 2 ^ (32 - P) - 1) a = Some res"
    using r packIntoAnchor_run [OF v es(1) b, of pl al req] ps(2,3) by (simp add: eff_def)
  then obtain x where x: "fits nm eff x" "\<not> taken N al eff x" "anchorCidr res = cidr_str (intToIp x) eff"
      "assignments res = map (\<lambda>p. (pk_entry p, cidr_str (intToIp (x + int (pk_offset p))) (pk_prefixLength p))) ps"
    using anchor_loop_spec [OF b al eff dv order_refl] by blast
  have xr: "2 ^ (32 - eff) dvd x" "a \<le> x" "x + 2 ^ (32 - eff) \<le> a + 2 ^ (32 - P)"
    using x(1) d(11) by (auto simp: fits_def block_range_def ivl_subset)
  have one: "(1 :: int) \<le> 2 ^ (32 - eff)" by simp
  have x_in: "0 \<le> x" "x < 2 ^ 32" "x + 2 ^ (32 - eff) \<le> 2 ^ 32" using xr d(2,3) one by linarith+
  have "cidr_range N (anchorCidr res) = block_range x eff"
    unfolding x(3) by (rule cidr_range_printed [OF x_in(1,2) eff(2) xr(1)])
  then show ?thesis
    using assignments_laid_out [OF ps(1) es(2) n_le xr(1) x_in(1,3)] x v(2)
    by (auto simp: fits_def cidr_range_def taken_def)
qed

lemma overflow_anchor:
  assumes v: "detectIpVersion parent = V4" "new_Netmask N parent = Inr nm" "nm_bitmask nm \<le> 30"
    and b: "is_block a P nm" and es: "es \<noteq> []"
    and al: "\<forall>s \<in> set al. detectIpVersion s = V4 \<and> cidr_range N s \<inter> cidr_range N parent = {}"
    and span: "2 ^ (32 - nm_bitmask nm) < totalSpan (packTemplateEntries pl es)"
  shows "packIntoAnchor N pl parent al es req = Inr (Some
    \<lparr>assignments = map (\<lambda>p. (pk_entry p, cidr_str (intToIp (a + int (pk_offset p))) (pk_prefixLength p)))
        (pr_packed (packTemplateEntries pl es)),
     anchorCidr = cidr_str (intToIp a) P, effectiveAnchorPrefix = P\<rparr>)"
proof -
  note d = is_blockD [OF b]
  define n where "n = totalSpan (packTemplateEntries pl es)"
  have ps: "containingPrefix (packTemplateEntries pl es) = 32 - int (ceillog2 n)"
    using packTemplate_spec [OF es] unfolding n_def by metis
  have "0 < n" using span unfolding n_def by linarith
  then have "32 - nm_bitmask nm < ceillog2 n"
    using span ceillog2_le_iff [of n "32 - nm_bitmask nm"] unfolding n_def by linarith
  then have eff: "anchor_prefix nm req (containingPrefix (packTemplateEntries pl es)) = P"
    using ps d(1,7) by (auto simp: anchor_prefix_def Let_def min_def)
  have "\<not> taken N al P a"
    using al d(11) v(2) by (auto simp: taken_def cidr_range_def)
  then have "\<not> list_ex (\<lambda>existing. cidrOverlaps N (cidr_str (intToIp a) P) existing) al"
    using taken_iff_overlaps [OF d(2,5,1,4)] al by blast
  then show ?thesis
    unfolding packIntoAnchor_run [OF v es b] eff
    by (subst pack_anchor_loop.simps) (simp add: Let_def)
qed

lemma printed_range_escapes:
  assumes x: "0 \<le> x" "x < 2 ^ 32" and k: "k \<le> 32" and a: "2 ^ (32 - P) dvd a" "2 ^ (32 - k) dvd x - a"
    and out: "a + 2 ^ (32 - P) < x + 2 ^ (32 - k)"
  shows "\<not> cidr_range N (cidr_str (intToIp x) k) \<subseteq> block_range a P"
proof -
  let ?y = "x - x mod 2 ^ (32 - k)"
  obtain nm where "new_Netmask N (cidr_str (intToIp x) k) = Inr nm" and b: "is_block ?y k nm"
    using parse_printed [OF x k] by blast
  then have r: "cidr_range N (cidr_str (intToIp x) k) = block_range ?y k"
    using is_blockD(11) [OF b] by (simp add: cidr_range_def)
  have one: "(1 :: int) \<le> 2 ^ (32 - k)" by simp
  show ?thesis
  proof
    assume "cidr_range N (cidr_str (intToIp x) k) \<subseteq> block_range a P"
    then have sub: "a \<le> ?y" "?y + 2 ^ (32 - k) \<le> a + 2 ^ (32 - P)"
      unfolding r block_range_def ivl_subset using one by linarith+
    then have "(2 :: int) ^ (32 - k) \<le> 2 ^ (32 - P)" by linarith
    then have "(2 :: int) ^ (32 - k) dvd 2 ^ (32 - P)"
      by (metis le_imp_power_dvd one_less_numeral_iff power_increasing_iff semiring_norm(76))
    then have "2 ^ (32 - k) dvd x" using a by (metis diff_add_cancel dvd_add dvd_trans)
    then have "?y = x" by (simp add: dvd_imp_mod_0)
    with sub out show False by linarith
  qed
qed

lemma packIntoAnchor_overflow:
  assumes v: "detectIpVersion parent = V4" "new_Netmask N parent = Inr nm" "nm_bitmask nm \<le> 30"
    and es: "es \<noteq> []" "\<forall>e \<in> set es. pl e \<le> 32"
    and al: "\<forall>s \<in> set al. detectIpVersion s = V4 \<and> cidr_range N s \<inter> cidr_range N parent = {}"
    and span: "2 ^ (32 - nm_bitmask nm) < totalSpan (packTemplateEntries pl es)"
    and room: "ipToInt (nm_base nm) + int (totalSpan (packTemplateEntries pl es)) \<le> 2 ^ 32"
  shows "\<exists>res. packIntoAnchor N pl parent al es req = Inr (Some res) \<and>
     (\<exists>(e, c) \<in> set (assignments res). \<not> cidr_range N c \<subseteq> cidr_range N parent)"
proof -
  obtain a P where b: "is_block a P nm" using parsed_block v by blast
  note d = is_blockD [OF b]
  define n where "n = totalSpan (packTemplateEntries pl es)"
  obtain ps where ps: "pack_loop pl 0 es = (ps, n)" "pr_packed (packTemplateEntries pl es) = ps"
    using packTemplate_spec [OF es(1)] unfolding n_def by blast
  let ?l = "last ps" and ?k = "32 - pk_prefixLength (last ps)"
  have l: "ps \<noteq> []" "n = pk_offset ?l + 2 ^ ?k" using pack_loop_last [OF es(1) ps(1)] by auto
  then have mem: "?l \<in> set ps" by simp
  note sp = pack_loop_spec [OF ps(1)]
  have k: "pk_prefixLength ?l \<le> 32" using sp(1,2) mem es(2) by force
  have ni: "int n = int (pk_offset ?l) + 2 ^ ?k" using l(2) by simp
  have out: "a + 2 ^ (32 - P) < a + int (pk_offset ?l) + 2 ^ ?k"
    using span d(7) ni unfolding n_def [symmetric] by (metis add.assoc add_strict_left_mono of_nat_less_iff of_nat_numeral of_nat_power)
  have one: "(1 :: int) \<le> 2 ^ ?k" by simp
  have bnd: "0 \<le> a + int (pk_offset ?l)" "a + int (pk_offset ?l) < 2 ^ 32"
    using room d(2,10) ni one unfolding n_def [symmetric] by linarith+
  have dv: "2 ^ ?k dvd a + int (pk_offset ?l) - a"
    using sp(4) mem by (metis add_diff_cancel_left' of_nat_dvd_iff of_nat_numeral of_nat_power)
  have "\<not> cidr_range N (cidr_str (intToIp (a + int (pk_offset ?l))) (pk_prefixLength ?l)) \<subseteq> cidr_range N parent"
    using printed_range_escapes [OF bnd k d(4) dv out] d(11) v(2) by (simp add: cidr_range_def)
  then show ?thesis
    using overflow_anchor [OF v b es(1) al span, of req] ps(2) mem by fastforce
qed

end

section \<open>Enumeration and counting\<close>

context netmask_spec
begin

lemma enumerate_v4:
  assumes "detectIpVersion cidr = V4" "new_Netmask N cidr = Inr nm" "nm_bitmask nm \<le> 30" "is_block a P nm"
  shows "enumerateSubnetIps N cidr page pageSize =
     Inr (map (\<lambda>i. \<lparr>address = intToIp (a + i), ip_type = enumerated_type P (2 ^ (32 - P)) i\<rparr>)
            [(page - 1) * pageSize .. min ((page - 1) * pageSize + pageSize) (2 ^ (32 - P)) - 1], 2 ^ (32 - P))"
proof -
  note d = is_blockD [OF assms(4)]
  have one: "(1 :: int) \<le> 2 ^ (32 - P)" by simp
  have bc: "nm_broadcast nm = Some (intToIp (a + 2 ^ (32 - P) - 1))" using d(7,9) assms(3) by simp
  have e: "ipToInt (intToIp (a + 2 ^ (32 - P) - 1)) = a + 2 ^ (32 - P) - 1"
    using one d(2,3) unfolding ipToInt_intToIp by (intro mod_pos_pos_trivial) linarith+
  show ?thesis
    using assms(2) bc d(7,10) e by (simp add: enumerateSubnetIps_def ipToInt_opt_def Let_def)
qed

lemma usable_hosts_v4:
  assumes "detectIpVersion cidr = V4" "new_Netmask N cidr = Inr nm"
  shows "usableHostCount N cidr = Inr (if nm_bitmask nm = 32 then 1 else if nm_bitmask nm = 31 then 2 else int (card (cidr_range N cidr)) - 2)"
proof -
  obtain a P where "is_block a P nm" using parsed_block assms by blast
  from is_blockD [OF this] show ?thesis
    using assms(2) by (simp add: usableHostCount_def cidr_range_def block_range_def)
qed

lemma ipInCidr_iff:
  assumes "detectIpVersion cidr = V4" "0 \<le> x" "x < 2 ^ 32"
  shows "ipInCidr N (intToIp x) cidr \<longleftrightarrow> x \<in> cidr_range N cidr"
proof (cases "new_Netmask N cidr")
  case (Inl e)
  then show ?thesis by (simp add: ipInCidr_def cidr_range_def)
next
  case (Inr nm)
  obtain a P where b: "is_block a P nm" using parsed_block assms(1) Inr by blast
  show ?thesis
    using Inr contains_addr [OF b assms(2,3)] is_blockD(11) [OF b] by (simp add: ipInCidr_def or_false_def cidr_range_def)
qed

end

section \<open>Pages of an enumeration\<close>

definition page_addresses :: "netmask_lib \<Rightarrow> string \<Rightarrow> int \<Rightarrow> int \<Rightarrow> string list" where
  "page_addresses N cidr pageSize page =
     (case enumerateSubnetIps N cidr page pageSize of Inl _ \<Rightarrow> [] | Inr (ips, _) \<Rightarrow> map address ips)"

lemma upto_pages:
  assumes "0 < (s :: int)" "0 \<le> t"
  shows "concat (map (\<lambda>k. [(int k - 1) * s .. min ((int k - 1) * s + s) t - 1]) [1 ..< Suc n]) = [0 .. min (int n * s) t - 1]"
proof (induction n)
  case 0
  then show ?case using assms by (simp add: min_def)
next
  case (Suc n)
  let ?a = "int n * s"
  have a: "0 \<le> ?a" using assms by simp
  have step: "[1 ..< Suc (Suc n)] = [1 ..< Suc n] @ [Suc n]" by simp
  have e: "int (Suc n) * s = ?a + s" by (simp add: algebra_simps)
  have "[0 .. min ?a t - 1] @ [?a .. min (?a + s) t - 1] = [0 .. min (?a + s) t - 1]"
  proof (cases "?a \<le> t")
    case True
    then show ?thesis
      using upto_split1 [of 0 ?a "min (?a + s) t - 1"] a assms by (cases "?a = t") (auto simp: min_def not_le)
  next
    case False
    then show ?thesis using assms by simp
  qed
  then show ?case unfolding step map_append concat_append Suc.IH e by simp
qed

lemma map_add_upto: "map (\<lambda>i. i + a) [0 .. (t :: int) - 1] = [a .. a + t - 1]"
proof (rule nth_equalityI)
  show "length (map (\<lambda>i. i + a) [0 .. t - 1]) = length [a .. a + t - 1]" by simp
  fix i assume "i < length (map (\<lambda>i. i + a) [0 .. t - 1])"
  then have i: "int i < t" by simp
  then show "map (\<lambda>i. i + a) [0 .. t - 1] ! i = [a .. a + t - 1] ! i"
    by (simp add: nth_upto)
qed

context netmask_spec
begin

lemma pages_cover:
  assumes "detectIpVersion cidr = V4" "new_Netmask N cidr = Inr nm" "nm_bitmask nm \<le> 30"
    and "0 < pageSize" "int (nm_size nm) \<le> int n * pageSize"
  shows "concat (map (\<lambda>k. page_addresses N cidr pageSize (int k)) [1 ..< Suc n]) =
     map intToIp [ipToInt (nm_base nm) .. ipToInt (nm_base nm) + int (nm_size nm) - 1]"
proof -
  obtain a P where b: "is_block a P nm" using parsed_block assms by blast
  note d = is_blockD [OF b]
  let ?t = "2 ^ (32 - P) :: int"
  have page: "page_addresses N cidr pageSize (int k) =
      map (\<lambda>i. intToIp (a + i)) [(int k - 1) * pageSize .. min ((int k - 1) * pageSize + pageSize) ?t - 1]" for k
    using enumerate_v4 [OF assms(1-3) b] by (simp add: page_addresses_def)
  have "concat (map (\<lambda>k. page_addresses N cidr pageSize (int k)) [1 ..< Suc n]) =
      map (\<lambda>i. intToIp (a + i)) (concat (map (\<lambda>k. [(int k - 1) * pageSize .. min ((int k - 1) * pageSize + pageSize) ?t - 1]) [1 ..< Suc n]))"
    unfolding page by (simp add: map_concat comp_def)
  also have "\<dots> = map (\<lambda>i. intToIp (a + i)) [0 .. ?t - 1]"
    using upto_pages [OF assms(4), of ?t n] assms(5) d(8) by (simp add: min_def)
  also have "\<dots> = map intToIp (map (\<lambda>i. i + a) [0 .. ?t - 1])" by (simp add: add.commute)
  also have "map (\<lambda>i. i + a) [0 .. ?t - 1] = [a .. a + ?t - 1]"
    by (rule map_add_upto)
  finally show ?thesis using d(8,10) by simp
qed

end

section \<open>A reference implementation of the library\<close>

text \<open>
  The laws of \<open>netmask_spec\<close> hold of the obvious implementation for IPv4 text in the form
  \<^verbatim>\<open>a.b.c.d/p\<close>, which the closed examples below evaluate.
\<close>

definition ref_block :: "int \<Rightarrow> nat \<Rightarrow> netmask" where
  "ref_block x p =
     (let a = x - x mod 2 ^ (32 - p)
      in \<lparr>nm_base = intToIp a, nm_bitmask = p,
          nm_broadcast = (if p \<le> 30 then Some (intToIp (a + 2 ^ (32 - p) - 1)) else None),
          nm_size = 2 ^ (32 - p)\<rparr>)"

definition ref_new :: "string \<Rightarrow> netmask result" where
  "ref_new s =
     (case split_on CHR ''/'' s of
        [ip, m] \<Rightarrow>
          (if ipv4Regex ip \<and> isValidIpAddress ip \<and> m \<noteq> [] \<and> list_all is_digit m \<and> nat_of_digits m \<le> 32
           then Inr (ref_block (ipToInt ip) (nat_of_digits m))
           else Inl (NativeError ''Invalid net address''))
      | _ \<Rightarrow> Inl (NativeError ''Invalid net address''))"

definition ref_contains :: "netmask \<Rightarrow> string option \<Rightarrow> bool result" where
  "ref_contains nm arg =
     (case arg of
        None \<Rightarrow> Inl TypeError
      | Some ip \<Rightarrow>
          (if ipv4Regex ip \<and> isValidIpAddress ip
           then Inr (ipToInt (nm_base nm) \<le> ipToInt ip \<and> ipToInt ip < ipToInt (nm_base nm) + int (nm_size nm))
           else Inl (NativeError ''Invalid IP address'')))"

definition ref_netmask :: netmask_lib where
  "ref_netmask = \<lparr>new_Netmask = ref_new, nm_contains = ref_contains\<rparr>"

lemma ipToInt_bounds: "0 \<le> ipToInt s" "ipToInt s < 2 ^ 32"
proof -
  have "uint (w :: 32 word) < 2 ^ 32" for w using uint_lt2p [of w] by simp
  then show "0 \<le> ipToInt s" "ipToInt s < 2 ^ 32"
    by (auto simp: ipToInt_def toUint32_def split: option.splits)
qed

lemma ref_block_is_block:
  assumes "0 \<le> x" "x < 2 ^ 32" "p \<le> 32"
  shows "is_block (x - x mod 2 ^ (32 - p)) p (ref_block x p)"
proof -
  let ?d = "2 ^ (32 - p) :: int" and ?a = "x - x mod 2 ^ (32 - p)"
  have dv: "?d dvd ?a" by (simp add: minus_mod_eq_mult_div)
  have "?d dvd 2 ^ 32" by (intro le_imp_power_dvd) simp
  then obtain q where q: "2 ^ 32 = ?d * q" by (elim dvdE)
  have a: "?a = ?d * (x div ?d)" by (simp add: minus_mod_eq_mult_div)
  have "x div ?d < q"
  proof (rule ccontr)
    assume "\<not> x div ?d < q"
    then have "?d * q \<le> ?d * (x div ?d)" by simp
    moreover have "0 \<le> x mod ?d" by simp
    ultimately show False using q a assms(2) by linarith
  qed
  then have "?d * (x div ?d + 1) \<le> ?d * q" by simp
  then have "?a + ?d \<le> 2 ^ 32" using q a by (simp add: distrib_left)
  moreover have "0 \<le> ?a" using assms(1) a by (simp add: pos_imp_zdiv_nonneg_iff)
  ultimately show ?thesis
    using dv assms(3) by (simp add: is_block_def ref_block_def Let_def)
qed

interpretation ref: netmask_spec ref_netmask
proof unfold_locales
  fix x :: int and p :: nat
  assume x: "0 \<le> x" "x < 2 ^ 32" "p \<le> 32"
  have sp: "split_on CHR ''/'' (cidr_str (intToIp x) p) = [intToIp x, string_of_nat p]"
  proof -
    have "CHR ''/'' \<notin> set (intToIp x)" by (simp add: intToIp_def dot_notin_string_of_nat is_digit_def)
    then show ?thesis
      unfolding cidr_str_def by (simp add: split_on_cons split_on_free dot_notin_string_of_nat is_digit_def)
  qed
  have "new_Netmask ref_netmask (cidr_str (intToIp x) p) = Inr (ref_block x p)"
    using x string_of_nat_digits [of p]
    by (simp add: ref_netmask_def ref_new_def sp intToIp_regex valid_intToIp list_all_iff ipToInt_intToIp)
  then show "\<exists>nm. new_Netmask ref_netmask (cidr_str (intToIp x) p) = Inr nm \<and> is_block (x - x mod 2 ^ (32 - p)) p nm"
    using ref_block_is_block [OF x] by blast
next
  fix s nm
  assume "new_Netmask ref_netmask s = Inr nm"
  then obtain x p where "nm = ref_block x p" "0 \<le> x" "x < 2 ^ 32" "p \<le> 32"
    using ipToInt_bounds by (auto simp: ref_netmask_def ref_new_def split: list.splits if_splits)
  then show "\<exists>a p. is_block a p nm" using ref_block_is_block by blast
next
  fix a p nm and x :: int
  assume b: "is_block a p nm" and x: "0 \<le> x" "x < 2 ^ 32"
  show "nm_contains ref_netmask nm (Some (intToIp x)) = Inr (x \<in> block_range a p)"
    using x is_blockD [OF b]
    by (simp add: ref_netmask_def ref_contains_def intToIp_regex valid_intToIp ipToInt_intToIp block_range_def)
qed

section \<open>Properties\<close>

text \<open>
  Address round trip: \<^verbatim>\<open>intToIp\<close> always prints a valid dotted quad, and \<^verbatim>\<open>ipToInt\<close> reads back the
  number modulo 2^32, so the signed 32-bit shifts of the code never lose or change an address.
\<close>

theorem ip_roundtrip: "isValidIpAddress (intToIp n) \<and> ipToInt (intToIp n) = n mod 2 ^ 32"
  by (simp add: valid_intToIp ipToInt_intToIp)

text \<open>
  C33. \<^verbatim>\<open>cidrOverlaps\<close> on two IPv4 CIDRs is exact: it answers true if and only if some address belongs to
  both, although it only tests the two base addresses.
\<close>

theorem overlap_exact:
  assumes "netmask_spec N" "detectIpVersion a = V4" "detectIpVersion b = V4"
  shows "cidrOverlaps N a b \<longleftrightarrow> cidr_range N a \<inter> cidr_range N b \<noteq> {}"
  by (rule netmask_spec.overlaps_iff [OF assms])

theorem overlap_exact_witness:
  "cidr_range ref_netmask ''10.0.0.0/23'' \<inter> cidr_range ref_netmask ''10.0.1.0/24'' \<noteq> {} \<and>
   cidr_range ref_netmask ''10.0.0.0/24'' \<inter> cidr_range ref_netmask ''10.0.1.0/24'' = {}"
proof -
  have v: "detectIpVersion ''10.0.0.0/23'' = V4" "detectIpVersion ''10.0.1.0/24'' = V4" "detectIpVersion ''10.0.0.0/24'' = V4"
    by code_simp+
  have "cidrOverlaps ref_netmask ''10.0.0.0/23'' ''10.0.1.0/24''" "\<not> cidrOverlaps ref_netmask ''10.0.0.0/24'' ''10.0.1.0/24''"
    by code_simp+
  then show ?thesis
    using overlap_exact [OF ref.netmask_spec_axioms v(1,2)] overlap_exact [OF ref.netmask_spec_axioms v(3,2)] by simp
qed

text \<open>
  \<^verbatim>\<open>cidrContains\<close> on two IPv4 CIDRs, the inner one not finer than /30, is exact: it answers true if and
  only if every address of the inner CIDR belongs to the outer one.
\<close>

theorem contains_exact:
  assumes "netmask_spec N" "detectIpVersion outer = V4" "detectIpVersion inner = V4"
    and "new_Netmask N inner = Inr ib" "nm_bitmask ib \<le> 30"
  shows "cidrContains N outer inner \<longleftrightarrow> cidr_range N inner \<subseteq> cidr_range N outer"
  by (rule netmask_spec.contains_iff [OF assms])

theorem contains_exact_witness: "cidr_range ref_netmask ''10.0.1.0/24'' \<subseteq> cidr_range ref_netmask ''10.0.0.0/16''"
proof -
  have v: "detectIpVersion ''10.0.0.0/16'' = V4" "detectIpVersion ''10.0.1.0/24'' = V4"
    "new_Netmask ref_netmask ''10.0.1.0/24'' = Inr (ref_block (10 * 2 ^ 24 + 256) 24)"
    "nm_bitmask (ref_block (10 * 2 ^ 24 + 256) 24) \<le> 30" "cidrContains ref_netmask ''10.0.0.0/16'' ''10.0.1.0/24''"
    by code_simp+
  show ?thesis using contains_exact [OF ref.netmask_spec_axioms v(1-4)] v(5) by simp
qed

text \<open>
  The pages of \<^verbatim>\<open>enumerateSubnetIps\<close> are complete: for a subnet of prefix at most 30, the pages 1 to n put
  one after another list every address of the subnet once and in order, whatever the page size, as soon
  as they reach its size.
\<close>

theorem enumeration_complete:
  assumes "netmask_spec N" "detectIpVersion cidr = V4" "new_Netmask N cidr = Inr nm" "nm_bitmask nm \<le> 30"
    and "0 < pageSize" "int (nm_size nm) \<le> int n * pageSize"
  shows "concat (map (\<lambda>k. page_addresses N cidr pageSize (int k)) [1 ..< Suc n]) =
     map intToIp [ipToInt (nm_base nm) .. ipToInt (nm_base nm) + int (nm_size nm) - 1]"
  by (rule netmask_spec.pages_cover [OF assms])

theorem enumeration_complete_witness:
  "page_addresses ref_netmask ''10.0.0.0/30'' 3 1 @ page_addresses ref_netmask ''10.0.0.0/30'' 3 2 =
     map intToIp [10 * 2 ^ 24 .. 10 * 2 ^ 24 + 3]"
proof -
  have v: "detectIpVersion ''10.0.0.0/30'' = V4" "new_Netmask ref_netmask ''10.0.0.0/30'' = Inr (ref_block (10 * 2 ^ 24) 30)"
    "nm_bitmask (ref_block (10 * 2 ^ 24) 30) \<le> 30"
    by code_simp+
  have s: "int (nm_size (ref_block (10 * 2 ^ 24) 30)) \<le> int 2 * 3" "ipToInt (nm_base (ref_block (10 * 2 ^ 24) 30)) = 10 * 2 ^ 24"
    "int (nm_size (ref_block (10 * 2 ^ 24) 30)) = 4"
    by code_simp+
  have l: "[1 ..< Suc 2] = [1, 2]" by code_simp
  show ?thesis
    using enumeration_complete [OF ref.netmask_spec_axioms v(1-3) _ s(1)] unfolding s(2,3) l by simp
qed

text \<open>
  C32. Template packing into an anchor, of a non-empty template with prefix lengths at most 32 beside allocated IPv4 subnets, is sound when the template's span fits the parent, an IPv4 network /30 or coarser: if it finds an anchor,
  the anchor lies in the parent and meets no allocated subnet, every entry gets an aligned subnet of its own prefix length
  inside the anchor, in template order, and no two entries share an address.
\<close>

theorem pack_sound:
  assumes "netmask_spec N" "detectIpVersion parent = V4" "new_Netmask N parent = Inr nm" "nm_bitmask nm \<le> 30"
    and "es \<noteq> []" "\<forall>e \<in> set es. pl e \<le> 32" "req \<le> 32" "\<forall>s \<in> set al. detectIpVersion s = V4"
    and "totalSpan (packTemplateEntries pl es) \<le> 2 ^ (32 - nm_bitmask nm)"
    and "packIntoAnchor N pl parent al es req = Inr (Some res)"
  shows "laid_out N pl es (cidr_range N (anchorCidr res)) (assignments res) \<and>
    cidr_range N (anchorCidr res) \<subseteq> cidr_range N parent \<and>
    (\<forall>s \<in> set al. cidr_range N (anchorCidr res) \<inter> cidr_range N s = {})"
  by (rule netmask_spec.packIntoAnchor_sound [OF assms])

theorem pack_sound_witness:
  "\<exists>res. packIntoAnchor ref_netmask id ''10.0.0.0/22'' [''10.0.0.0/24''] [26, 27 :: nat] 24 = Inr (Some res) \<and>
     cidr_range ref_netmask (anchorCidr res) \<subseteq> cidr_range ref_netmask ''10.0.0.0/22''"
proof -
  define res where "res = \<lparr>assignments = [(26 :: nat, ''10.0.1.0/26''), (27, ''10.0.1.64/27'')], anchorCidr = ''10.0.1.0/24'',
      effectiveAnchorPrefix = 24\<rparr>"
  have run: "packIntoAnchor ref_netmask id ''10.0.0.0/22'' [''10.0.0.0/24''] [26, 27 :: nat] 24 = Inr (Some res)"
    unfolding res_def by code_simp
  have v: "detectIpVersion ''10.0.0.0/22'' = V4" "new_Netmask ref_netmask ''10.0.0.0/22'' = Inr (ref_block (10 * 2 ^ 24) 22)"
    "nm_bitmask (ref_block (10 * 2 ^ 24) 22) \<le> 30" "[26, 27 :: nat] \<noteq> []" "\<forall>e \<in> set [26, 27 :: nat]. id e \<le> 32"
    "(24 :: nat) \<le> 32" "\<forall>s \<in> set [''10.0.0.0/24'']. detectIpVersion s = V4"
    "totalSpan (packTemplateEntries id [26, 27 :: nat]) \<le> 2 ^ (32 - nm_bitmask (ref_block (10 * 2 ^ 24) 22))"
    by code_simp+
  show ?thesis using pack_sound [OF ref.netmask_spec_axioms v(1-8) run] run by blast
qed

text \<open>
  A template whose span exceeds its block is not refused: on a block with no subnet in it,
  \<^verbatim>\<open>packIntoAnchor\<close> clamps the anchor to the whole block and still returns assignments, at least one of
  which has addresses outside the block.
\<close>

theorem pack_overflow_escapes:
  assumes "netmask_spec N" "detectIpVersion parent = V4" "new_Netmask N parent = Inr nm" "nm_bitmask nm \<le> 30"
    and "es \<noteq> []" "\<forall>e \<in> set es. pl e \<le> 32"
    and "\<forall>s \<in> set al. detectIpVersion s = V4 \<and> cidr_range N s \<inter> cidr_range N parent = {}"
    and "2 ^ (32 - nm_bitmask nm) < totalSpan (packTemplateEntries pl es)"
    and "ipToInt (nm_base nm) + int (totalSpan (packTemplateEntries pl es)) \<le> 2 ^ 32"
  shows "\<exists>res. packIntoAnchor N pl parent al es req = Inr (Some res) \<and>
     (\<exists>(e, c) \<in> set (assignments res). \<not> cidr_range N c \<subseteq> cidr_range N parent)"
  by (rule netmask_spec.packIntoAnchor_overflow [OF assms])

theorem pack_overflow_escapes_witness:
  "\<exists>res. packIntoAnchor ref_netmask id ''10.0.0.0/24'' [] [24, 24 :: nat] 24 = Inr (Some res) \<and>
     (\<exists>(e, c) \<in> set (assignments res). \<not> cidr_range ref_netmask c \<subseteq> cidr_range ref_netmask ''10.0.0.0/24'')"
proof -
  have v: "detectIpVersion ''10.0.0.0/24'' = V4" "new_Netmask ref_netmask ''10.0.0.0/24'' = Inr (ref_block (10 * 2 ^ 24) 24)"
    "nm_bitmask (ref_block (10 * 2 ^ 24) 24) \<le> 30" "[24, 24 :: nat] \<noteq> []" "\<forall>e \<in> set [24, 24 :: nat]. id e \<le> 32"
    by code_simp+
  have s: "2 ^ (32 - nm_bitmask (ref_block (10 * 2 ^ 24) 24)) < totalSpan (packTemplateEntries id [24, 24 :: nat])"
    "ipToInt (nm_base (ref_block (10 * 2 ^ 24) 24)) + int (totalSpan (packTemplateEntries id [24, 24 :: nat])) \<le> 2 ^ 32"
    by code_simp+
  show ?thesis using pack_overflow_escapes [OF ref.netmask_spec_axioms v(1-5) _ s, of "[]" 24] by simp
qed

end
