(* ===== verification/Store.thy ===== *)
theory Store
  imports Cidr
begin

text \<open>
  The database the services work on: the rows of \<^verbatim>\<open>prisma/schema.prisma\<close> the IP-management core reads
  or writes, with the uniqueness constraints and cascades that schema declares, and the effect type
  of a service call. A table is the list of its rows; ids and clock readings are arguments of the
  operations that draw them, one reading of the clock per call. The columns \<^verbatim>\<open>updatedAt\<close> and the
  relations no modelled operation reads are left out.
\<close>

section \<open>Rows\<close>

record ipBlock =
  bl_id :: string
  bl_name :: string
  bl_cidr :: string
  bl_ipVersion :: ipVersion
  bl_description :: "string option"
  bl_tags :: "string list"

datatype subnetStatus = SubAvailable | SubReserved | SubDeprecated

record subnet =
  sn_id :: string
  sn_blockId :: string
  sn_cidr :: string
  sn_name :: string
  sn_purpose :: "string option"
  sn_status :: subnetStatus
  sn_vlan :: "int option"
  sn_tags :: "string list"
  sn_discoveredBy :: "string option"
  sn_fortigateDevice :: "string option"
  sn_createdBy :: "string option"
  sn_lastDiscoveredAt :: "int option"

datatype reservationStatus = ResActive | ResExpired | ResReleased

datatype sourceType =
    SrcManual | SrcDhcpReservation | SrcDhcpLease | SrcInterfaceIp | SrcVip
  | SrcFortiswitch | SrcFortinap | SrcFortimanager | SrcFortigate | SrcDnsResolved

text \<open>\<^verbatim>\<open>pushStatus\<close> is a nullable string column; these are the values the program writes.\<close>

datatype pushStatus = PushSynced | PushDrift | PushPending | PushFailedPermanent

record reservation =
  rs_id :: string
  rs_subnetId :: string
  rs_ipAddress :: "string option"
  rs_hostname :: "string option"
  rs_owner :: "string option"
  rs_projectRef :: "string option"
  rs_expiresAt :: "int option"
  rs_notes :: "string option"
  rs_status :: reservationStatus
  rs_sourceType :: sourceType
  rs_createdBy :: "string option"
  rs_conflictMessage :: "string option"
  rs_macAddress :: "string option"
  rs_pushedToId :: "string option"
  rs_pushedScopeId :: "int option"
  rs_pushedEntryId :: "int option"
  rs_pushStatus :: "pushStatus option"
  rs_pushedAt :: "int option"
  rs_pushError :: "string option"
  rs_pushQueuedAt :: "int option"
  rs_pushAttempts :: nat
  rs_pushLastAttemptAt :: "int option"
  rs_lastSeenLeased :: "int option"
  rs_staleNotifiedAt :: "int option"
  rs_staleSnoozedUntil :: "int option"
  rs_staleIgnored :: bool
  rs_createdAt :: int

text \<open>The enum values as they appear in messages.\<close>

definition statusName :: "reservationStatus \<Rightarrow> string" where
  "statusName st = (case st of ResActive \<Rightarrow> ''active'' | ResExpired \<Rightarrow> ''expired'' | ResReleased \<Rightarrow> ''released'')"

definition sourceName :: "sourceType \<Rightarrow> string" where
  "sourceName s =
     (case s of SrcManual \<Rightarrow> ''manual'' | SrcDhcpReservation \<Rightarrow> ''dhcp_reservation'' | SrcDhcpLease \<Rightarrow> ''dhcp_lease''
      | SrcInterfaceIp \<Rightarrow> ''interface_ip'' | SrcVip \<Rightarrow> ''vip'' | SrcFortiswitch \<Rightarrow> ''fortiswitch'' | SrcFortinap \<Rightarrow> ''fortinap''
      | SrcFortimanager \<Rightarrow> ''fortimanager'' | SrcFortigate \<Rightarrow> ''fortigate'' | SrcDnsResolved \<Rightarrow> ''dns_resolved'')"

text \<open>A new row with the defaults of the schema.\<close>

definition newReservation :: "string \<Rightarrow> int \<Rightarrow> string \<Rightarrow> reservation" where
  "newReservation uid now subnetId =
     \<lparr>rs_id = uid, rs_subnetId = subnetId, rs_ipAddress = None, rs_hostname = None, rs_owner = None,
      rs_projectRef = None, rs_expiresAt = None, rs_notes = None, rs_status = ResActive, rs_sourceType = SrcManual,
      rs_createdBy = None, rs_conflictMessage = None, rs_macAddress = None, rs_pushedToId = None,
      rs_pushedScopeId = None, rs_pushedEntryId = None, rs_pushStatus = None, rs_pushedAt = None,
      rs_pushError = None, rs_pushQueuedAt = None, rs_pushAttempts = 0, rs_pushLastAttemptAt = None,
      rs_lastSeenLeased = None, rs_staleNotifiedAt = None, rs_staleSnoozedUntil = None, rs_staleIgnored = False,
      rs_createdAt = now\<rparr>"

text \<open>
  \<^verbatim>\<open>Integration.config\<close> is a JSON object; the record holds the keys the modelled code reads, absent
  keys as \<^term>\<open>None\<close>.
\<close>

record integrationConfig =
  cf_pushReservations :: "bool option"
  cf_useProxy :: "bool option"
  cf_fortigateApiUser :: "string option"
  cf_fortigateApiToken :: "string option"
  cf_fortigateVerifySsl :: "bool option"
  cf_mgmtInterface :: "string option"
  cf_host :: "string option"
  cf_port :: "int option"
  cf_apiUser :: "string option"
  cf_apiToken :: "string option"
  cf_vdom :: "string option"
  cf_verifySsl :: "bool option"

record integration =
  ig_id :: string
  ig_type :: string
  ig_name :: string
  ig_config :: integrationConfig
  ig_enabled :: bool

datatype assetStatus = AsActive | AsMaintenance | AsDecommissioned | AsStorage | AsDisabled | AsQuarantined

record asset =
  as_id :: string
  as_hostname :: "string option"
  as_dnsName :: "string option"
  as_ipAddress :: "string option"
  as_macAddress :: "string option"
  as_assetType :: string
  as_status :: assetStatus
  as_discoveredByIntegrationId :: "string option"
  as_monitored :: bool
  as_monitorStatus :: "string option"

text \<open>
  An audit event handed to \<^verbatim>\<open>logEvent\<close>. Its free-text message and its \<^verbatim>\<open>details\<close> payload are display data
  nothing reads back, and are not kept; nor is the retention level that may drop an event on the way
  to its table. \<^verbatim>\<open>logEvent\<close> never throws, and the calls the services do not await are modelled at the
  point where they are issued.
\<close>

record event =
  ev_action :: string
  ev_level :: string
  ev_resourceType :: string
  ev_resourceId :: "string option"
  ev_resourceName :: "string option"
  ev_actor :: "string option"

text \<open>The \<^verbatim>\<open>Setting\<close> rows the core uses, each under its own key.\<close>

record templateEntry =
  te_skip :: bool
  te_name :: "string option"
  te_prefixLength :: int
  te_vlan :: "int option"

record allocationTemplate =
  at_id :: string
  at_name :: string
  at_entries :: "templateEntry list"
  at_anchorPrefix :: "int option"

record 'd world =
  w_blocks :: "ipBlock list"
  w_subnets :: "subnet list"
  w_reservations :: "reservation list"
  w_integrations :: "integration list"
  w_assets :: "asset list"
  w_templates :: "allocationTemplate list option"
  w_staleAfterDays :: "int option option"
  w_detectionStartedAt :: "int option option"
  w_events :: "event list"
  w_device :: 'd

section \<open>Effects\<close>

text \<open>
  A call that reads and writes a state and either returns or throws. What was written before a throw
  stays written: the state comes back in both cases. \<open>catchIO\<close> is \<^verbatim>\<open>try/catch\<close>.
\<close>

type_synonym ('s, 'a) io = "'s \<Rightarrow> 'a result \<times> 's"

definition returnIO :: "'a \<Rightarrow> ('s, 'a) io" where
  "returnIO a s = (Inr a, s)"

definition throwIO :: "error \<Rightarrow> ('s, 'a) io" where
  "throwIO e s = (Inl e, s)"

definition bindIO :: "('s, 'a) io \<Rightarrow> ('a \<Rightarrow> ('s, 'b) io) \<Rightarrow> ('s, 'b) io" where
  "bindIO m f s = (case m s of (Inl e, s') \<Rightarrow> (Inl e, s') | (Inr a, s') \<Rightarrow> f a s')"

definition catchIO :: "('s, 'a) io \<Rightarrow> (error \<Rightarrow> ('s, 'a) io) \<Rightarrow> ('s, 'a) io" where
  "catchIO m h s = (case m s of (Inl e, s') \<Rightarrow> h e s' | (Inr a, s') \<Rightarrow> (Inr a, s'))"

definition getIO :: "('s \<Rightarrow> 'a) \<Rightarrow> ('s, 'a) io" where
  "getIO f s = (Inr (f s), s)"

definition modifyIO :: "('s \<Rightarrow> 's) \<Rightarrow> ('s, unit) io" where
  "modifyIO f s = (Inr (), f s)"

definition liftIO :: "'a result \<Rightarrow> ('s, 'a) io" where
  "liftIO r s = (r, s)"

text \<open>\<^verbatim>\<open>prisma.$transaction\<close>: a throw inside rolls the database back.\<close>

definition transactionIO :: "('s, 'a) io \<Rightarrow> ('s, 'a) io" where
  "transactionIO m s = (case m s of (Inl e, _) \<Rightarrow> (Inl e, s) | (Inr a, s') \<Rightarrow> (Inr a, s'))"

text \<open>A call that talks to the network devices, run inside a service.\<close>

definition deviceIO :: "('d, 'a) io \<Rightarrow> ('d world, 'a) io" where
  "deviceIO m w = (case m (w_device w) of (r, d) \<Rightarrow> (r, w\<lparr>w_device := d\<rparr>))"

definition logEvent :: "event \<Rightarrow> ('d world, unit) io" where
  "logEvent e = modifyIO (\<lambda>w. w\<lparr>w_events := w_events w @ [e]\<rparr>)"

lemma io_apply [simp]:
  "returnIO a s = (Inr a, s)" "throwIO e s = (Inl e, s)" "getIO f s = (Inr (f s), s)"
  "modifyIO g s = (Inr (), g s)" "liftIO r s = (r, s)"
  by (simp_all add: returnIO_def throwIO_def getIO_def modifyIO_def liftIO_def)

lemma bindIO_simps [simp]:
  "bindIO (returnIO a) f = f a" "bindIO (throwIO e) f = throwIO e" "bindIO (getIO g) f s = f (g s) s"
  by (auto simp: bindIO_def)

lemma bindIO_modify [simp]: "bindIO (modifyIO h) f s = f () (h s)"
  by (simp add: bindIO_def)

lemma bindIO_lift [simp]: "bindIO (liftIO (Inr a)) f = f a" "bindIO (liftIO (Inl e)) f = throwIO e"
  by (auto simp: bindIO_def liftIO_def throwIO_def)

lemma bindIO_Inr:
  "bindIO m f s = (Inr b, s') \<longleftrightarrow> (\<exists>a t. m s = (Inr a, t) \<and> f a t = (Inr b, s'))"
  by (auto simp: bindIO_def split: prod.splits sum.splits)

lemma bindIO_Inl:
  "bindIO m f s = (Inl e, s') \<longleftrightarrow>
     m s = (Inl e, s') \<or> (\<exists>a t. m s = (Inr a, t) \<and> f a t = (Inl e, s'))"
  by (auto simp: bindIO_def split: prod.splits sum.splits)

text \<open>\<^verbatim>\<open>err?.message || String(err)\<close>\<close>

definition errMessage :: "error \<Rightarrow> string" where
  "errMessage e =
     (case e of
        AppError _ m \<Rightarrow> or_str (Some m) ''AppError''
      | NativeError m \<Rightarrow> or_str (Some m) ''Error''
      | UniqueViolation \<Rightarrow> ''Unique constraint failed''
      | TypeError \<Rightarrow> ''TypeError'')"

text \<open>\<^verbatim>\<open>orderBy: { key: "asc" }\<close> on a nullable column: PostgreSQL puts the NULLs last.\<close>

definition nulls_last :: "('r \<Rightarrow> int option) \<Rightarrow> 'r list \<Rightarrow> 'r list" where
  "nulls_last key rows =
     sort_key (\<lambda>r. the (key r)) (filter (\<lambda>r. key r \<noteq> None) rows) @ filter (\<lambda>r. key r = None) rows"

section \<open>Tables\<close>

text \<open>
  A table with a primary key \<open>rid\<close> and one uniqueness constraint \<open>key\<close>; a row whose key is
  \<^term>\<open>None\<close> (a NULL in one of the columns) never conflicts, as in PostgreSQL. A statement that would
  leave two rows with one key fails as a whole and changes nothing.
\<close>

definition table_ok :: "('r \<Rightarrow> string) \<Rightarrow> ('r \<Rightarrow> 'k option) \<Rightarrow> 'r list \<Rightarrow> bool" where
  "table_ok rid key rows \<longleftrightarrow> distinct (map rid rows) \<and> distinct (List.map_filter key rows)"

definition insert_row :: "('r \<Rightarrow> string) \<Rightarrow> ('r \<Rightarrow> 'k option) \<Rightarrow> 'r \<Rightarrow> 'r list \<Rightarrow> 'r list result" where
  "insert_row rid key r rows =
     (if rid r \<in> set (map rid rows) \<or> (case key r of None \<Rightarrow> False | Some k \<Rightarrow> k \<in> set (List.map_filter key rows))
      then Inl UniqueViolation else Inr (rows @ [r]))"

definition update_rows ::
  "('r \<Rightarrow> 'k option) \<Rightarrow> ('r \<Rightarrow> bool) \<Rightarrow> ('r \<Rightarrow> 'r) \<Rightarrow> 'r list \<Rightarrow> 'r list result" where
  "update_rows key P f rows =
     (let rows' = map (\<lambda>r. if P r then f r else r) rows
      in if distinct (List.map_filter key rows') then Inr rows' else Inl UniqueViolation)"

definition delete_rows :: "('r \<Rightarrow> bool) \<Rightarrow> 'r list \<Rightarrow> 'r list" where
  "delete_rows P rows = filter (\<lambda>r. \<not> P r) rows"

text \<open>The constraint of \<^verbatim>\<open>model IpBlock\<close>: \<^verbatim>\<open>cidr String @unique\<close>.\<close>

definition blockKey :: "ipBlock \<Rightarrow> string option" where
  "blockKey b = Some (bl_cidr b)"

text \<open>\<^verbatim>\<open>model Subnet\<close> has no uniqueness constraint besides its id.\<close>

definition subnetKey :: "subnet \<Rightarrow> string option" where
  "subnetKey s = None"

text \<open>The constraint of \<^verbatim>\<open>model Reservation\<close>: \<^verbatim>\<open>@@unique([subnetId, ipAddress, status])\<close>.\<close>

definition reservationKey :: "reservation \<Rightarrow> (string \<times> string \<times> reservationStatus) option" where
  "reservationKey r = map_option (\<lambda>ip. (rs_subnetId r, ip, rs_status r)) (rs_ipAddress r)"

section \<open>Prisma calls on the tables of the core\<close>

definition createBlockRow :: "ipBlock \<Rightarrow> ('d world, ipBlock) io" where
  "createBlockRow b w =
     (case insert_row bl_id blockKey b (w_blocks w) of
        Inl e \<Rightarrow> (Inl e, w) | Inr bs \<Rightarrow> (Inr b, w\<lparr>w_blocks := bs\<rparr>))"

definition createSubnetRow :: "subnet \<Rightarrow> ('d world, subnet) io" where
  "createSubnetRow s w =
     (case insert_row sn_id subnetKey s (w_subnets w) of
        Inl e \<Rightarrow> (Inl e, w) | Inr ss \<Rightarrow> (Inr s, w\<lparr>w_subnets := ss\<rparr>))"

definition updateSubnetRow :: "string \<Rightarrow> (subnet \<Rightarrow> subnet) \<Rightarrow> ('d world, unit) io" where
  "updateSubnetRow i f =
     modifyIO (\<lambda>w. w\<lparr>w_subnets := map (\<lambda>s. if sn_id s = i then f s else s) (w_subnets w)\<rparr>)"

definition createReservationRow :: "reservation \<Rightarrow> ('d world, reservation) io" where
  "createReservationRow r w =
     (case insert_row rs_id reservationKey r (w_reservations w) of
        Inl e \<Rightarrow> (Inl e, w) | Inr rs \<Rightarrow> (Inr r, w\<lparr>w_reservations := rs\<rparr>))"

definition updateManyReservations ::
  "(reservation \<Rightarrow> bool) \<Rightarrow> (reservation \<Rightarrow> reservation) \<Rightarrow> ('d world, nat) io" where
  "updateManyReservations P f w =
     (case update_rows reservationKey P f (w_reservations w) of
        Inl e \<Rightarrow> (Inl e, w)
      | Inr rs \<Rightarrow> (Inr (length (filter P (w_reservations w))), w\<lparr>w_reservations := rs\<rparr>))"

text \<open>\<^verbatim>\<open>update({where: {id}})\<close> returns the updated row and throws when there is none.\<close>

definition findReservation :: "string \<Rightarrow> 'd world \<Rightarrow> reservation option" where
  "findReservation i w = find (\<lambda>r. rs_id r = i) (w_reservations w)"

definition updateReservationRow :: "string \<Rightarrow> (reservation \<Rightarrow> reservation) \<Rightarrow> ('d world, reservation) io" where
  "updateReservationRow i f w =
     (case findReservation i w of
        None \<Rightarrow> (Inl (NativeError ''Record to update not found.''), w)
      | Some r \<Rightarrow>
          (case update_rows reservationKey (\<lambda>r. rs_id r = i) f (w_reservations w) of
             Inl e \<Rightarrow> (Inl e, w) | Inr rs \<Rightarrow> (Inr (f r), w\<lparr>w_reservations := rs\<rparr>)))"

definition deleteReservations :: "(reservation \<Rightarrow> bool) \<Rightarrow> ('d world, unit) io" where
  "deleteReservations P = modifyIO (\<lambda>w. w\<lparr>w_reservations := delete_rows P (w_reservations w)\<rparr>)"

text \<open>\<^verbatim>\<open>onDelete: Cascade\<close> from a block to its subnets and from a subnet to its reservations.\<close>

definition deleteSubnetRows :: "(subnet \<Rightarrow> bool) \<Rightarrow> 'd world \<Rightarrow> 'd world" where
  "deleteSubnetRows P w =
     (let gone = map sn_id (filter P (w_subnets w))
      in w\<lparr>w_subnets := delete_rows P (w_subnets w),
           w_reservations := delete_rows (\<lambda>r. rs_subnetId r \<in> set gone) (w_reservations w)\<rparr>)"

definition deleteBlockRow :: "string \<Rightarrow> 'd world \<Rightarrow> 'd world" where
  "deleteBlockRow i w =
     (deleteSubnetRows (\<lambda>s. sn_blockId s = i) w)
       \<lparr>w_blocks := delete_rows (\<lambda>b. bl_id b = i) (w_blocks w)\<rparr>"

definition findSubnet :: "string \<Rightarrow> 'd world \<Rightarrow> subnet option" where
  "findSubnet i w = find (\<lambda>s. sn_id s = i) (w_subnets w)"

definition findBlock :: "string \<Rightarrow> 'd world \<Rightarrow> ipBlock option" where
  "findBlock i w = find (\<lambda>b. bl_id b = i) (w_blocks w)"

definition findIntegration :: "string option \<Rightarrow> 'd world \<Rightarrow> integration option" where
  "findIntegration i w =
     (case i of None \<Rightarrow> None | Some j \<Rightarrow> find (\<lambda>g. ig_id g = j) (w_integrations w))"

definition subnetIntegration :: "subnet \<Rightarrow> 'd world \<Rightarrow> integration option" where
  "subnetIntegration s w = findIntegration (sn_discoveredBy s) w"

section \<open>The contract of a table\<close>

text \<open>
  What the services rely on: the two constraints identify a row, every statement that succeeds keeps
  them, an insert appends. The client lemmas below are the three facts the service proofs use.
\<close>

locale keyed_table =
  fixes rid :: "'r \<Rightarrow> string"
    and key :: "'r \<Rightarrow> 'k option"
    and good :: "'r list \<Rightarrow> bool"
    and ins :: "'r \<Rightarrow> 'r list \<Rightarrow> 'r list result"
    and upd :: "('r \<Rightarrow> bool) \<Rightarrow> ('r \<Rightarrow> 'r) \<Rightarrow> 'r list \<Rightarrow> 'r list result"
    and del :: "('r \<Rightarrow> bool) \<Rightarrow> 'r list \<Rightarrow> 'r list"
  assumes good_id: "good t \<Longrightarrow> distinct (map rid t)"
    and good_key: "good t \<Longrightarrow> r \<in> set t \<Longrightarrow> s \<in> set t \<Longrightarrow> key r = Some k \<Longrightarrow> key s = Some k \<Longrightarrow> r = s"
    and ins_append: "ins r t = Inr t' \<Longrightarrow> t' = t @ [r] \<and> rid r \<notin> rid ` set t"
    and ins_good: "good t \<Longrightarrow> ins r t = Inr t' \<Longrightarrow> good t'"
    and ins_ok: "good t \<Longrightarrow> rid r \<notin> rid ` set t \<Longrightarrow> (\<And>s. s \<in> set t \<Longrightarrow> key r = None \<or> key s \<noteq> key r) \<Longrightarrow>
        ins r t = Inr (t @ [r])"
    and upd_map: "upd P f t = Inr t' \<Longrightarrow> t' = map (\<lambda>r. if P r then f r else r) t"
    and upd_good: "good t \<Longrightarrow> (\<And>r. rid (f r) = rid r) \<Longrightarrow> upd P f t = Inr t' \<Longrightarrow> good t'"
    and upd_ok: "good t \<Longrightarrow> (\<And>r. key (f r) = key r) \<Longrightarrow> \<exists>t'. upd P f t = Inr t'"
    and del_filter: "del P t = filter (\<lambda>r. \<not> P r) t"
    and del_good: "good t \<Longrightarrow> good (del P t)"
begin

lemma lookup_id: "good t \<Longrightarrow> r \<in> set t \<Longrightarrow> find (\<lambda>s. rid s = rid r) t = Some r"
  by (rule find_distinct_key [OF good_id])

lemma no_collider: "good t \<Longrightarrow> r \<in> set t \<Longrightarrow> key r = Some k \<Longrightarrow> s \<in> set t \<Longrightarrow> rid s \<noteq> rid r \<Longrightarrow> key s \<noteq> Some k"
  using good_key by blast

lemma insert_delete: "ins r t = Inr t' \<Longrightarrow> del (\<lambda>s. rid s = rid r) t' = t"
  by (drule ins_append) (auto simp: del_filter filter_id_conv rev_image_eqI)

lemma insert_lookup: "ins r t = Inr t' \<Longrightarrow> find (\<lambda>s. rid s = rid r) t' = Some r"
  by (drule ins_append) (auto intro!: find_append_fresh simp: find_None_iff rev_image_eqI)

end

lemma map_filter_append [simp]: "List.map_filter f (xs @ ys) = List.map_filter f xs @ List.map_filter f ys"
  by (simp add: map_filter_def)

lemma set_map_filter: "k \<in> set (List.map_filter f xs) \<longleftrightarrow> (\<exists>x \<in> set xs. f x = Some k)"
  by (force simp: map_filter_def)

lemma map_filter_Nil: "List.map_filter f xs = [] \<longleftrightarrow> (\<forall>x \<in> set xs. f x = None)"
  by (auto simp: map_filter_def filter_empty_conv)

lemma distinct_map_filterD:
  "distinct (List.map_filter f xs) \<Longrightarrow> x \<in> set xs \<Longrightarrow> y \<in> set xs \<Longrightarrow> f x = Some k \<Longrightarrow> f y = Some k \<Longrightarrow> x = y"
  by (induction xs) (auto simp: map_filter_simps set_map_filter split: option.splits)

lemma distinct_map_filter_filter: "distinct (List.map_filter f xs) \<Longrightarrow> distinct (List.map_filter f (filter P xs))"
  by (induction xs) (auto simp: map_filter_simps set_map_filter split: option.splits)

lemma map_filter_upd:
  "(\<And>x. f (g x) = f x) \<Longrightarrow> List.map_filter f (map (\<lambda>x. if P x then g x else x) xs) = List.map_filter f xs"
  by (induction xs) (auto simp: map_filter_simps split: option.splits)

lemma keyed_table_generic: "keyed_table rid key (table_ok rid key) (insert_row rid key) (update_rows key) delete_rows"
proof unfold_locales
  fix t r t'
  assume "insert_row rid key r t = Inr t'"
  then show "t' = t @ [r] \<and> rid r \<notin> rid ` set t" by (auto simp: insert_row_def split: if_splits)
next
  fix t r t'
  assume "table_ok rid key t" "insert_row rid key r t = Inr t'"
  then show "table_ok rid key t'"
    by (auto simp: insert_row_def table_ok_def map_filter_simps split: if_splits option.splits)
next
  fix t r
  assume "table_ok rid key t" "rid r \<notin> rid ` set t" "\<And>s. s \<in> set t \<Longrightarrow> key r = None \<or> key s \<noteq> key r"
  then show "insert_row rid key r t = Inr (t @ [r])"
    by (auto simp: insert_row_def set_map_filter split: option.splits)
next
  fix t f P t'
  assume "table_ok rid key t" "\<And>r. rid (f r) = rid r" "update_rows key P f t = Inr t'"
  then show "table_ok rid key t'"
    by (auto simp: update_rows_def table_ok_def Let_def distinct_map_upd simp del: map_map split: if_splits)
next
  fix t f P
  assume "table_ok rid key t" "\<And>r. key (f r) = key r"
  then show "\<exists>t'. update_rows key P f t = Inr t'"
    by (simp add: update_rows_def table_ok_def Let_def map_filter_upd)
qed (auto simp: table_ok_def update_rows_def delete_rows_def Let_def distinct_map_filter_filter
      distinct_map_filter intro: distinct_map_filterD split: if_splits)

interpretation blk: keyed_table bl_id blockKey "table_ok bl_id blockKey" "insert_row bl_id blockKey" "update_rows blockKey" delete_rows
  by (rule keyed_table_generic)

interpretation sub: keyed_table sn_id subnetKey "table_ok sn_id subnetKey" "insert_row sn_id subnetKey" "update_rows subnetKey" delete_rows
  by (rule keyed_table_generic)

interpretation res: keyed_table rs_id reservationKey "table_ok rs_id reservationKey" "insert_row rs_id reservationKey"
    "update_rows reservationKey" delete_rows
  by (rule keyed_table_generic)

text \<open>The foreign keys of the two relations the services rely on.\<close>

definition refs_ok :: "'d world \<Rightarrow> bool" where
  "refs_ok w \<longleftrightarrow> (\<forall>s \<in> set (w_subnets w). sn_blockId s \<in> bl_id ` set (w_blocks w)) \<and>
     (\<forall>r \<in> set (w_reservations w). rs_subnetId r \<in> sn_id ` set (w_subnets w))"

definition db_ok :: "'d world \<Rightarrow> bool" where
  "db_ok w \<longleftrightarrow> table_ok bl_id blockKey (w_blocks w) \<and> table_ok sn_id subnetKey (w_subnets w) \<and>
     table_ok rs_id reservationKey (w_reservations w) \<and> refs_ok w"

end
