(* ===== verification/IoLogic.thy ===== *)
theory IoLogic
  imports Store
begin

text \<open>
  A small program logic for service calls: \<open>valid P m Q E\<close> says that the call \<open>m\<close>, started in a state
  with \<open>P\<close>, either returns a value and a state with \<open>Q\<close> or throws an error in a state with \<open>E\<close>. The
  collection \<open>io_rules\<close> holds its rules; with them the well-formedness of the database is carried through
  every operation.
\<close>

named_theorems io_rules \<open>rules of the program logic, one per way of composing calls\<close>

definition valid :: "('s \<Rightarrow> bool) \<Rightarrow> ('s, 'a) io \<Rightarrow> ('a \<Rightarrow> 's \<Rightarrow> bool) \<Rightarrow> (error \<Rightarrow> 's \<Rightarrow> bool) \<Rightarrow> bool" where
  "valid P m Q E \<longleftrightarrow> (\<forall>s. P s \<longrightarrow> (case m s of (Inr a, t) \<Rightarrow> Q a t | (Inl e, t) \<Rightarrow> E e t))"

abbreviation keeps :: "('s \<Rightarrow> bool) \<Rightarrow> ('s, 'a) io \<Rightarrow> bool" where
  "keeps I m \<equiv> valid I m (\<lambda>_. I) (\<lambda>_. I)"

lemma validI:
  assumes "\<And>s a t. P s \<Longrightarrow> m s = (Inr a, t) \<Longrightarrow> Q a t" "\<And>s e t. P s \<Longrightarrow> m s = (Inl e, t) \<Longrightarrow> E e t"
  shows "valid P m Q E"
  using assms by (auto simp: valid_def split: prod.splits sum.splits)

lemma validD: "valid P m Q E \<Longrightarrow> P s \<Longrightarrow> m s = (Inr a, t) \<Longrightarrow> Q a t"
  unfolding valid_def by fastforce

lemma keepsD: "keeps I m \<Longrightarrow> I s \<Longrightarrow> m s = (r, t) \<Longrightarrow> I t"
  by (cases r) (fastforce simp: valid_def)+

lemma valid_errD: "valid P m Q E \<Longrightarrow> P s \<Longrightarrow> m s = (Inl e, t) \<Longrightarrow> E e t"
  unfolding valid_def by fastforce

lemma valid_anyD: "valid P m (\<lambda>_. I) (\<lambda>_. I) \<Longrightarrow> P s \<Longrightarrow> m s = (r, t) \<Longrightarrow> I t"
  by (cases r) (fastforce simp: valid_def)+

lemma valid_pre: "valid P m Q E \<Longrightarrow> (\<And>s. P' s \<Longrightarrow> P s) \<Longrightarrow> valid P' m Q E"
  by (simp add: valid_def)

lemma valid_post: "valid P m Q E \<Longrightarrow> (\<And>a s. Q a s \<Longrightarrow> Q' a s) \<Longrightarrow> (\<And>e s. E e s \<Longrightarrow> E' e s) \<Longrightarrow> valid P m Q' E'"
  unfolding valid_def by (fastforce split: prod.splits sum.splits)

lemma valid_return [io_rules]: "valid (Q a) (returnIO a) Q E"
  by (simp add: valid_def)

lemma valid_throw [io_rules]: "valid (E e) (throwIO e) Q E"
  by (simp add: valid_def)

lemma valid_bind [io_rules]: "valid P m R E \<Longrightarrow> (\<And>a. valid (R a) (f a) Q E) \<Longrightarrow> valid P (bindIO m f) Q E"
  unfolding valid_def bindIO_def by (fastforce split: prod.splits sum.splits)

text \<open>A value read from the state is only used as such: the continuation keeps the invariant for any value.\<close>

lemma keeps_bind: "keeps I m \<Longrightarrow> (\<And>a. keeps I (f a)) \<Longrightarrow> keeps I (bindIO m f)"
  by (rule valid_bind)

lemma catchIO_iff:
  "catchIO m h s = (r, t) \<longleftrightarrow> (\<exists>a. m s = (Inr a, t) \<and> r = Inr a) \<or> (\<exists>e u. m s = (Inl e, u) \<and> h e u = (r, t))"
  by (auto simp: catchIO_def split: prod.splits sum.splits)

lemma transactionIO_iff:
  "transactionIO m s = (r, t) \<longleftrightarrow> (\<exists>a. m s = (Inr a, t) \<and> r = Inr a) \<or> (\<exists>e u. m s = (Inl e, u) \<and> r = Inl e \<and> t = s)"
  by (auto simp: transactionIO_def split: prod.splits sum.splits)

lemma keepsI: "(\<And>s r t. I s \<Longrightarrow> m s = (r, t) \<Longrightarrow> I t) \<Longrightarrow> keeps I m"
  by (rule validI) blast+

lemma keeps_catch: "keeps I m \<Longrightarrow> (\<And>e. keeps I (h e)) \<Longrightarrow> keeps I (catchIO m h)"
  by (rule keepsI) (auto simp: catchIO_iff dest: keepsD)

lemma keeps_transaction: "keeps I m \<Longrightarrow> keeps I (transactionIO m)"
  by (rule keepsI) (auto simp: transactionIO_iff dest: keepsD)

lemma keeps_simple: "keeps I (returnIO a)" "keeps I (throwIO e)" "keeps I (getIO f)" "keeps I (liftIO r)"
  by (auto simp: valid_def split: sum.splits)

lemma keeps_modify: "(\<And>s. I s \<Longrightarrow> I (f s)) \<Longrightarrow> keeps I (modifyIO f)"
  by (simp add: valid_def)

lemma keeps_device: "(\<And>w d. I w \<Longrightarrow> I (w\<lparr>w_device := d\<rparr>)) \<Longrightarrow> keeps I (deviceIO m)"
  by (auto simp: valid_def deviceIO_def split: prod.splits sum.splits)

lemma keeps_if: "keeps I m \<Longrightarrow> keeps I n \<Longrightarrow> keeps I (if b then m else n)"
  by simp

lemma keeps_option: "keeps I m \<Longrightarrow> (\<And>x. keeps I (f x)) \<Longrightarrow> keeps I (case x of None \<Rightarrow> m | Some y \<Rightarrow> f y)"
  by (cases x) auto

lemma keeps_prod: "(\<And>a b. keeps I (f a b)) \<Longrightarrow> keeps I (case x of (a, b) \<Rightarrow> f a b)"
  by (cases x) auto

lemma keeps_Let: "(\<And>x. keeps I (f x)) \<Longrightarrow> keeps I (Let v f)"
  by (simp add: Let_def)

lemma keeps_sum: "(\<And>a. keeps I (f a)) \<Longrightarrow> (\<And>b. keeps I (g b)) \<Longrightarrow> keeps I (case x of Inl a \<Rightarrow> f a | Inr b \<Rightarrow> g b)"
  by (cases x) auto

lemmas keeps_rules = keeps_bind keeps_catch keeps_transaction keeps_simple keeps_if keeps_option keeps_prod keeps_Let keeps_sum

text \<open>The precondition of a guarded continuation may use what the guard read.\<close>

lemma valid_get: "(\<And>a. valid (\<lambda>s. P s \<and> a = f s) (k a) Q E) \<Longrightarrow> valid P (bindIO (getIO f) k) Q E"
  by (auto simp: valid_def)

lemma valid_lift: "(\<And>a. r = Inr a \<Longrightarrow> valid P (k a) Q E) \<Longrightarrow> (\<And>e s. P s \<Longrightarrow> E e s) \<Longrightarrow> valid P (bindIO (liftIO r) k) Q E"
  by (cases r) (auto simp: valid_def)

lemma valid_False: "valid (\<lambda>s. False) m Q E"
  by (simp add: valid_def)

section \<open>The well-formed database\<close>

definition is_full :: "reservation \<Rightarrow> bool" where
  "is_full r \<longleftrightarrow> rs_status r = ResActive \<and> rs_ipAddress r = None"

text \<open>
  No constraint of the schema covers full-subnet reservations (their address is NULL): that a subnet has
  at most one active one is the program's own promise.
\<close>

definition full_ok :: "reservation list \<Rightarrow> bool" where
  "full_ok rs \<longleftrightarrow> distinct (map rs_subnetId (filter is_full rs))"

definition world_ok :: "'d world \<Rightarrow> bool" where
  "world_ok w \<longleftrightarrow> db_ok w \<and> full_ok (w_reservations w)"

lemmas world_ok_defs = world_ok_def db_ok_def refs_ok_def

lemma world_ok_frame [simp]:
  "world_ok (w\<lparr>w_device := d\<rparr>) = world_ok w" "world_ok (w\<lparr>w_events := ev\<rparr>) = world_ok w"
  "world_ok (w\<lparr>w_templates := ts\<rparr>) = world_ok w" "world_ok (w\<lparr>w_staleAfterDays := sd\<rparr>) = world_ok w"
  "world_ok (w\<lparr>w_detectionStartedAt := st\<rparr>) = world_ok w"
  by (simp_all add: world_ok_defs)

text \<open>A row update that moves nothing and revives nothing.\<close>

definition calm :: "(reservation \<Rightarrow> reservation) \<Rightarrow> bool" where
  "calm f \<longleftrightarrow> (\<forall>r. rs_id (f r) = rs_id r \<and> rs_subnetId (f r) = rs_subnetId r \<and> rs_ipAddress (f r) = rs_ipAddress r \<and>
     (rs_status (f r) = ResActive \<longrightarrow> rs_status r = ResActive))"

lemma full_ok_filter: "full_ok rs \<Longrightarrow> full_ok (filter P rs)"
  by (induction rs) (auto simp: full_ok_def)

lemma full_ok_delete: "full_ok rs \<Longrightarrow> full_ok (delete_rows P rs)"
  by (simp add: delete_rows_def full_ok_filter)

lemma set_delete_rows [simp]: "set (delete_rows P rows) = {r \<in> set rows. \<not> P r}"
  by (auto simp: delete_rows_def)

lemma full_ok_calm:
  assumes "full_ok rs" "calm f"
  shows "full_ok (map (\<lambda>r. if P r then f r else r) rs)"
proof -
  define g where "g = (\<lambda>r. if P r then f r else r)"
  have g: "is_full (g r) \<Longrightarrow> is_full r" "rs_subnetId (g r) = rs_subnetId r" for r
    using assms(2) by (auto simp: g_def calm_def is_full_def split: if_splits)
  have "map rs_subnetId (filter is_full (map g rs)) = map rs_subnetId (filter (is_full \<circ> g) (filter is_full rs))"
    by (induction rs) (use g in auto)
  then show ?thesis
    using assms(1) unfolding full_ok_def g_def [symmetric] by (metis distinct_map_filter)
qed

lemma image_rest: "x \<in> f ` A \<Longrightarrow> x \<notin> f ` {a \<in> A. P a} \<Longrightarrow> x \<in> f ` {a \<in> A. \<not> P a}"
  by blast

lemma table_upd_calm:
  assumes "world_ok w" "calm f" "update_rows reservationKey P f (w_reservations w) = Inr rs"
  shows "world_ok (w\<lparr>w_reservations := rs\<rparr>)"
proof -
  have rs: "rs = map (\<lambda>r. if P r then f r else r) (w_reservations w)" by (rule res.upd_map [OF assms(3)])
  have "table_ok rs_id reservationKey rs"
    using res.upd_good [OF _ _ assms(3)] assms(1,2) by (simp add: world_ok_defs calm_def)
  moreover have "full_ok rs" using full_ok_calm assms(1,2) by (simp add: rs world_ok_def)
  moreover have "\<forall>r \<in> set rs. rs_subnetId r \<in> sn_id ` set (w_subnets w)"
    using assms(1,2) by (auto simp: rs world_ok_defs calm_def)
  ultimately show ?thesis using assms(1) by (simp add: world_ok_defs)
qed

lemma keeps_log: "keeps world_ok (logEvent e)"
  by (simp add: logEvent_def keeps_modify)

lemma keeps_updateRow: "calm f \<Longrightarrow> keeps world_ok (updateReservationRow i f)"
  using table_upd_calm
  by (fastforce simp: valid_def updateReservationRow_def split: option.splits sum.splits)

lemma keeps_updateMany: "calm f \<Longrightarrow> keeps world_ok (updateManyReservations P f)"
  using table_upd_calm
  by (fastforce simp: valid_def updateManyReservations_def split: sum.splits)

lemma keeps_deleteReservations: "keeps world_ok (deleteReservations P)"
  unfolding deleteReservations_def
  by (rule keeps_modify) (auto simp: world_ok_defs res.del_good full_ok_delete)

lemma keeps_updateSubnet:
  assumes "\<And>s. sn_id (f s) = sn_id s \<and> sn_blockId (f s) = sn_blockId s"
  shows "keeps world_ok (updateSubnetRow i f)"
  unfolding updateSubnetRow_def
proof (rule keeps_modify)
  fix w :: "'d world" assume ok: "world_ok w"
  let ?ss = "map (\<lambda>s. if sn_id s = i then f s else s) (w_subnets w)"
  have ids: "map sn_id ?ss = map sn_id (w_subnets w)" using assms by (intro distinct_map_upd) simp
  have "sn_id ` set ?ss = sn_id ` set (w_subnets w)" by (metis ids set_map)
  moreover have "distinct (map sn_id ?ss)" unfolding ids using ok by (simp add: world_ok_defs table_ok_def)
  then have "table_ok sn_id subnetKey ?ss" by (simp add: table_ok_def subnetKey_def map_filter_def del: map_map)
  ultimately show "world_ok (w\<lparr>w_subnets := ?ss\<rparr>)"
    using ok assms by (auto simp: world_ok_defs)
qed

lemma keeps_deleteSubnets: "world_ok w \<Longrightarrow> world_ok (deleteSubnetRows P w)"
  by (auto simp: world_ok_defs deleteSubnetRows_def Let_def full_ok_delete sub.del_good res.del_good intro: image_rest)

lemma keeps_deleteBlock: "world_ok w \<Longrightarrow> world_ok (deleteBlockRow i w)"
  by (auto simp: world_ok_defs deleteBlockRow_def deleteSubnetRows_def Let_def full_ok_delete sub.del_good res.del_good
      blk.del_good intro: image_rest)

text \<open>What an insert needs.\<close>

definition may_insert :: "reservation \<Rightarrow> 'd world \<Rightarrow> bool" where
  "may_insert r w \<longleftrightarrow> rs_subnetId r \<in> sn_id ` set (w_subnets w) \<and>
     (is_full r \<longrightarrow> (\<forall>q \<in> set (w_reservations w). is_full q \<longrightarrow> rs_subnetId q \<noteq> rs_subnetId r))"

lemma valid_createReservation:
  "valid (\<lambda>w. world_ok w \<and> may_insert r w) (createReservationRow r) (\<lambda>_. world_ok) (\<lambda>_. world_ok)"
proof (rule validI)
  fix w a and w' :: "'d world"
  assume *: "world_ok w \<and> may_insert r w" "createReservationRow r w = (Inr a, w')"
  then obtain rs where rs: "insert_row rs_id reservationKey r (w_reservations w) = Inr rs" "w' = w\<lparr>w_reservations := rs\<rparr>"
    by (auto simp: createReservationRow_def split: sum.splits)
  have "rs = w_reservations w @ [r]" using res.ins_append [OF rs(1)] by simp
  moreover have "table_ok rs_id reservationKey rs" using res.ins_good [OF _ rs(1)] *(1) by (simp add: world_ok_defs)
  ultimately show "world_ok w'"
    using *(1) by (auto simp: rs(2) world_ok_defs full_ok_def may_insert_def)
qed (auto simp: createReservationRow_def split: sum.splits)

lemma valid_createSubnet:
  "valid (\<lambda>w. world_ok w \<and> sn_blockId s \<in> bl_id ` set (w_blocks w)) (createSubnetRow s) (\<lambda>_. world_ok) (\<lambda>_. world_ok)"
proof (rule validI)
  fix w a and w' :: "'d world"
  assume *: "world_ok w \<and> sn_blockId s \<in> bl_id ` set (w_blocks w)" "createSubnetRow s w = (Inr a, w')"
  then obtain ss where ss: "insert_row sn_id subnetKey s (w_subnets w) = Inr ss" "w' = w\<lparr>w_subnets := ss\<rparr>"
    by (auto simp: createSubnetRow_def split: sum.splits)
  have "ss = w_subnets w @ [s]" using sub.ins_append [OF ss(1)] by simp
  moreover have "table_ok sn_id subnetKey ss" using sub.ins_good [OF _ ss(1)] *(1) by (simp add: world_ok_defs)
  ultimately show "world_ok w'" using *(1) by (auto simp: ss(2) world_ok_defs)
qed (auto simp: createSubnetRow_def split: sum.splits)

lemma keeps_createBlock: "keeps world_ok (createBlockRow b)"
proof (rule validI)
  fix w a and w' :: "'d world"
  assume *: "world_ok w" "createBlockRow b w = (Inr a, w')"
  then obtain bs where bs: "insert_row bl_id blockKey b (w_blocks w) = Inr bs" "w' = w\<lparr>w_blocks := bs\<rparr>"
    by (auto simp: createBlockRow_def split: sum.splits)
  have "bs = w_blocks w @ [b]" using blk.ins_append [OF bs(1)] by simp
  moreover have "table_ok bl_id blockKey bs" using blk.ins_good [OF _ bs(1)] *(1) by (simp add: world_ok_defs)
  ultimately show "world_ok w'" using *(1) by (auto simp: bs(2) world_ok_defs)
qed (auto simp: createBlockRow_def split: sum.splits)

lemmas keeps_prims = keeps_log keeps_updateRow keeps_updateMany keeps_deleteReservations keeps_updateSubnet
  keeps_createBlock keeps_device

end
