(* ===== verification/Blocks.thy ===== *)
theory Blocks
  imports Store
begin

text \<open>
  \<^verbatim>\<open>src/services/blockService.ts\<close> and the validation helpers of \<^verbatim>\<open>src/services/ipService.ts\<close>: the
  lifecycle of IP blocks. The order a query imposes on text columns is the database's collation, a
  parameter \<open>byCidr\<close> of the listing operations.
\<close>

section \<open>Shared conventions of the services\<close>

text \<open>A field of an update payload: \<^verbatim>\<open>undefined\<close> leaves the column as it is.\<close>

definition keep :: "'a option \<Rightarrow> 'a \<Rightarrow> 'a" where
  "keep new old = (case new of None \<Rightarrow> old | Some v \<Rightarrow> v)"

definition keep_opt :: "'a option \<Rightarrow> 'a option \<Rightarrow> 'a option" where
  "keep_opt new old = (case new of None \<Rightarrow> old | Some v \<Rightarrow> Some v)"

definition notFound :: "string \<Rightarrow> string \<Rightarrow> error" where
  "notFound what i = AppError 404 (what @ '' '' @ i @ '' not found'')"

section \<open>ipService: validation helpers\<close>

definition assertValidIp :: "string \<Rightarrow> unit result" where
  "assertValidIp ip =
     (if \<not> isValidIpAddress ip then Inl (AppError 400 (''Invalid IP address: '' @ ip)) else Inr ())"

definition assertValidCidr :: "netmask_lib \<Rightarrow> string \<Rightarrow> string result" where
  "assertValidCidr N cidr =
     (if \<not> isValidCidr N cidr then Inl (AppError 400 (''Invalid CIDR notation: '' @ cidr))
      else normalizeCidr N cidr)"

definition assertIpInSubnet :: "netmask_lib \<Rightarrow> string \<Rightarrow> string \<Rightarrow> unit result" where
  "assertIpInSubnet N ip subnetCidr =
     (if \<not> ipInCidr N ip subnetCidr
      then Inl (AppError 400 (''IP '' @ ip @ '' is not within subnet '' @ subnetCidr)) else Inr ())"

definition isIpAvailable :: "string \<Rightarrow> string \<Rightarrow> ('d world, bool) io" where
  "isIpAvailable ip subnetId =
     bindIO (liftIO (assertValidIp ip)) (\<lambda>_.
     getIO (\<lambda>w. find (\<lambda>r. rs_subnetId r = subnetId \<and> rs_ipAddress r = Some ip \<and> rs_status r = ResActive)
                     (w_reservations w) = None))"

definition getActiveReservationsForSubnet ::
  "(reservation list \<Rightarrow> reservation list) \<Rightarrow> string \<Rightarrow> ('d world, reservation list) io" where
  "getActiveReservationsForSubnet byIp subnetId =
     getIO (\<lambda>w. byIp (filter (\<lambda>r. rs_subnetId r = subnetId \<and> rs_status r = ResActive) (w_reservations w)))"

section \<open>blockService\<close>

record createBlockInput =
  cb_name :: string
  cb_cidr :: string
  cb_description :: "string option"
  cb_tags :: "string list option"

record updateBlockInput =
  ub_name :: "string option"
  ub_description :: "string option"
  ub_tags :: "string list option"

text \<open>Each block comes with the number of its subnets (\<^verbatim>\<open>_count\<close>).\<close>

definition listBlocks ::
  "(ipBlock list \<Rightarrow> ipBlock list) \<Rightarrow> ipVersion option \<Rightarrow> string option \<Rightarrow> ('d world, (ipBlock \<times> nat) list) io" where
  "listBlocks byCidr version tag =
     getIO (\<lambda>w.
       let blocks = byCidr (filter (\<lambda>b. case version of None \<Rightarrow> True | Some v \<Rightarrow> bl_ipVersion b = v) (w_blocks w));
           tagged = (if truthy tag then filter (\<lambda>b. the tag \<in> set (bl_tags b)) blocks else blocks)
       in map (\<lambda>b. (b, length (filter (\<lambda>s. sn_blockId s = bl_id b) (w_subnets w)))) tagged)"

definition getBlock ::
  "(subnet list \<Rightarrow> subnet list) \<Rightarrow> string \<Rightarrow> ('d world, ipBlock \<times> (subnet \<times> nat) list) io" where
  "getBlock byCidr i =
     bindIO (getIO (findBlock i)) (\<lambda>b.
     case b of
       None \<Rightarrow> throwIO (notFound ''IP Block'' i)
     | Some block \<Rightarrow>
         getIO (\<lambda>w. (block,
           map (\<lambda>s. (s, length (filter (\<lambda>r. rs_subnetId r = sn_id s) (w_reservations w))))
               (byCidr (filter (\<lambda>s. sn_blockId s = i) (w_subnets w))))))"

definition createBlock :: "netmask_lib \<Rightarrow> createBlockInput \<Rightarrow> string \<Rightarrow> ('d world, ipBlock) io" where
  "createBlock N input uid =
     (if \<not> isValidCidr N (cb_cidr input)
      then throwIO (AppError 400 (''Invalid CIDR notation: '' @ cb_cidr input))
      else
        bindIO (liftIO (normalizeCidr N (cb_cidr input))) (\<lambda>normalizedCidr.
        bindIO (getIO (\<lambda>w. find (\<lambda>b. bl_cidr b = normalizedCidr) (w_blocks w))) (\<lambda>existing.
        if existing \<noteq> None
        then throwIO (AppError 409 (''IP Block with CIDR '' @ normalizedCidr @ '' already exists''))
        else createBlockRow
               \<lparr>bl_id = uid, bl_name = cb_name input, bl_cidr = normalizedCidr,
                bl_ipVersion = detectIpVersion normalizedCidr, bl_description = cb_description input,
                bl_tags = (case cb_tags input of None \<Rightarrow> [] | Some ts \<Rightarrow> ts)\<rparr>)))"

definition updateBlock :: "string \<Rightarrow> updateBlockInput \<Rightarrow> ('d world, unit) io" where
  "updateBlock i input =
     bindIO (getIO (findBlock i)) (\<lambda>b.
     if b = None then throwIO (notFound ''IP Block'' i)
     else modifyIO (\<lambda>w. w\<lparr>w_blocks :=
            map (\<lambda>b. if bl_id b = i
                     then b\<lparr>bl_name := keep (ub_name input) (bl_name b),
                            bl_description := keep_opt (ub_description input) (bl_description b),
                            bl_tags := keep (ub_tags input) (bl_tags b)\<rparr>
                     else b) (w_blocks w)\<rparr>))"

definition deleteBlock :: "string \<Rightarrow> ('d world, ipBlock) io" where
  "deleteBlock i =
     bindIO (getIO (findBlock i)) (\<lambda>b.
     case b of
       None \<Rightarrow> throwIO (notFound ''IP Block'' i)
     | Some block \<Rightarrow>
         bindIO (getIO (\<lambda>w.
           let ids = map sn_id (filter (\<lambda>s. sn_blockId s = i) (w_subnets w))
           in length (filter (\<lambda>r. rs_subnetId r \<in> set ids \<and> rs_status r = ResActive) (w_reservations w))))
         (\<lambda>activeReservations.
         if activeReservations > 0
         then throwIO (AppError 409 (''Cannot delete block '' @ bl_cidr block @ '' '' @ emdash @ '' it has '' @
                string_of_nat activeReservations @ '' active reservation(s) across its subnets''))
         else bindIO (modifyIO (deleteBlockRow i)) (\<lambda>_. returnIO block)))"

end
