(* ===== verification/Subnets.thy ===== *)
theory Subnets
  imports Blocks
begin

text \<open>
  \<^verbatim>\<open>src/services/subnetService.ts\<close>: listing, creation, automatic allocation, template allocation and
  its preview, update, the per-address view of a subnet, and deletion.
\<close>

section \<open>Inputs\<close>

record createSubnetInput =
  cs_blockId :: string
  cs_cidr :: string
  cs_name :: string
  cs_purpose :: "string option"
  cs_vlan :: "int option"
  cs_tags :: "string list option"
  cs_createdBy :: "string option"

record updateSubnetInput =
  us_name :: "string option"
  us_purpose :: "string option"
  us_status :: "subnetStatus option"
  us_vlan :: "int option"
  us_tags :: "string list option"
  us_convertToManual :: bool

record listSubnetsFilter =
  ls_blockId :: "string option"
  ls_status :: "subnetStatus option"
  ls_tag :: "string option"
  ls_createdBy :: "string option"
  ls_limit :: nat
  ls_offset :: nat

text \<open>A filter value that is \<^verbatim>\<open>undefined\<close> or empty is not part of the \<^verbatim>\<open>where\<close> clause.\<close>

definition where_eq :: "string option \<Rightarrow> string option \<Rightarrow> bool" where
  "where_eq f v = (if truthy f then v = f else True)"

text \<open>A listed subnet with the joined columns: block, integration, number of reservations.\<close>

type_synonym subnetListRow = "subnet \<times> (string \<times> string) option \<times> (string \<times> string) option \<times> nat"

definition subnetListRowOf :: "'d world \<Rightarrow> subnet \<Rightarrow> subnetListRow" where
  "subnetListRowOf w s =
     (s, map_option (\<lambda>b. (bl_name b, bl_cidr b)) (findBlock (sn_blockId s) w),
      map_option (\<lambda>g. (ig_id g, ig_name g)) (subnetIntegration s w),
      length (filter (\<lambda>r. rs_subnetId r = sn_id s) (w_reservations w)))"

definition listSubnets ::
  "(subnet list \<Rightarrow> subnet list) \<Rightarrow> listSubnetsFilter \<Rightarrow> ('d world, subnetListRow list \<times> nat \<times> nat \<times> nat) io" where
  "listSubnets byCidr flt =
     getIO (\<lambda>w.
       let lim = min (if ls_limit flt = 0 then 50 else ls_limit flt) 10000;
           off = ls_offset flt;
           rows = filter (\<lambda>s. where_eq (ls_blockId flt) (Some (sn_blockId s)) \<and>
                              (case ls_status flt of None \<Rightarrow> True | Some st \<Rightarrow> sn_status s = st) \<and>
                              where_eq (ls_createdBy flt) (sn_createdBy s)) (w_subnets w);
           page = take lim (drop off (byCidr rows));
           filtered = (if truthy (ls_tag flt) then filter (\<lambda>s. the (ls_tag flt) \<in> set (sn_tags s)) page else page)
       in (map (subnetListRowOf w) filtered, length rows, lim, off))"

section \<open>Get and create\<close>

text \<open>The reservations come newest first (\<^verbatim>\<open>orderBy: { createdAt: "desc" }\<close>).\<close>

definition getSubnet ::
  "string \<Rightarrow> ('d world, subnet \<times> ipBlock option \<times> (string \<times> string) option \<times> reservation list) io" where
  "getSubnet i =
     bindIO (getIO (findSubnet i)) (\<lambda>s.
     case s of
       None \<Rightarrow> throwIO (notFound ''Subnet'' i)
     | Some sub \<Rightarrow>
         getIO (\<lambda>w. (sub, findBlock (sn_blockId sub) w,
                     map_option (\<lambda>g. (ig_id g, ig_name g)) (subnetIntegration sub w),
                     sort_key (\<lambda>r. - rs_createdAt r) (filter (\<lambda>r. rs_subnetId r = i) (w_reservations w)))))"

definition siblingsOf :: "string \<Rightarrow> 'd world \<Rightarrow> subnet list" where
  "siblingsOf blockId w = filter (\<lambda>s. sn_blockId s = blockId) (w_subnets w)"

definition createSubnet :: "netmask_lib \<Rightarrow> createSubnetInput \<Rightarrow> string \<Rightarrow> ('d world, subnet) io" where
  "createSubnet N input uid =
     (if \<not> isValidCidr N (cs_cidr input)
      then throwIO (AppError 400 (''Invalid CIDR notation: '' @ cs_cidr input))
      else
        bindIO (liftIO (normalizeCidr N (cs_cidr input))) (\<lambda>normalizedCidr.
        bindIO (getIO (findBlock (cs_blockId input))) (\<lambda>b.
        case b of
          None \<Rightarrow> throwIO (notFound ''IP Block'' (cs_blockId input))
        | Some block \<Rightarrow>
            (if \<not> cidrContains N (bl_cidr block) normalizedCidr
             then throwIO (AppError 400 (''Subnet '' @ normalizedCidr @ '' is not within block '' @ bl_cidr block))
             else if detectIpVersion normalizedCidr \<noteq> bl_ipVersion block
             then throwIO (AppError 400 (''Subnet IP version does not match block IP version ('' @
                    (case bl_ipVersion block of V4 \<Rightarrow> ''v4'' | V6 \<Rightarrow> ''v6'') @ '')''))
             else
               bindIO (getIO (siblingsOf (cs_blockId input))) (\<lambda>siblings.
               case find (\<lambda>s. cidrOverlaps N (sn_cidr s) normalizedCidr) siblings of
                 Some overlap \<Rightarrow>
                   throwIO (AppError 409 (''Subnet '' @ normalizedCidr @ '' overlaps with existing subnet '' @ sn_cidr overlap))
               | None \<Rightarrow>
                   createSubnetRow
                     \<lparr>sn_id = uid, sn_blockId = cs_blockId input, sn_cidr = normalizedCidr, sn_name = cs_name input,
                      sn_purpose = cs_purpose input, sn_status = SubAvailable, sn_vlan = cs_vlan input,
                      sn_tags = (case cs_tags input of None \<Rightarrow> [] | Some ts \<Rightarrow> ts), sn_discoveredBy = None,
                      sn_fortigateDevice = None, sn_createdBy = cs_createdBy input, sn_lastDiscoveredAt = None\<rparr>)))))"

section \<open>Automatic allocation\<close>

text \<open>The metadata is a \<open>createSubnetInput\<close> whose \<open>blockId\<close> and \<open>cidr\<close> are overwritten.\<close>

definition allocateNextSubnet ::
  "netmask_lib \<Rightarrow> string \<Rightarrow> nat \<Rightarrow> createSubnetInput \<Rightarrow> string \<Rightarrow> ('d world, subnet) io" where
  "allocateNextSubnet N blockId prefixLength metadata uid =
     bindIO (getIO (findBlock blockId)) (\<lambda>b.
     case b of
       None \<Rightarrow> throwIO (notFound ''IP Block'' blockId)
     | Some block \<Rightarrow>
         (if bl_ipVersion block \<noteq> V4
          then throwIO (AppError 400 ''Auto-allocation is currently only supported for IPv4 blocks'')
          else if prefixLength < 8 \<or> prefixLength > 32
          then throwIO (AppError 400 ''Prefix length must be between 8 and 32'')
          else
            bindIO (getIO (siblingsOf blockId)) (\<lambda>existing.
            bindIO (liftIO (findNextAvailableSubnet N (bl_cidr block) (map sn_cidr existing) prefixLength)) (\<lambda>nextCidr.
            case nextCidr of
              None \<Rightarrow> throwIO (AppError 409 (''No available /'' @ string_of_nat prefixLength @
                         '' subnet found in block '' @ bl_cidr block))
            | Some c \<Rightarrow> createSubnet N (metadata\<lparr>cs_blockId := blockId, cs_cidr := c\<rparr>) uid))))"

section \<open>Bulk allocation from a template\<close>

record bulkEntry =
  be_skip :: bool
  be_name :: "string option"
  be_prefixLength :: nat
  be_vlan :: "int option"

record bulkAllocateInput =
  ba_blockId :: string
  ba_prefix :: string
  ba_entries :: "bulkEntry list"
  ba_tags :: "string list option"
  ba_anchorPrefix :: "nat option"
  ba_createdBy :: "string option"

record bulkAllocateResult =
  br_created :: "(string \<times> string \<times> string) list"
  br_anchorCidr :: string
  br_effectiveAnchorPrefix :: nat

definition bad_prefix :: "nat \<Rightarrow> bool" where
  "bad_prefix p \<longleftrightarrow> p < 8 \<or> p > 32"

definition entry_label :: "bulkEntry \<Rightarrow> string" where
  "entry_label e = (if be_skip e then ''skip'' else keep (be_name e) ''unnamed'')"

text \<open>The validation loop over the entries: the first offending entry decides the error.\<close>

fun validate_entries :: "bulkEntry list \<Rightarrow> unit result" where
  "validate_entries [] = Inr ()"
| "validate_entries (e # es) =
     (if bad_prefix (be_prefixLength e)
      then Inl (AppError 400 (''Entry \"'' @ entry_label e @ ''\" has an invalid prefix length''))
      else if \<not> be_skip e \<and> (\<not> truthy (be_name e) \<or> trim (the (be_name e)) = [])
      then Inl (AppError 400 ''Every non-skip entry must have a name'')
      else validate_entries es)"

text \<open>The defence-in-depth check: the first creatable assignment that meets an existing subnet.\<close>

definition first_clash :: "netmask_lib \<Rightarrow> subnet list \<Rightarrow> (bulkEntry \<times> string) list \<Rightarrow> (string \<times> string) option" where
  "first_clash N existing asg =
     (case List.map_filter (\<lambda>(e, c). if be_skip e then None
             else map_option (\<lambda>s. (c, sn_cidr s)) (find (\<lambda>s. cidrOverlaps N (sn_cidr s) c) existing)) asg of
        [] \<Rightarrow> None | x # _ \<Rightarrow> Some x)"

text \<open>The creation loop; \<open>uids\<close> supplies the ids of the rows it creates.\<close>

fun create_assigned ::
  "netmask_lib \<Rightarrow> bulkAllocateInput \<Rightarrow> string \<Rightarrow> (bulkEntry \<times> string) list \<Rightarrow> string list \<Rightarrow>
   ('d world, (string \<times> string \<times> string) list) io" where
  "create_assigned N input pfx [] uids = returnIO []"
| "create_assigned N input pfx ((e, c) # asg) uids =
     (if be_skip e then create_assigned N input pfx asg uids
      else
        bindIO (liftIO (normalizeCidr N c)) (\<lambda>normalized.
        bindIO (createSubnetRow
                  \<lparr>sn_id = hd uids, sn_blockId = ba_blockId input, sn_cidr = normalized,
                   sn_name = pfx @ ''_'' @ keep (be_name e) ''undefined'',
                   sn_purpose = None, sn_status = SubAvailable, sn_vlan = be_vlan e,
                   sn_tags = keep (ba_tags input) [], sn_discoveredBy = None, sn_fortigateDevice = None,
                   sn_createdBy = ba_createdBy input, sn_lastDiscoveredAt = None\<rparr>) (\<lambda>row.
        bindIO (create_assigned N input pfx asg (tl uids)) (\<lambda>rest.
        returnIO ((sn_id row, sn_name row, sn_cidr row) # rest)))))"

definition bulkAllocate ::
  "netmask_lib \<Rightarrow> bulkAllocateInput \<Rightarrow> string list \<Rightarrow> ('d world, bulkAllocateResult) io" where
  "bulkAllocate N input uids =
     (let requestedAnchor = keep (ba_anchorPrefix input) 24
      in
      if ba_prefix input = [] \<or> trim (ba_prefix input) = []
      then throwIO (AppError 400 ''A site/prefix name is required'')
      else if ba_entries input = []
      then throwIO (AppError 400 ''At least one entry is required'')
      else if bad_prefix requestedAnchor
      then throwIO (AppError 400 ''Anchor prefix must be between /8 and /32'')
      else
        bindIO (liftIO (validate_entries (ba_entries input))) (\<lambda>_.
        if \<not> list_ex (\<lambda>e. \<not> be_skip e) (ba_entries input)
        then throwIO (AppError 400 ''At least one non-skip entry is required'')
        else
          bindIO (getIO (findBlock (ba_blockId input))) (\<lambda>b.
          case b of
            None \<Rightarrow> throwIO (notFound ''IP Block'' (ba_blockId input))
          | Some block \<Rightarrow>
              (if bl_ipVersion block \<noteq> V4
               then throwIO (AppError 400 ''Auto-allocation is currently only supported for IPv4 blocks'')
               else
                 transactionIO
                   (bindIO (getIO (siblingsOf (ba_blockId input))) (\<lambda>existing.
                    bindIO (liftIO (packIntoAnchor N be_prefixLength (bl_cidr block) (map sn_cidr existing)
                                      (ba_entries input) requestedAnchor)) (\<lambda>packed.
                    case packed of
                      None \<Rightarrow> throwIO (AppError 409 (''No free /'' @ string_of_nat requestedAnchor @
                                 ''-aligned region in block '' @ bl_cidr block @ '' large enough to hold the template''))
                    | Some pr \<Rightarrow>
                        (case first_clash N existing (assignments pr) of
                           Some (c, s) \<Rightarrow> throwIO (AppError 409 (''Computed subnet '' @ c @ '' overlaps existing '' @ s))
                         | None \<Rightarrow>
                             bindIO (create_assigned N input (trim (ba_prefix input)) (assignments pr) uids) (\<lambda>created.
                             returnIO \<lparr>br_created = created, br_anchorCidr = anchorCidr pr,
                                       br_effectiveAnchorPrefix = effectiveAnchorPrefix pr\<rparr>)))))))))"

section \<open>Preview\<close>

record previewAssignment =
  pa_name :: "string option"
  pa_skip :: bool
  pa_prefixLength :: nat
  pa_cidr :: "string option"

record previewResult =
  pv_fits :: bool
  pv_anchorCidr :: "string option"
  pv_effectiveAnchorPrefix :: "nat option"
  pv_assignments :: "previewAssignment list"
  pv_totalAddresses :: nat
  pv_slashTwentyFourCount :: nat
  pv_blockCidr :: string
  pv_error :: "string option"

definition preview_entry :: "bulkEntry \<Rightarrow> string option \<Rightarrow> previewAssignment" where
  "preview_entry e c =
     \<lparr>pa_name = (if be_skip e then None else be_name e), pa_skip = be_skip e,
      pa_prefixLength = be_prefixLength e, pa_cidr = c\<rparr>"

definition previewBulkAllocate ::
  "netmask_lib \<Rightarrow> string \<Rightarrow> bulkEntry list \<Rightarrow> nat option \<Rightarrow> ('d world, previewResult) io" where
  "previewBulkAllocate N blockId entries anchorPrefix =
     (let requestedAnchor = keep anchorPrefix 24
      in
      if bad_prefix requestedAnchor
      then throwIO (AppError 400 ''Anchor prefix must be between /8 and /32'')
      else
        bindIO (getIO (findBlock blockId)) (\<lambda>b.
        case b of
          None \<Rightarrow> throwIO (notFound ''IP Block'' blockId)
        | Some block \<Rightarrow>
            (let no = \<lparr>pv_fits = False, pv_anchorCidr = None, pv_effectiveAnchorPrefix = None, pv_assignments = [],
                       pv_totalAddresses = 0, pv_slashTwentyFourCount = 0, pv_blockCidr = bl_cidr block, pv_error = None\<rparr>
             in
             if list_ex (\<lambda>e. bad_prefix (be_prefixLength e)) entries
             then returnIO (no\<lparr>pv_error := Some ''An entry has an invalid prefix length''\<rparr>)
             else
               (let totalAddresses = sum_list (map (\<lambda>e. 2 ^ (32 - be_prefixLength e)) entries);
                    no' = no\<lparr>pv_totalAddresses := totalAddresses,
                             pv_slashTwentyFourCount := (totalAddresses + 255) div 256\<rparr>
                in
                if bl_ipVersion block \<noteq> V4
                then returnIO (no'\<lparr>pv_error := Some ''Auto-allocation is currently only supported for IPv4 blocks''\<rparr>)
                else if entries = [] then returnIO no'
                else
                  bindIO (getIO (siblingsOf blockId)) (\<lambda>existing.
                  bindIO (liftIO (packIntoAnchor N be_prefixLength (bl_cidr block) (map sn_cidr existing)
                                    entries requestedAnchor)) (\<lambda>packed.
                  case packed of
                    None \<Rightarrow> returnIO (no'\<lparr>pv_assignments := map (\<lambda>e. preview_entry e None) entries\<rparr>)
                  | Some pr \<Rightarrow>
                      returnIO (no'\<lparr>pv_fits := True, pv_anchorCidr := Some (anchorCidr pr),
                                    pv_effectiveAnchorPrefix := Some (effectiveAnchorPrefix pr),
                                    pv_assignments := map (\<lambda>(e, c). preview_entry e (Some c)) (assignments pr)\<rparr>)))))))"

section \<open>Update\<close>

definition updateSubnet :: "string \<Rightarrow> updateSubnetInput \<Rightarrow> ('d world, unit) io" where
  "updateSubnet i input =
     bindIO (getIO (findSubnet i)) (\<lambda>s.
     if s = None then throwIO (notFound ''Subnet'' i)
     else updateSubnetRow i (\<lambda>s.
            (let s' = s\<lparr>sn_name := keep (us_name input) (sn_name s),
                        sn_purpose := keep_opt (us_purpose input) (sn_purpose s),
                        sn_status := keep (us_status input) (sn_status s),
                        sn_vlan := keep_opt (us_vlan input) (sn_vlan s),
                        sn_tags := keep (us_tags input) (sn_tags s)\<rparr>
             in if us_convertToManual input then s'\<lparr>sn_discoveredBy := None, sn_fortigateDevice := None\<rparr> else s')))"

section \<open>The per-address view\<close>

text \<open>\<^verbatim>\<open>reservationMap\<close>: one reservation per address, an active one before any other.\<close>

definition reservationMap :: "reservation list \<Rightarrow> string \<Rightarrow> reservation option" where
  "reservationMap rs =
     foldl (\<lambda>m r. case rs_ipAddress r of
              None \<Rightarrow> m
            | Some ip \<Rightarrow>
                (if ip = [] then m
                 else (case m ip of
                         None \<Rightarrow> m(ip \<mapsto> r)
                       | Some existing \<Rightarrow>
                           (if rs_status r = ResActive \<and> rs_status existing \<noteq> ResActive then m(ip \<mapsto> r) else m))))
           Map.empty rs"

text \<open>
  The two asset maps: the last asset with an address, the first one with a hostname. The assets come
  in table order, the order an unordered \<^verbatim>\<open>findMany\<close> returns.
\<close>

definition assetByIp :: "asset list \<Rightarrow> string \<Rightarrow> string option" where
  "assetByIp as =
     foldl (\<lambda>m a. if truthy (as_ipAddress a) then m(the (as_ipAddress a) \<mapsto> as_id a) else m) Map.empty as"

definition assetByHostname :: "asset list \<Rightarrow> string \<Rightarrow> string option" where
  "assetByHostname as =
     foldl (\<lambda>m a. if truthy (as_hostname a) \<and> m (the (as_hostname a)) = None
                  then m(the (as_hostname a) \<mapsto> as_id a) else m) Map.empty as"

text \<open>\<^verbatim>\<open>where: { OR: [ipAddress in addrs, hostname in hostnames] }\<close>\<close>

definition assetsFor :: "string list \<Rightarrow> string list \<Rightarrow> 'd world \<Rightarrow> asset list" where
  "assetsFor addrs hostnames w =
     filter (\<lambda>a. (as_ipAddress a \<noteq> None \<and> the (as_ipAddress a) \<in> set addrs) \<or>
                 (as_hostname a \<noteq> None \<and> the (as_hostname a) \<in> set hostnames)) (w_assets w)"

definition assetIdFor :: "asset list \<Rightarrow> string \<Rightarrow> string option \<Rightarrow> string option" where
  "assetIdFor as ip hostname =
     (case assetByIp as ip of
        Some i \<Rightarrow> Some i
      | None \<Rightarrow> (if truthy hostname then assetByHostname as (the hostname) else None))"

record subnetInfo =
  si_name :: string
  si_cidr :: string
  si_status :: subnetStatus
  si_vlan :: "int option"
  si_purpose :: "string option"
  si_integration :: "(string \<times> string \<times> string) option"
  si_fortigateDevice :: "string option"
  si_pushEligible :: bool
  si_refreshEligible :: bool
  si_lastDiscoveredAt :: "int option"
  si_hasConflict :: bool
  si_conflictMessage :: "string option"

record reservationDto =
  dto_id :: string
  dto_hostname :: "string option"
  dto_owner :: "string option"
  dto_macAddress :: "string option"
  dto_status :: reservationStatus
  dto_sourceType :: sourceType
  dto_notes :: "string option"
  dto_expiresAt :: "int option"
  dto_createdBy :: "string option"
  dto_conflictMessage :: "string option"

record ipRow =
  ir_address :: string
  ir_type :: ipType
  ir_reservation :: "reservationDto option"
  ir_assetId :: "string option"

record subnetIpsResult =
  sr_subnet :: subnetInfo
  sr_ips :: "ipRow list"
  sr_ipv6 :: bool
  sr_totalIps :: int
  sr_page :: int
  sr_pageSize :: int

definition toReservationDto :: "reservation \<Rightarrow> reservationDto" where
  "toReservationDto r =
     \<lparr>dto_id = rs_id r, dto_hostname = rs_hostname r, dto_owner = rs_owner r, dto_macAddress = rs_macAddress r,
      dto_status = rs_status r, dto_sourceType = rs_sourceType r, dto_notes = rs_notes r,
      dto_expiresAt = rs_expiresAt r, dto_createdBy = rs_createdBy r, dto_conflictMessage = rs_conflictMessage r\<rparr>"

definition subnetInfoOf :: "subnet \<Rightarrow> integration option \<Rightarrow> reservation list \<Rightarrow> subnetInfo" where
  "subnetInfoOf s ig rs =
     (let isIpv6 = (detectIpVersion (sn_cidr s) = V6);
          fortinet = (case ig of None \<Rightarrow> False | Some g \<Rightarrow> ig_type g = ''fortimanager'' \<or> ig_type g = ''fortigate'');
          pushOn = (case ig of None \<Rightarrow> False | Some g \<Rightarrow> cf_pushReservations (ig_config g) = Some True);
          conflict = list_ex (\<lambda>r. truthy (rs_conflictMessage r)) rs
      in \<lparr>si_name = sn_name s, si_cidr = sn_cidr s, si_status = sn_status s, si_vlan = sn_vlan s,
          si_purpose = sn_purpose s,
          si_integration = map_option (\<lambda>g. (ig_id g, ig_name g, ig_type g)) ig,
          si_fortigateDevice = sn_fortigateDevice s,
          si_pushEligible = (\<not> isIpv6 \<and> fortinet \<and> pushOn \<and> truthy (sn_fortigateDevice s)),
          si_refreshEligible = (\<not> isIpv6 \<and> fortinet \<and> truthy (sn_fortigateDevice s)),
          si_lastDiscoveredAt = sn_lastDiscoveredAt s, si_hasConflict = conflict,
          si_conflictMessage = (if conflict then Some ''One or more IPs have conflicts'' else None)\<rparr>)"

definition v6_ips :: "reservation list \<Rightarrow> 'd world \<Rightarrow> ipRow list" where
  "v6_ips rs w =
     (let withIp = filter (\<lambda>r. truthy (rs_ipAddress r)) rs;
          addrs = map (\<lambda>r. the (rs_ipAddress r)) withIp;
          hostnames = List.map_filter (\<lambda>r. if truthy (rs_hostname r) then rs_hostname r else None) rs;
          as = assetsFor addrs hostnames w
      in map (\<lambda>r. \<lparr>ir_address = the (rs_ipAddress r), ir_type = IpHost, ir_reservation = Some (toReservationDto r),
                    ir_assetId = assetIdFor as (the (rs_ipAddress r)) (rs_hostname r)\<rparr>) withIp)"

definition v4_ips :: "enumeratedIp list \<Rightarrow> reservation list \<Rightarrow> 'd world \<Rightarrow> ipRow list" where
  "v4_ips addrs rs w =
     (let m = reservationMap rs;
          host = (\<lambda>ip. case m ip of None \<Rightarrow> None | Some r \<Rightarrow> rs_hostname r);
          pageAddrs = map address addrs;
          pageHostnames = List.map_filter (\<lambda>ip. if truthy (host ip) then host ip else None) pageAddrs;
          as = assetsFor pageAddrs pageHostnames w
      in map (\<lambda>a. \<lparr>ir_address = address a, ir_type = ip_type a,
                    ir_reservation = map_option toReservationDto (m (address a)),
                    ir_assetId = assetIdFor as (address a) (host (address a))\<rparr>) addrs)"

definition getSubnetIps :: "netmask_lib \<Rightarrow> string \<Rightarrow> int \<Rightarrow> int \<Rightarrow> ('d world, subnetIpsResult) io" where
  "getSubnetIps N i page pageSize =
     bindIO (getIO (findSubnet i)) (\<lambda>s.
     case s of
       None \<Rightarrow> throwIO (notFound ''Subnet'' i)
     | Some sub \<Rightarrow>
         bindIO (getIO (\<lambda>w. filter (\<lambda>r. rs_subnetId r = i) (w_reservations w))) (\<lambda>rs.
         bindIO (getIO (\<lambda>w. subnetInfoOf sub (subnetIntegration sub w) rs)) (\<lambda>info.
         if detectIpVersion (sn_cidr sub) = V6
         then bindIO (getIO (v6_ips rs)) (\<lambda>ips.
              returnIO \<lparr>sr_subnet = info, sr_ips = ips, sr_ipv6 = True, sr_totalIps = int (length ips),
                        sr_page = 1, sr_pageSize = int (length ips)\<rparr>)
         else bindIO (liftIO (enumerateSubnetIps N (sn_cidr sub) page pageSize)) (\<lambda>(addrs, tot).
              bindIO (getIO (v4_ips addrs rs)) (\<lambda>ips.
              returnIO \<lparr>sr_subnet = info, sr_ips = ips, sr_ipv6 = False, sr_totalIps = tot,
                        sr_page = page, sr_pageSize = pageSize\<rparr>)))))"

section \<open>Delete\<close>

definition deleteSubnet :: "string \<Rightarrow> ('d world, subnet \<times> reservation list) io" where
  "deleteSubnet i =
     bindIO (getIO (findSubnet i)) (\<lambda>s.
     case s of
       None \<Rightarrow> throwIO (notFound ''Subnet'' i)
     | Some sub \<Rightarrow>
         bindIO (getIO (\<lambda>w. filter (\<lambda>r. rs_subnetId r = i) (w_reservations w))) (\<lambda>reservations.
         bindIO (getIO (\<lambda>w. length (filter (\<lambda>r. rs_subnetId r = i \<and> rs_status r = ResActive) (w_reservations w))))
         (\<lambda>activeCount.
         if activeCount > 0
         then throwIO (AppError 409 (''Cannot delete subnet '' @ sn_cidr sub @ '' '' @ emdash @ '' it has '' @
                string_of_nat activeCount @ '' active reservation(s)''))
         else bindIO (modifyIO (deleteSubnetRows (\<lambda>s. sn_id s = i))) (\<lambda>_. returnIO (sub, reservations)))))"

end
