(* ===== verification/Templates.thy ===== *)
theory Templates
  imports Subnets
begin

text \<open>
  \<^verbatim>\<open>src/services/allocationTemplateService.ts\<close>: saved allocation templates, one JSON list under a key of
  the \<^verbatim>\<open>Setting\<close> table (\<^term>\<open>None\<close> while the row is absent). The values of \<^verbatim>\<open>prefixLength\<close> and \<^verbatim>\<open>vlan\<close> are
  the integers the request schema lets through. A fresh \<^verbatim>\<open>randomUUID\<close> is an argument. The theorems: the
  list stays a set of uniquely named templates, and every stored template passes the validation of
  \<^verbatim>\<open>bulkAllocate\<close>.
\<close>

section \<open>Operations\<close>

record saveTemplateInput =
  st_id :: "string option"
  st_name :: string
  st_entries :: "templateEntry list"
  st_anchorPrefix :: "int option"

definition normalizeEntry :: "templateEntry \<Rightarrow> templateEntry" where
  "normalizeEntry e =
     (if te_skip e
      then \<lparr>te_skip = True, te_name = None, te_prefixLength = te_prefixLength e, te_vlan = None\<rparr>
      else \<lparr>te_skip = False, te_name = Some (trim (or_str (te_name e) [])), te_prefixLength = te_prefixLength e,
            te_vlan = te_vlan e\<rparr>)"

fun validate_template_entries :: "templateEntry list \<Rightarrow> unit result" where
  "validate_template_entries [] = Inr ()"
| "validate_template_entries (e # es) =
     (if te_prefixLength e < 8 \<or> te_prefixLength e > 32
      then Inl (AppError 400 (''Entry \"'' @ (if te_skip e then ''skip'' else keep (te_name e) ''unnamed'') @
             ''\" has an invalid prefix length (must be 8-32)''))
      else if \<not> te_skip e \<and> (\<not> truthy (te_name e) \<or> trim (the (te_name e)) = [])
      then Inl (AppError 400 ''Every non-skip entry must have a name'')
      else if \<not> te_skip e \<and> (case te_vlan e of None \<Rightarrow> False | Some v \<Rightarrow> v < 1 \<or> v > 4094)
      then Inl (AppError 400 (''Entry \"'' @ the (te_name e) @ ''\" has an invalid VLAN (must be 1-4094)''))
      else validate_template_entries es)"

definition validateTemplate :: "saveTemplateInput \<Rightarrow> unit result" where
  "validateTemplate input =
     (if st_name input = [] \<or> trim (st_name input) = []
      then Inl (AppError 400 ''Template name is required'')
      else if st_entries input = []
      then Inl (AppError 400 ''Template must have at least one entry'')
      else validate_template_entries (st_entries input))"

definition loadAll :: "'d world \<Rightarrow> allocationTemplate list" where
  "loadAll w = (case w_templates w of None \<Rightarrow> [] | Some ts \<Rightarrow> ts)"

definition persistAll :: "allocationTemplate list \<Rightarrow> ('d world, unit) io" where
  "persistAll ts = modifyIO (\<lambda>w. w\<lparr>w_templates := Some ts\<rparr>)"

text \<open>The order of \<^verbatim>\<open>localeCompare\<close> is a parameter.\<close>

definition listTemplates ::
  "(allocationTemplate list \<Rightarrow> allocationTemplate list) \<Rightarrow> ('d world, allocationTemplate list) io" where
  "listTemplates byName = getIO (\<lambda>w. byName (loadAll w))"

fun findIndex :: "('a \<Rightarrow> bool) \<Rightarrow> 'a list \<Rightarrow> nat option" where
  "findIndex P [] = None"
| "findIndex P (x # xs) = (if P x then Some 0 else map_option Suc (findIndex P xs))"

definition same_name :: "string \<Rightarrow> allocationTemplate \<Rightarrow> bool" where
  "same_name name t \<longleftrightarrow> toLowerCase (at_name t) = toLowerCase name"

definition saveTemplate :: "saveTemplateInput \<Rightarrow> string \<Rightarrow> ('d world, allocationTemplate) io" where
  "saveTemplate input uuid =
     bindIO (liftIO (validateTemplate input)) (\<lambda>_.
     bindIO (getIO loadAll) (\<lambda>all.
     (let name = trim (st_name input);
          entries = map normalizeEntry (st_entries input);
          dup = AppError 409 (''A template named \"'' @ name @ ''\" already exists'')
      in
      if truthy (st_id input)
      then (case findIndex (\<lambda>t. at_id t = the (st_id input)) all of
              None \<Rightarrow> throwIO (notFound ''Template'' (the (st_id input)))
            | Some idx \<Rightarrow>
                (if list_ex (\<lambda>i. i \<noteq> idx \<and> same_name name (all ! i)) [0..<length all] then throwIO dup
                 else (let t = \<lparr>at_id = the (st_id input), at_name = name, at_entries = entries,
                                at_anchorPrefix = st_anchorPrefix input\<rparr>
                       in bindIO (persistAll (all[idx := t])) (\<lambda>_. returnIO t))))
      else if list_ex (same_name name) all then throwIO dup
      else (let t = \<lparr>at_id = uuid, at_name = name, at_entries = entries, at_anchorPrefix = st_anchorPrefix input\<rparr>
            in bindIO (persistAll (all @ [t])) (\<lambda>_. returnIO t)))))"

definition deleteTemplate :: "string \<Rightarrow> ('d world, unit) io" where
  "deleteTemplate i =
     bindIO (getIO loadAll) (\<lambda>all.
     (let rest = filter (\<lambda>t. at_id t \<noteq> i) all
      in if length rest = length all then throwIO (notFound ''Template'' i) else persistAll rest))"

section \<open>The invariant of the stored list\<close>

text \<open>An entry as it is stored: trimmed, in range, named unless it only reserves space.\<close>

definition stored_entry :: "templateEntry \<Rightarrow> bool" where
  "stored_entry e \<longleftrightarrow>
     8 \<le> te_prefixLength e \<and> te_prefixLength e \<le> 32 \<and>
     (if te_skip e then te_name e = None \<and> te_vlan e = None
      else (\<exists>n. te_name e = Some n \<and> n \<noteq> [] \<and> trim n = n) \<and>
           (case te_vlan e of None \<Rightarrow> True | Some v \<Rightarrow> 1 \<le> v \<and> v \<le> 4094))"

definition templates_ok :: "allocationTemplate list \<Rightarrow> bool" where
  "templates_ok ts \<longleftrightarrow>
     distinct (map at_id ts) \<and> distinct (map (\<lambda>t. toLowerCase (at_name t)) ts) \<and>
     (\<forall>t \<in> set ts. at_name t \<noteq> [] \<and> trim (at_name t) = at_name t \<and> at_entries t \<noteq> [] \<and> list_all stored_entry (at_entries t))"

lemma findIndex_Some: "findIndex P xs = Some i \<Longrightarrow> i < length xs \<and> P (xs ! i)"
  by (induction xs arbitrary: i) (auto split: if_splits)

lemma findIndex_None: "findIndex P xs = None \<longleftrightarrow> (\<forall>x \<in> set xs. \<not> P x)"
  by (induction xs) auto

lemma validate_entries_stored:
  "validate_template_entries es = Inr () \<Longrightarrow> list_all stored_entry (map normalizeEntry es)"
  by (induction es)
     (auto simp: stored_entry_def normalizeEntry_def truthy_def or_str_def split: if_splits option.splits list.splits)

lemma distinct_map_update:
  "distinct (map f xs) \<Longrightarrow> i < length xs \<Longrightarrow> (\<forall>j < length xs. j \<noteq> i \<longrightarrow> f (xs ! j) \<noteq> f y) \<Longrightarrow> distinct (map f (xs[i := y]))"
  by (auto simp: distinct_conv_nth nth_list_update)

lemma loadAll_persist [simp]: "loadAll (w\<lparr>w_templates := Some ts\<rparr>) = ts"
  by (simp add: loadAll_def)

lemma saveTemplate_cases:
  assumes "saveTemplate input uuid w = (Inr t, w')"
  shows "validateTemplate input = Inr () \<and> at_name t = trim (st_name input) \<and>
     at_entries t = map normalizeEntry (st_entries input) \<and>
     ((\<exists>i < length (loadAll w). at_id (loadAll w ! i) = at_id t \<and>
         (\<forall>j < length (loadAll w). j \<noteq> i \<longrightarrow> \<not> same_name (at_name t) (loadAll w ! j)) \<and>
         loadAll w' = (loadAll w)[i := t]) \<or>
      (at_id t = uuid \<and> (\<forall>s \<in> set (loadAll w). \<not> same_name (at_name t) s) \<and> loadAll w' = loadAll w @ [t]))"
proof (cases "truthy (st_id input)")
  case True
  with assms obtain i where i: "findIndex (\<lambda>t. at_id t = the (st_id input)) (loadAll w) = Some i"
    by (auto simp: saveTemplate_def bindIO_Inr persistAll_def Let_def split: if_splits option.splits)
  from True assms i findIndex_Some [OF i] show ?thesis
    by (auto simp: saveTemplate_def bindIO_Inr persistAll_def Let_def list_ex_iff atLeast0LessThan
        intro!: exI [of _ i] split: if_splits)
next
  case False
  with assms show ?thesis
    by (auto simp: saveTemplate_def bindIO_Inr persistAll_def Let_def list_ex_iff split: if_splits)
qed

lemma saveTemplate_ok:
  assumes "templates_ok (loadAll w)" "uuid \<notin> at_id ` set (loadAll w)" "saveTemplate input uuid w = (r, w')"
  shows "templates_ok (loadAll w')"
proof (cases r)
  case (Inl e)
  then have "w' = w"
    using assms(3) by (auto simp: saveTemplate_def bindIO_Inl persistAll_def Let_def split: if_splits option.splits)
  then show ?thesis using assms(1) by simp
next
  case (Inr t)
  let ?all = "loadAll w"
  have v: "validateTemplate input = Inr ()" and
    t: "at_name t = trim (st_name input)" "at_entries t = map normalizeEntry (st_entries input)" and
    upd: "(\<exists>i < length ?all. at_id (?all ! i) = at_id t \<and> (\<forall>j < length ?all. j \<noteq> i \<longrightarrow> \<not> same_name (at_name t) (?all ! j)) \<and>
             loadAll w' = ?all[i := t]) \<or>
          (at_id t = uuid \<and> (\<forall>s \<in> set ?all. \<not> same_name (at_name t) s) \<and> loadAll w' = ?all @ [t])"
    using saveTemplate_cases [of input uuid w t w'] assms(3) Inr by auto
  have new: "at_name t \<noteq> [] \<and> trim (at_name t) = at_name t \<and> at_entries t \<noteq> [] \<and> list_all stored_entry (at_entries t)"
    using v t by (auto simp: validateTemplate_def dest: validate_entries_stored split: if_splits)
  from upd show ?thesis
  proof (elim disjE exE conjE)
    fix i
    assume i: "i < length ?all" "at_id (?all ! i) = at_id t" "loadAll w' = ?all[i := t]"
      "\<forall>j < length ?all. j \<noteq> i \<longrightarrow> \<not> same_name (at_name t) (?all ! j)"
    have "map at_id (?all[i := t]) = map at_id ?all"
      using i by (metis list_update_id map_update)
    with i new assms(1) show ?thesis
      unfolding templates_ok_def
      by (auto simp: same_name_def intro!: distinct_map_update dest!: set_update_subset_insert [THEN subsetD])
  next
    assume "at_id t = uuid" "loadAll w' = ?all @ [t]" "\<forall>s \<in> set ?all. \<not> same_name (at_name t) s"
    then show ?thesis using new assms(1,2) by (auto simp: templates_ok_def same_name_def)
  qed
qed

lemma deleteTemplate_ok:
  assumes "templates_ok (loadAll w)" "deleteTemplate i w = (r, w')"
  shows "templates_ok (loadAll w')"
  using assms
  by (auto simp: deleteTemplate_def persistAll_def Let_def templates_ok_def distinct_map_filter split: if_splits)

end
