(* ===== verification/PushService.thy ===== *)
theory PushService
  imports Blocks
begin

text \<open>
  \<^verbatim>\<open>src/services/reservationPushService.ts\<close>: writing, updating and removing DHCP reservations on a
  FortiGate, over FortiManager's proxy or directly. The HTTP clients \<^verbatim>\<open>fgRequest\<close>, \<^verbatim>\<open>fmgProxyRest\<close> and
  \<^verbatim>\<open>resolveDeviceMgmtIpViaFmg\<close> are network I/O: the record \<open>fortinet\<close> of calls that change the state
  \<open>'d\<close> of the devices and may throw. A JSON array of CMDB objects is a list of \<open>fosEntry\<close>, which
  has the keys of both interfaces the source declares.
\<close>

section \<open>FortiOS values\<close>

record fosEntry =
  fe_id :: int
  fe_interface :: "string option"
  fe_defaultGateway :: "string option"
  fe_netmask :: "string option"
  fe_ipRange :: "string option list"
  fe_ip :: "string option"
  fe_mac :: "string option"
  fe_description :: "string option"

datatype mkey = KeyNum int | KeyStr string

datatype fosResponse =
    FosArray "fosEntry list"
  | FosObject (fo_mkey: "mkey option") (fo_id: "int option")
  | FosNull

datatype httpMethod = GET | POST | PUT | DELETE

record fosBody =
  fb_ip :: "string option"
  fb_mac :: "string option"
  fb_description :: "string option"
  fb_type :: "string option"

record 'd fortinet =
  fgRequest :: "integrationConfig \<Rightarrow> httpMethod \<Rightarrow> string \<Rightarrow> string \<Rightarrow> fosBody option \<Rightarrow> ('d, fosResponse) io"
  fmgProxyRest :: "integrationConfig \<Rightarrow> string \<Rightarrow> httpMethod \<Rightarrow> string \<Rightarrow> fosBody option \<Rightarrow> string \<Rightarrow> ('d, fosResponse) io"
  resolveDeviceMgmtIpViaFmg :: "integrationConfig \<Rightarrow> string \<Rightarrow> string \<Rightarrow> ('d, string option) io"

section \<open>Transport\<close>

datatype transport =
    DirectFortigate (t_fgConfig: integrationConfig) (t_vdom: string)
  | FmgProxy (t_fmgConfig: integrationConfig) (t_deviceName: string) (t_vdom: string) (t_integrationId: string)

definition noConfig :: integrationConfig where
  "noConfig = \<lparr>cf_pushReservations = None, cf_useProxy = None, cf_fortigateApiUser = None, cf_fortigateApiToken = None,
     cf_fortigateVerifySsl = None, cf_mgmtInterface = None, cf_host = None, cf_port = None, cf_apiUser = None,
     cf_apiToken = None, cf_vdom = None, cf_verifySsl = None\<rparr>"

definition buildTransport :: "'d fortinet \<Rightarrow> integrationConfig \<Rightarrow> string \<Rightarrow> string \<Rightarrow> ('d, transport) io" where
  "buildTransport D fmgConfig deviceName integrationId =
     (if cf_useProxy fmgConfig = Some False
      then
        (if \<not> truthy (cf_fortigateApiToken fmgConfig)
         then throwIO (AppError 400 ''Direct mode requires a FortiGate API token on the integration'')
         else if cf_mgmtInterface fmgConfig = None \<or> trim (the (cf_mgmtInterface fmgConfig)) = []
         then throwIO (AppError 400 ''Direct mode requires \"Management Interface\" to be set on the integration'')
         else
           bindIO (resolveDeviceMgmtIpViaFmg D fmgConfig deviceName integrationId) (\<lambda>mgmtIp.
           if \<not> truthy mgmtIp
           then throwIO (AppError 502 (''Could not resolve management IP for \"'' @ deviceName @ ''\" via FortiManager''))
           else returnIO (DirectFortigate
                  (noConfig\<lparr>cf_host := mgmtIp, cf_port := Some 443, cf_apiUser := Some (or_str (cf_fortigateApiUser fmgConfig) []),
                            cf_apiToken := cf_fortigateApiToken fmgConfig, cf_vdom := Some ''root'',
                            cf_verifySsl := Some (cf_fortigateVerifySsl fmgConfig = Some True),
                            cf_mgmtInterface := cf_mgmtInterface fmgConfig\<rparr>) ''root'')))
      else returnIO (FmgProxy fmgConfig deviceName ''root'' integrationId))"

definition buildTransportForIntegration :: "'d fortinet \<Rightarrow> integration \<Rightarrow> string \<Rightarrow> ('d, transport) io" where
  "buildTransportForIntegration D ig deviceName =
     (if ig_type ig = ''fortimanager'' then buildTransport D (ig_config ig) deviceName (ig_id ig)
      else if ig_type ig = ''fortigate''
      then (let cfg = ig_config ig
            in if \<not> truthy (cf_host cfg) \<or> \<not> truthy (cf_apiToken cfg)
               then throwIO (AppError 400 (''Standalone FortiGate integration '' @ ig_id ig @ '' is missing host or apiToken''))
               else returnIO (DirectFortigate (cfg\<lparr>cf_vdom := Some (or_str (cf_vdom cfg) ''root'')\<rparr>)
                                (or_str (cf_vdom cfg) ''root'')))
      else throwIO (AppError 400 (''DHCP write is not supported for integration type \"'' @ ig_type ig @ ''\"'')))"

text \<open>\<^verbatim>\<open>encodeURIComponent\<close> on the UTF-8 bytes of the text.\<close>

definition hex_digit :: "nat \<Rightarrow> char" where
  "hex_digit d = (if d < 10 then digit_char d else char_of (55 + d))"

definition unreserved :: "char \<Rightarrow> bool" where
  "unreserved c \<longleftrightarrow>
     is_digit c \<or> (let n = (of_char c :: nat) in (65 \<le> n \<and> n \<le> 90) \<or> (97 \<le> n \<and> n \<le> 122)) \<or> c \<in> set ''-_.!~*()'' \<or> c = CHR 0x27"

definition encodeURIComponent :: "string \<Rightarrow> string" where
  "encodeURIComponent s =
     concat (map (\<lambda>c. if unreserved c then [c]
                      else [CHR ''%'', hex_digit (of_char c div 16), hex_digit (of_char c mod 16)]) s)"

definition callFortiOs ::
  "'d fortinet \<Rightarrow> transport \<Rightarrow> httpMethod \<Rightarrow> string \<Rightarrow> fosBody option \<Rightarrow> ('d, fosResponse) io" where
  "callFortiOs D t meth path body =
     (case t of
        DirectFortigate fgConfig vdom \<Rightarrow> fgRequest D fgConfig meth path vdom body
      | FmgProxy fmgConfig deviceName vdom integrationId \<Rightarrow>
          (let sep = (if CHR ''?'' \<in> set path then ''&'' else ''?'');
               resource = path @ sep @ ''vdom='' @ encodeURIComponent vdom
           in fmgProxyRest D fmgConfig deviceName meth resource body integrationId))"

section \<open>Helpers\<close>

fun pairs_of :: "'a list \<Rightarrow> 'a list list" where
  "pairs_of (x # y # zs) = [x, y] # pairs_of zs"
| "pairs_of _ = []"

definition normalizeMac :: "string \<Rightarrow> string" where
  "normalizeMac mac =
     (let hex = filter is_hex_lower (toLowerCase mac)
      in if length hex \<noteq> 12 then toLowerCase mac else join '':'' (pairs_of hex))"

text \<open>\<^verbatim>\<open>/^([0-9a-f]{2}:){5}[0-9a-f]{2}$/\<close>\<close>

definition macRegex :: "string \<Rightarrow> bool" where
  "macRegex mac =
     (let ps = split_on CHR '':'' mac
      in length ps = 6 \<and> list_all (\<lambda>p. length p = 2 \<and> list_all is_hex_lower p) ps)"

definition buildDescription :: "string option \<Rightarrow> string option \<Rightarrow> string \<Rightarrow> string option \<Rightarrow> string" where
  "buildDescription hostname createdBy fallback notes =
     (let trimmedNotes = trim (keep notes []);
          trimmedHost = trim (keep hostname []);
          fallbackBody = or_str (Some trimmedHost) (or_str (Some fallback) ''(unnamed)'');
          body = (if trimmedNotes \<noteq> []
                  then (if trimmedHost \<noteq> [] then trimmedNotes @ '' ['' @ trimmedHost @ '']'' else trimmedNotes)
                  else fallbackBody);
          pfx = (if truthy createdBy \<and> trim (the createdBy) \<noteq> []
                 then ''Polaris/'' @ trim (the createdBy) @ '': '' else ''Polaris: '');
          candidate = pfx @ body
      in if length candidate > 64 then take 64 candidate else candidate)"

definition string_of_int :: "int \<Rightarrow> string" where
  "string_of_int i = (if i < 0 then ''-'' @ string_of_nat (nat (- i)) else string_of_nat (nat i))"

definition arrayOf :: "fosResponse \<Rightarrow> fosEntry list" where
  "arrayOf r = (case r of FosArray es \<Rightarrow> es | _ \<Rightarrow> [])"

text \<open>Does a DHCP server serve the subnet? By its gateway and mask, else by its first range.\<close>

definition scope_matches :: "netmask_lib \<Rightarrow> netmask \<Rightarrow> fosEntry \<Rightarrow> bool" where
  "scope_matches N block s =
     ((truthy (fe_defaultGateway s) \<and> truthy (fe_netmask s) \<and>
         (case new_Netmask N (the (fe_defaultGateway s) @ ''/'' @ the (fe_netmask s)) of
            Inl _ \<Rightarrow> False
          | Inr blk \<Rightarrow> nm_base blk = nm_base block \<and> nm_bitmask blk = nm_bitmask block)) \<or>
      (case fe_ipRange s of
         [] \<Rightarrow> False
       | startIp # _ \<Rightarrow> truthy startIp \<and> or_false (nm_contains N block startIp)))"

definition findScopeIdForCidr ::
  "netmask_lib \<Rightarrow> 'd fortinet \<Rightarrow> transport \<Rightarrow> string \<Rightarrow> ('d, int \<times> string option) io" where
  "findScopeIdForCidr N D t cidr =
     bindIO (callFortiOs D t GET ''/api/v2/cmdb/system.dhcp/server'' None) (\<lambda>servers.
     case new_Netmask N cidr of
       Inl _ \<Rightarrow> throwIO (AppError 400 (''Invalid subnet CIDR: '' @ cidr))
     | Inr block \<Rightarrow>
         (case find (scope_matches N block) (arrayOf servers) of
            Some s \<Rightarrow> returnIO (fe_id s, fe_interface s)
          | None \<Rightarrow> throwIO (AppError 409 (''FortiGate has no DHCP scope matching subnet '' @ cidr))))"

definition reservedPath :: "int \<Rightarrow> string" where
  "reservedPath scopeId = ''/api/v2/cmdb/system.dhcp/server/'' @ string_of_int scopeId @ ''/reserved-address''"

definition entryPath :: "int \<Rightarrow> int \<Rightarrow> string" where
  "entryPath scopeId entryId = reservedPath scopeId @ ''/'' @ string_of_int entryId"

definition listReservedAddresses :: "'d fortinet \<Rightarrow> transport \<Rightarrow> int \<Rightarrow> ('d, fosEntry list) io" where
  "listReservedAddresses D t scopeId =
     bindIO (callFortiOs D t GET (reservedPath scopeId) None) (\<lambda>r. returnIO (arrayOf r))"

section \<open>Push\<close>

record pushParams =
  pp_subnetCidr :: string
  pp_ip :: string
  pp_mac :: string
  pp_hostname :: "string option"
  pp_notes :: "string option"
  pp_createdBy :: "string option"
  pp_integration :: integration
  pp_deviceName :: string

record pushResult =
  pu_scopeId :: int
  pu_entryId :: int
  pu_serverInterface :: "string option"
  pu_description :: string

definition describeEntry :: "fosEntry \<Rightarrow> string" where
  "describeEntry r =
     join '', '' ([''entry id '' @ string_of_int (fe_id r)] @
       (if truthy (fe_mac r) then [''MAC '' @ the (fe_mac r)] else []) @
       (if truthy (fe_description r) then [''description \"'' @ the (fe_description r) @ ''\"''] else []))"

definition has_mac :: "string \<Rightarrow> fosEntry \<Rightarrow> bool" where
  "has_mac mac r \<longleftrightarrow> truthy (fe_mac r) \<and> normalizeMac (the (fe_mac r)) = mac"

text \<open>The pre-check over the entries of the scope: the first collision, by address before MAC.\<close>

fun collision :: "string \<Rightarrow> string \<Rightarrow> fosEntry list \<Rightarrow> unit result" where
  "collision ip mac [] = Inr ()"
| "collision ip mac (r # rs) =
     (if truthy (fe_ip r) \<and> fe_ip r = Some ip
      then Inl (AppError 409 (''FortiGate already has a reservation for '' @ ip @ '' on this scope ('' @ describeEntry r @ ''). '' @
             ''If this entry is not in Polaris, run discovery for the FortiManager/FortiGate integration to ingest it, '' @
             ''or remove it from the FortiGate to free the IP.''))
      else if has_mac mac r
      then Inl (AppError 409 (''FortiGate already has a reservation for MAC '' @ mac @ '' on this scope ('' @ describeEntry r @ ''). '' @
             ''If this entry is not in Polaris, run discovery for the FortiManager/FortiGate integration to ingest it, '' @
             ''or remove it from the FortiGate to free the MAC.''))
      else collision ip mac rs)"

definition echoedKey :: "fosResponse \<Rightarrow> int option" where
  "echoedKey r =
     (case r of
        FosObject (Some (KeyNum k)) _ \<Rightarrow> Some k
      | FosObject (Some (KeyStr s)) _ \<Rightarrow>
          (if s \<noteq> [] \<and> list_all is_digit s then Some (int (nat_of_digits s)) else None)
      | FosObject None i \<Rightarrow> i
      | _ \<Rightarrow> None)"

text \<open>
  The read-back: by the echoed id, else by address and MAC. The id is only taken from the entry found
  when none was echoed.
\<close>

definition verify_entry :: "string \<Rightarrow> string \<Rightarrow> int option \<Rightarrow> fosEntry list \<Rightarrow> int result" where
  "verify_entry ip mac entryId listed =
     (let byId = (case entryId of None \<Rightarrow> None | Some k \<Rightarrow> find (\<lambda>r. fe_id r = k) listed);
          verified = (case byId of Some r \<Rightarrow> Some r | None \<Rightarrow> find (\<lambda>r. fe_ip r = Some ip \<and> has_mac mac r) listed);
          finalId = (case entryId of Some k \<Rightarrow> Some k | None \<Rightarrow> map_option fe_id verified)
      in case (verified, finalId) of
           (Some v, Some k) \<Rightarrow>
             (if fe_ip v \<noteq> Some ip \<or> normalizeMac (or_str (fe_mac v) []) \<noteq> mac
              then Inl (AppError 502 (''FortiGate verify mismatch '' @ emdash @ '' read back '' @ keep (fe_ip v) ''?'' @ '' / '' @
                     keep (fe_mac v) ''?'' @ '', wrote '' @ ip @ '' / '' @ mac))
              else Inr k)
         | _ \<Rightarrow> Inl (AppError 502 (''FortiGate accepted the create but the entry was not visible on read-back for '' @ ip @
                  '' ('' @ mac @ '')'')))"

text \<open>The push over an established transport.\<close>

definition pushOver :: "netmask_lib \<Rightarrow> 'd fortinet \<Rightarrow> pushParams \<Rightarrow> string \<Rightarrow> transport \<Rightarrow> ('d, pushResult) io" where
  "pushOver N D params mac t =
     bindIO (findScopeIdForCidr N D t (pp_subnetCidr params)) (\<lambda>(scopeId, serverInterface).
     let description = buildDescription (pp_hostname params) (pp_createdBy params) (pp_ip params) (pp_notes params)
     in
     bindIO (listReservedAddresses D t scopeId) (\<lambda>existing.
     bindIO (liftIO (collision (pp_ip params) mac existing)) (\<lambda>_.
     bindIO (callFortiOs D t POST (reservedPath scopeId)
               (Some \<lparr>fb_ip = Some (pp_ip params), fb_mac = Some mac, fb_description = Some description,
                      fb_type = Some ''mac''\<rparr>)) (\<lambda>writeRes.
     bindIO (listReservedAddresses D t scopeId) (\<lambda>listed.
     bindIO (liftIO (verify_entry (pp_ip params) mac (echoedKey writeRes) listed)) (\<lambda>entryId.
     returnIO \<lparr>pu_scopeId = scopeId, pu_entryId = entryId, pu_serverInterface = serverInterface,
               pu_description = description\<rparr>))))))"

definition pushReservation :: "netmask_lib \<Rightarrow> 'd fortinet \<Rightarrow> pushParams \<Rightarrow> ('d, pushResult) io" where
  "pushReservation N D params =
     (let mac = normalizeMac (pp_mac params)
      in
      if pp_deviceName params = []
      then throwIO (AppError 400 (''Subnet has no fortigateDevice '' @ emdash @ '' push requires a discovered FortiGate device name''))
      else if \<not> macRegex mac
      then throwIO (AppError 400 (''Invalid MAC address: '' @ pp_mac params @ '' '' @ emdash @ '' push requires a 48-bit MAC''))
      else bindIO (buildTransportForIntegration D (pp_integration params) (pp_deviceName params)) (pushOver N D params mac))"

section \<open>Update\<close>

record updatePushedParams =
  up_subnetCidr :: string
  up_ip :: string
  up_newMac :: string
  up_hostname :: "string option"
  up_notes :: "string option"
  up_createdBy :: "string option"
  up_scopeId :: "int option"
  up_entryId :: "int option"
  up_integration :: integration
  up_deviceName :: string

definition other_with_mac :: "string \<Rightarrow> int \<Rightarrow> fosEntry list \<Rightarrow> fosEntry option" where
  "other_with_mac mac entryId = find (\<lambda>r. fe_id r \<noteq> entryId \<and> has_mac mac r)"

definition updatePushedReservation :: "netmask_lib \<Rightarrow> 'd fortinet \<Rightarrow> updatePushedParams \<Rightarrow> ('d, pushResult) io" where
  "updatePushedReservation N D params =
     (let mac = normalizeMac (up_newMac params)
      in
      if up_deviceName params = []
      then throwIO (AppError 400 (''Subnet has no fortigateDevice '' @ emdash @ '' update requires a discovered FortiGate device name''))
      else if \<not> macRegex mac
      then throwIO (AppError 400 (''Invalid MAC address: '' @ up_newMac params @ '' '' @ emdash @ '' update requires a 48-bit MAC''))
      else
        bindIO (buildTransportForIntegration D (up_integration params) (up_deviceName params)) (\<lambda>t.
        bindIO (case up_scopeId params of
                  Some s \<Rightarrow> returnIO (s, None)
                | None \<Rightarrow> findScopeIdForCidr N D t (up_subnetCidr params)) (\<lambda>(scopeId, serverInterface).
        bindIO (listReservedAddresses D t scopeId) (\<lambda>existing.
        let pinned = (case up_entryId params of None \<Rightarrow> None | Some k \<Rightarrow> find (\<lambda>r. fe_id r = k) existing);
            entry = (case pinned of Some r \<Rightarrow> Some r | None \<Rightarrow> find (\<lambda>r. fe_ip r = Some (up_ip params)) existing)
        in
        case entry of
          None \<Rightarrow> throwIO (AppError 404 (''FortiGate has no reservation matching '' @ up_ip params @ '' on scope '' @
                    string_of_int scopeId @ '' '' @ emdash @ '' was it deleted on the device?''))
        | Some e \<Rightarrow>
            (let entryId = fe_id e in
             case other_with_mac mac entryId existing of
               Some r \<Rightarrow> throwIO (AppError 409 (''FortiGate already has another reservation for MAC '' @ mac @ '' on this scope ('' @
                           describeEntry r @ ''). '' @ ''Remove the colliding entry or pick a different MAC.''))
             | None \<Rightarrow>
                 (let description = buildDescription (up_hostname params) (up_createdBy params) (up_ip params) (up_notes params)
                  in
                  bindIO (callFortiOs D t PUT (entryPath scopeId entryId)
                            (Some \<lparr>fb_ip = None, fb_mac = Some mac, fb_description = Some description, fb_type = Some ''mac''\<rparr>)) (\<lambda>_.
                  bindIO (listReservedAddresses D t scopeId) (\<lambda>listed.
                  case find (\<lambda>r. fe_id r = entryId) listed of
                    None \<Rightarrow> throwIO (AppError 502 (''FortiGate accepted the update but entry id '' @ string_of_int entryId @
                              '' is no longer visible on read-back''))
                  | Some v \<Rightarrow>
                      (if normalizeMac (or_str (fe_mac v) []) \<noteq> mac
                       then throwIO (AppError 502 (''FortiGate verify mismatch '' @ emdash @ '' read back MAC '' @
                              keep (fe_mac v) ''?'' @ '', wrote '' @ mac))
                       else returnIO \<lparr>pu_scopeId = scopeId, pu_entryId = entryId, pu_serverInterface = serverInterface,
                                      pu_description = description\<rparr>)))))))))"

section \<open>Unpush and lease release\<close>

record unpushParams =
  un_scopeId :: int
  un_entryId :: int
  un_integration :: integration
  un_deviceName :: string

record unpushResult =
  ur_removed :: bool
  ur_alreadyAbsent :: bool

definition unpushReservation :: "'d fortinet \<Rightarrow> unpushParams \<Rightarrow> ('d, unpushResult) io" where
  "unpushReservation D params =
     bindIO (buildTransportForIntegration D (un_integration params) (un_deviceName params)) (\<lambda>t.
     bindIO (catchIO (bindIO (listReservedAddresses D t (un_scopeId params)) (\<lambda>es.
                      returnIO (list_ex (\<lambda>r. fe_id r = un_entryId params) es)))
                     (\<lambda>_. returnIO False)) (\<lambda>stillThere.
     if \<not> stillThere then returnIO \<lparr>ur_removed = False, ur_alreadyAbsent = True\<rparr>
     else bindIO (callFortiOs D t DELETE (entryPath (un_scopeId params) (un_entryId params)) None) (\<lambda>_.
          returnIO \<lparr>ur_removed = True, ur_alreadyAbsent = False\<rparr>)))"

definition releaseDhcpLease :: "'d fortinet \<Rightarrow> integration \<Rightarrow> string \<Rightarrow> string \<Rightarrow> ('d, unit) io" where
  "releaseDhcpLease D ig deviceName ip =
     (if deviceName = []
      then throwIO (AppError 400 ''Lease release requires a discovered FortiGate device name'')
      else if \<not> isValidIpAddress ip
      then throwIO (AppError 400 (''Invalid IP for lease release: '' @ ip))
      else bindIO (buildTransportForIntegration D ig deviceName) (\<lambda>t.
           bindIO (callFortiOs D t POST ''/api/v2/monitor/system/dhcp/release-lease''
                     (Some \<lparr>fb_ip = Some ip, fb_mac = None, fb_description = None, fb_type = None\<rparr>)) (\<lambda>_.
           returnIO ())))"

section \<open>Error classification\<close>

datatype pushErrorKind = Permanent | Transient

definition permanent502 :: "string list" where
  "permanent502 = [''verify mismatch'', ''not visible on read-back'', ''Authentication failed'']"

definition classifyPushError :: "error \<Rightarrow> pushErrorKind" where
  "classifyPushError err =
     (case err of
        AppError st msg \<Rightarrow>
          (if st = 400 \<or> st = 404 \<or> st = 409 then Permanent
           else if st = 502 then (if list_ex (includes_str msg) permanent502 then Permanent else Transient)
           else Transient)
      | _ \<Rightarrow> Transient)"

end
