(* ===== verification/DnsResolved.thy ===== *)
theory DnsResolved
  imports Blocks
begin

text \<open>
  \<^verbatim>\<open>src/services/dnsResolvedReservationService.ts\<close>: the fallback reservations derived from the primary
  address of an asset. The containment query runs in PostgreSQL; its operators on \<^verbatim>\<open>inet\<close> values are
  the parameter \<open>pg\<close>. The failures the source swallows with \<^verbatim>\<open>.catch\<close> are the ones a modelled statement
  can have.
\<close>

record pg_inet =
  pg_covers :: "string \<Rightarrow> string \<Rightarrow> bool result"
  pg_masklen :: "string \<Rightarrow> int"

definition SYSTEM_ACTOR :: string where
  "SYSTEM_ACTOR = ''system:dns-resolved''"

definition eligibleStatuses :: "assetStatus list" where
  "eligibleStatuses = [AsActive, AsMaintenance, AsStorage, AsQuarantined]"

definition assetEligible :: "asset \<Rightarrow> bool" where
  "assetEligible a \<longleftrightarrow>
     truthy (as_ipAddress a) \<and> isValidIpAddress (the (as_ipAddress a)) \<and>
     detectIpVersion (the (as_ipAddress a)) = V4 \<and> as_status a \<in> set eligibleStatuses"

definition trimmed :: "string option \<Rightarrow> string option" where
  "trimmed s = or_null (map_option trim s)"

definition resolvedHostname :: "asset \<Rightarrow> string option" where
  "resolvedHostname a =
     (case trimmed (as_hostname a) of Some h \<Rightarrow> Some h | None \<Rightarrow> trimmed (as_dnsName a))"

text \<open>The most specific live subnet that covers an address; a failing cast fails the whole query.\<close>

definition findContainingSubnet :: "pg_inet \<Rightarrow> string \<Rightarrow> 'd world \<Rightarrow> subnet option result" where
  "findContainingSubnet pg ip w =
     (let live = filter (\<lambda>s. sn_status s \<noteq> SubDeprecated) (w_subnets w)
      in case find (\<lambda>s. \<not> is_ok (pg_covers pg (sn_cidr s) ip)) live of
           Some s \<Rightarrow> Inl (NativeError ''invalid input syntax for type cidr'')
         | None \<Rightarrow>
             (case sort_key (\<lambda>s. - pg_masklen pg (sn_cidr s)) (filter (\<lambda>s. or_false (pg_covers pg (sn_cidr s) ip)) live) of
                [] \<Rightarrow> Inr None | s # _ \<Rightarrow> Inr (Some s)))"

definition is_dns_row :: "reservation \<Rightarrow> bool" where
  "is_dns_row r \<longleftrightarrow> rs_status r = ResActive \<and> rs_sourceType r = SrcDnsResolved"

definition is_system_row :: "reservation \<Rightarrow> bool" where
  "is_system_row r \<longleftrightarrow> is_dns_row r \<and> rs_createdBy r = Some SYSTEM_ACTOR"

definition findOwnedSystemRows :: "asset \<Rightarrow> 'd world \<Rightarrow> reservation list" where
  "findOwnedSystemRows a w =
     (let mac = as_macAddress a; host = resolvedHostname a
      in if \<not> truthy mac \<and> \<not> truthy host then []
         else filter (\<lambda>r. is_system_row r \<and>
                ((truthy mac \<and> rs_macAddress r = mac) \<or> (truthy host \<and> rs_hostname r = host))) (w_reservations w))"

definition findActiveAuthoritativeAt :: "string \<Rightarrow> string \<Rightarrow> 'd world \<Rightarrow> reservation option" where
  "findActiveAuthoritativeAt subnetId ip w =
     find (\<lambda>r. rs_subnetId r = subnetId \<and> rs_ipAddress r = Some ip \<and> rs_status r = ResActive \<and>
               rs_sourceType r \<noteq> SrcDnsResolved) (w_reservations w)"

definition findSystemRowAt :: "string \<Rightarrow> string \<Rightarrow> 'd world \<Rightarrow> reservation option" where
  "findSystemRowAt subnetId ip w =
     find (\<lambda>r. rs_subnetId r = subnetId \<and> rs_ipAddress r = Some ip \<and> is_system_row r) (w_reservations w)"

definition dnsEvent :: "string \<Rightarrow> string \<Rightarrow> string option \<Rightarrow> string option \<Rightarrow> event" where
  "dnsEvent action rtype rid rname =
     \<lparr>ev_action = action, ev_level = ''info'', ev_resourceType = rtype, ev_resourceId = rid, ev_resourceName = rname,
      ev_actor = Some SYSTEM_ACTOR\<rparr>"

definition releaseRows :: "string list \<Rightarrow> string \<Rightarrow> ('d world, nat) io" where
  "releaseRows ids assetId =
     (if ids = [] then returnIO 0
      else
        bindIO (updateManyReservations (\<lambda>r. rs_id r \<in> set ids \<and> rs_status r = ResActive)
                  (\<lambda>r. r\<lparr>rs_status := ResReleased\<rparr>)) (\<lambda>n.
        bindIO (if n > 0 then logEvent (dnsEvent ''reservation.dns_resolved.released'' ''asset'' (Some assetId) None)
                else returnIO ()) (\<lambda>_.
        returnIO n)))"

record reconcileResult =
  rr_created :: nat
  rr_updated :: nat
  rr_released :: nat
  rr_skipped :: bool

text \<open>The upsert of step 4; a failure is logged and swallowed by its caller.\<close>

definition upsertSystemRow :: "asset \<Rightarrow> subnet \<Rightarrow> string \<Rightarrow> int \<Rightarrow> string \<Rightarrow> ('d world, nat \<times> nat) io" where
  "upsertSystemRow a sub ip now uid =
     bindIO (getIO (findSystemRowAt (sn_id sub) ip)) (\<lambda>existingAtTarget.
     case existingAtTarget of
       Some r \<Rightarrow>
         (if rs_hostname r \<noteq> resolvedHostname a \<or> rs_macAddress r \<noteq> as_macAddress a
          then bindIO (updateReservationRow (rs_id r)
                         (\<lambda>r. r\<lparr>rs_hostname := resolvedHostname a, rs_macAddress := as_macAddress a\<rparr>)) (\<lambda>_.
               bindIO (logEvent (dnsEvent ''reservation.dns_resolved.updated'' ''reservation'' (Some (rs_id r)) None)) (\<lambda>_.
               returnIO (0, 1)))
          else returnIO (0, 0))
     | None \<Rightarrow>
         bindIO (createReservationRow
                   ((newReservation uid now (sn_id sub))
                      \<lparr>rs_ipAddress := Some ip, rs_hostname := resolvedHostname a, rs_macAddress := as_macAddress a,
                       rs_sourceType := SrcDnsResolved, rs_createdBy := Some SYSTEM_ACTOR,
                       rs_notes := Some ''Auto-discovered from asset inventory; no DHCP record exists yet.''\<rparr>)) (\<lambda>r.
         bindIO (logEvent (dnsEvent ''reservation.dns_resolved.created'' ''reservation'' (Some (rs_id r)) None)) (\<lambda>_.
         returnIO (1, 0))))"

definition reconcileDnsResolvedForAsset :: "pg_inet \<Rightarrow> string \<Rightarrow> int \<Rightarrow> string \<Rightarrow> ('d world, reconcileResult) io" where
  "reconcileDnsResolvedForAsset pg assetId now uid =
     bindIO (getIO (\<lambda>w. find (\<lambda>a. as_id a = assetId) (w_assets w))) (\<lambda>asset.
     case asset of
       None \<Rightarrow> returnIO \<lparr>rr_created = 0, rr_updated = 0, rr_released = 0, rr_skipped = True\<rparr>
     | Some a \<Rightarrow>
         bindIO (getIO (findOwnedSystemRows a)) (\<lambda>owned.
         let release = (\<lambda>ids. catchIO (releaseRows ids assetId) (\<lambda>_. returnIO 0));
             skip = bindIO (release (map rs_id owned)) (\<lambda>n.
                    returnIO \<lparr>rr_created = 0, rr_updated = 0, rr_released = n, rr_skipped = True\<rparr>)
         in
         if \<not> assetEligible a then skip
         else
           (let ip = the (as_ipAddress a) in
            bindIO (catchIO (bindIO (getIO (findContainingSubnet pg ip)) liftIO) (\<lambda>_. returnIO None)) (\<lambda>target.
            case target of
              None \<Rightarrow> skip
            | Some sub \<Rightarrow>
                bindIO (getIO (findActiveAuthoritativeAt (sn_id sub) ip)) (\<lambda>authoritative.
                if authoritative \<noteq> None then skip
                else
                  bindIO (catchIO (upsertSystemRow a sub ip now uid) (\<lambda>_. returnIO (0, 0))) (\<lambda>(created, updated).
                  bindIO (release (map rs_id (filter (\<lambda>r. \<not> (rs_subnetId r = sn_id sub \<and> rs_ipAddress r = Some ip)) owned))) (\<lambda>n.
                  returnIO \<lparr>rr_created = created, rr_updated = updated, rr_released = n, rr_skipped = False\<rparr>)))))))"

definition releaseDnsResolvedForAsset :: "string \<Rightarrow> ('d world, unit) io" where
  "releaseDnsResolvedForAsset assetId =
     bindIO (getIO (\<lambda>w. find (\<lambda>a. as_id a = assetId) (w_assets w))) (\<lambda>asset.
     case asset of
       None \<Rightarrow> returnIO ()
     | Some a \<Rightarrow>
         bindIO (getIO (findOwnedSystemRows a)) (\<lambda>owned.
         catchIO (bindIO (releaseRows (map rs_id owned) assetId) (\<lambda>_. returnIO ())) (\<lambda>_. returnIO ())))"

definition releaseDnsResolvedAt :: "string \<Rightarrow> string \<Rightarrow> ('d world, unit) io" where
  "releaseDnsResolvedAt subnetId ip =
     catchIO
       (bindIO (updateManyReservations (\<lambda>r. rs_subnetId r = subnetId \<and> rs_ipAddress r = Some ip \<and> is_dns_row r)
                  (\<lambda>r. r\<lparr>rs_status := ResReleased\<rparr>)) (\<lambda>n.
        if n > 0 then logEvent (dnsEvent ''reservation.dns_resolved.released'' ''reservation'' None (Some ip))
        else returnIO ()))
       (\<lambda>_. returnIO ())"

end
