(* ===== verification/Reservations.thy ===== *)
theory Reservations
  imports Subnets PushService DnsResolved
begin

text \<open>
  \<^verbatim>\<open>src/services/reservationService.ts\<close>: the lifecycle of a reservation, with the push to the
  FortiGate on creation and update, the queue of pushes that failed transiently and its retries.
  Arguments \<open>now\<close> and \<open>uid\<close> are the clock reading and the new row's id; \<open>D\<close> is the device access of
  \<open>PushService\<close>. Log calls and the one un-awaited write of \<^verbatim>\<open>cancelReason\<close> take effect where they
  are issued.
\<close>

section \<open>Inputs\<close>

record createReservationInput =
  cr_subnetId :: string
  cr_ipAddress :: "string option"
  cr_hostname :: "string option"
  cr_owner :: "string option"
  cr_projectRef :: "string option"
  cr_expiresAt :: "int option"
  cr_notes :: "string option"
  cr_createdBy :: "string option"
  cr_macAddress :: "string option"

record updateReservationInput =
  ur_hostname :: "string option"
  ur_owner :: "string option"
  ur_projectRef :: "string option"
  ur_expiresAt :: "int option"
  ur_notes :: "string option"
  ur_macAddress :: "string option"

record listReservationsFilter =
  lr_subnetId :: "string option"
  lr_owner :: "string option"
  lr_projectRef :: "string option"
  lr_status :: "reservationStatus option"
  lr_limit :: nat
  lr_offset :: nat

section \<open>List and get\<close>

definition pushes :: "integration option \<Rightarrow> bool" where
  "pushes ig = (case ig of
     None \<Rightarrow> False
   | Some g \<Rightarrow> (ig_type g = ''fortimanager'' \<or> ig_type g = ''fortigate'') \<and> cf_pushReservations (ig_config g) = Some True)"

definition listReservations ::
  "listReservationsFilter \<Rightarrow>
   ('d world, (reservation \<times> (string \<times> string \<times> string option) option \<times> bool) list \<times> nat \<times> nat \<times> nat) io" where
  "listReservations flt =
     getIO (\<lambda>w.
       let lim = min (if lr_limit flt = 0 then 50 else lr_limit flt) 200;
           off = lr_offset flt;
           rows = filter (\<lambda>r. where_eq (lr_subnetId flt) (Some (rs_subnetId r)) \<and> where_eq (lr_owner flt) (rs_owner r) \<and>
                              where_eq (lr_projectRef flt) (rs_projectRef r) \<and>
                              (case lr_status flt of None \<Rightarrow> True | Some st \<Rightarrow> rs_status r = st)) (w_reservations w);
           page = take lim (drop off (sort_key (\<lambda>r. - rs_createdAt r) rows));
           decorated = map (\<lambda>r. let s = findSubnet (rs_subnetId r) w;
                                    ig = (case s of None \<Rightarrow> None | Some t \<Rightarrow> subnetIntegration t w)
                                in (r, map_option (\<lambda>t. (sn_cidr t, sn_name t, sn_fortigateDevice t)) s,
                                    truthy (rs_ipAddress r) \<and> pushes ig)) page
       in (decorated, length rows, lim, off))"

definition getReservation ::
  "string \<Rightarrow> ('d world, reservation \<times> subnet option \<times> (string \<times> string \<times> string) option) io" where
  "getReservation i =
     bindIO (getIO (findReservation i)) (\<lambda>r.
     case r of
       None \<Rightarrow> throwIO (notFound ''Reservation'' i)
     | Some res \<Rightarrow>
         getIO (\<lambda>w. let s = findSubnet (rs_subnetId res) w;
                        b = (case s of None \<Rightarrow> None | Some t \<Rightarrow> findBlock (sn_blockId t) w)
                    in (res, s, map_option (\<lambda>b. (bl_id b, bl_name b, bl_cidr b)) b)))"

section \<open>Create\<close>

text \<open>The target of a push: the integration and the device name, or nothing when not eligible.\<close>

definition resolvePushEligibility :: "subnet \<Rightarrow> integration option \<Rightarrow> string option \<Rightarrow> (integration \<times> string) option" where
  "resolvePushEligibility sub ig ip =
     (if \<not> truthy ip then None
      else if \<not> pushes ig then None
      else Some (the ig, or_str (sn_fortigateDevice sub) []))"

definition reservationLabel :: "reservation \<Rightarrow> string option" where
  "reservationLabel r = (if truthy (rs_hostname r) then rs_hostname r else or_null (rs_ipAddress r))"

definition resEvent :: "string \<Rightarrow> string \<Rightarrow> string option \<Rightarrow> string option \<Rightarrow> string option \<Rightarrow> event" where
  "resEvent action level rid rname actor =
     \<lparr>ev_action = action, ev_level = level, ev_resourceType = ''reservation'', ev_resourceId = rid, ev_resourceName = rname,
      ev_actor = actor\<rparr>"

definition findFirewall :: "string \<Rightarrow> string \<Rightarrow> 'd world \<Rightarrow> asset option" where
  "findFirewall deviceName integrationId w =
     find (\<lambda>a. as_hostname a = Some deviceName \<and> as_assetType a = ''firewall'' \<and>
               as_discoveredByIntegrationId a = Some integrationId) (w_assets w)"

definition firewallKnownDown :: "string \<Rightarrow> string \<Rightarrow> 'd world \<Rightarrow> bool" where
  "firewallKnownDown deviceName integrationId w =
     (case findFirewall deviceName integrationId w of
        None \<Rightarrow> False | Some a \<Rightarrow> as_monitored a \<and> as_monitorStatus a = Some ''down'')"

text \<open>Steps 1 and 2: the subnet accepts the reservation, and nothing active holds the target.\<close>

definition check_target :: "netmask_lib \<Rightarrow> createReservationInput \<Rightarrow> subnet \<Rightarrow> 'd world \<Rightarrow> unit result" where
  "check_target N input sub w =
     (if sn_status sub = SubDeprecated
      then Inl (AppError 409 (''Subnet '' @ sn_cidr sub @ '' is deprecated and cannot accept new reservations''))
      else if truthy (cr_ipAddress input)
      then (let ip = the (cr_ipAddress input) in
            if \<not> isValidIpAddress ip then Inl (AppError 400 (''Invalid IP address: '' @ ip))
            else if \<not> ipInCidr N ip (sn_cidr sub)
            then Inl (AppError 400 (''IP '' @ ip @ '' is not within subnet '' @ sn_cidr sub))
            else (case findActiveAuthoritativeAt (cr_subnetId input) ip w of
                    Some r \<Rightarrow> Inl (AppError 409 (''IP '' @ ip @ '' is already actively reserved (reservation: '' @ rs_id r @ '')''))
                  | None \<Rightarrow> Inr ()))
      else (case find (\<lambda>r. rs_subnetId r = cr_subnetId input \<and> rs_ipAddress r = None \<and> rs_status r = ResActive) (w_reservations w) of
              Some r \<Rightarrow> Inl (AppError 409 (''Subnet '' @ sn_cidr sub @ '' is already fully reserved (reservation: '' @ rs_id r @ '')''))
            | None \<Rightarrow> Inr ()))"

text \<open>Step 3: what a push needs.\<close>

definition check_push :: "createReservationInput \<Rightarrow> subnet \<Rightarrow> (integration \<times> string) option \<Rightarrow> unit result" where
  "check_push input sub push =
     (case push of
        None \<Rightarrow> Inr ()
      | Some (_, deviceName) \<Rightarrow>
          (if \<not> truthy (cr_macAddress input) \<or> trim (the (cr_macAddress input)) = []
           then Inl (AppError 400 (''MAC address is required '' @ emdash @ '' this subnet's integration is configured to push reservations to the FortiGate, and DHCP reservations are MAC'' @ rarrow @ ''IP''))
           else if deviceName = []
           then Inl (AppError 409 (''Subnet '' @ sn_cidr sub @ '' has no fortigateDevice '' @ emdash @ '' the integration discovered the subnet without a device name, so push cannot resolve a target FortiGate''))
           else Inr ()))"

definition reservationData :: "createReservationInput \<Rightarrow> string \<Rightarrow> int \<Rightarrow> reservation" where
  "reservationData input uid now =
     (newReservation uid now (cr_subnetId input))
       \<lparr>rs_ipAddress := cr_ipAddress input, rs_hostname := cr_hostname input, rs_owner := or_null (cr_owner input),
        rs_projectRef := or_null (cr_projectRef input), rs_expiresAt := cr_expiresAt input, rs_notes := cr_notes input,
        rs_createdBy := cr_createdBy input,
        rs_macAddress := (if truthy (cr_macAddress input) then Some (normalizeMac (the (cr_macAddress input))) else None)\<rparr>"

text \<open>Step 4: the row, and the subnet's status for a full-subnet reservation, in one transaction.\<close>

definition insertReservation :: "createReservationInput \<Rightarrow> string \<Rightarrow> int \<Rightarrow> ('d world, reservation) io" where
  "insertReservation input uid now =
     bindIO (if truthy (cr_ipAddress input)
             then releaseDnsResolvedAt (cr_subnetId input) (the (cr_ipAddress input)) else returnIO ()) (\<lambda>_.
     transactionIO
       (bindIO (createReservationRow (reservationData input uid now)) (\<lambda>res.
        if \<not> truthy (cr_ipAddress input)
        then bindIO (updateSubnetRow (cr_subnetId input) (\<lambda>s. s\<lparr>sn_status := SubReserved\<rparr>)) (\<lambda>_. returnIO res)
        else returnIO res)))"

text \<open>The three stamps a push leaves on the row.\<close>

definition stamp_down :: "string option \<Rightarrow> string \<Rightarrow> int \<Rightarrow> reservation \<Rightarrow> reservation" where
  "stamp_down integrationId deviceName now r =
     r\<lparr>rs_pushedToId := integrationId, rs_pushStatus := Some PushPending, rs_pushQueuedAt := Some now,
       rs_pushAttempts := 0, rs_pushLastAttemptAt := None,
       rs_pushError := Some (''FortiGate \"'' @ deviceName @ ''\" is currently down '' @ emdash @ '' queued without attempting transport'')\<rparr>"

definition stamp_synced :: "string option \<Rightarrow> pushResult \<Rightarrow> int \<Rightarrow> reservation \<Rightarrow> reservation" where
  "stamp_synced integrationId pushed now r =
     r\<lparr>rs_sourceType := SrcDhcpReservation, rs_pushedToId := integrationId, rs_pushedScopeId := Some (pu_scopeId pushed),
       rs_pushedEntryId := Some (pu_entryId pushed), rs_pushStatus := Some PushSynced, rs_pushedAt := Some now,
       rs_pushError := None, rs_pushQueuedAt := None, rs_pushAttempts := 0, rs_pushLastAttemptAt := None\<rparr>"

definition stamp_queued :: "string option \<Rightarrow> error \<Rightarrow> int \<Rightarrow> reservation \<Rightarrow> reservation" where
  "stamp_queued integrationId err now r =
     r\<lparr>rs_pushedToId := integrationId, rs_pushStatus := Some PushPending, rs_pushQueuedAt := Some now,
       rs_pushAttempts := 1, rs_pushLastAttemptAt := Some now, rs_pushError := Some (errMessage err)\<rparr>"

definition createPushParams :: "createReservationInput \<Rightarrow> subnet \<Rightarrow> integration \<Rightarrow> string \<Rightarrow> string \<Rightarrow> pushParams" where
  "createPushParams input sub ig deviceName mac =
     \<lparr>pp_subnetCidr = sn_cidr sub, pp_ip = the (cr_ipAddress input), pp_mac = mac, pp_hostname = cr_hostname input,
      pp_notes = cr_notes input, pp_createdBy = cr_createdBy input, pp_integration = ig, pp_deviceName = deviceName\<rparr>"

text \<open>Step 6: push, then stamp, queue or roll back.\<close>

definition pushCreated ::
  "netmask_lib \<Rightarrow> 'd fortinet \<Rightarrow> createReservationInput \<Rightarrow> subnet \<Rightarrow> integration \<Rightarrow> string \<Rightarrow> reservation \<Rightarrow> string \<Rightarrow> int \<Rightarrow>
   ('d world, reservation) io" where
  "pushCreated N D input sub ig deviceName res mac now =
     bindIO (getIO (firewallKnownDown deviceName (ig_id ig))) (\<lambda>down.
     if down
     then bindIO (updateReservationRow (rs_id res) (stamp_down (sn_discoveredBy sub) deviceName now)) (\<lambda>stamped.
          bindIO (logEvent (resEvent ''reservation.push.queued'' ''info'' (Some (rs_id stamped)) (reservationLabel stamped) (cr_createdBy input))) (\<lambda>_.
          returnIO stamped))
     else
       catchIO
         (bindIO (deviceIO (pushReservation N D (createPushParams input sub ig deviceName mac))) (\<lambda>pushed.
          bindIO (updateReservationRow (rs_id res) (stamp_synced (sn_discoveredBy sub) pushed now)) (\<lambda>stamped.
          bindIO (logEvent (resEvent ''reservation.push.succeeded'' ''info'' (Some (rs_id stamped)) (reservationLabel stamped) (cr_createdBy input))) (\<lambda>_.
          returnIO stamped))))
         (\<lambda>err.
          if classifyPushError err = Transient
          then bindIO (updateReservationRow (rs_id res) (stamp_queued (sn_discoveredBy sub) err now)) (\<lambda>stamped.
               bindIO (logEvent (resEvent ''reservation.push.queued'' ''info'' (Some (rs_id stamped)) (reservationLabel stamped) (cr_createdBy input))) (\<lambda>_.
               returnIO stamped))
          else bindIO (deleteReservations (\<lambda>r. rs_id r = rs_id res)) (\<lambda>_.
               bindIO (logEvent (resEvent ''reservation.push.failed'' ''warning'' None
                         (if truthy (cr_hostname input) then cr_hostname input else or_null (cr_ipAddress input)) (cr_createdBy input))) (\<lambda>_.
               throwIO err))))"

definition createReservation ::
  "netmask_lib \<Rightarrow> 'd fortinet \<Rightarrow> createReservationInput \<Rightarrow> string \<Rightarrow> int \<Rightarrow> ('d world, reservation) io" where
  "createReservation N D input uid now =
     bindIO (getIO (findSubnet (cr_subnetId input))) (\<lambda>s.
     case s of
       None \<Rightarrow> throwIO (notFound ''Subnet'' (cr_subnetId input))
     | Some sub \<Rightarrow>
         bindIO (bindIO (getIO (check_target N input sub)) liftIO) (\<lambda>_.
         bindIO (getIO (\<lambda>w. resolvePushEligibility sub (subnetIntegration sub w) (cr_ipAddress input))) (\<lambda>push.
         bindIO (liftIO (check_push input sub push)) (\<lambda>_.
         bindIO (insertReservation input uid now) (\<lambda>res.
         case (push, rs_macAddress res) of
           (Some (ig, deviceName), Some mac) \<Rightarrow>
             (if mac = [] then returnIO res else pushCreated N D input sub ig deviceName res mac now)
         | _ \<Rightarrow> returnIO res)))))"

section \<open>Update\<close>

text \<open>
  The MAC the caller asks for: \<^term>\<open>None\<close> when it does not touch the MAC, \<^term>\<open>Some None\<close> to clear it.
\<close>

definition requestedMac :: "string option \<Rightarrow> string option option result" where
  "requestedMac mac =
     (case mac of
        None \<Rightarrow> Inr None
      | Some m \<Rightarrow>
          (let t = trim m in
           if t = [] then Inr (Some None)
           else if \<not> macRegex (normalizeMac t) then Inl (AppError 400 (''Invalid MAC address: '' @ m))
           else Inr (Some (Some (normalizeMac t)))))"

definition currentMac :: "reservation \<Rightarrow> string option" where
  "currentMac r = (if truthy (rs_macAddress r) then Some (normalizeMac (the (rs_macAddress r))) else None)"

definition pushEligible :: "reservation \<Rightarrow> subnet \<Rightarrow> integration option \<Rightarrow> bool" where
  "pushEligible r sub ig \<longleftrightarrow> pushes ig \<and> truthy (sn_fortigateDevice sub) \<and> truthy (rs_ipAddress r)"

text \<open>The columns an update writes; \<open>pushed\<close> is the result of a device update, if one was made.\<close>

definition applyUpdate ::
  "updateReservationInput \<Rightarrow> string option \<Rightarrow> string option option \<Rightarrow> (string \<times> pushResult) option \<Rightarrow> int \<Rightarrow>
   reservation \<Rightarrow> reservation" where
  "applyUpdate input owner newMac pushed now r =
     (let r1 = r\<lparr>rs_hostname := keep_opt (ur_hostname input) (rs_hostname r), rs_owner := keep_opt owner (rs_owner r),
                 rs_projectRef := keep_opt (ur_projectRef input) (rs_projectRef r),
                 rs_expiresAt := keep_opt (ur_expiresAt input) (rs_expiresAt r),
                 rs_notes := keep_opt (ur_notes input) (rs_notes r)\<rparr>;
          r2 = (case newMac of None \<Rightarrow> r1 | Some m \<Rightarrow> r1\<lparr>rs_macAddress := m\<rparr>)
      in case pushed of
           None \<Rightarrow> r2
         | Some (igId, p) \<Rightarrow>
             r2\<lparr>rs_pushedToId := Some igId, rs_pushedScopeId := Some (pu_scopeId p), rs_pushedEntryId := Some (pu_entryId p),
                rs_pushedAt := Some now, rs_pushStatus := Some PushSynced, rs_pushError := None\<rparr>)"

definition updatePushParams ::
  "updateReservationInput \<Rightarrow> reservation \<Rightarrow> subnet \<Rightarrow> integration \<Rightarrow> string \<Rightarrow> updatePushedParams" where
  "updatePushParams input r sub ig mac =
     \<lparr>up_subnetCidr = sn_cidr sub, up_ip = the (rs_ipAddress r), up_newMac = mac,
      up_hostname = keep_opt (ur_hostname input) (rs_hostname r), up_notes = keep_opt (ur_notes input) (rs_notes r),
      up_createdBy = rs_createdBy r, up_scopeId = rs_pushedScopeId r, up_entryId = rs_pushedEntryId r,
      up_integration = ig, up_deviceName = the (sn_fortigateDevice sub)\<rparr>"

text \<open>The device write of a changed MAC, before the row is touched; a failure aborts the update.\<close>

definition pushMacChange ::
  "netmask_lib \<Rightarrow> 'd fortinet \<Rightarrow> updateReservationInput \<Rightarrow> reservation \<Rightarrow> subnet \<Rightarrow> integration \<Rightarrow> string \<Rightarrow>
   ('d world, (string \<times> pushResult) option) io" where
  "pushMacChange N D input r sub ig mac =
     catchIO
       (bindIO (deviceIO (updatePushedReservation N D (updatePushParams input r sub ig mac))) (\<lambda>p.
        bindIO (logEvent (resEvent ''reservation.push.updated'' ''info'' (Some (rs_id r)) (reservationLabel r) None)) (\<lambda>_.
        returnIO (Some (ig_id ig, p)))))
       (\<lambda>err.
        bindIO (logEvent (resEvent ''reservation.push.update_failed'' ''warning'' (Some (rs_id r)) (reservationLabel r) None)) (\<lambda>_.
        throwIO err))"

definition updateReservation ::
  "netmask_lib \<Rightarrow> 'd fortinet \<Rightarrow> string \<Rightarrow> updateReservationInput \<Rightarrow> string option \<Rightarrow> int \<Rightarrow> ('d world, reservation) io" where
  "updateReservation N D i input actor now =
     bindIO (getIO (findReservation i)) (\<lambda>ro.
     case ro of
       None \<Rightarrow> throwIO (notFound ''Reservation'' i)
     | Some r \<Rightarrow>
         (if rs_status r \<noteq> ResActive
          then throwIO (AppError 409 (''Cannot update a '' @ statusName (rs_status r) @ '' reservation''))
          else
            bindIO (getIO (findSubnet (rs_subnetId r))) (\<lambda>so.
            case so of
              None \<Rightarrow> throwIO TypeError
            | Some sub \<Rightarrow>
                bindIO (liftIO (requestedMac (ur_macAddress input))) (\<lambda>reqMac.
                bindIO (getIO (subnetIntegration sub)) (\<lambda>ig.
                (let actorName = trim (or_str actor []);
                     owner = (if ur_owner input \<noteq> None then ur_owner input
                              else if actorName \<noteq> [] then Some actorName else None);
                     macChanged = (case reqMac of None \<Rightarrow> False | Some m \<Rightarrow> m \<noteq> currentMac r);
                     newMac = (if macChanged then reqMac else None);
                     isQueued = (rs_pushStatus r = Some PushPending);
                     write = (\<lambda>pushed. updateReservationRow i (applyUpdate input owner newMac pushed now))
                 in
                 if macChanged \<and> pushEligible r sub ig
                 then (case the reqMac of
                         None \<Rightarrow> throwIO (AppError 400
                           (if isQueued
                            then ''Cannot clear MAC on a queued push-eligible reservation '' @ emdash @ '' the FortiGate write will require it. Release the reservation instead.''
                            else ''Cannot clear MAC on a reservation whose subnet pushes DHCP reservations to a FortiGate '' @ emdash @ '' DHCP reservations are MAC'' @ rarrow @ ''IP and require a MAC. Release the reservation instead.''))
                       | Some mac \<Rightarrow>
                           (if isQueued then write None
                            else bindIO (pushMacChange N D input r sub (the ig) mac) write))
                 else write None))))))"

section \<open>Release\<close>

definition cleared :: "reservation \<Rightarrow> reservation" where
  "cleared r =
     r\<lparr>rs_status := ResReleased, rs_pushedToId := None, rs_pushedScopeId := None, rs_pushedEntryId := None,
       rs_pushStatus := None, rs_pushedAt := None, rs_pushQueuedAt := None, rs_pushAttempts := 0,
       rs_pushLastAttemptAt := None, rs_pushError := None\<rparr>"

text \<open>Best-effort removal of the pushed entry: a device failure is logged, never raised.\<close>

definition unpushBestEffort :: "'d fortinet \<Rightarrow> reservation \<Rightarrow> subnet \<Rightarrow> integration option \<Rightarrow> ('d world, unit) io" where
  "unpushBestEffort D r sub pushedTo =
     (case (pushedTo, rs_pushedScopeId r, rs_pushedEntryId r) of
        (Some ig, Some scopeId, Some entryId) \<Rightarrow>
          (let deviceName = or_str (sn_fortigateDevice sub) []
           in if deviceName = [] then returnIO ()
              else catchIO
                     (bindIO (deviceIO (unpushReservation D \<lparr>un_scopeId = scopeId, un_entryId = entryId, un_integration = ig,
                                                             un_deviceName = deviceName\<rparr>)) (\<lambda>_.
                      logEvent (resEvent ''reservation.unpush.succeeded'' ''info'' (Some (rs_id r)) (reservationLabel r) None)))
                     (\<lambda>_. logEvent (resEvent ''reservation.unpush.failed'' ''warning'' (Some (rs_id r)) (reservationLabel r) None)))
      | _ \<Rightarrow> returnIO ())"

definition releaseLeaseBestEffort :: "'d fortinet \<Rightarrow> reservation \<Rightarrow> subnet \<Rightarrow> integration option \<Rightarrow> ('d world, unit) io" where
  "releaseLeaseBestEffort D r sub ig =
     (if rs_sourceType r = SrcDhcpLease \<and> truthy (rs_ipAddress r) \<and> ig \<noteq> None \<and> truthy (sn_fortigateDevice sub) \<and>
         cf_pushReservations (ig_config (the ig)) = Some True
      then catchIO
             (bindIO (deviceIO (releaseDhcpLease D (the ig) (the (sn_fortigateDevice sub)) (the (rs_ipAddress r)))) (\<lambda>_.
              logEvent (resEvent ''reservation.lease_release.succeeded'' ''info'' (Some (rs_id r)) (reservationLabel r) None)))
             (\<lambda>_. logEvent (resEvent ''reservation.lease_release.failed'' ''warning'' (Some (rs_id r)) (reservationLabel r) None))
      else returnIO ())"

definition releaseRow :: "reservation \<Rightarrow> ('d world, reservation) io" where
  "releaseRow r =
     transactionIO
       (bindIO (deleteReservations (\<lambda>q. rs_id q \<noteq> rs_id r \<and> rs_subnetId q = rs_subnetId r \<and>
                  rs_ipAddress q = rs_ipAddress r \<and> rs_status q = ResReleased)) (\<lambda>_.
        bindIO (updateReservationRow (rs_id r) cleared) (\<lambda>released.
        if \<not> truthy (rs_ipAddress r)
        then bindIO (updateSubnetRow (rs_subnetId r) (\<lambda>s. s\<lparr>sn_status := SubAvailable\<rparr>)) (\<lambda>_. returnIO released)
        else returnIO released)))"

definition releaseReservation :: "'d fortinet \<Rightarrow> string \<Rightarrow> ('d world, reservation) io" where
  "releaseReservation D i =
     bindIO (getIO (findReservation i)) (\<lambda>ro.
     case ro of
       None \<Rightarrow> throwIO (notFound ''Reservation'' i)
     | Some r \<Rightarrow>
         (if rs_status r \<noteq> ResActive
          then throwIO (AppError 409 (''Reservation is already '' @ statusName (rs_status r)))
          else
            bindIO (getIO (findSubnet (rs_subnetId r))) (\<lambda>so.
            case so of
              None \<Rightarrow> throwIO TypeError
            | Some sub \<Rightarrow>
                bindIO (getIO (\<lambda>w. (subnetIntegration sub w, findIntegration (rs_pushedToId r) w))) (\<lambda>(ig, pushedTo).
                bindIO (if rs_pushStatus r = Some PushPending
                        then logEvent (resEvent ''reservation.push.queued.released'' ''info'' (Some i) (reservationLabel r) None)
                        else bindIO (unpushBestEffort D r sub pushedTo) (\<lambda>_. releaseLeaseBestEffort D r sub ig)) (\<lambda>_.
                releaseRow r)))))"

section \<open>Next available address\<close>

lemma enumerate_tot: "enumerateSubnetIps N c p k = Inr (as, t) \<Longrightarrow> \<exists>bs. enumerateSubnetIps N c q k = Inr (bs, t)"
  by (auto simp: enumerateSubnetIps_def Let_def split: sum.splits)

definition pageSize :: int where
  "pageSize = 256"

text \<open>The \<^verbatim>\<open>while (!found)\<close> loop over the pages of the subnet.\<close>

function next_free_loop :: "netmask_lib \<Rightarrow> string \<Rightarrow> string list \<Rightarrow> int \<Rightarrow> string option result" where
  "next_free_loop N cidr reserved page =
     (case enumerateSubnetIps N cidr page pageSize of
        Inl e \<Rightarrow> Inl e
      | Inr (addrs, tot) \<Rightarrow>
          (case find (\<lambda>a. ip_type a = IpHost \<and> address a \<notin> set reserved) addrs of
             Some a \<Rightarrow> Inr (Some (address a))
           | None \<Rightarrow> if page * pageSize \<ge> tot then Inr None else next_free_loop N cidr reserved (page + 1)))"
  by pat_completeness auto
termination
proof (relation "measure (\<lambda>(N, cidr, reserved, page).
    case enumerateSubnetIps N cidr 1 pageSize of Inl _ \<Rightarrow> 0 | Inr (_, tot) \<Rightarrow> nat (tot - page * pageSize))", goal_cases)
  case (2 N cidr reserved page y as tot)
  then obtain bs where "enumerateSubnetIps N cidr 1 pageSize = Inr (bs, tot)"
    using enumerate_tot by blast
  with 2 show ?case by (simp add: pageSize_def)
qed simp

declare next_free_loop.simps [simp del]

definition nextAvailableReservation ::
  "netmask_lib \<Rightarrow> 'd fortinet \<Rightarrow> createReservationInput \<Rightarrow> string \<Rightarrow> int \<Rightarrow> ('d world, reservation) io" where
  "nextAvailableReservation N D input uid now =
     bindIO (getIO (findSubnet (cr_subnetId input))) (\<lambda>s.
     case s of
       None \<Rightarrow> throwIO (notFound ''Subnet'' (cr_subnetId input))
     | Some sub \<Rightarrow>
         (if sn_status sub = SubDeprecated
          then throwIO (AppError 409 (''Subnet '' @ sn_cidr sub @ '' is deprecated and cannot accept new reservations''))
          else if detectIpVersion (sn_cidr sub) \<noteq> V4
          then throwIO (AppError 400 ''Auto-allocate is only supported for IPv4 subnets'')
          else
            bindIO (getIO (\<lambda>w. List.map_filter (\<lambda>r. if rs_subnetId r = cr_subnetId input \<and> rs_status r = ResActive
                                                   then or_null (rs_ipAddress r) else None) (w_reservations w))) (\<lambda>reserved.
            bindIO (liftIO (next_free_loop N (sn_cidr sub) reserved 1)) (\<lambda>found.
            case found of
              None \<Rightarrow> throwIO (AppError 409 (''No available IP addresses in subnet '' @ sn_cidr sub))
            | Some ip \<Rightarrow> createReservation N D (input\<lparr>cr_ipAddress := Some ip\<rparr>) uid now))))"

section \<open>Expiry\<close>

definition overdue :: "int \<Rightarrow> reservation \<Rightarrow> bool" where
  "overdue now r \<longleftrightarrow> rs_status r = ResActive \<and> (case rs_expiresAt r of None \<Rightarrow> False | Some t \<Rightarrow> t < now)"

definition expireStaleReservations :: "int \<Rightarrow> ('d world, nat) io" where
  "expireStaleReservations now = updateManyReservations (overdue now) (\<lambda>r. r\<lparr>rs_status := ResExpired\<rparr>)"

end
