(* ===== verification/PushQueue.thy ===== *)
theory PushQueue
  imports Reservations
begin

text \<open>
  The second half of \<^verbatim>\<open>src/services/reservationService.ts\<close>: the queue of reservations whose push is
  pending, the back-off, the attempt to push one queued row, the periodic scan, the operator's retry
  and the hook on a recovered firewall; and the tick of \<^verbatim>\<open>src/jobs/retryQueuedReservationPushes.ts\<close>.
  A queued row is the snapshot the scan read: the reservation with its subnet and integration.
\<close>

section \<open>The queue\<close>

definition inPushQueue :: "reservation \<Rightarrow> bool" where
  "inPushQueue r \<longleftrightarrow> rs_status r = ResActive \<and> rs_pushStatus r \<in> {Some PushPending, Some PushFailedPermanent}"

definition listPushQueue :: "('d world, (reservation \<times> subnet option \<times> integration option) list) io" where
  "listPushQueue =
     getIO (\<lambda>w. map (\<lambda>r. (r, findSubnet (rs_subnetId r) w, findIntegration (rs_pushedToId r) w))
                    (nulls_last rs_pushQueuedAt (filter inPushQueue (w_reservations w))))"

definition countPushQueue :: "('d world, nat) io" where
  "countPushQueue = getIO (\<lambda>w. length (filter inPushQueue (w_reservations w)))"

definition backoffSecondsFor :: "nat \<Rightarrow> nat" where
  "backoffSecondsFor attempts = (if attempts = 0 then 60 div 2 else min (60 * 2 ^ (attempts - 1)) 1800)"

datatype retryOutcome =
    Synced | TransientFailure | PermanentFailure | Cancelled | Superseded | SkippedMonitoredDown | SkippedBackoff

section \<open>One attempt\<close>

definition clear_queue :: "reservation \<Rightarrow> reservation" where
  "clear_queue r =
     r\<lparr>rs_pushStatus := None, rs_pushQueuedAt := None, rs_pushAttempts := 0, rs_pushLastAttemptAt := None,
       rs_pushError := None, rs_pushedToId := None\<rparr>"

definition cancelQueued :: "reservation \<Rightarrow> string option \<Rightarrow> ('d world, retryOutcome) io" where
  "cancelQueued r actor =
     bindIO (catchIO (bindIO (updateReservationRow (rs_id r) clear_queue) (\<lambda>_. returnIO ())) (\<lambda>_. returnIO ())) (\<lambda>_.
     bindIO (logEvent (resEvent ''reservation.push.queued.cancelled'' ''info'' (Some (rs_id r)) (reservationLabel r) actor)) (\<lambda>_.
     returnIO Cancelled))"

text \<open>Step 1: the reasons to drop a row from the queue, in the order of the checks.\<close>

definition cancelReason :: "reservation \<Rightarrow> subnet \<Rightarrow> integration option \<Rightarrow> string option" where
  "cancelReason r sub ig =
     (if sn_status sub = SubDeprecated then Some ''subnet_deprecated''
      else if \<not> truthy (sn_fortigateDevice sub) then Some ''subnet_no_fortigateDevice''
      else if \<not> truthy (rs_ipAddress r) then Some ''reservation_no_ip''
      else if \<not> truthy (rs_macAddress r) then Some ''reservation_no_mac''
      else (case ig of
              None \<Rightarrow> Some ''integration_deleted''
            | Some g \<Rightarrow>
                (if \<not> ig_enabled g then Some ''integration_disabled''
                 else if ig_type g \<noteq> ''fortimanager'' \<and> ig_type g \<noteq> ''fortigate''
                 then Some (''integration_type_'' @ ig_type g @ ''_not_pushable'')
                 else if cf_pushReservations (ig_config g) \<noteq> Some True then Some ''pushReservations_disabled''
                 else None)))"

definition findCollider :: "reservation \<Rightarrow> 'd world \<Rightarrow> reservation option" where
  "findCollider r w =
     find (\<lambda>q. rs_id q \<noteq> rs_id r \<and> rs_subnetId q = rs_subnetId r \<and> rs_ipAddress q = rs_ipAddress r \<and>
               rs_status q = ResActive) (w_reservations w)"

text \<open>Step 3: not while a monitored gate is not up, nor within the back-off of an unmonitored one.\<close>

definition readiness :: "reservation \<Rightarrow> subnet \<Rightarrow> integration \<Rightarrow> int \<Rightarrow> 'd world \<Rightarrow> retryOutcome option" where
  "readiness r sub ig now w =
     (let fw = findFirewall (the (sn_fortigateDevice sub)) (ig_id ig) w;
          monitored = (case fw of None \<Rightarrow> False | Some a \<Rightarrow> as_monitored a)
      in if monitored then (if as_monitorStatus (the fw) \<noteq> Some ''up'' then Some SkippedMonitoredDown else None)
         else (case rs_pushLastAttemptAt r of
                 None \<Rightarrow> None
               | Some t \<Rightarrow> if now - t < int (backoffSecondsFor (rs_pushAttempts r)) * 1000 then Some SkippedBackoff else None))"

definition queuedPushParams :: "reservation \<Rightarrow> subnet \<Rightarrow> integration \<Rightarrow> pushParams" where
  "queuedPushParams r sub ig =
     \<lparr>pp_subnetCidr = sn_cidr sub, pp_ip = the (rs_ipAddress r), pp_mac = the (rs_macAddress r), pp_hostname = rs_hostname r,
      pp_notes = rs_notes r, pp_createdBy = rs_createdBy r, pp_integration = ig,
      pp_deviceName = the (sn_fortigateDevice sub)\<rparr>"

text \<open>Step 4: count the attempt, push, and record what came of it.\<close>

definition attemptPush ::
  "netmask_lib \<Rightarrow> 'd fortinet \<Rightarrow> reservation \<Rightarrow> subnet \<Rightarrow> integration \<Rightarrow> string option \<Rightarrow> int \<Rightarrow> ('d world, retryOutcome) io" where
  "attemptPush N D r sub ig actor now =
     bindIO (updateReservationRow (rs_id r)
               (\<lambda>q. q\<lparr>rs_pushAttempts := rs_pushAttempts q + 1, rs_pushLastAttemptAt := Some now\<rparr>)) (\<lambda>_.
     catchIO
       (bindIO (deviceIO (pushReservation N D (queuedPushParams r sub ig))) (\<lambda>pushed.
        bindIO (updateReservationRow (rs_id r) (stamp_synced (Some (ig_id ig)) pushed now)) (\<lambda>_.
        bindIO (logEvent (resEvent ''reservation.push.queued.succeeded'' ''info'' (Some (rs_id r)) (reservationLabel r) actor)) (\<lambda>_.
        returnIO Synced))))
       (\<lambda>err.
        if classifyPushError err = Transient
        then bindIO (updateReservationRow (rs_id r) (\<lambda>q. q\<lparr>rs_pushError := Some (errMessage err)\<rparr>)) (\<lambda>_.
             bindIO (logEvent (resEvent ''reservation.push.queued.retry_failed'' ''info'' (Some (rs_id r)) (reservationLabel r) actor)) (\<lambda>_.
             returnIO TransientFailure))
        else bindIO (updateReservationRow (rs_id r)
                       (\<lambda>q. q\<lparr>rs_pushStatus := Some PushFailedPermanent, rs_pushError := Some (errMessage err)\<rparr>)) (\<lambda>_.
             bindIO (logEvent (resEvent ''reservation.push.queued.failed_permanent'' ''warning'' (Some (rs_id r)) (reservationLabel r) actor)) (\<lambda>_.
             returnIO PermanentFailure))))"

definition attemptQueuedPush ::
  "netmask_lib \<Rightarrow> 'd fortinet \<Rightarrow> reservation \<Rightarrow> subnet \<Rightarrow> integration option \<Rightarrow> bool \<Rightarrow> string option \<Rightarrow> int \<Rightarrow>
   ('d world, retryOutcome) io" where
  "attemptQueuedPush N D r sub ig bypassReadinessGates actor now =
     (if cancelReason r sub ig \<noteq> None then cancelQueued r actor
      else
        bindIO (getIO (findCollider r)) (\<lambda>collider.
        case collider of
          Some c \<Rightarrow>
            bindIO (updateReservationRow (rs_id r)
              (\<lambda>q. q\<lparr>rs_pushStatus := Some PushFailedPermanent,
                     rs_pushError := Some (''IP collided during queue '' @ emdash @ '' discovered '' @ sourceName (rs_sourceType c) @
                       (if truthy (rs_macAddress c) then '' by '' @ the (rs_macAddress c) else [])),
                     rs_pushLastAttemptAt := Some now\<rparr>)) (\<lambda>_.
            bindIO (logEvent (resEvent ''reservation.push.queued.collided'' ''warning'' (Some (rs_id r)) (reservationLabel r) actor)) (\<lambda>_.
            returnIO Superseded))
        | None \<Rightarrow>
            bindIO (getIO (\<lambda>w. if bypassReadinessGates then None else readiness r sub (the ig) now w)) (\<lambda>gate.
            case gate of
              Some outcome \<Rightarrow> returnIO outcome
            | None \<Rightarrow> attemptPush N D r sub (the ig) actor now)))"

section \<open>The scan, the operator's retry and the hook\<close>

record retryCounts =
  rc_attempted :: nat
  rc_succeeded :: nat
  rc_transient :: nat
  rc_permanent :: nat
  rc_cancelled :: nat
  rc_superseded :: nat
  rc_skippedMonitoredDown :: nat
  rc_skippedBackoff :: nat

definition zeroCounts :: retryCounts where
  "zeroCounts = \<lparr>rc_attempted = 0, rc_succeeded = 0, rc_transient = 0, rc_permanent = 0, rc_cancelled = 0,
     rc_superseded = 0, rc_skippedMonitoredDown = 0, rc_skippedBackoff = 0\<rparr>"

definition count_outcome :: "retryOutcome \<Rightarrow> retryCounts \<Rightarrow> retryCounts" where
  "count_outcome oc c =
     (let c1 = c\<lparr>rc_attempted := rc_attempted c + 1\<rparr>
      in case oc of
           Synced \<Rightarrow> c1\<lparr>rc_succeeded := rc_succeeded c + 1\<rparr>
         | TransientFailure \<Rightarrow> c1\<lparr>rc_transient := rc_transient c + 1\<rparr>
         | PermanentFailure \<Rightarrow> c1\<lparr>rc_permanent := rc_permanent c + 1\<rparr>
         | Cancelled \<Rightarrow> c1\<lparr>rc_cancelled := rc_cancelled c + 1\<rparr>
         | Superseded \<Rightarrow> c1\<lparr>rc_superseded := rc_superseded c + 1\<rparr>
         | SkippedMonitoredDown \<Rightarrow> c1\<lparr>rc_skippedMonitoredDown := rc_skippedMonitoredDown c + 1\<rparr>
         | SkippedBackoff \<Rightarrow> c1\<lparr>rc_skippedBackoff := rc_skippedBackoff c + 1\<rparr>)"

type_synonym queuedRow = "reservation \<times> subnet \<times> integration option"

definition is_pending :: "reservation \<Rightarrow> bool" where
  "is_pending r \<longleftrightarrow> rs_pushStatus r = Some PushPending \<and> rs_status r = ResActive"

text \<open>The \<^verbatim>\<open>include\<close>: a row always has its subnet (\<^verbatim>\<open>subnetId\<close> is a foreign key).\<close>

definition queuedRow :: "'d world \<Rightarrow> reservation \<Rightarrow> queuedRow option" where
  "queuedRow w r = map_option (\<lambda>s. (r, s, subnetIntegration s w)) (findSubnet (rs_subnetId r) w)"

definition pendingRows :: "'d world \<Rightarrow> queuedRow list" where
  "pendingRows w = List.map_filter (queuedRow w) (nulls_last rs_pushQueuedAt (filter is_pending (w_reservations w)))"

fun retry_rows :: "netmask_lib \<Rightarrow> 'd fortinet \<Rightarrow> int \<Rightarrow> queuedRow list \<Rightarrow> retryCounts \<Rightarrow> ('d world, retryCounts) io" where
  "retry_rows N D now [] c = returnIO c"
| "retry_rows N D now ((r, sub, ig) # rows) c =
     bindIO (attemptQueuedPush N D r sub ig False None now) (\<lambda>oc. retry_rows N D now rows (count_outcome oc c))"

definition retryPendingReservations :: "netmask_lib \<Rightarrow> 'd fortinet \<Rightarrow> int \<Rightarrow> ('d world, retryCounts) io" where
  "retryPendingReservations N D now = bindIO (getIO pendingRows) (\<lambda>rows. retry_rows N D now rows zeroCounts)"

definition pushStatusName :: "pushStatus option \<Rightarrow> string" where
  "pushStatusName p =
     (case p of None \<Rightarrow> ''null'' | Some PushSynced \<Rightarrow> ''synced'' | Some PushDrift \<Rightarrow> ''drift'' | Some PushPending \<Rightarrow> ''pending''
      | Some PushFailedPermanent \<Rightarrow> ''failed_permanent'')"

definition retryReservationNow ::
  "netmask_lib \<Rightarrow> 'd fortinet \<Rightarrow> string \<Rightarrow> string option \<Rightarrow> int \<Rightarrow>
   ('d world, retryOutcome \<times> reservation \<times> subnet option \<times> (string \<times> string \<times> string) option) io" where
  "retryReservationNow N D i actor now =
     bindIO (getIO (\<lambda>w. (findReservation i w, w))) (\<lambda>(ro, w).
     case ro of
       None \<Rightarrow> throwIO (notFound ''Reservation'' i)
     | Some r \<Rightarrow>
         (if rs_status r \<noteq> ResActive
          then throwIO (AppError 409 (''Cannot retry a '' @ statusName (rs_status r) @ '' reservation''))
          else if rs_pushStatus r \<noteq> Some PushPending \<and> rs_pushStatus r \<noteq> Some PushFailedPermanent
          then throwIO (AppError 409 (''Reservation '' @ i @ '' is not queued (pushStatus='' @ pushStatusName (rs_pushStatus r) @ '')''))
          else
            (case queuedRow w r of
               None \<Rightarrow> throwIO TypeError
             | Some (r, sub, ig) \<Rightarrow>
                 bindIO (if rs_pushStatus r = Some PushFailedPermanent
                         then bindIO (updateReservationRow i
                                (\<lambda>q. q\<lparr>rs_pushStatus := Some PushPending,
                                       rs_pushQueuedAt := (case rs_pushQueuedAt r of None \<Rightarrow> Some now | Some t \<Rightarrow> Some t),
                                       rs_pushError := rs_pushError r\<rparr>)) (\<lambda>_. returnIO ())
                         else returnIO ()) (\<lambda>_.
                 bindIO (logEvent (resEvent ''reservation.push.queued.retry_manual'' ''info'' (Some i) (reservationLabel r) actor)) (\<lambda>_.
                 bindIO (attemptQueuedPush N D r sub ig True actor now) (\<lambda>oc.
                 bindIO (getReservation i) (\<lambda>full. returnIO (oc, full))))))))"

definition triggerRetryAfterStatusChange :: "netmask_lib \<Rightarrow> 'd fortinet \<Rightarrow> string \<Rightarrow> int \<Rightarrow> ('d world, unit) io" where
  "triggerRetryAfterStatusChange N D assetId now =
     bindIO (getIO (\<lambda>w. find (\<lambda>a. as_id a = assetId) (w_assets w))) (\<lambda>ao.
     case ao of
       None \<Rightarrow> returnIO ()
     | Some a \<Rightarrow>
         (if as_assetType a \<noteq> ''firewall'' \<or> \<not> truthy (as_hostname a) \<or> \<not> truthy (as_discoveredByIntegrationId a)
          then returnIO ()
          else
            bindIO (getIO (\<lambda>w. length (filter (\<lambda>r. is_pending r \<and>
                     (case findSubnet (rs_subnetId r) w of
                        None \<Rightarrow> False
                      | Some s \<Rightarrow> sn_fortigateDevice s = as_hostname a \<and> sn_discoveredBy s = as_discoveredByIntegrationId a))
                   (w_reservations w)))) (\<lambda>n.
            if n = 0 then returnIO ()
            else catchIO (bindIO (retryPendingReservations N D now) (\<lambda>_. returnIO ())) (\<lambda>_. returnIO ()))))"

text \<open>
  The background tick: a failure of the scan is swallowed, and a tick that finds the previous one
  still running does nothing. \<open>running\<close> is the module's flag.
\<close>

definition tick :: "netmask_lib \<Rightarrow> 'd fortinet \<Rightarrow> int \<Rightarrow> bool \<Rightarrow> ('d world, bool) io" where
  "tick N D now running =
     (if running then returnIO True
      else bindIO (catchIO (bindIO (retryPendingReservations N D now) (\<lambda>_. returnIO ())) (\<lambda>_. returnIO ())) (\<lambda>_.
           returnIO False))"

end
