(* ===== verification/Stale.thy ===== *)
theory Stale
  imports Reservations
begin

text \<open>
  \<^verbatim>\<open>src/services/reservationStaleService.ts\<close>: detection of DHCP reservations whose target is not seen any
  more. Times are milliseconds. A \<^verbatim>\<open>Setting\<close> row is \<^term>\<open>None\<close> while absent, \<^term>\<open>Some None\<close> when its value
  does not read as a number (or date); a stored threshold is a whole number.
\<close>

section \<open>Settings\<close>

definition dayMs :: int where
  "dayMs = 24 * 60 * 60 * 1000"

definition normalizeDays :: "int option \<Rightarrow> int" where
  "normalizeDays d = (case d of Some n \<Rightarrow> (if n \<ge> 0 then n else 60) | None \<Rightarrow> 60)"

definition getStaleSettings :: "'d world \<Rightarrow> int" where
  "getStaleSettings w = (case w_staleAfterDays w of None \<Rightarrow> 60 | Some d \<Rightarrow> normalizeDays d)"

definition updateStaleSettings :: "int option \<Rightarrow> ('d world, int) io" where
  "updateStaleSettings days =
     bindIO (modifyIO (\<lambda>w. w\<lparr>w_staleAfterDays := Some (Some (normalizeDays days))\<rparr>)) (\<lambda>_.
     returnIO (normalizeDays days))"

definition getDetectionStartedAt :: "int \<Rightarrow> ('d world, int) io" where
  "getDetectionStartedAt now =
     bindIO (getIO w_detectionStartedAt) (\<lambda>row.
     case row of
       Some (Some t) \<Rightarrow> returnIO t
     | _ \<Rightarrow> bindIO (modifyIO (\<lambda>w. w\<lparr>w_detectionStartedAt := Some (Some now)\<rparr>)) (\<lambda>_. returnIO now))"

section \<open>Snooze and ignore\<close>

definition staleGuard :: "string \<Rightarrow> string \<Rightarrow> 'd world \<Rightarrow> unit result" where
  "staleGuard verb i w =
     (case findReservation i w of
        None \<Rightarrow> Inl (notFound ''Reservation'' i)
      | Some r \<Rightarrow>
          (if rs_status r \<noteq> ResActive \<or> rs_sourceType r \<noteq> SrcDhcpReservation
           then Inl (AppError 409 (''Cannot '' @ verb @ '' '' @ emdash @ '' reservation must be active and dhcp_reservation (status='' @
                  statusName (rs_status r) @ '', sourceType='' @ sourceName (rs_sourceType r) @ '')''))
           else Inr ()))"

definition snoozeReservation :: "string \<Rightarrow> int \<Rightarrow> ('d world, string \<times> int \<times> int) io" where
  "snoozeReservation i now =
     bindIO (getIO getStaleSettings) (\<lambda>days.
     if days = 0
     then throwIO (AppError 409 (''Stale-reservation detection is disabled '' @ emdash @ '' set a non-zero threshold before snoozing alerts''))
     else
       bindIO (bindIO (getIO (staleGuard ''snooze'' i)) liftIO) (\<lambda>_.
       bindIO (updateReservationRow i (\<lambda>r. r\<lparr>rs_staleSnoozedUntil := Some (now + days * dayMs), rs_staleNotifiedAt := None\<rparr>)) (\<lambda>_.
       returnIO (i, now + days * dayMs, days))))"

definition setStaleIgnored :: "string \<Rightarrow> bool \<Rightarrow> ('d world, string \<times> bool) io" where
  "setStaleIgnored i staleIgnored =
     bindIO (bindIO (getIO (staleGuard ''ignore'' i)) liftIO) (\<lambda>_.
     bindIO (updateReservationRow i (\<lambda>r.
        if staleIgnored then r\<lparr>rs_staleIgnored := True, rs_staleSnoozedUntil := None, rs_staleNotifiedAt := None\<rparr>
        else r\<lparr>rs_staleIgnored := False\<rparr>)) (\<lambda>_.
     returnIO (i, staleIgnored)))"

section \<open>The alert list\<close>

record reservationAlertEntry =
  ra_id :: string
  ra_ipAddress :: "string option"
  ra_hostname :: "string option"
  ra_macAddress :: "string option"
  ra_subnetId :: string
  ra_subnetCidr :: string
  ra_subnetName :: string
  ra_createdAt :: int
  ra_lastSeenLeased :: "int option"
  ra_staleNotifiedAt :: "int option"
  ra_daysSinceSeen :: int
  ra_fortigateDevice :: "string option"
  ra_pushedToId :: "string option"
  ra_pushedToName :: "string option"

definition alertEntry :: "'d world \<Rightarrow> int \<Rightarrow> reservation \<Rightarrow> int \<Rightarrow> reservationAlertEntry option" where
  "alertEntry w now r lastSignal =
     map_option (\<lambda>s.
       \<lparr>ra_id = rs_id r, ra_ipAddress = rs_ipAddress r, ra_hostname = rs_hostname r, ra_macAddress = rs_macAddress r,
        ra_subnetId = rs_subnetId r, ra_subnetCidr = sn_cidr s, ra_subnetName = sn_name s, ra_createdAt = rs_createdAt r,
        ra_lastSeenLeased = rs_lastSeenLeased r, ra_staleNotifiedAt = rs_staleNotifiedAt r,
        ra_daysSinceSeen = (now - lastSignal) div dayMs, ra_fortigateDevice = sn_fortigateDevice s,
        ra_pushedToId = rs_pushedToId r, ra_pushedToName = map_option ig_name (findIntegration (rs_pushedToId r) w)\<rparr>)
       (findSubnet (rs_subnetId r) w)"

text \<open>\<^verbatim>\<open>orderBy: [{ lastSeenLeased: "asc" }, { createdAt: "asc" }]\<close>\<close>

definition bySignal :: "reservation list \<Rightarrow> reservation list" where
  "bySignal rs = nulls_last rs_lastSeenLeased (sort_key rs_createdAt rs)"

definition dhcpRows :: "bool \<Rightarrow> 'd world \<Rightarrow> reservation list" where
  "dhcpRows ignored w =
     bySignal (filter (\<lambda>r. rs_status r = ResActive \<and> rs_sourceType r = SrcDhcpReservation \<and> rs_staleIgnored r = ignored)
                      (w_reservations w))"

definition lastSignal :: "int \<Rightarrow> reservation \<Rightarrow> int" where
  "lastSignal started r =
     (let baseline = (if rs_createdAt r > started then rs_createdAt r else started)
      in case rs_lastSeenLeased r of Some t \<Rightarrow> t | None \<Rightarrow> baseline)"

definition is_stale :: "int \<Rightarrow> int \<Rightarrow> int \<Rightarrow> reservation \<Rightarrow> bool" where
  "is_stale days started now r \<longleftrightarrow>
     \<not> (case rs_staleSnoozedUntil r of None \<Rightarrow> False | Some t \<Rightarrow> t > now) \<and>
     \<not> (lastSignal started r > now - days * dayMs)"

datatype staleMode = ActiveMode | IgnoredMode

definition listStaleReservations :: "staleMode \<Rightarrow> int \<Rightarrow> ('d world, reservationAlertEntry list) io" where
  "listStaleReservations mode now =
     bindIO (getIO getStaleSettings) (\<lambda>days.
     if mode = ActiveMode \<and> days = 0 then returnIO []
     else if mode = IgnoredMode
     then getIO (\<lambda>w. List.map_filter (\<lambda>r. alertEntry w now r
                        (case rs_lastSeenLeased r of Some t \<Rightarrow> t | None \<Rightarrow> rs_createdAt r)) (dhcpRows True w))
     else
       bindIO (getDetectionStartedAt now) (\<lambda>started.
       getIO (\<lambda>w. List.map_filter (\<lambda>r. if is_stale days started now r then alertEntry w now r (lastSignal started r) else None)
                                  (dhcpRows False w))))"

section \<open>The job\<close>

fun flag_rows :: "int \<Rightarrow> reservationAlertEntry list \<Rightarrow> nat \<Rightarrow> ('d world, nat) io" where
  "flag_rows now [] emitted = returnIO emitted"
| "flag_rows now (row # rows) emitted =
     (if ra_staleNotifiedAt row \<noteq> None then flag_rows now rows emitted
      else
        bindIO (logEvent (resEvent ''reservation.stale'' ''warning'' (Some (ra_id row))
                  (Some (or_str (ra_hostname row) (keep (ra_ipAddress row) ''(no IP)''))) None)) (\<lambda>_.
        bindIO (updateReservationRow (ra_id row) (\<lambda>r. r\<lparr>rs_staleNotifiedAt := Some now\<rparr>)) (\<lambda>_.
        flag_rows now rows (emitted + 1))))"

definition flagStaleReservations :: "int \<Rightarrow> ('d world, nat) io" where
  "flagStaleReservations now =
     bindIO (getIO getStaleSettings) (\<lambda>days.
     if days = 0 then returnIO 0
     else bindIO (listStaleReservations ActiveMode now) (\<lambda>stale. flag_rows now stale 0))"

end
