(* ===== verification/Invariant.thy ===== *)
theory Invariant
  imports IoLogic Templates PushQueue Stale
begin

text \<open>
  The database stays well-formed through every operation of the core: block, subnet, template,
  reservation, push-queue, fallback and staleness services. One lemma per operation, by the rules of
  \<open>IoLogic\<close>; then the step relation of the whole core and its invariant by rule induction.
\<close>

section \<open>Row updates that move nothing\<close>

lemma calm_stamps [simp]:
  "calm (stamp_down i d n)" "calm (stamp_synced i p n)" "calm (stamp_queued i e n)" "calm cleared" "calm clear_queue"
  by (simp_all add: calm_def stamp_down_def stamp_synced_def stamp_queued_def cleared_def clear_queue_def)

lemma calm_applyUpdate [simp]: "calm (applyUpdate input owner mac pushed now)"
  by (auto simp: calm_def applyUpdate_def Let_def split: option.splits)

lemma calm_fields [simp]:
  "calm (\<lambda>r. r\<lparr>rs_status := ResReleased\<rparr>)" "calm (\<lambda>r. r\<lparr>rs_status := ResExpired\<rparr>)"
  "calm (\<lambda>r. r\<lparr>rs_hostname := h, rs_macAddress := m\<rparr>)"
  "calm (\<lambda>q. q\<lparr>rs_pushAttempts := rs_pushAttempts q + 1, rs_pushLastAttemptAt := t\<rparr>)"
  "calm (\<lambda>q. q\<lparr>rs_pushError := e\<rparr>)" "calm (\<lambda>q. q\<lparr>rs_pushStatus := s, rs_pushError := e\<rparr>)"
  "calm (\<lambda>q. q\<lparr>rs_pushStatus := s, rs_pushError := e, rs_pushLastAttemptAt := t\<rparr>)"
  "calm (\<lambda>q. q\<lparr>rs_pushStatus := s, rs_pushQueuedAt := t, rs_pushError := e\<rparr>)"
  "calm (\<lambda>r. r\<lparr>rs_staleSnoozedUntil := t, rs_staleNotifiedAt := u\<rparr>)" "calm (\<lambda>r. r\<lparr>rs_staleNotifiedAt := u\<rparr>)"
  "calm (\<lambda>r. if b then r\<lparr>rs_staleIgnored := True, rs_staleSnoozedUntil := None, rs_staleNotifiedAt := None\<rparr>
             else r\<lparr>rs_staleIgnored := False\<rparr>)"
  by (simp_all add: calm_def)

section \<open>Blocks, subnets and templates\<close>

lemma keeps_createBlockOp: "keeps world_ok (createBlock N input uid)"
  unfolding createBlock_def by (intro keeps_rules keeps_prims)

lemma keeps_updateBlock: "keeps world_ok (updateBlock i input)"
proof -
  have "world_ok (w\<lparr>w_blocks := map (\<lambda>b. if bl_id b = i then f b else b) (w_blocks w)\<rparr>)"
    if ok: "world_ok w" and f: "\<And>b. bl_id (f b) = bl_id b" "\<And>b. bl_cidr (f b) = bl_cidr b" for w :: "'a world" and f
  proof -
    let ?g = "\<lambda>b. if bl_id b = i then f b else b"
    let ?bs = "map ?g (w_blocks w)"
    have ids: "map bl_id ?bs = map bl_id (w_blocks w)" using f(1) by (rule distinct_map_upd)
    have "distinct (map bl_id ?bs)" unfolding ids using ok by (simp add: world_ok_defs table_ok_def)
    moreover have "List.map_filter blockKey ?bs = List.map_filter blockKey (w_blocks w)"
      by (rule map_filter_upd) (simp add: blockKey_def f(2))
    ultimately have "table_ok bl_id blockKey ?bs"
      using ok by (simp add: world_ok_defs table_ok_def del: map_map)
    moreover have "bl_id ` set ?bs = bl_id ` set (w_blocks w)" by (metis ids set_map)
    ultimately show ?thesis using ok by (simp add: world_ok_defs del: map_map set_map)
  qed
  then show ?thesis
    unfolding updateBlock_def by (intro keeps_rules keeps_modify) simp
qed

lemma keeps_deleteBlockOp: "keeps world_ok (deleteBlock i)"
  unfolding deleteBlock_def by (intro keeps_rules keeps_modify keeps_deleteBlock)

lemma findBlock_mem: "findBlock i w = Some b \<Longrightarrow> b \<in> set (w_blocks w) \<and> bl_id b = i"
  by (auto simp: findBlock_def dest: find_SomeD)

lemma findSubnet_mem: "findSubnet i w = Some s \<Longrightarrow> s \<in> set (w_subnets w) \<and> sn_id s = i"
  by (auto simp: findSubnet_def dest: find_SomeD)

lemma findReservation_mem: "findReservation i w = Some r \<Longrightarrow> r \<in> set (w_reservations w) \<and> rs_id r = i"
  by (auto simp: findReservation_def dest: find_SomeD)

text \<open>The outcomes of a subnet creation.\<close>

lemma createSubnet_cases:
  assumes "createSubnet N input uid w = (r, w')"
  obtains (error) e where "r = Inl e" "w' = w"
  | (row) c b s where "normalizeCidr N (cs_cidr input) = Inr c" "findBlock (cs_blockId input) w = Some b"
      "cidrContains N (bl_cidr b) c" "detectIpVersion c = bl_ipVersion b"
      "\<forall>s \<in> set (siblingsOf (cs_blockId input) w). \<not> cidrOverlaps N (sn_cidr s) c"
      "r = Inr s" "sn_cidr s = c" "sn_blockId s = cs_blockId input" "sn_id s = uid" "createSubnetRow s w = (Inr s, w')"
proof -
  show ?thesis
    using assms row error
    by (auto simp: createSubnet_def createSubnetRow_def bindIO_def find_None_iff split: if_splits option.splits sum.splits)
qed

lemma keeps_createSubnetOp: "keeps world_ok (createSubnet N input uid)"
proof (rule keepsI)
  fix w r and w' :: "'a world"
  assume ok: "world_ok w" and run: "createSubnet N input uid w = (r, w')"
  from run show "world_ok w'"
  proof (cases rule: createSubnet_cases)
    case (row c b s)
    then show ?thesis
      using ok findBlock_mem [OF row(2)] validD [OF valid_createSubnet, of w s s w'] by force
  qed (use ok in simp)
qed

lemma keeps_allocateNext: "keeps world_ok (allocateNextSubnet N blockId p meta uid)"
  unfolding allocateNextSubnet_def by (intro keeps_rules keeps_createSubnetOp)

definition block_world_ok :: "string \<Rightarrow> 'd world \<Rightarrow> bool" where
  "block_world_ok i w \<longleftrightarrow> world_ok w \<and> i \<in> bl_id ` set (w_blocks w)"

lemma keeps_createSubnetRow: "sn_blockId s = i \<Longrightarrow> keeps (block_world_ok i) (createSubnetRow s)"
proof (rule keepsI)
  fix w r and w' :: "'a world"
  assume "block_world_ok i w" "createSubnetRow s w = (r, w')" "sn_blockId s = i"
  moreover from this(2) have "w_blocks w' = w_blocks w" by (auto simp: createSubnetRow_def split: sum.splits)
  ultimately show "block_world_ok i w'"
    using valid_anyD [OF valid_createSubnet, of w s r w'] by (simp add: block_world_ok_def)
qed

lemma keeps_createAssigned: "keeps (block_world_ok (ba_blockId input)) (create_assigned N input pfx asg uids)"
proof (induction N input pfx asg uids rule: create_assigned.induct)
  case (2 N input pfx e c asg uids)
  then show ?case by (auto intro!: keeps_rules keeps_createSubnetRow)
qed (simp only: create_assigned.simps keeps_simple)

lemma keeps_bulkAllocate: "keeps world_ok (bulkAllocate N input uids)"
proof (rule keepsI)
  fix w r and w' :: "'a world"
  assume ok: "world_ok w" and run: "bulkAllocate N input uids w = (r, w')"
  show "world_ok w'"
  proof (cases "findBlock (ba_blockId input) w")
    case None
    then show ?thesis
      using run ok by (auto simp: bulkAllocate_def Let_def bindIO_def split: if_splits sum.splits)
  next
    case (Some b)
    then have "block_world_ok (ba_blockId input) w"
      using ok findBlock_mem [OF Some] by (force simp: block_world_ok_def)
    moreover have "keeps (block_world_ok (ba_blockId input)) (bulkAllocate N input uids)"
      unfolding bulkAllocate_def by (intro keeps_rules keeps_createAssigned)
    ultimately show ?thesis
      using keepsD run by (fastforce simp: block_world_ok_def)
  qed
qed

lemma keeps_updateSubnetOp: "keeps world_ok (updateSubnet i input)"
  unfolding updateSubnet_def by (intro keeps_rules keeps_updateSubnet) (simp add: Let_def)

lemma keeps_deleteSubnetOp: "keeps world_ok (deleteSubnet i)"
  unfolding deleteSubnet_def by (intro keeps_rules keeps_modify keeps_deleteSubnets)

lemma keeps_saveTemplate: "keeps world_ok (saveTemplate input uuid)"
  unfolding saveTemplate_def persistAll_def by (intro keeps_rules keeps_modify) simp_all

lemma keeps_deleteTemplate: "keeps world_ok (deleteTemplate i)"
  unfolding deleteTemplate_def persistAll_def by (intro keeps_rules keeps_modify) simp_all

section \<open>Fallback reservations\<close>

lemma keeps_releaseRows: "keeps world_ok (releaseRows ids a)"
  unfolding releaseRows_def by (intro keeps_rules keeps_prims) simp

lemma keeps_releaseDnsAt: "keeps world_ok (releaseDnsResolvedAt i ip)"
  unfolding releaseDnsResolvedAt_def by (intro keeps_rules keeps_prims) simp

lemma keeps_releaseDnsForAsset: "keeps world_ok (releaseDnsResolvedForAsset a)"
  unfolding releaseDnsResolvedForAsset_def by (intro keeps_rules keeps_prims keeps_releaseRows)

definition subnet_world_ok :: "string \<Rightarrow> 'd world \<Rightarrow> bool" where
  "subnet_world_ok i w \<longleftrightarrow> world_ok w \<and> i \<in> sn_id ` set (w_subnets w)"

lemma subnets_calm [simp]:
  "subnet_world_ok i (w\<lparr>w_events := ev\<rparr>) = subnet_world_ok i w" "subnet_world_ok i (w\<lparr>w_device := d\<rparr>) = subnet_world_ok i w"
  by (simp_all add: subnet_world_ok_def)

lemma subnet_keeps_log: "keeps (subnet_world_ok i) (logEvent e)"
  by (simp add: logEvent_def keeps_modify)

lemma subnet_keeps_updateRow: "calm f \<Longrightarrow> keeps (subnet_world_ok i) (updateReservationRow j f)"
  by (rule keepsI)
     (auto simp: subnet_world_ok_def updateReservationRow_def dest: table_upd_calm split: option.splits sum.splits)

lemma subnet_keeps_create:
  "rs_subnetId r = i \<Longrightarrow> rs_ipAddress r \<noteq> None \<Longrightarrow> keeps (subnet_world_ok i) (createReservationRow r)"
proof (rule keepsI)
  fix w q and w' :: "'a world"
  assume "subnet_world_ok i w" "createReservationRow r w = (q, w')" "rs_subnetId r = i" "rs_ipAddress r \<noteq> None"
  moreover from this(2) have "w_subnets w' = w_subnets w" by (auto simp: createReservationRow_def split: sum.splits)
  ultimately show "subnet_world_ok i w'"
    using valid_anyD [OF valid_createReservation, of w r q w'] by (auto simp: subnet_world_ok_def may_insert_def is_full_def)
qed

lemma keeps_upsertSystemRow: "keeps (subnet_world_ok (sn_id sub)) (upsertSystemRow a sub ip now uid)"
  unfolding upsertSystemRow_def
  by (intro keeps_rules subnet_keeps_log subnet_keeps_updateRow subnet_keeps_create) (simp_all add: newReservation_def)

lemma findContaining_mem: "findContainingSubnet pg ip w = Inr (Some s) \<Longrightarrow> s \<in> set (w_subnets w)"
proof -
  assume *: "findContainingSubnet pg ip w = Inr (Some s)"
  let ?hits = "filter (\<lambda>s. or_false (pg_covers pg (sn_cidr s) ip)) (filter (\<lambda>s. sn_status s \<noteq> SubDeprecated) (w_subnets w))"
  from * have "s \<in> set (sort_key (\<lambda>s. - pg_masklen pg (sn_cidr s)) ?hits)"
    by (auto simp: findContainingSubnet_def Let_def simp del: set_sort set_filter filter_filter split: option.splits list.splits)
  then show "s \<in> set (w_subnets w)" by simp
qed

lemma keeps_reconcile: "keeps world_ok (reconcileDnsResolvedForAsset pg a now uid)"
proof -
  have up: "valid (\<lambda>w. world_ok w \<and> sn_id sub \<in> sn_id ` set (w_subnets w)) (catchIO (upsertSystemRow x sub ip now uid) (\<lambda>_. returnIO (0, 0)))
      (\<lambda>_. world_ok) (\<lambda>_. world_ok)" for x sub ip
  proof -
    have "keeps (subnet_world_ok (sn_id sub)) (catchIO (upsertSystemRow x sub ip now uid) (\<lambda>_. returnIO (0, 0)))"
      by (intro keeps_catch keeps_upsertSystemRow keeps_simple)
    then show ?thesis
      by (rule valid_post [THEN valid_pre]) (simp_all add: subnet_world_ok_def)
  qed
  have read: "valid world_ok (catchIO (bindIO (getIO (findContainingSubnet pg ip)) liftIO) (\<lambda>_. returnIO None))
      (\<lambda>target w. world_ok w \<and> (\<forall>sub. target = Some sub \<longrightarrow> sn_id sub \<in> sn_id ` set (w_subnets w))) (\<lambda>_. world_ok)" for ip
    by (rule validI) (auto simp: catchIO_iff dest: findContaining_mem)
  have guarded: "valid (\<lambda>w. world_ok w \<and> sn_id sub \<in> sn_id ` set (w_subnets w))
      (bindIO (getIO f) (\<lambda>c. if P c then m else bindIO (catchIO (upsertSystemRow x sub ip now uid) (\<lambda>_. returnIO (0, 0))) k)) (\<lambda>_. world_ok) (\<lambda>_. world_ok)"
    if "keeps world_ok m" "\<And>a. keeps world_ok (k a)" for f P m k x sub ip
    by (rule valid_get) (auto intro!: valid_bind [OF up that(2), THEN valid_pre] that(1) [THEN valid_pre])
  have release: "keeps world_ok (bindIO (catchIO (releaseRows ids a) (\<lambda>_. returnIO 0)) (\<lambda>n. returnIO (k n)))" for ids k
    by (intro keeps_bind keeps_catch keeps_releaseRows keeps_simple)
  have body: "valid (\<lambda>w. world_ok w \<and> (\<forall>sub. target = Some sub \<longrightarrow> sn_id sub \<in> sn_id ` set (w_subnets w)))
      (case target of None \<Rightarrow> m
       | Some sub \<Rightarrow> bindIO (getIO (f sub)) (\<lambda>c. if P c then m else bindIO (catchIO (upsertSystemRow x sub ip now uid) (\<lambda>_. returnIO (0, 0))) (k sub)))
      (\<lambda>_. world_ok) (\<lambda>_. world_ok)"
    if "keeps world_ok m" "\<And>sub a. keeps world_ok (k sub a)" for target m f P x ip k
    using that by (cases target) (auto intro: valid_pre guarded)
  show ?thesis
    unfolding reconcileDnsResolvedForAsset_def Let_def
    by (intro keeps_bind [OF keeps_simple(3)] keeps_option keeps_if release keeps_simple valid_bind [OF read] body keeps_prod)
qed

section \<open>Reservations\<close>

lemma subnet_keeps_updateMany: "calm f \<Longrightarrow> keeps (subnet_world_ok i) (updateManyReservations P f)"
  by (rule keepsI) (auto simp: subnet_world_ok_def updateManyReservations_def dest: table_upd_calm split: sum.splits)

lemma reservationData_simps [simp]:
  "rs_id (reservationData input uid now) = uid" "rs_subnetId (reservationData input uid now) = cr_subnetId input"
  "rs_ipAddress (reservationData input uid now) = cr_ipAddress input" "rs_status (reservationData input uid now) = ResActive"
  "rs_sourceType (reservationData input uid now) = SrcManual" "rs_pushStatus (reservationData input uid now) = None"
  by (simp_all add: reservationData_def newReservation_def)

lemma valid_insertReservation:
  "valid (\<lambda>w. subnet_world_ok (cr_subnetId input) w \<and>
            (cr_ipAddress input = None \<longrightarrow> (\<forall>q \<in> set (w_reservations w). is_full q \<longrightarrow> rs_subnetId q \<noteq> cr_subnetId input)))
     (insertReservation input uid now) (\<lambda>_. world_ok) (\<lambda>_. world_ok)"
proof (cases "truthy (cr_ipAddress input)")
  case True
  then have "cr_ipAddress input \<noteq> None" by (simp add: truthy_def)
  then have "keeps (subnet_world_ok (cr_subnetId input)) (insertReservation input uid now)"
    unfolding insertReservation_def releaseDnsResolvedAt_def using True
    by simp (intro keeps_rules subnet_keeps_updateMany subnet_keeps_log subnet_keeps_create calm_fields; simp)
  then show ?thesis
    by (rule valid_post [THEN valid_pre]) (simp_all add: subnet_world_ok_def)
next
  case False
  let ?r = "reservationData input uid now"
  let ?m = "bindIO (createReservationRow ?r) (\<lambda>res.
     bindIO (updateSubnetRow (cr_subnetId input) (\<lambda>s. s\<lparr>sn_status := SubReserved\<rparr>)) (\<lambda>_. returnIO res))"
  have v: "valid (\<lambda>w. world_ok w \<and> may_insert ?r w) ?m (\<lambda>_. world_ok) (\<lambda>_. world_ok)"
    by (intro valid_bind [OF valid_createReservation] keeps_bind keeps_updateSubnet keeps_simple) simp
  have "valid (\<lambda>w. world_ok w \<and> may_insert ?r w) (transactionIO ?m) (\<lambda>_. world_ok) (\<lambda>_. world_ok)"
    by (rule validI) (auto simp: transactionIO_iff intro: valid_anyD [OF v])
  then show ?thesis
    unfolding insertReservation_def using False
    by simp (erule valid_pre, auto simp: subnet_world_ok_def may_insert_def is_full_def)
qed

lemma keeps_pushCreated: "keeps world_ok (pushCreated N D input sub ig dev res mac now)"
  unfolding pushCreated_def by (intro keeps_rules keeps_prims; simp)

lemma check_target_full:
  "check_target N input sub w = Inr () \<Longrightarrow> cr_ipAddress input = None \<Longrightarrow>
   \<forall>q \<in> set (w_reservations w). is_full q \<longrightarrow> rs_subnetId q \<noteq> cr_subnetId input"
  by (auto simp: check_target_def truthy_def is_full_def find_None_iff split: if_splits option.splits)

text \<open>A creation that reaches the insertion.\<close>

lemma createReservation_cases:
  assumes "createReservation N D input uid now w = (r, w')"
  obtains (rejected) e where "r = Inl e" "w' = w"
  | (inserted) sub push where "findSubnet (cr_subnetId input) w = Some sub" "check_target N input sub w = Inr ()"
      "push = resolvePushEligibility sub (subnetIntegration sub w) (cr_ipAddress input)" "check_push input sub push = Inr ()"
      "bindIO (insertReservation input uid now) (\<lambda>res.
         case (push, rs_macAddress res) of
           (Some (ig, dev), Some mac) \<Rightarrow> (if mac = [] then returnIO res else pushCreated N D input sub ig dev res mac now)
         | _ \<Rightarrow> returnIO res) w = (r, w')"
proof (cases "findSubnet (cr_subnetId input) w")
  case None
  then show ?thesis using assms rejected by (auto simp: createReservation_def)
next
  case (Some sub)
  let ?push = "resolvePushEligibility sub (subnetIntegration sub w) (cr_ipAddress input)"
  show ?thesis
  proof (cases "check_target N input sub w")
    case (Inl e)
    then show ?thesis using Some assms rejected by (auto simp: createReservation_def bindIO_def)
  next
    case ct: (Inr u)
    show ?thesis
    proof (cases "check_push input sub ?push")
      case (Inl e)
      then show ?thesis using Some ct assms rejected by (auto simp: createReservation_def bindIO_def)
    next
      case (Inr v)
      then show ?thesis
        using Some ct assms inserted [of sub ?push] by (simp add: createReservation_def bindIO_def [of "bindIO _ _"])
    qed
  qed
qed

lemma keeps_createReservation: "keeps world_ok (createReservation N D input uid now)"
proof (rule keepsI)
  fix w r and w' :: "'a world"
  assume ok: "world_ok w" and run: "createReservation N D input uid now w = (r, w')"
  from run show "world_ok w'"
  proof (cases rule: createReservation_cases)
    case (inserted sub push)
    have "subnet_world_ok (cr_subnetId input) w"
      using ok findSubnet_mem [OF inserted(1)] by (force simp: subnet_world_ok_def)
    moreover have "keeps world_ok (case (push, rs_macAddress res) of
           (Some (ig, dev), Some mac) \<Rightarrow> (if mac = [] then returnIO res else pushCreated N D input sub ig dev res mac now)
         | _ \<Rightarrow> returnIO res)" for res
      by (intro keeps_prod keeps_option keeps_if keeps_simple keeps_pushCreated)
    ultimately show ?thesis
      using valid_anyD [OF valid_bind [OF valid_insertReservation] _ inserted(5)] check_target_full [OF inserted(2)] by blast
  qed (use ok in simp)
qed

lemma keeps_updateReservation: "keeps world_ok (updateReservation N D i input actor now)"
  unfolding updateReservation_def pushMacChange_def Let_def
  by (intro keeps_rules keeps_prims calm_applyUpdate; simp)

lemma keeps_releaseReservation: "keeps world_ok (releaseReservation D i)"
  unfolding releaseReservation_def unpushBestEffort_def releaseLeaseBestEffort_def releaseRow_def Let_def
  by (intro keeps_rules keeps_prims calm_stamps; simp)

lemma keeps_nextAvailable: "keeps world_ok (nextAvailableReservation N D input uid now)"
  unfolding nextAvailableReservation_def by (intro keeps_rules keeps_createReservation)

lemma keeps_expire: "keeps world_ok (expireStaleReservations now)"
  unfolding expireStaleReservations_def by (intro keeps_prims calm_fields)

section \<open>Push queue and staleness\<close>

lemma keeps_attempt: "keeps world_ok (attemptQueuedPush N D r sub ig b actor now)"
  unfolding attemptQueuedPush_def cancelQueued_def attemptPush_def
  by (intro keeps_rules keeps_prims calm_stamps calm_fields; simp)

lemma keeps_retry_rows: "keeps world_ok (retry_rows N D now rows c)"
proof (induction N D now rows c rule: retry_rows.induct)
  case (2 N D now r sub ig rows c)
  then show ?case by (simp only: retry_rows.simps) (intro keeps_bind keeps_attempt)
qed (simp only: retry_rows.simps keeps_simple)

lemma keeps_retryPending: "keeps world_ok (retryPendingReservations N D now)"
  unfolding retryPendingReservations_def by (intro keeps_rules keeps_retry_rows)

lemma keeps_retryNow: "keeps world_ok (retryReservationNow N D i actor now)"
  unfolding retryReservationNow_def getReservation_def
  by (intro keeps_rules keeps_prims keeps_attempt calm_fields)

lemma keeps_trigger: "keeps world_ok (triggerRetryAfterStatusChange N D a now)"
  unfolding triggerRetryAfterStatusChange_def by (intro keeps_rules keeps_retryPending)

lemma keeps_flag_rows: "keeps world_ok (flag_rows now rows n)"
proof (induction now rows n rule: flag_rows.induct)
  case (2 now row rows n)
  then show ?case
    by (cases "ra_staleNotifiedAt row")
       (simp_all only: flag_rows.simps option.distinct not_None_eq simp_thms if_True if_False,
        auto intro!: keeps_bind keeps_prims calm_fields)
qed (simp only: flag_rows.simps keeps_simple)

lemma keeps_detectionStart: "keeps world_ok (getDetectionStartedAt now)"
  unfolding getDetectionStartedAt_def by (intro keeps_rules keeps_modify) simp_all

lemma keeps_flagStale: "keeps world_ok (flagStaleReservations now)"
  unfolding flagStaleReservations_def listStaleReservations_def
  by (intro keeps_rules keeps_flag_rows keeps_detectionStart)

lemma keeps_snooze: "keeps world_ok (snoozeReservation i now)"
  unfolding snoozeReservation_def by (intro keeps_rules keeps_prims calm_fields)

lemma keeps_ignore: "keeps world_ok (setStaleIgnored i b)"
  unfolding setStaleIgnored_def by (intro keeps_rules keeps_prims calm_fields)

lemma keeps_staleSettings: "keeps world_ok (updateStaleSettings d)"
  unfolding updateStaleSettings_def by (intro keeps_rules keeps_modify) simp

section \<open>The core as a state machine\<close>

text \<open>
  A step is one service call, run to its end, or a change of what the core only reads: the assets, the
  integrations and the devices.
\<close>

inductive core_step :: "netmask_lib \<Rightarrow> 'd fortinet \<Rightarrow> pg_inet \<Rightarrow> 'd world \<Rightarrow> 'd world \<Rightarrow> bool"
  for N :: netmask_lib and D :: "'d fortinet" and pg :: pg_inet where
  "createBlock N bi uid w = (r1, w') \<Longrightarrow> core_step N D pg w w'"
| "updateBlock i ub w = (r2, w') \<Longrightarrow> core_step N D pg w w'"
| "deleteBlock i w = (r3, w') \<Longrightarrow> core_step N D pg w w'"
| "createSubnet N si uid w = (r4, w') \<Longrightarrow> core_step N D pg w w'"
| "allocateNextSubnet N i p si uid w = (r5, w') \<Longrightarrow> core_step N D pg w w'"
| "bulkAllocate N ba uids w = (r6, w') \<Longrightarrow> core_step N D pg w w'"
| "updateSubnet i us w = (r7, w') \<Longrightarrow> core_step N D pg w w'"
| "deleteSubnet i w = (r8, w') \<Longrightarrow> core_step N D pg w w'"
| "saveTemplate st uid w = (r9, w') \<Longrightarrow> core_step N D pg w w'"
| "deleteTemplate i w = (r10, w') \<Longrightarrow> core_step N D pg w w'"
| "reconcileDnsResolvedForAsset pg i now uid w = (r11, w') \<Longrightarrow> core_step N D pg w w'"
| "releaseDnsResolvedForAsset i w = (r12, w') \<Longrightarrow> core_step N D pg w w'"
| "releaseDnsResolvedAt i ip w = (r13, w') \<Longrightarrow> core_step N D pg w w'"
| "createReservation N D ci uid now w = (r14, w') \<Longrightarrow> core_step N D pg w w'"
| "nextAvailableReservation N D ci uid now w = (r15, w') \<Longrightarrow> core_step N D pg w w'"
| "updateReservation N D i ui actor now w = (r16, w') \<Longrightarrow> core_step N D pg w w'"
| "releaseReservation D i w = (r17, w') \<Longrightarrow> core_step N D pg w w'"
| "expireStaleReservations now w = (r18, w') \<Longrightarrow> core_step N D pg w w'"
| "retryPendingReservations N D now w = (r19, w') \<Longrightarrow> core_step N D pg w w'"
| "retryReservationNow N D i actor now w = (r20, w') \<Longrightarrow> core_step N D pg w w'"
| "triggerRetryAfterStatusChange N D i now w = (r21, w') \<Longrightarrow> core_step N D pg w w'"
| "flagStaleReservations now w = (r22, w') \<Longrightarrow> core_step N D pg w w'"
| "snoozeReservation i now w = (r23, w') \<Longrightarrow> core_step N D pg w w'"
| "setStaleIgnored i b w = (r24, w') \<Longrightarrow> core_step N D pg w w'"
| "updateStaleSettings d w = (r25, w') \<Longrightarrow> core_step N D pg w w'"
| "core_step N D pg w (w\<lparr>w_assets := as, w_integrations := igs, w_device := dev\<rparr>)"

lemmas keeps_ops = keeps_createBlockOp keeps_updateBlock keeps_deleteBlockOp keeps_createSubnetOp keeps_allocateNext
  keeps_bulkAllocate keeps_updateSubnetOp keeps_deleteSubnetOp keeps_saveTemplate keeps_deleteTemplate keeps_reconcile
  keeps_releaseDnsForAsset keeps_releaseDnsAt keeps_createReservation keeps_nextAvailable keeps_updateReservation
  keeps_releaseReservation keeps_expire keeps_retryPending keeps_retryNow keeps_trigger keeps_flagStale keeps_snooze
  keeps_ignore keeps_staleSettings

lemma core_step_ok: "core_step N D pg w w' \<Longrightarrow> world_ok w \<Longrightarrow> world_ok w'"
  by (induction rule: core_step.induct) (rule keeps_ops [THEN keepsD], assumption, assumption | simp add: world_ok_defs)+

end
