(* ===== verification/SubnetsSpec.thy ===== *)
theory SubnetsSpec
  imports Invariant CidrSpec
begin

text \<open>
  The address plan: the subnets of an IPv4 block lie inside the block and do not meet. What subnet
  creation, automatic allocation and template allocation do to it.
\<close>

lemma sorted_wrt_apart:
  "sorted_wrt R xs \<Longrightarrow> x \<in> set xs \<Longrightarrow> y \<in> set xs \<Longrightarrow> x \<noteq> y \<Longrightarrow> (\<And>u v. R u v \<Longrightarrow> R v u) \<Longrightarrow> R x y"
  by (induction xs) auto

section \<open>The address plan of a block\<close>

definition plan_ok :: "netmask_lib \<Rightarrow> string \<Rightarrow> string list \<Rightarrow> bool" where
  "plan_ok N parent cidrs \<longleftrightarrow>
     (\<forall>c \<in> set cidrs. detectIpVersion c = V4 \<and> cidr_range N c \<subseteq> cidr_range N parent) \<and>
     sorted_wrt (\<lambda>c d. cidr_range N c \<inter> cidr_range N d = {}) cidrs"

definition block_plan_ok :: "netmask_lib \<Rightarrow> 'd world \<Rightarrow> ipBlock \<Rightarrow> bool" where
  "block_plan_ok N w b \<longleftrightarrow> detectIpVersion (bl_cidr b) = V4 \<and> plan_ok N (bl_cidr b) (map sn_cidr (siblingsOf (bl_id b) w))"

definition ipam_ok :: "netmask_lib \<Rightarrow> 'd world \<Rightarrow> bool" where
  "ipam_ok N w \<longleftrightarrow> world_ok w \<and> (\<forall>b \<in> set (w_blocks w). bl_ipVersion b = V4 \<longrightarrow> block_plan_ok N w b)"

lemma plan_ok_snoc:
  "plan_ok N p (cs @ [c]) \<longleftrightarrow> plan_ok N p cs \<and> detectIpVersion c = V4 \<and> cidr_range N c \<subseteq> cidr_range N p \<and>
     (\<forall>d \<in> set cs. cidr_range N d \<inter> cidr_range N c = {})"
  by (auto simp: plan_ok_def sorted_wrt_append)

lemma siblings_append:
  "w_subnets w' = w_subnets w @ ss \<Longrightarrow> siblingsOf i w' = siblingsOf i w @ filter (\<lambda>s. sn_blockId s = i) ss"
  by (simp add: siblingsOf_def)

lemma same_block: "world_ok w \<Longrightarrow> findBlock i w = Some b \<Longrightarrow> b' \<in> set (w_blocks w) \<Longrightarrow> bl_id b' = i \<Longrightarrow> b' = b"
  using blk.lookup_id [of "w_blocks w" b'] by (auto simp: world_ok_defs findBlock_def)

text \<open>Adding subnets of one block that extend its plan.\<close>

lemma ipam_ok_extend:
  assumes ok: "ipam_ok N w" and b: "findBlock i w = Some b" and ok': "world_ok w'" "w_blocks w' = w_blocks w"
    and ss: "w_subnets w' = w_subnets w @ ss" "\<forall>s \<in> set ss. sn_blockId s = i"
    and plan: "bl_ipVersion b = V4 \<Longrightarrow> plan_ok N (bl_cidr b) (map sn_cidr (siblingsOf i w) @ map sn_cidr ss)"
  shows "ipam_ok N w'"
  unfolding ipam_ok_def
proof (intro conjI ballI impI)
  fix b' assume b': "b' \<in> set (w_blocks w')" "bl_ipVersion b' = V4"
  then have old: "block_plan_ok N w b'" using ok ok'(2) by (simp add: ipam_ok_def)
  show "block_plan_ok N w' b'"
  proof (cases "bl_id b' = i")
    case True
    then have "b' = b" using same_block [OF _ b] ok b'(1) ok'(2) by (simp add: ipam_ok_def)
    moreover have "filter (\<lambda>s. sn_blockId s = i) ss = ss" using ss(2) by (simp add: filter_id_conv)
    ultimately show ?thesis
      using old plan b'(2) True siblings_append [OF ss(1), of i] by (simp add: block_plan_ok_def)
  next
    case False
    then have "filter (\<lambda>s. sn_blockId s = bl_id b') ss = []" using ss(2) by (auto simp: filter_empty_conv)
    then show ?thesis using old siblings_append [OF ss(1), of "bl_id b'"] by (simp add: block_plan_ok_def)
  qed
qed (rule ok'(1))

lemma createSubnetRow_adds: "createSubnetRow s w = (Inr a, w') \<Longrightarrow> a = s \<and> w' = w\<lparr>w_subnets := w_subnets w @ [s]\<rparr>"
  by (auto simp: createSubnetRow_def dest!: sub.ins_append split: sum.splits)

section \<open>Creation and automatic allocation\<close>

lemma createSubnet_ipam:
  assumes N: "netmask_spec N" and ok: "ipam_ok N w" and run: "createSubnet N input uid w = (r, w')"
    and small: "\<And>c nm. normalizeCidr N (cs_cidr input) = Inr c \<Longrightarrow> new_Netmask N c = Inr nm \<Longrightarrow> nm_bitmask nm \<le> 30"
  shows "ipam_ok N w'"
  using run
proof (cases rule: createSubnet_cases)
  case (row c b s)
  have w': "w' = w\<lparr>w_subnets := w_subnets w @ [s]\<rparr>" using createSubnetRow_adds [OF row(10)] by simp
  have wok: "world_ok w'" using keepsD [OF keeps_createSubnetOp _ run] ok by (simp add: ipam_ok_def)
  show ?thesis
  proof (rule ipam_ok_extend [OF ok row(2) wok, of "[s]"])
    assume v4: "bl_ipVersion b = V4"
    have old: "block_plan_ok N w b"
      using ok v4 findBlock_mem [OF row(2)] by (simp add: ipam_ok_def)
    have c4: "detectIpVersion c = V4" using row(4) v4 by simp
    obtain nm' where nm': "new_Netmask N c = Inr nm'" using row(3) by (auto simp: cidrContains_def split: sum.splits)
    have "nm_bitmask nm' \<le> 30" by (rule small [OF row(1) nm'])
    then have "cidr_range N c \<subseteq> cidr_range N (bl_cidr b)"
      using netmask_spec.contains_iff [OF N _ c4 nm'] old row(3) by (simp add: block_plan_ok_def)
    moreover have "cidr_range N (sn_cidr t) \<inter> cidr_range N c = {}" if "t \<in> set (siblingsOf (cs_blockId input) w)" for t
      using that row(5) old netmask_spec.overlaps_iff [OF N _ c4] findBlock_mem [OF row(2)]
      by (auto simp: block_plan_ok_def plan_ok_def)
    ultimately show "plan_ok N (bl_cidr b) (map sn_cidr (siblingsOf (cs_blockId input) w) @ map sn_cidr [s])"
      using old row(7) c4 findBlock_mem [OF row(2)] by (simp add: plan_ok_snoc block_plan_ok_def)
  qed (use w' row(8) in auto)
qed (use ok in simp)

text \<open>
  On a well-planned block the search result is accepted: allocation never fails on a check after the search.
\<close>

lemma allocateNext_run:
  assumes N: "netmask_spec N" and ok: "ipam_ok N w" and b: "findBlock i w = Some b" "bl_ipVersion b = V4"
    and nm: "new_Netmask N (bl_cidr b) = Inr nm" "nm_bitmask nm \<le> 30" and p: "8 \<le> p" "p \<le> 30"
    and uid: "uid \<notin> sn_id ` set (w_subnets w)"
  shows "(\<exists>x s. fits nm p x \<and> \<not> taken N (map sn_cidr (siblingsOf i w)) p x \<and>
            (\<forall>y. fits nm p y \<and> y < x \<longrightarrow> taken N (map sn_cidr (siblingsOf i w)) p y) \<and>
            sn_cidr s = cidr_str (intToIp x) p \<and> sn_blockId s = i \<and> sn_status s = SubAvailable \<and>
            allocateNextSubnet N i p meta uid w = (Inr s, w\<lparr>w_subnets := w_subnets w @ [s]\<rparr>)) \<or>
         ((\<forall>y. fits nm p y \<longrightarrow> taken N (map sn_cidr (siblingsOf i w)) p y) \<and>
            (\<exists>msg. allocateNextSubnet N i p meta uid w = (Inl (AppError 409 msg), w)))"
proof -
  let ?al = "map sn_cidr (siblingsOf i w)"
  note bm = findBlock_mem [OF b(1)]
  have plan: "detectIpVersion (bl_cidr b) = V4" "plan_ok N (bl_cidr b) ?al"
    using ok bm b(2) by (auto simp: ipam_ok_def block_plan_ok_def)
  have al: "\<forall>s \<in> set ?al. detectIpVersion s = V4" using plan(2) by (simp add: plan_ok_def)
  obtain r where r: "findNextAvailableSubnet N (bl_cidr b) ?al p = Inr r"
      "case r of None \<Rightarrow> \<forall>y. fits nm p y \<longrightarrow> taken N ?al p y
       | Some s \<Rightarrow> \<exists>x. fits nm p x \<and> \<not> taken N ?al p x \<and> s = cidr_str (intToIp x) p \<and>
                     (\<forall>y. fits nm p y \<and> y < x \<longrightarrow> taken N ?al p y)"
    using netmask_spec.find_next_spec [OF N plan(1) nm al, of p] p by auto
  show ?thesis
  proof (cases r)
    case None
    then have "\<exists>msg. allocateNextSubnet N i p meta uid w = (Inl (AppError 409 msg), w)"
      using b r(1) p by (auto simp: allocateNextSubnet_def)
    then show ?thesis using None r(2) by simp
  next
    case (Some c)
    with r(2) obtain x where x: "fits nm p x" "\<not> taken N ?al p x" "c = cidr_str (intToIp x) p"
        "\<forall>y. fits nm p y \<and> y < x \<longrightarrow> taken N ?al p y" by auto
    obtain a P where blk: "is_block a P nm" using netmask_spec.parsed_block [OF N plan(1) nm(1)] by blast
    note d = is_blockD [OF blk]
    have xr: "2 ^ (32 - p) dvd x" "a \<le> x" "x + 2 ^ (32 - p) \<le> a + 2 ^ (32 - P)" "(1 :: int) \<le> 2 ^ (32 - p)"
      using x(1) d(11) by (auto simp: fits_def block_range_def ivl_subset)
    then have x32: "0 \<le> x" "x < 2 ^ 32" using d(2,3) by linarith+
    have p32: "p \<le> 32" using p by simp
    have norm: "normalizeCidr N c = Inr c" "cidr_range N c = block_range x p"
      unfolding x(3) using netmask_spec.normalize_printed [OF N x32 p32 xr(1)]
        netmask_spec.cidr_range_printed [OF N x32 p32 xr(1)] by auto
    have c4: "detectIpVersion c = V4" by (simp add: x(3))
    obtain nmc where nmc: "new_Netmask N c = Inr nmc" "nm_bitmask nmc = p"
      using netmask_spec.parse_printed [OF N x32 p32] is_blockD(7) unfolding x(3) by blast
    have "isValidCidr N c" using nmc(1) c4 by (simp add: isValidCidr_def x(3) cidr_str_def)
    moreover have "cidrContains N (bl_cidr b) c"
      using netmask_spec.contains_iff [OF N plan(1) c4 nmc(1)] nmc(2) p x(1) norm(2) nm(1)
      by (simp add: fits_def cidr_range_def)
    moreover have "find (\<lambda>s. cidrOverlaps N (sn_cidr s) c) (siblingsOf i w) = None"
      using x(2) al netmask_spec.overlaps_iff [OF N _ c4] norm(2) by (auto simp: find_None_iff taken_def)
    moreover have "createSubnetRow s w = (Inr s, w\<lparr>w_subnets := w_subnets w @ [s]\<rparr>)" if "sn_id s = uid" for s
      using uid that sub.ins_ok [of "w_subnets w" s] ok by (simp add: createSubnetRow_def ipam_ok_def world_ok_defs subnetKey_def)
    ultimately have "\<exists>s. sn_cidr s = c \<and> sn_blockId s = i \<and> sn_status s = SubAvailable \<and>
        createSubnet N (meta\<lparr>cs_blockId := i, cs_cidr := c\<rparr>) uid w = (Inr s, w\<lparr>w_subnets := w_subnets w @ [s]\<rparr>)"
      using norm(1) b c4 by (simp add: createSubnet_def bindIO_def)
    then obtain s where s: "sn_cidr s = c" "sn_blockId s = i" "sn_status s = SubAvailable"
        "createSubnet N (meta\<lparr>cs_blockId := i, cs_cidr := c\<rparr>) uid w = (Inr s, w\<lparr>w_subnets := w_subnets w @ [s]\<rparr>)" by blast
    have "allocateNextSubnet N i p meta uid w = (Inr s, w\<lparr>w_subnets := w_subnets w @ [s]\<rparr>)"
      using b r(1) p s(4) by (simp add: allocateNextSubnet_def Some)
    then show ?thesis using x s by blast
  qed
qed

section \<open>Template allocation\<close>

definition creatable :: "(bulkEntry \<times> string) list \<Rightarrow> (bulkEntry \<times> string) list" where
  "creatable asg = filter (\<lambda>(e, c). \<not> be_skip e) asg"

lemma map_fst_case: "map (\<lambda>(e, c). f e) xs = map f (map fst xs)"
  by (induction xs) auto

lemma creatable_fst: "map fst (creatable asg) = filter (\<lambda>e. \<not> be_skip e) (map fst asg)"
  by (induction asg) (auto simp: creatable_def)

lemma create_assigned_adds:
  assumes "create_assigned N input pfx asg uids w = (Inr created, w')"
    and "\<forall>(e, c) \<in> set (creatable asg). normalizeCidr N c = Inr c"
  shows "\<exists>ss. w' = w\<lparr>w_subnets := w_subnets w @ ss\<rparr> \<and> map sn_cidr ss = map snd (creatable asg) \<and>
     (\<forall>s \<in> set ss. sn_blockId s = ba_blockId input) \<and> created = map (\<lambda>s. (sn_id s, sn_name s, sn_cidr s)) ss \<and>
     map sn_name ss = map (\<lambda>(e, c). pfx @ ''_'' @ keep (be_name e) ''undefined'') (creatable asg)"
  using assms
proof (induction N input pfx asg uids arbitrary: w created rule: create_assigned.induct)
  case (1 N input pfx uids)
  then show ?case by (auto simp: creatable_def intro!: exI [of _ "[]"])
next
  case (2 N input pfx e c asg uids)
  show ?case
  proof (cases "be_skip e")
    case True
    then show ?thesis using 2 by (simp add: creatable_def)
  next
    case False
    then have n: "normalizeCidr N c = Inr c" "\<forall>(e, c) \<in> set (creatable asg). normalizeCidr N c = Inr c"
      using 2(4) by (auto simp: creatable_def)
    let ?s = "\<lparr>sn_id = hd uids, sn_blockId = ba_blockId input, sn_cidr = c,
                   sn_name = pfx @ ''_'' @ keep (be_name e) ''undefined'',
                   sn_purpose = None, sn_status = SubAvailable, sn_vlan = be_vlan e,
                   sn_tags = keep (ba_tags input) [], sn_discoveredBy = None, sn_fortigateDevice = None,
                   sn_createdBy = ba_createdBy input, sn_lastDiscoveredAt = None\<rparr>"
    obtain a w1 cr where row: "createSubnetRow ?s w = (Inr a, w1)"
        "create_assigned N input pfx asg (tl uids) w1 = (Inr cr, w')" "created = (sn_id a, sn_name a, sn_cidr a) # cr"
      using 2(3) False n(1) by (auto simp: bindIO_Inr)
    then have w1: "createSubnetRow ?s w = (Inr ?s, w1)" "create_assigned N input pfx asg (tl uids) w1 = (Inr cr, w')"
        "created = (sn_id ?s, sn_name ?s, sn_cidr ?s) # cr"
      using createSubnetRow_adds [OF row(1)] by simp_all
    obtain ss where "w' = w1\<lparr>w_subnets := w_subnets w1 @ ss\<rparr>" "map sn_cidr ss = map snd (creatable asg)"
        "\<forall>s \<in> set ss. sn_blockId s = ba_blockId input" "cr = map (\<lambda>s. (sn_id s, sn_name s, sn_cidr s)) ss"
        "map sn_name ss = map (\<lambda>(e, c). pfx @ ''_'' @ keep (be_name e) ''undefined'') (creatable asg)"
      using 2(2) [OF False w1(2) n(2)] by blast
    then show ?thesis
      using createSubnetRow_adds [OF w1(1)] w1(3) False by (intro exI [of _ "?s # ss"]) (simp add: creatable_def)
  qed
qed

text \<open>With fresh ids the creation loop succeeds.\<close>

lemma create_assigned_succeeds:
  assumes "table_ok sn_id subnetKey (w_subnets w)" "distinct uids" "set uids \<inter> sn_id ` set (w_subnets w) = {}"
    and "length (creatable asg) \<le> length uids" "\<forall>(e, c) \<in> set (creatable asg). normalizeCidr N c = Inr c"
  shows "\<exists>created w'. create_assigned N input pfx asg uids w = (Inr created, w')"
  using assms
proof (induction N input pfx asg uids arbitrary: w rule: create_assigned.induct)
  case (2 N input pfx e c asg uids)
  show ?case
  proof (cases "be_skip e")
    case True
    then show ?thesis using 2 by (simp add: creatable_def)
  next
    case False
    then have n: "normalizeCidr N c = Inr c" "\<forall>(e, c) \<in> set (creatable asg). normalizeCidr N c = Inr c"
      using 2(7) by (auto simp: creatable_def)
    obtain u us where uids: "uids = u # us" using 2(6) False by (cases uids) (auto simp: creatable_def)
    let ?s = "\<lparr>sn_id = u, sn_blockId = ba_blockId input, sn_cidr = c,
                   sn_name = pfx @ ''_'' @ keep (be_name e) ''undefined'',
                   sn_purpose = None, sn_status = SubAvailable, sn_vlan = be_vlan e,
                   sn_tags = keep (ba_tags input) [], sn_discoveredBy = None, sn_fortigateDevice = None,
                   sn_createdBy = ba_createdBy input, sn_lastDiscoveredAt = None\<rparr>"
    have ins: "insert_row sn_id subnetKey ?s (w_subnets w) = Inr (w_subnets w @ [?s])"
      using 2(5) uids by (intro sub.ins_ok [OF 2(3)]) (auto simp: subnetKey_def)
    have "table_ok sn_id subnetKey (w_subnets w @ [?s])" using sub.ins_good [OF 2(3) ins] .
    then have "\<exists>created w'. create_assigned N input pfx asg (tl uids) (w\<lparr>w_subnets := w_subnets w @ [?s]\<rparr>) = (Inr created, w')"
      using 2(4,5,6) False uids n(2) by (intro 2(2)) (auto simp: creatable_def)
    then show ?thesis
      using False n(1) ins by (auto simp: bindIO_def createSubnetRow_def uids)
  qed
qed simp

lemma laid_out_creatable:
  assumes "netmask_spec N" "laid_out N be_prefixLength es R asg" "\<forall>e \<in> set es. be_prefixLength e \<le> 32"
  shows "\<forall>(e, c) \<in> set asg. normalizeCidr N c = Inr c \<and> detectIpVersion c = V4 \<and> cidr_range N c \<subseteq> R"
  using assms netmask_spec.normalize_printed [OF assms(1)]
  by (fastforce simp: laid_out_def dest!: bspec)

lemma laid_out_plan:
  assumes "netmask_spec N" "laid_out N be_prefixLength es R asg" "\<forall>e \<in> set es. be_prefixLength e \<le> 32"
    and "plan_ok N parent cs" "R \<subseteq> cidr_range N parent" "\<forall>c \<in> set cs. R \<inter> cidr_range N c = {}"
  shows "plan_ok N parent (cs @ map snd (creatable asg))"
proof -
  have each: "\<forall>(e, c) \<in> set asg. normalizeCidr N c = Inr c \<and> detectIpVersion c = V4 \<and> cidr_range N c \<subseteq> R"
    by (rule laid_out_creatable [OF assms(1-3)])
  have "sorted_wrt (\<lambda>s t. cidr_range N (snd s) \<inter> cidr_range N (snd t) = {}) (creatable asg)"
    using assms(2) unfolding creatable_def laid_out_def by (blast intro: sorted_wrt_filter)
  then have "sorted_wrt (\<lambda>c d. cidr_range N c \<inter> cidr_range N d = {}) (map snd (creatable asg))"
    by (simp add: sorted_wrt_map)
  moreover have "\<forall>c \<in> set (map snd (creatable asg)). detectIpVersion c = V4 \<and> cidr_range N c \<subseteq> R"
    using each by (auto simp: creatable_def)
  ultimately show ?thesis
    using assms(4-6) unfolding plan_ok_def sorted_wrt_append by fastforce
qed

lemma validate_prefixes: "validate_entries es = Inr () \<Longrightarrow> \<forall>e \<in> set es. 8 \<le> be_prefixLength e \<and> be_prefixLength e \<le> 32"
  by (induction es) (auto simp: bad_prefix_def split: if_splits)

lemma bulkAllocate_cases:
  assumes "bulkAllocate N input uids w = (r, w')"
  obtains (error) e where "r = Inl e" "w' = w"
  | (made) b pr created where "validate_entries (ba_entries input) = Inr ()" "ba_entries input \<noteq> []"
      "keep (ba_anchorPrefix input) 24 \<le> 32" "findBlock (ba_blockId input) w = Some b" "bl_ipVersion b = V4"
      "packIntoAnchor N be_prefixLength (bl_cidr b) (map sn_cidr (siblingsOf (ba_blockId input) w)) (ba_entries input)
         (keep (ba_anchorPrefix input) 24) = Inr (Some pr)"
      "create_assigned N input (trim (ba_prefix input)) (assignments pr) uids w = (Inr created, w')"
      "r = Inr \<lparr>br_created = created, br_anchorCidr = anchorCidr pr, br_effectiveAnchorPrefix = effectiveAnchorPrefix pr\<rparr>"
  using assms error made
  unfolding bulkAllocate_def Let_def bad_prefix_def
  by (auto simp: bindIO_def transactionIO_def split: if_splits sum.splits option.splits prod.splits)

lemma packed_sound:
  assumes "netmask_spec N" "ipam_ok N w" "findBlock i w = Some b" "bl_ipVersion b = V4"
    and "new_Netmask N (bl_cidr b) = Inr nm" "nm_bitmask nm \<le> 30"
    and "es \<noteq> []" "\<forall>e \<in> set es. be_prefixLength e \<le> 32" "req \<le> 32"
    and "totalSpan (packTemplateEntries be_prefixLength es) \<le> 2 ^ (32 - nm_bitmask nm)"
    and "packIntoAnchor N be_prefixLength (bl_cidr b) (map sn_cidr (siblingsOf i w)) es req = Inr (Some pr)"
  shows "laid_out N be_prefixLength es (cidr_range N (anchorCidr pr)) (assignments pr)"
    "plan_ok N (bl_cidr b) (map sn_cidr (siblingsOf i w) @ map snd (creatable (assignments pr)))"
    "\<forall>(e, c) \<in> set (creatable (assignments pr)). normalizeCidr N c = Inr c"
    "first_clash N (siblingsOf i w) (assignments pr) = None"
proof -
  have plan: "detectIpVersion (bl_cidr b) = V4" "plan_ok N (bl_cidr b) (map sn_cidr (siblingsOf i w))"
    using assms(2,4) findBlock_mem [OF assms(3)] by (auto simp: ipam_ok_def block_plan_ok_def)
  have al: "\<forall>s \<in> set (map sn_cidr (siblingsOf i w)). detectIpVersion s = V4" using plan(2) by (simp add: plan_ok_def)
  note snd = netmask_spec.packIntoAnchor_sound [OF assms(1) plan(1) assms(5-9) al assms(10,11)]
  then show lo: "laid_out N be_prefixLength es (cidr_range N (anchorCidr pr)) (assignments pr)" by blast
  show "plan_ok N (bl_cidr b) (map sn_cidr (siblingsOf i w) @ map snd (creatable (assignments pr)))"
    using laid_out_plan [OF assms(1) lo assms(8) plan(2)] snd by blast
  note each = laid_out_creatable [OF assms(1) lo assms(8)]
  then show "\<forall>(e, c) \<in> set (creatable (assignments pr)). normalizeCidr N c = Inr c" by (auto simp: creatable_def)
  have "\<not> cidrOverlaps N (sn_cidr s) c" if "s \<in> set (siblingsOf i w)" "(e, c) \<in> set (assignments pr)" for s e c
    using that each snd al netmask_spec.overlaps_iff [OF assms(1), of "sn_cidr s" c] by fastforce
  then have "List.map_filter (\<lambda>(e, c). if be_skip e then None
      else map_option (\<lambda>s. (c, sn_cidr s)) (find (\<lambda>s. cidrOverlaps N (sn_cidr s) c) (siblingsOf i w))) (assignments pr) = []"
    by (auto simp: map_filter_Nil find_None_iff)
  then show "first_clash N (siblingsOf i w) (assignments pr) = None" by (simp add: first_clash_def)
qed

lemma bulkAllocate_ipam:
  assumes N: "netmask_spec N" and ok: "ipam_ok N w" and run: "bulkAllocate N input uids w = (Inr res, w')"
    and b: "findBlock (ba_blockId input) w = Some b" and nm: "new_Netmask N (bl_cidr b) = Inr nm" "nm_bitmask nm \<le> 30"
    and span: "totalSpan (packTemplateEntries be_prefixLength (ba_entries input)) \<le> 2 ^ (32 - nm_bitmask nm)"
  shows "ipam_ok N w' \<and>
    (\<exists>ss. w_subnets w' = w_subnets w @ ss \<and> (\<forall>s \<in> set ss. sn_blockId s = ba_blockId input) \<and>
       br_created res = map (\<lambda>s. (sn_id s, sn_name s, sn_cidr s)) ss \<and>
       map sn_name ss = map (\<lambda>e. trim (ba_prefix input) @ ''_'' @ keep (be_name e) ''undefined'') (filter (\<lambda>e. \<not> be_skip e) (ba_entries input)))"
  using run
proof (cases rule: bulkAllocate_cases)
  case (made b' pr created)
  have [simp]: "b' = b" using made(4) b by simp
  have es: "\<forall>e \<in> set (ba_entries input). be_prefixLength e \<le> 32" using validate_prefixes [OF made(1)] by simp
  note ps = packed_sound [OF N ok b _ nm made(2) es made(3) span made(6) [simplified]]
  obtain ss where ss: "w' = w\<lparr>w_subnets := w_subnets w @ ss\<rparr>" "map sn_cidr ss = map snd (creatable (assignments pr))"
      "\<forall>s \<in> set ss. sn_blockId s = ba_blockId input" "created = map (\<lambda>s. (sn_id s, sn_name s, sn_cidr s)) ss"
      "map sn_name ss = map (\<lambda>(e, c). trim (ba_prefix input) @ ''_'' @ keep (be_name e) ''undefined'') (creatable (assignments pr))"
    using create_assigned_adds [OF made(7)] ps(3) made(5) by auto
  have "world_ok w'" using keepsD [OF keeps_bulkAllocate _ run] ok by (simp add: ipam_ok_def)
  then have "ipam_ok N w'"
    using ipam_ok_extend [OF ok b, of w' ss] ps(2) ss made(5) by simp
  moreover have "map fst (creatable (assignments pr)) = filter (\<lambda>e. \<not> be_skip e) (ba_entries input)"
    using ps(1) made(5) by (simp add: laid_out_def creatable_fst)
  then have "map sn_name ss = map (\<lambda>e. trim (ba_prefix input) @ ''_'' @ keep (be_name e) ''undefined'') (filter (\<lambda>e. \<not> be_skip e) (ba_entries input))"
    unfolding ss(5) by (simp only: map_fst_case)
  ultimately show ?thesis using ss made(8) by auto
qed simp

text \<open>The preview and the allocation run the same packing.\<close>

lemma preview_cases:
  assumes "previewBulkAllocate N i es ap w = (Inr pv, w1)"
    and "findBlock i w = Some b" "bl_ipVersion b = V4" "es \<noteq> []"
    and "\<forall>e \<in> set es. 8 \<le> be_prefixLength e \<and> be_prefixLength e \<le> 32"
  shows "w1 = w \<and> (\<exists>packed. packIntoAnchor N be_prefixLength (bl_cidr b) (map sn_cidr (siblingsOf i w)) es (keep ap 24) = Inr packed \<and>
      (case packed of
         None \<Rightarrow> \<not> pv_fits pv
       | Some pr \<Rightarrow> pv_fits pv \<and> pv_anchorCidr pv = Some (anchorCidr pr) \<and>
                    pv_assignments pv = map (\<lambda>(e, c). preview_entry e (Some c)) (assignments pr)))"
proof -
  have "\<not> list_ex (\<lambda>e. bad_prefix (be_prefixLength e)) es" using assms(5) by (auto simp: list_ex_iff bad_prefix_def)
  then show ?thesis
    using assms(1-4) by (auto simp: previewBulkAllocate_def Let_def bindIO_def split: if_splits sum.splits option.splits)
qed

lemma bulkAllocate_packed:
  assumes b: "findBlock (ba_blockId input) w = Some b" "bl_ipVersion b = V4"
    and v: "validate_entries (ba_entries input) = Inr ()" "trim (ba_prefix input) \<noteq> []"
      "list_ex (\<lambda>e. \<not> be_skip e) (ba_entries input)" "\<not> bad_prefix (keep (ba_anchorPrefix input) 24)"
    and pk: "packIntoAnchor N be_prefixLength (bl_cidr b) (map sn_cidr (siblingsOf (ba_blockId input) w)) (ba_entries input)
         (keep (ba_anchorPrefix input) 24) = Inr packed"
  shows "bulkAllocate N input uids w =
    (case packed of
       None \<Rightarrow> (Inl (AppError 409 (''No free /'' @ string_of_nat (keep (ba_anchorPrefix input) 24) @ ''-aligned region in block '' @
                 bl_cidr b @ '' large enough to hold the template'')), w)
     | Some pr \<Rightarrow>
         (case first_clash N (siblingsOf (ba_blockId input) w) (assignments pr) of
            Some (c, s) \<Rightarrow> (Inl (AppError 409 (''Computed subnet '' @ c @ '' overlaps existing '' @ s)), w)
          | None \<Rightarrow>
              (case create_assigned N input (trim (ba_prefix input)) (assignments pr) uids w of
                 (Inl e, _) \<Rightarrow> (Inl e, w)
               | (Inr created, w') \<Rightarrow> (Inr \<lparr>br_created = created, br_anchorCidr = anchorCidr pr,
                   br_effectiveAnchorPrefix = effectiveAnchorPrefix pr\<rparr>, w'))))"
proof -
  have "ba_prefix input \<noteq> []" using v(2) by (auto simp: trim_def)
  moreover have "ba_entries input \<noteq> []" using v(3) by auto
  ultimately show ?thesis
    using assms by (auto simp: bulkAllocate_def Let_def bindIO_def transactionIO_def split: option.splits prod.splits sum.splits)
qed

section \<open>The other operations on the plan\<close>

lemma createBlock_cases:
  assumes "createBlock N input uid w = (r, w')"
  obtains (error) e where "r = Inl e" "w' = w"
  | (made) b where "r = Inr b" "bl_id b = uid" "bl_ipVersion b = detectIpVersion (bl_cidr b)" "uid \<notin> bl_id ` set (w_blocks w)"
      "w' = w\<lparr>w_blocks := w_blocks w @ [b]\<rparr>"
proof (cases r)
  case (Inl e)
  then have "w' = w"
    using assms by (auto simp: createBlock_def createBlockRow_def bindIO_def split: if_splits sum.splits)
  with Inl show thesis by (rule error)
next
  case (Inr b)
  then obtain bs where bs: "insert_row bl_id blockKey b (w_blocks w) = Inr bs" "w' = w\<lparr>w_blocks := bs\<rparr>"
      "bl_id b = uid" "bl_ipVersion b = detectIpVersion (bl_cidr b)"
    using assms by (auto simp: createBlock_def createBlockRow_def bindIO_def split: if_splits sum.splits)
  show thesis by (rule made) (use blk.ins_append [OF bs(1)] bs Inr in auto)
qed

lemma createBlock_ipam:
  assumes "ipam_ok N w" "createBlock N input uid w = (r, w')"
  shows "ipam_ok N w'"
  using assms(2)
proof (cases rule: createBlock_cases)
  case (made b)
  have "world_ok w'" using keepsD [OF keeps_createBlockOp _ assms(2)] assms(1) by (simp add: ipam_ok_def)
  moreover have none: "siblingsOf uid w = []"
    using made(4) assms(1) by (force simp: siblingsOf_def filter_empty_conv ipam_ok_def world_ok_defs)
  have sib: "siblingsOf i w' = siblingsOf i w" for i by (simp add: siblingsOf_def made(5))
  have "block_plan_ok N w' b'" if "b' \<in> set (w_blocks w')" "bl_ipVersion b' = V4" for b'
    using that assms(1) made(2,3,5) none unfolding block_plan_ok_def sib
    by (auto simp: ipam_ok_def block_plan_ok_def plan_ok_def)
  ultimately show ?thesis by (simp add: ipam_ok_def)
qed (use assms(1) in simp)

lemma plan_ok_filter: "plan_ok N p (map f xs) \<Longrightarrow> plan_ok N p (map f (filter P xs))"
  by (auto simp: plan_ok_def sorted_wrt_map intro: sorted_wrt_filter)

lemma ipam_ok_subset:
  assumes "ipam_ok N w" "world_ok w'" "set (w_blocks w') \<subseteq> set (w_blocks w)" "w_subnets w' = filter P (w_subnets w)"
  shows "ipam_ok N w'"
proof -
  have sib: "siblingsOf i w' = filter P (siblingsOf i w)" for i
    by (simp add: siblingsOf_def assms(4) conj_commute)
  have "block_plan_ok N w' b" if "b \<in> set (w_blocks w')" "bl_ipVersion b = V4" for b
    using that assms(1,3) unfolding block_plan_ok_def sib by (auto simp: ipam_ok_def block_plan_ok_def intro!: plan_ok_filter)
  then show ?thesis using assms(2) by (simp add: ipam_ok_def)
qed

lemma deleteSubnet_ipam:
  assumes "ipam_ok N w" "deleteSubnet i w = (r, w')"
  shows "ipam_ok N w'"
proof -
  have "world_ok w'" using keepsD [OF keeps_deleteSubnetOp _ assms(2)] assms(1) by (simp add: ipam_ok_def)
  moreover have "w' = w \<or> w' = deleteSubnetRows (\<lambda>s. sn_id s = i) w"
    using assms(2) by (auto simp: deleteSubnet_def split: option.splits if_splits)
  ultimately show ?thesis
    using assms(1) ipam_ok_subset [OF assms(1), of w' "\<lambda>s. \<not> sn_id s = i"]
    by (auto simp: deleteSubnetRows_def Let_def delete_rows_def)
qed

lemma deleteBlock_ipam:
  assumes "ipam_ok N w" "deleteBlock i w = (r, w')"
  shows "ipam_ok N w'"
proof -
  have "world_ok w'" using keepsD [OF keeps_deleteBlockOp _ assms(2)] assms(1) by (simp add: ipam_ok_def)
  moreover have "w' = w \<or> w' = deleteBlockRow i w"
    using assms(2) by (auto simp: deleteBlock_def split: option.splits if_splits)
  ultimately show ?thesis
    using assms(1) ipam_ok_subset [OF assms(1), of w' "\<lambda>s. \<not> sn_blockId s = i"]
    by (auto simp: deleteBlockRow_def deleteSubnetRows_def Let_def delete_rows_def)
qed

text \<open>An operation that changes no address: the blocks and subnets keep ids, CIDRs and versions.\<close>

definition same_plan :: "'d world \<Rightarrow> 'd world \<Rightarrow> bool" where
  "same_plan w w' \<longleftrightarrow>
     map (\<lambda>b. (bl_id b, bl_cidr b, bl_ipVersion b)) (w_blocks w') = map (\<lambda>b. (bl_id b, bl_cidr b, bl_ipVersion b)) (w_blocks w) \<and>
     map (\<lambda>s. (sn_blockId s, sn_cidr s)) (w_subnets w') = map (\<lambda>s. (sn_blockId s, sn_cidr s)) (w_subnets w)"

lemma siblings_pairs: "map sn_cidr (siblingsOf i w) = map snd (filter (\<lambda>p. fst p = i) (map (\<lambda>s. (sn_blockId s, sn_cidr s)) (w_subnets w)))"
  by (simp add: siblingsOf_def filter_map comp_def)

lemma ipam_ok_same_plan:
  assumes "ipam_ok N w" "world_ok w'" "same_plan w w'"
  shows "ipam_ok N w'"
  unfolding ipam_ok_def
proof (intro conjI ballI impI)
  fix b' assume b': "b' \<in> set (w_blocks w')" "bl_ipVersion b' = V4"
  then have "(bl_id b', bl_cidr b', V4) \<in> set (map (\<lambda>b. (bl_id b, bl_cidr b, bl_ipVersion b)) (w_blocks w'))" by force
  then obtain b where "b \<in> set (w_blocks w)" "bl_id b = bl_id b'" "bl_cidr b = bl_cidr b'" "bl_ipVersion b = V4"
    using assms(3) by (auto simp: same_plan_def simp del: set_map) auto
  moreover have "map sn_cidr (siblingsOf i w') = map sn_cidr (siblingsOf i w)" for i
    using assms(3) by (simp add: siblings_pairs same_plan_def)
  ultimately show "block_plan_ok N w' b'"
    using assms(1) by (force simp: ipam_ok_def block_plan_ok_def)
qed (rule assms(2))

lemma updateSubnet_same_plan: "updateSubnet i input w = (r, w') \<Longrightarrow> same_plan w w'"
  by (auto simp: updateSubnet_def updateSubnetRow_def same_plan_def Let_def split: if_splits)

lemma updateBlock_same_plan: "updateBlock i input w = (r, w') \<Longrightarrow> same_plan w w'"
  by (auto simp: updateBlock_def same_plan_def split: if_splits)

text \<open>
  The operations on the address plan, with the limits of the results above: no subnet finer than /30 is created or requested,
  no block finer than /30 is allocated from, and a template is allocated only where its span fits the block.
\<close>

definition coarse :: "netmask_lib \<Rightarrow> string \<Rightarrow> bool" where
  "coarse N cidr \<longleftrightarrow> (\<forall>c nm. normalizeCidr N cidr = Inr c \<longrightarrow> new_Netmask N c = Inr nm \<longrightarrow> nm_bitmask nm \<le> 30)"

definition coarse_block :: "netmask_lib \<Rightarrow> string \<Rightarrow> 'd world \<Rightarrow> bool" where
  "coarse_block N i w \<longleftrightarrow> (\<forall>b nm. findBlock i w = Some b \<longrightarrow> new_Netmask N (bl_cidr b) = Inr nm \<longrightarrow> nm_bitmask nm \<le> 30)"

definition fits_block :: "netmask_lib \<Rightarrow> bulkAllocateInput \<Rightarrow> 'd world \<Rightarrow> bool" where
  "fits_block N input w \<longleftrightarrow> (\<forall>b. findBlock (ba_blockId input) w = Some b \<longrightarrow>
     (\<exists>nm. new_Netmask N (bl_cidr b) = Inr nm \<and> nm_bitmask nm \<le> 30 \<and>
        totalSpan (packTemplateEntries be_prefixLength (ba_entries input)) \<le> 2 ^ (32 - nm_bitmask nm)))"

inductive plan_step :: "netmask_lib \<Rightarrow> 'd world \<Rightarrow> 'd world \<Rightarrow> bool" for N :: netmask_lib where
  "createBlock N bi uid w = (r1, w') \<Longrightarrow> plan_step N w w'"
| "updateBlock i ub w = (r2, w') \<Longrightarrow> plan_step N w w'"
| "deleteBlock i w = (r3, w') \<Longrightarrow> plan_step N w w'"
| "createSubnet N si uid w = (r4, w') \<Longrightarrow> coarse N (cs_cidr si) \<Longrightarrow> plan_step N w w'"
| "bulkAllocate N ba uids w = (r5, w') \<Longrightarrow> fits_block N ba w \<Longrightarrow> plan_step N w w'"
| "updateSubnet i us w = (r6, w') \<Longrightarrow> plan_step N w w'"
| "deleteSubnet i w = (r7, w') \<Longrightarrow> plan_step N w w'"
| "allocateNextSubnet N i p meta uid w = (r8, w') \<Longrightarrow> p \<le> 30 \<Longrightarrow> coarse_block N i w \<Longrightarrow> plan_step N w w'"

lemma allocateNext_cases:
  assumes "allocateNextSubnet N i p meta uid w = (r, w')"
  obtains (error) "w' = w"
  | (create) b c where "findBlock i w = Some b" "bl_ipVersion b = V4" "findNextAvailableSubnet N (bl_cidr b) (map sn_cidr (siblingsOf i w)) p = Inr (Some c)"
      "createSubnet N (meta\<lparr>cs_blockId := i, cs_cidr := c\<rparr>) uid w = (r, w')"
  using assms error create
  by (auto simp: allocateNextSubnet_def bindIO_def liftIO_def getIO_def throwIO_def split: option.splits if_splits sum.splits)

lemma found_coarse:
  assumes "netmask_spec N" "detectIpVersion parent = V4" "\<forall>s \<in> set al. detectIpVersion s = V4" "p \<le> 30"
    and "findNextAvailableSubnet N parent al p = Inr (Some c)" "new_Netmask N parent = Inr nm" "nm_bitmask nm \<le> 30"
  shows "coarse N c"
proof -
  note nm = assms(6)
  obtain a P where blk: "is_block a P nm" using netmask_spec.parsed_block [OF assms(1,2) nm] by blast
  note d = is_blockD [OF blk]
  obtain x where x: "fits nm p x" "c = cidr_str (intToIp x) p"
    using netmask_spec.find_next_spec [OF assms(1,2) nm assms(7,3), of p] assms(4,5) by auto
  have xr: "2 ^ (32 - p) dvd x" "a \<le> x" "x + 2 ^ (32 - p) \<le> a + 2 ^ (32 - P)" "(1 :: int) \<le> 2 ^ (32 - p)"
    using x(1) d(11) by (auto simp: fits_def block_range_def ivl_subset)
  then have x32: "0 \<le> x" "x < 2 ^ 32" using d(2,3) by linarith+
  have p32: "p \<le> 32" using assms(4) by simp
  obtain nmc where "new_Netmask N c = Inr nmc" "nm_bitmask nmc = p"
    using netmask_spec.parse_printed [OF assms(1) x32 p32] is_blockD(7) unfolding x(2) by blast
  moreover have "normalizeCidr N c = Inr c" unfolding x(2) using netmask_spec.normalize_printed [OF assms(1) x32 p32 xr(1)] by simp
  ultimately show ?thesis using assms(4) by (simp add: coarse_def)
qed

lemma allocateNext_ipam:
  assumes "netmask_spec N" "ipam_ok N w" "allocateNextSubnet N i p meta uid w = (r, w')" "p \<le> 30" "coarse_block N i w"
  shows "ipam_ok N w'"
  using assms(3)
proof (cases rule: allocateNext_cases)
  case error
  then show ?thesis using assms(2) by simp
next
  case (create b c)
  have plan: "detectIpVersion (bl_cidr b) = V4" "\<forall>s \<in> set (map sn_cidr (siblingsOf i w)). detectIpVersion s = V4"
    using assms(2) findBlock_mem [OF create(1)] create(2) by (auto simp: ipam_ok_def block_plan_ok_def plan_ok_def)
  obtain nm where nm: "new_Netmask N (bl_cidr b) = Inr nm" using create(3) by (auto simp: findNextAvailableSubnet_def split: sum.splits)
  then have "nm_bitmask nm \<le> 30" using assms(5) create(1) by (simp add: coarse_block_def)
  then have "coarse N c" using found_coarse [OF assms(1) plan assms(4) create(3) nm] by simp
  then show ?thesis using createSubnet_ipam [OF assms(1,2) create(4)] by (simp add: coarse_def)
qed

lemma bulkAllocate_error: "bulkAllocate N input uids w = (Inl e, w') \<Longrightarrow> w' = w"
  by (erule bulkAllocate_cases) auto

lemma bulkAllocate_ipam_step:
  assumes "netmask_spec N" "ipam_ok N w" "bulkAllocate N input uids w = (r, w')" "fits_block N input w"
  shows "ipam_ok N w'"
proof (cases r)
  case (Inl e)
  then show ?thesis using assms bulkAllocate_error by blast
next
  case (Inr res)
  then obtain b where b: "findBlock (ba_blockId input) w = Some b" using assms(3) by (auto elim: bulkAllocate_cases)
  then obtain nm where "new_Netmask N (bl_cidr b) = Inr nm" "nm_bitmask nm \<le> 30"
      "totalSpan (packTemplateEntries be_prefixLength (ba_entries input)) \<le> 2 ^ (32 - nm_bitmask nm)"
    using assms(4) unfolding fits_block_def by blast
  then show ?thesis using bulkAllocate_ipam [OF assms(1,2) _ b] assms(3) Inr by blast
qed

lemma same_plan_step:
  assumes "ipam_ok N w" "keeps world_ok m" "m w = (r, w')" "same_plan w w'"
  shows "ipam_ok N w'"
  using ipam_ok_same_plan [OF assms(1) _ assms(4)] keepsD [OF assms(2) _ assms(3)] assms(1) by (simp add: ipam_ok_def)

lemma plan_step_ok: "plan_step N w w' \<Longrightarrow> netmask_spec N \<Longrightarrow> ipam_ok N w \<Longrightarrow> ipam_ok N w'"
proof (induction rule: plan_step.induct)
  case (4 si uid w r4 w')
  then show ?case using createSubnet_ipam [OF 4(3,4,1)] by (simp add: coarse_def)
qed (auto intro: createBlock_ipam deleteBlock_ipam deleteSubnet_ipam bulkAllocate_ipam_step allocateNext_ipam
      same_plan_step [OF _ keeps_updateBlock _ updateBlock_same_plan]
      same_plan_step [OF _ keeps_updateSubnetOp _ updateSubnet_same_plan])

section \<open>A sample plan\<close>

definition emptyWorld :: "'d \<Rightarrow> 'd world" where
  "emptyWorld dev = \<lparr>w_blocks = [], w_subnets = [], w_reservations = [], w_integrations = [], w_assets = [],
     w_templates = None, w_staleAfterDays = None, w_detectionStartedAt = None, w_events = [], w_device = dev\<rparr>"

lemma emptyWorld_ok [simp]: "world_ok (emptyWorld dev)" "ipam_ok N (emptyWorld dev)"
  by (simp_all add: ipam_ok_def world_ok_defs emptyWorld_def table_ok_def full_ok_def map_filter_simps)

definition sample_block :: createBlockInput where
  "sample_block = \<lparr>cb_name = ''lab'', cb_cidr = ''10.0.0.0/24'', cb_description = None, cb_tags = None\<rparr>"

definition sample_subnet :: createSubnetInput where
  "sample_subnet = \<lparr>cs_blockId = ''b1'', cs_cidr = ''10.0.0.0/26'', cs_name = ''lan'', cs_purpose = None, cs_vlan = None,
     cs_tags = None, cs_createdBy = None\<rparr>"

definition sample_w1 :: "unit world" where
  "sample_w1 = (emptyWorld ())\<lparr>w_blocks := [\<lparr>bl_id = ''b1'', bl_name = ''lab'', bl_cidr = ''10.0.0.0/24'', bl_ipVersion = V4,
     bl_description = None, bl_tags = []\<rparr>]\<rparr>"

definition sample_row :: subnet where
  "sample_row = \<lparr>sn_id = ''s1'', sn_blockId = ''b1'', sn_cidr = ''10.0.0.0/26'', sn_name = ''lan'', sn_purpose = None,
     sn_status = SubAvailable, sn_vlan = None, sn_tags = [], sn_discoveredBy = None, sn_fortigateDevice = None,
     sn_createdBy = None, sn_lastDiscoveredAt = None\<rparr>"

definition sample_w2 :: "unit world" where
  "sample_w2 = sample_w1\<lparr>w_subnets := [sample_row]\<rparr>"

lemma sample_run:
  "createBlock ref_netmask sample_block ''b1'' (emptyWorld ()) = (Inr (hd (w_blocks sample_w1)), sample_w1)"
  "createSubnet ref_netmask sample_subnet ''s1'' sample_w1 = (Inr sample_row, sample_w2)"
  by code_simp+

lemma sample_masks:
  "new_Netmask ref_netmask ''10.0.0.0/24'' = Inr (ref_block (10 * 2 ^ 24) 24)"
  "new_Netmask ref_netmask ''10.0.0.0/26'' = Inr (ref_block (10 * 2 ^ 24) 26)"
  "normalizeCidr ref_netmask ''10.0.0.0/26'' = Inr ''10.0.0.0/26''"
  by code_simp+

lemma sample_ok: "ipam_ok ref_netmask sample_w1" "ipam_ok ref_netmask sample_w2"
proof -
  show w1: "ipam_ok ref_netmask sample_w1" by (rule createBlock_ipam [OF emptyWorld_ok(2) sample_run(1)])
  have "coarse ref_netmask (cs_cidr sample_subnet)"
    by (simp add: coarse_def sample_subnet_def sample_masks ref_block_def Let_def)
  then show "ipam_ok ref_netmask sample_w2"
    using createSubnet_ipam [OF ref.netmask_spec_axioms w1 sample_run(2)] by (simp add: coarse_def)
qed

section \<open>Properties\<close>

text \<open>
  C2. The address plan holds in every state that calls of the block and subnet services reach from an empty database, as long as every
  subnet created or requested is /30 or coarser, every block allocated from is /30 or coarser and every template allocated has a
  span that fits its block: every subnet of an
  IPv4 block lies inside the block, and no two of them share an address. The calls are the creation, change and deletion of
  blocks and subnets, automatic allocation and allocation from a template, in any order, failing or not.
\<close>

theorem address_plan_kept:
  assumes "netmask_spec N" "(plan_step N)\<^sup>*\<^sup>* (emptyWorld dev) w" "b \<in> set (w_blocks w)" "bl_ipVersion b = V4"
  shows "(\<forall>s \<in> set (siblingsOf (bl_id b) w). cidr_range N (sn_cidr s) \<subseteq> cidr_range N (bl_cidr b)) \<and>
    (\<forall>s \<in> set (siblingsOf (bl_id b) w). \<forall>t \<in> set (siblingsOf (bl_id b) w). s \<noteq> t \<longrightarrow> cidr_range N (sn_cidr s) \<inter> cidr_range N (sn_cidr t) = {})"
proof -
  from assms(2) have "ipam_ok N w"
    by (induction rule: rtranclp_induct) (simp, blast intro: plan_step_ok [OF _ assms(1)])
  then have plan: "plan_ok N (bl_cidr b) (map sn_cidr (siblingsOf (bl_id b) w))"
    using assms(3,4) by (simp add: ipam_ok_def block_plan_ok_def)
  then have "sorted_wrt (\<lambda>s t. cidr_range N (sn_cidr s) \<inter> cidr_range N (sn_cidr t) = {}) (siblingsOf (bl_id b) w)"
    by (simp add: plan_ok_def sorted_wrt_map)
  then have "cidr_range N (sn_cidr s) \<inter> cidr_range N (sn_cidr t) = {}"
    if "s \<in> set (siblingsOf (bl_id b) w)" "t \<in> set (siblingsOf (bl_id b) w)" "s \<noteq> t" for s t
    using that by (rule sorted_wrt_apart) auto
  then show ?thesis using plan by (auto simp: plan_ok_def)
qed

definition sample_row2 :: subnet where
  "sample_row2 = sample_row\<lparr>sn_id := ''s2'', sn_cidr := ''10.0.0.64/26''\<rparr>"

definition sample_w3 :: "unit world" where
  "sample_w3 = sample_w2\<lparr>w_subnets := [sample_row, sample_row2]\<rparr>"

lemma sample_run2:
  "createSubnet ref_netmask (sample_subnet\<lparr>cs_cidr := ''10.0.0.64/26''\<rparr>) ''s2'' sample_w2 = (Inr sample_row2, sample_w3)"
  by code_simp

lemma sample_masks2:
  "normalizeCidr ref_netmask ''10.0.0.64/26'' = Inr ''10.0.0.64/26''"
  "new_Netmask ref_netmask ''10.0.0.64/26'' = Inr (ref_block (10 * 2 ^ 24 + 64) 26)"
  by code_simp+

lemma ref_block_bits [simp]: "nm_bitmask (ref_block x p) = p"
  by (simp add: ref_block_def Let_def)

lemma sample_coarse:
  "coarse ref_netmask (cs_cidr sample_subnet)" "coarse ref_netmask (cs_cidr (sample_subnet\<lparr>cs_cidr := ''10.0.0.64/26''\<rparr>))"
  by (simp_all add: coarse_def sample_subnet_def sample_masks sample_masks2)

lemma sample_reachable: "(plan_step ref_netmask)\<^sup>*\<^sup>* (emptyWorld ()) sample_w3"
  using plan_step.intros(1) [OF sample_run(1)] plan_step.intros(4) [OF sample_run(2) sample_coarse(1)]
    plan_step.intros(4) [OF sample_run2 sample_coarse(2)]
  by (rule converse_rtranclp_into_rtranclp [OF _ converse_rtranclp_into_rtranclp [OF _ r_into_rtranclp]])

theorem address_plan_kept_witness:
  "cidr_range ref_netmask ''10.0.0.64/26'' \<subseteq> cidr_range ref_netmask ''10.0.0.0/24'' \<and>
   cidr_range ref_netmask ''10.0.0.0/26'' \<inter> cidr_range ref_netmask ''10.0.0.64/26'' = {}"
proof -
  have b: "hd (w_blocks sample_w1) \<in> set (w_blocks sample_w3)" "bl_ipVersion (hd (w_blocks sample_w1)) = V4"
    "bl_cidr (hd (w_blocks sample_w1)) = ''10.0.0.0/24''" "sample_row \<noteq> sample_row2"
    by (simp_all add: sample_w1_def sample_w2_def sample_w3_def sample_row_def sample_row2_def)
  have sib: "siblingsOf (bl_id (hd (w_blocks sample_w1))) sample_w3 = [sample_row, sample_row2]"
    by (simp add: siblingsOf_def sample_w1_def sample_w2_def sample_w3_def sample_row_def sample_row2_def)
  show ?thesis
    using address_plan_kept [OF ref.netmask_spec_axioms sample_reachable b(1,2)] b(4)
    unfolding sib b(3) by (simp add: sample_row_def sample_row2_def)
qed

text \<open>
  C9. Automatic allocation of a prefix from /8 to /30, with a fresh id, is first fit and complete on a well-planned IPv4 block that
  is itself /30 or coarser: it creates the lowest free aligned block of the requested size, adds exactly that row, and refuses
  with 409, changing nothing, only when every aligned block of that size meets an existing subnet. No later check rejects
  the result of the search. For /31 and /32 requests, which the service also accepts, this is not so: there the containment
  check can fail with 400.
\<close>

theorem allocate_first_fit:
  assumes "netmask_spec N" "ipam_ok N w" "findBlock i w = Some b" "bl_ipVersion b = V4"
    and "new_Netmask N (bl_cidr b) = Inr nm" "nm_bitmask nm \<le> 30" "8 \<le> p" "p \<le> 30"
    and "uid \<notin> sn_id ` set (w_subnets w)"
  shows "(\<exists>x s. fits nm p x \<and> \<not> taken N (map sn_cidr (siblingsOf i w)) p x \<and>
            (\<forall>y. fits nm p y \<and> y < x \<longrightarrow> taken N (map sn_cidr (siblingsOf i w)) p y) \<and>
            sn_cidr s = cidr_str (intToIp x) p \<and> sn_blockId s = i \<and> sn_status s = SubAvailable \<and>
            allocateNextSubnet N i p meta uid w = (Inr s, w\<lparr>w_subnets := w_subnets w @ [s]\<rparr>)) \<or>
         ((\<forall>y. fits nm p y \<longrightarrow> taken N (map sn_cidr (siblingsOf i w)) p y) \<and>
            (\<exists>msg. allocateNextSubnet N i p meta uid w = (Inl (AppError 409 msg), w)))"
  by (rule allocateNext_run [OF assms])

theorem allocate_first_fit_witness:
  "\<exists>s. sn_cidr s = ''10.0.0.64/26'' \<and> allocateNextSubnet ref_netmask ''b1'' 26 sample_subnet ''s2'' sample_w2 =
     (Inr s, sample_w2\<lparr>w_subnets := w_subnets sample_w2 @ [s]\<rparr>)"
proof -
  have run: "\<exists>s. fst (allocateNextSubnet ref_netmask ''b1'' 26 sample_subnet ''s2'' sample_w2) = Inr s \<and> sn_cidr s = ''10.0.0.64/26''"
    by (rule exI [of _ sample_row2]) code_simp
  have b: "findBlock ''b1'' sample_w2 = Some (hd (w_blocks sample_w1))" "bl_ipVersion (hd (w_blocks sample_w1)) = V4"
    "new_Netmask ref_netmask (bl_cidr (hd (w_blocks sample_w1))) = Inr (ref_block (10 * 2 ^ 24) 24)"
    "nm_bitmask (ref_block (10 * 2 ^ 24) 24) \<le> 30" "''s2'' \<notin> sn_id ` set (w_subnets sample_w2)"
    by (simp_all add: findBlock_def sample_w2_def sample_w1_def sample_masks ref_block_def Let_def sample_row_def)
  show ?thesis
    using allocate_first_fit [OF ref.netmask_spec_axioms sample_ok(2) b(1-4), of 26 "''s2''" sample_subnet] run b(5) by auto
qed

end
