(* ===== verification/BulkSpec.thy ===== *)
theory BulkSpec
  imports SubnetsSpec
begin

text \<open>
  Templates and bulk allocation across calls: what the preview announces is what the allocation does; the
  saved templates stay uniquely named and allocatable.
\<close>

section \<open>Preview and allocation\<close>

lemma previewed_cidrs:
  "map pa_cidr (filter (\<lambda>a. \<not> pa_skip a) (map (\<lambda>(e, c). preview_entry e (Some c)) asg)) = map (\<lambda>(e, c). Some c) (creatable asg)"
  by (induction asg) (auto simp: creatable_def preview_entry_def)

lemma creatable_count: "map fst asg = es \<Longrightarrow> length (creatable asg) = length (filter (\<lambda>e. \<not> be_skip e) es)"
  using arg_cong [OF creatable_fst [of asg], of length] by simp

text \<open>
  C36. The preview of a bulk allocation is honest: for a request whose fields are valid, with fresh ids, on a well-planned IPv4 block /30 or
  coarser and a template whose span fits the block (for a larger one it need not be), the preview changes nothing; when it says the template fits, the
  allocation succeeds and creates exactly the previewed subnets, in order and inside the previewed anchor, under
  the names of the entries that are not skipped; when it says the template does not fit, the allocation fails
  with 409 and changes nothing.
\<close>

theorem preview_honest:
  assumes "netmask_spec N" "ipam_ok N w" "findBlock (ba_blockId input) w = Some b" "bl_ipVersion b = V4"
    and "new_Netmask N (bl_cidr b) = Inr nm" "nm_bitmask nm \<le> 30"
    and "totalSpan (packTemplateEntries be_prefixLength (ba_entries input)) \<le> 2 ^ (32 - nm_bitmask nm)"
    and "validate_entries (ba_entries input) = Inr ()" "trim (ba_prefix input) \<noteq> []"
      "list_ex (\<lambda>e. \<not> be_skip e) (ba_entries input)" "\<not> bad_prefix (keep (ba_anchorPrefix input) 24)"
    and "distinct uids" "set uids \<inter> sn_id ` set (w_subnets w) = {}"
      "length (filter (\<lambda>e. \<not> be_skip e) (ba_entries input)) \<le> length uids"
    and "previewBulkAllocate N (ba_blockId input) (ba_entries input) (ba_anchorPrefix input) w = (Inr pv, w1)"
  shows "w1 = w \<and>
    (if pv_fits pv
     then \<exists>res ss. bulkAllocate N input uids w = (Inr res, w\<lparr>w_subnets := w_subnets w @ ss\<rparr>) \<and>
            Some (br_anchorCidr res) = pv_anchorCidr pv \<and>
            map (\<lambda>s. Some (sn_cidr s)) ss = map pa_cidr (filter (\<lambda>a. \<not> pa_skip a) (pv_assignments pv)) \<and>
            map sn_name ss = map (\<lambda>e. trim (ba_prefix input) @ ''_'' @ keep (be_name e) ''undefined'')
                               (filter (\<lambda>e. \<not> be_skip e) (ba_entries input))
     else \<exists>msg. bulkAllocate N input uids w = (Inl (AppError 409 msg), w))"
proof -
  let ?es = "ba_entries input" and ?sib = "siblingsOf (ba_blockId input) w" and ?req = "keep (ba_anchorPrefix input) 24"
  have es: "?es \<noteq> []" "\<forall>e \<in> set ?es. 8 \<le> be_prefixLength e \<and> be_prefixLength e \<le> 32" "?req \<le> 32"
    using assms(10,11) validate_prefixes [OF assms(8)] by (auto simp: bad_prefix_def)
  obtain packed where w1: "w1 = w" and pk: "packIntoAnchor N be_prefixLength (bl_cidr b) (map sn_cidr ?sib) ?es ?req = Inr packed"
    and pv: "case packed of None \<Rightarrow> \<not> pv_fits pv
       | Some pr \<Rightarrow> pv_fits pv \<and> pv_anchorCidr pv = Some (anchorCidr pr) \<and>
                    pv_assignments pv = map (\<lambda>(e, c). preview_entry e (Some c)) (assignments pr)"
    using preview_cases [OF assms(15,3,4) es(1,2)] by (elim exE conjE) (rule that)
  note run = bulkAllocate_packed [OF assms(3,4,8-11) pk, of uids]
  show ?thesis
  proof (cases packed)
    case None
    then show ?thesis using run pv w1 by simp
  next
    case (Some pr)
    have "\<forall>e \<in> set ?es. be_prefixLength e \<le> 32" using es(2) by simp
    note ps = packed_sound [OF assms(1-6) es(1) this es(3) assms(7) pk [unfolded Some]]
    have len: "length (creatable (assignments pr)) \<le> length uids"
      using creatable_count [of "assignments pr" ?es] ps(1) assms(14) by (simp add: laid_out_def)
    have subs: "table_ok sn_id subnetKey (w_subnets w)" using assms(2) by (simp add: ipam_ok_def world_ok_defs)
    obtain created w' where cr: "create_assigned N input (trim (ba_prefix input)) (assignments pr) uids w = (Inr created, w')"
      using create_assigned_succeeds [OF subs assms(12,13) len ps(3), of input "trim (ba_prefix input)"] by blast
    obtain ss where ss: "w' = w\<lparr>w_subnets := w_subnets w @ ss\<rparr>" "map sn_cidr ss = map snd (creatable (assignments pr))"
      "map sn_name ss = map (\<lambda>(e, c). trim (ba_prefix input) @ ''_'' @ keep (be_name e) ''undefined'') (creatable (assignments pr))"
      using create_assigned_adds [OF cr ps(3)] by (elim exE conjE) (rule that)
    have "map (\<lambda>s. Some (sn_cidr s)) ss = map Some (map sn_cidr ss)" by simp
    also have "\<dots> = map pa_cidr (filter (\<lambda>a. \<not> pa_skip a) (pv_assignments pv))"
      using pv unfolding ss(2) Some by (auto simp: previewed_cidrs)
    finally have cidrs: "map (\<lambda>s. Some (sn_cidr s)) ss = \<dots>" .
    have names: "map sn_name ss = map (\<lambda>e. trim (ba_prefix input) @ ''_'' @ keep (be_name e) ''undefined'') (filter (\<lambda>e. \<not> be_skip e) ?es)"
      using ps(1) unfolding ss(3) by (simp only: map_fst_case creatable_fst laid_out_def)
    have "bulkAllocate N input uids w =
        (Inr \<lparr>br_created = created, br_anchorCidr = anchorCidr pr, br_effectiveAnchorPrefix = effectiveAnchorPrefix pr\<rparr>, w')"
      using run Some ps(4) cr by simp
    then show ?thesis using pv w1 Some cidrs names ss(1) by (auto intro!: exI)
  qed
qed

definition sample_bulk :: bulkAllocateInput where
  "sample_bulk = \<lparr>ba_blockId = ''b1'', ba_prefix = '' HQ '',
     ba_entries = [\<lparr>be_skip = False, be_name = Some ''lan'', be_prefixLength = 26, be_vlan = Some 10\<rparr>,
                   \<lparr>be_skip = True, be_name = None, be_prefixLength = 28, be_vlan = None\<rparr>,
                   \<lparr>be_skip = False, be_name = Some ''dmz'', be_prefixLength = 27, be_vlan = None\<rparr>],
     ba_tags = None, ba_anchorPrefix = Some 25, ba_createdBy = None\<rparr>"

lemma sample_bulk_fields:
  "ba_blockId sample_bulk = ''b1''" "totalSpan (packTemplateEntries be_prefixLength (ba_entries sample_bulk)) \<le> 2 ^ (32 - 24)"
  "validate_entries (ba_entries sample_bulk) = Inr ()" "trim (ba_prefix sample_bulk) \<noteq> []"
  "list_ex (\<lambda>e. \<not> be_skip e) (ba_entries sample_bulk)" "\<not> bad_prefix (keep (ba_anchorPrefix sample_bulk) 24)"
  "length (filter (\<lambda>e. \<not> be_skip e) (ba_entries sample_bulk)) \<le> length [''u1'', ''u2'']"
  by code_simp+

lemma sample_preview:
  "map_sum id pv_fits (fst (previewBulkAllocate ref_netmask ''b1'' (ba_entries sample_bulk) (ba_anchorPrefix sample_bulk) sample_w1)) = Inr True"
  "map_sum id pv_anchorCidr (fst (previewBulkAllocate ref_netmask ''b1'' (ba_entries sample_bulk) (ba_anchorPrefix sample_bulk) sample_w1)) =
     Inr (Some ''10.0.0.0/25'')"
  by code_simp+

theorem preview_honest_witness:
  "\<exists>res ss. bulkAllocate ref_netmask sample_bulk [''u1'', ''u2''] sample_w1 = (Inr res, sample_w1\<lparr>w_subnets := w_subnets sample_w1 @ ss\<rparr>) \<and>
     br_anchorCidr res = ''10.0.0.0/25'' \<and> map sn_name ss = [''HQ_lan'', ''HQ_dmz'']"
proof -
  obtain pv w1 where pv: "previewBulkAllocate ref_netmask (ba_blockId sample_bulk) (ba_entries sample_bulk) (ba_anchorPrefix sample_bulk) sample_w1 = (Inr pv, w1)"
    and fit: "pv_fits pv" "pv_anchorCidr pv = Some ''10.0.0.0/25''"
    using sample_preview
    by (cases "previewBulkAllocate ref_netmask ''b1'' (ba_entries sample_bulk) (ba_anchorPrefix sample_bulk) sample_w1"; cases "fst (previewBulkAllocate ref_netmask ''b1'' (ba_entries sample_bulk) (ba_anchorPrefix sample_bulk) sample_w1)")
      (auto simp: sample_bulk_fields)
  have b: "findBlock (ba_blockId sample_bulk) sample_w1 = Some (hd (w_blocks sample_w1))" "bl_ipVersion (hd (w_blocks sample_w1)) = V4"
    "new_Netmask ref_netmask (bl_cidr (hd (w_blocks sample_w1))) = Inr (ref_block (10 * 2 ^ 24) 24)"
    "nm_bitmask (ref_block (10 * 2 ^ 24) 24) \<le> 30" "distinct [''u1'', ''u2'']" "set [''u1'', ''u2''] \<inter> sn_id ` set (w_subnets sample_w1) = {}"
    by (simp_all add: findBlock_def sample_w1_def sample_masks sample_bulk_def emptyWorld_def)
  have span: "totalSpan (packTemplateEntries be_prefixLength (ba_entries sample_bulk)) \<le> 2 ^ (32 - nm_bitmask (ref_block (10 * 2 ^ 24) 24))"
    using sample_bulk_fields(2) by simp
  have names: "map (\<lambda>e. trim (ba_prefix sample_bulk) @ ''_'' @ keep (be_name e) ''undefined'') (filter (\<lambda>e. \<not> be_skip e) (ba_entries sample_bulk)) =
    [''HQ_lan'', ''HQ_dmz'']" by code_simp
  show ?thesis
    using preview_honest [OF ref.netmask_spec_axioms sample_ok(1) b(1-4) span sample_bulk_fields(3-6) b(5,6) sample_bulk_fields(7) pv] fit
    unfolding names by (simp only: if_True option.inject) (elim conjE exE, intro exI conjI)
qed

section \<open>Saved templates\<close>

text \<open>What a client of the template store can do; a new id is fresh.\<close>

inductive template_step :: "'d world \<Rightarrow> 'd world \<Rightarrow> bool" where
  "saveTemplate input uuid w = (r, w') \<Longrightarrow> uuid \<notin> at_id ` set (loadAll w) \<Longrightarrow> template_step w w'"
| "deleteTemplate i w = (r, w') \<Longrightarrow> template_step w w'"

text \<open>The request a template stands for.\<close>

definition bulk_of :: "templateEntry \<Rightarrow> bulkEntry" where
  "bulk_of e = \<lparr>be_skip = te_skip e, be_name = te_name e, be_prefixLength = nat (te_prefixLength e), be_vlan = te_vlan e\<rparr>"

lemma stored_bulk:
  assumes "stored_entry e"
  shows "\<not> bad_prefix (be_prefixLength (bulk_of e))" "be_skip (bulk_of e) \<or> truthy (be_name (bulk_of e)) \<and> trim (the (be_name (bulk_of e))) \<noteq> []"
proof -
  show "\<not> bad_prefix (be_prefixLength (bulk_of e))"
    using assms unfolding stored_entry_def bulk_of_def bad_prefix_def by (elim conjE) (simp, arith)
  show "be_skip (bulk_of e) \<or> truthy (be_name (bulk_of e)) \<and> trim (the (be_name (bulk_of e))) \<noteq> []"
  proof (cases "te_skip e")
    case False
    then obtain n where "te_name e = Some n" "n \<noteq> []" "trim n = n" using assms unfolding stored_entry_def by (elim conjE) auto
    then show ?thesis by (simp add: bulk_of_def truthy_def)
  qed (simp add: bulk_of_def)
qed

lemma stored_validate: "list_all stored_entry es \<Longrightarrow> validate_entries (map bulk_of es) = Inr ()"
  by (induction es) (use stored_bulk in fastforce)+

text \<open>
  C38. Whatever is saved and deleted, the stored templates have distinct ids and names that differ by more than
  letter case, and every one of them passes the entry validation of the bulk allocation, so no stored template
  is refused for its entries.
\<close>

theorem templates_stay_valid:
  assumes "template_step\<^sup>*\<^sup>* (emptyWorld dev) w"
  shows "distinct (map at_id (loadAll w)) \<and> distinct (map (\<lambda>t. toLowerCase (at_name t)) (loadAll w)) \<and>
    (\<forall>t \<in> set (loadAll w). at_entries t \<noteq> [] \<and> validate_entries (map bulk_of (at_entries t)) = Inr ())"
proof -
  from assms have "templates_ok (loadAll w)"
  proof (induction rule: rtranclp_induct)
    case base
    show ?case by (simp add: templates_ok_def loadAll_def emptyWorld_def)
  next
    case (step v w)
    from step.hyps(2) show ?case
      by cases (use step.IH saveTemplate_ok deleteTemplate_ok in \<open>metis+\<close>)
  qed
  then show ?thesis unfolding templates_ok_def using stored_validate by blast
qed

definition sample_template :: saveTemplateInput where
  "sample_template = \<lparr>st_id = None, st_name = '' Branch '',
     st_entries = [\<lparr>te_skip = False, te_name = Some ''lan '', te_prefixLength = 26, te_vlan = Some 10\<rparr>], st_anchorPrefix = None\<rparr>"

lemma sample_saved:
  "\<exists>t. saveTemplate sample_template ''t1'' (emptyWorld ()) = (Inr t, (emptyWorld ())\<lparr>w_templates := Some [t]\<rparr>) \<and> at_name t = ''Branch''"
proof -
  have "validateTemplate sample_template = Inr ()" "trim (st_name sample_template) = ''Branch''" by code_simp+
  then show ?thesis
    by (simp add: saveTemplate_def bindIO_def loadAll_def emptyWorld_def persistAll_def sample_template_def Let_def truthy_def)
qed

theorem templates_stay_valid_witness:
  "\<exists>w t. template_step\<^sup>*\<^sup>* (emptyWorld ()) w \<and> loadAll w = [t] \<and> at_name t = ''Branch'' \<and>
     validate_entries (map bulk_of (at_entries t)) = Inr ()"
proof -
  obtain t where t: "saveTemplate sample_template ''t1'' (emptyWorld ()) = (Inr t, (emptyWorld ())\<lparr>w_templates := Some [t]\<rparr>)" "at_name t = ''Branch''"
    using sample_saved by blast
  have "''t1'' \<notin> at_id ` set (loadAll (emptyWorld ()))" by (simp add: loadAll_def emptyWorld_def)
  with t(1) have "template_step (emptyWorld ()) ((emptyWorld ())\<lparr>w_templates := Some [t]\<rparr>)"
    by (rule template_step.intros(1))
  then have "template_step\<^sup>*\<^sup>* (emptyWorld ()) ((emptyWorld ())\<lparr>w_templates := Some [t]\<rparr>)" by (rule r_into_rtranclp)
  from this templates_stay_valid [OF this] t(2) show ?thesis by (intro exI conjI) auto
qed

end
