(* ===== verification/PushSpec.thy ===== *)
theory PushSpec
  imports IoLogic PushService CidrSpec
begin

text \<open>
  What the push to a FortiGate achieves. The CMDB of the device is the locale \<open>dhcp_device\<close>: reads change
  nothing and show the entries of a scope, a create appends one entry under a fresh id, an update and a
  delete touch the entry with the id of the path. The locale is interpreted on a reference device with
  one DHCP scope, reached through \<open>callFortiOs\<close> over the direct transport.
\<close>

section \<open>MAC addresses and descriptions\<close>

lemma pairs_concat: "even (length xs) \<Longrightarrow> concat (pairs_of xs) = xs"
  by (induction xs rule: pairs_of.induct) auto

lemma pairs_shape: "p \<in> set (pairs_of xs) \<Longrightarrow> length p = 2 \<and> set p \<subseteq> set xs"
  by (induction xs rule: pairs_of.induct) auto

lemma pairs_length: "length (pairs_of xs) = length xs div 2"
  by (induction xs rule: pairs_of.induct) auto

lemma hex_not_colon: "is_hex_lower c \<Longrightarrow> c \<noteq> CHR '':''"
  by (auto simp: is_hex_lower_def is_digit_def)

lemma lower_hex: "is_hex_lower c \<Longrightarrow> lower_char c = c"
  by (auto simp: is_hex_lower_def is_digit_def lower_char_def)

lemma split_pairs:
  assumes "list_all is_hex_lower h" "length h = 12"
  shows "split_on CHR '':'' (join '':'' (pairs_of h)) = pairs_of h"
  using assms pairs_shape [of _ h] pairs_length [of h] hex_not_colon
  by (intro split_on_join) (fastforce simp: list_all_iff)+

lemma macRegex_pairs: "list_all is_hex_lower h \<Longrightarrow> length h = 12 \<Longrightarrow> macRegex (join '':'' (pairs_of h))"
  using pairs_shape [of _ h] by (fastforce simp: macRegex_def split_pairs pairs_length list_all_iff Let_def)

lemma filter_join: "\<not> P s \<Longrightarrow> filter P (join [s] ps) = concat (map (filter P) ps)"
  by (induction "[s]" ps rule: join.induct) auto

lemma set_join: "set (join [s] ps) \<subseteq> insert s (\<Union> (set ` set ps))"
  by (induction "[s]" ps rule: join.induct) auto

lemma map_filter_pairs: "list_all is_hex_lower h \<Longrightarrow> even (length h) \<Longrightarrow> concat (map (filter is_hex_lower) (pairs_of h)) = h"
  by (induction h rule: pairs_of.induct) auto

lemma normalizeMac_pairs:
  assumes h: "list_all is_hex_lower h" "length h = 12"
  shows "normalizeMac (join '':'' (pairs_of h)) = join '':'' (pairs_of h)"
proof -
  have "lower_char c = c" if "c \<in> set (join '':'' (pairs_of h))" for c
  proof -
    have "c = CHR '':'' \<or> c \<in> set h"
      using that set_join [of "CHR '':''" "pairs_of h"] pairs_shape [of _ h] by fast
    moreover have "lower_char CHR '':'' = CHR '':''" by (simp add: lower_char_def)
    ultimately show ?thesis using h lower_hex by (auto simp: list_all_iff)
  qed
  then have "toLowerCase (join '':'' (pairs_of h)) = join '':'' (pairs_of h)"
    by (simp add: toLowerCase_def map_idI)
  moreover have "filter is_hex_lower (join '':'' (pairs_of h)) = h"
    using h map_filter_pairs [of h] by (simp add: filter_join is_hex_lower_def is_digit_def)
  ultimately show ?thesis using h(2) by (simp add: normalizeMac_def)
qed

lemma normalizeMac_form:
  "(\<exists>h. list_all is_hex_lower h \<and> length h = 12 \<and> normalizeMac m = join '':'' (pairs_of h)) \<or>
   (length (filter is_hex_lower (toLowerCase m)) \<noteq> 12 \<and> normalizeMac m = toLowerCase m)"
  by (cases "length (filter is_hex_lower (toLowerCase m)) = 12")
     (auto simp: normalizeMac_def Let_def list_all_iff intro!: exI [of _ "filter is_hex_lower (toLowerCase m)"])

lemma macRegex_hex:
  assumes "macRegex m"
  shows "length (filter is_hex_lower m) = 12"
proof -
  let ?ps = "split_on CHR '':'' m"
  have ps: "length ?ps = 6" "\<forall>p \<in> set ?ps. length p = 2 \<and> list_all is_hex_lower p"
    using assms by (auto simp: macRegex_def Let_def list_all_iff)
  have "filter is_hex_lower m = concat (map (filter is_hex_lower) ?ps)"
    by (subst join_split_on [of "CHR '':''" m, symmetric]) (simp add: filter_join is_hex_lower_def is_digit_def)
  also have "\<dots> = concat ?ps"
    using ps(2) by (intro arg_cong [of _ _ concat] map_idI) (simp add: list_all_iff)
  finally have "length (filter is_hex_lower m) = sum_list (map length ?ps)" by (simp add: length_concat)
  also have "map length ?ps = map (\<lambda>_. 2) ?ps" using ps(2) by (intro map_cong refl) blast
  finally show ?thesis using ps(1) by (simp add: sum_list_triv)
qed

lemma toLowerCase_idem [simp]: "toLowerCase (toLowerCase s) = toLowerCase s"
  by (auto simp: toLowerCase_def lower_char_def)

section \<open>The device\<close>

definition serverPath :: string where
  "serverPath = ''/api/v2/cmdb/system.dhcp/server''"

text \<open>
  \<open>call\<close> is the REST interface of one device as the transport reaches it, \<open>reserved d s\<close> the reserved
  addresses of scope \<open>s\<close> in device state \<open>d\<close>. Any call may fail; a failed read changes nothing.
\<close>

locale dhcp_device =
  fixes call :: "httpMethod \<Rightarrow> string \<Rightarrow> fosBody option \<Rightarrow> ('d, fosResponse) io"
    and reserved :: "'d \<Rightarrow> int \<Rightarrow> fosEntry list"
  assumes get_pure: "call GET path None d = (x, d') \<Longrightarrow> d' = d"
    and get_reserved: "call GET (reservedPath s) None d = (Inr r, d') \<Longrightarrow> arrayOf r = reserved d s"
    and post_adds: "call POST (reservedPath s) (Some b) d = (Inr r, d') \<Longrightarrow>
      \<exists>e. reserved d' s = reserved d s @ [e] \<and> fe_id e \<notin> fe_id ` set (reserved d s) \<and>
          fe_ip e = fb_ip b \<and> fe_mac e = fb_mac b \<and> (echoedKey r = None \<or> echoedKey r = Some (fe_id e))"
    and delete_removes: "call DELETE (entryPath s k) None d = (Inr r, d') \<Longrightarrow>
      reserved d' s = filter (\<lambda>e. fe_id e \<noteq> k) (reserved d s)"
begin

lemma list_scope:
  "bindIO (call GET (reservedPath s) None) (\<lambda>r. returnIO (arrayOf r)) d = (Inr es, d') \<Longrightarrow> es = reserved d s \<and> d' = d"
  by (auto simp: bindIO_Inr dest: get_pure get_reserved)

lemma list_scope_error:
  "bindIO (call GET (reservedPath s) None) (\<lambda>r. returnIO (arrayOf r)) d = (Inl e, d') \<Longrightarrow> d' = d"
  by (auto simp: bindIO_Inl dest: get_pure)

lemma posted_found:
  assumes "call POST (reservedPath s) (Some b) d = (Inr r, d')" "fb_ip b = Some ip" "fb_mac b = Some mac"
    and "normalizeMac mac = mac" "mac \<noteq> []" "\<forall>e \<in> set (reserved d s). \<not> (fe_ip e = Some ip \<and> has_mac mac e)"
    and "verify_entry ip mac (echoedKey r) (reserved d' s) = Inr k"
  shows "\<exists>e. reserved d' s = reserved d s @ [e] \<and> fe_id e = k \<and> fe_ip e = Some ip \<and> has_mac mac e \<and>
     k \<notin> fe_id ` set (reserved d s)"
proof -
  obtain e where e: "reserved d' s = reserved d s @ [e]" "fe_id e \<notin> fe_id ` set (reserved d s)"
      "fe_ip e = Some ip" "fe_mac e = Some mac" "echoedKey r = None \<or> echoedKey r = Some (fe_id e)"
    using post_adds [OF assms(1)] assms(2,3) by auto
  have m: "has_mac mac e" using e(4) assms(4,5) by (simp add: has_mac_def truthy_def)
  have "find (\<lambda>r. fe_ip r = Some ip \<and> has_mac mac r) (reserved d' s) = Some e"
    unfolding e(1) using assms(6) e(3) m by (intro find_append_fresh) (auto simp: find_None_iff)
  then have "k = fe_id e"
    using e(5) assms(7) by (auto simp: verify_entry_def Let_def split: option.splits if_splits)
  with e m show ?thesis by auto
qed

end

section \<open>Push and unpush over a device\<close>

lemma collision_ok:
  "collision ip mac es = Inr () \<Longrightarrow> ip \<noteq> [] \<Longrightarrow> \<forall>e \<in> set es. fe_ip e \<noteq> Some ip \<and> \<not> has_mac mac e"
  by (induction es) (auto simp: truthy_def split: if_splits)

lemma collision_error:
  "e \<in> set es \<Longrightarrow> (fe_ip e = Some ip \<and> ip \<noteq> []) \<or> has_mac mac e \<Longrightarrow> \<exists>msg. collision ip mac es = Inl (AppError 409 msg)"
  by (induction es) (auto simp: truthy_def)

lemma macRegex_nonempty: "macRegex m \<Longrightarrow> m \<noteq> []"
  by (auto simp: macRegex_def)

lemma normalizeMac_idem: "normalizeMac (normalizeMac m) = normalizeMac m"
  using normalizeMac_form [of m]
proof (elim disjE exE conjE)
  assume "length (filter is_hex_lower (toLowerCase m)) \<noteq> 12" "normalizeMac m = toLowerCase m"
  then show ?thesis by (simp add: normalizeMac_def [of "toLowerCase m"])
qed (simp add: normalizeMac_pairs)

lemma find_scope_pure:
  assumes "dhcp_device (callFortiOs D t) reserved" "findScopeIdForCidr N D t c d = (r, d')"
  shows "d' = d"
proof -
  have "keeps (\<lambda>s. s = d) (callFortiOs D t GET path None)" for path
    by (rule keepsI) (auto dest: dhcp_device.get_pure [OF assms(1)])
  then have "keeps (\<lambda>s. s = d) (findScopeIdForCidr N D t c)"
    unfolding findScopeIdForCidr_def by (intro keeps_rules)
  then show ?thesis using keepsD [of "\<lambda>s. s = d"] assms(2) by fast
qed

text \<open>The successful run of a push, step by step.\<close>

lemma pushReservation_run:
  assumes dev: "dhcp_device (callFortiOs D t) reserved"
    and t: "buildTransportForIntegration D (pp_integration params) (pp_deviceName params) d = (Inr t, d)"
    and run: "pushReservation N D params d = (Inr res, d')"
  obtains r where "macRegex (normalizeMac (pp_mac params))"
    "collision (pp_ip params) (normalizeMac (pp_mac params)) (reserved d (pu_scopeId res)) = Inr ()"
    "callFortiOs D t POST (reservedPath (pu_scopeId res))
       (Some \<lparr>fb_ip = Some (pp_ip params), fb_mac = Some (normalizeMac (pp_mac params)), fb_description = Some (pu_description res),
              fb_type = Some ''mac''\<rparr>) d = (Inr r, d')"
    "verify_entry (pp_ip params) (normalizeMac (pp_mac params)) (echoedKey r) (reserved d' (pu_scopeId res)) = Inr (pu_entryId res)"
proof -
  note get = dhcp_device.list_scope [OF dev, folded listReservedAddresses_def]
  from run t obtain scope ifc d1 es d2 d3 r listed d4 k where
    *: "macRegex (normalizeMac (pp_mac params))" "findScopeIdForCidr N D t (pp_subnetCidr params) d = (Inr (scope, ifc), d1)"
      "listReservedAddresses D t scope d1 = (Inr es, d2)" "collision (pp_ip params) (normalizeMac (pp_mac params)) es = Inr ()"
      "callFortiOs D t POST (reservedPath scope)
         (Some \<lparr>fb_ip = Some (pp_ip params), fb_mac = Some (normalizeMac (pp_mac params)),
            fb_description = Some (buildDescription (pp_hostname params) (pp_createdBy params) (pp_ip params) (pp_notes params)),
            fb_type = Some ''mac''\<rparr>) d2 = (Inr r, d3)"
      "listReservedAddresses D t scope d3 = (Inr listed, d4)"
      "verify_entry (pp_ip params) (normalizeMac (pp_mac params)) (echoedKey r) listed = Inr k" "d' = d4"
      "res = \<lparr>pu_scopeId = scope, pu_entryId = k, pu_serverInterface = ifc,
              pu_description = buildDescription (pp_hostname params) (pp_createdBy params) (pp_ip params) (pp_notes params)\<rparr>"
    by (auto simp: pushReservation_def pushOver_def Let_def bindIO_Inr split: if_splits prod.splits)
  have "d1 = d" using find_scope_pure [OF dev *(2)] .
  then show thesis
    using that [of r] * get [of scope d es d2] get [of scope d3 listed d4] by auto
qed

lemma push_appended:
  assumes "dhcp_device (callFortiOs D t) reserved"
    and "buildTransportForIntegration D (pp_integration params) (pp_deviceName params) d = (Inr t, d)"
    and "pp_ip params \<noteq> []"
    and "pushReservation N D params d = (Inr res, d')"
  shows "\<exists>e. reserved d' (pu_scopeId res) = reserved d (pu_scopeId res) @ [e] \<and> fe_id e = pu_entryId res \<and>
      fe_ip e = Some (pp_ip params) \<and> has_mac (normalizeMac (pp_mac params)) e \<and>
      (\<forall>f \<in> set (reserved d (pu_scopeId res)). fe_id f \<noteq> pu_entryId res \<and> fe_ip f \<noteq> Some (pp_ip params) \<and>
         \<not> has_mac (normalizeMac (pp_mac params)) f)"
proof -
  from pushReservation_run [OF assms(1,2,4)] obtain r where r:
    "macRegex (normalizeMac (pp_mac params))"
    "collision (pp_ip params) (normalizeMac (pp_mac params)) (reserved d (pu_scopeId res)) = Inr ()"
    "callFortiOs D t POST (reservedPath (pu_scopeId res))
       (Some \<lparr>fb_ip = Some (pp_ip params), fb_mac = Some (normalizeMac (pp_mac params)), fb_description = Some (pu_description res),
              fb_type = Some ''mac''\<rparr>) d = (Inr r, d')"
    "verify_entry (pp_ip params) (normalizeMac (pp_mac params)) (echoedKey r) (reserved d' (pu_scopeId res)) = Inr (pu_entryId res)"
    by blast
  have free: "\<forall>f \<in> set (reserved d (pu_scopeId res)). fe_ip f \<noteq> Some (pp_ip params) \<and> \<not> has_mac (normalizeMac (pp_mac params)) f"
    using collision_ok [OF r(2) assms(3)] .
  then have no: "\<forall>f \<in> set (reserved d (pu_scopeId res)). \<not> (fe_ip f = Some (pp_ip params) \<and> has_mac (normalizeMac (pp_mac params)) f)"
    by blast
  obtain e where e: "reserved d' (pu_scopeId res) = reserved d (pu_scopeId res) @ [e]" "fe_id e = pu_entryId res"
      "fe_ip e = Some (pp_ip params)" "has_mac (normalizeMac (pp_mac params)) e"
      "pu_entryId res \<notin> fe_id ` set (reserved d (pu_scopeId res))"
    using dhcp_device.posted_found [OF assms(1) r(3) _ _ normalizeMac_idem macRegex_nonempty [OF r(1)] no r(4)] by auto
  show ?thesis
    by (rule exI [of _ e]) (use e free in \<open>simp add: image_iff, metis\<close>)
qed

lemma unpush_run:
  assumes dev: "dhcp_device (callFortiOs D t) reserved"
    and t: "buildTransportForIntegration D (un_integration params) (un_deviceName params) d = (Inr t, d)"
    and run: "unpushReservation D params d = (Inr res, d')"
  shows "(ur_removed res \<and> \<not> ur_alreadyAbsent res \<and> un_entryId params \<in> fe_id ` set (reserved d (un_scopeId params)) \<and>
            reserved d' (un_scopeId params) = filter (\<lambda>e. fe_id e \<noteq> un_entryId params) (reserved d (un_scopeId params))) \<or>
         (\<not> ur_removed res \<and> ur_alreadyAbsent res \<and> d' = d)"
proof -
  note get = dhcp_device.list_scope [OF dev, folded listReservedAddresses_def]
  note err = dhcp_device.list_scope_error [OF dev, folded listReservedAddresses_def]
  show ?thesis
    using run t
    by (auto simp: unpushReservation_def bindIO_Inr catchIO_iff bindIO_Inl list_ex_iff dest!: get err
        dest: dhcp_device.delete_removes [OF dev] intro: rev_image_eqI split: if_splits)
qed

section \<open>Which errors a push raises\<close>

abbreviation raises_permanent :: "('d, 'a) io \<Rightarrow> bool" where
  "raises_permanent m \<equiv> valid (\<lambda>_. True) m (\<lambda>_ _. True) (\<lambda>e _. classifyPushError e = Permanent)"

lemma permanent_status: "st \<in> {400, 404, 409} \<Longrightarrow> classifyPushError (AppError st msg) = Permanent"
  by (auto simp: classifyPushError_def)

lemma permanent_502: "frag \<in> set permanent502 \<Longrightarrow> classifyPushError (AppError 502 (u @ frag @ v)) = Permanent"
  using includes_iff by (fastforce simp: classifyPushError_def list_ex_iff)

lemma perm_rules:
  "raises_permanent (returnIO a)"
  "classifyPushError e = Permanent \<Longrightarrow> raises_permanent (throwIO e)"
  by (auto simp: valid_def)

lemma perm_bind: "raises_permanent m \<Longrightarrow> (\<And>a. raises_permanent (f a)) \<Longrightarrow> raises_permanent (bindIO m f)"
  by (rule valid_bind)

lemma collision_permanent: "collision ip mac es = Inl e \<Longrightarrow> classifyPushError e = Permanent"
  by (induction es) (auto simp: permanent_status split: if_splits)

lemma verify_permanent: "verify_entry ip mac k es = Inl e \<Longrightarrow> classifyPushError e = Permanent"
proof -
  have a: "classifyPushError (AppError 502 (''FortiGate verify mismatch '' @ m)) = Permanent" for m
    using permanent_502 [of "''verify mismatch''" "''FortiGate ''" "'' '' @ m"] by (simp add: permanent502_def)
  have b: "classifyPushError (AppError 502 (''FortiGate accepted the create but the entry was not visible on read-back for '' @ m)) = Permanent" for m
    using permanent_502 [of "''not visible on read-back''" "''FortiGate accepted the create but the entry was ''" "'' for '' @ m"]
    by (simp add: permanent502_def)
  show "verify_entry ip mac k es = Inl e \<Longrightarrow> classifyPushError e = Permanent"
    using a b by (fastforce simp: verify_entry_def Let_def split: option.splits if_splits)
qed

lemma lift_permanent: "(\<And>e. r = Inl e \<Longrightarrow> classifyPushError e = Permanent) \<Longrightarrow> raises_permanent (liftIO r)"
  by (auto simp: valid_def split: sum.splits)

section \<open>A reference device\<close>

text \<open>One FortiGate with one DHCP scope, of id 1; its state is the list of reserved addresses.\<close>

definition ref_server :: fosEntry where
  "ref_server = \<lparr>fe_id = 1, fe_interface = Some ''port1'', fe_defaultGateway = Some ''10.0.0.1'',
     fe_netmask = Some ''26'', fe_ipRange = [Some ''10.0.0.10''], fe_ip = None, fe_mac = None, fe_description = None\<rparr>"

definition fresh_id :: "fosEntry list \<Rightarrow> int" where
  "fresh_id es = fold (\<lambda>e m. max m (fe_id e)) es 0 + 1"

definition ref_fgRequest :: "integrationConfig \<Rightarrow> httpMethod \<Rightarrow> string \<Rightarrow> string \<Rightarrow> fosBody option \<Rightarrow> (fosEntry list, fosResponse) io" where
  "ref_fgRequest cfg meth path vdom body d =
     (if meth = GET
      then (if path = serverPath then (Inr (FosArray [ref_server]), d)
            else if path = reservedPath 1 then (Inr (FosArray d), d)
            else (Inl (NativeError ''not found''), d))
      else if meth = POST \<and> path = reservedPath 1 \<and> body \<noteq> None
      then (Inr (FosObject (Some (KeyNum (fresh_id d))) None),
            d @ [\<lparr>fe_id = fresh_id d, fe_interface = None, fe_defaultGateway = None, fe_netmask = None, fe_ipRange = [],
                  fe_ip = fb_ip (the body), fe_mac = fb_mac (the body), fe_description = fb_description (the body)\<rparr>])
      else if meth = DELETE \<and> list_ex (\<lambda>e. path = entryPath 1 (fe_id e)) d
      then (Inr FosNull, filter (\<lambda>e. path \<noteq> entryPath 1 (fe_id e)) d)
      else (Inl (NativeError ''not found''), d))"

definition ref_fortinet :: "fosEntry list fortinet" where
  "ref_fortinet = \<lparr>fgRequest = ref_fgRequest,
     fmgProxyRest = (\<lambda>cfg dev meth path body i. throwIO (NativeError ''fetch failed'')),
     resolveDeviceMgmtIpViaFmg = (\<lambda>cfg dev i. returnIO None)\<rparr>"

definition ref_reserved :: "fosEntry list \<Rightarrow> int \<Rightarrow> fosEntry list" where
  "ref_reserved d s = (if s = 1 then d else [])"

lemma string_of_int_noslash: "CHR ''/'' \<notin> set (string_of_int i)"
  by (simp add: string_of_int_def dot_notin_string_of_nat is_digit_def)

lemma string_of_int_inj: "string_of_int i = string_of_int j \<longleftrightarrow> i = j"
proof -
  have "hd (string_of_nat n) \<noteq> CHR ''-''" for n
    using string_of_nat_digits [of n] hd_in_set [of "string_of_nat n"] digit_not_sign by fastforce
  then have "string_of_nat n \<noteq> CHR ''-'' # s" for n s by (metis list.sel(1))
  then have "CHR ''-'' # s \<noteq> string_of_nat n" for n s by metis
  with \<open>\<And>n s. string_of_nat n \<noteq> CHR ''-'' # s\<close> show ?thesis
    by (auto simp: string_of_int_def string_of_nat_inj)
qed

lemma append_sep: "c \<notin> set a \<Longrightarrow> c \<notin> set b \<Longrightarrow> a @ c # x = b @ c # y \<longleftrightarrow> a = b \<and> x = y"
proof (induction a arbitrary: b)
  case Nil
  then show ?case by (cases b) auto
next
  case (Cons d a)
  then show ?case by (cases b) auto
qed

lemma reservedPath_inj: "reservedPath s = reservedPath s' \<longleftrightarrow> s = s'"
  by (simp add: reservedPath_def string_of_int_inj)

lemma entryPath_inj: "entryPath s k = entryPath s' k' \<longleftrightarrow> s = s' \<and> k = k'"
  using append_sep [OF string_of_int_noslash string_of_int_noslash]
  by (auto simp: entryPath_def reservedPath_def string_of_int_inj)

lemma reservedPath_not_server: "reservedPath s \<noteq> serverPath"
  by (simp add: reservedPath_def serverPath_def)

lemma fold_max: "(m :: int) \<le> fold (\<lambda>e m. max m (f e)) es m \<and> (\<forall>e \<in> set es. f e \<le> fold (\<lambda>e m. max m (f e)) es m)"
  by (induction es arbitrary: m) (auto, (meson max.bounded_iff order_trans)+)

lemma fresh_id: "fresh_id d \<notin> fe_id ` set d"
  using fold_max [of 0 fe_id d] by (fastforce simp: fresh_id_def)

interpretation refdev: dhcp_device "callFortiOs ref_fortinet (DirectFortigate cfg vdom)" ref_reserved for cfg vdom
proof unfold_locales
  fix s b d r and d' :: "fosEntry list"
  assume "callFortiOs ref_fortinet (DirectFortigate cfg vdom) POST (reservedPath s) (Some b) d = (Inr r, d')"
  then show "\<exists>e. ref_reserved d' s = ref_reserved d s @ [e] \<and> fe_id e \<notin> fe_id ` set (ref_reserved d s) \<and>
      fe_ip e = fb_ip b \<and> fe_mac e = fb_mac b \<and> (echoedKey r = None \<or> echoedKey r = Some (fe_id e))"
    using fresh_id [of d]
    by (auto simp: callFortiOs_def ref_fortinet_def ref_fgRequest_def reservedPath_inj ref_reserved_def echoedKey_def
        split: if_splits)
next
  fix s k d r and d' :: "fosEntry list"
  assume "callFortiOs ref_fortinet (DirectFortigate cfg vdom) DELETE (entryPath s k) None d = (Inr r, d')"
  then show "ref_reserved d' s = filter (\<lambda>e. fe_id e \<noteq> k) (ref_reserved d s)"
    by (auto simp: callFortiOs_def ref_fortinet_def ref_fgRequest_def entryPath_inj ref_reserved_def list_ex_iff
        intro!: filter_cong split: if_splits)
qed (auto simp: callFortiOs_def ref_fortinet_def ref_fgRequest_def reservedPath_not_server reservedPath_inj
      ref_reserved_def arrayOf_def split: if_splits)

section \<open>Properties\<close>

text \<open>
  Normalising a MAC is idempotent, and its result has the six-pair form the FortiGate accepts exactly
  when the input has twelve hexadecimal digits, whatever separates them.
\<close>

theorem normalizeMac_canonical:
  "normalizeMac (normalizeMac m) = normalizeMac m \<and>
   (macRegex (normalizeMac m) \<longleftrightarrow> length (filter is_hex_lower (toLowerCase m)) = 12)"
proof (intro conjI)
  show "macRegex (normalizeMac m) \<longleftrightarrow> length (filter is_hex_lower (toLowerCase m)) = 12"
  proof (cases "length (filter is_hex_lower (toLowerCase m)) = 12")
    case True
    then show ?thesis by (simp add: normalizeMac_def macRegex_pairs list_all_iff)
  next
    case False
    then have "normalizeMac m = toLowerCase m" by (simp add: normalizeMac_def)
    then show ?thesis using False macRegex_hex [of "toLowerCase m"] by auto
  qed
qed (rule normalizeMac_idem)

text \<open>
  The description written to the device fits the cap of 64 characters and always starts with the mark
  that tells it was written by this program.
\<close>

theorem description_bounded:
  "length (buildDescription hostname createdBy fallback notes) \<le> 64 \<and>
   startsWith (buildDescription hostname createdBy fallback notes) ''Polaris''"
  by (auto simp: buildDescription_def Let_def startsWith_def)

text \<open>
  C7. A successful push has put exactly one new entry on the device: the entry the returned scope and entry
  ids name, with the reservation's address and MAC, in a scope that held neither before.
\<close>

theorem push_lands:
  assumes "dhcp_device (callFortiOs D t) reserved"
    and "buildTransportForIntegration D (pp_integration params) (pp_deviceName params) d = (Inr t, d)"
    and "pp_ip params \<noteq> []"
    and "pushReservation N D params d = (Inr res, d')"
  shows "\<exists>e. reserved d' (pu_scopeId res) = reserved d (pu_scopeId res) @ [e] \<and> fe_id e = pu_entryId res \<and>
      fe_ip e = Some (pp_ip params) \<and> has_mac (normalizeMac (pp_mac params)) e \<and>
      (\<forall>f \<in> set (reserved d (pu_scopeId res)). fe_id f \<noteq> pu_entryId res \<and> fe_ip f \<noteq> Some (pp_ip params) \<and>
         \<not> has_mac (normalizeMac (pp_mac params)) f)"
  by (rule push_appended [OF assms])

definition ref_config :: integrationConfig where
  "ref_config = noConfig\<lparr>cf_pushReservations := Some True, cf_host := Some ''192.0.2.1'', cf_apiToken := Some ''t''\<rparr>"

definition ref_integration :: integration where
  "ref_integration = \<lparr>ig_id = ''ig1'', ig_type = ''fortigate'', ig_name = ''FG'', ig_config = ref_config, ig_enabled = True\<rparr>"

definition ref_params :: pushParams where
  "ref_params = \<lparr>pp_subnetCidr = ''10.0.0.0/26'', pp_ip = ''10.0.0.5'', pp_mac = ''AA-BB-CC-00-11-22'', pp_hostname = Some ''host'',
     pp_notes = None, pp_createdBy = Some ''bob'', pp_integration = ref_integration, pp_deviceName = ''FG1''\<rparr>"

definition ref_transport :: transport where
  "ref_transport = DirectFortigate (ref_config\<lparr>cf_vdom := Some ''root''\<rparr>) ''root''"

lemma ref_transport_built:
  "buildTransportForIntegration ref_fortinet (pp_integration ref_params) (pp_deviceName ref_params) d = (Inr ref_transport, d)"
  by (simp add: buildTransportForIntegration_def ref_params_def ref_integration_def ref_config_def noConfig_def truthy_def
      or_str_def ref_transport_def)

lemma ref_device_ok: "dhcp_device (callFortiOs ref_fortinet ref_transport) ref_reserved"
  unfolding ref_transport_def by (rule refdev.dhcp_device_axioms)

lemma ref_push_result:
  "pushReservation ref_netmask ref_fortinet ref_params [] =
     (Inr \<lparr>pu_scopeId = 1, pu_entryId = 1, pu_serverInterface = Some ''port1'', pu_description = ''Polaris/bob: host''\<rparr>,
      [\<lparr>fe_id = 1, fe_interface = None, fe_defaultGateway = None, fe_netmask = None, fe_ipRange = [],
        fe_ip = Some ''10.0.0.5'', fe_mac = Some ''aa:bb:cc:00:11:22'', fe_description = Some ''Polaris/bob: host''\<rparr>])"
  by code_simp

theorem push_lands_witness:
  "\<exists>e. ref_reserved (snd (pushReservation ref_netmask ref_fortinet ref_params [])) 1 = [e] \<and> fe_id e = 1 \<and>
     fe_ip e = Some ''10.0.0.5'' \<and> has_mac (normalizeMac ''AA-BB-CC-00-11-22'') e"
proof -
  have ip: "pp_ip ref_params \<noteq> []" by (simp add: ref_params_def)
  show ?thesis
    using push_lands [OF ref_device_ok ref_transport_built ip ref_push_result] unfolding ref_push_result
    by (simp add: ref_reserved_def ref_params_def)
qed

text \<open>
  C8. Releasing what was pushed. For a device that keeps the contract of its reserved addresses and can be reached, and a push of a non-empty address: if the
  unpush of the ids the push returned reports the entry removed, the scope holds exactly the entries it had before the push; if it
  reports the entry already absent, which right after a push happens only when the read of the scope failed, the device is as the push
  left it, with the entry still on it.
\<close>

theorem push_unpush_roundtrip:
  assumes "dhcp_device (callFortiOs D t) reserved"
    and "\<And>d. buildTransportForIntegration D (pp_integration params) (pp_deviceName params) d = (Inr t, d)"
    and "pp_ip params \<noteq> []"
    and "pushReservation N D params d = (Inr res, d')"
    and "unpushReservation D \<lparr>un_scopeId = pu_scopeId res, un_entryId = pu_entryId res, un_integration = pp_integration params,
           un_deviceName = pp_deviceName params\<rparr> d' = (Inr ur, d'')"
  shows "if ur_removed ur then reserved d'' (pu_scopeId res) = reserved d (pu_scopeId res)
    else d'' = d' \<and> ur_alreadyAbsent ur \<and> pu_entryId res \<in> fe_id ` set (reserved d'' (pu_scopeId res))"
proof -
  obtain e where e: "reserved d' (pu_scopeId res) = reserved d (pu_scopeId res) @ [e]" "fe_id e = pu_entryId res"
      "\<forall>f \<in> set (reserved d (pu_scopeId res)). fe_id f \<noteq> pu_entryId res"
    using push_appended [OF assms(1-4)] by blast
  note un = unpush_run [OF assms(1) _ assms(5), simplified, OF assms(2)]
  show ?thesis
  proof (cases "ur_removed ur")
    case True
    then have "reserved d'' (pu_scopeId res) = filter (\<lambda>e. fe_id e \<noteq> pu_entryId res) (reserved d' (pu_scopeId res))"
      using un by simp
    also have "\<dots> = filter (\<lambda>e. fe_id e \<noteq> pu_entryId res) (reserved d (pu_scopeId res))" by (simp add: e(1,2))
    also have "\<dots> = reserved d (pu_scopeId res)" using e(3) by (simp add: filter_id_conv)
    finally show ?thesis using True by simp
  next
    case False
    then show ?thesis using un e(1,2) by auto
  qed
qed

definition ref_pushed :: "fosEntry list" where
  "ref_pushed = snd (pushReservation ref_netmask ref_fortinet ref_params [])"

theorem push_unpush_roundtrip_witness:
  "ref_reserved (snd (unpushReservation ref_fortinet \<lparr>un_scopeId = 1, un_entryId = 1, un_integration = ref_integration,
     un_deviceName = ''FG1''\<rparr> ref_pushed)) 1 = ref_reserved [] 1"
proof -
  have ip: "pp_ip ref_params \<noteq> []" by (simp add: ref_params_def)
  have un: "unpushReservation ref_fortinet \<lparr>un_scopeId = 1, un_entryId = 1, un_integration = ref_integration,
     un_deviceName = ''FG1''\<rparr> ref_pushed = (Inr \<lparr>ur_removed = True, ur_alreadyAbsent = False\<rparr>, [])"
    by code_simp
  show ?thesis
    using push_unpush_roundtrip [OF ref_device_ok ref_transport_built ip ref_push_result, of "\<lparr>ur_removed = True, ur_alreadyAbsent = False\<rparr>" "[]"] un
    by (simp add: ref_params_def ref_pushed_def ref_push_result [unfolded ref_params_def])
qed

text \<open>
  A push that would collide is refused with 409 before anything is written: when the scope of the subnet
  already holds an entry with the address or the MAC, the device is left as it was.
\<close>

theorem push_refuses_collision:
  assumes "dhcp_device (callFortiOs D t) reserved"
    and "buildTransportForIntegration D (pp_integration params) (pp_deviceName params) d = (Inr t, d)"
    and "findScopeIdForCidr N D t (pp_subnetCidr params) d = (Inr (scope, ifc), d)"
    and "callFortiOs D t GET (reservedPath scope) None d = (Inr answer, d)"
    and "e \<in> set (reserved d scope)"
    and "(fe_ip e = Some (pp_ip params) \<and> pp_ip params \<noteq> []) \<or> has_mac (normalizeMac (pp_mac params)) e"
    and "pp_deviceName params \<noteq> []" "macRegex (normalizeMac (pp_mac params))"
  shows "\<exists>msg. pushReservation N D params d = (Inl (AppError 409 msg), d)"
proof -
  have "listReservedAddresses D t scope d = (Inr (reserved d scope), d)"
    using assms(4) dhcp_device.get_reserved [OF assms(1) assms(4)] by (simp add: listReservedAddresses_def bindIO_def)
  moreover obtain msg where "collision (pp_ip params) (normalizeMac (pp_mac params)) (reserved d scope) = Inl (AppError 409 msg)"
    using collision_error assms(5,6) by blast
  ultimately show ?thesis
    using assms(2,3,7,8) by (auto simp: pushReservation_def pushOver_def Let_def bindIO_def)
qed

theorem push_refuses_collision_witness:
  "\<exists>msg. pushReservation ref_netmask ref_fortinet ref_params ref_pushed = (Inl (AppError 409 msg), ref_pushed)"
proof -
  have pushed: "ref_pushed = [\<lparr>fe_id = 1, fe_interface = None, fe_defaultGateway = None, fe_netmask = None, fe_ipRange = [],
        fe_ip = Some ''10.0.0.5'', fe_mac = Some ''aa:bb:cc:00:11:22'', fe_description = Some ''Polaris/bob: host''\<rparr>]"
    by (simp add: ref_pushed_def ref_push_result)
  have scope: "findScopeIdForCidr ref_netmask ref_fortinet ref_transport (pp_subnetCidr ref_params) ref_pushed =
      (Inr (1, Some ''port1''), ref_pushed)"
    unfolding pushed by code_simp
  have get: "callFortiOs ref_fortinet ref_transport GET (reservedPath 1) None ref_pushed = (Inr (FosArray ref_pushed), ref_pushed)"
    unfolding pushed by code_simp
  have mac: "macRegex (normalizeMac (pp_mac ref_params))" by code_simp
  show ?thesis
    by (rule push_refuses_collision [OF ref_device_ok ref_transport_built scope get _ _ _ mac, of "hd ref_pushed"])
       (simp_all add: pushed ref_reserved_def ref_params_def)
qed

text \<open>
  When the read of the scope fails, the unpush reports the entry as already absent and sends no delete:
  the device is left as it is, although the comment in the code announces a delete attempt.
\<close>

theorem unpush_swallows_read_failure:
  assumes "buildTransportForIntegration D (un_integration params) (un_deviceName params) d = (Inr t, d)"
    and "callFortiOs D t GET (reservedPath (un_scopeId params)) None d = (Inl e, d)"
  shows "unpushReservation D params d = (Inr \<lparr>ur_removed = False, ur_alreadyAbsent = True\<rparr>, d)"
  using assms by (simp add: unpushReservation_def listReservedAddresses_def bindIO_def catchIO_def)

theorem unpush_swallows_read_failure_witness:
  "unpushReservation ref_fortinet \<lparr>un_scopeId = 2, un_entryId = 1, un_integration = ref_integration, un_deviceName = ''FG1''\<rparr> ref_pushed =
     (Inr \<lparr>ur_removed = False, ur_alreadyAbsent = True\<rparr>, ref_pushed)"
proof (rule unpush_swallows_read_failure)
  show "callFortiOs ref_fortinet ref_transport GET
      (reservedPath (un_scopeId \<lparr>un_scopeId = 2, un_entryId = 1, un_integration = ref_integration, un_deviceName = ''FG1''\<rparr>)) None ref_pushed =
      (Inl (NativeError ''not found''), ref_pushed)"
    by (simp add: callFortiOs_def ref_transport_def ref_fortinet_def ref_fgRequest_def reservedPath_not_server reservedPath_inj)
qed (use ref_transport_built in \<open>simp add: ref_params_def\<close>)

text \<open>
  A push fails transiently only when the network does: over a transport that is established and answers
  every call, whatever the answers are, an error of the push is classified permanent, so the reservation is
  never queued for a condition no retry can clear.
\<close>

theorem answered_push_permanent:
  assumes "buildTransportForIntegration D (pp_integration params) (pp_deviceName params) d = (Inr t, d)"
    and "\<And>m p b s. \<exists>r s'. callFortiOs D t m p b s = (Inr r, s')"
    and "pushReservation N D params d = (Inl e, d')"
  shows "classifyPushError e = Permanent"
proof -
  have call: "raises_permanent (callFortiOs D t m p b)" for m p b
    using assms(2) by (rule_tac validI) (simp, metis Inr_not_Inl prod.inject)
  have scope: "raises_permanent (findScopeIdForCidr N D t c)" for c
    unfolding findScopeIdForCidr_def
    by (intro perm_bind call) (auto split: sum.splits option.splits intro!: perm_rules permanent_status)
  have list: "raises_permanent (listReservedAddresses D t k)" for k
    unfolding listReservedAddresses_def by (intro perm_rules perm_bind call)
  have over: "raises_permanent (pushOver N D params mac t)" for mac
    unfolding pushOver_def Let_def
    by (intro perm_bind scope, simp only: split_paired_all prod.case)
       (intro perm_rules perm_bind list call lift_permanent collision_permanent verify_permanent)
  have "pushOver N D params (normalizeMac (pp_mac params)) t d = (Inl e, d') \<or> classifyPushError e = Permanent"
    using assms(1,3) permanent_status [of 400]
    by (auto simp: pushReservation_def Let_def bindIO_def [of "buildTransportForIntegration _ _ _"] split: if_splits)
  then show ?thesis using valid_errD [OF over] by auto
qed

text \<open>A device that answers every call with an empty list.\<close>

definition mute_fortinet :: "unit fortinet" where
  "mute_fortinet = \<lparr>fgRequest = (\<lambda>cfg meth path vdom body. returnIO (FosArray [])),
     fmgProxyRest = (\<lambda>cfg dev meth path body i. returnIO (FosArray [])), resolveDeviceMgmtIpViaFmg = (\<lambda>cfg dev i. returnIO None)\<rparr>"

theorem answered_push_permanent_witness:
  "classifyPushError (AppError 409 ''FortiGate has no DHCP scope matching subnet 10.0.0.0/26'') = Permanent"
proof (rule answered_push_permanent)
  show "buildTransportForIntegration mute_fortinet (pp_integration ref_params) (pp_deviceName ref_params) () = (Inr ref_transport, ())"
    by code_simp
  show "\<exists>r s'. callFortiOs mute_fortinet ref_transport m p b s = (Inr r, s')" for m p b s
    by (simp add: callFortiOs_def mute_fortinet_def ref_transport_def)
  show "pushReservation ref_netmask mute_fortinet ref_params () =
      (Inl (AppError 409 ''FortiGate has no DHCP scope matching subnet 10.0.0.0/26''), ())"
    by code_simp
qed

text \<open>
  The id a push returns is the id the device echoed, even when no entry on read-back has it and the
  entry verified by address and MAC has another: the row then points at no entry of the device.
\<close>

theorem push_keeps_stale_echo:
  assumes "find (\<lambda>r. fe_id r = k) listed = None"
    and "find (\<lambda>r. fe_ip r = Some ip \<and> has_mac mac r) listed = Some v"
  shows "verify_entry ip mac (Some k) listed = Inr k \<and> k \<notin> fe_id ` set listed"
proof
  obtain y where "fe_mac v = Some y" "y \<noteq> []" "normalizeMac y = mac" "fe_ip v = Some ip"
    using find_SomeD [OF assms(2)] by (auto simp: has_mac_def truthy_def)
  then show "verify_entry ip mac (Some k) listed = Inr k"
    using assms by (auto simp: verify_entry_def or_str_def split: list.splits)
qed (use assms(1) in \<open>auto simp: find_None_iff\<close>)

theorem push_keeps_stale_echo_witness:
  "verify_entry ''10.0.0.5'' ''aa:bb:cc:00:11:22'' (Some 7) ref_pushed = Inr 7 \<and> 7 \<notin> fe_id ` set ref_pushed"
proof -
  have a: "find (\<lambda>r. fe_id r = 7) ref_pushed = None" by code_simp
  have b: "find (\<lambda>r. fe_ip r = Some ''10.0.0.5'' \<and> has_mac ''aa:bb:cc:00:11:22'' r) ref_pushed = Some (hd ref_pushed)" by code_simp
  show ?thesis by (rule push_keeps_stale_echo [OF a b])
qed

end
