(* ===== verification/ReservationsSpec.thy ===== *)
theory ReservationsSpec
  imports SubnetsSpec PushSpec
begin

text \<open>
  What the reservation service promises: no two active reservations hold the same target in any reachable
  state, release always succeeds and frees the target, creation on a pushing subnet follows the outcome of
  the push, automatic allocation takes the lowest free host address; and the two statements that fail on
  a leftover row of an earlier life of the address.
\<close>

section \<open>Rows at a target\<close>

definition slot :: "reservation \<Rightarrow> string \<times> string option" where
  "slot r = (rs_subnetId r, rs_ipAddress r)"

lemma one_active_per_slot:
  assumes ok: "world_ok w" and rq: "r \<in> set (w_reservations w)" "q \<in> set (w_reservations w)"
    and act: "rs_status r = ResActive" "rs_status q = ResActive" and s: "slot r = slot q"
  shows "r = q"
proof (cases "rs_ipAddress r")
  case None
  then have f: "is_full r" "is_full q" using act s by (simp_all add: is_full_def slot_def)
  have "distinct (map rs_subnetId (filter is_full (w_reservations w)))" using ok by (simp add: world_ok_def full_ok_def)
  moreover have "r \<in> set (filter is_full (w_reservations w))" "q \<in> set (filter is_full (w_reservations w))" using rq f by auto
  ultimately show ?thesis using s by (auto simp: distinct_map inj_on_def slot_def)
next
  case (Some ip)
  then show ?thesis
    using res.good_key [of "w_reservations w" r q "(rs_subnetId r, ip, ResActive)"] ok rq act s
    by (simp add: world_ok_defs reservationKey_def slot_def)
qed

lemma reachable_ok: "(core_step N D pg)\<^sup>*\<^sup>* (emptyWorld dev) w \<Longrightarrow> world_ok w"
  by (induction rule: rtranclp_induct) (auto intro: core_step_ok)

lemma subnet_row: "world_ok w \<Longrightarrow> r \<in> set (w_reservations w) \<Longrightarrow> \<exists>s. findSubnet (rs_subnetId r) w = Some s"
  using sub.lookup_id [of "w_subnets w"] by (force simp: world_ok_defs findSubnet_def)

lemma findReservation_row: "world_ok w \<Longrightarrow> r \<in> set (w_reservations w) \<Longrightarrow> findReservation (rs_id r) w = Some r"
  using res.lookup_id [of "w_reservations w" r] by (simp add: world_ok_defs findReservation_def)

lemma same_row: "world_ok w \<Longrightarrow> r \<in> set (w_reservations w) \<Longrightarrow> q \<in> set (w_reservations w) \<Longrightarrow> rs_id r = rs_id q \<Longrightarrow> r = q"
  using findReservation_row [of w r] findReservation_row [of w q] by (metis option.inject)

section \<open>Expiry\<close>

definition expiry_clash :: "int \<Rightarrow> 'd world \<Rightarrow> bool" where
  "expiry_clash now w \<longleftrightarrow>
     (\<exists>r \<in> set (w_reservations w). \<exists>q \<in> set (w_reservations w).
        overdue now r \<and> rs_status q = ResExpired \<and> slot q = slot r \<and> rs_ipAddress r \<noteq> None)"

lemma distinct_map_filterI:
  "distinct xs \<Longrightarrow> (\<And>x y k. x \<in> set xs \<Longrightarrow> y \<in> set xs \<Longrightarrow> f x = Some k \<Longrightarrow> f y = Some k \<Longrightarrow> x = y) \<Longrightarrow>
   distinct (List.map_filter f xs)"
  by (induction xs) (auto simp: map_filter_simps set_map_filter split: option.splits)

lemma distinct_map_filter_upd:
  assumes "distinct xs"
    and "\<And>x y k. x \<in> set xs \<Longrightarrow> y \<in> set xs \<Longrightarrow> f (g x) = Some k \<Longrightarrow> f (g y) = Some k \<Longrightarrow> x = y"
  shows "distinct (List.map_filter f (map g xs))"
  using distinct_map_filterI [of xs "\<lambda>x. f (g x)"] assms by (simp add: map_filter_def comp_def filter_map)

definition expire_row :: "int \<Rightarrow> reservation \<Rightarrow> reservation" where
  "expire_row now r = (if overdue now r then r\<lparr>rs_status := ResExpired\<rparr> else r)"

lemma expire_row_simps [simp]:
  "rs_id (expire_row now r) = rs_id r" "slot (expire_row now r) = slot r"
  "overdue now r \<Longrightarrow> rs_status (expire_row now r) = ResExpired" "\<not> overdue now r \<Longrightarrow> expire_row now r = r"
  by (simp_all add: expire_row_def slot_def)

lemma key_slot: "reservationKey r = Some (sid, ip, st) \<longleftrightarrow> slot r = (sid, Some ip) \<and> rs_status r = st"
  by (auto simp: reservationKey_def slot_def)

lemma key_slotD: "reservationKey x = Some k \<Longrightarrow> reservationKey y = Some k \<Longrightarrow> slot x = slot y \<and> snd (slot x) \<noteq> None \<and> rs_status x = rs_status y"
  by (cases k) (simp add: key_slot)

lemma collision_breaks:
  assumes "x \<in> set rows" "y \<in> set rows" "x \<noteq> y" "inj_on g (set rows)" "f (g x) = Some k" "f (g y) = Some k"
  shows "\<not> distinct (List.map_filter f (map g rows))"
proof
  assume d: "distinct (List.map_filter f (map g rows))"
  have "g x = g y" by (rule distinct_map_filterD [OF d _ _ assms(5,6)]) (use assms(1,2) in auto)
  then show False using assms(1-4) by (auto dest: inj_onD)
qed

lemma inj_on_id: "world_ok w \<Longrightarrow> (\<And>r. rs_id (g r) = rs_id r) \<Longrightarrow> inj_on g (set (w_reservations w))"
  by (rule inj_onI) (metis same_row)

lemma clash_pair:
  assumes "slot r = (sid, Some ip)" "slot q = slot r" "overdue now r" "rs_status q = ResExpired"
  shows "reservationKey (expire_row now r) = reservationKey (expire_row now q)" "reservationKey (expire_row now q) = Some (sid, ip, ResExpired)"
  using assms by (auto simp: expire_row_def overdue_def reservationKey_def slot_def)

lemma clash_breaks:
  assumes ok: "world_ok w" and clash: "expiry_clash now w"
  shows "\<not> distinct (List.map_filter reservationKey (map (expire_row now) (w_reservations w)))"
proof -
  from clash obtain r q where rq: "r \<in> set (w_reservations w)" "q \<in> set (w_reservations w)" "overdue now r" "rs_status q = ResExpired"
      "slot q = slot r" "rs_ipAddress r \<noteq> None" unfolding expiry_clash_def by metis
  from rq(6) obtain ip where ip: "slot r = (rs_subnetId r, Some ip)" by (auto simp: slot_def)
  note k = clash_pair [OF ip rq(5,3,4)]
  have "r \<noteq> q" using rq(3,4) by (auto simp: overdue_def)
  then show ?thesis
    using collision_breaks [OF rq(1,2) _ inj_on_id [OF ok expire_row_simps(1)] trans [OF k] k(2)] by blast
qed

lemma no_clash_keeps:
  assumes ok: "world_ok w" and c: "\<not> expiry_clash now w"
  shows "distinct (List.map_filter reservationKey (map (expire_row now) (w_reservations w)))"
proof (rule distinct_map_filter_upd)
  have tab: "table_ok rs_id reservationKey (w_reservations w)" using ok by (simp add: world_ok_defs)
  show "distinct (w_reservations w)" using tab unfolding table_ok_def by (metis distinct_map)
  fix x y k
  assume xy: "x \<in> set (w_reservations w)" "y \<in> set (w_reservations w)"
    and k: "reservationKey (expire_row now x) = Some k" "reservationKey (expire_row now y) = Some k"
  have snd_slot: "snd (slot r) = rs_ipAddress r" for r by (simp add: slot_def)
  have s: "slot x = slot y" "rs_status (expire_row now x) = rs_status (expire_row now y)" using key_slotD [OF k] by simp_all
  have same: "rs_ipAddress x = rs_ipAddress y" using arg_cong [OF s(1), of snd] by (simp only: snd_slot)
  have ip: "rs_ipAddress x \<noteq> None" "rs_ipAddress y \<noteq> None"
    using key_slotD [OF k] unfolding expire_row_simps(2) snd_slot same by simp_all
  have one: False if "a \<in> set (w_reservations w)" "b \<in> set (w_reservations w)" "overdue now a" "\<not> overdue now b"
      "slot a = slot b" "rs_status (expire_row now a) = rs_status (expire_row now b)" "rs_ipAddress a \<noteq> None" for a b
    using c that unfolding expiry_clash_def by (metis expire_row_simps(3,4))
  show "x = y"
  proof (cases "overdue now x")
    case True
    then have "overdue now y" using one [OF xy] s ip by blast
    with True show ?thesis using one_active_per_slot [OF ok xy] s by (simp add: overdue_def)
  next
    case False
    then have "\<not> overdue now y" using one [OF xy(2,1)] s ip by metis
    with False show ?thesis using res.good_key [OF tab xy] k by simp
  qed
qed

lemma expire_run:
  assumes "world_ok w"
  shows "expireStaleReservations now w =
    (if expiry_clash now w then (Inl UniqueViolation, w)
     else (Inr (length (filter (overdue now) (w_reservations w))), w\<lparr>w_reservations := map (expire_row now) (w_reservations w)\<rparr>))"
  using clash_breaks [OF assms, of now] no_clash_keeps [OF assms, of now]
  by (simp add: expireStaleReservations_def updateManyReservations_def update_rows_def Let_def expire_row_def [abs_def])

section \<open>Release\<close>

lemma update_one_ok:
  assumes tab: "table_ok rid key t" and r: "r \<in> set t"
    and free: "\<And>s. s \<in> set t \<Longrightarrow> rid s \<noteq> rid r \<Longrightarrow> key (f r) = None \<or> key s \<noteq> key (f r)"
  shows "update_rows key (\<lambda>s. rid s = rid r) f t = Inr (map (\<lambda>s. if rid s = rid r then f s else s) t)"
proof -
  have same: "s = r" if "s \<in> set t" "rid s = rid r" for s
    using that r tab unfolding table_ok_def distinct_map inj_on_def by blast
  have "distinct (List.map_filter key (map (\<lambda>s. if rid s = rid r then f s else s) t))"
  proof (rule distinct_map_filter_upd)
    show "distinct t" using tab unfolding table_ok_def by (metis distinct_map)
    fix x y k
    assume xy: "x \<in> set t" "y \<in> set t" "key (if rid x = rid r then f x else x) = Some k"
      "key (if rid y = rid r then f y else y) = Some k"
    have key: "key x = Some k \<Longrightarrow> key y = Some k \<Longrightarrow> x = y"
      using distinct_map_filterD [of key t x y k] tab xy(1,2) unfolding table_ok_def by blast
    consider "rid x = rid r" "rid y = rid r" | "rid x = rid r" "rid y \<noteq> rid r" | "rid x \<noteq> rid r" "rid y = rid r"
      | "rid x \<noteq> rid r" "rid y \<noteq> rid r" by blast
    then show "x = y"
    proof cases
      case 1
      then show ?thesis using same xy(1,2) by metis
    next
      case 2
      then show ?thesis using same [OF xy(1)] free [OF xy(2)] xy(3,4) by auto
    next
      case 3
      then show ?thesis using same [OF xy(2)] free [OF xy(1)] xy(3,4) by auto
    next
      case 4
      then show ?thesis using key xy(3,4) by simp
    qed
  qed
  then show ?thesis by (simp add: update_rows_def Let_def)
qed

text \<open>A call that only talks to the device and the audit log, and never fails.\<close>

definition touched :: "'d world \<Rightarrow> 'd world \<Rightarrow> bool" where
  "touched w w' \<longleftrightarrow> (\<exists>d ev. w' = w\<lparr>w_device := d, w_events := ev\<rparr>)"

definition quiet :: "('d world, unit) io \<Rightarrow> bool" where
  "quiet m \<longleftrightarrow> (\<forall>w. \<exists>w'. m w = (Inr (), w') \<and> touched w w')"

lemma touched_refl [simp]: "touched w w"
  unfolding touched_def by (rule exI [of _ "w_device w"], rule exI [of _ "w_events w"]) simp

lemma touched_trans: "touched w u \<Longrightarrow> touched u v \<Longrightarrow> touched w v"
  unfolding touched_def by (auto, blast)

lemma touched_device [simp]: "touched w (w\<lparr>w_device := d\<rparr>)"
  unfolding touched_def by (rule exI [of _ d], rule exI [of _ "w_events w"]) simp

lemma touched_events [simp]: "touched w (w\<lparr>w_events := ev\<rparr>)"
  unfolding touched_def by (rule exI [of _ "w_device w"], rule exI [of _ ev]) simp

lemma quiet_return: "quiet (returnIO ())"
  by (simp add: quiet_def)

lemma quiet_log: "quiet (logEvent e)"
  by (simp add: quiet_def logEvent_def)

lemma quiet_bind: "quiet m \<Longrightarrow> (\<And>a. quiet (k a)) \<Longrightarrow> quiet (bindIO m k)"
  unfolding quiet_def bindIO_def by (metis (no_types, lifting) case_prod_conv old.sum.simps(6) touched_trans)

lemma quiet_device:
  fixes m :: "('d, 'a) io"
  assumes "\<And>a. quiet (k a)" "\<And>e. quiet (h e)"
  shows "quiet (catchIO (bindIO (deviceIO m) k) h)"
  unfolding quiet_def
proof
  fix w :: "'d world"
  obtain r d where m: "m (w_device w) = (r, d)" by (rule prod.exhaust)
  have step: "\<exists>w'. x (w\<lparr>w_device := d\<rparr>) = (Inr (), w') \<and> touched w w'" if "quiet x" for x
    using that touched_trans [OF touched_device] unfolding quiet_def by metis
  show "\<exists>w'. catchIO (bindIO (deviceIO m) k) h w = (Inr (), w') \<and> touched w w'"
  proof (cases r)
    case (Inl e)
    then show ?thesis using m step [OF assms(2) [of e]] by (auto simp: catchIO_def bindIO_def deviceIO_def)
  next
    case (Inr a)
    then show ?thesis using m step [OF assms(1) [of a]] by (auto simp: catchIO_def bindIO_def deviceIO_def)
  qed
qed

lemma quiet_unpush: "quiet (unpushBestEffort D r sub ig)"
  unfolding unpushBestEffort_def Let_def
  by (auto split: option.splits intro!: quiet_return quiet_device quiet_log)

lemma quiet_lease: "quiet (releaseLeaseBestEffort D r sub ig)"
  unfolding releaseLeaseBestEffort_def by (auto intro!: quiet_return quiet_device quiet_log)

lemma world_touched: "touched w w' \<Longrightarrow> world_ok w' = world_ok w"
  by (auto simp: touched_def)

lemma touched_tables:
  "touched w w' \<Longrightarrow> w_reservations w' = w_reservations w \<and> w_subnets w' = w_subnets w \<and> w_integrations w' = w_integrations w"
  by (auto simp: touched_def)

definition old_released :: "reservation \<Rightarrow> reservation \<Rightarrow> bool" where
  "old_released r q \<longleftrightarrow> rs_id q \<noteq> rs_id r \<and> slot q = slot r \<and> rs_status q = ResReleased"

definition after_release :: "reservation \<Rightarrow> reservation list \<Rightarrow> reservation list" where
  "after_release r rs = map (\<lambda>q. if rs_id q = rs_id r then cleared q else q) (filter (\<lambda>q. \<not> old_released r q) rs)"

lemma cleared_simps [simp]: "rs_id (cleared r) = rs_id r" "slot (cleared r) = slot r" "rs_status (cleared r) = ResReleased"
  by (simp_all add: cleared_def slot_def)

lemma releaseRow_run:
  assumes ok: "world_ok w" and r: "r \<in> set (w_reservations w)" "rs_status r = ResActive"
  shows "\<exists>w'. releaseRow r w = (Inr (cleared r), w') \<and> w_reservations w' = after_release r (w_reservations w) \<and>
    w_integrations w' = w_integrations w \<and> (truthy (rs_ipAddress r) \<longrightarrow> w_subnets w' = w_subnets w) \<and>
    (rs_ipAddress r = None \<longrightarrow> (\<forall>s \<in> set (w_subnets w'). sn_id s = rs_subnetId r \<longrightarrow> sn_status s = SubAvailable))"
proof -
  let ?rs = "filter (\<lambda>q. \<not> old_released r q) (w_reservations w)"
  let ?w1 = "w\<lparr>w_reservations := ?rs\<rparr>"
  have del: "delete_rows (\<lambda>q. rs_id q \<noteq> rs_id r \<and> rs_subnetId q = rs_subnetId r \<and> rs_ipAddress q = rs_ipAddress r \<and>
      rs_status q = ResReleased) (w_reservations w) = ?rs"
    by (simp add: delete_rows_def old_released_def slot_def)
  have tab: "table_ok rs_id reservationKey ?rs"
    using res.del_good [of "w_reservations w" "old_released r"] ok by (simp add: world_ok_defs delete_rows_def)
  have mem: "r \<in> set ?rs" using r(1) by (simp add: old_released_def)
  have fnd: "findReservation (rs_id r) ?w1 = Some r"
    using res.lookup_id [OF tab mem] by (simp add: findReservation_def)
  have free: "reservationKey (cleared r) = None \<or> reservationKey s \<noteq> reservationKey (cleared r)"
    if "s \<in> set ?rs" "rs_id s \<noteq> rs_id r" for s
  proof (cases "reservationKey (cleared r)")
    case (Some k)
    then show ?thesis using that key_slotD [of s k "cleared r"] by (auto simp: old_released_def)
  qed simp
  have "updateReservationRow (rs_id r) cleared ?w1 = (Inr (cleared r), ?w1\<lparr>w_reservations := after_release r (w_reservations w)\<rparr>)"
    using fnd update_one_ok [OF tab mem, of cleared] free by (simp add: updateReservationRow_def after_release_def)
  then show ?thesis
    using del by (auto simp: releaseRow_def deleteReservations_def updateSubnetRow_def transactionIO_def bindIO_def truthy_def)
qed

lemma after_release_mem:
  "r \<in> set rs \<Longrightarrow> cleared r \<in> set (after_release r rs)"
  "q \<in> set rs \<Longrightarrow> rs_id q \<noteq> rs_id r \<Longrightarrow> \<not> (slot q = slot r \<and> rs_status q = ResReleased) \<Longrightarrow> q \<in> set (after_release r rs)"
  by (auto simp: after_release_def old_released_def rev_image_eqI)

lemma after_release_ids: "rs_id ` set (after_release r rs) \<subseteq> rs_id ` set rs"
  by (auto simp: after_release_def intro: rev_image_eqI)

lemma after_release_free:
  assumes ok: "world_ok w" and r: "r \<in> set (w_reservations w)" "rs_status r = ResActive"
    and q: "q \<in> set (after_release r (w_reservations w))" "slot q = slot r"
  shows "rs_status q \<noteq> ResActive"
proof -
  obtain p where p: "p \<in> set (w_reservations w)" "q = (if rs_id p = rs_id r then cleared p else p)"
    using q(1) by (auto simp: after_release_def)
  show ?thesis
  proof (cases "rs_id p = rs_id r")
    case False
    then show ?thesis using one_active_per_slot [OF ok p(1) r(1) _ r(2)] p(2) q(2) by auto
  qed (use p(2) in simp)
qed

lemma release_run:
  assumes ok: "world_ok w" and r: "findReservation i w = Some r" "rs_status r = ResActive"
  shows "\<exists>w'. releaseReservation D i w = (Inr (cleared r), w') \<and> w_reservations w' = after_release r (w_reservations w) \<and>
    w_integrations w' = w_integrations w \<and> (truthy (rs_ipAddress r) \<longrightarrow> w_subnets w' = w_subnets w) \<and>
    (rs_ipAddress r = None \<longrightarrow> (\<forall>s \<in> set (w_subnets w'). sn_id s = rs_subnetId r \<longrightarrow> sn_status s = SubAvailable))"
proof -
  have mem: "r \<in> set (w_reservations w)" using findReservation_mem [OF r(1)] by simp
  obtain sub where sub: "findSubnet (rs_subnetId r) w = Some sub" using subnet_row [OF ok mem] by blast
  let ?m = "if rs_pushStatus r = Some PushPending
      then logEvent (resEvent ''reservation.push.queued.released'' ''info'' (Some i) (reservationLabel r) None)
      else bindIO (unpushBestEffort D r sub (findIntegration (rs_pushedToId r) w)) (\<lambda>_. releaseLeaseBestEffort D r sub (subnetIntegration sub w))"
  have "quiet ?m" by (auto intro!: quiet_log quiet_bind quiet_unpush quiet_lease)
  then obtain w1 where w1: "?m w = (Inr (), w1)" "touched w w1" unfolding quiet_def by blast
  have "releaseReservation D i w = releaseRow r w1"
    using r sub w1(1) by (simp add: releaseReservation_def bindIO_def [of ?m])
  moreover have "world_ok w1" "r \<in> set (w_reservations w1)" "w_reservations w1 = w_reservations w"
      "w_subnets w1 = w_subnets w" "w_integrations w1 = w_integrations w"
    using ok mem world_touched [OF w1(2)] touched_tables [OF w1(2)] by simp_all
  ultimately show ?thesis using releaseRow_run [of w1 r] r(2) by simp
qed

section \<open>Creation\<close>

definition free_slot :: "string \<Rightarrow> string option \<Rightarrow> 'd world \<Rightarrow> bool" where
  "free_slot sid ip w \<longleftrightarrow> (\<forall>q \<in> set (w_reservations w). slot q = (sid, ip) \<longrightarrow> rs_status q \<noteq> ResActive)"

lemma releaseDns_idle:
  assumes "world_ok w" "free_slot sid (Some ip) w"
  shows "releaseDnsResolvedAt sid ip w = (Inr (), w)"
proof -
  let ?P = "\<lambda>r. rs_subnetId r = sid \<and> rs_ipAddress r = Some ip \<and> is_dns_row r"
  have none: "\<not> ?P q" if "q \<in> set (w_reservations w)" for q
    using that assms(2) by (auto simp: free_slot_def slot_def is_dns_row_def)
  then have rows: "map (\<lambda>r. if ?P r then r\<lparr>rs_status := ResReleased\<rparr> else r) (w_reservations w) = w_reservations w"
    by (intro map_idI) auto
  have "filter ?P (w_reservations w) = []" using none by (simp add: filter_empty_conv)
  moreover have "distinct (List.map_filter reservationKey (w_reservations w))" using assms(1) by (simp add: world_ok_defs table_ok_def)
  ultimately show ?thesis
    using rows unfolding releaseDnsResolvedAt_def updateManyReservations_def update_rows_def Let_def
    by (simp add: catchIO_def bindIO_def)
qed

lemma row_slot [simp]: "slot (reservationData input uid now) = (cr_subnetId input, cr_ipAddress input)"
  by (simp add: slot_def)

lemma insert_row_ok:
  assumes ok: "world_ok w" and free: "free_slot sid (Some ip) w" and uid: "rs_id r \<notin> rs_id ` set (w_reservations w)"
    and r: "slot r = (sid, Some ip)" "rs_status r = ResActive"
  shows "insert_row rs_id reservationKey r (w_reservations w) = Inr (w_reservations w @ [r])"
proof (rule res.ins_ok [OF _ uid])
  show "table_ok rs_id reservationKey (w_reservations w)" using ok by (simp add: world_ok_defs)
  fix s assume s: "s \<in> set (w_reservations w)"
  show "reservationKey r = None \<or> reservationKey s \<noteq> reservationKey r"
  proof (cases "reservationKey r")
    case (Some k)
    then show ?thesis using s free r key_slotD [of s k r] by (auto simp: free_slot_def)
  qed simp
qed

lemma insertReservation_run:
  assumes "world_ok w" "truthy (cr_ipAddress input)" "free_slot (cr_subnetId input) (cr_ipAddress input) w"
    and "uid \<notin> rs_id ` set (w_reservations w)"
  shows "insertReservation input uid now w =
    (Inr (reservationData input uid now), w\<lparr>w_reservations := w_reservations w @ [reservationData input uid now]\<rparr>)"
proof -
  obtain ip where ip: "cr_ipAddress input = Some ip" using assms(2) by (auto simp: truthy_def)
  then show ?thesis
    using assms insert_row_ok [of w "cr_subnetId input" ip "reservationData input uid now"] releaseDns_idle [of w "cr_subnetId input" ip]
    by (simp add: insertReservation_def createReservationRow_def bindIO_def transactionIO_def)
qed

lemma normalizeMac_nonempty: "m \<noteq> [] \<Longrightarrow> normalizeMac m \<noteq> []"
proof -
  have j: "p \<noteq> [] \<Longrightarrow> join s (p # ps) \<noteq> []" for p s ps by (cases ps) auto
  have "join '':'' (pairs_of h) \<noteq> []" if "length h = 12" for h
    using that j by (cases h rule: pairs_of.cases) auto
  then show "m \<noteq> [] \<Longrightarrow> normalizeMac m \<noteq> []" by (auto simp: normalizeMac_def toLowerCase_def Let_def)
qed

text \<open>A stamp on the row just appended.\<close>

lemma stamp_run:
  assumes ok: "world_ok w" and uid: "rs_id r \<notin> rs_id ` set (w_reservations w)"
    and ins: "insert_row rs_id reservationKey r (w_reservations w) = Inr (w_reservations w @ [r])"
    and f: "rs_id (f r) = rs_id r" "slot (f r) = slot r" "rs_status (f r) = rs_status r"
  shows "updateReservationRow (rs_id r) f (u\<lparr>w_reservations := w_reservations w @ [r]\<rparr>) =
    (Inr (f r), u\<lparr>w_reservations := w_reservations w @ [f r]\<rparr>)"
proof -
  let ?t = "w_reservations w @ [r]"
  have tab: "table_ok rs_id reservationKey ?t" using res.ins_good [OF _ ins] ok by (simp add: world_ok_defs)
  have mem: "r \<in> set ?t" by simp
  have key: "reservationKey (f r) = reservationKey r" using f(2,3) by (simp add: reservationKey_def slot_def)
  have free: "reservationKey (f r) = None \<or> reservationKey s \<noteq> reservationKey (f r)" if "s \<in> set ?t" "rs_id s \<noteq> rs_id r" for s
    using that res.good_key [OF tab mem that(1)] unfolding key by (cases "reservationKey r") auto
  have "map (\<lambda>s. if rs_id s = rs_id r then f s else s) (w_reservations w) = w_reservations w"
    using uid by (intro map_idI) (auto simp: rev_image_eqI)
  then have "update_rows reservationKey (\<lambda>s. rs_id s = rs_id r) f ?t = Inr (w_reservations w @ [f r])"
    using update_one_ok [OF tab mem, of f] free by simp
  moreover have "find (\<lambda>s. rs_id s = rs_id r) ?t = Some r" using res.lookup_id [OF tab mem] .
  ultimately show ?thesis by (simp add: updateReservationRow_def findReservation_def)
qed

lemma stamps_keep [simp]:
  "rs_id (stamp_down i d n r) = rs_id r" "slot (stamp_down i d n r) = slot r" "rs_status (stamp_down i d n r) = rs_status r"
  "rs_id (stamp_synced i p n r) = rs_id r" "slot (stamp_synced i p n r) = slot r" "rs_status (stamp_synced i p n r) = rs_status r"
  "rs_id (stamp_queued i e n r) = rs_id r" "slot (stamp_queued i e n r) = slot r" "rs_status (stamp_queued i e n r) = rs_status r"
  by (simp_all add: stamp_down_def stamp_synced_def stamp_queued_def slot_def)

text \<open>What becomes of the new row when the push answers \<open>pr\<close>.\<close>

definition pushed_rows :: "subnet \<Rightarrow> int \<Rightarrow> pushResult result \<Rightarrow> reservation \<Rightarrow> reservation result \<times> reservation list" where
  "pushed_rows sub now pr r =
     (case pr of
        Inr p \<Rightarrow> (let s = stamp_synced (sn_discoveredBy sub) p now r in (Inr s, [s]))
      | Inl e \<Rightarrow> (if classifyPushError e = Transient
                  then (let s = stamp_queued (sn_discoveredBy sub) e now r in (Inr s, [s])) else (Inl e, [])))"

lemma pushCreated_run:
  assumes ok: "world_ok w" and uid: "rs_id r \<notin> rs_id ` set (w_reservations w)"
    and ins: "insert_row rs_id reservationKey r (w_reservations w) = Inr (w_reservations w @ [r])"
    and up: "\<not> firewallKnownDown dev (ig_id ig) w"
    and push: "pushReservation N D (createPushParams input sub ig dev mac) (w_device w) = (pr, d)"
  shows "\<exists>w'. pushCreated N D input sub ig dev r mac now (w\<lparr>w_reservations := w_reservations w @ [r]\<rparr>) = (fst (pushed_rows sub now pr r), w') \<and>
    w_reservations w' = w_reservations w @ snd (pushed_rows sub now pr r) \<and> w_device w' = d \<and> w_subnets w' = w_subnets w"
proof -
  let ?w1 = "w\<lparr>w_reservations := w_reservations w @ [r]\<rparr>"
  have up': "\<not> firewallKnownDown dev (ig_id ig) ?w1"
    using up by (simp add: firewallKnownDown_def findFirewall_def)
  have dev: "deviceIO (pushReservation N D (createPushParams input sub ig dev mac)) ?w1 =
      (pr, w\<lparr>w_device := d, w_reservations := w_reservations w @ [r]\<rparr>)"
    using push by (simp add: deviceIO_def)
  have del: "filter (\<lambda>s. \<not> rs_id s = rs_id r) (w_reservations w @ [r]) = w_reservations w"
    using res.insert_delete [OF ins] by (simp add: delete_rows_def)
  note stamp = stamp_run [OF ok uid ins, of _ "w\<lparr>w_device := d\<rparr>"]
  show ?thesis
  proof (cases pr)
    case (Inr p)
    then show ?thesis
      using up' dev stamp [of "stamp_synced (sn_discoveredBy sub) p now"]
      by (simp add: pushCreated_def catchIO_def bindIO_def pushed_rows_def Let_def logEvent_def)
  next
    case (Inl e)
    then show ?thesis
      using up' dev stamp [of "stamp_queued (sn_discoveredBy sub) e now"] del
      by (auto simp add: pushCreated_def catchIO_def bindIO_def pushed_rows_def Let_def logEvent_def deleteReservations_def delete_rows_def)
  qed
qed

lemma pushCreated_down:
  assumes ok: "world_ok w" and uid: "rs_id r \<notin> rs_id ` set (w_reservations w)"
    and ins: "insert_row rs_id reservationKey r (w_reservations w) = Inr (w_reservations w @ [r])" and down: "firewallKnownDown dev (ig_id ig) w"
  shows "\<exists>w'. pushCreated N D input sub ig dev r mac now (w\<lparr>w_reservations := w_reservations w @ [r]\<rparr>) = (Inr (stamp_down (sn_discoveredBy sub) dev now r), w') \<and>
    w_reservations w' = w_reservations w @ [stamp_down (sn_discoveredBy sub) dev now r] \<and> w_device w' = w_device w"
proof -
  have "firewallKnownDown dev (ig_id ig) (w\<lparr>w_reservations := w_reservations w @ [r]\<rparr>)"
    using down by (simp add: firewallKnownDown_def findFirewall_def)
  then show ?thesis using stamp_run [OF ok uid ins, of "stamp_down (sn_discoveredBy sub) dev now" w]
    by (simp add: pushCreated_def bindIO_def logEvent_def)
qed

text \<open>A creation on a pushing subnet, up to the push.\<close>

lemma createReservation_inserted:
  assumes ok: "world_ok w" and sub: "findSubnet (cr_subnetId input) w = Some sub" and ct: "check_target N input sub w = Inr ()"
    and push: "resolvePushEligibility sub (subnetIntegration sub w) (cr_ipAddress input) = Some (ig, dev)"
    and cp: "check_push input sub (Some (ig, dev)) = Inr ()"
    and free: "free_slot (cr_subnetId input) (cr_ipAddress input) w" and uid: "uid \<notin> rs_id ` set (w_reservations w)"
  shows "createReservation N D input uid now w = pushCreated N D input sub ig dev (reservationData input uid now)
      (normalizeMac (the (cr_macAddress input))) now (w\<lparr>w_reservations := w_reservations w @ [reservationData input uid now]\<rparr>)"
    and "insert_row rs_id reservationKey (reservationData input uid now) (w_reservations w) = Inr (w_reservations w @ [reservationData input uid now])"
proof -
  let ?r = "reservationData input uid now" and ?mac = "normalizeMac (the (cr_macAddress input))"
  have ip: "truthy (cr_ipAddress input)" using push by (auto simp: resolvePushEligibility_def split: if_splits)
  then obtain a where a: "cr_ipAddress input = Some a" by (auto simp: truthy_def)
  have mac: "truthy (cr_macAddress input)" using cp by (auto simp: check_push_def split: if_splits)
  then have row: "rs_macAddress ?r = Some ?mac" "?mac \<noteq> []"
    using normalizeMac_nonempty [of "the (cr_macAddress input)"] by (auto simp: reservationData_def truthy_def)
  show "createReservation N D input uid now w = pushCreated N D input sub ig dev ?r ?mac now (w\<lparr>w_reservations := w_reservations w @ [?r]\<rparr>)"
    using sub ct push cp row insertReservation_run [OF ok ip free uid, of now] by (simp add: createReservation_def bindIO_def)
  show "insert_row rs_id reservationKey ?r (w_reservations w) = Inr (w_reservations w @ [?r])"
    using insert_row_ok [OF ok, of "cr_subnetId input" a ?r] free uid a by simp
qed

lemma createReservation_pushed:
  assumes ok: "world_ok w" and sub: "findSubnet (cr_subnetId input) w = Some sub" and ct: "check_target N input sub w = Inr ()"
    and push: "resolvePushEligibility sub (subnetIntegration sub w) (cr_ipAddress input) = Some (ig, dev)"
    and cp: "check_push input sub (Some (ig, dev)) = Inr ()"
    and free: "free_slot (cr_subnetId input) (cr_ipAddress input) w" and uid: "uid \<notin> rs_id ` set (w_reservations w)"
    and up: "\<not> firewallKnownDown dev (ig_id ig) w"
    and pr: "pushReservation N D (createPushParams input sub ig dev (normalizeMac (the (cr_macAddress input)))) (w_device w) = (pr, d)"
  shows "\<exists>w'. createReservation N D input uid now w = (fst (pushed_rows sub now pr (reservationData input uid now)), w') \<and>
    w_reservations w' = w_reservations w @ snd (pushed_rows sub now pr (reservationData input uid now)) \<and>
    w_device w' = d \<and> w_subnets w' = w_subnets w"
  unfolding createReservation_inserted(1) [OF ok sub ct push cp free uid]
  using pushCreated_run [OF ok _ createReservation_inserted(2) [OF ok sub ct push cp free uid] up pr] uid by simp

section \<open>The lowest free address\<close>

lemma find_upto_None: "find P (map g [l .. h]) = None \<Longrightarrow> l \<le> i \<Longrightarrow> i \<le> h \<Longrightarrow> \<not> P (g i)"
  by (auto simp: find_None_iff)

lemma find_upto_Some:
  assumes "find P (map g [l .. h]) = Some y"
  obtains i where "l \<le> i" "i \<le> h" "y = g i" "P (g i)" "\<forall>j. l \<le> j \<and> j < i \<longrightarrow> \<not> P (g j)"
proof -
  obtain k where k: "k < length (map g [l .. h])" "P (map g [l .. h] ! k)" "y = map g [l .. h] ! k" "\<forall>j < k. \<not> P (map g [l .. h] ! j)"
    using assms unfolding find_Some_iff by blast
  have nth: "map g [l .. h] ! j = g (l + int j)" if "j \<le> k" for j
    using that k(1) by (simp add: nth_upto)
  have "\<not> P (g j)" if "l \<le> j" "j < l + int k" for j
  proof -
    have j: "nat (j - l) < k" "l + int (nat (j - l)) = j" using that by linarith+
    then show ?thesis using k(4) nth [of "nat (j - l)"] by (metis less_imp_le)
  qed
  then show thesis using k nth [of k] by (intro that [of "l + int k"]) auto
qed

definition host_index :: "netmask \<Rightarrow> int \<Rightarrow> bool" where
  "host_index nm i \<longleftrightarrow> 0 < i \<and> i < int (nm_size nm) - 1"

definition lowest_free :: "netmask \<Rightarrow> string list \<Rightarrow> string option \<Rightarrow> bool" where
  "lowest_free nm reserved r =
     (let ip = (\<lambda>i. intToIp (ipToInt (nm_base nm) + i)) in
      case r of
        None \<Rightarrow> \<forall>i. host_index nm i \<longrightarrow> ip i \<in> set reserved
      | Some s \<Rightarrow> \<exists>i. host_index nm i \<and> s = ip i \<and> ip i \<notin> set reserved \<and> (\<forall>j. host_index nm j \<and> j < i \<longrightarrow> ip j \<in> set reserved))"

lemma next_free_spec:
  assumes N: "netmask_spec N" and v: "detectIpVersion cidr = V4" "new_Netmask N cidr = Inr nm" "nm_bitmask nm \<le> 30"
    and page: "1 \<le> page" and before: "\<forall>i. host_index nm i \<and> i < (page - 1) * pageSize \<longrightarrow> intToIp (ipToInt (nm_base nm) + i) \<in> set reserved"
  shows "\<exists>r. next_free_loop N cidr reserved page = Inr r \<and> lowest_free nm reserved r"
  using page before
proof (induction "nat (int (nm_size nm) - page * pageSize)" arbitrary: page rule: less_induct)
  case less
  obtain a P where b: "is_block a P nm" using netmask_spec.parsed_block [OF N v(1,2)] by blast
  note d = is_blockD [OF b]
  let ?l = "(page - 1) * pageSize" and ?t = "2 ^ (32 - P) :: int"
  let ?h = "min (?l + pageSize) ?t - 1"
  let ?g = "\<lambda>i. \<lparr>address = intToIp (a + i), ip_type = enumerated_type P ?t i\<rparr>"
  let ?P = "\<lambda>x. ip_type x = IpHost \<and> address x \<notin> set reserved"
  have enum: "enumerateSubnetIps N cidr page pageSize = Inr (map ?g [?l .. ?h], ?t)"
    using netmask_spec.enumerate_v4 [OF N v b] by simp
  have nxt: "?l + pageSize = page * pageSize" by (simp add: algebra_simps)
  have tot: "int (nm_size nm) = ?t" using d(8) by simp
  have host: "enumerated_type P ?t i = IpHost \<longleftrightarrow> i \<noteq> 0 \<and> i \<noteq> ?t - 1" for i
    using v(3) d(7) by (simp add: enumerated_type_def)
  have l0: "0 \<le> ?l" using less(2) by (simp add: pageSize_def)
  have hit: "?P (?g i) \<longleftrightarrow> host_index nm i \<and> intToIp (a + i) \<notin> set reserved" if "?l \<le> i" "i < ?t" for i
    using that l0 unfolding host_index_def tot by (auto simp: host)
  have run: "next_free_loop N cidr reserved page =
      (case find ?P (map ?g [?l .. ?h]) of Some x \<Rightarrow> Inr (Some (address x))
       | None \<Rightarrow> if page * pageSize \<ge> ?t then Inr None else next_free_loop N cidr reserved (page + 1))"
    by (subst next_free_loop.simps) (simp add: enum)
  have base: "ipToInt (nm_base nm) = a" by (rule d(10))
  show ?case
  proof (cases "find ?P (map ?g [?l .. ?h])")
    case (Some y)
    obtain i where i: "?l \<le> i" "i \<le> ?h" "y = ?g i" "?P (?g i)" "\<forall>j. ?l \<le> j \<and> j < i \<longrightarrow> \<not> ?P (?g j)"
      by (rule find_upto_Some [OF Some])
    have "intToIp (a + j) \<in> set reserved" if "host_index nm j" "j < i" for j
    proof (cases "?l \<le> j")
      case True
      then show ?thesis using i(2,5) that hit [of j] by auto
    next
      case False
      then show ?thesis using less(3) that unfolding base by auto
    qed
    then show ?thesis using Some run i hit [of i] by (auto simp: lowest_free_def base)
  next
    case None
    then have all: "host_index nm j \<Longrightarrow> j < page * pageSize \<Longrightarrow> intToIp (a + j) \<in> set reserved" for j
      using find_upto_None [OF None, of j] hit [of j] less(3) unfolding base nxt
      by (cases "?l \<le> j") (auto simp: host_index_def tot)
    show ?thesis
    proof (cases "page * pageSize \<ge> ?t")
      case True
      then show ?thesis using None run all by (auto simp: lowest_free_def base host_index_def tot)
    next
      case False
      then show ?thesis
        using None run less(1) [of "page + 1"] less(2) all unfolding base by (simp add: tot pageSize_def)
    qed
  qed
qed

section \<open>Creation without a push\<close>

lemma createReservation_plain:
  assumes "world_ok w" "findSubnet (cr_subnetId input) w = Some sub" "check_target N input sub w = Inr ()"
    and "\<not> pushes (subnetIntegration sub w)" "truthy (cr_ipAddress input)"
    and "free_slot (cr_subnetId input) (cr_ipAddress input) w" "uid \<notin> rs_id ` set (w_reservations w)"
  shows "createReservation N D input uid now w =
    (Inr (reservationData input uid now), w\<lparr>w_reservations := w_reservations w @ [reservationData input uid now]\<rparr>)"
proof -
  have "resolvePushEligibility sub (subnetIntegration sub w) (cr_ipAddress input) = None"
    using assms(4) by (simp add: resolvePushEligibility_def)
  then show ?thesis
    using assms insertReservation_run [OF assms(1,5-7), of now]
    by (simp add: createReservation_def bindIO_def check_push_def)
qed

lemma check_target_free:
  assumes "sn_status sub \<noteq> SubDeprecated" "cr_ipAddress input = Some ip" "isValidIpAddress ip" "ipInCidr N ip (sn_cidr sub)"
    and "free_slot (cr_subnetId input) (Some ip) w"
  shows "check_target N input sub w = Inr ()"
proof -
  have "findActiveAuthoritativeAt (cr_subnetId input) ip w = None"
    using assms(5) by (auto simp: findActiveAuthoritativeAt_def find_None_iff free_slot_def slot_def)
  moreover have "ip \<noteq> []" using assms(3) by (auto simp: isValidIpAddress_def ipv4Regex_def ipv6Regex_def Let_def)
  ultimately show ?thesis using assms(1-4) by (simp add: check_target_def truthy_def)
qed

definition activeIps :: "string \<Rightarrow> 'd world \<Rightarrow> string list" where
  "activeIps sid w = List.map_filter (\<lambda>r. if rs_subnetId r = sid \<and> rs_status r = ResActive then or_null (rs_ipAddress r) else None)
     (w_reservations w)"

lemma activeIps_free: "ip \<noteq> [] \<Longrightarrow> ip \<notin> set (activeIps sid w) \<longleftrightarrow> free_slot sid (Some ip) w"
  by (auto simp: activeIps_def set_map_filter free_slot_def slot_def or_null_def truthy_def split: if_splits)

lemma intToIp_nonempty: "intToIp n \<noteq> []"
  by (simp add: intToIp_def)

lemma nextAvailable_run:
  assumes N: "netmask_spec N" and ok: "world_ok w" and sub: "findSubnet (cr_subnetId input) w = Some sub" "sn_status sub \<noteq> SubDeprecated"
    and v: "detectIpVersion (sn_cidr sub) = V4" "new_Netmask N (sn_cidr sub) = Inr nm" "nm_bitmask nm \<le> 30"
  shows "\<exists>r. lowest_free nm (activeIps (cr_subnetId input) w) r \<and>
    (case r of
       None \<Rightarrow> \<exists>msg. nextAvailableReservation N D input uid now w = (Inl (AppError 409 msg), w)
     | Some ip \<Rightarrow> nextAvailableReservation N D input uid now w = createReservation N D (input\<lparr>cr_ipAddress := Some ip\<rparr>) uid now w \<and>
         check_target N (input\<lparr>cr_ipAddress := Some ip\<rparr>) sub w = Inr () \<and> free_slot (cr_subnetId input) (Some ip) w)"
proof -
  let ?res = "activeIps (cr_subnetId input) w"
  obtain r where r: "next_free_loop N (sn_cidr sub) ?res 1 = Inr r" "lowest_free nm ?res r"
  proof -
    have "\<forall>i. host_index nm i \<and> i < (1 - 1) * pageSize \<longrightarrow> intToIp (ipToInt (nm_base nm) + i) \<in> set ?res"
      by (auto simp: host_index_def)
    from next_free_spec [OF N v order_refl this] that show thesis by blast
  qed
  show ?thesis
  proof (cases r)
    case None
    then show ?thesis
      using r sub v(1) by (intro exI [of _ None]) (auto simp: nextAvailableReservation_def activeIps_def)
  next
    case (Some ip)
    obtain a P where b: "is_block a P nm" using netmask_spec.parsed_block [OF N v(1,2)] by blast
    note d = is_blockD [OF b]
    obtain i where i: "host_index nm i" "ip = intToIp (a + i)" "ip \<notin> set ?res"
      using r(2) Some d(10) by (auto simp: lowest_free_def Let_def)
    then have x: "0 \<le> a + i" "a + i < 2 ^ 32" "a + i \<in> cidr_range N (sn_cidr sub)"
      using d v(2) by (auto simp: host_index_def cidr_range_def block_range_def)
    have free: "free_slot (cr_subnetId input) (Some ip) w" using i(2,3) activeIps_free [of ip] intToIp_nonempty by metis
    moreover have "check_target N (input\<lparr>cr_ipAddress := Some ip\<rparr>) sub w = Inr ()"
      using check_target_free [of sub "input\<lparr>cr_ipAddress := Some ip\<rparr>" ip N w] sub(2) i(2) free valid_intToIp
        netmask_spec.ipInCidr_iff [OF N v(1) x(1,2)] x(3) by simp
    ultimately show ?thesis
      using r sub v(1) Some by (intro exI [of _ r]) (auto simp: nextAvailableReservation_def activeIps_def)
  qed
qed

section \<open>Leftover rows\<close>

lemma releaseDns_collides:
  assumes "r \<in> set (w_reservations w)" "q \<in> set (w_reservations w)" "is_dns_row r" "slot r = (sid, Some ip)"
    and "slot q = (sid, Some ip)" "rs_status q = ResReleased" and ok: "world_ok w"
  shows "releaseDnsResolvedAt sid ip w = (Inr (), w)"
proof -
  define g where "g = (\<lambda>r. if rs_subnetId r = sid \<and> rs_ipAddress r = Some ip \<and> is_dns_row r then r\<lparr>rs_status := ResReleased\<rparr> else r)"
  have k: "reservationKey (g r) = Some (sid, ip, ResReleased)" "reservationKey (g q) = Some (sid, ip, ResReleased)"
    using assms(3-6) by (simp_all add: g_def reservationKey_def slot_def is_dns_row_def)
  have "rs_id (g p) = rs_id p" for p by (simp add: g_def)
  then have inj: "inj_on g (set (w_reservations w))" by (rule inj_on_id [OF ok])
  have "r \<noteq> q" using assms(3,6) by (auto simp: is_dns_row_def)
  then have "\<not> distinct (List.map_filter reservationKey (map g (w_reservations w)))"
    using collision_breaks [OF assms(1,2) _ inj k] by blast
  then show ?thesis
    by (simp add: releaseDnsResolvedAt_def updateManyReservations_def update_rows_def Let_def catchIO_def bindIO_def g_def)
qed

lemma createReservation_blocked:
  assumes ok: "world_ok w" and sub: "findSubnet (cr_subnetId input) w = Some sub" "check_target N input sub w = Inr ()"
    "\<not> pushes (subnetIntegration sub w)" "cr_ipAddress input = Some ip" "ip \<noteq> []"
    and rows: "r \<in> set (w_reservations w)" "q \<in> set (w_reservations w)" "is_dns_row r" "slot r = (cr_subnetId input, Some ip)"
      "slot q = (cr_subnetId input, Some ip)" "rs_status q = ResReleased"
  shows "createReservation N D input uid now w = (Inl UniqueViolation, w)"
proof -
  have push: "resolvePushEligibility sub (subnetIntegration sub w) (cr_ipAddress input) = None"
    using sub(3) by (simp add: resolvePushEligibility_def)
  have "reservationKey r = Some (cr_subnetId input, ip, ResActive)"
    using rows(3,4) by (simp add: reservationKey_def slot_def is_dns_row_def)
  then have "(cr_subnetId input, ip, ResActive) \<in> set (List.map_filter reservationKey (w_reservations w))"
    using rows(1) unfolding set_map_filter by blast
  moreover have "reservationKey (reservationData input uid now) = Some (cr_subnetId input, ip, ResActive)"
    using sub(4) by (simp add: reservationKey_def)
  ultimately have "insertReservation input uid now w = (Inl UniqueViolation, w)"
    using releaseDns_collides [OF rows ok] sub(4,5)
    by (simp add: insertReservation_def createReservationRow_def insert_row_def bindIO_def transactionIO_def truthy_def)
  then show ?thesis using sub(1,2) push by (simp add: createReservation_def bindIO_def check_push_def)
qed

section \<open>A sample world\<close>

definition lab_sub :: subnet where
  "lab_sub = sample_row\<lparr>sn_discoveredBy := Some ''ig1'', sn_fortigateDevice := Some ''FG1''\<rparr>"

definition lab :: "bool \<Rightarrow> reservation list \<Rightarrow> fosEntry list world" where
  "lab linked rs = (emptyWorld [])\<lparr>w_blocks := w_blocks sample_w1, w_subnets := [if linked then lab_sub else sample_row],
     w_integrations := [ref_integration], w_reservations := rs\<rparr>"

definition lab_input :: createReservationInput where
  "lab_input = \<lparr>cr_subnetId = ''s1'', cr_ipAddress = Some ''10.0.0.5'', cr_hostname = Some ''host'', cr_owner = None, cr_projectRef = None,
     cr_expiresAt = None, cr_notes = None, cr_createdBy = Some ''bob'', cr_macAddress = Some ''AA-BB-CC-00-11-22''\<rparr>"

definition lab_row :: "string \<Rightarrow> reservationStatus \<Rightarrow> reservation" where
  "lab_row i st = (newReservation i 0 ''s1'')\<lparr>rs_ipAddress := Some ''10.0.0.5'', rs_status := st\<rparr>"

lemma lab_row_simps [simp]:
  "rs_id (lab_row i st) = i" "slot (lab_row i st) = (''s1'', Some ''10.0.0.5'')" "rs_status (lab_row i st) = st"
  "rs_subnetId (lab_row i st) = ''s1''" "rs_ipAddress (lab_row i st) = Some ''10.0.0.5''" "rs_expiresAt (lab_row i st) = None"
  by (simp_all add: lab_row_def newReservation_def slot_def)

lemma lab_simps [simp]:
  "w_reservations (lab b rs) = rs" "w_integrations (lab b rs) = [ref_integration]" "w_device (lab b rs) = []" "w_assets (lab b rs) = []"
  "w_subnets (lab b rs) = [if b then lab_sub else sample_row]"
  by (simp_all add: lab_def emptyWorld_def)

lemma lab_sub_simps [simp]: "sn_id lab_sub = ''s1''" "sn_id sample_row = ''s1''" "sn_cidr sample_row = ''10.0.0.0/26''" "sn_cidr lab_sub = ''10.0.0.0/26''"
  "sn_discoveredBy lab_sub = Some ''ig1''" "sn_discoveredBy sample_row = None" "sn_fortigateDevice lab_sub = Some ''FG1''"
  "sn_status sample_row = SubAvailable" "sn_status lab_sub = SubAvailable"
  by (simp_all add: lab_sub_def sample_row_def)

lemma lab_ok:
  assumes "table_ok rs_id reservationKey rs" "full_ok rs" "\<forall>r \<in> set rs. rs_subnetId r = ''s1''"
  shows "world_ok (lab b rs)"
  using assms
  by (auto simp: world_ok_defs lab_def emptyWorld_def sample_w1_def table_ok_def map_filter_simps subnetKey_def blockKey_def
      lab_sub_def sample_row_def)

lemma lab_find [simp]: "findSubnet ''s1'' (lab b rs) = Some (if b then lab_sub else sample_row)"
  by (simp add: findSubnet_def)

lemma lab_integration [simp]: "subnetIntegration lab_sub (lab b rs) = Some ref_integration" "subnetIntegration sample_row (lab b rs) = None"
  by (simp_all add: subnetIntegration_def findIntegration_def ref_integration_def)

lemma lab_rows_ok: "table_ok rs_id reservationKey []" "table_ok rs_id reservationKey [lab_row ''r1'' st]" "full_ok []" "full_ok [lab_row i st]"
    "full_ok [lab_row i st, lab_row j st']" "st \<noteq> st' \<Longrightarrow> table_ok rs_id reservationKey [lab_row ''r1'' st, lab_row ''r2'' st']"
  by (simp_all add: table_ok_def map_filter_simps full_ok_def is_full_def reservationKey_def)

section \<open>Properties\<close>

text \<open>
  C1. No double booking: in every state the core can reach from an empty database, by any sequence of calls of
  the block, subnet, template, reservation, push-queue, fallback and staleness services, whatever the
  devices answer, two active reservations with the same target (one address, or the whole subnet) are the
  same reservation, and its subnet and block exist.
\<close>

theorem no_double_booking:
  assumes "(core_step N D pg)\<^sup>*\<^sup>* (emptyWorld dev) w"
    and "r \<in> set (w_reservations w)" "q \<in> set (w_reservations w)" "rs_status r = ResActive" "rs_status q = ResActive"
    and "rs_subnetId r = rs_subnetId q" "rs_ipAddress r = rs_ipAddress q"
  shows "r = q \<and> (\<exists>s \<in> set (w_subnets w). sn_id s = rs_subnetId r \<and> (\<exists>b \<in> set (w_blocks w). bl_id b = sn_blockId s))"
proof -
  have ok: "world_ok w" by (rule reachable_ok [OF assms(1)])
  have "rs_subnetId r \<in> sn_id ` set (w_subnets w)" using ok assms(2) by (simp add: world_ok_defs)
  then obtain s where "s \<in> set (w_subnets w)" "sn_id s = rs_subnetId r" by auto
  moreover from this have "\<exists>b \<in> set (w_blocks w). bl_id b = sn_blockId s" using ok by (fastforce simp: world_ok_defs)
  ultimately show ?thesis using one_active_per_slot [OF ok assms(2-5)] assms(6,7) by (auto simp: slot_def)
qed

definition booked :: "unit world" where
  "booked = sample_w2\<lparr>w_reservations := [reservationData lab_input ''r1'' 0]\<rparr>"

definition no_pg :: pg_inet where
  "no_pg = \<lparr>pg_covers = (\<lambda>_ _. Inr False), pg_masklen = (\<lambda>_. 0)\<rparr>"

lemma booking_run: "createReservation ref_netmask mute_fortinet lab_input ''r1'' 0 sample_w2 = (Inr (reservationData lab_input ''r1'' 0), booked)"
  by code_simp

lemma booked_reachable: "(core_step ref_netmask mute_fortinet pg)\<^sup>*\<^sup>* (emptyWorld ()) booked"
  using core_step.intros(1) [OF sample_run(1)] core_step.intros(4) [OF sample_run(2)] core_step.intros(14) [OF booking_run]
  by (rule converse_rtranclp_into_rtranclp [OF _ converse_rtranclp_into_rtranclp [OF _ r_into_rtranclp]])

theorem no_double_booking_witness:
  "\<exists>s \<in> set (w_subnets booked). sn_id s = ''s1'' \<and> (\<exists>b \<in> set (w_blocks booked). bl_id b = sn_blockId s)"
proof -
  let ?r = "reservationData lab_input ''r1'' 0"
  have "?r \<in> set (w_reservations booked)" by (simp add: booked_def)
  from no_double_booking [OF booked_reachable [of no_pg] this this _ _ refl refl]
  show ?thesis by (simp add: lab_input_def)
qed

text \<open>
  C6. In a well-formed database releasing an active reservation always succeeds, whatever the FortiGate or FortiManager does: the row
  becomes released with every push column cleared, no active reservation is left at its target, every other
  row survives except an older released one of the same target, and releasing a whole-subnet reservation
  makes the subnet available again.
\<close>

theorem release_always_frees:
  assumes "world_ok w" "findReservation i w = Some r" "rs_status r = ResActive"
  shows "\<exists>w'. releaseReservation D i w = (Inr (cleared r), w') \<and> cleared r \<in> set (w_reservations w') \<and>
    (\<forall>q \<in> set (w_reservations w'). slot q = slot r \<longrightarrow> rs_status q \<noteq> ResActive) \<and>
    (\<forall>q \<in> set (w_reservations w). rs_id q \<noteq> i \<and> \<not> (slot q = slot r \<and> rs_status q = ResReleased) \<longrightarrow> q \<in> set (w_reservations w')) \<and>
    (rs_ipAddress r = None \<longrightarrow> (\<forall>s \<in> set (w_subnets w'). sn_id s = rs_subnetId r \<longrightarrow> sn_status s = SubAvailable))"
proof -
  have m: "r \<in> set (w_reservations w)" "rs_id r = i" using findReservation_mem [OF assms(2)] by simp_all
  obtain w' where w': "releaseReservation D i w = (Inr (cleared r), w')" "w_reservations w' = after_release r (w_reservations w)"
      "rs_ipAddress r = None \<longrightarrow> (\<forall>s \<in> set (w_subnets w'). sn_id s = rs_subnetId r \<longrightarrow> sn_status s = SubAvailable)"
    using release_run [OF assms, of D] by (elim exE conjE) (rule that)
  have "\<forall>q \<in> set (w_reservations w'). slot q = slot r \<longrightarrow> rs_status q \<noteq> ResActive"
    using after_release_free [OF assms(1) m(1) assms(3)] unfolding w'(2) by blast
  moreover have "cleared r \<in> set (w_reservations w')" unfolding w'(2) by (rule after_release_mem(1) [OF m(1)])
  moreover have "\<forall>q \<in> set (w_reservations w). rs_id q \<noteq> i \<and> \<not> (slot q = slot r \<and> rs_status q = ResReleased) \<longrightarrow> q \<in> set (w_reservations w')"
    unfolding w'(2) using after_release_mem(2) m(2) by blast
  ultimately show ?thesis using w'(1,3) by (intro exI [of _ w'] conjI) assumption+
qed

theorem release_always_frees_witness:
  "\<exists>w'. releaseReservation ref_fortinet ''r1'' (lab True [lab_row ''r1'' ResActive, lab_row ''r2'' ResReleased]) =
     (Inr (cleared (lab_row ''r1'' ResActive)), w') \<and> cleared (lab_row ''r1'' ResActive) \<in> set (w_reservations w')"
proof -
  let ?w = "lab True [lab_row ''r1'' ResActive, lab_row ''r2'' ResReleased]"
  have "world_ok ?w" by (rule lab_ok) (simp_all add: lab_rows_ok)
  moreover have "findReservation ''r1'' ?w = Some (lab_row ''r1'' ResActive)" by (simp add: findReservation_def)
  ultimately show ?thesis using release_always_frees [of ?w "''r1''" "lab_row ''r1'' ResActive" ref_fortinet] by auto
qed

text \<open>
  A released address can be taken again at once: after releasing an active per-address reservation, creating
  one at the same address succeeds, when the subnet is live, contains the address and does not push, even
  if the address had been released before.
\<close>

theorem release_then_reserve:
  assumes "world_ok w" "findReservation i w = Some r" "rs_status r = ResActive"
    and "slot r = (cr_subnetId input, cr_ipAddress input)" "cr_ipAddress input = Some ip" "isValidIpAddress ip"
    and "findSubnet (cr_subnetId input) w = Some sub" "sn_status sub \<noteq> SubDeprecated" "ipInCidr N ip (sn_cidr sub)"
    and "\<not> pushes (subnetIntegration sub w)" "uid \<notin> rs_id ` set (w_reservations w)"
  shows "\<exists>w1 w2. releaseReservation D i w = (Inr (cleared r), w1) \<and>
    createReservation N D input uid now w1 = (Inr (reservationData input uid now), w2)"
proof -
  have m: "r \<in> set (w_reservations w)" using findReservation_mem [OF assms(2)] by simp
  have ip: "rs_ipAddress r = Some ip" "ip \<noteq> []"
    using assms(4-6) by (auto simp: slot_def isValidIpAddress_def ipv4Regex_def ipv6Regex_def Let_def)
  obtain w1 where w1: "releaseReservation D i w = (Inr (cleared r), w1)" "w_reservations w1 = after_release r (w_reservations w)"
      "w_integrations w1 = w_integrations w" "w_subnets w1 = w_subnets w"
    using release_run [OF assms(1-3), of D] ip by (auto simp: truthy_def)
  have ok: "world_ok w1" using keepsD [OF keeps_releaseReservation assms(1) w1(1)] .
  have free: "free_slot (cr_subnetId input) (Some ip) w1"
    using after_release_free [OF assms(1) m assms(3)] w1(2) assms(4,5) by (simp add: free_slot_def)
  have "findSubnet (cr_subnetId input) w1 = Some sub" "\<not> pushes (subnetIntegration sub w1)"
    using assms(7,10) unfolding findSubnet_def subnetIntegration_def findIntegration_def w1(3,4) by simp_all
  moreover have "check_target N input sub w1 = Inr ()" by (rule check_target_free [OF assms(8,5,6,9) free])
  moreover have "uid \<notin> rs_id ` set (w_reservations w1)" using assms(11) after_release_ids [of r "w_reservations w"] unfolding w1(2) by blast
  ultimately have "createReservation N D input uid now w1 = (Inr (reservationData input uid now),
      w1\<lparr>w_reservations := w_reservations w1 @ [reservationData input uid now]\<rparr>)"
    using createReservation_plain [OF ok, of input sub N uid] free assms(5) ip(2) by (simp add: truthy_def)
  then show ?thesis using w1(1) by blast
qed

lemma lab_address: "isValidIpAddress ''10.0.0.5''" "ipInCidr ref_netmask ''10.0.0.5'' ''10.0.0.0/26''"
  by code_simp+

theorem release_then_reserve_witness:
  "\<exists>w1 w2. releaseReservation ref_fortinet ''r1'' (lab False [lab_row ''r1'' ResActive, lab_row ''r2'' ResReleased]) =
      (Inr (cleared (lab_row ''r1'' ResActive)), w1) \<and>
    createReservation ref_netmask ref_fortinet lab_input ''r3'' 0 w1 = (Inr (reservationData lab_input ''r3'' 0), w2)"
proof (rule release_then_reserve)
  let ?w = "lab False [lab_row ''r1'' ResActive, lab_row ''r2'' ResReleased]"
  show "world_ok ?w" by (rule lab_ok) (simp_all add: lab_rows_ok)
  show "findReservation ''r1'' ?w = Some (lab_row ''r1'' ResActive)" by (simp add: findReservation_def)
  show "findSubnet (cr_subnetId lab_input) ?w = Some sample_row" by (simp add: lab_input_def)
  show "slot (lab_row ''r1'' ResActive) = (cr_subnetId lab_input, cr_ipAddress lab_input)" by (simp add: lab_input_def)
  show "cr_ipAddress lab_input = Some ''10.0.0.5''" by (simp add: lab_input_def)
qed (simp_all add: lab_address pushes_def)

text \<open>
  C5. Creating a reservation on a pushing subnet follows the push. In a well-formed database, for a request that passes the checks, with a fresh id and no active row at
  the target (not even a fallback row, which would be released): when the firewall is known to be down the row is stored
  as pending with no attempt and the device is not asked; else, when the push succeeds the row is stored as synced
  under the ids the device returned; when it fails transiently the row is kept, marked pending with one attempt; when it fails
  permanently no row is left and the error surfaces. In each case the other reservations are untouched and the device is in the
  state the push left it in.
\<close>

theorem create_follows_push:
  assumes "world_ok w" "findSubnet (cr_subnetId input) w = Some sub" "check_target N input sub w = Inr ()"
    and "resolvePushEligibility sub (subnetIntegration sub w) (cr_ipAddress input) = Some (ig, dev)"
    and "check_push input sub (Some (ig, dev)) = Inr ()" "free_slot (cr_subnetId input) (cr_ipAddress input) w"
    and "uid \<notin> rs_id ` set (w_reservations w)"
    and "pushReservation N D (createPushParams input sub ig dev (normalizeMac (the (cr_macAddress input)))) (w_device w) = (pr, d)"
  shows "\<exists>w'.
    if firewallKnownDown dev (ig_id ig) w
    then let row = stamp_down (sn_discoveredBy sub) dev now (reservationData input uid now) in
         createReservation N D input uid now w = (Inr row, w') \<and> w_reservations w' = w_reservations w @ [row] \<and>
         rs_pushStatus row = Some PushPending \<and> rs_pushAttempts row = 0 \<and> w_device w' = w_device w
    else w_device w' = d \<and>
    (case pr of
       Inr p \<Rightarrow>
         let row = stamp_synced (sn_discoveredBy sub) p now (reservationData input uid now) in
         createReservation N D input uid now w = (Inr row, w') \<and> w_reservations w' = w_reservations w @ [row] \<and>
         rs_pushStatus row = Some PushSynced \<and> rs_pushedScopeId row = Some (pu_scopeId p) \<and> rs_pushedEntryId row = Some (pu_entryId p)
     | Inl e \<Rightarrow>
         if classifyPushError e = Transient
         then let row = stamp_queued (sn_discoveredBy sub) e now (reservationData input uid now) in
              createReservation N D input uid now w = (Inr row, w') \<and> w_reservations w' = w_reservations w @ [row] \<and>
              rs_pushStatus row = Some PushPending \<and> rs_pushAttempts row = 1
         else createReservation N D input uid now w = (Inl e, w') \<and> w_reservations w' = w_reservations w)"
proof (cases "firewallKnownDown dev (ig_id ig) w")
  case True
  note at_push = createReservation_inserted [OF assms(1-7)]
  show ?thesis using pushCreated_down [OF assms(1) _ at_push(2) True] assms(7) True unfolding at_push(1)
    by (auto simp: Let_def stamp_down_def)
next
  case False
  then show ?thesis using createReservation_pushed [OF assms(1-7) False assms(8), of now]
    by (auto simp: pushed_rows_def Let_def stamp_synced_def stamp_queued_def split: sum.splits if_splits)
qed

lemma lab_push:
  "check_target ref_netmask lab_input lab_sub (lab True []) = Inr ()"
  "resolvePushEligibility lab_sub (Some ref_integration) (Some ''10.0.0.5'') = Some (ref_integration, ''FG1'')"
  "check_push lab_input lab_sub (Some (ref_integration, ''FG1'')) = Inr ()"
  "createPushParams lab_input lab_sub ref_integration ''FG1'' (normalizeMac ''AA-BB-CC-00-11-22'') = ref_params\<lparr>pp_mac := ''aa:bb:cc:00:11:22''\<rparr>"
  by code_simp+

lemma lab_push_result:
  "\<exists>p d. pushReservation ref_netmask ref_fortinet (ref_params\<lparr>pp_mac := ''aa:bb:cc:00:11:22''\<rparr>) [] = (Inr p, d) \<and> pu_entryId p = 1"
  by (rule exI [of _ "\<lparr>pu_scopeId = 1, pu_entryId = 1, pu_serverInterface = Some ''port1'', pu_description = ''Polaris/bob: host''\<rparr>"],
      rule exI [of _ "snd (pushReservation ref_netmask ref_fortinet (ref_params\<lparr>pp_mac := ''aa:bb:cc:00:11:22''\<rparr>) [])"]) code_simp

theorem create_follows_push_witness:
  "\<exists>row w'. createReservation ref_netmask ref_fortinet lab_input ''r1'' 0 (lab True []) = (Inr row, w') \<and>
     w_reservations w' = [row] \<and> rs_pushStatus row = Some PushSynced \<and> rs_pushedEntryId row = Some 1"
proof -
  obtain p d where p: "pushReservation ref_netmask ref_fortinet (ref_params\<lparr>pp_mac := ''aa:bb:cc:00:11:22''\<rparr>) [] = (Inr p, d)" "pu_entryId p = 1"
    using lab_push_result by blast
  have i: "cr_subnetId lab_input = ''s1''" "cr_ipAddress lab_input = Some ''10.0.0.5''" "the (cr_macAddress lab_input) = ''AA-BB-CC-00-11-22''"
    by (simp_all add: lab_input_def)
  have "world_ok (lab True [])" by (rule lab_ok) (simp_all add: lab_rows_ok)
  then show ?thesis
    using create_follows_push [of "lab True []" lab_input lab_sub ref_netmask ref_integration "''FG1''" "''r1''" ref_fortinet "Inr p" d 0] lab_push p
    by (auto simp: i free_slot_def firewallKnownDown_def findFirewall_def Let_def)
qed

text \<open>
  C25. Automatic reservation takes the lowest free host address. In a well-formed database, on an IPv4 subnet of prefix at most 30 that is not deprecated, with a fresh id:
  it fails with 409, changing nothing, exactly when every address strictly between network and broadcast address is
  held by an active reservation of the subnet; otherwise, with the least address that is not held, it stores one active reservation of
  that address and changes nothing else, if the subnet does not push; if it pushes, the call is the creation of a reservation at
  this address, which every check of the target lets pass.
\<close>

theorem next_available_lowest:
  assumes "netmask_spec N" "world_ok w" "findSubnet (cr_subnetId input) w = Some sub" "sn_status sub \<noteq> SubDeprecated"
    and "detectIpVersion (sn_cidr sub) = V4" "new_Netmask N (sn_cidr sub) = Inr nm" "nm_bitmask nm \<le> 30"
    and "uid \<notin> rs_id ` set (w_reservations w)"
  shows "\<exists>r. lowest_free nm (activeIps (cr_subnetId input) w) r \<and>
    (case r of
       None \<Rightarrow> \<exists>msg. nextAvailableReservation N D input uid now w = (Inl (AppError 409 msg), w)
     | Some ip \<Rightarrow>
         let at_ip = input\<lparr>cr_ipAddress := Some ip\<rparr>; row = reservationData at_ip uid now in
         if pushes (subnetIntegration sub w)
         then nextAvailableReservation N D input uid now w = createReservation N D at_ip uid now w \<and> check_target N at_ip sub w = Inr ()
         else nextAvailableReservation N D input uid now w = (Inr row, w\<lparr>w_reservations := w_reservations w @ [row]\<rparr>) \<and>
           rs_ipAddress row = Some ip \<and> rs_status row = ResActive)"
proof -
  obtain r where r: "lowest_free nm (activeIps (cr_subnetId input) w) r"
    "case r of
       None \<Rightarrow> \<exists>msg. nextAvailableReservation N D input uid now w = (Inl (AppError 409 msg), w)
     | Some ip \<Rightarrow> nextAvailableReservation N D input uid now w = createReservation N D (input\<lparr>cr_ipAddress := Some ip\<rparr>) uid now w \<and>
         check_target N (input\<lparr>cr_ipAddress := Some ip\<rparr>) sub w = Inr () \<and> free_slot (cr_subnetId input) (Some ip) w"
    using nextAvailable_run [OF assms(1-7), of D uid now] by blast
  show ?thesis
  proof (cases r)
    case (Some ip)
    then have "ip \<noteq> []" using r(1) intToIp_nonempty by (auto simp: lowest_free_def Let_def)
    then show ?thesis
      using r Some assms(8) createReservation_plain [OF assms(2), of "input\<lparr>cr_ipAddress := Some ip\<rparr>" sub N uid D now] assms(3)
      by (intro exI [of _ r]) (auto simp: Let_def truthy_def)
  qed (use r in auto)
qed

theorem next_available_lowest_witness:
  "\<exists>row. nextAvailableReservation ref_netmask ref_fortinet lab_input ''r2'' 0 (lab False [lab_row ''r1'' ResActive]) =
     (Inr row, lab False [lab_row ''r1'' ResActive, row]) \<and> rs_status row = ResActive"
proof -
  let ?w = "lab False [lab_row ''r1'' ResActive]"
  have "world_ok ?w" by (rule lab_ok) (simp_all add: lab_rows_ok)
  moreover have "detectIpVersion ''10.0.0.0/26'' = V4" by code_simp
  moreover have "cr_subnetId lab_input = ''s1''" by (simp add: lab_input_def)
  moreover have "?w\<lparr>w_reservations := w_reservations ?w @ [row]\<rparr> = lab False [lab_row ''r1'' ResActive, row]" for row
    by (simp add: lab_def)
  moreover have "\<exists>ip. fst (nextAvailableReservation ref_netmask ref_fortinet lab_input ''r2'' 0 ?w) =
      Inr (reservationData (lab_input\<lparr>cr_ipAddress := Some ip\<rparr>) ''r2'' 0)"
    by (rule exI [of _ "''10.0.0.1''"]) code_simp
  ultimately show ?thesis
    using next_available_lowest [OF ref.netmask_spec_axioms, of ?w lab_input sample_row
        "ref_block (10 * 2 ^ 24) 26" "''r2''" ref_fortinet 0] sample_masks(2)
    by (auto simp: Let_def pushes_def split: option.splits)
qed

text \<open>
  The expiry job expires every overdue reservation in one statement, or none: it fails with a violation of
  the uniqueness constraint, changing nothing, exactly when some overdue reservation of an address has an
  older expired row at the same address; otherwise all overdue rows become expired and their number is
  returned.
\<close>

theorem expiry_all_or_nothing:
  assumes "world_ok w"
  shows "expireStaleReservations now w =
    (if expiry_clash now w then (Inl UniqueViolation, w)
     else (Inr (length (filter (overdue now) (w_reservations w))), w\<lparr>w_reservations := map (expire_row now) (w_reservations w)\<rparr>))"
  by (rule expire_run [OF assms])

theorem expiry_all_or_nothing_witness:
  "expireStaleReservations 9 (lab False [lab_row ''r1'' ResExpired, (lab_row ''r2'' ResActive)\<lparr>rs_expiresAt := Some 5\<rparr>]) =
    (Inl UniqueViolation, lab False [lab_row ''r1'' ResExpired, (lab_row ''r2'' ResActive)\<lparr>rs_expiresAt := Some 5\<rparr>])"
proof -
  let ?q = "(lab_row ''r2'' ResActive)\<lparr>rs_expiresAt := Some 5\<rparr>"
  let ?w = "lab False [lab_row ''r1'' ResExpired, ?q]"
  have "world_ok ?w"
    by (rule lab_ok) (simp_all add: table_ok_def map_filter_simps full_ok_def is_full_def reservationKey_def)
  moreover have "expiry_clash 9 ?w" by (simp add: expiry_clash_def overdue_def slot_def)
  ultimately show ?thesis using expiry_all_or_nothing [of ?w 9] by simp
qed

text \<open>
  A leftover released row locks an address that only a fallback reservation holds: when an automatic
  fallback reservation is active at an address that also has a released row, the hand-over to an operator's
  reservation cannot release the fallback row (the failure is swallowed), and the creation then fails with a
  violation of the uniqueness constraint, although every check before it passed.
\<close>

theorem fallback_handover_fails:
  assumes "world_ok w" "findSubnet (cr_subnetId input) w = Some sub" "check_target N input sub w = Inr ()"
    and "\<not> pushes (subnetIntegration sub w)" "cr_ipAddress input = Some ip" "ip \<noteq> []"
    and "r \<in> set (w_reservations w)" "q \<in> set (w_reservations w)" "is_dns_row r" "slot r = (cr_subnetId input, Some ip)"
    and "slot q = (cr_subnetId input, Some ip)" "rs_status q = ResReleased"
  shows "createReservation N D input uid now w = (Inl UniqueViolation, w)"
  by (rule createReservation_blocked [OF assms])

theorem fallback_handover_fails_witness:
  "createReservation ref_netmask ref_fortinet lab_input ''r3'' 0
     (lab False [lab_row ''r1'' ResReleased, (lab_row ''r2'' ResActive)\<lparr>rs_sourceType := SrcDnsResolved\<rparr>]) =
   (Inl UniqueViolation, lab False [lab_row ''r1'' ResReleased, (lab_row ''r2'' ResActive)\<lparr>rs_sourceType := SrcDnsResolved\<rparr>])"
proof (rule fallback_handover_fails)
  let ?r = "(lab_row ''r2'' ResActive)\<lparr>rs_sourceType := SrcDnsResolved\<rparr>"
  let ?w = "lab False [lab_row ''r1'' ResReleased, ?r]"
  show "world_ok ?w"
    by (rule lab_ok) (simp_all add: table_ok_def map_filter_simps full_ok_def is_full_def reservationKey_def)
  show "findSubnet (cr_subnetId lab_input) ?w = Some sample_row" by (simp add: lab_input_def)
  show "check_target ref_netmask lab_input sample_row ?w = Inr ()" by code_simp
  show "cr_ipAddress lab_input = Some ''10.0.0.5''" by (simp add: lab_input_def)
  show "?r \<in> set (w_reservations ?w)" "lab_row ''r1'' ResReleased \<in> set (w_reservations ?w)" by simp_all
  show "slot ?r = (cr_subnetId lab_input, Some ''10.0.0.5'')" by (simp add: slot_def lab_input_def)
qed (simp_all add: is_dns_row_def pushes_def lab_input_def)

end
