(* ===== verification/QueueSpec.thy ===== *)
theory QueueSpec
  imports ReservationsSpec
begin

text \<open>
  The queue of pending pushes: every scan runs to its end, accounts for each pending row once, and touches
  nothing but push columns; an unmonitored gate is retried within half an hour of the last attempt.
\<close>

section \<open>Calls that return\<close>

text \<open>A call that, from a state with the invariant, returns and re-establishes it.\<close>

definition returns :: "('s \<Rightarrow> bool) \<Rightarrow> ('s, 'a) io \<Rightarrow> ('a \<Rightarrow> bool) \<Rightarrow> bool" where
  "returns I m Q \<longleftrightarrow> (\<forall>w. I w \<longrightarrow> (\<exists>a w'. m w = (Inr a, w') \<and> I w' \<and> Q a))"

lemma returnsE:
  assumes "returns I m Q" "I w"
  obtains a w' where "m w = (Inr a, w')" "I w'" "Q a"
  using assms unfolding returns_def by metis

lemma returns_return: "Q a \<Longrightarrow> returns I (returnIO a) Q"
  by (simp add: returns_def)

lemma returns_bind:
  assumes "returns I m P" "\<And>a. P a \<Longrightarrow> returns I (k a) Q"
  shows "returns I (bindIO m k) Q"
  unfolding returns_def
proof (intro allI impI)
  fix w assume "I w"
  then obtain a w1 where m: "m w = (Inr a, w1)" "I w1" "P a" by (rule returnsE [OF assms(1)])
  from assms(2) [OF m(3)] m(2) obtain b w2 where "k a w1 = (Inr b, w2)" "I w2" "Q b" by (rule returnsE)
  then show "\<exists>b w'. bindIO m k w = (Inr b, w') \<and> I w' \<and> Q b" using m(1) by (simp add: bindIO_def)
qed

lemma returns_get: "(\<And>w. I w \<Longrightarrow> returns I (k (f w)) Q) \<Longrightarrow> returns I (bindIO (getIO f) k) Q"
  by (simp add: returns_def)

lemma returns_catch: "returns I m Q \<Longrightarrow> returns I (catchIO m h) Q"
  unfolding returns_def catchIO_def by fastforce

lemma returns_weaken: "returns I m P \<Longrightarrow> (\<And>a. P a \<Longrightarrow> Q a) \<Longrightarrow> returns I m Q"
  unfolding returns_def by blast

lemma returns_device:
  fixes m :: "('d, 'a) io" and I :: "'d world \<Rightarrow> bool"
  assumes "\<And>a. returns I (k a) Q" "\<And>e. returns I (h e) Q" "\<And>w d. I w \<Longrightarrow> I (w\<lparr>w_device := d\<rparr>)"
  shows "returns I (catchIO (bindIO (deviceIO m) k) h) Q"
  unfolding returns_def
proof (intro allI impI)
  fix w assume I: "I w"
  obtain r d where m: "m (w_device w) = (r, d)" by (rule prod.exhaust)
  have I1: "I (w\<lparr>w_device := d\<rparr>)" by (rule assms(3) [OF I])
  show "\<exists>a w'. catchIO (bindIO (deviceIO m) k) h w = (Inr a, w') \<and> I w' \<and> Q a"
  proof (cases r)
    case (Inl e)
    obtain b w2 where "h e (w\<lparr>w_device := d\<rparr>) = (Inr b, w2)" "I w2" "Q b" by (rule returnsE [OF assms(2) I1])
    then show ?thesis using m Inl by (simp add: catchIO_def bindIO_def deviceIO_def)
  next
    case (Inr a)
    obtain b w2 where "k a (w\<lparr>w_device := d\<rparr>) = (Inr b, w2)" "I w2" "Q b" by (rule returnsE [OF assms(1) I1])
    then show ?thesis using m Inr by (simp add: catchIO_def bindIO_def deviceIO_def)
  qed
qed

section \<open>The frame of the queue\<close>

text \<open>What no retry changes: which rows there are, their targets and their status.\<close>

definition frame :: "'d world \<Rightarrow> (string \<times> (string \<times> string option) \<times> reservationStatus) list" where
  "frame w = map (\<lambda>r. (rs_id r, slot r, rs_status r)) (w_reservations w)"

definition framed :: "(string \<times> (string \<times> string option) \<times> reservationStatus) list \<Rightarrow> 'd world \<Rightarrow> bool" where
  "framed F w \<longleftrightarrow> world_ok w \<and> frame w = F"

lemma framed_calm [simp]: "framed F (w\<lparr>w_device := d\<rparr>) = framed F w" "framed F (w\<lparr>w_events := ev\<rparr>) = framed F w"
  by (simp_all add: framed_def frame_def)

lemma framed_row:
  assumes "framed F w" "(i, s, st) \<in> set F"
  obtains q where "q \<in> set (w_reservations w)" "rs_id q = i" "slot q = s" "rs_status q = st" "findReservation i w = Some q"
proof -
  obtain q where q: "q \<in> set (w_reservations w)" "rs_id q = i" "slot q = s" "rs_status q = st"
    using assms by (auto simp: framed_def frame_def)
  show thesis using that [OF q] findReservation_row [of w q] q assms(1) by (simp add: framed_def)
qed

definition push_only :: "(reservation \<Rightarrow> reservation) \<Rightarrow> bool" where
  "push_only f \<longleftrightarrow> (\<forall>r. rs_id (f r) = rs_id r \<and> slot (f r) = slot r \<and> rs_status (f r) = rs_status r)"

lemma push_only_simps [simp]:
  "push_only clear_queue" "push_only (stamp_synced i p n)"
  "push_only (\<lambda>q. q\<lparr>rs_pushAttempts := Suc (rs_pushAttempts q), rs_pushLastAttemptAt := t\<rparr>)"
  "push_only (\<lambda>q. q\<lparr>rs_pushError := e\<rparr>)" "push_only (\<lambda>q. q\<lparr>rs_pushStatus := s, rs_pushError := e\<rparr>)"
  "push_only (\<lambda>q. q\<lparr>rs_pushStatus := s, rs_pushQueuedAt := t, rs_pushError := e\<rparr>)"
  by (simp_all add: push_only_def clear_queue_def slot_def stamp_synced_def)

lemma returns_update:
  assumes "push_only f" "(i, s, st) \<in> set F"
  shows "returns (framed F) (updateReservationRow i f) (\<lambda>_. True)"
  unfolding returns_def
proof (intro allI impI)
  fix w :: "'a world" assume w: "framed F w"
  obtain q where q: "findReservation i w = Some q" by (rule framed_row [OF w assms(2)])
  have f: "rs_id (f r) = rs_id r" "slot (f r) = slot r" "rs_status (f r) = rs_status r" for r
    using assms(1) by (simp_all add: push_only_def)
  then have key: "reservationKey (f r) = reservationKey r" for r by (simp add: reservationKey_def slot_def)
  have tab: "table_ok rs_id reservationKey (w_reservations w)" using w by (simp add: framed_def world_ok_defs)
  obtain rs where rs: "update_rows reservationKey (\<lambda>r. rs_id r = i) f (w_reservations w) = Inr rs"
    using res.upd_ok [OF tab, of f "\<lambda>r. rs_id r = i"] key by blast
  have "calm f" using f by (simp add: calm_def slot_def)
  then have "world_ok (w\<lparr>w_reservations := rs\<rparr>)" using table_upd_calm [OF _ _ rs] w by (simp add: framed_def)
  moreover have "frame (w\<lparr>w_reservations := rs\<rparr>) = frame w"
    unfolding res.upd_map [OF rs] frame_def using f by simp
  ultimately show "\<exists>a w'. updateReservationRow i f w = (Inr a, w') \<and> framed F w' \<and> True"
    using q rs w by (simp add: updateReservationRow_def framed_def)
qed

lemma returns_log: "returns (framed F) (logEvent e) (\<lambda>_. True)"
  by (simp add: returns_def logEvent_def)

section \<open>One attempt\<close>

lemma no_pending_collider:
  assumes "framed F w" "(rs_id r, slot r, ResActive) \<in> set F"
  shows "findCollider r w = None"
proof -
  obtain q where q: "q \<in> set (w_reservations w)" "rs_id q = rs_id r" "slot q = slot r" "rs_status q = ResActive"
    by (rule framed_row [OF assms])
  have "p = q" if "p \<in> set (w_reservations w)" "slot p = slot r" "rs_status p = ResActive" for p
    using one_active_per_slot [of w p q] that q assms(1) by (simp add: framed_def)
  then show ?thesis using q(2) by (auto simp: findCollider_def find_None_iff slot_def)
qed

lemma attempt_returns:
  assumes r: "(rs_id r, slot r, ResActive) \<in> set F"
  shows "returns (framed F) (attemptQueuedPush N D r sub ig bypass actor now) (\<lambda>oc. oc \<noteq> Superseded)"
proof -
  note upd = returns_update [OF _ r]
  have cancel: "returns (framed F) (cancelQueued r actor) (\<lambda>oc. oc \<noteq> Superseded)"
    unfolding cancelQueued_def
    by (intro returns_bind [OF returns_catch] returns_bind [OF upd] returns_bind [OF returns_log] returns_return) simp_all
  have push: "returns (framed F) (attemptPush N D r sub g actor now) (\<lambda>oc. oc \<noteq> Superseded)" for g
    unfolding attemptPush_def
    by (intro returns_bind [OF upd] returns_device)
       (auto intro!: returns_bind [OF upd] returns_bind [OF returns_log] returns_return)
  show ?thesis
  proof (cases "cancelReason r sub ig = None")
    case True
    have gate: "(if bypass then None else readiness r sub (the ig) now w) \<noteq> Some Superseded" for w
      by (auto simp: readiness_def Let_def split: option.splits if_splits)
    have "returns (framed F) (case g of Some oc \<Rightarrow> returnIO oc | None \<Rightarrow> attemptPush N D r sub (the ig) actor now) (\<lambda>oc. oc \<noteq> Superseded)"
      if "g \<noteq> Some Superseded" for g
      using that push by (cases g) (auto intro: returns_return)
    then have inner: "returns (framed F) (bindIO (getIO (\<lambda>w. if bypass then None else readiness r sub (the ig) now w))
        (\<lambda>g. case g of Some oc \<Rightarrow> returnIO oc | None \<Rightarrow> attemptPush N D r sub (the ig) actor now)) (\<lambda>oc. oc \<noteq> Superseded)"
      by (rule returns_get) (rule gate)
    have "returns (framed F) (bindIO (getIO (findCollider r)) (\<lambda>c. case c of Some c \<Rightarrow> X c | None \<Rightarrow> bindIO (getIO (\<lambda>w. if bypass then None else readiness r sub (the ig) now w))
        (\<lambda>g. case g of Some oc \<Rightarrow> returnIO oc | None \<Rightarrow> attemptPush N D r sub (the ig) actor now))) (\<lambda>oc. oc \<noteq> Superseded)" for X
      by (rule returns_get) (simp only: no_pending_collider [OF _ r] option.case inner)
    then show ?thesis unfolding attemptQueuedPush_def by (simp only: True simp_thms if_False)
  next
    case False
    then show ?thesis using cancel by (simp add: attemptQueuedPush_def)
  qed
qed

section \<open>The scan\<close>

definition balanced :: "retryCounts \<Rightarrow> bool" where
  "balanced c \<longleftrightarrow> rc_attempted c = rc_succeeded c + rc_transient c + rc_permanent c + rc_cancelled c + rc_superseded c +
     rc_skippedMonitoredDown c + rc_skippedBackoff c"

lemma count_outcome_simps:
  "rc_attempted (count_outcome oc c) = rc_attempted c + 1" "balanced c \<Longrightarrow> balanced (count_outcome oc c)"
  "oc \<noteq> Superseded \<Longrightarrow> rc_superseded (count_outcome oc c) = rc_superseded c"
  by (simp_all add: count_outcome_def balanced_def Let_def split: retryOutcome.splits)

lemma retry_rows_returns:
  assumes "\<forall>(r, s, g) \<in> set rows. (rs_id r, slot r, ResActive) \<in> set F" "balanced c"
  shows "returns (framed F) (retry_rows N D now rows c)
    (\<lambda>c'. balanced c' \<and> rc_attempted c' = rc_attempted c + length rows \<and> rc_superseded c' = rc_superseded c)"
  using assms
proof (induction N D now rows c rule: retry_rows.induct)
  case (1 N D now c)
  then show ?case unfolding retry_rows.simps by (intro returns_return) simp
next
  case (2 N D now r sub ig rows c)
  have step: "returns (framed F) (retry_rows N D now rows (count_outcome oc c))
      (\<lambda>c'. balanced c' \<and> rc_attempted c' = rc_attempted c + length ((r, sub, ig) # rows) \<and> rc_superseded c' = rc_superseded c)"
    if "oc \<noteq> Superseded" for oc
    by (rule returns_weaken [OF 2(1)]) (use 2(2,3) that in \<open>simp_all add: count_outcome_simps\<close>)
  have "(rs_id r, slot r, ResActive) \<in> set F" using 2(2) by simp
  then show ?case unfolding retry_rows.simps by (rule returns_bind [OF attempt_returns step])
qed

lemma length_nulls_last: "length (nulls_last key rows) = length rows"
  using sum_length_filter_compl [of "\<lambda>r. key r \<noteq> None" rows] by (simp add: nulls_last_def)

lemma set_nulls_last [simp]: "set (nulls_last key rows) = set rows"
  by (auto simp: nulls_last_def)

lemma length_map_filter_all: "(\<And>x. x \<in> set xs \<Longrightarrow> f x \<noteq> None) \<Longrightarrow> length (List.map_filter f xs) = length xs"
  by (simp add: map_filter_def filter_id_conv)

lemma pending_rows:
  assumes "world_ok w"
  shows "length (pendingRows w) = length (filter is_pending (w_reservations w))"
    "\<forall>(r, s, g) \<in> set (pendingRows w). (rs_id r, slot r, ResActive) \<in> set (frame w)"
proof -
  let ?p = "nulls_last rs_pushQueuedAt (filter is_pending (w_reservations w))"
  have "queuedRow w r \<noteq> None" if "r \<in> set ?p" for r
    using that subnet_row [OF assms, of r] by (auto simp: queuedRow_def)
  then show "length (pendingRows w) = length (filter is_pending (w_reservations w))"
    unfolding pendingRows_def by (subst length_map_filter_all) (auto simp: length_nulls_last)
  have "(rs_id r, slot r, ResActive) \<in> set (frame w)" if "(r, s, g) \<in> set (pendingRows w)" for r s g
  proof -
    have "r \<in> set (w_reservations w)" "rs_status r = ResActive"
      using that by (auto simp: pendingRows_def set_map_filter queuedRow_def is_pending_def)
    then show ?thesis by (force simp: frame_def)
  qed
  then show "\<forall>(r, s, g) \<in> set (pendingRows w). (rs_id r, slot r, ResActive) \<in> set (frame w)" by blast
qed

lemma scan_run:
  assumes "world_ok w"
  shows "\<exists>c w'. retryPendingReservations N D now w = (Inr c, w') \<and> frame w' = frame w \<and> balanced c \<and>
    rc_attempted c = length (filter is_pending (w_reservations w)) \<and> rc_superseded c = 0"
proof -
  have z: "balanced zeroCounts" "rc_attempted zeroCounts = 0" "rc_superseded zeroCounts = 0"
    by (simp_all add: balanced_def zeroCounts_def)
  have w: "framed (frame w) w" using assms by (simp add: framed_def)
  obtain c w' where "retry_rows N D now (pendingRows w) zeroCounts w = (Inr c, w')" "framed (frame w) w'"
      "balanced c \<and> rc_attempted c = rc_attempted zeroCounts + length (pendingRows w) \<and> rc_superseded c = rc_superseded zeroCounts"
    by (rule returnsE [OF retry_rows_returns [OF pending_rows(2) [OF assms] z(1)] w])
  then show ?thesis
    using z pending_rows(1) [OF assms] by (auto simp: retryPendingReservations_def framed_def)
qed

section \<open>Properties\<close>

text \<open>
  C29. A scan of the push queue always runs to its end, whatever the devices answer: it attempts each pending
  reservation once, every attempt is counted under exactly one outcome, and no reservation appears,
  disappears, moves or changes status. The outcome \<open>superseded\<close> never occurs: the uniqueness constraint
  excludes the collider that branch looks for.
\<close>

theorem scan_completes:
  assumes "world_ok w"
  shows "\<exists>c w'. retryPendingReservations N D now w = (Inr c, w') \<and>
    map (\<lambda>r. (rs_id r, slot r, rs_status r)) (w_reservations w') = map (\<lambda>r. (rs_id r, slot r, rs_status r)) (w_reservations w) \<and>
    rc_attempted c = length (filter is_pending (w_reservations w)) \<and> rc_superseded c = 0 \<and>
    rc_attempted c = rc_succeeded c + rc_transient c + rc_permanent c + rc_cancelled c + rc_skippedMonitoredDown c + rc_skippedBackoff c"
proof -
  obtain c w' where "retryPendingReservations N D now w = (Inr c, w')" "frame w' = frame w" "balanced c"
      "rc_attempted c = length (filter is_pending (w_reservations w))" "rc_superseded c = 0"
    using scan_run [OF assms, of N D now] by (elim exE conjE) (rule that)
  then show ?thesis unfolding frame_def balanced_def by simp
qed

theorem scan_completes_witness:
  "\<exists>c w'. retryPendingReservations ref_netmask ref_fortinet 0 (lab True [(lab_row ''r1'' ResActive)\<lparr>rs_pushStatus := Some PushPending\<rparr>]) = (Inr c, w') \<and>
     rc_attempted c = 1 \<and> rc_superseded c = 0"
proof -
  let ?r = "(lab_row ''r1'' ResActive)\<lparr>rs_pushStatus := Some PushPending\<rparr>"
  have "world_ok (lab True [?r])"
    by (rule lab_ok) (simp_all add: table_ok_def map_filter_simps full_ok_def is_full_def reservationKey_def)
  moreover have "length (filter is_pending (w_reservations (lab True [?r]))) = 1" by (simp add: is_pending_def)
  ultimately show ?thesis
    using scan_completes [of "lab True [?r]" ref_netmask ref_fortinet 0] by metis
qed

text \<open>
  C39. No queued push starves behind the back-off: the wait of an unmonitored gate is between 30 seconds and 30
  minutes and never shrinks as attempts fail, and once 30 minutes have passed since the last attempt the
  scan no longer skips the row, whatever its number of attempts.
\<close>

theorem backoff_no_starvation:
  assumes "case findFirewall (the (sn_fortigateDevice sub)) (ig_id ig) w of None \<Rightarrow> True | Some a \<Rightarrow> \<not> as_monitored a"
    and "rs_pushLastAttemptAt r = Some t" "t + 30 * 60 * 1000 \<le> now"
  shows "readiness r sub ig now w = None \<and>
    30 \<le> backoffSecondsFor n \<and> backoffSecondsFor n \<le> 1800 \<and> backoffSecondsFor n \<le> backoffSecondsFor (n + 1)"
proof -
  have cap: "backoffSecondsFor k \<le> 1800" for k by (simp add: backoffSecondsFor_def)
  have "30 \<le> backoffSecondsFor n"
  proof (cases n)
    case (Suc m)
    have "(1 :: nat) \<le> 2 ^ m" by simp
    then show ?thesis unfolding Suc backoffSecondsFor_def by simp
  qed (simp add: backoffSecondsFor_def)
  moreover have "backoffSecondsFor n \<le> backoffSecondsFor (n + 1)"
  proof (cases n)
    case (Suc m)
    have "(2 :: nat) ^ m \<le> 2 ^ Suc m" by simp
    then show ?thesis unfolding Suc backoffSecondsFor_def by (simp add: min_def)
  qed (simp add: backoffSecondsFor_def)
  moreover have "\<not> now - t < int (backoffSecondsFor (rs_pushAttempts r)) * 1000"
    using cap [of "rs_pushAttempts r"] assms(3) by linarith
  ultimately show ?thesis
    using assms(1,2) cap [of n] by (auto simp: readiness_def Let_def split: option.splits)
qed

theorem backoff_no_starvation_witness:
  "readiness ((lab_row ''r1'' ResActive)\<lparr>rs_pushLastAttemptAt := Some 0, rs_pushAttempts := 40\<rparr>) lab_sub ref_integration 1800000 (lab True []) = None"
  using backoff_no_starvation [of lab_sub ref_integration "lab True []" "(lab_row ''r1'' ResActive)\<lparr>rs_pushLastAttemptAt := Some 0, rs_pushAttempts := 40\<rparr>" 0 1800000 0]
  by (simp add: findFirewall_def)

end
