(* ===== verification/StaleSpec.thy ===== *)
theory StaleSpec
  imports QueueSpec "HOL-Library.Multiset"
begin

text \<open>
  Stale alerts: one run of the job announces every stale reservation not announced before, exactly once; a
  snoozed reservation stays off the list until the snooze ends.
\<close>

section \<open>What the job does to the rows\<close>

definition notified :: "int \<Rightarrow> string set \<Rightarrow> reservation \<Rightarrow> reservation" where
  "notified now ids r = (if rs_id r \<in> ids then r\<lparr>rs_staleNotifiedAt := Some now\<rparr> else r)"

lemma notified_simps [simp]:
  "rs_id (notified now ids r) = rs_id r" "slot (notified now ids r) = slot r" "rs_status (notified now ids r) = rs_status r"
  "rs_sourceType (notified now ids r) = rs_sourceType r" "rs_staleIgnored (notified now ids r) = rs_staleIgnored r"
  "rs_subnetId (notified now ids r) = rs_subnetId r" "rs_createdAt (notified now ids r) = rs_createdAt r"
  "rs_lastSeenLeased (notified now ids r) = rs_lastSeenLeased r" "is_stale d s t (notified now ids r) = is_stale d s t r"
  "lastSignal s (notified now ids r) = lastSignal s r" "notified now {} r = r"
  by (simp_all add: notified_def slot_def is_stale_def lastSignal_def split: option.splits)

lemma update_notified:
  assumes "world_ok w" "findReservation i w = Some r"
  shows "updateReservationRow i (\<lambda>r. r\<lparr>rs_staleNotifiedAt := Some now\<rparr>) w =
    (Inr (r\<lparr>rs_staleNotifiedAt := Some now\<rparr>), w\<lparr>w_reservations := map (notified now {i}) (w_reservations w)\<rparr>)"
proof -
  let ?f = "\<lambda>r. r\<lparr>rs_staleNotifiedAt := Some now\<rparr>"
  have tab: "table_ok rs_id reservationKey (w_reservations w)" using assms(1) by (simp add: world_ok_defs)
  obtain rs where rs: "update_rows reservationKey (\<lambda>r. rs_id r = i) ?f (w_reservations w) = Inr rs"
    using res.upd_ok [OF tab, of ?f "\<lambda>r. rs_id r = i"] by (auto simp: reservationKey_def)
  have "rs = map (notified now {i}) (w_reservations w)"
    using res.upd_map [OF rs] by (simp add: notified_def)
  then show ?thesis using assms(2) rs by (simp add: updateReservationRow_def)
qed

lemma notified_insert: "map (notified now A) (map (notified now {i}) rs) = map (notified now (insert i A)) rs"
  by (simp add: notified_def)

definition fresh_alerts :: "reservationAlertEntry list \<Rightarrow> reservationAlertEntry list" where
  "fresh_alerts rows = filter (\<lambda>e. ra_staleNotifiedAt e = None) rows"

lemma flag_rows_run:
  assumes "world_ok w" "\<forall>e \<in> set rows. ra_id e \<in> rs_id ` set (w_reservations w)"
  shows "\<exists>w'. flag_rows now rows n w = (Inr (n + length (fresh_alerts rows)), w') \<and> world_ok w' \<and>
    w_reservations w' = map (notified now (ra_id ` set (fresh_alerts rows))) (w_reservations w) \<and>
    w_subnets w' = w_subnets w \<and> w_staleAfterDays w' = w_staleAfterDays w \<and> w_detectionStartedAt w' = w_detectionStartedAt w"
  using assms
proof (induction rows arbitrary: n w)
  case Nil
  then show ?case by (simp add: fresh_alerts_def map_idI)
next
  case (Cons e rows)
  show ?case
  proof (cases "ra_staleNotifiedAt e = None")
    case False
    then obtain y where "ra_staleNotifiedAt e = Some y" by auto
    then show ?thesis using Cons.IH [OF Cons.prems(1), of n] Cons.prems(2) by (simp add: fresh_alerts_def)
  next
    case True
    let ?ev = "resEvent ''reservation.stale'' ''warning'' (Some (ra_id e)) (Some (or_str (ra_hostname e) (keep (ra_ipAddress e) ''(no IP)''))) None"
    let ?w1 = "w\<lparr>w_events := w_events w @ [?ev]\<rparr>"
    let ?w2 = "?w1\<lparr>w_reservations := map (notified now {ra_id e}) (w_reservations w)\<rparr>"
    obtain r where r: "r \<in> set (w_reservations w)" "rs_id r = ra_id e" using Cons.prems(2) by auto
    have ok1: "world_ok ?w1" using Cons.prems(1) by simp
    have fnd: "findReservation (ra_id e) ?w1 = Some r" using findReservation_row [OF ok1, of r] r by simp
    note up = update_notified [OF ok1 fnd, of now]
    have ok2: "world_ok ?w2"
      using keepsD [OF keeps_updateRow [OF calm_fields(10)] ok1 up] by simp
    have mem: "\<forall>e \<in> set rows. ra_id e \<in> rs_id ` set (w_reservations ?w2)" using Cons.prems(2) by (simp add: image_image)
    have "flag_rows now (e # rows) n w = flag_rows now rows (n + 1) ?w2"
      using True up by (simp add: bindIO_def logEvent_def)
    moreover obtain w' where "flag_rows now rows (n + 1) ?w2 = (Inr (n + 1 + length (fresh_alerts rows)), w')" "world_ok w'"
      and rows: "w_reservations w' = map (notified now (ra_id ` set (fresh_alerts rows))) (w_reservations ?w2)"
      and "w_subnets w' = w_subnets ?w2" "w_staleAfterDays w' = w_staleAfterDays ?w2"
        "w_detectionStartedAt w' = w_detectionStartedAt ?w2"
      using Cons.IH [OF ok2 mem, of "n + 1"] by (elim exE conjE) (rule that)
    moreover have "w_reservations w' = map (notified now (insert (ra_id e) (ra_id ` set (fresh_alerts rows)))) (w_reservations w)"
      using rows notified_insert [of now "ra_id ` set (fresh_alerts rows)" "ra_id e" "w_reservations w"] by simp
    moreover have "fresh_alerts (e # rows) = e # fresh_alerts rows" using True by (simp add: fresh_alerts_def)
    ultimately show ?thesis by (intro exI [of _ w']) simp
  qed
qed

section \<open>The alert list\<close>

definition detectionStart :: "int \<Rightarrow> 'd world \<Rightarrow> int" where
  "detectionStart now w = (case w_detectionStartedAt w of Some (Some t) \<Rightarrow> t | _ \<Rightarrow> now)"

definition watched :: "reservation \<Rightarrow> bool" where
  "watched r \<longleftrightarrow> rs_status r = ResActive \<and> rs_sourceType r = SrcDhcpReservation \<and> \<not> rs_staleIgnored r"

definition stale_list :: "int \<Rightarrow> int \<Rightarrow> int \<Rightarrow> 'd world \<Rightarrow> reservationAlertEntry list" where
  "stale_list days started now w =
     List.map_filter (\<lambda>r. if is_stale days started now r then alertEntry w now r (lastSignal started r) else None) (dhcpRows False w)"

lemma mset_bySignal: "mset (bySignal rs) = mset rs"
proof -
  have "mset (filter (\<lambda>r. key r \<noteq> None) xs) + mset (filter (\<lambda>r. key r = None) xs) = mset xs" for key :: "reservation \<Rightarrow> int option" and xs
    by (induction xs) auto
  then show ?thesis by (simp add: bySignal_def nulls_last_def)
qed

lemma dhcpRows_mset: "mset (dhcpRows False w) = mset (filter watched (w_reservations w))"
  by (simp add: dhcpRows_def mset_bySignal watched_def [abs_def])

lemma set_dhcpRows: "set (dhcpRows False w) = {r \<in> set (w_reservations w). watched r}"
  using arg_cong [OF dhcpRows_mset, of set_mset w] by simp

lemma alertEntry_Some: "world_ok w \<Longrightarrow> r \<in> set (w_reservations w) \<Longrightarrow>
  \<exists>e. alertEntry w now r x = Some e \<and> ra_id e = rs_id r \<and> ra_staleNotifiedAt e = rs_staleNotifiedAt r"
  using subnet_row [of w r] by (auto simp: alertEntry_def)

lemma stale_list_mem:
  assumes "world_ok w" "e \<in> set (stale_list days started now w)"
  shows "\<exists>r \<in> set (w_reservations w). watched r \<and> is_stale days started now r \<and> ra_id e = rs_id r \<and> ra_staleNotifiedAt e = rs_staleNotifiedAt r"
proof -
  obtain r where r: "r \<in> set (w_reservations w)" "watched r" "is_stale days started now r" "alertEntry w now r (lastSignal started r) = Some e"
    using assms(2) by (auto simp: stale_list_def set_map_filter set_dhcpRows split: if_splits)
  then show ?thesis using alertEntry_Some [OF assms(1) r(1), of now "lastSignal started r"] by auto
qed

lemma stale_list_has:
  assumes "world_ok w" "r \<in> set (w_reservations w)" "watched r" "is_stale days started now r"
  shows "\<exists>e \<in> set (stale_list days started now w). ra_id e = rs_id r \<and> ra_staleNotifiedAt e = rs_staleNotifiedAt r"
proof -
  obtain e where e: "alertEntry w now r (lastSignal started r) = Some e" "ra_id e = rs_id r" "ra_staleNotifiedAt e = rs_staleNotifiedAt r"
    using alertEntry_Some [OF assms(1,2)] by blast
  have "e \<in> set (stale_list days started now w)"
    unfolding stale_list_def set_map_filter by (rule bexI [of _ r]) (use assms e(1) in \<open>simp_all add: set_dhcpRows\<close>)
  then show ?thesis using e by blast
qed

lemma length_map_filter: "length (List.map_filter f xs) = length (filter (\<lambda>x. f x \<noteq> None) xs)"
  by (simp add: map_filter_def comp_def)

definition unannounced :: "int \<Rightarrow> int \<Rightarrow> int \<Rightarrow> reservation \<Rightarrow> bool" where
  "unannounced days started now r \<longleftrightarrow> watched r \<and> is_stale days started now r \<and> rs_staleNotifiedAt r = None"

lemma fresh_count:
  assumes "world_ok w"
  shows "length (fresh_alerts (stale_list days started now w)) = length (filter (unannounced days started now) (w_reservations w))"
proof -
  let ?f = "\<lambda>r. if is_stale days started now r then alertEntry w now r (lastSignal started r) else None"
  have "length (filter P (List.map_filter ?f xs)) = length (filter (\<lambda>r. is_stale days started now r \<and> rs_staleNotifiedAt r = None) xs)"
    if "set xs \<subseteq> set (w_reservations w)" "P = (\<lambda>e. ra_staleNotifiedAt e = None)" for xs P
    using that
  proof (induction xs)
    case (Cons r xs)
    then show ?case using alertEntry_Some [OF assms, of r now "lastSignal started r"] by (auto simp: map_filter_simps)
  qed (simp add: map_filter_simps)
  from this [of "dhcpRows False w"] have "length (fresh_alerts (stale_list days started now w)) =
      length (filter (\<lambda>r. is_stale days started now r \<and> rs_staleNotifiedAt r = None) (dhcpRows False w))"
    by (auto simp: fresh_alerts_def stale_list_def set_dhcpRows)
  also have "\<dots> = size (filter_mset (\<lambda>r. is_stale days started now r \<and> rs_staleNotifiedAt r = None) (mset (dhcpRows False w)))"
    by (simp flip: mset_filter)
  also have "\<dots> = length (filter (unannounced days started now) (w_reservations w))"
    unfolding dhcpRows_mset by (simp add: unannounced_def [abs_def] conj_ac flip: mset_filter)
  finally show ?thesis .
qed

section \<open>Running the job\<close>

lemma detection_run:
  "getDetectionStartedAt t w = (Inr (detectionStart t w), w\<lparr>w_detectionStartedAt := Some (Some (detectionStart t w))\<rparr>)"
  by (simp add: getDetectionStartedAt_def detectionStart_def bindIO_def split: option.splits)

lemma flag_run:
  assumes "getStaleSettings w \<noteq> 0"
  shows "flagStaleReservations now w =
    flag_rows now (stale_list (getStaleSettings w) (detectionStart now w) now w) 0 (w\<lparr>w_detectionStartedAt := Some (Some (detectionStart now w))\<rparr>)"
proof -
  let ?w = "w\<lparr>w_detectionStartedAt := Some (Some (detectionStart now w))\<rparr>"
  have "findSubnet j ?w = findSubnet j w" "findIntegration k ?w = findIntegration k w" for j k
    by (simp_all add: findSubnet_def findIntegration_def split: option.splits)
  then have "dhcpRows False ?w = dhcpRows False w" "alertEntry ?w = alertEntry w"
    by (simp_all add: dhcpRows_def alertEntry_def fun_eq_iff)
  then show ?thesis
    using assms by (simp add: detection_run flagStaleReservations_def listStaleReservations_def stale_list_def bindIO_def cong: if_cong)
qed

lemma flag_result:
  assumes "world_ok w" "getStaleSettings w \<noteq> 0"
  shows "\<exists>w'. flagStaleReservations now w =
      (Inr (length (filter (unannounced (getStaleSettings w) (detectionStart now w) now) (w_reservations w))), w') \<and> world_ok w' \<and>
    getStaleSettings w' = getStaleSettings w \<and> detectionStart now w' = detectionStart now w \<and>
    (\<forall>r \<in> set (w_reservations w'). \<not> unannounced (getStaleSettings w) (detectionStart now w) now r)"
proof -
  let ?days = "getStaleSettings w" and ?start = "detectionStart now w"
  let ?w1 = "w\<lparr>w_detectionStartedAt := Some (Some ?start)\<rparr>" and ?rows = "stale_list ?days ?start now w"
  let ?ids = "ra_id ` set (fresh_alerts ?rows)"
  have "\<forall>e \<in> set ?rows. ra_id e \<in> rs_id ` set (w_reservations ?w1)"
    using stale_list_mem [OF assms(1)] by fastforce
  then have "\<exists>w'. flag_rows now ?rows 0 ?w1 = (Inr (0 + length (fresh_alerts ?rows)), w') \<and> world_ok w' \<and>
      w_reservations w' = map (notified now ?ids) (w_reservations ?w1) \<and> w_subnets w' = w_subnets ?w1 \<and>
      w_staleAfterDays w' = w_staleAfterDays ?w1 \<and> w_detectionStartedAt w' = w_detectionStartedAt ?w1"
    using assms(1) by (intro flag_rows_run) simp_all
  then obtain w' where w': "flag_rows now ?rows 0 ?w1 = (Inr (0 + length (fresh_alerts ?rows)), w')" "world_ok w'"
      "w_reservations w' = map (notified now ?ids) (w_reservations ?w1)"
      "w_staleAfterDays w' = w_staleAfterDays ?w1" "w_detectionStartedAt w' = w_detectionStartedAt ?w1"
    by (elim exE conjE) (rule that)
  have "\<not> unannounced ?days ?start now (notified now ?ids r)" if r: "r \<in> set (w_reservations w)" for r
  proof
    assume u: "unannounced ?days ?start now (notified now ?ids r)"
    then have "rs_staleNotifiedAt r = None" by (auto simp: unannounced_def notified_def split: if_splits)
    with u have s: "watched r" "is_stale ?days ?start now r" by (simp_all add: unannounced_def watched_def)
    obtain e where "e \<in> set ?rows" "ra_id e = rs_id r" "ra_staleNotifiedAt e = None"
      using stale_list_has [OF assms(1) r s] \<open>rs_staleNotifiedAt r = None\<close> by auto
    then have "rs_id r \<in> ?ids" by (auto simp: fresh_alerts_def image_iff)
    then show False using u by (simp add: unannounced_def notified_def)
  qed
  moreover have "flagStaleReservations now w = (Inr (length (filter (unannounced ?days ?start now) (w_reservations w))), w')"
    using flag_run [OF assms(2)] w'(1) fresh_count [OF assms(1)] by simp
  ultimately show ?thesis
    using w' by (intro exI [of _ w']) (simp add: getStaleSettings_def detectionStart_def)
qed

lemma snooze_run:
  assumes "snoozeReservation i now w = (Inr (j, until, days), w')"
  shows "\<exists>x. until = now + getStaleSettings w * dayMs \<and>
    updateReservationRow i (\<lambda>r. r\<lparr>rs_staleSnoozedUntil := Some until, rs_staleNotifiedAt := None\<rparr>) w = (Inr x, w')"
proof -
  let ?up = "updateReservationRow i (\<lambda>r. r\<lparr>rs_staleSnoozedUntil := Some (now + getStaleSettings w * dayMs), rs_staleNotifiedAt := None\<rparr>) w"
  obtain y v where up: "?up = (y, v)" by (cases ?up)
  then have "\<exists>x. y = Inr x \<and> v = w' \<and> until = now + getStaleSettings w * dayMs"
    using assms by (cases "staleGuard ''snooze'' i w"; cases y) (auto simp: snoozeReservation_def bindIO_def split: if_splits)
  then show ?thesis using up by auto
qed

lemma listStale_run:
  "\<exists>rows w'. listStaleReservations ActiveMode t w = (Inr rows, w') \<and>
     (rows = [] \<or> (\<exists>s. rows = stale_list (getStaleSettings w) s t (w\<lparr>w_detectionStartedAt := Some (Some s)\<rparr>)))"
  by (cases "getStaleSettings w = 0")
    (auto simp: listStaleReservations_def stale_list_def bindIO_def detection_run)

section \<open>Properties\<close>

text \<open>
  One alert per stale reservation: a run of the staleness job announces exactly the DHCP reservations that are
  active, not ignored, not snoozed, silent beyond the threshold and not announced before, and returns their
  number; a second run at the same time announces nothing.
\<close>

theorem stale_alert_once:
  assumes "world_ok w" "getStaleSettings w \<noteq> 0"
  shows "\<exists>w1 w2. flagStaleReservations now w =
      (Inr (length (filter (unannounced (getStaleSettings w) (detectionStart now w) now) (w_reservations w))), w1) \<and>
    flagStaleReservations now w1 = (Inr 0, w2)"
proof -
  obtain w1 where w1: "flagStaleReservations now w =
      (Inr (length (filter (unannounced (getStaleSettings w) (detectionStart now w) now) (w_reservations w))), w1)" "world_ok w1"
    "getStaleSettings w1 = getStaleSettings w" "detectionStart now w1 = detectionStart now w"
    and quiet: "\<forall>r \<in> set (w_reservations w1). \<not> unannounced (getStaleSettings w) (detectionStart now w) now r"
    using flag_result [OF assms, of now] by (elim exE conjE) (rule that)
  have "filter (unannounced (getStaleSettings w1) (detectionStart now w1) now) (w_reservations w1) = []"
    using quiet w1(3,4) by (simp add: filter_empty_conv)
  then show ?thesis using w1(1) flag_result [OF w1(2), of now] w1(3) assms(2) by auto
qed

definition silent_row :: reservation where
  "silent_row = (lab_row ''r1'' ResActive)\<lparr>rs_sourceType := SrcDhcpReservation, rs_lastSeenLeased := Some 0, rs_staleIgnored := False,
     rs_staleNotifiedAt := None, rs_staleSnoozedUntil := None\<rparr>"

lemma silent_ok: "world_ok (lab False [silent_row])"
  by (rule lab_ok) (simp_all add: silent_row_def lab_row_def newReservation_def table_ok_def map_filter_simps full_ok_def is_full_def reservationKey_def)

lemma silent_days: "getStaleSettings (lab False [silent_row]) = 60"
  by (simp add: getStaleSettings_def lab_def emptyWorld_def)

theorem stale_alert_once_witness:
  "\<exists>w1 w2. flagStaleReservations (61 * dayMs) (lab False [silent_row]) = (Inr 1, w1) \<and> flagStaleReservations (61 * dayMs) w1 = (Inr 0, w2)"
proof -
  have "unannounced 60 s (61 * dayMs) silent_row" for s
    by (simp add: unannounced_def watched_def is_stale_def lastSignal_def silent_row_def lab_row_def newReservation_def dayMs_def)
  then have "length (filter (unannounced 60 (detectionStart (61 * dayMs) (lab False [silent_row])) (61 * dayMs)) (w_reservations (lab False [silent_row]))) = 1"
    by simp
  then show ?thesis
    using stale_alert_once [OF silent_ok, of "61 * dayMs"] unfolding silent_days by simp
qed

text \<open>
  A snoozed reservation raises no alert until the snooze ends: after a successful snooze at time \<open>now\<close>, which
  lasts as many days as the threshold, the list of stale reservations read at any time before its end has no
  entry of that reservation.
\<close>

theorem snooze_suppresses:
  assumes "world_ok w" "snoozeReservation i now w = (Inr (j, snoozedUntil, days), w')" "t < snoozedUntil"
    and "listStaleReservations ActiveMode t w' = (Inr rows, w'')"
  shows "snoozedUntil = now + getStaleSettings w * dayMs \<and> (\<forall>e \<in> set rows. ra_id e \<noteq> i)"
proof -
  let ?f = "\<lambda>r. r\<lparr>rs_staleSnoozedUntil := Some snoozedUntil, rs_staleNotifiedAt := None\<rparr>"
  obtain x where up: "updateReservationRow i ?f w = (Inr x, w')" and until: "snoozedUntil = now + getStaleSettings w * dayMs"
    using snooze_run [OF assms(2)] by (elim exE conjE) (rule that)
  have ok: "world_ok w'"
    using keepsD [OF keeps_updateRow assms(1) up] by (simp add: calm_def)
  have rows: "w_reservations w' = map (\<lambda>r. if rs_id r = i then ?f r else r) (w_reservations w)"
    using up by (auto simp: updateReservationRow_def split: option.splits sum.splits dest: res.upd_map)
  have quiet: "\<not> is_stale d s t r" if "r \<in> set (w_reservations w')" "rs_id r = i" for d s r
  proof -
    from that(1) obtain q where "r = (if rs_id q = i then ?f q else q)" unfolding rows set_map by (elim imageE) (rule that)
    then have "rs_staleSnoozedUntil r = Some snoozedUntil" using that(2) by (cases "rs_id q = i") simp_all
    then show ?thesis using assms(3) by (simp add: is_stale_def)
  qed
  have "ra_id e \<noteq> i" if e: "e \<in> set rows" for e
  proof -
    obtain s where "rows = stale_list (getStaleSettings w') s t (w'\<lparr>w_detectionStartedAt := Some (Some s)\<rparr>)"
      using listStale_run [of t w'] assms(4) e by auto
    then obtain r where "r \<in> set (w_reservations w')" "is_stale (getStaleSettings w') s t r" "ra_id e = rs_id r"
      using e ok stale_list_mem [of "w'\<lparr>w_detectionStartedAt := Some (Some s)\<rparr>" e "getStaleSettings w'" s t] by auto
    then show ?thesis using quiet by auto
  qed
  then show ?thesis using until by blast
qed

theorem snooze_suppresses_witness:
  "\<exists>w' rows w''. snoozeReservation ''r1'' (61 * dayMs) (lab False [silent_row]) = (Inr (''r1'', 121 * dayMs, 60), w') \<and>
     listStaleReservations ActiveMode (70 * dayMs) w' = (Inr rows, w'') \<and> (\<forall>e \<in> set rows. ra_id e \<noteq> ''r1'')"
proof -
  let ?w = "lab False [silent_row]"
  let ?f = "\<lambda>r. r\<lparr>rs_staleSnoozedUntil := Some (121 * dayMs), rs_staleNotifiedAt := None\<rparr>"
  have guard: "staleGuard ''snooze'' ''r1'' ?w = Inr ()"
    by (simp add: staleGuard_def findReservation_def silent_row_def lab_row_def newReservation_def)
  have up: "updateReservationRow ''r1'' ?f ?w = (Inr (?f silent_row), ?w\<lparr>w_reservations := [?f silent_row]\<rparr>)"
    by (simp add: updateReservationRow_def findReservation_def update_rows_def silent_row_def lab_row_def newReservation_def
        reservationKey_def map_filter_simps)
  have s: "snoozeReservation ''r1'' (61 * dayMs) ?w = (Inr (''r1'', 121 * dayMs, 60), ?w\<lparr>w_reservations := [?f silent_row]\<rparr>)"
    using guard up by (simp add: snoozeReservation_def bindIO_def silent_days)
  obtain rows w'' where l: "listStaleReservations ActiveMode (70 * dayMs) (?w\<lparr>w_reservations := [?f silent_row]\<rparr>) = (Inr rows, w'')"
    using listStale_run by blast
  have "70 * dayMs < 121 * dayMs" by (simp add: dayMs_def)
  from snooze_suppresses [OF silent_ok s this l] s l show ?thesis by blast
qed

end
