(* ===== verification/Lockout.thy ===== *)
theory Lockout
  imports JsStd
begin

text \<open>
  \<^verbatim>\<open>src/utils/loginLockout.ts\<close>: the per-username failure counter; \<^verbatim>\<open>src/utils/mfaPending.ts\<close>: the tokens between the two steps of a login; and
  what the routes \<^verbatim>\<open>/login\<close> and \<^verbatim>\<open>/login/totp\<close> of \<^verbatim>\<open>src/api/routes/auth.ts\<close> and the password reset of \<^verbatim>\<open>src/api/routes/users.ts\<close> do with
  them. The modules' maps are the state; the clock is an argument. A route checks the lock, then waits for the database and the
  verification of the password or code, then counts or clears: these are separate steps, and the attempts in between are part of the
  state. What the verification says is an argument of the second step.
\<close>

section \<open>Operations\<close>

record entry =
  failures :: nat
  lockedUntil :: int
  firstFailureAt :: int

type_synonym lockStore = "string \<rightharpoonup> entry"

definition MAX_FAILURES :: nat where "MAX_FAILURES = 5"
definition LOCKOUT_MS :: int where "LOCKOUT_MS = 15 * 60 * 1000"
definition WINDOW_MS :: int where "WINDOW_MS = 15 * 60 * 1000"

definition lock_key :: "string \<Rightarrow> string" where
  "lock_key username = toLowerCase (trim username)"

definition isLocked :: "lockStore \<Rightarrow> string \<Rightarrow> int \<Rightarrow> bool \<times> int option" where
  "isLocked st username now =
     (case st (lock_key username) of
        None \<Rightarrow> (False, None)
      | Some e \<Rightarrow> if lockedUntil e > now then (True, Some (lockedUntil e)) else (False, None))"

record failureResult =
  lockedNow :: bool
  fr_failures :: nat
  fr_until :: "int option"

definition recordFailure :: "lockStore \<Rightarrow> string \<Rightarrow> int \<Rightarrow> failureResult \<times> lockStore" where
  "recordFailure st username now =
     (let k = lock_key username;
          fresh = \<lparr>failures = 0, lockedUntil = 0, firstFailureAt = now\<rparr>;
          e0 = (case st k of None \<Rightarrow> fresh | Some e \<Rightarrow> if now - firstFailureAt e > WINDOW_MS then fresh else e);
          e1 = e0\<lparr>failures := failures e0 + 1\<rparr>
      in if failures e1 \<ge> MAX_FAILURES
         then (let e2 = e1\<lparr>lockedUntil := now + LOCKOUT_MS\<rparr>
               in (\<lparr>lockedNow = True, fr_failures = failures e2, fr_until = Some (lockedUntil e2)\<rparr>, st(k \<mapsto> e2)))
         else (\<lparr>lockedNow = False, fr_failures = failures e1, fr_until = None\<rparr>, st(k \<mapsto> e1)))"

definition clearLockout :: "lockStore \<Rightarrow> string \<Rightarrow> lockStore" where
  "clearLockout st username = st(lock_key username := None)"

text \<open>The body of the periodic cleanup, on every entry of the map.\<close>

definition cleanup :: "lockStore \<Rightarrow> int \<Rightarrow> lockStore" where
  "cleanup st now =
     (\<lambda>k. case st k of
            None \<Rightarrow> None
          | Some e \<Rightarrow> if lockedUntil e \<le> now \<and> now - firstFailureAt e > WINDOW_MS then None else Some e)"

section \<open>Pending second steps\<close>

record mfaEntry =
  mf_userId :: string
  mf_username :: string
  mf_expiresAt :: int

definition TTL_MS :: int where "TTL_MS = 5 * 60 * 1000"

type_synonym mfaStore = "string \<rightharpoonup> mfaEntry"

definition issue :: "mfaStore \<Rightarrow> string \<Rightarrow> string \<Rightarrow> string \<Rightarrow> int \<Rightarrow> mfaStore" where
  "issue st token userId username now = st(token \<mapsto> \<lparr>mf_userId = userId, mf_username = username, mf_expiresAt = now + TTL_MS\<rparr>)"

definition peek :: "mfaStore \<Rightarrow> string \<Rightarrow> int \<Rightarrow> mfaEntry option \<times> mfaStore" where
  "peek st token now =
     (if token = [] then (None, st)
      else case st token of
             None \<Rightarrow> (None, st)
           | Some e \<Rightarrow> if mf_expiresAt e < now then (None, st(token := None)) else (Some e, st))"

definition consume :: "mfaStore \<Rightarrow> string \<Rightarrow> int \<Rightarrow> mfaStore" where
  "consume st token now = (let (e, st') = peek st token now in if e = None then st' else st'(token := None))"

definition revokeForUser :: "mfaStore \<Rightarrow> string \<Rightarrow> mfaStore" where
  "revokeForUser st userId = (\<lambda>k. case st k of None \<Rightarrow> None | Some e \<Rightarrow> if mf_userId e = userId then None else Some e)"

definition mfaCleanup :: "mfaStore \<Rightarrow> int \<Rightarrow> mfaStore" where
  "mfaCleanup st now = (\<lambda>k. case st k of None \<Rightarrow> None | Some e \<Rightarrow> if mf_expiresAt e < now then None else Some e)"

section \<open>The routes\<close>

text \<open>
  Under way are: passwords being verified, by the name given; accounts whose password was accepted and whose token is not issued yet;
  and codes being verified, by the token and the name it stands for.
\<close>

record lockSys =
  lk_store :: lockStore
  lk_mfa :: mfaStore
  lk_logins :: "string list"
  lk_accepted :: "string list"
  lk_codes :: "(string \<times> string) list"

datatype refusal = LockedUntil "int option" | SessionExpired

definition loginBegin :: "string \<Rightarrow> int \<Rightarrow> lockSys \<Rightarrow> (refusal + unit) \<times> lockSys" where
  "loginBegin u now s =
     (case isLocked (lk_store s) u now of
        (True, til) \<Rightarrow> (Inl (LockedUntil til), s)
      | (False, _) \<Rightarrow> (Inr (), s\<lparr>lk_logins := u # lk_logins s\<rparr>))"

definition totpBegin :: "string \<Rightarrow> int \<Rightarrow> lockSys \<Rightarrow> (refusal + unit) \<times> lockSys" where
  "totpBegin token now s =
     (let (found, st) = peek (lk_mfa s) token now; s1 = s\<lparr>lk_mfa := st\<rparr>
      in case found of
           None \<Rightarrow> (Inl SessionExpired, s1)
         | Some e \<Rightarrow>
             (case isLocked (lk_store s1) (mf_username e) now of
                (True, til) \<Rightarrow> (Inl (LockedUntil til), s1)
              | (False, _) \<Rightarrow> (Inr (), s1\<lparr>lk_codes := (token, mf_username e) # lk_codes s1\<rparr>)))"

text \<open>A wrong code that trips the lock also drops the token.\<close>

definition totpFailed :: "string \<Rightarrow> string \<Rightarrow> int \<Rightarrow> lockSys \<Rightarrow> lockSys" where
  "totpFailed token u now s =
     (let (tripped, st) = recordFailure (lk_store s) u now
      in s\<lparr>lk_store := st, lk_mfa := (if lockedNow tripped then consume (lk_mfa s) token now else lk_mfa s)\<rparr>)"

datatype loginEvent =
    Begins string int
  | Denied string int
  | Granted string int
  | Issued string string string int
  | Died string
  | CodeBegins string int
  | CodeRejected string string int
  | CodeAccepted string string int
  | CodeVanished string string int
  | CodeDied string string
  | PasswordReset string
  | Cleanup int
  | MfaCleanup int

text \<open>
  One step of the routes; \<^term>\<open>None\<close> if no such attempt is under way. An attempt dies when the database fails; the account of a code
  vanishes when its second factor was removed meanwhile.
\<close>

fun login_step :: "lockSys \<Rightarrow> loginEvent \<Rightarrow> lockSys option" where
  "login_step s (Begins u now) = Some (snd (loginBegin u now s))"
| "login_step s (Denied u now) =
     (if u \<in> set (lk_logins s)
      then Some (s\<lparr>lk_logins := remove1 u (lk_logins s), lk_store := snd (recordFailure (lk_store s) u now)\<rparr>) else None)"
| "login_step s (Granted u now) =
     (if u \<in> set (lk_logins s)
      then Some (s\<lparr>lk_logins := remove1 u (lk_logins s), lk_store := clearLockout (lk_store s) u, lk_accepted := u # lk_accepted s\<rparr>) else None)"
| "login_step s (Issued token userId u now) =
     (if u \<in> set (lk_accepted s)
      then Some (s\<lparr>lk_accepted := remove1 u (lk_accepted s), lk_mfa := issue (lk_mfa s) token userId u now\<rparr>) else None)"
| "login_step s (Died u) =
     (if u \<in> set (lk_logins s) then Some (s\<lparr>lk_logins := remove1 u (lk_logins s)\<rparr>)
      else if u \<in> set (lk_accepted s) then Some (s\<lparr>lk_accepted := remove1 u (lk_accepted s)\<rparr>) else None)"
| "login_step s (CodeBegins token now) = Some (snd (totpBegin token now s))"
| "login_step s (CodeRejected token u now) =
     (if (token, u) \<in> set (lk_codes s) then Some (totpFailed token u now (s\<lparr>lk_codes := remove1 (token, u) (lk_codes s)\<rparr>)) else None)"
| "login_step s (CodeAccepted token u now) =
     (if (token, u) \<in> set (lk_codes s)
      then Some (s\<lparr>lk_codes := remove1 (token, u) (lk_codes s), lk_mfa := consume (lk_mfa s) token now, lk_store := clearLockout (lk_store s) u\<rparr>)
      else None)"
| "login_step s (CodeVanished token u now) =
     (if (token, u) \<in> set (lk_codes s)
      then Some (s\<lparr>lk_codes := remove1 (token, u) (lk_codes s), lk_mfa := consume (lk_mfa s) token now\<rparr>) else None)"
| "login_step s (CodeDied token u) =
     (if (token, u) \<in> set (lk_codes s) then Some (s\<lparr>lk_codes := remove1 (token, u) (lk_codes s)\<rparr>) else None)"
| "login_step s (PasswordReset u) = Some (s\<lparr>lk_store := clearLockout (lk_store s) u\<rparr>)"
| "login_step s (Cleanup now) = Some (s\<lparr>lk_store := cleanup (lk_store s) now\<rparr>)"
| "login_step s (MfaCleanup now) = Some (s\<lparr>lk_mfa := mfaCleanup (lk_mfa s) now\<rparr>)"

fun login_run :: "lockSys \<Rightarrow> loginEvent list \<Rightarrow> lockSys option" where
  "login_run s [] = Some s"
| "login_run s (ev # es) = Option.bind (login_step s ev) (\<lambda>t. login_run t es)"

lemma login_run_append: "login_run s (es @ fs) = Option.bind (login_run s es) (\<lambda>t. login_run t fs)"
  by (induction es arbitrary: s) (simp_all add: bind_assoc)

section \<open>The invariant\<close>

text \<open>An entry has counted at least one failure, and it carries a lock exactly from the fifth on.\<close>

definition entry_ok :: "entry \<Rightarrow> bool" where
  "entry_ok e \<longleftrightarrow> 1 \<le> failures e \<and>
     (if failures e < MAX_FAILURES then lockedUntil e = 0 else lockedUntil e \<le> firstFailureAt e + WINDOW_MS + LOCKOUT_MS)"

definition lock_ok :: "lockSys \<Rightarrow> bool" where
  "lock_ok s \<longleftrightarrow> (\<forall>k e. lk_store s k = Some e \<longrightarrow> entry_ok e)"

text \<open>What an event does to the counter of one account, and when.\<close>

fun login_fails :: "string \<Rightarrow> loginEvent \<Rightarrow> bool" where
  "login_fails k (Denied u t) = (lock_key u = k)"
| "login_fails k (CodeRejected token u t) = (lock_key u = k)"
| "login_fails k _ = False"

fun login_clears :: "string \<Rightarrow> loginEvent \<Rightarrow> bool" where
  "login_clears k (Granted u t) = (lock_key u = k)"
| "login_clears k (CodeAccepted token u t) = (lock_key u = k)"
| "login_clears k (PasswordReset u) = (lock_key u = k)"
| "login_clears k _ = False"

fun login_at :: "(int \<Rightarrow> bool) \<Rightarrow> loginEvent \<Rightarrow> bool" where
  "login_at P (Begins u t) = P t"
| "login_at P (Denied u t) = P t"
| "login_at P (Granted u t) = P t"
| "login_at P (Issued token i u t) = P t"
| "login_at P (Died u) = True"
| "login_at P (CodeBegins token t) = P t"
| "login_at P (CodeRejected token u t) = P t"
| "login_at P (CodeAccepted token u t) = P t"
| "login_at P (CodeVanished token u t) = P t"
| "login_at P (CodeDied token u) = True"
| "login_at P (PasswordReset u) = True"
| "login_at P (Cleanup t) = P t"
| "login_at P (MfaCleanup t) = P t"

definition bump_entry :: "entry option \<Rightarrow> int \<Rightarrow> entry" where
  "bump_entry old now =
     (let fresh = \<lparr>failures = 0, lockedUntil = 0, firstFailureAt = now\<rparr>;
          e0 = (case old of None \<Rightarrow> fresh | Some e \<Rightarrow> if now - firstFailureAt e > WINDOW_MS then fresh else e);
          e1 = e0\<lparr>failures := failures e0 + 1\<rparr>
      in if failures e1 \<ge> MAX_FAILURES then e1\<lparr>lockedUntil := now + LOCKOUT_MS\<rparr> else e1)"

lemma recordFailure_bump: "snd (recordFailure st u now) = st(lock_key u \<mapsto> bump_entry (st (lock_key u)) now)"
  by (simp add: recordFailure_def bump_entry_def Let_def)

lemma begin_store [simp]: "lk_store (snd (loginBegin u now s)) = lk_store s" "lk_store (snd (totpBegin token now s)) = lk_store s"
  by (auto simp: loginBegin_def totpBegin_def Let_def split: prod.splits bool.splits option.splits)

lemma failed_store [simp]: "lk_store (totpFailed token u now s) = snd (recordFailure (lk_store s) u now)"
  by (simp add: totpFailed_def split_def Let_def)

text \<open>Failures of the account count, clears clear, cleanups may drop a stale entry, and nothing else touches the counter.\<close>

lemma step_store:
  assumes "login_step s ev = Some t"
  shows "(login_fails k ev \<longrightarrow> (\<exists>now. (\<forall>P. login_at P ev = P now) \<and> lk_store t k = Some (bump_entry (lk_store s k) now))) \<and>
    (login_clears k ev \<longrightarrow> lk_store t k = None) \<and>
    (\<not> login_fails k ev \<longrightarrow> \<not> login_clears k ev \<longrightarrow> lk_store t k = lk_store s k \<or>
       (\<exists>now. (\<forall>P. login_at P ev = P now) \<and> lk_store t k = cleanup (lk_store s) now k))"
  using assms by (cases ev) (auto simp: recordFailure_bump clearLockout_def split: if_splits)

lemma bump_ok: "(\<And>e. old = Some e \<Longrightarrow> entry_ok e) \<Longrightarrow> entry_ok (bump_entry old now)"
  by (cases old) (auto simp: bump_entry_def entry_ok_def Let_def MAX_FAILURES_def split: if_splits)

lemma login_step_ok:
  assumes "lock_ok s" "login_step s ev = Some t"
  shows "lock_ok t"
  unfolding lock_ok_def
proof (intro allI impI)
  fix k e
  assume e: "lk_store t k = Some e"
  have old: "entry_ok d" if "lk_store s k = Some d" for d using assms(1) that by (auto simp: lock_ok_def)
  have clean: "entry_ok d" if "cleanup (lk_store s) now k = Some d" for now d
    using that old by (auto simp: cleanup_def split: option.splits if_splits)
  show "entry_ok e" using step_store [OF assms(2), of k] e old clean bump_ok [OF old] by (cases "login_fails k ev"; cases "login_clears k ev") auto
qed

definition login_do :: "lockSys \<Rightarrow> loginEvent \<Rightarrow> lockSys" where
  "login_do s ev = (case login_step s ev of None \<Rightarrow> s | Some t \<Rightarrow> t)"

interpretation lock: kept_invariant login_do lock_ok
  by unfold_locales (auto simp: login_do_def dest: login_step_ok split: option.split)

lemma login_run_do: "login_run s es = Some t \<Longrightarrow> t = foldl login_do s es"
  by (induction es arbitrary: s) (auto simp: login_do_def bind_eq_Some_conv)

section \<open>Locking\<close>

text \<open>Within one window an unlocked entry counts the failures of its account, whatever else happens.\<close>

lemma counting:
  assumes "login_run s es = Some t" "lk_store s k = Some e" "lockedUntil e = 0"
    "\<forall>ev \<in> set es. login_at (\<lambda>now. now - firstFailureAt e \<le> WINDOW_MS) ev \<and> \<not> login_clears k ev"
    "failures e + length (filter (login_fails k) es) < MAX_FAILURES"
  shows "lk_store t k = Some (e\<lparr>failures := failures e + length (filter (login_fails k) es)\<rparr>)"
  using assms
proof (induction es arbitrary: s e)
  case (Cons ev es)
  let ?n = "if login_fails k ev then 1 else 0 :: nat"
  obtain s1 where s1: "login_step s ev = Some s1" "login_run s1 es = Some t" using Cons.prems(1) by (auto simp: bind_eq_Some_conv)
  have "lk_store s1 k = Some (e\<lparr>failures := failures e + ?n\<rparr>)"
    using step_store [OF s1(1), of k] Cons.prems by (cases "login_fails k ev") (auto simp: bump_entry_def cleanup_def Let_def)
  from Cons.IH [OF s1(2) this] show ?case using Cons.prems by (simp split: if_splits)
qed simp

text \<open>
  A lock stays, or is prolonged, as long as nothing clears it and no failure is counted after the window of the first one has ended.
\<close>

definition lock_holds :: "string \<Rightarrow> int \<Rightarrow> int \<Rightarrow> lockSys \<Rightarrow> bool" where
  "lock_holds k t1 til s \<longleftrightarrow> (\<exists>e. lk_store s k = Some e \<and> til \<le> lockedUntil e \<and> firstFailureAt e = t1 \<and> MAX_FAILURES \<le> failures e)"

lemma holds_run:
  assumes "login_run s es = Some t" "lock_holds k t1 til s"
    "\<forall>ev \<in> set es. login_at (\<lambda>now. now < til) ev \<and> \<not> login_clears k ev \<and> (login_fails k ev \<longrightarrow> login_at (\<lambda>now. til \<le> now + LOCKOUT_MS \<and> now - t1 \<le> WINDOW_MS) ev)"
  shows "lock_holds k t1 til t"
  using assms
proof (induction es arbitrary: s)
  case (Cons ev es)
  obtain s1 where s1: "login_step s ev = Some s1" "login_run s1 es = Some t" using Cons.prems(1) by (auto simp: bind_eq_Some_conv)
  have "lock_holds k t1 til s1"
    using step_store [OF s1(1), of k] Cons.prems(2,3) by (cases "login_fails k ev") (auto simp: lock_holds_def bump_entry_def cleanup_def Let_def)
  then show ?case using Cons.IH [OF s1(2)] Cons.prems(3) by simp
qed simp

lemma holds_refused: "lock_holds k t1 til s \<Longrightarrow> lock_key v = k \<Longrightarrow> now < til \<Longrightarrow> \<exists>later. loginBegin v now s = (Inl (LockedUntil (Some later)), s) \<and> til \<le> later"
  by (auto simp: lock_holds_def loginBegin_def isLocked_def)

lemma holds_refuses_code:
  assumes "lock_holds k t1 til s" "peek (lk_mfa s) token now = (Some e, st)" "lock_key (mf_username e) = k" "now < til"
  shows "\<exists>later. fst (totpBegin token now s) = Inl (LockedUntil (Some later)) \<and> til \<le> later"
  using assms by (auto simp: lock_holds_def totpBegin_def isLocked_def)

lemma failure_counted:
  assumes "login_step s ev = Some t" "login_fails k ev" "login_at (\<lambda>now. now = t1) ev"
  shows "lk_store t k = Some (bump_entry (lk_store s k) t1)"
proof -
  obtain now where "\<forall>P. login_at P ev = P now" "lk_store t k = Some (bump_entry (lk_store s k) now)" using step_store [OF assms(1), of k] assms(2) by blast
  then show ?thesis using assms(3) by metis
qed

lemma first_failure:
  assumes "login_step s ev = Some t" "lk_store s k = None" "login_fails k ev" "login_at (\<lambda>now. now = t1) ev"
  shows "lk_store t k = Some \<lparr>failures = 1, lockedUntil = 0, firstFailureAt = t1\<rparr>"
  using failure_counted [OF assms(1,3,4)] assms(2) by (simp add: bump_entry_def Let_def MAX_FAILURES_def)

lemma fifth_failure:
  assumes "login_step s ev = Some t" "lk_store s k = Some e" "failures e = 4" "login_fails k ev" "login_at (\<lambda>now. now = t5) ev" "t5 - firstFailureAt e \<le> WINDOW_MS"
  shows "lock_holds k (firstFailureAt e) (t5 + LOCKOUT_MS) t"
  using failure_counted [OF assms(1,4,5)] assms(2,3,6) by (simp add: lock_holds_def bump_entry_def Let_def MAX_FAILURES_def)

section \<open>Properties\<close>

text \<open>
  C34. Five failures of one account that had none counted, wrong passwords or wrong codes in any order, all counted within fifteen minutes
  of the first, lock the account: from the fifth, at time \<open>t5\<close>, until \<open>t5 + 15 min\<close> every attempt that begins, with a password under any spelling of
  the name or with a code, is refused. Attempts for this and other accounts may begin and end in any interleaving before and
  after. Needed is that nothing clears the counter meanwhile (no password or code of the account is accepted and no
  administrator resets its password), and that no attempt begun before the lock is counted as a failure more than fifteen minutes
  after the first one.
\<close>

theorem five_failures_lock:
  assumes "login_run s (f1 # es @ f5 # later) = Some t" "lk_store s k = None"
    and "login_fails k f1" "login_at (\<lambda>now. now = t1) f1" "login_fails k f5" "login_at (\<lambda>now. now = t5) f5" "t5 - t1 \<le> WINDOW_MS"
    and "length (filter (login_fails k) es) = 3" "\<forall>ev \<in> set es. login_at (\<lambda>now. now - t1 \<le> WINDOW_MS) ev \<and> \<not> login_clears k ev"
    and "\<forall>ev \<in> set later. login_at (\<lambda>now. t5 \<le> now \<and> now < t5 + LOCKOUT_MS) ev \<and> \<not> login_clears k ev"
    and "\<forall>ev \<in> set later. login_fails k ev \<longrightarrow> login_at (\<lambda>now. now - t1 \<le> WINDOW_MS) ev"
    and "now < t5 + LOCKOUT_MS"
  shows "(lock_key v = k \<longrightarrow> (\<exists>til. loginBegin v now t = (Inl (LockedUntil (Some til)), t) \<and> t5 + LOCKOUT_MS \<le> til)) \<and>
    (\<forall>e st. peek (lk_mfa t) token now = (Some e, st) \<longrightarrow> lock_key (mf_username e) = k \<longrightarrow>
       (\<exists>til. fst (totpBegin token now t) = Inl (LockedUntil (Some til)) \<and> t5 + LOCKOUT_MS \<le> til))"
proof -
  obtain s1 s2 s3 where run: "login_step s f1 = Some s1" "login_run s1 es = Some s2" "login_step s2 f5 = Some s3" "login_run s3 later = Some t"
    using assms(1) unfolding login_run_append login_run.simps bind_eq_Some_conv by blast
  have "lk_store s2 k = Some \<lparr>failures = 4, lockedUntil = 0, firstFailureAt = t1\<rparr>"
    using counting [OF run(2) first_failure [OF run(1) assms(2-4)]] assms(8,9) by (simp add: MAX_FAILURES_def)
  then have three: "lock_holds k t1 (t5 + LOCKOUT_MS) s3" using fifth_failure [OF run(3) _ _ assms(5,6)] assms(7) by simp
  have "login_at (\<lambda>now. now < t5 + LOCKOUT_MS) ev \<and> \<not> login_clears k ev \<and>
      (login_fails k ev \<longrightarrow> login_at (\<lambda>now. t5 + LOCKOUT_MS \<le> now + LOCKOUT_MS \<and> now - t1 \<le> WINDOW_MS) ev)" if "ev \<in> set later" for ev
    using assms(10,11) that by (cases ev) auto
  then have "lock_holds k t1 (t5 + LOCKOUT_MS) t" using holds_run [OF run(4) three] by blast
  then show ?thesis using holds_refused holds_refuses_code assms(12) by blast
qed

text \<open>A run of three accounts for the examples; an attempt of \<open>bob\<close> is under way when his account locks.\<close>

definition noLogins :: lockSys where
  "noLogins = \<lparr>lk_store = Map.empty, lk_mfa = Map.empty, lk_logins = [''bob'', ''Bob'', '' bob'', ''BOB'', ''eve'', ''bob''], lk_accepted = [], lk_codes = []\<rparr>"

theorem five_failures_lock_witness:
  "\<exists>t til. login_run noLogins (Denied ''bob'' 1 # [Denied ''Bob'' 2, Cleanup 3, Denied '' bob'' 4, Granted ''eve'' 5, Denied ''BOB'' 6] @
      Denied ''bob'' 7 # [Begins ''bob'' 8, Cleanup 9]) = Some t \<and> loginBegin ''Bob '' 10 t = (Inl (LockedUntil (Some til)), t)"
proof -
  let ?es = "[Denied ''Bob'' 2, Cleanup 3, Denied '' bob'' 4, Granted ''eve'' 5, Denied ''BOB'' 6]" and ?later = "[Begins ''bob'' 8, Cleanup 9]"
  have keys: "lock_key ''Bob'' = ''bob''" "lock_key '' bob'' = ''bob''" "lock_key ''BOB'' = ''bob''" "lock_key ''bob'' = ''bob''" "lock_key ''eve'' = ''eve''"
    "lock_key ''Bob '' = ''bob''" by code_simp+
  have "login_run noLogins (Denied ''bob'' 1 # ?es @ Denied ''bob'' 7 # ?later) \<noteq> None" by (simp add: noLogins_def)
  then obtain t where run: "login_run noLogins (Denied ''bob'' 1 # ?es @ Denied ''bob'' 7 # ?later) = Some t" by (auto simp del: login_run.simps)
  have "lk_store noLogins ''bob'' = None" by (simp add: noLogins_def)
  from five_failures_lock [OF run this, of 1 7 10 "''Bob ''" "[]"] show ?thesis
    using run by (auto simp: keys WINDOW_MS_def LOCKOUT_MS_def)
qed

text \<open>
  An attempt begun before the lock and counted as a failure after the window of the first one starts a new window and
  lifts the lock at once: five failures in the first quarter of an hour and one that arrives a second late.
\<close>

theorem late_failure_unlocks:
  "(let s = the (login_run noLogins [Denied ''bob'' 1, Denied ''bob'' 2, Denied ''Bob'' 3, Denied ''BOB'' 4]);
        locked = the (login_run (s\<lparr>lk_logins := [''bob'', ''bob'']\<rparr>) [Denied ''bob'' 899000]);
        after = the (login_run locked [Denied ''bob'' 900002])
    in fst (isLocked (lk_store locked) ''bob'' 899001) \<and> \<not> fst (isLocked (lk_store after) ''bob'' 900003))"
  by code_simp

text \<open>
  Whatever sequence of attempts, resets and cleanups runs, no account is locked beyond thirty minutes after the
  first failure its entry counts, and an entry is locked only from its fifth failure on.
\<close>

theorem lock_bounded:
  assumes "login_run s es = Some t" "lk_store s = Map.empty" "lk_store t k = Some e"
  shows "lockedUntil e \<le> max 0 (firstFailureAt e + WINDOW_MS + LOCKOUT_MS) \<and> (lockedUntil e \<noteq> 0 \<longrightarrow> 5 \<le> failures e)"
proof -
  have "lock_ok s" using assms(2) by (simp add: lock_ok_def)
  then have "entry_ok e"
    using lock.run_good login_run_do [OF assms(1)] assms(3) unfolding lock_ok_def by metis
  then show ?thesis
    by (auto simp: entry_ok_def MAX_FAILURES_def split: if_splits)
qed

section \<open>Guessing codes\<close>

text \<open>One round of an attacker who knows the password: it clears the counter, and four wrong codes may follow.\<close>

definition guesses :: "string \<Rightarrow> string \<Rightarrow> int \<Rightarrow> loginEvent list" where
  "guesses u token now = concat (replicate 4 [CodeBegins token now, CodeRejected token u now])"

definition guessRound :: "string \<Rightarrow> string \<Rightarrow> string \<Rightarrow> int \<Rightarrow> loginEvent list" where
  "guessRound u userId token now = [Begins u now, Granted u now, Issued token userId u now] @ guesses u token now"

definition lock_idle :: "string \<Rightarrow> int \<Rightarrow> lockSys \<Rightarrow> bool" where
  "lock_idle u now s \<longleftrightarrow> \<not> fst (isLocked (lk_store s) u now)"

lemma guess_step:
  assumes "lk_store s (lock_key u) = (if n = 0 then None else Some \<lparr>failures = n, lockedUntil = 0, firstFailureAt = now\<rparr>)" "n < 4" "0 \<le> now" "token \<noteq> []"
    and "lk_mfa s token = Some \<lparr>mf_userId = i, mf_username = u, mf_expiresAt = now + TTL_MS\<rparr>"
  shows "\<exists>t. login_run s [CodeBegins token now, CodeRejected token u now] = Some t \<and> lk_mfa t = lk_mfa s \<and>
    lk_store t (lock_key u) = Some \<lparr>failures = n + 1, lockedUntil = 0, firstFailureAt = now\<rparr>"
  using assms
  by (simp add: totpBegin_def peek_def TTL_MS_def isLocked_def totpFailed_def recordFailure_def Let_def MAX_FAILURES_def WINDOW_MS_def)

lemma guesses_run:
  assumes "lk_store s (lock_key u) = None" "0 \<le> now" "token \<noteq> []"
    and "lk_mfa s token = Some \<lparr>mf_userId = i, mf_username = u, mf_expiresAt = now + TTL_MS\<rparr>" "m \<le> 4"
  shows "\<exists>t. login_run s (concat (replicate m [CodeBegins token now, CodeRejected token u now])) = Some t \<and> lk_mfa t = lk_mfa s \<and>
    lk_store t (lock_key u) = (if m = 0 then None else Some \<lparr>failures = m, lockedUntil = 0, firstFailureAt = now\<rparr>)"
  using assms(5)
proof (induction m)
  case (Suc m)
  then obtain t where t: "login_run s (concat (replicate m [CodeBegins token now, CodeRejected token u now])) = Some t" "lk_mfa t = lk_mfa s"
    "lk_store t (lock_key u) = (if m = 0 then None else Some \<lparr>failures = m, lockedUntil = 0, firstFailureAt = now\<rparr>)" by auto
  obtain t' where t': "login_run t [CodeBegins token now, CodeRejected token u now] = Some t'" "lk_mfa t' = lk_mfa t"
    "lk_store t' (lock_key u) = Some \<lparr>failures = m + 1, lockedUntil = 0, firstFailureAt = now\<rparr>"
    using guess_step [OF t(3) _ assms(2,3)] Suc.prems assms(4) t(2) by auto
  have "concat (replicate (Suc m) [CodeBegins token now, CodeRejected token u now]) =
      concat (replicate m [CodeBegins token now, CodeRejected token u now]) @ [CodeBegins token now, CodeRejected token u now]"
    by (simp only: replicate_Suc replicate_append_same [symmetric] concat_append) simp
  then have "login_run s (concat (replicate (Suc m) [CodeBegins token now, CodeRejected token u now])) = Some t'"
    using t(1) t'(1) by (simp only: login_run_append) simp
  then show ?case using t' t(2) by auto
qed (simp add: assms(1))

lemma guessRound_run:
  assumes "lock_idle u now s" "0 \<le> now" "token \<noteq> []"
  shows "\<exists>t. login_run s (guessRound u userId token now) = Some t \<and> (\<forall>later \<ge> now. lock_idle u later t)"
proof -
  let ?mfa = "issue (lk_mfa s) token userId u now"
  have opened: "login_run s [Begins u now, Granted u now, Issued token userId u now] = Some (s\<lparr>lk_store := clearLockout (lk_store s) u, lk_mfa := ?mfa\<rparr>)"
    using assms(1) by (cases "isLocked (lk_store s) u now") (simp add: loginBegin_def lock_idle_def)
  obtain t where t: "login_run (s\<lparr>lk_store := clearLockout (lk_store s) u, lk_mfa := ?mfa\<rparr>) (guesses u token now) = Some t"
    "lk_store t (lock_key u) = Some \<lparr>failures = 4, lockedUntil = 0, firstFailureAt = now\<rparr>"
    using guesses_run [of "s\<lparr>lk_store := clearLockout (lk_store s) u, lk_mfa := ?mfa\<rparr>" u now token userId 4] assms(2,3)
    unfolding guesses_def by (auto simp: clearLockout_def issue_def)
  have "lock_idle u later t" if "now \<le> later" for later using t(2) that assms(2) by (simp add: lock_idle_def isLocked_def)
  then show ?thesis using opened t(1) unfolding guessRound_def login_run_append by auto
qed

definition guessing :: "string \<Rightarrow> string \<Rightarrow> (string \<times> int) list \<Rightarrow> loginEvent list" where
  "guessing u userId rounds = concat (map (\<lambda>(token, now). guessRound u userId token now) rounds)"

text \<open>
  C35. The lock does not limit the guessing of codes by someone who knows the password: as the accepted password clears the counter, rounds of
  one password and four wrong codes can follow each other without end. From a state in which the account is not locked, whatever
  number of rounds is run, at whatever times, every step is admitted, four times as many codes have been tried, and the account
  is not locked at any time after the last round.
\<close>

theorem code_guessing_unlimited:
  assumes "list_all (\<lambda>(token, now). token \<noteq> [] \<and> 0 \<le> now \<and> lock_idle u now s) rounds" "sorted (map snd rounds)" "rounds \<noteq> []"
  shows "\<exists>t. login_run s (guessing u userId rounds) = Some t \<and> (\<forall>later \<ge> snd (last rounds). lock_idle u later t) \<and>
    length (filter (login_fails (lock_key u)) (guessing u userId rounds)) = 4 * length rounds"
  using assms
proof (induction rounds arbitrary: s)
  case (Cons r rounds)
  obtain token now where r: "r = (token, now)" by (cases r)
  obtain t where t: "login_run s (guessRound u userId token now) = Some t" "\<forall>later \<ge> now. lock_idle u later t"
    using guessRound_run [of u now s token userId] Cons.prems(1) r by auto
  have four: "length (filter (login_fails (lock_key u)) (guessRound u userId token now)) = 4"
    by (simp add: guessRound_def guesses_def eval_nat_numeral)
  show ?case
  proof (cases "rounds = []")
    case True
    then show ?thesis using t four by (simp add: guessing_def r)
  next
    case False
    have "list_all (\<lambda>(token, now). token \<noteq> [] \<and> 0 \<le> now \<and> lock_idle u now t) rounds"
      using Cons.prems(1,2) t(2) by (auto simp: list_all_iff r)
    from Cons.IH [OF this _ False] Cons.prems(2) obtain t' where
      "login_run t (guessing u userId rounds) = Some t'" "\<forall>later \<ge> snd (last rounds). lock_idle u later t'"
      "length (filter (login_fails (lock_key u)) (guessing u userId rounds)) = 4 * length rounds" by auto
    then show ?thesis using t(1) four False by (simp add: guessing_def login_run_append r)
  qed
qed simp

theorem code_guessing_unlimited_witness:
  "\<exists>t. login_run noLogins (guessing ''ann'' ''u1'' [(''tok1'', 7), (''tok2'', 8), (''tok3'', 9)]) = Some t \<and> (\<forall>later \<ge> 9. lock_idle ''ann'' later t) \<and>
     length (filter (login_fails (lock_key ''ann'')) (guessing ''ann'' ''u1'' [(''tok1'', 7), (''tok2'', 8), (''tok3'', 9)])) = 12"
  using code_guessing_unlimited [of "''ann''" noLogins "[(''tok1'', 7), (''tok2'', 8), (''tok3'', 9)]" "''u1''"]
  by (simp add: lock_idle_def noLogins_def isLocked_def)

end
