(* ===== verification/SlotPool.thy ===== *)
theory SlotPool
  imports JsStd
begin

text \<open>
  \<^verbatim>\<open>src/utils/workerSlotPool.ts\<close>: the named slots of the monitor workers.
\<close>

section \<open>Operations\<close>

datatype slotPrefix = PProbe | PFast | PTelemetry | PSysinfo | PFloating

definition prefixName :: "slotPrefix \<Rightarrow> string" where
  "prefixName p = (case p of PProbe \<Rightarrow> ''probe'' | PFast \<Rightarrow> ''fast'' | PTelemetry \<Rightarrow> ''telemetry''
     | PSysinfo \<Rightarrow> ''sysinfo'' | PFloating \<Rightarrow> ''floating'')"

record slotPool =
  sp_prefix :: slotPrefix
  sp_letter :: string
  sp_busy :: "bool list"

definition createWorkerSlotPool :: "slotPrefix \<Rightarrow> int \<Rightarrow> slotPool" where
  "createWorkerSlotPool p n =
     \<lparr>sp_prefix = p, sp_letter = (if p = PFloating then ''F'' else ''W''), sp_busy = replicate (nat (max 1 n)) False\<rparr>"

definition slot_tag :: "slotPool \<Rightarrow> string" where
  "slot_tag pool = prefixName (sp_prefix pool) @ ''-'' @ sp_letter pool"

definition formatSlotId :: "slotPool \<Rightarrow> nat \<Rightarrow> string" where
  "formatSlotId pool oneBasedIndex =
     (let width = (if length (sp_busy pool) > 99 then 3 else 2)
      in slot_tag pool @ padStart (string_of_nat oneBasedIndex) width CHR ''0'')"

definition parseSlotIndex :: "slotPool \<Rightarrow> string \<Rightarrow> int" where
  "parseSlotIndex pool slotId =
     (if \<not> startsWith slotId (slot_tag pool) then -1
      else (let tail = drop (length (slot_tag pool)) slotId
            in if tail = ''?'' then -1
               else (case parseInt10 tail of None \<Rightarrow> -1 | Some n \<Rightarrow> if n < 1 then -1 else n - 1)))"

fun first_free :: "bool list \<Rightarrow> nat option" where
  "first_free [] = None"
| "first_free (b # bs) = (if \<not> b then Some 0 else map_option Suc (first_free bs))"

definition acquireWorkerSlot :: "slotPool \<Rightarrow> string \<times> slotPool" where
  "acquireWorkerSlot pool =
     (case first_free (sp_busy pool) of
        Some i \<Rightarrow> (formatSlotId pool (i + 1), pool\<lparr>sp_busy := (sp_busy pool)[i := True]\<rparr>)
      | None \<Rightarrow> (slot_tag pool @ ''?'', pool))"

definition releaseWorkerSlot :: "slotPool \<Rightarrow> string \<Rightarrow> slotPool" where
  "releaseWorkerSlot pool slotId =
     (let idx = parseSlotIndex pool slotId
      in if idx < 0 \<or> idx \<ge> int (length (sp_busy pool)) then pool
         else pool\<lparr>sp_busy := (sp_busy pool)[nat idx := False]\<rparr>)"

section \<open>Slot names\<close>

lemma first_free_Some: "first_free bs = Some i \<Longrightarrow> i < length bs \<and> \<not> bs ! i \<and> (\<forall>j < i. bs ! j)"
  by (induction bs arbitrary: i) (auto simp: less_Suc_eq_0_disj split: if_splits)

lemma first_free_None: "first_free bs = None \<longleftrightarrow> False \<notin> set bs"
  by (induction bs) auto

lemma nat_of_digits_zeros: "nat_of_digits (replicate k CHR ''0'' @ s) = nat_of_digits s"
  by (induction k) (simp_all add: nat_of_digits_def digit_val_def)

lemma padStart_digits: "list_all is_digit (padStart (string_of_nat n) w CHR ''0'')"
  using string_of_nat_digits by (auto simp: padStart_def list_all_iff is_digit_def)

lemma parseInt10_digits:
  assumes "list_all is_digit s" "s \<noteq> []"
  shows "parseInt10 s = Some (int (nat_of_digits s))"
proof -
  obtain c cs where s: "s = c # cs" using assms(2) by (cases s) auto
  then have c: "is_digit c" "takeWhile is_digit s = s" using assms(1) by (auto simp: list_all_iff)
  have "dropWhile is_space s = s" using c(1) by (simp add: s digit_not_space)
  then show ?thesis
    using digit_not_sign [OF c(1)] c(2) by (simp add: parseInt10_def s parse_digits_def)
qed

lemma parse_padded: "parseInt10 (padStart (string_of_nat n) w CHR ''0'') = Some (int n)"
  by (subst parseInt10_digits [OF padStart_digits]) (simp_all add: padStart_def nat_of_digits_zeros)

lemma padded_not_mark: "padStart (string_of_nat n) w CHR ''0'' \<noteq> ''?''"
  using padStart_digits [of n w] by (auto simp: is_digit_def)

lemma parse_format: "1 \<le> n \<Longrightarrow> parseSlotIndex pool (formatSlotId pool n) = int n - 1"
  by (simp add: parseSlotIndex_def formatSlotId_def startsWith_def Let_def parse_padded padded_not_mark)

lemma format_inj: "1 \<le> m \<Longrightarrow> 1 \<le> n \<Longrightarrow> formatSlotId pool m = formatSlotId pool n \<longleftrightarrow> m = n"
  by (metis nat_int parse_format diff_add_cancel)

lemma format_not_fallback: "formatSlotId pool n \<noteq> slot_tag pool @ ''?''"
  by (simp add: formatSlotId_def Let_def padded_not_mark)

lemma parse_fallback: "parseSlotIndex pool (slot_tag pool @ ''?'') = -1"
  by (simp add: parseSlotIndex_def startsWith_def)

lemma format_busy [simp]: "length bs = length (sp_busy pool) \<Longrightarrow> formatSlotId (pool\<lparr>sp_busy := bs\<rparr>) = formatSlotId pool"
  by (simp add: formatSlotId_def slot_tag_def fun_eq_iff)

lemma parse_busy [simp]: "parseSlotIndex (pool\<lparr>sp_busy := bs\<rparr>) = parseSlotIndex pool"
  by (simp add: parseSlotIndex_def slot_tag_def fun_eq_iff)

section \<open>Workers holding slots\<close>

text \<open>
  A run of the pool: a worker takes a slot, or one of the workers at work returns the id it was given.
  The state is the pool with the ids handed out and not yet returned.
\<close>

datatype slotEvent = Take | Give nat

fun pool_step :: "slotPool \<times> string list \<Rightarrow> slotEvent \<Rightarrow> slotPool \<times> string list" where
  "pool_step (pool, held) Take = (case acquireWorkerSlot pool of (i, pool') \<Rightarrow> (pool', held @ [i]))"
| "pool_step (pool, held) (Give k) =
     (if k < length held
      then (releaseWorkerSlot pool (held ! k), take k held @ drop (Suc k) held) else (pool, held))"

text \<open>
  The ids handed out, other than the fallback id of a full pool, are distinct and name exactly the
  busy slots.
\<close>

definition slots_ok :: "slotPool \<times> string list \<Rightarrow> bool" where
  "slots_ok s = (case s of (pool, held) \<Rightarrow>
     distinct (filter (\<lambda>i. i \<noteq> slot_tag pool @ ''?'') held) \<and>
     set held - {slot_tag pool @ ''?''} = (\<lambda>i. formatSlotId pool (i + 1)) ` {i. i < length (sp_busy pool) \<and> sp_busy pool ! i})"

lemma busy_names_upd:
  assumes "i < length (sp_busy pool)"
  shows "(\<lambda>j. formatSlotId pool (j + 1)) ` {j. j < length (sp_busy pool) \<and> (sp_busy pool)[i := b] ! j} =
     (if b then insert (formatSlotId pool (i + 1)) else (\<lambda>A. A - {formatSlotId pool (i + 1)}))
       ((\<lambda>j. formatSlotId pool (j + 1)) ` {j. j < length (sp_busy pool) \<and> sp_busy pool ! j})"
  using assms by (auto simp: nth_list_update format_inj image_iff split: if_splits)

lemma slot_tag_busy [simp]: "slot_tag (pool\<lparr>sp_busy := bs\<rparr>) = slot_tag pool"
  by (simp add: slot_tag_def)

lemma take_ok: "slots_ok (pool, held) \<Longrightarrow> slots_ok (pool_step (pool, held) Take)"
proof (cases "first_free (sp_busy pool)")
  case None
  then show "slots_ok (pool, held) \<Longrightarrow> ?thesis" by (auto simp: acquireWorkerSlot_def slots_ok_def)
next
  case (Some i)
  assume ok: "slots_ok (pool, held)"
  have i: "i < length (sp_busy pool)" "\<not> sp_busy pool ! i" using first_free_Some [OF Some] by auto
  have new: "formatSlotId pool (i + 1) \<notin> set held"
  proof
    assume "formatSlotId pool (i + 1) \<in> set held"
    then have "formatSlotId pool (i + 1) \<in> (\<lambda>i. formatSlotId pool (i + 1)) ` {i. i < length (sp_busy pool) \<and> sp_busy pool ! i}"
      using ok format_not_fallback [of pool "i + 1"] by (auto simp: slots_ok_def)
    then obtain j where "sp_busy pool ! j" "formatSlotId pool (i + 1) = formatSlotId pool (j + 1)" by blast
    with i(2) show False using format_inj [of "i + 1" "j + 1" pool] by simp
  qed
  show ?thesis
    using ok Some new i busy_names_upd [OF i(1), of True]
    by (auto simp: acquireWorkerSlot_def slots_ok_def format_not_fallback)
qed

lemma give_ok: "slots_ok (pool, held) \<Longrightarrow> slots_ok (pool_step (pool, held) (Give k))"
proof (cases "k < length held")
  case True
  define xs h ys where "xs = take k held" and "h = held ! k" and "ys = drop (Suc k) held"
  have held: "held = xs @ h # ys" using True by (simp add: xs_def h_def ys_def id_take_nth_drop)
  have step: "pool_step (pool, held) (Give k) = (releaseWorkerSlot pool h, xs @ ys)"
    using True by (simp add: xs_def h_def ys_def)
  assume ok: "slots_ok (pool, held)"
  show ?thesis
  proof (cases "h = slot_tag pool @ ''?''")
    case True
    then show ?thesis
      using ok unfolding step by (simp add: slots_ok_def releaseWorkerSlot_def parse_fallback held)
  next
    case False
    then obtain i where i: "i < length (sp_busy pool)" "sp_busy pool ! i" "h = formatSlotId pool (i + 1)"
      using ok by (auto simp: slots_ok_def held)
    have rel: "releaseWorkerSlot pool h = pool\<lparr>sp_busy := (sp_busy pool)[i := False]\<rparr>"
      using i by (simp add: releaseWorkerSlot_def parse_format)
    let ?S = "(\<lambda>j. formatSlotId pool (j + 1)) ` {j. j < length (sp_busy pool) \<and> sp_busy pool ! j}"
    have d: "distinct (filter (\<lambda>i. i \<noteq> slot_tag pool @ ''?'') (xs @ ys))" "h \<notin> set (xs @ ys)"
      using ok False by (auto simp: slots_ok_def held)
    have "set (xs @ ys) - {slot_tag pool @ ''?''} = ?S - {h}"
      using ok d(2) by (auto simp: slots_ok_def held)
    then show ?thesis
      using d(1) busy_names_upd [OF i(1), of False] unfolding step rel by (simp add: slots_ok_def i(3))
  qed
qed simp

lemma pool_step_ok: "slots_ok s \<Longrightarrow> slots_ok (pool_step s ev)"
  using take_ok give_ok by (cases s; cases ev) auto

interpretation slots: kept_invariant pool_step slots_ok
  by unfold_locales (rule pool_step_ok)

lemma pool_step_size: "length (sp_busy (fst (pool_step s ev))) = length (sp_busy (fst s))"
  by (cases s; cases ev) (auto simp: acquireWorkerSlot_def releaseWorkerSlot_def Let_def split: option.splits)

section \<open>Properties\<close>

text \<open>
  C37. Two workers never hold the same slot: from a fresh pool, whatever workers take and return slots in
  whatever order, the ids held at one time, other than the fallback id of a full pool, are distinct, and the
  slots marked busy are exactly theirs.
\<close>

theorem slots_exclusive:
  assumes "foldl pool_step (createWorkerSlotPool p n, []) evs = (pool, held)"
  shows "distinct (filter (\<lambda>i. i \<noteq> slot_tag pool @ ''?'') held) \<and>
    set held - {slot_tag pool @ ''?''} = (\<lambda>i. formatSlotId pool (i + 1)) ` {i. i < length (sp_busy pool) \<and> sp_busy pool ! i}"
proof -
  have "slots_ok (createWorkerSlotPool p n, [])"
    by (simp add: slots_ok_def createWorkerSlotPool_def)
  then show ?thesis
    using slots.run_good [of "(createWorkerSlotPool p n, [])" evs] assms by (simp add: slots_ok_def)
qed

theorem slots_exclusive_witness:
  "distinct (filter (\<lambda>i. i \<noteq> ''probe-W?'') [''probe-W02'', ''probe-W01'', ''probe-W?''])"
proof -
  have s: "foldl pool_step (createWorkerSlotPool PProbe 2, []) [Take, Take, Give 0, Take, Take] =
      (\<lparr>sp_prefix = PProbe, sp_letter = ''W'', sp_busy = [True, True]\<rparr>, [''probe-W02'', ''probe-W01'', ''probe-W?''])"
    by code_simp
  then show ?thesis
    using slots_exclusive [OF s] by (simp add: slot_tag_def prefixName_def)
qed

text \<open>
  Returning the id just acquired restores the pool, on a full pool too, where nothing was taken.
\<close>

theorem acquire_release: "releaseWorkerSlot (snd (acquireWorkerSlot pool)) (fst (acquireWorkerSlot pool)) = pool"
proof (cases "first_free (sp_busy pool)")
  case None
  then show ?thesis by (simp add: acquireWorkerSlot_def releaseWorkerSlot_def parse_fallback)
next
  case (Some i)
  with first_free_Some have "i < length (sp_busy pool)" "\<not> sp_busy pool ! i" by blast+
  then show ?thesis
    using Some by (simp add: acquireWorkerSlot_def releaseWorkerSlot_def parse_format list_update_same_conv)
qed

end
