(* ===== verification/IntegrationFilter.thy ===== *)
theory IntegrationFilter
  imports JsStd
begin

text \<open>
  \<^verbatim>\<open>src/utils/integrationFilter.ts\<close> and \<^verbatim>\<open>src/utils/pollingCompatibility.ts\<close>: is a discovered asset still in
  the scope of its integration, and which polling methods suit its source. A JSON value that should be
  an array of strings is \<^term>\<open>None\<close> when it is no array; an element that is no string is \<^term>\<open>None\<close>.
\<close>

section \<open>Wildcard patterns\<close>

definition star :: char where
  "star = CHR ''*''"

definition matchesWildcard :: "string \<Rightarrow> string \<Rightarrow> bool" where
  "matchesWildcard pattern value =
     (let p = toLowerCase pattern; v = toLowerCase value
      in if p = [star] then True
         else if startsWith p [star] \<and> endsWith p [star] \<and> length p > 2
         then includes_str v (butlast (drop 1 p))
         else if startsWith p [star] then endsWith v (drop 1 p)
         else if endsWith p [star] then startsWith v (butlast p)
         else v = p)"

definition asStringArray :: "string option list option \<Rightarrow> string list" where
  "asStringArray v =
     (case v of None \<Rightarrow> [] | Some xs \<Rightarrow> List.map_filter (\<lambda>x. if truthy x then x else None) xs)"

section \<open>The filter\<close>

record filterConfig =
  fc_deviceInclude :: "string option list option"
  fc_deviceExclude :: "string option list option"
  fc_ouInclude :: "string option list option"
  fc_ouExclude :: "string option list option"

record assetLite =
  al_hostname :: "string option"
  al_learnedLocation :: "string option"
  al_adOuPath :: "string option"

text \<open>Included, or excluded with the reason.\<close>

datatype filterResult = Included | Excluded (filter_reason: string)

definition assetMatchesIntegrationFilter :: "assetLite \<Rightarrow> string \<Rightarrow> filterConfig \<Rightarrow> filterResult" where
  "assetMatchesIntegrationFilter a type cfg =
     (if type = ''fortimanager'' \<or> type = ''fortigate'' \<or> type = ''entraid''
      then
        (let inc = asStringArray (fc_deviceInclude cfg);
             exc = asStringArray (fc_deviceExclude cfg);
             candidate = or_str (al_hostname a) []
         in if candidate = [] then Included
            else if inc \<noteq> []
            then (if list_ex (\<lambda>p. matchesWildcard p candidate) inc then Included
                  else Excluded (''Excluded by '' @ type @ '' integration deviceInclude ('' @ candidate @ '' matches no pattern)''))
            else (case find (\<lambda>p. matchesWildcard p candidate) exc of
                    Some blocked \<Rightarrow> Excluded (''Excluded by '' @ type @ '' integration deviceExclude pattern \"'' @ blocked @ ''\"'')
                  | None \<Rightarrow> Included))
      else if type = ''activedirectory''
      then
        (let inc = asStringArray (fc_ouInclude cfg);
             exc = asStringArray (fc_ouExclude cfg);
             ouPath = trim (or_str (al_adOuPath a) (or_str (al_learnedLocation a) []));
             candidates = filter (\<lambda>c. c \<noteq> [])
               [ouPath, if truthy (al_hostname a) then ''CN='' @ the (al_hostname a) @ '','' @ ouPath else []]
         in if ouPath = [] then Included
            else if inc \<noteq> []
            then (if list_ex (\<lambda>p. list_ex (matchesWildcard p) candidates) inc then Included
                  else Excluded (''Excluded by activedirectory integration ouInclude (no pattern matches OU \"'' @ ouPath @ ''\")''))
            else (case find (\<lambda>p. list_ex (matchesWildcard p) candidates) exc of
                    Some blocked \<Rightarrow> Excluded (''Excluded by activedirectory integration ouExclude pattern \"'' @ blocked @ ''\"'')
                  | None \<Rightarrow> Included))
      else Included)"

section \<open>Polling methods\<close>

datatype pollingMethod = RestApi | Snmp | Winrm | Ssh | Icmp | Disabled | Agent

datatype assetSourceKind = KFortimanager | KFortigate | KActivedirectory | KEntraid | KWindowsserver | KManual

definition ALL_METHODS :: "pollingMethod list" where
  "ALL_METHODS = [RestApi, Snmp, Winrm, Ssh, Icmp, Disabled, Agent]"

fun COMPATIBILITY :: "assetSourceKind \<Rightarrow> pollingMethod list" where
  "COMPATIBILITY KFortimanager = [RestApi, Snmp, Ssh, Icmp, Disabled]"
| "COMPATIBILITY KFortigate = [RestApi, Snmp, Ssh, Icmp, Disabled]"
| "COMPATIBILITY KActivedirectory = [Icmp, Winrm, Ssh, Disabled, Agent]"
| "COMPATIBILITY KEntraid = [Icmp, Winrm, Ssh, Disabled, Agent]"
| "COMPATIBILITY KWindowsserver = [Icmp, Winrm, Ssh, Disabled, Agent]"
| "COMPATIBILITY KManual = ALL_METHODS"

definition assetSourceKindFromIntegrationType :: "string option \<Rightarrow> assetSourceKind" where
  "assetSourceKindFromIntegrationType t =
     (if \<not> truthy t then KManual
      else if the t = ''fortimanager'' then KFortimanager
      else if the t = ''fortigate'' then KFortigate
      else if the t = ''activedirectory'' then KActivedirectory
      else if the t = ''entraid'' then KEntraid
      else if the t = ''windowsserver'' then KWindowsserver
      else KManual)"

definition isPollingMethodCompatible :: "assetSourceKind \<Rightarrow> pollingMethod \<Rightarrow> bool" where
  "isPollingMethodCompatible source meth \<longleftrightarrow> meth \<in> set (COMPATIBILITY source)"

definition compatibleMethodsFor :: "assetSourceKind \<Rightarrow> pollingMethod list" where
  "compatibleMethodsFor source = filter (\<lambda>m. m \<in> set (COMPATIBILITY source)) ALL_METHODS"

fun methodToken :: "pollingMethod \<Rightarrow> string" where
  "methodToken RestApi = ''rest_api''" | "methodToken Snmp = ''snmp''" | "methodToken Winrm = ''winrm''"
| "methodToken Ssh = ''ssh''" | "methodToken Icmp = ''icmp''" | "methodToken Disabled = ''disabled''"
| "methodToken Agent = ''agent''"

definition isPollingMethod :: "string \<Rightarrow> bool" where
  "isPollingMethod v \<longleftrightarrow> v \<in> set (map methodToken ALL_METHODS)"

fun pollingMethodLabel :: "pollingMethod \<Rightarrow> string" where
  "pollingMethodLabel RestApi = ''REST API''" | "pollingMethodLabel Snmp = ''SNMP''"
| "pollingMethodLabel Winrm = ''WinRM''" | "pollingMethodLabel Ssh = ''SSH''" | "pollingMethodLabel Icmp = ''ICMP''"
| "pollingMethodLabel Disabled = ''Disabled''" | "pollingMethodLabel Agent = ''Polaris Agent''"

lemma compatible_methods: "set (compatibleMethodsFor source) = {m. isPollingMethodCompatible source m}"
  by (cases source) (auto simp: compatibleMethodsFor_def isPollingMethodCompatible_def ALL_METHODS_def)

section \<open>What a pattern means\<close>

text \<open>The reference: a star stands for any text, every other character for itself.\<close>

fun glob :: "string \<Rightarrow> string \<Rightarrow> bool" where
  "glob [] v = (v = [])"
| "glob (c # p) v =
     (if c = star then list_ex (\<lambda>k. glob p (drop k v)) [0 ..< Suc (length v)]
      else v \<noteq> [] \<and> hd v = c \<and> glob p (tl v))"

declare glob.simps(2) [simp del]

lemma glob_plain: "star \<notin> set b \<Longrightarrow> glob (b @ p) v \<longleftrightarrow> (\<exists>u. v = b @ u \<and> glob p u)"
proof (induction b arbitrary: v)
  case (Cons c b)
  then show ?case by (cases v) (auto simp: glob.simps(2) [of c])
qed simp

lemma glob_star: "glob (star # p) v \<longleftrightarrow> (\<exists>u w. v = u @ w \<and> glob p w)"
proof -
  have "glob (star # p) v \<longleftrightarrow> (\<exists>k \<le> length v. glob p (drop k v))"
    by (simp add: glob.simps(2) list_ex_iff Bex_def less_Suc_eq_le del: upt_Suc)
  also have "\<dots> \<longleftrightarrow> (\<exists>u w. v = u @ w \<and> glob p w)"
    by (metis append_eq_conv_conj append_take_drop_id le_add1 length_append)
  finally show ?thesis .
qed

lemma toLowerCase_simps [simp]: "toLowerCase (s @ t) = toLowerCase s @ toLowerCase t" "toLowerCase [star] = [star]"
  by (simp_all add: toLowerCase_def lower_char_def star_def)

lemma matches_glob:
  assumes "star \<notin> set (toLowerCase b)" "b \<noteq> []" "pre \<in> {[], [star]}" "post \<in> {[], [star]}"
  shows "matchesWildcard (pre @ b @ post) v \<longleftrightarrow> glob (toLowerCase (pre @ b @ post)) (toLowerCase v)"
proof -
  define lb where "lb = toLowerCase b"
  have b: "star \<notin> set lb" "lb \<noteq> []" using assms(1,2) by (simp_all add: lb_def toLowerCase_def)
  have plain: "\<not> startsWith lb [star]" "\<not> startsWith (lb @ [star]) [star]" "\<not> endsWith lb [star]" "\<not> endsWith (star # lb) [star]"
    using b by (auto simp: startsWith_iff endsWith_iff neq_Nil_conv Cons_eq_append_conv)
  have ends: "endsWith (star # lb @ [star]) [star]" "endsWith (lb @ [star]) [star]" "startsWith (star # x) [star]" for x
    by (auto simp: startsWith_iff endsWith_iff)
  have g: "glob lb u \<longleftrightarrow> u = lb" "glob (lb @ [star]) u \<longleftrightarrow> startsWith u lb" for u
    using glob_plain [OF b(1), of "[]"] glob_plain [OF b(1), of "[star]"] by (auto simp: startsWith_iff glob_star)
  have mw: "matchesWildcard p v =
      (if lp = [star] then True
       else if startsWith lp [star] \<and> endsWith lp [star] \<and> length lp > 2 then includes_str lv (butlast (drop 1 lp))
       else if startsWith lp [star] then endsWith lv (drop 1 lp)
       else if endsWith lp [star] then startsWith lv (butlast lp) else lv = lp)"
    if "lp = toLowerCase p" "lv = toLowerCase v" for p lp lv
    by (simp add: matchesWildcard_def Let_def that)
  have "lb \<noteq> [star]" "\<not> length lb = 0" using b by auto
  note rules = mw [OF _ refl] plain ends g glob_star b this
  consider "pre = []" "post = []" | "pre = []" "post = [star]" | "pre = [star]" "post = []" | "pre = [star]" "post = [star]"
    using assms(3,4) by auto
  then show ?thesis
  proof cases
    case 1
    then show ?thesis using rules(1) [of lb b] rules by (simp add: lb_def [symmetric])
  next
    case 2
    then show ?thesis using rules(1) [of "lb @ [star]" "b @ [star]"] rules by (simp add: lb_def [symmetric])
  next
    case 3
    then show ?thesis using rules(1) [of "star # lb" "star # b"] rules toLowerCase_simps(1) [of "[star]" b]
      by (simp add: lb_def [symmetric] endsWith_iff [of _ lb])
  next
    case 4
    then show ?thesis using rules(1) [of "star # lb @ [star]" "star # b @ [star]"] rules toLowerCase_simps(1) [of "[star]" "b @ [star]"]
      by (simp add: lb_def [symmetric] includes_iff startsWith_iff [of _ lb]) blast
  qed
qed

text \<open>
  A filter pattern means what an operator expects of it: a pattern made of a text with no star, possibly with a
  star before it, after it or on both sides, matches a value exactly when the value, compared without regard to
  case, has that text with anything in place of the stars.
\<close>

theorem wildcard_is_glob:
  assumes "star \<notin> set (toLowerCase b)" "b \<noteq> []" "pre \<in> {[], [star]}" "post \<in> {[], [star]}"
  shows "matchesWildcard (pre @ b @ post) v \<longleftrightarrow> glob (toLowerCase (pre @ b @ post)) (toLowerCase v)"
  by (rule matches_glob [OF assms])

theorem wildcard_is_glob_witness: "matchesWildcard ''*-FW*'' ''site1-fw-a'' \<longleftrightarrow> glob ''*-fw*'' ''site1-fw-a''"
proof -
  have "toLowerCase ''-FW'' = ''-fw''" "toLowerCase ''*-FW*'' = ''*-fw*''" "toLowerCase ''site1-fw-a'' = ''site1-fw-a''"
    by code_simp+
  then show ?thesis using wildcard_is_glob [of "''-FW''" "''*''" "''*''" "''site1-fw-a''"] by (simp add: star_def)
qed

end
