(* ===== verification/DependencyTree.thy ===== *)
theory DependencyTree
  imports Blocks "HOL-Library.List_Lexorder" "HOL-Library.Char_ord"
begin

text \<open>
  \<^verbatim>\<open>src/services/dependencyTreeService.ts\<close> and the dependency routes of \<^verbatim>\<open>src/api/routes/assets.ts\<close>: which
  firewall, switch or access point depends on which, and which assets are suppressed because everything they
  depend on is down. The graph is built from discovery signals, layered by breadth-first search, stored, and may
  be overridden by an operator. A \<^verbatim>\<open>Map\<close> that is only looked up is a partial function, one that is iterated is
  a list in insertion order; a string key joined from ids is the tuple of the ids. The edges inferred from
  interface names are an argument of the recomputation.
\<close>

section \<open>Edges\<close>

datatype detectedVia = ViaController | ViaInterface | ViaLldp | ViaManual

datatype dependencySource = Computed | Override

record topology =
  tp_controllerFortigate :: "string option"
  tp_parentSwitch :: "string option"

record depAsset =
  da_id :: string
  da_hostname :: "string option"
  da_assetType :: string
  da_fortinetTopology :: "topology option"

record dependencyEdge =
  de_child :: string
  de_parent :: string
  de_via :: detectedVia

definition byHostname :: "depAsset list \<Rightarrow> string \<Rightarrow> depAsset option" where
  "byHostname assets h = find (\<lambda>a. truthy (da_hostname a) \<and> toLowerCase (the (da_hostname a)) = h) (rev assets)"

definition byId :: "depAsset list \<Rightarrow> string \<Rightarrow> depAsset option" where
  "byId assets i = find (\<lambda>a. da_id a = i) (rev assets)"

definition add_edge :: "dependencyEdge list \<Rightarrow> dependencyEdge \<Rightarrow> dependencyEdge list" where
  "add_edge es e = (if de_child e = de_parent e \<or> e \<in> set es then es else es @ [e])"

text \<open>The controller named by a host name, if it has the required type.\<close>

definition controller_of :: "depAsset list \<Rightarrow> string option \<Rightarrow> string \<Rightarrow> string option" where
  "controller_of assets host type =
     (case byHostname assets (toLowerCase (the host)) of
        Some p \<Rightarrow> if da_assetType p = type then Some (da_id p) else None
      | None \<Rightarrow> None)"

definition controller_edge :: "depAsset list \<Rightarrow> depAsset \<Rightarrow> dependencyEdge list" where
  "controller_edge assets a =
     (case da_fortinetTopology a of
        None \<Rightarrow> []
      | Some topo \<Rightarrow>
          (let parent =
             (if da_assetType a = ''switch''
              then (if truthy (tp_controllerFortigate topo) then controller_of assets (tp_controllerFortigate topo) ''firewall'' else None)
              else if da_assetType a = ''access_point''
              then (if truthy (tp_parentSwitch topo) then controller_of assets (tp_parentSwitch topo) ''switch''
                    else if truthy (tp_controllerFortigate topo) then controller_of assets (tp_controllerFortigate topo) ''firewall''
                    else None)
              else None)
           in case parent of None \<Rightarrow> [] | Some p \<Rightarrow> [\<lparr>de_child = da_id a, de_parent = p, de_via = ViaController\<rparr>]))"

definition both_ways :: "depAsset list \<Rightarrow> detectedVia \<Rightarrow> string \<times> string \<Rightarrow> dependencyEdge list" where
  "both_ways assets via e =
     (case (byId assets (fst e), byId assets (snd e)) of
        (Some a, Some b) \<Rightarrow> [\<lparr>de_child = da_id a, de_parent = da_id b, de_via = via\<rparr>,
                             \<lparr>de_child = da_id b, de_parent = da_id a, de_via = via\<rparr>]
      | _ \<Rightarrow> [])"

definition buildDependencyEdgesFromInputs ::
  "depAsset list \<Rightarrow> (string \<times> string) list \<Rightarrow> (string \<times> string) list \<Rightarrow> dependencyEdge list" where
  "buildDependencyEdgesFromInputs assets interfaceEdges lldpEdges =
     foldl add_edge []
       (concat (map (controller_edge assets) assets) @ concat (map (both_ways assets ViaInterface) interfaceEdges) @
        concat (map (both_ways assets ViaLldp) lldpEdges))"

fun physicalRank :: "detectedVia \<Rightarrow> nat" where
  "physicalRank ViaInterface = 3"
| "physicalRank ViaLldp = 2"
| "physicalRank ViaController = 1"
| "physicalRank ViaManual = 0"

section \<open>Layers\<close>

type_synonym layers = "string \<rightharpoonup> nat"

text \<open>A \<^verbatim>\<open>Set\<close> filled in the order of a list; the neighbours of an asset.\<close>

definition nub :: "'a list \<Rightarrow> 'a list" where
  "nub xs = rev (remdups (rev xs))"

definition is_physical :: "dependencyEdge \<Rightarrow> bool" where
  "is_physical e \<longleftrightarrow> de_via e = ViaInterface \<or> de_via e = ViaLldp"

definition links :: "(dependencyEdge \<Rightarrow> bool) \<Rightarrow> dependencyEdge list \<Rightarrow> (string \<times> string) list" where
  "links P edges = concat (map (\<lambda>e. [(de_child e, de_parent e), (de_parent e, de_child e)]) (filter P edges))"

definition neighbors :: "(string \<times> string) list \<Rightarrow> string \<Rightarrow> string list" where
  "neighbors adj a = nub (map snd (filter (\<lambda>l. fst l = a) adj))"

text \<open>One pass over the neighbours: the layers, and what is pushed on the queue.\<close>

fun label_new :: "nat \<Rightarrow> string list \<Rightarrow> layers \<Rightarrow> layers \<times> string list" where
  "label_new k [] L = (L, [])"
| "label_new k (n # ns) L =
     (if L n \<noteq> None then label_new k ns L
      else (let (L', pushed) = label_new k ns (L(n \<mapsto> k)) in (L', n # pushed)))"

lemma label_new_dom: "label_new k ns L = (L', pushed) \<Longrightarrow> dom L' = dom L \<union> set ns \<and> set pushed = set ns - dom L"
  by (induction ns arbitrary: L L' pushed) (auto simp: Let_def split: if_splits prod.splits)

lemma set_neighbors [simp]: "set (neighbors adj a) = {b. (a, b) \<in> set adj}"
  by (auto simp: neighbors_def nub_def image_iff)

function physicalBfs :: "(string \<times> string) list \<Rightarrow> string list \<Rightarrow> layers \<Rightarrow> layers" where
  "physicalBfs adj [] L = L"
| "physicalBfs adj (cur # queue) L =
     (let (L', pushed) = label_new (the (L cur) + 1) (neighbors adj cur) L
      in physicalBfs adj (queue @ pushed) L')"
  by pat_completeness auto
termination
proof (relation "inv_image (finite_psubset <*lex*> less_than) (\<lambda>(adj, q, L). (snd ` set adj - dom L, length q))", goal_cases)
  case (2 adj cur queue L p L' pushed)
  then have "label_new (the (L cur) + 1) (neighbors adj cur) L = (L', pushed)" by simp
  note d = label_new_dom [OF this]
  have sub: "snd ` set adj - dom L' \<subseteq> snd ` set adj - dom L" using d by auto
  have "snd ` set adj - dom L' \<noteq> snd ` set adj - dom L" if "b \<in> set pushed" for b
  proof -
    have "(cur, b) \<in> set adj" "b \<notin> dom L" "b \<in> dom L'" using that d by auto
    then have "b \<in> snd ` set adj - dom L" "b \<notin> snd ` set adj - dom L'" by force+
    then show ?thesis by metis
  qed
  with sub show ?case by (cases pushed) (auto simp: finite_psubset_def)
qed (simp add: wf_inv_image wf_lex_prod)

text \<open>The controller neighbour with the least layer, the first one on a tie.\<close>

fun best_parent :: "layers \<Rightarrow> string list \<Rightarrow> (string \<times> nat) option \<Rightarrow> (string \<times> nat) option" where
  "best_parent L [] best = best"
| "best_parent L (n # ns) best =
     best_parent L ns
       (case L n of
          None \<Rightarrow> best
        | Some k \<Rightarrow> (case best of None \<Rightarrow> Some (n, k) | Some (_, b) \<Rightarrow> if k < b then Some (n, k) else best))"

fun bucket_add :: "string \<Rightarrow> string \<Rightarrow> (string \<times> string list) list \<Rightarrow> (string \<times> string list) list" where
  "bucket_add p a [] = [(p, [a])]"
| "bucket_add p a ((q, ms) # bs) = (if p = q then (q, ms @ [a]) # bs else (q, ms) # bucket_add p a bs)"

fun buckets :: "(string \<times> string) list \<Rightarrow> layers \<Rightarrow> depAsset list \<Rightarrow> (string \<times> string list) list \<Rightarrow> (string \<times> string list) list" where
  "buckets ctl L [] bs = bs"
| "buckets ctl L (a # as) bs =
     (if L (da_id a) \<noteq> None then buckets ctl L as bs
      else (case best_parent L (neighbors ctl (da_id a)) None of
              None \<Rightarrow> buckets ctl L as bs
            | Some (p, _) \<Rightarrow> buckets ctl L as (bucket_add p (da_id a) bs)))"

text \<open>The members of a bucket form a simple path of at least three nodes.\<close>

definition in_bucket :: "(string \<times> string) list \<Rightarrow> string list \<Rightarrow> string \<Rightarrow> string list" where
  "in_bucket phys members i = filter (\<lambda>n. n \<in> set members) (neighbors phys i)"

definition chain_ends :: "(string \<times> string) list \<Rightarrow> string list \<Rightarrow> string list" where
  "chain_ends phys members = filter (\<lambda>i. length (in_bucket phys members i) = 1) members"

definition isSimpleChain :: "(string \<times> string) list \<Rightarrow> string list \<Rightarrow> bool" where
  "isSimpleChain phys members \<longleftrightarrow>
     length members \<ge> 3 \<and>
     sum_list (map (\<lambda>i. length (in_bucket phys members i)) members) = 2 * (length members - 1) \<and>
     length (chain_ends phys members) = 2 \<and>
     \<not> list_ex (\<lambda>i. length (in_bucket phys members i) > 2) members"

definition chain_key :: "depAsset list \<Rightarrow> string \<Rightarrow> string" where
  "chain_key assets i = toLowerCase (case byId assets i of None \<Rightarrow> i | Some a \<Rightarrow> keep (da_hostname a) i)"

definition attach_bucket ::
  "depAsset list \<Rightarrow> (string \<times> string) list \<Rightarrow> string \<times> string list \<Rightarrow> layers \<Rightarrow> layers" where
  "attach_bucket assets phys b L =
     (case b of (parentId, members) \<Rightarrow>
        (let k = the (L parentId) + 1
         in if isSimpleChain phys members
            then (let head = hd (sort_key (chain_key assets) (chain_ends phys members))
                  in physicalBfs phys [head] (L(head \<mapsto> k)))
            else physicalBfs phys members (foldl (\<lambda>L i. L(i \<mapsto> k)) L members)))"

text \<open>\<^verbatim>\<open>[...buckets.entries()].sort()\<close> compares the entries as strings.\<close>

definition entry_key :: "string \<times> string list \<Rightarrow> string" where
  "entry_key b = fst b @ concat (map (\<lambda>m. '','' @ m) (snd b))"

lemma bfs_dom: "dom L \<subseteq> dom (physicalBfs adj q L)"
proof (induction adj q L rule: physicalBfs.induct)
  case (2 adj cur queue L)
  obtain L' pushed where l: "label_new (the (L cur) + 1) (neighbors adj cur) L = (L', pushed)" by fastforce
  then show ?case using 2 [OF l [symmetric] refl] label_new_dom [OF l] by auto
qed simp

lemma fold_label_dom: "dom (foldl (\<lambda>L i. L(i \<mapsto> k)) L ms) = dom L \<union> set ms"
  by (induction ms arbitrary: L) auto

lemma chain_head: "isSimpleChain phys members \<Longrightarrow> hd (sort_key f (chain_ends phys members)) \<in> set members"
proof -
  assume "isSimpleChain phys members"
  then have "sort_key f (chain_ends phys members) \<noteq> []" by (auto simp: isSimpleChain_def simp flip: length_0_conv)
  then have "hd (sort_key f (chain_ends phys members)) \<in> set (sort_key f (chain_ends phys members))" by (rule hd_in_set)
  then show ?thesis by (simp add: chain_ends_def)
qed

lemma attach_dom: "dom L \<subseteq> dom (attach_bucket assets phys b L) \<and> (snd b \<noteq> [] \<longrightarrow> set (snd b) \<inter> dom (attach_bucket assets phys b L) \<noteq> {})"
proof (cases b)
  case (Pair p ms)
  show ?thesis
  proof (cases "isSimpleChain phys ms")
    case True
    let ?h = "hd (sort_key (chain_key assets) (chain_ends phys ms))" and ?k = "the (L p) + 1"
    show ?thesis
      using Pair True chain_head [OF True, of "chain_key assets"] bfs_dom [of "L(?h \<mapsto> ?k)" phys "[?h]"]
      by (auto simp: attach_bucket_def Let_def)
  next
    case False
    show ?thesis
      using Pair False bfs_dom [of "foldl (\<lambda>L i. L(i \<mapsto> the (L p) + 1)) L ms" phys ms] fold_label_dom [of "the (L p) + 1" L ms]
        bfs_dom [of "foldl (\<lambda>M i. M(i \<mapsto> the (L p) + 1)) L ms" phys ms]
      by (cases ms) (auto simp: attach_bucket_def Let_def)
  qed
qed

definition attach_round ::
  "depAsset list \<Rightarrow> (string \<times> string) list \<Rightarrow> (string \<times> string list) list \<Rightarrow> layers \<Rightarrow> layers" where
  "attach_round assets phys bs L = foldl (\<lambda>L b. attach_bucket assets phys b L) L (sort_key entry_key bs)"

definition good_buckets :: "string set \<Rightarrow> (string \<times> string list) list \<Rightarrow> bool" where
  "good_buckets S bs \<longleftrightarrow> (\<forall>b \<in> set bs. snd b \<noteq> [] \<and> set (snd b) \<subseteq> S)"

lemma good_bucket_add: "good_buckets S bs \<Longrightarrow> a \<in> S \<Longrightarrow> good_buckets S (bucket_add p a bs)"
  by (induction p a bs rule: bucket_add.induct) (auto simp: good_buckets_def)

lemma buckets_members: "good_buckets S bs \<Longrightarrow> da_id ` set as - dom L \<subseteq> S \<Longrightarrow> good_buckets S (buckets ctl L as bs)"
proof (induction as arbitrary: bs)
  case (Cons a as)
  have as: "da_id ` set as - dom L \<subseteq> S" using Cons.prems(2) by auto
  show ?case
  proof (cases "L (da_id a)")
    case None
    then have "da_id a \<in> S" using Cons.prems(2) by auto
    then have add: "good_buckets S (buckets ctl L as (bucket_add p (da_id a) bs))" for p
      by (intro Cons.IH good_bucket_add Cons.prems(1) as)
    show ?thesis
    proof (cases "best_parent L (neighbors ctl (da_id a)) None")
      case (Some pk)
      then show ?thesis using None add by (cases pk) simp
    qed (use None Cons.IH [OF Cons.prems(1) as] in simp)
  qed (use Cons.IH [OF Cons.prems(1) as] in simp)
qed simp

lemma fold_attach_dom:
  "dom L \<subseteq> dom (foldl (\<lambda>L b. attach_bucket assets phys b L) L bs) \<and>
   (\<forall>b \<in> set bs. snd b \<noteq> [] \<longrightarrow> set (snd b) \<inter> dom (foldl (\<lambda>L b. attach_bucket assets phys b L) L bs) \<noteq> {})"
proof (induction bs arbitrary: L)
  case (Cons b bs)
  let ?L = "attach_bucket assets phys b L"
  let ?M = "foldl (\<lambda>L b. attach_bucket assets phys b L) ?L bs"
  note here = attach_dom [of L assets phys b] and rest = Cons [of ?L]
  have up: "dom L \<subseteq> dom ?M" using here rest by (metis subset_trans)
  have "snd b \<noteq> [] \<longrightarrow> set (snd b) \<inter> dom ?M \<noteq> {}" using here rest by (metis Int_mono subset_empty subset_refl)
  with up rest show ?case by simp
qed simp

function attach_loop :: "depAsset list \<Rightarrow> (string \<times> string) list \<Rightarrow> (string \<times> string) list \<Rightarrow> layers \<Rightarrow> layers" where
  "attach_loop assets phys ctl L =
     (let bs = buckets ctl L assets []
      in if bs = [] then L else attach_loop assets phys ctl (attach_round assets phys bs L))"
  by pat_completeness auto
termination
proof (relation "measure (\<lambda>(assets, phys, ctl, L). card (da_id ` set assets - dom L))", goal_cases)
  case (2 assets phys ctl L bs)
  let ?L = "attach_round assets phys bs L" and ?S = "da_id ` set assets - dom L"
  have good: "good_buckets ?S bs"
    using buckets_members [of ?S "[]" assets L ctl] 2(1) by (simp add: good_buckets_def)
  obtain b where b: "b \<in> set bs" using 2(2) by (cases bs) auto
  then have "snd b \<noteq> []" "set (snd b) \<subseteq> ?S" using good by (simp_all add: good_buckets_def)
  moreover have up: "dom L \<subseteq> dom ?L" unfolding attach_round_def by (rule fold_attach_dom [THEN conjunct1])
  moreover have "snd b \<noteq> [] \<longrightarrow> set (snd b) \<inter> dom ?L \<noteq> {}"
    unfolding attach_round_def by (rule bspec [OF fold_attach_dom [THEN conjunct2]]) (simp add: b)
  ultimately obtain i where i: "i \<in> ?S" "i \<in> dom ?L" by (meson IntE ex_in_conv subsetD)
  have "da_id ` set assets - dom ?L \<subseteq> ?S" using up by (rule Diff_mono [OF subset_refl])
  moreover have "i \<notin> da_id ` set assets - dom ?L" using i(2) by simp
  ultimately have "card (da_id ` set assets - dom ?L) < card ?S" using i(1) by (intro psubset_card_mono) (simp, metis psubsetI)
  then show ?case by (simp only: in_measure prod.case)
qed simp

declare attach_loop.simps [simp del]

text \<open>One row per pair, the most physical signal; its place is that of the first.\<close>

definition same_pair :: "dependencyEdge \<Rightarrow> dependencyEdge \<Rightarrow> bool" where
  "same_pair e f \<longleftrightarrow> de_child e = de_child f \<and> de_parent e = de_parent f"

definition keep_best :: "layers \<Rightarrow> dependencyEdge list \<Rightarrow> dependencyEdge \<Rightarrow> dependencyEdge list" where
  "keep_best L best e =
     (case (L (de_child e), L (de_parent e)) of
        (Some c, Some p) \<Rightarrow>
          (if p + 1 \<noteq> c then best
           else (case find (same_pair e) best of
                   None \<Rightarrow> best @ [e]
                 | Some old \<Rightarrow>
                     (if physicalRank (de_via e) > physicalRank (de_via old)
                      then map (\<lambda>f. if same_pair e f then e else f) best else best)))
      | _ \<Rightarrow> best)"

record layerAssignment =
  la_layers :: layers
  la_keptEdges :: "dependencyEdge list"
  la_unresolved :: "string list"

definition firewalls :: "depAsset list \<Rightarrow> string list" where
  "firewalls assets = map da_id (filter (\<lambda>a. da_assetType a = ''firewall'') assets)"

definition physical_layers :: "depAsset list \<Rightarrow> (string \<times> string) list \<Rightarrow> layers" where
  "physical_layers assets phys =
     physicalBfs phys (sort (remdups (firewalls assets))) (\<lambda>i. if i \<in> set (firewalls assets) then Some 1 else None)"

definition assignLayers :: "depAsset list \<Rightarrow> dependencyEdge list \<Rightarrow> layerAssignment" where
  "assignLayers assets edges =
     (let phys = links is_physical edges;
          ctl = links (\<lambda>e. \<not> is_physical e) edges;
          L = attach_loop assets phys ctl (physical_layers assets phys)
      in \<lparr>la_layers = L, la_keptEdges = foldl (keep_best L) [] edges,
          la_unresolved = map da_id (filter (\<lambda>a. L (da_id a) = None) assets)\<rparr>)"

section \<open>Suppression\<close>

record suppressionAssetState =
  ss_id :: string
  ss_layer :: "nat option"
  ss_monitored :: bool
  ss_monitorStatus :: "string option"
  ss_dependencyTestUntil :: "int option"

definition stateById :: "suppressionAssetState list \<Rightarrow> string \<Rightarrow> suppressionAssetState option" where
  "stateById states i = find (\<lambda>s. ss_id s = i) (rev states)"

definition under_test :: "int \<Rightarrow> suppressionAssetState \<Rightarrow> bool" where
  "under_test now s \<longleftrightarrow> (case ss_dependencyTestUntil s of None \<Rightarrow> False | Some t \<Rightarrow> t > now)"

definition parentsOf :: "(string \<rightharpoonup> string list) \<Rightarrow> string \<Rightarrow> string list" where
  "parentsOf parents i = (case parents i of None \<Rightarrow> [] | Some ps \<Rightarrow> ps)"

definition seems_up :: "(string \<rightharpoonup> bool) \<Rightarrow> suppressionAssetState \<Rightarrow> bool" where
  "seems_up result s \<longleftrightarrow> ss_monitorStatus s \<noteq> Some ''down'' \<and> \<not> (case result (ss_id s) of None \<Rightarrow> False | Some b \<Rightarrow> b)"

text \<open>
  \<^verbatim>\<open>ids.some(p => isParentOk(p))\<close>, with the set of visited ids threaded through. An unmonitored parent is
  transparent: the walk goes on to its own parents.
\<close>

function some_parent_ok ::
  "suppressionAssetState list \<Rightarrow> (string \<rightharpoonup> string list) \<Rightarrow> (string \<rightharpoonup> bool) \<Rightarrow> int \<Rightarrow> string list \<Rightarrow> string list \<Rightarrow> bool \<times> string list" where
  "some_parent_ok states parents result now [] visited = (False, visited)"
| "some_parent_ok states parents result now (p # ps) visited =
     (if p \<in> set visited then some_parent_ok states parents result now ps visited
      else (case stateById states p of
              None \<Rightarrow> (True, p # visited)
            | Some s \<Rightarrow>
                (if under_test now s then some_parent_ok states parents result now ps (p # visited)
                 else if \<not> ss_monitored s
                 then (if parentsOf parents p = [] then (True, p # visited)
                       else (let r = some_parent_ok states parents result now (parentsOf parents p) (p # visited)
                             in if fst r then r else some_parent_ok states parents result now ps (snd r)))
                 else if seems_up result s then (True, p # visited)
                 else some_parent_ok states parents result now ps (p # visited))))"
  by pat_completeness auto

lemma some_parent_ok_visited:
  "some_parent_ok_dom (states, parents, result, now, ps, visited) \<Longrightarrow>
   set visited \<subseteq> set (snd (some_parent_ok states parents result now ps visited))"
proof (induction states parents result now ps visited rule: some_parent_ok.pinduct)
  case (2 states parents result now p ps visited)
  show ?case
  proof (cases "p \<in> set visited")
    case True
    then show ?thesis using 2(1,2) by (simp add: some_parent_ok.psimps)
  next
    case new: False
    show ?thesis
    proof (cases "stateById states p")
      case None
      then show ?thesis using 2(1) new by (simp add: some_parent_ok.psimps subset_insertI)
    next
      case (Some s)
      let ?r = "some_parent_ok states parents result now (parentsOf parents p) (p # visited)"
      consider "under_test now s" | "\<not> under_test now s" "ss_monitored s" | "\<not> under_test now s" "\<not> ss_monitored s" by blast
      then show ?thesis
      proof cases
        case 1
        then show ?thesis using 2(1) 2(3) [OF new Some] new Some by (simp add: some_parent_ok.psimps)
      next
        case b: 2
        then show ?thesis using 2(1) 2(6) [OF new Some] new Some by (auto simp: some_parent_ok.psimps)
      next
        case c: 3
        show ?thesis
        proof (cases "parentsOf parents p = [] \<or> fst ?r")
          case True
          then show ?thesis using 2(1) 2(4) [OF new Some c] new Some c by (auto simp: some_parent_ok.psimps Let_def)
        next
          case False
          then have "set (p # visited) \<subseteq> set (snd ?r)" "set (snd ?r) \<subseteq> set (snd (some_parent_ok states parents result now ps (snd ?r)))"
            using 2(4) [OF new Some c] 2(5) [OF new Some c _ refl] by simp_all
          then show ?thesis using 2(1) new Some c False by (auto simp: some_parent_ok.psimps Let_def)
        qed
      qed
    qed
  qed
qed (simp add: some_parent_ok.psimps)

lemma stateById_mem: "stateById states p = Some s \<Longrightarrow> s \<in> set states \<and> ss_id s = p"
  unfolding stateById_def by (drule find_SomeD) simp

termination some_parent_ok
proof (relation "inv_image (finite_psubset <*lex*> less_than)
    (\<lambda>(states, parents, result, now, ps, visited). (ss_id ` set states - set visited, length ps))", goal_cases)
  case 1
  show ?case by (simp add: wf_inv_image wf_lex_prod)
next
  case (5 states parents result now p ps visited s r)
  then have "set (p # visited) \<subseteq> set (snd r)" using some_parent_ok_visited [OF 5(8)] by simp
  moreover have "p \<in> ss_id ` set states" using stateById_mem [OF 5(2)] by auto
  ultimately show ?case using 5(1) by (auto simp: finite_psubset_def)
qed (auto simp: finite_psubset_def dest: stateById_mem)

definition layer_key :: "suppressionAssetState \<Rightarrow> nat" where
  "layer_key s = (case ss_layer s of None \<Rightarrow> 2 ^ 53 - 1 | Some n \<Rightarrow> n)"

definition settle ::
  "suppressionAssetState list \<Rightarrow> (string \<rightharpoonup> string list) \<Rightarrow> int \<Rightarrow> (string \<rightharpoonup> bool) \<Rightarrow> suppressionAssetState \<Rightarrow> (string \<rightharpoonup> bool)" where
  "settle states parents now result s =
     (let ps = parentsOf parents (ss_id s)
      in if ps = [] then result(ss_id s \<mapsto> False)
         else result(ss_id s \<mapsto> \<not> fst (some_parent_ok states parents result now ps [])))"

definition evaluateSuppression :: "suppressionAssetState list \<Rightarrow> (string \<rightharpoonup> string list) \<Rightarrow> int \<Rightarrow> (string \<rightharpoonup> bool)" where
  "evaluateSuppression states parents now =
     (let sorted = sort_key layer_key states
      in foldl (settle states parents now) (foldl (\<lambda>r s. r(ss_id s \<mapsto> False)) Map.empty sorted) sorted)"

section \<open>Stored state\<close>

record depAssetRow =
  dr_id :: string
  dr_hostname :: "string option"
  dr_assetType :: string
  dr_fortinetTopology :: "topology option"
  dr_discoveredByIntegrationId :: "string option"
  dr_monitored :: bool
  dr_monitorStatus :: "string option"
  dr_dependencyLayer :: "nat option"
  dr_dependencySuppressed :: bool
  dr_dependencySuppressedAt :: "int option"
  dr_dependencyTestUntil :: "int option"
  dr_dependencyTestStartedBy :: "string option"

record dependencyRow =
  dp_assetId :: string
  dp_parentAssetId :: string
  dp_source :: dependencySource
  dp_detectedVia :: detectedVia

record depWorld =
  dw_assets :: "depAssetRow list"
  dw_parents :: "dependencyRow list"
  dw_lldp :: "(string \<times> string option) list"
  dw_events :: "event list"

definition infraTypes :: "string list" where
  "infraTypes = [''firewall'', ''switch'', ''access_point'']"

definition depEvent :: "string \<Rightarrow> string \<Rightarrow> string option \<Rightarrow> string option \<Rightarrow> event" where
  "depEvent action i name actor =
     \<lparr>ev_action = action, ev_level = ''info'', ev_resourceType = ''asset'', ev_resourceId = Some i, ev_resourceName = name, ev_actor = actor\<rparr>"

section \<open>Recomputation\<close>

definition toDepAsset :: "depAssetRow \<Rightarrow> depAsset" where
  "toDepAsset a = \<lparr>da_id = dr_id a, da_hostname = dr_hostname a, da_assetType = dr_assetType a, da_fortinetTopology = dr_fortinetTopology a\<rparr>"

definition same_key :: "dependencyRow \<Rightarrow> dependencyRow \<Rightarrow> bool" where
  "same_key r q \<longleftrightarrow> dp_assetId r = dp_assetId q \<and> dp_parentAssetId r = dp_parentAssetId q \<and> dp_source r = dp_source q"

text \<open>\<^verbatim>\<open>createMany\<close> with \<^verbatim>\<open>skipDuplicates\<close> under \<^verbatim>\<open>@@unique([assetId, parentAssetId, source])\<close>.\<close>

definition create_skipping :: "dependencyRow list \<Rightarrow> dependencyRow list \<Rightarrow> dependencyRow list" where
  "create_skipping rows new = foldl (\<lambda>rs r. if list_ex (same_key r) rs then rs else rs @ [r]) rows new"

definition computedRow :: "dependencyEdge \<Rightarrow> dependencyRow" where
  "computedRow e = \<lparr>dp_assetId = de_child e, dp_parentAssetId = de_parent e, dp_source = Computed, dp_detectedVia = de_via e\<rparr>"

record recomputeResult =
  rr_scoped :: nat
  rr_edgesWritten :: nat
  rr_unresolved :: nat

definition inventoryOf :: "depWorld \<Rightarrow> depAssetRow list" where
  "inventoryOf w = filter (\<lambda>a. dr_assetType a \<in> set infraTypes) (dw_assets w)"

definition scopeOf :: "string option \<Rightarrow> depAssetRow list \<Rightarrow> string list" where
  "scopeOf integrationId inventory =
     remdups (map dr_id (if truthy integrationId then filter (\<lambda>a. dr_discoveredByIntegrationId a = integrationId) inventory else inventory))"

definition lldpEdgesOf :: "depAssetRow list \<Rightarrow> depWorld \<Rightarrow> (string \<times> string) list" where
  "lldpEdgesOf inventory w =
     map (\<lambda>(a, m). (a, the m)) (filter (\<lambda>(a, m). a \<in> dr_id ` set inventory \<and> truthy m) (dw_lldp w))"

definition recomputeDependencyTree :: "string option \<Rightarrow> (string \<times> string) list \<Rightarrow> depWorld \<Rightarrow> recomputeResult \<times> depWorld" where
  "recomputeDependencyTree integrationId interfaceEdges w =
     (let inventory = inventoryOf w
      in if inventory = [] then (\<lparr>rr_scoped = 0, rr_edgesWritten = 0, rr_unresolved = 0\<rparr>, w)
         else
           (let inScope = scopeOf integrationId inventory;
                depAssets = map toDepAsset inventory;
                assigned = assignLayers depAssets (buildDependencyEdgesFromInputs depAssets interfaceEdges (lldpEdgesOf inventory w));
                scopedKept = filter (\<lambda>e. de_child e \<in> set inScope) (la_keptEdges assigned);
                rest = filter (\<lambda>r. \<not> (dp_source r = Computed \<and> dp_assetId r \<in> set inScope)) (dw_parents w)
            in (\<lparr>rr_scoped = length inScope, rr_edgesWritten = length scopedKept, rr_unresolved = length (la_unresolved assigned)\<rparr>,
                w\<lparr>dw_parents := create_skipping rest (map computedRow scopedKept),
                  dw_assets := map (\<lambda>a. if dr_id a \<in> set inScope then a\<lparr>dr_dependencyLayer := la_layers assigned (dr_id a)\<rparr> else a) (dw_assets w)\<rparr>)))"

section \<open>Reconciliation\<close>

definition parentRows :: "dependencySource \<Rightarrow> dependencyRow list \<Rightarrow> string \<Rightarrow> string list" where
  "parentRows src rows i = map dp_parentAssetId (filter (\<lambda>r. dp_assetId r = i \<and> dp_source r = src) rows)"

definition loadEffectiveParents :: "dependencyRow list \<Rightarrow> string \<Rightarrow> string list option" where
  "loadEffectiveParents rows i =
     (if parentRows Override rows i \<noteq> [] then Some (parentRows Override rows i)
      else if parentRows Computed rows i \<noteq> [] then Some (parentRows Computed rows i)
      else None)"

definition toState :: "depAssetRow \<Rightarrow> suppressionAssetState" where
  "toState a = \<lparr>ss_id = dr_id a, ss_layer = dr_dependencyLayer a, ss_monitored = dr_monitored a, ss_monitorStatus = dr_monitorStatus a,
     ss_dependencyTestUntil = dr_dependencyTestUntil a\<rparr>"

definition test_over :: "int \<Rightarrow> depAssetRow \<Rightarrow> bool" where
  "test_over now a \<longleftrightarrow> (case dr_dependencyTestUntil a of None \<Rightarrow> False | Some t \<Rightarrow> t \<le> now)"

definition end_test :: "depAssetRow \<Rightarrow> depAssetRow" where
  "end_test a = a\<lparr>dr_dependencyTestUntil := None, dr_dependencyTestStartedBy := None\<rparr>"

definition expireTests :: "int \<Rightarrow> depWorld \<Rightarrow> depWorld" where
  "expireTests now w =
     w\<lparr>dw_assets := map (\<lambda>a. if test_over now a then end_test a else a) (dw_assets w),
       dw_events := dw_events w @ map (\<lambda>a. depEvent ''asset.dependency_test.expired'' (dr_id a) (dr_hostname a) None) (filter (test_over now) (dw_assets w))\<rparr>"

definition setSuppressed :: "int \<Rightarrow> bool \<Rightarrow> depAssetRow \<Rightarrow> depAssetRow" where
  "setSuppressed now b a = a\<lparr>dr_dependencySuppressed := b, dr_dependencySuppressedAt := if b then Some now else None\<rparr>"

definition desired :: "int \<Rightarrow> depWorld \<Rightarrow> string \<Rightarrow> bool" where
  "desired now w i =
     (case evaluateSuppression (map toState (dw_assets w)) (loadEffectiveParents (dw_parents w)) now i of None \<Rightarrow> False | Some b \<Rightarrow> b)"

definition transitions :: "int \<Rightarrow> depWorld \<Rightarrow> depAssetRow list" where
  "transitions now w = filter (\<lambda>a. desired now w (dr_id a) \<noteq> dr_dependencySuppressed a) (dw_assets w)"

definition reconcileDependencySuppression :: "int \<Rightarrow> depWorld \<Rightarrow> (nat \<times> nat) \<times> depWorld" where
  "reconcileDependencySuppression now w0 =
     (let w = expireTests now w0; ts = transitions now w
      in if dw_assets w = [] then ((0, 0), w)
         else if ts = [] then ((length (dw_assets w), 0), w)
         else ((length (dw_assets w), length ts),
               w\<lparr>dw_assets := map (\<lambda>a. if dr_id a \<in> dr_id ` set ts then setSuppressed now (desired now w (dr_id a)) a else a) (dw_assets w),
                 dw_events := dw_events w @
                   map (\<lambda>a. depEvent (if desired now w (dr_id a) then ''monitor.dependency_suppressed'' else ''monitor.dependency_resumed'')
                              (dr_id a) (dr_hostname a) None) (filter dr_monitored ts)\<rparr>))"

section \<open>Overrides and tests\<close>

definition findAsset :: "string \<Rightarrow> depWorld \<Rightarrow> depAssetRow option" where
  "findAsset i w = find (\<lambda>a. dr_id a = i) (dw_assets w)"

definition effectiveParentsOf :: "dependencyRow list \<Rightarrow> string \<Rightarrow> string list" where
  "effectiveParentsOf rows i =
     (if parentRows Override rows i \<noteq> [] then parentRows Override rows i else parentRows Computed rows i)"

lemma effective_child: "q \<in> set (effectiveParentsOf rows i) \<Longrightarrow> i \<in> dp_assetId ` set rows"
  by (auto simp: effectiveParentsOf_def parentRows_def split: if_splits)

function climbs_to :: "dependencyRow list \<Rightarrow> string \<Rightarrow> string list \<Rightarrow> string list \<Rightarrow> bool" where
  "climbs_to rows i [] visited = False"
| "climbs_to rows i (cur # queue) visited =
     (if cur = i then True
      else if cur \<in> set visited then climbs_to rows i queue visited
      else climbs_to rows i (queue @ effectiveParentsOf rows cur) (cur # visited))"
  by pat_completeness auto
termination
proof (relation "inv_image (finite_psubset <*lex*> less_than) (\<lambda>(rows, i, q, visited). (dp_assetId ` set rows - set visited, length q))", goal_cases)
  case (3 rows i cur queue visited)
  show ?case
  proof (cases "effectiveParentsOf rows cur")
    case (Cons q qs)
    then have "cur \<in> dp_assetId ` set rows - set visited" using effective_child [of q rows cur] 3(2) by simp
    then show ?thesis by (auto simp: finite_psubset_def)
  qed (auto simp: finite_psubset_def)
qed (auto simp: wf_inv_image wf_lex_prod)

definition logDep :: "event \<Rightarrow> (depWorld, unit) io" where
  "logDep ev = modifyIO (\<lambda>w. w\<lparr>dw_events := dw_events w @ [ev]\<rparr>)"

definition assetMissing :: error where
  "assetMissing = AppError 404 ''Asset not found''"

definition overrideRow :: "string \<Rightarrow> string \<Rightarrow> dependencyRow" where
  "overrideRow i p = \<lparr>dp_assetId = i, dp_parentAssetId = p, dp_source = Override, dp_detectedVia = ViaManual\<rparr>"

definition check_override :: "string \<Rightarrow> string list \<Rightarrow> depWorld \<Rightarrow> unit result" where
  "check_override i proposedIds w =
     (if i \<in> set proposedIds then Inl (AppError 400 ''An asset cannot be its own dependency parent'')
      else if proposedIds = [] then Inr ()
      else
        (let proposed = filter (\<lambda>a. dr_id a \<in> set proposedIds) (dw_assets w);
             wrongType = filter (\<lambda>a. dr_assetType a \<notin> set infraTypes) proposed
         in if length proposed \<noteq> length proposedIds
            then Inl (AppError 400 ''One or more proposed parent assets not found'')
            else if wrongType \<noteq> []
            then Inl (AppError 400 (''Dependency parents must be firewall/switch/access_point: '' @
                   join '', '' (map (\<lambda>a. or_str (dr_hostname a) (dr_id a)) wrongType)))
            else if climbs_to (dw_parents w) i proposedIds []
            then Inl (AppError 400 ''Proposed override would form a dependency cycle'')
            else Inr ()))"

definition setOverride :: "string \<Rightarrow> string list \<Rightarrow> (depWorld, string list) io" where
  "setOverride i parentAssetIds =
     bindIO (getIO (findAsset i)) (\<lambda>found.
     case found of
       None \<Rightarrow> throwIO assetMissing
     | Some asset \<Rightarrow>
         (let proposedIds = nub parentAssetIds
          in bindIO (bindIO (getIO (check_override i proposedIds)) liftIO) (\<lambda>_.
             bindIO (modifyIO (\<lambda>w. w\<lparr>dw_parents :=
                       create_skipping (filter (\<lambda>r. \<not> (dp_assetId r = i \<and> dp_source r = Override)) (dw_parents w)) (map (overrideRow i) proposedIds)\<rparr>)) (\<lambda>_.
             bindIO (logDep (depEvent ''asset.dependency.override_set'' i (or_null (dr_hostname asset)) None)) (\<lambda>_.
             returnIO proposedIds)))))"

definition clearOverride :: "string \<Rightarrow> (depWorld, nat) io" where
  "clearOverride i =
     bindIO (getIO (findAsset i)) (\<lambda>found.
     case found of
       None \<Rightarrow> throwIO assetMissing
     | Some asset \<Rightarrow>
         bindIO (getIO (\<lambda>w. length (filter (\<lambda>r. dp_assetId r = i \<and> dp_source r = Override) (dw_parents w)))) (\<lambda>count.
         bindIO (modifyIO (\<lambda>w. w\<lparr>dw_parents := filter (\<lambda>r. \<not> (dp_assetId r = i \<and> dp_source r = Override)) (dw_parents w)\<rparr>)) (\<lambda>_.
         bindIO (if count > 0 then logDep (depEvent ''asset.dependency.override_cleared'' i (or_null (dr_hostname asset)) None) else returnIO ()) (\<lambda>_.
         returnIO count))))"

definition propagateAfterStatusChange :: "int \<Rightarrow> (depWorld, unit) io" where
  "propagateAfterStatusChange now = modifyIO (\<lambda>w. snd (reconcileDependencySuppression now w))"

definition updateAssetRow :: "string \<Rightarrow> (depAssetRow \<Rightarrow> depAssetRow) \<Rightarrow> (depWorld, unit) io" where
  "updateAssetRow i f = modifyIO (\<lambda>w. w\<lparr>dw_assets := map (\<lambda>a. if dr_id a = i then f a else a) (dw_assets w)\<rparr>)"

definition startDependencyTest :: "string \<Rightarrow> int \<Rightarrow> string option \<Rightarrow> int \<Rightarrow> (depWorld, int) io" where
  "startDependencyTest i durationMinutes username now =
     bindIO (getIO (findAsset i)) (\<lambda>found.
     case found of
       None \<Rightarrow> throwIO assetMissing
     | Some asset \<Rightarrow>
         (if dr_assetType asset \<notin> set infraTypes
          then throwIO (AppError 400 ''Dependency Test only applies to firewall / switch / access_point assets'')
          else
            (let until = now + durationMinutes * 60000
             in bindIO (updateAssetRow i (\<lambda>a. a\<lparr>dr_dependencyTestUntil := Some until, dr_dependencyTestStartedBy := Some (or_str username ''unknown'')\<rparr>)) (\<lambda>_.
                bindIO (propagateAfterStatusChange now) (\<lambda>_.
                bindIO (logDep (depEvent ''asset.dependency_test.started'' i (or_null (dr_hostname asset)) username)) (\<lambda>_.
                returnIO until))))))"

definition clearDependencyTest :: "string \<Rightarrow> string option \<Rightarrow> int \<Rightarrow> (depWorld, bool) io" where
  "clearDependencyTest i username now =
     bindIO (getIO (findAsset i)) (\<lambda>found.
     case found of
       None \<Rightarrow> throwIO assetMissing
     | Some asset \<Rightarrow>
         (if dr_dependencyTestUntil asset = None then returnIO True
          else
            bindIO (updateAssetRow i end_test) (\<lambda>_.
            bindIO (propagateAfterStatusChange now) (\<lambda>_.
            bindIO (logDep (depEvent ''asset.dependency_test.cleared'' i (or_null (dr_hostname asset)) username)) (\<lambda>_.
            returnIO False)))))"

end
