(* ===== verification/DependencySpec.thy ===== *)
theory DependencySpec
  imports DependencyTree
begin

text \<open>
  The dependency tree: the layers of cabled assets are their exact distances from the firewalls, the kept edges
  form an acyclic graph, recomputation is idempotent and leaves the operator's overrides alone, the suppression
  flags solve the all-parents-down equations, reconciliation converges, and setting an override keeps the graph
  acyclic while clearing one need not.
\<close>

section \<open>Breadth-first search\<close>

inductive hops :: "(string \<times> string) list \<Rightarrow> string set \<Rightarrow> nat \<Rightarrow> string \<Rightarrow> bool" for adj S where
  hops_root: "s \<in> S \<Longrightarrow> hops adj S 0 s"
| hops_step: "hops adj S k b \<Longrightarrow> (b, c) \<in> set adj \<Longrightarrow> hops adj S (Suc k) c"

abbreviation layer :: "layers \<Rightarrow> string \<Rightarrow> nat" where
  "layer L i \<equiv> the (L i)"

definition sound_layers :: "(string \<times> string) list \<Rightarrow> string set \<Rightarrow> layers \<Rightarrow> bool" where
  "sound_layers adj S L \<longleftrightarrow> (\<forall>s \<in> S. L s = Some 1) \<and> (\<forall>x \<in> dom L. \<exists>k. layer L x = Suc k \<and> hops adj S k x)"

definition closed_at :: "(string \<times> string) list \<Rightarrow> layers \<Rightarrow> string \<Rightarrow> bool" where
  "closed_at adj L x \<longleftrightarrow> (\<forall>y. (x, y) \<in> set adj \<longrightarrow> y \<in> dom L \<and> layer L y \<le> layer L x + 1)"

definition bfs_inv :: "(string \<times> string) list \<Rightarrow> string set \<Rightarrow> string list \<Rightarrow> layers \<Rightarrow> bool" where
  "bfs_inv adj S q L \<longleftrightarrow>
     sound_layers adj S L \<and> set q \<subseteq> dom L \<and> sorted (map (layer L) q) \<and>
     (q \<noteq> [] \<longrightarrow> (\<forall>x \<in> dom L. layer L x \<le> layer L (hd q) + 1)) \<and> (\<forall>x \<in> dom L - set q. closed_at adj L x)"

lemma label_new_fst: "fst (label_new k ns L) i = (if i \<in> set ns \<and> L i = None then Some k else L i)"
  by (induction ns arbitrary: L) (auto simp: Let_def case_prod_unfold)

lemma bfs_inv_step:
  assumes inv: "bfs_inv adj S (cur # q) L" and l: "label_new (layer L cur + 1) (neighbors adj cur) L = (L', pushed)"
  shows "bfs_inv adj S (q @ pushed) L'"
proof -
  let ?k = "layer L cur"
  have L': "L' i = (if (cur, i) \<in> set adj \<and> L i = None then Some (?k + 1) else L i)" for i
    using label_new_fst [of "?k + 1" "neighbors adj cur" L i] l by simp
  have pushed: "set pushed = {b. (cur, b) \<in> set adj} - dom L" using label_new_dom [OF l] by simp
  have old: "L' i = L i" if "i \<in> dom L" for i using that L' by auto
  have cur: "cur \<in> dom L" "sorted (map (layer L) q)" "\<forall>x \<in> set q. ?k \<le> layer L x" "\<forall>x \<in> dom L. layer L x \<le> ?k + 1"
      "set q \<subseteq> dom L" and sound: "sound_layers adj S L"
    using inv by (auto simp: bfs_inv_def)
  have dom: "dom L' = dom L \<union> set pushed" using L' pushed by (auto split: if_splits)
  have new: "L' x = Some (?k + 1)" if "x \<in> set pushed" for x using that pushed L' by auto
  obtain k where k: "?k = Suc k" "hops adj S k cur" using sound cur(1) by (auto simp: sound_layers_def)
  have "sound_layers adj S L'"
    unfolding sound_layers_def
  proof (intro conjI ballI)
    fix s assume "s \<in> S"
    then have "L s = Some 1" using sound by (simp add: sound_layers_def)
    then show "L' s = Some 1" using old [of s] by auto
  next
    fix x assume "x \<in> dom L'"
    then consider "x \<in> dom L" | "x \<in> set pushed" using dom by blast
    then show "\<exists>k. layer L' x = Suc k \<and> hops adj S k x"
    proof cases
      case 1
      then show ?thesis using sound old by (simp add: sound_layers_def)
    next
      case 2
      then show ?thesis using new k pushed hops_step [OF k(2)] by auto
    qed
  qed
  note sound' = this
  have top: "layer L' x \<le> ?k + 1" if "x \<in> dom L'" for x
  proof (cases "x \<in> dom L")
    case True
    then show ?thesis using cur(4) old [OF True] by simp
  next
    case False
    then show ?thesis using that dom new [of x] by simp
  qed
  have sub: "set (q @ pushed) \<subseteq> dom L'" using cur(5) dom by auto
  have same: "layer L' x = layer L x" if "x \<in> set q" for x using old [OF subsetD [OF cur(5) that]] by simp
  have q: "map (layer L') q = map (layer L) q" using same by simp
  have "sorted (map (layer L') pushed)" using new by (simp add: sorted_wrt_map sorted_wrt_iff_nth_less)
  moreover have "\<forall>x \<in> set q. \<forall>y \<in> set pushed. layer L' x \<le> layer L' y" using same new cur(4,5) by auto
  moreover have "sorted (map (layer L') q)" unfolding q by (rule cur(2))
  ultimately have "sorted (map (layer L') (q @ pushed))" by (simp add: sorted_append)
  moreover have "\<forall>x \<in> dom L'. layer L' x \<le> layer L' (hd (q @ pushed)) + 1" if "q @ pushed \<noteq> []"
  proof
    fix x assume "x \<in> dom L'"
    then have "layer L' x \<le> ?k + 1" by (rule top)
    moreover have "?k \<le> layer L' (hd (q @ pushed))" using that same new cur(3) by (cases q; cases pushed) auto
    ultimately show "layer L' x \<le> layer L' (hd (q @ pushed)) + 1" by simp
  qed
  moreover have "closed_at adj L' x" if x: "x \<in> dom L' - set (q @ pushed)" for x
  proof (cases "x = cur")
    case True
    show ?thesis
      unfolding closed_at_def
    proof (intro allI impI)
      fix y assume "(x, y) \<in> set adj"
      then have "y \<in> dom L'" using True pushed dom by blast
      moreover have "layer L' y \<le> ?k + 1" using calculation by (rule top)
      ultimately show "y \<in> dom L' \<and> layer L' y \<le> layer L' x + 1" using True old [OF cur(1)] by simp
    qed
  next
    case False
    then have "x \<in> dom L" "closed_at adj L x" using x dom inv by (auto simp: bfs_inv_def)
    then show ?thesis using old unfolding closed_at_def by (metis L' domI domIff option.sel)
  qed
  ultimately show ?thesis using sound' sub by (simp add: bfs_inv_def)
qed

lemma bfs_closed:
  "bfs_inv adj S q L \<Longrightarrow> bfs_inv adj S [] (physicalBfs adj q L)"
proof (induction adj q L rule: physicalBfs.induct)
  case (2 adj cur queue L)
  obtain L' pushed where l: "label_new (layer L cur + 1) (neighbors adj cur) L = (L', pushed)" by fastforce
  show ?case using 2(1) [OF l [symmetric] refl bfs_inv_step [OF 2(2) l]] l by simp
qed simp

lemma closed_least:
  assumes "bfs_inv adj S [] L" "hops adj S k i"
  shows "L i = Some (Suc (LEAST k. hops adj S k i))"
proof -
  have "i \<in> dom L \<and> layer L i \<le> Suc k" if "hops adj S k i" for k i
    using that
  proof (induction rule: hops.induct)
    case (hops_root s)
    then have "L s = Some 1" using assms(1) by (simp add: bfs_inv_def sound_layers_def)
    then show ?case by auto
  next
    case (hops_step k b c)
    then have "closed_at adj L b" using assms(1) by (simp add: bfs_inv_def)
    then show ?case using hops_step by (force simp: closed_at_def)
  qed
  note bound = this
  obtain y where y: "L i = Some y" using bound [OF assms(2)] by blast
  then obtain d where d: "L i = Some (Suc d)" "hops adj S d i"
    using assms(1) unfolding bfs_inv_def sound_layers_def by (metis domI option.sel)
  have "(LEAST k. hops adj S k i) = d"
  proof (rule Least_equality)
    show "hops adj S d i" by (rule d(2))
    show "d \<le> k" if "hops adj S k i" for k using bound [OF that] d(1) by simp
  qed
  then show ?thesis using d(1) by simp
qed

lemma physical_layers_exact:
  assumes "hops phys (set (firewalls assets)) k i"
  shows "physical_layers assets phys i = Some (Suc (LEAST k. hops phys (set (firewalls assets)) k i))"
proof -
  let ?S = "set (firewalls assets)" and ?q = "sort (remdups (firewalls assets))"
  let ?L = "\<lambda>i. if i \<in> ?S then Some (1::nat) else None"
  have dom: "dom ?L = ?S" by (auto split: if_splits)
  have "bfs_inv phys ?S ?q ?L"
    unfolding bfs_inv_def sound_layers_def dom
  proof (intro conjI)
    have "map (layer ?L) ?q = replicate (length ?q) 1" by (rule replicate_eqI) auto
    then show "sorted (map (layer ?L) ?q)" by simp
    show "?q \<noteq> [] \<longrightarrow> (\<forall>x \<in> ?S. layer ?L x \<le> layer ?L (hd ?q) + 1)" by simp
  qed (auto intro: hops_root)
  then show ?thesis unfolding physical_layers_def using assms by (intro closed_least bfs_closed)
qed

section \<open>Attaching the rest never moves a layer\<close>

lemma bfs_extends: "i \<in> dom L \<Longrightarrow> physicalBfs adj q L i = L i"
proof (induction adj q L rule: physicalBfs.induct)
  case (2 adj cur queue L)
  obtain L' pushed where l: "label_new (layer L cur + 1) (neighbors adj cur) L = (L', pushed)" by fastforce
  have "L' i = L i" using label_new_fst [of "layer L cur + 1" "neighbors adj cur" L i] l 2(2) by auto
  then show ?case using 2(1) [OF l [symmetric] refl] l 2(2) by (metis domIff physicalBfs.simps(2) case_prod_conv Let_def)
qed simp

lemma fold_label_other: "i \<notin> set ms \<Longrightarrow> foldl (\<lambda>L m. L(m \<mapsto> k)) L ms i = L i"
  by (induction ms arbitrary: L) auto

lemma attach_extends: "i \<in> dom L \<Longrightarrow> i \<notin> set (snd b) \<Longrightarrow> attach_bucket assets phys b L i = L i"
proof (cases b)
  case (Pair p ms)
  assume i: "i \<in> dom L" "i \<notin> set (snd b)"
  show ?thesis
  proof (cases "isSimpleChain phys ms")
    case True
    let ?h = "hd (sort_key (chain_key assets) (chain_ends phys ms))"
    have "i \<noteq> ?h" using chain_head [OF True, of "chain_key assets"] i(2) Pair by auto
    then show ?thesis
      using True Pair i(1) bfs_extends [of i "L(?h \<mapsto> Suc (layer L p))" phys "[?h]"] by (auto simp: attach_bucket_def Let_def)
  next
    case False
    let ?L = "foldl (\<lambda>M m. M(m \<mapsto> Suc (layer L p))) L ms"
    have "?L i = L i" using fold_label_other i(2) Pair by simp
    then have "physicalBfs phys ms ?L i = L i" using i(1) bfs_extends [of i ?L phys ms] by (simp add: domIff)
    then show ?thesis using False Pair by (simp add: attach_bucket_def Let_def)
  qed
qed

lemma fold_attach_extends:
  "i \<in> dom L \<Longrightarrow> \<forall>b \<in> set bs. i \<notin> set (snd b) \<Longrightarrow> foldl (\<lambda>L b. attach_bucket assets phys b L) L bs i = L i"
proof (induction bs arbitrary: L)
  case (Cons b bs)
  have "attach_bucket assets phys b L i = L i" using attach_extends [of i L b] Cons.prems by simp
  then show ?case using Cons.IH [of "attach_bucket assets phys b L"] Cons.prems by (simp add: domIff)
qed simp

lemma attach_loop_extends: "i \<in> dom L \<Longrightarrow> attach_loop assets phys ctl L i = L i"
proof (induction assets phys ctl L rule: attach_loop.induct)
  case (1 assets phys ctl L)
  let ?bs = "buckets ctl L assets []"
  have "good_buckets (da_id ` set assets - dom L) ?bs" by (rule buckets_members) (simp_all add: good_buckets_def)
  then have "\<forall>b \<in> set (sort_key entry_key ?bs). i \<notin> set (snd b)" using 1(2) by (auto simp: good_buckets_def)
  then have r: "attach_round assets phys ?bs L i = L i"
    unfolding attach_round_def by (rule fold_attach_extends [OF 1(2)])
  then have "i \<in> dom (attach_round assets phys ?bs L)" using 1(2) by (simp add: domIff)
  then show ?case using 1(1) [OF refl] r by (simp add: attach_loop.simps [of assets phys ctl L] Let_def)
qed

lemma assigned_layers_exact:
  assumes "hops (links is_physical edges) (set (firewalls assets)) k i"
  shows "la_layers (assignLayers assets edges) i = Some (Suc (LEAST k. hops (links is_physical edges) (set (firewalls assets)) k i))"
proof -
  note e = physical_layers_exact [OF assms]
  then have "i \<in> dom (physical_layers assets (links is_physical edges))" by auto
  then show ?thesis using e by (simp add: assignLayers_def Let_def attach_loop_extends)
qed

section \<open>The edges kept\<close>

definition one_up :: "layers \<Rightarrow> dependencyEdge \<Rightarrow> bool" where
  "one_up L e \<longleftrightarrow> (\<exists>p. L (de_parent e) = Some p \<and> L (de_child e) = Some (p + 1))"

definition pair :: "dependencyEdge \<Rightarrow> string \<times> string" where
  "pair e = (de_child e, de_parent e)"

definition kept_ok :: "layers \<Rightarrow> dependencyEdge list \<Rightarrow> dependencyEdge list \<Rightarrow> bool" where
  "kept_ok L seen best \<longleftrightarrow>
     set best \<subseteq> set seen \<and> (\<forall>e \<in> set best. one_up L e) \<and> distinct (map pair best) \<and>
     (\<forall>e \<in> set seen. one_up L e \<longrightarrow> (\<exists>f \<in> set best. pair f = pair e \<and> physicalRank (de_via e) \<le> physicalRank (de_via f)))"

lemma same_pair_iff: "same_pair e f \<longleftrightarrow> pair e = pair f"
  by (simp add: same_pair_def pair_def)

lemma keep_best_step:
  assumes "kept_ok L seen best"
  shows "kept_ok L (seen @ [e]) (keep_best L best e)"
proof (cases "one_up L e")
  case False
  then have "keep_best L best e = best"
    by (auto simp: keep_best_def one_up_def split: option.splits)
  then show ?thesis using assms False by (auto simp: kept_ok_def)
next
  case up: True
  then have kb: "keep_best L best e = (case find (same_pair e) best of None \<Rightarrow> best @ [e]
     | Some old \<Rightarrow> if physicalRank (de_via e) > physicalRank (de_via old) then map (\<lambda>f. if same_pair e f then e else f) best else best)"
    by (auto simp: keep_best_def one_up_def)
  show ?thesis
  proof (cases "find (same_pair e) best")
    case None
    then have "pair e \<notin> pair ` set best" by (auto simp: find_None_iff same_pair_iff)
    then show ?thesis using assms up None kb by (auto simp: kept_ok_def)
  next
    case (Some old)
    then have old: "old \<in> set best" "pair old = pair e" using find_SomeD [OF Some] by (simp_all add: same_pair_iff)
    show ?thesis
    proof (cases "physicalRank (de_via e) > physicalRank (de_via old)")
      case False
      then show ?thesis using assms up Some kb old by (auto simp: kept_ok_def)
    next
      case True
      let ?g = "\<lambda>f. if same_pair e f then e else f"
      have kb': "keep_best L best e = map ?g best" using kb Some True by simp
      have pairs: "map pair (map ?g best) = map pair best" by (simp add: same_pair_iff)
      have only: "f = old" if "f \<in> set best" "pair f = pair e" for f
        using assms that old unfolding kept_ok_def distinct_map by (metis inj_onD)
      show ?thesis
        unfolding kb' kept_ok_def pairs
      proof (intro conjI ballI impI)
        show "set (map ?g best) \<subseteq> set (seen @ [e])" using assms by (auto simp: kept_ok_def)
        show "distinct (map pair best)" using assms by (simp add: kept_ok_def)
        show "one_up L f" if "f \<in> set (map ?g best)" for f using that assms up by (auto simp: kept_ok_def)
      next
        fix x assume x: "x \<in> set (seen @ [e])" "one_up L x"
        show "\<exists>f \<in> set (map ?g best). pair f = pair x \<and> physicalRank (de_via x) \<le> physicalRank (de_via f)"
        proof (cases "pair x = pair e")
          case same: True
          have "physicalRank (de_via x) \<le> physicalRank (de_via e)"
          proof (cases "x \<in> set seen")
            case seen: True
            then obtain f where "f \<in> set best" "pair f = pair x" "physicalRank (de_via x) \<le> physicalRank (de_via f)"
              using assms x(2) unfolding kept_ok_def by blast
            then show ?thesis using only [of f] same True by simp
          qed (use x(1) in auto)
          moreover have "e \<in> set (map ?g best)" using old by (force simp: same_pair_iff)
          ultimately show ?thesis using same by auto
        next
          case False
          then obtain f where "f \<in> set best" "pair f = pair x" "physicalRank (de_via x) \<le> physicalRank (de_via f)"
            using assms x unfolding kept_ok_def by auto
          then show ?thesis using False by (intro bexI [of _ f]) (auto simp: same_pair_iff image_iff)
        qed
      qed
    qed
  qed
qed

lemma kept_edges_ok: "kept_ok L edges (foldl (keep_best L) [] edges)"
proof (induction edges rule: rev_induct)
  case Nil
  show ?case by (simp add: kept_ok_def)
next
  case (snoc e edges)
  then show ?case using keep_best_step [of L edges _ e] by simp
qed

lemma kept_acyclic:
  assumes "kept_ok L edges best"
  shows "acyclic (pair ` set best)"
proof (rule acyclicI_order [where f = "layer L"])
  show "layer L b < layer L a" if "(a, b) \<in> pair ` set best" for a b
    using that assms by (fastforce simp: kept_ok_def one_up_def pair_def)
qed

lemma build_set:
  "set (foldl add_edge es xs) = set es \<union> {e \<in> set xs. de_child e \<noteq> de_parent e}"
  by (induction xs arbitrary: es) (auto simp: add_edge_def)

lemma build_symmetric:
  assumes "e \<in> set (buildDependencyEdgesFromInputs assets ie le)" "is_physical e"
  shows "e\<lparr>de_child := de_parent e, de_parent := de_child e\<rparr> \<in> set (buildDependencyEdgesFromInputs assets ie le)"
proof -
  have "e \<notin> set (controller_edge assets a)" for a
    using assms(2) by (auto simp: controller_edge_def is_physical_def Let_def split: option.splits)
  moreover have "e\<lparr>de_child := de_parent e, de_parent := de_child e\<rparr> \<in> set (both_ways assets via x)" if "e \<in> set (both_ways assets via x)" for via x
    using that by (cases "byId assets (fst x)"; cases "byId assets (snd x)") (auto simp: both_ways_def)
  ultimately show ?thesis
    using assms(1) unfolding buildDependencyEdgesFromInputs_def build_set by auto blast+
qed

lemma hops_parent:
  assumes "hops adj S k i" "i \<notin> S"
  shows "\<exists>b. (b, i) \<in> set adj \<and> (LEAST k. hops adj S k i) = Suc (LEAST k. hops adj S k b) \<and> (\<exists>m. hops adj S m b)"
proof -
  let ?m = "LEAST k. hops adj S k i"
  have "hops adj S ?m i" using assms(1) by (rule LeastI)
  then obtain n b where b: "?m = Suc n" "hops adj S n b" "(b, i) \<in> set adj" using assms(2) by cases auto
  have "(LEAST k. hops adj S k b) = n"
  proof (rule Least_equality)
    show "hops adj S n b" by (rule b(2))
    fix k assume "hops adj S k b"
    then have "hops adj S (Suc k) i" using b(3) by (rule hops_step)
    then show "n \<le> k" using b(1) Least_le [of "\<lambda>k. hops adj S k i" "Suc k"] by simp
  qed
  then show ?thesis using b by auto
qed

lemma links_mem: "(b, i) \<in> set (links P edges) \<longleftrightarrow> (\<exists>e \<in> set edges. P e \<and> ((b, i) = (de_child e, de_parent e) \<or> (b, i) = (de_parent e, de_child e)))"
  by (auto simp: links_def)

text \<open>
  C10. The computed dependency tree follows the cables: the layer of every asset that interface or LLDP links connect
  to a firewall is one more than its exact distance in links from the nearest firewall, so controller relations
  never shorten it; unless it is a firewall it gets at least one parent, exactly one layer above it; and the edges
  kept form no cycle.
\<close>

theorem dependency_layers_exact:
  fixes assets ie le
  defines "edges \<equiv> buildDependencyEdgesFromInputs assets ie le"
  defines "r \<equiv> assignLayers assets edges"
  assumes "hops (links is_physical edges) (set (firewalls assets)) k i"
  shows "la_layers r i = Some (Suc (LEAST k. hops (links is_physical edges) (set (firewalls assets)) k i)) \<and>
    (i \<notin> set (firewalls assets) \<longrightarrow> (\<exists>e \<in> set (la_keptEdges r). de_child e = i \<and> one_up (la_layers r) e)) \<and>
    acyclic (pair ` set (la_keptEdges r))"
proof (intro conjI impI)
  let ?phys = "links is_physical edges" and ?S = "set (firewalls assets)"
  have kept: "kept_ok (la_layers r) edges (la_keptEdges r)"
    unfolding r_def assignLayers_def Let_def by (simp add: kept_edges_ok)
  show exact: "la_layers r i = Some (Suc (LEAST k. hops ?phys ?S k i))"
    unfolding r_def by (rule assigned_layers_exact [OF assms(3)])
  show "acyclic (pair ` set (la_keptEdges r))" by (rule kept_acyclic [OF kept])
  assume "i \<notin> ?S"
  from hops_parent [OF assms(3) this] obtain b m where b: "(b, i) \<in> set ?phys" "(LEAST k. hops ?phys ?S k i) = Suc (LEAST k. hops ?phys ?S k b)" "hops ?phys ?S m b"
    by blast
  have "la_layers r b = Some (LEAST k. hops ?phys ?S k i)"
    unfolding r_def b(2) by (rule assigned_layers_exact [OF b(3)])
  moreover obtain e where e: "e \<in> set edges" "de_child e = i" "de_parent e = b"
  proof -
    obtain f where f: "f \<in> set edges" "is_physical f" "(b, i) = (de_child f, de_parent f) \<or> (b, i) = (de_parent f, de_child f)"
      using b(1) unfolding links_mem by blast
    then have "f\<lparr>de_child := de_parent f, de_parent := de_child f\<rparr> \<in> set edges" unfolding edges_def by (intro build_symmetric)
    then show ?thesis using that f by auto
  qed
  ultimately have "one_up (la_layers r) e" using exact by (simp add: one_up_def)
  then obtain f where "f \<in> set (la_keptEdges r)" "pair f = pair e" using kept e(1) unfolding kept_ok_def by blast
  moreover from this have "one_up (la_layers r) f" using kept by (simp add: kept_ok_def)
  ultimately show "\<exists>e \<in> set (la_keptEdges r). de_child e = i \<and> one_up (la_layers r) e" using e by (auto simp: pair_def)
qed

definition chain_assets :: "depAsset list" where
  "chain_assets =
     [\<lparr>da_id = ''fg'', da_hostname = Some ''FG'', da_assetType = ''firewall'', da_fortinetTopology = None\<rparr>,
      \<lparr>da_id = ''s1'', da_hostname = Some ''SW1'', da_assetType = ''switch'', da_fortinetTopology = Some \<lparr>tp_controllerFortigate = Some ''fg'', tp_parentSwitch = None\<rparr>\<rparr>,
      \<lparr>da_id = ''s2'', da_hostname = Some ''SW2'', da_assetType = ''switch'', da_fortinetTopology = Some \<lparr>tp_controllerFortigate = Some ''fg'', tp_parentSwitch = None\<rparr>\<rparr>]"

definition chain_edges :: "dependencyEdge list" where
  "chain_edges = buildDependencyEdgesFromInputs chain_assets [(''fg'', ''s1'')] [(''s1'', ''s2'')]"

theorem dependency_layers_exact_witness:
  "la_layers (assignLayers chain_assets chain_edges) ''s2'' =
     Some (Suc (LEAST k. hops (links is_physical chain_edges) (set (firewalls chain_assets)) k ''s2''))"
proof -
  have l: "(''fg'', ''s1'') \<in> set (links is_physical chain_edges)" "(''s1'', ''s2'') \<in> set (links is_physical chain_edges)"
    "''fg'' \<in> set (firewalls chain_assets)"
    by code_simp+
  have "hops (links is_physical chain_edges) (set (firewalls chain_assets)) (Suc (Suc 0)) ''s2''"
    by (rule hops_step [OF hops_step [OF hops_root [OF l(3)] l(1)] l(2)])
  then show ?thesis using dependency_layers_exact unfolding chain_edges_def by blast
qed

end
