(* ===== verification/SuppressionSpec.thy ===== *)
theory SuppressionSpec
  imports DependencySpec
begin

text \<open>
  Suppression flags: the walk through unmonitored parents finds a working ancestor exactly when there is one; the
  flags solve the all-parents-down equations when parents lie in lower layers; the reconciler converges in one
  run; recomputation is idempotent and keeps the overrides; setting an override keeps the graph of effective parents
  acyclic, clearing one need not.
\<close>

section \<open>The walk through the parents\<close>

text \<open>A parent that keeps its children from being suppressed, through any number of unmonitored ones.\<close>

inductive parent_ok ::
  "suppressionAssetState list \<Rightarrow> (string \<rightharpoonup> string list) \<Rightarrow> (string \<rightharpoonup> bool) \<Rightarrow> int \<Rightarrow> string \<Rightarrow> bool"
  for states parents result now where
  unknown: "stateById states p = None \<Longrightarrow> parent_ok states parents result now p"
| rootless: "stateById states p = Some s \<Longrightarrow> \<not> under_test now s \<Longrightarrow> \<not> ss_monitored s \<Longrightarrow> parentsOf parents p = [] \<Longrightarrow>
    parent_ok states parents result now p"
| through: "stateById states p = Some s \<Longrightarrow> \<not> under_test now s \<Longrightarrow> \<not> ss_monitored s \<Longrightarrow> g \<in> set (parentsOf parents p) \<Longrightarrow>
    parent_ok states parents result now g \<Longrightarrow> parent_ok states parents result now p"
| alive: "stateById states p = Some s \<Longrightarrow> \<not> under_test now s \<Longrightarrow> ss_monitored s \<Longrightarrow> seems_up result s \<Longrightarrow>
    parent_ok states parents result now p"

lemma walk_sound:
  "fst (some_parent_ok states parents result now ps visited) \<Longrightarrow> \<exists>p \<in> set ps. parent_ok states parents result now p"
proof (induction states parents result now ps visited rule: some_parent_ok.induct)
  case (2 states parents result now p ps visited)
  let ?ok = "parent_ok states parents result now"
  let ?r = "some_parent_ok states parents result now (parentsOf parents p) (p # visited)"
  show ?case
  proof (cases "p \<in> set visited")
    case True
    then show ?thesis using 2(1,6) by auto
  next
    case new: False
    show ?thesis
    proof (cases "stateById states p")
      case None
      then show ?thesis using parent_ok.unknown by auto
    next
      case (Some s)
      show ?thesis
      proof (cases "under_test now s")
        case True
        then show ?thesis using 2(2) [OF new Some] 2(6) new Some by auto
      next
        case alive: False
        show ?thesis
        proof (cases "ss_monitored s")
          case True
          then show ?thesis using 2(5) [OF new Some alive] 2(6) new Some alive parent_ok.alive [OF Some alive True]
            by (auto split: if_splits)
        next
          case False
          show ?thesis
          proof (cases "parentsOf parents p = []")
            case True
            then show ?thesis using parent_ok.rootless [OF Some alive False] by auto
          next
            case ps: False
            then show ?thesis
              using 2(3) [OF new Some alive False ps] 2(4) [OF new Some alive False ps refl] 2(6) new Some alive False
                parent_ok.through [OF Some alive False]
              by (auto simp: Let_def split: if_splits)
          qed
        qed
      qed
    qed
  qed
qed simp

definition stuck :: "suppressionAssetState list \<Rightarrow> (string \<rightharpoonup> string list) \<Rightarrow> (string \<rightharpoonup> bool) \<Rightarrow> int \<Rightarrow> string set \<Rightarrow> string \<Rightarrow> bool" where
  "stuck states parents result now V x \<longleftrightarrow>
     (\<exists>s. stateById states x = Some s \<and>
        (under_test now s \<or> (\<not> ss_monitored s \<and> parentsOf parents x \<noteq> [] \<and> set (parentsOf parents x) \<subseteq> V) \<or>
         (ss_monitored s \<and> \<not> seems_up result s)))"

lemma stuck_mono: "stuck states parents result now V x \<Longrightarrow> V \<subseteq> W \<Longrightarrow> stuck states parents result now W x"
  by (auto simp: stuck_def)

lemma walk_complete:
  "some_parent_ok states parents result now ps visited = (False, V) \<Longrightarrow>
   set ps \<union> set visited \<subseteq> set V \<and> (\<forall>x \<in> set V - set visited. stuck states parents result now (set V) x)"
proof (induction states parents result now ps visited arbitrary: V rule: some_parent_ok.induct)
  case (2 states parents result now p ps visited)
  let ?stuck = "stuck states parents result now"
  let ?r = "some_parent_ok states parents result now (parentsOf parents p) (p # visited)"
  show ?case
  proof (cases "p \<in> set visited")
    case True
    then show ?thesis using 2(1) [OF True, of V] 2(6) by auto
  next
    case new: False
    with 2(6) obtain s where s: "stateById states p = Some s" by (auto split: option.splits)
    show ?thesis
    proof (cases "under_test now s")
      case True
      then have r: "some_parent_ok states parents result now ps (p # visited) = (False, V)" using 2(6) new s by simp
      show ?thesis using 2(2) [OF new s True r] s True by (auto simp: stuck_def)
    next
      case alive: False
      show ?thesis
      proof (cases "ss_monitored s")
        case True
        then have r: "some_parent_ok states parents result now ps (p # visited) = (False, V)" "\<not> seems_up result s"
          using 2(6) new s alive by (auto split: if_splits)
        show ?thesis using 2(5) [OF new s alive _ r(2) r(1)] s True r(2) by (auto simp: stuck_def)
      next
        case False
        have ps: "parentsOf parents p \<noteq> []" and nr: "\<not> fst ?r" and r: "some_parent_ok states parents result now ps (snd ?r) = (False, V)"
          using 2(6) new s alive False by (auto simp: Let_def split: if_splits)
        have up: "set (parentsOf parents p) \<union> set (p # visited) \<subseteq> set (snd ?r) \<and> (\<forall>x \<in> set (snd ?r) - set (p # visited). ?stuck (set (snd ?r)) x)"
          using nr by (intro 2(3) [OF new s alive False ps]) (simp add: prod_eq_iff)
        note rest = 2(4) [OF new s alive False ps refl nr r]
        have "?stuck (set V) p" using s False ps up rest unfolding stuck_def by blast
        then show ?thesis using up rest by (auto intro: stuck_mono)
      qed
    qed
  qed
qed simp

lemma stuck_not_ok:
  assumes "parent_ok states parents result now p" "\<forall>x \<in> V. stuck states parents result now V x"
  shows "p \<notin> V"
  using assms(1)
proof (induction rule: parent_ok.induct)
  case (through p s g)
  then show ?case using assms(2) by (auto simp: stuck_def)
qed (use assms(2) in \<open>auto simp: stuck_def\<close>)

lemma walk_iff:
  "fst (some_parent_ok states parents result now ps []) \<longleftrightarrow> (\<exists>p \<in> set ps. parent_ok states parents result now p)"
proof
  assume ok: "\<exists>p \<in> set ps. parent_ok states parents result now p"
  show "fst (some_parent_ok states parents result now ps [])"
  proof (rule ccontr)
    let ?V = "snd (some_parent_ok states parents result now ps [])"
    assume "\<not> fst (some_parent_ok states parents result now ps [])"
    then have "some_parent_ok states parents result now ps [] = (False, ?V)" by (simp add: prod_eq_iff)
    from walk_complete [OF this] ok stuck_not_ok [of states parents result now _ "set ?V"] show False by auto
  qed
qed (rule walk_sound)

section \<open>The equations\<close>

definition all_parents_down ::
  "suppressionAssetState list \<Rightarrow> (string \<rightharpoonup> string list) \<Rightarrow> (string \<rightharpoonup> bool) \<Rightarrow> int \<Rightarrow> string \<Rightarrow> bool" where
  "all_parents_down states parents result now i \<longleftrightarrow>
     parentsOf parents i \<noteq> [] \<and> (\<forall>p \<in> set (parentsOf parents i). \<not> parent_ok states parents result now p)"

lemma settle_eq:
  "settle states parents now result s = result(ss_id s \<mapsto> all_parents_down states parents result now (ss_id s))"
  by (simp add: settle_def Let_def all_parents_down_def walk_iff)

definition layered :: "suppressionAssetState list \<Rightarrow> (string \<rightharpoonup> string list) \<Rightarrow> bool" where
  "layered states parents \<longleftrightarrow>
     (\<forall>s \<in> set states. \<forall>t \<in> set states. ss_id t \<in> set (parentsOf parents (ss_id s)) \<longrightarrow> layer_key t < layer_key s)"

lemma parent_ok_local:
  assumes "parent_ok states parents r now p" "layered states parents"
    and "\<And>s. s \<in> set states \<Longrightarrow> layer_key s < n \<Longrightarrow> r' (ss_id s) = r (ss_id s)"
    and "\<And>s. s \<in> set states \<Longrightarrow> ss_id s = p \<Longrightarrow> layer_key s < n"
  shows "parent_ok states parents r' now p"
  using assms(1,4)
proof (induction rule: parent_ok.induct)
  case (unknown p)
  then show ?case by (intro parent_ok.unknown)
next
  case (rootless p s)
  then show ?case by (intro parent_ok.rootless)
next
  case (through p s g)
  have s: "s \<in> set states" "ss_id s = p" using stateById_mem [OF through(1)] by simp_all
  have "layer_key t < n" if "t \<in> set states" "ss_id t = g" for t
    using assms(2) s that through(4) through.prems [OF s] unfolding layered_def by force
  then have "parent_ok states parents r' now g" by (rule through.IH)
  then show ?case by (rule parent_ok.through [OF through(1-4)])
next
  case (alive p s)
  have s: "s \<in> set states" "ss_id s = p" using stateById_mem [OF alive(1)] by simp_all
  then have "seems_up r' s" using alive(4) assms(3) [OF s(1) alive.prems [OF s]] by (simp add: seems_up_def)
  then show ?case using alive by (intro parent_ok.alive [of states p s])
qed

lemma down_local:
  assumes "layered states parents" "s \<in> set states"
    and "\<And>t. t \<in> set states \<Longrightarrow> layer_key t < layer_key s \<Longrightarrow> r' (ss_id t) = r (ss_id t)"
  shows "all_parents_down states parents r' now (ss_id s) = all_parents_down states parents r now (ss_id s)"
proof -
  have "parent_ok states parents r' now p = parent_ok states parents r now p" if "p \<in> set (parentsOf parents (ss_id s))" for p
  proof -
    have low: "layer_key t < layer_key s" if "t \<in> set states" "ss_id t = p" for t
      using assms(1,2) that \<open>p \<in> set (parentsOf parents (ss_id s))\<close> by (auto simp: layered_def)
    show ?thesis
      using parent_ok_local [OF _ assms(1), of r now p "layer_key s" r'] parent_ok_local [OF _ assms(1), of r' now p "layer_key s" r] assms(3) low
      by metis
  qed
  then show ?thesis by (simp add: all_parents_down_def)
qed

lemma settle_other: "ss_id s \<noteq> i \<Longrightarrow> settle states parents now r s i = r i"
  by (simp add: settle_eq)

lemma fold_settle_other: "i \<notin> ss_id ` set xs \<Longrightarrow> foldl (settle states parents now) r xs i = r i"
  by (induction xs arbitrary: r) (auto simp: settle_other)

lemma fold_settle:
  assumes "layered states parents" "set (xs @ s # ys) = set states" "distinct (map ss_id (xs @ s # ys))"
    and "sorted (map layer_key (xs @ s # ys))"
  shows "foldl (settle states parents now) r (xs @ s # ys) (ss_id s) =
    Some (all_parents_down states parents (foldl (settle states parents now) r (xs @ s # ys)) now (ss_id s))"
proof -
  let ?f = "foldl (settle states parents now)"
  let ?r1 = "?f r xs" and ?R = "?f r (xs @ s # ys)"
  have R: "?R = ?f (settle states parents now ?r1 s) ys" by simp
  have "?R (ss_id s) = Some (all_parents_down states parents ?r1 now (ss_id s))"
    unfolding R using assms(3) by (subst fold_settle_other) (auto simp: settle_eq)
  moreover have "?R (ss_id t) = ?r1 (ss_id t)" if "t \<in> set states" "layer_key t < layer_key s" for t
  proof -
    have "t \<in> set (xs @ s # ys)" using that(1) assms(2) by metis
    moreover have "t \<noteq> s" "t \<notin> set ys" using that(2) assms(4) by (auto simp: sorted_append)
    ultimately have "t \<in> set xs" by simp
    then have "ss_id t \<in> ss_id ` set xs" by (rule imageI)
    then have "ss_id t \<notin> ss_id ` set ys" "ss_id t \<noteq> ss_id s" using assms(3) by auto
    then show ?thesis unfolding R by (simp add: fold_settle_other settle_other)
  qed
  moreover have "s \<in> set states" using assms(2) by auto
  ultimately show ?thesis using down_local [OF assms(1), of s ?R ?r1] by simp
qed

lemma evaluate_equations:
  assumes "layered states parents" "distinct (map ss_id states)" "s \<in> set states"
  shows "evaluateSuppression states parents now (ss_id s) =
    Some (all_parents_down states parents (evaluateSuppression states parents now) now (ss_id s))"
proof -
  let ?xs = "sort_key layer_key states"
  obtain xs ys where xs: "?xs = xs @ s # ys" using assms(3) by (metis set_sort split_list)
  have "distinct (map ss_id ?xs)" using assms(2) by (simp add: distinct_map)
  then show ?thesis
    unfolding evaluateSuppression_def Let_def
    using fold_settle [OF assms(1), of xs s ys] sorted_sort_key [of layer_key states] set_sort [of layer_key states] unfolding xs by metis
qed

text \<open>
  C24. Suppression means that every way up is down: when the parents of each asset lie in lower layers, the flags the
  evaluation computes in one pass solve the equations of the rule: an asset is suppressed if and only if it has a
  parent and none of its parents works, where a parent works when it is unknown, or monitored, not down and not
  itself suppressed, or unmonitored with no parents or with a parent that works; a parent under test never works.
\<close>

theorem suppression_all_down:
  assumes "layered states parents" "distinct (map ss_id states)" "s \<in> set states"
  shows "evaluateSuppression states parents now (ss_id s) =
    Some (parentsOf parents (ss_id s) \<noteq> [] \<and>
      (\<forall>p \<in> set (parentsOf parents (ss_id s)). \<not> parent_ok states parents (evaluateSuppression states parents now) now p))"
  using evaluate_equations [OF assms] by (simp only: all_parents_down_def)

definition three_states :: "suppressionAssetState list" where
  "three_states =
     [\<lparr>ss_id = ''fg'', ss_layer = Some 1, ss_monitored = True, ss_monitorStatus = Some ''down'', ss_dependencyTestUntil = None\<rparr>,
      \<lparr>ss_id = ''s1'', ss_layer = Some 2, ss_monitored = False, ss_monitorStatus = None, ss_dependencyTestUntil = None\<rparr>,
      \<lparr>ss_id = ''ap'', ss_layer = Some 3, ss_monitored = True, ss_monitorStatus = Some ''up'', ss_dependencyTestUntil = None\<rparr>]"

definition three_parents :: "string \<rightharpoonup> string list" where
  "three_parents = [''s1'' \<mapsto> [''fg''], ''ap'' \<mapsto> [''s1'']]"

theorem suppression_all_down_witness:
  "evaluateSuppression three_states three_parents 0 ''ap'' = Some True \<and>
   \<not> parent_ok three_states three_parents (evaluateSuppression three_states three_parents 0) 0 ''s1''"
proof -
  have l: "layered three_states three_parents" "distinct (map ss_id three_states)" "three_states ! 2 \<in> set three_states"
    by (simp_all add: layered_def three_states_def three_parents_def parentsOf_def layer_key_def)
  have e: "evaluateSuppression three_states three_parents 0 ''ap'' = Some True" "ss_id (three_states ! 2) = ''ap''"
      "parentsOf three_parents ''ap'' = [''s1'']"
    by code_simp+
  then show ?thesis using suppression_all_down [OF l, of 0] by simp
qed

section \<open>The reconciler\<close>

lemma setSuppressed_simps [simp]:
  "dr_id (setSuppressed now b a) = dr_id a" "toState (setSuppressed now b a) = toState a"
  "test_over now (setSuppressed t b a) = test_over now a" "dr_dependencySuppressed (setSuppressed now b a) = b"
  by (simp_all add: setSuppressed_def toState_def test_over_def)

lemma expire_none: "\<forall>a \<in> set (dw_assets w). \<not> test_over now a \<Longrightarrow> expireTests now w = w"
proof -
  assume "\<forall>a \<in> set (dw_assets w). \<not> test_over now a"
  then have "map (\<lambda>a. if test_over now a then end_test a else a) (dw_assets w) = dw_assets w" "filter (test_over now) (dw_assets w) = []"
    by (simp_all add: map_idI filter_empty_conv)
  then show ?thesis by (simp add: expireTests_def)
qed

lemma expire_done: "\<forall>a \<in> set (dw_assets (expireTests now w)). \<not> test_over now a"
proof -
  have "\<not> test_over now (if test_over now a then end_test a else a)" for a by (simp add: test_over_def end_test_def)
  moreover have "dw_assets (expireTests now w) = map (\<lambda>a. if test_over now a then end_test a else a) (dw_assets w)"
    by (simp add: expireTests_def)
  ultimately show ?thesis by (simp only: set_map ball_simps) simp
qed

lemma reconcile_state:
  assumes "distinct (map dr_id (dw_assets w0))" "reconcileDependencySuppression now w0 = (r, w')"
  defines "w \<equiv> expireTests now w0"
  shows "map toState (dw_assets w') = map toState (dw_assets w)" "dw_parents w' = dw_parents w"
    "\<forall>a \<in> set (dw_assets w'). dr_dependencySuppressed a = desired now w (dr_id a)" "\<forall>a \<in> set (dw_assets w'). \<not> test_over now a"
proof -
  let ?ts = "transitions now w"
  let ?g = "\<lambda>a. if dr_id a \<in> dr_id ` set ?ts then setSuppressed now (desired now w (dr_id a)) a else a"
  have "map dr_id (dw_assets w) = map dr_id (dw_assets w0)" by (simp add: w_def expireTests_def end_test_def)
  then have dist: "distinct (map dr_id (dw_assets w))" using assms(1) by simp
  have same: "dr_dependencySuppressed a = desired now w (dr_id a)" if "a \<in> set (dw_assets w)" "dr_id a \<notin> dr_id ` set ?ts" for a
  proof (rule ccontr)
    assume "dr_dependencySuppressed a \<noteq> desired now w (dr_id a)"
    then have "a \<in> set ?ts" using that(1) by (auto simp: transitions_def)
    then show False using that(2) by simp
  qed
  have idle: "map ?g (dw_assets w) = dw_assets w" if "?ts = []" using that by simp
  have w': "dw_assets w' = map ?g (dw_assets w)" "dw_parents w' = dw_parents w"
    using assms(2) idle unfolding reconcileDependencySuppression_def w_def [symmetric] Let_def by (auto split: if_splits)
  show "map toState (dw_assets w') = map toState (dw_assets w)" "dw_parents w' = dw_parents w" unfolding w' by simp_all
  show "\<forall>a \<in> set (dw_assets w'). dr_dependencySuppressed a = desired now w (dr_id a)" unfolding w'(1) using same by auto
  show "\<forall>a \<in> set (dw_assets w'). \<not> test_over now a" unfolding w'(1) using expire_done [of now w0] by (auto simp: w_def)
qed

text \<open>
  The reconciler converges in one run: afterwards every asset carries exactly the flag the evaluation of the state
  before the run asks for, no test that is over is left, and a second run at the same time changes nothing and
  reports no change.
\<close>

theorem reconcile_converges:
  assumes "distinct (map dr_id (dw_assets w))" "reconcileDependencySuppression now w = (r, w')"
  shows "(\<forall>a \<in> set (dw_assets w'). dr_dependencySuppressed a = desired now (expireTests now w) (dr_id a) \<and> \<not> test_over now a) \<and>
    reconcileDependencySuppression now w' = ((length (dw_assets w'), 0), w')"
proof -
  note st = reconcile_state [OF assms]
  have e: "expireTests now w' = w'" by (rule expire_none) (rule st(4))
  have d: "desired now w' = desired now (expireTests now w)" using st(1,2) by (simp add: desired_def fun_eq_iff)
  have "transitions now w' = []" using st(3) by (simp add: transitions_def filter_empty_conv d)
  then show ?thesis using st e by (simp add: reconcileDependencySuppression_def Let_def)
qed

definition small_world :: depWorld where
  "small_world = \<lparr>dw_assets =
     [\<lparr>dr_id = ''fg'', dr_hostname = Some ''FG'', dr_assetType = ''firewall'', dr_fortinetTopology = None, dr_discoveredByIntegrationId = None,
       dr_monitored = True, dr_monitorStatus = Some ''down'', dr_dependencyLayer = Some 1, dr_dependencySuppressed = False,
       dr_dependencySuppressedAt = None, dr_dependencyTestUntil = Some 5, dr_dependencyTestStartedBy = None\<rparr>,
      \<lparr>dr_id = ''s1'', dr_hostname = Some ''SW1'', dr_assetType = ''switch'', dr_fortinetTopology = None, dr_discoveredByIntegrationId = None,
       dr_monitored = True, dr_monitorStatus = Some ''up'', dr_dependencyLayer = Some 2, dr_dependencySuppressed = False,
       dr_dependencySuppressedAt = None, dr_dependencyTestUntil = None, dr_dependencyTestStartedBy = None\<rparr>],
     dw_parents = [\<lparr>dp_assetId = ''s1'', dp_parentAssetId = ''fg'', dp_source = Computed, dp_detectedVia = ViaLldp\<rparr>],
     dw_lldp = [], dw_events = []\<rparr>"

theorem reconcile_converges_witness:
  "fst (reconcileDependencySuppression 7 small_world) = (2, 1) \<and>
   fst (reconcileDependencySuppression 7 (snd (reconcileDependencySuppression 7 small_world))) = (2, 0)"
proof -
  have d: "distinct (map dr_id (dw_assets small_world))" by (simp add: small_world_def)
  have f: "fst (reconcileDependencySuppression 7 small_world) = (2, 1)" "length (dw_assets (snd (reconcileDependencySuppression 7 small_world))) = 2"
    by code_simp+
  show ?thesis
    using reconcile_converges [OF d, of 7 "fst (reconcileDependencySuppression 7 small_world)" "snd (reconcileDependencySuppression 7 small_world)"] f by (metis fst_conv prod.collapse)
qed

section \<open>Recomputation\<close>

lemma create_skipping_fresh:
  assumes "distinct (map (\<lambda>r. (dp_assetId r, dp_parentAssetId r, dp_source r)) new)" "\<forall>r \<in> set new. \<not> list_ex (same_key r) rows"
  shows "create_skipping rows new = rows @ new"
  using assms
proof (induction new arbitrary: rows)
  case (Cons r new)
  have "\<not> list_ex (same_key q) (rows @ [r])" if "q \<in> set new" for q
  proof -
    have "\<not> same_key q r" using Cons.prems(1) that by (auto simp: same_key_def image_iff)
    moreover have "\<not> list_ex (same_key q) rows" using Cons.prems(2) that by simp
    ultimately show ?thesis by simp
  qed
  then show ?case using Cons.IH [of "rows @ [r]"] Cons.prems by (simp add: create_skipping_def)
qed (simp add: create_skipping_def)

lemma kept_rows_distinct:
  "distinct (map (\<lambda>r. (dp_assetId r, dp_parentAssetId r, dp_source r)) (map computedRow (filter P (la_keptEdges (assignLayers as es)))))"
proof -
  have "distinct (map pair (la_keptEdges (assignLayers as es)))"
    using kept_edges_ok unfolding assignLayers_def Let_def kept_ok_def by simp
  then have "distinct (map pair (filter P (la_keptEdges (assignLayers as es))))" by (rule distinct_map_filter)
  then show ?thesis by (simp add: distinct_map inj_on_def pair_def computedRow_def)
qed

definition relayer :: "string list \<Rightarrow> layers \<Rightarrow> depAssetRow \<Rightarrow> depAssetRow" where
  "relayer scope L a = (if dr_id a \<in> set scope then a\<lparr>dr_dependencyLayer := L (dr_id a)\<rparr> else a)"

lemma relayer_simps [simp]:
  "dr_id (relayer s L a) = dr_id a" "toDepAsset (relayer s L a) = toDepAsset a" "dr_assetType (relayer s L a) = dr_assetType a"
  "dr_discoveredByIntegrationId (relayer s L a) = dr_discoveredByIntegrationId a" "relayer s L (relayer s L a) = relayer s L a"
  by (simp_all add: relayer_def toDepAsset_def)

lemma inventory_relayer: "inventoryOf (w\<lparr>dw_parents := rs, dw_assets := map (relayer s L) (dw_assets w)\<rparr>) = map (relayer s L) (inventoryOf w)"
  by (simp add: inventoryOf_def filter_map comp_def)

lemma scope_relayer: "scopeOf ig (map (relayer s L) rows) = scopeOf ig rows"
  by (simp add: scopeOf_def filter_map comp_def)

lemma lldp_relayer: "lldpEdgesOf (map (relayer s L) rows) (w\<lparr>dw_parents := rs, dw_assets := as\<rparr>) = lldpEdgesOf rows w"
  by (simp add: lldpEdgesOf_def image_image)

text \<open>
  Recomputing the dependency tree is idempotent and local: a second run with the same discovery signals leaves the
  database as it is and returns the same counts; the operator's overrides and the computed rows of assets outside
  the scope are kept in any case.
\<close>

theorem recompute_idempotent:
  assumes "recomputeDependencyTree ig ie w = (r, w')"
  shows "recomputeDependencyTree ig ie w' = (r, w') \<and>
    filter (\<lambda>p. dp_source p = Override \<or> dp_assetId p \<notin> set (scopeOf ig (inventoryOf w))) (dw_parents w') =
    filter (\<lambda>p. dp_source p = Override \<or> dp_assetId p \<notin> set (scopeOf ig (inventoryOf w))) (dw_parents w)"
proof (cases "inventoryOf w = []")
  case True
  then show ?thesis using assms by (simp add: recomputeDependencyTree_def)
next
  case False
  let ?inv = "inventoryOf w"
  let ?scope = "scopeOf ig ?inv"
  let ?as = "assignLayers (map toDepAsset ?inv) (buildDependencyEdgesFromInputs (map toDepAsset ?inv) ie (lldpEdgesOf ?inv w))"
  let ?new = "map computedRow (filter (\<lambda>e. de_child e \<in> set ?scope) (la_keptEdges ?as))"
  let ?P = "\<lambda>p. \<not> (dp_source p = Computed \<and> dp_assetId p \<in> set ?scope)"
  let ?rest = "filter ?P (dw_parents w)"
  have P: "?P = (\<lambda>p. dp_source p = Override \<or> dp_assetId p \<notin> set ?scope)"
    by (rule ext) (metis dependencySource.distinct(1) dependencySource.exhaust)
  have "\<not> list_ex (same_key q) ?rest" if "q \<in> set ?new" for q
    using that by (auto simp: list_ex_iff same_key_def computedRow_def)
  then have new: "create_skipping ?rest ?new = ?rest @ ?new" using create_skipping_fresh [OF kept_rows_distinct] by blast
  have w': "w' = w\<lparr>dw_parents := ?rest @ ?new, dw_assets := map (relayer ?scope (la_layers ?as)) (dw_assets w)\<rparr>"
    using assms False new by (simp add: recomputeDependencyTree_def Let_def relayer_def [abs_def])
  have rest: "filter ?P (?rest @ ?new) = ?rest" by (simp add: computedRow_def filter_empty_conv)
  have inv': "inventoryOf w' = map (relayer ?scope (la_layers ?as)) ?inv" unfolding w' by (rule inventory_relayer)
  have "scopeOf ig (inventoryOf w') = ?scope" "map toDepAsset (inventoryOf w') = map toDepAsset ?inv"
      "lldpEdgesOf (inventoryOf w') w' = lldpEdgesOf ?inv w" "inventoryOf w' \<noteq> []"
    unfolding inv' using False by (simp_all add: scope_relayer w' lldp_relayer)
  then have "recomputeDependencyTree ig ie w' =
      (fst (recomputeDependencyTree ig ie w),
       w'\<lparr>dw_parents := create_skipping (filter ?P (dw_parents w')) ?new, dw_assets := map (relayer ?scope (la_layers ?as)) (dw_assets w')\<rparr>)"
    using False by (simp add: recomputeDependencyTree_def Let_def relayer_def [abs_def])
  moreover have "create_skipping (filter ?P (dw_parents w')) ?new = dw_parents w'" using rest new by (simp add: w')
  moreover have "map (relayer ?scope (la_layers ?as)) (dw_assets w') = dw_assets w'" by (simp add: w')
  moreover have "filter ?P (dw_parents w') = filter ?P (dw_parents w)" using rest by (simp add: w')
  ultimately show ?thesis using assms unfolding P by simp
qed

theorem recompute_idempotent_witness:
  "recomputeDependencyTree None [] (snd (recomputeDependencyTree None [] small_world)) = recomputeDependencyTree None [] small_world"
  using recompute_idempotent [of None "[]" small_world "fst (recomputeDependencyTree None [] small_world)" "snd (recomputeDependencyTree None [] small_world)"]
  by simp

section \<open>Overrides\<close>

definition effective :: "dependencyRow list \<Rightarrow> (string \<times> string) set" where
  "effective rows = {(c, p). p \<in> set (effectiveParentsOf rows c)}"

lemma climb_none:
  "\<not> climbs_to rows i q visited \<Longrightarrow> i \<notin> set visited \<Longrightarrow>
   \<forall>v \<in> set visited. set (effectiveParentsOf rows v) \<subseteq> set visited \<union> set q \<Longrightarrow>
   \<forall>x \<in> set visited \<union> set q. (x, i) \<notin> (effective rows)\<^sup>*"
proof (induction rows i q visited rule: climbs_to.induct)
  case (1 rows i visited)
  have "y \<in> set visited" if "(x, y) \<in> (effective rows)\<^sup>*" "x \<in> set visited" for x y
    using that by (induction rule: rtrancl_induct) (use 1(3) in \<open>auto simp: effective_def\<close>)
  then show ?case using 1(2) by auto
next
  case (2 rows i cur q visited)
  show ?case
  proof (cases "cur \<in> set visited")
    case True
    then have "\<forall>x \<in> set visited \<union> set q. (x, i) \<notin> (effective rows)\<^sup>*" using 2 by (intro 2(1)) (auto split: if_splits)
    then show ?thesis using True by auto
  next
    case False
    have ne: "cur \<noteq> i" and r: "\<not> climbs_to rows i (q @ effectiveParentsOf rows cur) (cur # visited)" using 2(3) False by (auto split: if_splits)
    have "\<forall>v \<in> set (cur # visited). set (effectiveParentsOf rows v) \<subseteq> set (cur # visited) \<union> set (q @ effectiveParentsOf rows cur)"
      using 2(5) by auto
    then have "\<forall>x \<in> set (cur # visited) \<union> set (q @ effectiveParentsOf rows cur). (x, i) \<notin> (effective rows)\<^sup>*"
      using 2(2) [OF ne False r] 2(4) ne by simp
    then show ?thesis by auto
  qed
qed

lemma rtrancl_avoid:
  assumes "(a, b) \<in> (r \<union> {i} \<times> P)\<^sup>*" "(a, i) \<notin> r\<^sup>*"
  shows "(a, b) \<in> r\<^sup>*"
  using assms(1)
proof (induction rule: rtrancl_induct)
  case (step b c)
  then show ?case using assms(2) by auto
qed simp

lemma acyclic_fan:
  assumes "finite P" "acyclic r" "\<forall>p \<in> P. (p, i) \<notin> r\<^sup>*"
  shows "acyclic (r \<union> {i} \<times> P)"
  using assms
proof (induction P)
  case (insert p P)
  let ?r = "r \<union> {i} \<times> P"
  have "acyclic ?r" using insert by simp
  moreover have "(p, i) \<notin> ?r\<^sup>*" using rtrancl_avoid [of p i r i P] insert(5) by auto
  moreover have "r \<union> {i} \<times> insert p P = insert (i, p) ?r" by auto
  ultimately show ?case by (simp add: acyclic_insert)
qed simp

lemma nub_simps [simp]: "set (nub xs) = set xs" "distinct (nub xs)" "nub xs = [] \<longleftrightarrow> xs = []"
  by (simp_all add: nub_def)

lemma parentRows_append: "parentRows s (xs @ ys) c = parentRows s xs c @ parentRows s ys c"
  by (simp add: parentRows_def)

lemma parentRows_override: "parentRows s (map (overrideRow i) ps) c = (if s = Override \<and> c = i then ps else [])"
  by (induction ps) (auto simp: parentRows_def overrideRow_def)

lemma parentRows_cleared:
  "parentRows s (filter (\<lambda>r. \<not> (dp_assetId r = i \<and> dp_source r = Override)) rows) c =
   (if s = Override \<and> c = i then [] else parentRows s rows c)"
  by (induction rows) (auto simp: parentRows_def)

lemma setOverride_run:
  assumes "setOverride i ids w = (Inr ps, w')"
  shows "ps = nub ids" "i \<notin> set ps" "ps \<noteq> [] \<Longrightarrow> \<not> climbs_to (dw_parents w) i ps []"
    "dw_parents w' = filter (\<lambda>r. \<not> (dp_assetId r = i \<and> dp_source r = Override)) (dw_parents w) @ map (overrideRow i) ps"
proof -
  let ?rest = "filter (\<lambda>r. \<not> (dp_assetId r = i \<and> dp_source r = Override)) (dw_parents w)"
  have "\<not> list_ex (same_key q) ?rest" if "q \<in> set (map (overrideRow i) (nub ids))" for q
    using that by (auto simp: list_ex_iff same_key_def overrideRow_def)
  moreover have "distinct (map (\<lambda>r. (dp_assetId r, dp_parentAssetId r, dp_source r)) (map (overrideRow i) (nub ids)))"
    by (simp add: distinct_map inj_on_def overrideRow_def)
  ultimately have new: "create_skipping ?rest (map (overrideRow i) (nub ids)) = ?rest @ map (overrideRow i) (nub ids)"
    by (intro create_skipping_fresh) simp_all
  obtain a where a: "findAsset i w = Some a" using assms by (auto simp: setOverride_def bindIO_def split: option.splits)
  have c: "check_override i (nub ids) w = Inr ()"
    using assms a by (cases "check_override i (nub ids) w") (simp_all add: setOverride_def bindIO_def Let_def)
  have out: "ps = nub ids" "dw_parents w' = create_skipping ?rest (map (overrideRow i) (nub ids))"
    using assms a c by (auto simp: setOverride_def bindIO_def Let_def logDep_def)
  then show "ps = nub ids" "dw_parents w' = ?rest @ map (overrideRow i) ps" using new by simp_all
  show "i \<notin> set ps" "ps \<noteq> [] \<Longrightarrow> \<not> climbs_to (dw_parents w) i ps []"
    using c unfolding out(1) by (auto simp: check_override_def Let_def split: if_splits)
qed

text \<open>
  Setting an override keeps the dependency graph free of cycles: when the effective parents form no cycle and a
  non-empty override is accepted, the asset's effective parents are exactly the proposed ones, those of every other
  asset are unchanged, and there is still no cycle.
\<close>

theorem override_keeps_acyclic:
  assumes "acyclic (effective (dw_parents w))" "setOverride i ids w = (Inr ps, w')" "ids \<noteq> []"
  shows "acyclic (effective (dw_parents w')) \<and> effectiveParentsOf (dw_parents w') i = ps \<and>
    (\<forall>c. c \<noteq> i \<longrightarrow> effectiveParentsOf (dw_parents w') c = effectiveParentsOf (dw_parents w) c)"
proof -
  note run = setOverride_run [OF assms(2)]
  have ne: "ps \<noteq> []" using run(1) assms(3) by simp
  have i: "effectiveParentsOf (dw_parents w') i = ps"
    using ne unfolding run(4) effectiveParentsOf_def parentRows_append parentRows_override parentRows_cleared by simp
  have other: "effectiveParentsOf (dw_parents w') c = effectiveParentsOf (dw_parents w) c" if "c \<noteq> i" for c
    using that unfolding run(4) effectiveParentsOf_def parentRows_append parentRows_override parentRows_cleared by simp
  let ?r = "{(c, p) \<in> effective (dw_parents w). c \<noteq> i}"
  have "?r \<subseteq> effective (dw_parents w)" by auto
  then have r: "acyclic ?r" "?r\<^sup>* \<subseteq> (effective (dw_parents w))\<^sup>*" using assms(1) acyclic_subset rtrancl_mono by blast+
  have "\<forall>x \<in> set [] \<union> set ps. (x, i) \<notin> (effective (dw_parents w))\<^sup>*" by (rule climb_none [OF run(3) [OF ne]]) simp_all
  then have "acyclic (?r \<union> {i} \<times> set ps)" using r by (intro acyclic_fan) auto
  moreover have "effective (dw_parents w') = ?r \<union> {i} \<times> set ps"
  proof -
    have "(c, p) \<in> effective (dw_parents w') \<longleftrightarrow> (c, p) \<in> ?r \<union> {i} \<times> set ps" for c p
      by (cases "c = i") (simp_all add: effective_def i other)
    then show ?thesis by auto
  qed
  ultimately show ?thesis using i other by simp
qed

definition infra_row :: "string \<Rightarrow> depAssetRow" where
  "infra_row i = \<lparr>dr_id = i, dr_hostname = None, dr_assetType = ''switch'', dr_fortinetTopology = None, dr_discoveredByIntegrationId = None,
     dr_monitored = True, dr_monitorStatus = None, dr_dependencyLayer = None, dr_dependencySuppressed = False,
     dr_dependencySuppressedAt = None, dr_dependencyTestUntil = None, dr_dependencyTestStartedBy = None\<rparr>"

text \<open>Asset a computed below b; c apart.\<close>

definition abc_world :: depWorld where
  "abc_world = \<lparr>dw_assets = map infra_row [''a'', ''b'', ''c''],
     dw_parents = [\<lparr>dp_assetId = ''a'', dp_parentAssetId = ''b'', dp_source = Computed, dp_detectedVia = ViaLldp\<rparr>], dw_lldp = [], dw_events = []\<rparr>"

definition abc1 :: depWorld where "abc1 = snd (setOverride ''a'' [''c''] abc_world)"
definition abc2 :: depWorld where "abc2 = snd (setOverride ''b'' [''a''] abc1)"
definition abc3 :: depWorld where "abc3 = snd (clearOverride ''a'' abc2)"

lemma abc_runs:
  "setOverride ''a'' [''c''] abc_world = (Inr [''c''], abc1)" "setOverride ''b'' [''a''] abc1 = (Inr [''a''], abc2)"
  "clearOverride ''a'' abc2 = (Inr 1, abc3)"
proof -
  have "fst (setOverride ''a'' [''c''] abc_world) = Inr [''c'']" "fst (setOverride ''b'' [''a''] abc1) = Inr [''a'']" "fst (clearOverride ''a'' abc2) = Inr 1"
    by code_simp+
  then show "setOverride ''a'' [''c''] abc_world = (Inr [''c''], abc1)" "setOverride ''b'' [''a''] abc1 = (Inr [''a''], abc2)"
    "clearOverride ''a'' abc2 = (Inr 1, abc3)" by (simp_all add: abc1_def abc2_def abc3_def prod_eq_iff)
qed

lemma abc_acyclic: "acyclic (effective (dw_parents abc_world))"
proof (rule acyclicI_order [where f = "\<lambda>i. if i = ''a'' then 1 else (0 :: nat)"])
  show "(if y = ''a'' then 1 else 0) < (if x = ''a'' then 1 else (0 :: nat))" if "(x, y) \<in> effective (dw_parents abc_world)" for x y
    using that by (auto simp: effective_def effectiveParentsOf_def parentRows_def abc_world_def split: if_splits)
qed

theorem override_keeps_acyclic_witness: "acyclic (effective (dw_parents abc1))"
  using override_keeps_acyclic [OF abc_acyclic abc_runs(1)] by simp

text \<open>
  Clearing an override can close a cycle: the check is only made when an override is set, against the parents in
  effect at that time. With a computed below b, overriding a to c and then b to a is accepted, and clearing the
  override of a, which is never checked, makes a and b each other's parent.
\<close>

theorem clear_override_cycle:
  "\<exists>w1 w2 w3. setOverride ''a'' [''c''] abc_world = (Inr [''c''], w1) \<and> setOverride ''b'' [''a''] w1 = (Inr [''a''], w2) \<and>
     clearOverride ''a'' w2 = (Inr 1, w3) \<and> acyclic (effective (dw_parents abc_world)) \<and> \<not> acyclic (effective (dw_parents w3))"
proof -
  have "effectiveParentsOf (dw_parents abc3) ''a'' = [''b'']" "effectiveParentsOf (dw_parents abc3) ''b'' = [''a'']"
    by code_simp+
  then have "(''a'', ''b'') \<in> effective (dw_parents abc3)" "(''b'', ''a'') \<in> effective (dw_parents abc3)" by (simp_all add: effective_def)
  then have "(''a'', ''a'') \<in> (effective (dw_parents abc3))\<^sup>+" by (rule trancl.trancl_into_trancl [OF trancl.r_into_trancl])
  then have "\<not> acyclic (effective (dw_parents abc3))" by (auto simp: acyclic_def)
  then show ?thesis using abc_runs abc_acyclic by blast
qed

end
