(* ===== verification/Json.thy ===== *)
theory Json
  imports Complex_Main JsStd
begin

text \<open>
  JSON documents as the settings rows hold them, and how the program reads them: property access, the
  conversion \<^verbatim>\<open>Number(v)\<close>, truthiness, and the object schemas of the \<^verbatim>\<open>zod\<close> library that guard the writes.
  A number is an exact rational; \<^verbatim>\<open>undefined\<close> is \<^term>\<open>None\<close>, so the value of a property is an option.
\<close>

datatype json =
    JNull
  | JBool bool
  | JNum rat
  | JStr string
  | JArr "json list"
  | JObj "(string \<times> json) list"

section \<open>Reading\<close>

text \<open>\<^verbatim>\<open>v[key]\<close> for the keys the program uses: only an object has them.\<close>

fun jprop :: "json \<Rightarrow> string \<Rightarrow> json option" where
  "jprop (JObj kvs) k = map_of kvs k"
| "jprop _ k = None"

definition jprop_opt :: "json option \<Rightarrow> string \<Rightarrow> json option" where
  "jprop_opt v k = (case v of None \<Rightarrow> None | Some j \<Rightarrow> jprop j k)"

text \<open>\<^verbatim>\<open>v ?? undefined\<close>.\<close>

definition nonnull :: "json option \<Rightarrow> json option" where
  "nonnull v = (if v = Some JNull then None else v)"

fun truthyJ :: "json \<Rightarrow> bool" where
  "truthyJ JNull = False"
| "truthyJ (JBool b) = b"
| "truthyJ (JNum n) = (n \<noteq> 0)"
| "truthyJ (JStr s) = (s \<noteq> [])"
| "truthyJ _ = True"

section \<open>Numbers\<close>

text \<open>
  \<^verbatim>\<open>Number(s)\<close> of a string: white space around the text is ignored, the empty text is 0, then a decimal
  literal with optional sign, fraction and exponent, or an unsigned hexadecimal, octal or binary one.
  \<^verbatim>\<open>NaN\<close> and the infinities, which every reader rejects alike, are \<^term>\<open>None\<close>.
\<close>

definition pow10 :: "int \<Rightarrow> rat" where
  "pow10 e = (if 0 \<le> e then 10 ^ nat e else 1 / 10 ^ nat (- e))"

definition all_digits :: "string \<Rightarrow> nat option" where
  "all_digits s = (if s \<noteq> [] \<and> list_all is_digit s then Some (nat_of_digits s) else None)"

definition exponent :: "string \<Rightarrow> int option" where
  "exponent s =
     (case s of
        [] \<Rightarrow> Some 0
      | c # t \<Rightarrow>
          (if c \<noteq> CHR ''e'' \<and> c \<noteq> CHR ''E'' then None
           else (case t of
                   [] \<Rightarrow> None
                 | d # u \<Rightarrow>
                     (if d = CHR ''-'' then map_option (\<lambda>n. - int n) (all_digits u)
                      else if d = CHR ''+'' then map_option int (all_digits u)
                      else map_option int (all_digits t)))))"

definition unsigned_decimal :: "string \<Rightarrow> rat option" where
  "unsigned_decimal s =
     (let whole = takeWhile is_digit s; r = dropWhile is_digit s;
          (frac, r') = (case r of [] \<Rightarrow> ([], r)
                        | c # t \<Rightarrow> if c = CHR ''.'' then (takeWhile is_digit t, dropWhile is_digit t) else ([], r))
      in if whole = [] \<and> frac = [] then None
         else map_option (\<lambda>e. of_nat (nat_of_digits (whole @ frac)) * pow10 (e - int (length frac))) (exponent r'))"

definition hex_val :: "char \<Rightarrow> nat" where
  "hex_val c = (if is_digit c then digit_val c else of_char (lower_char c) - 87)"

definition radix_literal :: "nat \<Rightarrow> string \<Rightarrow> rat option" where
  "radix_literal b s =
     (if s \<noteq> [] \<and> list_all (\<lambda>c. is_hex c \<and> hex_val c < b) s
      then Some (of_nat (foldl (\<lambda>n c. b * n + hex_val c) 0 s)) else None)"

definition number_of_string :: "string \<Rightarrow> rat option" where
  "number_of_string s =
     (let t = trim s in
      case t of
        [] \<Rightarrow> Some 0
      | c # u \<Rightarrow>
          (if c = CHR ''-'' then map_option uminus (unsigned_decimal u)
           else if c = CHR ''+'' then unsigned_decimal u
           else if startsWith (toLowerCase t) ''0x'' then radix_literal 16 (drop 2 t)
           else if startsWith (toLowerCase t) ''0o'' then radix_literal 8 (drop 2 t)
           else if startsWith (toLowerCase t) ''0b'' then radix_literal 2 (drop 2 t)
           else unsigned_decimal t))"

text \<open>An array is converted through its text: its elements joined by commas, \<^verbatim>\<open>null\<close> as the empty text.\<close>

fun Number_array :: "json list \<Rightarrow> rat option" where
  "Number_array [] = Some 0"
| "Number_array [JNull] = Some 0"
| "Number_array [JNum n] = Some n"
| "Number_array [JStr s] = number_of_string s"
| "Number_array [JArr xs] = Number_array xs"
| "Number_array _ = None"

fun Number :: "json option \<Rightarrow> rat option" where
  "Number None = None"
| "Number (Some JNull) = Some 0"
| "Number (Some (JBool b)) = Some (if b then 1 else 0)"
| "Number (Some (JNum n)) = Some n"
| "Number (Some (JStr s)) = number_of_string s"
| "Number (Some (JArr xs)) = Number_array xs"
| "Number (Some (JObj kvs)) = None"

text \<open>\<^verbatim>\<open>Number(v)\<close>, with a fallback for what is not finite or negative, rounded down.\<close>

definition floor_or :: "rat option \<Rightarrow> int \<Rightarrow> int" where
  "floor_or n fallback = (case n of None \<Rightarrow> fallback | Some r \<Rightarrow> if r < 0 then fallback else \<lfloor>r\<rfloor>)"

lemma floor_or_nonneg: "0 \<le> fallback \<Longrightarrow> 0 \<le> floor_or n fallback"
  by (auto simp: floor_or_def split: option.splits)

lemma floor_or_int [simp]: "0 \<le> i \<Longrightarrow> floor_or (Some (of_int i)) fallback = i"
  by (simp add: floor_or_def)

section \<open>Object schemas\<close>

text \<open>
  The part of \<^verbatim>\<open>zod\<close> (version 3) the schemas use: \<^verbatim>\<open>z.number().int().min(a).max(b)\<close>, \<^verbatim>\<open>z.enum\<close>, \<^verbatim>\<open>z.string()\<close>,
  \<^verbatim>\<open>z.string().uuid()\<close> and \<^verbatim>\<open>z.unknown()\<close>, each possibly nullable and optional. \<^verbatim>\<open>z.object\<close> checks every field,
  drops the keys it does not name, and yields the fds that are present; a failure throws.
\<close>

datatype zodType = ZInt int int | ZEnum "string list" | ZString | ZUuid | ZUnknown

record zodField =
  zf_name :: string
  zf_type :: zodType
  zf_nullable :: bool
  zf_optional :: bool

definition isUuid :: "string \<Rightarrow> bool" where
  "isUuid s \<longleftrightarrow> map length (split_on (CHR ''-'') s) = [8, 4, 4, 4, 12] \<and> list_all (list_all is_hex) (split_on (CHR ''-'') s)"

fun zod_value :: "zodType \<Rightarrow> json \<Rightarrow> bool" where
  "zod_value (ZInt a b) v = (case v of JNum n \<Rightarrow> n = of_int \<lfloor>n\<rfloor> \<and> a \<le> \<lfloor>n\<rfloor> \<and> \<lfloor>n\<rfloor> \<le> b | _ \<Rightarrow> False)"
| "zod_value (ZEnum xs) v = (case v of JStr s \<Rightarrow> s \<in> set xs | _ \<Rightarrow> False)"
| "zod_value ZString v = (case v of JStr s \<Rightarrow> True | _ \<Rightarrow> False)"
| "zod_value ZUuid v = (case v of JStr s \<Rightarrow> isUuid s | _ \<Rightarrow> False)"
| "zod_value ZUnknown v = True"

definition zod_field :: "zodField \<Rightarrow> json option \<Rightarrow> bool" where
  "zod_field f v =
     (case v of
        None \<Rightarrow> zf_optional f
      | Some JNull \<Rightarrow> zf_nullable f \<or> zod_value (zf_type f) JNull
      | Some j \<Rightarrow> zod_value (zf_type f) j)"

definition zodError :: error where
  "zodError = NativeError ''ZodError''"

definition zod_object :: "zodField list \<Rightarrow> json \<Rightarrow> json result" where
  "zod_object fds body =
     (case body of
        JObj kvs \<Rightarrow>
          (if list_all (\<lambda>f. zod_field f (map_of kvs (zf_name f))) fds
           then Inr (JObj (List.map_filter (\<lambda>f. map_option (Pair (zf_name f)) (map_of kvs (zf_name f))) fds))
           else Inl zodError)
      | _ \<Rightarrow> Inl zodError)"

lemma map_of_map_filter:
  assumes "distinct (map zf_name fds)" "f \<in> set fds"
  shows "map_of (List.map_filter (\<lambda>f. map_option (Pair (zf_name f)) (m (zf_name f))) fds) (zf_name f) = m (zf_name f)"
  using assms
proof (induction fds)
  case (Cons g fds)
  have none: "map_of (List.map_filter (\<lambda>f. map_option (Pair (zf_name f)) (m (zf_name f))) gs) k = None" if "k \<notin> zf_name ` set gs" for gs k
    using that by (induction gs) (auto simp: List.map_filter_simps split: option.splits)
  show ?case
  proof (cases "f = g")
    case True
    then show ?thesis using Cons.prems(1) none [of "zf_name g" fds]
      by (cases "m (zf_name g)") (auto simp: List.map_filter_simps)
  next
    case False
    then have "f \<in> set fds" "zf_name g \<noteq> zf_name f" using Cons.prems by auto
    then show ?thesis using Cons by (cases "m (zf_name g)") (auto simp: List.map_filter_simps)
  qed
qed simp

lemma zod_object_prop:
  assumes "zod_object fds body = Inr out" "distinct (map zf_name fds)" "f \<in> set fds"
  shows "jprop out (zf_name f) = jprop body (zf_name f) \<and> zod_field f (jprop out (zf_name f))"
proof (cases body)
  case (JObj kvs)
  then show ?thesis using assms map_of_map_filter [OF assms(2,3), of "map_of kvs"]
    by (simp add: zod_object_def list_all_iff split: if_splits) force
qed (use assms(1) in \<open>simp_all add: zod_object_def\<close>)

end
