(* ===== verification/MonitorSettings.thy ===== *)
theory MonitorSettings
  imports Json IntegrationFilter Blocks
begin

text \<open>
  The hierarchy of monitor settings of \<^verbatim>\<open>src/services/monitoringService.ts\<close>, its in-memory caches, and the
  routes of \<^verbatim>\<open>src/api/routes/monitorSettings.ts\<close> that write it. The TypeScript interfaces with one member per
  setting are functions from the names of the settings: \<open>numField\<close> for the twelve numbers, \<open>stream\<close> for the
  six polling methods and for the MIB and credential ids (the storage stream has neither). A row of
  \<^verbatim>\<open>Integration\<close> has the columns these routes use. A failing database call is not modelled, except the
  foreign key of a credential.
\<close>

section \<open>Settings\<close>

datatype numField =
    IntervalSeconds | FailureThreshold | ProbeTimeoutMs | CpuMemoryTimeoutMs | TemperatureTimeoutMs | SystemInfoTimeoutMs
  | CpuMemoryIntervalSeconds | TemperatureIntervalSeconds | SystemInfoIntervalSeconds
  | SampleRetentionDays | TelemetryRetentionDays | SystemInfoRetentionDays

datatype stream = ResponseTime | CpuMemory | Temperature | Interfaces | Lldp | Storage

record tierSettings =
  ts_num :: "numField \<Rightarrow> int"
  ts_polling :: "stream \<Rightarrow> pollingMethod option"
  ts_mib :: "stream \<Rightarrow> string option"
  ts_cred :: "stream \<Rightarrow> string option"

record overrideSettings =
  os_num :: "numField \<Rightarrow> int option"
  os_polling :: "stream \<Rightarrow> pollingMethod option"
  os_mib :: "stream \<Rightarrow> string option"
  os_cred :: "stream \<Rightarrow> string option"

fun floor_num :: "numField \<Rightarrow> int" where
  "floor_num IntervalSeconds = 60"
| "floor_num FailureThreshold = 3"
| "floor_num ProbeTimeoutMs = 5000"
| "floor_num CpuMemoryTimeoutMs = 10000"
| "floor_num TemperatureTimeoutMs = 10000"
| "floor_num SystemInfoTimeoutMs = 10000"
| "floor_num CpuMemoryIntervalSeconds = 60"
| "floor_num TemperatureIntervalSeconds = 60"
| "floor_num SystemInfoIntervalSeconds = 600"
| "floor_num SampleRetentionDays = 30"
| "floor_num TelemetryRetentionDays = 30"
| "floor_num SystemInfoRetentionDays = 30"

definition HARDCODED_FLOOR :: tierSettings where
  "HARDCODED_FLOOR = \<lparr>ts_num = floor_num, ts_polling = (\<lambda>_. None), ts_mib = (\<lambda>_. None), ts_cred = (\<lambda>_. None)\<rparr>"

fun numKey :: "numField \<Rightarrow> string" where
  "numKey IntervalSeconds = ''intervalSeconds''"
| "numKey FailureThreshold = ''failureThreshold''"
| "numKey ProbeTimeoutMs = ''probeTimeoutMs''"
| "numKey CpuMemoryTimeoutMs = ''cpuMemoryTimeoutMs''"
| "numKey TemperatureTimeoutMs = ''temperatureTimeoutMs''"
| "numKey SystemInfoTimeoutMs = ''systemInfoTimeoutMs''"
| "numKey CpuMemoryIntervalSeconds = ''cpuMemoryIntervalSeconds''"
| "numKey TemperatureIntervalSeconds = ''temperatureIntervalSeconds''"
| "numKey SystemInfoIntervalSeconds = ''systemInfoIntervalSeconds''"
| "numKey SampleRetentionDays = ''sampleRetentionDays''"
| "numKey TelemetryRetentionDays = ''telemetryRetentionDays''"
| "numKey SystemInfoRetentionDays = ''systemInfoRetentionDays''"

fun streamKey :: "stream \<Rightarrow> string" where
  "streamKey ResponseTime = ''responseTime''"
| "streamKey CpuMemory = ''cpuMemory''"
| "streamKey Temperature = ''temperature''"
| "streamKey Interfaces = ''interfaces''"
| "streamKey Lldp = ''lldp''"
| "streamKey Storage = ''storage''"

definition pollingKey :: "stream \<Rightarrow> string" where
  "pollingKey st = streamKey st @ ''Polling''"

definition mibKey :: "stream \<Rightarrow> string" where
  "mibKey st = streamKey st @ ''MibId''"

definition credKey :: "stream \<Rightarrow> string" where
  "credKey st = streamKey st @ ''CredentialId''"

text \<open>\<^verbatim>\<open>a ?? b\<close> is \<^const>\<open>keep\<close> for a value and \<^const>\<open>keep_opt\<close> for an option.\<close>

lemma keep_opt_simps [simp]: "keep_opt None b = b" "keep_opt (Some x) b = Some x"
  by (simp_all add: keep_opt_def)

lemma keep_simps [simp]: "keep None d = d" "keep (Some x) d = x"
  by (simp_all add: keep_def)

definition methodOf :: "string \<Rightarrow> pollingMethod option" where
  "methodOf s = find (\<lambda>m. methodToken m = s) ALL_METHODS"

section \<open>A tier read from JSON\<close>

definition toPositiveInt :: "json option \<Rightarrow> int \<Rightarrow> int" where
  "toPositiveInt v fallback = floor_or (Number v) fallback"

definition toPositiveIntOr :: "json option \<Rightarrow> int option \<Rightarrow> int option" where
  "toPositiveIntOr v fallback = (case v of Some (JNum n) \<Rightarrow> if 0 < n then Some \<lfloor>n\<rfloor> else fallback | _ \<Rightarrow> fallback)"

definition readMibIdFromJson :: "json option \<Rightarrow> string option" where
  "readMibIdFromJson v = (case v of Some (JStr s) \<Rightarrow> if trim s = [] then None else Some (trim s) | _ \<Rightarrow> None)"

definition readPollingFromJson :: "json option \<Rightarrow> string \<Rightarrow> pollingMethod option" where
  "readPollingFromJson v key = (case jprop_opt v key of Some (JStr s) \<Rightarrow> methodOf s | _ \<Rightarrow> None)"

text \<open>The fallback of a number: the legacy telemetry key for the streams split from it, then the floor.\<close>

fun legacyKey :: "numField \<Rightarrow> string option" where
  "legacyKey CpuMemoryTimeoutMs = Some ''telemetryTimeoutMs''"
| "legacyKey TemperatureTimeoutMs = Some ''telemetryTimeoutMs''"
| "legacyKey CpuMemoryIntervalSeconds = Some ''telemetryIntervalSeconds''"
| "legacyKey TemperatureIntervalSeconds = Some ''telemetryIntervalSeconds''"
| "legacyKey _ = None"

definition num_fallback :: "json option \<Rightarrow> numField \<Rightarrow> int" where
  "num_fallback fl f =
     keep (case legacyKey f of None \<Rightarrow> None | Some k \<Rightarrow> toPositiveIntOr (jprop_opt fl k) None) (floor_num f)"

definition wasTelemetry :: "stream \<Rightarrow> bool" where
  "wasTelemetry st \<longleftrightarrow> st = CpuMemory \<or> st = Temperature"

definition tierFromJson :: "json option \<Rightarrow> tierSettings" where
  "tierFromJson v =
     (let fl = nonnull v;
          pollingBlock = nonnull (jprop_opt fl ''polling'')
      in \<lparr>ts_num = (\<lambda>f. toPositiveInt (jprop_opt fl (numKey f)) (num_fallback fl f)),
          ts_polling = (\<lambda>st.
            keep_opt (readPollingFromJson pollingBlock (streamKey st))
              (keep_opt (readPollingFromJson fl (pollingKey st))
                (if wasTelemetry st
                 then keep_opt (readPollingFromJson pollingBlock ''telemetry'') (readPollingFromJson fl ''telemetryPolling'')
                 else None))),
          ts_mib = (\<lambda>st.
            if st = Storage then None
            else keep_opt (readMibIdFromJson (jprop_opt fl (mibKey st)))
                   (if wasTelemetry st then readMibIdFromJson (jprop_opt fl ''telemetryMibId'') else None)),
          ts_cred = (\<lambda>_. None)\<rparr>)"

section \<open>Stored state and caches\<close>

record classOverrideRow =
  co_id :: string
  co_integrationId :: "string option"
  co_assetType :: string
  co_num :: "numField \<Rightarrow> int option"
  co_polling :: "stream \<Rightarrow> string option"
  co_mib :: "stream \<Rightarrow> string option"
  co_cred :: "stream \<Rightarrow> string option"

record settingsIntegration =
  si_id :: string
  si_name :: string
  si_type :: string
  si_config :: json

record credential =
  cr_id :: string
  cr_type :: string
  cr_config :: json

record monState =
  ms_legacy :: "json option"
  ms_manual :: "json option"
  ms_integrations :: "settingsIntegration list"
  ms_overrides :: "classOverrideRow list"
  ms_credentials :: "credential list"
  ms_tierCache :: "string \<rightharpoonup> tierSettings"
  ms_classCache :: "string \<rightharpoonup> overrideSettings option"
  ms_events :: "event list"

definition MANUAL_TIER_CACHE_KEY :: string where
  "MANUAL_TIER_CACHE_KEY = ''__manual__''"

definition classCacheKey :: "string option \<Rightarrow> string \<Rightarrow> string" where
  "classCacheKey integrationId assetType = keep integrationId MANUAL_TIER_CACHE_KEY @ '':'' @ assetType"

text \<open>
  The scope of an invalidation: \<^verbatim>\<open>integrationId\<close> may be absent, \<^verbatim>\<open>null\<close> (the manual tier) or an id.
\<close>

definition invalidateMonitorSettingsCache :: "(string option option \<times> string option) option \<Rightarrow> monState \<Rightarrow> monState" where
  "invalidateMonitorSettingsCache scope s =
     (case scope of
        None \<Rightarrow> s\<lparr>ms_tierCache := Map.empty, ms_classCache := Map.empty\<rparr>
      | Some (integrationId, assetType) \<Rightarrow>
          (case (case integrationId of Some None \<Rightarrow> Some MANUAL_TIER_CACHE_KEY | Some (Some i) \<Rightarrow> Some i | None \<Rightarrow> None) of
             None \<Rightarrow> s\<lparr>ms_classCache := Map.empty\<rparr>
           | Some tierKey \<Rightarrow>
               s\<lparr>ms_tierCache := (ms_tierCache s)(tierKey := None),
                 ms_classCache :=
                   (if truthy assetType then (ms_classCache s)(tierKey @ '':'' @ the assetType := None)
                    else (\<lambda>k. if startsWith k (tierKey @ '':'') then None else ms_classCache s k))\<rparr>))"

definition truthy_value :: "json option \<Rightarrow> json option" where
  "truthy_value v = (case v of Some j \<Rightarrow> if truthyJ j then Some j else None | None \<Rightarrow> None)"

definition legacyGlobalAsTier :: "monState \<Rightarrow> tierSettings option" where
  "legacyGlobalAsTier s = map_option (\<lambda>j. tierFromJson (Some j)) (truthy_value (ms_legacy s))"

definition findSettingsIntegration :: "string \<Rightarrow> monState \<Rightarrow> settingsIntegration option" where
  "findSettingsIntegration i s = find (\<lambda>g. si_id g = i) (ms_integrations s)"

text \<open>What the loaders read from the database when the cache has no entry.\<close>

definition storedTier :: "json option \<Rightarrow> monState \<Rightarrow> tierSettings" where
  "storedTier v s =
     (case truthy_value v of
        Some j \<Rightarrow> tierFromJson (Some j)
      | None \<Rightarrow> keep (legacyGlobalAsTier s) HARDCODED_FLOOR)"

definition integrationTier :: "string \<Rightarrow> monState \<Rightarrow> tierSettings" where
  "integrationTier i s =
     storedTier (case findSettingsIntegration i s of None \<Rightarrow> None | Some g \<Rightarrow> jprop (si_config g) ''monitorSettings'') s"

definition manualTier :: "monState \<Rightarrow> tierSettings" where
  "manualTier s = storedTier (ms_manual s) s"

definition cacheTier :: "string \<Rightarrow> tierSettings \<Rightarrow> monState \<Rightarrow> monState" where
  "cacheTier k t s = s\<lparr>ms_tierCache := (ms_tierCache s)(k \<mapsto> t)\<rparr>"

definition loadIntegrationTierSettings :: "string \<Rightarrow> monState \<Rightarrow> tierSettings \<times> monState" where
  "loadIntegrationTierSettings i s =
     (case ms_tierCache s i of
        Some t \<Rightarrow> (t, s)
      | None \<Rightarrow> (integrationTier i s, cacheTier i (integrationTier i s) s))"

definition loadManualTierSettings :: "monState \<Rightarrow> tierSettings \<times> monState" where
  "loadManualTierSettings s =
     (case ms_tierCache s MANUAL_TIER_CACHE_KEY of
        Some t \<Rightarrow> (t, s)
      | None \<Rightarrow> (manualTier s, cacheTier MANUAL_TIER_CACHE_KEY (manualTier s) s))"

definition findClassOverride :: "string option \<Rightarrow> string \<Rightarrow> monState \<Rightarrow> classOverrideRow option" where
  "findClassOverride integrationId assetType s =
     find (\<lambda>r. co_integrationId r = integrationId \<and> co_assetType r = assetType) (ms_overrides s)"

definition overrideOfRow :: "classOverrideRow \<Rightarrow> overrideSettings" where
  "overrideOfRow r =
     \<lparr>os_num = co_num r,
      os_polling = (\<lambda>st. case co_polling r st of None \<Rightarrow> None | Some p \<Rightarrow> methodOf p),
      os_mib = (\<lambda>st. or_null (co_mib r st)),
      os_cred = (\<lambda>st. or_null (co_cred r st))\<rparr>"

definition classOverride :: "string option \<Rightarrow> string \<Rightarrow> monState \<Rightarrow> overrideSettings option" where
  "classOverride integrationId assetType s = map_option overrideOfRow (findClassOverride integrationId assetType s)"

definition loadClassOverride :: "string option \<Rightarrow> string \<Rightarrow> monState \<Rightarrow> overrideSettings option \<times> monState" where
  "loadClassOverride integrationId assetType s =
     (let key = classCacheKey integrationId assetType in
      case ms_classCache s key of
        Some r \<Rightarrow> (r, s)
      | None \<Rightarrow> (classOverride integrationId assetType s,
                 s\<lparr>ms_classCache := (ms_classCache s)(key \<mapsto> classOverride integrationId assetType s)\<rparr>))"

section \<open>The resolver\<close>

record assetContext =
  ac_assetType :: string
  ac_integrationId :: "string option"
  ac_integrationType :: "string option"
  ac_num :: "numField \<Rightarrow> int option"
  ac_polling :: "stream \<Rightarrow> string option"
  ac_mib :: "stream \<Rightarrow> string option"

text \<open>The asset columns exist for the cadences and the timeouts only.\<close>

definition assetLevel :: "numField \<Rightarrow> bool" where
  "assetLevel f \<longleftrightarrow> f \<notin> {FailureThreshold, SampleRetentionDays, TelemetryRetentionDays, SystemInfoRetentionDays}"

fun defaultPollingForSource :: "assetSourceKind \<Rightarrow> stream \<Rightarrow> pollingMethod option" where
  "defaultPollingForSource source st =
     (if source = KFortimanager \<or> source = KFortigate
      then (if st = Lldp then Some Disabled else if st = Storage then Some Disabled else Some RestApi)
      else if source = KActivedirectory \<or> source = KEntraid \<or> source = KWindowsserver
      then (if st = ResponseTime then Some Icmp else None)
      else (if st = ResponseTime then Some Icmp else None))"

definition compatible :: "assetSourceKind \<Rightarrow> pollingMethod option \<Rightarrow> pollingMethod option" where
  "compatible source v = (case v of Some m \<Rightarrow> if isPollingMethodCompatible source m then Some m else None | None \<Rightarrow> None)"

definition resolveStream ::
  "assetSourceKind \<Rightarrow> stream \<Rightarrow> pollingMethod option \<Rightarrow> pollingMethod option \<Rightarrow> string option \<Rightarrow> pollingMethod option" where
  "resolveStream source st tierVal classVal assetVal =
     (let resolved = defaultPollingForSource source st;
          resolved = (if compatible source tierVal \<noteq> None then tierVal else resolved);
          resolved = (if compatible source classVal \<noteq> None then classVal else resolved);
          assetMethod = (case assetVal of None \<Rightarrow> None | Some a \<Rightarrow> methodOf a)
      in if compatible source assetMethod \<noteq> None then assetMethod else resolved)"

definition resolveMibId :: "string option \<Rightarrow> string option \<Rightarrow> string option \<Rightarrow> string option" where
  "resolveMibId tierVal classVal assetVal =
     (let resolved = tierVal;
          resolved = (if truthy classVal then classVal else resolved)
      in if truthy assetVal then assetVal else resolved)"

definition noOverride :: overrideSettings where
  "noOverride = \<lparr>os_num = (\<lambda>_. None), os_polling = (\<lambda>_. None), os_mib = (\<lambda>_. None), os_cred = (\<lambda>_. None)\<rparr>"

definition mergeSettings :: "tierSettings \<Rightarrow> overrideSettings option \<Rightarrow> assetContext \<Rightarrow> tierSettings" where
  "mergeSettings tier3 override asset =
     (let co = keep override noOverride;
          sourceKind = assetSourceKindFromIntegrationType (ac_integrationType asset)
      in \<lparr>ts_num = (\<lambda>f. if assetLevel f \<and> ac_num asset f \<noteq> None then the (ac_num asset f)
                        else if os_num co f \<noteq> None then the (os_num co f) else ts_num tier3 f),
          ts_polling = (\<lambda>st. resolveStream sourceKind st (ts_polling tier3 st) (os_polling co st) (ac_polling asset st)),
          ts_mib = (\<lambda>st. if st = Storage then ts_mib tier3 st
                         else resolveMibId (ts_mib tier3 st) (os_mib co st) (ac_mib asset st)),
          ts_cred = (\<lambda>st. if st = Storage then ts_cred tier3 st else os_cred co st)\<rparr>)"

definition loadTiers :: "assetContext \<Rightarrow> monState \<Rightarrow> (tierSettings \<times> overrideSettings option) \<times> monState" where
  "loadTiers asset s =
     (let (tier3, s1) = (if truthy (ac_integrationId asset) then loadIntegrationTierSettings (the (ac_integrationId asset)) s
                         else loadManualTierSettings s);
          (override, s2) = loadClassOverride (ac_integrationId asset) (ac_assetType asset) s1
      in ((tier3, override), s2))"

definition resolveMonitorSettings :: "assetContext \<Rightarrow> monState \<Rightarrow> tierSettings \<times> monState" where
  "resolveMonitorSettings asset s =
     (let ((tier3, override), s') = loadTiers asset s in (mergeSettings tier3 override asset, s'))"

section \<open>The resolver with provenance\<close>

datatype provenanceTier = PvAsset | PvClass | PvIntegration | PvManual

record provenanceResult =
  pv_resolved :: tierSettings
  pv_num :: "numField \<Rightarrow> provenanceTier"
  pv_polling :: "stream \<Rightarrow> provenanceTier"
  pv_mib :: "stream \<Rightarrow> provenanceTier"
  pv_cred :: "stream \<Rightarrow> provenanceTier"
  pv_tier3Source :: provenanceTier
  pv_classOverrideId :: "string option"

text \<open>One layer over another: the value and its label change together.\<close>

definition takeLayer :: "provenanceTier \<Rightarrow> 'a option \<Rightarrow> 'a \<times> provenanceTier \<Rightarrow> 'a \<times> provenanceTier" where
  "takeLayer tier v below = (case v of None \<Rightarrow> below | Some x \<Rightarrow> (x, tier))"

definition assetMibOverride :: "string option \<Rightarrow> string option" where
  "assetMibOverride raw = (case raw of None \<Rightarrow> None | Some s \<Rightarrow> if trim s = [] then None else Some s)"

definition provenanceLayers :: "tierSettings \<Rightarrow> overrideSettings option \<Rightarrow> assetContext \<Rightarrow> provenanceTier \<Rightarrow> string option \<Rightarrow> provenanceResult" where
  "provenanceLayers tier3 override asset src overrideId =
     (let co = keep override noOverride;
          sourceKind = assetSourceKindFromIntegrationType (ac_integrationType asset);
          num = (\<lambda>f. takeLayer PvAsset (if assetLevel f then ac_num asset f else None) (takeLayer PvClass (os_num co f) (ts_num tier3 f, src)));
          polling = (\<lambda>st. takeLayer PvAsset (map_option Some (compatible sourceKind (case ac_polling asset st of None \<Rightarrow> None | Some a \<Rightarrow> methodOf a)))
                            (takeLayer PvClass (map_option Some (os_polling co st)) (ts_polling tier3 st, src)));
          mib = (\<lambda>st. if st = Storage then (ts_mib tier3 st, src)
                      else takeLayer PvAsset (map_option Some (assetMibOverride (ac_mib asset st)))
                             (takeLayer PvClass (map_option Some (os_mib co st)) (ts_mib tier3 st, src)));
          cred = (\<lambda>st. if st = Storage then (ts_cred tier3 st, src)
                       else takeLayer PvClass (map_option Some (os_cred co st)) (ts_cred tier3 st, src))
      in \<lparr>pv_resolved = \<lparr>ts_num = fst \<circ> num, ts_polling = fst \<circ> polling, ts_mib = fst \<circ> mib, ts_cred = fst \<circ> cred\<rparr>,
          pv_num = snd \<circ> num, pv_polling = snd \<circ> polling, pv_mib = snd \<circ> mib, pv_cred = snd \<circ> cred,
          pv_tier3Source = src, pv_classOverrideId = overrideId\<rparr>)"

definition resolveMonitorSettingsWithProvenance :: "assetContext \<Rightarrow> monState \<Rightarrow> provenanceResult \<times> monState" where
  "resolveMonitorSettingsWithProvenance asset s =
     (let ((tier3, override), s') = loadTiers asset s;
          overrideId = (case override of None \<Rightarrow> None
                        | Some _ \<Rightarrow> map_option co_id (findClassOverride (ac_integrationId asset) (ac_assetType asset) s'))
      in (provenanceLayers tier3 override asset (if truthy (ac_integrationId asset) then PvIntegration else PvManual) overrideId, s'))"

section \<open>Schemas of the routes\<close>

definition ASSET_TYPES :: "string list" where
  "ASSET_TYPES = [''server'', ''switch'', ''router'', ''firewall'', ''workstation'', ''printer'', ''access_point'', ''other'']"

definition required_int :: "numField \<Rightarrow> int \<Rightarrow> int \<Rightarrow> zodField" where
  "required_int f a b = \<lparr>zf_name = numKey f, zf_type = ZInt a b, zf_nullable = False, zf_optional = False\<rparr>"

definition optional_field :: "string \<Rightarrow> zodType \<Rightarrow> zodField" where
  "optional_field k z = \<lparr>zf_name = k, zf_type = z, zf_nullable = True, zf_optional = True\<rparr>"

definition unknown_field :: "numField \<Rightarrow> zodField" where
  "unknown_field f = \<lparr>zf_name = numKey f, zf_type = ZUnknown, zf_nullable = False, zf_optional = True\<rparr>"

definition PollingMethodEnum :: zodType where
  "PollingMethodEnum = ZEnum (map methodToken ALL_METHODS)"

definition retentionFields :: "zodField list" where
  "retentionFields = map unknown_field [SampleRetentionDays, TelemetryRetentionDays, SystemInfoRetentionDays]"

definition pollingFields :: "zodField list" where
  "pollingFields = map (\<lambda>st. optional_field (pollingKey st) PollingMethodEnum) [ResponseTime, CpuMemory, Temperature, Interfaces, Lldp, Storage]"

definition mibStreams :: "stream list" where
  "mibStreams = [ResponseTime, CpuMemory, Temperature, Interfaces, Lldp]"

definition TierSettingsSchema :: "zodField list" where
  "TierSettingsSchema =
     [required_int IntervalSeconds 1 86400, required_int FailureThreshold 1 100, required_int ProbeTimeoutMs 100 60000,
      optional_field (numKey CpuMemoryTimeoutMs) (ZInt 1000 120000), optional_field (numKey TemperatureTimeoutMs) (ZInt 1000 120000),
      optional_field (numKey SystemInfoTimeoutMs) (ZInt 1000 120000), required_int CpuMemoryIntervalSeconds 15 86400,
      required_int TemperatureIntervalSeconds 15 86400, required_int SystemInfoIntervalSeconds 60 86400] @
     retentionFields @ pollingFields @ map (\<lambda>st. optional_field (mibKey st) ZString) mibStreams"

definition OverrideSettingsSchema :: "zodField list" where
  "OverrideSettingsSchema =
     [optional_field (numKey IntervalSeconds) (ZInt 1 86400), optional_field (numKey FailureThreshold) (ZInt 1 100),
      optional_field (numKey ProbeTimeoutMs) (ZInt 100 60000), optional_field (numKey CpuMemoryTimeoutMs) (ZInt 1000 120000),
      optional_field (numKey TemperatureTimeoutMs) (ZInt 1000 120000), optional_field (numKey SystemInfoTimeoutMs) (ZInt 1000 120000),
      optional_field (numKey CpuMemoryIntervalSeconds) (ZInt 15 86400), optional_field (numKey TemperatureIntervalSeconds) (ZInt 15 86400),
      optional_field (numKey SystemInfoIntervalSeconds) (ZInt 60 86400)] @
     retentionFields @ pollingFields @ map (\<lambda>st. optional_field (credKey st) ZUuid) mibStreams @
     map (\<lambda>st. optional_field (mibKey st) ZString) mibStreams"

definition ClassCreateSchema :: "zodField list" where
  "ClassCreateSchema =
     [\<lparr>zf_name = ''integrationId'', zf_type = ZUuid, zf_nullable = True, zf_optional = False\<rparr>,
      \<lparr>zf_name = ''assetType'', zf_type = ZEnum ASSET_TYPES, zf_nullable = False, zf_optional = False\<rparr>] @ OverrideSettingsSchema"

definition omitKeys :: "string list \<Rightarrow> json \<Rightarrow> json" where
  "omitKeys ks v = (case v of JObj kvs \<Rightarrow> JObj (filter (\<lambda>(k, _). k \<notin> set ks) kvs) | _ \<Rightarrow> v)"

definition stripLegacyRetention :: "json \<Rightarrow> json" where
  "stripLegacyRetention = omitKeys [numKey SampleRetentionDays, numKey TelemetryRetentionDays, numKey SystemInfoRetentionDays]"

section \<open>The routes that write\<close>

fun kindToken :: "assetSourceKind \<Rightarrow> string" where
  "kindToken KFortimanager = ''fortimanager''"
| "kindToken KFortigate = ''fortigate''"
| "kindToken KActivedirectory = ''activedirectory''"
| "kindToken KEntraid = ''entraid''"
| "kindToken KWindowsserver = ''windowsserver''"
| "kindToken KManual = ''manual''"

definition jstring :: "json option \<Rightarrow> string option" where
  "jstring v = (case v of Some (JStr s) \<Rightarrow> Some s | _ \<Rightarrow> None)"

definition jint :: "json option \<Rightarrow> int option" where
  "jint v = (case v of Some (JNum n) \<Rightarrow> Some \<lfloor>n\<rfloor> | _ \<Rightarrow> None)"

fun check_polling :: "assetSourceKind \<Rightarrow> json \<Rightarrow> stream list \<Rightarrow> unit result" where
  "check_polling source inp [] = Inr ()"
| "check_polling source inp (st # sts) =
     (case readPollingFromJson (Some inp) (pollingKey st) of
        None \<Rightarrow> check_polling source inp sts
      | Some m \<Rightarrow>
          (if isPollingMethodCompatible source m then check_polling source inp sts
           else Inl (AppError 400 (pollingMethodLabel m @ '' polling is not supported for '' @ kindToken source @
                  '' assets (field: '' @ pollingKey st @ '')''))))"

definition assertPollingCompatible :: "assetSourceKind \<Rightarrow> json \<Rightarrow> unit result" where
  "assertPollingCompatible source inp = check_polling source inp [ResponseTime, CpuMemory, Temperature, Interfaces, Lldp, Storage]"

definition monEvent :: "string \<Rightarrow> string \<Rightarrow> string option \<Rightarrow> string \<Rightarrow> string option \<Rightarrow> event" where
  "monEvent action rtype i name actor =
     \<lparr>ev_action = action, ev_level = ''info'', ev_resourceType = rtype, ev_resourceId = i, ev_resourceName = Some name, ev_actor = actor\<rparr>"

definition logMon :: "event \<Rightarrow> (monState, unit) io" where
  "logMon ev = modifyIO (\<lambda>s. s\<lparr>ms_events := ms_events s @ [ev]\<rparr>)"

definition putManual :: "json \<Rightarrow> string option \<Rightarrow> (monState, json) io" where
  "putManual body actor =
     bindIO (liftIO (map_sum id stripLegacyRetention (zod_object TierSettingsSchema body))) (\<lambda>inp.
     bindIO (modifyIO (\<lambda>s. s\<lparr>ms_manual := Some inp\<rparr>)) (\<lambda>_.
     bindIO (modifyIO (invalidateMonitorSettingsCache (Some (Some None, None)))) (\<lambda>_.
     bindIO (logMon (monEvent ''monitor_settings.manual.updated'' ''monitor_settings'' None ''Manual tier'' actor)) (\<lambda>_.
     returnIO inp))))"

text \<open>
  \<^verbatim>\<open>cfg.monitorSettings = input\<close>: a primitive cannot take a property, and one set on an array is lost when
  the value is written as JSON.
\<close>

definition set_prop :: "string \<Rightarrow> json \<Rightarrow> json \<Rightarrow> json result" where
  "set_prop k v cfg =
     (case cfg of
        JNull \<Rightarrow> Inr (JObj [(k, v)])
      | JObj kvs \<Rightarrow> Inr (JObj (if map_of kvs k = None then kvs @ [(k, v)] else map (\<lambda>(k', w). if k' = k then (k', v) else (k', w)) kvs))
      | JArr xs \<Rightarrow> Inr (JArr xs)
      | _ \<Rightarrow> Inl TypeError)"

definition putIntegration :: "string \<Rightarrow> json \<Rightarrow> string option \<Rightarrow> (monState, json) io" where
  "putIntegration integrationId body actor =
     bindIO (liftIO (map_sum id stripLegacyRetention (zod_object TierSettingsSchema body))) (\<lambda>inp.
     bindIO (getIO (findSettingsIntegration integrationId)) (\<lambda>found.
     case found of
       None \<Rightarrow> throwIO (AppError 404 ''Integration not found'')
     | Some g \<Rightarrow>
         bindIO (liftIO (assertPollingCompatible (assetSourceKindFromIntegrationType (Some (si_type g))) inp)) (\<lambda>_.
         bindIO (liftIO (set_prop ''monitorSettings'' inp (si_config g))) (\<lambda>cfg.
         bindIO (modifyIO (\<lambda>s. s\<lparr>ms_integrations := map (\<lambda>h. if si_id h = integrationId then h\<lparr>si_config := cfg\<rparr> else h) (ms_integrations s)\<rparr>)) (\<lambda>_.
         bindIO (modifyIO (invalidateMonitorSettingsCache (Some (Some (Some integrationId), None)))) (\<lambda>_.
         bindIO (logMon (monEvent ''monitor_settings.integration.updated'' ''integration'' (Some integrationId) (si_name g) actor)) (\<lambda>_.
         returnIO inp)))))))"

definition foreignKeyError :: error where
  "foreignKeyError = NativeError ''Foreign key constraint violated''"

definition credentials_exist :: "(stream \<Rightarrow> string option) \<Rightarrow> monState \<Rightarrow> bool" where
  "credentials_exist cred s \<longleftrightarrow> list_all (\<lambda>st. case cred st of None \<Rightarrow> True | Some c \<Rightarrow> c \<in> cr_id ` set (ms_credentials s)) mibStreams"

definition newOverrideRow :: "string \<Rightarrow> string option \<Rightarrow> string \<Rightarrow> json \<Rightarrow> classOverrideRow" where
  "newOverrideRow uid integrationId assetType settings =
     \<lparr>co_id = uid, co_integrationId = integrationId, co_assetType = assetType,
      co_num = (\<lambda>f. jint (jprop settings (numKey f))),
      co_polling = (\<lambda>st. jstring (jprop settings (pollingKey st))),
      co_mib = (\<lambda>st. jstring (jprop settings (mibKey st))),
      co_cred = (\<lambda>st. jstring (jprop settings (credKey st)))\<rparr>"

definition overrideName :: "string \<Rightarrow> settingsIntegration option \<Rightarrow> string" where
  "overrideName assetType g = assetType @ '' @ '' @ (case g of None \<Rightarrow> ''Manual'' | Some h \<Rightarrow> si_name h)"

definition integrationOf :: "string option \<Rightarrow> monState \<Rightarrow> settingsIntegration option" where
  "integrationOf integrationId s = (case integrationId of None \<Rightarrow> None | Some i \<Rightarrow> findSettingsIntegration i s)"

definition sourceKindOf :: "settingsIntegration option \<Rightarrow> assetSourceKind" where
  "sourceKindOf g = (case g of None \<Rightarrow> KManual | Some h \<Rightarrow> assetSourceKindFromIntegrationType (Some (si_type h)))"

definition postClassOverride :: "json \<Rightarrow> string \<Rightarrow> string option \<Rightarrow> (monState, classOverrideRow) io" where
  "postClassOverride body uid actor =
     bindIO (liftIO (zod_object ClassCreateSchema body)) (\<lambda>inp.
     let integrationId = jstring (jprop inp ''integrationId'');
         assetType = the (jstring (jprop inp ''assetType'')) in
     bindIO (getIO (integrationOf integrationId)) (\<lambda>g.
     if integrationId \<noteq> None \<and> g = None then throwIO (AppError 400 (''Integration '' @ the integrationId @ '' not found''))
     else
       bindIO (liftIO (assertPollingCompatible (sourceKindOf g) inp)) (\<lambda>_.
       bindIO (getIO (findClassOverride integrationId assetType)) (\<lambda>existing.
       if existing \<noteq> None
       then throwIO (AppError 409 (''Class override for ('' @ keep integrationId ''manual'' @ '', '' @ assetType @ '') already exists''))
       else
         (let row = newOverrideRow uid integrationId assetType (stripLegacyRetention inp) in
          bindIO (getIO (credentials_exist (co_cred row))) (\<lambda>ok.
          if \<not> ok then throwIO foreignKeyError
          else
            bindIO (modifyIO (\<lambda>s. s\<lparr>ms_overrides := ms_overrides s @ [row]\<rparr>)) (\<lambda>_.
            bindIO (modifyIO (invalidateMonitorSettingsCache (Some (Some integrationId, Some assetType)))) (\<lambda>_.
            bindIO (logMon (monEvent ''monitor_settings.class_override.created'' ''monitor_class_override'' (Some uid) (overrideName assetType g) actor)) (\<lambda>_.
            returnIO row)))))))))"

text \<open>An update leaves the columns whose key is absent, and clears those whose key is \<^verbatim>\<open>null\<close>.\<close>

definition patched :: "(json option \<Rightarrow> 'a option) \<Rightarrow> json \<Rightarrow> string \<Rightarrow> 'a option \<Rightarrow> 'a option" where
  "patched conv inp k old = (case jprop inp k of None \<Rightarrow> old | Some v \<Rightarrow> conv (Some v))"

definition patchOverrideRow :: "json \<Rightarrow> classOverrideRow \<Rightarrow> classOverrideRow" where
  "patchOverrideRow inp r =
     r\<lparr>co_num := (\<lambda>f. patched jint inp (numKey f) (co_num r f)),
       co_polling := (\<lambda>st. patched jstring inp (pollingKey st) (co_polling r st)),
       co_mib := (\<lambda>st. patched jstring inp (mibKey st) (co_mib r st)),
       co_cred := (\<lambda>st. patched jstring inp (credKey st) (co_cred r st))\<rparr>"

definition putClassOverride :: "string \<Rightarrow> json \<Rightarrow> string option \<Rightarrow> (monState, classOverrideRow) io" where
  "putClassOverride i body actor =
     bindIO (liftIO (map_sum id stripLegacyRetention (zod_object OverrideSettingsSchema body))) (\<lambda>inp.
     bindIO (getIO (\<lambda>s. find (\<lambda>r. co_id r = i) (ms_overrides s))) (\<lambda>found.
     case found of
       None \<Rightarrow> throwIO (AppError 404 ''Class override not found'')
     | Some existing \<Rightarrow>
         bindIO (getIO (integrationOf (co_integrationId existing))) (\<lambda>g.
         bindIO (liftIO (assertPollingCompatible (sourceKindOf g) inp)) (\<lambda>_.
         let row = patchOverrideRow inp existing in
         bindIO (getIO (credentials_exist (co_cred row))) (\<lambda>ok.
         if \<not> ok then throwIO foreignKeyError
         else
           bindIO (modifyIO (\<lambda>s. s\<lparr>ms_overrides := map (\<lambda>r. if co_id r = i then patchOverrideRow inp r else r) (ms_overrides s)\<rparr>)) (\<lambda>_.
           bindIO (modifyIO (invalidateMonitorSettingsCache (Some (Some (co_integrationId existing), Some (co_assetType existing))))) (\<lambda>_.
           bindIO (logMon (monEvent ''monitor_settings.class_override.updated'' ''monitor_class_override'' (Some i) (overrideName (co_assetType existing) g) actor)) (\<lambda>_.
           returnIO row))))))))"

definition deleteClassOverride :: "string \<Rightarrow> string option \<Rightarrow> (monState, unit) io" where
  "deleteClassOverride i actor =
     bindIO (getIO (\<lambda>s. find (\<lambda>r. co_id r = i) (ms_overrides s))) (\<lambda>found.
     case found of
       None \<Rightarrow> throwIO (AppError 404 ''Class override not found'')
     | Some existing \<Rightarrow>
         bindIO (getIO (integrationOf (co_integrationId existing))) (\<lambda>g.
         bindIO (modifyIO (\<lambda>s. s\<lparr>ms_overrides := filter (\<lambda>r. co_id r \<noteq> i) (ms_overrides s)\<rparr>)) (\<lambda>_.
         bindIO (modifyIO (invalidateMonitorSettingsCache (Some (Some (co_integrationId existing), Some (co_assetType existing))))) (\<lambda>_.
         logMon (monEvent ''monitor_settings.class_override.deleted'' ''monitor_class_override'' (Some i) (overrideName (co_assetType existing) g) actor)))))"

text \<open>Deleting an integration deletes its class overrides (\<^verbatim>\<open>onDelete: Cascade\<close>).\<close>

definition deleteIntegration :: "string \<Rightarrow> string option \<Rightarrow> (monState, unit) io" where
  "deleteIntegration i actor =
     bindIO (getIO (findSettingsIntegration i)) (\<lambda>found.
     case found of
       None \<Rightarrow> throwIO (AppError 404 ''Integration not found'')
     | Some g \<Rightarrow>
         bindIO (modifyIO (\<lambda>s. s\<lparr>ms_integrations := filter (\<lambda>h. si_id h \<noteq> i) (ms_integrations s),
                                 ms_overrides := filter (\<lambda>r. co_integrationId r \<noteq> Some i) (ms_overrides s)\<rparr>)) (\<lambda>_.
         bindIO (modifyIO (invalidateMonitorSettingsCache (Some (Some (Some i), None)))) (\<lambda>_.
         logMon (monEvent ''integration.deleted'' ''integration'' (Some i) (si_name g) actor))))"

end
