(* ===== verification/Memo.thy ===== *)
theory Memo
  imports Prelude
begin

text \<open>
  The contract of a read-through cache, as the settings services keep them: \<open>lookup\<close> reads an entry, \<open>store\<close>
  sets one, \<open>fetch\<close> is the slow read of the database. The laws are required for the keys that are \<open>good\<close>: keys
  built as strings may collide outside them. Proved once: a coherent cache is transparent, loading keeps it
  coherent, and loading twice is loading once.
\<close>

definition memo_load ::
  "('s \<Rightarrow> 'k \<Rightarrow> 'v option) \<Rightarrow> ('k \<Rightarrow> 'v \<Rightarrow> 's \<Rightarrow> 's) \<Rightarrow> ('s \<Rightarrow> 'k \<Rightarrow> 'v) \<Rightarrow> 'k \<Rightarrow> 's \<Rightarrow> 'v \<times> 's" where
  "memo_load lookup store fetch k s =
     (case lookup s k of Some v \<Rightarrow> (v, s) | None \<Rightarrow> (fetch s k, store k (fetch s k) s))"

definition memo_ok :: "('s \<Rightarrow> 'k \<Rightarrow> 'v option) \<Rightarrow> ('s \<Rightarrow> 'k \<Rightarrow> 'v) \<Rightarrow> ('k \<Rightarrow> bool) \<Rightarrow> 's \<Rightarrow> bool" where
  "memo_ok lookup fetch good s \<longleftrightarrow> (\<forall>k v. good k \<longrightarrow> lookup s k = Some v \<longrightarrow> v = fetch s k)"

locale memo =
  fixes lookup :: "'s \<Rightarrow> 'k \<Rightarrow> 'v option"
    and store :: "'k \<Rightarrow> 'v \<Rightarrow> 's \<Rightarrow> 's"
    and fetch :: "'s \<Rightarrow> 'k \<Rightarrow> 'v"
    and good :: "'k \<Rightarrow> bool"
  assumes lookup_store: "good k \<Longrightarrow> good k' \<Longrightarrow> lookup (store k v s) k' = (if k' = k then Some v else lookup s k')"
    and fetch_store: "fetch (store k v s) k' = fetch s k'"
begin

lemma load_value: "memo_ok lookup fetch good s \<Longrightarrow> good k \<Longrightarrow> fst (memo_load lookup store fetch k s) = fetch s k"
  by (cases "lookup s k") (auto simp: memo_load_def memo_ok_def)

lemma load_ok: "memo_ok lookup fetch good s \<Longrightarrow> good k \<Longrightarrow> memo_ok lookup fetch good (snd (memo_load lookup store fetch k s))"
  by (cases "lookup s k") (auto simp: memo_load_def memo_ok_def lookup_store fetch_store split: if_splits)

lemma load_again:
  assumes "good k"
  shows "memo_load lookup store fetch k (snd (memo_load lookup store fetch k s)) = memo_load lookup store fetch k s"
  using assms by (cases "lookup s k") (simp_all add: memo_load_def lookup_store)

lemma load_hit: "lookup s k = Some v \<Longrightarrow> memo_load lookup store fetch k s = (v, s)"
  by (simp add: memo_load_def)

text \<open>A change of the database keeps the cache coherent if the entries it makes stale are gone.\<close>

lemma write_ok:
  assumes "memo_ok lookup fetch good s"
    and "\<And>k v. good k \<Longrightarrow> lookup s' k = Some v \<Longrightarrow> lookup s k = Some v \<and> fetch s' k = fetch s k"
  shows "memo_ok lookup fetch good s'"
  using assms unfolding memo_ok_def by metis

end

end
