(* ===== verification/SettingsSpec.thy ===== *)
theory SettingsSpec
  imports MonitorSettings Memo
begin

text \<open>
  Properties of the settings hierarchy: the caches are transparent, a write takes effect.
\<close>

section \<open>The caches as read-through caches\<close>

definition tierOf :: "monState \<Rightarrow> string \<Rightarrow> tierSettings" where
  "tierOf s k = (if k = MANUAL_TIER_CACHE_KEY then manualTier s else integrationTier k s)"

definition classOf :: "monState \<Rightarrow> string option \<times> string \<Rightarrow> overrideSettings option" where
  "classOf s p = classOverride (fst p) (snd p) s"

definition classKey :: "string option \<times> string \<Rightarrow> string" where
  "classKey p = classCacheKey (fst p) (snd p)"

definition cacheClass :: "string option \<times> string \<Rightarrow> overrideSettings option \<Rightarrow> monState \<Rightarrow> monState" where
  "cacheClass p v s = s\<lparr>ms_classCache := (ms_classCache s)(classKey p \<mapsto> v)\<rparr>"

text \<open>
  A key of the class cache is read back unambiguously if the asset type has no colon and no integration has
  the id that stands for the manual tier.
\<close>

definition plain :: "string option \<times> string \<Rightarrow> bool" where
  "plain p \<longleftrightarrow> fst p \<noteq> Some MANUAL_TIER_CACHE_KEY \<and> CHR '':'' \<notin> set (snd p)"

lemma takeWhile_last: "CHR '':'' \<notin> set v \<Longrightarrow> takeWhile (\<lambda>c. c \<noteq> CHR '':'') (rev v @ CHR '':'' # x) = rev v"
  by (induction v rule: rev_induct) auto

lemma last_colon:
  assumes "CHR '':'' \<notin> set t" "CHR '':'' \<notin> set u" "a @ '':'' @ t = b @ '':'' @ u"
  shows "a = b \<and> t = u"
proof -
  have "rev t @ CHR '':'' # rev a = rev u @ CHR '':'' # rev b" using arg_cong [OF assms(3), of rev] by simp
  then have "rev t = rev u" using takeWhile_last [OF assms(1), of "rev a"] takeWhile_last [OF assms(2), of "rev b"] by simp
  then show ?thesis using assms(3) by simp
qed

lemma classKey_inj: "plain p \<Longrightarrow> plain q \<Longrightarrow> classKey p = classKey q \<longleftrightarrow> p = q"
  using last_colon [of "snd p" "snd q" "keep (fst p) MANUAL_TIER_CACHE_KEY" "keep (fst q) MANUAL_TIER_CACHE_KEY"]
  by (cases p; cases q; cases "fst p"; cases "fst q") (auto simp: classKey_def classCacheKey_def plain_def)

text \<open>What the loaders read depends on the tables only.\<close>

definition sameTables :: "monState \<Rightarrow> monState \<Rightarrow> bool" where
  "sameTables s s' \<longleftrightarrow> ms_legacy s' = ms_legacy s \<and> ms_manual s' = ms_manual s \<and> ms_integrations s' = ms_integrations s \<and>
     ms_overrides s' = ms_overrides s"

lemma storedTier_cong: "ms_legacy s' = ms_legacy s \<Longrightarrow> storedTier v s' = storedTier v s"
  by (simp add: storedTier_def legacyGlobalAsTier_def split: option.split)

lemma tierOf_cong:
  "ms_legacy s' = ms_legacy s \<Longrightarrow> ms_manual s' = ms_manual s \<Longrightarrow> ms_integrations s' = ms_integrations s \<Longrightarrow> tierOf s' k = tierOf s k"
  using storedTier_cong [of s' s] by (simp add: tierOf_def manualTier_def integrationTier_def findSettingsIntegration_def)

lemma classOf_cong: "ms_overrides s' = ms_overrides s \<Longrightarrow> classOf s' p = classOf s p"
  by (simp add: classOf_def classOverride_def findClassOverride_def)

lemma cache_writes [simp]:
  "tierOf (cacheTier k t s) j = tierOf s j" "classOf (cacheTier k t s) p = classOf s p"
  "tierOf (cacheClass q v s) j = tierOf s j" "classOf (cacheClass q v s) p = classOf s p"
  "ms_classCache (cacheTier k t s) = ms_classCache s" "ms_tierCache (cacheClass q v s) = ms_tierCache s"
  unfolding cacheTier_def cacheClass_def by (intro tierOf_cong classOf_cong; simp)+ simp_all

interpretation tier_memo: memo ms_tierCache cacheTier tierOf "\<lambda>k. True"
  by unfold_locales (simp_all, simp add: cacheTier_def)

interpretation class_memo: memo "\<lambda>s p. ms_classCache s (classKey p)" cacheClass classOf plain
  by unfold_locales (simp_all, simp add: cacheClass_def classKey_inj)

lemma loads_are_memos:
  "i \<noteq> MANUAL_TIER_CACHE_KEY \<Longrightarrow> loadIntegrationTierSettings i s = memo_load ms_tierCache cacheTier tierOf i s"
  "loadManualTierSettings s = memo_load ms_tierCache cacheTier tierOf MANUAL_TIER_CACHE_KEY s"
  "loadClassOverride j u s = memo_load (\<lambda>s p. ms_classCache s (classKey p)) cacheClass classOf (j, u) s"
  by (simp_all add: memo_load_def loadIntegrationTierSettings_def loadManualTierSettings_def loadClassOverride_def tierOf_def classOf_def
      cacheClass_def classKey_def Let_def split: option.split)

section \<open>The resolver without caches\<close>

definition coherent :: "monState \<Rightarrow> bool" where
  "coherent s \<longleftrightarrow> memo_ok ms_tierCache tierOf (\<lambda>k. True) s \<and> memo_ok (\<lambda>s p. ms_classCache s (classKey p)) classOf plain s"

definition scopeKey :: "assetContext \<Rightarrow> string" where
  "scopeKey asset = (if truthy (ac_integrationId asset) then the (ac_integrationId asset) else MANUAL_TIER_CACHE_KEY)"

definition classPair :: "assetContext \<Rightarrow> string option \<times> string" where
  "classPair asset = (ac_integrationId asset, ac_assetType asset)"

definition effectiveSettings :: "assetContext \<Rightarrow> monState \<Rightarrow> tierSettings" where
  "effectiveSettings asset s = mergeSettings (tierOf s (scopeKey asset)) (classOf s (classPair asset)) asset"

definition load_tier :: "string \<Rightarrow> monState \<Rightarrow> tierSettings \<times> monState" where
  "load_tier = memo_load ms_tierCache cacheTier tierOf"

definition load_class :: "string option \<times> string \<Rightarrow> monState \<Rightarrow> overrideSettings option \<times> monState" where
  "load_class = memo_load (\<lambda>s p. ms_classCache s (classKey p)) cacheClass classOf"

lemma loadTiers_memo:
  assumes "plain (classPair asset)"
  shows "loadTiers asset s =
    ((fst (load_tier (scopeKey asset) s), fst (load_class (classPair asset) (snd (load_tier (scopeKey asset) s)))),
     snd (load_class (classPair asset) (snd (load_tier (scopeKey asset) s))))"
proof -
  have "(if truthy (ac_integrationId asset) then loadIntegrationTierSettings (the (ac_integrationId asset)) s else loadManualTierSettings s) =
    load_tier (scopeKey asset) s"
    using assms by (auto simp: scopeKey_def load_tier_def loads_are_memos truthy_def plain_def classPair_def)
  then show ?thesis unfolding loadTiers_def by (simp add: loads_are_memos load_class_def classPair_def split_def Let_def)
qed

lemma load_sides [simp]:
  "classOf (snd (load_tier k s)) p = classOf s p" "ms_classCache (snd (load_tier k s)) = ms_classCache s"
  "tierOf (snd (load_class p s)) k = tierOf s k" "ms_tierCache (snd (load_class p s)) = ms_tierCache s"
  by (simp_all add: load_tier_def load_class_def memo_load_def split: option.splits)

lemma load_tables: "sameTables s (snd (load_tier k s))" "sameTables s (snd (load_class p s))"
  by (auto simp: load_tier_def load_class_def memo_load_def sameTables_def cacheTier_def cacheClass_def split: option.splits)

lemma coherent_load:
  assumes "coherent s"
  shows "fst (load_tier k s) = tierOf s k" "coherent (snd (load_tier k s))"
    "plain p \<Longrightarrow> fst (load_class p s) = classOf s p" "plain p \<Longrightarrow> coherent (snd (load_class p s))"
proof -
  have t: "memo_ok ms_tierCache tierOf (\<lambda>k. True) s" and c: "memo_ok (\<lambda>s p. ms_classCache s (classKey p)) classOf plain s"
    using assms by (simp_all add: coherent_def)
  show "fst (load_tier k s) = tierOf s k" unfolding load_tier_def by (rule tier_memo.load_value [OF t]) simp
  show "plain p \<Longrightarrow> fst (load_class p s) = classOf s p" unfolding load_class_def by (rule class_memo.load_value [OF c])
  have "memo_ok ms_tierCache tierOf (\<lambda>k. True) (snd (load_tier k s))" unfolding load_tier_def by (rule tier_memo.load_ok [OF t]) simp
  moreover have "memo_ok (\<lambda>s p. ms_classCache s (classKey p)) classOf plain (snd (load_tier k s))" using c by (simp add: memo_ok_def)
  ultimately show "coherent (snd (load_tier k s))" by (simp add: coherent_def)
  assume p: "plain p"
  have "memo_ok (\<lambda>s p. ms_classCache s (classKey p)) classOf plain (snd (load_class p s))" unfolding load_class_def by (rule class_memo.load_ok [OF c p])
  moreover have "memo_ok ms_tierCache tierOf (\<lambda>k. True) (snd (load_class p s))" using t by (simp add: memo_ok_def)
  ultimately show "coherent (snd (load_class p s))" by (simp add: coherent_def)
qed

lemma resolve_coherent:
  assumes "coherent s" "plain (classPair asset)"
  shows "fst (resolveMonitorSettings asset s) = effectiveSettings asset s" "coherent (snd (resolveMonitorSettings asset s))"
    "sameTables s (snd (resolveMonitorSettings asset s))"
  using coherent_load(1,2) [OF assms(1), of "scopeKey asset"] coherent_load(3,4) [OF coherent_load(2) [OF assms(1)] assms(2), of "scopeKey asset"]
    load_tables(1) [of s "scopeKey asset"] load_tables(2) [of "snd (load_tier (scopeKey asset) s)" "classPair asset"]
  by (simp_all add: resolveMonitorSettings_def loadTiers_memo [OF assms(2)] effectiveSettings_def sameTables_def)

text \<open>Resolving again, in the state the first resolution left, gives the same settings and changes nothing.\<close>

lemma resolve_again:
  assumes "plain (classPair asset)"
  shows "resolveMonitorSettings asset (snd (resolveMonitorSettings asset s)) = resolveMonitorSettings asset s"
proof -
  let ?k = "scopeKey asset" and ?p = "classPair asset"
  let ?s1 = "snd (load_tier ?k s)" and ?s2 = "snd (load_class ?p (snd (load_tier ?k s)))"
  have t1: "load_tier ?k ?s1 = load_tier ?k s" unfolding load_tier_def by (rule tier_memo.load_again) simp
  have c1: "load_class ?p ?s2 = load_class ?p ?s1" unfolding load_class_def by (rule class_memo.load_again [OF assms])
  have "ms_tierCache ?s1 ?k = Some (fst (load_tier ?k s))"
    by (auto simp: load_tier_def memo_load_def cacheTier_def split: option.splits)
  then have "load_tier ?k ?s2 = (fst (load_tier ?k s), ?s2)"
    unfolding load_tier_def by (intro tier_memo.load_hit) (simp flip: load_tier_def)
  then show ?thesis using c1 by (simp add: resolveMonitorSettings_def loadTiers_memo [OF assms])
qed

section \<open>Writes keep the caches coherent\<close>

lemma coherent_write:
  assumes "coherent s"
    and "\<And>k v. ms_tierCache s' k = Some v \<Longrightarrow> ms_tierCache s k = Some v \<and> tierOf s' k = tierOf s k"
    and "\<And>p v. plain p \<Longrightarrow> ms_classCache s' (classKey p) = Some v \<Longrightarrow> ms_classCache s (classKey p) = Some v \<and> classOf s' p = classOf s p"
  shows "coherent s'"
proof -
  have "memo_ok ms_tierCache tierOf (\<lambda>k. True) s'"
    by (rule tier_memo.write_ok [of s]) (use assms in \<open>simp_all add: coherent_def\<close>)
  moreover have "memo_ok (\<lambda>s p. ms_classCache s (classKey p)) classOf plain s'"
    by (rule class_memo.write_ok [of s]) (use assms in \<open>simp_all add: coherent_def\<close>)
  ultimately show ?thesis by (simp add: coherent_def)
qed

definition logged :: "event \<Rightarrow> monState \<Rightarrow> monState" where
  "logged ev s = s\<lparr>ms_events := ms_events s @ [ev]\<rparr>"

lemma logged_simps [simp]:
  "tierOf (logged ev s) k = tierOf s k" "classOf (logged ev s) p = classOf s p"
  "ms_tierCache (logged ev s) = ms_tierCache s" "ms_classCache (logged ev s) = ms_classCache s"
  unfolding logged_def by (intro tierOf_cong classOf_cong; simp)+ simp_all

lemma invalidate_tables [simp]:
  "tierOf (invalidateMonitorSettingsCache scope s) k = tierOf s k" "classOf (invalidateMonitorSettingsCache scope s) p = classOf s p"
  by (rule tierOf_cong classOf_cong; auto simp: invalidateMonitorSettingsCache_def split: option.splits prod.splits)+

text \<open>The write of a tier: the entries of the tier and of every class below it are dropped.\<close>

lemma invalidate_tier:
  assumes "coherent s" "ms_tierCache s' = ms_tierCache s" "ms_classCache s' = ms_classCache s"
    and "\<And>k. k \<noteq> keep i MANUAL_TIER_CACHE_KEY \<Longrightarrow> tierOf s' k = tierOf s k"
    and "\<And>p. plain p \<Longrightarrow> keep (fst p) MANUAL_TIER_CACHE_KEY \<noteq> keep i MANUAL_TIER_CACHE_KEY \<Longrightarrow> classOf s' p = classOf s p"
  shows "coherent (logged ev (invalidateMonitorSettingsCache (Some (Some i, None)) s'))"
proof (rule coherent_write [OF assms(1)])
  let ?K = "keep i MANUAL_TIER_CACHE_KEY"
  let ?s = "logged ev (invalidateMonitorSettingsCache (Some (Some i, None)) s')"
  have tier: "ms_tierCache ?s = (ms_tierCache s)(?K := None)"
    using assms(2) by (cases i) (simp_all add: invalidateMonitorSettingsCache_def)
  have cls: "ms_classCache ?s = (\<lambda>k. if startsWith k (?K @ '':'') then None else ms_classCache s k)"
    using assms(3) by (cases i) (simp_all add: invalidateMonitorSettingsCache_def truthy_def fun_eq_iff)
  show "ms_tierCache s k = Some v \<and> tierOf ?s k = tierOf s k" if "ms_tierCache ?s k = Some v" for k v
  proof -
    have "k \<noteq> ?K" using that unfolding tier by auto
    then show ?thesis using that assms(4) [of k] unfolding tier by simp
  qed
  show "ms_classCache s (classKey p) = Some v \<and> classOf ?s p = classOf s p" if "plain p" "ms_classCache ?s (classKey p) = Some v" for p v
  proof -
    have kept: "\<not> startsWith (classKey p) (?K @ '':'')" "ms_classCache s (classKey p) = Some v" using that(2) unfolding cls by (auto split: if_splits)
    have "startsWith (classKey p) (?K @ '':'')" if "keep (fst p) MANUAL_TIER_CACHE_KEY = ?K"
      using that unfolding startsWith_iff classKey_def classCacheKey_def by simp
    then have "classOf s' p = classOf s p" using kept(1) assms(5) [OF that(1)] by metis
    then show ?thesis using kept(2) by simp
  qed
qed

text \<open>The write of a class override: its own entry is dropped.\<close>

lemma invalidate_class:
  assumes "coherent s" "ms_tierCache s' = ms_tierCache s" "ms_classCache s' = ms_classCache s"
    and "\<And>k. tierOf s' k = tierOf s k"
    and "\<And>p. p \<noteq> (i, t) \<Longrightarrow> classOf s' p = classOf s p"
  shows "coherent (logged ev (invalidateMonitorSettingsCache (Some (Some i, Some t)) s'))"
proof (rule coherent_write [OF assms(1)])
  let ?K = "keep i MANUAL_TIER_CACHE_KEY"
  let ?s = "logged ev (invalidateMonitorSettingsCache (Some (Some i, Some t)) s')"
  have tier: "ms_tierCache ?s = (ms_tierCache s)(?K := None)"
    using assms(2) by (cases i) (simp_all add: invalidateMonitorSettingsCache_def)
  have cls: "ms_classCache ?s k = Some v \<Longrightarrow> ms_classCache s k = Some v \<and> k \<noteq> classKey (i, t)" for k v
    using assms(3) by (cases i)
      (auto simp: invalidateMonitorSettingsCache_def truthy_def classKey_def classCacheKey_def startsWith_iff split: if_splits)
  show "ms_tierCache s k = Some v \<and> tierOf ?s k = tierOf s k" if "ms_tierCache ?s k = Some v" for k v
    using that assms(4) unfolding tier by (auto split: if_splits)
  show "ms_classCache s (classKey p) = Some v \<and> classOf ?s p = classOf s p" if "plain p" "ms_classCache ?s (classKey p) = Some v" for p v
    using cls [OF that(2)] assms(5) [of p] by auto
qed

subsection \<open>The runs of the routes\<close>

lemma putManual_run:
  "putManual body actor s = (r, s') \<Longrightarrow>
     s' = s \<or> (\<exists>inp ev. s' = logged ev (invalidateMonitorSettingsCache (Some (Some None, None)) (s\<lparr>ms_manual := Some inp\<rparr>)))"
  by (cases "zod_object TierSettingsSchema body") (auto simp: putManual_def logMon_def logged_def)

definition configured :: "string \<Rightarrow> json \<Rightarrow> monState \<Rightarrow> monState" where
  "configured i cfg s = s\<lparr>ms_integrations := map (\<lambda>h. if si_id h = i then h\<lparr>si_config := cfg\<rparr> else h) (ms_integrations s)\<rparr>"

lemma putIntegration_run:
  "putIntegration i body actor s = (r, s') \<Longrightarrow>
     (s' = s \<and> (\<exists>e. r = Inl e)) \<or>
     (\<exists>raw g cfg ev. zod_object TierSettingsSchema body = Inr raw \<and> findSettingsIntegration i s = Some g \<and>
        assertPollingCompatible (assetSourceKindFromIntegrationType (Some (si_type g))) (stripLegacyRetention raw) = Inr () \<and>
        set_prop ''monitorSettings'' (stripLegacyRetention raw) (si_config g) = Inr cfg \<and> r = Inr (stripLegacyRetention raw) \<and>
        s' = logged ev (invalidateMonitorSettingsCache (Some (Some (Some i), None)) (configured i cfg s)))"
proof (cases "zod_object TierSettingsSchema body")
  case (Inr raw)
  assume run: "putIntegration i body actor s = (r, s')"
  let ?inp = "stripLegacyRetention raw"
  show ?thesis
  proof (cases "findSettingsIntegration i s")
    case (Some g)
    show ?thesis
    proof (cases "assertPollingCompatible (assetSourceKindFromIntegrationType (Some (si_type g))) ?inp")
      case ok: (Inr u)
      show ?thesis
      proof (cases "set_prop ''monitorSettings'' ?inp (si_config g)")
        case (Inl e)
        then show ?thesis using run Inr Some ok by (intro disjI1) (auto simp: putIntegration_def, metis)
      next
        case cfg: (Inr cfg)
        then show ?thesis using run Inr Some ok by (auto simp: putIntegration_def logMon_def logged_def configured_def)
      qed
    qed (use run Inr Some in \<open>auto simp: putIntegration_def\<close>)
  qed (use run Inr in \<open>auto simp: putIntegration_def\<close>)
next
  case (Inl e)
  assume "putIntegration i body actor s = (r, s')"
  then show ?thesis using Inl by (intro disjI1) (auto simp: putIntegration_def, metis)
qed

lemma postClassOverride_run:
  "postClassOverride body uid actor s = (r, s') \<Longrightarrow>
     s' = s \<or> (\<exists>i t inp ev. s' = logged ev (invalidateMonitorSettingsCache (Some (Some i, Some t))
                   (s\<lparr>ms_overrides := ms_overrides s @ [newOverrideRow uid i t inp]\<rparr>)))"
proof (cases "zod_object ClassCreateSchema body")
  case (Inr inp)
  assume run: "postClassOverride body uid actor s = (r, s')"
  let ?i = "jstring (jprop inp ''integrationId'')"
  show ?thesis
    by (cases "assertPollingCompatible (sourceKindOf (integrationOf ?i s)) inp")
      (use run Inr in \<open>auto simp: postClassOverride_def Let_def logMon_def logged_def split: if_splits\<close>)
qed (auto simp: postClassOverride_def)

lemma putClassOverride_run:
  "putClassOverride i body actor s = (r, s') \<Longrightarrow>
     s' = s \<or> (\<exists>x inp ev. find (\<lambda>r. co_id r = i) (ms_overrides s) = Some x \<and>
        s' = logged ev (invalidateMonitorSettingsCache (Some (Some (co_integrationId x), Some (co_assetType x)))
               (s\<lparr>ms_overrides := map (\<lambda>r. if co_id r = i then patchOverrideRow inp r else r) (ms_overrides s)\<rparr>)))"
proof (cases "zod_object OverrideSettingsSchema body")
  case (Inr inp)
  assume run: "putClassOverride i body actor s = (r, s')"
  show ?thesis
  proof (cases "find (\<lambda>r. co_id r = i) (ms_overrides s)")
    case (Some x)
    show ?thesis
      by (cases "assertPollingCompatible (sourceKindOf (integrationOf (co_integrationId x) s)) (stripLegacyRetention inp)")
        (use run Inr Some in \<open>auto simp: putClassOverride_def Let_def logMon_def logged_def split: if_splits\<close>)
  qed (use run Inr in \<open>auto simp: putClassOverride_def\<close>)
qed (auto simp: putClassOverride_def)

lemma deleteClassOverride_run:
  "deleteClassOverride i actor s = (r, s') \<Longrightarrow>
     s' = s \<or> (\<exists>x ev. find (\<lambda>r. co_id r = i) (ms_overrides s) = Some x \<and>
        s' = logged ev (invalidateMonitorSettingsCache (Some (Some (co_integrationId x), Some (co_assetType x)))
               (s\<lparr>ms_overrides := filter (\<lambda>r. co_id r \<noteq> i) (ms_overrides s)\<rparr>)))"
  by (cases "find (\<lambda>r. co_id r = i) (ms_overrides s)") (auto simp: deleteClassOverride_def logMon_def logged_def)

lemma deleteIntegration_run:
  "deleteIntegration i actor s = (r, s') \<Longrightarrow>
     s' = s \<or> (\<exists>ev. s' = logged ev (invalidateMonitorSettingsCache (Some (Some (Some i), None))
        (s\<lparr>ms_integrations := filter (\<lambda>h. si_id h \<noteq> i) (ms_integrations s), ms_overrides := filter (\<lambda>r. co_integrationId r \<noteq> Some i) (ms_overrides s)\<rparr>)))"
  by (cases "findSettingsIntegration i s") (auto simp: deleteIntegration_def logMon_def logged_def)

subsection \<open>Every step of the settings services\<close>

inductive settings_step :: "monState \<Rightarrow> monState \<Rightarrow> bool" where
  step_resolve: "plain (classPair asset) \<Longrightarrow> settings_step s (snd (resolveMonitorSettings asset s))"
| step_provenance: "plain (classPair asset) \<Longrightarrow> settings_step s (snd (resolveMonitorSettingsWithProvenance asset s))"
| step_manual: "putManual body actor s = (r1, s') \<Longrightarrow> settings_step s s'"
| step_integration: "putIntegration i body actor s = (r2, s') \<Longrightarrow> settings_step s s'"
| step_post: "uid \<notin> co_id ` set (ms_overrides s) \<Longrightarrow> postClassOverride body uid actor s = (r3, s') \<Longrightarrow> settings_step s s'"
| step_put: "putClassOverride i body actor s = (r4, s') \<Longrightarrow> settings_step s s'"
| step_delete: "deleteClassOverride i actor s = (r5, s') \<Longrightarrow> settings_step s s'"
| step_drop: "deleteIntegration i actor s = (r6, s') \<Longrightarrow> settings_step s s'"

lemma find_filter_other: "(\<And>x. x \<in> set xs \<Longrightarrow> P x \<Longrightarrow> Q x) \<Longrightarrow> find P (filter Q xs) = find P xs"
  by (induction xs) auto

lemma find_map_other:
  "(\<And>x. P (f x) = P x) \<Longrightarrow> (\<And>x. P x \<Longrightarrow> f x = x) \<Longrightarrow> find P (map f xs) = find P xs"
  by (induction xs) auto

lemma find_append: "find P (xs @ ys) = (case find P xs of None \<Rightarrow> find P ys | Some x \<Rightarrow> Some x)"
  by (induction xs) auto

lemma classOf_rows:
  "find (\<lambda>r. co_integrationId r = fst p \<and> co_assetType r = snd p) (ms_overrides s') =
   find (\<lambda>r. co_integrationId r = fst p \<and> co_assetType r = snd p) (ms_overrides s) \<Longrightarrow> classOf s' p = classOf s p"
  by (simp add: classOf_def classOverride_def findClassOverride_def)

lemma tierOf_other:
  assumes "ms_legacy s' = ms_legacy s" "ms_manual s' = ms_manual s" "findSettingsIntegration k s' = findSettingsIntegration k s"
  shows "tierOf s' k = tierOf s k"
  using assms(2,3) storedTier_cong [OF assms(1)] by (simp add: tierOf_def manualTier_def integrationTier_def)

lemma configured_simps [simp]:
  "ms_tierCache (configured i cfg s) = ms_tierCache s" "ms_classCache (configured i cfg s) = ms_classCache s"
  "classOf (configured i cfg s) p = classOf s p"
  unfolding configured_def by (simp_all, rule classOf_cong, simp)

lemma configured_other: "k \<noteq> i \<Longrightarrow> tierOf (configured i cfg s) k = tierOf s k"
  by (rule tierOf_other) (auto simp: configured_def findSettingsIntegration_def intro: find_map_other)

lemma coherent_manual: "coherent s \<Longrightarrow> coherent (logged ev (invalidateMonitorSettingsCache (Some (Some None, None)) (s\<lparr>ms_manual := v\<rparr>)))"
proof (rule invalidate_tier)
  show "tierOf (s\<lparr>ms_manual := v\<rparr>) k = tierOf s k" if "k \<noteq> keep None MANUAL_TIER_CACHE_KEY" for k
    using that storedTier_cong [of "s\<lparr>ms_manual := v\<rparr>" s] by (simp add: tierOf_def integrationTier_def findSettingsIntegration_def)
  show "classOf (s\<lparr>ms_manual := v\<rparr>) p = classOf s p" for p by (rule classOf_cong) simp
qed simp_all

lemma coherent_integration: "coherent s \<Longrightarrow> coherent (logged ev (invalidateMonitorSettingsCache (Some (Some (Some i), None)) (configured i cfg s)))"
  by (rule invalidate_tier) (simp_all add: configured_other)

lemma coherent_post:
  "coherent s \<Longrightarrow> coherent (logged ev (invalidateMonitorSettingsCache (Some (Some i, Some t)) (s\<lparr>ms_overrides := ms_overrides s @ [newOverrideRow uid i t inp]\<rparr>)))"
proof (rule invalidate_class)
  let ?s = "s\<lparr>ms_overrides := ms_overrides s @ [newOverrideRow uid i t inp]\<rparr>"
  show "classOf ?s p = classOf s p" if "p \<noteq> (i, t)" for p
    by (rule classOf_rows) (use that in \<open>auto simp: find_append newOverrideRow_def split: option.splits\<close>)
  show "tierOf ?s k = tierOf s k" for k by (rule tierOf_cong) simp_all
qed simp_all

lemma unique_row: "distinct (map co_id rows) \<Longrightarrow> find (\<lambda>r. co_id r = i) rows = Some x \<Longrightarrow> r \<in> set rows \<Longrightarrow> co_id r = i \<Longrightarrow> r = x"
  by (drule find_SomeD) (metis distinct_map inj_onD)

lemma patch_keys [simp]:
  "co_id (patchOverrideRow inp r) = co_id r" "co_integrationId (patchOverrideRow inp r) = co_integrationId r"
  "co_assetType (patchOverrideRow inp r) = co_assetType r"
  by (simp_all add: patchOverrideRow_def)

lemma find_map_other_set:
  "(\<And>x. x \<in> set xs \<Longrightarrow> P (f x) = P x) \<Longrightarrow> (\<And>x. x \<in> set xs \<Longrightarrow> P x \<Longrightarrow> f x = x) \<Longrightarrow> find P (map f xs) = find P xs"
  by (induction xs) auto

lemma coherent_put:
  assumes "coherent s" "find (\<lambda>r. co_id r = i) (ms_overrides s) = Some x" "distinct (map co_id (ms_overrides s))"
  shows "coherent (logged ev (invalidateMonitorSettingsCache (Some (Some (co_integrationId x), Some (co_assetType x)))
    (s\<lparr>ms_overrides := map (\<lambda>r. if co_id r = i then patchOverrideRow inp r else r) (ms_overrides s)\<rparr>)))"
proof (rule invalidate_class [OF assms(1)])
  let ?f = "\<lambda>r. if co_id r = i then patchOverrideRow inp r else r"
  let ?s = "s\<lparr>ms_overrides := map ?f (ms_overrides s)\<rparr>"
  show "classOf ?s p = classOf s p" if "p \<noteq> (co_integrationId x, co_assetType x)" for p
  proof (rule classOf_rows)
    have "?f r = r" if "r \<in> set (ms_overrides s)" "co_integrationId r = fst p \<and> co_assetType r = snd p" for r
      using unique_row [OF assms(3,2) that(1)] that(2) \<open>p \<noteq> _\<close> by (cases p) auto
    then show "find (\<lambda>r. co_integrationId r = fst p \<and> co_assetType r = snd p) (ms_overrides ?s) =
      find (\<lambda>r. co_integrationId r = fst p \<and> co_assetType r = snd p) (ms_overrides s)"
      using find_map_other_set [of "ms_overrides s" "\<lambda>r. co_integrationId r = fst p \<and> co_assetType r = snd p" ?f] by simp
  qed
  show "tierOf ?s k = tierOf s k" for k by (rule tierOf_cong) simp_all
qed simp_all

lemma coherent_delete:
  assumes "coherent s" "find (\<lambda>r. co_id r = i) (ms_overrides s) = Some x" "distinct (map co_id (ms_overrides s))"
  shows "coherent (logged ev (invalidateMonitorSettingsCache (Some (Some (co_integrationId x), Some (co_assetType x)))
    (s\<lparr>ms_overrides := filter (\<lambda>r. co_id r \<noteq> i) (ms_overrides s)\<rparr>)))"
proof (rule invalidate_class [OF assms(1)])
  let ?s = "s\<lparr>ms_overrides := filter (\<lambda>r. co_id r \<noteq> i) (ms_overrides s)\<rparr>"
  show "classOf ?s p = classOf s p" if "p \<noteq> (co_integrationId x, co_assetType x)" for p
  proof (rule classOf_rows)
    have "co_id r \<noteq> i" if "r \<in> set (ms_overrides s)" "co_integrationId r = fst p \<and> co_assetType r = snd p" for r
      using unique_row [OF assms(3,2) that(1)] that(2) \<open>p \<noteq> _\<close> by (cases p) auto
    then show "find (\<lambda>r. co_integrationId r = fst p \<and> co_assetType r = snd p) (ms_overrides ?s) =
      find (\<lambda>r. co_integrationId r = fst p \<and> co_assetType r = snd p) (ms_overrides s)"
      by (simp add: find_filter_other)
  qed
  show "tierOf ?s k = tierOf s k" for k by (rule tierOf_cong) simp_all
qed simp_all

lemma coherent_drop:
  "coherent s \<Longrightarrow> coherent (logged ev (invalidateMonitorSettingsCache (Some (Some (Some i), None))
    (s\<lparr>ms_integrations := filter (\<lambda>h. si_id h \<noteq> i) (ms_integrations s), ms_overrides := filter (\<lambda>r. co_integrationId r \<noteq> Some i) (ms_overrides s)\<rparr>)))"
proof (rule invalidate_tier)
  let ?s = "s\<lparr>ms_integrations := filter (\<lambda>h. si_id h \<noteq> i) (ms_integrations s), ms_overrides := filter (\<lambda>r. co_integrationId r \<noteq> Some i) (ms_overrides s)\<rparr>"
  show "tierOf ?s k = tierOf s k" if "k \<noteq> keep (Some i) MANUAL_TIER_CACHE_KEY" for k
    by (rule tierOf_other) (use that in \<open>auto simp: findSettingsIntegration_def intro: find_filter_other\<close>)
  show "classOf ?s p = classOf s p" if "keep (fst p) MANUAL_TIER_CACHE_KEY \<noteq> keep (Some i) MANUAL_TIER_CACHE_KEY" for p
    by (rule classOf_rows) (use that in \<open>cases "fst p"; auto intro!: find_filter_other\<close>)
qed simp_all

definition settings_ok :: "monState \<Rightarrow> bool" where
  "settings_ok s \<longleftrightarrow> coherent s \<and> distinct (map co_id (ms_overrides s))"

lemma logged_rows [simp]: "ms_overrides (logged ev s) = ms_overrides s"
  by (simp add: logged_def)

lemma invalidate_rows [simp]: "ms_overrides (invalidateMonitorSettingsCache scope s) = ms_overrides s"
  by (auto simp: invalidateMonitorSettingsCache_def split: option.splits prod.splits)

lemma map_patch_ids: "map co_id (map (\<lambda>r. if co_id r = i then patchOverrideRow inp r else r) rows) = map co_id rows"
  by (rule distinct_map_upd) simp

lemma newRow_id [simp]: "co_id (newOverrideRow uid i t inp) = uid"
  by (simp add: newOverrideRow_def)

lemma distinct_filter_ids: "distinct (map f xs) \<Longrightarrow> distinct (map f (filter P xs))"
  by (induction xs) auto

lemma provenance_state: "snd (resolveMonitorSettingsWithProvenance asset s) = snd (resolveMonitorSettings asset s)"
  by (simp add: resolveMonitorSettingsWithProvenance_def resolveMonitorSettings_def Let_def split_def)

lemma step_ok:
  assumes "settings_step s s'" "settings_ok s"
  shows "settings_ok s'"
  using assms(1)
proof cases
  case (step_resolve asset)
  then show ?thesis using resolve_coherent(2,3) [of s asset] assms(2) by (simp add: settings_ok_def sameTables_def)
next
  case (step_provenance asset)
  then show ?thesis using resolve_coherent(2,3) [of s asset] assms(2) by (simp add: settings_ok_def sameTables_def provenance_state)
next
  case (step_manual body actor r)
  then show ?thesis using putManual_run [of body actor s r s'] assms(2) by (auto simp: settings_ok_def coherent_manual)
next
  case (step_integration i body actor r)
  then show ?thesis using putIntegration_run [of i body actor s r s'] assms(2)
    by (auto simp: settings_ok_def coherent_integration) (simp add: configured_def)
next
  case (step_post uid body actor r)
  then show ?thesis using postClassOverride_run [of body uid actor s r s'] assms(2)
    by (auto simp: settings_ok_def coherent_post)
next
  case (step_put i body actor r)
  then show ?thesis using putClassOverride_run [of i body actor s r s'] assms(2)
    by (auto simp: settings_ok_def coherent_put map_patch_ids simp del: map_map)
next
  case (step_delete i actor r)
  then show ?thesis using deleteClassOverride_run [of i actor s r s'] assms(2) by (auto simp: settings_ok_def coherent_delete distinct_filter_ids)
next
  case (step_drop i actor r)
  then show ?thesis using deleteIntegration_run [of i actor s r s'] assms(2) by (auto simp: settings_ok_def coherent_drop distinct_filter_ids)
qed

section \<open>The caches are invisible\<close>

lemma steps_ok: "settings_step\<^sup>*\<^sup>* s s' \<Longrightarrow> settings_ok s \<Longrightarrow> settings_ok s'"
  by (induction rule: rtranclp_induct) (auto dest: step_ok)

definition cold :: "monState \<Rightarrow> bool" where
  "cold s \<longleftrightarrow> ms_tierCache s = Map.empty \<and> ms_classCache s = Map.empty \<and> distinct (map co_id (ms_overrides s))"

lemma cold_ok: "cold s \<Longrightarrow> settings_ok s"
  by (simp add: cold_def settings_ok_def coherent_def memo_ok_def)

text \<open>
  C4. Start with empty caches and let any calls of the routes that write monitor settings and of the resolvers
  follow one another. Then resolving the settings of an asset gives what the tables say at that moment, as if
  there were no cache, and changes no table.
\<close>

theorem settings_cache_transparent:
  assumes "cold s0" "settings_step\<^sup>*\<^sup>* s0 s" "plain (classPair asset)"
  shows "fst (resolveMonitorSettings asset s) = effectiveSettings asset s \<and> sameTables s (snd (resolveMonitorSettings asset s))"
  using resolve_coherent(1,3) [of s asset] steps_ok [OF assms(2) cold_ok [OF assms(1)]] assms(3) by (simp add: settings_ok_def)

section \<open>A write takes effect\<close>

definition requiredNums :: "numField set" where
  "requiredNums = {IntervalSeconds, FailureThreshold, ProbeTimeoutMs, CpuMemoryIntervalSeconds, TemperatureIntervalSeconds, SystemInfoIntervalSeconds}"

lemma numKey_inj: "numKey f = numKey g \<longleftrightarrow> f = g"
  by (cases f; cases g) simp_all

lemma schema_distinct: "distinct (map zf_name TierSettingsSchema)"
  by (simp add: TierSettingsSchema_def required_int_def optional_field_def unknown_field_def retentionFields_def pollingFields_def mibStreams_def
      pollingKey_def mibKey_def)

lemma map_of_omit: "k \<notin> set ks \<Longrightarrow> map_of (filter (\<lambda>(k, _). k \<notin> set ks) kvs) k = map_of kvs k"
  by (induction kvs) auto

lemma strip_prop:
  "k \<noteq> numKey SampleRetentionDays \<Longrightarrow> k \<noteq> numKey TelemetryRetentionDays \<Longrightarrow> k \<noteq> numKey SystemInfoRetentionDays \<Longrightarrow>
   jprop (stripLegacyRetention v) k = jprop v k"
  using map_of_omit [of k "[numKey SampleRetentionDays, numKey TelemetryRetentionDays, numKey SystemInfoRetentionDays]"]
  by (cases v) (simp_all add: stripLegacyRetention_def omitKeys_def)

lemma schema_unknown_key:
  assumes "zod_object fds body = Inr out" "k \<notin> zf_name ` set fds"
  shows "jprop out k = None"
proof -
  obtain kvs where "out = JObj (List.map_filter (\<lambda>f. map_option (Pair (zf_name f)) (map_of kvs (zf_name f))) fds)"
    using assms(1) by (auto simp: zod_object_def split: json.splits if_splits)
  moreover have "map_of (List.map_filter (\<lambda>f. map_option (Pair (zf_name f)) (m (zf_name f))) fds) k = None" for m :: "string \<Rightarrow> json option"
    using assms(2) by (induction fds) (auto simp: List.map_filter_simps split: option.splits)
  ultimately show ?thesis by simp
qed

lemma schema_object: "zod_object fds body = Inr raw \<Longrightarrow> \<exists>kvs. stripLegacyRetention raw = JObj kvs"
  by (auto simp: zod_object_def stripLegacyRetention_def omitKeys_def split: json.splits if_splits)

lemma set_prop_read: "set_prop k v cfg = Inr out \<Longrightarrow> \<forall>xs. cfg \<noteq> JArr xs \<Longrightarrow> jprop out k = Some v"
proof (cases cfg)
  case (JObj kvs)
  assume "set_prop k v cfg = Inr out"
  moreover have "map_of kvs k = None \<or> map_of (map (\<lambda>(k', w). if k' = k then (k', v) else (k', w)) kvs) k = Some v"
    by (induction kvs) auto
  ultimately show ?thesis using JObj by (auto simp: set_prop_def map_add_def split: if_splits)
qed (auto simp: set_prop_def)

lemma methodOf_token [simp]: "methodOf (methodToken m) = Some m"
  by (cases m) (simp_all add: methodOf_def ALL_METHODS_def)

lemma check_polling_ok:
  "check_polling source inp sts = Inr () \<Longrightarrow> st \<in> set sts \<Longrightarrow> readPollingFromJson (Some inp) (pollingKey st) = Some m \<Longrightarrow>
   isPollingMethodCompatible source m"
  by (induction source inp sts rule: check_polling.induct) (auto split: option.splits if_splits)

lemma all_streams: "st \<in> set [ResponseTime, CpuMemory, Temperature, Interfaces, Lldp, Storage]"
  by (cases st) simp_all

lemma asserted_compatible:
  "assertPollingCompatible source inp = Inr () \<Longrightarrow> readPollingFromJson (Some inp) (pollingKey st) = Some m \<Longrightarrow> isPollingMethodCompatible source m"
  unfolding assertPollingCompatible_def by (erule check_polling_ok [OF _ all_streams])

lemma find_map_key:
  "(\<And>x. key (f x) = key x) \<Longrightarrow> find (\<lambda>x. key x = i) (map (\<lambda>x. if key x = i then f x else x) xs) = map_option f (find (\<lambda>x. key x = i) xs)"
  by (induction xs) auto

lemma find_configured: "findSettingsIntegration i (configured i cfg s) = map_option (\<lambda>h. h\<lparr>si_config := cfg\<rparr>) (findSettingsIntegration i s)"
  using find_map_key [of si_id "\<lambda>h. h\<lparr>si_config := cfg\<rparr>" i "ms_integrations s"] by (simp add: findSettingsIntegration_def configured_def)

text \<open>What an accepted write of an integration tier leaves behind.\<close>

lemma put_integration_tier:
  assumes "putIntegration i body actor s = (Inr inp, s')" "i \<noteq> MANUAL_TIER_CACHE_KEY" "findSettingsIntegration i s = Some g"
    "\<forall>xs. si_config g \<noteq> JArr xs"
  shows "tierOf s' i = tierFromJson (Some inp)" "classOf s' p = classOf s p" "coherent s \<Longrightarrow> coherent s'"
    "\<exists>raw. zod_object TierSettingsSchema body = Inr raw \<and> inp = stripLegacyRetention raw"
    "assertPollingCompatible (assetSourceKindFromIntegrationType (Some (si_type g))) inp = Inr ()"
proof -
  obtain raw cfg ev where run: "zod_object TierSettingsSchema body = Inr raw" "inp = stripLegacyRetention raw"
    "assertPollingCompatible (assetSourceKindFromIntegrationType (Some (si_type g))) inp = Inr ()"
    "set_prop ''monitorSettings'' inp (si_config g) = Inr cfg"
    "s' = logged ev (invalidateMonitorSettingsCache (Some (Some (Some i), None)) (configured i cfg s))"
    using putIntegration_run [OF assms(1)] assms(3) by auto
  have "findSettingsIntegration i (configured i cfg s) = Some (g\<lparr>si_config := cfg\<rparr>)" using assms(3) by (simp add: find_configured)
  moreover have "jprop cfg ''monitorSettings'' = Some inp" by (rule set_prop_read [OF run(4) assms(4)])
  moreover have "truthyJ inp" using run(1,2) by (auto simp: zod_object_def stripLegacyRetention_def omitKeys_def split: json.splits if_splits)
  ultimately have "tierOf (configured i cfg s) i = tierFromJson (Some inp)"
    using assms(2) by (simp add: tierOf_def integrationTier_def storedTier_def truthy_value_def)
  then show "tierOf s' i = tierFromJson (Some inp)" "classOf s' p = classOf s p" by (simp_all add: run(5))
  show "coherent s \<Longrightarrow> coherent s'" unfolding run(5) by (rule coherent_integration)
  show "\<exists>raw. zod_object TierSettingsSchema body = Inr raw \<and> inp = stripLegacyRetention raw"
    "assertPollingCompatible (assetSourceKindFromIntegrationType (Some (si_type g))) inp = Inr ()" using run(1-3) by auto
qed

lemma required_range:
  assumes "f \<in> requiredNums"
  obtains a b where "required_int f a b \<in> set TierSettingsSchema" "0 \<le> a"
proof -
  consider "f = IntervalSeconds" | "f = FailureThreshold" | "f = ProbeTimeoutMs" | "f = CpuMemoryIntervalSeconds" | "f = TemperatureIntervalSeconds" | "f = SystemInfoIntervalSeconds"
    using assms by (auto simp: requiredNums_def)
  then show thesis
  proof cases
    case 1
    then show thesis using that [of 1 86400] by (simp add: TierSettingsSchema_def)
  next
    case 2
    then show thesis using that [of 1 100] by (simp add: TierSettingsSchema_def)
  next
    case 3
    then show thesis using that [of 100 60000] by (simp add: TierSettingsSchema_def)
  next
    case 4
    then show thesis using that [of 15 86400] by (simp add: TierSettingsSchema_def)
  next
    case 5
    then show thesis using that [of 15 86400] by (simp add: TierSettingsSchema_def)
  next
    case 6
    then show thesis using that [of 60 86400] by (simp add: TierSettingsSchema_def)
  qed
qed

lemma tier_schema_num:
  assumes "zod_object TierSettingsSchema body = Inr raw" "f \<in> requiredNums"
  shows "\<exists>n. 0 \<le> n \<and> jprop body (numKey f) = Some (JNum (of_int n)) \<and> jprop (stripLegacyRetention raw) (numKey f) = Some (JNum (of_int n))"
proof -
  obtain a b where ab: "required_int f a b \<in> set TierSettingsSchema" "0 \<le> a" by (rule required_range [OF assms(2)])
  have name: "zf_name (required_int f a b) = numKey f" by (simp add: required_int_def)
  from zod_object_prop [OF assms(1) schema_distinct ab(1)]
  have "jprop raw (numKey f) = jprop body (numKey f)" "zod_field (required_int f a b) (jprop raw (numKey f))" unfolding name by auto
  moreover from this(2) obtain n where "jprop raw (numKey f) = Some (JNum (of_int n))" "0 \<le> n" using ab(2)
    by (auto simp: zod_field_def required_int_def split: option.splits json.splits)
  moreover have "jprop (stripLegacyRetention raw) (numKey f) = jprop raw (numKey f)"
    by (rule strip_prop) (use assms(2) in \<open>auto simp: requiredNums_def\<close>)
  ultimately show ?thesis by metis
qed

lemma tier_schema_polling:
  assumes "zod_object TierSettingsSchema body = Inr raw"
  shows "jprop (stripLegacyRetention raw) (pollingKey st) = jprop body (pollingKey st)"
    "jprop (stripLegacyRetention raw) ''polling'' = None"
proof -
  have "optional_field (pollingKey st) PollingMethodEnum \<in> set TierSettingsSchema" by (cases st) (simp_all add: TierSettingsSchema_def pollingFields_def)
  from zod_object_prop [OF assms schema_distinct this] have "jprop raw (pollingKey st) = jprop body (pollingKey st)" by (simp add: optional_field_def)
  moreover have "jprop (stripLegacyRetention raw) (pollingKey st) = jprop raw (pollingKey st)"
    by (rule strip_prop) (cases st; simp add: pollingKey_def)+
  ultimately show "jprop (stripLegacyRetention raw) (pollingKey st) = jprop body (pollingKey st)" by simp
  have "jprop raw ''polling'' = None"
    by (rule schema_unknown_key [OF assms]) (simp add: TierSettingsSchema_def required_int_def optional_field_def unknown_field_def
      retentionFields_def pollingFields_def mibStreams_def pollingKey_def mibKey_def)
  then show "jprop (stripLegacyRetention raw) ''polling'' = None" by (subst strip_prop) simp_all
qed

lemma resolveStream_tier: "isPollingMethodCompatible source m \<Longrightarrow> resolveStream source st (Some m) None None = Some m"
  by (simp add: resolveStream_def compatible_def)

text \<open>An asset of the integration, without an own value.\<close>

definition inherits :: "assetContext \<Rightarrow> string \<Rightarrow> monState \<Rightarrow> settingsIntegration \<Rightarrow> bool" where
  "inherits asset i s g \<longleftrightarrow>
     plain (classPair asset) \<and> ac_integrationId asset = Some i \<and> i \<noteq> [] \<and> findSettingsIntegration i s = Some g \<and>
     ac_integrationType asset = Some (si_type g) \<and> (\<forall>xs. si_config g \<noteq> JArr xs)"

definition classValues :: "assetContext \<Rightarrow> monState \<Rightarrow> overrideSettings" where
  "classValues asset s = keep (classOf s (classPair asset)) noOverride"

lemma written_settings:
  assumes "coherent s" "inherits asset i s g" "putIntegration i body actor s = (Inr inp, s')"
  shows "fst (resolveMonitorSettings asset s') = mergeSettings (tierFromJson (Some inp)) (classOf s (classPair asset)) asset"
proof -
  note a = assms(2) [unfolded inherits_def]
  have "i \<noteq> MANUAL_TIER_CACHE_KEY" using a by (auto simp: plain_def classPair_def)
  note p = put_integration_tier [OF assms(3) this]
  have "scopeKey asset = i" using a by (simp add: scopeKey_def truthy_def)
  then show ?thesis using resolve_coherent(1) [of s' asset] p(1-3) a assms(1) by (simp add: effectiveSettings_def)
qed

section \<open>A concrete integration\<close>

definition lab_body :: json where
  "lab_body = JObj
     [(''intervalSeconds'', JNum 300), (''failureThreshold'', JNum 5), (''probeTimeoutMs'', JNum 2000), (''cpuMemoryTimeoutMs'', JNull),
      (''cpuMemoryIntervalSeconds'', JNum 120), (''temperatureIntervalSeconds'', JNum 120), (''systemInfoIntervalSeconds'', JNum 900),
      (''sampleRetentionDays'', JStr ''ignored''), (''responseTimePolling'', JStr ''snmp'')]"

definition lab_integration :: settingsIntegration where
  "lab_integration = \<lparr>si_id = ''fgt'', si_name = ''Branch'', si_type = ''fortigate'', si_config = JObj [(''host'', JStr ''10.0.0.1'')]\<rparr>"

definition lab_state :: monState where
  "lab_state = \<lparr>ms_legacy = None, ms_manual = None, ms_integrations = [lab_integration], ms_overrides = [], ms_credentials = [],
     ms_tierCache = Map.empty, ms_classCache = Map.empty, ms_events = []\<rparr>"

definition lab_asset :: assetContext where
  "lab_asset = \<lparr>ac_assetType = ''firewall'', ac_integrationId = Some ''fgt'', ac_integrationType = Some ''fortigate'',
     ac_num = (\<lambda>_. None), ac_polling = (\<lambda>_. None), ac_mib = (\<lambda>_. None)\<rparr>"

lemma lab_cold: "cold lab_state"
  by (simp add: cold_def lab_state_def)

lemma lab_coherent: "coherent lab_state"
  using cold_ok [OF lab_cold] by (simp add: settings_ok_def)

lemma lab_plain: "plain (classPair lab_asset)"
  by (simp add: plain_def classPair_def lab_asset_def MANUAL_TIER_CACHE_KEY_def)

lemma lab_inherits: "inherits lab_asset ''fgt'' lab_state lab_integration"
  using lab_plain by (simp add: inherits_def) (simp add: lab_asset_def lab_state_def lab_integration_def findSettingsIntegration_def)

lemma lab_class: "classValues lab_asset lab_state = noOverride"
  by (simp add: classValues_def classOf_def classOverride_def findClassOverride_def lab_state_def)

lemma lab_values [simp]:
  "os_num (classValues lab_asset lab_state) f = None" "os_polling (classValues lab_asset lab_state) st = None"
  "ac_num lab_asset f = None" "ac_polling lab_asset st = None"
  by (simp_all add: lab_class noOverride_def) (simp_all add: lab_asset_def)

lemma lab_schema: "is_ok (zod_object TierSettingsSchema lab_body)"
  by (simp add: lab_body_def zod_object_def TierSettingsSchema_def required_int_def optional_field_def unknown_field_def retentionFields_def pollingFields_def
      mibStreams_def pollingKey_def mibKey_def zod_field_def PollingMethodEnum_def ALL_METHODS_def)

lemma lab_put: "\<exists>inp s'. putIntegration ''fgt'' lab_body None lab_state = (Inr inp, s')"
proof -
  obtain raw where raw: "zod_object TierSettingsSchema lab_body = Inr raw" using lab_schema by (auto simp: is_ok_iff)
  have p: "readPollingFromJson (Some (stripLegacyRetention raw)) (pollingKey st) = (if st = ResponseTime then Some Snmp else None)" for st
    using tier_schema_polling(1) [OF raw, of st]
    by (cases st) (simp_all add: readPollingFromJson_def jprop_opt_def lab_body_def pollingKey_def methodOf_def ALL_METHODS_def)
  have "assertPollingCompatible KFortigate (stripLegacyRetention raw) = Inr ()"
    by (simp add: assertPollingCompatible_def p isPollingMethodCompatible_def)
  then show ?thesis using raw
    by (simp add: putIntegration_def lab_state_def lab_integration_def findSettingsIntegration_def assetSourceKindFromIntegrationType_def set_prop_def
        logMon_def truthy_def)
qed

text \<open>
  After an accepted write of the monitor settings of an integration, the next resolution for each of its
  assets uses the numbers written, unless the class override or the asset has its own, and each polling method
  written, unless the class override or the asset names one: no accepted method is silently ignored.
\<close>

theorem integration_write_takes_effect:
  assumes "coherent s" "inherits asset i s g" "putIntegration i body actor s = (Inr inp, s')"
  shows "(\<forall>f \<in> requiredNums. os_num (classValues asset s) f = None \<longrightarrow> ac_num asset f = None \<longrightarrow>
      jprop body (numKey f) = Some (JNum (of_int (ts_num (fst (resolveMonitorSettings asset s')) f)))) \<and>
    (\<forall>st m. os_polling (classValues asset s) st = None \<longrightarrow> ac_polling asset st = None \<longrightarrow> jprop body (pollingKey st) = Some (JStr (methodToken m)) \<longrightarrow>
      ts_polling (fst (resolveMonitorSettings asset s')) st = Some m)"
proof -
  note a = assms(2) [unfolded inherits_def]
  have "i \<noteq> MANUAL_TIER_CACHE_KEY" using a by (auto simp: plain_def classPair_def)
  note p = put_integration_tier [OF assms(3) this]
  obtain raw where raw: "zod_object TierSettingsSchema body = Inr raw" "inp = stripLegacyRetention raw" using p(4) a by blast
  obtain kvs where inp: "inp = JObj kvs" using schema_object [OF raw(1)] raw(2) by blast
  have ok: "assertPollingCompatible (assetSourceKindFromIntegrationType (Some (si_type g))) inp = Inr ()" using p(5) a by blast
  note w = written_settings [OF assms]
  have "jprop body (numKey f) = Some (JNum (of_int (ts_num (fst (resolveMonitorSettings asset s')) f)))"
    if f: "f \<in> requiredNums" "os_num (classValues asset s) f = None" "ac_num asset f = None" for f
  proof -
    obtain n where n: "0 \<le> n" "jprop body (numKey f) = Some (JNum (of_int n))" "jprop inp (numKey f) = Some (JNum (of_int n))"
      using tier_schema_num [OF raw(1) f(1)] raw(2) by blast
    have "ts_num (tierFromJson (Some inp)) f = n"
      using n inp by (simp add: tierFromJson_def nonnull_def jprop_opt_def toPositiveInt_def Let_def)
    then show ?thesis using f(2,3) n(2) unfolding w by (simp add: mergeSettings_def classValues_def Let_def)
  qed
  moreover have "ts_polling (fst (resolveMonitorSettings asset s')) st = Some m"
    if "os_polling (classValues asset s) st = None" "ac_polling asset st = None" "jprop body (pollingKey st) = Some (JStr (methodToken m))" for st m
  proof -
    have read: "readPollingFromJson (Some inp) (pollingKey st) = Some m"
      using tier_schema_polling(1) [OF raw(1)] raw(2) that(3) by (simp add: readPollingFromJson_def jprop_opt_def)
    have "isPollingMethodCompatible (assetSourceKindFromIntegrationType (Some (si_type g))) m" by (rule asserted_compatible [OF ok read])
    moreover have "ts_polling (tierFromJson (Some inp)) st = Some m"
      using read tier_schema_polling(2) [OF raw(1), folded raw(2)] inp
      by (simp add: tierFromJson_def nonnull_def readPollingFromJson_def jprop_opt_def Let_def)
    ultimately show ?thesis using that(1,2) a unfolding w by (simp add: mergeSettings_def classValues_def Let_def resolveStream_tier)
  qed
  ultimately show ?thesis by blast
qed

theorem integration_write_takes_effect_witness:
  "\<exists>s'. ts_num (fst (resolveMonitorSettings lab_asset s')) FailureThreshold = 5 \<and>
     ts_polling (fst (resolveMonitorSettings lab_asset s')) ResponseTime = Some Snmp"
proof -
  obtain inp s' where "putIntegration ''fgt'' lab_body None lab_state = (Inr inp, s')" using lab_put by blast
  note e = integration_write_takes_effect [OF lab_coherent lab_inherits this]
  have "jprop lab_body (numKey FailureThreshold) = Some (JNum (of_int (ts_num (fst (resolveMonitorSettings lab_asset s')) FailureThreshold)))"
    using e by (simp add: requiredNums_def)
  then have "rat_of_int (ts_num (fst (resolveMonitorSettings lab_asset s')) FailureThreshold) = 5" by (simp add: lab_body_def)
  then have "ts_num (fst (resolveMonitorSettings lab_asset s')) FailureThreshold = 5" by (metis of_int_eq_iff of_int_numeral)
  moreover have "jprop lab_body (pollingKey ResponseTime) = Some (JStr (methodToken Snmp))" by (simp add: lab_body_def pollingKey_def)
  ultimately show ?thesis using e by (intro exI [of _ s']) (simp del: methodToken.simps)
qed

text \<open>
  A timeout written as \<^verbatim>\<open>null\<close>, which the schema allows and the comments describe as the default, is
  stored and read back as 0 milliseconds: \<^verbatim>\<open>Number(null)\<close> is 0, not \<^verbatim>\<open>NaN\<close>.
\<close>

theorem null_timeout_is_zero:
  assumes "coherent s" "inherits asset i s g" "putIntegration i body actor s = (Inr inp, s')"
    and "f \<in> {CpuMemoryTimeoutMs, TemperatureTimeoutMs, SystemInfoTimeoutMs}" "jprop body (numKey f) = Some JNull"
    and "os_num (classValues asset s) f = None" "ac_num asset f = None"
  shows "ts_num (fst (resolveMonitorSettings asset s')) f = 0"
proof -
  note a = assms(2) [unfolded inherits_def]
  have "i \<noteq> MANUAL_TIER_CACHE_KEY" using a by (auto simp: plain_def classPair_def)
  then obtain raw where raw: "zod_object TierSettingsSchema body = Inr raw" "inp = stripLegacyRetention raw"
    using put_integration_tier(4) [OF assms(3)] a by blast
  have "optional_field (numKey f) (ZInt 1000 120000) \<in> set TierSettingsSchema" using assms(4) by (auto simp: TierSettingsSchema_def)
  from zod_object_prop [OF raw(1) schema_distinct this] have "jprop raw (numKey f) = Some JNull" using assms(5) by (simp add: optional_field_def)
  moreover have "jprop inp (numKey f) = jprop raw (numKey f)" unfolding raw(2) by (rule strip_prop) (use assms(4) in auto)
  ultimately have "ts_num (tierFromJson (Some inp)) f = 0"
    by (cases inp) (simp_all add: tierFromJson_def nonnull_def jprop_opt_def toPositiveInt_def floor_or_def Let_def)
  then show ?thesis using assms(6,7) unfolding written_settings [OF assms(1-3)] by (simp add: mergeSettings_def classValues_def Let_def)
qed

theorem null_timeout_is_zero_witness:
  "\<exists>s'. ts_num (fst (resolveMonitorSettings lab_asset s')) CpuMemoryTimeoutMs = 0"
proof -
  obtain inp s' where "putIntegration ''fgt'' lab_body None lab_state = (Inr inp, s')" using lab_put by blast
  from null_timeout_is_zero [OF lab_coherent lab_inherits this, of CpuMemoryTimeoutMs] show ?thesis
    by (auto simp: lab_body_def)
qed

text \<open>
  The loaders read the database, wait, and then fill the cache. If an integration tier is written while a
  loader waits, the old tier is put in the cache after the write has cleared it, and from then on the assets of
  the integration are monitored with the old settings.
\<close>

theorem loader_race_serves_old_tier:
  assumes "coherent s" "inherits asset i s g" "putIntegration i body actor s = (Inr inp, s')"
  shows "fst (resolveMonitorSettings asset (cacheTier i (integrationTier i s) s')) =
      mergeSettings (integrationTier i s) (classOf s (classPair asset)) asset"
proof -
  note a = assms(2) [unfolded inherits_def]
  have i: "i \<noteq> MANUAL_TIER_CACHE_KEY" using a by (auto simp: plain_def classPair_def)
  note p = put_integration_tier [OF assms(3) i]
  let ?s = "cacheTier i (integrationTier i s) s'"
  have pl: "plain (classPair asset)" using a by simp
  have "scopeKey asset = i" using a by (simp add: scopeKey_def truthy_def)
  moreover have tier: "load_tier i ?s = (integrationTier i s, ?s)" unfolding load_tier_def by (rule tier_memo.load_hit) (simp add: cacheTier_def)
  moreover have "fst (load_class (classPair asset) ?s) = classOf s (classPair asset)"
  proof -
    have "memo_ok (\<lambda>s p. ms_classCache s (classKey p)) classOf plain ?s" using p(3) assms(1) a by (simp add: coherent_def memo_ok_def)
    from class_memo.load_value [OF this pl] show ?thesis using p(2) a by (simp add: load_class_def)
  qed
  ultimately show ?thesis by (simp add: resolveMonitorSettings_def loadTiers_memo [OF pl])
qed

theorem loader_race_serves_old_tier_witness:
  "\<exists>inp s'. putIntegration ''fgt'' lab_body None lab_state = (Inr inp, s') \<and>
     ts_num (fst (resolveMonitorSettings lab_asset (cacheTier ''fgt'' (integrationTier ''fgt'' lab_state) s'))) IntervalSeconds = 60"
proof -
  obtain inp s' where run: "putIntegration ''fgt'' lab_body None lab_state = (Inr inp, s')" using lab_put by blast
  have "ts_num (integrationTier ''fgt'' lab_state) IntervalSeconds = 60"
    by (simp add: integrationTier_def findSettingsIntegration_def lab_state_def lab_integration_def storedTier_def truthy_value_def
        legacyGlobalAsTier_def HARDCODED_FLOOR_def)
  then have "ts_num (mergeSettings (integrationTier ''fgt'' lab_state) (classOf lab_state (classPair lab_asset)) lab_asset) IntervalSeconds = 60"
    using lab_values(1) [of IntervalSeconds] by (simp add: mergeSettings_def Let_def classValues_def)
  then have "ts_num (fst (resolveMonitorSettings lab_asset (cacheTier ''fgt'' (integrationTier ''fgt'' lab_state) s'))) IntervalSeconds = 60"
    unfolding loader_race_serves_old_tier [OF lab_coherent lab_inherits run] .
  with run show ?thesis by (intro exI conjI)
qed

theorem settings_cache_transparent_witness:
  "fst (resolveMonitorSettings lab_asset (snd (resolveMonitorSettings lab_asset lab_state))) =
     effectiveSettings lab_asset (snd (resolveMonitorSettings lab_asset lab_state))"
  by (rule settings_cache_transparent [OF lab_cold _ lab_plain, THEN conjunct1]) (rule r_into_rtranclp, rule step_resolve [OF lab_plain])

end
