(* ===== verification/SampleRows.thy ===== *)
theory SampleRows
  imports Complex_Main
begin

text \<open>
  The rows of the six sample tables, as \<^verbatim>\<open>src/services/sampleWriteBuffer.ts\<close> declares them and
  \<^verbatim>\<open>prisma/schema.prisma\<close> stores them. A time is in milliseconds since the epoch; a \<^verbatim>\<open>Float\<close> column is an exact
  rational and a \<^verbatim>\<open>BigInt\<close> column an integer; \<^term>\<open>None\<close> is the SQL \<^verbatim>\<open>NULL\<close>.
\<close>

record monitorSample =
  sa_assetId :: string
  sa_timestamp :: int
  sa_success :: bool
  sa_responseTimeMs :: "int option"
  sa_error :: "string option"

record telemetrySample =
  te_assetId :: string
  te_timestamp :: int
  te_cpuPct :: "rat option"
  te_memPct :: "rat option"
  te_memUsedBytes :: "int option"
  te_memTotalBytes :: "int option"

record temperatureSample =
  tp_assetId :: string
  tp_timestamp :: int
  tp_sensorName :: string
  tp_celsius :: "rat option"

record interfaceSample =
  if_assetId :: string
  if_timestamp :: int
  if_ifName :: string
  if_adminStatus :: "string option"
  if_operStatus :: "string option"
  if_speedBps :: "int option"
  if_ipAddress :: "string option"
  if_macAddress :: "string option"
  if_inOctets :: "int option"
  if_outOctets :: "int option"
  if_inErrors :: "int option"
  if_outErrors :: "int option"
  if_ifType :: "string option"
  if_ifParent :: "string option"
  if_vlanId :: "int option"
  if_alias :: "string option"
  if_description :: "string option"

record storageSample =
  sg_assetId :: string
  sg_timestamp :: int
  sg_mountPath :: string
  sg_totalBytes :: "int option"
  sg_usedBytes :: "int option"

record ipsecSample =
  ip_assetId :: string
  ip_timestamp :: int
  ip_tunnelName :: string
  ip_parentInterface :: "string option"
  ip_remoteGateway :: "string option"
  ip_status :: string
  ip_incomingBytes :: "int option"
  ip_outgoingBytes :: "int option"
  ip_proxyIdCount :: "int option"

end
