(* ===== verification/MonitorStatus.thy ===== *)
theory MonitorStatus
  imports MonitorSettings SampleRows DependencyTree PushQueue
begin

text \<open>
  Response-time monitoring in \<^verbatim>\<open>src/services/monitoringService.ts\<close>: the choice of the probe for an asset
  (\<^verbatim>\<open>probeAsset\<close>), the five-state machine a probe result drives (\<^verbatim>\<open>recordProbeResult\<close>), the work item of the
  monitor loop (\<^verbatim>\<open>runProbeFor\<close>), the refresh route of \<^verbatim>\<open>routes/assets.ts\<close> and the sample route of
  \<^verbatim>\<open>routes/agents.ts\<close>. The probes themselves talk to the network: they are one parameter, a function from the
  chosen call to its result. An asset is one row; its columns are spread over the three states that read
  them, and a write goes to each. The two hooks a confirmed transition fires are not awaited: they are left behind in the
  state and settle later (\<^verbatim>\<open>settleHook\<close>).
\<close>

section \<open>State\<close>

record monitorCols =
  mc_consecutiveFailures :: nat
  mc_consecutiveSuccesses :: nat
  mc_lastMonitorAt :: "int option"
  mc_lastTelemetryAt :: "int option"
  mc_lastSystemInfoAt :: "int option"
  mc_monitoredInterfaces :: "string list"
  mc_monitoredStorage :: "string list"
  mc_monitoredIpsecTunnels :: "string list"
  mc_lastResponseTimeMs :: "int option"
  mc_monitorStatusChangedAt :: "int option"
  mc_num :: "numField \<Rightarrow> int option"
  mc_polling :: "stream \<Rightarrow> string option"
  mc_mib :: "stream \<Rightarrow> string option"
  mc_ipAddress :: "string option"
  mc_dnsName :: "string option"
  mc_monitorCredential :: "credential option"
  mc_responseTimeCredential :: "credential option"

text \<open>What a transition leaves behind, with the asset that changed: the propagation to its dependants, and the retry of queued pushes.\<close>

datatype hook = Propagate string | RetryQueued string

record 'd monSys =
  my_settings :: monState
  my_dep :: depWorld
  my_core :: "'d world"
  my_cols :: "string \<Rightarrow> monitorCols"
  my_samples :: "monitorSample list"
  my_hooks :: "hook list"

record probeResult =
  pr_success :: bool
  pr_responseTimeMs :: int
  pr_error :: "string option"

text \<open>The row handed from the probe to the state machine, with the columns the state machine reads.\<close>

record snapshot =
  sp_row :: depAssetRow
  sp_cols :: monitorCols

definition loadAsset :: "string \<Rightarrow> 'd monSys \<Rightarrow> snapshot option" where
  "loadAsset i y = map_option (\<lambda>r. \<lparr>sp_row = r, sp_cols = my_cols y i\<rparr>) (findAsset i (my_dep y))"

definition discoveredBy :: "snapshot \<Rightarrow> 'd monSys \<Rightarrow> settingsIntegration option" where
  "discoveredBy a y = integrationOf (dr_discoveredByIntegrationId (sp_row a)) (my_settings y)"

section \<open>Choosing the probe\<close>

text \<open>What a probe function is called with; the timeout comes separately.\<close>

datatype probeCall =
    ProbeFortinetController string settingsIntegration
  | ProbeIcmp string
  | ProbeFortinet string settingsIntegration
  | ProbeRestApiCredential json
  | ProbeSnmp string json
  | ProbeWinRm string json
  | ProbeWinRmBind string string string
  | ProbeSsh string json
  | ProbeSshBind string string string

datatype probePlan = Finished bool "string option" | Run probeCall int

definition orEmptyObject :: "json \<Rightarrow> json" where
  "orEmptyObject c = (if truthyJ c then c else JObj [])"

definition loadClassOverrideStreamCredential :: "string option \<Rightarrow> string \<Rightarrow> monState \<Rightarrow> credential option" where
  "loadClassOverrideStreamCredential credentialId expectedType s =
     (if \<not> truthy credentialId then None
      else (case find (\<lambda>c. Some (cr_id c) = credentialId) (ms_credentials s) of
              None \<Rightarrow> None
            | Some c \<Rightarrow> if cr_type c = expectedType then Some c else None))"

definition loadSnmpCredentialConfigForFortinetAsset ::
  "credential option \<Rightarrow> settingsIntegration \<Rightarrow> monState \<Rightarrow> json result" where
  "loadSnmpCredentialConfigForFortinetAsset effectiveCred integration s =
     (if effectiveCred \<noteq> None \<and> cr_type (the effectiveCred) = ''snmp'' then Inr (orEmptyObject (cr_config (the effectiveCred)))
      else
        (let credId = jstring (jprop (si_config integration) ''monitorCredentialId'') in
         if \<not> truthy credId
         then Inl (NativeError ''Transport set to SNMP but no SNMP credential is configured on the asset or integration'')
         else (case find (\<lambda>c. Some (cr_id c) = credId) (ms_credentials s) of
                 None \<Rightarrow> Inl (NativeError ''Integration's monitor credential not found'')
               | Some c \<Rightarrow>
                   (if cr_type c \<noteq> ''snmp''
                    then Inl (NativeError (''Integration's monitor credential must be SNMP (got \"'' @ cr_type c @ ''\")''))
                    else Inr (orEmptyObject (cr_config c))))))"

text \<open>
  A credential of the wanted type on the asset wins; WinRM and SSH then fall back to the bind account of an
  Active Directory integration, whose settings are strings or absent.
\<close>

definition ofType :: "string \<Rightarrow> credential option \<Rightarrow> credential option" where
  "ofType t c = (case c of Some d \<Rightarrow> if cr_type d = t then Some d else None | None \<Rightarrow> None)"

definition bindPlan ::
  "string \<Rightarrow> bool \<Rightarrow> settingsIntegration option \<Rightarrow> (string \<Rightarrow> string \<Rightarrow> probeCall) \<Rightarrow> int \<Rightarrow> probePlan" where
  "bindPlan missing isAdSrc integration call timeoutMs =
     (case integration of
        Some g \<Rightarrow>
          (if \<not> isAdSrc then Finished False (Some missing)
           else
             (let username = jstring (jprop (si_config g) ''bindDn''); password = jstring (jprop (si_config g) ''bindPassword'')
              in if \<not> truthy username \<or> \<not> truthy password
                 then Finished False (Some ''Active Directory bind credentials not configured'')
                 else Run (call (the username) (the password)) timeoutMs))
      | None \<Rightarrow> Finished False (Some missing))"

definition snmpPlan ::
  "string \<Rightarrow> credential option \<Rightarrow> string option \<Rightarrow> bool \<Rightarrow> settingsIntegration option \<Rightarrow> monState \<Rightarrow> int \<Rightarrow> probePlan" where
  "snmpPlan targetIp rtCred classCredId isFortinetSrc integration s timeoutMs =
     (case ofType ''snmp'' rtCred of
        Some c \<Rightarrow> Run (ProbeSnmp targetIp (cr_config c)) timeoutMs
      | None \<Rightarrow>
          (case loadClassOverrideStreamCredential classCredId ''snmp'' s of
             Some c \<Rightarrow> Run (ProbeSnmp targetIp (cr_config c)) timeoutMs
           | None \<Rightarrow>
               (case integration of
                  Some g \<Rightarrow>
                    (if \<not> isFortinetSrc then Finished False (Some ''No SNMP credential selected'')
                     else (case loadSnmpCredentialConfigForFortinetAsset rtCred g s of
                             Inl e \<Rightarrow> Finished False (Some (or_str (Some (errMessage e)) ''SNMP credential lookup failed''))
                           | Inr cfg \<Rightarrow> Run (ProbeSnmp targetIp cfg) timeoutMs))
                | None \<Rightarrow> Finished False (Some ''No SNMP credential selected''))))"

definition planTarget ::
  "snapshot \<Rightarrow> pollingMethod \<Rightarrow> settingsIntegration option \<Rightarrow> tierSettings \<Rightarrow> monState \<Rightarrow> string \<Rightarrow> probePlan" where
  "planTarget a polling integration effective s targetIp =
     (let sourceKind = assetSourceKindFromIntegrationType (map_option si_type integration);
          isFortinetSrc = (sourceKind = KFortimanager \<or> sourceKind = KFortigate);
          isAdSrc = (sourceKind = KActivedirectory);
          timeoutMs = ts_num effective ProbeTimeoutMs;
          rtCred = keep_opt (mc_responseTimeCredential (sp_cols a)) (mc_monitorCredential (sp_cols a))
      in case polling of
           Icmp \<Rightarrow> Run (ProbeIcmp targetIp) timeoutMs
         | RestApi \<Rightarrow>
             (if isFortinetSrc \<and> integration \<noteq> None then Run (ProbeFortinet targetIp (the integration)) timeoutMs
              else (case ofType ''restapi'' rtCred of
                      Some c \<Rightarrow> Run (ProbeRestApiCredential (cr_config c)) timeoutMs
                    | None \<Rightarrow> Finished False (Some ''REST API polling requires either a Fortinet integration or a REST API credential'')))
         | Snmp \<Rightarrow> snmpPlan targetIp rtCred (ts_cred effective ResponseTime) isFortinetSrc integration s timeoutMs
         | Winrm \<Rightarrow>
             (case ofType ''winrm'' rtCred of
                Some c \<Rightarrow> Run (ProbeWinRm targetIp (cr_config c)) timeoutMs
              | None \<Rightarrow> bindPlan ''No WinRM credential selected'' isAdSrc integration (ProbeWinRmBind targetIp) timeoutMs)
         | Ssh \<Rightarrow>
             (case ofType ''ssh'' rtCred of
                Some c \<Rightarrow> Run (ProbeSsh targetIp (cr_config c)) timeoutMs
              | None \<Rightarrow> bindPlan ''No SSH credential selected'' isAdSrc integration (ProbeSshBind targetIp) timeoutMs)
         | _ \<Rightarrow> Finished False (Some (''Unknown polling method \"'' @ methodToken polling @ ''\"'')))"

definition planProbe :: "snapshot \<Rightarrow> settingsIntegration option \<Rightarrow> tierSettings \<Rightarrow> monState \<Rightarrow> probePlan" where
  "planProbe a integration effective s =
     (case ts_polling effective ResponseTime of
        None \<Rightarrow> Finished False (Some ''No response-time polling method configured'')
      | Some polling \<Rightarrow>
          (if polling = Agent then Finished True None
           else
             (let sourceKind = assetSourceKindFromIntegrationType (map_option si_type integration);
                  isFortinetSrc = (sourceKind = KFortimanager \<or> sourceKind = KFortigate);
                  row = sp_row a
              in if polling = RestApi \<and> isFortinetSrc \<and> integration \<noteq> None \<and> dr_assetType row \<in> {''switch'', ''access_point''}
                 then Run (ProbeFortinetController (dr_id row) (the integration)) (ts_num effective ProbeTimeoutMs)
                 else
                   (let adFallback = (if truthy (mc_dnsName (sp_cols a)) then mc_dnsName (sp_cols a) else dr_hostname row);
                        target = (if truthy (mc_ipAddress (sp_cols a)) then mc_ipAddress (sp_cols a)
                                  else if polling = Winrm \<or> polling = Ssh then adFallback else None)
                    in if \<not> truthy target then Finished False (Some ''Asset has no IP address'')
                       else planTarget a polling integration effective s (the target)))))"

section \<open>Running it\<close>

text \<open>
  What the resolver sees of an asset. \<^verbatim>\<open>probeAsset\<close> and the monitor loop pass the type of the discovering
  integration; it is absent where the caller does not pass it.
\<close>

definition contextOf :: "snapshot \<Rightarrow> string option \<Rightarrow> assetContext" where
  "contextOf a integrationType =
     \<lparr>ac_assetType = dr_assetType (sp_row a), ac_integrationId = dr_discoveredByIntegrationId (sp_row a), ac_integrationType = integrationType,
      ac_num = mc_num (sp_cols a), ac_polling = mc_polling (sp_cols a), ac_mib = mc_mib (sp_cols a)\<rparr>"

definition resolveFor :: "assetContext \<Rightarrow> 'd monSys \<Rightarrow> tierSettings \<times> 'd monSys" where
  "resolveFor ctx y = (let (e, s) = resolveMonitorSettings ctx (my_settings y) in (e, y\<lparr>my_settings := s\<rparr>))"

definition finish :: "int \<Rightarrow> bool \<Rightarrow> string option \<Rightarrow> probeResult" where
  "finish ms success err = \<lparr>pr_success = success, pr_responseTimeMs = max 0 ms, pr_error = (if success then None else err)\<rparr>"

definition executePlan :: "(probeCall \<Rightarrow> int \<Rightarrow> probeResult result) \<Rightarrow> int \<Rightarrow> probePlan \<Rightarrow> probeResult" where
  "executePlan probes ms plan =
     (case plan of
        Finished ok err \<Rightarrow> finish ms ok err
      | Run call timeoutMs \<Rightarrow>
          (case probes call timeoutMs of
             Inr r \<Rightarrow> r
           | Inl e \<Rightarrow> finish ms False (Some (or_str (Some (errMessage e)) ''Unknown probe error''))))"

definition probeAsset ::
  "(probeCall \<Rightarrow> int \<Rightarrow> probeResult result) \<Rightarrow> int \<Rightarrow> string \<Rightarrow> 'd monSys \<Rightarrow> (probeResult \<times> snapshot option) \<times> 'd monSys" where
  "probeAsset probes ms i y =
     (case loadAsset i y of
        None \<Rightarrow> ((finish ms False (Some ''Asset not found''), None), y)
      | Some a \<Rightarrow>
          (if \<not> dr_monitored (sp_row a) then ((finish ms False (Some ''Monitoring disabled''), Some a), y)
           else
             (let integration = discoveredBy a y;
                  (effective, y') = resolveFor (contextOf a (map_option si_type integration)) y
              in ((executePlan probes ms (planProbe a integration effective (my_settings y')), Some a), y'))))"

section \<open>The five-state machine\<close>

definition nextStatus :: "string \<Rightarrow> bool \<Rightarrow> nat \<Rightarrow> nat \<Rightarrow> int \<Rightarrow> string" where
  "nextStatus previousStatus success newCf newCs threshold =
     (if success
      then (if previousStatus = ''up'' then ''up''
            else if previousStatus = ''warning'' \<or> previousStatus = ''recovering''
            then (if int newCs \<ge> threshold then ''up'' else previousStatus)
            else (if int newCs \<ge> threshold then ''up'' else ''recovering''))
      else (if int newCf \<ge> threshold then ''down''
            else if previousStatus = ''up'' \<or> previousStatus = ''unknown'' then ''warning''
            else if previousStatus = ''warning'' \<or> previousStatus = ''recovering'' \<or> previousStatus = ''down'' then previousStatus
            else ''warning''))"

definition newFailures :: "probeResult \<Rightarrow> monitorCols \<Rightarrow> nat" where
  "newFailures r c = (if pr_success r then 0 else mc_consecutiveFailures c + 1)"

definition newSuccesses :: "probeResult \<Rightarrow> monitorCols \<Rightarrow> nat" where
  "newSuccesses r c = (if pr_success r then mc_consecutiveSuccesses c + 1 else 0)"

definition sampleOf :: "string \<Rightarrow> int \<Rightarrow> probeResult \<Rightarrow> monitorSample" where
  "sampleOf i now r =
     \<lparr>sa_assetId = i, sa_timestamp = now, sa_success = pr_success r,
      sa_responseTimeMs = (if pr_success r then Some (pr_responseTimeMs r) else None),
      sa_error = (if pr_success r then None else pr_error r)\<rparr>"

definition enqueueMonitorSample :: "monitorSample \<Rightarrow> 'd monSys \<Rightarrow> 'd monSys" where
  "enqueueMonitorSample sa y = y\<lparr>my_samples := my_samples y @ [sa]\<rparr>"

text \<open>\<^verbatim>\<open>prisma.asset.update\<close>: the row must still exist.\<close>

definition updateMonitorColumns ::
  "string \<Rightarrow> string \<Rightarrow> (monitorCols \<Rightarrow> monitorCols) \<Rightarrow> ('d monSys, unit) io" where
  "updateMonitorColumns i status f y =
     (if findAsset i (my_dep y) = None then (Inl (NativeError ''Record to update not found''), y)
      else (Inr (), y\<lparr>my_dep := (my_dep y)\<lparr>dw_assets := map (\<lambda>a. if dr_id a = i then a\<lparr>dr_monitorStatus := Some status\<rparr> else a) (dw_assets (my_dep y))\<rparr>,
                      my_core := (my_core y)\<lparr>w_assets := map (\<lambda>a. if as_id a = i then a\<lparr>as_monitorStatus := Some status\<rparr> else a) (w_assets (my_core y))\<rparr>,
                      my_cols := (my_cols y)(i := f (my_cols y i))\<rparr>))"

definition statusEvent :: "string \<Rightarrow> string option \<Rightarrow> string \<Rightarrow> event" where
  "statusEvent i hostname status =
     \<lparr>ev_action = ''monitor.status_changed'', ev_level = (if status = ''down'' then ''warning'' else ''info''), ev_resourceType = ''asset'',
      ev_resourceId = Some i, ev_resourceName = or_null hostname, ev_actor = None\<rparr>"

definition depStep :: "(depWorld \<Rightarrow> depWorld) \<Rightarrow> 'd monSys \<Rightarrow> 'd monSys" where
  "depStep f y = y\<lparr>my_dep := f (my_dep y)\<rparr>"

definition coreStep :: "('d world, unit) io \<Rightarrow> 'd monSys \<Rightarrow> 'd monSys" where
  "coreStep m y = y\<lparr>my_core := snd (m (my_core y))\<rparr>"

text \<open>A confirmed transition: the event is logged, the hooks are started and nothing waits for them.\<close>

definition announce :: "string \<Rightarrow> string option \<Rightarrow> string \<Rightarrow> 'd monSys \<Rightarrow> 'd monSys" where
  "announce i hostname status y =
     (let y1 = depStep (\<lambda>d. d\<lparr>dw_events := dw_events d @ [statusEvent i hostname status]\<rparr>) y
      in y1\<lparr>my_hooks := my_hooks y1 @ [Propagate i] @ (if status = ''up'' then [RetryQueued i] else [])\<rparr>)"

text \<open>
  A hook runs on the state it finds. The hooks settle one by one, in any order and at any time; one that fails is logged and
  forgotten (\<open>ok\<close> is false).
\<close>

definition runHook :: "netmask_lib \<Rightarrow> 'd fortinet \<Rightarrow> int \<Rightarrow> hook \<Rightarrow> 'd monSys \<Rightarrow> 'd monSys" where
  "runHook N D now h y =
     (case h of
        Propagate i \<Rightarrow> depStep (\<lambda>d. snd (propagateAfterStatusChange now d)) y
      | RetryQueued i \<Rightarrow> coreStep (triggerRetryAfterStatusChange N D i now) y)"

definition settleHook :: "netmask_lib \<Rightarrow> 'd fortinet \<Rightarrow> nat \<Rightarrow> bool \<Rightarrow> int \<Rightarrow> 'd monSys \<Rightarrow> 'd monSys" where
  "settleHook N D k ok now y =
     (let hs = my_hooks y; y1 = y\<lparr>my_hooks := take k hs @ drop (Suc k) hs\<rparr>
      in if k < length hs then (if ok then runHook N D now (hs ! k) y1 else y1) else y)"

text \<open>The columns the query selects when no row was handed over: no polling methods, no MIB ids, five of the numbers.\<close>

definition selected :: "snapshot \<Rightarrow> snapshot" where
  "selected a = a\<lparr>sp_cols := (sp_cols a)\<lparr>
     mc_num := (\<lambda>f. if f \<in> {IntervalSeconds, CpuMemoryIntervalSeconds, TemperatureIntervalSeconds, SystemInfoIntervalSeconds, ProbeTimeoutMs}
                    then mc_num (sp_cols a) f else None),
     mc_polling := (\<lambda>_. None), mc_mib := (\<lambda>_. None)\<rparr>\<rparr>"

definition applyResult ::
  "string \<Rightarrow> probeResult \<Rightarrow> snapshot \<Rightarrow> int \<Rightarrow> int \<Rightarrow> ('d monSys, unit) io" where
  "applyResult i r a threshold now =
     (let previousStatus = keep (dr_monitorStatus (sp_row a)) ''unknown'';
          newCf = newFailures r (sp_cols a);
          newCs = newSuccesses r (sp_cols a);
          status = nextStatus previousStatus (pr_success r) newCf newCs threshold
      in bindIO (modifyIO (enqueueMonitorSample (sampleOf i now r))) (\<lambda>_.
         bindIO (updateMonitorColumns i status (\<lambda>c. c\<lparr>
             mc_lastMonitorAt := Some now, mc_lastResponseTimeMs := (if pr_success r then Some (pr_responseTimeMs r) else None),
             mc_consecutiveFailures := newCf, mc_consecutiveSuccesses := newCs,
             mc_monitorStatusChangedAt := (if previousStatus \<noteq> status then Some now else mc_monitorStatusChangedAt c)\<rparr>)) (\<lambda>_.
         if previousStatus \<noteq> status \<and> (status = ''up'' \<or> status = ''down'')
         then modifyIO (announce i (dr_hostname (sp_row a)) status)
         else returnIO ())))"

definition recordProbeResult ::
  "string \<Rightarrow> probeResult \<Rightarrow> snapshot option \<Rightarrow> bool \<Rightarrow> int \<Rightarrow> ('d monSys, unit) io" where
  "recordProbeResult i r preloaded fromAgent now y =
     (case keep_opt preloaded (map_option selected (loadAsset i y)) of
        None \<Rightarrow> (Inr (), y)
      | Some a \<Rightarrow>
          (let (effective, y') = resolveFor (contextOf a None) y
           in if ts_polling effective ResponseTime = Some Agent \<and> \<not> fromAgent then (Inr (), y')
              else applyResult i r a (ts_num effective FailureThreshold) now y'))"

datatype cadenceOutcome = OutSuccess | OutFailure | OutCrash

definition runProbeFor ::
  "(probeCall \<Rightarrow> int \<Rightarrow> probeResult result) \<Rightarrow> int \<Rightarrow> string \<Rightarrow> int \<Rightarrow> 'd monSys \<Rightarrow> cadenceOutcome \<times> 'd monSys" where
  "runProbeFor probes ms i now y =
     (let ((r, shot), y1) = probeAsset probes ms i y
      in case recordProbeResult i r shot False now y1 of
           (Inl e, y2) \<Rightarrow> (OutCrash, y2)
         | (Inr _, y2) \<Rightarrow> (if pr_success r then OutSuccess else OutFailure, y2))"

text \<open>The probe part of \<^verbatim>\<open>POST /assets/:id/probe-now\<close>, which hands no row over.\<close>

definition probeNow ::
  "(probeCall \<Rightarrow> int \<Rightarrow> probeResult result) \<Rightarrow> int \<Rightarrow> string \<Rightarrow> int \<Rightarrow> ('d monSys, probeResult) io" where
  "probeNow probes ms i now y =
     (let ((r, shot), y1) = probeAsset probes ms i y
      in bindIO (recordProbeResult i r None False now) (\<lambda>_. returnIO r) y1)"

text \<open>\<^verbatim>\<open>POST /agents/samples\<close> for the response-time stream.\<close>

record agentSample =
  ag_timestamp :: "int option"
  ag_success :: bool
  ag_responseTimeMs :: "int option"
  ag_error :: "string option"

definition agentRow :: "string \<Rightarrow> int \<Rightarrow> agentSample \<Rightarrow> monitorSample" where
  "agentRow i now g =
     \<lparr>sa_assetId = i, sa_timestamp = keep (ag_timestamp g) now, sa_success = ag_success g,
      sa_responseTimeMs = (if ag_success g then Some (keep (ag_responseTimeMs g) 0) else None),
      sa_error = (if ag_success g then None else Some (keep (ag_error g) ''Agent reported failure''))\<rparr>"

definition agentResult :: "agentSample \<Rightarrow> probeResult" where
  "agentResult g =
     (if ag_success g then \<lparr>pr_success = True, pr_responseTimeMs = keep (ag_responseTimeMs g) 0, pr_error = None\<rparr>
      else \<lparr>pr_success = False, pr_responseTimeMs = 0, pr_error = Some (keep (ag_error g) ''Agent reported failure'')\<rparr>)"

fun postAgentSamples :: "string \<Rightarrow> agentSample list \<Rightarrow> int \<Rightarrow> ('d monSys, nat) io" where
  "postAgentSamples i [] now = returnIO 0"
| "postAgentSamples i (g # gs) now =
     bindIO (modifyIO (enqueueMonitorSample (agentRow i now g))) (\<lambda>_.
     bindIO (recordProbeResult i (agentResult g) None True now) (\<lambda>_.
     bindIO (postAgentSamples i gs now) (\<lambda>n. returnIO (n + 1))))"

end
