(* ===== verification/StatusSpec.thy ===== *)
theory StatusSpec
  imports MonitorStatus SettingsSpec SuppressionSpec SubnetsSpec
begin

text \<open>
  Properties of response-time monitoring. The status the five-state machine keeps is a function of the
  history of probe results, however late the hooks of earlier transitions settle; an event is written exactly when a result is
  confirmed; a confirmed transition leaves a hook behind that brings the dependants up to date when it runs. What happens to assets an agent reports for, and to assets whose probe is disabled.
\<close>

section \<open>The status as a function of the history\<close>

text \<open>A history lists the results, the most recent first.\<close>

definition runLength :: "bool list \<Rightarrow> nat" where
  "runLength h = length (takeWhile (\<lambda>b. b = hd h) h)"

fun lastConfirmed :: "nat \<Rightarrow> bool list \<Rightarrow> bool option" where
  "lastConfirmed t [] = None"
| "lastConfirmed t (b # h) = (if t \<le> runLength (b # h) then Some b else lastConfirmed t h)"

text \<open>
  A run of \<open>t\<close> equal results confirms up or down. Otherwise the asset is in doubt: \<^verbatim>\<open>warning\<close> if it was last
  confirmed up, \<^verbatim>\<open>recovering\<close> if it was last confirmed down; if it never was confirmed, the first result decides.
\<close>

definition standing :: "nat \<Rightarrow> bool list \<Rightarrow> string" where
  "standing t h =
     (if h = [] then ''unknown''
      else if t \<le> runLength h then (if hd h then ''up'' else ''down'')
      else (case lastConfirmed t h of
              Some True \<Rightarrow> ''warning''
            | Some False \<Rightarrow> ''recovering''
            | None \<Rightarrow> (if last h then ''recovering'' else ''warning'')))"

fun alerts :: "nat \<Rightarrow> bool list \<Rightarrow> bool list" where
  "alerts t [] = []"
| "alerts t (b # h) = alerts t h @ (if runLength (b # h) = t then [b] else [])"

definition failures :: "bool list \<Rightarrow> nat" where
  "failures h = (if h \<noteq> [] \<and> \<not> hd h then runLength h else 0)"

definition successes :: "bool list \<Rightarrow> nat" where
  "successes h = (if h \<noteq> [] \<and> hd h then runLength h else 0)"

lemma runLength_Cons: "runLength (b # h) = (if h \<noteq> [] \<and> hd h = b then runLength h + 1 else 1)"
  by (cases h) (auto simp: runLength_def)

lemma counters_step:
  "failures (b # h) = (if b then 0 else failures h + 1)" "successes (b # h) = (if b then successes h + 1 else 0)"
  by (auto simp: failures_def successes_def runLength_Cons)

lemma runLength_pos: "h \<noteq> [] \<Longrightarrow> 0 < runLength h"
  by (cases h) (simp_all add: runLength_def)

lemma standing_Cons:
  "standing t (b # h) =
    (if t \<le> runLength (b # h) then (if b then ''up'' else ''down'')
     else if standing t h = ''up'' then ''warning'' else if standing t h = ''down'' then ''recovering''
     else if standing t h = ''unknown'' then (if b then ''recovering'' else ''warning'') else standing t h)"
proof (cases h)
  case (Cons c h')
  then show ?thesis by (auto simp: standing_def split: option.splits bool.splits)
qed (simp add: standing_def)

lemma standing_confirmed:
  "0 < t \<Longrightarrow> standing t h = ''up'' \<longleftrightarrow> t \<le> successes h" "0 < t \<Longrightarrow> standing t h = ''down'' \<longleftrightarrow> t \<le> failures h"
  by (auto simp: standing_def successes_def failures_def split: option.splits bool.splits)

lemma standing_values: "standing t h \<in> {''unknown'', ''up'', ''down'', ''warning'', ''recovering''}" "standing t h = ''unknown'' \<longleftrightarrow> h = []"
  by (auto simp: standing_def split: option.splits bool.splits)

lemma nextStatus_standing:
  assumes "t = nat (max 1 threshold)"
  shows "nextStatus (standing t h) b (failures (b # h)) (successes (b # h)) threshold = standing t (b # h)"
proof -
  have t: "0 < t" and le: "0 < n \<Longrightarrow> threshold \<le> int n \<longleftrightarrow> t \<le> n" for n using assms by auto
  have run: "runLength (b # h) = (if b then successes (b # h) else failures (b # h))" by (simp add: successes_def failures_def)
  have pos: "0 < runLength (b # h)" by (simp add: runLength_pos)
  note c = standing_confirmed [OF t, of h] and v = standing_values [of t h]
  show ?thesis
  proof (cases b)
    case True
    then have "successes (b # h) = successes h + 1" by (simp add: counters_step)
    then show ?thesis using True run pos le [of "successes (b # h)"] c v unfolding standing_Cons [of t b h] nextStatus_def by auto
  next
    case False
    then have "failures (b # h) = failures h + 1" by (simp add: counters_step)
    then show ?thesis using False run pos le [of "failures (b # h)"] c v unfolding standing_Cons [of t b h] nextStatus_def by auto
  qed
qed

lemma alert_when_confirmed:
  assumes "0 < t"
  shows "standing t h \<noteq> standing t (b # h) \<and> standing t (b # h) \<in> {''up'', ''down''} \<longleftrightarrow> runLength (b # h) = t"
proof -
  note c = standing_confirmed [OF assms]
  have "standing t (b # h) \<in> {''up'', ''down''} \<longleftrightarrow> t \<le> runLength (b # h)"
    using c [of "b # h"] assms by (auto simp: successes_def failures_def)
  moreover have "standing t h \<noteq> standing t (b # h) \<longleftrightarrow> runLength (b # h) = t" if "t \<le> runLength (b # h)"
    using that c [of h] c [of "b # h"] assms by (cases b) (auto simp: successes_def failures_def runLength_Cons split: if_splits)
  ultimately show ?thesis by blast
qed

section \<open>One result\<close>

definition is_status :: "event \<Rightarrow> bool" where
  "is_status e \<longleftrightarrow> ev_action e = ''monitor.status_changed''"

text \<open>What reconciliation leaves of a row and of the log.\<close>

definition steady :: "depAssetRow \<Rightarrow> depAssetRow \<Rightarrow> bool" where
  "steady a b \<longleftrightarrow> dr_id b = dr_id a \<and> dr_hostname b = dr_hostname a \<and> dr_assetType b = dr_assetType a \<and>
     dr_discoveredByIntegrationId b = dr_discoveredByIntegrationId a \<and> dr_monitored b = dr_monitored a \<and> dr_monitorStatus b = dr_monitorStatus a"

lemma reconcile_steady:
  "\<exists>f evs. dw_assets (snd (reconcileDependencySuppression now w)) = map f (dw_assets w) \<and> (\<forall>a. steady a (f a)) \<and>
     dw_events (snd (reconcileDependencySuppression now w)) = dw_events w @ evs \<and> filter is_status evs = []"
proof -
  define g where "g = (\<lambda>a. if test_over now a then end_test a else a)"
  define w1 where "w1 = expireTests now w"
  define h where "h = (\<lambda>a. if dr_id a \<in> dr_id ` set (transitions now w1) then setSuppressed now (desired now w1 (dr_id a)) a else a)"
  have g: "steady a (g a)" for a by (simp add: g_def steady_def end_test_def)
  have h: "steady a (h (g a))" for a using g [of a] by (auto simp: h_def steady_def setSuppressed_def)
  have w1: "dw_assets w1 = map g (dw_assets w)" "\<exists>evs. dw_events w1 = dw_events w @ evs \<and> filter is_status evs = []"
    by (auto simp: w1_def expireTests_def g_def is_status_def depEvent_def filter_empty_conv)
  have run: "snd (reconcileDependencySuppression now w) =
    (if dw_assets w1 = [] \<or> transitions now w1 = [] then w1
     else w1\<lparr>dw_assets := map h (dw_assets w1), dw_events := dw_events w1 @
       map (\<lambda>a. depEvent (if desired now w1 (dr_id a) then ''monitor.dependency_suppressed'' else ''monitor.dependency_resumed'')
         (dr_id a) (dr_hostname a) None) (filter dr_monitored (transitions now w1))\<rparr>)"
    by (simp add: reconcileDependencySuppression_def Let_def h_def flip: w1_def)
  show ?thesis
  proof (cases "dw_assets w1 = [] \<or> transitions now w1 = []")
    case True
    then show ?thesis using run w1 g by auto
  next
    case False
    obtain evs where evs: "dw_events w1 = dw_events w @ evs" "filter is_status evs = []" using w1(2) by blast
    let ?more = "map (\<lambda>a. depEvent (if desired now w1 (dr_id a) then ''monitor.dependency_suppressed'' else ''monitor.dependency_resumed'')
         (dr_id a) (dr_hostname a) None) (filter dr_monitored (transitions now w1))"
    have "filter is_status ?more = []" by (auto simp: filter_empty_conv is_status_def depEvent_def)
    then show ?thesis using run False w1(1) evs h by (intro exI [of _ "h \<circ> g"] exI [of _ "evs @ ?more"]) simp
  qed
qed

lemma find_steady: "\<forall>a. steady a (f a) \<Longrightarrow> find (\<lambda>a. dr_id a = i) (map f xs) = map_option f (find (\<lambda>a. dr_id a = i) xs)"
  by (induction xs) (auto simp: steady_def)

lemma reconcile_find:
  assumes "findAsset i w = Some a"
  shows "\<exists>a'. findAsset i (snd (reconcileDependencySuppression now w)) = Some a' \<and> steady a a'"
proof -
  obtain f where "dw_assets (snd (reconcileDependencySuppression now w)) = map f (dw_assets w)" "\<forall>a. steady a (f a)"
    using reconcile_steady [of now w] by blast
  then show ?thesis using assms find_steady [of f i "dw_assets w"] by (simp add: findAsset_def)
qed

text \<open>The dependency world and the columns after the write and the announcement.\<close>

definition probed :: "string \<Rightarrow> string \<Rightarrow> depWorld \<Rightarrow> depWorld" where
  "probed i status d = d\<lparr>dw_assets := map (\<lambda>a. if dr_id a = i then a\<lparr>dr_monitorStatus := Some status\<rparr> else a) (dw_assets d)\<rparr>"

definition announced :: "string \<Rightarrow> string option \<Rightarrow> string \<Rightarrow> depWorld \<Rightarrow> depWorld" where
  "announced i hostname status d = d\<lparr>dw_events := dw_events d @ [statusEvent i hostname status]\<rparr>"

definition previous :: "snapshot \<Rightarrow> string" where
  "previous a = keep (dr_monitorStatus (sp_row a)) ''unknown''"

definition nextOf :: "probeResult \<Rightarrow> snapshot \<Rightarrow> int \<Rightarrow> string" where
  "nextOf r a threshold = nextStatus (previous a) (pr_success r) (newFailures r (sp_cols a)) (newSuccesses r (sp_cols a)) threshold"

definition announces :: "probeResult \<Rightarrow> snapshot \<Rightarrow> int \<Rightarrow> bool" where
  "announces r a threshold \<longleftrightarrow> previous a \<noteq> nextOf r a threshold \<and> nextOf r a threshold \<in> {''up'', ''down''}"

definition leaves :: "string \<Rightarrow> probeResult \<Rightarrow> snapshot \<Rightarrow> int \<Rightarrow> hook list" where
  "leaves i r a threshold =
     (if announces r a threshold then [Propagate i] @ (if nextOf r a threshold = ''up'' then [RetryQueued i] else []) else [])"

lemma applyResult_dep:
  assumes "findAsset i (my_dep y) \<noteq> None"
  shows "\<exists>y'. applyResult i r a threshold now y = (Inr (), y') \<and> my_settings y' = my_settings y \<and>
    my_samples y' = my_samples y @ [sampleOf i now r] \<and> my_hooks y' = my_hooks y @ leaves i r a threshold \<and>
    my_dep y' = (if announces r a threshold then announced i (dr_hostname (sp_row a)) (nextOf r a threshold) (probed i (nextOf r a threshold) (my_dep y))
                 else probed i (nextOf r a threshold) (my_dep y)) \<and>
    (\<forall>j. j \<noteq> i \<longrightarrow> my_cols y' j = my_cols y j) \<and>
    mc_consecutiveFailures (my_cols y' i) = newFailures r (sp_cols a) \<and> mc_consecutiveSuccesses (my_cols y' i) = newSuccesses r (sp_cols a) \<and>
    mc_num (my_cols y' i) = mc_num (my_cols y i) \<and> mc_polling (my_cols y' i) = mc_polling (my_cols y i) \<and> mc_mib (my_cols y' i) = mc_mib (my_cols y i)"
proof (cases "announces r a threshold")
  case True
  then have "previous a \<noteq> nextOf r a threshold \<and> (nextOf r a threshold = ''up'' \<or> nextOf r a threshold = ''down'')" by (simp add: announces_def)
  then show ?thesis using assms True
    by (simp add: applyResult_def Let_def enqueueMonitorSample_def updateMonitorColumns_def bindIO_def announce_def depStep_def
        leaves_def probed_def announced_def flip: previous_def nextOf_def)
next
  case False
  then have "\<not> (previous a \<noteq> nextOf r a threshold \<and> (nextOf r a threshold = ''up'' \<or> nextOf r a threshold = ''down''))" by (simp add: announces_def)
  then show ?thesis using assms False
    by (simp add: applyResult_def Let_def enqueueMonitorSample_def updateMonitorColumns_def bindIO_def probed_def leaves_def flip: previous_def nextOf_def) auto
qed

lemma find_probed: "findAsset i (probed i status d) = map_option (\<lambda>a. a\<lparr>dr_monitorStatus := Some status\<rparr>) (findAsset i d)"
  using find_map_key [of dr_id "\<lambda>a. a\<lparr>dr_monitorStatus := Some status\<rparr>" i "dw_assets d"] by (simp add: findAsset_def probed_def)

lemma announced_events:
  "filter is_status (dw_events (announced i hostname status d)) = filter is_status (dw_events d) @ [statusEvent i hostname status]"
  by (simp add: announced_def is_status_def statusEvent_def)

lemma announced_find: "findAsset i (announced i hostname status d) = findAsset i d"
  by (simp add: announced_def findAsset_def)

text \<open>
  A result recorded for an asset, with the row its probe loaded. The asset stays the same but for its status and
  its counters, and the settings resolve as before.
\<close>

definition recorded :: "string \<Rightarrow> 'd monSys \<Rightarrow> probeResult \<times> int \<Rightarrow> 'd monSys" where
  "recorded i y p = snd (recordProbeResult i (fst p) (loadAsset i y) False (snd p) y)"

definition settingsOf :: "snapshot \<Rightarrow> 'd monSys \<Rightarrow> tierSettings" where
  "settingsOf a y = fst (resolveMonitorSettings (contextOf a None) (my_settings y))"

lemma recorded_step:
  assumes "loadAsset i y = Some a" "ts_polling (settingsOf a y) ResponseTime \<noteq> Some Agent" "plain (classPair (contextOf a None))"
  shows "\<exists>a'. loadAsset i (recorded i y (r, now)) = Some a' \<and> contextOf a' None = contextOf a None \<and> dr_hostname (sp_row a') = dr_hostname (sp_row a) \<and>
      dr_monitorStatus (sp_row a') = Some (nextOf r a (ts_num (settingsOf a y) FailureThreshold)) \<and>
      mc_consecutiveFailures (sp_cols a') = newFailures r (sp_cols a) \<and> mc_consecutiveSuccesses (sp_cols a') = newSuccesses r (sp_cols a) \<and>
      settingsOf a' (recorded i y (r, now)) = settingsOf a y \<and>
      filter is_status (dw_events (my_dep (recorded i y (r, now)))) = filter is_status (dw_events (my_dep y)) @
        (if announces r a (ts_num (settingsOf a y) FailureThreshold)
         then [statusEvent i (dr_hostname (sp_row a)) (nextOf r a (ts_num (settingsOf a y) FailureThreshold))] else []) \<and>
      dr_monitored (sp_row a') = dr_monitored (sp_row a) \<and>
      my_settings (recorded i y (r, now)) = snd (resolveMonitorSettings (contextOf a None) (my_settings y)) \<and>
      my_hooks (recorded i y (r, now)) = my_hooks y @ leaves i r a (ts_num (settingsOf a y) FailureThreshold)"
proof -
  let ?ctx = "contextOf a None" and ?th = "ts_num (settingsOf a y) FailureThreshold"
  let ?s = "snd (resolveMonitorSettings ?ctx (my_settings y))"
  let ?y1 = "y\<lparr>my_settings := ?s\<rparr>" and ?st = "nextOf r a ?th"
  obtain row where row: "findAsset i (my_dep y) = Some row" "a = \<lparr>sp_row = row, sp_cols = my_cols y i\<rparr>" using assms(1) by (auto simp: loadAsset_def)
  have "findAsset i (my_dep ?y1) \<noteq> None" using row(1) by simp
  from applyResult_dep [OF this, of r a ?th now] obtain y' where
    run: "applyResult i r a ?th now ?y1 = (Inr (), y')" and set: "my_settings y' = ?s" and left: "my_hooks y' = my_hooks y @ leaves i r a ?th"
    and dep: "my_dep y' = (if announces r a ?th then announced i (dr_hostname (sp_row a)) ?st (probed i ?st (my_dep y)) else probed i ?st (my_dep y))"
    and cols: "mc_consecutiveFailures (my_cols y' i) = newFailures r (sp_cols a)" "mc_consecutiveSuccesses (my_cols y' i) = newSuccesses r (sp_cols a)"
      "mc_num (my_cols y' i) = mc_num (my_cols y i)" "mc_polling (my_cols y' i) = mc_polling (my_cols y i)" "mc_mib (my_cols y' i) = mc_mib (my_cols y i)"
    by auto
  have obs: "recorded i y (r, now) = y'"
    using assms(1,2) run by (simp add: recorded_def recordProbeResult_def resolveFor_def settingsOf_def split_def Let_def)
  have "\<exists>row'. findAsset i (my_dep y') = Some row' \<and> steady (row\<lparr>dr_monitorStatus := Some ?st\<rparr>) row'"
    using row(1) by (simp add: dep announced_find find_probed steady_def)
  then obtain row' where row': "findAsset i (my_dep y') = Some row'" "steady (row\<lparr>dr_monitorStatus := Some ?st\<rparr>) row'" by blast
  define a' where "a' = \<lparr>sp_row = row', sp_cols = my_cols y' i\<rparr>"
  have load: "loadAsset i y' = Some a'" using row'(1) by (simp add: loadAsset_def a'_def)
  have ctx: "contextOf a' None = ?ctx" using row'(2) cols row(2) by (simp add: contextOf_def a'_def steady_def)
  have same: "settingsOf a' y' = settingsOf a y" unfolding settingsOf_def ctx set using resolve_again [OF assms(3)] by simp
  have ev: "filter is_status (dw_events (my_dep y')) = filter is_status (dw_events (my_dep y)) @
     (if announces r a ?th then [statusEvent i (dr_hostname (sp_row a)) ?st] else [])"
    by (simp add: dep announced_events) (simp add: probed_def)
  show ?thesis unfolding obs
    by (rule exI [of _ a'], intro conjI load ctx same ev set left) (use row'(2) row(2) cols in \<open>simp_all add: a'_def steady_def\<close>)
qed

section \<open>A history of results\<close>

definition fresh :: "snapshot \<Rightarrow> bool" where
  "fresh a \<longleftrightarrow> previous a = ''unknown'' \<and> mc_consecutiveFailures (sp_cols a) = 0 \<and> mc_consecutiveSuccesses (sp_cols a) = 0"

text \<open>A result of the asset arrives, or a hook some transition left behind settles.\<close>

datatype probeEvent = Probed probeResult int | Settles nat bool int

definition observe :: "netmask_lib \<Rightarrow> 'd fortinet \<Rightarrow> string \<Rightarrow> 'd monSys \<Rightarrow> probeEvent \<Rightarrow> 'd monSys" where
  "observe N D i y e =
     (case e of Probed r now \<Rightarrow> recorded i y (r, now) | Settles k ok now \<Rightarrow> settleHook N D k ok now y)"

lemma observe_simps: "observe N D i y (Probed r now) = recorded i y (r, now)" "observe N D i y (Settles k ok now) = settleHook N D k ok now y"
  by (simp_all add: observe_def)

definition history :: "probeEvent list \<Rightarrow> bool list" where
  "history obs = rev (List.map_filter (\<lambda>e. case e of Probed r now \<Rightarrow> Some (pr_success r) | Settles k ok now \<Rightarrow> None) obs)"

lemma history_snoc: "history (obs @ [Probed r now]) = pr_success r # history obs" "history (obs @ [Settles k ok now]) = history obs"
  by (simp_all add: history_def List.map_filter_def)

lemma settle_hook:
  assumes "loadAsset i y = Some a"
  shows "\<exists>a'. loadAsset i (settleHook N D k ok now y) = Some a' \<and> steady (sp_row a) (sp_row a') \<and> sp_cols a' = sp_cols a \<and>
    my_settings (settleHook N D k ok now y) = my_settings y \<and>
    filter is_status (dw_events (my_dep (settleHook N D k ok now y))) = filter is_status (dw_events (my_dep y))"
proof -
  have same: "steady (sp_row a) (sp_row a)" by (simp add: steady_def)
  obtain row where row: "findAsset i (my_dep y) = Some row" "a = \<lparr>sp_row = row, sp_cols = my_cols y i\<rparr>" using assms by (auto simp: loadAsset_def)
  have "\<exists>a'. loadAsset i (runHook N D now h (y\<lparr>my_hooks := hs\<rparr>)) = Some a' \<and> steady (sp_row a) (sp_row a') \<and> sp_cols a' = sp_cols a \<and>
      my_settings (runHook N D now h (y\<lparr>my_hooks := hs\<rparr>)) = my_settings y \<and>
      filter is_status (dw_events (my_dep (runHook N D now h (y\<lparr>my_hooks := hs\<rparr>)))) = filter is_status (dw_events (my_dep y))" for h hs
  proof (cases h)
    case (Propagate j)
    obtain row' where "findAsset i (snd (reconcileDependencySuppression now (my_dep y))) = Some row'" "steady row row'"
      using reconcile_find [OF row(1)] by blast
    moreover obtain evs where "dw_events (snd (reconcileDependencySuppression now (my_dep y))) = dw_events (my_dep y) @ evs" "filter is_status evs = []"
      using reconcile_steady [of now "my_dep y"] by blast
    ultimately show ?thesis using Propagate row(2) by (simp add: runHook_def depStep_def propagateAfterStatusChange_def loadAsset_def)
  next
    case (RetryQueued j)
    then show ?thesis using row same by (simp add: runHook_def coreStep_def loadAsset_def)
  qed
  moreover have "loadAsset i (y\<lparr>my_hooks := hs\<rparr>) = Some a" for hs using assms by (simp add: loadAsset_def)
  ultimately show ?thesis using assms same unfolding settleHook_def Let_def by (cases "k < length (my_hooks y)"; cases ok) simp_all
qed

lemma steady_same:
  assumes "steady (sp_row a) (sp_row b)" "sp_cols b = sp_cols a"
  shows "contextOf b t = contextOf a t" "dr_hostname (sp_row b) = dr_hostname (sp_row a)" "previous b = previous a"
  using assms by (simp_all add: steady_def contextOf_def previous_def)

definition confirmations :: "snapshot \<Rightarrow> 'd monSys \<Rightarrow> nat" where
  "confirmations a y = nat (max 1 (ts_num (settingsOf a y) FailureThreshold))"

text \<open>The machine is somewhere in a history, counting its confirmations.\<close>

definition tracks :: "nat \<Rightarrow> bool list \<Rightarrow> snapshot \<Rightarrow> bool" where
  "tracks t h a \<longleftrightarrow> previous a = standing t h \<and> mc_consecutiveFailures (sp_cols a) = failures h \<and> mc_consecutiveSuccesses (sp_cols a) = successes h"

lemma tracks_next: "tracks t h a \<Longrightarrow> t = nat (max 1 th) \<Longrightarrow> nextOf r a th = standing t (pr_success r # h)"
  using nextStatus_standing [of t th h "pr_success r"]
  by (cases "pr_success r") (simp_all add: tracks_def nextOf_def newFailures_def newSuccesses_def counters_step)

lemma observed_history:
  assumes "loadAsset i y = Some a" "fresh a" "ts_polling (settingsOf a y) ResponseTime \<noteq> Some Agent" "plain (classPair (contextOf a None))"
  shows "\<exists>a'. loadAsset i (foldl (observe N D i) y obs) = Some a' \<and> contextOf a' None = contextOf a None \<and> dr_hostname (sp_row a') = dr_hostname (sp_row a) \<and>
      settingsOf a' (foldl (observe N D i) y obs) = settingsOf a y \<and> tracks (confirmations a y) (history obs) a' \<and>
      filter is_status (dw_events (my_dep (foldl (observe N D i) y obs))) = filter is_status (dw_events (my_dep y)) @
        map (\<lambda>b. statusEvent i (dr_hostname (sp_row a)) (if b then ''up'' else ''down'')) (alerts (confirmations a y) (history obs))"
proof (induction obs rule: rev_induct)
  case Nil
  then show ?case using assms(1,2) by (simp add: fresh_def tracks_def history_def standing_def failures_def successes_def)
next
  case (snoc p obs)
  let ?y = "foldl (observe N D i) y obs" and ?t = "confirmations a y" and ?h = "history obs"
  obtain a1 where a1: "loadAsset i ?y = Some a1" "contextOf a1 None = contextOf a None" "dr_hostname (sp_row a1) = dr_hostname (sp_row a)"
    "settingsOf a1 ?y = settingsOf a y" and tr: "tracks ?t ?h a1"
    and ev: "filter is_status (dw_events (my_dep ?y)) = filter is_status (dw_events (my_dep y)) @
        map (\<lambda>b. statusEvent i (dr_hostname (sp_row a)) (if b then ''up'' else ''down'')) (alerts ?t ?h)"
    using snoc by blast
  let ?th = "ts_num (settingsOf a y) FailureThreshold"
  show ?case
  proof (cases p)
    case (Settles k ok now)
    obtain b where b: "loadAsset i (observe N D i ?y p) = Some b" "steady (sp_row a1) (sp_row b)" "sp_cols b = sp_cols a1"
      "my_settings (observe N D i ?y p) = my_settings ?y"
      "filter is_status (dw_events (my_dep (observe N D i ?y p))) = filter is_status (dw_events (my_dep ?y))"
      using settle_hook [OF a1(1), of N D k ok now] by (auto simp: Settles observe_simps)
    note same = steady_same [OF b(2,3)]
    have "settingsOf b (observe N D i ?y p) = settingsOf a1 ?y" "tracks ?t ?h b" using same b(3,4) tr by (simp_all add: settingsOf_def tracks_def)
    then show ?thesis using b(1,5) same a1 ev by (simp add: Settles history_snoc)
  next
    case p: (Probed r now)
    have pol: "ts_polling (settingsOf a1 ?y) ResponseTime \<noteq> Some Agent" and pl: "plain (classPair (contextOf a1 None))" using a1 assms(3,4) by simp_all
    obtain a2 where a2: "loadAsset i (recorded i ?y (r, now)) = Some a2" "contextOf a2 None = contextOf a1 None"
      "dr_hostname (sp_row a2) = dr_hostname (sp_row a1)" "settingsOf a2 (recorded i ?y (r, now)) = settingsOf a1 ?y"
      and st: "dr_monitorStatus (sp_row a2) = Some (nextOf r a1 ?th)"
        "mc_consecutiveFailures (sp_cols a2) = newFailures r (sp_cols a1)" "mc_consecutiveSuccesses (sp_cols a2) = newSuccesses r (sp_cols a1)"
      and ev2: "filter is_status (dw_events (my_dep (recorded i ?y (r, now)))) = filter is_status (dw_events (my_dep ?y)) @
          (if announces r a1 ?th then [statusEvent i (dr_hostname (sp_row a1)) (nextOf r a1 ?th)] else [])"
      using recorded_step [OF a1(1) pol pl, of r now] a1(4) by auto
    let ?h' = "pr_success r # ?h"
    have nxt: "nextOf r a1 ?th = standing ?t ?h'" by (rule tracks_next [OF tr]) (simp add: confirmations_def)
    have t0: "0 < ?t" by (simp add: confirmations_def)
    have "tracks ?t ?h' a2" using tr st nxt by (simp add: tracks_def previous_def newFailures_def newSuccesses_def counters_step)
    moreover have al: "announces r a1 ?th \<longleftrightarrow> runLength ?h' = ?t"
      using alert_when_confirmed [OF t0, of ?h "pr_success r"] tr unfolding announces_def nxt tracks_def by simp
    moreover have "standing ?t ?h' = (if pr_success r then ''up'' else ''down'')" if "runLength ?h' = ?t" using that by (simp add: standing_def)
    moreover have "history (obs @ [p]) = ?h'" by (simp add: history_snoc p)
    ultimately show ?thesis using a2 a1 ev ev2 nxt by (intro exI [of _ a2]) (auto simp: p observe_simps)
  qed
qed

text \<open>
  C3. The status kept for a monitored asset is a function of the history of its probe results. With the failure
  threshold \<open>t\<close>, \<open>t\<close> successes in a row make it \<^verbatim>\<open>up\<close> and \<open>t\<close> failures in a row make it \<^verbatim>\<open>down\<close>, whatever came before;
  in between it is \<^verbatim>\<open>warning\<close> or \<^verbatim>\<open>recovering\<close> by what was confirmed last; and the two counters are the lengths of
  the current run of failures or successes. The hooks earlier transitions left behind may settle anywhere in between.
\<close>

theorem status_tracks_history:
  assumes "loadAsset i y = Some a" "fresh a" "ts_polling (settingsOf a y) ResponseTime \<noteq> Some Agent" "plain (classPair (contextOf a None))"
  shows "\<exists>a'. loadAsset i (foldl (observe N D i) y obs) = Some a' \<and>
      keep (dr_monitorStatus (sp_row a')) ''unknown'' = standing (confirmations a y) (history obs) \<and>
      mc_consecutiveFailures (sp_cols a') = failures (history obs) \<and> mc_consecutiveSuccesses (sp_cols a') = successes (history obs)"
  using observed_history [OF assms, of N D obs] by (auto simp: tracks_def previous_def)

text \<open>
  One \<^verbatim>\<open>monitor.status_changed\<close> event is written exactly when a run of equal results reaches the threshold: no
  event while the results flap below it, none while a confirmed status lasts.
\<close>

theorem alert_iff_confirmed:
  assumes "loadAsset i y = Some a" "fresh a" "ts_polling (settingsOf a y) ResponseTime \<noteq> Some Agent" "plain (classPair (contextOf a None))"
  shows "filter is_status (dw_events (my_dep (foldl (observe N D i) y obs))) = filter is_status (dw_events (my_dep y)) @
     map (\<lambda>b. statusEvent i (dr_hostname (sp_row a)) (if b then ''up'' else ''down'')) (alerts (confirmations a y) (history obs))"
  using observed_history [OF assms, of N D obs] by blast

section \<open>An outage reaches the dependants\<close>

lemma reconcile_settled:
  assumes "distinct (map dr_id (dw_assets w))"
  shows "\<forall>b \<in> set (dw_assets (snd (reconcileDependencySuppression now w))).
    dr_dependencySuppressed b = desired now (snd (reconcileDependencySuppression now w)) (dr_id b)"
proof -
  let ?w = "snd (reconcileDependencySuppression now w)"
  note st = reconcile_state [OF assms surjective_pairing]
  have "desired now ?w = desired now (expireTests now w)" using st(1,2) by (simp add: desired_def fun_eq_iff)
  then show ?thesis using st(3) by simp
qed

text \<open>
  A confirmed transition leaves a propagation hook behind, and when such a hook runs, on whatever state it finds, every asset is
  suppressed exactly if the evaluation of the dependency tree then says so.
\<close>

theorem confirmed_leaves_hook:
  assumes "loadAsset i y = Some a" "ts_polling (settingsOf a y) ResponseTime \<noteq> Some Agent" "plain (classPair (contextOf a None))"
    and "announces r a (ts_num (settingsOf a y) FailureThreshold)"
  shows "Propagate i \<in> set (my_hooks (recorded i y (r, now)))"
  using recorded_step [OF assms(1-3), of r now] assms(4) by (auto simp: leaves_def)

theorem propagation_settles:
  assumes "distinct (map dr_id (dw_assets (my_dep z)))" "k < length (my_hooks z)" "my_hooks z ! k = Propagate j"
  shows "\<forall>b \<in> set (dw_assets (my_dep (settleHook N D k True later z))).
    dr_dependencySuppressed b = desired later (my_dep (settleHook N D k True later z)) (dr_id b)"
  using reconcile_settled [OF assms(1), of later] assms(2,3)
  by (simp add: settleHook_def runHook_def Let_def depStep_def propagateAfterStatusChange_def)

section \<open>Agents\<close>

lemma selected_row [simp]: "sp_row (selected a) = sp_row a"
  by (simp add: selected_def)

lemma classPair_context [simp]:
  "classPair (contextOf a t) = (dr_discoveredByIntegrationId (sp_row a), dr_assetType (sp_row a))"
  by (simp add: classPair_def contextOf_def)

definition pairOf :: "snapshot \<Rightarrow> string option \<times> string" where
  "pairOf a = (dr_discoveredByIntegrationId (sp_row a), dr_assetType (sp_row a))"

lemma resolve_tables:
  assumes "coherent s" "plain (classPair asset)" "sameTables s0 s"
  shows "fst (resolveMonitorSettings asset s) = effectiveSettings asset s0" "coherent (snd (resolveMonitorSettings asset s))"
    "sameTables s0 (snd (resolveMonitorSettings asset s))"
proof -
  have "effectiveSettings asset s = effectiveSettings asset s0"
    using assms(3) tierOf_cong [of s s0] classOf_cong [of s s0] by (simp add: effectiveSettings_def sameTables_def)
  then show "fst (resolveMonitorSettings asset s) = effectiveSettings asset s0" "coherent (snd (resolveMonitorSettings asset s))"
    "sameTables s0 (snd (resolveMonitorSettings asset s))"
    using resolve_coherent [OF assms(1,2)] assms(3) by (auto simp: sameTables_def)
qed

lemma sameTables_refl [simp]: "sameTables s s"
  by (simp add: sameTables_def)

text \<open>The settings as the probe sees them, and as the state machine sees them.\<close>

definition probeSettings :: "snapshot \<Rightarrow> 'd monSys \<Rightarrow> tierSettings" where
  "probeSettings a y = effectiveSettings (contextOf a (map_option si_type (discoveredBy a y))) (my_settings y)"

lemma probeAsset_run:
  assumes "loadAsset i y = Some a" "dr_monitored (sp_row a)" "coherent (my_settings y)" "plain (pairOf a)"
  shows "\<exists>s. probeAsset probes ms i y = ((executePlan probes ms (planProbe a (discoveredBy a y) (probeSettings a y) s), Some a), y\<lparr>my_settings := s\<rparr>) \<and>
    coherent s \<and> sameTables (my_settings y) s"
proof -
  have "plain (classPair (contextOf a (map_option si_type (discoveredBy a y))))" using assms(4) by (simp add: pairOf_def)
  note r = resolve_tables [OF assms(3) this sameTables_refl]
  show ?thesis
    by (rule exI [of _ "snd (resolveMonitorSettings (contextOf a (map_option si_type (discoveredBy a y))) (my_settings y))"])
      (use assms(1,2) r in \<open>simp add: probeAsset_def resolveFor_def probeSettings_def Let_def split_def\<close>)
qed

text \<open>
  The refresh of a single asset that its agent reports for records a success although nothing was probed: the
  query of the state machine does not select the polling method of the asset, so the guard that should drop the
  result of the agent's placeholder probe does not see it.
\<close>

theorem probe_now_fakes_success:
  assumes "loadAsset i y = Some a" "dr_monitored (sp_row a)" "coherent (my_settings y)" "plain (pairOf a)"
    and "ts_polling (probeSettings a y) ResponseTime = Some Agent"
    and "ts_polling (effectiveSettings (contextOf (selected a) None) (my_settings y)) ResponseTime \<noteq> Some Agent"
  shows "\<exists>y'. probeNow probes ms i now y = (Inr (finish ms True None), y') \<and>
    my_samples y' = my_samples y @ [sampleOf i now (finish ms True None)]"
proof -
  obtain s where s: "probeAsset probes ms i y = ((executePlan probes ms (planProbe a (discoveredBy a y) (probeSettings a y) s), Some a), y\<lparr>my_settings := s\<rparr>)"
    "coherent s" "sameTables (my_settings y) s" using probeAsset_run [OF assms(1-4)] by blast
  have plan: "executePlan probes ms (planProbe a (discoveredBy a y) (probeSettings a y) s) = finish ms True None"
    using assms(5) by (simp add: planProbe_def executePlan_def)
  let ?y1 = "y\<lparr>my_settings := s\<rparr>" and ?ctx = "contextOf (selected a) None"
  have "plain (classPair ?ctx)" using assms(4) by (simp add: pairOf_def)
  note r = resolve_tables [OF s(2) this s(3)]
  let ?y2 = "?y1\<lparr>my_settings := snd (resolveMonitorSettings ?ctx s)\<rparr>" and ?th = "ts_num (fst (resolveMonitorSettings ?ctx s)) FailureThreshold"
  have load: "loadAsset i ?y1 = Some a" using assms(1) by (simp add: loadAsset_def)
  have "findAsset i (my_dep ?y2) \<noteq> None" using assms(1) by (auto simp: loadAsset_def)
  from applyResult_dep [OF this, of "finish ms True None" "selected a" ?th now] obtain y' where
    "applyResult i (finish ms True None) (selected a) ?th now ?y2 = (Inr (), y')" "my_samples y' = my_samples y @ [sampleOf i now (finish ms True None)]"
    by auto
  moreover have "recordProbeResult i (finish ms True None) None False now ?y1 = applyResult i (finish ms True None) (selected a) ?th now ?y2"
    using assms(6) r(1) load by (simp add: recordProbeResult_def resolveFor_def split_def Let_def)
  ultimately show ?thesis using s(1) plan by (simp add: probeNow_def bindIO_def)
qed

lemma record_keeps_row:
  assumes "findAsset i (my_dep y) \<noteq> None"
  shows "\<exists>y'. recordProbeResult i r None True now y = (Inr (), y') \<and> my_samples y' = my_samples y @ [sampleOf i now r] \<and> findAsset i (my_dep y') \<noteq> None"
proof -
  obtain a where a: "loadAsset i y = Some a" using assms by (auto simp: loadAsset_def)
  let ?e = "resolveMonitorSettings (contextOf (selected a) None) (my_settings y)"
  let ?y1 = "y\<lparr>my_settings := snd ?e\<rparr>" and ?th = "ts_num (fst ?e) FailureThreshold" and ?a = "selected a"
  have found: "findAsset i (my_dep ?y1) \<noteq> None" using assms by simp
  from applyResult_dep [OF found, of r ?a ?th now] obtain y' where
    run: "applyResult i r ?a ?th now ?y1 = (Inr (), y')" "my_samples y' = my_samples y @ [sampleOf i now r]"
    and dep: "my_dep y' = (if announces r ?a ?th then announced i (dr_hostname (sp_row ?a)) (nextOf r ?a ?th) (probed i (nextOf r ?a ?th) (my_dep y))
      else probed i (nextOf r ?a ?th) (my_dep y))" by auto
  obtain row where row: "findAsset i (probed i (nextOf r ?a ?th) (my_dep y)) = Some row" using assms by (auto simp: find_probed)
  then have "findAsset i (my_dep y') \<noteq> None"
    using announced_find dep by (cases "announces r ?a ?th") auto
  moreover have "recordProbeResult i r None True now y = (Inr (), y')" using a run(1) by (simp add: recordProbeResult_def resolveFor_def split_def Let_def)
  ultimately show ?thesis using run(2) by blast
qed

text \<open>
  Every response-time sample an agent posts is accepted, and stored twice: once by the route, and again by the
  state machine it feeds.
\<close>

theorem agent_samples_stored_twice:
  assumes "findAsset i (my_dep y) \<noteq> None"
  shows "\<exists>y'. postAgentSamples i gs now y = (Inr (length gs), y') \<and> length (my_samples y') = length (my_samples y) + 2 * length gs"
  using assms
proof (induction gs arbitrary: y)
  case (Cons g gs)
  let ?y = "enqueueMonitorSample (agentRow i now g) y"
  have "findAsset i (my_dep ?y) \<noteq> None" using Cons.prems by (simp add: enqueueMonitorSample_def)
  from record_keeps_row [OF this, of "agentResult g" now] obtain y1 where
    y1: "recordProbeResult i (agentResult g) None True now ?y = (Inr (), y1)" "my_samples y1 = my_samples ?y @ [sampleOf i now (agentResult g)]"
    "findAsset i (my_dep y1) \<noteq> None" by blast
  from Cons.IH [OF y1(3)] obtain y2 where
    "postAgentSamples i gs now y1 = (Inr (length gs), y2)" "length (my_samples y2) = length (my_samples y1) + 2 * length gs" by blast
  then show ?case using y1(1,2) by (simp add: bindIO_def enqueueMonitorSample_def)
qed simp

section \<open>Disabled probes\<close>

fun probeRuns ::
  "(probeCall \<Rightarrow> int \<Rightarrow> probeResult result) \<Rightarrow> int \<Rightarrow> string \<Rightarrow> int list \<Rightarrow> 'd monSys \<Rightarrow> 'd monSys" where
  "probeRuns probes ms i [] y = y"
| "probeRuns probes ms i (now # nows) y = probeRuns probes ms i nows (snd (runProbeFor probes ms i now y))"

definition off :: "string \<Rightarrow> snapshot \<Rightarrow> 'd monSys \<Rightarrow> bool" where
  "off i a y \<longleftrightarrow> loadAsset i y = Some a \<and> dr_monitored (sp_row a) \<and> coherent (my_settings y) \<and> plain (pairOf a) \<and>
     ts_polling (probeSettings a y) ResponseTime = Some Disabled \<and>
     ts_polling (effectiveSettings (contextOf a None) (my_settings y)) ResponseTime \<noteq> Some Agent"

lemma off_step:
  assumes "off i a y"
  shows "\<exists>a'. off i a' (snd (runProbeFor probes ms i now y)) \<and>
    ts_num (effectiveSettings (contextOf a' None) (my_settings (snd (runProbeFor probes ms i now y)))) FailureThreshold =
      ts_num (effectiveSettings (contextOf a None) (my_settings y)) FailureThreshold \<and>
    mc_consecutiveFailures (sp_cols a') = mc_consecutiveFailures (sp_cols a) + 1 \<and>
    (ts_num (effectiveSettings (contextOf a None) (my_settings y)) FailureThreshold \<le> int (mc_consecutiveFailures (sp_cols a')) \<longrightarrow>
       dr_monitorStatus (sp_row a') = Some ''down'')"
proof -
  let ?ctx = "contextOf a None"
  note o = assms [unfolded off_def]
  obtain s where s: "probeAsset probes ms i y = ((executePlan probes ms (planProbe a (discoveredBy a y) (probeSettings a y) s), Some a), y\<lparr>my_settings := s\<rparr>)"
    "coherent s" "sameTables (my_settings y) s" using probeAsset_run [of i y a probes ms] o by blast
  define r where "r = executePlan probes ms (planProbe a (discoveredBy a y) (probeSettings a y) s)"
  have fail: "\<not> pr_success r" using o by (simp add: r_def planProbe_def planTarget_def executePlan_def finish_def Let_def)
  let ?y1 = "y\<lparr>my_settings := s\<rparr>"
  let ?y2 = "recorded i ?y1 (r, now)"
  have load: "loadAsset i ?y1 = Some a" using o by (simp add: loadAsset_def)
  have pl: "plain (classPair ?ctx)" using o by (simp add: pairOf_def)
  note res = resolve_tables [OF s(2) pl s(3)]
  have th: "settingsOf a ?y1 = effectiveSettings ?ctx (my_settings y)" using res(1) by (simp add: settingsOf_def)
  obtain a' where a': "loadAsset i ?y2 = Some a'" "contextOf a' None = ?ctx"
    "dr_monitorStatus (sp_row a') = Some (nextOf r a (ts_num (settingsOf a ?y1) FailureThreshold))"
    "mc_consecutiveFailures (sp_cols a') = newFailures r (sp_cols a)" "dr_monitored (sp_row a') = dr_monitored (sp_row a)"
    "my_settings ?y2 = snd (resolveMonitorSettings ?ctx s)"
    using recorded_step [OF load _ pl, of r now] th o by auto
  have row: "dr_discoveredByIntegrationId (sp_row a') = dr_discoveredByIntegrationId (sp_row a)" "dr_assetType (sp_row a') = dr_assetType (sp_row a)"
    using a'(2) by (simp_all add: contextOf_def)
  have tables: "sameTables (my_settings y) (my_settings ?y2)" "coherent (my_settings ?y2)" using a'(6) res(2,3) by simp_all
  have eff: "effectiveSettings ctx (my_settings ?y2) = effectiveSettings ctx (my_settings y)" for ctx
    using tables(1) tierOf_cong [of "my_settings ?y2" "my_settings y"] classOf_cong [of "my_settings ?y2" "my_settings y"]
    by (simp add: effectiveSettings_def sameTables_def)
  have "discoveredBy a' ?y2 = discoveredBy a y"
    using tables(1) row(1) by (simp add: discoveredBy_def integrationOf_def findSettingsIntegration_def sameTables_def split: option.split)
  moreover have "contextOf a' t = contextOf a t" for t using a'(2) by (simp add: contextOf_def)
  ultimately have "off i a' ?y2" using o a' tables(2) row eff by (simp add: off_def pairOf_def probeSettings_def)
  moreover have "snd (runProbeFor probes ms i now y) = ?y2"
    using s(1) load by (simp add: runProbeFor_def recorded_def r_def split: prod.splits sum.splits)
  moreover have "newFailures r (sp_cols a) = mc_consecutiveFailures (sp_cols a) + 1" using fail by (simp add: newFailures_def)
  moreover have "nextOf r a th = ''down''" if "th \<le> int (newFailures r (sp_cols a))" for th using fail that by (simp add: nextOf_def nextStatus_def)
  ultimately show ?thesis using a' eff th by auto
qed

text \<open>
  Polling method \<^verbatim>\<open>disabled\<close> for the response-time stream does not stop the probes: the monitor loop keeps running
  them, each fails without asking the network, and after as many runs as the threshold the asset is down.
\<close>

theorem disabled_probe_goes_down:
  assumes "off i a y" "ts_num (effectiveSettings (contextOf a None) (my_settings y)) FailureThreshold \<le> int (length nows)" "nows \<noteq> []"
  shows "\<exists>a'. loadAsset i (probeRuns probes ms i nows y) = Some a' \<and> dr_monitorStatus (sp_row a') = Some ''down''"
proof -
  have "\<exists>a'. off i a' (probeRuns probes ms i nows y) \<and> dr_monitorStatus (sp_row a') = Some ''down''"
    if "off i a y" "ts_num (effectiveSettings (contextOf a None) (my_settings y)) FailureThreshold \<le> int (mc_consecutiveFailures (sp_cols a) + length nows)"
      "nows \<noteq> []" for a y nows
    using that
  proof (induction nows arbitrary: a y)
    case (Cons now nows)
    obtain a1 where a1: "off i a1 (snd (runProbeFor probes ms i now y))"
      "ts_num (effectiveSettings (contextOf a1 None) (my_settings (snd (runProbeFor probes ms i now y)))) FailureThreshold =
        ts_num (effectiveSettings (contextOf a None) (my_settings y)) FailureThreshold"
      "mc_consecutiveFailures (sp_cols a1) = mc_consecutiveFailures (sp_cols a) + 1"
      "ts_num (effectiveSettings (contextOf a None) (my_settings y)) FailureThreshold \<le> int (mc_consecutiveFailures (sp_cols a1)) \<longrightarrow>
         dr_monitorStatus (sp_row a1) = Some ''down''"
      using off_step [OF Cons.prems(1), of probes ms now] by blast
    show ?case
    proof (cases nows)
      case Nil
      then show ?thesis using a1 Cons.prems(2) by auto
    next
      case (Cons n ns)
      then have "nows \<noteq> []" by simp
      then show ?thesis using Cons.IH [OF a1(1)] a1(2,3) Cons.prems(2) by simp
    qed
  qed simp
  from this [OF assms(1) _ assms(3)] show ?thesis using assms(2) by (auto simp: off_def)
qed

section \<open>Concrete assets\<close>

definition lab_cols :: "string option \<Rightarrow> monitorCols" where
  "lab_cols p = \<lparr>mc_consecutiveFailures = 0, mc_consecutiveSuccesses = 0, mc_lastMonitorAt = None, mc_lastTelemetryAt = None, mc_lastSystemInfoAt = None,
     mc_monitoredInterfaces = [], mc_monitoredStorage = [], mc_monitoredIpsecTunnels = [], mc_lastResponseTimeMs = None,
     mc_monitorStatusChangedAt = None, mc_num = (\<lambda>_. None), mc_polling = (\<lambda>st. if st = ResponseTime then p else None), mc_mib = (\<lambda>_. None),
     mc_ipAddress = Some ''10.0.0.9'', mc_dnsName = None, mc_monitorCredential = None, mc_responseTimeCredential = None\<rparr>"

definition lab_dep_row :: "string \<Rightarrow> string \<Rightarrow> depAssetRow" where
  "lab_dep_row i ty = \<lparr>dr_id = i, dr_hostname = Some i, dr_assetType = ty, dr_fortinetTopology = None, dr_discoveredByIntegrationId = None,
     dr_monitored = True, dr_monitorStatus = None, dr_dependencyLayer = None, dr_dependencySuppressed = False, dr_dependencySuppressedAt = None,
     dr_dependencyTestUntil = None, dr_dependencyTestStartedBy = None\<rparr>"

definition lab_sys :: "string option \<Rightarrow> unit monSys" where
  "lab_sys p = \<lparr>my_settings = lab_state,
     my_dep = \<lparr>dw_assets = [lab_dep_row ''core'' ''switch'', lab_dep_row ''edge'' ''switch''],
       dw_parents = [\<lparr>dp_assetId = ''edge'', dp_parentAssetId = ''core'', dp_source = Override, dp_detectedVia = ViaManual\<rparr>], dw_lldp = [], dw_events = []\<rparr>,
     my_core = emptyWorld (), my_cols = (\<lambda>_. lab_cols p), my_samples = [], my_hooks = []\<rparr>"

definition lab_shot :: "string option \<Rightarrow> snapshot" where
  "lab_shot p = \<lparr>sp_row = lab_dep_row ''core'' ''switch'', sp_cols = lab_cols p\<rparr>"

lemma lab_load: "loadAsset ''core'' (lab_sys p) = Some (lab_shot p)"
  by (simp add: loadAsset_def findAsset_def lab_sys_def lab_dep_row_def lab_shot_def)

lemma lab_pair: "plain (pairOf (lab_shot p))" "plain (classPair (contextOf (lab_shot p) None))"
  by (simp_all add: pairOf_def plain_def lab_shot_def lab_dep_row_def)

lemma lab_effective:
  "effectiveSettings (contextOf (lab_shot p) t) (my_settings (lab_sys p)) = mergeSettings HARDCODED_FLOOR None (contextOf (lab_shot p) t)"
  "effectiveSettings (contextOf (selected (lab_shot p)) t) (my_settings (lab_sys p)) = mergeSettings HARDCODED_FLOOR None (contextOf (selected (lab_shot p)) t)"
  by (simp_all add: effectiveSettings_def scopeKey_def contextOf_def truthy_def tierOf_def manualTier_def storedTier_def truthy_value_def
      legacyGlobalAsTier_def classOf_def classPair_def classOverride_def findClassOverride_def lab_state_def lab_sys_def lab_shot_def lab_dep_row_def selected_def)

lemma lab_settings: "settingsOf (lab_shot p) (lab_sys p) = mergeSettings HARDCODED_FLOOR None (contextOf (lab_shot p) None)"
  using resolve_coherent(1) [OF lab_coherent lab_pair(2)] lab_effective(1) by (simp add: settingsOf_def) (simp add: lab_sys_def)

lemma lab_threshold: "ts_num (mergeSettings HARDCODED_FLOOR None (contextOf (lab_shot p) t)) FailureThreshold = 3"
  by (simp add: mergeSettings_def HARDCODED_FLOOR_def noOverride_def assetLevel_def Let_def)

lemma lab_polling:
  "ts_polling (mergeSettings HARDCODED_FLOOR None (contextOf (lab_shot None) None)) ResponseTime = Some Icmp"
  "ts_polling (mergeSettings HARDCODED_FLOOR None (contextOf (lab_shot (Some ''agent'')) None)) ResponseTime = Some Agent"
  "ts_polling (mergeSettings HARDCODED_FLOOR None (contextOf (lab_shot (Some ''disabled'')) None)) ResponseTime = Some Disabled"
  "ts_polling (mergeSettings HARDCODED_FLOOR None (contextOf (selected (lab_shot p)) None)) ResponseTime = Some Icmp"
  by (simp_all add: mergeSettings_def HARDCODED_FLOOR_def noOverride_def Let_def contextOf_def resolveStream_def compatible_def lab_shot_def lab_cols_def
      selected_def methodOf_def ALL_METHODS_def isPollingMethodCompatible_def assetSourceKindFromIntegrationType_def truthy_def)

lemma lab_fresh: "fresh (lab_shot p)"
  by (simp add: fresh_def previous_def lab_shot_def lab_dep_row_def lab_cols_def)

definition failed :: probeResult where
  "failed = finish 5 False (Some ''timeout'')"

lemma lab_history: "history [Probed failed 1, Probed failed 2, Settles 0 True 3, Probed failed 3] = [False, False, False]"
  by code_simp

lemma lab_down:
  "standing 3 (history [Probed failed 1, Probed failed 2, Settles 0 True 3, Probed failed 3]) = ''down''"
  "alerts 3 (history [Probed failed 1, Probed failed 2, Settles 0 True 3, Probed failed 3]) = [False]"
  unfolding lab_history by code_simp+

theorem status_tracks_history_witness:
  "\<forall>N D. \<exists>a'. loadAsset ''core'' (foldl (observe N D ''core'') (lab_sys None) [Probed failed 1, Probed failed 2, Settles 0 True 3, Probed failed 3]) = Some a' \<and>
     keep (dr_monitorStatus (sp_row a')) ''unknown'' = ''down''"
proof (intro allI)
  fix N and D :: "unit fortinet"
  have "confirmations (lab_shot None) (lab_sys None) = 3" by (simp add: confirmations_def lab_settings lab_threshold)
  then show "\<exists>a'. loadAsset ''core'' (foldl (observe N D ''core'') (lab_sys None) [Probed failed 1, Probed failed 2, Settles 0 True 3, Probed failed 3]) = Some a' \<and>
     keep (dr_monitorStatus (sp_row a')) ''unknown'' = ''down''"
    using status_tracks_history [OF lab_load lab_fresh _ lab_pair(2), of None N D "[Probed failed 1, Probed failed 2, Settles 0 True 3, Probed failed 3]"] lab_polling(1) lab_down(1)
    by (auto simp: lab_settings simp del: foldl_Cons)
qed

theorem alert_iff_confirmed_witness:
  "\<forall>N D. filter is_status (dw_events (my_dep (foldl (observe N D ''core'') (lab_sys None) [Probed failed 1, Probed failed 2, Settles 0 True 3, Probed failed 3]))) =
     [statusEvent ''core'' (Some ''core'') ''down'']"
proof (intro allI)
  fix N and D :: "unit fortinet"
  have "confirmations (lab_shot None) (lab_sys None) = 3" by (simp add: confirmations_def lab_settings lab_threshold)
  moreover have "dw_events (my_dep (lab_sys None)) = []" "dr_hostname (sp_row (lab_shot None)) = Some ''core''"
    by (simp_all add: lab_sys_def lab_shot_def lab_dep_row_def)
  ultimately show "filter is_status (dw_events (my_dep (foldl (observe N D ''core'') (lab_sys None) [Probed failed 1, Probed failed 2, Settles 0 True 3, Probed failed 3]))) =
     [statusEvent ''core'' (Some ''core'') ''down'']"
    using alert_iff_confirmed [OF lab_load lab_fresh _ lab_pair(2), of None N D "[Probed failed 1, Probed failed 2, Settles 0 True 3, Probed failed 3]"] lab_polling(1) lab_down(2)
    by (simp add: lab_settings del: foldl_Cons)
qed

theorem probe_now_fakes_success_witness:
  "\<forall>probes. \<exists>y'. probeNow probes 1 ''core'' 7 (lab_sys (Some ''agent'')) = (Inr (finish 1 True None), y') \<and>
     my_samples y' = [sampleOf ''core'' 7 (finish 1 True None)]"
proof (intro allI)
  fix probes
  let ?a = "lab_shot (Some ''agent'')" and ?y = "lab_sys (Some ''agent'')"
  have "probeSettings ?a ?y = mergeSettings HARDCODED_FLOOR None (contextOf ?a None)"
    using lab_effective(1) [of "Some ''agent''" None] by (simp add: probeSettings_def discoveredBy_def integrationOf_def lab_shot_def lab_dep_row_def)
  moreover have "dr_monitored (sp_row ?a)" "coherent (my_settings ?y)" "my_samples ?y = []"
    using lab_coherent by (simp_all add: lab_shot_def lab_dep_row_def lab_sys_def)
  ultimately show "\<exists>y'. probeNow probes 1 ''core'' 7 ?y = (Inr (finish 1 True None), y') \<and> my_samples y' = [sampleOf ''core'' 7 (finish 1 True None)]"
    using probe_now_fakes_success [OF lab_load _ _ lab_pair(1), of "Some ''agent''" probes 1 7] lab_polling(2,4) lab_effective(2) by simp
qed

theorem agent_samples_stored_twice_witness:
  "\<exists>y'. postAgentSamples ''core'' [\<lparr>ag_timestamp = None, ag_success = True, ag_responseTimeMs = Some 4, ag_error = None\<rparr>] 9 (lab_sys (Some ''agent'')) =
     (Inr 1, y') \<and> length (my_samples y') = 2"
proof -
  let ?g = "\<lparr>ag_timestamp = None, ag_success = True, ag_responseTimeMs = Some 4, ag_error = None\<rparr>"
  have "findAsset ''core'' (my_dep (lab_sys (Some ''agent''))) \<noteq> None" using lab_load [of "Some ''agent''"] by (auto simp: loadAsset_def)
  from agent_samples_stored_twice [OF this, of "[?g]" 9] show ?thesis
    by (simp add: lab_sys_def [of "Some ''agent''"] numeral_2_eq_2 del: postAgentSamples.simps)
qed

theorem disabled_probe_goes_down_witness:
  "\<forall>probes. \<exists>a'. loadAsset ''core'' (probeRuns probes 1 ''core'' [60, 120, 180] (lab_sys (Some ''disabled''))) = Some a' \<and>
     dr_monitorStatus (sp_row a') = Some ''down''"
proof (intro allI)
  fix probes
  let ?a = "lab_shot (Some ''disabled'')" and ?y = "lab_sys (Some ''disabled'')"
  have "probeSettings ?a ?y = mergeSettings HARDCODED_FLOOR None (contextOf ?a None)"
    using lab_effective(1) [of "Some ''disabled''" None] by (simp add: probeSettings_def discoveredBy_def integrationOf_def lab_shot_def lab_dep_row_def)
  moreover have "dr_monitored (sp_row ?a)" "coherent (my_settings ?y)" using lab_coherent by (simp_all add: lab_shot_def lab_dep_row_def lab_sys_def)
  ultimately have "off ''core'' ?a ?y" using lab_load lab_pair(1) lab_polling(3) lab_effective(1) by (simp add: off_def)
  then show "\<exists>a'. loadAsset ''core'' (probeRuns probes 1 ''core'' [60, 120, 180] ?y) = Some a' \<and> dr_monitorStatus (sp_row a') = Some ''down''"
    by (rule disabled_probe_goes_down) (simp_all add: lab_effective(1) lab_threshold)
qed

end
