(* ===== verification/MonitorSchedule.thy ===== *)
theory MonitorSchedule
  imports MonitorStatus
begin

text \<open>
  Which work is due: the selection of \<^verbatim>\<open>runMonitorPass\<close> in \<^verbatim>\<open>src/services/monitoringService.ts\<close>, which runs the work
  in the process, and \<^verbatim>\<open>publishDueWork\<close> of \<^verbatim>\<open>src/jobs/monitorAssets.ts\<close>, which hands it to a job queue. Both read the
  monitored assets, resolve the settings of each and test each cadence. The gauges and the metric labels are left
  out; of the execution only the order of the work is kept.
\<close>

datatype cadence = CProbe | CTelemetry | CSystemInfo | CFastFiltered

definition isDue :: "int \<Rightarrow> int option \<Rightarrow> int \<Rightarrow> bool" where
  "isDue now lastAt intervalSec =
     (if intervalSec \<le> 0 then False else (case lastAt of None \<Rightarrow> True | Some t \<Rightarrow> now - t \<ge> intervalSec * 1000))"

definition candidates :: "'d monSys \<Rightarrow> snapshot list" where
  "candidates y = map (\<lambda>r. \<lparr>sp_row = r, sp_cols = my_cols y (dr_id r)\<rparr>) (filter dr_monitored (dw_assets (my_dep y)))"

text \<open>The queries select the cadence overrides and the polling methods, with the type of the integration.\<close>

definition candidateContext :: "snapshot \<Rightarrow> monState \<Rightarrow> assetContext" where
  "candidateContext a s = (contextOf a (map_option si_type (integrationOf (dr_discoveredByIntegrationId (sp_row a)) s)))\<lparr>
     ac_num := (\<lambda>f. if f \<in> {IntervalSeconds, CpuMemoryIntervalSeconds, TemperatureIntervalSeconds, SystemInfoIntervalSeconds, ProbeTimeoutMs}
                    then mc_num (sp_cols a) f else None),
     ac_mib := (\<lambda>_. None)\<rparr>"

definition probeDue :: "int \<Rightarrow> tierSettings \<Rightarrow> snapshot \<Rightarrow> bool" where
  "probeDue now eff a =
     isDue now (mc_lastMonitorAt (sp_cols a))
       (if dr_dependencySuppressed (sp_row a) \<and> ts_polling eff ResponseTime \<noteq> Some Disabled then ts_num eff IntervalSeconds * 2
        else ts_num eff IntervalSeconds)"

definition telemetryDue :: "int \<Rightarrow> tierSettings \<Rightarrow> snapshot \<Rightarrow> bool" where
  "telemetryDue now eff a = isDue now (mc_lastTelemetryAt (sp_cols a)) (ts_num eff CpuMemoryIntervalSeconds)"

definition systemInfoDue :: "int \<Rightarrow> tierSettings \<Rightarrow> snapshot \<Rightarrow> bool" where
  "systemInfoDue now eff a = isDue now (mc_lastSystemInfoAt (sp_cols a)) (ts_num eff SystemInfoIntervalSeconds)"

definition hasFastPin :: "snapshot \<Rightarrow> bool" where
  "hasFastPin a \<longleftrightarrow> mc_monitoredInterfaces (sp_cols a) \<noteq> [] \<or> mc_monitoredStorage (sp_cols a) \<noteq> [] \<or> mc_monitoredIpsecTunnels (sp_cols a) \<noteq> []"

definition isManagedSwitchOrAp :: "snapshot \<Rightarrow> bool" where
  "isManagedSwitchOrAp a \<longleftrightarrow> dr_assetType (sp_row a) = ''switch'' \<or> dr_assetType (sp_row a) = ''access_point''"

text \<open>The two copies of the test for telemetry: the queue excludes managed access points, the pass only switches.\<close>

definition canTelemetryPass :: "tierSettings \<Rightarrow> snapshot \<Rightarrow> bool" where
  "canTelemetryPass eff a \<longleftrightarrow>
     ts_polling eff CpuMemory \<noteq> None \<and> ts_polling eff CpuMemory \<noteq> Some Icmp \<and> ts_polling eff CpuMemory \<noteq> Some Winrm \<and>
     ts_polling eff CpuMemory \<noteq> Some Ssh \<and> \<not> (ts_polling eff CpuMemory = Some RestApi \<and> dr_assetType (sp_row a) = ''switch'')"

definition canTelemetryQueue :: "tierSettings \<Rightarrow> snapshot \<Rightarrow> bool" where
  "canTelemetryQueue eff a \<longleftrightarrow>
     ts_polling eff CpuMemory \<noteq> None \<and> ts_polling eff CpuMemory \<noteq> Some Icmp \<and> ts_polling eff CpuMemory \<noteq> Some Winrm \<and>
     ts_polling eff CpuMemory \<noteq> Some Ssh \<and> \<not> (ts_polling eff CpuMemory = Some RestApi \<and> isManagedSwitchOrAp a)"

definition canSystemInfo :: "tierSettings \<Rightarrow> snapshot \<Rightarrow> bool" where
  "canSystemInfo eff a \<longleftrightarrow>
     (ts_polling eff Interfaces \<noteq> None \<or> ts_polling eff Lldp \<noteq> None \<or> ts_polling eff Storage \<noteq> None) \<and>
     \<not> (ts_polling eff Interfaces = Some RestApi \<and> isManagedSwitchOrAp a)"

definition isUp :: "snapshot \<Rightarrow> bool" where
  "isUp a \<longleftrightarrow> dr_monitorStatus (sp_row a) = Some ''up'' \<and> \<not> dr_dependencySuppressed (sp_row a)"

record workLists =
  wl_probes :: "string list"
  wl_fastFiltereds :: "string list"
  wl_telemetries :: "string list"
  wl_systemInfos :: "string list"

definition push_if :: "bool \<Rightarrow> 'a \<Rightarrow> 'a list \<Rightarrow> 'a list" where
  "push_if b x xs = (if b then xs @ [x] else xs)"

definition selectAsset :: "cadence set \<Rightarrow> int \<Rightarrow> tierSettings \<Rightarrow> snapshot \<Rightarrow> workLists \<Rightarrow> workLists" where
  "selectAsset enabled now eff a w =
     (let i = dr_id (sp_row a); probe = probeDue now eff a; systemInfo = systemInfoDue now eff a
      in \<lparr>wl_probes = push_if (probe \<and> CProbe \<in> enabled) i (wl_probes w),
          wl_fastFiltereds = push_if (probe \<and> hasFastPin a \<and> canSystemInfo eff a \<and> \<not> systemInfo \<and> isUp a \<and> CFastFiltered \<in> enabled) i (wl_fastFiltereds w),
          wl_telemetries = push_if (telemetryDue now eff a \<and> canTelemetryPass eff a \<and> CTelemetry \<in> enabled \<and> isUp a) i (wl_telemetries w),
          wl_systemInfos = push_if (systemInfo \<and> canSystemInfo eff a \<and> CSystemInfo \<in> enabled \<and> isUp a) i (wl_systemInfos w)\<rparr>)"

fun selectWork :: "cadence set \<Rightarrow> int \<Rightarrow> snapshot list \<Rightarrow> workLists \<Rightarrow> monState \<Rightarrow> workLists \<times> monState" where
  "selectWork enabled now [] w s = (w, s)"
| "selectWork enabled now (a # as) w s =
     (let (eff, s') = resolveMonitorSettings (candidateContext a s) s
      in selectWork enabled now as (selectAsset enabled now eff a w) s')"

definition noWork :: workLists where
  "noWork = \<lparr>wl_probes = [], wl_fastFiltereds = [], wl_telemetries = [], wl_systemInfos = []\<rparr>"

definition workOrder :: "workLists \<Rightarrow> (cadence \<times> string) list" where
  "workOrder w = map (Pair CProbe) (wl_probes w) @ map (Pair CFastFiltered) (wl_fastFiltereds w) @
     map (Pair CTelemetry) (wl_telemetries w) @ map (Pair CSystemInfo) (wl_systemInfos w)"

text \<open>The work of one pass, in the order in which the workers take it.\<close>

definition passWork :: "cadence set \<Rightarrow> int \<Rightarrow> 'd monSys \<Rightarrow> (cadence \<times> string) list" where
  "passWork enabled now y = workOrder (fst (selectWork enabled now (candidates y) noWork (my_settings y)))"

text \<open>The jobs one asset gets from the publisher.\<close>

definition publishAsset :: "cadence set \<Rightarrow> int \<Rightarrow> tierSettings \<Rightarrow> snapshot \<Rightarrow> (cadence \<times> string) list" where
  "publishAsset enabled now eff a =
     (let i = dr_id (sp_row a); probe = probeDue now eff a; systemInfo = systemInfoDue now eff a
      in (if probe \<and> CProbe \<in> enabled then [(CProbe, i)] else []) @
         (if telemetryDue now eff a \<and> canTelemetryQueue eff a \<and> isUp a \<and> CTelemetry \<in> enabled then [(CTelemetry, i)] else []) @
         (if systemInfo \<and> canSystemInfo eff a \<and> isUp a \<and> CSystemInfo \<in> enabled then [(CSystemInfo, i)] else []) @
         (if probe \<and> hasFastPin a \<and> canSystemInfo eff a \<and> \<not> systemInfo \<and> isUp a \<and> CFastFiltered \<in> enabled then [(CFastFiltered, i)] else []))"

fun publishLoop :: "cadence set \<Rightarrow> int \<Rightarrow> snapshot list \<Rightarrow> monState \<Rightarrow> (cadence \<times> string) list" where
  "publishLoop enabled now [] s = []"
| "publishLoop enabled now (a # as) s =
     (let (eff, s') = resolveMonitorSettings (candidateContext a s) s
      in publishAsset enabled now eff a @ publishLoop enabled now as s')"

definition publishDueWork :: "cadence set \<Rightarrow> int \<Rightarrow> 'd monSys \<Rightarrow> (cadence \<times> string) list" where
  "publishDueWork enabled now y = publishLoop enabled now (candidates y) (my_settings y)"

end
