(* ===== verification/ScheduleSpec.thy ===== *)
theory ScheduleSpec
  imports MonitorSchedule StatusSpec
begin

text \<open>
  What the two schedulers select: exactly the due work, the heavy cadences only for assets that are up, the probe
  of every asset in time; and where the two differ.
\<close>

definition kindDue :: "(tierSettings \<Rightarrow> snapshot \<Rightarrow> bool) \<Rightarrow> cadence set \<Rightarrow> int \<Rightarrow> tierSettings \<Rightarrow> snapshot \<Rightarrow> cadence \<Rightarrow> bool" where
  "kindDue canTelemetry enabled now eff a k \<longleftrightarrow> k \<in> enabled \<and>
     (case k of
        CProbe \<Rightarrow> probeDue now eff a
      | CTelemetry \<Rightarrow> telemetryDue now eff a \<and> canTelemetry eff a \<and> isUp a
      | CSystemInfo \<Rightarrow> systemInfoDue now eff a \<and> canSystemInfo eff a \<and> isUp a
      | CFastFiltered \<Rightarrow> probeDue now eff a \<and> hasFastPin a \<and> canSystemInfo eff a \<and> \<not> systemInfoDue now eff a \<and> isUp a)"

definition candidateSettings :: "snapshot \<Rightarrow> monState \<Rightarrow> tierSettings" where
  "candidateSettings a s = effectiveSettings (candidateContext a s) s"

lemma candidate_pair [simp]: "classPair (candidateContext a s) = pairOf a"
  by (simp add: candidateContext_def classPair_def contextOf_def pairOf_def)

lemma candidate_tables: "sameTables s0 s \<Longrightarrow> candidateContext a s = candidateContext a s0"
  by (simp add: candidateContext_def integrationOf_def findSettingsIntegration_def sameTables_def split: option.split)

lemma candidate_resolve:
  assumes "coherent s" "sameTables s0 s" "plain (pairOf a)"
  shows "fst (resolveMonitorSettings (candidateContext a s) s) = candidateSettings a s0" "coherent (snd (resolveMonitorSettings (candidateContext a s) s))"
    "sameTables s0 (snd (resolveMonitorSettings (candidateContext a s) s))"
  using resolve_tables [OF assms(1) _ assms(2), of "candidateContext a s0"] assms(3) candidate_tables [OF assms(2), of a]
  by (simp_all add: candidateSettings_def)

lemma select_asset_iff:
  "(k, i) \<in> set (workOrder (selectAsset enabled now eff a w)) \<longleftrightarrow>
   (k, i) \<in> set (workOrder w) \<or> (i = dr_id (sp_row a) \<and> kindDue canTelemetryPass enabled now eff a k)"
  by (cases k) (auto simp: workOrder_def selectAsset_def push_if_def kindDue_def Let_def)

lemma publish_asset_iff:
  "(k, i) \<in> set (publishAsset enabled now eff a) \<longleftrightarrow> i = dr_id (sp_row a) \<and> kindDue canTelemetryQueue enabled now eff a k"
  by (cases k) (auto simp: publishAsset_def kindDue_def Let_def)

lemma select_iff:
  assumes "coherent s" "sameTables s0 s" "\<forall>a \<in> set as. plain (pairOf a)"
  shows "(k, i) \<in> set (workOrder (fst (selectWork enabled now as w s))) \<longleftrightarrow>
    (k, i) \<in> set (workOrder w) \<or> (\<exists>a \<in> set as. i = dr_id (sp_row a) \<and> kindDue canTelemetryPass enabled now (candidateSettings a s0) a k)"
  using assms
proof (induction as arbitrary: w s)
  case (Cons a as)
  note r = candidate_resolve [OF Cons.prems(1,2), of a]
  show ?case
    using Cons.IH [OF r(2,3), of "selectAsset enabled now (candidateSettings a s0) a w"] r(1) Cons.prems(3)
    by (auto simp: select_asset_iff split_def Let_def)
qed simp

lemma publish_iff:
  assumes "coherent s" "sameTables s0 s" "\<forall>a \<in> set as. plain (pairOf a)"
  shows "(k, i) \<in> set (publishLoop enabled now as s) \<longleftrightarrow>
    (\<exists>a \<in> set as. i = dr_id (sp_row a) \<and> kindDue canTelemetryQueue enabled now (candidateSettings a s0) a k)"
  using assms
proof (induction as arbitrary: s)
  case (Cons a as)
  note r = candidate_resolve [OF Cons.prems(1,2), of a]
  show ?case
    using Cons.IH [OF r(2,3)] r(1) Cons.prems(3) by (auto simp: publish_asset_iff split_def Let_def)
qed simp

definition ready :: "'d monSys \<Rightarrow> bool" where
  "ready y \<longleftrightarrow> coherent (my_settings y) \<and> (\<forall>a \<in> set (candidates y). plain (pairOf a))"

lemma pass_iff:
  assumes "ready y"
  shows "(k, i) \<in> set (passWork enabled now y) \<longleftrightarrow>
    (\<exists>a \<in> set (candidates y). i = dr_id (sp_row a) \<and> kindDue canTelemetryPass enabled now (candidateSettings a (my_settings y)) a k)"
  using select_iff [of "my_settings y" "my_settings y" "candidates y" k i enabled now noWork] assms
  by (simp add: ready_def passWork_def) (simp add: workOrder_def noWork_def)

lemma queue_iff:
  assumes "ready y"
  shows "(k, i) \<in> set (publishDueWork enabled now y) \<longleftrightarrow>
    (\<exists>a \<in> set (candidates y). i = dr_id (sp_row a) \<and> kindDue canTelemetryQueue enabled now (candidateSettings a (my_settings y)) a k)"
  using publish_iff [of "my_settings y" "my_settings y" "candidates y" k i enabled now] assms by (simp add: ready_def publishDueWork_def)

text \<open>
  The two schedulers select the same work but for one case: telemetry of an access point polled over REST is
  selected by the pass that runs in the process, and never published to the queue.
\<close>

theorem schedulers_differ_on_access_points:
  assumes "ready y"
  shows "(k, i) \<in> set (passWork enabled now y) \<longleftrightarrow>
     (k, i) \<in> set (publishDueWork enabled now y) \<or>
     (k = CTelemetry \<and> (\<exists>a \<in> set (candidates y). i = dr_id (sp_row a) \<and> dr_assetType (sp_row a) = ''access_point'' \<and>
        ts_polling (candidateSettings a (my_settings y)) CpuMemory = Some RestApi \<and>
        telemetryDue now (candidateSettings a (my_settings y)) a \<and> isUp a \<and> CTelemetry \<in> enabled))"
proof -
  have tel: "canTelemetryPass eff a \<longleftrightarrow> canTelemetryQueue eff a \<or> (ts_polling eff CpuMemory = Some RestApi \<and> dr_assetType (sp_row a) = ''access_point'')" for eff a
    by (auto simp: canTelemetryPass_def canTelemetryQueue_def isManagedSwitchOrAp_def)
  have "kindDue canTelemetryPass enabled now eff a k \<longleftrightarrow> kindDue canTelemetryQueue enabled now eff a k \<or>
    (k = CTelemetry \<and> dr_assetType (sp_row a) = ''access_point'' \<and> ts_polling eff CpuMemory = Some RestApi \<and> telemetryDue now eff a \<and> isUp a \<and> CTelemetry \<in> enabled)" for eff a
    by (cases k) (auto simp: kindDue_def tel)
  then show ?thesis unfolding pass_iff [OF assms] queue_iff [OF assms] by blast
qed

text \<open>Every list of work names an asset at most once, and only assets already looked at.\<close>

definition lists_ok :: "string set \<Rightarrow> workLists \<Rightarrow> bool" where
  "lists_ok ids w \<longleftrightarrow> (\<forall>l \<in> {wl_probes w, wl_fastFiltereds w, wl_telemetries w, wl_systemInfos w}. distinct l \<and> set l \<subseteq> ids)"

lemma push_ok:
  "distinct l \<and> set l \<subseteq> ids \<Longrightarrow> i \<notin> ids \<Longrightarrow> distinct (push_if b i l)"
  "distinct l \<and> set l \<subseteq> ids \<Longrightarrow> i \<notin> ids \<Longrightarrow> set (push_if b i l) \<subseteq> insert i ids"
  by (auto simp: push_if_def)

lemma select_asset_ok: "lists_ok ids w \<Longrightarrow> dr_id (sp_row a) \<notin> ids \<Longrightarrow> lists_ok (insert (dr_id (sp_row a)) ids) (selectAsset enabled now eff a w)"
  by (simp add: lists_ok_def selectAsset_def Let_def push_ok [where ids = ids])

lemma select_ok:
  assumes "lists_ok ids w" "distinct (map (\<lambda>a. dr_id (sp_row a)) as)" "\<forall>a \<in> set as. dr_id (sp_row a) \<notin> ids"
  shows "lists_ok (ids \<union> (\<lambda>a. dr_id (sp_row a)) ` set as) (fst (selectWork enabled now as w s))"
  using assms
proof (induction as arbitrary: ids w s)
  case (Cons a as)
  obtain eff s' where r: "resolveMonitorSettings (candidateContext a s) s = (eff, s')" by fastforce
  have "lists_ok (insert (dr_id (sp_row a)) ids) (selectAsset enabled now eff a w)" using Cons.prems by (simp add: select_asset_ok)
  moreover have "\<forall>b \<in> set as. dr_id (sp_row b) \<notin> insert (dr_id (sp_row a)) ids" using Cons.prems(2,3) by (simp add: image_iff) metis
  ultimately show ?case using Cons.IH [of "insert (dr_id (sp_row a)) ids" "selectAsset enabled now eff a w" s'] Cons.prems(2) r by simp
qed simp

lemma pass_distinct:
  assumes "distinct (map dr_id (dw_assets (my_dep y)))"
  shows "distinct (passWork enabled now y)"
proof -
  let ?w = "fst (selectWork enabled now (candidates y) noWork (my_settings y))"
  have "distinct (map (\<lambda>a. dr_id (sp_row a)) (candidates y))"
    using assms by (simp add: candidates_def comp_def distinct_map_filter)
  then have "lists_ok ((\<lambda>a. dr_id (sp_row a)) ` set (candidates y)) ?w"
    using select_ok [of "{}" noWork "candidates y" enabled now "my_settings y"] by (simp add: lists_ok_def noWork_def)
  then show ?thesis by (auto simp: lists_ok_def passWork_def workOrder_def distinct_map inj_on_def)
qed

text \<open>
  C31. Work is selected only for monitored assets, and the heavy cadences (telemetry, system information, pinned
  interfaces) only for assets confirmed up that no outage upstream suppresses; no item is selected twice, and all
  probes come before all heavy work.
\<close>

theorem pass_spares_sick_assets:
  assumes "ready y" "distinct (map dr_id (dw_assets (my_dep y)))"
  shows "(\<forall>(k, i) \<in> set (passWork enabled now y). k \<in> enabled \<and> (\<exists>r \<in> set (dw_assets (my_dep y)). dr_id r = i \<and> dr_monitored r \<and>
      (k \<noteq> CProbe \<longrightarrow> dr_monitorStatus r = Some ''up'' \<and> \<not> dr_dependencySuppressed r))) \<and>
    distinct (passWork enabled now y) \<and>
    (\<exists>probes heavy. passWork enabled now y = probes @ heavy \<and> (\<forall>p \<in> set probes. fst p = CProbe) \<and> (\<forall>p \<in> set heavy. fst p \<noteq> CProbe))"
proof (intro conjI)
  show "\<forall>(k, i) \<in> set (passWork enabled now y). k \<in> enabled \<and> (\<exists>r \<in> set (dw_assets (my_dep y)). dr_id r = i \<and> dr_monitored r \<and>
      (k \<noteq> CProbe \<longrightarrow> dr_monitorStatus r = Some ''up'' \<and> \<not> dr_dependencySuppressed r))"
  proof safe
    fix k i
    assume "(k, i) \<in> set (passWork enabled now y)"
    then obtain a where a: "a \<in> set (candidates y)" "i = dr_id (sp_row a)"
      "kindDue canTelemetryPass enabled now (candidateSettings a (my_settings y)) a k"
      unfolding pass_iff [OF assms(1)] by blast
    from a(3) show "k \<in> enabled" by (simp add: kindDue_def)
    have "sp_row a \<in> set (dw_assets (my_dep y))" "dr_monitored (sp_row a)" using a(1) by (auto simp: candidates_def)
    moreover have "k \<noteq> CProbe \<longrightarrow> dr_monitorStatus (sp_row a) = Some ''up'' \<and> \<not> dr_dependencySuppressed (sp_row a)"
      using a(3) by (cases k) (simp_all add: kindDue_def isUp_def)
    ultimately show "\<exists>r \<in> set (dw_assets (my_dep y)). dr_id r = i \<and> dr_monitored r \<and>
      (k \<noteq> CProbe \<longrightarrow> dr_monitorStatus r = Some ''up'' \<and> \<not> dr_dependencySuppressed r)" using a(2) by blast
  qed
  show "distinct (passWork enabled now y)" by (rule pass_distinct [OF assms(2)])
  show "\<exists>probes heavy. passWork enabled now y = probes @ heavy \<and> (\<forall>p \<in> set probes. fst p = CProbe) \<and> (\<forall>p \<in> set heavy. fst p \<noteq> CProbe)"
    unfolding passWork_def workOrder_def by (rule exI, rule exI, rule conjI, rule refl) auto
qed

text \<open>
  No monitored asset is left unprobed: whatever its status and whether or not an outage upstream suppresses it,
  once twice its interval has passed since the last probe, both schedulers select its probe.
\<close>

theorem probe_always_comes_due:
  assumes "ready y" "r \<in> set (dw_assets (my_dep y))" "dr_monitored r" "a = \<lparr>sp_row = r, sp_cols = my_cols y (dr_id r)\<rparr>"
    and "0 < ts_num (candidateSettings a (my_settings y)) IntervalSeconds" "CProbe \<in> enabled"
    and "case mc_lastMonitorAt (my_cols y (dr_id r)) of None \<Rightarrow> True
      | Some t \<Rightarrow> t + 2 * ts_num (candidateSettings a (my_settings y)) IntervalSeconds * 1000 \<le> now"
  shows "(CProbe, dr_id r) \<in> set (passWork enabled now y) \<and> (CProbe, dr_id r) \<in> set (publishDueWork enabled now y)"
proof -
  let ?eff = "candidateSettings a (my_settings y)"
  have "a \<in> set (candidates y)" using assms(2-4) by (auto simp: candidates_def)
  moreover have "probeDue now ?eff a" using assms(4,5,7) by (auto simp: probeDue_def isDue_def split: option.splits)
  ultimately show ?thesis unfolding pass_iff [OF assms(1)] queue_iff [OF assms(1)]
    using assms(4,6) by (intro conjI bexI [of _ a]) (simp_all add: kindDue_def)
qed

section \<open>A concrete fleet\<close>

text \<open>An access point that is up, with its processor and memory polled over REST, and a switch that is down.\<close>

definition wifi_cols :: monitorCols where
  "wifi_cols = (lab_cols None)\<lparr>mc_polling := (\<lambda>st. if st = CpuMemory then Some ''rest_api'' else None)\<rparr>"

definition wifi_row :: depAssetRow where
  "wifi_row = (lab_dep_row ''ap'' ''access_point'')\<lparr>dr_monitorStatus := Some ''up''\<rparr>"

definition down_row :: depAssetRow where
  "down_row = (lab_dep_row ''sw'' ''switch'')\<lparr>dr_monitorStatus := Some ''down'', dr_dependencySuppressed := True\<rparr>"

definition wifi_sys :: "unit monSys" where
  "wifi_sys = (lab_sys None)\<lparr>my_dep := (my_dep (lab_sys None))\<lparr>dw_assets := [wifi_row, down_row]\<rparr>, my_cols := (\<lambda>_. wifi_cols)\<rparr>"

definition wifi_shot :: "depAssetRow \<Rightarrow> snapshot" where
  "wifi_shot r = \<lparr>sp_row = r, sp_cols = wifi_cols\<rparr>"

lemma wifi_fields [simp]:
  "dr_id wifi_row = ''ap''" "dr_assetType wifi_row = ''access_point''" "dr_monitored wifi_row" "dr_monitorStatus wifi_row = Some ''up''"
  "\<not> dr_dependencySuppressed wifi_row" "dr_discoveredByIntegrationId wifi_row = None"
  "dr_id down_row = ''sw''" "dr_assetType down_row = ''switch''" "dr_monitored down_row" "dr_discoveredByIntegrationId down_row = None"
  "mc_lastMonitorAt wifi_cols = None" "mc_lastTelemetryAt wifi_cols = None" "sp_row (wifi_shot r) = r" "sp_cols (wifi_shot r) = wifi_cols"
  "mc_num wifi_cols f = None" "mc_polling wifi_cols CpuMemory = Some ''rest_api''"
  by (simp_all add: wifi_row_def down_row_def lab_dep_row_def wifi_cols_def lab_cols_def wifi_shot_def)

lemma wifi_candidates: "candidates wifi_sys = [wifi_shot wifi_row, wifi_shot down_row]"
  by (simp add: candidates_def wifi_sys_def wifi_shot_def)

lemma wifi_state: "my_settings wifi_sys = lab_state" "dw_assets (my_dep wifi_sys) = [wifi_row, down_row]" "my_cols wifi_sys = (\<lambda>_. wifi_cols)"
  by (simp_all add: wifi_sys_def lab_sys_def)

lemma wifi_ready: "ready wifi_sys"
  using lab_coherent by (simp add: ready_def wifi_candidates wifi_state(1)) (simp add: pairOf_def plain_def)

lemma wifi_settings:
  assumes "dr_discoveredByIntegrationId r = None"
  shows "candidateSettings (wifi_shot r) lab_state = mergeSettings HARDCODED_FLOOR None (candidateContext (wifi_shot r) lab_state)"
  using assms by (simp add: candidateSettings_def effectiveSettings_def scopeKey_def candidateContext_def contextOf_def truthy_def tierOf_def manualTier_def
      storedTier_def truthy_value_def legacyGlobalAsTier_def classOf_def classPair_def classOverride_def findClassOverride_def lab_state_def)

lemma wifi_values:
  assumes "dr_discoveredByIntegrationId r = None"
  shows "ts_num (candidateSettings (wifi_shot r) lab_state) f = ts_num HARDCODED_FLOOR f"
    "ts_polling (candidateSettings (wifi_shot r) lab_state) CpuMemory = Some RestApi"
  using assms by (simp_all add: wifi_settings mergeSettings_def noOverride_def candidateContext_def contextOf_def Let_def integrationOf_def
      resolveStream_def compatible_def methodOf_def ALL_METHODS_def isPollingMethodCompatible_def assetSourceKindFromIntegrationType_def truthy_def)

lemma floor_intervals: "0 < ts_num HARDCODED_FLOOR IntervalSeconds" "0 < ts_num HARDCODED_FLOOR CpuMemoryIntervalSeconds"
  by (simp_all add: HARDCODED_FLOOR_def)

lemma wifi_in_pass: "(CTelemetry, ''ap'') \<in> set (passWork {CTelemetry} 0 wifi_sys)"
  unfolding pass_iff [OF wifi_ready]
  by (rule bexI [of _ "wifi_shot wifi_row"])
    (simp_all add: wifi_candidates kindDue_def telemetryDue_def isDue_def isUp_def canTelemetryPass_def wifi_state(1) wifi_values floor_intervals not_le)

lemma wifi_not_queued: "(CTelemetry, ''ap'') \<notin> set (publishDueWork {CTelemetry} 0 wifi_sys)"
  unfolding queue_iff [OF wifi_ready]
  by (simp add: wifi_candidates kindDue_def canTelemetryQueue_def isManagedSwitchOrAp_def wifi_state(1) wifi_values)

theorem schedulers_differ_on_access_points_witness:
  "(CTelemetry, ''ap'') \<in> set (passWork {CTelemetry} 0 wifi_sys) \<and> (CTelemetry, ''ap'') \<notin> set (publishDueWork {CTelemetry} 0 wifi_sys) \<and>
   (\<exists>a \<in> set (candidates wifi_sys). dr_assetType (sp_row a) = ''access_point'' \<and> isUp a)"
  using schedulers_differ_on_access_points [OF wifi_ready, of CTelemetry "''ap''" "{CTelemetry}" 0] wifi_in_pass wifi_not_queued by auto

theorem pass_spares_sick_assets_witness:
  "(CTelemetry, ''ap'') \<in> set (passWork UNIV 0 wifi_sys) \<and> (CTelemetry, ''sw'') \<notin> set (passWork UNIV 0 wifi_sys) \<and> distinct (passWork UNIV 0 wifi_sys)"
proof -
  have ids: "distinct (map dr_id (dw_assets (my_dep wifi_sys)))" by (simp add: wifi_state(2))
  have "(CTelemetry, ''ap'') \<in> set (passWork UNIV 0 wifi_sys)"
    using wifi_in_pass unfolding pass_iff [OF wifi_ready] by (auto simp: kindDue_def)
  moreover have "dr_monitorStatus down_row \<noteq> Some ''up''" by (simp add: down_row_def)
  ultimately show ?thesis using pass_spares_sick_assets [OF wifi_ready ids, of UNIV 0] by (auto simp: wifi_state(2))
qed

theorem probe_always_comes_due_witness:
  "(CProbe, ''sw'') \<in> set (passWork {CProbe} 0 wifi_sys) \<and> (CProbe, ''sw'') \<in> set (publishDueWork {CProbe} 0 wifi_sys)"
  using probe_always_comes_due [OF wifi_ready, of down_row "wifi_shot down_row" "{CProbe}" 0] wifi_values(1) [of down_row IntervalSeconds] floor_intervals(1)
  by (simp add: wifi_state wifi_shot_def)

end
