(* ===== verification/SampleBuffer.thy ===== *)
theory SampleBuffer
  imports SampleRows JsStd Prelude
begin

text \<open>
  The write buffer of \<^verbatim>\<open>src/services/sampleWriteBuffer.ts\<close> with the retry of \<^verbatim>\<open>src/utils/dbRetry.ts\<close>. A flush suspends
  while the database writes, so it is two steps: \<open>flushStart\<close> up to the \<^verbatim>\<open>await\<close>, \<open>flushFinish\<close> after it; between them
  rows may arrive and assets may be deleted. The database is part of the state: the rows stored, and the assets that are gone.
  \<^verbatim>\<open>createMany\<close> stores all rows or none; the foreign key of the sample tables refuses a row of a deleted asset, and the
  deletion cascades to its stored rows. Other failures of an attempt are a parameter. The gauges are left out.
\<close>

section \<open>Retries\<close>

record pgError =
  pe_code :: "string option"
  pe_originalCode :: "string option"
  pe_causeCode :: "string option"
  pe_message :: "string option"

definition extractPgCode :: "pgError \<Rightarrow> string option" where
  "extractPgCode e =
     (if pe_code e = Some ''40P01'' then Some ''40P01''
      else if pe_originalCode e = Some ''40P01'' then Some ''40P01''
      else if pe_causeCode e = Some ''40P01'' then Some ''40P01''
      else if includes_str (case pe_message e of None \<Rightarrow> [] | Some m \<Rightarrow> m) ''deadlock detected'' then Some ''40P01''
      else None)"

text \<open>The result of an attempt is the error it throws, if it does.\<close>

fun retryLoop :: "nat \<Rightarrow> pgError option \<Rightarrow> (nat \<Rightarrow> pgError option) \<Rightarrow> nat \<Rightarrow> pgError option" where
  "retryLoop 0 lastErr opn attempt = lastErr"
| "retryLoop (Suc n) lastErr opn attempt =
     (case opn attempt of
        None \<Rightarrow> None
      | Some e \<Rightarrow> (if extractPgCode e \<noteq> Some ''40P01'' then Some e else retryLoop n (Some e) opn (Suc attempt)))"

definition retryOnDeadlock :: "(nat \<Rightarrow> pgError option) \<Rightarrow> pgError option" where
  "retryOnDeadlock opn = retryLoop 4 None opn 0"

section \<open>One table\<close>

record 'r tableBuffer =
  bf_buffer :: "'r list"
  bf_flushing :: bool
  bf_batch :: "'r list"
  bf_stored :: "'r list"
  bf_gone :: "string set"

definition SIZE_THRESHOLD :: nat where
  "SIZE_THRESHOLD = 5000"

definition missingAssetError :: pgError where
  "missingAssetError = \<lparr>pe_code = Some ''P2003'', pe_originalCode = Some ''23503'', pe_causeCode = None, pe_message = Some ''Foreign key constraint violated''\<rparr>"

text \<open>One attempt of \<^verbatim>\<open>createMany\<close>.\<close>

definition createMany :: "('r \<Rightarrow> string) \<Rightarrow> string set \<Rightarrow> (nat \<Rightarrow> pgError option) \<Rightarrow> 'r list \<Rightarrow> nat \<Rightarrow> pgError option" where
  "createMany asset gone fate batch attempt =
     (case fate attempt of
        Some e \<Rightarrow> Some e
      | None \<Rightarrow> (if list_ex (\<lambda>r. asset r \<in> gone) batch then Some missingAssetError else None))"

definition flushStart :: "'r tableBuffer \<Rightarrow> 'r tableBuffer" where
  "flushStart s =
     (if bf_flushing s then s else if bf_buffer s = [] then s
      else s\<lparr>bf_flushing := True, bf_batch := bf_buffer s, bf_buffer := []\<rparr>)"

definition flushFinish :: "('r \<Rightarrow> string) \<Rightarrow> (nat \<Rightarrow> pgError option) \<Rightarrow> 'r tableBuffer \<Rightarrow> 'r tableBuffer" where
  "flushFinish asset fate s =
     (case retryOnDeadlock (createMany asset (bf_gone s) fate (bf_batch s)) of
        None \<Rightarrow> s\<lparr>bf_stored := bf_stored s @ bf_batch s, bf_batch := [], bf_flushing := False\<rparr>
      | Some e \<Rightarrow> s\<lparr>bf_buffer := bf_batch s @ bf_buffer s, bf_batch := [], bf_flushing := False\<rparr>)"

definition pushRows :: "'r list \<Rightarrow> 'r tableBuffer \<Rightarrow> 'r tableBuffer" where
  "pushRows rows s =
     (let s' = s\<lparr>bf_buffer := bf_buffer s @ rows\<rparr>
      in if SIZE_THRESHOLD \<le> length (bf_buffer s') then flushStart s' else s')"

definition enqueueRows :: "'r list \<Rightarrow> 'r tableBuffer \<Rightarrow> 'r tableBuffer" where
  "enqueueRows rows s = (if rows = [] then s else pushRows rows s)"

definition deleteAssetRows :: "('r \<Rightarrow> string) \<Rightarrow> string \<Rightarrow> 'r tableBuffer \<Rightarrow> 'r tableBuffer" where
  "deleteAssetRows asset i s = s\<lparr>bf_gone := insert i (bf_gone s), bf_stored := filter (\<lambda>r. asset r \<noteq> i) (bf_stored s)\<rparr>"

text \<open>A whole flush, as a caller that awaits it sees it: nothing happens if another flush is running.\<close>

definition flushTable :: "('r \<Rightarrow> string) \<Rightarrow> (nat \<Rightarrow> pgError option) \<Rightarrow> 'r tableBuffer \<Rightarrow> 'r tableBuffer" where
  "flushTable asset fate s =
     (if bf_flushing s then s else if bf_buffer s = [] then s else flushFinish asset fate (flushStart s))"

section \<open>The six tables\<close>

record sampleBuffers =
  bu_monitor :: "monitorSample tableBuffer"
  bu_telemetry :: "telemetrySample tableBuffer"
  bu_temperature :: "temperatureSample tableBuffer"
  bu_iface :: "interfaceSample tableBuffer"
  bu_storage :: "storageSample tableBuffer"
  bu_ipsecTunnel :: "ipsecSample tableBuffer"
  bu_timer :: bool

definition bufferMonitorSample :: "monitorSample \<Rightarrow> sampleBuffers \<Rightarrow> sampleBuffers" where
  "bufferMonitorSample row b = b\<lparr>bu_monitor := pushRows [row] (bu_monitor b)\<rparr>"

definition enqueueTelemetrySample :: "telemetrySample \<Rightarrow> sampleBuffers \<Rightarrow> sampleBuffers" where
  "enqueueTelemetrySample row b = b\<lparr>bu_telemetry := pushRows [row] (bu_telemetry b)\<rparr>"

definition enqueueTemperatureSamples :: "temperatureSample list \<Rightarrow> sampleBuffers \<Rightarrow> sampleBuffers" where
  "enqueueTemperatureSamples rows b = b\<lparr>bu_temperature := enqueueRows rows (bu_temperature b)\<rparr>"

definition enqueueInterfaceSamples :: "interfaceSample list \<Rightarrow> sampleBuffers \<Rightarrow> sampleBuffers" where
  "enqueueInterfaceSamples rows b = b\<lparr>bu_iface := enqueueRows rows (bu_iface b)\<rparr>"

definition enqueueStorageSamples :: "storageSample list \<Rightarrow> sampleBuffers \<Rightarrow> sampleBuffers" where
  "enqueueStorageSamples rows b = b\<lparr>bu_storage := enqueueRows rows (bu_storage b)\<rparr>"

definition enqueueIpsecTunnelSamples :: "ipsecSample list \<Rightarrow> sampleBuffers \<Rightarrow> sampleBuffers" where
  "enqueueIpsecTunnelSamples rows b = b\<lparr>bu_ipsecTunnel := enqueueRows rows (bu_ipsecTunnel b)\<rparr>"

definition flushAllSampleBuffers :: "(nat \<Rightarrow> pgError option) \<Rightarrow> sampleBuffers \<Rightarrow> sampleBuffers" where
  "flushAllSampleBuffers fate b =
     b\<lparr>bu_monitor := flushTable sa_assetId fate (bu_monitor b), bu_telemetry := flushTable te_assetId fate (bu_telemetry b),
       bu_temperature := flushTable tp_assetId fate (bu_temperature b), bu_iface := flushTable if_assetId fate (bu_iface b),
       bu_storage := flushTable sg_assetId fate (bu_storage b), bu_ipsecTunnel := flushTable ip_assetId fate (bu_ipsecTunnel b)\<rparr>"

definition startSampleWriteBuffer :: "sampleBuffers \<Rightarrow> sampleBuffers" where
  "startSampleWriteBuffer b = b\<lparr>bu_timer := True\<rparr>"

definition shutdownFlushSampleBuffers :: "(nat \<Rightarrow> pgError option) \<Rightarrow> sampleBuffers \<Rightarrow> sampleBuffers" where
  "shutdownFlushSampleBuffers fate b = flushAllSampleBuffers fate (b\<lparr>bu_timer := False\<rparr>)"

section \<open>Interleaving\<close>

text \<open>
  What may happen to one table, in any order: rows arrive, the timer ticks, the write of the running flush
  ends one way or the other, an asset is deleted. A step carries the rows that arrived.
\<close>

inductive bufStep :: "('r \<Rightarrow> string) \<Rightarrow> 'r tableBuffer \<Rightarrow> 'r list \<Rightarrow> 'r tableBuffer \<Rightarrow> bool" for asset :: "'r \<Rightarrow> string" where
  arrive: "bufStep asset s rows (enqueueRows rows s)"
| tick: "bufStep asset s [] (flushStart s)"
| finish: "bf_flushing s \<Longrightarrow> bufStep asset s [] (flushFinish asset fate s)"
| remove: "bufStep asset s [] (deleteAssetRows asset i s)"

inductive bufRun :: "('r \<Rightarrow> string) \<Rightarrow> 'r tableBuffer \<Rightarrow> 'r list \<Rightarrow> 'r tableBuffer \<Rightarrow> bool" for asset :: "'r \<Rightarrow> string" and s :: "'r tableBuffer" where
  stop: "bufRun asset s [] s"
| more: "bufRun asset s rows t \<Longrightarrow> bufStep asset t new u \<Longrightarrow> bufRun asset s (rows @ new) u"

inductive_cases bufStepE: "bufStep asset s rows t"

definition emptyBuffer :: "'r tableBuffer" where
  "emptyBuffer = \<lparr>bf_buffer = [], bf_flushing = False, bf_batch = [], bf_stored = [], bf_gone = {}\<rparr>"

section \<open>Nothing is lost, doubled or reordered\<close>

definition accounted :: "('r \<Rightarrow> string) \<Rightarrow> 'r list \<Rightarrow> 'r tableBuffer \<Rightarrow> bool" where
  "accounted asset rows s \<longleftrightarrow>
     (\<exists>fin. rows = fin @ bf_batch s @ bf_buffer s \<and> bf_stored s = filter (\<lambda>r. asset r \<notin> bf_gone s) fin) \<and> (\<not> bf_flushing s \<longrightarrow> bf_batch s = [])"

lemma accounted_start: "accounted asset rows s \<Longrightarrow> accounted asset rows (flushStart s)"
  by (auto simp: accounted_def flushStart_def)

lemma accounted_enqueue: "accounted asset rows s \<Longrightarrow> accounted asset (rows @ new) (enqueueRows new s)"
proof -
  assume "accounted asset rows s"
  then have "accounted asset (rows @ new) (s\<lparr>bf_buffer := bf_buffer s @ new\<rparr>)" by (auto simp: accounted_def)
  then show ?thesis using accounted_start [of asset "rows @ new" "s\<lparr>bf_buffer := bf_buffer s @ new\<rparr>"] \<open>accounted asset rows s\<close> by (simp add: enqueueRows_def pushRows_def Let_def)
qed

lemma written_alive: "retryOnDeadlock (createMany asset gone fate batch) = None \<Longrightarrow> \<forall>r \<in> set batch. asset r \<notin> gone"
proof -
  have "\<exists>a. createMany asset gone fate batch a = None" if "retryLoop n (if k = 0 then None else Some e) (createMany asset gone fate batch) k = None" "0 < n \<or> 0 < k" for n k e
    using that
  proof (induction n arbitrary: k e)
    case (Suc n)
    then show ?case
    proof (cases "createMany asset gone fate batch k")
      case (Some e')
      then have "retryLoop n (Some e') (createMany asset gone fate batch) (Suc k) = None" using Suc.prems by (auto split: if_splits)
      then show ?thesis using Suc.IH [of "Suc k" e'] by simp
    qed auto
  qed simp
  from this [of 4 0] show "retryOnDeadlock (createMany asset gone fate batch) = None \<Longrightarrow> \<forall>r \<in> set batch. asset r \<notin> gone"
    by (auto simp: retryOnDeadlock_def createMany_def list_ex_iff split: option.splits if_splits)
qed

lemma accounted_finish: "accounted asset rows s \<Longrightarrow> accounted asset rows (flushFinish asset fate s)"
proof (cases "retryOnDeadlock (createMany asset (bf_gone s) fate (bf_batch s))")
  case None
  assume "accounted asset rows s"
  then obtain fin where "rows = fin @ bf_batch s @ bf_buffer s" "bf_stored s = filter (\<lambda>r. asset r \<notin> bf_gone s) fin" by (auto simp: accounted_def)
  then show ?thesis using None written_alive [OF None] by (auto simp: accounted_def flushFinish_def intro!: exI [of _ "fin @ bf_batch s"])
qed (auto simp: accounted_def flushFinish_def)

lemma accounted_delete: "accounted asset rows s \<Longrightarrow> accounted asset rows (deleteAssetRows asset i s)"
  by (auto simp: accounted_def deleteAssetRows_def intro!: filter_cong)

lemma accounted_step: "bufStep asset s new t \<Longrightarrow> accounted asset rows s \<Longrightarrow> accounted asset (rows @ new) t"
  by (erule bufStepE) (simp_all add: accounted_enqueue accounted_start accounted_finish accounted_delete)

text \<open>
  C21. Whatever happens in whatever order, no sample is lost, stored twice or reordered: the rows that arrived are, in the
  order of arrival, the rows written, then the batch being written, then the rows waiting; and the table holds the
  written rows of the assets that still exist.
\<close>

theorem samples_conserved:
  assumes "bufRun asset emptyBuffer rows s"
  shows "\<exists>fin. rows = fin @ bf_batch s @ bf_buffer s \<and> bf_stored s = filter (\<lambda>r. asset r \<notin> bf_gone s) fin \<and> (bf_flushing s \<or> bf_batch s = [])"
proof -
  have "accounted asset rows s" using assms
  proof (induction rule: bufRun.induct)
    case stop
    then show ?case by (simp add: accounted_def emptyBuffer_def)
  qed (rule accounted_step)
  then show ?thesis by (auto simp: accounted_def)
qed

section \<open>A row that can never be written\<close>

text \<open>A row of a deleted asset is in the batch, or will be in the next one.\<close>

definition poisoned :: "('r \<Rightarrow> string) \<Rightarrow> 'r tableBuffer \<Rightarrow> bool" where
  "poisoned asset s \<longleftrightarrow>
     (if bf_flushing s then \<exists>r \<in> set (bf_batch s). asset r \<in> bf_gone s else bf_batch s = [] \<and> (\<exists>r \<in> set (bf_buffer s). asset r \<in> bf_gone s))"

definition stuckAt :: "('r \<Rightarrow> string) \<Rightarrow> 'r tableBuffer \<Rightarrow> 'r list \<Rightarrow> 'r tableBuffer \<Rightarrow> bool" where
  "stuckAt asset s new t \<longleftrightarrow> poisoned asset t \<and> bf_batch t @ bf_buffer t = bf_batch s @ bf_buffer s @ new \<and> set (bf_stored t) \<subseteq> set (bf_stored s)"

lemma stuck_start: "poisoned asset s \<Longrightarrow> stuckAt asset s [] (flushStart s)"
  by (auto simp: stuckAt_def poisoned_def flushStart_def split: if_splits)

lemma stuck_enqueue: "poisoned asset s \<Longrightarrow> stuckAt asset s new (enqueueRows new s)"
proof -
  assume p: "poisoned asset s"
  let ?s = "s\<lparr>bf_buffer := bf_buffer s @ new\<rparr>"
  have "poisoned asset ?s" using p by (auto simp: poisoned_def)
  then have "stuckAt asset s new ?s" "stuckAt asset ?s [] (flushStart ?s)" by (simp add: stuckAt_def, rule stuck_start)
  then show ?thesis using p by (auto simp: enqueueRows_def pushRows_def Let_def stuckAt_def)
qed

lemma stuck_finish: "poisoned asset s \<Longrightarrow> bf_flushing s \<Longrightarrow> stuckAt asset s [] (flushFinish asset fate s)"
proof (cases "retryOnDeadlock (createMany asset (bf_gone s) fate (bf_batch s))")
  case None
  assume "poisoned asset s" "bf_flushing s"
  then show ?thesis using written_alive [OF None] by (auto simp: poisoned_def)
qed (auto simp: stuckAt_def poisoned_def flushFinish_def)

lemma stuck_delete: "poisoned asset s \<Longrightarrow> stuckAt asset s [] (deleteAssetRows asset i s)"
  by (auto simp: stuckAt_def poisoned_def deleteAssetRows_def)

lemma stuck_step: "bufStep asset s new t \<Longrightarrow> poisoned asset s \<Longrightarrow> stuckAt asset s new t"
  by (erule bufStepE) (simp_all add: stuck_enqueue stuck_start stuck_finish stuck_delete)

text \<open>
  C40. One sample of an asset that is deleted before the sample is written blocks its table for good: the whole batch
  fails, goes back to the front of the buffer and fails again. However long the process runs, no row that waits or
  arrives later is ever stored; they all stay in memory.
\<close>

theorem deleted_asset_blocks_table:
  assumes "poisoned asset s" "bufRun asset s rows t"
  shows "poisoned asset t \<and> bf_batch t @ bf_buffer t = bf_batch s @ bf_buffer s @ rows \<and> set (bf_stored t) \<subseteq> set (bf_stored s)"
  using assms(2)
proof (induction rule: bufRun.induct)
  case (more rows t new u)
  then have "stuckAt asset t new u" by (simp add: stuck_step)
  then show ?case using more.IH unfolding stuckAt_def by auto
qed (simp add: assms(1))

section \<open>Deadlocks and the shutdown\<close>

lemma retry_deadlocks:
  assumes "\<forall>m < n. \<exists>e. opn (k + m) = Some e \<and> extractPgCode e = Some ''40P01''" "n \<le> N"
  shows "\<exists>e. retryLoop N lastErr opn k = (if n = 0 then retryLoop N lastErr opn k else retryLoop (N - n) (Some e) opn (k + n))"
  using assms
proof (induction n arbitrary: k N lastErr)
  case (Suc n)
  obtain M where N: "N = Suc M" using Suc.prems(2) by (cases N) auto
  obtain e where e: "opn k = Some e" "extractPgCode e = Some ''40P01''" using Suc.prems(1) by force
  have "\<forall>m < n. \<exists>e. opn (Suc k + m) = Some e \<and> extractPgCode e = Some ''40P01''" using Suc.prems(1) by (metis add_Suc_shift less_Suc_eq_0_disj Suc_less_eq)
  then obtain e' where "retryLoop M (Some e) opn (Suc k) = (if n = 0 then retryLoop M (Some e) opn (Suc k) else retryLoop (M - n) (Some e') opn (Suc k + n))"
    using Suc.IH [of "Suc k" M "Some e"] Suc.prems(2) N by auto
  then show ?case using e N by (cases "n = 0") auto
qed simp

text \<open>
  A flush survives up to three deadlocks in a row: if the attempt after them goes through and no asset of the batch is gone,
  every buffered row is stored, in order, and the buffer is empty. At the fourth deadlock the rows go back to the buffer and the
  table is unchanged.
\<close>

theorem flush_survives_deadlocks:
  assumes "\<not> bf_flushing s" "bf_buffer s \<noteq> []" "\<forall>r \<in> set (bf_buffer s). asset r \<notin> bf_gone s"
    and "\<forall>m < n. \<exists>e. fate m = Some e \<and> extractPgCode e = Some ''40P01''"
  shows "(n \<le> 3 \<and> fate n = None \<longrightarrow> bf_stored (flushTable asset fate s) = bf_stored s @ bf_buffer s \<and> bf_buffer (flushTable asset fate s) = []) \<and>
    (4 \<le> n \<longrightarrow> bf_stored (flushTable asset fate s) = bf_stored s \<and> bf_buffer (flushTable asset fate s) = bf_buffer s) \<and>
    \<not> bf_flushing (flushTable asset fate s)"
proof -
  let ?op = "createMany asset (bf_gone s) fate (bf_buffer s)"
  have op: "?op m = fate m" for m using assms(3) by (auto simp: createMany_def list_ex_iff split: option.split)
  have run: "flushTable asset fate s = flushFinish asset fate (s\<lparr>bf_flushing := True, bf_batch := bf_buffer s, bf_buffer := []\<rparr>)"
    using assms(1,2) by (simp add: flushTable_def flushStart_def)
  have good: "retryOnDeadlock ?op = None" if le: "n \<le> 3" and ok: "fate n = None"
  proof -
    have "\<exists>e. retryLoop 4 None ?op 0 = (if n = 0 then retryLoop 4 None ?op 0 else retryLoop (4 - n) (Some e) ?op (0 + n))"
      by (rule retry_deadlocks) (use assms(4) le in \<open>simp_all add: op\<close>)
    then obtain e where "retryLoop 4 None ?op 0 = (if n = 0 then retryLoop 4 None ?op 0 else retryLoop (4 - n) (Some e) ?op (0 + n))" by blast
    moreover obtain M where "4 - n = Suc M" using le by (cases "4 - n") auto
    ultimately show ?thesis using ok op by (cases "n = 0") (simp_all add: retryOnDeadlock_def numeral_eq_Suc)
  qed
  have bad: "\<exists>e. retryOnDeadlock ?op = Some e" if "4 \<le> n"
    using retry_deadlocks [of 4 ?op 0 4 None] assms(4) that by (auto simp: op retryOnDeadlock_def)
  show ?thesis unfolding run using good bad by (auto simp: flushFinish_def split: option.split)
qed

text \<open>
  The final flush before the process exits loses rows: while a write is running it returns at once, neither waiting
  for that write nor flushing the rows that arrived since, although it is there to drain the buffers.
\<close>

theorem shutdown_leaves_rows:
  assumes "bf_flushing (bu_monitor b)" "row \<in> set (bf_batch (bu_monitor b) @ bf_buffer (bu_monitor b))"
  shows "bu_monitor (shutdownFlushSampleBuffers fate b) = bu_monitor b \<and>
    row \<in> set (bf_batch (bu_monitor (shutdownFlushSampleBuffers fate b)) @ bf_buffer (bu_monitor (shutdownFlushSampleBuffers fate b)))"
  using assms by (simp add: shutdownFlushSampleBuffers_def flushAllSampleBuffers_def flushTable_def)

section \<open>Concrete runs\<close>

definition rowOf :: "string \<Rightarrow> int \<Rightarrow> monitorSample" where
  "rowOf i t = \<lparr>sa_assetId = i, sa_timestamp = t, sa_success = True, sa_responseTimeMs = Some 1, sa_error = None\<rparr>"

definition works :: "nat \<Rightarrow> pgError option" where
  "works n = None"

definition deadlockError :: pgError where
  "deadlockError = \<lparr>pe_code = Some ''40P01'', pe_originalCode = None, pe_causeCode = None, pe_message = None\<rparr>"

text \<open>A row is being written when a second one arrives.\<close>

definition midFlush :: "monitorSample tableBuffer" where
  "midFlush = \<lparr>bf_buffer = [rowOf ''b'' 2], bf_flushing = True, bf_batch = [rowOf ''a'' 1], bf_stored = [], bf_gone = {}\<rparr>"

lemma mid_run: "bufRun sa_assetId emptyBuffer ((([] @ [rowOf ''a'' 1]) @ []) @ [rowOf ''b'' 2]) midFlush"
proof -
  have s1: "enqueueRows [rowOf ''a'' 1] emptyBuffer = emptyBuffer\<lparr>bf_buffer := [rowOf ''a'' 1]\<rparr>"
    by (simp add: enqueueRows_def pushRows_def SIZE_THRESHOLD_def emptyBuffer_def)
  have s3: "enqueueRows [rowOf ''b'' 2] (flushStart (emptyBuffer\<lparr>bf_buffer := [rowOf ''a'' 1]\<rparr>)) = midFlush"
    by (simp add: enqueueRows_def pushRows_def SIZE_THRESHOLD_def flushStart_def emptyBuffer_def midFlush_def)
  show ?thesis
    using bufRun.more [OF bufRun.more [OF bufRun.more [OF bufRun.stop bufStep.arrive] bufStep.tick] bufStep.arrive, of sa_assetId emptyBuffer "[rowOf ''a'' 1]" "[rowOf ''b'' 2]"]
    unfolding s1 s3 .
qed

theorem samples_conserved_witness:
  "\<exists>fin. [rowOf ''a'' 1, rowOf ''b'' 2] = fin @ bf_batch midFlush @ bf_buffer midFlush \<and> bf_stored midFlush = filter (\<lambda>r. sa_assetId r \<notin> {}) fin"
  using samples_conserved [OF mid_run] by (simp add: midFlush_def)

text \<open>The asset of the row being written is deleted; the write fails; a third row arrives.\<close>

theorem deleted_asset_blocks_table_witness:
  "bf_stored (enqueueRows [rowOf ''c'' 3] (flushFinish sa_assetId works (deleteAssetRows sa_assetId ''a'' midFlush))) = [] \<and>
   rowOf ''c'' 3 \<in> set (bf_batch (enqueueRows [rowOf ''c'' 3] (flushFinish sa_assetId works (deleteAssetRows sa_assetId ''a'' midFlush))) @
     bf_buffer (enqueueRows [rowOf ''c'' 3] (flushFinish sa_assetId works (deleteAssetRows sa_assetId ''a'' midFlush))))"
proof -
  let ?s = "deleteAssetRows sa_assetId ''a'' midFlush"
  have p: "poisoned sa_assetId ?s" "bf_flushing ?s" "bf_stored ?s = []"
    by (simp_all add: poisoned_def deleteAssetRows_def midFlush_def rowOf_def)
  have "bufRun sa_assetId ?s (([] @ []) @ [rowOf ''c'' 3]) (enqueueRows [rowOf ''c'' 3] (flushFinish sa_assetId works ?s))"
    by (rule bufRun.more [OF bufRun.more [OF bufRun.stop bufStep.finish [OF p(2)]] bufStep.arrive])
  from deleted_asset_blocks_table [OF p(1) this] show ?thesis using p(3) by auto
qed

theorem flush_survives_deadlocks_witness:
  "bf_stored (flushTable sa_assetId (\<lambda>n. if n < 3 then Some deadlockError else None) (emptyBuffer\<lparr>bf_buffer := [rowOf ''a'' 1]\<rparr>)) = [rowOf ''a'' 1]"
  using flush_survives_deadlocks [of "emptyBuffer\<lparr>bf_buffer := [rowOf ''a'' 1]\<rparr>" sa_assetId 3 "\<lambda>n. if n < 3 then Some deadlockError else None"]
  by (simp add: emptyBuffer_def extractPgCode_def deadlockError_def)

definition midBuffers :: sampleBuffers where
  "midBuffers = \<lparr>bu_monitor = midFlush, bu_telemetry = emptyBuffer, bu_temperature = emptyBuffer, bu_iface = emptyBuffer, bu_storage = emptyBuffer,
     bu_ipsecTunnel = emptyBuffer, bu_timer = True\<rparr>"

theorem shutdown_leaves_rows_witness: "rowOf ''b'' 2 \<in> set (bf_buffer (bu_monitor (shutdownFlushSampleBuffers works midBuffers)))"
  using shutdown_leaves_rows [of midBuffers "rowOf ''b'' 2" works] by (simp add: midBuffers_def midFlush_def)

end
