(* ===== verification/Rollup.thy ===== *)
theory Rollup
  imports SampleRows
begin

text \<open>
  The rollups of \<^verbatim>\<open>src/services/sampleRollupService.ts\<close> and the job that runs them,
  \<^verbatim>\<open>src/jobs/runSampleRollup.ts\<close>. Each of the twelve statements is
  \<^verbatim>\<open>INSERT ... SELECT ... GROUP BY ... ON CONFLICT DO UPDATE\<close>: \<open>insert_select\<close> gives the meaning of that shape, the
  aggregates are one definition each, and a statement is the columns it computes. The generated ids are left
  out. An average is exact; the cast of an average to \<^verbatim>\<open>bigint\<close> rounds, as in the database.
\<close>

section \<open>The statements\<close>

definition date_trunc :: "int \<Rightarrow> int \<Rightarrow> int" where
  "date_trunc width t = t - t mod width"

definition hour :: int where
  "hour = 3600 * 1000"

definition day :: int where
  "day = 86400 * 1000"

text \<open>Rows with the same key form a group; the row of a group replaces the stored row with its key.\<close>

definition groups :: "('r \<Rightarrow> 'k) \<Rightarrow> 'r list \<Rightarrow> ('k \<times> 'r list) list" where
  "groups key rows = map (\<lambda>k. (k, filter (\<lambda>r. key r = k) rows)) (remdups (map key rows))"

definition upsert :: "('b \<Rightarrow> 'k) \<Rightarrow> 'b list \<Rightarrow> 'b \<Rightarrow> 'b list" where
  "upsert key t b =
     (if list_ex (\<lambda>x. key x = key b) t then map (\<lambda>x. if key x = key b then b else x) t else t @ [b])"

definition insert_select :: "('r \<Rightarrow> 'k) \<Rightarrow> ('b \<Rightarrow> 'k) \<Rightarrow> ('k \<Rightarrow> 'r list \<Rightarrow> 'b) \<Rightarrow> 'r list \<Rightarrow> 'b list \<Rightarrow> nat \<times> 'b list" where
  "insert_select rkey bkey agg rows t =
     (let bs = map (\<lambda>(k, rs). agg k rs) (groups rkey rows) in (length bs, foldl (upsert bkey) t bs))"

section \<open>Aggregates\<close>

text \<open>An aggregate skips the rows where its argument is null, and is null if none is left.\<close>

definition vals :: "('r \<Rightarrow> 'a option) \<Rightarrow> 'r list \<Rightarrow> 'a list" where
  "vals f rows = List.map_filter f rows"

definition agg_min :: "'a::linorder list \<Rightarrow> 'a option" where
  "agg_min xs = (if xs = [] then None else Some (Min (set xs)))"

definition agg_max :: "'a::linorder list \<Rightarrow> 'a option" where
  "agg_max xs = (if xs = [] then None else Some (Max (set xs)))"

definition agg_avg :: "rat list \<Rightarrow> rat option" where
  "agg_avg xs = (if xs = [] then None else Some (sum_list xs / of_nat (length xs)))"

definition count_if :: "('r \<Rightarrow> bool) \<Rightarrow> 'r list \<Rightarrow> nat" where
  "count_if P rows = length (filter P rows)"

text \<open>\<^verbatim>\<open>x::bigint\<close> of a numeric rounds half away from zero.\<close>

definition to_bigint :: "rat \<Rightarrow> int" where
  "to_bigint x = (if 0 \<le> x then \<lfloor>x + 1 / 2\<rfloor> else - \<lfloor>1 / 2 - x\<rfloor>)"

text \<open>\<^verbatim>\<open>(ARRAY_AGG(f ORDER BY time) FILTER (WHERE f IS NOT NULL))[1]\<close>, ascending and descending.\<close>

definition first_by :: "('r \<Rightarrow> int) \<Rightarrow> ('r \<Rightarrow> 'a option) \<Rightarrow> 'r list \<Rightarrow> 'a option" where
  "first_by time f rows = (case sort_key time (filter (\<lambda>r. f r \<noteq> None) rows) of [] \<Rightarrow> None | r # _ \<Rightarrow> f r)"

definition last_by :: "('r \<Rightarrow> int) \<Rightarrow> ('r \<Rightarrow> 'a option) \<Rightarrow> 'r list \<Rightarrow> 'a option" where
  "last_by time f rows = (case sort_key (\<lambda>r. - time r) (filter (\<lambda>r. f r \<noteq> None) rows) of [] \<Rightarrow> None | r # _ \<Rightarrow> f r)"

text \<open>\<^verbatim>\<open>SUM(avg * n) / NULLIF(SUM(n), 0)\<close>.\<close>

definition weighted :: "('b \<Rightarrow> rat option) \<Rightarrow> ('b \<Rightarrow> nat) \<Rightarrow> 'b list \<Rightarrow> rat option" where
  "weighted avg n bs =
     (let ps = vals (\<lambda>b. map_option (\<lambda>a. a * of_nat (n b)) (avg b)) bs; total = sum_list (map n bs)
      in if ps = [] \<or> total = 0 then None else Some (sum_list ps / of_nat total))"

section \<open>Response times\<close>

record monitorBucket =
  mb_bucketStart :: int
  mb_assetId :: string
  mb_sampleCount :: nat
  mb_successCount :: nat
  mb_failureCount :: nat
  mb_avgResponseTimeMs :: "rat option"
  mb_minResponseTimeMs :: "int option"
  mb_maxResponseTimeMs :: "int option"

definition mb_key :: "monitorBucket \<Rightarrow> int \<times> string" where
  "mb_key b = (mb_bucketStart b, mb_assetId b)"

definition okTime :: "monitorSample \<Rightarrow> int option" where
  "okTime r = (if sa_success r then sa_responseTimeMs r else None)"

definition monitorHourlyRow :: "int \<times> string \<Rightarrow> monitorSample list \<Rightarrow> monitorBucket" where
  "monitorHourlyRow k rs =
     \<lparr>mb_bucketStart = fst k, mb_assetId = snd k, mb_sampleCount = length rs,
      mb_successCount = count_if sa_success rs, mb_failureCount = count_if (\<lambda>r. \<not> sa_success r) rs,
      mb_avgResponseTimeMs = agg_avg (map of_int (vals okTime rs)),
      mb_minResponseTimeMs = agg_min (vals okTime rs), mb_maxResponseTimeMs = agg_max (vals okTime rs)\<rparr>"

definition sqlMonitorHourly :: "int \<Rightarrow> monitorSample list \<Rightarrow> monitorBucket list \<Rightarrow> nat \<times> monitorBucket list" where
  "sqlMonitorHourly since rows =
     insert_select (\<lambda>r. (date_trunc hour (sa_timestamp r), sa_assetId r)) mb_key monitorHourlyRow (filter (\<lambda>r. since \<le> sa_timestamp r) rows)"

definition monitorDailyRow :: "int \<times> string \<Rightarrow> monitorBucket list \<Rightarrow> monitorBucket" where
  "monitorDailyRow k bs =
     \<lparr>mb_bucketStart = fst k, mb_assetId = snd k, mb_sampleCount = sum_list (map mb_sampleCount bs),
      mb_successCount = sum_list (map mb_successCount bs), mb_failureCount = sum_list (map mb_failureCount bs),
      mb_avgResponseTimeMs = weighted mb_avgResponseTimeMs mb_successCount bs,
      mb_minResponseTimeMs = agg_min (vals mb_minResponseTimeMs bs), mb_maxResponseTimeMs = agg_max (vals mb_maxResponseTimeMs bs)\<rparr>"

definition sqlMonitorDaily :: "int \<Rightarrow> monitorBucket list \<Rightarrow> monitorBucket list \<Rightarrow> nat \<times> monitorBucket list" where
  "sqlMonitorDaily since bs =
     insert_select (\<lambda>b. (date_trunc day (mb_bucketStart b), mb_assetId b)) mb_key monitorDailyRow (filter (\<lambda>b. since \<le> mb_bucketStart b) bs)"

section \<open>Processor and memory\<close>

record telemetryBucket =
  tb_bucketStart :: int
  tb_assetId :: string
  tb_sampleCount :: nat
  tb_avgCpuPct :: "rat option"
  tb_minCpuPct :: "rat option"
  tb_maxCpuPct :: "rat option"
  tb_avgMemPct :: "rat option"
  tb_minMemPct :: "rat option"
  tb_maxMemPct :: "rat option"
  tb_avgMemUsedBytes :: "int option"
  tb_maxMemUsedBytes :: "int option"
  tb_lastMemTotalBytes :: "int option"

definition tb_key :: "telemetryBucket \<Rightarrow> int \<times> string" where
  "tb_key b = (tb_bucketStart b, tb_assetId b)"

definition telemetryHourlyRow :: "int \<times> string \<Rightarrow> telemetrySample list \<Rightarrow> telemetryBucket" where
  "telemetryHourlyRow k rs =
     \<lparr>tb_bucketStart = fst k, tb_assetId = snd k, tb_sampleCount = length rs,
      tb_avgCpuPct = agg_avg (vals te_cpuPct rs), tb_minCpuPct = agg_min (vals te_cpuPct rs), tb_maxCpuPct = agg_max (vals te_cpuPct rs),
      tb_avgMemPct = agg_avg (vals te_memPct rs), tb_minMemPct = agg_min (vals te_memPct rs), tb_maxMemPct = agg_max (vals te_memPct rs),
      tb_avgMemUsedBytes = map_option to_bigint (agg_avg (map of_int (vals te_memUsedBytes rs))),
      tb_maxMemUsedBytes = agg_max (vals te_memUsedBytes rs), tb_lastMemTotalBytes = last_by te_timestamp te_memTotalBytes rs\<rparr>"

definition sqlTelemetryHourly :: "int \<Rightarrow> telemetrySample list \<Rightarrow> telemetryBucket list \<Rightarrow> nat \<times> telemetryBucket list" where
  "sqlTelemetryHourly since rows =
     insert_select (\<lambda>r. (date_trunc hour (te_timestamp r), te_assetId r)) tb_key telemetryHourlyRow (filter (\<lambda>r. since \<le> te_timestamp r) rows)"

definition telemetryDailyRow :: "int \<times> string \<Rightarrow> telemetryBucket list \<Rightarrow> telemetryBucket" where
  "telemetryDailyRow k bs =
     \<lparr>tb_bucketStart = fst k, tb_assetId = snd k, tb_sampleCount = sum_list (map tb_sampleCount bs),
      tb_avgCpuPct = weighted tb_avgCpuPct tb_sampleCount bs, tb_minCpuPct = agg_min (vals tb_minCpuPct bs), tb_maxCpuPct = agg_max (vals tb_maxCpuPct bs),
      tb_avgMemPct = weighted tb_avgMemPct tb_sampleCount bs, tb_minMemPct = agg_min (vals tb_minMemPct bs), tb_maxMemPct = agg_max (vals tb_maxMemPct bs),
      tb_avgMemUsedBytes = map_option to_bigint (weighted (\<lambda>b. map_option of_int (tb_avgMemUsedBytes b)) tb_sampleCount bs),
      tb_maxMemUsedBytes = agg_max (vals tb_maxMemUsedBytes bs), tb_lastMemTotalBytes = last_by tb_bucketStart tb_lastMemTotalBytes bs\<rparr>"

definition sqlTelemetryDaily :: "int \<Rightarrow> telemetryBucket list \<Rightarrow> telemetryBucket list \<Rightarrow> nat \<times> telemetryBucket list" where
  "sqlTelemetryDaily since bs =
     insert_select (\<lambda>b. (date_trunc day (tb_bucketStart b), tb_assetId b)) tb_key telemetryDailyRow (filter (\<lambda>b. since \<le> tb_bucketStart b) bs)"

section \<open>Temperatures and storage\<close>

record temperatureBucket =
  tc_bucketStart :: int
  tc_assetId :: string
  tc_sensorName :: string
  tc_sampleCount :: nat
  tc_avgCelsius :: "rat option"
  tc_minCelsius :: "rat option"
  tc_maxCelsius :: "rat option"

definition tc_key :: "temperatureBucket \<Rightarrow> int \<times> string \<times> string" where
  "tc_key b = (tc_bucketStart b, tc_assetId b, tc_sensorName b)"

definition temperatureHourlyRow :: "int \<times> string \<times> string \<Rightarrow> temperatureSample list \<Rightarrow> temperatureBucket" where
  "temperatureHourlyRow k rs =
     \<lparr>tc_bucketStart = fst k, tc_assetId = fst (snd k), tc_sensorName = snd (snd k), tc_sampleCount = length rs,
      tc_avgCelsius = agg_avg (vals tp_celsius rs), tc_minCelsius = agg_min (vals tp_celsius rs), tc_maxCelsius = agg_max (vals tp_celsius rs)\<rparr>"

definition sqlTemperatureHourly :: "int \<Rightarrow> temperatureSample list \<Rightarrow> temperatureBucket list \<Rightarrow> nat \<times> temperatureBucket list" where
  "sqlTemperatureHourly since rows =
     insert_select (\<lambda>r. (date_trunc hour (tp_timestamp r), tp_assetId r, tp_sensorName r)) tc_key temperatureHourlyRow
       (filter (\<lambda>r. since \<le> tp_timestamp r) rows)"

definition temperatureDailyRow :: "int \<times> string \<times> string \<Rightarrow> temperatureBucket list \<Rightarrow> temperatureBucket" where
  "temperatureDailyRow k bs =
     \<lparr>tc_bucketStart = fst k, tc_assetId = fst (snd k), tc_sensorName = snd (snd k), tc_sampleCount = sum_list (map tc_sampleCount bs),
      tc_avgCelsius = weighted tc_avgCelsius tc_sampleCount bs, tc_minCelsius = agg_min (vals tc_minCelsius bs), tc_maxCelsius = agg_max (vals tc_maxCelsius bs)\<rparr>"

definition sqlTemperatureDaily :: "int \<Rightarrow> temperatureBucket list \<Rightarrow> temperatureBucket list \<Rightarrow> nat \<times> temperatureBucket list" where
  "sqlTemperatureDaily since bs =
     insert_select (\<lambda>b. (date_trunc day (tc_bucketStart b), tc_assetId b, tc_sensorName b)) tc_key temperatureDailyRow
       (filter (\<lambda>b. since \<le> tc_bucketStart b) bs)"

record storageBucket =
  sb_bucketStart :: int
  sb_assetId :: string
  sb_mountPath :: string
  sb_sampleCount :: nat
  sb_avgUsedBytes :: "int option"
  sb_minUsedBytes :: "int option"
  sb_maxUsedBytes :: "int option"
  sb_lastTotalBytes :: "int option"

definition sb_key :: "storageBucket \<Rightarrow> int \<times> string \<times> string" where
  "sb_key b = (sb_bucketStart b, sb_assetId b, sb_mountPath b)"

definition storageHourlyRow :: "int \<times> string \<times> string \<Rightarrow> storageSample list \<Rightarrow> storageBucket" where
  "storageHourlyRow k rs =
     \<lparr>sb_bucketStart = fst k, sb_assetId = fst (snd k), sb_mountPath = snd (snd k), sb_sampleCount = length rs,
      sb_avgUsedBytes = map_option to_bigint (agg_avg (map of_int (vals sg_usedBytes rs))),
      sb_minUsedBytes = agg_min (vals sg_usedBytes rs), sb_maxUsedBytes = agg_max (vals sg_usedBytes rs),
      sb_lastTotalBytes = last_by sg_timestamp sg_totalBytes rs\<rparr>"

definition sqlStorageHourly :: "int \<Rightarrow> storageSample list \<Rightarrow> storageBucket list \<Rightarrow> nat \<times> storageBucket list" where
  "sqlStorageHourly since rows =
     insert_select (\<lambda>r. (date_trunc hour (sg_timestamp r), sg_assetId r, sg_mountPath r)) sb_key storageHourlyRow
       (filter (\<lambda>r. since \<le> sg_timestamp r) rows)"

definition storageDailyRow :: "int \<times> string \<times> string \<Rightarrow> storageBucket list \<Rightarrow> storageBucket" where
  "storageDailyRow k bs =
     \<lparr>sb_bucketStart = fst k, sb_assetId = fst (snd k), sb_mountPath = snd (snd k), sb_sampleCount = sum_list (map sb_sampleCount bs),
      sb_avgUsedBytes = map_option to_bigint (weighted (\<lambda>b. map_option of_int (sb_avgUsedBytes b)) sb_sampleCount bs),
      sb_minUsedBytes = agg_min (vals sb_minUsedBytes bs), sb_maxUsedBytes = agg_max (vals sb_maxUsedBytes bs),
      sb_lastTotalBytes = last_by sb_bucketStart sb_lastTotalBytes bs\<rparr>"

definition sqlStorageDaily :: "int \<Rightarrow> storageBucket list \<Rightarrow> storageBucket list \<Rightarrow> nat \<times> storageBucket list" where
  "sqlStorageDaily since bs =
     insert_select (\<lambda>b. (date_trunc day (sb_bucketStart b), sb_assetId b, sb_mountPath b)) sb_key storageDailyRow
       (filter (\<lambda>b. since \<le> sb_bucketStart b) bs)"

section \<open>Interfaces and tunnels\<close>

record interfaceBucket =
  ib_bucketStart :: int
  ib_assetId :: string
  ib_ifName :: string
  ib_sampleCount :: nat
  ib_firstInOctets :: "int option"
  ib_lastInOctets :: "int option"
  ib_firstOutOctets :: "int option"
  ib_lastOutOctets :: "int option"
  ib_firstInErrors :: "int option"
  ib_lastInErrors :: "int option"
  ib_firstOutErrors :: "int option"
  ib_lastOutErrors :: "int option"
  ib_maxSpeedBps :: "int option"
  ib_lastAdminStatus :: "string option"
  ib_lastOperStatus :: "string option"
  ib_lastIpAddress :: "string option"
  ib_lastMacAddress :: "string option"
  ib_lastAlias :: "string option"
  ib_lastDescription :: "string option"
  ib_lastIfType :: "string option"
  ib_lastIfParent :: "string option"
  ib_lastVlanId :: "int option"
  ib_lastBucketSampleAt :: int

definition ib_key :: "interfaceBucket \<Rightarrow> int \<times> string \<times> string" where
  "ib_key b = (ib_bucketStart b, ib_assetId b, ib_ifName b)"

definition interfaceHourlyRow :: "int \<times> string \<times> string \<Rightarrow> interfaceSample list \<Rightarrow> interfaceBucket" where
  "interfaceHourlyRow k rs =
     \<lparr>ib_bucketStart = fst k, ib_assetId = fst (snd k), ib_ifName = snd (snd k), ib_sampleCount = length rs,
      ib_firstInOctets = first_by if_timestamp if_inOctets rs, ib_lastInOctets = last_by if_timestamp if_inOctets rs,
      ib_firstOutOctets = first_by if_timestamp if_outOctets rs, ib_lastOutOctets = last_by if_timestamp if_outOctets rs,
      ib_firstInErrors = first_by if_timestamp if_inErrors rs, ib_lastInErrors = last_by if_timestamp if_inErrors rs,
      ib_firstOutErrors = first_by if_timestamp if_outErrors rs, ib_lastOutErrors = last_by if_timestamp if_outErrors rs,
      ib_maxSpeedBps = agg_max (vals if_speedBps rs),
      ib_lastAdminStatus = last_by if_timestamp if_adminStatus rs, ib_lastOperStatus = last_by if_timestamp if_operStatus rs,
      ib_lastIpAddress = last_by if_timestamp if_ipAddress rs, ib_lastMacAddress = last_by if_timestamp if_macAddress rs,
      ib_lastAlias = last_by if_timestamp if_alias rs, ib_lastDescription = last_by if_timestamp if_description rs,
      ib_lastIfType = last_by if_timestamp if_ifType rs, ib_lastIfParent = last_by if_timestamp if_ifParent rs,
      ib_lastVlanId = last_by if_timestamp if_vlanId rs, ib_lastBucketSampleAt = Max (if_timestamp ` set rs)\<rparr>"

definition sqlInterfaceHourly :: "int \<Rightarrow> interfaceSample list \<Rightarrow> interfaceBucket list \<Rightarrow> nat \<times> interfaceBucket list" where
  "sqlInterfaceHourly since rows =
     insert_select (\<lambda>r. (date_trunc hour (if_timestamp r), if_assetId r, if_ifName r)) ib_key interfaceHourlyRow
       (filter (\<lambda>r. since \<le> if_timestamp r) rows)"

definition interfaceDailyRow :: "int \<times> string \<times> string \<Rightarrow> interfaceBucket list \<Rightarrow> interfaceBucket" where
  "interfaceDailyRow k bs =
     \<lparr>ib_bucketStart = fst k, ib_assetId = fst (snd k), ib_ifName = snd (snd k), ib_sampleCount = sum_list (map ib_sampleCount bs),
      ib_firstInOctets = first_by ib_bucketStart ib_firstInOctets bs, ib_lastInOctets = last_by ib_bucketStart ib_lastInOctets bs,
      ib_firstOutOctets = first_by ib_bucketStart ib_firstOutOctets bs, ib_lastOutOctets = last_by ib_bucketStart ib_lastOutOctets bs,
      ib_firstInErrors = first_by ib_bucketStart ib_firstInErrors bs, ib_lastInErrors = last_by ib_bucketStart ib_lastInErrors bs,
      ib_firstOutErrors = first_by ib_bucketStart ib_firstOutErrors bs, ib_lastOutErrors = last_by ib_bucketStart ib_lastOutErrors bs,
      ib_maxSpeedBps = agg_max (vals ib_maxSpeedBps bs),
      ib_lastAdminStatus = last_by ib_bucketStart ib_lastAdminStatus bs, ib_lastOperStatus = last_by ib_bucketStart ib_lastOperStatus bs,
      ib_lastIpAddress = last_by ib_bucketStart ib_lastIpAddress bs, ib_lastMacAddress = last_by ib_bucketStart ib_lastMacAddress bs,
      ib_lastAlias = last_by ib_bucketStart ib_lastAlias bs, ib_lastDescription = last_by ib_bucketStart ib_lastDescription bs,
      ib_lastIfType = last_by ib_bucketStart ib_lastIfType bs, ib_lastIfParent = last_by ib_bucketStart ib_lastIfParent bs,
      ib_lastVlanId = last_by ib_bucketStart ib_lastVlanId bs, ib_lastBucketSampleAt = Max (ib_lastBucketSampleAt ` set bs)\<rparr>"

definition sqlInterfaceDaily :: "int \<Rightarrow> interfaceBucket list \<Rightarrow> interfaceBucket list \<Rightarrow> nat \<times> interfaceBucket list" where
  "sqlInterfaceDaily since bs =
     insert_select (\<lambda>b. (date_trunc day (ib_bucketStart b), ib_assetId b, ib_ifName b)) ib_key interfaceDailyRow
       (filter (\<lambda>b. since \<le> ib_bucketStart b) bs)"

record ipsecBucket =
  pb_bucketStart :: int
  pb_assetId :: string
  pb_tunnelName :: string
  pb_sampleCount :: nat
  pb_statusUpCount :: nat
  pb_statusDownCount :: nat
  pb_statusPartialCount :: nat
  pb_statusDynamicCount :: nat
  pb_firstIncomingBytes :: "int option"
  pb_lastIncomingBytes :: "int option"
  pb_firstOutgoingBytes :: "int option"
  pb_lastOutgoingBytes :: "int option"
  pb_lastRemoteGateway :: "string option"
  pb_lastParentInterface :: "string option"
  pb_lastProxyIdCount :: "int option"
  pb_lastBucketSampleAt :: int

definition pb_key :: "ipsecBucket \<Rightarrow> int \<times> string \<times> string" where
  "pb_key b = (pb_bucketStart b, pb_assetId b, pb_tunnelName b)"

definition ipsecHourlyRow :: "int \<times> string \<times> string \<Rightarrow> ipsecSample list \<Rightarrow> ipsecBucket" where
  "ipsecHourlyRow k rs =
     \<lparr>pb_bucketStart = fst k, pb_assetId = fst (snd k), pb_tunnelName = snd (snd k), pb_sampleCount = length rs,
      pb_statusUpCount = count_if (\<lambda>r. ip_status r = ''up'') rs, pb_statusDownCount = count_if (\<lambda>r. ip_status r = ''down'') rs,
      pb_statusPartialCount = count_if (\<lambda>r. ip_status r = ''partial'') rs, pb_statusDynamicCount = count_if (\<lambda>r. ip_status r = ''dynamic'') rs,
      pb_firstIncomingBytes = first_by ip_timestamp ip_incomingBytes rs, pb_lastIncomingBytes = last_by ip_timestamp ip_incomingBytes rs,
      pb_firstOutgoingBytes = first_by ip_timestamp ip_outgoingBytes rs, pb_lastOutgoingBytes = last_by ip_timestamp ip_outgoingBytes rs,
      pb_lastRemoteGateway = last_by ip_timestamp ip_remoteGateway rs, pb_lastParentInterface = last_by ip_timestamp ip_parentInterface rs,
      pb_lastProxyIdCount = last_by ip_timestamp ip_proxyIdCount rs, pb_lastBucketSampleAt = Max (ip_timestamp ` set rs)\<rparr>"

definition sqlIpsecHourly :: "int \<Rightarrow> ipsecSample list \<Rightarrow> ipsecBucket list \<Rightarrow> nat \<times> ipsecBucket list" where
  "sqlIpsecHourly since rows =
     insert_select (\<lambda>r. (date_trunc hour (ip_timestamp r), ip_assetId r, ip_tunnelName r)) pb_key ipsecHourlyRow
       (filter (\<lambda>r. since \<le> ip_timestamp r) rows)"

definition ipsecDailyRow :: "int \<times> string \<times> string \<Rightarrow> ipsecBucket list \<Rightarrow> ipsecBucket" where
  "ipsecDailyRow k bs =
     \<lparr>pb_bucketStart = fst k, pb_assetId = fst (snd k), pb_tunnelName = snd (snd k), pb_sampleCount = sum_list (map pb_sampleCount bs),
      pb_statusUpCount = sum_list (map pb_statusUpCount bs), pb_statusDownCount = sum_list (map pb_statusDownCount bs),
      pb_statusPartialCount = sum_list (map pb_statusPartialCount bs), pb_statusDynamicCount = sum_list (map pb_statusDynamicCount bs),
      pb_firstIncomingBytes = first_by pb_bucketStart pb_firstIncomingBytes bs, pb_lastIncomingBytes = last_by pb_bucketStart pb_lastIncomingBytes bs,
      pb_firstOutgoingBytes = first_by pb_bucketStart pb_firstOutgoingBytes bs, pb_lastOutgoingBytes = last_by pb_bucketStart pb_lastOutgoingBytes bs,
      pb_lastRemoteGateway = last_by pb_bucketStart pb_lastRemoteGateway bs, pb_lastParentInterface = last_by pb_bucketStart pb_lastParentInterface bs,
      pb_lastProxyIdCount = last_by pb_bucketStart pb_lastProxyIdCount bs, pb_lastBucketSampleAt = Max (pb_lastBucketSampleAt ` set bs)\<rparr>"

definition sqlIpsecDaily :: "int \<Rightarrow> ipsecBucket list \<Rightarrow> ipsecBucket list \<Rightarrow> nat \<times> ipsecBucket list" where
  "sqlIpsecDaily since bs =
     insert_select (\<lambda>b. (date_trunc day (pb_bucketStart b), pb_assetId b, pb_tunnelName b)) pb_key ipsecDailyRow
       (filter (\<lambda>b. since \<le> pb_bucketStart b) bs)"

section \<open>All tables\<close>

datatype rollupTier = Hourly | Daily

datatype sourceTable = SMonitor | STelemetry | STemperature | SInterface | SStorage | SIpsec

text \<open>A detail table with its two rollups.\<close>

record ('r, 'b) tiers =
  tt_detail :: "'r list"
  tt_hourly :: "'b list"
  tt_daily :: "'b list"

record sampleTables =
  st_monitor :: "(monitorSample, monitorBucket) tiers"
  st_telemetry :: "(telemetrySample, telemetryBucket) tiers"
  st_temperature :: "(temperatureSample, temperatureBucket) tiers"
  st_interface :: "(interfaceSample, interfaceBucket) tiers"
  st_storage :: "(storageSample, storageBucket) tiers"
  st_ipsec :: "(ipsecSample, ipsecBucket) tiers"

definition rollTiers ::
  "(int \<Rightarrow> 'r list \<Rightarrow> 'b list \<Rightarrow> nat \<times> 'b list) \<Rightarrow> (int \<Rightarrow> 'b list \<Rightarrow> 'b list \<Rightarrow> nat \<times> 'b list) \<Rightarrow>
   rollupTier \<Rightarrow> int \<Rightarrow> ('r, 'b) tiers \<Rightarrow> nat \<times> ('r, 'b) tiers" where
  "rollTiers hourly daily tier since t =
     (case tier of
        Hourly \<Rightarrow> (let (n, bs) = hourly since (tt_detail t) (tt_hourly t) in (n, t\<lparr>tt_hourly := bs\<rparr>))
      | Daily \<Rightarrow> (let (n, bs) = daily since (tt_hourly t) (tt_daily t) in (n, t\<lparr>tt_daily := bs\<rparr>)))"

fun buildSql :: "sourceTable \<Rightarrow> rollupTier \<Rightarrow> int \<Rightarrow> sampleTables \<Rightarrow> nat \<times> sampleTables" where
  "buildSql SMonitor tier since t =
     (let (n, x) = rollTiers sqlMonitorHourly sqlMonitorDaily tier since (st_monitor t) in (n, t\<lparr>st_monitor := x\<rparr>))"
| "buildSql STelemetry tier since t =
     (let (n, x) = rollTiers sqlTelemetryHourly sqlTelemetryDaily tier since (st_telemetry t) in (n, t\<lparr>st_telemetry := x\<rparr>))"
| "buildSql STemperature tier since t =
     (let (n, x) = rollTiers sqlTemperatureHourly sqlTemperatureDaily tier since (st_temperature t) in (n, t\<lparr>st_temperature := x\<rparr>))"
| "buildSql SInterface tier since t =
     (let (n, x) = rollTiers sqlInterfaceHourly sqlInterfaceDaily tier since (st_interface t) in (n, t\<lparr>st_interface := x\<rparr>))"
| "buildSql SStorage tier since t =
     (let (n, x) = rollTiers sqlStorageHourly sqlStorageDaily tier since (st_storage t) in (n, t\<lparr>st_storage := x\<rparr>))"
| "buildSql SIpsec tier since t =
     (let (n, x) = rollTiers sqlIpsecHourly sqlIpsecDaily tier since (st_ipsec t) in (n, t\<lparr>st_ipsec := x\<rparr>))"

record rollupResult =
  rr_source :: sourceTable
  rr_tier :: rollupTier
  rr_rowsTouched :: nat

text \<open>
  Whether the database throws on a statement is a parameter. A throw is logged and leaves the tables as they
  were; the next table is rolled up all the same.
\<close>

definition runOne :: "(sourceTable \<Rightarrow> bool) \<Rightarrow> sourceTable \<Rightarrow> rollupTier \<Rightarrow> int \<Rightarrow> sampleTables \<Rightarrow> rollupResult \<times> sampleTables" where
  "runOne throws src tier since t =
     (let (n, t') = (if throws src then (0, t) else buildSql src tier since t)
      in (\<lparr>rr_source = src, rr_tier = tier, rr_rowsTouched = n\<rparr>, t'))"

definition DEFS :: "sourceTable list" where
  "DEFS = [SMonitor, STelemetry, STemperature, SInterface, SStorage, SIpsec]"

fun runAllOf :: "(sourceTable \<Rightarrow> bool) \<Rightarrow> sourceTable list \<Rightarrow> rollupTier \<Rightarrow> int \<Rightarrow> sampleTables \<Rightarrow> rollupResult list \<times> sampleTables" where
  "runAllOf throws [] tier since t = ([], t)"
| "runAllOf throws (d # ds) tier since t =
     (let (r, t1) = runOne throws d tier since t; (rs, t2) = runAllOf throws ds tier since t1 in (r # rs, t2))"

definition rollupHourly :: "(sourceTable \<Rightarrow> bool) \<Rightarrow> int \<Rightarrow> int \<Rightarrow> sampleTables \<Rightarrow> rollupResult list \<times> sampleTables" where
  "rollupHourly throws lookbackHours now = runAllOf throws DEFS Hourly (now - lookbackHours * 3600 * 1000)"

definition rollupDaily :: "(sourceTable \<Rightarrow> bool) \<Rightarrow> int \<Rightarrow> int \<Rightarrow> sampleTables \<Rightarrow> rollupResult list \<times> sampleTables" where
  "rollupDaily throws lookbackDays now = runAllOf throws DEFS Daily (now - lookbackDays * 86400 * 1000)"

section \<open>The job\<close>

text \<open>
  The two loops tick with a lookback of two hours and two days. \<^verbatim>\<open>stampLastSuccess\<close> records the time and the rows
  of each table in the setting of the tier; if it throws, the tick logs and the setting stays.
\<close>

record rollupJob =
  rj_tables :: sampleTables
  rj_runningHourly :: bool
  rj_runningDaily :: bool
  rj_stamp :: "rollupTier \<Rightarrow> (int \<times> (sourceTable \<times> nat) list) option"

definition stampLastSuccess :: "bool \<Rightarrow> rollupTier \<Rightarrow> rollupResult list \<Rightarrow> int \<Rightarrow> rollupJob \<Rightarrow> rollupJob" where
  "stampLastSuccess stampThrows tier results now j =
     (if stampThrows then j
      else j\<lparr>rj_stamp := (rj_stamp j)(tier \<mapsto> (now, map (\<lambda>r. (rr_source r, rr_rowsTouched r)) results))\<rparr>)"

definition tickHourly :: "(sourceTable \<Rightarrow> bool) \<Rightarrow> bool \<Rightarrow> int \<Rightarrow> rollupJob \<Rightarrow> rollupJob" where
  "tickHourly throws stampThrows now j =
     (if rj_runningHourly j then j
      else (let (results, t) = rollupHourly throws 2 now (rj_tables j)
            in (stampLastSuccess stampThrows Hourly results now (j\<lparr>rj_tables := t\<rparr>))\<lparr>rj_runningHourly := False\<rparr>))"

definition tickDaily :: "(sourceTable \<Rightarrow> bool) \<Rightarrow> bool \<Rightarrow> int \<Rightarrow> rollupJob \<Rightarrow> rollupJob" where
  "tickDaily throws stampThrows now j =
     (if rj_runningDaily j then j
      else (let (results, t) = rollupDaily throws 2 now (rj_tables j)
            in (stampLastSuccess stampThrows Daily results now (j\<lparr>rj_tables := t\<rparr>))\<lparr>rj_runningDaily := False\<rparr>))"

definition msUntilNextUtc :: "int \<Rightarrow> int \<Rightarrow> int \<Rightarrow> int" where
  "msUntilNextUtc hourUtc minuteUtc now =
     (let nxt = date_trunc day now + hourUtc * hour + minuteUtc * 60 * 1000
      in (if nxt \<le> now then nxt + day else nxt) - now)"

end
