(* ===== verification/RollupSpec.thy ===== *)
theory RollupSpec
  imports "HOL-Library.Multiset" Prelude Rollup
begin

text \<open>
  What the rollups store. The contract of the twelve statements is one locale: the row of a key after a
  statement is the aggregate of the selected rows, or what was there if none was selected; keys stay unique; and
  running the same statement twice is running it once. On top of it: what the two loops leave in a bucket once
  they have passed it, when the two stages agree with one, and when the daily mean does not.
\<close>

section \<open>The contract of a statement\<close>

text \<open>A row is settled in a table that holds it and nothing else under its key.\<close>

definition settled :: "('b \<Rightarrow> 'k) \<Rightarrow> 'b list \<Rightarrow> 'b \<Rightarrow> bool" where
  "settled bkey t b \<longleftrightarrow> (\<exists>x \<in> set t. bkey x = bkey b) \<and> (\<forall>x \<in> set t. bkey x = bkey b \<longrightarrow> x = b)"

locale statement =
  fixes rkey :: "'r \<Rightarrow> 'k"
    and bkey :: "'b \<Rightarrow> 'k"
    and agg :: "'k \<Rightarrow> 'r list \<Rightarrow> 'b"
  assumes key_agg: "bkey (agg k rs) = k"
begin

lemma upsert_find: "find (\<lambda>x. bkey x = k) (upsert bkey t b) = (if bkey b = k then Some b else find (\<lambda>x. bkey x = k) t)"
proof -
  have repl: "find (\<lambda>x. bkey x = k) (map (\<lambda>x. if bkey x = bkey b then b else x) t) =
      (if bkey b = k \<and> list_ex (\<lambda>x. bkey x = k) t then Some b else if bkey b = k then None else find (\<lambda>x. bkey x = k) t)"
    by (induction t) auto
  have app: "find (\<lambda>x. bkey x = k) (t @ [b]) = (if bkey b = k then Some b else find (\<lambda>x. bkey x = k) t)" if "\<not> list_ex (\<lambda>x. bkey x = bkey b) t"
    using that by (induction t) auto
  show ?thesis using repl app by (auto simp: upsert_def)
qed

lemma upsert_keys: "set (map bkey (upsert bkey t b)) = insert (bkey b) (bkey ` set t)" "distinct (map bkey t) \<Longrightarrow> distinct (map bkey (upsert bkey t b))"
proof -
  have m: "map bkey (map (\<lambda>x. if bkey x = bkey b then b else x) t) = map bkey t" by (induction t) auto
  show "set (map bkey (upsert bkey t b)) = insert (bkey b) (bkey ` set t)"
    using arg_cong [OF m, of set] by (auto simp: upsert_def list_ex_iff)
  show "distinct (map bkey t) \<Longrightarrow> distinct (map bkey (upsert bkey t b))"
    using m by (auto simp: upsert_def list_ex_iff simp del: map_map)
qed

lemma foldl_find:
  "distinct (map bkey bs) \<Longrightarrow> find (\<lambda>x. bkey x = k) (foldl (upsert bkey) t bs) =
     (case find (\<lambda>x. bkey x = k) bs of Some b \<Rightarrow> Some b | None \<Rightarrow> find (\<lambda>x. bkey x = k) t)"
proof (induction bs arbitrary: t)
  case (Cons b bs)
  then have "bkey b = k \<Longrightarrow> find (\<lambda>x. bkey x = k) bs = None" by (auto simp: find_None_iff rev_image_eqI)
  then show ?case using Cons by (auto simp: upsert_find split: option.split)
qed simp

lemma group_rows_keys: "map bkey (map (\<lambda>(k, rs). agg k rs) (groups rkey rows)) = remdups (map rkey rows)"
  by (simp add: groups_def key_agg comp_def)

lemma group_rows_find:
  "find (\<lambda>x. bkey x = k) (map (\<lambda>(k, rs). agg k rs) (groups rkey rows)) =
     (if k \<in> rkey ` set rows then Some (agg k (filter (\<lambda>r. rkey r = k) rows)) else None)"
proof -
  have "find (\<lambda>x. bkey x = k) (map (\<lambda>k. agg k (filter (\<lambda>r. rkey r = k) rows)) ks) =
      (if k \<in> set ks then Some (agg k (filter (\<lambda>r. rkey r = k) rows)) else None)" for ks
    by (induction ks) (auto simp: key_agg)
  then show ?thesis by (simp add: groups_def comp_def)
qed

lemma insert_find:
  "find (\<lambda>b. bkey b = k) (snd (insert_select rkey bkey agg rows t)) =
     (if k \<in> rkey ` set rows then Some (agg k (filter (\<lambda>r. rkey r = k) rows)) else find (\<lambda>b. bkey b = k) t)"
  using foldl_find [of "map (\<lambda>(k, rs). agg k rs) (groups rkey rows)" k t]
  by (simp add: insert_select_def Let_def group_rows_keys group_rows_find del: map_map)

lemma insert_distinct: "distinct (map bkey t) \<Longrightarrow> distinct (map bkey (snd (insert_select rkey bkey agg rows t)))"
proof -
  have "distinct (map bkey t) \<Longrightarrow> distinct (map bkey (foldl (upsert bkey) t bs))" for bs
    by (induction bs arbitrary: t) (simp_all add: upsert_keys(2))
  then show "distinct (map bkey t) \<Longrightarrow> distinct (map bkey (snd (insert_select rkey bkey agg rows t)))" by (simp add: insert_select_def Let_def)
qed

lemma upsert_settled: "settled bkey t b \<Longrightarrow> upsert bkey t b = t" "settled bkey (upsert bkey t b) b"
  "settled bkey t c \<Longrightarrow> bkey c \<noteq> bkey b \<Longrightarrow> settled bkey (upsert bkey t b) c"
  by (auto simp: settled_def upsert_def list_ex_iff intro!: map_idI)

lemma foldl_settled: "\<forall>b \<in> set bs. settled bkey t b \<Longrightarrow> foldl (upsert bkey) t bs = t"
  by (induction bs) (auto simp: upsert_settled(1))

lemma foldl_settles: "distinct (map bkey bs) \<Longrightarrow> (\<forall>c \<in> set cs. settled bkey t c) \<Longrightarrow> distinct (map bkey (cs @ bs)) \<Longrightarrow>
  \<forall>b \<in> set (cs @ bs). settled bkey (foldl (upsert bkey) t bs) b"
proof (induction bs arbitrary: t cs)
  case (Cons b bs)
  have "\<forall>c \<in> set (cs @ [b]). settled bkey (upsert bkey t b) c" using Cons.prems upsert_settled(2,3) by (fastforce simp: image_iff)
  then show ?case using Cons.IH [of "cs @ [b]" "upsert bkey t b"] Cons.prems by simp
qed simp

lemma insert_idem: "insert_select rkey bkey agg rows (snd (insert_select rkey bkey agg rows t)) = insert_select rkey bkey agg rows t"
proof -
  let ?bs = "map (\<lambda>(k, rs). agg k rs) (groups rkey rows)"
  have "distinct (map bkey ?bs)" unfolding group_rows_keys by simp
  then have "\<forall>b \<in> set ?bs. settled bkey (foldl (upsert bkey) t ?bs) b" using foldl_settles [of ?bs "[]" t] by simp
  then show ?thesis using foldl_settled [of ?bs "foldl (upsert bkey) t ?bs"] by (simp add: insert_select_def Let_def)
qed

text \<open>Into an empty table the statement writes its groups.\<close>

lemma insert_empty: "snd (insert_select rkey bkey agg rows []) = map (\<lambda>(k, rs). agg k rs) (groups rkey rows)"
proof -
  have "distinct (map bkey (t @ bs)) \<Longrightarrow> foldl (upsert bkey) t bs = t @ bs" for t bs
  proof (induction bs arbitrary: t)
    case (Cons b bs)
    then have "upsert bkey t b = t @ [b]" by (auto simp: upsert_def list_ex_iff rev_image_eqI)
    then show ?case using Cons.IH [of "t @ [b]"] Cons.prems by simp
  qed simp
  from this [of "[]" "map (\<lambda>(k, rs). agg k rs) (groups rkey rows)"] show ?thesis
    by (simp add: insert_select_def Let_def group_rows_keys del: map_map)
qed

end

interpretation monitor_hourly: statement "\<lambda>r. (date_trunc hour (sa_timestamp r), sa_assetId r)" mb_key monitorHourlyRow
  by unfold_locales (simp add: mb_key_def monitorHourlyRow_def)

interpretation monitor_daily: statement "\<lambda>b. (date_trunc day (mb_bucketStart b), mb_assetId b)" mb_key monitorDailyRow
  by unfold_locales (simp add: mb_key_def monitorDailyRow_def)

interpretation telemetry_hourly: statement "\<lambda>r. (date_trunc hour (te_timestamp r), te_assetId r)" tb_key telemetryHourlyRow
  by unfold_locales (simp add: tb_key_def telemetryHourlyRow_def)

interpretation telemetry_daily: statement "\<lambda>b. (date_trunc day (tb_bucketStart b), tb_assetId b)" tb_key telemetryDailyRow
  by unfold_locales (simp add: tb_key_def telemetryDailyRow_def)

interpretation temperature_hourly: statement "\<lambda>r. (date_trunc hour (tp_timestamp r), tp_assetId r, tp_sensorName r)" tc_key temperatureHourlyRow
  by unfold_locales (simp add: tc_key_def temperatureHourlyRow_def)

interpretation temperature_daily: statement "\<lambda>b. (date_trunc day (tc_bucketStart b), tc_assetId b, tc_sensorName b)" tc_key temperatureDailyRow
  by unfold_locales (simp add: tc_key_def temperatureDailyRow_def)

interpretation storage_hourly: statement "\<lambda>r. (date_trunc hour (sg_timestamp r), sg_assetId r, sg_mountPath r)" sb_key storageHourlyRow
  by unfold_locales (simp add: sb_key_def storageHourlyRow_def)

interpretation storage_daily: statement "\<lambda>b. (date_trunc day (sb_bucketStart b), sb_assetId b, sb_mountPath b)" sb_key storageDailyRow
  by unfold_locales (simp add: sb_key_def storageDailyRow_def)

interpretation interface_hourly: statement "\<lambda>r. (date_trunc hour (if_timestamp r), if_assetId r, if_ifName r)" ib_key interfaceHourlyRow
  by unfold_locales (simp add: ib_key_def interfaceHourlyRow_def)

interpretation interface_daily: statement "\<lambda>b. (date_trunc day (ib_bucketStart b), ib_assetId b, ib_ifName b)" ib_key interfaceDailyRow
  by unfold_locales (simp add: ib_key_def interfaceDailyRow_def)

interpretation ipsec_hourly: statement "\<lambda>r. (date_trunc hour (ip_timestamp r), ip_assetId r, ip_tunnelName r)" pb_key ipsecHourlyRow
  by unfold_locales (simp add: pb_key_def ipsecHourlyRow_def)

interpretation ipsec_daily: statement "\<lambda>b. (date_trunc day (pb_bucketStart b), pb_assetId b, pb_tunnelName b)" pb_key ipsecDailyRow
  by unfold_locales (simp add: pb_key_def ipsecDailyRow_def)

section \<open>All tables\<close>

lemmas hourly_sql = sqlMonitorHourly_def sqlTelemetryHourly_def sqlTemperatureHourly_def sqlStorageHourly_def sqlInterfaceHourly_def sqlIpsecHourly_def
lemmas daily_sql = sqlMonitorDaily_def sqlTelemetryDaily_def sqlTemperatureDaily_def sqlStorageDaily_def sqlInterfaceDaily_def sqlIpsecDaily_def

lemmas hourly_idem = monitor_hourly.insert_idem telemetry_hourly.insert_idem temperature_hourly.insert_idem storage_hourly.insert_idem
  interface_hourly.insert_idem ipsec_hourly.insert_idem
lemmas daily_idem = monitor_daily.insert_idem telemetry_daily.insert_idem temperature_daily.insert_idem storage_daily.insert_idem
  interface_daily.insert_idem ipsec_daily.insert_idem

lemma run_tables:
  "snd (runAllOf throws DEFS tier since t) =
     \<lparr>st_monitor = (if throws SMonitor then st_monitor t else snd (rollTiers sqlMonitorHourly sqlMonitorDaily tier since (st_monitor t))),
      st_telemetry = (if throws STelemetry then st_telemetry t else snd (rollTiers sqlTelemetryHourly sqlTelemetryDaily tier since (st_telemetry t))),
      st_temperature = (if throws STemperature then st_temperature t else snd (rollTiers sqlTemperatureHourly sqlTemperatureDaily tier since (st_temperature t))),
      st_interface = (if throws SInterface then st_interface t else snd (rollTiers sqlInterfaceHourly sqlInterfaceDaily tier since (st_interface t))),
      st_storage = (if throws SStorage then st_storage t else snd (rollTiers sqlStorageHourly sqlStorageDaily tier since (st_storage t))),
      st_ipsec = (if throws SIpsec then st_ipsec t else snd (rollTiers sqlIpsecHourly sqlIpsecDaily tier since (st_ipsec t)))\<rparr>"
  by (simp add: DEFS_def runOne_def Let_def split_def)

lemma rollTiers_idem:
  assumes "\<And>rows t. snd (h since rows (snd (h since rows t))) = snd (h since rows t)" "\<And>bs t. snd (d since bs (snd (d since bs t))) = snd (d since bs t)"
  shows "snd (rollTiers h d tier since (snd (rollTiers h d tier since x))) = snd (rollTiers h d tier since x)"
  using assms by (cases tier) (simp_all add: rollTiers_def Let_def split_def)

text \<open>
  A rollup can be repeated: running all six statements of a tier again over the same window, also when some of
  them throw, changes no table.
\<close>

theorem rollup_idempotent:
  "snd (rollupHourly throws hours now (snd (rollupHourly throws hours now t))) = snd (rollupHourly throws hours now t) \<and>
   snd (rollupDaily throws days now (snd (rollupDaily throws days now t))) = snd (rollupDaily throws days now t)"
proof -
  note idem = rollTiers_idem [of sqlMonitorHourly _ sqlMonitorDaily] rollTiers_idem [of sqlTelemetryHourly _ sqlTelemetryDaily]
    rollTiers_idem [of sqlTemperatureHourly _ sqlTemperatureDaily] rollTiers_idem [of sqlInterfaceHourly _ sqlInterfaceDaily]
    rollTiers_idem [of sqlStorageHourly _ sqlStorageDaily] rollTiers_idem [of sqlIpsecHourly _ sqlIpsecDaily]
  have "snd (runAllOf throws DEFS tier since (snd (runAllOf throws DEFS tier since t))) = snd (runAllOf throws DEFS tier since t)" for tier since
    unfolding run_tables by (simp add: idem hourly_sql daily_sql hourly_idem daily_idem)
  then show ?thesis by (simp add: rollupHourly_def rollupDaily_def)
qed

section \<open>What the loops leave in a bucket\<close>

text \<open>New samples arrive between the ticks of the hourly loop.\<close>

definition deliver :: "monitorSample list \<Rightarrow> rollupJob \<Rightarrow> rollupJob" where
  "deliver new j = j\<lparr>rj_tables := (rj_tables j)\<lparr>st_monitor := (st_monitor (rj_tables j))\<lparr>tt_detail := tt_detail (st_monitor (rj_tables j)) @ new\<rparr>\<rparr>\<rparr>"

definition hourlyTick :: "(sourceTable \<Rightarrow> bool) \<Rightarrow> rollupJob \<Rightarrow> int \<times> monitorSample list \<Rightarrow> rollupJob" where
  "hourlyTick throws j p = tickHourly throws False (fst p) (deliver (snd p) j)"

definition detailOf :: "rollupJob \<Rightarrow> monitorSample list" where
  "detailOf j = tt_detail (st_monitor (rj_tables j))"

definition hourlyBucket :: "int \<Rightarrow> string \<Rightarrow> rollupJob \<Rightarrow> monitorBucket option" where
  "hourlyBucket start i j = find (\<lambda>b. mb_key b = (start, i)) (tt_hourly (st_monitor (rj_tables j)))"

definition samplesIn :: "int \<Rightarrow> int \<Rightarrow> string \<Rightarrow> monitorSample list \<Rightarrow> monitorSample list" where
  "samplesIn from til i rows = filter (\<lambda>r. sa_assetId r = i \<and> from \<le> sa_timestamp r \<and> sa_timestamp r < til) rows"

lemma date_trunc_iff:
  assumes "0 < w" "start mod w = 0"
  shows "date_trunc w t = start \<longleftrightarrow> start \<le> t \<and> t < start + w"
proof
  assume "date_trunc w t = start"
  then have "t = start + t mod w" by (simp add: date_trunc_def)
  then show "start \<le> t \<and> t < start + w" using pos_mod_bound [OF assms(1), of t] pos_mod_sign [OF assms(1), of t] by linarith
next
  assume b: "start \<le> t \<and> t < start + w"
  then have "(t - start) mod w = t - start" by (simp add: mod_pos_pos_trivial)
  moreover have "(start mod w + (t - start)) mod w = t mod w" by (simp only: mod_add_left_eq) simp
  ultimately have "t mod w = t - start" using assms(2) by simp
  then show "date_trunc w t = start" by (simp add: date_trunc_def)
qed

lemma hour_pos: "0 < hour" and day_pos: "0 < day"
  by (simp_all add: hour_def day_def)

lemma tick_parts:
  "detailOf (hourlyTick throws j p) = detailOf j @ snd p" "rj_runningHourly (hourlyTick throws j p) = rj_runningHourly j"
  by (simp_all add: hourlyTick_def tickHourly_def deliver_def detailOf_def stampLastSuccess_def rollupHourly_def run_tables rollTiers_def Let_def split_def)

lemma image_filter: "k \<in> f ` set xs \<longleftrightarrow> filter (\<lambda>x. f x = k) xs \<noteq> []"
  by (auto simp: filter_empty_conv)

lemma tick_bucket:
  assumes "start mod hour = 0" "\<not> rj_runningHourly j" "\<not> throws SMonitor"
  shows "hourlyBucket start i (hourlyTick throws j p) =
    (let rs = samplesIn (max start (fst p - 2 * hour)) (start + hour) i (detailOf j @ snd p)
     in if rs = [] then hourlyBucket start i j else Some (monitorHourlyRow (start, i) rs))"
proof -
  let ?rows = "filter (\<lambda>r. fst p - 2 * hour \<le> sa_timestamp r) (detailOf j @ snd p)"
  have sel: "filter (\<lambda>r. (date_trunc hour (sa_timestamp r), sa_assetId r) = (start, i)) ?rows =
      samplesIn (max start (fst p - 2 * hour)) (start + hour) i (detailOf j @ snd p)"
    unfolding samplesIn_def filter_filter by (rule filter_cong) (auto simp: date_trunc_iff [OF hour_pos assms(1)])
  show ?thesis
    using assms monitor_hourly.insert_find [of "(start, i)" ?rows "tt_hourly (st_monitor (rj_tables j))"] unfolding image_filter sel
    by (simp add: hourlyTick_def tickHourly_def deliver_def detailOf_def hourlyBucket_def stampLastSuccess_def rollupHourly_def run_tables
        rollTiers_def sqlMonitorHourly_def Let_def split_def hour_def)
qed

lemma later_ticks:
  assumes "start mod hour = 0" "\<not> rj_runningHourly j" "\<not> throws SMonitor" "\<forall>p \<in> set ps. start + 3 * hour \<le> fst p"
  shows "hourlyBucket start i (foldl (hourlyTick throws) j ps) = hourlyBucket start i j"
  using assms(2,4)
proof (induction ps arbitrary: j)
  case (Cons p ps)
  have "samplesIn (max start (fst p - 2 * hour)) (start + hour) i (detailOf j @ snd p) = []"
    using Cons.prems(2) by (auto simp: samplesIn_def filter_empty_conv)
  then have "hourlyBucket start i (hourlyTick throws j p) = hourlyBucket start i j" using tick_bucket [of start j throws i p] assms(1,3) Cons.prems(1) by simp
  then show ?case using Cons by (simp add: tick_parts)
qed simp

lemma ticks_parts:
  "detailOf (foldl (hourlyTick throws) j ps) = detailOf j @ concat (map snd ps)" "rj_runningHourly (foldl (hourlyTick throws) j ps) = rj_runningHourly j"
  by (induction ps arbitrary: j) (simp_all add: tick_parts)

text \<open>
  The hourly loop ticks every half hour with a lookback of two hours, so one of its ticks falls between two and
  a half and three hours after the start of an hour; it is the last that touches the bucket of that hour. Whatever the
  earlier ticks had stored, and whatever the later ones do, the bucket then holds the aggregate of the samples
  of less than half an hour: those before the half hour are missing from the count and from every other column.
\<close>

theorem hourly_bucket_loses_first_half:
  assumes "start mod hour = 0" "\<not> rj_runningHourly j" "\<not> throws SMonitor"
    and "start + 2 * hour + 1800 * 1000 \<le> u" "u < start + 3 * hour" "\<forall>p \<in> set later. start + 3 * hour \<le> fst p"
    and "seen = detailOf j @ concat (map snd earlier) @ new"
    and "samplesIn (u - 2 * hour) (start + hour) i seen \<noteq> []"
  shows "\<exists>b. hourlyBucket start i (foldl (hourlyTick throws) j (earlier @ (u, new) # later)) = Some b \<and>
    b = monitorHourlyRow (start, i) (samplesIn (u - 2 * hour) (start + hour) i seen) \<and>
    mb_sampleCount b + length (samplesIn start (start + 1800 * 1000) i seen) \<le> length (samplesIn start (start + hour) i seen)"
proof -
  let ?j = "foldl (hourlyTick throws) j earlier" and ?rs = "samplesIn (u - 2 * hour) (start + hour) i seen"
  have "\<not> rj_runningHourly ?j" using assms(2) by (simp add: ticks_parts)
  moreover have "max start (u - 2 * hour) = u - 2 * hour" using assms(4) by simp
  ultimately have "hourlyBucket start i (hourlyTick throws ?j (u, new)) = Some (monitorHourlyRow (start, i) ?rs)"
    using tick_bucket [of start ?j throws i "(u, new)"] assms(1,3,7,8) by (simp add: ticks_parts)
  then have final: "hourlyBucket start i (foldl (hourlyTick throws) j (earlier @ (u, new) # later)) = Some (monitorHourlyRow (start, i) ?rs)"
    using later_ticks [of start "hourlyTick throws ?j (u, new)" throws later i] assms(1-3,6) by (simp add: ticks_parts tick_parts)
  have "length ?rs + length (samplesIn start (start + 1800 * 1000) i seen) \<le> length (samplesIn start (start + hour) i seen)"
    unfolding samplesIn_def using assms(4) by (induction seen) (auto simp: hour_def)
  then show ?thesis using final by (simp add: monitorHourlyRow_def)
qed

section \<open>Two stages and one\<close>

lemma mset_split: "k \<notin> ks \<Longrightarrow> mset (filter (\<lambda>r. f r = k) xs) + mset (filter (\<lambda>r. f r \<in> ks) xs) = mset (filter (\<lambda>r. f r \<in> insert k ks) xs)"
  by (induction xs) auto

lemma groups_mset: "mset (concat (map snd (groups key rows))) = mset rows"
proof -
  have "distinct ks \<Longrightarrow> mset (concat (map (\<lambda>k. filter (\<lambda>r. key r = k) rows) ks)) = mset (filter (\<lambda>r. key r \<in> set ks) rows)" for ks
    by (induction ks) (simp_all add: mset_split del: mset_filter)
  from this [of "remdups (map key rows)"] show ?thesis by (simp add: groups_def comp_def)
qed

lemma groups_filter: "filter (\<lambda>(k, g). P k) (groups key rows) = groups key (filter (\<lambda>r. P (key r)) rows)"
proof -
  have ks: "filter P (remdups (map key rows)) = remdups (map key (filter (\<lambda>r. P (key r)) rows))"
    by (simp add: remdups_filter [symmetric] filter_map comp_def)
  have "filter (\<lambda>(k, g). P k) (groups key rows) = map (\<lambda>k. (k, filter (\<lambda>r. key r = k) rows)) (filter P (remdups (map key rows)))"
    by (simp add: groups_def filter_map comp_def)
  also have "\<dots> = map (\<lambda>k. (k, filter (\<lambda>r. key r = k) (filter (\<lambda>r. P (key r)) rows))) (filter P (remdups (map key rows)))"
    by (rule map_cong [OF refl]) (auto intro!: filter_cong)
  finally show ?thesis by (simp only: ks groups_def)
qed

lemma vals_simps [simp]: "vals f [] = []" "vals f (x # xs) = (case f x of None \<Rightarrow> vals f xs | Some v \<Rightarrow> v # vals f xs)" "vals f (xs @ ys) = vals f xs @ vals f ys"
  by (simp_all add: vals_def map_filter_def split: option.split)

lemma vals_map [simp]: "vals f (map g xs) = vals (\<lambda>x. f (g x)) xs"
  by (simp add: vals_def map_filter_def comp_def filter_map)

lemma vals_concat: "vals f (concat xss) = concat (map (vals f) xss)"
  by (induction xss) simp_all

lemma vals_mset: "mset xs = mset ys \<Longrightarrow> mset (vals f xs) = mset (vals f ys)"
  by (simp add: vals_def map_filter_def)

lemma agg_mset:
  "mset xs = mset ys \<Longrightarrow> agg_min xs = agg_min ys" "mset xs = mset ys \<Longrightarrow> agg_max xs = agg_max ys"
  "mset qs = mset ps \<Longrightarrow> agg_avg qs = agg_avg ps"
  by (auto simp: agg_min_def agg_max_def agg_avg_def dest: mset_eq_setD mset_eq_length) (metis sum_mset_sum_list mset_eq_length)+

lemma agg_min_simps:
  "agg_min [] = None" "agg_min (x # xs) = Some (case agg_min xs of None \<Rightarrow> x | Some m \<Rightarrow> min x m)"
  "agg_min (xs @ ys) = (case agg_min xs of None \<Rightarrow> agg_min ys | Some m \<Rightarrow> Some (case agg_min ys of None \<Rightarrow> m | Some n \<Rightarrow> min m n))"
  by (auto simp: agg_min_def Min_Un)

lemma agg_max_simps:
  "agg_max [] = None" "agg_max (x # xs) = Some (case agg_max xs of None \<Rightarrow> x | Some m \<Rightarrow> max x m)"
  "agg_max (xs @ ys) = (case agg_max xs of None \<Rightarrow> agg_max ys | Some m \<Rightarrow> Some (case agg_max ys of None \<Rightarrow> m | Some n \<Rightarrow> max m n))"
  by (auto simp: agg_max_def Max_Un)

lemma agg_parts: "agg_min (vals agg_min xss) = agg_min (concat xss)" "agg_max (vals agg_max yss) = agg_max (concat yss)"
  by (induction xss) (auto simp: agg_min_simps split: option.split, induction yss, auto simp: agg_max_simps split: option.split)

text \<open>The mean of the means, each weighted by a number that is its count wherever it has a value.\<close>

lemma weighted_scaled:
  assumes "\<forall>g \<in> set gs. f g = [] \<or> n g = length (f g)"
  shows "weighted (\<lambda>g. agg_avg (f g)) n gs =
    map_option (\<lambda>m. m * of_nat (length (concat (map f gs))) / of_nat (sum_list (map n gs))) (agg_avg (concat (map f gs)))"
proof -
  let ?ps = "vals (\<lambda>g. map_option (\<lambda>a. a * of_nat (n g)) (agg_avg (f g))) gs"
  have sum: "sum_list ?ps = sum_list (concat (map f gs))" and nil: "?ps = [] \<longleftrightarrow> concat (map f gs) = []"
    and tot: "sum_list (map n gs) = 0 \<Longrightarrow> concat (map f gs) = []"
    using assms by (induction gs) (auto simp: agg_avg_def)
  show ?thesis
  proof (cases "concat (map f gs) = []")
    case False
    then have "sum_list (map n gs) \<noteq> 0" using tot by blast
    then show ?thesis using False sum nil unfolding weighted_def Let_def agg_avg_def [of "concat (map f gs)"] by simp
  qed (use nil in \<open>simp add: weighted_def agg_avg_def [of "concat (map f gs)"]\<close>)
qed

lemma daily_of_hourly:
  assumes "\<forall>p \<in> set gs. \<forall>r \<in> set (snd p). sa_success r \<longrightarrow> sa_responseTimeMs r \<noteq> None"
  shows "monitorDailyRow k (map (\<lambda>(h, g). monitorHourlyRow h g) gs) = monitorHourlyRow k (concat (map snd gs))"
proof -
  have n: "count_if sa_success g = length (map of_int (vals okTime g) :: rat list)" if "\<forall>r \<in> set g. sa_success r \<longrightarrow> sa_responseTimeMs r \<noteq> None" for g
    using that by (induction g) (auto simp: count_if_def okTime_def split: option.split)
  have counts: "sum_list (map (\<lambda>(h, g). count_if P g) gs) = count_if P (concat (map snd gs))" for P :: "monitorSample \<Rightarrow> bool"
    by (simp add: count_if_def filter_concat length_concat split_def comp_def)
  have "weighted (\<lambda>p. agg_avg (map of_int (vals okTime (snd p)))) (\<lambda>p. count_if sa_success (snd p)) gs =
      map_option (\<lambda>m. m * of_nat (length (concat (map (\<lambda>p. map of_int (vals okTime (snd p)) :: rat list) gs))) / of_nat (sum_list (map (\<lambda>p. count_if sa_success (snd p)) gs)))
        (agg_avg (concat (map (\<lambda>p. map of_int (vals okTime (snd p)) :: rat list) gs)))"
    by (rule weighted_scaled) (use n assms in blast)
  also have "concat (map (\<lambda>p. map of_int (vals okTime (snd p)) :: rat list) gs) = map of_int (vals okTime (concat (map snd gs)))"
    by (simp add: vals_concat map_concat comp_def)
  also have "sum_list (map (\<lambda>p. count_if sa_success (snd p)) gs) = length (map of_int (vals okTime (concat (map snd gs))) :: rat list)"
    using counts [of sa_success] n [of "concat (map snd gs)"] assms by (auto simp: split_def)
  finally have avg: "weighted (\<lambda>p. agg_avg (map of_int (vals okTime (snd p)))) (\<lambda>p. count_if sa_success (snd p)) gs =
      agg_avg (map of_int (vals okTime (concat (map snd gs))))" by (simp add: agg_avg_def)
  have mins: "agg_min (vals (\<lambda>p. agg_min (vals okTime (snd p))) gs) = agg_min (vals okTime (concat (map snd gs)))"
    using agg_parts(1) [of "map (\<lambda>p. vals okTime (snd p)) gs"] by (simp add: vals_concat comp_def)
  have maxs: "agg_max (vals (\<lambda>p. agg_max (vals okTime (snd p))) gs) = agg_max (vals okTime (concat (map snd gs)))"
    using agg_parts(2) [of "map (\<lambda>p. vals okTime (snd p)) gs"] by (simp add: vals_concat comp_def)
  have w: "weighted f g (map h xs) = weighted (\<lambda>x. f (h x)) (\<lambda>x. g (h x)) xs" for f :: "monitorBucket \<Rightarrow> rat option" and g and h :: "'z \<Rightarrow> monitorBucket" and xs
    by (simp add: weighted_def comp_def)
  show ?thesis using avg mins maxs counts
    by (simp add: monitorDailyRow_def monitorHourlyRow_def w split_def comp_def length_concat)
qed

lemma hourlyRow_mset: "mset rs = mset rs' \<Longrightarrow> monitorHourlyRow k rs = monitorHourlyRow k rs'"
proof -
  assume m: "mset rs = mset rs'"
  have "mset (map of_int (vals okTime rs) :: rat list) = mset (map of_int (vals okTime rs'))" using vals_mset [OF m, of okTime] by simp
  moreover have "count_if P rs = count_if P rs'" for P using arg_cong [OF m, of "\<lambda>M. size (filter_mset P M)"] by (simp add: count_if_def flip: mset_filter)
  ultimately show ?thesis using mset_eq_length [OF m] agg_mset(1,2) [OF vals_mset [OF m, of okTime]]
    by (simp add: monitorHourlyRow_def agg_mset(3))
qed

lemma trunc_trunc: "date_trunc day (date_trunc hour t) = date_trunc day t"
proof -
  have multiple: "date_trunc w s = w * (s div w)" for w s by (simp add: date_trunc_def minus_mod_eq_mult_div)
  have "date_trunc day t = hour * (24 * (t div day))" unfolding multiple by (simp add: day_def hour_def)
  moreover have "24 * (t div day) \<le> t div hour"
  proof -
    have "hour * (24 * (t div day)) \<le> t" using pos_mod_sign [OF day_pos, of t] minus_mod_eq_mult_div [of t day] by (simp add: day_def hour_def)
    then have "hour * (24 * (t div day)) div hour \<le> t div hour" by (rule zdiv_mono1) (rule hour_pos)
    then show ?thesis using hour_pos by simp
  qed
  ultimately have "date_trunc day t \<le> date_trunc hour t" unfolding multiple [of hour] using hour_pos by simp
  moreover have "date_trunc hour t \<le> t" "t < date_trunc day t + day"
    using pos_mod_sign [OF hour_pos, of t] pos_mod_bound [OF day_pos, of t] by (simp_all add: date_trunc_def)
  moreover have "date_trunc day t mod day = 0" unfolding multiple by simp
  ultimately show ?thesis by (simp add: date_trunc_iff [OF day_pos])
qed

text \<open>
  A pair of statements, the second reading what the first wrote: the key of a day depends on the key of the hour
  only. From empty tables, a daily bucket is the daily aggregate of the hourly aggregates of its samples.
\<close>

locale staged = h: statement hkey bkey hagg + d: statement dkey bkey dagg
  for hkey :: "'r \<Rightarrow> 'k" and bkey :: "'b \<Rightarrow> 'k" and hagg :: "'k \<Rightarrow> 'r list \<Rightarrow> 'b" and dkey :: "'b \<Rightarrow> 'k" and dagg :: "'k \<Rightarrow> 'b list \<Rightarrow> 'b" +
  fixes coarse :: "'k \<Rightarrow> 'k"
  assumes dkey_hagg: "dkey (hagg k rs) = coarse k"
begin

lemma staged_find:
  "find (\<lambda>b. bkey b = k) (snd (insert_select dkey bkey dagg (snd (insert_select hkey bkey hagg rows [])) [])) =
    (let rs = filter (\<lambda>r. coarse (hkey r) = k) rows
     in if rs = [] then None else Some (dagg k (map (\<lambda>(h, g). hagg h g) (groups hkey rs))))"
proof -
  let ?rs = "filter (\<lambda>r. coarse (hkey r) = k) rows" and ?row = "\<lambda>(h, g). hagg h g"
  have "filter (\<lambda>b. dkey b = k) (map ?row (groups hkey rows)) = map ?row (filter (\<lambda>(h, g). coarse h = k) (groups hkey rows))"
    by (simp add: filter_map comp_def split_def dkey_hagg)
  then have sel: "filter (\<lambda>b. dkey b = k) (map ?row (groups hkey rows)) = map ?row (groups hkey ?rs)"
    using groups_filter [of "\<lambda>h. coarse h = k" hkey rows] by simp
  have ne: "k \<in> dkey ` set (map ?row (groups hkey rows)) \<longleftrightarrow> ?rs \<noteq> []" unfolding image_filter sel by (simp add: groups_def)
  show ?thesis unfolding h.insert_empty d.insert_find ne sel by (simp add: Let_def)
qed

end

interpretation monitor_staged: staged "\<lambda>r. (date_trunc hour (sa_timestamp r), sa_assetId r)" mb_key monitorHourlyRow
  "\<lambda>b. (date_trunc day (mb_bucketStart b), mb_assetId b)" monitorDailyRow "\<lambda>k. (date_trunc day (fst k), snd k)"
  by unfold_locales (simp add: monitorHourlyRow_def)

interpretation telemetry_staged: staged "\<lambda>r. (date_trunc hour (te_timestamp r), te_assetId r)" tb_key telemetryHourlyRow
  "\<lambda>b. (date_trunc day (tb_bucketStart b), tb_assetId b)" telemetryDailyRow "\<lambda>k. (date_trunc day (fst k), snd k)"
  by unfold_locales (simp add: telemetryHourlyRow_def)

lemma trunc_late: "since \<le> date_trunc hour t \<Longrightarrow> since \<le> t"
  using pos_mod_sign [OF hour_pos, of t] by (simp add: date_trunc_def)

lemma monitor_two_stages:
  assumes "\<forall>r \<in> set rows. since \<le> date_trunc hour (sa_timestamp r)"
  shows "find (\<lambda>b. mb_key b = (start, i)) (snd (sqlMonitorDaily since (snd (sqlMonitorHourly since rows [])) [])) =
    (let rs = filter (\<lambda>r. date_trunc day (sa_timestamp r) = start \<and> sa_assetId r = i) rows
     in if rs = [] then None else Some (monitorDailyRow (start, i) (map (\<lambda>(h, g). monitorHourlyRow h g) (groups (\<lambda>r. (date_trunc hour (sa_timestamp r), sa_assetId r)) rs))))"
proof -
  have all: "filter (\<lambda>r. since \<le> sa_timestamp r) rows = rows" using assms by (simp add: trunc_late)
  have "since \<le> mb_bucketStart b" if "b \<in> set (snd (sqlMonitorHourly since rows []))" for b
    using that assms unfolding sqlMonitorHourly_def all monitor_hourly.insert_empty by (auto simp: groups_def monitorHourlyRow_def)
  then have "filter (\<lambda>b. since \<le> mb_bucketStart b) (snd (sqlMonitorHourly since rows [])) = snd (sqlMonitorHourly since rows [])" by simp
  then show ?thesis using monitor_staged.staged_find [of "(start, i)" rows] by (simp add: sqlMonitorDaily_def sqlMonitorHourly_def all trunc_trunc)
qed

lemma telemetry_two_stages:
  assumes "\<forall>r \<in> set rows. since \<le> date_trunc hour (te_timestamp r)"
  shows "find (\<lambda>b. tb_key b = (start, i)) (snd (sqlTelemetryDaily since (snd (sqlTelemetryHourly since rows [])) [])) =
    (let rs = filter (\<lambda>r. date_trunc day (te_timestamp r) = start \<and> te_assetId r = i) rows
     in if rs = [] then None else Some (telemetryDailyRow (start, i) (map (\<lambda>(h, g). telemetryHourlyRow h g) (groups (\<lambda>r. (date_trunc hour (te_timestamp r), te_assetId r)) rs))))"
proof -
  have all: "filter (\<lambda>r. since \<le> te_timestamp r) rows = rows" using assms by (simp add: trunc_late)
  have "since \<le> tb_bucketStart b" if "b \<in> set (snd (sqlTelemetryHourly since rows []))" for b
    using that assms unfolding sqlTelemetryHourly_def all telemetry_hourly.insert_empty by (auto simp: groups_def telemetryHourlyRow_def)
  then have "filter (\<lambda>b. since \<le> tb_bucketStart b) (snd (sqlTelemetryHourly since rows [])) = snd (sqlTelemetryHourly since rows [])" by simp
  then show ?thesis using telemetry_staged.staged_find [of "(start, i)" rows] by (simp add: sqlTelemetryDaily_def sqlTelemetryHourly_def all trunc_trunc)
qed

text \<open>
  C26. Rolling the hours up into days loses nothing: if the hourly table was built from all samples, the daily bucket is
  the aggregate of the samples of the day themselves, in every column, the mean included. The samples of the
  monitor have a response time whenever they succeeded.
\<close>

theorem daily_from_hourly_exact:
  assumes "\<forall>r \<in> set rows. sa_success r \<longrightarrow> sa_responseTimeMs r \<noteq> None" "\<forall>r \<in> set rows. since \<le> date_trunc hour (sa_timestamp r)"
  shows "find (\<lambda>b. mb_key b = (start, i)) (snd (sqlMonitorDaily since (snd (sqlMonitorHourly since rows [])) [])) =
    (let rs = filter (\<lambda>r. date_trunc day (sa_timestamp r) = start \<and> sa_assetId r = i) rows
     in if rs = [] then None else Some (monitorHourlyRow (start, i) rs))"
proof -
  let ?hkey = "\<lambda>r. (date_trunc hour (sa_timestamp r), sa_assetId r)"
  let ?rs = "filter (\<lambda>r. date_trunc day (sa_timestamp r) = start \<and> sa_assetId r = i) rows"
  have "monitorDailyRow (start, i) (map (\<lambda>(h, g). monitorHourlyRow h g) (groups ?hkey ?rs)) = monitorHourlyRow (start, i) (concat (map snd (groups ?hkey ?rs)))"
    by (rule daily_of_hourly) (use assms(1) in \<open>auto simp: groups_def\<close>)
  also have "\<dots> = monitorHourlyRow (start, i) ?rs" by (rule hourlyRow_mset) (rule groups_mset)
  finally show ?thesis unfolding monitor_two_stages [OF assms(2)] by (simp add: Let_def)
qed

text \<open>
  The daily mean of the processor load counts the missing readings as zero: the hourly means are weighted with the
  number of rows, which includes the rows without a reading. If the readings of whole hours are missing, the stored mean
  is the true mean times the share of the rows that have a reading.
\<close>

theorem daily_mean_counts_missing_readings:
  assumes "\<forall>r \<in> set rows. since \<le> date_trunc hour (te_timestamp r)"
    and "\<forall>r \<in> set rows. \<forall>r' \<in> set rows. te_assetId r = te_assetId r' \<and> date_trunc hour (te_timestamp r) = date_trunc hour (te_timestamp r') \<longrightarrow>
      (te_cpuPct r = None \<longleftrightarrow> te_cpuPct r' = None)"
    and "rs = filter (\<lambda>r. date_trunc day (te_timestamp r) = start \<and> te_assetId r = i) rows" "rs \<noteq> []"
  shows "\<exists>b. find (\<lambda>b. tb_key b = (start, i)) (snd (sqlTelemetryDaily since (snd (sqlTelemetryHourly since rows [])) [])) = Some b \<and>
    tb_avgCpuPct b = map_option (\<lambda>mean. mean * of_nat (length (vals te_cpuPct rs)) / of_nat (length rs)) (agg_avg (vals te_cpuPct rs))"
proof -
  let ?hkey = "\<lambda>r. (date_trunc hour (te_timestamp r), te_assetId r)"
  let ?gs = "groups ?hkey rs"
  have full: "length (vals f g) = length g" if "\<forall>r \<in> set g. f r \<noteq> None" for f :: "telemetrySample \<Rightarrow> rat option" and g
    using that by (induction g) auto
  have none: "vals f g = []" if "\<forall>r \<in> set g. f r = None" for f :: "telemetrySample \<Rightarrow> rat option" and g
    using that by (induction g) auto
  have "vals te_cpuPct (snd p) = [] \<or> length (snd p) = length (vals te_cpuPct (snd p))" if "p \<in> set ?gs" for p
  proof (rule ccontr)
    assume "\<not> ?thesis"
    then obtain r r' where r: "r \<in> set (snd p)" "te_cpuPct r \<noteq> None" "r' \<in> set (snd p)" "te_cpuPct r' = None" using full none by metis
    have s: "r \<in> set rows" "r' \<in> set rows" "te_assetId r = te_assetId r'" "date_trunc hour (te_timestamp r) = date_trunc hour (te_timestamp r')"
      using r(1,3) that assms(3) by (auto simp: groups_def)
    show False using bspec [OF bspec [OF assms(2) s(1)] s(2)] s(3,4) r(2,4) by simp
  qed
  then have "weighted (\<lambda>p. agg_avg (vals te_cpuPct (snd p))) (\<lambda>p. length (snd p)) ?gs =
      map_option (\<lambda>m. m * of_nat (length (concat (map (\<lambda>p. vals te_cpuPct (snd p)) ?gs))) / of_nat (sum_list (map (\<lambda>p. length (snd p)) ?gs)))
        (agg_avg (concat (map (\<lambda>p. vals te_cpuPct (snd p)) ?gs)))"
    by (intro weighted_scaled) blast
  also have "concat (map (\<lambda>p. vals te_cpuPct (snd p)) ?gs) = vals te_cpuPct (concat (map snd ?gs))" by (simp add: vals_concat comp_def)
  also have "sum_list (map (\<lambda>p. length (snd p)) ?gs) = length (concat (map snd ?gs))" by (simp add: length_concat comp_def)
  finally have avg: "weighted (\<lambda>p. agg_avg (vals te_cpuPct (snd p))) (\<lambda>p. length (snd p)) ?gs =
      map_option (\<lambda>m. m * of_nat (length (vals te_cpuPct rs)) / of_nat (length rs)) (agg_avg (vals te_cpuPct rs))"
    using mset_eq_length [OF vals_mset [OF groups_mset [of ?hkey rs], of te_cpuPct]] agg_mset(3) [OF vals_mset [OF groups_mset [of ?hkey rs], of te_cpuPct]]
      mset_eq_length [OF groups_mset [of ?hkey rs]] by simp
  have w: "weighted f g (map h xs) = weighted (\<lambda>x. f (h x)) (\<lambda>x. g (h x)) xs" for f :: "telemetryBucket \<Rightarrow> rat option" and g and h :: "'z \<Rightarrow> telemetryBucket" and xs
    by (simp add: weighted_def comp_def)
  have "tb_avgCpuPct (telemetryDailyRow (start, i) (map (\<lambda>(h, g). telemetryHourlyRow h g) ?gs)) =
      weighted (\<lambda>p. agg_avg (vals te_cpuPct (snd p))) (\<lambda>p. length (snd p)) ?gs"
    by (simp add: telemetryDailyRow_def telemetryHourlyRow_def w split_def)
  then show ?thesis using avg assms(4) unfolding telemetry_two_stages [OF assms(1)] by (simp add: Let_def assms(3) [symmetric])
qed

text \<open>
  A tick of the job whose six statements all fail still records a success: the tables stay as they were, and the
  setting that the watch for lagging rollups reads is stamped with the time of the tick.
\<close>

theorem failed_rollup_stamps_success:
  assumes "\<not> rj_runningHourly j" "\<not> rj_runningDaily j" "\<forall>src. throws src"
  shows "rj_tables (tickHourly throws False now j) = rj_tables j \<and> (\<exists>rows. rj_stamp (tickHourly throws False now j) Hourly = Some (now, rows) \<and> map snd rows = [0, 0, 0, 0, 0, 0]) \<and>
    rj_tables (tickDaily throws False now j) = rj_tables j \<and> (\<exists>rows. rj_stamp (tickDaily throws False now j) Daily = Some (now, rows) \<and> map snd rows = [0, 0, 0, 0, 0, 0])"
  using assms by (simp add: tickHourly_def tickDaily_def rollupHourly_def rollupDaily_def stampLastSuccess_def DEFS_def runOne_def)

section \<open>Concrete samples\<close>

definition sampleAt :: "int \<Rightarrow> int \<Rightarrow> monitorSample" where
  "sampleAt t ms = \<lparr>sa_assetId = ''a'', sa_timestamp = t, sa_success = True, sa_responseTimeMs = Some ms, sa_error = None\<rparr>"

definition loadAt :: "int \<Rightarrow> rat option \<Rightarrow> telemetrySample" where
  "loadAt t cpu = \<lparr>te_assetId = ''a'', te_timestamp = t, te_cpuPct = cpu, te_memPct = None, te_memUsedBytes = None, te_memTotalBytes = None\<rparr>"

definition noTiers :: "('r, 'b) tiers" where
  "noTiers = \<lparr>tt_detail = [], tt_hourly = [], tt_daily = []\<rparr>"

text \<open>A sample five minutes into the hour and one ten minutes before its end.\<close>

definition twoSamples :: "monitorSample list" where
  "twoSamples = [sampleAt 300000 10, sampleAt 3000000 30]"

definition freshJob :: rollupJob where
  "freshJob = \<lparr>rj_tables = \<lparr>st_monitor = noTiers\<lparr>tt_detail := twoSamples\<rparr>, st_telemetry = noTiers, st_temperature = noTiers, st_interface = noTiers,
     st_storage = noTiers, st_ipsec = noTiers\<rparr>, rj_runningHourly = False, rj_runningDaily = False, rj_stamp = (\<lambda>_. None)\<rparr>"

lemma two_counts: "length (samplesIn 0 hour ''a'' twoSamples) = 2" "samplesIn (9900000 - 2 * hour) (0 + hour) ''a'' twoSamples = [sampleAt 3000000 30]"
  by (simp_all add: samplesIn_def twoSamples_def sampleAt_def hour_def)

theorem hourly_bucket_loses_first_half_witness:
  "\<exists>b. hourlyBucket 0 ''a'' (foldl (hourlyTick (\<lambda>_. False)) freshJob [(8100000, []), (9900000, []), (11700000, [])]) = Some b \<and>
     mb_sampleCount b = 1 \<and> length (samplesIn 0 hour ''a'' twoSamples) = 2"
proof -
  have j: "\<not> rj_runningHourly freshJob" "detailOf freshJob = twoSamples" by (simp_all add: freshJob_def detailOf_def)
  have "\<exists>b. hourlyBucket 0 ''a'' (foldl (hourlyTick (\<lambda>_. False)) freshJob ([(8100000, [])] @ (9900000, []) # [(11700000, [])])) = Some b \<and>
      b = monitorHourlyRow (0, ''a'') (samplesIn (9900000 - 2 * hour) (0 + hour) ''a'' twoSamples) \<and>
      mb_sampleCount b + length (samplesIn 0 (0 + 1800 * 1000) ''a'' twoSamples) \<le> length (samplesIn 0 (0 + hour) ''a'' twoSamples)"
    by (rule hourly_bucket_loses_first_half) (use two_counts(2) in \<open>simp_all add: j hour_def\<close>)
  then show ?thesis unfolding two_counts(2) by (auto simp: monitorHourlyRow_def two_counts(1))
qed

theorem daily_from_hourly_exact_witness:
  "\<exists>b. find (\<lambda>b. mb_key b = (0, ''a'')) (snd (sqlMonitorDaily 0 (snd (sqlMonitorHourly 0 twoSamples [])) [])) = Some b \<and>
     mb_sampleCount b = 2 \<and> mb_avgResponseTimeMs b = Some 20"
proof -
  have "\<forall>r \<in> set twoSamples. sa_success r \<longrightarrow> sa_responseTimeMs r \<noteq> None" "\<forall>r \<in> set twoSamples. 0 \<le> date_trunc hour (sa_timestamp r)"
    by (simp_all add: twoSamples_def sampleAt_def date_trunc_def hour_def)
  from daily_from_hourly_exact [OF this, of 0 "''a''"] show ?thesis
    by (simp add: twoSamples_def sampleAt_def date_trunc_def day_def Let_def)
      (simp add: monitorHourlyRow_def okTime_def agg_avg_def)
qed

text \<open>An hour without a reading, then one with a load of fifty: the stored mean of the day is twenty-five.\<close>

theorem daily_mean_counts_missing_readings_witness:
  "\<exists>b. find (\<lambda>b. tb_key b = (0, ''a'')) (snd (sqlTelemetryDaily 0 (snd (sqlTelemetryHourly 0 [loadAt 0 None, loadAt 3600000 (Some 50)] [])) [])) = Some b \<and>
     tb_avgCpuPct b = Some 25"
proof -
  let ?rows = "[loadAt 0 None, loadAt 3600000 (Some 50)]"
  have "\<exists>b. find (\<lambda>b. tb_key b = (0, ''a'')) (snd (sqlTelemetryDaily 0 (snd (sqlTelemetryHourly 0 ?rows [])) [])) = Some b \<and>
      tb_avgCpuPct b = map_option (\<lambda>mean. mean * of_nat (length (vals te_cpuPct ?rows)) / of_nat (length ?rows)) (agg_avg (vals te_cpuPct ?rows))"
    by (rule daily_mean_counts_missing_readings) (simp_all add: loadAt_def date_trunc_def hour_def day_def)
  then show ?thesis by (simp add: loadAt_def agg_avg_def)
qed

theorem failed_rollup_stamps_success_witness:
  "rj_tables (tickHourly (\<lambda>_. True) False 7 freshJob) = rj_tables freshJob \<and> rj_stamp (tickHourly (\<lambda>_. True) False 7 freshJob) Hourly \<noteq> None"
  using failed_rollup_stamps_success [of freshJob "\<lambda>_. True" 7] by (auto simp: freshJob_def)

end
