(* ===== verification/Retention.thy ===== *)
theory Retention
  imports Json Rollup
begin

text \<open>
  How long samples are kept and which tier a chart reads: \<^verbatim>\<open>src/services/sampleRetentionService.ts\<close> (the policy, its
  cache and its update), the prune helpers at the end of \<^verbatim>\<open>src/services/monitoringService.ts\<close> with \<^verbatim>\<open>dropChunks\<close> and the
  detection in \<^verbatim>\<open>src/services/timescaleService.ts\<close>, \<^verbatim>\<open>src/services/sampleQueryRouter.ts\<close>, and the start-up job
  \<^verbatim>\<open>src/jobs/consolidateSampleRetention.ts\<close>. The time is an argument. TimescaleDB is a parameter: where the chunk that
  holds a time ends, and whether a call throws.
\<close>

section \<open>The policy\<close>

record classRetention =
  rc_default :: int
  rc_switch :: int
  rc_accessPoint :: int

record tierRetention =
  rt_detail :: classRetention
  rt_hourly :: classRetention
  rt_daily :: classRetention

record sampleRetention =
  sr_sample :: tierRetention
  sr_telemetry :: tierRetention
  sr_systemInfo :: tierRetention

definition defaultClass :: "int \<Rightarrow> classRetention" where
  "defaultClass v = \<lparr>rc_default = v, rc_switch = v, rc_accessPoint = v\<rparr>"

definition defaultTier :: tierRetention where
  "defaultTier = \<lparr>rt_detail = defaultClass 7, rt_hourly = defaultClass 30, rt_daily = defaultClass 365\<rparr>"

definition defaultSampleRetention :: sampleRetention where
  "defaultSampleRetention = \<lparr>sr_sample = defaultTier, sr_telemetry = defaultTier, sr_systemInfo = defaultTier\<rparr>"

text \<open>\<^verbatim>\<open>v == null\<close>, and \<^verbatim>\<open>typeof v === "object"\<close> for a value that is not null.\<close>

definition nullish :: "json option \<Rightarrow> bool" where
  "nullish v \<longleftrightarrow> v = None \<or> v = Some JNull"

definition isObject :: "json option \<Rightarrow> bool" where
  "isObject v = (case v of Some (JObj _) \<Rightarrow> True | Some (JArr _) \<Rightarrow> True | _ \<Rightarrow> False)"

definition retentionInt :: "json option \<Rightarrow> int \<Rightarrow> int" where
  "retentionInt v fallback = (if nullish v then fallback else floor_or (Number v) fallback)"

definition parseClass :: "json option \<Rightarrow> classRetention \<Rightarrow> classRetention" where
  "parseClass raw fallback =
     (if \<not> isObject raw then fallback
      else \<lparr>rc_default = retentionInt (jprop_opt raw ''default'') (rc_default fallback),
            rc_switch = retentionInt (jprop_opt raw ''switch'') (rc_switch fallback),
            rc_accessPoint = retentionInt (jprop_opt raw ''accessPoint'') (rc_accessPoint fallback)\<rparr>)"

definition parseTier :: "json option \<Rightarrow> tierRetention \<Rightarrow> tierRetention" where
  "parseTier raw fallback =
     (if \<not> isObject raw then fallback
      else \<lparr>rt_detail = parseClass (jprop_opt raw ''detail'') (rt_detail fallback),
            rt_hourly = parseClass (jprop_opt raw ''hourly'') (rt_hourly fallback),
            rt_daily = parseClass (jprop_opt raw ''daily'') (rt_daily fallback)\<rparr>)"

definition parseSampleRetention :: "json option \<Rightarrow> sampleRetention" where
  "parseSampleRetention raw =
     (let fallback = defaultSampleRetention
      in if \<not> isObject raw then fallback
         else \<lparr>sr_sample = parseTier (jprop_opt raw ''sample'') (sr_sample fallback),
               sr_telemetry = parseTier (jprop_opt raw ''telemetry'') (sr_telemetry fallback),
               sr_systemInfo = parseTier (jprop_opt raw ''systemInfo'') (sr_systemInfo fallback)\<rparr>)"

definition mergeClass :: "classRetention \<Rightarrow> json option \<Rightarrow> classRetention" where
  "mergeClass current input =
     (if \<not> isObject input then current
      else \<lparr>rc_default = (if nullish (jprop_opt input ''default'') then rc_default current else retentionInt (jprop_opt input ''default'') (rc_default current)),
            rc_switch = (if nullish (jprop_opt input ''switch'') then rc_switch current else retentionInt (jprop_opt input ''switch'') (rc_switch current)),
            rc_accessPoint = (if nullish (jprop_opt input ''accessPoint'') then rc_accessPoint current
                              else retentionInt (jprop_opt input ''accessPoint'') (rc_accessPoint current))\<rparr>)"

definition mergeTier :: "tierRetention \<Rightarrow> json option \<Rightarrow> tierRetention" where
  "mergeTier current input =
     (if \<not> isObject input then current
      else \<lparr>rt_detail = (if nullish (jprop_opt input ''detail'') then rt_detail current else mergeClass (rt_detail current) (jprop_opt input ''detail'')),
            rt_hourly = (if nullish (jprop_opt input ''hourly'') then rt_hourly current else mergeClass (rt_hourly current) (jprop_opt input ''hourly'')),
            rt_daily = (if nullish (jprop_opt input ''daily'') then rt_daily current else mergeClass (rt_daily current) (jprop_opt input ''daily''))\<rparr>)"

definition mergeRetention :: "sampleRetention \<Rightarrow> json \<Rightarrow> sampleRetention" where
  "mergeRetention current input =
     \<lparr>sr_sample = (if nullish (jprop input ''sample'') then sr_sample current else mergeTier (sr_sample current) (jprop input ''sample'')),
      sr_telemetry = (if nullish (jprop input ''telemetry'') then sr_telemetry current else mergeTier (sr_telemetry current) (jprop input ''telemetry'')),
      sr_systemInfo = (if nullish (jprop input ''systemInfo'') then sr_systemInfo current else mergeTier (sr_systemInfo current) (jprop input ''systemInfo''))\<rparr>"

text \<open>What the database stores of a policy.\<close>

definition classJson :: "classRetention \<Rightarrow> json" where
  "classJson c = JObj [(''default'', JNum (of_int (rc_default c))), (''switch'', JNum (of_int (rc_switch c))), (''accessPoint'', JNum (of_int (rc_accessPoint c)))]"

definition tierJson :: "tierRetention \<Rightarrow> json" where
  "tierJson t = JObj [(''detail'', classJson (rt_detail t)), (''hourly'', classJson (rt_hourly t)), (''daily'', classJson (rt_daily t))]"

definition retentionJson :: "sampleRetention \<Rightarrow> json" where
  "retentionJson r = JObj [(''sample'', tierJson (sr_sample r)), (''telemetry'', tierJson (sr_telemetry r)), (''systemInfo'', tierJson (sr_systemInfo r))]"

text \<open>The settings rows these services read and write, and the cache of the process.\<close>

record retState =
  rs_stored :: "json option"
  rs_cache :: "(sampleRetention \<times> int) option"
  rs_migratedAt :: "json option"
  rs_manual :: "json option"
  rs_legacy :: "json option"

definition CACHE_TTL_MS :: int where
  "CACHE_TTL_MS = 5000"

definition getSampleRetention :: "int \<Rightarrow> retState \<Rightarrow> sampleRetention \<times> retState" where
  "getSampleRetention now s =
     (case rs_cache s of
        Some (v, fetchedAt) \<Rightarrow>
          (if now - fetchedAt < CACHE_TTL_MS then (v, s)
           else (let v = parseSampleRetention (rs_stored s) in (v, s\<lparr>rs_cache := Some (v, now)\<rparr>)))
      | None \<Rightarrow> (let v = parseSampleRetention (rs_stored s) in (v, s\<lparr>rs_cache := Some (v, now)\<rparr>)))"

definition updateSampleRetention :: "json \<Rightarrow> int \<Rightarrow> retState \<Rightarrow> sampleRetention \<times> retState" where
  "updateSampleRetention input now s =
     (let (current, s1) = getSampleRetention now s; merged = mergeRetention current input
      in (merged, s1\<lparr>rs_stored := Some (retentionJson merged), rs_cache := None\<rparr>))"

text \<open>\<^verbatim>\<open>PUT /server-settings/sample-retention\<close>: a body that is no object counts as empty.\<close>

definition putSampleRetention :: "json option \<Rightarrow> int \<Rightarrow> retState \<Rightarrow> sampleRetention \<times> retState" where
  "putSampleRetention body = updateSampleRetention (if isObject body then the body else JObj [])"

section \<open>The start-up job\<close>

definition pickFrom :: "json option \<Rightarrow> string \<Rightarrow> string \<Rightarrow> int option" where
  "pickFrom blob key klass =
     (case blob of
        None \<Rightarrow> None
      | Some b \<Rightarrow>
          (if \<not> truthyJ b then None
           else if klass = ''default'' then (let v = retentionInt (jprop b key) (-1) in if 0 \<le> v then Some v else None)
           else (let nested = jprop b klass
                 in if \<not> isObject nested then None
                    else (let v = retentionInt (jprop_opt nested key) (-1) in if 0 \<le> v then Some v else None))))"

definition legacyValue :: "json option \<Rightarrow> json option \<Rightarrow> string \<Rightarrow> string \<Rightarrow> int \<Rightarrow> int" where
  "legacyValue manual legacy key klass fallback =
     (case pickFrom manual key klass of
        Some v \<Rightarrow> v
      | None \<Rightarrow> (case pickFrom legacy key klass of Some v \<Rightarrow> v | None \<Rightarrow> fallback))"

definition consolidateTier :: "json option \<Rightarrow> json option \<Rightarrow> string \<Rightarrow> tierRetention \<Rightarrow> tierRetention" where
  "consolidateTier manual legacy key d =
     \<lparr>rt_detail = \<lparr>rc_default = legacyValue manual legacy key ''default'' (rc_default (rt_detail d)),
                    rc_switch = legacyValue manual legacy key ''switch'' (rc_switch (rt_detail d)),
                    rc_accessPoint = legacyValue manual legacy key ''accessPoint'' (rc_accessPoint (rt_detail d))\<rparr>,
      rt_hourly = rt_hourly d, rt_daily = rt_daily d\<rparr>"

definition consolidateSampleRetention :: "json \<Rightarrow> retState \<Rightarrow> retState" where
  "consolidateSampleRetention stamp s =
     (if rs_migratedAt s \<noteq> None then s
      else if rs_stored s \<noteq> None then s\<lparr>rs_migratedAt := Some stamp\<rparr>
      else (let manual = nonnull (rs_manual s); legacy = nonnull (rs_legacy s); def = defaultSampleRetention;
                seeded = \<lparr>sr_sample = consolidateTier manual legacy ''sampleRetentionDays'' (sr_sample def),
                          sr_telemetry = consolidateTier manual legacy ''telemetryRetentionDays'' (sr_telemetry def),
                          sr_systemInfo = consolidateTier manual legacy ''systemInfoRetentionDays'' (sr_systemInfo def)\<rparr>
            in s\<lparr>rs_stored := Some (retentionJson seeded), rs_cache := None, rs_migratedAt := Some stamp\<rparr>))"

section \<open>Chunks\<close>

record timescale =
  tx_extensionInstalled :: bool
  tx_hypertables :: "string set"

text \<open>
  \<^verbatim>\<open>detectTimescale\<close>: the results of the two queries are arguments, \<^term>\<open>None\<close> where the query throws.
\<close>

definition detectTimescale :: "string list \<Rightarrow> string list option \<Rightarrow> string list option \<Rightarrow> timescale" where
  "detectTimescale candidates ext names =
     (case ext of
        None \<Rightarrow> \<lparr>tx_extensionInstalled = False, tx_hypertables = {}\<rparr>
      | Some rows \<Rightarrow>
          (let installed = (rows \<noteq> []);
               found = (if installed then (case names of None \<Rightarrow> [] | Some ns \<Rightarrow> filter (\<lambda>n. n \<in> set candidates) ns) else [])
           in \<lparr>tx_extensionInstalled = installed, tx_hypertables = set found\<rparr>))"

text \<open>
  The extension itself: for a table and a time, the end of the chunk that holds the time, and whether
  \<^verbatim>\<open>drop_chunks\<close> throws on the table. \<^verbatim>\<open>drop_chunks\<close> drops the chunks that end at or before the given time.
\<close>

record chunking =
  ck_chunkEnd :: "string \<Rightarrow> int \<Rightarrow> int"
  ck_throws :: "string \<Rightarrow> bool"

definition dropChunks :: "timescale \<Rightarrow> chunking \<Rightarrow> string \<Rightarrow> int \<Rightarrow> ('r \<Rightarrow> int) \<Rightarrow> 'r list \<Rightarrow> 'r list" where
  "dropChunks tx ck tableName olderThan time rows =
     (if tableName \<notin> tx_hypertables tx \<or> ck_throws ck tableName then rows
      else filter (\<lambda>r. olderThan < ck_chunkEnd ck tableName (time r)) rows)"

section \<open>Pruning\<close>

record pruneAsset =
  pa_id :: string
  pa_manufacturer :: "string option"
  pa_assetType :: string

record classIds =
  ci_switchIds :: "string list"
  ci_accessPointIds :: "string list"

definition getSwitchAndAccessPointAssetIds :: "pruneAsset list \<Rightarrow> classIds" where
  "getSwitchAndAccessPointAssetIds assets =
     (let rows = filter (\<lambda>a. map_option toLowerCase (pa_manufacturer a) = Some ''fortinet'' \<and> pa_assetType a \<in> {''switch'', ''access_point''}) assets
      in \<lparr>ci_switchIds = map pa_id (filter (\<lambda>a. pa_assetType a = ''switch'') rows),
          ci_accessPointIds = map pa_id (filter (\<lambda>a. pa_assetType a = ''access_point'') rows)\<rparr>)"

definition deleteMany :: "('r \<Rightarrow> bool) \<Rightarrow> 'r list \<Rightarrow> nat \<times> 'r list" where
  "deleteMany P rows = (length (filter P rows), filter (\<lambda>r. \<not> P r) rows)"

definition cutoff :: "int \<Rightarrow> int \<Rightarrow> int" where
  "cutoff now days = now - days * 24 * 3600 * 1000"

definition longest :: "classRetention \<Rightarrow> int" where
  "longest c = max (rc_default c) (max (rc_switch c) (rc_accessPoint c))"

definition pruneClasses :: "classRetention \<Rightarrow> classIds \<Rightarrow> int \<Rightarrow> ('r \<Rightarrow> string) \<Rightarrow> ('r \<Rightarrow> int) \<Rightarrow> 'r list \<Rightarrow> nat \<times> 'r list" where
  "pruneClasses days ids now asset time rows =
     (let tagged = ci_switchIds ids @ ci_accessPointIds ids;
          (n1, rows) = (if 0 < rc_default days
                        then deleteMany (\<lambda>r. time r < cutoff now (rc_default days) \<and> (tagged \<noteq> [] \<longrightarrow> asset r \<notin> set tagged)) rows else (0, rows));
          (n2, rows) = (if 0 < rc_switch days \<and> ci_switchIds ids \<noteq> []
                        then deleteMany (\<lambda>r. asset r \<in> set (ci_switchIds ids) \<and> time r < cutoff now (rc_switch days)) rows else (0, rows));
          (n3, rows) = (if 0 < rc_accessPoint days \<and> ci_accessPointIds ids \<noteq> []
                        then deleteMany (\<lambda>r. asset r \<in> set (ci_accessPointIds ids) \<and> time r < cutoff now (rc_accessPoint days)) rows else (0, rows))
      in (n1 + n2 + n3, rows))"

definition pruneOneTable ::
  "timescale \<Rightarrow> chunking \<Rightarrow> classRetention \<Rightarrow> classIds \<Rightarrow> int \<Rightarrow> string \<Rightarrow> ('r \<Rightarrow> string) \<Rightarrow> ('r \<Rightarrow> int) \<Rightarrow> 'r list \<Rightarrow> nat \<times> 'r list" where
  "pruneOneTable tx ck days ids now tableName asset time rows =
     pruneClasses days ids now asset time
       (if 0 < longest days then dropChunks tx ck tableName (cutoff now (longest days)) time rows else rows)"

text \<open>The three tables of a source, under the name of the detail table.\<close>

definition pruneTiers ::
  "timescale \<Rightarrow> chunking \<Rightarrow> tierRetention \<Rightarrow> classIds \<Rightarrow> int \<Rightarrow> string \<Rightarrow> ('r \<Rightarrow> string) \<Rightarrow> ('r \<Rightarrow> int) \<Rightarrow> ('b \<Rightarrow> string) \<Rightarrow> ('b \<Rightarrow> int) \<Rightarrow>
   ('r, 'b) tiers \<Rightarrow> nat \<times> ('r, 'b) tiers" where
  "pruneTiers tx ck days ids now tableName asset time basset btime t =
     (let (n1, detail) = pruneOneTable tx ck (rt_detail days) ids now tableName asset time (tt_detail t);
          (n2, hourly) = pruneOneTable tx ck (rt_hourly days) ids now (tableName @ ''_hourly'') basset btime (tt_hourly t);
          (n3, daily) = pruneOneTable tx ck (rt_daily days) ids now (tableName @ ''_daily'') basset btime (tt_daily t)
      in (n1 + n2 + n3, \<lparr>tt_detail = detail, tt_hourly = hourly, tt_daily = daily\<rparr>))"

record neighborRow =
  nb_assetId :: string
  nb_lastSeen :: int

record pruneWorld =
  pw_tables :: sampleTables
  pw_neighbors :: "neighborRow list"
  pw_assets :: "pruneAsset list"
  pw_retention :: retState

definition pruneLldpNeighbors :: "classRetention \<Rightarrow> classIds \<Rightarrow> int \<Rightarrow> neighborRow list \<Rightarrow> nat \<times> neighborRow list" where
  "pruneLldpNeighbors days ids now rows =
     (let (n1, rows) = (if rc_default days \<le> 0 then (0, rows)
                        else deleteMany (\<lambda>r. nb_lastSeen r < cutoff now (rc_default days) \<and>
                               nb_assetId r \<notin> set (ci_switchIds ids @ ci_accessPointIds ids)) rows);
          (n2, rows) = (if rc_switch days \<le> 0 \<or> ci_switchIds ids = [] then (0, rows)
                        else deleteMany (\<lambda>r. nb_assetId r \<in> set (ci_switchIds ids) \<and> nb_lastSeen r < cutoff now (rc_switch days)) rows);
          (n3, rows) = (if rc_accessPoint days \<le> 0 \<or> ci_accessPointIds ids = [] then (0, rows)
                        else deleteMany (\<lambda>r. nb_assetId r \<in> set (ci_accessPointIds ids) \<and> nb_lastSeen r < cutoff now (rc_accessPoint days)) rows)
      in (n1 + n2 + n3, rows))"

definition pruneMonitorSamples :: "timescale \<Rightarrow> chunking \<Rightarrow> int \<Rightarrow> pruneWorld \<Rightarrow> nat \<times> pruneWorld" where
  "pruneMonitorSamples tx ck now w =
     (let (retention, rs) = getSampleRetention now (pw_retention w); ids = getSwitchAndAccessPointAssetIds (pw_assets w); t = pw_tables w;
          (n, x) = pruneTiers tx ck (sr_sample retention) ids now ''asset_monitor_samples'' sa_assetId sa_timestamp mb_assetId mb_bucketStart (st_monitor t)
      in (n, w\<lparr>pw_retention := rs, pw_tables := t\<lparr>st_monitor := x\<rparr>\<rparr>))"

definition pruneTelemetrySamples :: "timescale \<Rightarrow> chunking \<Rightarrow> int \<Rightarrow> pruneWorld \<Rightarrow> nat \<times> pruneWorld" where
  "pruneTelemetrySamples tx ck now w =
     (let (retention, rs) = getSampleRetention now (pw_retention w); ids = getSwitchAndAccessPointAssetIds (pw_assets w); t = pw_tables w;
          r = sr_telemetry retention;
          (n1, x) = pruneTiers tx ck r ids now ''asset_telemetry_samples'' te_assetId te_timestamp tb_assetId tb_bucketStart (st_telemetry t);
          (n2, z) = pruneTiers tx ck r ids now ''asset_temperature_samples'' tp_assetId tp_timestamp tc_assetId tc_bucketStart (st_temperature t)
      in (n1 + n2, w\<lparr>pw_retention := rs, pw_tables := t\<lparr>st_telemetry := x, st_temperature := z\<rparr>\<rparr>))"

definition pruneSystemInfoSamples :: "timescale \<Rightarrow> chunking \<Rightarrow> int \<Rightarrow> pruneWorld \<Rightarrow> nat \<times> pruneWorld" where
  "pruneSystemInfoSamples tx ck now w =
     (let (retention, rs) = getSampleRetention now (pw_retention w); ids = getSwitchAndAccessPointAssetIds (pw_assets w); t = pw_tables w;
          r = sr_systemInfo retention;
          (n1, x) = pruneTiers tx ck r ids now ''asset_interface_samples'' if_assetId if_timestamp ib_assetId ib_bucketStart (st_interface t);
          (n2, y) = pruneTiers tx ck r ids now ''asset_storage_samples'' sg_assetId sg_timestamp sb_assetId sb_bucketStart (st_storage t);
          (n3, z) = pruneTiers tx ck r ids now ''asset_ipsec_tunnel_samples'' ip_assetId ip_timestamp pb_assetId pb_bucketStart (st_ipsec t);
          (n4, nbs) = pruneLldpNeighbors (rt_detail r) ids now (pw_neighbors w)
      in (n1 + n2 + n3 + n4,
          w\<lparr>pw_retention := rs, pw_tables := t\<lparr>st_interface := x, st_storage := y, st_ipsec := z\<rparr>, pw_neighbors := nbs\<rparr>))"

section \<open>The tier of a chart\<close>

datatype sampleTier = TDetail | THourly | TDaily

record tierPick =
  tk_tier :: sampleTier
  tk_bucketSeconds :: int

definition pickSampleTier :: "int \<Rightarrow> int \<Rightarrow> int \<Rightarrow> int \<Rightarrow> tierPick" where
  "pickSampleTier now since detailDays hourlyDays =
     (if now - detailDays * 86400 * 1000 \<le> since then \<lparr>tk_tier = TDetail, tk_bucketSeconds = 0\<rparr>
      else if now - hourlyDays * 86400 * 1000 \<le> since then \<lparr>tk_tier = THourly, tk_bucketSeconds = 3600\<rparr>
      else \<lparr>tk_tier = TDaily, tk_bucketSeconds = 86400\<rparr>)"

datatype retentionClass = ClassDefault | ClassSwitch | ClassAccessPoint

definition pickClassForAssetType :: "string option \<Rightarrow> retentionClass" where
  "pickClassForAssetType assetType =
     (if assetType = Some ''switch'' then ClassSwitch else if assetType = Some ''access_point'' then ClassAccessPoint else ClassDefault)"

fun classDays :: "classRetention \<Rightarrow> retentionClass \<Rightarrow> int" where
  "classDays c ClassDefault = rc_default c"
| "classDays c ClassSwitch = rc_switch c"
| "classDays c ClassAccessPoint = rc_accessPoint c"

definition pickSampleTierForAsset :: "string \<Rightarrow> (sampleRetention \<Rightarrow> tierRetention) \<Rightarrow> int \<Rightarrow> int \<Rightarrow> pruneWorld \<Rightarrow> tierPick \<times> pruneWorld" where
  "pickSampleTierForAsset i stream since now w =
     (let (retention, rs) = getSampleRetention now (pw_retention w);
          klass = pickClassForAssetType (map_option pa_assetType (find (\<lambda>a. pa_id a = i) (pw_assets w)));
          r = stream retention
      in (pickSampleTier now since (classDays (rt_detail r) klass) (classDays (rt_hourly r) klass), w\<lparr>pw_retention := rs\<rparr>))"

end
