(* ===== verification/RetentionSpec.thy ===== *)
theory RetentionSpec
  imports Retention Prelude
begin

text \<open>
  What the policy, the pruning and the choice of the tier promise each other: a saved policy is read back; pruning
  removes exactly what is older than its class allows, except where chunks are dropped although a class is kept for
  ever; the tier a chart reads still holds the samples it asks for, except where the two sides put an asset into
  different classes.
\<close>

section \<open>The policy\<close>

definition nonneg_class :: "classRetention \<Rightarrow> bool" where
  "nonneg_class c \<longleftrightarrow> 0 \<le> rc_default c \<and> 0 \<le> rc_switch c \<and> 0 \<le> rc_accessPoint c"

definition nonneg_tier :: "tierRetention \<Rightarrow> bool" where
  "nonneg_tier t \<longleftrightarrow> nonneg_class (rt_detail t) \<and> nonneg_class (rt_hourly t) \<and> nonneg_class (rt_daily t)"

definition nonneg_policy :: "sampleRetention \<Rightarrow> bool" where
  "nonneg_policy r \<longleftrightarrow> nonneg_tier (sr_sample r) \<and> nonneg_tier (sr_telemetry r) \<and> nonneg_tier (sr_systemInfo r)"

lemma retentionInt_nonneg: "0 \<le> fallback \<Longrightarrow> 0 \<le> retentionInt v fallback"
  by (simp add: retentionInt_def floor_or_nonneg)

lemma retentionInt_int: "0 \<le> i \<Longrightarrow> retentionInt (Some (JNum (of_int i))) fallback = i"
  by (simp add: retentionInt_def nullish_def)

lemma parse_class_nonneg: "nonneg_class c \<Longrightarrow> nonneg_class (parseClass v c)"
  by (simp add: parseClass_def nonneg_class_def retentionInt_nonneg)

lemma parse_tier_nonneg: "nonneg_tier t \<Longrightarrow> nonneg_tier (parseTier v t)"
  by (simp add: parseTier_def nonneg_tier_def parse_class_nonneg)

lemma default_nonneg: "nonneg_tier defaultTier"
  by (simp add: nonneg_tier_def nonneg_class_def defaultTier_def defaultClass_def)

lemma parse_nonneg: "nonneg_policy (parseSampleRetention v)"
  by (simp add: parseSampleRetention_def nonneg_policy_def parse_tier_nonneg default_nonneg defaultSampleRetention_def Let_def)

lemma merge_class_nonneg: "nonneg_class c \<Longrightarrow> nonneg_class (mergeClass c v)"
  by (simp add: mergeClass_def nonneg_class_def retentionInt_nonneg)

lemma merge_tier_nonneg: "nonneg_tier t \<Longrightarrow> nonneg_tier (mergeTier t v)"
  by (simp add: mergeTier_def nonneg_tier_def merge_class_nonneg)

lemma merge_nonneg: "nonneg_policy r \<Longrightarrow> nonneg_policy (mergeRetention r j)"
  by (simp add: mergeRetention_def nonneg_policy_def merge_tier_nonneg)

lemma parse_class_json: "nonneg_class c \<Longrightarrow> parseClass (Some (classJson c)) d = c"
  by (simp add: parseClass_def classJson_def isObject_def jprop_opt_def nonneg_class_def retentionInt_int)

lemma parse_tier_json: "nonneg_tier t \<Longrightarrow> parseTier (Some (tierJson t)) d = t"
  by (simp add: parseTier_def tierJson_def isObject_def jprop_opt_def nonneg_tier_def parse_class_json)

lemma parse_policy_json: "nonneg_policy r \<Longrightarrow> parseSampleRetention (Some (retentionJson r)) = r"
  by (simp add: parseSampleRetention_def retentionJson_def isObject_def jprop_opt_def nonneg_policy_def parse_tier_json Let_def)

definition sound :: "retState \<Rightarrow> bool" where
  "sound s \<longleftrightarrow> (case rs_cache s of None \<Rightarrow> True | Some (v, t) \<Rightarrow> nonneg_policy v)"

lemma get_nonneg: "sound s \<Longrightarrow> nonneg_policy (fst (getSampleRetention now s))" "sound s \<Longrightarrow> sound (snd (getSampleRetention now s))"
  by (auto simp: getSampleRetention_def sound_def parse_nonneg Let_def split: option.splits)

text \<open>
  A policy that was saved is the policy that is read, at once and at any later time, whatever the cache held; every
  number of it is non-negative; and a stream the request does not mention keeps its numbers.
\<close>

theorem saved_policy_read_back:
  assumes "sound s"
  shows "fst (getSampleRetention later (snd (putSampleRetention body now s))) = fst (putSampleRetention body now s) \<and>
    nonneg_policy (fst (putSampleRetention body now s)) \<and>
    (nullish (jprop_opt body ''sample'') \<longrightarrow> sr_sample (fst (putSampleRetention body now s)) = sr_sample (fst (getSampleRetention now s)))"
proof -
  let ?cur = "fst (getSampleRetention now s)"
  define input where "input = (if isObject body then the body else JObj [])"
  have put: "putSampleRetention body now s = (mergeRetention ?cur input,
      (snd (getSampleRetention now s))\<lparr>rs_stored := Some (retentionJson (mergeRetention ?cur input)), rs_cache := None\<rparr>)"
    by (simp add: putSampleRetention_def updateSampleRetention_def input_def split_def Let_def)
  have nn: "nonneg_policy (mergeRetention ?cur input)" by (intro merge_nonneg get_nonneg(1) assms)
  have "jprop input ''sample'' = jprop_opt body ''sample'' \<or> jprop input ''sample'' = None"
    by (auto simp: input_def isObject_def jprop_opt_def split: option.split)
  then have "nullish (jprop_opt body ''sample'') \<Longrightarrow> nullish (jprop input ''sample'')" by (auto simp: nullish_def)
  then show ?thesis using nn unfolding put by (auto simp: getSampleRetention_def parse_policy_json Let_def mergeRetention_def)
qed

text \<open>
  A policy another process stored is read within five seconds: a read either returns the stored policy, or a value
  read less than five seconds before.
\<close>

theorem policy_never_older_than_ttl:
  "fst (getSampleRetention now s) = parseSampleRetention (rs_stored s) \<or>
   (\<exists>t. rs_cache s = Some (fst (getSampleRetention now s), t) \<and> now < t + 5000)"
  by (auto simp: getSampleRetention_def CACHE_TTL_MS_def Let_def split: option.splits)

section \<open>Pruning\<close>

text \<open>The days the pruning grants an asset, and the rows it should leave.\<close>

definition pruneDays :: "classRetention \<Rightarrow> classIds \<Rightarrow> string \<Rightarrow> int" where
  "pruneDays days ids i =
     (if i \<in> set (ci_switchIds ids) then rc_switch days else if i \<in> set (ci_accessPointIds ids) then rc_accessPoint days else rc_default days)"

definition stays :: "classRetention \<Rightarrow> classIds \<Rightarrow> int \<Rightarrow> string \<Rightarrow> int \<Rightarrow> bool" where
  "stays days ids now i t \<longleftrightarrow> pruneDays days ids i \<le> 0 \<or> cutoff now (pruneDays days ids i) \<le> t"

definition dropped :: "timescale \<Rightarrow> chunking \<Rightarrow> classRetention \<Rightarrow> int \<Rightarrow> string \<Rightarrow> int \<Rightarrow> bool" where
  "dropped tx ck days now tableName t \<longleftrightarrow>
     0 < longest days \<and> tableName \<in> tx_hypertables tx \<and> \<not> ck_throws ck tableName \<and> ck_chunkEnd ck tableName t \<le> cutoff now (longest days)"

lemma class_members:
  "i \<in> set (ci_switchIds (getSwitchAndAccessPointAssetIds assets)) \<Longrightarrow> \<exists>a \<in> set assets. pa_id a = i \<and> pa_assetType a = ''switch''"
  "i \<in> set (ci_accessPointIds (getSwitchAndAccessPointAssetIds assets)) \<Longrightarrow> \<exists>a \<in> set assets. pa_id a = i \<and> pa_assetType a = ''access_point''"
  unfolding getSwitchAndAccessPointAssetIds_def Let_def by auto

lemma classes_disjoint:
  assumes "distinct (map pa_id assets)"
  shows "set (ci_switchIds (getSwitchAndAccessPointAssetIds assets)) \<inter> set (ci_accessPointIds (getSwitchAndAccessPointAssetIds assets)) = {}"
proof (rule equals0I)
  fix i
  assume "i \<in> set (ci_switchIds (getSwitchAndAccessPointAssetIds assets)) \<inter> set (ci_accessPointIds (getSwitchAndAccessPointAssetIds assets))"
  then obtain a b where ab: "a \<in> set assets" "pa_id a = i" "pa_assetType a = ''switch''" "b \<in> set assets" "pa_id b = i" "pa_assetType b = ''access_point''"
    using class_members [of i assets] by blast
  have "find (\<lambda>c. pa_id c = i) assets = Some a" "find (\<lambda>c. pa_id c = i) assets = Some b"
    using find_distinct_key [OF assms ab(1)] find_distinct_key [OF assms ab(4)] ab(2,5) by simp_all
  then show False using ab(3,6) by simp
qed

lemma delete_step:
  "snd (if b then deleteMany P rows else (0, rows)) = filter (\<lambda>r. \<not> (b \<and> P r)) rows"
  "fst (if b then deleteMany P rows else (0, rows)) = length (filter (\<lambda>r. b \<and> P r) rows)"
  by (simp_all add: deleteMany_def)

lemma prune_classes:
  assumes "set (ci_switchIds ids) \<inter> set (ci_accessPointIds ids) = {}"
  shows "snd (pruneClasses days ids now asset time rows) = filter (\<lambda>r. stays days ids now (asset r) (time r)) rows"
proof -
  have "snd (pruneClasses days ids now asset time rows) =
      filter (\<lambda>r. \<not> ((0 < rc_accessPoint days \<and> ci_accessPointIds ids \<noteq> []) \<and> asset r \<in> set (ci_accessPointIds ids) \<and> time r < cutoff now (rc_accessPoint days)))
      (filter (\<lambda>r. \<not> ((0 < rc_switch days \<and> ci_switchIds ids \<noteq> []) \<and> asset r \<in> set (ci_switchIds ids) \<and> time r < cutoff now (rc_switch days)))
      (filter (\<lambda>r. \<not> (0 < rc_default days \<and> time r < cutoff now (rc_default days) \<and>
         (ci_switchIds ids @ ci_accessPointIds ids \<noteq> [] \<longrightarrow> asset r \<notin> set (ci_switchIds ids @ ci_accessPointIds ids)))) rows))"
    unfolding pruneClasses_def Let_def split_def snd_conv delete_step ..
  also have "\<dots> = filter (\<lambda>r. stays days ids now (asset r) (time r)) rows"
    unfolding filter_filter by (rule filter_cong [OF refl]) (use assms in \<open>auto simp: stays_def pruneDays_def\<close>)
  finally show ?thesis .
qed

lemma prune_count: "fst (pruneClasses days ids now asset time rows) + length (snd (pruneClasses days ids now asset time rows)) = length rows"
proof -
  have sum: "length (filter P (filter Q xs)) + length (filter (\<lambda>r. \<not> P r) (filter Q xs)) = length (filter Q xs)" for P Q and xs :: "'a list"
    by (rule sum_length_filter_compl)
  have sum1: "length (filter P xs) + length (filter (\<lambda>r. \<not> P r) xs) = length xs" for P and xs :: "'a list" by (rule sum_length_filter_compl)
  show ?thesis unfolding pruneClasses_def Let_def split_def snd_conv fst_conv delete_step add.assoc sum sum1 ..
qed

lemma prune_table:
  assumes "set (ci_switchIds ids) \<inter> set (ci_accessPointIds ids) = {}"
  shows "snd (pruneOneTable tx ck days ids now tableName asset time rows) =
    filter (\<lambda>r. stays days ids now (asset r) (time r) \<and> \<not> dropped tx ck days now tableName (time r)) rows"
  unfolding pruneOneTable_def prune_classes [OF assms] by (auto simp: dropChunks_def dropped_def not_le intro: filter_cong)

lemma longest_bound: "pruneDays days ids i \<le> longest days"
  by (simp add: pruneDays_def longest_def le_max_iff_disj)

lemma cutoff_mono: "d \<le> e \<Longrightarrow> cutoff now e \<le> cutoff now d"
  by (simp add: cutoff_def)

text \<open>
  C27. Pruning removes exactly the rows that are older than the days of their class, on plain tables whatever the policy and on
  hypertables if every class has a limit; on a plain table the number it reports is the number of rows that went.
\<close>

theorem prune_exact:
  assumes "ids = getSwitchAndAccessPointAssetIds assets" "distinct (map pa_id assets)" "\<forall>t. t < ck_chunkEnd ck tableName t"
    and "tableName \<notin> tx_hypertables tx \<or> (0 < rc_default days \<and> 0 < rc_switch days \<and> 0 < rc_accessPoint days)"
  shows "snd (pruneOneTable tx ck days ids now tableName asset time rows) = filter (\<lambda>r. stays days ids now (asset r) (time r)) rows \<and>
    (tableName \<notin> tx_hypertables tx \<longrightarrow>
       fst (pruneOneTable tx ck days ids now tableName asset time rows) + length (snd (pruneOneTable tx ck days ids now tableName asset time rows)) = length rows)"
proof
  have disj: "set (ci_switchIds ids) \<inter> set (ci_accessPointIds ids) = {}" unfolding assms(1) by (rule classes_disjoint [OF assms(2)])
  have "\<not> dropped tx ck days now tableName (time r)" if "stays days ids now (asset r) (time r)" for r
  proof (cases "tableName \<in> tx_hypertables tx")
    case True
    then have "0 < pruneDays days ids (asset r)" using assms(4) by (simp add: pruneDays_def)
    then have "cutoff now (longest days) \<le> time r" using that cutoff_mono [OF longest_bound, of now days ids "asset r"] by (simp add: stays_def)
    then show ?thesis using spec [OF assms(3), of "time r"] by (simp add: dropped_def)
  qed (simp add: dropped_def)
  then show "snd (pruneOneTable tx ck days ids now tableName asset time rows) = filter (\<lambda>r. stays days ids now (asset r) (time r)) rows"
    unfolding prune_table [OF disj] by (auto intro: filter_cong)
  show "tableName \<notin> tx_hypertables tx \<longrightarrow>
       fst (pruneOneTable tx ck days ids now tableName asset time rows) + length (snd (pruneOneTable tx ck days ids now tableName asset time rows)) = length rows"
    using prune_count [of days ids now asset time rows] by (simp add: pruneOneTable_def dropChunks_def)
qed

text \<open>
  On a hypertable a class that is to be kept for ever is not: the chunks are dropped at the longest limit of the
  other classes, so a row of the class goes with its chunk, which the same policy would keep on a plain table.
\<close>

theorem keep_forever_rows_dropped:
  assumes "ids = getSwitchAndAccessPointAssetIds assets" "distinct (map pa_id assets)" "row \<in> set rows" "pruneDays days ids (asset row) = 0"
    and "0 < longest days" "ck_chunkEnd ck tableName (time row) \<le> cutoff now (longest days)" "\<not> ck_throws ck tableName"
  shows "row \<notin> set (snd (pruneOneTable \<lparr>tx_extensionInstalled = True, tx_hypertables = {tableName}\<rparr> ck days ids now tableName asset time rows)) \<and>
    row \<in> set (snd (pruneOneTable \<lparr>tx_extensionInstalled = False, tx_hypertables = {}\<rparr> ck days ids now tableName asset time rows))"
proof -
  have disj: "set (ci_switchIds ids) \<inter> set (ci_accessPointIds ids) = {}" unfolding assms(1) by (rule classes_disjoint [OF assms(2)])
  show ?thesis using assms(3-) unfolding prune_table [OF disj] by (simp add: dropped_def stays_def)
qed

section \<open>The router and the pruning\<close>

text \<open>The class of an asset on the side of the pruning. The router asks for the type only.\<close>

definition agreed :: "pruneAsset \<Rightarrow> bool" where
  "agreed a \<longleftrightarrow> pa_assetType a \<in> {''switch'', ''access_point''} \<longrightarrow> map_option toLowerCase (pa_manufacturer a) = Some ''fortinet''"

lemma find_asset: "distinct (map pa_id as) \<Longrightarrow> a \<in> set as \<Longrightarrow> find (\<lambda>b. pa_id b = pa_id a) as = Some a"
  by (rule find_distinct_key)

lemma pruneDays_class:
  assumes "distinct (map pa_id assets)" "a \<in> set assets"
  shows "pruneDays days (getSwitchAndAccessPointAssetIds assets) (pa_id a) =
    (if map_option toLowerCase (pa_manufacturer a) = Some ''fortinet'' then classDays days (pickClassForAssetType (Some (pa_assetType a))) else rc_default days)"
proof -
  have uniq: "b \<in> set assets \<Longrightarrow> pa_id a = pa_id b \<Longrightarrow> a = b" for b using assms by (simp add: distinct_map inj_on_def)
  have mem: "pa_id a \<in> pa_id ` {b \<in> set assets. P b} \<longleftrightarrow> P a" for P using assms(2) by (auto dest: uniq)
  have "pa_id a \<in> set (ci_switchIds (getSwitchAndAccessPointAssetIds assets)) \<longleftrightarrow>
      map_option toLowerCase (pa_manufacturer a) = Some ''fortinet'' \<and> pa_assetType a = ''switch''"
    using mem [of "\<lambda>b. map_option toLowerCase (pa_manufacturer b) = Some ''fortinet'' \<and> pa_assetType b \<in> {''switch'', ''access_point''} \<and> pa_assetType b = ''switch''"]
    by (auto simp: getSwitchAndAccessPointAssetIds_def Let_def)
  moreover have "pa_id a \<in> set (ci_accessPointIds (getSwitchAndAccessPointAssetIds assets)) \<longleftrightarrow>
      map_option toLowerCase (pa_manufacturer a) = Some ''fortinet'' \<and> pa_assetType a = ''access_point''"
    using mem [of "\<lambda>b. map_option toLowerCase (pa_manufacturer b) = Some ''fortinet'' \<and> pa_assetType b \<in> {''switch'', ''access_point''} \<and> pa_assetType b = ''access_point''"]
    by (auto simp: getSwitchAndAccessPointAssetIds_def Let_def)
  ultimately show ?thesis by (auto simp: pruneDays_def pickClassForAssetType_def)
qed

lemma agreed_days:
  assumes "distinct (map pa_id assets)" "a \<in> set assets" "agreed a"
  shows "pruneDays days (getSwitchAndAccessPointAssetIds assets) (pa_id a) = classDays days (pickClassForAssetType (Some (pa_assetType a)))"
  using assms by (auto simp: pruneDays_class agreed_def pickClassForAssetType_def)

lemma covered:
  assumes "now - pruneDays days ids i * 86400 * 1000 \<le> t" "\<forall>t. t < ck_chunkEnd ck tableName t"
  shows "stays days ids now i t \<and> \<not> dropped tx ck days now tableName t"
proof -
  have "cutoff now (longest days) \<le> t" using assms(1) cutoff_mono [OF longest_bound, of now days ids i] by (simp add: cutoff_def)
  then show ?thesis using assms(1) spec [OF assms(2), of t] by (simp add: stays_def dropped_def cutoff_def)
qed

definition monitorTiers :: "pruneWorld \<Rightarrow> (monitorSample, monitorBucket) tiers" where
  "monitorTiers w = st_monitor (pw_tables w)"

lemma prune_monitor:
  assumes "distinct (map pa_id (pw_assets w))" "r = sr_sample (fst (getSampleRetention now (pw_retention w)))" "ids = getSwitchAndAccessPointAssetIds (pw_assets w)"
  shows "tt_detail (monitorTiers (snd (pruneMonitorSamples tx ck now w))) =
      filter (\<lambda>x. stays (rt_detail r) ids now (sa_assetId x) (sa_timestamp x) \<and> \<not> dropped tx ck (rt_detail r) now ''asset_monitor_samples'' (sa_timestamp x)) (tt_detail (monitorTiers w))"
    "tt_hourly (monitorTiers (snd (pruneMonitorSamples tx ck now w))) =
      filter (\<lambda>x. stays (rt_hourly r) ids now (mb_assetId x) (mb_bucketStart x) \<and> \<not> dropped tx ck (rt_hourly r) now ''asset_monitor_samples_hourly'' (mb_bucketStart x)) (tt_hourly (monitorTiers w))"
proof -
  have disj: "set (ci_switchIds ids) \<inter> set (ci_accessPointIds ids) = {}" unfolding assms(3) by (rule classes_disjoint [OF assms(1)])
  note t = prune_table [OF disj]
  show "tt_detail (monitorTiers (snd (pruneMonitorSamples tx ck now w))) =
      filter (\<lambda>x. stays (rt_detail r) ids now (sa_assetId x) (sa_timestamp x) \<and> \<not> dropped tx ck (rt_detail r) now ''asset_monitor_samples'' (sa_timestamp x)) (tt_detail (monitorTiers w))"
    by (simp add: monitorTiers_def pruneMonitorSamples_def pruneTiers_def Let_def split_def t flip: assms(2,3))
  show "tt_hourly (monitorTiers (snd (pruneMonitorSamples tx ck now w))) =
      filter (\<lambda>x. stays (rt_hourly r) ids now (mb_assetId x) (mb_bucketStart x) \<and> \<not> dropped tx ck (rt_hourly r) now ''asset_monitor_samples_hourly'' (mb_bucketStart x)) (tt_hourly (monitorTiers w))"
    by (simp add: monitorTiers_def pruneMonitorSamples_def pruneTiers_def Let_def split_def t flip: assms(2,3))
qed

text \<open>
  The router and the pruning fit together: for an asset both put into the same class, a chart whose range starts at
  \<open>since\<close> is sent to the detail or to the hourly tier only if pruning at that moment leaves that tier complete from
  \<open>since\<close> on, on plain tables and on hypertables, whatever the policy.
\<close>

theorem router_picks_complete_tier:
  assumes "distinct (map pa_id (pw_assets w))" "a \<in> set (pw_assets w)" "agreed a" "\<forall>tbl t. t < ck_chunkEnd ck tbl t"
    and "pick = tk_tier (fst (pickSampleTierForAsset (pa_id a) sr_sample since now w))" "w' = snd (pruneMonitorSamples tx ck now w)"
  shows "(pick = TDetail \<longrightarrow> filter (\<lambda>x. sa_assetId x = pa_id a \<and> since \<le> sa_timestamp x) (tt_detail (monitorTiers w')) =
        filter (\<lambda>x. sa_assetId x = pa_id a \<and> since \<le> sa_timestamp x) (tt_detail (monitorTiers w))) \<and>
    (pick = THourly \<longrightarrow> filter (\<lambda>x. mb_assetId x = pa_id a \<and> since \<le> mb_bucketStart x) (tt_hourly (monitorTiers w')) =
        filter (\<lambda>x. mb_assetId x = pa_id a \<and> since \<le> mb_bucketStart x) (tt_hourly (monitorTiers w)))"
proof -
  define r where "r = sr_sample (fst (getSampleRetention now (pw_retention w)))"
  define ids where "ids = getSwitchAndAccessPointAssetIds (pw_assets w)"
  note days = agreed_days [OF assms(1-3), folded ids_def] and p = prune_monitor [OF assms(1) r_def ids_def, of tx ck, folded assms(6)]
  have pick: "pick = tk_tier (pickSampleTier now since (pruneDays (rt_detail r) ids (pa_id a)) (pruneDays (rt_hourly r) ids (pa_id a)))"
    unfolding assms(5) pickSampleTierForAsset_def by (simp add: days find_asset [OF assms(1,2)] Let_def split_def r_def)
  have chunk: "\<forall>t. t < ck_chunkEnd ck tbl t" for tbl using assms(4) by blast
  show ?thesis
  proof (intro conjI impI)
    assume "pick = TDetail"
    then have "now - pruneDays (rt_detail r) ids (pa_id a) * 86400 * 1000 \<le> since" unfolding pick by (simp add: pickSampleTier_def split: if_splits)
    then have "stays (rt_detail r) ids now (pa_id a) t \<and> \<not> dropped tx ck (rt_detail r) now ''asset_monitor_samples'' t" if "since \<le> t" for t
      using that by (intro covered [OF _ chunk]) simp
    then show "filter (\<lambda>x. sa_assetId x = pa_id a \<and> since \<le> sa_timestamp x) (tt_detail (monitorTiers w')) =
        filter (\<lambda>x. sa_assetId x = pa_id a \<and> since \<le> sa_timestamp x) (tt_detail (monitorTiers w))" unfolding p(1) by (auto intro: filter_cong)
  next
    assume "pick = THourly"
    then have "now - pruneDays (rt_hourly r) ids (pa_id a) * 86400 * 1000 \<le> since" unfolding pick by (simp add: pickSampleTier_def split: if_splits)
    then have "stays (rt_hourly r) ids now (pa_id a) t \<and> \<not> dropped tx ck (rt_hourly r) now ''asset_monitor_samples_hourly'' t" if "since \<le> t" for t
      using that by (intro covered [OF _ chunk]) simp
    then show "filter (\<lambda>x. mb_assetId x = pa_id a \<and> since \<le> mb_bucketStart x) (tt_hourly (monitorTiers w')) =
        filter (\<lambda>x. mb_assetId x = pa_id a \<and> since \<le> mb_bucketStart x) (tt_hourly (monitorTiers w))" unfolding p(2) by (auto intro: filter_cong)
  qed
qed

text \<open>
  Where the classes differ the router sends charts to samples that are gone: for a switch of another manufacturer, with
  fewer days for the default class than for switches, the detail tier is chosen for a range whose older part the pruning
  deletes. And a class whose detail samples are kept for ever is never read in detail at all.
\<close>

theorem router_reads_pruned_rows:
  assumes "distinct (map pa_id (pw_assets w))" "a \<in> set (pw_assets w)" "pa_assetType a = ''switch''"
    and "map_option toLowerCase (pa_manufacturer a) \<noteq> Some ''fortinet''"
    and "r = sr_sample (fst (getSampleRetention now (pw_retention w)))" "0 < rc_default (rt_detail r)" "rc_default (rt_detail r) < rc_switch (rt_detail r)"
    and "cutoff now (rc_switch (rt_detail r)) \<le> since" "x \<in> set (tt_detail (monitorTiers w))" "sa_assetId x = pa_id a"
    and "since \<le> sa_timestamp x" "sa_timestamp x < cutoff now (rc_default (rt_detail r))"
  shows "tk_tier (fst (pickSampleTierForAsset (pa_id a) sr_sample since now w)) = TDetail \<and>
    x \<notin> set (tt_detail (monitorTiers (snd (pruneMonitorSamples tx ck now w)))) \<and>
    (\<forall>hourlyDays early. early < now \<longrightarrow> tk_tier (pickSampleTier now early 0 hourlyDays) \<noteq> TDetail)"
proof (intro conjI)
  show "tk_tier (fst (pickSampleTierForAsset (pa_id a) sr_sample since now w)) = TDetail"
    using assms(8) by (simp add: pickSampleTierForAsset_def find_asset [OF assms(1,2)] assms(3) pickClassForAssetType_def pickSampleTier_def
        cutoff_def Let_def split_def flip: assms(5))
  have "pruneDays (rt_detail r) (getSwitchAndAccessPointAssetIds (pw_assets w)) (sa_assetId x) = rc_default (rt_detail r)"
    unfolding assms(10) pruneDays_class [OF assms(1,2)] by (rule if_not_P [OF assms(4)])
  then show "x \<notin> set (tt_detail (monitorTiers (snd (pruneMonitorSamples tx ck now w))))"
    unfolding prune_monitor(1) [OF assms(1,5) refl] using assms(6,12) by (simp add: stays_def)
  show "\<forall>hourlyDays early. early < now \<longrightarrow> tk_tier (pickSampleTier now early 0 hourlyDays) \<noteq> TDetail"
    by (simp add: pickSampleTier_def)
qed

section \<open>A concrete fleet\<close>

definition fleet :: "pruneAsset list" where
  "fleet = [\<lparr>pa_id = ''fsw'', pa_manufacturer = Some ''Fortinet'', pa_assetType = ''switch''\<rparr>,
            \<lparr>pa_id = ''csw'', pa_manufacturer = Some ''Cisco'', pa_assetType = ''switch''\<rparr>,
            \<lparr>pa_id = ''pc'', pa_manufacturer = None, pa_assetType = ''workstation''\<rparr>]"

definition oldSample :: "string \<Rightarrow> int \<Rightarrow> monitorSample" where
  "oldSample i t = \<lparr>sa_assetId = i, sa_timestamp = t, sa_success = True, sa_responseTimeMs = Some 1, sa_error = None\<rparr>"

text \<open>A chunk holds one day. Samples of the second and of the ninth day; the tenth is over.\<close>

definition dailyChunks :: chunking where
  "dailyChunks = \<lparr>ck_chunkEnd = (\<lambda>_ t. date_trunc day t + day), ck_throws = (\<lambda>_. False)\<rparr>"

definition oldRows :: "monitorSample list" where
  "oldRows = [oldSample ''fsw'' (2 * day), oldSample ''csw'' (2 * day), oldSample ''csw'' (9 * day)]"

lemma chunk_law: "\<forall>t. t < ck_chunkEnd dailyChunks tbl t" "\<not> ck_throws dailyChunks tbl"
  by (simp_all add: dailyChunks_def date_trunc_def day_def algebra_simps)

lemma lower_names: "toLowerCase ''Fortinet'' = ''fortinet''" "toLowerCase ''Cisco'' = ''cisco''"
  by code_simp+

lemma fleet_ids: "distinct (map pa_id fleet)" "getSwitchAndAccessPointAssetIds fleet = \<lparr>ci_switchIds = [''fsw''], ci_accessPointIds = []\<rparr>"
  by (simp_all add: fleet_def) (simp add: getSwitchAndAccessPointAssetIds_def lower_names Let_def)

definition switchPolicy :: "int \<Rightarrow> int \<Rightarrow> classRetention" where
  "switchPolicy d s = \<lparr>rc_default = d, rc_switch = s, rc_accessPoint = d\<rparr>"

theorem prune_exact_witness:
  "snd (pruneOneTable \<lparr>tx_extensionInstalled = True, tx_hypertables = {''asset_monitor_samples''}\<rparr> dailyChunks (switchPolicy 3 9)
      \<lparr>ci_switchIds = [''fsw''], ci_accessPointIds = []\<rparr> (10 * day) ''asset_monitor_samples'' sa_assetId sa_timestamp oldRows) =
   [oldSample ''fsw'' (2 * day), oldSample ''csw'' (9 * day)]"
proof -
  have "0 < rc_default (switchPolicy 3 9) \<and> 0 < rc_switch (switchPolicy 3 9) \<and> 0 < rc_accessPoint (switchPolicy 3 9)" by (simp add: switchPolicy_def)
  then show ?thesis
    using prune_exact [OF fleet_ids(2) [symmetric] fleet_ids(1) chunk_law(1), of "''asset_monitor_samples''"
      "\<lparr>tx_extensionInstalled = True, tx_hypertables = {''asset_monitor_samples''}\<rparr>" "switchPolicy 3 9" "10 * day" sa_assetId sa_timestamp oldRows]
    by (simp add: oldRows_def oldSample_def stays_def pruneDays_def switchPolicy_def cutoff_def day_def)
qed

theorem keep_forever_rows_dropped_witness:
  "oldSample ''fsw'' (2 * day) \<notin> set (snd (pruneOneTable \<lparr>tx_extensionInstalled = True, tx_hypertables = {''t''}\<rparr> dailyChunks (switchPolicy 3 0)
     \<lparr>ci_switchIds = [''fsw''], ci_accessPointIds = []\<rparr> (10 * day) ''t'' sa_assetId sa_timestamp oldRows))"
  using keep_forever_rows_dropped [OF fleet_ids(2) [symmetric] fleet_ids(1), of "oldSample ''fsw'' (2 * day)" oldRows "switchPolicy 3 0" sa_assetId dailyChunks "''t''" sa_timestamp "10 * day"]
  by (simp add: oldRows_def pruneDays_def switchPolicy_def longest_def chunk_law(2)) (simp add: oldSample_def dailyChunks_def date_trunc_def cutoff_def day_def)

definition policyOf :: "int \<Rightarrow> int \<Rightarrow> sampleRetention" where
  "policyOf d s = (let t = \<lparr>rt_detail = switchPolicy d s, rt_hourly = defaultClass 30, rt_daily = defaultClass 365\<rparr>
     in \<lparr>sr_sample = t, sr_telemetry = t, sr_systemInfo = t\<rparr>)"

definition fleetWorld :: pruneWorld where
  "fleetWorld = \<lparr>pw_tables = \<lparr>st_monitor = \<lparr>tt_detail = oldRows, tt_hourly = [], tt_daily = []\<rparr>, st_telemetry = \<lparr>tt_detail = [], tt_hourly = [], tt_daily = []\<rparr>,
       st_temperature = \<lparr>tt_detail = [], tt_hourly = [], tt_daily = []\<rparr>, st_interface = \<lparr>tt_detail = [], tt_hourly = [], tt_daily = []\<rparr>,
       st_storage = \<lparr>tt_detail = [], tt_hourly = [], tt_daily = []\<rparr>, st_ipsec = \<lparr>tt_detail = [], tt_hourly = [], tt_daily = []\<rparr>\<rparr>,
     pw_neighbors = [], pw_assets = fleet,
     pw_retention = \<lparr>rs_stored = None, rs_cache = Some (policyOf 3 9, 10 * day), rs_migratedAt = None, rs_manual = None, rs_legacy = None\<rparr>\<rparr>"

lemma fleet_world:
  "pw_assets fleetWorld = fleet" "fst (getSampleRetention (10 * day) (pw_retention fleetWorld)) = policyOf 3 9" "tt_detail (monitorTiers fleetWorld) = oldRows"
  by (simp_all add: fleetWorld_def getSampleRetention_def CACHE_TTL_MS_def monitorTiers_def)

lemma policy_detail: "rt_detail (sr_sample (policyOf d s)) = switchPolicy d s"
  by (simp add: policyOf_def Let_def)

definition plainTx :: timescale where
  "plainTx = \<lparr>tx_extensionInstalled = False, tx_hypertables = {}\<rparr>"

theorem router_picks_complete_tier_witness:
  "filter (\<lambda>x. sa_assetId x = ''fsw'' \<and> 2 * day \<le> sa_timestamp x) (tt_detail (monitorTiers (snd (pruneMonitorSamples plainTx dailyChunks (10 * day) fleetWorld)))) =
   [oldSample ''fsw'' (2 * day)]"
proof -
  let ?a = "\<lparr>pa_id = ''fsw'', pa_manufacturer = Some ''Fortinet'', pa_assetType = ''switch''\<rparr>"
  have a: "?a \<in> set (pw_assets fleetWorld)" "agreed ?a" by (simp_all add: fleet_world fleet_def agreed_def lower_names)
  have f: "find (\<lambda>b. pa_id b = ''fsw'') fleet = Some ?a" by (simp add: fleet_def)
  have pick: "tk_tier (fst (pickSampleTierForAsset (pa_id ?a) sr_sample (2 * day) (10 * day) fleetWorld)) = TDetail"
    by (simp add: pickSampleTierForAsset_def fleet_world f policy_detail split_def Let_def pickClassForAssetType_def) (simp add: pickSampleTier_def switchPolicy_def day_def)
  have d: "distinct (map pa_id (pw_assets fleetWorld))" using fleet_ids(1) by (simp add: fleet_world)
  have "filter (\<lambda>x. sa_assetId x = pa_id ?a \<and> 2 * day \<le> sa_timestamp x) (tt_detail (monitorTiers (snd (pruneMonitorSamples plainTx dailyChunks (10 * day) fleetWorld)))) =
      filter (\<lambda>x. sa_assetId x = pa_id ?a \<and> 2 * day \<le> sa_timestamp x) oldRows"
    using router_picks_complete_tier [OF d a allI [OF chunk_law(1)] pick [symmetric] refl, of plainTx] by (simp add: fleet_world)
  then show ?thesis by (simp add: oldRows_def oldSample_def day_def)
qed

theorem router_reads_pruned_rows_witness:
  "tk_tier (fst (pickSampleTierForAsset ''csw'' sr_sample (2 * day) (10 * day) fleetWorld)) = TDetail \<and>
   oldSample ''csw'' (2 * day) \<notin> set (tt_detail (monitorTiers (snd (pruneMonitorSamples plainTx dailyChunks (10 * day) fleetWorld))))"
proof -
  let ?a = "\<lparr>pa_id = ''csw'', pa_manufacturer = Some ''Cisco'', pa_assetType = ''switch''\<rparr>"
  have "tk_tier (fst (pickSampleTierForAsset (pa_id ?a) sr_sample (2 * day) (10 * day) fleetWorld)) = TDetail \<and>
      oldSample ''csw'' (2 * day) \<notin> set (tt_detail (monitorTiers (snd (pruneMonitorSamples plainTx dailyChunks (10 * day) fleetWorld)))) \<and>
      (\<forall>hourlyDays early. early < 10 * day \<longrightarrow> tk_tier (pickSampleTier (10 * day) early 0 hourlyDays) \<noteq> TDetail)"
    by (rule router_reads_pruned_rows [where r = "sr_sample (policyOf 3 9)"])
      (simp_all add: fleet_world fleet_ids(1) policy_detail, simp_all add: fleet_def switchPolicy_def cutoff_def day_def oldRows_def oldSample_def lower_names)
  then show ?thesis by simp
qed

theorem saved_policy_read_back_witness:
  "rc_switch (rt_detail (sr_sample (fst (getSampleRetention 99 (snd (putSampleRetention
     (Some (JObj [(''sample'', JObj [(''detail'', JObj [(''switch'', JNum 14)])])])) 7 (pw_retention fleetWorld))))))) = 14"
proof -
  have s: "sound (pw_retention fleetWorld)"
    by (simp add: sound_def fleetWorld_def policyOf_def switchPolicy_def defaultClass_def nonneg_policy_def nonneg_tier_def nonneg_class_def Let_def)
  show ?thesis using saved_policy_read_back [OF s, of 99 "Some (JObj [(''sample'', JObj [(''detail'', JObj [(''switch'', JNum 14)])])])" 7]
    by (simp add: putSampleRetention_def updateSampleRetention_def mergeRetention_def mergeTier_def mergeClass_def isObject_def nullish_def jprop_opt_def
        retentionInt_def floor_or_def split_def Let_def)
qed

end
