(* ===== verification/History.thy ===== *)
theory History
  imports Retention
begin

text \<open>
  The chart readers of \<^verbatim>\<open>src/services/sampleHistoryService.ts\<close>: for each of the six sources the rows and the statistics
  of a range, from the detail table or from a rollup. A field that only one of the two kinds of row has is an option.
  The conversion of big integers to numbers is the identity here: the model's integers are exact.
\<close>

definition js_round :: "rat \<Rightarrow> int" where
  "js_round x = \<lfloor>x + 1 / 2\<rfloor>"

text \<open>\<^verbatim>\<open>rate\<close>: times in milliseconds, the result per second.\<close>

definition rate :: "int option \<Rightarrow> int option \<Rightarrow> int \<Rightarrow> int \<Rightarrow> rat option" where
  "rate frst lst bucketStartMs lastSampleAtMs =
     (case (frst, lst) of
        (Some f, Some l) \<Rightarrow>
          (let delta = l - f; seconds = of_int (lastSampleAtMs - bucketStartMs) / 1000 :: rat
           in if delta < 0 then None else if seconds \<le> 0 then Some 0 else Some (of_int delta / seconds))
      | _ \<Rightarrow> None)"

definition in_range :: "int \<Rightarrow> int \<Rightarrow> int \<Rightarrow> bool" where
  "in_range since til t \<longleftrightarrow> since \<le> t \<and> t \<le> til"

definition pick_tier :: "sampleTier \<Rightarrow> ('r, 'b) tiers \<Rightarrow> 'b list" where
  "pick_tier tier t = (if tier = THourly then tt_hourly t else tt_daily t)"

definition avg_of :: "rat list \<Rightarrow> rat option" where
  "avg_of xs = (if xs = [] then None else Some (sum_list xs / of_nat (length xs)))"

text \<open>The running sums of a loop over buckets: the weighted sum and the weight, over the rows that have an average.\<close>

definition weighted_mean :: "('b \<Rightarrow> rat option) \<Rightarrow> ('b \<Rightarrow> nat) \<Rightarrow> 'b list \<Rightarrow> rat option" where
  "weighted_mean avg n bs =
     (let present = filter (\<lambda>b. avg b \<noteq> None) bs;
          weightedSum = sum_list (map (\<lambda>b. the (avg b) * of_nat (n b)) present);
          weightedCount = sum_list (map n present)
      in if weightedCount = 0 then None else Some (weightedSum / of_nat weightedCount))"

section \<open>Response times\<close>

record monitorHistoryRow =
  mh_timestamp :: int
  mh_success :: "bool option"
  mh_responseTimeMs :: "rat option"
  mh_error :: "string option"
  mh_sampleCount :: "nat option"
  mh_successCount :: "nat option"
  mh_failureCount :: "nat option"
  mh_minResponseTimeMs :: "int option"
  mh_maxResponseTimeMs :: "int option"

record monitorStats =
  hs_total :: nat
  hs_failed :: nat
  hs_successRate :: "rat option"
  hs_packetLossRate :: "rat option"
  hs_avgMs :: "int option"
  hs_minMs :: "int option"
  hs_maxMs :: "int option"

definition shares :: "nat \<Rightarrow> nat \<Rightarrow> rat option \<times> rat option" where
  "shares n failed =
     (if n = 0 then (None, None) else (Some ((of_nat n - of_nat failed) / of_nat n), Some (of_nat failed / of_nat n)))"

definition monitorDetail :: "string \<Rightarrow> int \<Rightarrow> int \<Rightarrow> monitorSample list \<Rightarrow> monitorHistoryRow list \<times> monitorStats" where
  "monitorDetail i since til rows0 =
     (let rows = sort_key sa_timestamp (filter (\<lambda>r. sa_assetId r = i \<and> in_range since til (sa_timestamp r)) rows0);
          total = length rows;
          failed = length (filter (\<lambda>r. \<not> sa_success r) rows);
          ok = vals okTime rows
      in (map (\<lambda>r. \<lparr>mh_timestamp = sa_timestamp r, mh_success = Some (sa_success r), mh_responseTimeMs = map_option of_int (sa_responseTimeMs r),
                     mh_error = sa_error r, mh_sampleCount = None, mh_successCount = None, mh_failureCount = None,
                     mh_minResponseTimeMs = None, mh_maxResponseTimeMs = None\<rparr>) rows,
          \<lparr>hs_total = total, hs_failed = failed, hs_successRate = fst (shares total failed), hs_packetLossRate = snd (shares total failed),
           hs_avgMs = map_option js_round (avg_of (map of_int ok)), hs_minMs = agg_min ok, hs_maxMs = agg_max ok\<rparr>))"

definition monitorRollup :: "string \<Rightarrow> int \<Rightarrow> int \<Rightarrow> monitorBucket list \<Rightarrow> monitorHistoryRow list \<times> monitorStats" where
  "monitorRollup i since til bs =
     (let rows = sort_key mb_bucketStart (filter (\<lambda>b. mb_assetId b = i \<and> in_range since til (mb_bucketStart b)) bs);
          total = sum_list (map mb_sampleCount rows);
          failed = sum_list (map mb_failureCount rows);
          mean = weighted_mean (\<lambda>b. if 0 < mb_successCount b then mb_avgResponseTimeMs b else None) mb_successCount rows
      in (map (\<lambda>b. \<lparr>mh_timestamp = mb_bucketStart b, mh_success = None, mh_responseTimeMs = mb_avgResponseTimeMs b, mh_error = None,
                     mh_sampleCount = Some (mb_sampleCount b), mh_successCount = Some (mb_successCount b), mh_failureCount = Some (mb_failureCount b),
                     mh_minResponseTimeMs = mb_minResponseTimeMs b, mh_maxResponseTimeMs = mb_maxResponseTimeMs b\<rparr>) rows,
          \<lparr>hs_total = total, hs_failed = failed, hs_successRate = fst (shares total failed), hs_packetLossRate = snd (shares total failed),
           hs_avgMs = map_option js_round mean, hs_minMs = agg_min (vals mb_minResponseTimeMs rows), hs_maxMs = agg_max (vals mb_maxResponseTimeMs rows)\<rparr>))"

definition readMonitorHistory :: "string \<Rightarrow> int \<Rightarrow> int \<Rightarrow> sampleTier \<Rightarrow> (monitorSample, monitorBucket) tiers \<Rightarrow> monitorHistoryRow list \<times> monitorStats" where
  "readMonitorHistory i since til tier t =
     (if tier = TDetail then monitorDetail i since til (tt_detail t) else monitorRollup i since til (pick_tier tier t))"

section \<open>Processor and memory\<close>

record telemetryHistoryRow =
  th_timestamp :: int
  th_cpuPct :: "rat option"
  th_memPct :: "rat option"
  th_memUsedBytes :: "int option"
  th_memTotalBytes :: "int option"
  th_sampleCount :: "nat option"
  th_minCpuPct :: "rat option"
  th_maxCpuPct :: "rat option"
  th_minMemPct :: "rat option"
  th_maxMemPct :: "rat option"

record telemetryStats =
  tq_total :: nat
  tq_avgCpuPct :: "rat option"
  tq_maxCpuPct :: "rat option"
  tq_avgMemPct :: "rat option"
  tq_maxMemPct :: "rat option"

text \<open>A percentage if there is one, otherwise the share of the bytes if neither number is zero.\<close>

definition memOf :: "telemetrySample \<Rightarrow> rat option" where
  "memOf r =
     (case te_memPct r of
        Some p \<Rightarrow> Some p
      | None \<Rightarrow> (case (te_memTotalBytes r, te_memUsedBytes r) of
                   (Some tot, Some used) \<Rightarrow> (if tot \<noteq> 0 \<and> used \<noteq> 0 then Some (of_int used / of_int tot * 100) else None)
                 | _ \<Rightarrow> None))"

definition telemetryDetail :: "string \<Rightarrow> int \<Rightarrow> int \<Rightarrow> telemetrySample list \<Rightarrow> telemetryHistoryRow list \<times> telemetryStats" where
  "telemetryDetail i since til rows0 =
     (let rows = sort_key te_timestamp (filter (\<lambda>r. te_assetId r = i \<and> in_range since til (te_timestamp r)) rows0);
          cpus = vals te_cpuPct rows; mems = vals memOf rows
      in (map (\<lambda>r. \<lparr>th_timestamp = te_timestamp r, th_cpuPct = te_cpuPct r, th_memPct = te_memPct r, th_memUsedBytes = te_memUsedBytes r,
                     th_memTotalBytes = te_memTotalBytes r, th_sampleCount = None, th_minCpuPct = None, th_maxCpuPct = None,
                     th_minMemPct = None, th_maxMemPct = None\<rparr>) rows,
          \<lparr>tq_total = length rows, tq_avgCpuPct = avg_of cpus, tq_maxCpuPct = agg_max cpus, tq_avgMemPct = avg_of mems, tq_maxMemPct = agg_max mems\<rparr>))"

definition telemetryRollup :: "string \<Rightarrow> int \<Rightarrow> int \<Rightarrow> telemetryBucket list \<Rightarrow> telemetryHistoryRow list \<times> telemetryStats" where
  "telemetryRollup i since til bs =
     (let rows = sort_key tb_bucketStart (filter (\<lambda>b. tb_assetId b = i \<and> in_range since til (tb_bucketStart b)) bs)
      in (map (\<lambda>b. \<lparr>th_timestamp = tb_bucketStart b, th_cpuPct = tb_avgCpuPct b, th_memPct = tb_avgMemPct b, th_memUsedBytes = tb_avgMemUsedBytes b,
                     th_memTotalBytes = tb_lastMemTotalBytes b, th_sampleCount = Some (tb_sampleCount b), th_minCpuPct = tb_minCpuPct b,
                     th_maxCpuPct = tb_maxCpuPct b, th_minMemPct = tb_minMemPct b, th_maxMemPct = tb_maxMemPct b\<rparr>) rows,
          \<lparr>tq_total = sum_list (map tb_sampleCount rows), tq_avgCpuPct = weighted_mean tb_avgCpuPct tb_sampleCount rows,
           tq_maxCpuPct = agg_max (vals tb_maxCpuPct rows), tq_avgMemPct = weighted_mean tb_avgMemPct tb_sampleCount rows,
           tq_maxMemPct = agg_max (vals tb_maxMemPct rows)\<rparr>))"

definition readTelemetryHistory ::
  "string \<Rightarrow> int \<Rightarrow> int \<Rightarrow> sampleTier \<Rightarrow> (telemetrySample, telemetryBucket) tiers \<Rightarrow> telemetryHistoryRow list \<times> telemetryStats" where
  "readTelemetryHistory i since til tier t =
     (if tier = TDetail then telemetryDetail i since til (tt_detail t) else telemetryRollup i since til (pick_tier tier t))"

section \<open>Temperatures and storage\<close>

record temperatureHistoryRow =
  ch_timestamp :: int
  ch_sensorName :: string
  ch_celsius :: "rat option"
  ch_sampleCount :: "nat option"
  ch_minCelsius :: "rat option"
  ch_maxCelsius :: "rat option"

record temperatureStats =
  cq_total :: nat
  cq_avgCelsius :: "rat option"
  cq_minCelsius :: "rat option"
  cq_maxCelsius :: "rat option"

text \<open>No sensor name, or an empty one, selects all sensors.\<close>

definition sensor_ok :: "string option \<Rightarrow> string \<Rightarrow> bool" where
  "sensor_ok sensor name \<longleftrightarrow> truthy sensor \<longrightarrow> sensor = Some name"

definition readTemperatureHistory ::
  "string \<Rightarrow> int \<Rightarrow> int \<Rightarrow> sampleTier \<Rightarrow> string option \<Rightarrow> (temperatureSample, temperatureBucket) tiers \<Rightarrow> temperatureHistoryRow list \<times> temperatureStats" where
  "readTemperatureHistory i since til tier sensor t =
     (if tier = TDetail
      then (let rows = sort_key tp_timestamp (filter (\<lambda>r. tp_assetId r = i \<and> in_range since til (tp_timestamp r) \<and> sensor_ok sensor (tp_sensorName r)) (tt_detail t));
                cs = vals tp_celsius rows
            in (map (\<lambda>r. \<lparr>ch_timestamp = tp_timestamp r, ch_sensorName = tp_sensorName r, ch_celsius = tp_celsius r, ch_sampleCount = None,
                           ch_minCelsius = None, ch_maxCelsius = None\<rparr>) rows,
                \<lparr>cq_total = length rows, cq_avgCelsius = avg_of cs, cq_minCelsius = agg_min cs, cq_maxCelsius = agg_max cs\<rparr>))
      else (let rows = sort_key tc_bucketStart (filter (\<lambda>b. tc_assetId b = i \<and> in_range since til (tc_bucketStart b) \<and> sensor_ok sensor (tc_sensorName b)) (pick_tier tier t))
            in (map (\<lambda>b. \<lparr>ch_timestamp = tc_bucketStart b, ch_sensorName = tc_sensorName b, ch_celsius = tc_avgCelsius b, ch_sampleCount = Some (tc_sampleCount b),
                           ch_minCelsius = tc_minCelsius b, ch_maxCelsius = tc_maxCelsius b\<rparr>) rows,
                \<lparr>cq_total = sum_list (map tc_sampleCount rows), cq_avgCelsius = weighted_mean tc_avgCelsius tc_sampleCount rows,
                 cq_minCelsius = agg_min (vals tc_minCelsius rows), cq_maxCelsius = agg_max (vals tc_maxCelsius rows)\<rparr>)))"

record storageHistoryRow =
  gh_timestamp :: int
  gh_totalBytes :: "int option"
  gh_usedBytes :: "int option"
  gh_sampleCount :: "nat option"
  gh_minUsedBytes :: "int option"
  gh_maxUsedBytes :: "int option"

definition readStorageHistory ::
  "string \<Rightarrow> int \<Rightarrow> int \<Rightarrow> sampleTier \<Rightarrow> string \<Rightarrow> (storageSample, storageBucket) tiers \<Rightarrow> storageHistoryRow list" where
  "readStorageHistory i since til tier mountPath t =
     (if tier = TDetail
      then map (\<lambda>r. \<lparr>gh_timestamp = sg_timestamp r, gh_totalBytes = sg_totalBytes r, gh_usedBytes = sg_usedBytes r, gh_sampleCount = None,
                      gh_minUsedBytes = None, gh_maxUsedBytes = None\<rparr>)
             (sort_key sg_timestamp (filter (\<lambda>r. sg_assetId r = i \<and> sg_mountPath r = mountPath \<and> in_range since til (sg_timestamp r)) (tt_detail t)))
      else map (\<lambda>b. \<lparr>gh_timestamp = sb_bucketStart b, gh_totalBytes = sb_lastTotalBytes b, gh_usedBytes = sb_avgUsedBytes b,
                      gh_sampleCount = Some (sb_sampleCount b), gh_minUsedBytes = sb_minUsedBytes b, gh_maxUsedBytes = sb_maxUsedBytes b\<rparr>)
             (sort_key sb_bucketStart (filter (\<lambda>b. sb_assetId b = i \<and> sb_mountPath b = mountPath \<and> in_range since til (sb_bucketStart b)) (pick_tier tier t))))"

section \<open>Interfaces\<close>

record interfaceHistoryRow =
  ih_timestamp :: int
  ih_adminStatus :: "string option"
  ih_operStatus :: "string option"
  ih_speedBps :: "int option"
  ih_ipAddress :: "string option"
  ih_macAddress :: "string option"
  ih_inOctets :: "int option"
  ih_outOctets :: "int option"
  ih_inErrors :: "int option"
  ih_outErrors :: "int option"
  ih_inBytesPerSec :: "rat option"
  ih_outBytesPerSec :: "rat option"
  ih_inErrorsPerSec :: "rat option"
  ih_outErrorsPerSec :: "rat option"
  ih_sampleCount :: "nat option"

record interfaceMeta =
  im_alias :: "string option"
  im_discoveredDescription :: "string option"

definition last_of :: "'a list \<Rightarrow> 'a option" where
  "last_of xs = (if xs = [] then None else Some (last xs))"

definition interfaceBucketRow :: "interfaceBucket \<Rightarrow> interfaceHistoryRow" where
  "interfaceBucketRow b =
     (let startMs = ib_bucketStart b; lastMs = ib_lastBucketSampleAt b
      in \<lparr>ih_timestamp = startMs, ih_adminStatus = ib_lastAdminStatus b, ih_operStatus = ib_lastOperStatus b, ih_speedBps = ib_maxSpeedBps b,
          ih_ipAddress = ib_lastIpAddress b, ih_macAddress = ib_lastMacAddress b,
          ih_inOctets = None, ih_outOctets = None, ih_inErrors = None, ih_outErrors = None,
          ih_inBytesPerSec = rate (ib_firstInOctets b) (ib_lastInOctets b) startMs lastMs,
          ih_outBytesPerSec = rate (ib_firstOutOctets b) (ib_lastOutOctets b) startMs lastMs,
          ih_inErrorsPerSec = rate (ib_firstInErrors b) (ib_lastInErrors b) startMs lastMs,
          ih_outErrorsPerSec = rate (ib_firstOutErrors b) (ib_lastOutErrors b) startMs lastMs,
          ih_sampleCount = Some (ib_sampleCount b)\<rparr>)"

definition readInterfaceHistory ::
  "string \<Rightarrow> int \<Rightarrow> int \<Rightarrow> sampleTier \<Rightarrow> string \<Rightarrow> (interfaceSample, interfaceBucket) tiers \<Rightarrow> interfaceHistoryRow list \<times> interfaceMeta" where
  "readInterfaceHistory i since til tier ifName t =
     (if tier = TDetail
      then (let rows = sort_key if_timestamp (filter (\<lambda>r. if_assetId r = i \<and> if_ifName r = ifName \<and> in_range since til (if_timestamp r)) (tt_detail t));
                latest = last_of rows
            in (map (\<lambda>r. \<lparr>ih_timestamp = if_timestamp r, ih_adminStatus = if_adminStatus r, ih_operStatus = if_operStatus r, ih_speedBps = if_speedBps r,
                           ih_ipAddress = if_ipAddress r, ih_macAddress = if_macAddress r, ih_inOctets = if_inOctets r, ih_outOctets = if_outOctets r,
                           ih_inErrors = if_inErrors r, ih_outErrors = if_outErrors r, ih_inBytesPerSec = None, ih_outBytesPerSec = None,
                           ih_inErrorsPerSec = None, ih_outErrorsPerSec = None, ih_sampleCount = None\<rparr>) rows,
                \<lparr>im_alias = Option.bind latest if_alias, im_discoveredDescription = Option.bind latest if_description\<rparr>))
      else (let rows = sort_key ib_bucketStart (filter (\<lambda>b. ib_assetId b = i \<and> ib_ifName b = ifName \<and> in_range since til (ib_bucketStart b)) (pick_tier tier t))
            in (map interfaceBucketRow rows,
                \<lparr>im_alias = last_of (vals ib_lastAlias rows), im_discoveredDescription = last_of (vals ib_lastDescription rows)\<rparr>)))"

section \<open>Tunnels\<close>

record ipsecHistoryRow =
  ph_timestamp :: int
  ph_status :: string
  ph_remoteGateway :: "string option"
  ph_incomingBytes :: "int option"
  ph_outgoingBytes :: "int option"
  ph_incomingBytesPerSec :: "rat option"
  ph_outgoingBytesPerSec :: "rat option"
  ph_statusUpCount :: "nat option"
  ph_statusDownCount :: "nat option"
  ph_statusPartialCount :: "nat option"
  ph_statusDynamicCount :: "nat option"
  ph_proxyIdCount :: "int option"
  ph_sampleCount :: "nat option"

text \<open>The sort is stable and descending by count.\<close>

definition dominantStatus :: "nat \<Rightarrow> nat \<Rightarrow> nat \<Rightarrow> nat \<Rightarrow> string" where
  "dominantStatus up down partial dynamic =
     fst (hd (sort_key (\<lambda>p. - int (snd p)) [(''down'', down), (''partial'', partial), (''dynamic'', dynamic), (''up'', up)]))"

definition ipsecBucketRow :: "ipsecBucket \<Rightarrow> ipsecHistoryRow" where
  "ipsecBucketRow b =
     (let startMs = pb_bucketStart b; lastMs = pb_lastBucketSampleAt b
      in \<lparr>ph_timestamp = startMs,
          ph_status = dominantStatus (pb_statusUpCount b) (pb_statusDownCount b) (pb_statusPartialCount b) (pb_statusDynamicCount b),
          ph_remoteGateway = pb_lastRemoteGateway b, ph_incomingBytes = None, ph_outgoingBytes = None,
          ph_incomingBytesPerSec = rate (pb_firstIncomingBytes b) (pb_lastIncomingBytes b) startMs lastMs,
          ph_outgoingBytesPerSec = rate (pb_firstOutgoingBytes b) (pb_lastOutgoingBytes b) startMs lastMs,
          ph_statusUpCount = Some (pb_statusUpCount b), ph_statusDownCount = Some (pb_statusDownCount b),
          ph_statusPartialCount = Some (pb_statusPartialCount b), ph_statusDynamicCount = Some (pb_statusDynamicCount b),
          ph_proxyIdCount = pb_lastProxyIdCount b, ph_sampleCount = Some (pb_sampleCount b)\<rparr>)"

definition readIpsecHistory ::
  "string \<Rightarrow> int \<Rightarrow> int \<Rightarrow> sampleTier \<Rightarrow> string \<Rightarrow> (ipsecSample, ipsecBucket) tiers \<Rightarrow> ipsecHistoryRow list" where
  "readIpsecHistory i since til tier tunnelName t =
     (if tier = TDetail
      then map (\<lambda>r. \<lparr>ph_timestamp = ip_timestamp r, ph_status = ip_status r, ph_remoteGateway = ip_remoteGateway r, ph_incomingBytes = ip_incomingBytes r,
                      ph_outgoingBytes = ip_outgoingBytes r, ph_incomingBytesPerSec = None, ph_outgoingBytesPerSec = None, ph_statusUpCount = None,
                      ph_statusDownCount = None, ph_statusPartialCount = None, ph_statusDynamicCount = None, ph_proxyIdCount = ip_proxyIdCount r,
                      ph_sampleCount = None\<rparr>)
             (sort_key ip_timestamp (filter (\<lambda>r. ip_assetId r = i \<and> ip_tunnelName r = tunnelName \<and> in_range since til (ip_timestamp r)) (tt_detail t)))
      else map ipsecBucketRow
             (sort_key pb_bucketStart (filter (\<lambda>b. pb_assetId b = i \<and> pb_tunnelName b = tunnelName \<and> in_range since til (pb_bucketStart b)) (pick_tier tier t))))"

end
