(* ===== verification/HistorySpec.thy ===== *)
theory HistorySpec
  imports History RollupSpec
begin

text \<open>
  What a chart shows: the statistics of a range of whole hours are the same from the hourly tier as from the samples
  themselves; the rate of a bucket is too low; the status of a bucket of a tunnel is the most frequent one, the worst in a
  tie.
\<close>

section \<open>Hourly and detail statistics\<close>

lemma sort_map: "sort_key f (map g xs) = map g (sort_key (\<lambda>x. f (g x)) xs)"
proof -
  have ins: "insort_key f (g x) (map g ys) = map g (insort_key (\<lambda>x. f (g x)) x ys)" for x ys by (induction ys) simp_all
  show ?thesis by (induction xs) (simp_all add: ins)
qed

lemma trunc_le: "0 < w \<Longrightarrow> m mod w = 0 \<Longrightarrow> m \<le> date_trunc w t \<longleftrightarrow> m \<le> t"
proof
  assume w: "0 < w" "m mod w = 0" and "m \<le> t"
  then have "m div w \<le> t div w" by (simp add: zdiv_mono1)
  then have "w * (m div w) \<le> w * (t div w)" using w(1) by simp
  then show "m \<le> date_trunc w t" using w(2) mult_div_mod_eq [of w m] by (simp add: date_trunc_def minus_mod_eq_mult_div)
next
  assume w: "0 < w" and m: "m \<le> date_trunc w t"
  from pos_mod_sign [OF w, of t] m show "m \<le> t" unfolding date_trunc_def by linarith
qed

lemma range_trunc:
  assumes "since mod hour = 0" "(til + 1) mod hour = 0"
  shows "in_range since til (date_trunc hour t) \<longleftrightarrow> in_range since til t"
  using trunc_le [OF hour_pos assms(1), of t] trunc_le [OF hour_pos assms(2), of t] by (auto simp: in_range_def)

lemma avg_of_agg: "avg_of = agg_avg"
  by (simp add: fun_eq_iff avg_of_def agg_avg_def)

lemma weighted_means:
  assumes "\<forall>b \<in> set bs. avg b = None \<longleftrightarrow> n b = 0"
  shows "weighted_mean (\<lambda>b. if 0 < n b then avg b else None) n bs = weighted avg n bs"
proof -
  have "sum_list (map (\<lambda>b. the (if 0 < n b then avg b else None) * of_nat (n b)) (filter (\<lambda>b. (if 0 < n b then avg b else None) \<noteq> None) bs)) =
      sum_list (vals (\<lambda>b. map_option (\<lambda>a. a * of_nat (n b)) (avg b)) bs)"
    "sum_list (map n (filter (\<lambda>b. (if 0 < n b then avg b else None) \<noteq> None) bs)) = sum_list (map n bs)"
    "vals (\<lambda>b. map_option (\<lambda>a. a * of_nat (n b)) (avg b)) bs = [] \<longleftrightarrow> sum_list (map n bs) = 0"
    using assms by (induction bs) auto
  then show ?thesis unfolding weighted_mean_def weighted_def Let_def by simp
qed

text \<open>The statistics the reader computes, as columns of one bucket over the whole range.\<close>

definition statsOf :: "monitorBucket \<Rightarrow> monitorStats" where
  "statsOf b = \<lparr>hs_total = mb_sampleCount b, hs_failed = mb_failureCount b, hs_successRate = fst (shares (mb_sampleCount b) (mb_failureCount b)),
     hs_packetLossRate = snd (shares (mb_sampleCount b) (mb_failureCount b)), hs_avgMs = map_option js_round (mb_avgResponseTimeMs b),
     hs_minMs = mb_minResponseTimeMs b, hs_maxMs = mb_maxResponseTimeMs b\<rparr>"

lemma detail_stats: "snd (monitorDetail i since til rows) =
  statsOf (monitorHourlyRow k (filter (\<lambda>r. sa_assetId r = i \<and> in_range since til (sa_timestamp r)) rows))"
proof -
  let ?rs = "filter (\<lambda>r. sa_assetId r = i \<and> in_range since til (sa_timestamp r)) rows"
  have "snd (monitorDetail i since til rows) = statsOf (monitorHourlyRow k (sort_key sa_timestamp ?rs))"
    by (simp add: monitorDetail_def statsOf_def monitorHourlyRow_def count_if_def avg_of_agg Let_def)
  also have "\<dots> = statsOf (monitorHourlyRow k ?rs)" by (simp add: hourlyRow_mset [of "sort_key sa_timestamp ?rs" ?rs])
  finally show ?thesis .
qed

lemma hourly_avg_none:
  assumes "\<forall>r \<in> set g. sa_success r \<longrightarrow> sa_responseTimeMs r \<noteq> None"
  shows "mb_avgResponseTimeMs (monitorHourlyRow h g) = None \<longleftrightarrow> mb_successCount (monitorHourlyRow h g) = 0"
proof -
  have "length (vals okTime g) = count_if sa_success g" using assms by (induction g) (auto simp: count_if_def okTime_def split: option.split)
  then show ?thesis by (auto simp: monitorHourlyRow_def agg_avg_def simp flip: length_0_conv)
qed

lemma rollup_stats:
  assumes "\<forall>p \<in> set gs. \<forall>r \<in> set (snd p). sa_success r \<longrightarrow> sa_responseTimeMs r \<noteq> None"
    and "filter (\<lambda>b. mb_assetId b = i \<and> in_range since til (mb_bucketStart b)) bs = map (\<lambda>(h, g). monitorHourlyRow h g) gs"
  shows "snd (monitorRollup i since til bs) = statsOf (monitorHourlyRow k (concat (map snd gs)))"
proof -
  let ?row = "\<lambda>(h, g). monitorHourlyRow h g"
  define ss where "ss = sort_key (\<lambda>p. mb_bucketStart (?row p)) gs"
  have m: "mset ss = mset gs" by (simp add: ss_def)
  have rows: "sort_key mb_bucketStart (map ?row gs) = map ?row ss" unfolding ss_def by (rule sort_map)
  have s: "\<forall>p \<in> set ss. \<forall>r \<in> set (snd p). sa_success r \<longrightarrow> sa_responseTimeMs r \<noteq> None" using assms(1) by (simp add: ss_def)
  have "\<forall>b \<in> set (map ?row ss). mb_avgResponseTimeMs b = None \<longleftrightarrow> mb_successCount b = 0"
    using s hourly_avg_none by (auto simp: split_def)
  note mean = weighted_means [OF this]
  have "snd (monitorRollup i since til bs) = statsOf (monitorDailyRow k (map ?row ss))"
    unfolding monitorRollup_def assms(2) rows Let_def snd_conv mean by (simp add: statsOf_def monitorDailyRow_def)
  also have "\<dots> = statsOf (monitorHourlyRow k (concat (map snd ss)))" by (simp only: daily_of_hourly [OF s])
  also have "mset (concat (map snd ss)) = mset (concat (map snd gs))"
  proof -
    have c: "mset (concat xss) = sum_mset (image_mset mset (mset xss))" for xss :: "monitorSample list list" by (induction xss) simp_all
    have img: "mset (map snd ss) = mset (map snd gs)" using m by simp
    show ?thesis by (simp only: c img)
  qed
  then have "statsOf (monitorHourlyRow k (concat (map snd ss))) = statsOf (monitorHourlyRow k (concat (map snd gs)))" by (simp only: hourlyRow_mset [of "concat (map snd ss)" "concat (map snd gs)"])
  finally show ?thesis .
qed

text \<open>
  For a range of whole hours it makes no difference which tier a chart reads: if the hourly table holds the rollup of
  all samples, the number of samples, the losses, the mean, the minimum and the maximum computed from it are those computed from the
  samples.
\<close>

theorem history_tiers_agree:
  assumes "\<forall>r \<in> set rows. sa_success r \<longrightarrow> sa_responseTimeMs r \<noteq> None" "\<forall>r \<in> set rows. low \<le> sa_timestamp r"
    and "since mod hour = 0" "(til + 1) mod hour = 0"
    and "tt_detail t = rows" "tt_hourly t = snd (sqlMonitorHourly low rows [])"
  shows "snd (readMonitorHistory i since til THourly t) = snd (readMonitorHistory i since til TDetail t)"
proof -
  let ?hkey = "\<lambda>r. (date_trunc hour (sa_timestamp r), sa_assetId r)" and ?row = "\<lambda>(h, g). monitorHourlyRow h g"
  let ?rs = "filter (\<lambda>r. sa_assetId r = i \<and> in_range since til (sa_timestamp r)) rows"
  have "filter (\<lambda>r. low \<le> sa_timestamp r) rows = rows" using assms(2) by simp
  then have hourly: "tt_hourly t = map ?row (groups ?hkey rows)" by (simp add: assms(6) sqlMonitorHourly_def monitor_hourly.insert_empty)
  have "filter (\<lambda>b. mb_assetId b = i \<and> in_range since til (mb_bucketStart b)) (map ?row (groups ?hkey rows)) =
      map ?row (filter (\<lambda>(k, g). snd k = i \<and> in_range since til (fst k)) (groups ?hkey rows))"
    by (simp add: filter_map comp_def split_def monitorHourlyRow_def)
  also have "\<dots> = map ?row (groups ?hkey ?rs)"
    using groups_filter [of "\<lambda>k. snd k = i \<and> in_range since til (fst k)" ?hkey rows] by (simp add: range_trunc [OF assms(3,4)])
  finally have sel: "filter (\<lambda>b. mb_assetId b = i \<and> in_range since til (mb_bucketStart b)) (tt_hourly t) = map ?row (groups ?hkey ?rs)"
    unfolding hourly .
  have "snd (monitorRollup i since til (tt_hourly t)) = statsOf (monitorHourlyRow (since, i) (concat (map snd (groups ?hkey ?rs))))"
    by (rule rollup_stats [OF _ sel]) (use assms(1) in \<open>auto simp: groups_def\<close>)
  also have "\<dots> = statsOf (monitorHourlyRow (since, i) ?rs)" by (simp only: hourlyRow_mset [OF groups_mset])
  finally show ?thesis by (simp add: readMonitorHistory_def pick_tier_def assms(5) detail_stats [of i since til rows "(since, i)"])
qed

section \<open>Rates\<close>

lemma sort_rev:
  fixes f :: "'a \<Rightarrow> int"
  shows "sorted_wrt (\<lambda>a b. f a < f b) xs \<Longrightarrow> sort_key (\<lambda>x. - f x) xs = rev xs"
proof (induction xs)
  case (Cons x xs)
  have "(\<forall>y \<in> set ys. - f y < - f x) \<Longrightarrow> insort_key (\<lambda>x. - f x) x ys = ys @ [x]" for ys by (induction ys) auto
  then show ?case using Cons by simp
qed simp

lemma first_last_sorted:
  assumes "sorted_wrt (\<lambda>a b. time a < (time b :: int)) rs" "\<forall>r \<in> set rs. f r \<noteq> None" "rs \<noteq> []"
  shows "first_by time f rs = f (hd rs)" "last_by time f rs = f (last rs)" "Max (time ` set rs) = time (last rs)"
proof -
  have all: "filter (\<lambda>r. f r \<noteq> None) rs = rs" using assms(2) by simp
  have "sorted (map time rs)" using assms(1) by (auto simp: sorted_map intro: sorted_wrt_mono_rel [rotated])
  then have "sort_key time rs = rs" by (rule sort_key_id_if_sorted)
  then show "first_by time f rs = f (hd rs)" using assms(3) unfolding first_by_def all by (cases rs) simp_all
  show "last_by time f rs = f (last rs)" using assms(3) unfolding last_by_def all sort_rev [OF assms(1)]
    by (cases rs rule: rev_cases) simp_all
  have "\<forall>r \<in> set rs. time r \<le> time (last rs)" using assms(1)
    by (cases rs rule: rev_cases) (auto simp: sorted_wrt_append)
  then show "Max (time ` set rs) = time (last rs)" using assms(3) by (intro Max_eqI) auto
qed

text \<open>
  The rate of an interface shown for a bucket is too low: the increase between the first and the last sample is divided by the time since the
  start of the bucket, not since the first sample. With a growing counter and a first sample after the start of the bucket, the
  rate shown is strictly below the rate between the two samples.
\<close>

theorem bucket_rate_understates:
  assumes "sorted_wrt (\<lambda>a b. if_timestamp a < if_timestamp b) rs" "2 \<le> length rs" "\<forall>r \<in> set rs. if_inOctets r \<noteq> None"
    and "r0 = hd rs" "r1 = last rs" "if_inOctets r0 = Some c0" "if_inOctets r1 = Some c1" "c0 < c1" "start < if_timestamp r0"
  shows "\<exists>shown. ih_inBytesPerSec (interfaceBucketRow (interfaceHourlyRow (start, i, n) rs)) = Some shown \<and>
    shown = of_int (c1 - c0) / (of_int (if_timestamp r1 - start) / 1000) \<and>
    shown < of_int (c1 - c0) / (of_int (if_timestamp r1 - if_timestamp r0) / 1000)"
proof -
  have ne: "rs \<noteq> []" using assms(2) by auto
  note fl = first_last_sorted [OF assms(1,3) ne]
  have lt: "if_timestamp r0 < if_timestamp r1"
  proof -
    obtain r ss where rs: "rs = r # ss" "ss \<noteq> []" using assms(2) by (cases rs; cases "tl rs") auto
    then show ?thesis using assms(1,4,5) by simp
  qed
  have "ib_firstInOctets (interfaceHourlyRow (start, i, n) rs) = Some c0" "ib_lastInOctets (interfaceHourlyRow (start, i, n) rs) = Some c1"
    "ib_lastBucketSampleAt (interfaceHourlyRow (start, i, n) rs) = if_timestamp r1" "ib_bucketStart (interfaceHourlyRow (start, i, n) rs) = start"
    using fl assms(4-7) by (simp_all add: interfaceHourlyRow_def)
  then have shown: "ih_inBytesPerSec (interfaceBucketRow (interfaceHourlyRow (start, i, n) rs)) = Some (of_int (c1 - c0) / (of_int (if_timestamp r1 - start) / 1000))"
    using assms(8,9) lt by (simp add: interfaceBucketRow_def rate_def Let_def)
  have "of_int (if_timestamp r1 - if_timestamp r0) < (of_int (if_timestamp r1 - start) :: rat)" "(0 :: rat) < of_int (if_timestamp r1 - if_timestamp r0)" "(0 :: rat) < of_int (c1 - c0)"
    using assms(8,9) lt by simp_all
  then have "of_int (c1 - c0) / (of_int (if_timestamp r1 - start) / 1000) < (of_int (c1 - c0) / (of_int (if_timestamp r1 - if_timestamp r0) / 1000) :: rat)"
    by (intro divide_strict_left_mono mult_pos_pos) simp_all
  then show ?thesis using shown by blast
qed

text \<open>
  The status shown for a bucket of a tunnel is one that no other status was seen more often than, and in a tie the worst:
  down before partial before dynamic before up.
\<close>

theorem dominant_is_worst_of_most:
  "(dominantStatus up down partial dynamic = ''down'' \<longleftrightarrow> partial \<le> down \<and> dynamic \<le> down \<and> up \<le> down) \<and>
   (dominantStatus up down partial dynamic = ''partial'' \<longleftrightarrow> down < partial \<and> dynamic \<le> partial \<and> up \<le> partial) \<and>
   (dominantStatus up down partial dynamic = ''dynamic'' \<longleftrightarrow> down < dynamic \<and> partial < dynamic \<and> up \<le> dynamic) \<and>
   (dominantStatus up down partial dynamic = ''up'' \<longleftrightarrow> down < up \<and> partial < up \<and> dynamic < up)"
  unfolding dominantStatus_def by auto

section \<open>Concrete charts\<close>

definition octetsAt :: "int \<Rightarrow> int \<Rightarrow> interfaceSample" where
  "octetsAt t c = \<lparr>if_assetId = ''a'', if_timestamp = t, if_ifName = ''p'', if_adminStatus = None, if_operStatus = None, if_speedBps = None, if_ipAddress = None,
     if_macAddress = None, if_inOctets = Some c, if_outOctets = None, if_inErrors = None, if_outErrors = None, if_ifType = None, if_ifParent = None, if_vlanId = None,
     if_alias = None, if_description = None\<rparr>"

text \<open>Samples at minutes 30 and 40: the counter grows by 600 in ten minutes, one per second, and the chart shows a quarter of it.\<close>

theorem bucket_rate_understates_witness:
  "ih_inBytesPerSec (interfaceBucketRow (interfaceHourlyRow (0, ''a'', ''p'') [octetsAt 1800000 0, octetsAt 2400000 600])) = Some (1 / 4)"
proof -
  have "\<exists>shown. ih_inBytesPerSec (interfaceBucketRow (interfaceHourlyRow (0, ''a'', ''p'') [octetsAt 1800000 0, octetsAt 2400000 600])) = Some shown \<and>
      shown = of_int (600 - 0) / (of_int (if_timestamp (octetsAt 2400000 600) - 0) / 1000) \<and>
      shown < of_int (600 - 0) / (of_int (if_timestamp (octetsAt 2400000 600) - if_timestamp (octetsAt 1800000 0)) / 1000)"
    by (rule bucket_rate_understates) (simp_all add: octetsAt_def)
  then show ?thesis by (auto simp: octetsAt_def)
qed

theorem history_tiers_agree_witness:
  "snd (readMonitorHistory ''a'' 0 3599999 THourly \<lparr>tt_detail = twoSamples, tt_hourly = snd (sqlMonitorHourly 0 twoSamples []), tt_daily = []\<rparr>) =
   snd (readMonitorHistory ''a'' 0 3599999 TDetail \<lparr>tt_detail = twoSamples, tt_hourly = snd (sqlMonitorHourly 0 twoSamples []), tt_daily = []\<rparr>)"
  by (rule history_tiers_agree [of twoSamples 0]) (simp_all add: twoSamples_def sampleAt_def hour_def)

end
