(* ===== verification/Access.thy ===== *)
theory Access
  imports Json Lockout Blocks
begin

text \<open>
  Access control: the permission matrix, the role snapshot of a session and the guards of
  \<^verbatim>\<open>src/api/middleware/permissions.ts\<close>, the roles of \<^verbatim>\<open>src/services/roleService.ts\<close> and \<^verbatim>\<open>src/api/routes/roles.ts\<close>,
  the users of \<^verbatim>\<open>src/api/routes/users.ts\<close>, the start and the end of a session in \<^verbatim>\<open>src/api/routes/auth.ts\<close>, and the
  bearer tokens of \<^verbatim>\<open>src/services/apiTokenService.ts\<close>. Sessions live in the database and survive a restart of the
  process; the map of role versions does not. Times are milliseconds: \<^verbatim>\<open>toISOString\<close> of a time is the time itself.
  Generated ids and clock readings are arguments, the password hash of argon2 is a parameter. Saving a session does
  not fail.
\<close>

section \<open>The permission matrix\<close>

datatype accessLevel = NoAccess | ReadAccess | WriteAccess | FullWrite

fun levelToken :: "accessLevel \<Rightarrow> string" where
  "levelToken NoAccess = ''none''"
| "levelToken ReadAccess = ''read''"
| "levelToken WriteAccess = ''write''"
| "levelToken FullWrite = ''fullwrite''"

fun ACCESS_RANK :: "accessLevel \<Rightarrow> nat" where
  "ACCESS_RANK NoAccess = 0"
| "ACCESS_RANK ReadAccess = 1"
| "ACCESS_RANK WriteAccess = 2"
| "ACCESS_RANK FullWrite = 3"

definition rankMeets :: "accessLevel \<Rightarrow> accessLevel \<Rightarrow> bool" where
  "rankMeets actual required \<longleftrightarrow> ACCESS_RANK required \<le> ACCESS_RANK actual"

definition FUNCTION_KEYS :: "string list" where
  "FUNCTION_KEYS =
     [''ipBlocks'', ''subnets'', ''reservations'', ''reservationPush'', ''allocationTemplates'', ''assets'', ''assetsQuarantine'',
      ''assetsProbe'', ''assetMonitorSettings'', ''mibDatabase'', ''manufacturerProfiles'', ''manufacturerAliases'', ''credentials'',
      ''integrations'', ''discoveryConflicts'', ''deviceMap'', ''mapRegions'', ''deviceIcons'', ''events'', ''staleReservations'',
      ''apiTokens'', ''users'', ''roles'', ''serverSettingsSystem'', ''serverSettingsData'']"

type_synonym permissions = "(string \<times> accessLevel) list"

definition isValidAccessLevel :: "string \<Rightarrow> bool" where
  "isValidAccessLevel s \<longleftrightarrow> s \<in> {''none'', ''read'', ''write'', ''fullwrite''}"

definition levelOf :: "json option \<Rightarrow> accessLevel" where
  "levelOf v =
     (case v of
        Some (JStr s) \<Rightarrow>
          (if s = ''read'' then ReadAccess else if s = ''write'' then WriteAccess else if s = ''fullwrite'' then FullWrite else NoAccess)
      | _ \<Rightarrow> NoAccess)"

definition normalizePermissions :: "json \<Rightarrow> permissions" where
  "normalizePermissions raw = map (\<lambda>k. (k, levelOf (jprop raw k))) FUNCTION_KEYS"

definition permissionsJson :: "permissions \<Rightarrow> json" where
  "permissionsJson p = JObj (map (\<lambda>(k, l). (k, JStr (levelToken l))) p)"

definition levelAt :: "permissions \<Rightarrow> string \<Rightarrow> accessLevel" where
  "levelAt p k = keep (map_of p k) NoAccess"

section \<open>State\<close>

record roleRow =
  ro_id :: string
  ro_name :: string
  ro_description :: "string option"
  ro_permissions :: json
  ro_regionTags :: "string list"
  ro_isBuiltIn :: bool
  ro_isProtected :: bool
  ro_updatedAt :: int

record userRow =
  us_id :: string
  us_username :: string
  us_passwordHash :: string
  us_roleId :: string
  us_regionTags :: "string list"
  us_authProvider :: string
  us_totpSecret :: "string option"
  us_totpEnabledAt :: "int option"
  us_totpBackupCodes :: "string list"
  us_needsRoleReview :: bool

record roleSnapshot =
  rn_id :: string
  rn_name :: string
  rn_isProtected :: bool
  rn_permissions :: permissions
  rn_updatedAt :: int

record session =
  se_userId :: "string option"
  se_username :: "string option"
  se_roleId :: "string option"
  se_roleSnapshot :: "roleSnapshot option"

record apiToken =
  at_id :: string
  at_name :: string
  at_tokenHash :: string
  at_tokenPrefix :: string
  at_scopes :: "string list"
  at_integrationIds :: "string list"
  at_createdBy :: string
  at_expiresAt :: "int option"
  at_lastUsed :: "(int \<times> string option) option"
  at_revoked :: "(int \<times> string) option"

record accState =
  ax_roles :: "roleRow list"
  ax_users :: "userRow list"
  ax_versions :: "string \<rightharpoonup> int"
  ax_sessions :: "string \<rightharpoonup> session"
  ax_tokens :: "apiToken list"
  ax_integrations :: "(string \<times> string) list"
  ax_lock :: lockStore
  ax_events :: "event list"

definition roleKey :: "roleRow \<Rightarrow> string option" where
  "roleKey r = Some (ro_name r)"

definition userKey :: "userRow \<Rightarrow> string option" where
  "userKey u = Some (us_username u)"

definition tokenKey :: "apiToken \<Rightarrow> string option" where
  "tokenKey t = Some (at_name t)"

interpretation rol: keyed_table ro_id roleKey "table_ok ro_id roleKey" "insert_row ro_id roleKey" "update_rows roleKey" delete_rows
  by (rule keyed_table_generic)

interpretation usr: keyed_table us_id userKey "table_ok us_id userKey" "insert_row us_id userKey" "update_rows userKey" delete_rows
  by (rule keyed_table_generic)

interpretation tok: keyed_table at_id tokenKey "table_ok at_id tokenKey" "insert_row at_id tokenKey" "update_rows tokenKey" delete_rows
  by (rule keyed_table_generic)

definition findRole :: "string \<Rightarrow> accState \<Rightarrow> roleRow option" where
  "findRole i s = find (\<lambda>r. ro_id r = i) (ax_roles s)"

definition findUser :: "string \<Rightarrow> accState \<Rightarrow> userRow option" where
  "findUser i s = find (\<lambda>u. us_id u = i) (ax_users s)"

definition accEvent :: "string \<Rightarrow> string \<Rightarrow> string \<Rightarrow> string option \<Rightarrow> string option \<Rightarrow> event" where
  "accEvent action rtype i name actor =
     \<lparr>ev_action = action, ev_level = (if action \<in> {''api_token.revoked'', ''api_token.deleted''} then ''warning'' else ''info''), ev_resourceType = rtype,
      ev_resourceId = Some i, ev_resourceName = name, ev_actor = actor\<rparr>"

definition logAcc :: "event \<Rightarrow> (accState, unit) io" where
  "logAcc e = modifyIO (\<lambda>s. s\<lparr>ax_events := ax_events s @ [e]\<rparr>)"

section \<open>Snapshots and guards\<close>

definition bumpRoleVersion :: "string \<Rightarrow> int \<Rightarrow> accState \<Rightarrow> accState" where
  "bumpRoleVersion roleId updatedAt s = s\<lparr>ax_versions := (ax_versions s)(roleId \<mapsto> updatedAt)\<rparr>"

definition snapshotFromRole :: "roleRow \<Rightarrow> roleSnapshot" where
  "snapshotFromRole r =
     \<lparr>rn_id = ro_id r, rn_name = ro_name r, rn_isProtected = ro_isProtected r,
      rn_permissions = normalizePermissions (ro_permissions r), rn_updatedAt = ro_updatedAt r\<rparr>"

text \<open>\<^verbatim>\<open>snapshotFromRole\<close> and \<^verbatim>\<open>loadRoleSnapshot\<close> also stamp the version cache.\<close>

definition stampRole :: "roleRow \<Rightarrow> accState \<Rightarrow> accState" where
  "stampRole r = bumpRoleVersion (ro_id r) (ro_updatedAt r)"

definition loadRoleSnapshot :: "string \<Rightarrow> (accState, roleSnapshot) io" where
  "loadRoleSnapshot roleId s =
     (case findRole roleId s of
        None \<Rightarrow> (Inl (AppError 401 (''Your role no longer exists '' @ emdash @ '' please log in again.'')), s)
      | Some r \<Rightarrow> (Inr (snapshotFromRole r), stampRole r s))"

definition saveSession :: "string \<Rightarrow> session \<Rightarrow> accState \<Rightarrow> accState" where
  "saveSession sid se s = s\<lparr>ax_sessions := (ax_sessions s)(sid \<mapsto> se)\<rparr>"

text \<open>A session from before roles were rows has no role id: the user's row supplies it.\<close>

definition healSession :: "string \<Rightarrow> session \<Rightarrow> string \<Rightarrow> (accState, roleSnapshot option) io" where
  "healSession sid se userId s =
     (case findUser userId s of
        None \<Rightarrow> (Inr None, s)
      | Some u \<Rightarrow>
          (case findRole (us_roleId u) s of
             None \<Rightarrow> (Inl TypeError, s)
           | Some r \<Rightarrow>
               (Inr (Some (snapshotFromRole r)),
                saveSession sid (se\<lparr>se_roleId := Some (us_roleId u), se_roleSnapshot := Some (snapshotFromRole r)\<rparr>) (stampRole r s))))"

definition reloadSession :: "string \<Rightarrow> session \<Rightarrow> string \<Rightarrow> (accState, roleSnapshot option) io" where
  "reloadSession sid se roleId =
     bindIO (loadRoleSnapshot roleId) (\<lambda>fresh.
     bindIO (modifyIO (saveSession sid (se\<lparr>se_roleSnapshot := Some fresh\<rparr>))) (\<lambda>_.
     returnIO (Some fresh)))"

definition resolveSnapshot :: "string \<Rightarrow> (accState, roleSnapshot option) io" where
  "resolveSnapshot sid s =
     (case ax_sessions s sid of
        None \<Rightarrow> (Inr None, s)
      | Some se \<Rightarrow>
          (if \<not> truthy (se_userId se) then (Inr None, s)
           else if \<not> truthy (se_roleId se) then healSession sid se (the (se_userId se)) s
           else
             (case se_roleSnapshot se of
                Some snap \<Rightarrow>
                  (if Some (rn_id snap) = se_roleId se
                   then (case ax_versions s (rn_id snap) of
                           Some cached \<Rightarrow>
                             (if cached = rn_updatedAt snap then (Inr (Some snap), s)
                              else reloadSession sid se (the (se_roleId se)) s)
                         | None \<Rightarrow> (Inr (Some snap), bumpRoleVersion (rn_id snap) (rn_updatedAt snap) s))
                   else reloadSession sid se (the (se_roleId se)) s)
              | None \<Rightarrow> reloadSession sid se (the (se_roleId se)) s)))"

definition lacks :: "accessLevel \<Rightarrow> string \<Rightarrow> error" where
  "lacks required key = AppError 403 (''Forbidden '' @ emdash @ '' your role lacks '' @ levelToken required @ '' access on '' @ key)"

definition requirePermission :: "string \<Rightarrow> string \<Rightarrow> accessLevel \<Rightarrow> (accState, accessLevel) io" where
  "requirePermission sid key required =
     bindIO (resolveSnapshot sid) (\<lambda>found.
     case found of
       None \<Rightarrow> throwIO (AppError 403 (''Forbidden '' @ emdash @ '' session role required''))
     | Some snap \<Rightarrow>
         (let actual = levelAt (rn_permissions snap) key
          in if rankMeets actual required then returnIO actual else throwIO (lacks required key)))"

definition hasPermission :: "string \<Rightarrow> string \<Rightarrow> accessLevel \<Rightarrow> accState \<Rightarrow> bool" where
  "hasPermission sid key required s =
     (case ax_sessions s sid of
        None \<Rightarrow> False
      | Some se \<Rightarrow> (case se_roleSnapshot se of None \<Rightarrow> False | Some snap \<Rightarrow> rankMeets (levelAt (rn_permissions snap) key) required))"

record authToken =
  au_id :: string
  au_name :: string
  au_scopes :: "string list"
  au_integrationIds :: "string list"

definition requireSessionOrTokenPermission ::
  "string \<Rightarrow> authToken option \<Rightarrow> string \<Rightarrow> accessLevel \<Rightarrow> string \<Rightarrow> (accState, accessLevel option) io" where
  "requireSessionOrTokenPermission sid token key level requiredScope =
     (case token of
        Some t \<Rightarrow>
          (if requiredScope \<in> set (au_scopes t) then returnIO None
           else throwIO (AppError 403 (''Forbidden '' @ emdash @ '' token \"'' @ au_name t @ ''\" lacks scope \"'' @ requiredScope @ ''\"'')))
      | None \<Rightarrow>
          bindIO (resolveSnapshot sid) (\<lambda>found.
          case found of
            Some snap \<Rightarrow>
              (let actual = levelAt (rn_permissions snap) key
               in if rankMeets actual level then returnIO (Some actual) else throwIO (lacks level key))
          | None \<Rightarrow> throwIO (AppError 401 (''Unauthorized '' @ emdash @ '' session login or bearer token required''))))"

definition requireAuth :: "string \<Rightarrow> authToken option \<Rightarrow> (accState, unit) io" where
  "requireAuth sid token s =
     (if (case ax_sessions s sid of None \<Rightarrow> False | Some se \<Rightarrow> truthy (se_userId se)) \<or> token \<noteq> None then (Inr (), s)
      else (Inl (AppError 401 (''Unauthorized '' @ emdash @ '' please log in'')), s))"

definition actorOf :: "string \<Rightarrow> accState \<Rightarrow> string option" where
  "actorOf sid s = (case ax_sessions s sid of None \<Rightarrow> None | Some se \<Rightarrow> se_username se)"

definition sessionUser :: "string \<Rightarrow> accState \<Rightarrow> string option" where
  "sessionUser sid s = (case ax_sessions s sid of None \<Rightarrow> None | Some se \<Rightarrow> se_userId se)"

text \<open>
  The end of the three login routes, for a user whose credentials were accepted: the session id is a new one. The
  loss of the process memory, and the logout.
\<close>

definition startSession :: "string \<Rightarrow> string \<Rightarrow> (accState, unit) io" where
  "startSession sid userId s =
     (case findUser userId s of
        None \<Rightarrow> (Inl (AppError 401 ''Invalid username or password''), s)
      | Some u \<Rightarrow>
          (case findRole (us_roleId u) s of
             None \<Rightarrow> (Inl TypeError, s)
           | Some r \<Rightarrow>
               (Inr (), saveSession sid \<lparr>se_userId = Some (us_id u), se_username = Some (us_username u), se_roleId = Some (us_roleId u),
                                         se_roleSnapshot = Some (snapshotFromRole r)\<rparr> (stampRole r s))))"

definition logout :: "string \<Rightarrow> accState \<Rightarrow> accState" where
  "logout sid s = s\<lparr>ax_sessions := (ax_sessions s)(sid := None)\<rparr>"

definition restart :: "accState \<Rightarrow> accState" where
  "restart s = s\<lparr>ax_versions := Map.empty\<rparr>"

section \<open>Roles\<close>

record roleInput =
  ri_name :: "string option"
  ri_description :: "string option option"
  ri_permissions :: "json option"
  ri_regionTags :: "string list option"

definition REGION_TAG_MAX_LEN :: nat where "REGION_TAG_MAX_LEN = 64"
definition REGION_TAGS_MAX_COUNT :: nat where "REGION_TAGS_MAX_COUNT = 64"
definition DESCRIPTION_MAX :: nat where "DESCRIPTION_MAX = 200"

fun collectTags :: "string list \<Rightarrow> string list \<Rightarrow> string list \<Rightarrow> string list result" where
  "collectTags seen out [] = Inr out"
| "collectTags seen out (raw # rest) =
     (let trimmed = trim raw in
      if trimmed = [] then collectTags seen out rest
      else if length trimmed > REGION_TAG_MAX_LEN
      then Inl (AppError 400 (''Region tag \"'' @ take 32 trimmed @ ''...\" exceeds '' @ string_of_nat REGION_TAG_MAX_LEN @ '' characters''))
      else if toLowerCase trimmed \<in> set seen then collectTags seen out rest
      else collectTags (toLowerCase trimmed # seen) (out @ [trimmed]) rest)"

definition normalizeRegionTags :: "string list option \<Rightarrow> string list result" where
  "normalizeRegionTags inp =
     (case collectTags [] [] (keep inp []) of
        Inl e \<Rightarrow> Inl e
      | Inr out \<Rightarrow>
          (if length out > REGION_TAGS_MAX_COUNT
           then Inl (AppError 400 (''At most '' @ string_of_nat REGION_TAGS_MAX_COUNT @ '' region tags per role''))
           else Inr out))"

definition is_lower :: "char \<Rightarrow> bool" where
  "is_lower c \<longleftrightarrow> 97 \<le> (of_char c :: nat) \<and> (of_char c :: nat) \<le> 122"

definition is_upper :: "char \<Rightarrow> bool" where
  "is_upper c \<longleftrightarrow> 65 \<le> (of_char c :: nat) \<and> (of_char c :: nat) \<le> 90"

definition nameChar :: "char \<Rightarrow> bool" where
  "nameChar c \<longleftrightarrow> is_digit c \<or> is_lower c \<or> is_upper c \<or> c = CHR ''_'' \<or> c = CHR ''-''"

definition validateName :: "string \<Rightarrow> string result" where
  "validateName name =
     (let trimmed = trim name in
      if 2 \<le> length trimmed \<and> length trimmed \<le> 32 \<and> list_all nameChar trimmed then Inr trimmed
      else Inl (AppError 400 ''Role name must be 2-32 characters, letters / digits / dash / underscore only''))"

definition normalizeDescription :: "string option \<Rightarrow> string option result" where
  "normalizeDescription inp =
     (case inp of
        None \<Rightarrow> Inr None
      | Some d \<Rightarrow>
          (let trimmed = trim d in
           if trimmed = [] then Inr None
           else if length trimmed > DESCRIPTION_MAX
           then Inl (AppError 400 (''Description must be '' @ [CHR 0xE2, CHR 0x89, CHR 0xA4] @ '' '' @ string_of_nat DESCRIPTION_MAX @ '' characters''))
           else Inr (Some trimmed)))"

definition RESERVED_NAMES_LC :: "string list" where
  "RESERVED_NAMES_LC = [''admin'', ''readonly'']"

definition nameCollides :: "string \<Rightarrow> string option \<Rightarrow> accState \<Rightarrow> bool" where
  "nameCollides name excludeId s \<longleftrightarrow>
     toLowerCase name \<in> set RESERVED_NAMES_LC \<or>
     list_ex (\<lambda>r. Some (ro_id r) \<noteq> excludeId \<and> toLowerCase (ro_name r) = toLowerCase name) (ax_roles s)"

definition insertRole :: "roleRow \<Rightarrow> (accState, unit) io" where
  "insertRole row s =
     (case insert_row ro_id roleKey row (ax_roles s) of
        Inl e \<Rightarrow> (Inl e, s)
      | Inr rows \<Rightarrow> (Inr (), s\<lparr>ax_roles := rows\<rparr>))"

definition nameTaken :: "string \<Rightarrow> error" where
  "nameTaken name = AppError 409 (''A role named \"'' @ name @ ''\" already exists'')"

definition createRole :: "roleInput \<Rightarrow> string \<Rightarrow> int \<Rightarrow> string option \<Rightarrow> (accState, roleRow) io" where
  "createRole inp uid now actor =
     bindIO (liftIO (validateName (keep (ri_name inp) []))) (\<lambda>name.
     bindIO (getIO (nameCollides name None)) (\<lambda>clash.
     if clash then throwIO (nameTaken name)
     else
       bindIO (liftIO (normalizeDescription (keep (ri_description inp) None))) (\<lambda>description.
       bindIO (liftIO (normalizeRegionTags (ri_regionTags inp))) (\<lambda>regionTags.
       let row = \<lparr>ro_id = uid, ro_name = name, ro_description = description,
                  ro_permissions = permissionsJson (normalizePermissions (keep (ri_permissions inp) JNull)),
                  ro_regionTags = regionTags, ro_isBuiltIn = False, ro_isProtected = False, ro_updatedAt = now\<rparr> in
       bindIO (insertRole row) (\<lambda>_.
       bindIO (modifyIO (bumpRoleVersion uid now)) (\<lambda>_.
       bindIO (logAcc (accEvent ''role.created'' ''role'' uid (Some name) actor)) (\<lambda>_.
       returnIO row)))))))"

text \<open>The field of an update that changes, if any.\<close>

definition nextName :: "string \<Rightarrow> roleInput \<Rightarrow> roleRow \<Rightarrow> (accState, string option) io" where
  "nextName i inp before =
     (case ri_name inp of
        None \<Rightarrow> returnIO None
      | Some n \<Rightarrow>
          bindIO (liftIO (validateName n)) (\<lambda>name.
          if name = ro_name before then returnIO None
          else bindIO (getIO (nameCollides name (Some i))) (\<lambda>clash. if clash then throwIO (nameTaken name) else returnIO (Some name))))"

definition nextDescription :: "roleInput \<Rightarrow> roleRow \<Rightarrow> string option option result" where
  "nextDescription inp before =
     (case ri_description inp of
        None \<Rightarrow> Inr None
      | Some d \<Rightarrow> map_sum id (\<lambda>d'. if d' = ro_description before then None else Some d') (normalizeDescription d))"

definition nextPermissions :: "roleInput \<Rightarrow> roleRow \<Rightarrow> permissions option" where
  "nextPermissions inp before =
     (case ri_permissions inp of
        None \<Rightarrow> None
      | Some p \<Rightarrow>
          (if normalizePermissions p = normalizePermissions (ro_permissions before) then None else Some (normalizePermissions p)))"

definition nextRegionTags :: "roleInput \<Rightarrow> roleRow \<Rightarrow> string list option result" where
  "nextRegionTags inp before =
     (case ri_regionTags inp of
        None \<Rightarrow> Inr None
      | Some ts \<Rightarrow> map_sum id (\<lambda>ts'. if ts' = ro_regionTags before then None else Some ts') (normalizeRegionTags (Some ts)))"

definition updateRoleRow :: "string \<Rightarrow> (roleRow \<Rightarrow> roleRow) \<Rightarrow> (accState, unit) io" where
  "updateRoleRow i f s =
     (case update_rows roleKey (\<lambda>r. ro_id r = i) f (ax_roles s) of
        Inl e \<Rightarrow> (Inl e, s)
      | Inr rows \<Rightarrow> (Inr (), s\<lparr>ax_roles := rows\<rparr>))"

definition applyRole :: "string option \<Rightarrow> string option option \<Rightarrow> permissions option \<Rightarrow> string list option \<Rightarrow> int \<Rightarrow> roleRow \<Rightarrow> roleRow" where
  "applyRole name description perms tags now r =
     r\<lparr>ro_name := keep name (ro_name r), ro_description := keep description (ro_description r),
       ro_permissions := (case perms of None \<Rightarrow> ro_permissions r | Some p \<Rightarrow> permissionsJson p),
       ro_regionTags := keep tags (ro_regionTags r), ro_updatedAt := now\<rparr>"

definition roleMissing :: "string \<Rightarrow> error" where
  "roleMissing i = AppError 404 (''Role '' @ i @ '' not found'')"

definition updateRole :: "string \<Rightarrow> roleInput \<Rightarrow> int \<Rightarrow> string option \<Rightarrow> (accState, roleRow) io" where
  "updateRole i inp now actor =
     bindIO (getIO (findRole i)) (\<lambda>found.
     case found of
       None \<Rightarrow> throwIO (roleMissing i)
     | Some before \<Rightarrow>
         (if ro_isProtected before
          then throwIO (AppError 403 (''Role \"'' @ ro_name before @ ''\" is protected and cannot be edited''))
          else
            bindIO (nextName i inp before) (\<lambda>name.
            bindIO (liftIO (nextDescription inp before)) (\<lambda>description.
            bindIO (liftIO (nextRegionTags inp before)) (\<lambda>tags.
            let perms = nextPermissions inp before in
            if name = None \<and> description = None \<and> perms = None \<and> tags = None then returnIO before
            else
              (let row = applyRole name description perms tags now before in
               bindIO (updateRoleRow i (applyRole name description perms tags now)) (\<lambda>_.
               bindIO (modifyIO (bumpRoleVersion i now)) (\<lambda>_.
               bindIO (logAcc (accEvent ''role.updated'' ''role'' i (Some (ro_name row)) actor)) (\<lambda>_.
               returnIO row))))))))) "

definition usersOf :: "string \<Rightarrow> accState \<Rightarrow> nat" where
  "usersOf roleId s = length (filter (\<lambda>u. us_roleId u = roleId) (ax_users s))"

definition deleteRole :: "string \<Rightarrow> string option \<Rightarrow> (accState, unit) io" where
  "deleteRole i actor =
     bindIO (getIO (findRole i)) (\<lambda>found.
     case found of
       None \<Rightarrow> throwIO (roleMissing i)
     | Some before \<Rightarrow>
         (if ro_isBuiltIn before then throwIO (AppError 409 (''Role \"'' @ ro_name before @ ''\" is built-in and cannot be deleted''))
          else
            bindIO (getIO (usersOf i)) (\<lambda>n.
            if n > 0
            then throwIO (AppError 409 (''Role \"'' @ ro_name before @ ''\" is assigned to '' @ string_of_nat n @ '' user(s). Reassign them first.''))
            else
              bindIO (modifyIO (\<lambda>s. s\<lparr>ax_roles := delete_rows (\<lambda>r. ro_id r = i) (ax_roles s)\<rparr>)) (\<lambda>_.
              logAcc (accEvent ''role.deleted'' ''role'' i (Some (ro_name before)) actor)))))"

definition adminEquivalent :: "roleRow \<Rightarrow> bool" where
  "adminEquivalent r \<longleftrightarrow>
     levelAt (normalizePermissions (ro_permissions r)) ''users'' = FullWrite \<and> levelAt (normalizePermissions (ro_permissions r)) ''roles'' = FullWrite"

definition countAdminEquivalentUsers :: "string option \<Rightarrow> accState \<Rightarrow> nat" where
  "countAdminEquivalentUsers excludeUserId s =
     (let adminEquivRoleIds = map ro_id (filter adminEquivalent (ax_roles s))
      in length (filter (\<lambda>u. us_roleId u \<in> set adminEquivRoleIds \<and> Some (us_id u) \<noteq> excludeUserId) (ax_users s)))"

definition isAdminEquivalentRole :: "string \<Rightarrow> accState \<Rightarrow> bool" where
  "isAdminEquivalentRole roleId s = (case findRole roleId s of None \<Rightarrow> False | Some r \<Rightarrow> adminEquivalent r)"

text \<open>The routes: the guard, the schema, the service.\<close>

definition PermissionsSchema :: "json \<Rightarrow> bool" where
  "PermissionsSchema p =
     (case p of JObj kvs \<Rightarrow> list_all (\<lambda>(_, v). case v of JStr t \<Rightarrow> isValidAccessLevel t | _ \<Rightarrow> False) kvs | _ \<Rightarrow> False)"

definition RegionTagsSchema :: "string list \<Rightarrow> bool" where
  "RegionTagsSchema ts \<longleftrightarrow> length ts \<le> 64 \<and> list_all (\<lambda>t. length t \<le> 64) ts"

definition UpdateRoleSchema :: "roleInput \<Rightarrow> bool" where
  "UpdateRoleSchema inp \<longleftrightarrow>
     (case ri_name inp of None \<Rightarrow> True | Some n \<Rightarrow> 2 \<le> length n \<and> length n \<le> 32) \<and>
     (case ri_description inp of Some (Some d) \<Rightarrow> length d \<le> 200 | _ \<Rightarrow> True) \<and>
     (case ri_permissions inp of None \<Rightarrow> True | Some p \<Rightarrow> PermissionsSchema p) \<and>
     (case ri_regionTags inp of None \<Rightarrow> True | Some ts \<Rightarrow> RegionTagsSchema ts)"

definition CreateRoleSchema :: "roleInput \<Rightarrow> bool" where
  "CreateRoleSchema inp \<longleftrightarrow> ri_name inp \<noteq> None \<and> ri_permissions inp \<noteq> None \<and> UpdateRoleSchema inp"

definition parsed :: "bool \<Rightarrow> (accState, 'a) io \<Rightarrow> (accState, 'a) io" where
  "parsed ok m = (if ok then m else throwIO zodError)"

definition postRole :: "string \<Rightarrow> roleInput \<Rightarrow> string \<Rightarrow> int \<Rightarrow> (accState, roleRow) io" where
  "postRole sid inp uid now =
     bindIO (requirePermission sid ''roles'' WriteAccess) (\<lambda>_.
     parsed (CreateRoleSchema inp) (bindIO (getIO (actorOf sid)) (createRole inp uid now)))"

definition putRole :: "string \<Rightarrow> string \<Rightarrow> roleInput \<Rightarrow> int \<Rightarrow> (accState, roleRow) io" where
  "putRole sid i inp now =
     bindIO (requirePermission sid ''roles'' WriteAccess) (\<lambda>_.
     parsed (UpdateRoleSchema inp) (bindIO (getIO (actorOf sid)) (updateRole i inp now)))"

definition removeRole :: "string \<Rightarrow> string \<Rightarrow> (accState, unit) io" where
  "removeRole sid i =
     bindIO (requirePermission sid ''roles'' WriteAccess) (\<lambda>_. bindIO (getIO (actorOf sid)) (deleteRole i))"

section \<open>Users\<close>

definition passwordSchema :: "string \<Rightarrow> bool" where
  "passwordSchema p \<longleftrightarrow>
     8 \<le> length p \<and> list_ex is_lower p \<and> list_ex is_upper p \<and> list_ex is_digit p \<and>
     list_ex (\<lambda>c. \<not> (is_digit c \<or> is_lower c \<or> is_upper c)) p"

record userInput =
  ui_username :: string
  ui_password :: string
  ui_roleId :: string
  ui_regionTags :: "string list option"

definition CreateUserSchema :: "userInput \<Rightarrow> bool" where
  "CreateUserSchema inp \<longleftrightarrow>
     1 \<le> length (ui_username inp) \<and> length (ui_username inp) \<le> 64 \<and> passwordSchema (ui_password inp) \<and> isUuid (ui_roleId inp) \<and>
     (case ui_regionTags inp of None \<Rightarrow> True | Some ts \<Rightarrow> RegionTagsSchema ts)"

definition insertUser :: "userRow \<Rightarrow> (accState, unit) io" where
  "insertUser row s =
     (case insert_row us_id userKey row (ax_users s) of
        Inl e \<Rightarrow> (Inl e, s)
      | Inr rows \<Rightarrow> (Inr (), s\<lparr>ax_users := rows\<rparr>))"

definition roleUnknown :: "string \<Rightarrow> error" where
  "roleUnknown i = AppError 400 (''Role '' @ i @ '' not found'')"

definition createUser :: "(string \<Rightarrow> string) \<Rightarrow> string option \<Rightarrow> userInput \<Rightarrow> string \<Rightarrow> (accState, userRow) io" where
  "createUser hash actor inp uid s =
     (if list_ex (\<lambda>u. us_username u = ui_username inp) (ax_users s)
      then (Inl (AppError 409 (''User \"'' @ ui_username inp @ ''\" already exists'')), s)
      else
        (case findRole (ui_roleId inp) s of
           None \<Rightarrow> (Inl (roleUnknown (ui_roleId inp)), s)
         | Some r \<Rightarrow>
             (let row = \<lparr>us_id = uid, us_username = ui_username inp, us_passwordHash = hash (ui_password inp), us_roleId = ro_id r,
                         us_regionTags = keep (ui_regionTags inp) [], us_authProvider = ''local'', us_totpSecret = None,
                         us_totpEnabledAt = None, us_totpBackupCodes = [], us_needsRoleReview = False\<rparr> in
              bindIO (insertUser row) (\<lambda>_.
              bindIO (logAcc (accEvent ''user.created'' ''user'' uid (Some (ui_username inp)) actor)) (\<lambda>_.
              returnIO row)) s)))"

definition postUser :: "(string \<Rightarrow> string) \<Rightarrow> string \<Rightarrow> userInput \<Rightarrow> string \<Rightarrow> (accState, userRow) io" where
  "postUser hash sid inp uid =
     bindIO (requirePermission sid ''users'' WriteAccess) (\<lambda>_.
     parsed (CreateUserSchema inp) (bindIO (getIO (actorOf sid)) (\<lambda>actor. createUser hash actor inp uid)))"

definition changeUser :: "string \<Rightarrow> (userRow \<Rightarrow> userRow) \<Rightarrow> accState \<Rightarrow> accState" where
  "changeUser i f s = s\<lparr>ax_users := map (\<lambda>u. if us_id u = i then f u else u) (ax_users s)\<rparr>"

definition withUser :: "string \<Rightarrow> (userRow \<Rightarrow> (accState, 'a) io) \<Rightarrow> (accState, 'a) io" where
  "withUser i f = bindIO (getIO (findUser i)) (\<lambda>found. case found of None \<Rightarrow> throwIO (AppError 404 ''User not found'') | Some u \<Rightarrow> f u)"

definition dismissRoleReview :: "string \<Rightarrow> string \<Rightarrow> (accState, unit) io" where
  "dismissRoleReview sid i =
     bindIO (requirePermission sid ''users'' WriteAccess) (\<lambda>_.
     withUser i (\<lambda>u. if us_needsRoleReview u then modifyIO (changeUser i (\<lambda>v. v\<lparr>us_needsRoleReview := False\<rparr>)) else returnIO ()))"

definition putUserPassword :: "(string \<Rightarrow> string) \<Rightarrow> string \<Rightarrow> string \<Rightarrow> string \<Rightarrow> (accState, unit) io" where
  "putUserPassword hash sid i password =
     bindIO (requirePermission sid ''users'' WriteAccess) (\<lambda>_.
     parsed (passwordSchema password)
       (withUser i (\<lambda>u.
          if us_authProvider u = ''azure'' then throwIO (AppError 400 ''Cannot reset password for Azure SSO users'')
          else
            bindIO (modifyIO (changeUser i (\<lambda>v. v\<lparr>us_passwordHash := hash password\<rparr>))) (\<lambda>_.
            modifyIO (\<lambda>s. s\<lparr>ax_lock := clearLockout (ax_lock s) (us_username u)\<rparr>)))))"

definition lastAdmin :: "string \<Rightarrow> error" where
  "lastAdmin verb = AppError 409 (''Cannot '' @ verb @ '' '' @ emdash @ '' this is the last admin-equivalent account. Promote another user first.'')"

definition assignRole :: "string \<Rightarrow> userRow \<Rightarrow> string \<Rightarrow> (accState, unit) io" where
  "assignRole sid u roleId s =
     (case findRole roleId s of
        None \<Rightarrow> (Inl (roleUnknown roleId), s)
      | Some r \<Rightarrow>
          (if sessionUser sid s = Some (us_id u) then (Inl (AppError 400 ''You cannot change your own role''), s)
           else if isAdminEquivalentRole (us_roleId u) s \<and> \<not> isAdminEquivalentRole (ro_id r) s \<and> countAdminEquivalentUsers (Some (us_id u)) s = 0
           then (Inl (lastAdmin ''reassign''), s)
           else
             bindIO (modifyIO (changeUser (us_id u) (\<lambda>v. v\<lparr>us_roleId := ro_id r, us_needsRoleReview := False\<rparr>))) (\<lambda>_.
             bindIO (getIO (actorOf sid)) (\<lambda>actor.
             logAcc (accEvent ''user.role_changed'' ''user'' (us_id u) (Some (us_username u)) actor))) s))"

definition putUserRole :: "string \<Rightarrow> string \<Rightarrow> string \<Rightarrow> (accState, unit) io" where
  "putUserRole sid i roleId =
     bindIO (requirePermission sid ''users'' WriteAccess) (\<lambda>_.
     parsed (isUuid roleId) (withUser i (\<lambda>u. assignRole sid u roleId)))"

fun cleanTags :: "string list \<Rightarrow> string list \<Rightarrow> string list \<Rightarrow> string list" where
  "cleanTags seen cleaned [] = cleaned"
| "cleanTags seen cleaned (raw # rest) =
     (let t = trim raw in
      if t = [] \<or> toLowerCase t \<in> set seen then cleanTags seen cleaned rest
      else cleanTags (toLowerCase t # seen) (cleaned @ [t]) rest)"

definition putUserRegions :: "string \<Rightarrow> string \<Rightarrow> string list \<Rightarrow> (accState, unit) io" where
  "putUserRegions sid i regionTags =
     bindIO (requirePermission sid ''users'' WriteAccess) (\<lambda>_.
     parsed (RegionTagsSchema regionTags)
       (withUser i (\<lambda>u.
        bindIO (modifyIO (changeUser i (\<lambda>v. v\<lparr>us_regionTags := cleanTags [] [] regionTags\<rparr>))) (\<lambda>_.
        bindIO (getIO (actorOf sid)) (\<lambda>actor.
        logAcc (accEvent ''user.regions_updated'' ''user'' i (Some (us_username u)) actor))))))"

definition deleteUserTotp :: "string \<Rightarrow> string \<Rightarrow> (accState, unit) io" where
  "deleteUserTotp sid i =
     bindIO (requirePermission sid ''users'' WriteAccess) (\<lambda>_.
     withUser i (\<lambda>u.
       if us_totpEnabledAt u = None \<and> \<not> truthy (us_totpSecret u)
       then throwIO (AppError 400 ''Two-factor auth is not configured for this user.'')
       else modifyIO (changeUser i (\<lambda>v. v\<lparr>us_totpSecret := None, us_totpEnabledAt := None, us_totpBackupCodes := []\<rparr>))))"

definition removeUser :: "string \<Rightarrow> userRow \<Rightarrow> (accState, unit) io" where
  "removeUser sid u s =
     (if sessionUser sid s = Some (us_id u) then (Inl (AppError 400 ''You cannot delete your own account''), s)
      else if isAdminEquivalentRole (us_roleId u) s \<and> countAdminEquivalentUsers (Some (us_id u)) s = 0 then (Inl (lastAdmin ''delete''), s)
      else
        bindIO (modifyIO (\<lambda>s. s\<lparr>ax_users := delete_rows (\<lambda>v. us_id v = us_id u) (ax_users s)\<rparr>)) (\<lambda>_.
        bindIO (getIO (actorOf sid)) (\<lambda>actor.
        logAcc (accEvent ''user.deleted'' ''user'' (us_id u) (Some (us_username u)) actor))) s)"

definition deleteUser :: "string \<Rightarrow> string \<Rightarrow> (accState, unit) io" where
  "deleteUser sid i = bindIO (requirePermission sid ''users'' WriteAccess) (\<lambda>_. withUser i (removeUser sid))"

section \<open>Bearer tokens\<close>

definition KNOWN_SCOPES :: "string list" where
  "KNOWN_SCOPES = [''assets:quarantine'', ''assets:read'']"

definition TOKEN_PREFIX :: string where
  "TOKEN_PREFIX = ''polaris_''"

text \<open>The argument is the base64 text of the 24 random bytes.\<close>

definition generateRawToken :: "string \<Rightarrow> string" where
  "generateRawToken base64 = TOKEN_PREFIX @ take 32 (filter (\<lambda>c. c \<notin> {CHR ''+'', CHR ''/'', CHR ''=''}) base64)"

definition shortToken :: "string \<Rightarrow> string" where
  "shortToken raw = take (length TOKEN_PREFIX + 8) raw"

definition validateScopes :: "string list \<Rightarrow> unit result" where
  "validateScopes scopes =
     (if scopes = [] then Inl (AppError 400 ''Token must have at least one scope'')
      else
        (let unknown = filter (\<lambda>sc. sc \<notin> set KNOWN_SCOPES) scopes in
         if unknown \<noteq> []
         then Inl (AppError 400 (''Unknown scope(s): '' @ join '', '' unknown @ ''. Valid scopes: '' @ join '', '' KNOWN_SCOPES))
         else Inr ()))"

definition js_unique :: "string list \<Rightarrow> string list" where
  "js_unique xs = rev (remdups (rev xs))"

definition validateIntegrationIds :: "string list \<Rightarrow> string list \<Rightarrow> (string \<times> string) list \<Rightarrow> string list result" where
  "validateIntegrationIds scopes integrationIds rows =
     (if ''assets:quarantine'' \<notin> set scopes then Inr []
      else if integrationIds = []
      then Inl (AppError 400 ''Tokens with the assets:quarantine scope must select at least one FortiManager or FortiGate integration'')
      else
        (let unique = js_unique integrationIds;
             missing = filter (\<lambda>i. map_of rows i = None) unique;
             wrongType = filter (\<lambda>i. map_of rows i \<notin> {Some ''fortimanager'', Some ''fortigate''}) unique
         in if missing \<noteq> [] then Inl (AppError 400 (''Unknown integration id(s): '' @ join '', '' missing))
            else if wrongType \<noteq> []
            then Inl (AppError 400 (''Integration(s) '' @ join '', '' wrongType @ '' are not FortiManager or FortiGate '' @ emdash @
                   '' quarantine push only supports those types''))
            else Inr unique))"

record tokenInput =
  ti_name :: string
  ti_scopes :: "string list"
  ti_integrationIds :: "string list"
  ti_expiresAt :: "int option"
  ti_createdBy :: string

definition createToken :: "(string \<Rightarrow> string) \<Rightarrow> tokenInput \<Rightarrow> string \<Rightarrow> string \<Rightarrow> (accState, apiToken \<times> string) io" where
  "createToken hash inp base64 uid =
     (let name = trim (ti_name inp) in
      if name = [] then throwIO (AppError 400 ''Token name is required'')
      else
        bindIO (liftIO (validateScopes (ti_scopes inp))) (\<lambda>_.
        bindIO (getIO (\<lambda>s. list_ex (\<lambda>t. at_name t = name) (ax_tokens s))) (\<lambda>existing.
        if existing then throwIO (AppError 409 (''A token named \"'' @ ti_name inp @ ''\" already exists''))
        else
          bindIO (getIO ax_integrations) (\<lambda>rows.
          bindIO (liftIO (validateIntegrationIds (ti_scopes inp) (ti_integrationIds inp) rows)) (\<lambda>integrationIds.
          let raw = generateRawToken base64;
              row = \<lparr>at_id = uid, at_name = name, at_tokenHash = hash raw, at_tokenPrefix = shortToken raw, at_scopes = ti_scopes inp,
                     at_integrationIds = integrationIds, at_createdBy = ti_createdBy inp, at_expiresAt = ti_expiresAt inp,
                     at_lastUsed = None, at_revoked = None\<rparr> in
          (\<lambda>s. case insert_row at_id tokenKey row (ax_tokens s) of
                 Inl e \<Rightarrow> (Inl e, s)
               | Inr ts \<Rightarrow> (Inr (row, raw), s\<lparr>ax_tokens := ts\<rparr>)))))))"

definition findToken :: "string \<Rightarrow> accState \<Rightarrow> apiToken option" where
  "findToken i s = find (\<lambda>t. at_id t = i) (ax_tokens s)"

definition changeToken :: "string \<Rightarrow> (apiToken \<Rightarrow> apiToken) \<Rightarrow> accState \<Rightarrow> accState" where
  "changeToken i f s = s\<lparr>ax_tokens := map (\<lambda>t. if at_id t = i then f t else t) (ax_tokens s)\<rparr>"

definition revokeToken :: "string \<Rightarrow> string \<Rightarrow> int \<Rightarrow> (accState, unit) io" where
  "revokeToken i revokedBy now =
     bindIO (getIO (findToken i)) (\<lambda>found.
     case found of
       None \<Rightarrow> throwIO (AppError 404 ''Token not found'')
     | Some t \<Rightarrow>
         (if at_revoked t \<noteq> None then throwIO (AppError 409 ''Token is already revoked'')
          else modifyIO (changeToken i (\<lambda>u. u\<lparr>at_revoked := Some (now, revokedBy)\<rparr>))))"

definition deleteToken :: "string \<Rightarrow> (accState, unit) io" where
  "deleteToken i =
     bindIO (getIO (findToken i)) (\<lambda>found.
     case found of
       None \<Rightarrow> throwIO (AppError 404 ''Token not found'')
     | Some t \<Rightarrow> modifyIO (\<lambda>s. s\<lparr>ax_tokens := delete_rows (\<lambda>u. at_id u = i) (ax_tokens s)\<rparr>))"

text \<open>\<^verbatim>\<open>verifyPassword(...).valid\<close>; the first argument is the check of argon2.\<close>

definition verifyPassword :: "(string \<Rightarrow> string \<Rightarrow> bool) \<Rightarrow> string \<Rightarrow> string \<Rightarrow> bool" where
  "verifyPassword argonVerify plaintext stored \<longleftrightarrow> startsWith stored ''$argon2'' \<and> argonVerify stored plaintext"

definition liveToken :: "int \<Rightarrow> string \<Rightarrow> apiToken \<Rightarrow> bool" where
  "liveToken now rawToken t \<longleftrightarrow>
     at_revoked t = None \<and> (case at_expiresAt t of None \<Rightarrow> True | Some e \<Rightarrow> now < e) \<and> at_tokenPrefix t = shortToken rawToken"

definition identityOf :: "apiToken \<Rightarrow> authToken" where
  "identityOf t = \<lparr>au_id = at_id t, au_name = at_name t, au_scopes = at_scopes t, au_integrationIds = at_integrationIds t\<rparr>"

definition verifyToken :: "(string \<Rightarrow> string \<Rightarrow> bool) \<Rightarrow> string \<Rightarrow> string option \<Rightarrow> int \<Rightarrow> accState \<Rightarrow> authToken option \<times> accState" where
  "verifyToken argonVerify rawToken callerIp now s =
     (if \<not> startsWith rawToken TOKEN_PREFIX then (None, s)
      else
        (case find (\<lambda>t. verifyPassword argonVerify rawToken (at_tokenHash t)) (filter (liveToken now rawToken) (ax_tokens s)) of
           None \<Rightarrow> (None, s)
         | Some t \<Rightarrow> (Some (identityOf t), changeToken (at_id t) (\<lambda>u. u\<lparr>at_lastUsed := Some (now, callerIp)\<rparr>) s)))"

definition extractBearerToken :: "string option \<Rightarrow> string option" where
  "extractBearerToken auth =
     (case auth of
        None \<Rightarrow> None
      | Some h \<Rightarrow>
          (let rest = drop 6 h; token = dropWhile is_space rest in
           if toLowerCase (take 6 h) = ''bearer'' \<and> takeWhile is_space rest \<noteq> [] \<and> token \<noteq> [] \<and> list_all (\<lambda>c. \<not> is_space c) token
           then Some token else None))"

definition attachApiToken ::
  "(string \<Rightarrow> string \<Rightarrow> bool) \<Rightarrow> string option \<Rightarrow> string option \<Rightarrow> int \<Rightarrow> accState \<Rightarrow> authToken option \<times> accState" where
  "attachApiToken argonVerify auth callerIp now s =
     (case extractBearerToken auth of None \<Rightarrow> (None, s) | Some raw \<Rightarrow> verifyToken argonVerify raw callerIp now s)"

text \<open>
  The routes of \<^verbatim>\<open>src/api/routes/apiTokens.ts\<close>; an expiry is given as the time it parses to. The router
  mounts the token and the user routes behind a guard of read level, which the guard of write level of the
  route itself includes.
\<close>

definition CreateTokenSchema :: "tokenInput \<Rightarrow> bool" where
  "CreateTokenSchema inp \<longleftrightarrow>
     1 \<le> length (ti_name inp) \<and> length (ti_name inp) \<le> 80 \<and> ti_scopes inp \<noteq> [] \<and> list_all (\<lambda>sc. sc \<in> set KNOWN_SCOPES) (ti_scopes inp) \<and>
     list_all isUuid (ti_integrationIds inp)"

definition postToken :: "(string \<Rightarrow> string) \<Rightarrow> string \<Rightarrow> tokenInput \<Rightarrow> string \<Rightarrow> string \<Rightarrow> int \<Rightarrow> (accState, apiToken \<times> string) io" where
  "postToken hash sid inp base64 uid now =
     bindIO (requirePermission sid ''apiTokens'' WriteAccess) (\<lambda>_.
     parsed (CreateTokenSchema inp)
       (if (case ti_expiresAt inp of None \<Rightarrow> False | Some e \<Rightarrow> e \<le> now) then throwIO (AppError 400 ''expiresAt must be in the future'')
        else
          bindIO (getIO (actorOf sid)) (\<lambda>actor.
          bindIO (createToken hash (inp\<lparr>ti_createdBy := or_str actor ''unknown''\<rparr>) base64 uid) (\<lambda>created.
          bindIO (logAcc (accEvent ''api_token.created'' ''api_token'' uid (Some (at_name (fst created))) actor)) (\<lambda>_.
          returnIO created)))))"

definition postRevoke :: "string \<Rightarrow> string \<Rightarrow> int \<Rightarrow> (accState, unit) io" where
  "postRevoke sid i now =
     bindIO (requirePermission sid ''apiTokens'' WriteAccess) (\<lambda>_.
     bindIO (getIO (actorOf sid)) (\<lambda>actor.
     bindIO (revokeToken i (or_str actor ''unknown'') now) (\<lambda>_.
     logAcc (accEvent ''api_token.revoked'' ''api_token'' i None actor))))"

definition removeToken :: "string \<Rightarrow> string \<Rightarrow> (accState, unit) io" where
  "removeToken sid i =
     bindIO (requirePermission sid ''apiTokens'' WriteAccess) (\<lambda>_.
     bindIO (getIO (actorOf sid)) (\<lambda>actor.
     bindIO (deleteToken i) (\<lambda>_.
     logAcc (accEvent ''api_token.deleted'' ''api_token'' i None actor))))"

end
