(* ===== verification/AccessSpec.thy ===== *)
theory AccessSpec
  imports Access
begin

text \<open>
  What access control guarantees. \<open>tableStep\<close> is the specification of the role and user routes: what a request may do
  to the two tables. Every route refines it, and the invariants are proved on it: the tables stay well-formed, the
  protected roles never change, an admin-equivalent user is left. Then the guards: they decide by the role table
  as it is at the time of the request, although they look at a snapshot kept in the session; and the
  cases in which they do not. Last the bearer tokens.
\<close>

section \<open>The tables\<close>

type_synonym tables = "roleRow list \<times> userRow list"

definition tables :: "accState \<Rightarrow> tables" where
  "tables s = (ax_roles s, ax_users s)"

fun tables_ok :: "tables \<Rightarrow> bool" where
  "tables_ok (R, U) \<longleftrightarrow>
     distinct (map ro_id R) \<and> distinct (map (\<lambda>r. toLowerCase (ro_name r)) R) \<and> list_all (\<lambda>r. ro_isProtected r \<longrightarrow> ro_isBuiltIn r) R \<and>
     distinct (map us_id U) \<and> distinct (map us_username U) \<and> list_all (\<lambda>u. us_roleId u \<in> ro_id ` set R) U"

definition adminIds :: "roleRow list \<Rightarrow> string set" where
  "adminIds R = ro_id ` set (filter adminEquivalent R)"

definition admins :: "tables \<Rightarrow> userRow list" where
  "admins RU = filter (\<lambda>u. us_roleId u \<in> adminIds (fst RU)) (snd RU)"

text \<open>What remains without one user.\<close>

definition without :: "string \<Rightarrow> userRow list \<Rightarrow> userRow list" where
  "without i U = filter (\<lambda>u. us_id u \<noteq> i) U"

inductive tableStep :: "bool \<Rightarrow> tables \<Rightarrow> tables \<Rightarrow> bool" for edits :: bool where
  stay: "tableStep edits RU RU"
| touch: "(\<And>u. us_id (f u) = us_id u \<and> us_username (f u) = us_username u \<and> us_roleId (f u) = us_roleId u) \<Longrightarrow>
    tableStep edits (R, U) (R, map f U)"
| addRole: "ro_id r \<notin> ro_id ` set R \<Longrightarrow> toLowerCase (ro_name r) \<notin> (\<lambda>r. toLowerCase (ro_name r)) ` set R \<Longrightarrow> \<not> ro_isProtected r \<Longrightarrow>
    tableStep edits (R, U) (R @ [r], U)"
| dropRole: "\<forall>r \<in> set R. ro_id r = i \<longrightarrow> \<not> ro_isBuiltIn r \<Longrightarrow> \<forall>u \<in> set U. us_roleId u \<noteq> i \<Longrightarrow>
    tableStep edits (R, U) (filter (\<lambda>r. ro_id r \<noteq> i) R, U)"
| editRole: "edits \<Longrightarrow> \<forall>r \<in> set R. ro_id r = i \<longrightarrow> \<not> ro_isProtected r \<Longrightarrow>
    (\<And>r. ro_id (f r) = ro_id r \<and> ro_isProtected (f r) = ro_isProtected r \<and> ro_isBuiltIn (f r) = ro_isBuiltIn r) \<Longrightarrow>
    \<forall>r \<in> set R. \<forall>q \<in> set R. ro_id r = i \<and> ro_id q \<noteq> i \<longrightarrow> toLowerCase (ro_name (f r)) \<noteq> toLowerCase (ro_name q) \<Longrightarrow>
    tableStep edits (R, U) (map (\<lambda>r. if ro_id r = i then f r else r) R, U)"
| addUser: "us_id u \<notin> us_id ` set U \<Longrightarrow> us_username u \<notin> us_username ` set U \<Longrightarrow> us_roleId u \<in> ro_id ` set R \<Longrightarrow>
    tableStep edits (R, U) (R, U @ [u])"
| moveUser: "j \<in> ro_id ` set R \<Longrightarrow> j \<in> adminIds R \<or> i \<notin> us_id ` set (admins (R, U)) \<or> admins (R, without i U) \<noteq> [] \<Longrightarrow>
    (\<And>u. us_id (f u) = us_id u \<and> us_username (f u) = us_username u \<and> us_roleId (f u) = j) \<Longrightarrow>
    tableStep edits (R, U) (R, map (\<lambda>u. if us_id u = i then f u else u) U)"
| dropUser: "i \<notin> us_id ` set (admins (R, U)) \<or> admins (R, without i U) \<noteq> [] \<Longrightarrow>
    tableStep edits (R, U) (R, without i U)"

lemma map_comp_upd:
  assumes "\<And>x. g (f x) = g x"
  shows "map g (map (\<lambda>x. if P x then f x else x) xs) = map g xs"
  by (induction xs) (auto simp: assms)

lemma edit_names_distinct:
  assumes "distinct (map ro_id R)" "distinct (map n R)" "\<forall>r \<in> set R. \<forall>q \<in> set R. ro_id r = i \<and> ro_id q \<noteq> i \<longrightarrow> n (f r) \<noteq> n q"
  shows "distinct (map (\<lambda>r. n (if ro_id r = i then f r else r)) R)"
  using assms
proof (induction R)
  case (Cons r R)
  have "n (if ro_id r = i then f r else r) \<noteq> n (if ro_id q = i then f q else q)" if q: "q \<in> set R" for q
  proof -
    have "ro_id q \<noteq> ro_id r" using Cons.prems(1) q by (auto simp: image_iff)
    moreover have "n q \<noteq> n r" using Cons.prems(2) q by (auto simp: image_iff)
    moreover have "ro_id r = i \<Longrightarrow> ro_id q \<noteq> i \<Longrightarrow> n (f r) \<noteq> n q" "ro_id q = i \<Longrightarrow> ro_id r \<noteq> i \<Longrightarrow> n (f q) \<noteq> n r"
      using Cons.prems(3) q by auto
    ultimately show ?thesis by (cases "ro_id r = i"; cases "ro_id q = i") metis+
  qed
  then have "n (if ro_id r = i then f r else r) \<notin> set (map (\<lambda>r. n (if ro_id r = i then f r else r)) R)"
    unfolding set_map image_iff by blast
  moreover have "distinct (map (\<lambda>r. n (if ro_id r = i then f r else r)) R)" by (rule Cons.IH) (use Cons.prems in auto)
  ultimately show ?case by simp
qed simp

lemma tableStep_ok: "tableStep edits RU RU' \<Longrightarrow> tables_ok RU \<Longrightarrow> tables_ok RU'"
proof (induction rule: tableStep.induct)
  case (touch f R U)
  then have "map us_id (map f U) = map us_id U" "map us_username (map f U) = map us_username U" by simp_all
  with touch show ?case by (auto simp: list_all_iff simp del: map_map)
next
  case (dropRole R i U)
  then have "us_roleId u \<in> ro_id ` {r \<in> set R. ro_id r \<noteq> i}" if "u \<in> set U" for u using that by (fastforce simp: list_all_iff)
  with dropRole show ?case by (simp add: list_all_iff distinct_map_filter)
next
  case (editRole R i f U)
  have "map ro_id (map (\<lambda>r. if ro_id r = i then f r else r) R) = map ro_id R" by (rule map_comp_upd) (simp add: editRole.hyps(3))
  moreover from this have "ro_id ` set (map (\<lambda>r. if ro_id r = i then f r else r) R) = ro_id ` set R" by (metis list.set_map)
  moreover have "distinct (map (\<lambda>r. toLowerCase (ro_name r)) (map (\<lambda>r. if ro_id r = i then f r else r) R))"
    unfolding map_map comp_def
    by (rule edit_names_distinct [where n = "\<lambda>r. toLowerCase (ro_name r)"]) (use editRole in \<open>simp_all\<close>)
  moreover have "list_all (\<lambda>r. ro_isProtected r \<longrightarrow> ro_isBuiltIn r) (map (\<lambda>r. if ro_id r = i then f r else r) R)"
    using editRole.prems by (auto simp: list_all_iff editRole.hyps(3))
  ultimately show ?case using editRole.prems by (simp del: map_map set_map)
next
  case (moveUser j R i U f)
  have "map us_id (map (\<lambda>u. if us_id u = i then f u else u) U) = map us_id U"
    "map us_username (map (\<lambda>u. if us_id u = i then f u else u) U) = map us_username U"
    by (rule map_comp_upd, simp add: moveUser.hyps(3))+
  with moveUser show ?case by (auto simp: list_all_iff simp del: map_map)
qed (auto simp: list_all_iff distinct_map_filter without_def)

lemma tableStep_protected:
  "tableStep edits RU RU' \<Longrightarrow> tables_ok RU \<Longrightarrow> filter ro_isProtected (fst RU') = filter ro_isProtected (fst RU)"
proof (induction rule: tableStep.induct)
  case (dropRole R i U)
  then have "ro_isProtected r \<Longrightarrow> r \<in> set R \<Longrightarrow> ro_id r \<noteq> i" for r by (auto simp: list_all_iff)
  then show ?case by (auto intro!: filter_cong)
next
  case (editRole R i f U)
  from editRole.hyps(2) have "filter ro_isProtected (map (\<lambda>r. if ro_id r = i then f r else r) R) = filter ro_isProtected R"
    by (induction R) (simp_all add: editRole.hyps(3))
  then show ?case by simp
qed simp_all

lemma tableStep_admins: "tableStep False RU RU' \<Longrightarrow> tables_ok RU \<Longrightarrow> admins RU \<noteq> [] \<Longrightarrow> admins RU' \<noteq> []"
proof (induction rule: tableStep.induct)
  case (touch f R U)
  then show ?case by (auto simp: admins_def filter_empty_conv)
next
  case (addRole r R U)
  then show ?case by (auto simp: admins_def filter_empty_conv adminIds_def)
next
  case (dropRole R i U)
  then show ?case by (fastforce simp: admins_def filter_empty_conv adminIds_def)
next
  case (addUser u U R)
  then show ?case by (auto simp: admins_def filter_empty_conv)
next
  case (moveUser j R i U f)
  obtain u where u: "u \<in> set U" "us_roleId u \<in> adminIds R" using moveUser.prems by (auto simp: admins_def filter_empty_conv)
  show ?case
  proof (cases "us_id u = i")
    case False
    then show ?thesis using u by (auto simp: admins_def filter_empty_conv intro!: bexI [of _ u])
  next
    case True
    then have "i \<in> us_id ` set (admins (R, U))" using u by (auto simp: admins_def)
    then consider "j \<in> adminIds R" | "admins (R, without i U) \<noteq> []" using moveUser.hyps(2) by blast
    then show ?thesis
    proof cases
      case 1
      then show ?thesis using True u moveUser.hyps(3) by (auto simp: admins_def filter_empty_conv intro!: bexI [of _ "f u"])
    next
      case 2
      then show ?thesis by (auto simp: admins_def filter_empty_conv without_def)
    qed
  qed
next
  case (dropUser i R U)
  then show ?case
    by (auto simp: admins_def filter_empty_conv without_def image_iff)
qed simp_all

section \<open>The guard and the tables\<close>

lemma tables_simps [simp]:
  "tables (s\<lparr>ax_versions := v\<rparr>) = tables s" "tables (s\<lparr>ax_sessions := se\<rparr>) = tables s" "tables (s\<lparr>ax_events := ev\<rparr>) = tables s"
  "tables (s\<lparr>ax_lock := l\<rparr>) = tables s" "tables (saveSession sid x s) = tables s" "tables (bumpRoleVersion i t s) = tables s"
  "tables (stampRole r s) = tables s"
  by (simp_all add: tables_def saveSession_def bumpRoleVersion_def stampRole_def)

lemma snapshot_tables: "tables (snd (resolveSnapshot sid s)) = tables s"
  by (auto simp: resolveSnapshot_def healSession_def reloadSession_def loadRoleSnapshot_def bindIO_def split: option.splits)

lemma guard_tables: "tables (snd (requirePermission sid key level s)) = tables s"
  using snapshot_tables [of sid s]
  by (auto simp: requirePermission_def bindIO_def Let_def split: prod.splits sum.splits option.splits)

lemma start_tables: "tables (snd (startSession sid i s)) = tables s"
  by (auto simp: startSession_def split: option.splits)

text \<open>A call refines the specification if it takes the tables one step.\<close>

definition refines :: "bool \<Rightarrow> (accState, 'a) io \<Rightarrow> bool" where
  "refines edits m \<longleftrightarrow> (\<forall>s. tables_ok (tables s) \<longrightarrow> tableStep edits (tables s) (tables (snd (m s))))"

lemma refinesI: "(\<And>s. tables_ok (tables s) \<Longrightarrow> tableStep edits (tables s) (tables (snd (m s)))) \<Longrightarrow> refines edits m"
  by (simp add: refines_def)

lemma refines_bind:
  assumes "\<And>s. tables (snd (m s)) = tables s" "\<And>a. refines edits (f a)"
  shows "refines edits (bindIO m f)"
proof (rule refinesI)
  fix s
  assume ok: "tables_ok (tables s)"
  obtain x t where m: "m s = (x, t)" by fastforce
  then have same: "tables t = tables s" using assms(1) [of s] by simp
  show "tableStep edits (tables s) (tables (snd (bindIO m f s)))"
  proof (cases x)
    case (Inr a)
    then show ?thesis using assms(2) [of a] ok same by (simp add: refines_def bindIO_def m) metis
  qed (simp add: bindIO_def m same stay)
qed

lemma refines_guard: "(\<And>a. refines edits (f a)) \<Longrightarrow> refines edits (bindIO (requirePermission sid key level) f)"
  by (rule refines_bind) (simp_all add: guard_tables)

lemma refines_get: "(\<And>a. refines edits (f a)) \<Longrightarrow> refines edits (bindIO (getIO g) f)"
  by (rule refines_bind) simp_all

lemma refines_parsed: "refines edits m \<Longrightarrow> refines edits (parsed ok m)"
  by (auto simp: parsed_def refines_def intro: stay)

lemma refines_withUser:
  assumes "\<And>u s. findUser i s = Some u \<Longrightarrow> tables_ok (tables s) \<Longrightarrow> tableStep edits (tables s) (tables (snd (f u s)))"
  shows "refines edits (withUser i f)"
  using assms by (auto simp: refines_def withUser_def intro: stay split: option.split)

lemma refines_change:
  assumes "\<And>u. us_id (f u) = us_id u \<and> us_username (f u) = us_username u \<and> us_roleId (f u) = us_roleId u"
  shows "tableStep edits (tables s) (tables (changeUser i f s))"
  unfolding tables_def changeUser_def by (simp, rule touch) (simp add: assms)

lemmas refine_rules = refines_guard refines_parsed refines_withUser

section \<open>The effect of the role services\<close>

lemma createRole_effect:
  "snd (createRole inp uid now actor s) = s \<or>
   (\<exists>row. ro_id row = uid \<and> ro_updatedAt row = now \<and> \<not> ro_isProtected row \<and> uid \<notin> ro_id ` set (ax_roles s) \<and>
      toLowerCase (ro_name row) \<notin> (\<lambda>r. toLowerCase (ro_name r)) ` set (ax_roles s) \<and>
      ax_roles (snd (createRole inp uid now actor s)) = ax_roles s @ [row] \<and>
      ax_versions (snd (createRole inp uid now actor s)) = (ax_versions s)(uid \<mapsto> now) \<and>
      ax_users (snd (createRole inp uid now actor s)) = ax_users s \<and> ax_sessions (snd (createRole inp uid now actor s)) = ax_sessions s)"
proof -
  consider e where "validateName (keep (ri_name inp) []) = Inl e" | name where "validateName (keep (ri_name inp) []) = Inr name" by (meson sum.exhaust)
  then show ?thesis
  proof cases
    case (2 name)
    show ?thesis
    proof (cases "nameCollides name None s")
      case False
      then have fresh: "toLowerCase name \<notin> (\<lambda>r. toLowerCase (ro_name r)) ` set (ax_roles s)"
        by (auto simp: nameCollides_def list_ex_iff)
      show ?thesis using 2 False fresh
        by (cases "normalizeDescription (keep (ri_description inp) None)"; cases "normalizeRegionTags (ri_regionTags inp)")
           (auto simp: createRole_def Let_def insertRole_def insert_row_def bindIO_def logAcc_def bumpRoleVersion_def
             split: sum.splits if_splits)
    qed (simp add: createRole_def 2)
  qed (simp add: createRole_def)
qed

definition edited :: "string \<Rightarrow> roleInput \<Rightarrow> int \<Rightarrow> roleRow \<Rightarrow> accState \<Rightarrow> roleRow \<Rightarrow> roleRow" where
  "edited i inp now before s =
     applyRole (projr (fst (nextName i inp before s))) (projr (nextDescription inp before)) (nextPermissions inp before)
       (projr (nextRegionTags inp before)) now"

lemma nextName_result:
  "snd (nextName i inp before s) = s" "fst (nextName i inp before s) = Inr (Some n) \<Longrightarrow> \<not> nameCollides n (Some i) s"
  by (auto simp: nextName_def bindIO_def split: option.splits prod.splits sum.splits if_splits)

lemma updateRole_effect:
  "snd (updateRole i inp now actor s) = s \<or>
   (\<exists>before a. findRole i s = Some before \<and> \<not> ro_isProtected before \<and> fst (nextName i inp before s) = Inr a \<and>
      ax_roles (snd (updateRole i inp now actor s)) = map (\<lambda>r. if ro_id r = i then edited i inp now before s r else r) (ax_roles s) \<and>
      ax_versions (snd (updateRole i inp now actor s)) = (ax_versions s)(i \<mapsto> now) \<and>
      ax_users (snd (updateRole i inp now actor s)) = ax_users s \<and> ax_sessions (snd (updateRole i inp now actor s)) = ax_sessions s)"
proof (cases "findRole i s")
  case (Some before)
  show ?thesis
  proof (cases "ro_isProtected before")
    case False
    obtain x where nm: "nextName i inp before s = (x, s)" using nextName_result(1) [of i inp before s] by (metis prod.collapse)
    show ?thesis using Some False nm
      by (cases x; cases "nextDescription inp before"; cases "nextRegionTags inp before")
         (auto simp: updateRole_def Let_def updateRoleRow_def update_rows_def bindIO_def logAcc_def bumpRoleVersion_def edited_def
           split: sum.splits if_splits)
  qed (simp add: updateRole_def Some)
qed (simp add: updateRole_def)

lemma deleteRole_effect:
  "snd (deleteRole i actor s) = s \<or>
   (\<exists>before ev. findRole i s = Some before \<and> \<not> ro_isBuiltIn before \<and> usersOf i s = 0 \<and>
      snd (deleteRole i actor s) = s\<lparr>ax_roles := filter (\<lambda>r. ro_id r \<noteq> i) (ax_roles s), ax_events := ev\<rparr>)"
  by (auto simp: deleteRole_def logAcc_def delete_rows_def split: option.splits)

section \<open>Every route refines the specification\<close>

lemma createRole_refines: "refines edits (createRole inp uid now actor)"
proof (rule refinesI)
  fix s
  show "tableStep edits (tables s) (tables (snd (createRole inp uid now actor s)))"
    using createRole_effect [of inp uid now actor s] by (auto simp: tables_def intro: stay addRole)
qed

lemma edited_keeps:
  "ro_id (edited i inp now before s r) = ro_id r" "ro_isProtected (edited i inp now before s r) = ro_isProtected r"
  "ro_isBuiltIn (edited i inp now before s r) = ro_isBuiltIn r" "ro_updatedAt (edited i inp now before s r) = now"
  by (simp_all add: edited_def applyRole_def)

lemma edited_name:
  assumes "tables_ok (tables s)" "findRole i s = Some before" "fst (nextName i inp before s) = Inr a" "r \<in> set (ax_roles s)" "ro_id r = i"
    "q \<in> set (ax_roles s)" "ro_id q \<noteq> i"
  shows "toLowerCase (ro_name (edited i inp now before s r)) \<noteq> toLowerCase (ro_name q)"
proof (cases a)
  case None
  have "inj_on (\<lambda>r. toLowerCase (ro_name r)) (set (ax_roles s))" using assms(1) by (simp add: tables_def distinct_map)
  then have "toLowerCase (ro_name r) \<noteq> toLowerCase (ro_name q)" using assms(4-7) by (auto dest: inj_onD)
  then show ?thesis by (simp add: edited_def applyRole_def assms(3) None keep_def)
next
  case (Some n)
  then have "\<not> nameCollides n (Some i) s" using nextName_result(2) assms(3) by blast
  then show ?thesis using assms(6,7) by (auto simp: edited_def applyRole_def assms(3) Some keep_def nameCollides_def list_ex_iff)
qed

lemma updateRole_refines: "refines True (updateRole i inp now actor)"
proof (rule refinesI)
  fix s
  assume ok: "tables_ok (tables s)"
  show "tableStep True (tables s) (tables (snd (updateRole i inp now actor s)))"
    using updateRole_effect [of i inp now actor s]
  proof (elim disjE exE conjE)
    fix before a
    assume b: "findRole i s = Some before" "\<not> ro_isProtected before" "fst (nextName i inp before s) = Inr a"
      and t: "ax_roles (snd (updateRole i inp now actor s)) = map (\<lambda>r. if ro_id r = i then edited i inp now before s r else r) (ax_roles s)"
        "ax_users (snd (updateRole i inp now actor s)) = ax_users s"
    have "r = before" if "r \<in> set (ax_roles s)" "ro_id r = i" for r
      using find_distinct_key [of ro_id "ax_roles s" r] ok that b(1) by (simp add: tables_def findRole_def)
    then have "tableStep True (ax_roles s, ax_users s) (map (\<lambda>r. if ro_id r = i then edited i inp now before s r else r) (ax_roles s), ax_users s)"
      using b(2) edited_name [OF ok b(1,3)] by (intro editRole) (auto simp: edited_keeps)
    then show ?thesis by (simp add: tables_def t)
  qed (simp add: stay)
qed

lemma deleteRole_refines: "refines edits (deleteRole i actor)"
proof (rule refinesI)
  fix s
  assume ok: "tables_ok (tables s)"
  show "tableStep edits (tables s) (tables (snd (deleteRole i actor s)))"
    using deleteRole_effect [of i actor s]
  proof (elim disjE exE conjE)
    fix before ev
    assume b: "findRole i s = Some before" "\<not> ro_isBuiltIn before" "usersOf i s = 0"
      and t: "snd (deleteRole i actor s) = s\<lparr>ax_roles := filter (\<lambda>r. ro_id r \<noteq> i) (ax_roles s), ax_events := ev\<rparr>"
    have "r = before" if "r \<in> set (ax_roles s)" "ro_id r = i" for r
      using find_distinct_key [of ro_id "ax_roles s" r] ok that b(1) by (simp add: tables_def findRole_def)
    then have "tableStep edits (ax_roles s, ax_users s) (filter (\<lambda>r. ro_id r \<noteq> i) (ax_roles s), ax_users s)"
      using b(2,3) by (intro dropRole) (auto simp: usersOf_def filter_empty_conv)
    then show ?thesis by (simp add: tables_def t)
  qed (simp add: stay)
qed

lemma admin_role_iff: "tables_ok (tables s) \<Longrightarrow> isAdminEquivalentRole j s \<longleftrightarrow> j \<in> adminIds (ax_roles s)"
  using find_distinct_key [of ro_id "ax_roles s"]
  by (auto simp: isAdminEquivalentRole_def adminIds_def findRole_def tables_def dest: find_SomeD split: option.split)

lemma count_admins: "countAdminEquivalentUsers (Some i) s = 0 \<longleftrightarrow> admins (ax_roles s, without i (ax_users s)) = []"
  "countAdminEquivalentUsers None s = length (admins (tables s))"
  by (auto simp: countAdminEquivalentUsers_def admins_def without_def adminIds_def filter_empty_conv tables_def)

lemma admin_user:
  assumes "tables_ok (tables s)" "findUser i s = Some u"
  shows "us_id u = i" "i \<in> us_id ` set (admins (ax_roles s, ax_users s)) \<longleftrightarrow> us_roleId u \<in> adminIds (ax_roles s)"
proof -
  have u: "u \<in> set (ax_users s)" "us_id u = i" using assms(2) by (auto simp: findUser_def dest: find_SomeD)
  have same: "v = u" if "v \<in> set (ax_users s)" "us_id v = i" for v
    using find_distinct_key [of us_id "ax_users s" v] assms that by (simp add: tables_def findUser_def)
  show "us_id u = i" by (rule u)
  show "i \<in> us_id ` set (admins (ax_roles s, ax_users s)) \<longleftrightarrow> us_roleId u \<in> adminIds (ax_roles s)"
  proof
    assume "i \<in> us_id ` set (admins (ax_roles s, ax_users s))"
    then obtain v where "v \<in> set (ax_users s)" "us_id v = i" "us_roleId v \<in> adminIds (ax_roles s)" by (auto simp: admins_def)
    then show "us_roleId u \<in> adminIds (ax_roles s)" using same by blast
  next
    assume "us_roleId u \<in> adminIds (ax_roles s)"
    then have "u \<in> set (admins (ax_roles s, ax_users s))" using u by (simp add: admins_def)
    then show "i \<in> us_id ` set (admins (ax_roles s, ax_users s))" using u(2) by blast
  qed
qed

lemma createUser_step: "tableStep edits (tables s) (tables (snd (createUser hash actor inp uid s)))"
  by (auto simp: createUser_def Let_def insertUser_def insert_row_def findRole_def tables_def list_ex_iff bindIO_def logAcc_def
      intro!: stay addUser imageI dest!: find_SomeD split: option.splits)
     (metis image_eqI)+

lemma assignRole_step:
  assumes "findUser i s = Some u" "tables_ok (tables s)"
  shows "tableStep edits (tables s) (tables (snd (assignRole sid u roleId s)))"
proof (cases "findRole roleId s")
  case (Some r)
  then have r: "ro_id r \<in> ro_id ` set (ax_roles s)" by (auto simp: findRole_def dest: find_SomeD)
  have "tableStep edits (ax_roles s, ax_users s)
      (ax_roles s, map (\<lambda>v. if us_id v = i then v\<lparr>us_roleId := ro_id r, us_needsRoleReview := False\<rparr> else v) (ax_users s))"
    if "\<not> (isAdminEquivalentRole (us_roleId u) s \<and> \<not> isAdminEquivalentRole (ro_id r) s \<and> countAdminEquivalentUsers (Some i) s = 0)"
    using that r admin_user [OF assms(2,1)] by (intro moveUser) (auto simp: admin_role_iff [OF assms(2)] count_admins)
  then show ?thesis
    using admin_user(1) [OF assms(2,1)] by (auto simp: assignRole_def Some tables_def changeUser_def logAcc_def intro: stay)
qed (simp add: assignRole_def stay)

lemma removeUser_step:
  assumes "findUser i s = Some u" "tables_ok (tables s)"
  shows "tableStep edits (tables s) (tables (snd (removeUser sid u s)))"
proof -
  have "tableStep edits (ax_roles s, ax_users s) (ax_roles s, without i (ax_users s))"
    if "\<not> (isAdminEquivalentRole (us_roleId u) s \<and> countAdminEquivalentUsers (Some i) s = 0)"
    using that admin_user [OF assms(2,1)] by (intro dropUser) (auto simp: admin_role_iff [OF assms(2)] count_admins)
  then show ?thesis
    using admin_user(1) [OF assms(2,1)] by (auto simp: removeUser_def tables_def delete_rows_def without_def logAcc_def intro: stay)
qed

section \<open>Requests\<close>

datatype accessCall =
    PostRole string roleInput string int
  | PutRole string string roleInput int
  | RemoveRole string string
  | PostUser string userInput string
  | DismissReview string string
  | PutPassword string string string
  | PutUserRole string string string
  | PutRegions string string "string list"
  | ResetTotp string string
  | DeleteUser string string
  | Guarded string string accessLevel
  | Login string string
  | Logout string
  | Restart

fun perform :: "(string \<Rightarrow> string) \<Rightarrow> accState \<Rightarrow> accessCall \<Rightarrow> accState" where
  "perform hash s (PostRole sid inp uid now) = snd (postRole sid inp uid now s)"
| "perform hash s (PutRole sid i inp now) = snd (putRole sid i inp now s)"
| "perform hash s (RemoveRole sid i) = snd (removeRole sid i s)"
| "perform hash s (PostUser sid inp uid) = snd (postUser hash sid inp uid s)"
| "perform hash s (DismissReview sid i) = snd (dismissRoleReview sid i s)"
| "perform hash s (PutPassword sid i p) = snd (putUserPassword hash sid i p s)"
| "perform hash s (PutUserRole sid i roleId) = snd (putUserRole sid i roleId s)"
| "perform hash s (PutRegions sid i ts) = snd (putUserRegions sid i ts s)"
| "perform hash s (ResetTotp sid i) = snd (deleteUserTotp sid i s)"
| "perform hash s (DeleteUser sid i) = snd (deleteUser sid i s)"
| "perform hash s (Guarded sid key level) = snd (requirePermission sid key level s)"
| "perform hash s (Login sid i) = snd (startSession sid i s)"
| "perform hash s (Logout sid) = logout sid s"
| "perform hash s Restart = restart s"

fun editsRole :: "accessCall \<Rightarrow> bool" where
  "editsRole (PutRole sid i inp now) = True"
| "editsRole _ = False"

lemma user_touch:
  assumes "\<And>u. us_id (f u) = us_id u \<and> us_username (f u) = us_username u \<and> us_roleId (f u) = us_roleId u"
  shows "tables_ok (tables s) \<Longrightarrow> tableStep edits (tables s) (tables (changeUser i f s))"
  by (rule refines_change) (simp add: assms)

lemma perform_refines: "tables_ok (tables s) \<Longrightarrow> tableStep (editsRole c) (tables s) (tables (perform hash s c))"
proof (cases c)
  case (PostRole sid inp uid now)
  moreover have "refines False (postRole sid inp uid now)"
    unfolding postRole_def by (intro refines_guard refines_parsed refines_get createRole_refines)
  ultimately show "tables_ok (tables s) \<Longrightarrow> ?thesis" by (simp add: refines_def)
next
  case (PutRole sid i inp now)
  moreover have "refines True (putRole sid i inp now)"
    unfolding putRole_def by (intro refines_guard refines_parsed refines_get updateRole_refines)
  ultimately show "tables_ok (tables s) \<Longrightarrow> ?thesis" by (simp add: refines_def)
next
  case (RemoveRole sid i)
  moreover have "refines False (removeRole sid i)" unfolding removeRole_def by (intro refines_guard refines_get deleteRole_refines)
  ultimately show "tables_ok (tables s) \<Longrightarrow> ?thesis" by (simp add: refines_def)
next
  case (PostUser sid inp uid)
  moreover have "refines False (postUser hash sid inp uid)"
    unfolding postUser_def by (intro refines_guard refines_parsed refines_get refinesI createUser_step)
  ultimately show "tables_ok (tables s) \<Longrightarrow> ?thesis" by (simp add: refines_def)
next
  case (DismissReview sid i)
  moreover have "refines False (dismissRoleReview sid i)"
    unfolding dismissRoleReview_def by (intro refine_rules) (auto intro: stay refines_change)
  ultimately show "tables_ok (tables s) \<Longrightarrow> ?thesis" by (simp add: refines_def)
next
  case (PutPassword sid i p)
  moreover have "refines False (putUserPassword hash sid i p)"
    unfolding putUserPassword_def by (intro refine_rules) (auto intro: stay refines_change)
  ultimately show "tables_ok (tables s) \<Longrightarrow> ?thesis" by (simp add: refines_def)
next
  case (PutUserRole sid i roleId)
  moreover have "refines False (putUserRole sid i roleId)" unfolding putUserRole_def by (intro refine_rules assignRole_step)
  ultimately show "tables_ok (tables s) \<Longrightarrow> ?thesis" by (simp add: refines_def)
next
  case (PutRegions sid i ts)
  moreover have "refines False (putUserRegions sid i ts)"
    unfolding putUserRegions_def by (intro refine_rules) (auto simp: logAcc_def intro: stay refines_change)
  ultimately show "tables_ok (tables s) \<Longrightarrow> ?thesis" by (simp add: refines_def)
next
  case (ResetTotp sid i)
  moreover have "refines False (deleteUserTotp sid i)"
    unfolding deleteUserTotp_def by (intro refine_rules) (auto intro: stay refines_change)
  ultimately show "tables_ok (tables s) \<Longrightarrow> ?thesis" by (simp add: refines_def)
next
  case (DeleteUser sid i)
  moreover have "refines False (deleteUser sid i)" unfolding deleteUser_def by (intro refine_rules removeUser_step)
  ultimately show "tables_ok (tables s) \<Longrightarrow> ?thesis" by (simp add: refines_def)
qed (simp_all add: guard_tables start_tables logout_def restart_def stay)

interpretation access: kept_invariant "perform hash" "\<lambda>s. tables_ok (tables s)"
  by unfold_locales (rule tableStep_ok [OF perform_refines])

text \<open>
  C12. Whatever requests are served in whatever order, by whomever: role ids and user names stay unique, role names stay unique
  also when case is ignored, every user has a role that exists, and the protected roles are never changed, removed or added.
\<close>

theorem protected_roles_fixed:
  assumes "tables_ok (tables s)"
  shows "tables_ok (tables (foldl (perform hash) s calls)) \<and>
    filter ro_isProtected (ax_roles (foldl (perform hash) s calls)) = filter ro_isProtected (ax_roles s)"
proof
  show "tables_ok (tables (foldl (perform hash) s calls))" by (rule access.run_good [OF assms])
  show "filter ro_isProtected (ax_roles (foldl (perform hash) s calls)) = filter ro_isProtected (ax_roles s)"
    using assms
  proof (induction calls arbitrary: s)
    case (Cons c calls)
    have "filter ro_isProtected (ax_roles (perform hash s c)) = filter ro_isProtected (ax_roles s)"
      using tableStep_protected [OF perform_refines [OF Cons.prems, of c hash] Cons.prems] by (simp add: tables_def)
    then show ?case using Cons.IH access.step_good [OF Cons.prems, of hash c] by simp
  qed simp
qed

text \<open>
  C14. The installation cannot lock itself out through its users: if some user holds an admin-equivalent role, then after any
  requests other than edits of roles some user still does.
\<close>

theorem last_admin_kept:
  assumes "tables_ok (tables s)" "0 < countAdminEquivalentUsers None s" "\<forall>c \<in> set calls. \<not> editsRole c"
  shows "0 < countAdminEquivalentUsers None (foldl (perform hash) s calls)"
  using assms
proof (induction calls arbitrary: s)
  case (Cons c calls)
  have "tableStep False (tables s) (tables (perform hash s c))" using perform_refines [OF Cons.prems(1), of c hash] Cons.prems(3) by simp
  from tableStep_admins [OF this Cons.prems(1)] have "0 < countAdminEquivalentUsers None (perform hash s c)"
    using Cons.prems(2) by (simp add: count_admins)
  then show ?case using Cons.IH access.step_good [OF Cons.prems(1), of hash c] Cons.prems(3) by simp
qed simp

section \<open>The guard decides by the table\<close>

text \<open>
  A snapshot that carries the time of the role as it is now is the role as it is now, and so is one whose role
  has no entry in the version cache.
\<close>

definition snap_ok :: "roleRow list \<Rightarrow> (string \<rightharpoonup> int) \<Rightarrow> roleSnapshot \<Rightarrow> bool" where
  "snap_ok R V sn \<longleftrightarrow> (\<forall>r \<in> set R. ro_id r = rn_id sn \<longrightarrow> rn_updatedAt sn \<le> ro_updatedAt r \<and>
     (rn_updatedAt sn = ro_updatedAt r \<or> V (ro_id r) = None \<longrightarrow> sn = snapshotFromRole r))"

definition coherent_sessions :: "accState \<Rightarrow> bool" where
  "coherent_sessions s \<longleftrightarrow>
     (\<forall>r \<in> set (ax_roles s). ax_versions s (ro_id r) = None \<or> ax_versions s (ro_id r) = Some (ro_updatedAt r)) \<and>
     (\<forall>sid se sn. ax_sessions s sid = Some se \<longrightarrow> se_roleSnapshot se = Some sn \<longrightarrow> snap_ok (ax_roles s) (ax_versions s) sn)"

lemma role_unique: "tables_ok (tables s) \<Longrightarrow> findRole i s = Some r \<Longrightarrow> q \<in> set (ax_roles s) \<Longrightarrow> ro_id q = i \<Longrightarrow> q = r"
  using find_distinct_key [of ro_id "ax_roles s" q] by (simp add: tables_def findRole_def)

lemma role_found: "findRole i s = Some r \<Longrightarrow> r \<in> set (ax_roles s) \<and> ro_id r = i"
  by (auto simp: findRole_def dest: find_SomeD)

lemma snap_ok_fresh: "tables_ok (tables s) \<Longrightarrow> findRole i s = Some r \<Longrightarrow> snap_ok (ax_roles s) V (snapshotFromRole r)"
  using role_unique [of s i r] role_found [of i s r] by (auto simp: snap_ok_def snapshotFromRole_def)

text \<open>Writing the current time of a role into the version cache changes nothing that matters.\<close>

lemma coherent_bump:
  assumes "coherent_sessions s" "\<forall>r \<in> set (ax_roles s). ro_id r = i \<longrightarrow> ro_updatedAt r = t"
  shows "coherent_sessions (bumpRoleVersion i t s)"
  using assms unfolding coherent_sessions_def snap_ok_def bumpRoleVersion_def by (auto split: if_splits)

lemma coherent_save:
  assumes "coherent_sessions s" "\<And>sn. se_roleSnapshot se = Some sn \<Longrightarrow> snap_ok (ax_roles s) (ax_versions s) sn"
  shows "coherent_sessions (saveSession sid se s)"
  using assms unfolding coherent_sessions_def saveSession_def by auto

lemma stamp_simps [simp]:
  "ax_roles (stampRole r s) = ax_roles s" "ax_users (stampRole r s) = ax_users s" "ax_sessions (stampRole r s) = ax_sessions s"
  "ax_roles (bumpRoleVersion i t s) = ax_roles s" "ax_users (bumpRoleVersion i t s) = ax_users s" "ax_sessions (bumpRoleVersion i t s) = ax_sessions s"
  by (simp_all add: stampRole_def bumpRoleVersion_def)

lemma coherent_stamp:
  assumes "coherent_sessions s" "tables_ok (tables s)" "findRole i s = Some r"
  shows "coherent_sessions (stampRole r s)"
  unfolding stampRole_def using role_unique [OF assms(2,3)] role_found [OF assms(3)] by (intro coherent_bump assms(1)) auto

lemma coherent_take:
  assumes "coherent_sessions s" "tables_ok (tables s)" "findRole i s = Some r" "se_roleSnapshot se = Some (snapshotFromRole r)"
  shows "coherent_sessions (saveSession sid se (stampRole r s))"
  using coherent_stamp [OF assms(1-3)] snap_ok_fresh [OF assms(2,3)] assms(4) by (intro coherent_save) auto

lemma reload_coherent:
  "coherent_sessions s \<Longrightarrow> tables_ok (tables s) \<Longrightarrow> coherent_sessions (snd (reloadSession sid se i s))"
  by (auto simp: reloadSession_def loadRoleSnapshot_def bindIO_def intro: coherent_take split: option.split)

lemma snapshot_coherent:
  assumes "coherent_sessions s" "tables_ok (tables s)"
  shows "coherent_sessions (snd (resolveSnapshot sid s))"
proof (cases "ax_sessions s sid")
  case (Some se)
  have heal: "coherent_sessions (snd (healSession sid se i s))" for i
    using assms by (auto simp: healSession_def intro: coherent_take split: option.split)
  have warm: "coherent_sessions (bumpRoleVersion (rn_id sn) (rn_updatedAt sn) s)"
    if "se_roleSnapshot se = Some sn" "ax_versions s (rn_id sn) = None" for sn
  proof (rule coherent_bump [OF assms(1)], intro ballI impI)
    fix r
    assume r: "r \<in> set (ax_roles s)" "ro_id r = rn_id sn"
    have "snap_ok (ax_roles s) (ax_versions s) sn" using assms(1) Some that(1) by (simp add: coherent_sessions_def)
    then have "sn = snapshotFromRole r" using r that(2) by (simp add: snap_ok_def)
    then show "ro_updatedAt r = rn_updatedAt sn" by (simp add: snapshotFromRole_def)
  qed
  show ?thesis using assms heal reload_coherent [OF assms] warm by (auto simp: resolveSnapshot_def Some split: option.splits)
qed (simp add: resolveSnapshot_def assms)

lemma guard_state: "snd (requirePermission sid key level s) = snd (resolveSnapshot sid s)"
  by (auto simp: requirePermission_def bindIO_def Let_def split: prod.splits sum.splits option.splits)

text \<open>What the guard sees of a session.\<close>

definition actsAs :: "string \<Rightarrow> string \<Rightarrow> accState \<Rightarrow> bool" where
  "actsAs sid i s \<longleftrightarrow> (\<exists>se. ax_sessions s sid = Some se \<and> truthy (se_userId se) \<and> se_roleId se = Some i \<and> i \<noteq> [])"

definition verdict :: "permissions \<Rightarrow> string \<Rightarrow> accessLevel \<Rightarrow> accessLevel result" where
  "verdict p key level = (if rankMeets (levelAt p key) level then Inr (levelAt p key) else Inl (lacks level key))"

lemma guard_verdict:
  assumes "fst (resolveSnapshot sid s) = Inr (Some sn)"
  shows "fst (requirePermission sid key level s) = verdict (rn_permissions sn) key level"
  using assms by (auto simp: requirePermission_def bindIO_def verdict_def Let_def split: prod.splits)

lemma resolve_current:
  assumes "coherent_sessions s" "tables_ok (tables s)" "actsAs sid i s" "findRole i s = Some r"
  shows "fst (resolveSnapshot sid s) = Inr (Some (snapshotFromRole r))"
proof -
  obtain se where se: "ax_sessions s sid = Some se" "truthy (se_userId se)" "se_roleId se = Some i" "i \<noteq> []"
    using assms(3) by (auto simp: actsAs_def)
  have r: "r \<in> set (ax_roles s)" "ro_id r = i" using role_found [OF assms(4)] by blast+
  have reload: "fst (reloadSession sid se i s) = Inr (Some (snapshotFromRole r))"
    by (simp add: reloadSession_def loadRoleSnapshot_def bindIO_def assms(4))
  show ?thesis
  proof (cases "se_roleSnapshot se")
    case None
    then show ?thesis using se reload by (simp add: resolveSnapshot_def truthy_def)
  next
    case (Some sn)
    then have ok: "snap_ok (ax_roles s) (ax_versions s) sn" using assms(1) se(1) by (simp add: coherent_sessions_def)
    show ?thesis
    proof (cases "rn_id sn = i")
      case True
      then have "ax_versions s i = None \<Longrightarrow> sn = snapshotFromRole r" "rn_updatedAt sn = ro_updatedAt r \<Longrightarrow> sn = snapshotFromRole r"
        using ok r by (auto simp: snap_ok_def)
      moreover have "ax_versions s i = None \<or> ax_versions s i = Some (ro_updatedAt r)"
        using assms(1) r by (auto simp: coherent_sessions_def)
      ultimately show ?thesis using se Some True reload by (auto simp: resolveSnapshot_def truthy_def)
    qed (use se Some reload in \<open>simp add: resolveSnapshot_def truthy_def\<close>)
  qed
qed

section \<open>Requests keep the sessions coherent\<close>

text \<open>A generated role id is new, and the clock has moved on since the role was last written.\<close>

fun wellTimed :: "accState \<Rightarrow> accessCall \<Rightarrow> bool" where
  "wellTimed s (PostRole sid inp uid now) \<longleftrightarrow>
     (\<forall>sid' se sn. ax_sessions s sid' = Some se \<longrightarrow> se_roleSnapshot se = Some sn \<longrightarrow> rn_id sn \<noteq> uid)"
| "wellTimed s (PutRole sid i inp now) \<longleftrightarrow> list_all (\<lambda>r. ro_id r = i \<longrightarrow> ro_updatedAt r < now) (ax_roles s)"
| "wellTimed s _ \<longleftrightarrow> True"

fun timely :: "(string \<Rightarrow> string) \<Rightarrow> accState \<Rightarrow> accessCall list \<Rightarrow> bool" where
  "timely hash s [] \<longleftrightarrow> True"
| "timely hash s (c # cs) \<longleftrightarrow> wellTimed s c \<and> c \<noteq> Restart \<and> timely hash (perform hash s c) cs"

definition sameView :: "accState \<Rightarrow> accState \<Rightarrow> bool" where
  "sameView s t \<longleftrightarrow> ax_roles t = ax_roles s \<and> ax_versions t = ax_versions s \<and> ax_sessions t = ax_sessions s"

lemma coherent_view: "sameView s t \<Longrightarrow> coherent_sessions t = coherent_sessions s"
  by (simp add: sameView_def coherent_sessions_def)

text \<open>A user route is the guard followed by a call that touches users, lockouts and events only.\<close>

lemma quiet_bodies:
  "sameView s (snd (createUser hash actor inp uid s))" "sameView s (snd (assignRole sid u roleId s))" "sameView s (snd (removeUser sid u s))"
  by (auto simp: sameView_def createUser_def insertUser_def assignRole_def removeUser_def changeUser_def bindIO_def logAcc_def Let_def
      split: option.split sum.split)

lemma sameView_simps [simp]:
  "sameView s s" "sameView s (t\<lparr>ax_events := ev\<rparr>) = sameView s t" "sameView s (t\<lparr>ax_lock := l\<rparr>) = sameView s t"
  "sameView s (changeUser i f t) = sameView s t"
  by (simp_all add: sameView_def changeUser_def)

lemma bind_guard:
  "snd (bindIO (requirePermission sid key level) f s) = snd (resolveSnapshot sid s) \<or>
   (\<exists>a. snd (bindIO (requirePermission sid key level) f s) = snd (f a (snd (resolveSnapshot sid s))))"
  using guard_state [of sid key level s] by (auto simp: bindIO_def split: prod.splits sum.splits)

lemma guarded_quiet:
  assumes "\<And>a t. sameView t (snd (f a t))"
  shows "sameView (snd (resolveSnapshot sid s)) (snd (bindIO (requirePermission sid key level) f s))"
  using bind_guard [of sid key level f s] assms sameView_simps(1) by metis

lemma parsed_quiet: "(\<And>t. sameView t (snd (m t))) \<Longrightarrow> sameView t (snd (parsed ok m t))"
  by (simp add: parsed_def quiet_bodies)

lemma withUser_quiet: "(\<And>u t. sameView t (snd (f u t))) \<Longrightarrow> sameView t (snd (withUser i f t))"
  by (simp add: withUser_def quiet_bodies split: option.split)

lemma user_routes_quiet:
  "sameView (snd (resolveSnapshot sid s)) (snd (postUser hash sid inp uid s))"
  "sameView (snd (resolveSnapshot sid s)) (snd (dismissRoleReview sid i s))"
  "sameView (snd (resolveSnapshot sid s)) (snd (putUserPassword hash sid i p s))"
  "sameView (snd (resolveSnapshot sid s)) (snd (putUserRole sid i roleId s))"
  "sameView (snd (resolveSnapshot sid s)) (snd (putUserRegions sid i ts s))"
  "sameView (snd (resolveSnapshot sid s)) (snd (deleteUserTotp sid i s))"
  "sameView (snd (resolveSnapshot sid s)) (snd (deleteUser sid i s))"
  unfolding postUser_def dismissRoleReview_def putUserPassword_def putUserRole_def putUserRegions_def deleteUserTotp_def deleteUser_def
  by (rule guarded_quiet, simp add: parsed_quiet withUser_quiet quiet_bodies logAcc_def)+

lemma coherent_created:
  assumes "coherent_sessions s"
    and "\<forall>sid se sn. ax_sessions s sid = Some se \<longrightarrow> se_roleSnapshot se = Some sn \<longrightarrow> rn_id sn \<noteq> uid \<or> uid \<in> ro_id ` set (ax_roles s)"
  shows "coherent_sessions (snd (createRole inp uid now actor s))"
  using createRole_effect [of inp uid now actor s]
proof (elim disjE exE conjE)
  fix row
  let ?t = "snd (createRole inp uid now actor s)"
  assume row: "ro_id row = uid" "ro_updatedAt row = now" "uid \<notin> ro_id ` set (ax_roles s)"
    and t: "ax_roles ?t = ax_roles s @ [row]" "ax_versions ?t = (ax_versions s)(uid \<mapsto> now)" "ax_sessions ?t = ax_sessions s"
  have "snap_ok (ax_roles ?t) (ax_versions ?t) sn" if "snap_ok (ax_roles s) (ax_versions s) sn" "rn_id sn \<noteq> uid" for sn
    using that row unfolding snap_ok_def t by (auto simp: image_iff)
  moreover have "\<forall>r \<in> set (ax_roles ?t). ax_versions ?t (ro_id r) = None \<or> ax_versions ?t (ro_id r) = Some (ro_updatedAt r)"
    using assms(1) row unfolding t coherent_sessions_def by (auto simp: image_iff)
  ultimately show ?thesis using assms row(3) unfolding coherent_sessions_def t(3) by blast
qed (use assms(1) in simp)

lemma coherent_edited:
  assumes "coherent_sessions s" "tables_ok (tables s)" "list_all (\<lambda>r. ro_id r = i \<longrightarrow> ro_updatedAt r < now) (ax_roles s)"
  shows "coherent_sessions (snd (updateRole i inp now actor s))"
  using updateRole_effect [of i inp now actor s]
proof (elim disjE exE conjE)
  fix before a
  let ?t = "snd (updateRole i inp now actor s)"
  assume t: "ax_roles ?t = map (\<lambda>r. if ro_id r = i then edited i inp now before s r else r) (ax_roles s)"
    "ax_versions ?t = (ax_versions s)(i \<mapsto> now)" "ax_sessions ?t = ax_sessions s"
  have "snap_ok (ax_roles ?t) (ax_versions ?t) sn" if "snap_ok (ax_roles s) (ax_versions s) sn" for sn
    using that assms(3) unfolding snap_ok_def t by (fastforce simp: edited_keeps list_all_iff)
  moreover have "\<forall>r \<in> set (ax_roles ?t). ax_versions ?t (ro_id r) = None \<or> ax_versions ?t (ro_id r) = Some (ro_updatedAt r)"
    using assms(1) unfolding t coherent_sessions_def by (auto simp: edited_keeps)
  ultimately show ?thesis using assms(1) unfolding coherent_sessions_def t(3) by blast
qed (use assms in simp)

lemma coherent_deleted: "coherent_sessions s \<Longrightarrow> coherent_sessions (snd (deleteRole i actor s))"
  using deleteRole_effect [of i actor s] by (auto simp: coherent_sessions_def snap_ok_def)

lemma resolve_snapshots:
  assumes "ax_sessions (snd (resolveSnapshot sid s)) sid' = Some se" "se_roleSnapshot se = Some sn"
  shows "(\<exists>se0. ax_sessions s sid' = Some se0 \<and> se_roleSnapshot se0 = Some sn) \<or> rn_id sn \<in> ro_id ` set (ax_roles s)"
proof (cases "ax_sessions (snd (resolveSnapshot sid s)) = ax_sessions s")
  case False
  then obtain i r where r: "findRole i s = Some r" "sid' \<noteq> sid \<longrightarrow> ax_sessions s sid' = Some se" "sid' = sid \<longrightarrow> sn = snapshotFromRole r"
    using assms
    by (auto simp: resolveSnapshot_def healSession_def reloadSession_def loadRoleSnapshot_def bindIO_def saveSession_def
        split: option.splits if_splits)
  then show ?thesis using assms(2) role_found [OF r(1)] by (auto simp: snapshotFromRole_def)
qed (use assms in auto)

lemma resolve_roles: "ax_roles (snd (resolveSnapshot sid s)) = ax_roles s" "ax_users (snd (resolveSnapshot sid s)) = ax_users s"
  using snapshot_tables [of sid s] by (simp_all add: tables_def)

lemma perform_coherent:
  assumes "coherent_sessions s" "tables_ok (tables s)" "wellTimed s c" "c \<noteq> Restart"
  shows "coherent_sessions (perform hash s c)"
proof -
  let ?g = "\<lambda>sid. snd (resolveSnapshot sid s)"
  have g: "coherent_sessions (?g sid)" for sid by (rule snapshot_coherent [OF assms(1,2)])
  show ?thesis
  proof (cases c)
    case (PostRole sid inp uid now)
    have "rn_id sn \<noteq> uid \<or> uid \<in> ro_id ` set (ax_roles (?g sid))"
      if "ax_sessions (?g sid) sid' = Some se" "se_roleSnapshot se = Some sn" for sid' se sn
      using resolve_snapshots [OF that] assms(3) PostRole by (auto simp: resolve_roles)
    then have "coherent_sessions (snd (createRole inp uid now actor (?g sid)))" for actor by (intro coherent_created g) blast
    then show ?thesis
      using bind_guard [of sid "''roles''" WriteAccess "\<lambda>_. parsed (CreateRoleSchema inp) (bindIO (getIO (actorOf sid)) (createRole inp uid now))" s] g
      by (auto simp: PostRole postRole_def parsed_def split: if_splits)
  next
    case (PutRole sid i inp now)
    then have "coherent_sessions (snd (updateRole i inp now actor (?g sid)))" for actor
      using assms(2,3) by (intro coherent_edited g) (simp_all add: resolve_roles snapshot_tables)
    then show ?thesis
      using bind_guard [of sid "''roles''" WriteAccess "\<lambda>_. parsed (UpdateRoleSchema inp) (bindIO (getIO (actorOf sid)) (updateRole i inp now))" s] g
      by (auto simp: PutRole putRole_def parsed_def split: if_splits)
  next
    case (RemoveRole sid i)
    then show ?thesis
      using bind_guard [of sid "''roles''" WriteAccess "\<lambda>_. bindIO (getIO (actorOf sid)) (deleteRole i)" s] g coherent_deleted [OF g [of sid]]
      by (auto simp: RemoveRole removeRole_def)
  next
    case (Login sid i)
    then show ?thesis using assms(1,2) by (auto simp: startSession_def intro: coherent_take split: option.split)
  next
    case (Logout sid)
    then show ?thesis using assms(1) by (auto simp: logout_def coherent_sessions_def)
  qed (use g assms(4) coherent_view [OF user_routes_quiet(1)] coherent_view [OF user_routes_quiet(2)] coherent_view [OF user_routes_quiet(3)]
      coherent_view [OF user_routes_quiet(4)] coherent_view [OF user_routes_quiet(5)] coherent_view [OF user_routes_quiet(6)]
      coherent_view [OF user_routes_quiet(7)] in \<open>simp_all add: guard_state\<close>)
qed

lemma timely_coherent:
  "coherent_sessions s \<Longrightarrow> tables_ok (tables s) \<Longrightarrow> timely hash s calls \<Longrightarrow> coherent_sessions (foldl (perform hash) s calls)"
proof (induction calls arbitrary: s)
  case (Cons c calls)
  then show ?case using perform_coherent [of s c hash] access.step_good [of s hash c] by simp
qed simp

text \<open>
  C11. An edit of a role takes effect with the next request of every session that holds it. Start from well-formed tables and from sessions whose snapshots agree with the
  role table (for instance none) and let the process serve any requests, with role timestamps that increase and new role ids, and without a restart: as long
  as the row of the role exists, the guard admits a request exactly if the row grants the level at this moment, although it
  looks at the snapshot in the session and asks the database only when the version cache tells it to.
\<close>

theorem guard_follows_table:
  assumes "coherent_sessions s" "tables_ok (tables s)" "timely hash s calls" "t = foldl (perform hash) s calls"
    and "actsAs sid i t" "findRole i t = Some r"
  shows "fst (requirePermission sid key level t) = verdict (normalizePermissions (ro_permissions r)) key level"
proof -
  have "coherent_sessions t" "tables_ok (tables t)"
    unfolding assms(4) by (rule timely_coherent [OF assms(1-3)], rule access.run_good [OF assms(2)])
  from guard_verdict [OF resolve_current [OF this assms(5,6)]] show ?thesis by (simp add: snapshotFromRole_def)
qed

section \<open>Where it does not\<close>

lemma resolve_other: "sid' \<noteq> sid \<Longrightarrow> ax_sessions (snd (resolveSnapshot sid s)) sid' = ax_sessions s sid'"
  by (auto simp: resolveSnapshot_def healSession_def reloadSession_def loadRoleSnapshot_def bindIO_def saveSession_def
      split: option.splits)

lemma find_role_cong: "ax_roles t = ax_roles s \<Longrightarrow> findRole i t = findRole i s"
  by (simp add: findRole_def)

lemma acts_cong: "ax_sessions t sid = ax_sessions s sid \<Longrightarrow> actsAs sid i t = actsAs sid i s"
  by (simp add: actsAs_def)

lemma verdict_cong:
  assumes "coherent_sessions s" "tables_ok (tables s)" "actsAs sid i s" "findRole i s = Some r"
    and "coherent_sessions t" "tables_ok (tables t)" "actsAs sid i t" "findRole i t = Some r"
  shows "fst (requirePermission sid key level t) = fst (requirePermission sid key level s)"
  using resolve_current [OF assms(1-4)] resolve_current [OF assms(5-8)] by (simp add: guard_verdict)

lemma account_change_verdict:
  assumes "coherent_sessions s" "tables_ok (tables s)" "sid' \<noteq> sid" "actsAs sid' j s" "findRole j s = Some r"
    and "t = perform hash s c" "sameView (snd (resolveSnapshot sid s)) t"
  shows "fst (requirePermission sid' key level t) = fst (requirePermission sid' key level s)"
proof -
  have "coherent_sessions t" using coherent_view [OF assms(7)] snapshot_coherent [OF assms(1,2)] by simp
  moreover have "tables_ok (tables t)" unfolding assms(6) by (rule access.step_good [OF assms(2)])
  moreover have "actsAs sid' j t" "findRole j t = Some r"
    using assms(7) resolve_other [OF assms(3)] assms(4,5) by (auto simp: sameView_def actsAs_def resolve_roles findRole_def)
  ultimately show ?thesis by (rule verdict_cong [OF assms(1,2,4,5)])
qed

text \<open>
  Deleting a user does not end the user's sessions: after the account is gone, every request of an open session is
  admitted exactly as before, since the guard looks at the session and its role only.
\<close>

theorem deleted_user_keeps_access:
  assumes "coherent_sessions s" "tables_ok (tables s)" "deleteUser sid i s = (Inr (), t)" "sid' \<noteq> sid"
    and "sessionUser sid' s = Some i" "actsAs sid' j s" "findRole j s = Some r"
  shows "findUser i t = None \<and> fst (requirePermission sid' key level t) = fst (requirePermission sid' key level s)"
proof
  show "fst (requirePermission sid' key level t) = fst (requirePermission sid' key level s)"
    by (rule account_change_verdict [OF assms(1,2,4,6,7), of _ id "DeleteUser sid i"]) (use user_routes_quiet(7) [of sid s i] assms(3) in simp_all)
  show "findUser i t = None"
    using assms(3)
    by (auto simp: deleteUser_def bindIO_def withUser_def removeUser_def logAcc_def findUser_def delete_rows_def find_None_iff
        dest: find_SomeD split: prod.splits sum.splits option.splits if_splits)
qed

text \<open>
  Giving a user another role does not change what the user's open sessions may do: they keep the role they were opened
  with until the next login.
\<close>

theorem reassigned_user_keeps_access:
  assumes "coherent_sessions s" "tables_ok (tables s)" "putUserRole sid i roleId s = (Inr (), t)" "sid' \<noteq> sid"
    and "sessionUser sid' s = Some i" "actsAs sid' j s" "findRole j s = Some r"
  shows "fst (requirePermission sid' key level t) = fst (requirePermission sid' key level s)"
  by (rule account_change_verdict [OF assms(1,2,4,6,7), of _ id "PutUserRole sid i roleId"]) (use user_routes_quiet(4) [of sid s i roleId] assms(3) in simp_all)

lemma normalize_json [simp]: "normalizePermissions (permissionsJson (normalizePermissions x)) = normalizePermissions x"
proof -
  have lev: "levelOf (Some (JStr (levelToken l))) = l" for l by (cases l) (simp_all add: levelOf_def)
  have "map_of (map (\<lambda>k. (k, JStr (levelToken (levelOf (jprop x k))))) FUNCTION_KEYS) k = Some (JStr (levelToken (levelOf (jprop x k))))"
    if "k \<in> set FUNCTION_KEYS" for k
    using that by (simp add: map_of_map_restrict restrict_map_def)
  then show ?thesis by (auto simp: normalizePermissions_def permissionsJson_def comp_def lev)
qed

lemma updateRole_changes:
  assumes "updateRole i inp now actor s = (Inr row, t)" "findRole i s = Some before" "nextPermissions inp before = Some p"
  shows "ax_roles t = map (\<lambda>r. if ro_id r = i then edited i inp now before s r else r) (ax_roles s)"
    "ax_sessions t = ax_sessions s" "ax_users t = ax_users s"
proof -
  obtain x where nm: "nextName i inp before s = (x, s)" using nextName_result(1) [of i inp before s] by (metis prod.collapse)
  show "ax_roles t = map (\<lambda>r. if ro_id r = i then edited i inp now before s r else r) (ax_roles s)"
    "ax_sessions t = ax_sessions s" "ax_users t = ax_users s"
    using assms nm
    by (cases x; cases "nextDescription inp before"; cases "nextRegionTags inp before";
        auto simp: updateRole_def Let_def updateRoleRow_def update_rows_def bindIO_def logAcc_def bumpRoleVersion_def edited_def
          split: sum.splits if_splits)+
qed

lemma putRole_changes:
  assumes "putRole sid i inp now s = (Inr row, t)" "findRole i s = Some before" "nextPermissions inp before = Some p"
  shows "ax_roles t = map (\<lambda>r. if ro_id r = i then edited i inp now before (snd (resolveSnapshot sid s)) r else r) (ax_roles s)"
    "ax_sessions t = ax_sessions (snd (resolveSnapshot sid s))" "ax_users t = ax_users s"
proof -
  let ?g = "snd (resolveSnapshot sid s)"
  obtain actor where u: "updateRole i inp now actor ?g = (Inr row, t)"
    using assms(1) guard_state [of sid "''roles''" WriteAccess s]
    by (auto simp: putRole_def bindIO_Inr parsed_def split: if_splits)
  have "findRole i ?g = Some before" using assms(2) by (simp add: findRole_def resolve_roles)
  from updateRole_changes [OF u this assms(3)] show
    "ax_roles t = map (\<lambda>r. if ro_id r = i then edited i inp now before ?g r else r) (ax_roles s)" "ax_sessions t = ax_sessions ?g"
    "ax_users t = ax_users s" by (simp_all add: resolve_roles)
qed

lemma edited_permissions:
  assumes "nextPermissions inp before = Some p"
  shows "normalizePermissions (ro_permissions (edited i inp now before s r)) = p"
  using assms by (auto simp: edited_def applyRole_def nextPermissions_def split: option.splits if_splits)

lemma find_upd: "findRole i s = Some r \<Longrightarrow> (\<And>q. ro_id (f q) = ro_id q) \<Longrightarrow>
  ax_roles t = map (\<lambda>q. if ro_id q = i then f q else q) (ax_roles s) \<Longrightarrow> findRole i t = Some (f r)"
proof -
  assume a: "findRole i s = Some r" "\<And>q. ro_id (f q) = ro_id q" "ax_roles t = map (\<lambda>q. if ro_id q = i then f q else q) (ax_roles s)"
  have "find (\<lambda>q. ro_id q = i) (map (\<lambda>q. if ro_id q = i then f q else q) R) = map_option f (find (\<lambda>q. ro_id q = i) R)" for R
    by (induction R) (auto simp: a(2))
  then show ?thesis using a(1,3) by (simp add: findRole_def)
qed

text \<open>
  C20. A restart brings revoked permissions back: sessions are stored in the database, the versions in memory. After an edit
  of a role the guard decides by the new permissions; if the process restarts before the next request of a
  session, it decides by the old ones for that session.
\<close>

theorem restart_revives_permissions:
  assumes "coherent_sessions s" "tables_ok (tables s)" "putRole sid i inp now s = (Inr row, t)" "sid' \<noteq> sid"
    and "findRole i s = Some before" "ro_updatedAt before < now" "nextPermissions inp before = Some p"
    and "actsAs sid' i s" "map_option se_roleSnapshot (ax_sessions s sid') = Some (Some (snapshotFromRole before))"
  shows "fst (requirePermission sid' key level t) = verdict p key level \<and>
    fst (requirePermission sid' key level (restart t)) = verdict (normalizePermissions (ro_permissions before)) key level"
proof
  note c = putRole_changes [OF assms(3,5,7)]
  have t: "t = perform id s (PutRole sid i inp now)" by (simp add: assms(3))
  have "ro_updatedAt q < now" if "q \<in> set (ax_roles s)" "ro_id q = i" for q using role_unique [OF assms(2,5) that] assms(6) by simp
  then have "wellTimed s (PutRole sid i inp now)" by (simp add: list_all_iff)
  then have coh: "coherent_sessions t" unfolding t by (rule perform_coherent [OF assms(1,2)]) simp
  have ok: "tables_ok (tables t)" unfolding t by (rule access.step_good [OF assms(2)])
  have sess: "ax_sessions t sid' = ax_sessions s sid'" by (simp add: c(2) resolve_other [OF assms(4)])
  have acts: "actsAs sid' i t" using assms(8) unfolding acts_cong [OF sess] .
  have found: "findRole i t = Some (edited i inp now before (snd (resolveSnapshot sid s)) before)"
    by (rule find_upd [OF assms(5)]) (simp_all add: edited_keeps c(1))
  show "fst (requirePermission sid' key level t) = verdict p key level"
    using guard_verdict [OF resolve_current [OF coh ok acts found], of key level]
    by (simp add: snapshotFromRole_def edited_permissions [OF assms(7)])
  have "ro_id before = i" using role_found [OF assms(5)] by simp
  moreover obtain se where se: "ax_sessions s sid' = Some se" "truthy (se_userId se)" "se_roleId se = Some i" "i \<noteq> []"
    using assms(8) by (auto simp: actsAs_def)
  moreover have "se_roleSnapshot se = Some (snapshotFromRole before)" using assms(9) se(1) by simp
  ultimately have "fst (resolveSnapshot sid' (restart t)) = Inr (Some (snapshotFromRole before))"
    using sess by (simp add: resolveSnapshot_def restart_def truthy_def snapshotFromRole_def)
  from guard_verdict [OF this]
  show "fst (requirePermission sid' key level (restart t)) = verdict (normalizePermissions (ro_permissions before)) key level"
    by (simp add: snapshotFromRole_def)
qed

text \<open>
  The edits of roles are not covered by the rule of the last administrator: if all admin-equivalent users hold one
  unprotected role, an accepted edit that takes the rights from it leaves none.
\<close>

theorem role_edit_removes_last_admin:
  assumes "tables_ok (tables s)" "putRole sid i inp now s = (Inr row, t)" "findRole i s = Some before" "nextPermissions inp before = Some p"
    and "\<forall>u \<in> set (admins (tables s)). us_roleId u = i" "levelAt p ''users'' \<noteq> FullWrite \<or> levelAt p ''roles'' \<noteq> FullWrite"
  shows "countAdminEquivalentUsers None t = 0"
proof -
  note c = putRole_changes [OF assms(2-4)]
  let ?f = "edited i inp now before (snd (resolveSnapshot sid s))"
  have none: "\<not> adminEquivalent (?f r)" for r using assms(6) by (auto simp: adminEquivalent_def edited_permissions [OF assms(4)])
  have "j \<in> adminIds (ax_roles s) \<and> j \<noteq> i" if j: "j \<in> adminIds (ax_roles t)" for j
  proof -
    obtain q where "q \<in> set (ax_roles t)" "adminEquivalent q" "ro_id q = j" using j by (auto simp: adminIds_def)
    moreover from this obtain r where "r \<in> set (ax_roles s)" "q = (if ro_id r = i then ?f r else r)" by (auto simp: c(1))
    ultimately show ?thesis using none by (auto simp: adminIds_def split: if_splits)
  qed
  then have "admins (tables t) = []" using assms(5) by (auto simp: admins_def tables_def c(3) filter_empty_conv)
  then show ?thesis by (simp add: count_admins)
qed

section \<open>A small installation\<close>

text \<open>
  The protected administrator role and a role of the operators, who may write everything; one user and one open session of
  each. In \<open>siteOps\<close> the administrator has left.
\<close>

definition grant :: "accessLevel \<Rightarrow> json" where
  "grant l = JObj (map (\<lambda>k. (k, JStr (levelToken l))) FUNCTION_KEYS)"

definition adminRole :: roleRow where
  "adminRole = \<lparr>ro_id = ''r1'', ro_name = ''admin'', ro_description = None, ro_permissions = grant FullWrite, ro_regionTags = [],
     ro_isBuiltIn = True, ro_isProtected = True, ro_updatedAt = 1\<rparr>"

definition opsRole :: roleRow where
  "opsRole = \<lparr>ro_id = ''r2'', ro_name = ''ops'', ro_description = None, ro_permissions = grant FullWrite, ro_regionTags = [],
     ro_isBuiltIn = False, ro_isProtected = False, ro_updatedAt = 1\<rparr>"

definition siteUser :: "string \<Rightarrow> string \<Rightarrow> string \<Rightarrow> userRow" where
  "siteUser i name role = \<lparr>us_id = i, us_username = name, us_passwordHash = ''x'', us_roleId = role, us_regionTags = [], us_authProvider = ''local'',
     us_totpSecret = None, us_totpEnabledAt = None, us_totpBackupCodes = [], us_needsRoleReview = False\<rparr>"

definition siteSession :: "string \<Rightarrow> string \<Rightarrow> roleRow \<Rightarrow> session" where
  "siteSession i name r = \<lparr>se_userId = Some i, se_username = Some name, se_roleId = Some (ro_id r), se_roleSnapshot = Some (snapshotFromRole r)\<rparr>"

definition site :: "userRow list \<Rightarrow> accState" where
  "site us = \<lparr>ax_roles = [adminRole, opsRole], ax_users = us, ax_versions = Map.empty,
     ax_sessions = [''s1'' \<mapsto> siteSession ''u1'' ''root'' adminRole, ''s2'' \<mapsto> siteSession ''u2'' ''eve'' opsRole],
     ax_tokens = [], ax_integrations = [], ax_lock = Map.empty, ax_events = []\<rparr>"

definition siteBoth :: accState where
  "siteBoth = site [siteUser ''u1'' ''root'' ''r1'', siteUser ''u2'' ''eve'' ''r2'']"

definition siteOps :: accState where
  "siteOps = site [siteUser ''u2'' ''eve'' ''r2'']"

definition demote :: roleInput where
  "demote = \<lparr>ri_name = None, ri_description = None, ri_permissions = Some (grant ReadAccess), ri_regionTags = None\<rparr>"

lemma siteRoles_ok: "distinct (map ro_id [adminRole, opsRole])" "distinct (map (\<lambda>r. toLowerCase (ro_name r)) [adminRole, opsRole])"
  by (code_simp, code_simp)

lemma site_ok: "tables_ok (tables siteBoth)" "tables_ok (tables siteOps)"
  using siteRoles_ok by (simp_all add: siteBoth_def siteOps_def site_def tables_def siteUser_def adminRole_def opsRole_def)

lemma site_coherent: "coherent_sessions (site us)"
  by (auto simp: coherent_sessions_def site_def snap_ok_def siteSession_def snapshotFromRole_def adminRole_def opsRole_def split: if_splits)

lemma site_acts: "actsAs ''s1'' ''r1'' (site us)" "actsAs ''s2'' ''r2'' (site us)"
  by (simp_all add: actsAs_def site_def siteSession_def truthy_def adminRole_def opsRole_def)

lemma site_roles: "findRole ''r1'' (site us) = Some adminRole" "findRole ''r2'' (site us) = Some opsRole"
  by (simp_all add: findRole_def site_def adminRole_def opsRole_def)

lemma grant_level: "k \<in> set FUNCTION_KEYS \<Longrightarrow> levelAt (normalizePermissions (grant l)) k = l"
  by (cases l) (simp_all add: levelAt_def normalizePermissions_def grant_def map_of_map_restrict restrict_map_def keep_def levelOf_def)

lemma site_keys: "''users'' \<in> set FUNCTION_KEYS" "''roles'' \<in> set FUNCTION_KEYS"
  by (simp_all add: FUNCTION_KEYS_def)

lemma site_levels: "levelAt (normalizePermissions (ro_permissions adminRole)) k = (if k \<in> set FUNCTION_KEYS then FullWrite else NoAccess)"
  "levelAt (normalizePermissions (ro_permissions opsRole)) k = (if k \<in> set FUNCTION_KEYS then FullWrite else NoAccess)"
  using grant_level [of k FullWrite]
  by (auto simp: adminRole_def opsRole_def levelAt_def normalizePermissions_def map_of_map_restrict restrict_map_def keep_def)

theorem protected_roles_fixed_witness:
  "filter ro_isProtected (ax_roles (foldl (perform id) siteBoth [RemoveRole ''s1'' ''r2'', DeleteUser ''s1'' ''u2'', RemoveRole ''s2'' ''r1''])) = [adminRole]"
  using protected_roles_fixed [OF site_ok(1), of id] by (simp add: siteBoth_def site_def adminRole_def opsRole_def del: perform.simps foldl_Cons)

theorem last_admin_kept_witness:
  "0 < countAdminEquivalentUsers None (foldl (perform id) siteOps [DeleteUser ''s1'' ''u2'', PutUserRole ''s1'' ''u2'' ''r1''])"
proof (rule last_admin_kept [OF site_ok(2)])
  have "admins (tables siteOps) \<noteq> []"
    using site_levels site_keys
    by (simp add: admins_def tables_def siteOps_def site_def adminIds_def adminEquivalent_def siteUser_def opsRole_def)
  then show "0 < countAdminEquivalentUsers None siteOps" by (simp add: count_admins)
qed simp

theorem guard_follows_table_witness:
  "fst (requirePermission ''s2'' ''users'' WriteAccess (foldl (perform id) siteBoth [Guarded ''s1'' ''assets'' ReadAccess])) = Inr FullWrite"
proof -
  have t: "snd (resolveSnapshot ''s1'' siteBoth) = bumpRoleVersion ''r1'' 1 siteBoth"
    by (simp add: resolveSnapshot_def siteBoth_def site_def siteSession_def truthy_def snapshotFromRole_def adminRole_def)
  have "fst (requirePermission ''s2'' ''users'' WriteAccess (foldl (perform id) siteBoth [Guarded ''s1'' ''assets'' ReadAccess])) =
      verdict (normalizePermissions (ro_permissions opsRole)) ''users'' WriteAccess"
    by (rule guard_follows_table [where hash = id, OF _ site_ok(1) _ refl, where i = "''r2''"])
       (use site_coherent site_acts(2) site_roles(2) in \<open>simp_all add: siteBoth_def guard_state t [unfolded siteBoth_def] actsAs_def findRole_def\<close>)
  then show ?thesis using site_levels(2) site_keys by (simp add: verdict_def rankMeets_def)
qed

lemma site_resolve:
  "resolveSnapshot ''s1'' (site us) = (Inr (Some (snapshotFromRole adminRole)), bumpRoleVersion ''r1'' 1 (site us))"
  "resolveSnapshot ''s2'' (site us) = (Inr (Some (snapshotFromRole opsRole)), bumpRoleVersion ''r2'' 1 (site us))"
  by (simp_all add: resolveSnapshot_def site_def siteSession_def truthy_def snapshotFromRole_def adminRole_def opsRole_def)

lemma site_guard:
  "k \<in> set FUNCTION_KEYS \<Longrightarrow> requirePermission ''s1'' k l (site us) = (Inr FullWrite, bumpRoleVersion ''r1'' 1 (site us))"
  "k \<in> set FUNCTION_KEYS \<Longrightarrow> requirePermission ''s2'' k l (site us) = (Inr FullWrite, bumpRoleVersion ''r2'' 1 (site us))"
  using site_levels by (cases l; simp add: requirePermission_def bindIO_def site_resolve snapshotFromRole_def rankMeets_def)+

lemma site_admin: "adminEquivalent adminRole" "adminEquivalent opsRole"
  using site_levels site_keys by (simp_all add: adminEquivalent_def)

theorem deleted_user_keeps_access_witness:
  "findUser ''u2'' (snd (deleteUser ''s1'' ''u2'' siteBoth)) = None \<and>
   fst (requirePermission ''s2'' ''users'' FullWrite (snd (deleteUser ''s1'' ''u2'' siteBoth))) = Inr FullWrite"
proof -
  have "fst (deleteUser ''s1'' ''u2'' siteBoth) = Inr ()"
    using site_admin(1) unfolding deleteUser_def siteBoth_def bindIO_def site_guard(1) [OF site_keys(1)]
    by (simp add: bindIO_def withUser_def findUser_def removeUser_def bumpRoleVersion_def
        site_def siteUser_def sessionUser_def siteSession_def countAdminEquivalentUsers_def adminRole_def logAcc_def)
  then have "deleteUser ''s1'' ''u2'' siteBoth = (Inr (), snd (deleteUser ''s1'' ''u2'' siteBoth))" by (simp add: prod_eq_iff)
  from deleted_user_keeps_access [OF _ site_ok(1) this, of "''s2''" "''r2''" opsRole "''users''" FullWrite]
  show ?thesis
    using site_coherent site_acts(2) site_roles(2) site_guard(2) [OF site_keys(1)]
    by (simp add: siteBoth_def sessionUser_def site_def siteSession_def)
qed

lemma site_demote: "nextPermissions demote opsRole = Some (normalizePermissions (grant ReadAccess))"
proof -
  have "levelAt (normalizePermissions (grant ReadAccess)) ''users'' \<noteq> levelAt (normalizePermissions (ro_permissions opsRole)) ''users''"
    by (simp add: grant_level site_levels site_keys)
  then show ?thesis by (auto simp: nextPermissions_def demote_def)
qed

lemma demote_schema: "UpdateRoleSchema demote"
  by (simp add: UpdateRoleSchema_def demote_def PermissionsSchema_def grant_def isValidAccessLevel_def list_all_iff)

lemma site_edit: "\<exists>row. fst (putRole sid ''r2'' demote 5 (site us)) = Inr row" if "sid = ''s1'' \<or> sid = ''s2''"
proof -
  have "update_rows roleKey (\<lambda>r. ro_id r = ''r2'') (applyRole None None p None 5) [adminRole, opsRole] =
      Inr [adminRole, applyRole None None p None 5 opsRole]" for p
    by (simp add: update_rows_def adminRole_def opsRole_def applyRole_def roleKey_def keep_def)
  moreover have "findRole ''r2'' (bumpRoleVersion i 1 (site us)) = Some opsRole" for i
    using site_roles(2) by (simp add: find_role_cong [of "bumpRoleVersion i 1 (site us)" "site us"])
  moreover have "ri_name demote = None" "ri_description demote = None" "ri_regionTags demote = None" "\<not> ro_isProtected opsRole"
    "ax_roles (bumpRoleVersion i 1 (site us)) = [adminRole, opsRole]" for i
    by (simp_all add: demote_def opsRole_def site_def)
  ultimately have "\<exists>row. fst (updateRole ''r2'' demote 5 actor (bumpRoleVersion i 1 (site us))) = Inr row" for actor i
    using site_demote
    by (simp add: updateRole_def bindIO_def nextName_def nextDescription_def nextRegionTags_def updateRoleRow_def logAcc_def Let_def)
  then show ?thesis using that site_guard [OF site_keys(2)] demote_schema
    by (auto simp: putRole_def bindIO_def parsed_def)
qed

theorem restart_revives_permissions_witness:
  "fst (requirePermission ''s2'' ''users'' WriteAccess (snd (putRole ''s1'' ''r2'' demote 5 siteBoth))) = Inl (lacks WriteAccess ''users'') \<and>
   fst (requirePermission ''s2'' ''users'' WriteAccess (restart (snd (putRole ''s1'' ''r2'' demote 5 siteBoth)))) = Inr FullWrite"
proof -
  obtain row where "putRole ''s1'' ''r2'' demote 5 siteBoth = (Inr row, snd (putRole ''s1'' ''r2'' demote 5 siteBoth))"
    using site_edit unfolding siteBoth_def by (metis prod.collapse)
  from restart_revives_permissions [OF _ site_ok(1) this, of "''s2''" opsRole "normalizePermissions (grant ReadAccess)" "''users''" WriteAccess]
  show ?thesis
    using site_coherent site_acts(2) site_roles(2) site_demote site_levels(2) grant_level [OF site_keys(1)] site_keys
    by (simp add: siteBoth_def site_def siteSession_def verdict_def rankMeets_def) (simp add: opsRole_def)
qed

theorem role_edit_removes_last_admin_witness:
  "0 < countAdminEquivalentUsers None siteOps \<and> countAdminEquivalentUsers None (snd (putRole ''s2'' ''r2'' demote 5 siteOps)) = 0"
proof
  show "0 < countAdminEquivalentUsers None siteOps"
    using site_admin(2) by (simp add: countAdminEquivalentUsers_def siteOps_def site_def siteUser_def opsRole_def)
  obtain row where "putRole ''s2'' ''r2'' demote 5 siteOps = (Inr row, snd (putRole ''s2'' ''r2'' demote 5 siteOps))"
    using site_edit unfolding siteOps_def by (metis prod.collapse)
  from role_edit_removes_last_admin [OF site_ok(2) this, of opsRole "normalizePermissions (grant ReadAccess)"]
  show "countAdminEquivalentUsers None (snd (putRole ''s2'' ''r2'' demote 5 siteOps)) = 0"
    using site_roles(2) site_demote grant_level [OF site_keys(1)]
    by (simp add: siteOps_def admins_def tables_def site_def siteUser_def)
qed

end
