(* ===== verification/TokenSpec.thy ===== *)
theory TokenSpec
  imports AccessSpec
begin

text \<open>
  Bearer tokens from their creation to their end: whatever token requests are served in between, a token is accepted with
  the scopes it was created with exactly until it expires or a revocation or deletion of it is accepted.
\<close>

section \<open>The password hash\<close>

text \<open>What the program relies on of argon2: a hash names its algorithm, and checks exactly against the text it was made of.\<close>

definition argon2Ok :: "(string \<Rightarrow> string) \<Rightarrow> (string \<Rightarrow> string \<Rightarrow> bool) \<Rightarrow> bool" where
  "argon2Ok hash argonVerify \<longleftrightarrow> (\<forall>p. startsWith (hash p) ''$argon2'') \<and> (\<forall>p q. argonVerify (hash p) q \<longleftrightarrow> p = q)"

lemma verify_hash: "argon2Ok hash argonVerify \<Longrightarrow> verifyPassword argonVerify q (hash p) \<longleftrightarrow> p = q"
  by (simp add: argon2Ok_def verifyPassword_def)

section \<open>Requests\<close>

datatype tokenCall =
    NewToken string tokenInput string string int
  | Revoke string string int
  | Remove string string
  | Present "string option" "string option" int
  | Access accessCall

fun tokenStep :: "(string \<Rightarrow> string) \<Rightarrow> (string \<Rightarrow> string \<Rightarrow> bool) \<Rightarrow> accState \<Rightarrow> tokenCall \<Rightarrow> accState" where
  "tokenStep hash argonVerify s (NewToken sid inp base64 uid now) = snd (postToken hash sid inp base64 uid now s)"
| "tokenStep hash argonVerify s (Revoke sid i now) = snd (postRevoke sid i now s)"
| "tokenStep hash argonVerify s (Remove sid i) = snd (removeToken sid i s)"
| "tokenStep hash argonVerify s (Present auth ip now) = snd (attachApiToken argonVerify auth ip now s)"
| "tokenStep hash argonVerify s (Access c) = perform hash s c"

text \<open>A request that is accepted and ends the token, and whether one occurs in a sequence of requests.\<close>

fun endsToken :: "string \<Rightarrow> accState \<Rightarrow> tokenCall \<Rightarrow> bool" where
  "endsToken i s (Revoke sid j now) \<longleftrightarrow> i = j \<and> fst (postRevoke sid j now s) = Inr ()"
| "endsToken i s (Remove sid j) \<longleftrightarrow> i = j \<and> fst (removeToken sid j s) = Inr ()"
| "endsToken i s _ \<longleftrightarrow> False"

fun ended :: "(string \<Rightarrow> string) \<Rightarrow> (string \<Rightarrow> string \<Rightarrow> bool) \<Rightarrow> string \<Rightarrow> accState \<Rightarrow> tokenCall list \<Rightarrow> bool" where
  "ended hash argonVerify i s [] \<longleftrightarrow> False"
| "ended hash argonVerify i s (c # cs) \<longleftrightarrow> endsToken i s c \<or> ended hash argonVerify i (tokenStep hash argonVerify s c) cs"

text \<open>No later token is made of the same random bytes.\<close>

fun otherBytes :: "string \<Rightarrow> tokenCall \<Rightarrow> bool" where
  "otherBytes raw (NewToken sid inp base64 uid now) \<longleftrightarrow> generateRawToken base64 \<noteq> raw"
| "otherBytes raw _ \<longleftrightarrow> True"

section \<open>What the requests do to the tokens\<close>

lemma resolve_tokens: "ax_tokens (snd (resolveSnapshot sid s)) = ax_tokens s"
  and resolve_integrations: "ax_integrations (snd (resolveSnapshot sid s)) = ax_integrations s"
  by (auto simp: resolveSnapshot_def healSession_def reloadSession_def loadRoleSnapshot_def bindIO_def saveSession_def stampRole_def
      bumpRoleVersion_def split: option.splits)

lemma guarded_tokens:
  assumes "\<And>a t. ax_tokens (snd (f a t)) = ax_tokens t"
  shows "ax_tokens (snd (bindIO (requirePermission sid key level) f s)) = ax_tokens s"
  using bind_guard [of sid key level f s] by (auto simp: assms resolve_tokens)

lemma quiet_tokens [simp]:
  "ax_tokens (snd (parsed ok m t)) = (if ok then ax_tokens (snd (m t)) else ax_tokens t)"
  "ax_tokens (snd (logAcc e t)) = ax_tokens t" "ax_tokens (changeUser i g t) = ax_tokens t"
  by (simp_all add: parsed_def logAcc_def changeUser_def)

lemma withUser_tokens: "(\<And>u t. ax_tokens (snd (f u t)) = ax_tokens t) \<Longrightarrow> ax_tokens (snd (withUser i f t)) = ax_tokens t"
  by (simp add: withUser_def split: option.split)

lemma service_tokens:
  "ax_tokens (snd (createRole inp uid now actor s)) = ax_tokens s" "ax_tokens (snd (updateRole i inp now actor s)) = ax_tokens s"
  "ax_tokens (snd (deleteRole i actor s)) = ax_tokens s" "ax_tokens (snd (createUser hash actor uinp uid s)) = ax_tokens s"
  "ax_tokens (snd (assignRole sid u roleId s)) = ax_tokens s" "ax_tokens (snd (removeUser sid u s)) = ax_tokens s"
proof -
  show "ax_tokens (snd (updateRole i inp now actor s)) = ax_tokens s"
    by (auto simp: updateRole_def updateRoleRow_def bindIO_def logAcc_def bumpRoleVersion_def Let_def nextName_result(1)
        dest: arg_cong [of _ _ snd] split: option.splits sum.splits prod.splits)
qed (auto simp: createRole_def insertRole_def deleteRole_def createUser_def insertUser_def assignRole_def removeUser_def
      bindIO_def logAcc_def bumpRoleVersion_def Let_def split: option.splits sum.splits)

lemma perform_tokens: "ax_tokens (perform hash s c) = ax_tokens s"
  by (cases c)
     (auto simp: postRole_def putRole_def removeRole_def postUser_def dismissRoleReview_def putUserPassword_def putUserRole_def
       putUserRegions_def deleteUserTotp_def deleteUser_def guard_state resolve_tokens service_tokens startSession_def logout_def
       restart_def saveSession_def stampRole_def bumpRoleVersion_def intro!: guarded_tokens withUser_tokens split: option.split)

lemma createToken_result:
  assumes "createToken hash inp base64 uid s = (Inr (row, raw), t)"
  shows "raw = generateRawToken base64" "ax_tokens t = ax_tokens s @ [row]"
    "row = \<lparr>at_id = uid, at_name = trim (ti_name inp), at_tokenHash = hash raw, at_tokenPrefix = shortToken raw, at_scopes = ti_scopes inp,
       at_integrationIds = at_integrationIds row, at_createdBy = ti_createdBy inp, at_expiresAt = ti_expiresAt inp, at_lastUsed = None,
       at_revoked = None\<rparr>"
    "validateIntegrationIds (ti_scopes inp) (ti_integrationIds inp) (ax_integrations s) = Inr (at_integrationIds row)"
  using assms
  by (auto simp: createToken_def Let_def bindIO_Inr insert_row_def split: if_splits sum.splits)

lemma createToken_refused:
  assumes "createToken hash inp base64 uid s = (Inl e, t)"
  shows "ax_tokens t = ax_tokens s"
  using assms by (auto simp: createToken_def Let_def bindIO_def split: if_splits sum.splits prod.splits)

lemma guard_tokens: "requirePermission sid key level s = (x, t) \<Longrightarrow> ax_tokens t = ax_tokens s"
  using guard_state [of sid key level s] resolve_tokens [of sid s] by simp

lemma create_tokens:
  assumes "createToken hash inp base64 uid s = (x, t)"
  shows "ax_tokens t = ax_tokens s \<or> (\<exists>row. at_tokenHash row = hash (generateRawToken base64) \<and> ax_tokens t = ax_tokens s @ [row])"
proof (cases x)
  case (Inl e)
  then show ?thesis using createToken_refused assms by simp
next
  case (Inr p)
  then obtain row raw where "createToken hash inp base64 uid s = (Inr (row, raw), t)" using assms by (cases p) simp
  from createToken_result [OF this] show ?thesis by (metis apiToken.select_convs(3))
qed

lemma postToken_tokens:
  "ax_tokens (snd (postToken hash sid inp base64 uid now s)) = ax_tokens s \<or>
   (\<exists>row. at_tokenHash row = hash (generateRawToken base64) \<and> ax_tokens (snd (postToken hash sid inp base64 uid now s)) = ax_tokens s @ [row])"
proof -
  obtain x g where guard: "requirePermission sid ''apiTokens'' WriteAccess s = (x, g)" by fastforce
  let ?inp = "inp\<lparr>ti_createdBy := or_str (actorOf sid g) ''unknown''\<rparr>"
  obtain y t where created: "createToken hash ?inp base64 uid g = (y, t)" by fastforce
  show ?thesis
    using guard_tokens [OF guard] create_tokens [OF created] created
    by (cases x; cases y) (auto simp: postToken_def bindIO_def guard parsed_def logAcc_def split: option.split)
qed

lemma postRevoke_tokens:
  "if fst (postRevoke sid i now s) = Inr ()
   then \<exists>v. ax_tokens (snd (postRevoke sid i now s)) = map (\<lambda>t. if at_id t = i then t\<lparr>at_revoked := Some v\<rparr> else t) (ax_tokens s)
   else ax_tokens (snd (postRevoke sid i now s)) = ax_tokens s"
  by (auto simp: postRevoke_def revokeToken_def bindIO_def logAcc_def changeToken_def dest!: guard_tokens
      split: prod.splits sum.splits option.splits if_splits) blast

lemma removeToken_tokens:
  "ax_tokens (snd (removeToken sid i s)) =
     (if fst (removeToken sid i s) = Inr () then filter (\<lambda>t. at_id t \<noteq> i) (ax_tokens s) else ax_tokens s)"
  by (auto simp: removeToken_def deleteToken_def bindIO_def logAcc_def delete_rows_def dest: guard_tokens
      split: prod.splits sum.splits option.splits)

lemma present_tokens:
  "\<exists>P v. ax_tokens (snd (attachApiToken argonVerify auth ip now s)) = map (\<lambda>t. if P t then t\<lparr>at_lastUsed := v\<rparr> else t) (ax_tokens s)"
proof -
  have "\<exists>P v. ax_tokens s = map (\<lambda>t. if P t then t\<lparr>at_lastUsed := v\<rparr> else t) (ax_tokens s)" by (rule exI [of _ "\<lambda>_. False"]) simp
  moreover have "\<exists>P v. ax_tokens (changeToken i (\<lambda>u. u\<lparr>at_lastUsed := w\<rparr>) s) = map (\<lambda>t. if P t then t\<lparr>at_lastUsed := v\<rparr> else t) (ax_tokens s)" for i w
    unfolding changeToken_def by auto
  ultimately show ?thesis by (simp add: attachApiToken_def verifyToken_def split: option.split)
qed

section \<open>The rows a raw token opens\<close>

definition holders :: "(string \<Rightarrow> string \<Rightarrow> bool) \<Rightarrow> string \<Rightarrow> accState \<Rightarrow> apiToken list" where
  "holders argonVerify raw s = filter (\<lambda>t. verifyPassword argonVerify raw (at_tokenHash t)) (ax_tokens s)"

lemma holders_map:
  assumes "ax_tokens t = map f (ax_tokens s)" "\<And>r. at_tokenHash (f r) = at_tokenHash r"
  shows "holders argonVerify raw t = map f (holders argonVerify raw s)"
  by (simp add: holders_def assms filter_map comp_def)

text \<open>The row as it was made, but for the record of its use.\<close>

definition sameToken :: "apiToken \<Rightarrow> apiToken \<Rightarrow> bool" where
  "sameToken row t \<longleftrightarrow> t\<lparr>at_lastUsed := at_lastUsed row\<rparr> = row"

definition held :: "(string \<Rightarrow> string \<Rightarrow> bool) \<Rightarrow> string \<Rightarrow> apiToken \<Rightarrow> accState \<Rightarrow> bool" where
  "held argonVerify raw row s \<longleftrightarrow> (\<exists>t. holders argonVerify raw s = [t] \<and> sameToken row t)"

definition isRevoked :: "apiToken \<Rightarrow> bool" where
  "isRevoked t \<longleftrightarrow> at_revoked t \<noteq> None"

definition dead :: "(string \<Rightarrow> string \<Rightarrow> bool) \<Rightarrow> string \<Rightarrow> accState \<Rightarrow> bool" where
  "dead argonVerify raw s \<longleftrightarrow> list_all isRevoked (holders argonVerify raw s)"

lemma sameToken_used: "sameToken row (t\<lparr>at_lastUsed := v\<rparr>) = sameToken row t"
  by (simp add: sameToken_def)

lemma sameToken_fields:
  assumes "sameToken row t"
  shows "at_id t = at_id row" "identityOf t = identityOf row" "liveToken now raw t = liveToken now raw row"
  using assms by (cases row, cases t, simp add: sameToken_def identityOf_def liveToken_def)+

text \<open>How a request changes the rows a raw token opens: it notes a use, it ends a token, or it leaves them alone.\<close>

inductive holderStep :: "accState \<Rightarrow> tokenCall \<Rightarrow> apiToken list \<Rightarrow> apiToken list \<Rightarrow> bool" for s :: accState and c :: tokenCall where
  used: "\<forall>i. \<not> endsToken i s c \<Longrightarrow> holderStep s c H (map (\<lambda>t. if P t then t\<lparr>at_lastUsed := v\<rparr> else t) H)"
| revoked: "\<forall>j. endsToken j s c \<longleftrightarrow> j = i \<Longrightarrow> holderStep s c H (map (\<lambda>t. if at_id t = i then t\<lparr>at_revoked := Some v\<rparr> else t) H)"
| removed: "\<forall>j. endsToken j s c \<longleftrightarrow> j = i \<Longrightarrow> holderStep s c H (filter (\<lambda>t. at_id t \<noteq> i) H)"

lemma holders_kept:
  assumes "\<forall>i. \<not> endsToken i s c" "holders argonVerify raw t = holders argonVerify raw s"
  shows "holderStep s c (holders argonVerify raw s) (holders argonVerify raw t)"
  using used [OF assms(1), of "holders argonVerify raw s" "\<lambda>_. False"] by (simp add: assms(2))

lemma step_holders:
  assumes "argon2Ok hash argonVerify" "otherBytes raw c"
  shows "holderStep s c (holders argonVerify raw s) (holders argonVerify raw (tokenStep hash argonVerify s c))"
proof (cases c)
  case (NewToken sid inp base64 uid now)
  then have "holders argonVerify raw (tokenStep hash argonVerify s c) = holders argonVerify raw s"
    using assms(2) postToken_tokens [of hash sid inp base64 uid now s] by (auto simp: holders_def verify_hash [OF assms(1)])
  then show ?thesis by (rule holders_kept [rotated]) (simp add: NewToken)
next
  case (Revoke sid i now)
  show ?thesis
  proof (cases "fst (postRevoke sid i now s) = Inr ()")
    case True
    then obtain v where "ax_tokens (tokenStep hash argonVerify s c) = map (\<lambda>t. if at_id t = i then t\<lparr>at_revoked := Some v\<rparr> else t) (ax_tokens s)"
      using postRevoke_tokens [of sid i now s] Revoke by auto
    from holders_map [OF this] have H: "holders argonVerify raw (tokenStep hash argonVerify s c) =
        map (\<lambda>t. if at_id t = i then t\<lparr>at_revoked := Some v\<rparr> else t) (holders argonVerify raw s)" by simp
    show ?thesis unfolding H by (rule revoked) (simp add: Revoke True)
  next
    case False
    then show ?thesis using postRevoke_tokens [of sid i now s] by (intro holders_kept) (auto simp: Revoke holders_def)
  qed
next
  case (Remove sid i)
  show ?thesis
  proof (cases "fst (removeToken sid i s) = Inr ()")
    case True
    then have H: "holders argonVerify raw (tokenStep hash argonVerify s c) = filter (\<lambda>t. at_id t \<noteq> i) (holders argonVerify raw s)"
      using removeToken_tokens [of sid i s] by (simp add: Remove holders_def conj_commute)
    show ?thesis unfolding H by (rule removed) (simp add: Remove True)
  next
    case False
    then show ?thesis using removeToken_tokens [of sid i s] by (intro holders_kept) (auto simp: Remove holders_def)
  qed
next
  case (Present auth ip now)
  obtain P v where "ax_tokens (tokenStep hash argonVerify s c) = map (\<lambda>t. if P t then t\<lparr>at_lastUsed := v\<rparr> else t) (ax_tokens s)"
    using present_tokens [of argonVerify auth ip now s] Present by auto
  from holders_map [OF this] have H: "holders argonVerify raw (tokenStep hash argonVerify s c) =
      map (\<lambda>t. if P t then t\<lparr>at_lastUsed := v\<rparr> else t) (holders argonVerify raw s)" by simp
  show ?thesis unfolding H by (rule used) (simp add: Present)
next
  case (Access a)
  then show ?thesis by (intro holders_kept) (simp_all add: holders_def perform_tokens)
qed

lemma holderStep_held:
  assumes "holderStep s c [t] H" "sameToken row t"
  shows "if endsToken (at_id row) s c then list_all isRevoked H else \<exists>t'. H = [t'] \<and> sameToken row t'"
  using assms(1)
proof cases
  case (used P v)
  then show ?thesis using assms(2) by (simp add: sameToken_used)
next
  case (revoked i v)
  then show ?thesis using assms(2) sameToken_fields(1) [OF assms(2)] by (simp add: isRevoked_def)
next
  case (removed i)
  then show ?thesis using assms(2) sameToken_fields(1) [OF assms(2)] by simp
qed

lemma holderStep_dead: "holderStep s c H H' \<Longrightarrow> list_all isRevoked H \<Longrightarrow> list_all isRevoked H'"
  by (cases rule: holderStep.cases) (auto simp: list_all_iff isRevoked_def)

lemma run_dead:
  assumes "argon2Ok hash argonVerify"
  shows "dead argonVerify raw s \<Longrightarrow> \<forall>c \<in> set calls. otherBytes raw c \<Longrightarrow> dead argonVerify raw (foldl (tokenStep hash argonVerify) s calls)"
proof (induction calls arbitrary: s)
  case (Cons c calls)
  have "dead argonVerify raw (tokenStep hash argonVerify s c)"
    using holderStep_dead [OF step_holders [OF assms, of raw c s]] Cons.prems by (simp add: dead_def)
  then show ?case using Cons by simp
qed simp

lemma run_held:
  assumes "argon2Ok hash argonVerify"
  shows "held argonVerify raw row s \<Longrightarrow> \<forall>c \<in> set calls. otherBytes raw c \<Longrightarrow>
    (if ended hash argonVerify (at_id row) s calls then dead argonVerify raw (foldl (tokenStep hash argonVerify) s calls)
     else held argonVerify raw row (foldl (tokenStep hash argonVerify) s calls))"
proof (induction calls arbitrary: s)
  case (Cons c calls)
  obtain t where t: "holders argonVerify raw s = [t]" "sameToken row t" using Cons.prems(1) by (auto simp: held_def)
  let ?s = "tokenStep hash argonVerify s c"
  have step: "if endsToken (at_id row) s c then dead argonVerify raw ?s else held argonVerify raw row ?s"
    using holderStep_held [OF step_holders [OF assms, of raw c s, unfolded t(1)] t(2)] Cons.prems(2) by (simp add: dead_def held_def)
  show ?case
  proof (cases "endsToken (at_id row) s c")
    case True
    then show ?thesis using run_dead [OF assms, of raw ?s calls] step Cons.prems(2) by simp
  next
    case False
    then show ?thesis using Cons.IH [of ?s] step Cons.prems(2) by simp
  qed
qed simp

lemma find_filter: "find P (filter Q xs) = find Q (filter P xs)"
  by (induction xs) auto

lemma verify_holders:
  "fst (verifyToken argonVerify raw ip now s) =
     (if startsWith raw TOKEN_PREFIX then map_option identityOf (find (liveToken now raw) (holders argonVerify raw s)) else None)"
  by (auto simp: verifyToken_def holders_def find_filter [of _ "liveToken now raw"] split: option.split)

lemma bearer_header: "tok \<noteq> [] \<Longrightarrow> list_all (\<lambda>c. \<not> is_space c) tok \<Longrightarrow> extractBearerToken (Some (''Bearer '' @ tok)) = Some tok"
proof -
  assume a: "tok \<noteq> []" "list_all (\<lambda>c. \<not> is_space c) tok"
  then have "dropWhile is_space tok = tok" by (cases tok) auto
  moreover have "toLowerCase ''Bearer'' = ''bearer''" "is_space (CHR '' '')" by code_simp+
  ultimately show ?thesis using a by (simp add: extractBearerToken_def Let_def del: dropWhile_eq_Nil_conv)
qed

section \<open>From creation to revocation\<close>

lemma postToken_result:
  assumes "postToken hash sid inp base64 uid now s = (Inr (row, raw), t)"
  shows "raw = generateRawToken base64" "ax_tokens t = ax_tokens s @ [row]" "at_tokenHash row = hash raw" "at_tokenPrefix row = shortToken raw"
    "at_revoked row = None" "at_expiresAt row = ti_expiresAt inp" "at_id row = uid" "at_name row = trim (ti_name inp)" "at_scopes row = ti_scopes inp"
    "validateIntegrationIds (ti_scopes inp) (ti_integrationIds inp) (ax_integrations s) = Inr (at_integrationIds row)"
proof -
  obtain x g where guard: "requirePermission sid ''apiTokens'' WriteAccess s = (Inr x, g)"
    using assms by (auto simp: postToken_def bindIO_Inr)
  then obtain u where create: "createToken hash (inp\<lparr>ti_createdBy := or_str (actorOf sid g) ''unknown''\<rparr>) base64 uid g = (Inr (row, raw), u)"
    and u: "ax_tokens t = ax_tokens u"
    using assms by (auto simp: postToken_def bindIO_Inr parsed_def logAcc_def split: if_splits)
  note r = createToken_result [OF create]
  show "raw = generateRawToken base64" "ax_tokens t = ax_tokens s @ [row]" using r(1,2) u guard_tokens [OF guard] by simp_all
  show "at_tokenHash row = hash raw" "at_tokenPrefix row = shortToken raw" "at_revoked row = None" "at_expiresAt row = ti_expiresAt inp"
    "at_id row = uid" "at_name row = trim (ti_name inp)" "at_scopes row = ti_scopes inp"
    by (subst r(3), simp)+
  have "ax_integrations g = ax_integrations s" using guard_state [of sid "''apiTokens''" WriteAccess s] resolve_integrations [of sid s] guard by simp
  then show "validateIntegrationIds (ti_scopes inp) (ti_integrationIds inp) (ax_integrations s) = Inr (at_integrationIds row)" using r(4) by simp
qed

lemma raw_shape: "startsWith (generateRawToken b) TOKEN_PREFIX" "list_all (\<lambda>c. \<not> is_space c) b \<Longrightarrow> list_all (\<lambda>c. \<not> is_space c) (generateRawToken b)"
  "generateRawToken b \<noteq> []"
proof -
  have "list_all (\<lambda>c. \<not> is_space c) TOKEN_PREFIX" by code_simp
  then show "list_all (\<lambda>c. \<not> is_space c) b \<Longrightarrow> list_all (\<lambda>c. \<not> is_space c) (generateRawToken b)"
    by (auto simp: generateRawToken_def list_all_iff dest!: in_set_takeD)
qed (simp_all add: generateRawToken_def startsWith_iff TOKEN_PREFIX_def)

text \<open>
  C13. A bearer token is accepted from its creation on with exactly the scopes it was created with, whatever other requests
  are served, until it expires or a revocation or deletion of it was accepted; from then on it is refused, also if the id is
  used again.
\<close>

theorem token_lifecycle:
  assumes "argon2Ok hash argonVerify" "postToken hash sid inp base64 uid now s = (Inr (row, raw), s1)" "list_all (\<lambda>c. \<not> is_space c) base64"
    and "holders argonVerify raw s = []" "\<forall>c \<in> set calls. otherBytes raw c" "t = foldl (tokenStep hash argonVerify) s1 calls"
  shows "fst (attachApiToken argonVerify (Some (''Bearer '' @ raw)) ip later t) =
    (if ended hash argonVerify uid s1 calls \<or> (\<exists>e. ti_expiresAt inp = Some e \<and> e \<le> later) then None
     else Some \<lparr>au_id = uid, au_name = trim (ti_name inp), au_scopes = ti_scopes inp, au_integrationIds = at_integrationIds row\<rparr>)"
proof -
  note r = postToken_result [OF assms(2)]
  have "held argonVerify raw row s1" using assms(4) by (simp add: held_def holders_def r(2,3) verify_hash [OF assms(1)] sameToken_def)
  note run = run_held [OF assms(1) this assms(5), unfolded r(7), folded assms(6)]
  have eq: "fst (attachApiToken argonVerify (Some (''Bearer '' @ raw)) ip later t) = map_option identityOf (find (liveToken later raw) (holders argonVerify raw t))"
    using bearer_header [of raw] raw_shape [of base64] assms(3) unfolding r(1) by (simp add: attachApiToken_def verify_holders)
  show ?thesis
  proof (cases "ended hash argonVerify uid s1 calls")
    case True
    then have "find (liveToken later raw) (holders argonVerify raw t) = None"
      using run by (auto simp: dead_def list_all_iff isRevoked_def find_None_iff liveToken_def)
    then show ?thesis using eq True by simp
  next
    case False
    then obtain u where u: "holders argonVerify raw t = [u]" "sameToken row u" using run by (auto simp: held_def)
    show ?thesis using eq False u(1) sameToken_fields(2,3) [OF u(2)] r(4-9) by (auto simp: liveToken_def [of _ _ row] identityOf_def [of row] split: option.splits)
  qed
qed

definition refHash :: "string \<Rightarrow> string" where
  "refHash p = ''$argon2id'' @ p"

definition refVerify :: "string \<Rightarrow> string \<Rightarrow> bool" where
  "refVerify stored q \<longleftrightarrow> stored = ''$argon2id'' @ q"

lemma ref_argon2: "argon2Ok refHash refVerify"
  by (auto simp: argon2Ok_def refHash_def refVerify_def startsWith_iff)

definition socToken :: tokenInput where
  "socToken = \<lparr>ti_name = ''soc'', ti_scopes = [''assets:read''], ti_integrationIds = [], ti_expiresAt = Some 100, ti_createdBy = []\<rparr>"

definition socState :: accState where
  "socState = snd (postToken refHash ''s1'' socToken ''Zm9v'' ''t1'' 5 siteBoth)"

lemma soc_created: "\<exists>row. postToken refHash ''s1'' socToken ''Zm9v'' ''t1'' 5 siteBoth = (Inr (row, ''polaris_Zm9v''), socState) \<and> at_integrationIds row = []"
proof -
  have "map_sum id (map_prod at_integrationIds id) (fst (postToken refHash ''s1'' socToken ''Zm9v'' ''t1'' 5 siteBoth)) = Inr ([], ''polaris_Zm9v'')"
    by code_simp
  then show ?thesis
    unfolding socState_def
    by (cases "postToken refHash ''s1'' socToken ''Zm9v'' ''t1'' 5 siteBoth"; cases "fst (postToken refHash ''s1'' socToken ''Zm9v'' ''t1'' 5 siteBoth)") auto
qed

theorem token_lifecycle_witness:
  "fst (attachApiToken refVerify (Some ''Bearer polaris_Zm9v'') None 50 (foldl (tokenStep refHash refVerify) socState [Access Restart])) =
     Some \<lparr>au_id = ''t1'', au_name = ''soc'', au_scopes = [''assets:read''], au_integrationIds = []\<rparr> \<and>
   fst (attachApiToken refVerify (Some ''Bearer polaris_Zm9v'') None 50 (foldl (tokenStep refHash refVerify) socState [Revoke ''s1'' ''t1'' 6])) = None"
proof -
  obtain row where row: "postToken refHash ''s1'' socToken ''Zm9v'' ''t1'' 5 siteBoth = (Inr (row, ''polaris_Zm9v''), socState)" "at_integrationIds row = []"
    using soc_created by blast
  have base: "list_all (\<lambda>c. \<not> is_space c) ''Zm9v''" "holders refVerify ''polaris_Zm9v'' siteBoth = []" "trim (ti_name socToken) = ''soc''"
    "fst (postRevoke ''s1'' ''t1'' 6 socState) = Inr ()" by code_simp+
  note life = token_lifecycle [OF ref_argon2 row(1) base(1,2) _ refl, of _ None 50]
  show ?thesis
    using life [of "[Access Restart]"] life [of "[Revoke ''s1'' ''t1'' 6]"] base(3,4) row(2)
    by (simp add: socToken_def del: perform.simps)
qed

end
