(* ===== verification/Agents.thy ===== *)
theory Agents
  imports Access MonitorSettings
begin

text \<open>
  The agents on monitored hosts: the operator routes of \<^verbatim>\<open>src/api/routes/assets.ts\<close>, the runners of
  \<^verbatim>\<open>src/services/agentInstallService.ts\<close>, the one-shot enrollment tokens and the bearer tokens of
  \<^verbatim>\<open>src/services/agentTokenService.ts\<close> and the enrollment route of \<^verbatim>\<open>src/api/routes/agents.ts\<close>. A runner works in the
  background: it is two calls, up to the work on the remote host and from there on, so that enrollments and operator
  requests come in between; what the remote host answers is an argument. Likewise the exchange of an enrollment token
  is a look-up and a transaction. What the server knows of itself (its certificate, its public name, the binaries built)
  is the record \<^verbatim>\<open>serverEnv\<close>.
\<close>

section \<open>State\<close>

datatype installStatus =
  Pending | Uploading | Enrolling | Active | Failed | Upgrading | UpgradeFailed | Uninstalling | UninstallFailed | Revoked

fun statusToken :: "installStatus \<Rightarrow> string" where
  "statusToken Pending = ''pending''" | "statusToken Uploading = ''uploading''" | "statusToken Enrolling = ''enrolling''"
| "statusToken Active = ''active''" | "statusToken Failed = ''failed''" | "statusToken Upgrading = ''upgrading''"
| "statusToken UpgradeFailed = ''upgrade_failed''" | "statusToken Uninstalling = ''uninstalling''"
| "statusToken UninstallFailed = ''uninstall_failed''" | "statusToken Revoked = ''revoked''"

record managedAgent =
  ma_id :: string
  ma_assetId :: string
  ma_osPlatform :: string
  ma_arch :: string
  ma_agentVersion :: "string option"
  ma_installedBy :: string
  ma_installCredentialId :: "string option"
  ma_installStatus :: installStatus
  ma_installError :: "string option"
  ma_enrollmentTokenHash :: "string option"
  ma_enrollmentTokenPrefix :: "string option"
  ma_enrollmentExpiresAt :: "int option"
  ma_bearerHash :: "string option"
  ma_bearerPrefix :: "string option"
  ma_bearerIssuedAt :: "int option"
  ma_bearerRevokedAt :: "int option"
  ma_lastSeen :: "(int \<times> string option) option"
  ma_serverCertFingerprint :: string

record agentAsset =
  gs_id :: string
  gs_ipAddress :: "string option"
  gs_dnsName :: "string option"
  gs_hostname :: "string option"
  gs_integrationType :: "string option"
  gs_polling :: "stream \<Rightarrow> string option"

record agSys =
  gy_agents :: "managedAgent list"
  gy_assets :: "agentAsset list"
  gy_credentials :: "(string \<times> string) list"
  gy_access :: accState
  gy_events :: "event list"

record manifest =
  mf_currentVersion :: string
  mf_binaries :: "(string \<times> string) list"

record serverEnv =
  sv_fingerprint :: "string option"
  sv_publicUrl :: "string option"
  sv_publicHost :: "string option"
  sv_certHost :: "string option"
  sv_manifest :: "manifest option"
  sv_binaryError :: "string option"

definition agentKey :: "managedAgent \<Rightarrow> string option" where
  "agentKey r = Some (ma_assetId r)"

interpretation agt: keyed_table ma_id agentKey "table_ok ma_id agentKey" "insert_row ma_id agentKey" "update_rows agentKey" delete_rows
  by (rule keyed_table_generic)

definition findAgent :: "string \<Rightarrow> agSys \<Rightarrow> managedAgent option" where
  "findAgent i s = find (\<lambda>r. ma_id r = i) (gy_agents s)"

definition agentOf :: "string \<Rightarrow> agSys \<Rightarrow> managedAgent option" where
  "agentOf assetId s = find (\<lambda>r. ma_assetId r = assetId) (gy_agents s)"

definition assetOf :: "string \<Rightarrow> agSys \<Rightarrow> agentAsset option" where
  "assetOf i s = find (\<lambda>a. gs_id a = i) (gy_assets s)"

definition noRecord :: error where
  "noRecord = NativeError ''Record to update not found''"

definition mapAgents :: "string \<Rightarrow> (managedAgent \<Rightarrow> managedAgent) \<Rightarrow> agSys \<Rightarrow> agSys" where
  "mapAgents i f s = s\<lparr>gy_agents := map (\<lambda>r. if ma_id r = i then f r else r) (gy_agents s)\<rparr>"

text \<open>\<^verbatim>\<open>prisma.managedAgent.update\<close>, \<^verbatim>\<open>prisma.managedAgent.delete\<close> and the update of the six polling columns of an asset.\<close>

definition updateAgent :: "string \<Rightarrow> (managedAgent \<Rightarrow> managedAgent) \<Rightarrow> (agSys, unit) io" where
  "updateAgent i f s = (if findAgent i s = None then (Inl noRecord, s) else (Inr (), mapAgents i f s))"

definition dropAgent :: "string \<Rightarrow> (agSys, unit) io" where
  "dropAgent i s =
     (if findAgent i s = None then (Inl noRecord, s)
      else (Inr (), s\<lparr>gy_agents := delete_rows (\<lambda>r. ma_id r = i) (gy_agents s)\<rparr>))"

definition setPolling :: "string \<Rightarrow> string option \<Rightarrow> (agSys, unit) io" where
  "setPolling assetId m s =
     (if assetOf assetId s = None then (Inl noRecord, s)
      else (Inr (), s\<lparr>gy_assets := map (\<lambda>a. if gs_id a = assetId then a\<lparr>gs_polling := (\<lambda>_. m)\<rparr> else a) (gy_assets s)\<rparr>))"

definition agentEvent :: "string \<Rightarrow> string \<Rightarrow> string \<Rightarrow> string option \<Rightarrow> (agSys, unit) io" where
  "agentEvent action level assetId actor =
     modifyIO (\<lambda>s. s\<lparr>gy_events := gy_events s @
       [\<lparr>ev_action = action, ev_level = level, ev_resourceType = ''asset'', ev_resourceId = Some assetId, ev_resourceName = None, ev_actor = actor\<rparr>]\<rparr>)"

text \<open>A guard of access control, run inside a route.\<close>

definition onAccess :: "(accState, 'a) io \<Rightarrow> (agSys, 'a) io" where
  "onAccess m s = (case m (gy_access s) of (r, ac) \<Rightarrow> (r, s\<lparr>gy_access := ac\<rparr>))"

definition assetsWrite :: "string \<Rightarrow> (agSys, string) io" where
  "assetsWrite sid =
     bindIO (onAccess (requirePermission sid ''assets'' WriteAccess)) (\<lambda>_.
     getIO (\<lambda>s. or_str (actorOf sid (gy_access s)) ''unknown''))"

section \<open>Tokens\<close>

definition ENROLLMENT_TTL_MS :: int where
  "ENROLLMENT_TTL_MS = 10 * 60 * 1000"

definition mintEnrollmentToken :: "(string \<Rightarrow> string) \<Rightarrow> string \<Rightarrow> string \<Rightarrow> int \<Rightarrow> (agSys, string) io" where
  "mintEnrollmentToken hash managedAgentId base64 now =
     (let raw = generateRawToken base64 in
      bindIO (updateAgent managedAgentId (\<lambda>r. r\<lparr>ma_enrollmentTokenHash := Some (hash raw), ma_enrollmentTokenPrefix := Some (shortToken raw),
        ma_enrollmentExpiresAt := Some (now + ENROLLMENT_TTL_MS)\<rparr>)) (\<lambda>_.
      returnIO raw))"

definition enrollable :: "string \<Rightarrow> int \<Rightarrow> managedAgent \<Rightarrow> bool" where
  "enrollable raw now r \<longleftrightarrow>
     ma_enrollmentTokenPrefix r = Some (shortToken raw) \<and> ma_enrollmentTokenHash r \<noteq> None \<and>
     (case ma_enrollmentExpiresAt r of None \<Rightarrow> False | Some e \<Rightarrow> now < e)"

definition opens :: "(string \<Rightarrow> string \<Rightarrow> bool) \<Rightarrow> string \<Rightarrow> string option \<Rightarrow> bool" where
  "opens argonVerify raw stored = (case stored of None \<Rightarrow> False | Some h \<Rightarrow> h \<noteq> [] \<and> verifyPassword argonVerify raw h)"

text \<open>The first half of \<^verbatim>\<open>consumeEnrollmentToken\<close>: the row the token opens.\<close>

definition enrollLookup :: "(string \<Rightarrow> string \<Rightarrow> bool) \<Rightarrow> string \<Rightarrow> int \<Rightarrow> (agSys, managedAgent) io" where
  "enrollLookup argonVerify raw now s =
     (if \<not> startsWith raw TOKEN_PREFIX then (Inl (AppError 401 ''Invalid enrollment token''), s)
      else
        (case find (\<lambda>r. opens argonVerify raw (ma_enrollmentTokenHash r)) (filter (enrollable raw now) (gy_agents s)) of
           None \<Rightarrow> (Inl (AppError 401 (''Enrollment token rejected '' @ emdash @ '' expired or already consumed'')), s)
         | Some r \<Rightarrow> (Inr r, s)))"

text \<open>The second half: the transaction.\<close>

definition enrollCommit :: "(string \<Rightarrow> string) \<Rightarrow> managedAgent \<Rightarrow> string \<Rightarrow> int \<Rightarrow> (agSys, string) io" where
  "enrollCommit hash row base64 now =
     (let bearer = generateRawToken base64 in
      bindIO (transactionIO
        (bindIO (updateAgent (ma_id row) (\<lambda>r. r\<lparr>ma_enrollmentTokenHash := None, ma_enrollmentTokenPrefix := None, ma_enrollmentExpiresAt := None,
           ma_bearerHash := Some (hash bearer), ma_bearerPrefix := Some (shortToken bearer), ma_bearerIssuedAt := Some now,
           ma_bearerRevokedAt := None, ma_installStatus := Active, ma_installError := None\<rparr>)) (\<lambda>_.
         setPolling (ma_assetId row) (Some ''agent'')))) (\<lambda>_.
      returnIO bearer))"

definition consumeEnrollmentToken ::
  "(string \<Rightarrow> string) \<Rightarrow> (string \<Rightarrow> string \<Rightarrow> bool) \<Rightarrow> string \<Rightarrow> string \<Rightarrow> int \<Rightarrow> (agSys, managedAgent \<times> string) io" where
  "consumeEnrollmentToken hash argonVerify raw base64 now =
     bindIO (enrollLookup argonVerify raw now) (\<lambda>row.
     bindIO (enrollCommit hash row base64 now) (\<lambda>bearer.
     returnIO (row, bearer)))"

definition liveBearer :: "string \<Rightarrow> managedAgent \<Rightarrow> bool" where
  "liveBearer raw r \<longleftrightarrow> ma_bearerPrefix r = Some (shortToken raw) \<and> ma_bearerHash r \<noteq> None \<and> ma_bearerRevokedAt r = None"

definition verifyBearer ::
  "(string \<Rightarrow> string \<Rightarrow> bool) \<Rightarrow> string \<Rightarrow> string option \<Rightarrow> int \<Rightarrow> agSys \<Rightarrow> (string \<times> string) option \<times> agSys" where
  "verifyBearer argonVerify raw callerIp now s =
     (if \<not> startsWith raw TOKEN_PREFIX then (None, s)
      else
        (case find (\<lambda>r. opens argonVerify raw (ma_bearerHash r)) (filter (liveBearer raw) (gy_agents s)) of
           None \<Rightarrow> (None, s)
         | Some r \<Rightarrow> (Some (ma_id r, ma_assetId r), mapAgents (ma_id r) (\<lambda>q. q\<lparr>ma_lastSeen := Some (now, callerIp)\<rparr>) s)))"

definition revokeBearer :: "string \<Rightarrow> int \<Rightarrow> (agSys, bool) io" where
  "revokeBearer managedAgentId now =
     bindIO (getIO (findAgent managedAgentId)) (\<lambda>found.
     case found of
       None \<Rightarrow> throwIO (AppError 404 ''Managed agent not found'')
     | Some r \<Rightarrow>
         (if ma_bearerRevokedAt r \<noteq> None then returnIO False
          else bindIO (updateAgent managedAgentId (\<lambda>q. q\<lparr>ma_bearerRevokedAt := Some now\<rparr>)) (\<lambda>_. returnIO True)))"

definition requireAgentBearer ::
  "(string \<Rightarrow> string \<Rightarrow> bool) \<Rightarrow> string option \<Rightarrow> string option \<Rightarrow> int \<Rightarrow> (agSys, string \<times> string) io" where
  "requireAgentBearer argonVerify auth callerIp now s =
     (case extractBearerToken auth of
        None \<Rightarrow> (Inl (AppError 401 (''Unauthorized '' @ emdash @ '' agent bearer required'')), s)
      | Some raw \<Rightarrow>
          (case verifyBearer argonVerify raw callerIp now s of
             (None, s') \<Rightarrow> (Inl (AppError 401 (''Unauthorized '' @ emdash @ '' agent bearer invalid or revoked'')), s')
           | (Some v, s') \<Rightarrow> (Inr v, s')))"

section \<open>Enrollment\<close>

record enrollBody =
  eb_enrollmentToken :: string
  eb_osPlatform :: string
  eb_arch :: string
  eb_agentVersion :: string
  eb_hostname :: "string option"
  eb_fingerprintSeen :: string

definition EnrollSchema :: "enrollBody \<Rightarrow> bool" where
  "EnrollSchema b \<longleftrightarrow>
     1 \<le> length (eb_enrollmentToken b) \<and> eb_osPlatform b \<in> {''linux'', ''darwin'', ''windows''} \<and> eb_arch b \<in> {''amd64'', ''arm64''} \<and>
     1 \<le> length (eb_agentVersion b) \<and> length (eb_agentVersion b) \<le> 64 \<and>
     (case eb_hostname b of None \<Rightarrow> True | Some h \<Rightarrow> length h \<le> 255) \<and>
     (let f = toLowerCase (eb_fingerprintSeen b) in startsWith f ''sha256:'' \<and> length f = 71 \<and> list_all is_hex_lower (drop 7 f))"

definition refuseEnrollment :: "managedAgent \<Rightarrow> string \<Rightarrow> int \<Rightarrow> (agSys, unit) io" where
  "refuseEnrollment row reason now =
     updateAgent (ma_id row) (\<lambda>r. r\<lparr>ma_installStatus := Failed, ma_installError := Some reason, ma_bearerRevokedAt := Some now\<rparr>)"

text \<open>The checks after the exchange of the token: they end in an error or record the version and return the bearer and the asset.\<close>

definition checkEnrolled :: "managedAgent \<Rightarrow> string \<Rightarrow> enrollBody \<Rightarrow> int \<Rightarrow> (agSys, string \<times> string) io" where
  "checkEnrolled row bearer b now =
     (let expectedPin = toLowerCase (ma_serverCertFingerprint row); observedPin = toLowerCase (eb_fingerprintSeen b) in
      if expectedPin \<noteq> observedPin
      then
        bindIO (refuseEnrollment row (''Cert pin mismatch '' @ emdash @ '' expected '' @ expectedPin @ '', agent saw '' @ observedPin) now) (\<lambda>_.
        bindIO (agentEvent ''agent.install_failed'' ''error'' (ma_assetId row) None) (\<lambda>_.
        throwIO (AppError 400 (''Server cert fingerprint mismatch '' @ emdash @ '' refusing enrollment''))))
      else if ma_osPlatform row \<noteq> eb_osPlatform b \<or> ma_arch row \<noteq> eb_arch b
      then
        bindIO (refuseEnrollment row (''Platform mismatch '' @ emdash @ '' install expected '' @ ma_osPlatform row @ ''/'' @ ma_arch row @
          '', agent reported '' @ eb_osPlatform b @ ''/'' @ eb_arch b) now) (\<lambda>_.
        throwIO (AppError 400 (''Platform/arch mismatch '' @ emdash @ '' refusing enrollment'')))
      else
        bindIO (updateAgent (ma_id row) (\<lambda>r. r\<lparr>ma_agentVersion := Some (eb_agentVersion b)\<rparr>)) (\<lambda>_.
        bindIO (agentEvent ''agent.enrolled'' ''info'' (ma_assetId row) None) (\<lambda>_.
        returnIO (bearer, ma_assetId row))))"

definition postEnroll ::
  "(string \<Rightarrow> string) \<Rightarrow> (string \<Rightarrow> string \<Rightarrow> bool) \<Rightarrow> enrollBody \<Rightarrow> string \<Rightarrow> int \<Rightarrow> (agSys, string \<times> string) io" where
  "postEnroll hash argonVerify b base64 now =
     (if \<not> EnrollSchema b then throwIO zodError
      else
        bindIO (consumeEnrollmentToken hash argonVerify (eb_enrollmentToken b) base64 now) (\<lambda>(row, bearer).
        checkEnrolled row bearer b now))"

text \<open>The part of \<^verbatim>\<open>GET /config\<close> that writes: an agent that asks for its settings owns all streams of its asset.\<close>

definition takeOverPolling :: "string \<Rightarrow> (agSys, unit) io" where
  "takeOverPolling assetId =
     bindIO (getIO (assetOf assetId)) (\<lambda>found.
     case found of
       None \<Rightarrow> throwIO (AppError 404 ''Asset not found'')
     | Some a \<Rightarrow>
         (if list_ex (\<lambda>st. gs_polling a st \<noteq> Some ''agent'') [ResponseTime, CpuMemory, Temperature, Interfaces, Lldp, Storage]
          then
            bindIO (setPolling assetId (Some ''agent'')) (\<lambda>_.
            agentEvent ''monitor.polling_overridden_by_agent'' ''info'' assetId None)
          else returnIO ()))"

definition postHeartbeat :: "string \<Rightarrow> string option \<Rightarrow> (agSys, unit) io" where
  "postHeartbeat managedAgentId agentVersion =
     (if (case agentVersion of None \<Rightarrow> False | Some v \<Rightarrow> v = [] \<or> 64 < length v) then throwIO zodError
      else if truthy agentVersion then updateAgent managedAgentId (\<lambda>r. r\<lparr>ma_agentVersion := agentVersion\<rparr>)
      else returnIO ())"

section \<open>Operator requests\<close>

definition AgentInstallSchema :: "string \<Rightarrow> string \<Rightarrow> string \<Rightarrow> bool" where
  "AgentInstallSchema credentialId osPlatform arch \<longleftrightarrow>
     isUuid credentialId \<and> osPlatform \<in> {''linux'', ''darwin'', ''windows''} \<and> arch \<in> {''amd64'', ''arm64''}"

fun sourceToken :: "assetSourceKind \<Rightarrow> string" where
  "sourceToken KFortimanager = ''fortimanager''" | "sourceToken KFortigate = ''fortigate''" | "sourceToken KActivedirectory = ''activedirectory''"
| "sourceToken KEntraid = ''entraid''" | "sourceToken KWindowsserver = ''windowsserver''" | "sourceToken KManual = ''manual''"

definition noServerUrl :: error where
  "noServerUrl = AppError 400 (''Polaris doesn''@ [CHR 0x27] @ ''t know what URL to embed in the remote agent'' @ [CHR 0x27] @ ''s agent.conf. '' @
     ''Set POLARIS_PUBLIC_URL in /opt/polaris/.env to your Polaris server'' @ [CHR 0x27] @ ''s public URL '' @
     ''(e.g. https://polaris.example.com:3000) and restart Polaris, OR regenerate the '' @
     ''HTTPS cert under Server Settings '' @ rarrow @ '' Certificates with a CN/SAN matching the '' @
     ''hostname remote hosts use to reach Polaris (the agent install path picks the '' @
     ''URL up from there automatically). Then retry the install.'')"

text \<open>Whether the address of this server is known to the remote host.\<close>

definition reachable :: "serverEnv \<Rightarrow> agentAsset \<Rightarrow> bool" where
  "reachable env a \<longleftrightarrow>
     truthy (sv_publicUrl env) \<or> truthy (sv_publicHost env) \<or>
     (let targetHost = or_str (gs_ipAddress a) (or_str (gs_dnsName a) (or_str (gs_hostname a) []))
      in targetHost \<in> {''127.0.0.1'', ''::1'', ''localhost''} \<or> toLowerCase targetHost = ''localhost.localdomain'') \<or>
     (case sv_certHost env of None \<Rightarrow> False | Some h \<Rightarrow> h \<notin> {[], ''localhost'', ''127.0.0.1'', ''::1''})"

definition newAgent :: "string \<Rightarrow> string \<Rightarrow> string \<Rightarrow> string \<Rightarrow> string \<Rightarrow> string \<Rightarrow> string \<Rightarrow> managedAgent" where
  "newAgent uid assetId osPlatform arch actor fingerprint credentialId =
     \<lparr>ma_id = uid, ma_assetId = assetId, ma_osPlatform = osPlatform, ma_arch = arch, ma_agentVersion = None, ma_installedBy = actor,
      ma_installCredentialId = Some credentialId, ma_installStatus = Pending, ma_installError = None, ma_enrollmentTokenHash = None,
      ma_enrollmentTokenPrefix = None, ma_enrollmentExpiresAt = None, ma_bearerHash = None, ma_bearerPrefix = None, ma_bearerIssuedAt = None,
      ma_bearerRevokedAt = None, ma_lastSeen = None, ma_serverCertFingerprint = fingerprint\<rparr>"

definition insertAgent :: "managedAgent \<Rightarrow> (agSys, unit) io" where
  "insertAgent row s =
     (case insert_row ma_id agentKey row (gy_agents s) of
        Inl e \<Rightarrow> (Inl e, s)
      | Inr rows \<Rightarrow> (Inr (), s\<lparr>gy_agents := rows\<rparr>))"

text \<open>The checks of the install route in their order; the fingerprint to pin.\<close>

definition installRefused :: "serverEnv \<Rightarrow> string \<Rightarrow> string \<Rightarrow> string \<Rightarrow> agSys \<Rightarrow> string result" where
  "installRefused env assetId credentialId osPlatform s =
     (case assetOf assetId s of
        None \<Rightarrow> Inl (AppError 404 ''Asset not found'')
      | Some a \<Rightarrow>
          (let sourceKind = assetSourceKindFromIntegrationType (gs_integrationType a);
               wantType = (if osPlatform = ''windows'' then ''winrm'' else ''ssh'') in
           if \<not> isPollingMethodCompatible sourceKind Agent
           then Inl (AppError 400 (''Polaris Agent is not compatible with '' @ sourceToken sourceKind @
                  '' sources. Compatible: manual, activedirectory, entraid, windowsserver.''))
           else
             (case map_of (gy_credentials s) credentialId of
                None \<Rightarrow> Inl (AppError 400 (''Credential '' @ credentialId @ '' not found''))
              | Some ty \<Rightarrow>
                  (if ty \<noteq> wantType
                   then Inl (AppError 400 (''Credential type \"'' @ ty @ ''\" doesn'' @ [CHR 0x27] @ ''t match osPlatform \"'' @ osPlatform @
                          ''\" '' @ emdash @ '' need \"'' @ wantType @ ''\"''))
                   else
                     (case agentOf assetId s of
                        Some existing \<Rightarrow>
                          Inl (AppError 409 (''Agent already installed (status='' @ statusToken (ma_installStatus existing) @
                            ''). Use reinstall to start over.''))
                      | None \<Rightarrow>
                          (if \<not> truthy (sv_fingerprint env)
                           then Inl (AppError 400 (''HTTPS is not running on this Polaris server '' @ emdash @
                                  '' agent install requires TLS for the cert pin. Enable HTTPS in Server Settings '' @ rarrow @ '' HTTPS first.''))
                           else if \<not> reachable env a then Inl noServerUrl
                           else Inr (the (sv_fingerprint env))))))))"

definition installAgent :: "serverEnv \<Rightarrow> string \<Rightarrow> string \<Rightarrow> string \<Rightarrow> string \<Rightarrow> string \<Rightarrow> string \<Rightarrow> (agSys, managedAgent) io" where
  "installAgent env sid assetId credentialId osPlatform arch uid =
     bindIO (assetsWrite sid) (\<lambda>actor.
     if \<not> AgentInstallSchema credentialId osPlatform arch then throwIO zodError
     else
       bindIO (getIO (installRefused env assetId credentialId osPlatform)) (\<lambda>checked.
       bindIO (liftIO checked) (\<lambda>fingerprint.
       let row = newAgent uid assetId osPlatform arch actor fingerprint credentialId in
       bindIO (insertAgent row) (\<lambda>_.
       bindIO (agentEvent ''agent.install_kickoff'' ''info'' assetId (Some actor)) (\<lambda>_.
       returnIO row)))))"

definition retryAgent :: "string \<Rightarrow> string \<Rightarrow> (agSys, managedAgent) io" where
  "retryAgent sid assetId =
     bindIO (assetsWrite sid) (\<lambda>actor.
     bindIO (getIO (\<lambda>s. (agentOf assetId s, gy_credentials s))) (\<lambda>(found, creds).
     case found of
       None \<Rightarrow> throwIO (AppError 404 ''No agent row to retry for this asset'')
     | Some row \<Rightarrow>
         (if ma_installStatus row \<noteq> Failed
          then throwIO (AppError 409 (''Agent installStatus is \"'' @ statusToken (ma_installStatus row) @ ''\"; only failed installs can be retried.''))
          else if \<not> truthy (ma_installCredentialId row)
          then throwIO (AppError 400 ''No install credential on file (credential was deleted). Force-remove the agent and start a fresh install.'')
          else if map_of creds (the (ma_installCredentialId row)) = None
          then throwIO (AppError 400 ''Original install credential no longer exists. Force-remove the agent and start a fresh install.'')
          else
            bindIO (updateAgent (ma_id row) (\<lambda>r. r\<lparr>ma_installStatus := Pending, ma_installError := None\<rparr>)) (\<lambda>_.
            bindIO (agentEvent ''agent.install_retry'' ''info'' assetId (Some actor)) (\<lambda>_.
            returnIO row)))))"

definition binaryKey :: "managedAgent \<Rightarrow> string" where
  "binaryKey r = ma_osPlatform r @ ''-'' @ ma_arch r"

definition startUpgrade :: "serverEnv \<Rightarrow> string \<Rightarrow> string option \<Rightarrow> string \<Rightarrow> (agSys, string) io" where
  "startUpgrade env managedAgentId credentialId actor =
     bindIO (getIO (findAgent managedAgentId)) (\<lambda>found.
     case found of
       None \<Rightarrow> throwIO (AppError 404 ''Managed agent not found'')
     | Some row \<Rightarrow>
         (if ma_installStatus row \<noteq> Active
          then throwIO (AppError 409 (''Agent installStatus is \"'' @ statusToken (ma_installStatus row) @ ''\"; only active agents can upgrade.''))
          else
            (case sv_manifest env of
               None \<Rightarrow> throwIO (AppError 400 (''No agent binaries available '' @ emdash @ '' build them first.''))
             | Some mf \<Rightarrow>
                 (if \<not> truthy (map_of (mf_binaries mf) (binaryKey row))
                  then throwIO (AppError 400 (''No agent binary for platform '' @ binaryKey row))
                  else if ma_agentVersion row = Some (mf_currentVersion mf)
                  then throwIO (AppError 409 (''Agent is already at v'' @ mf_currentVersion mf @ ''.''))
                  else
                    (let credential = (case credentialId of None \<Rightarrow> ma_installCredentialId row | Some c \<Rightarrow> Some c) in
                     if \<not> truthy credential
                     then throwIO (AppError 400 ''No install credential on file for this agent; pass credentialId explicitly.'')
                     else
                       bindIO (updateAgent (ma_id row) (\<lambda>r. r\<lparr>ma_installStatus := Upgrading, ma_installError := None\<rparr>)) (\<lambda>_.
                       bindIO (agentEvent ''agent.upgrade_kickoff'' ''info'' (ma_assetId row) (Some actor)) (\<lambda>_.
                       returnIO (mf_currentVersion mf))))))))"

definition upgradeAgent :: "serverEnv \<Rightarrow> string \<Rightarrow> string \<Rightarrow> string option \<Rightarrow> (agSys, string) io" where
  "upgradeAgent env sid assetId credentialId =
     bindIO (assetsWrite sid) (\<lambda>actor.
     if (case credentialId of None \<Rightarrow> False | Some c \<Rightarrow> \<not> isUuid c) then throwIO zodError
     else
       bindIO (getIO (agentOf assetId)) (\<lambda>found.
       case found of
         None \<Rightarrow> throwIO (AppError 404 ''No agent installed for this asset'')
       | Some row \<Rightarrow> startUpgrade env (ma_id row) credentialId actor))"

datatype removal = Forced | MarkedRevoked | UninstallStarted managedAgent

definition forget :: "string \<Rightarrow> string \<Rightarrow> (agSys, unit) io" where
  "forget managedAgentId assetId = transactionIO (bindIO (dropAgent managedAgentId) (\<lambda>_. setPolling assetId None))"

definition deleteAgent :: "string \<Rightarrow> string \<Rightarrow> string option \<Rightarrow> int \<Rightarrow> (agSys, removal) io" where
  "deleteAgent sid assetId force now =
     bindIO (assetsWrite sid) (\<lambda>actor.
     bindIO (getIO (agentOf assetId)) (\<lambda>found.
     case found of
       None \<Rightarrow> throwIO (AppError 404 ''No agent installed for this asset'')
     | Some row \<Rightarrow>
         bindIO (revokeBearer (ma_id row) now) (\<lambda>_.
         if toLowerCase (keep force []) = ''true''
         then
           bindIO (forget (ma_id row) assetId) (\<lambda>_.
           bindIO (agentEvent ''agent.force_removed'' ''warning'' assetId (Some actor)) (\<lambda>_.
           returnIO Forced))
         else
           bindIO (agentEvent ''agent.revoked'' ''warning'' assetId (Some actor)) (\<lambda>_.
           if \<not> truthy (ma_installCredentialId row)
           then bindIO (updateAgent (ma_id row) (\<lambda>r. r\<lparr>ma_installStatus := Revoked\<rparr>)) (\<lambda>_. returnIO MarkedRevoked)
           else returnIO (UninstallStarted row)))))"

section \<open>The runners\<close>

definition bestEffort :: "(agSys, unit) io \<Rightarrow> (agSys, unit) io" where
  "bestEffort m = catchIO m (\<lambda>_. returnIO ())"

definition failRun :: "installStatus \<Rightarrow> string \<Rightarrow> string \<Rightarrow> string option \<Rightarrow> managedAgent \<Rightarrow> string \<Rightarrow> (agSys, unit) io" where
  "failRun st action level actor row reason =
     bindIO (bestEffort (updateAgent (ma_id row) (\<lambda>r. r\<lparr>ma_installStatus := st, ma_installError := Some reason\<rparr>))) (\<lambda>_.
     agentEvent action level (ma_assetId row) actor)"

definition failInstall :: "managedAgent \<Rightarrow> string \<Rightarrow> (agSys, unit) io" where
  "failInstall = failRun Failed ''agent.install_failed'' ''error'' None"

definition failUninstall :: "managedAgent \<Rightarrow> string \<Rightarrow> (agSys, unit) io" where
  "failUninstall = failRun UninstallFailed ''agent.uninstall_failed'' ''warning'' None"

definition failUpgrade :: "string \<Rightarrow> managedAgent \<Rightarrow> string \<Rightarrow> (agSys, unit) io" where
  "failUpgrade actor = failRun UpgradeFailed ''agent.upgrade_failed'' ''warning'' (Some actor)"

definition transition :: "string \<Rightarrow> installStatus \<Rightarrow> (agSys, unit) io" where
  "transition managedAgentId st = updateAgent managedAgentId (\<lambda>r. r\<lparr>ma_installStatus := st, ma_installError := None\<rparr>)"

definition targetHost :: "managedAgent \<Rightarrow> agSys \<Rightarrow> string option" where
  "targetHost row s =
     (case assetOf (ma_assetId row) s of
        None \<Rightarrow> None
      | Some a \<Rightarrow> (case gs_ipAddress a of Some h \<Rightarrow> Some h | None \<Rightarrow> (case gs_dnsName a of Some h \<Rightarrow> Some h | None \<Rightarrow> gs_hostname a)))"

text \<open>What keeps a runner from reaching the host, in the order of the checks; the binaries are not checked for an uninstall.\<close>

definition binaryProblem :: "serverEnv \<Rightarrow> string \<Rightarrow> managedAgent \<Rightarrow> string option" where
  "binaryProblem env none row =
     (case sv_manifest env of
        None \<Rightarrow> Some none
      | Some mf \<Rightarrow>
          (if \<not> truthy (map_of (mf_binaries mf) (binaryKey row)) then Some (''No agent binary for platform '' @ binaryKey row) else None))"

definition credentialProblem :: "string \<Rightarrow> agSys \<Rightarrow> string option" where
  "credentialProblem credentialId s =
     (if map_of (gy_credentials s) credentialId = None then Some ''Credential lookup failed: Credential not found'' else None)"

definition first_some :: "'a option list \<Rightarrow> 'a option" where
  "first_some xs = (case filter (\<lambda>x. x \<noteq> None) xs of [] \<Rightarrow> None | x # _ \<Rightarrow> x)"

definition binaryUnreadable :: "serverEnv \<Rightarrow> string option" where
  "binaryUnreadable env = map_option (\<lambda>e. ''Failed to read agent binary at '' @ e) (sv_binaryError env)"

text \<open>
  \<^verbatim>\<open>runInstall\<close> up to the remote work: the row it runs for, or nothing if it ended. The directory named in the first
  message is part of \<open>none\<close>.
\<close>

definition installBegin :: "serverEnv \<Rightarrow> string \<Rightarrow> (string \<Rightarrow> string) \<Rightarrow> string \<Rightarrow> string \<Rightarrow> string \<Rightarrow> int \<Rightarrow> (agSys, managedAgent option) io" where
  "installBegin env none hash managedAgentId credentialId base64 now =
     bindIO (getIO (findAgent managedAgentId)) (\<lambda>found.
     case found of
       None \<Rightarrow> returnIO None
     | Some row \<Rightarrow>
         bindIO (mintEnrollmentToken hash managedAgentId base64 now) (\<lambda>_.
         bindIO (getIO (\<lambda>s. first_some
           [if truthy (targetHost row s) then None else Some ''Asset has no IP, dnsName, or hostname to connect to'',
            binaryProblem env none row, binaryUnreadable env, credentialProblem credentialId s])) (\<lambda>problem.
         case problem of
           Some reason \<Rightarrow> bindIO (failInstall row reason) (\<lambda>_. returnIO None)
         | None \<Rightarrow> bindIO (transition managedAgentId Uploading) (\<lambda>_. returnIO (Some row)))))"

definition installEnd :: "managedAgent \<Rightarrow> string option \<Rightarrow> (agSys, unit) io" where
  "installEnd row failure =
     (if ma_osPlatform row \<notin> {''linux'', ''darwin'', ''windows''} then failInstall row (''Unsupported osPlatform '' @ ma_osPlatform row)
      else
        (case failure of
           Some reason \<Rightarrow> failInstall row reason
         | None \<Rightarrow>
             bindIO (transition (ma_id row) Enrolling) (\<lambda>_.
             agentEvent ''agent.installed'' ''info'' (ma_assetId row) None)))"

definition uninstallBegin :: "string \<Rightarrow> string \<Rightarrow> (agSys, managedAgent option) io" where
  "uninstallBegin managedAgentId credentialId =
     bindIO (getIO (findAgent managedAgentId)) (\<lambda>found.
     case found of
       None \<Rightarrow> returnIO None
     | Some row \<Rightarrow>
         bindIO (getIO (\<lambda>s. first_some
           [if truthy (targetHost row s) then None else Some ''Asset has no IP/dnsName/hostname to connect to'', credentialProblem credentialId s]))
           (\<lambda>problem.
         case problem of
           Some reason \<Rightarrow> bindIO (failUninstall row reason) (\<lambda>_. returnIO None)
         | None \<Rightarrow> bindIO (transition managedAgentId Uninstalling) (\<lambda>_. returnIO (Some row))))"

definition uninstallEnd :: "managedAgent \<Rightarrow> string option \<Rightarrow> (agSys, unit) io" where
  "uninstallEnd row failure =
     (case if ma_osPlatform row \<in> {''linux'', ''darwin'', ''windows''} then failure else None of
        Some reason \<Rightarrow> failUninstall row reason
      | None \<Rightarrow>
          bindIO (forget (ma_id row) (ma_assetId row)) (\<lambda>_.
          agentEvent ''agent.uninstalled'' ''info'' (ma_assetId row) None))"

definition upgradeBegin :: "serverEnv \<Rightarrow> string \<Rightarrow> string \<Rightarrow> string \<Rightarrow> (agSys, managedAgent option) io" where
  "upgradeBegin env managedAgentId credentialId actor =
     bindIO (getIO (findAgent managedAgentId)) (\<lambda>found.
     case found of
       None \<Rightarrow> returnIO None
     | Some row \<Rightarrow>
         bindIO (getIO (\<lambda>s. first_some
           [if truthy (targetHost row s) then None else Some ''Asset has no IP, dnsName, or hostname to connect to'',
            binaryProblem env (''No agent binaries available '' @ emdash @ '' build them first.'') row, credentialProblem credentialId s,
            if ma_osPlatform row \<in> {''linux'', ''darwin''} then binaryUnreadable env else None])) (\<lambda>problem.
         case problem of
           Some reason \<Rightarrow> bindIO (failUpgrade actor row reason) (\<lambda>_. returnIO None)
         | None \<Rightarrow> returnIO (Some row)))"

definition upgradeEnd :: "managedAgent \<Rightarrow> string \<Rightarrow> string option \<Rightarrow> (agSys, unit) io" where
  "upgradeEnd row actor failure =
     (if ma_osPlatform row \<notin> {''linux'', ''darwin'', ''windows''} then failUpgrade actor row (''Unsupported osPlatform '' @ ma_osPlatform row)
      else
        (case failure of
           Some reason \<Rightarrow> failUpgrade actor row reason
         | None \<Rightarrow>
             bindIO (transition (ma_id row) Active) (\<lambda>_.
             agentEvent ''agent.upgrade_succeeded'' ''info'' (ma_assetId row) (Some actor))))"

end
