(* ===== verification/AgentSpec.thy ===== *)
theory AgentSpec
  imports Agents TokenSpec IoLogic
begin

text \<open>
  What the agent tokens guarantee under any interleaving of enrollments, operator requests and runners: a bearer only
  ever stands for the asset it was issued for, and an enrollment token opens one row once. And where the exchange is not
  atomic: two enrollments in flight, a revocation with an enrollment outstanding, a refused enrollment, and an
  installation that ends after the agent has enrolled.
\<close>

section \<open>Calls\<close>

datatype agentCall =
    InstallAgent serverEnv string string string string string string
  | RetryAgent string string
  | UpgradeAgent serverEnv string string "string option"
  | DeleteAgent string string "string option" int
  | InstallBegin serverEnv string string string string int
  | InstallEnd managedAgent "string option"
  | UninstallBegin string string
  | UninstallEnd managedAgent "string option"
  | UpgradeBegin serverEnv string string string
  | UpgradeEnd managedAgent string "string option"
  | Commit managedAgent string int
  | Check managedAgent string enrollBody int
  | Enroll enrollBody string int
  | PresentBearer string "string option" int
  | TakeOver string
  | Heartbeat string "string option"

fun agentStep :: "(string \<Rightarrow> string) \<Rightarrow> (string \<Rightarrow> string \<Rightarrow> bool) \<Rightarrow> agSys \<Rightarrow> agentCall \<Rightarrow> agSys" where
  "agentStep hash argonVerify s (InstallAgent env sid a c os arch uid) = snd (installAgent env sid a c os arch uid s)"
| "agentStep hash argonVerify s (RetryAgent sid a) = snd (retryAgent sid a s)"
| "agentStep hash argonVerify s (UpgradeAgent env sid a c) = snd (upgradeAgent env sid a c s)"
| "agentStep hash argonVerify s (DeleteAgent sid a force now) = snd (deleteAgent sid a force now s)"
| "agentStep hash argonVerify s (InstallBegin env none i c base64 now) = snd (installBegin env none hash i c base64 now s)"
| "agentStep hash argonVerify s (InstallEnd row failure) = snd (installEnd row failure s)"
| "agentStep hash argonVerify s (UninstallBegin i c) = snd (uninstallBegin i c s)"
| "agentStep hash argonVerify s (UninstallEnd row failure) = snd (uninstallEnd row failure s)"
| "agentStep hash argonVerify s (UpgradeBegin env i c actor) = snd (upgradeBegin env i c actor s)"
| "agentStep hash argonVerify s (UpgradeEnd row actor failure) = snd (upgradeEnd row actor failure s)"
| "agentStep hash argonVerify s (Commit row base64 now) = snd (enrollCommit hash row base64 now s)"
| "agentStep hash argonVerify s (Check row bearer b now) = snd (checkEnrolled row bearer b now s)"
| "agentStep hash argonVerify s (Enroll b base64 now) = snd (postEnroll hash argonVerify b base64 now s)"
| "agentStep hash argonVerify s (PresentBearer raw ip now) = snd (verifyBearer argonVerify raw ip now s)"
| "agentStep hash argonVerify s (TakeOver a) = snd (takeOverPolling a s)"
| "agentStep hash argonVerify s (Heartbeat i v) = snd (postHeartbeat i v s)"

text \<open>The random bytes a call turns into an enrollment token and into a bearer.\<close>

fun minted :: "agentCall \<Rightarrow> string option" where
  "minted (InstallBegin env none i c base64 now) = Some base64"
| "minted _ = None"

fun issued :: "agentCall \<Rightarrow> string option" where
  "issued (Commit row base64 now) = Some base64"
| "issued (Enroll b base64 now) = Some base64"
| "issued _ = None"

section \<open>A property of every row\<close>

definition tokenView :: "managedAgent \<Rightarrow> string \<times> string \<times> string option \<times> string option" where
  "tokenView r = (ma_id r, ma_assetId r, ma_enrollmentTokenHash r, ma_bearerHash r)"

definition rows :: "(managedAgent \<Rightarrow> bool) \<Rightarrow> agSys \<Rightarrow> bool" where
  "rows Q s \<longleftrightarrow> list_all Q (gy_agents s)"

lemma rows_simps [simp]:
  "rows Q (s\<lparr>gy_assets := x\<rparr>) = rows Q s" "rows Q (s\<lparr>gy_events := y\<rparr>) = rows Q s" "rows Q (s\<lparr>gy_access := z\<rparr>) = rows Q s"
  by (simp_all add: rows_def)

lemma keeps_snd: "keeps I m \<Longrightarrow> I s \<Longrightarrow> I (snd (m s))"
  by (rule keepsD [where r = "fst (m s)"]) simp_all

lemma keeps_rows_prims:
  "keeps (rows Q) (agentEvent a l i u)" "keeps (rows Q) (onAccess m)" "keeps (rows Q) (setPolling i p)" "keeps (rows Q) (dropAgent i)"
  by (rule keepsI, auto simp: agentEvent_def modifyIO_def onAccess_def setPolling_def dropAgent_def rows_def delete_rows_def list_all_iff
      split: prod.splits if_splits)+

lemma keeps_update: "(\<And>r. Q r \<Longrightarrow> Q (f r)) \<Longrightarrow> keeps (rows Q) (updateAgent i f)"
  by (rule keepsI) (auto simp: updateAgent_def mapAgents_def rows_def list_all_iff split: if_splits)

definition allowed :: "(string \<Rightarrow> bool) \<Rightarrow> (string \<Rightarrow> bool) \<Rightarrow> agentCall \<Rightarrow> bool" where
  "allowed mintable issuable c \<longleftrightarrow>
     (case minted c of None \<Rightarrow> True | Some b \<Rightarrow> mintable b) \<and> (case issued c of None \<Rightarrow> True | Some b \<Rightarrow> issuable b)"

text \<open>
  A property that depends on the two hashes and the ids only, holds of a row without hashes and survives the tokens that are
  made meanwhile.
\<close>

locale token_rows =
  fixes hash :: "string \<Rightarrow> string"
    and Q :: "managedAgent \<Rightarrow> bool"
    and mintable issuable :: "string \<Rightarrow> bool"
  assumes same_view: "tokenView r' = tokenView r \<Longrightarrow> Q r \<Longrightarrow> Q r'"
    and bare: "ma_enrollmentTokenHash r = None \<Longrightarrow> ma_bearerHash r = None \<Longrightarrow> Q r"
    and mint: "mintable b \<Longrightarrow> Q r \<Longrightarrow> Q (r\<lparr>ma_enrollmentTokenHash := Some (hash (generateRawToken b))\<rparr>)"
    and issue: "issuable b \<Longrightarrow> Q r \<Longrightarrow> Q (r\<lparr>ma_enrollmentTokenHash := None, ma_bearerHash := Some (hash (generateRawToken b))\<rparr>)"
begin

lemma keeps_calm: "(\<And>r. tokenView (f r) = tokenView r) \<Longrightarrow> keeps (rows Q) (updateAgent i f)"
  by (rule keeps_update) (rule same_view)

lemma keeps_insert: "ma_enrollmentTokenHash r = None \<Longrightarrow> ma_bearerHash r = None \<Longrightarrow> keeps (rows Q) (insertAgent r)"
  by (rule keepsI) (auto simp: insertAgent_def insert_row_def rows_def bare split: if_splits sum.splits)

lemma keeps_mint: "mintable b \<Longrightarrow> keeps (rows Q) (mintEnrollmentToken hash i b now)"
  unfolding mintEnrollmentToken_def Let_def
  by (intro keeps_rules keeps_update) (rule same_view [OF _ mint], auto simp: tokenView_def)

lemma keeps_commit: "issuable b \<Longrightarrow> keeps (rows Q) (enrollCommit hash row b now)"
  unfolding enrollCommit_def Let_def
  by (intro keeps_rules keeps_rows_prims keeps_update) (rule same_view [OF _ issue], auto simp: tokenView_def)

lemma keeps_lookup: "keeps (rows Q) (enrollLookup argonVerify raw now)"
  by (rule keepsI) (auto simp: enrollLookup_def split: if_splits option.splits)

lemma keeps_runs:
  "keeps (rows Q) (failRun st a l u row reason)" "keeps (rows Q) (transition i st)" "keeps (rows Q) (forget i a')"
  "keeps (rows Q) (revokeBearer i now)" "keeps (rows Q) (assetsWrite sid)" "keeps (rows Q) (refuseEnrollment row reason now)"
  unfolding failRun_def bestEffort_def transition_def forget_def revokeBearer_def assetsWrite_def refuseEnrollment_def
  by (intro keeps_rules keeps_rows_prims keeps_calm; simp add: tokenView_def)+

lemma keeps_check: "keeps (rows Q) (checkEnrolled row bearer b now)"
  unfolding checkEnrolled_def by (intro keeps_rules keeps_rows_prims keeps_runs keeps_calm; simp add: tokenView_def)

lemma keeps_enroll: "issuable base64 \<Longrightarrow> keeps (rows Q) (postEnroll hash argonVerify b base64 now)"
  unfolding postEnroll_def consumeEnrollmentToken_def by (intro keeps_rules keeps_lookup keeps_commit keeps_check) simp_all

lemma keeps_operator:
  "keeps (rows Q) (installAgent env sid a c os arch uid)" "keeps (rows Q) (retryAgent sid a)" "keeps (rows Q) (upgradeAgent env sid a cr)"
  "keeps (rows Q) (deleteAgent sid a force now)"
  unfolding installAgent_def retryAgent_def upgradeAgent_def startUpgrade_def deleteAgent_def Let_def
  by (intro keeps_rules keeps_rows_prims keeps_runs keeps_insert keeps_calm; simp add: tokenView_def newAgent_def)+

lemma keeps_runners:
  "mintable base64 \<Longrightarrow> keeps (rows Q) (installBegin env none hash i c base64 now)" "keeps (rows Q) (installEnd row failure)"
  "keeps (rows Q) (uninstallBegin i c)" "keeps (rows Q) (uninstallEnd row failure)" "keeps (rows Q) (upgradeBegin env i c actor)"
  "keeps (rows Q) (upgradeEnd row actor failure)"
  unfolding installBegin_def installEnd_def uninstallBegin_def uninstallEnd_def upgradeBegin_def upgradeEnd_def
    failInstall_def failUninstall_def failUpgrade_def
  by (intro keeps_rules keeps_rows_prims keeps_runs keeps_mint; simp)+

lemma keeps_agent_side: "keeps (rows Q) (takeOverPolling a)" "keeps (rows Q) (postHeartbeat i v)"
  unfolding takeOverPolling_def postHeartbeat_def by (intro keeps_rules keeps_rows_prims keeps_calm; simp add: tokenView_def)+

lemma rows_present: "rows Q s \<Longrightarrow> rows Q (snd (verifyBearer argonVerify raw ip now s))"
proof -
  have "Q (r\<lparr>ma_lastSeen := v\<rparr>)" if "Q r" for r v by (rule same_view [OF _ that]) (simp add: tokenView_def)
  then show "rows Q s \<Longrightarrow> ?thesis" by (auto simp: verifyBearer_def mapAgents_def rows_def list_all_iff split: option.split)
qed

lemma step_rows:
  assumes "rows Q s" "allowed mintable issuable c"
  shows "rows Q (agentStep hash argonVerify s c)"
proof (cases c)
  case (PresentBearer raw ip now)
  then show ?thesis using rows_present [OF assms(1)] by simp
qed (use assms in \<open>auto simp: allowed_def intro!: keeps_snd keeps_operator keeps_runners keeps_commit keeps_check keeps_enroll keeps_agent_side\<close>)

lemma run_rows: "rows Q s \<Longrightarrow> \<forall>c \<in> set calls. allowed mintable issuable c \<Longrightarrow> rows Q (foldl (agentStep hash argonVerify) s calls)"
  by (induction calls arbitrary: s) (simp_all add: step_rows)

end

text \<open>No row is opened by the enrollment token \<open>raw\<close>, and every row the bearer \<open>raw\<close> opens is that of one agent and asset.\<close>

definition unopened :: "(string \<Rightarrow> string \<Rightarrow> bool) \<Rightarrow> string \<Rightarrow> managedAgent \<Rightarrow> bool" where
  "unopened argonVerify raw r \<longleftrightarrow> \<not> opens argonVerify raw (ma_enrollmentTokenHash r)"

definition standsFor :: "(string \<Rightarrow> string \<Rightarrow> bool) \<Rightarrow> string \<Rightarrow> string \<times> string \<Rightarrow> managedAgent \<Rightarrow> bool" where
  "standsFor argonVerify raw who r \<longleftrightarrow> (opens argonVerify raw (ma_bearerHash r) \<longrightarrow> (ma_id r, ma_assetId r) = who)"

text \<open>Bytes that give another token than \<open>raw\<close>.\<close>

definition freshBytes :: "(string \<Rightarrow> string) \<Rightarrow> (string \<Rightarrow> string \<Rightarrow> bool) \<Rightarrow> string \<Rightarrow> string \<Rightarrow> bool" where
  "freshBytes hash argonVerify raw b \<longleftrightarrow> \<not> opens argonVerify raw (Some (hash (generateRawToken b)))"

interpretation enrolled: token_rows hash "unopened argonVerify raw" "freshBytes hash argonVerify raw" "\<lambda>_. True"
  by unfold_locales (auto simp: unopened_def opens_def freshBytes_def tokenView_def)

interpretation bearers: token_rows hash "standsFor argonVerify raw who" "\<lambda>_. True" "freshBytes hash argonVerify raw"
  by unfold_locales (auto simp: standsFor_def opens_def freshBytes_def tokenView_def)

section \<open>One agent per asset\<close>

definition agentsOk :: "agSys \<Rightarrow> bool" where
  "agentsOk s \<longleftrightarrow> table_ok ma_id agentKey (gy_agents s)"

lemma agentsOk_simps [simp]:
  "agentsOk (s\<lparr>gy_assets := x\<rparr>) = agentsOk s" "agentsOk (s\<lparr>gy_events := y\<rparr>) = agentsOk s" "agentsOk (s\<lparr>gy_access := z\<rparr>) = agentsOk s"
  by (simp_all add: agentsOk_def)

lemma agentsOk_map:
  assumes "agentsOk s" "\<And>r. ma_id (f r) = ma_id r \<and> ma_assetId (f r) = ma_assetId r"
  shows "agentsOk (mapAgents i f s)"
  using assms
  by (simp add: agentsOk_def mapAgents_def table_ok_def distinct_map_upd map_filter_upd agentKey_def del: map_map)

lemma keeps_ok_prims:
  "keeps agentsOk (agentEvent a l i u)" "keeps agentsOk (onAccess m)" "keeps agentsOk (setPolling i p)" "keeps agentsOk (dropAgent i)"
  "keeps agentsOk (insertAgent row)"
  by (rule keepsI, auto simp: agentEvent_def modifyIO_def onAccess_def setPolling_def dropAgent_def insertAgent_def agentsOk_def
      intro: agt.del_good agt.ins_good split: prod.splits if_splits sum.splits)+

lemma keeps_ok_update: "(\<And>r. ma_id (f r) = ma_id r \<and> ma_assetId (f r) = ma_assetId r) \<Longrightarrow> keeps agentsOk (updateAgent i f)"
  by (rule keepsI) (auto simp: updateAgent_def agentsOk_map split: if_splits)

lemma agentStep_ok: "agentsOk s \<Longrightarrow> agentsOk (agentStep hash argonVerify s c)"
proof (cases c)
  case (PresentBearer raw ip now)
  then show "agentsOk s \<Longrightarrow> ?thesis" by (auto simp: verifyBearer_def agentsOk_map split: option.split)
next
  case (Enroll b base64 now)
  have "keeps agentsOk (enrollLookup argonVerify raw now)" for raw by (rule keepsI) (auto simp: enrollLookup_def split: if_splits option.splits)
  then have "keeps agentsOk (postEnroll hash argonVerify b base64 now)"
    unfolding postEnroll_def consumeEnrollmentToken_def enrollCommit_def checkEnrolled_def refuseEnrollment_def Let_def
    by (intro keeps_rules keeps_ok_prims keeps_ok_update) simp_all
  then show "agentsOk s \<Longrightarrow> ?thesis" by (simp add: Enroll keeps_snd)
qed (simp_all, (rule keeps_snd, unfold installAgent_def retryAgent_def upgradeAgent_def startUpgrade_def deleteAgent_def installBegin_def
     installEnd_def uninstallBegin_def uninstallEnd_def upgradeBegin_def upgradeEnd_def enrollCommit_def checkEnrolled_def refuseEnrollment_def
     takeOverPolling_def postHeartbeat_def failInstall_def failUninstall_def failUpgrade_def failRun_def bestEffort_def transition_def
     forget_def revokeBearer_def assetsWrite_def mintEnrollmentToken_def Let_def,
     intro keeps_rules keeps_ok_prims keeps_ok_update; simp)+)

interpretation agents: kept_invariant "agentStep hash argonVerify" agentsOk
  by unfold_locales (rule agentStep_ok)

section \<open>The exchange of an enrollment token\<close>

lemma opens_hash:
  assumes "argon2Ok hash argonVerify"
  shows "opens argonVerify raw (Some (hash p)) \<longleftrightarrow> p = raw"
proof -
  have "startsWith (hash p) ''$argon2''" using assms by (simp add: argon2Ok_def)
  then obtain u where "hash p = ''$argon2'' @ u" unfolding startsWith_iff by blast
  then have "hash p \<noteq> []" by simp
  then show ?thesis using verify_hash [OF assms, of raw p] by (simp add: opens_def)
qed

lemma opens_None [simp]: "\<not> opens argonVerify raw None"
  by (simp add: opens_def)

definition enrolledRow :: "(string \<Rightarrow> string) \<Rightarrow> string \<Rightarrow> int \<Rightarrow> managedAgent \<Rightarrow> managedAgent" where
  "enrolledRow hash bearer now r =
     r\<lparr>ma_enrollmentTokenHash := None, ma_enrollmentTokenPrefix := None, ma_enrollmentExpiresAt := None, ma_bearerHash := Some (hash bearer),
       ma_bearerPrefix := Some (shortToken bearer), ma_bearerIssuedAt := Some now, ma_bearerRevokedAt := None, ma_installStatus := Active,
       ma_installError := None\<rparr>"

lemma enrolledRow_simps [simp]:
  "ma_id (enrolledRow hash bearer now r) = ma_id r" "ma_assetId (enrolledRow hash bearer now r) = ma_assetId r"
  "ma_enrollmentTokenHash (enrolledRow hash bearer now r) = None" "ma_bearerHash (enrolledRow hash bearer now r) = Some (hash bearer)"
  "ma_bearerPrefix (enrolledRow hash bearer now r) = Some (shortToken bearer)" "ma_bearerRevokedAt (enrolledRow hash bearer now r) = None"
  by (simp_all add: enrolledRow_def)

lemma commit_result:
  assumes "enrollCommit hash row base64 now s = (Inr bearer, t)"
  shows "bearer = generateRawToken base64" "findAgent (ma_id row) s \<noteq> None" "assetOf (ma_assetId row) s \<noteq> None"
    "gy_agents t = map (\<lambda>r. if ma_id r = ma_id row then enrolledRow hash bearer now r else r) (gy_agents s)"
    "gy_assets t = map (\<lambda>a. if gs_id a = ma_assetId row then a\<lparr>gs_polling := (\<lambda>_. Some ''agent'')\<rparr> else a) (gy_assets s)"
  using assms
  by (auto simp: enrollCommit_def Let_def bindIO_def transactionIO_def updateAgent_def setPolling_def mapAgents_def assetOf_def enrolledRow_def
      split: if_splits)

lemma commit_returns:
  assumes "findAgent (ma_id row) s \<noteq> None" "assetOf (ma_assetId row) s \<noteq> None"
  shows "\<exists>t. enrollCommit hash row base64 now s = (Inr (generateRawToken base64), t)"
  using assms by (simp add: enrollCommit_def Let_def bindIO_def transactionIO_def updateAgent_def setPolling_def mapAgents_def assetOf_def)

lemma lookup_result:
  assumes "enrollLookup argonVerify raw now s = (Inr row, t)"
  shows "t = s" "row \<in> set (gy_agents s)" "enrollable raw now row" "opens argonVerify raw (ma_enrollmentTokenHash row)" "startsWith raw TOKEN_PREFIX"
  using assms by (auto simp: enrollLookup_def dest: find_SomeD split: if_splits option.splits)

lemma consume_result:
  assumes "consumeEnrollmentToken hash argonVerify raw base64 now s = (Inr (row, bearer), t)"
  shows "enrollLookup argonVerify raw now s = (Inr row, s)" "enrollCommit hash row base64 now s = (Inr bearer, t)"
  using assms by (auto simp: consumeEnrollmentToken_def bindIO_Inr dest: lookup_result(1))

lemma bearer_holders:
  "fst (verifyBearer argonVerify raw ip now s) =
     (if startsWith raw TOKEN_PREFIX
      then map_option (\<lambda>r. (ma_id r, ma_assetId r)) (find (liveBearer raw) (filter (\<lambda>r. opens argonVerify raw (ma_bearerHash r)) (gy_agents s)))
      else None)"
  by (auto simp: verifyBearer_def find_filter [of _ "liveBearer raw"] split: option.split)

lemma agent_unique: "agentsOk s \<Longrightarrow> r \<in> set (gy_agents s) \<Longrightarrow> q \<in> set (gy_agents s) \<Longrightarrow> ma_id q = ma_id r \<Longrightarrow> q = r"
  using agt.good_id [of "gy_agents s"] by (auto simp: agentsOk_def distinct_map inj_on_def)

text \<open>A bearer that only the row of one agent has.\<close>

lemma bearer_of:
  assumes "rows (standsFor argonVerify raw who) s"
  shows "fst (verifyBearer argonVerify raw ip now s) \<in> {None, Some who}"
  using assms
  by (cases "find (liveBearer raw) (filter (\<lambda>r. opens argonVerify raw (ma_bearerHash r)) (gy_agents s))")
     (auto simp: bearer_holders rows_def list_all_iff standsFor_def dest: find_SomeD)

lemma bearer_accepted:
  assumes "startsWith raw TOKEN_PREFIX" "rows (standsFor argonVerify raw who) s" "r \<in> set (gy_agents s)" "liveBearer raw r"
    and "opens argonVerify raw (ma_bearerHash r)"
  shows "fst (verifyBearer argonVerify raw ip now s) = Some who"
proof -
  have "find (liveBearer raw) (filter (\<lambda>r. opens argonVerify raw (ma_bearerHash r)) (gy_agents s)) \<noteq> None"
    using assms(3-5) by (auto simp: find_None_iff)
  then show ?thesis using assms(1) bearer_of [OF assms(2), of ip now] by (auto simp: bearer_holders)
qed

lemma commit_stands:
  assumes "argon2Ok hash argonVerify" "agentsOk s" "row \<in> set (gy_agents s)" "rows (\<lambda>r. \<not> opens argonVerify (generateRawToken base64) (ma_bearerHash r)) s"
    and "enrollCommit hash row base64 now s = (Inr bearer, t)"
  shows "rows (standsFor argonVerify bearer (ma_id row, ma_assetId row)) t" "fst (verifyBearer argonVerify bearer ip later t) = Some (ma_id row, ma_assetId row)"
proof -
  note c = commit_result [OF assms(5)]
  have "ma_assetId r = ma_assetId row" if "r \<in> set (gy_agents s)" "ma_id r = ma_id row" for r using agent_unique [OF assms(2,3) that] by simp
  then show stands: "rows (standsFor argonVerify bearer (ma_id row, ma_assetId row)) t"
    using assms(4) unfolding rows_def c(1,4) list_all_iff by (auto simp: standsFor_def)
  have member: "enrolledRow hash bearer now row \<in> set (gy_agents t)" using assms(3) by (auto simp: c(4))
  show "fst (verifyBearer argonVerify bearer ip later t) = Some (ma_id row, ma_assetId row)"
    by (rule bearer_accepted [OF _ stands member])
       (simp_all add: c(1) raw_shape(1) liveBearer_def opens_hash [OF assms(1)])
qed

text \<open>
  C15. A bearer stands for one asset for good: after an enrollment issued it, it is accepted for the agent and asset of the row
  the enrollment token belonged to, and however enrollments, operator requests and runners interleave later, it is
  accepted for this agent and asset or not at all. At no time does an asset have two agents.
\<close>

theorem bearer_bound_to_asset:
  assumes "argon2Ok hash argonVerify" "agentsOk s" "consumeEnrollmentToken hash argonVerify raw base64 now s = (Inr (row, bearer), s1)"
    and "rows (\<lambda>r. \<not> opens argonVerify bearer (ma_bearerHash r)) s" "\<forall>c \<in> set calls. map_option generateRawToken (issued c) \<noteq> Some bearer"
    and "t = foldl (agentStep hash argonVerify) s1 calls"
  shows "fst (verifyBearer argonVerify bearer ip later s1) = Some (ma_id row, ma_assetId row) \<and>
    fst (verifyBearer argonVerify bearer ip later t) \<in> {None, Some (ma_id row, ma_assetId row)} \<and> distinct (map ma_assetId (gy_agents t))"
proof (intro conjI)
  note c = consume_result [OF assms(3)]
  have b: "bearer = generateRawToken base64" by (rule commit_result(1) [OF c(2)])
  note stands = commit_stands [OF assms(1,2) lookup_result(2) [OF c(1)] assms(4) [unfolded b] c(2)]
  show "fst (verifyBearer argonVerify bearer ip later s1) = Some (ma_id row, ma_assetId row)" by (rule stands(2))
  have "\<forall>c \<in> set calls. allowed (\<lambda>_. True) (freshBytes hash argonVerify bearer) c"
    using assms(5) by (auto simp: allowed_def freshBytes_def opens_hash [OF assms(1)] split: option.splits)
  from bearers.run_rows [OF stands(1) this] show "fst (verifyBearer argonVerify bearer ip later t) \<in> {None, Some (ma_id row, ma_assetId row)}"
    unfolding assms(6) by (rule bearer_of)
  have "agentsOk s1" using agents.step_good [OF assms(2), of hash argonVerify "Commit row base64 now"] by (simp add: c(2))
  from agents.run_good [OF this] show "distinct (map ma_assetId (gy_agents t))"
    by (simp add: assms(6) agentsOk_def table_ok_def agentKey_def map_filter_def comp_def)
qed

text \<open>
  C16. An enrollment token is good for one enrollment: after it was exchanged it is rejected for ever, whatever else happens, unless
  the same bytes are drawn again.
\<close>

theorem enrollment_once:
  assumes "argon2Ok hash argonVerify" "consumeEnrollmentToken hash argonVerify raw base64 now s = (Inr (row, bearer), s1)"
    and "\<forall>r \<in> set (gy_agents s). opens argonVerify raw (ma_enrollmentTokenHash r) \<longrightarrow> ma_id r = ma_id row"
    and "\<forall>c \<in> set calls. map_option generateRawToken (minted c) \<noteq> Some raw" "t = foldl (agentStep hash argonVerify) s1 calls"
  shows "consumeEnrollmentToken hash argonVerify raw base64' later t =
    (Inl (AppError 401 (''Enrollment token rejected '' @ emdash @ '' expired or already consumed'')), t)"
proof -
  note c = consume_result [OF assms(2)]
  have "rows (unopened argonVerify raw) s1"
    using assms(3) unfolding rows_def commit_result(4) [OF c(2)] by (auto simp: list_all_iff unopened_def)
  moreover have "\<forall>c \<in> set calls. allowed (freshBytes hash argonVerify raw) (\<lambda>_. True) c"
    using assms(4) by (auto simp: allowed_def freshBytes_def opens_hash [OF assms(1)] split: option.splits)
  ultimately have "rows (unopened argonVerify raw) t" unfolding assms(5) by (rule enrolled.run_rows)
  then have "find (\<lambda>r. opens argonVerify raw (ma_enrollmentTokenHash r)) (filter (enrollable raw later) (gy_agents t)) = None"
    by (auto simp: rows_def list_all_iff unopened_def find_None_iff)
  then show ?thesis using lookup_result(5) [OF c(1)] by (simp add: consumeEnrollmentToken_def bindIO_def enrollLookup_def)
qed

section \<open>Where the exchange fails its purpose\<close>

text \<open>
  C18. Two enrollments with one token that are in flight together both succeed: each looked the token up before the other's
  transaction cleared it. Both agents get a bearer, and the bearer of the first is dead at once.
\<close>

theorem enrollment_race:
  assumes "argon2Ok hash argonVerify" "agentsOk s" "enrollLookup argonVerify raw now s = (Inr row, s)" "assetOf (ma_assetId row) s \<noteq> None"
    and "rows (\<lambda>r. \<not> opens argonVerify (generateRawToken b1) (ma_bearerHash r) \<and> \<not> opens argonVerify (generateRawToken b2) (ma_bearerHash r)) s"
    and "generateRawToken b1 \<noteq> generateRawToken b2"
  shows "\<exists>t u. enrollCommit hash row b1 now1 s = (Inr (generateRawToken b1), t) \<and> enrollCommit hash row b2 now2 t = (Inr (generateRawToken b2), u) \<and>
    fst (verifyBearer argonVerify (generateRawToken b1) ip later u) = None \<and>
    fst (verifyBearer argonVerify (generateRawToken b2) ip later u) = Some (ma_id row, ma_assetId row)"
proof -
  note row = lookup_result(2) [OF assms(3)]
  have found: "findAgent (ma_id row) s \<noteq> None" using row by (auto simp: findAgent_def find_None_iff)
  obtain t where t: "enrollCommit hash row b1 now1 s = (Inr (generateRawToken b1), t)" using commit_returns [OF found assms(4)] by blast
  note c = commit_result [OF t]
  have row': "enrolledRow hash (generateRawToken b1) now1 row \<in> set (gy_agents t)" (is "?r \<in> _") using row by (auto simp: c(4))
  have ids: "ma_id ?r = ma_id row" "ma_assetId ?r = ma_assetId row" by simp_all
  have "findAgent (ma_id row) t \<noteq> None" using row' ids(1) by (auto simp: findAgent_def find_None_iff)
  moreover have "assetOf (ma_assetId row) t \<noteq> None" using assms(4) by (auto simp: assetOf_def c(5) find_None_iff)
  ultimately obtain u where u: "enrollCommit hash row b2 now2 t = (Inr (generateRawToken b2), u)" using commit_returns by blast
  note d = commit_result [OF u]
  have same: "enrollCommit hash ?r b2 now2 t = (Inr (generateRawToken b2), u)" using u by (simp add: enrollCommit_def ids)
  have ok: "agentsOk t" using agents.step_good [OF assms(2), of hash argonVerify "Commit row b1 now1"] by (simp add: t)
  have "rows (\<lambda>r. \<not> opens argonVerify (generateRawToken b2) (ma_bearerHash r)) t"
    using assms(5,6) unfolding rows_def c(4) list_all_iff by (auto simp: opens_hash [OF assms(1)])
  from commit_stands(2) [OF assms(1) ok row' this same] have "fst (verifyBearer argonVerify (generateRawToken b2) ip later u) = Some (ma_id row, ma_assetId row)"
    by (simp add: ids)
  moreover have "find (liveBearer (generateRawToken b1)) (filter (\<lambda>r. opens argonVerify (generateRawToken b1) (ma_bearerHash r)) (gy_agents u)) = None"
    using assms(5,6) unfolding rows_def c(4) d(4) list_all_iff find_None_iff by (auto simp: opens_hash [OF assms(1)])
  ultimately show ?thesis using t u by (auto simp: bearer_holders)
qed

lemma guard_agents: "assetsWrite sid s = (x, t) \<Longrightarrow> gy_agents t = gy_agents s \<and> gy_assets t = gy_assets s"
  by (auto simp: assetsWrite_def bindIO_def onAccess_def split: prod.splits sum.splits)

text \<open>What a removal without force does to the row.\<close>

definition keptToken :: "managedAgent \<Rightarrow> managedAgent \<Rightarrow> bool" where
  "keptToken r r' \<longleftrightarrow> ma_id r' = ma_id r \<and> ma_assetId r' = ma_assetId r \<and> ma_osPlatform r' = ma_osPlatform r \<and> ma_arch r' = ma_arch r \<and>
     ma_serverCertFingerprint r' = ma_serverCertFingerprint r \<and> ma_enrollmentTokenHash r' = ma_enrollmentTokenHash r \<and>
     ma_enrollmentTokenPrefix r' = ma_enrollmentTokenPrefix r \<and> ma_enrollmentExpiresAt r' = ma_enrollmentExpiresAt r \<and> ma_bearerHash r' = ma_bearerHash r"

definition keptTokens :: "agSys \<Rightarrow> agSys \<Rightarrow> bool" where
  "keptTokens s t \<longleftrightarrow> list_all2 keptToken (gy_agents s) (gy_agents t) \<and> gy_assets t = gy_assets s"

lemma keeps_kept_update: "(\<And>r. keptToken r (f r)) \<Longrightarrow> keeps (keptTokens s) (updateAgent i f)"
  by (rule keepsI) (auto simp: updateAgent_def mapAgents_def keptTokens_def list_all2_map2 keptToken_def elim!: list_all2_mono split: if_splits)

lemma keeps_kept_prims: "keeps (keptTokens s) (agentEvent x l i u)" "keeps (keptTokens s) (assetsWrite sid)"
  by (rule keepsI, auto simp: agentEvent_def modifyIO_def keptTokens_def dest: guard_agents)+

lemma keeps_kept_revoke: "keeps (keptTokens s) (revokeBearer i now)"
  unfolding revokeBearer_def by (intro keeps_rules keeps_kept_update) (simp add: keptToken_def)

lemma delete_keeps_tokens:
  assumes "deleteAgent sid a force now s = (Inr outcome, t)" "outcome \<noteq> Forced"
  shows "keptTokens s t"
proof -
  obtain actor s0 row where s0: "assetsWrite sid s = (Inr actor, s0)" "agentOf a s0 = Some row"
    using assms(1) by (auto simp: deleteAgent_def bindIO_Inr split: option.splits)
  obtain b s1 where s1: "revokeBearer (ma_id row) now s0 = (Inr b, s1)"
    using assms(1) s0 by (auto simp: deleteAgent_def bindIO_Inr)
  have "keptTokens s s" by (simp add: keptTokens_def keptToken_def list_all2_refl)
  then have kept: "keptTokens s s1" using keepsD [OF keeps_kept_prims(2) _ s0(1)] keepsD [OF keeps_kept_revoke _ s1] by blast
  have rest: "keeps (keptTokens s) (bindIO (agentEvent ''agent.revoked'' ''warning'' a (Some actor)) (\<lambda>_.
      if \<not> truthy (ma_installCredentialId row)
      then bindIO (updateAgent (ma_id row) (\<lambda>r. r\<lparr>ma_installStatus := Revoked\<rparr>)) (\<lambda>_. returnIO MarkedRevoked) else returnIO (UninstallStarted row)))"
    by (intro keeps_rules keeps_kept_prims keeps_kept_update) (simp add: keptToken_def)
  show ?thesis
    using assms s0 s1 keepsD [OF rest kept] by (auto simp: deleteAgent_def bindIO_Inr split: if_splits)
qed

lemma find_kept:
  assumes "list_all2 keptToken A B" "find P (filter R A) = Some r" "\<And>r r'. keptToken r r' \<Longrightarrow> P r' = P r \<and> R r' = R r"
  shows "\<exists>r'. find P (filter R B) = Some r' \<and> keptToken r r'"
  using assms(1,2)
proof (induction rule: list_all2_induct)
  case (Cons x xs y ys)
  then show ?case using assms(3) [OF Cons.hyps(1)] by (auto split: if_splits)
qed simp

lemma lookup_kept:
  assumes "keptTokens s t" "enrollLookup argonVerify raw now s = (Inr row, s)"
  shows "\<exists>row'. enrollLookup argonVerify raw now t = (Inr row', t) \<and> keptToken row row'"
proof -
  let ?P = "\<lambda>r. opens argonVerify raw (ma_enrollmentTokenHash r)"
  have "find ?P (filter (enrollable raw now) (gy_agents s)) = Some row"
    using assms(2) by (auto simp: enrollLookup_def split: if_splits option.splits)
  moreover have "list_all2 keptToken (gy_agents s) (gy_agents t)" using assms(1) by (simp add: keptTokens_def)
  moreover have "?P r' = ?P r \<and> enrollable raw now r' = enrollable raw now r" if "keptToken r r'" for r r'
    using that by (simp add: keptToken_def enrollable_def)
  ultimately have "\<exists>row'. find ?P (filter (enrollable raw now) (gy_agents t)) = Some row' \<and> keptToken row row'"
    by (intro find_kept)
  then show ?thesis using lookup_result(5) [OF assms(2)] by (auto simp: enrollLookup_def)
qed

text \<open>An enrollment whose pin and platform fit succeeds, and its bearer is accepted.\<close>

lemma enroll_accepted:
  assumes "argon2Ok hash argonVerify" "agentsOk s" "enrollLookup argonVerify (eb_enrollmentToken b) now s = (Inr row, s)"
    and "assetOf (ma_assetId row) s \<noteq> None" "EnrollSchema b" "toLowerCase (ma_serverCertFingerprint row) = toLowerCase (eb_fingerprintSeen b)"
    and "ma_osPlatform row = eb_osPlatform b" "ma_arch row = eb_arch b"
    and "rows (\<lambda>r. \<not> opens argonVerify (generateRawToken base64) (ma_bearerHash r)) s"
  shows "\<exists>u. postEnroll hash argonVerify b base64 now s = (Inr (generateRawToken base64, ma_assetId row), u) \<and>
    fst (verifyBearer argonVerify (generateRawToken base64) ip later u) = Some (ma_id row, ma_assetId row)"
proof -
  let ?bearer = "generateRawToken base64"
  note row = lookup_result(2) [OF assms(3)]
  obtain t where t: "enrollCommit hash row base64 now s = (Inr ?bearer, t)"
    using commit_returns [OF _ assms(4), of hash base64 now] row by (auto simp: findAgent_def find_None_iff)
  note c = commit_result [OF t]
  have member: "enrolledRow hash ?bearer now row \<in> set (gy_agents t)" using row by (auto simp: c(4))
  then have "findAgent (ma_id row) t \<noteq> None" by (auto simp: findAgent_def find_None_iff)
  then obtain u where check: "checkEnrolled row ?bearer b now t = (Inr (?bearer, ma_assetId row), u)"
    and u: "gy_agents u = map (\<lambda>r. if ma_id r = ma_id row then r\<lparr>ma_agentVersion := Some (eb_agentVersion b)\<rparr> else r) (gy_agents t)"
    using assms(6-8) by (auto simp: checkEnrolled_def bindIO_def updateAgent_def agentEvent_def mapAgents_def)
  have "postEnroll hash argonVerify b base64 now s = (Inr (?bearer, ma_assetId row), u)"
    using assms(5) by (simp add: postEnroll_def consumeEnrollmentToken_def bindIO_def assms(3) t check)
  moreover have stands: "rows (standsFor argonVerify ?bearer (ma_id row, ma_assetId row)) u"
    using commit_stands(1) [OF assms(1,2) row assms(9) t] by (auto simp: rows_def u list_all_iff standsFor_def)
  moreover have member: "(enrolledRow hash ?bearer now row)\<lparr>ma_agentVersion := Some (eb_agentVersion b)\<rparr> \<in> set (gy_agents u)"
    using member by (auto simp: u)
  ultimately show ?thesis
    by (intro exI [of _ u] conjI)
       (simp, rule bearer_accepted [OF _ stands member], simp_all add: raw_shape(1) liveBearer_def opens_hash [OF assms(1)])
qed

text \<open>
  Removing an agent without force does not keep it out: an enrollment token that was outstanding stays valid until it expires, and
  the enrollment with it clears the revocation, so the removed agent ends up with a bearer that is accepted.
\<close>

theorem revoked_agent_enrolls:
  assumes "argon2Ok hash argonVerify" "agentsOk s" "deleteAgent sid a force now s = (Inr outcome, t)" "outcome \<noteq> Forced"
    and "enrollLookup argonVerify (eb_enrollmentToken b) later s = (Inr row, s)" "assetOf (ma_assetId row) s \<noteq> None" "EnrollSchema b"
    and "toLowerCase (ma_serverCertFingerprint row) = toLowerCase (eb_fingerprintSeen b)" "ma_osPlatform row = eb_osPlatform b" "ma_arch row = eb_arch b"
    and "rows (\<lambda>r. \<not> opens argonVerify (generateRawToken base64) (ma_bearerHash r)) s"
  shows "\<exists>u. postEnroll hash argonVerify b base64 later t = (Inr (generateRawToken base64, ma_assetId row), u) \<and>
    fst (verifyBearer argonVerify (generateRawToken base64) ip later u) = Some (ma_id row, ma_assetId row)"
proof -
  have kept: "keptTokens s t" by (rule delete_keeps_tokens [OF assms(3,4)])
  obtain row' where row': "enrollLookup argonVerify (eb_enrollmentToken b) later t = (Inr row', t)" "keptToken row row'"
    using lookup_kept [OF kept assms(5)] by blast
  have "agentsOk t" using agents.step_good [OF assms(2), of hash argonVerify "DeleteAgent sid a force now"] by (simp add: assms(3))
  moreover have "list_all2 keptToken (gy_agents s) (gy_agents t)" "gy_assets t = gy_assets s" using kept by (simp_all add: keptTokens_def)
  moreover from this assms(11) have "rows (\<lambda>r. \<not> opens argonVerify (generateRawToken base64) (ma_bearerHash r)) t"
    by (fastforce simp: rows_def list_all_iff list_all2_conv_all_nth keptToken_def in_set_conv_nth)
  ultimately show ?thesis
    using enroll_accepted [OF assms(1) _ row'(1), of base64 ip later] row'(2) assms(6-10) by (simp add: keptToken_def assetOf_def)
qed

lemma check_refused:
  assumes "toLowerCase (ma_serverCertFingerprint row) \<noteq> toLowerCase (eb_fingerprintSeen b) \<or> ma_osPlatform row \<noteq> eb_osPlatform b \<or> ma_arch row \<noteq> eb_arch b"
    and "findAgent (ma_id row) t \<noteq> None"
  shows "\<exists>msg u. checkEnrolled row bearer b now t = (Inl (AppError 400 msg), u) \<and> gy_assets u = gy_assets t"
  using assms
  by (cases "toLowerCase (ma_serverCertFingerprint row) = toLowerCase (eb_fingerprintSeen b)")
     (auto simp: checkEnrolled_def refuseEnrollment_def Let_def bindIO_def updateAgent_def agentEvent_def mapAgents_def)

text \<open>
  A refused enrollment takes the asset out of monitoring: the exchange has already given all streams of the asset to the agent,
  the refusal does not give them back, so for every stream the method in effect is the agent that was refused.
\<close>

theorem refused_enrollment_ends_polling:
  assumes "EnrollSchema b" "enrollLookup argonVerify (eb_enrollmentToken b) now s = (Inr row, s)" "assetOf (ma_assetId row) s \<noteq> None"
    and "toLowerCase (ma_serverCertFingerprint row) \<noteq> toLowerCase (eb_fingerprintSeen b) \<or> ma_osPlatform row \<noteq> eb_osPlatform b \<or> ma_arch row \<noteq> eb_arch b"
    and "isPollingMethodCompatible source Agent"
  shows "\<exists>msg u a. postEnroll hash argonVerify b base64 now s = (Inl (AppError 400 msg), u) \<and> assetOf (ma_assetId row) u = Some a \<and>
    (\<forall>st. resolveStream source st tierVal classVal (gs_polling a st) = Some Agent)"
proof -
  note row = lookup_result(2) [OF assms(2)]
  obtain t where t: "enrollCommit hash row base64 now s = (Inr (generateRawToken base64), t)"
    using commit_returns [OF _ assms(3), of hash base64 now] row by (auto simp: findAgent_def find_None_iff)
  note c = commit_result [OF t]
  have "enrolledRow hash (generateRawToken base64) now row \<in> set (gy_agents t)" using row by (auto simp: c(4))
  then have "findAgent (ma_id row) t \<noteq> None" by (auto simp: findAgent_def find_None_iff)
  then obtain msg u where "checkEnrolled row (generateRawToken base64) b now t = (Inl (AppError 400 msg), u)" and u: "gy_assets u = gy_assets t"
    using check_refused [OF assms(4)] by blast
  then have "postEnroll hash argonVerify b base64 now s = (Inl (AppError 400 msg), u)"
    using assms(1) by (simp add: postEnroll_def consumeEnrollmentToken_def bindIO_def assms(2) t)
  moreover have "find (\<lambda>a. gs_id a = i) (map (\<lambda>a. if gs_id a = i then a\<lparr>gs_polling := p\<rparr> else a) xs) =
      map_option (\<lambda>a. a\<lparr>gs_polling := p\<rparr>) (find (\<lambda>a. gs_id a = i) xs)" for i p and xs :: "agentAsset list"
    by (induction xs) auto
  then have "assetOf (ma_assetId row) u = map_option (\<lambda>a. a\<lparr>gs_polling := \<lambda>_. Some ''agent''\<rparr>) (assetOf (ma_assetId row) s)"
    by (simp add: assetOf_def u c(5))
  moreover have "methodOf ''agent'' = Some Agent" by code_simp
  then have "resolveStream source st tierVal classVal (Some ''agent'') = Some Agent" for st
    using assms(5) by (simp add: resolveStream_def Let_def compatible_def)
  ultimately show ?thesis using assms(3) by auto
qed

text \<open>
  The end of an installation overwrites the state of an agent that enrolled before the installer returned: the agent is active and
  its bearer accepted, but the row says enrolling again, and upgrades of the agent are refused.
\<close>

theorem late_install_hides_agent:
  assumes "findAgent (ma_id row) s = Some r" "ma_osPlatform row \<in> {''linux'', ''darwin'', ''windows''}"
  shows "\<exists>t. installEnd row None s = (Inr (), t) \<and> fst (verifyBearer argonVerify raw ip now t) = fst (verifyBearer argonVerify raw ip now s) \<and>
    fst (startUpgrade env (ma_id row) credentialId actor t) =
      Inl (AppError 409 (''Agent installStatus is \"enrolling\"; only active agents can upgrade.''))"
proof -
  let ?f = "\<lambda>q. if ma_id q = ma_id row then q\<lparr>ma_installStatus := Enrolling, ma_installError := None\<rparr> else q"
  obtain t where t: "installEnd row None s = (Inr (), t)" "gy_agents t = map ?f (gy_agents s)"
    using assms by (auto simp: installEnd_def transition_def bindIO_def updateAgent_def agentEvent_def mapAgents_def)
  have "find (liveBearer raw) (filter (\<lambda>q. opens argonVerify raw (ma_bearerHash q)) (map ?f xs)) =
      map_option ?f (find (liveBearer raw) (filter (\<lambda>q. opens argonVerify raw (ma_bearerHash q)) xs))" for xs :: "managedAgent list"
    by (induction xs) (auto simp: liveBearer_def)
  then have "fst (verifyBearer argonVerify raw ip now t) = fst (verifyBearer argonVerify raw ip now s)"
    by (auto simp: bearer_holders t(2) option.map_comp comp_def intro!: option.map_cong0)
  moreover have "find (\<lambda>q. ma_id q = ma_id row) (map ?f xs) = map_option ?f (find (\<lambda>q. ma_id q = ma_id row) xs)" for xs :: "managedAgent list"
    by (induction xs) auto
  then have "findAgent (ma_id row) t = Some (?f r)" using assms(1) by (simp add: findAgent_def t(2))
  moreover have "ma_id r = ma_id row" using assms(1) by (auto simp: findAgent_def dest: find_SomeD)
  ultimately show ?thesis using t(1) by (simp add: startUpgrade_def bindIO_def)
qed

section \<open>One host\<close>

text \<open>A host whose installer has run: its enrollment token is outstanding, its install credential has been deleted.\<close>

definition hostPin :: string where
  "hostPin = ''sha256:'' @ replicate 64 (CHR ''a'')"

definition hostAgent :: managedAgent where
  "hostAgent = (newAgent ''m1'' ''h1'' ''linux'' ''amd64'' ''root'' hostPin [])\<lparr>ma_installCredentialId := None, ma_installStatus := Enrolling,
     ma_enrollmentTokenHash := Some (refHash ''polaris_AAAA''), ma_enrollmentTokenPrefix := Some ''polaris_AAAA'', ma_enrollmentExpiresAt := Some 100\<rparr>"

definition oneHost :: agSys where
  "oneHost = \<lparr>gy_agents = [hostAgent], gy_assets = [\<lparr>gs_id = ''h1'', gs_ipAddress = Some ''10.0.0.7'', gs_dnsName = None, gs_hostname = None,
     gs_integrationType = None, gs_polling = (\<lambda>_. None)\<rparr>], gy_credentials = [], gy_access = siteBoth, gy_events = []\<rparr>"

definition hostBody :: "string \<Rightarrow> enrollBody" where
  "hostBody arch = \<lparr>eb_enrollmentToken = ''polaris_AAAA'', eb_osPlatform = ''linux'', eb_arch = arch, eb_agentVersion = ''1.0'', eb_hostname = None,
     eb_fingerprintSeen = hostPin\<rparr>"

lemma host_tokens: "generateRawToken ''AAAA'' = ''polaris_AAAA''" "generateRawToken ''BBBB'' = ''polaris_BBBB''" "generateRawToken ''CCCC'' = ''polaris_CCCC''"
  "shortToken ''polaris_AAAA'' = ''polaris_AAAA''" "startsWith ''polaris_AAAA'' TOKEN_PREFIX" "opens refVerify ''polaris_AAAA'' (Some (refHash ''polaris_AAAA''))"
  by code_simp+

lemma host_body: "eb_enrollmentToken (hostBody x) = ''polaris_AAAA''" "eb_osPlatform (hostBody x) = ''linux''" "eb_arch (hostBody x) = x"
  "eb_fingerprintSeen (hostBody x) = hostPin"
  by (simp_all add: hostBody_def)

lemma host_schema: "EnrollSchema (hostBody ''amd64'')" "EnrollSchema (hostBody ''arm64'')"
  by code_simp+

lemma host_agent: "ma_id hostAgent = ''m1''" "ma_assetId hostAgent = ''h1''" "ma_bearerHash hostAgent = None" "ma_osPlatform hostAgent = ''linux''"
  "ma_arch hostAgent = ''amd64''" "ma_serverCertFingerprint hostAgent = hostPin" "ma_enrollmentTokenHash hostAgent = Some (refHash ''polaris_AAAA'')"
  "gy_agents oneHost = [hostAgent]" "agentsOk oneHost" "assetOf ''h1'' oneHost \<noteq> None"
  by (simp_all add: hostAgent_def newAgent_def oneHost_def agentsOk_def table_ok_def agentKey_def assetOf_def map_filter_simps)

lemma host_lookup: "enrollLookup refVerify ''polaris_AAAA'' 50 oneHost = (Inr hostAgent, oneHost)"
  using host_tokens by (simp add: enrollLookup_def host_agent enrollable_def) (simp add: hostAgent_def)

lemma host_consume: "\<exists>t. consumeEnrollmentToken refHash refVerify ''polaris_AAAA'' ''BBBB'' 50 oneHost = (Inr (hostAgent, ''polaris_BBBB''), t)"
proof -
  have "findAgent (ma_id hostAgent) oneHost \<noteq> None" by (simp add: findAgent_def host_agent)
  from commit_returns [OF this, of refHash "''BBBB''" 50] show ?thesis
    using host_lookup host_agent(10) by (auto simp: consumeEnrollmentToken_def bindIO_def host_tokens host_agent)
qed

theorem bearer_bound_to_asset_witness:
  "\<exists>t. consumeEnrollmentToken refHash refVerify ''polaris_AAAA'' ''BBBB'' 50 oneHost = (Inr (hostAgent, ''polaris_BBBB''), t) \<and>
    fst (verifyBearer refVerify ''polaris_BBBB'' None 60 t) = Some (''m1'', ''h1'') \<and>
    fst (verifyBearer refVerify ''polaris_BBBB'' None 60 (foldl (agentStep refHash refVerify) t [DeleteAgent ''s1'' ''h1'' None 55])) \<in> {None, Some (''m1'', ''h1'')}"
proof -
  obtain t where t: "consumeEnrollmentToken refHash refVerify ''polaris_AAAA'' ''BBBB'' 50 oneHost = (Inr (hostAgent, ''polaris_BBBB''), t)"
    using host_consume by blast
  from bearer_bound_to_asset [OF ref_argon2 host_agent(9) t _ _ refl, of "[DeleteAgent ''s1'' ''h1'' None 55]" None 60] show ?thesis
    using t by (simp add: rows_def host_agent del: agentStep.simps)
qed

theorem enrollment_once_witness:
  "\<exists>t. consumeEnrollmentToken refHash refVerify ''polaris_AAAA'' ''BBBB'' 50 oneHost = (Inr (hostAgent, ''polaris_BBBB''), t) \<and>
    fst (consumeEnrollmentToken refHash refVerify ''polaris_AAAA'' ''CCCC'' 60 (foldl (agentStep refHash refVerify) t [TakeOver ''h1''])) =
      Inl (AppError 401 (''Enrollment token rejected '' @ emdash @ '' expired or already consumed''))"
proof -
  obtain t where t: "consumeEnrollmentToken refHash refVerify ''polaris_AAAA'' ''BBBB'' 50 oneHost = (Inr (hostAgent, ''polaris_BBBB''), t)"
    using host_consume by blast
  from enrollment_once [OF ref_argon2 t _ _ refl, of "[TakeOver ''h1'']" "''CCCC''" 60] show ?thesis
    using t by (simp add: host_agent del: agentStep.simps)
qed

theorem enrollment_race_witness:
  "\<exists>t u. enrollCommit refHash hostAgent ''BBBB'' 50 oneHost = (Inr ''polaris_BBBB'', t) \<and> enrollCommit refHash hostAgent ''CCCC'' 51 t = (Inr ''polaris_CCCC'', u) \<and>
    fst (verifyBearer refVerify ''polaris_BBBB'' None 60 u) = None \<and> fst (verifyBearer refVerify ''polaris_CCCC'' None 60 u) = Some (''m1'', ''h1'')"
  using enrollment_race [OF ref_argon2 host_agent(9) host_lookup, of "''BBBB''" "''CCCC''" 50 51 None 60]
  by (simp add: rows_def host_agent host_tokens)

lemma host_delete: "\<exists>t. deleteAgent ''s1'' ''h1'' None 20 oneHost = (Inr MarkedRevoked, t)"
proof -
  have "''assets'' \<in> set FUNCTION_KEYS" by code_simp
  from site_guard(1) [OF this] show ?thesis
    by (auto simp: deleteAgent_def assetsWrite_def onAccess_def bindIO_def oneHost_def siteBoth_def agentOf_def revokeBearer_def findAgent_def
        updateAgent_def mapAgents_def agentEvent_def keep_def toLowerCase_def truthy_def hostAgent_def newAgent_def)
qed

theorem revoked_agent_enrolls_witness:
  "\<exists>t u. deleteAgent ''s1'' ''h1'' None 20 oneHost = (Inr MarkedRevoked, t) \<and>
    postEnroll refHash refVerify (hostBody ''amd64'') ''BBBB'' 50 t = (Inr (''polaris_BBBB'', ''h1''), u) \<and>
    fst (verifyBearer refVerify ''polaris_BBBB'' None 50 u) = Some (''m1'', ''h1'')"
proof -
  obtain t where t: "deleteAgent ''s1'' ''h1'' None 20 oneHost = (Inr MarkedRevoked, t)" using host_delete by blast
  have "\<exists>u. postEnroll refHash refVerify (hostBody ''amd64'') ''BBBB'' 50 t = (Inr (generateRawToken ''BBBB'', ma_assetId hostAgent), u) \<and>
      fst (verifyBearer refVerify (generateRawToken ''BBBB'') None 50 u) = Some (ma_id hostAgent, ma_assetId hostAgent)"
    by (rule revoked_agent_enrolls [OF ref_argon2 host_agent(9) t]) (simp_all add: host_body host_lookup host_schema host_agent rows_def)
  then show ?thesis using t unfolding host_tokens host_agent by blast
qed

theorem refused_enrollment_ends_polling_witness:
  "\<exists>msg u a. postEnroll refHash refVerify (hostBody ''arm64'') ''BBBB'' 50 oneHost = (Inl (AppError 400 msg), u) \<and> assetOf ''h1'' u = Some a \<and>
    map (\<lambda>st. resolveStream KManual st None None (gs_polling a st)) [ResponseTime, CpuMemory] = [Some Agent, Some Agent]"
proof -
  have "isPollingMethodCompatible KManual Agent" by code_simp
  from refused_enrollment_ends_polling [OF host_schema(2) _ _ _ this, of refVerify 50 oneHost hostAgent refHash "''BBBB''" None None]
  obtain msg u a where "postEnroll refHash refVerify (hostBody ''arm64'') ''BBBB'' 50 oneHost = (Inl (AppError 400 msg), u)" "assetOf ''h1'' u = Some a"
    "\<And>st. resolveStream KManual st None None (gs_polling a st) = Some Agent"
    using host_lookup by (auto simp: host_body host_agent)
  then show ?thesis by auto
qed

end
