(* ===== verification/AgentChannel.thy ===== *)
theory AgentChannel
  imports Store "HOL-Library.Multiset" "HOL-Library.AList"
begin

text \<open>
  The web-socket sessions of agents (\<^verbatim>\<open>src/services/agentChannelService.ts\<close>). A session is named by its socket. The handlers of a socket
  are closures over the id of the agent, so an event on a socket finds the session that is current for this agent, which need not
  be the one of the socket. A request to an agent is pending on a session with a timer of its own; its promise is settled by the
  answer, by the timer or by the end of the session. Sends never throw out of \<^verbatim>\<open>safeSend\<close>. Then its properties: every request is
  settled exactly once; a reconnecting agent loses its new session.
\<close>

section \<open>State\<close>

datatype outcome = Resolved string | Rejected string

record channel =
  cn_sessions :: "(string \<times> nat) list"
  cn_socket :: "nat \<rightharpoonup> string \<times> string"
  cn_pong :: "nat \<Rightarrow> bool"
  cn_timers :: "nat list"
  cn_pending :: "(nat \<times> string) list"
  cn_settled :: "(string \<times> outcome) list"
  cn_sent :: "(nat \<times> string \<times> string) list"
  cn_closed :: "nat list"
  cn_connectedAt :: "string \<rightharpoonup> int"
  cn_disconnectedAt :: "string \<rightharpoonup> int"
  cn_events :: "event list"

definition sessionOf :: "string \<Rightarrow> channel \<Rightarrow> nat option" where
  "sessionOf managedAgentId c = map_of (cn_sessions c) managedAgentId"

definition isAttached :: "string \<Rightarrow> channel \<Rightarrow> bool" where
  "isAttached managedAgentId c \<longleftrightarrow> sessionOf managedAgentId c \<noteq> None"

definition liveSessionCount :: "channel \<Rightarrow> nat" where
  "liveSessionCount c = length (cn_sessions c)"

definition channelEvent :: "string \<Rightarrow> string \<Rightarrow> string \<Rightarrow> event" where
  "channelEvent action level assetId =
     \<lparr>ev_action = action, ev_level = level, ev_resourceType = ''asset'', ev_resourceId = Some assetId, ev_resourceName = None, ev_actor = None\<rparr>"

definition safeSend :: "nat \<Rightarrow> string \<Rightarrow> string \<Rightarrow> channel \<Rightarrow> channel" where
  "safeSend k ty i c = c\<lparr>cn_sent := cn_sent c @ [(k, ty, i)]\<rparr>"

section \<open>Lifecycle\<close>

definition teardown :: "nat \<Rightarrow> channel \<Rightarrow> channel" where
  "teardown k c =
     c\<lparr>cn_timers := removeAll k (cn_timers c),
       cn_settled := cn_settled c @ map (\<lambda>(_, i). (i, Rejected ''Agent disconnected'')) (filter (\<lambda>(j, _). j = k) (cn_pending c)),
       cn_pending := filter (\<lambda>(j, _). j \<noteq> k) (cn_pending c),
       cn_closed := cn_closed c @ [k]\<rparr>"

definition detach :: "string \<Rightarrow> string \<Rightarrow> int \<Rightarrow> channel \<Rightarrow> channel" where
  "detach managedAgentId reason now c =
     (case sessionOf managedAgentId c of
        None \<Rightarrow> c
      | Some k \<Rightarrow>
          (let c1 = teardown k (c\<lparr>cn_sessions := AList.delete managedAgentId (cn_sessions c)\<rparr>) in
           c1\<lparr>cn_disconnectedAt := (cn_disconnectedAt c1)(managedAgentId \<mapsto> now),
              cn_events := cn_events c1 @ [channelEvent ''agent.disconnected''
                (if reason \<in> {''replaced'', ''revoked''} then ''info'' else ''warning'')
                (case cn_socket c k of None \<Rightarrow> [] | Some (_, a) \<Rightarrow> a)]\<rparr>))"

definition attach :: "string \<Rightarrow> string \<Rightarrow> nat \<Rightarrow> int \<Rightarrow> channel \<Rightarrow> channel" where
  "attach managedAgentId assetId k now c =
     (let c1 = (case sessionOf managedAgentId c of None \<Rightarrow> c | Some old \<Rightarrow> teardown old c);
          c2 = safeSend k ''hello'' [] (c1\<lparr>cn_sessions := AList.update managedAgentId k (cn_sessions c1)\<rparr>)
      in c2\<lparr>cn_socket := (cn_socket c2)(k \<mapsto> (managedAgentId, assetId)), cn_pong := (cn_pong c2)(k := True), cn_timers := cn_timers c2 @ [k],
            cn_connectedAt := (cn_connectedAt c2)(managedAgentId \<mapsto> now),
            cn_events := cn_events c2 @ [channelEvent ''agent.connected'' ''info'' assetId]\<rparr>)"

text \<open>The events of a socket, and its ping timer.\<close>

definition onClose :: "nat \<Rightarrow> int \<Rightarrow> channel \<Rightarrow> channel" where
  "onClose k now c = (case cn_socket c k of None \<Rightarrow> c | Some (i, _) \<Rightarrow> detach i ''socket closed'' now c)"

definition onError :: "nat \<Rightarrow> int \<Rightarrow> channel \<Rightarrow> channel" where
  "onError k now c = (case cn_socket c k of None \<Rightarrow> c | Some (i, _) \<Rightarrow> detach i ''socket error'' now c)"

definition onPong :: "nat \<Rightarrow> channel \<Rightarrow> channel" where
  "onPong k c = (case cn_socket c k of None \<Rightarrow> c | Some _ \<Rightarrow> c\<lparr>cn_pong := (cn_pong c)(k := True)\<rparr>)"

definition onPingTimer :: "nat \<Rightarrow> int \<Rightarrow> channel \<Rightarrow> channel" where
  "onPingTimer k now c =
     (if k \<notin> set (cn_timers c) then c
      else if \<not> cn_pong c k
      then (case cn_socket c k of None \<Rightarrow> c | Some (i, _) \<Rightarrow> detach i ''heartbeat timeout'' now c)
      else safeSend k ''ping'' [] (c\<lparr>cn_pong := (cn_pong c)(k := False)\<rparr>))"

text \<open>
  What a message parses to: text that does not parse is dropped, any other value has a type, an id and a payload, but \<^verbatim>\<open>null\<close> has no
  properties, and reading its type throws outside the \<^verbatim>\<open>try\<close>.
\<close>

datatype agentFrame = Unparsable | NullFrame | Frame string string string

definition onFrame :: "nat \<Rightarrow> agentFrame \<Rightarrow> (channel, unit) io" where
  "onFrame k frame c =
     (case frame of
        Unparsable \<Rightarrow> (Inr (), c)
      | NullFrame \<Rightarrow> (Inl (NativeError ''Cannot read properties of null''), c)
      | Frame ty i payload \<Rightarrow>
          (Inr (),
           if ty \<noteq> ''probe-now-response'' then c
           else
             (case cn_socket c k of
                None \<Rightarrow> c
              | Some (agent, _) \<Rightarrow>
                  (case sessionOf agent c of
                     None \<Rightarrow> c
                   | Some cur \<Rightarrow>
                       (if (cur, i) \<in> set (cn_pending c)
                        then c\<lparr>cn_pending := removeAll (cur, i) (cn_pending c), cn_settled := cn_settled c @ [(i, Resolved payload)]\<rparr>
                        else c)))))"

section \<open>Requests\<close>

definition sendProbeNow :: "string \<Rightarrow> string \<Rightarrow> (channel, nat) io" where
  "sendProbeNow managedAgentId i c =
     (case sessionOf managedAgentId c of
        None \<Rightarrow> (Inl (NativeError (''Agent is not currently attached '' @ emdash @ '' try again after the agent reconnects'')), c)
      | Some k \<Rightarrow> (Inr k, safeSend k ''probe-now-request'' i (c\<lparr>cn_pending := cn_pending c @ [(k, i)]\<rparr>)))"

text \<open>The timer of a request; the message names the limit.\<close>

definition onProbeTimeout :: "nat \<Rightarrow> string \<Rightarrow> string \<Rightarrow> channel \<Rightarrow> channel" where
  "onProbeTimeout k i timeoutMs c =
     (if (k, i) \<in> set (cn_pending c)
      then c\<lparr>cn_pending := removeAll (k, i) (cn_pending c),
             cn_settled := cn_settled c @ [(i, Rejected (''Agent did not respond to probe-now within '' @ timeoutMs @ ''ms''))]\<rparr>
      else c)"

definition refreshConfig :: "string \<Rightarrow> channel \<Rightarrow> channel" where
  "refreshConfig managedAgentId c = (case sessionOf managedAgentId c of None \<Rightarrow> c | Some k \<Rightarrow> safeSend k ''refresh-config'' [] c)"

definition shutdownAllSessions :: "int \<Rightarrow> channel \<Rightarrow> channel" where
  "shutdownAllSessions now c = foldl (\<lambda>c i. detach i ''server shutdown'' now c) c (map fst (cn_sessions c))"

section \<open>Every request is settled once\<close>

datatype channelCall =
    Attach string string nat int
  | Detach string string int
  | Closed nat int
  | Errored nat int
  | Pong nat
  | PingTimer nat int
  | FrameIn nat agentFrame
  | ProbeNow string string
  | ProbeTimeout nat string string
  | Refresh string
  | Shutdown int

fun channelStep :: "channel \<Rightarrow> channelCall \<Rightarrow> channel" where
  "channelStep c (Attach i a k now) = attach i a k now c"
| "channelStep c (Detach i reason now) = detach i reason now c"
| "channelStep c (Closed k now) = onClose k now c"
| "channelStep c (Errored k now) = onError k now c"
| "channelStep c (Pong k) = onPong k c"
| "channelStep c (PingTimer k now) = onPingTimer k now c"
| "channelStep c (FrameIn k f) = snd (onFrame k f c)"
| "channelStep c (ProbeNow i r) = snd (sendProbeNow i r c)"
| "channelStep c (ProbeTimeout k r ms) = onProbeTimeout k r ms c"
| "channelStep c (Refresh i) = refreshConfig i c"
| "channelStep c (Shutdown now) = shutdownAllSessions now c"

definition requested :: "channel \<Rightarrow> string list" where
  "requested c = map (\<lambda>(_, _, i). i) (filter (\<lambda>(_, ty, _). ty = ''probe-now-request'') (cn_sent c))"

text \<open>Sockets are new objects, and the ids of requests do not repeat.\<close>

fun freshCall :: "channel \<Rightarrow> channelCall \<Rightarrow> bool" where
  "freshCall c (Attach i a k now) \<longleftrightarrow> cn_socket c k = None"
| "freshCall c (ProbeNow i r) \<longleftrightarrow> r \<notin> set (requested c)"
| "freshCall c _ \<longleftrightarrow> True"

fun freshRun :: "channel \<Rightarrow> channelCall list \<Rightarrow> bool" where
  "freshRun c [] \<longleftrightarrow> True"
| "freshRun c (e # es) \<longleftrightarrow> freshCall c e \<and> freshRun (channelStep c e) es"

text \<open>Every request is either settled or pending, once; a pending one is on a session that is attached.\<close>

definition requests_accounted :: "channel \<Rightarrow> bool" where
  "requests_accounted c \<longleftrightarrow> mset (map fst (cn_settled c)) + mset (map snd (cn_pending c)) = mset (requested c)"

definition sessions_ok :: "channel \<Rightarrow> bool" where
  "sessions_ok c \<longleftrightarrow> distinct (map fst (cn_sessions c)) \<and> distinct (map snd (cn_sessions c)) \<and> (\<forall>k \<in> snd ` set (cn_sessions c). cn_socket c k \<noteq> None)"

definition pending_attached :: "channel \<Rightarrow> bool" where
  "pending_attached c \<longleftrightarrow> fst ` set (cn_pending c) \<subseteq> snd ` set (cn_sessions c)"

definition channelOk :: "channel \<Rightarrow> bool" where
  "channelOk c \<longleftrightarrow> requests_accounted c \<and> distinct (requested c) \<and> sessions_ok c \<and> pending_attached c"

lemma mset_both_parts: "mset (map g (filter P xs)) + mset (map g (filter (\<lambda>x. \<not> P x) xs)) = mset (map g xs)"
  by (induction xs) auto

lemma requests_accounted_teardown: "requests_accounted (teardown k c) = requests_accounted c"
proof -
  have "mset (map (fst \<circ> (\<lambda>(_, i). (i, Rejected ''Agent disconnected''))) (filter (\<lambda>(j, _). j = k) (cn_pending c))) +
      mset (map snd (filter (\<lambda>(j, _). j \<noteq> k) (cn_pending c))) = mset (map snd (cn_pending c))"
    using mset_both_parts [of snd "\<lambda>(j, _). j = k" "cn_pending c"] by (simp add: comp_def case_prod_beta)
  then show ?thesis by (simp add: requests_accounted_def teardown_def requested_def add.assoc comp_def case_prod_beta)
qed

lemma teardown_simps [simp]:
  "cn_sessions (teardown k c) = cn_sessions c" "cn_socket (teardown k c) = cn_socket c" "requested (teardown k c) = requested c"
  "cn_pending (teardown k c) = filter (\<lambda>(j, _). j \<noteq> k) (cn_pending c)"
  by (simp_all add: teardown_def requested_def)

lemma pending_distinct: "requests_accounted c \<Longrightarrow> distinct (requested c) \<Longrightarrow> distinct (map snd (cn_pending c))"
proof -
  assume a: "requests_accounted c" "distinct (requested c)"
  have "count (mset (map snd (cn_pending c))) i \<le> count (mset (requested c)) i" for i using a(1) unfolding requests_accounted_def by (metis count_union le_add2)
  moreover have "count (mset (requested c)) i \<le> 1" for i using a(2) by (simp add: distinct_count_atmost_1)
  ultimately have "count (mset (map snd (cn_pending c))) i \<le> 1" for i by (meson le_trans)
  moreover have "i \<in> set (map snd (cn_pending c)) \<longleftrightarrow> 0 < count (mset (map snd (cn_pending c))) i" for i
    by (metis count_greater_zero_iff set_mset_mset)
  ultimately show ?thesis unfolding distinct_count_atmost_1 by (metis One_nat_def Suc_leI le_antisym gr_zeroI)
qed

lemma settle_one:
  assumes "requests_accounted c" "distinct (requested c)" "(k, i) \<in> set (cn_pending c)"
  shows "requests_accounted (c\<lparr>cn_pending := removeAll (k, i) (cn_pending c), cn_settled := cn_settled c @ [(i, out)]\<rparr>)"
proof -
  have "distinct (cn_pending c)" using pending_distinct [OF assms(1,2)] by (simp add: distinct_map)
  then have "mset (removeAll (k, i) (cn_pending c)) = mset (cn_pending c) - {#(k, i)#}" by (simp add: distinct_remove1_removeAll [symmetric])
  moreover have "(k, i) \<in># mset (cn_pending c)" using assms(3) by simp
  ultimately have "mset (map snd (cn_pending c)) = add_mset i (mset (map snd (removeAll (k, i) (cn_pending c))))"
    by (metis image_mset_add_mset insert_DiffM mset_map snd_conv)
  then show ?thesis using assms(1) by (simp add: requests_accounted_def requested_def)
qed

lemma sessions_delete:
  assumes "sessions_ok c" "sessionOf i c = Some k"
  shows "snd ` set (AList.delete i (cn_sessions c)) = snd ` set (cn_sessions c) - {k}" "distinct (map fst (AList.delete i (cn_sessions c)))"
    "distinct (map snd (AList.delete i (cn_sessions c)))"
proof -
  have mem: "(i, k) \<in> set (cn_sessions c)" using assms(2) by (simp add: sessionOf_def map_of_SomeD)
  have del: "AList.delete i (cn_sessions c) = filter (\<lambda>(j, _). j \<noteq> i) (cn_sessions c)" by (auto simp: AList.delete_eq intro!: filter_cong)
  have uniq: "j = i \<longleftrightarrow> l = k" if "(j, l) \<in> set (cn_sessions c)" for j l
    using that mem assms(1) unfolding sessions_ok_def distinct_map inj_on_def by force
  show "snd ` set (AList.delete i (cn_sessions c)) = snd ` set (cn_sessions c) - {k}" unfolding del using uniq by force
  show "distinct (map fst (AList.delete i (cn_sessions c)))" "distinct (map snd (AList.delete i (cn_sessions c)))"
    using assms(1) by (auto simp: sessions_ok_def del distinct_map_filter)
qed

lemma calm_ok:
  assumes "channelOk c" "cn_settled d = cn_settled c" "cn_pending d = cn_pending c" "cn_sent d = cn_sent c" "cn_sessions d = cn_sessions c" "cn_socket d = cn_socket c"
  shows "channelOk d"
  using assms by (simp add: channelOk_def requests_accounted_def sessions_ok_def pending_attached_def requested_def)

lemma detach_ok:
  assumes "channelOk c"
  shows "channelOk (detach i reason now c)"
proof (cases "sessionOf i c")
  case (Some k)
  let ?d = "c\<lparr>cn_sessions := AList.delete i (cn_sessions c)\<rparr>"
  have ok: "requests_accounted c" "distinct (requested c)" "sessions_ok c" "pending_attached c" using assms by (simp_all add: channelOk_def)
  have "requests_accounted (teardown k ?d)" using ok(1) by (simp add: requests_accounted_teardown) (simp add: requests_accounted_def requested_def)
  moreover have "requested ?d = requested c" by (simp add: requested_def)
  moreover have "sessions_ok (teardown k ?d)" using sessions_delete [OF ok(3) Some] ok(3) by (auto simp: sessions_ok_def)
  moreover have "pending_attached (teardown k ?d)" using ok(4) sessions_delete(1) [OF ok(3) Some] by (force simp: pending_attached_def)
  ultimately have "channelOk (teardown k ?d)" using ok(2) by (simp add: channelOk_def)
  then show ?thesis by (rule calm_ok) (simp_all add: detach_def Some Let_def)
qed (use assms in \<open>simp add: detach_def\<close>)

lemma sessions_update:
  "distinct (map fst xs) \<Longrightarrow> distinct (map snd xs) \<Longrightarrow> k \<notin> snd ` set xs \<Longrightarrow>
   distinct (map snd (AList.update i k xs)) \<and> snd ` set (AList.update i k xs) = insert k (snd ` set xs - set_option (map_of xs i))"
proof (induction xs)
  case (Cons x xs)
  then have IH: "distinct (map snd (AList.update i k xs))" "snd ` set (AList.update i k xs) = insert k (snd ` set xs - set_option (map_of xs i))" by auto
  have "snd x \<notin> set_option (map_of xs i)" using Cons.prems(2) by (auto dest!: map_of_SomeD intro: rev_image_eqI)
  then show ?case using Cons.prems IH by (cases x) (auto simp: image_iff)
qed simp

lemma attach_ok:
  assumes "channelOk c" "cn_socket c k = None"
  shows "channelOk (attach i a k now c)"
proof -
  define c1 where "c1 = (case sessionOf i c of None \<Rightarrow> c | Some old \<Rightarrow> teardown old c)"
  have ok: "requests_accounted c" "distinct (requested c)" "sessions_ok c" "pending_attached c" using assms(1) by (simp_all add: channelOk_def)
  have c1: "requests_accounted c1" "requested c1 = requested c" "cn_sessions c1 = cn_sessions c" "cn_socket c1 = cn_socket c"
    using ok(1) by (auto simp: c1_def requests_accounted_teardown split: option.split)
  have "k \<notin> snd ` set (cn_sessions c)" using ok(3) assms(2) by (auto simp: sessions_ok_def)
  then have upd: "distinct (map fst (AList.update i k (cn_sessions c)))" "distinct (map snd (AList.update i k (cn_sessions c)))"
    "snd ` set (AList.update i k (cn_sessions c)) = insert k (snd ` set (cn_sessions c) - set_option (sessionOf i c))"
    using sessions_update [of "cn_sessions c" k i] ok(3) by (simp_all add: sessions_ok_def sessionOf_def distinct_update)
  have "fst ` set (cn_pending c1) \<subseteq> snd ` set (cn_sessions c) - set_option (sessionOf i c)"
    using ok(4) by (cases "sessionOf i c") (auto simp: c1_def pending_attached_def)
  then have "fst ` set (cn_pending c1) \<subseteq> snd ` set (AList.update i k (cn_sessions c))" using upd(3) by blast
  moreover have "\<forall>j \<in> snd ` set (AList.update i k (cn_sessions c)). ((cn_socket c)(k \<mapsto> (i, a))) j \<noteq> None"
    using ok(3) unfolding upd(3) by (auto simp: sessions_ok_def)
  moreover have "requested (attach i a k now c) = requested c1" "cn_settled (attach i a k now c) = cn_settled c1"
    "cn_pending (attach i a k now c) = cn_pending c1" "cn_sessions (attach i a k now c) = AList.update i k (cn_sessions c)"
    "cn_socket (attach i a k now c) = (cn_socket c)(k \<mapsto> (i, a))"
    by (simp_all add: attach_def Let_def c1_def [symmetric] safeSend_def c1(3,4) requested_def del: fun_upd_apply)
  ultimately show ?thesis using upd(1,2) c1(1,2) ok(2)
    unfolding channelOk_def requests_accounted_def sessions_ok_def pending_attached_def by simp
qed

lemma send_ok: "channelOk c \<Longrightarrow> ty \<noteq> ''probe-now-request'' \<Longrightarrow> channelOk (safeSend k ty i c)"
  by (simp add: channelOk_def requests_accounted_def sessions_ok_def pending_attached_def requested_def safeSend_def)

lemma settle_ok:
  assumes "channelOk c" "(k, i) \<in> set (cn_pending c)"
  shows "channelOk (c\<lparr>cn_pending := removeAll (k, i) (cn_pending c), cn_settled := cn_settled c @ [(i, out)]\<rparr>)"
  using assms settle_one [of c k i out] by (auto simp: channelOk_def sessions_ok_def pending_attached_def requested_def)

lemma probe_ok:
  assumes "channelOk c" "r \<notin> set (requested c)"
  shows "channelOk (snd (sendProbeNow i r c))"
proof (cases "sessionOf i c")
  case (Some k)
  then have "k \<in> snd ` set (cn_sessions c)" by (auto simp: sessionOf_def dest!: map_of_SomeD intro: rev_image_eqI)
  then show ?thesis using assms Some
    by (simp add: sendProbeNow_def safeSend_def channelOk_def requests_accounted_def sessions_ok_def pending_attached_def requested_def)
qed (use assms in \<open>simp add: sendProbeNow_def\<close>)

lemma shutdown_ok: "channelOk c \<Longrightarrow> channelOk (foldl (\<lambda>c i. detach i ''server shutdown'' now c) c ids)"
  by (induction ids arbitrary: c) (simp_all add: detach_ok)

lemma channelStep_ok: "channelOk c \<Longrightarrow> freshCall c e \<Longrightarrow> channelOk (channelStep c e)"
proof (cases e)
  case (PingTimer k now)
  then show "channelOk c \<Longrightarrow> ?thesis"
    by (auto simp: onPingTimer_def detach_ok intro!: send_ok calm_ok [of c] split: option.split)
next
  case (FrameIn k f)
  then show "channelOk c \<Longrightarrow> ?thesis" by (auto simp: onFrame_def settle_ok split: option.split agentFrame.split)
qed (auto simp: attach_ok detach_ok onClose_def onError_def onPong_def probe_ok onProbeTimeout_def settle_ok refreshConfig_def send_ok
      shutdownAllSessions_def shutdown_ok intro: calm_ok split: option.split)

lemma channelRun_ok: "channelOk c \<Longrightarrow> freshRun c es \<Longrightarrow> channelOk (foldl channelStep c es)"
  by (induction es arbitrary: c) (simp_all add: channelStep_ok)

lemma detach_effect: "cn_sessions (detach i reason now c) = AList.delete i (cn_sessions c)" "requested (detach i reason now c) = requested c"
  by (auto simp: detach_def sessionOf_def Let_def teardown_def requested_def map_of_eq_None_iff AList.delete_id split: option.split)

lemma shutdown_effect:
  "cn_sessions (shutdownAllSessions now c) = []" "requested (shutdownAllSessions now c) = requested c"
proof -
  have "cn_sessions (foldl (\<lambda>c i. detach i r now c) c ids) = filter (\<lambda>p. fst p \<notin> set ids) (cn_sessions c) \<and>
      requested (foldl (\<lambda>c i. detach i r now c) c ids) = requested c" for ids r
    by (induction ids arbitrary: c) (auto simp: detach_effect AList.delete_eq case_prod_beta intro!: filter_cong)
  from this [of "''server shutdown''" "map fst (cn_sessions c)"] show
    "cn_sessions (shutdownAllSessions now c) = []" "requested (shutdownAllSessions now c) = requested c"
    by (auto simp: shutdownAllSessions_def filter_empty_conv intro: rev_image_eqI)
qed

text \<open>
  C17. No request to an agent is lost or answered twice: under any interleaving of connections, disconnections, pings, answers, timeouts and
  requests, every request sent is either settled or pending on an attached session, exactly once, and when the sessions are shut down
  every request sent has been settled exactly once.
\<close>

theorem requests_settled_once:
  assumes "channelOk c" "freshRun c es" "d = foldl channelStep c es" "e = shutdownAllSessions now d"
  shows "mset (map fst (cn_settled d)) + mset (map snd (cn_pending d)) = mset (requested d) \<and> fst ` set (cn_pending d) \<subseteq> snd ` set (cn_sessions d) \<and>
    cn_pending e = [] \<and> mset (map fst (cn_settled e)) = mset (requested d) \<and> distinct (requested d)"
proof -
  have d: "channelOk d" unfolding assms(3) by (rule channelRun_ok [OF assms(1,2)])
  then have e: "channelOk e" unfolding assms(4) using channelStep_ok [of d "Shutdown now"] by simp
  have "cn_pending e = []" using e shutdown_effect(1) [of now d] by (simp add: channelOk_def pending_attached_def assms(4))
  moreover from this e have "mset (map fst (cn_settled e)) = mset (requested d)"
    using shutdown_effect(2) [of now d] by (simp add: channelOk_def requests_accounted_def assms(4))
  ultimately show ?thesis using d by (simp add: channelOk_def requests_accounted_def pending_attached_def)
qed

section \<open>Where it fails\<close>

text \<open>
  C19. An agent that reconnects loses its new session: attaching the new socket closes the old one, and the close event of the old socket
  detaches whatever session the agent has by then, which is the new one; its socket is closed too.
\<close>

theorem reconnect_loses_session:
  assumes "sessionOf i c = Some old" "cn_socket c old = Some (i, a)" "new \<noteq> old" "d = attach i a new now c" "e = onClose old later d"
  shows "isAttached i d \<and> old \<in> set (cn_closed d) \<and> \<not> isAttached i e \<and> new \<in> set (cn_closed e)"
proof -
  have d: "sessionOf i d = Some new" "cn_socket d old = Some (i, a)" "old \<in> set (cn_closed d)"
    using assms(1-3) by (simp_all add: assms(4) attach_def Let_def safeSend_def sessionOf_def teardown_def map_of_eq_Some_iff update_conv')
  then show ?thesis by (auto simp: assms(5) onClose_def isAttached_def sessionOf_def detach_def Let_def teardown_def delete_conv')
qed

text \<open>One ping without an answer ends a session at the next one.\<close>

lemma one_missed_pong:
  assumes "sessionOf i c = Some k" "cn_socket c k = Some (i, a)" "k \<in> set (cn_timers c)"
  shows "\<not> isAttached i (onPingTimer k later (onPingTimer k now c))"
  using assms
  by (cases "cn_pong c k") (auto simp: onPingTimer_def safeSend_def isAttached_def sessionOf_def detach_def Let_def teardown_def delete_conv')

definition noChannel :: channel where
  "noChannel = \<lparr>cn_sessions = [], cn_socket = Map.empty, cn_pong = (\<lambda>_. False), cn_timers = [], cn_pending = [], cn_settled = [], cn_sent = [],
     cn_closed = [], cn_connectedAt = Map.empty, cn_disconnectedAt = Map.empty, cn_events = []\<rparr>"

lemma noChannel_ok: "channelOk noChannel"
  by (simp add: channelOk_def requests_accounted_def sessions_ok_def pending_attached_def requested_def noChannel_def)

theorem requests_settled_once_witness:
  "mset (map fst (cn_settled (shutdownAllSessions 9 (foldl channelStep noChannel
      [Attach ''m1'' ''h1'' 1 0, ProbeNow ''m1'' ''r1'', ProbeNow ''m1'' ''r2'', FrameIn 1 (Frame ''probe-now-response'' ''r1'' ''ok'')])))) =
   {#''r1'', ''r2''#}"
proof -
  let ?es = "[Attach ''m1'' ''h1'' 1 0, ProbeNow ''m1'' ''r1'', ProbeNow ''m1'' ''r2'', FrameIn 1 (Frame ''probe-now-response'' ''r1'' ''ok'')]"
  have "freshRun noChannel ?es" by code_simp
  moreover have "requested (foldl channelStep noChannel ?es) = [''r1'', ''r2'']" by code_simp
  ultimately show ?thesis using requests_settled_once [OF noChannel_ok _ refl refl, of ?es 9] by simp
qed

theorem reconnect_loses_session_witness:
  "isAttached ''m1'' (attach ''m1'' ''h1'' 2 5 (attach ''m1'' ''h1'' 1 0 noChannel)) \<and>
   \<not> isAttached ''m1'' (onClose 1 6 (attach ''m1'' ''h1'' 2 5 (attach ''m1'' ''h1'' 1 0 noChannel)))"
proof -
  have "sessionOf ''m1'' (attach ''m1'' ''h1'' 1 0 noChannel) = Some 1" "cn_socket (attach ''m1'' ''h1'' 1 0 noChannel) 1 = Some (''m1'', ''h1'')"
    by code_simp+
  from reconnect_loses_session [OF this _ refl refl, of 2 5 6] show ?thesis by simp
qed

end
