(* ===== verification/AssetSources.thy ===== *)
theory AssetSources
  imports Json
begin

text \<open>
  What the discovery sources say about an asset and how the program settles on one value per field: the
  manufacturer names of \<^verbatim>\<open>src/utils/manufacturerNormalize.ts\<close>, the priority rules of
  \<^verbatim>\<open>src/utils/assetProjection.ts\<close>, the sources derived from an asset row by
  \<^verbatim>\<open>src/utils/assetSourceDerivation.ts\<close>, the comparison of \<^verbatim>\<open>src/services/projectionDriftService.ts\<close>, and the observations
  the discovery code of \<^verbatim>\<open>src/api/routes/integrations.ts\<close> writes down. All of it is free of effects; the tables are in theory \<^verbatim>\<open>Inventory\<close>.
  An observation is a JSON object; coordinates are exact rationals.
\<close>

section \<open>Manufacturer names\<close>

text \<open>The map of aliases; \<^term>\<open>None\<close> before it is loaded.\<close>

type_synonym aliasMap = "(string \<rightharpoonup> string) option"

definition aliasEntry :: "(string \<rightharpoonup> string) \<Rightarrow> string \<times> string \<Rightarrow> (string \<rightharpoonup> string)" where
  "aliasEntry m e =
     (let key = toLowerCase (trim (fst e)) in if key = [] then m else m(key \<mapsto> snd e))"

definition setAliasMap :: "(string \<times> string) list \<Rightarrow> aliasMap" where
  "setAliasMap entries = Some (foldl aliasEntry Map.empty entries)"

definition normalizeManufacturer :: "aliasMap \<Rightarrow> string option \<Rightarrow> string option" where
  "normalizeManufacturer am input =
     (case input of
        None \<Rightarrow> None
      | Some s \<Rightarrow>
          (let trimmed = trim s
           in if trimmed = [] then None
              else case am of
                     None \<Rightarrow> Some trimmed
                   | Some m \<Rightarrow> (case m (toLowerCase trimmed) of Some c \<Rightarrow> Some c | None \<Rightarrow> Some trimmed)))"

section \<open>Coordinates\<close>

definition isValidGeoCoord :: "rat option \<Rightarrow> rat option \<Rightarrow> bool" where
  "isValidGeoCoord lat lng =
     (case (lat, lng) of
        (Some a, Some b) \<Rightarrow> \<not> (a < - 90 \<or> a > 90) \<and> \<not> (b < - 180 \<or> b > 180) \<and> \<not> (a = 0 \<and> b = 0)
      | _ \<Rightarrow> False)"

section \<open>Projection\<close>

datatype fieldValue = StrV string | NumV rat

record projSource =
  ps_sourceKind :: string
  ps_inferred :: bool
  ps_observed :: json

definition obsString :: "json \<Rightarrow> string \<Rightarrow> string option" where
  "obsString obs key = (case jprop obs key of Some (JStr v) \<Rightarrow> or_null (Some (trim v)) | _ \<Rightarrow> None)"

definition obsNumber :: "json \<Rightarrow> string \<Rightarrow> rat option" where
  "obsNumber obs key = (case jprop obs key of Some (JNum n) \<Rightarrow> Some n | _ \<Rightarrow> None)"

record fieldRule =
  fr_sourceKind :: string
  fr_pick :: "json \<Rightarrow> fieldValue option"

text \<open>The shapes of accessor the rules use: a string, a manufacturer, and one half of a valid pair of coordinates.\<close>

definition strRule :: "string \<Rightarrow> string \<Rightarrow> fieldRule" where
  "strRule kind key = \<lparr>fr_sourceKind = kind, fr_pick = \<lambda>obs. map_option StrV (obsString obs key)\<rparr>"

definition vendorRule :: "aliasMap \<Rightarrow> string \<Rightarrow> string \<Rightarrow> fieldRule" where
  "vendorRule am kind key =
     \<lparr>fr_sourceKind = kind,
      fr_pick = \<lambda>obs. (case obsString obs key of None \<Rightarrow> None | Some raw \<Rightarrow> map_option StrV (normalizeManufacturer am (Some raw)))\<rparr>"

definition fixedRule :: "string \<Rightarrow> string \<Rightarrow> fieldRule" where
  "fixedRule kind v = \<lparr>fr_sourceKind = kind, fr_pick = \<lambda>_. Some (StrV v)\<rparr>"

definition coordRule :: "bool \<Rightarrow> string \<Rightarrow> string \<Rightarrow> fieldRule" where
  "coordRule wantLat latKey lngKey =
     \<lparr>fr_sourceKind = ''fortigate-firewall'',
      fr_pick = \<lambda>obs. (let lat = obsNumber obs latKey; lng = obsNumber obs lngKey
                      in if isValidGeoCoord lat lng then map_option NumV (if wantLat then lat else lng) else None)\<rparr>"

definition HOSTNAME_RULES :: "fieldRule list" where
  "HOSTNAME_RULES =
     [strRule ''polaris-agent'' ''hostname'',
      \<lparr>fr_sourceKind = ''ad'',
       fr_pick = \<lambda>obs. (case obsString obs ''dnsHostName'' of
                         Some v \<Rightarrow> if includes_str v ''.'' then Some (StrV v) else None | None \<Rightarrow> None)\<rparr>,
      strRule ''intune'' ''deviceName'',
      strRule ''entra'' ''displayName'',
      \<lparr>fr_sourceKind = ''ad'',
       fr_pick = \<lambda>obs. map_option StrV (case obsString obs ''dnsHostName'' of Some v \<Rightarrow> Some v | None \<Rightarrow> obsString obs ''cn'')\<rparr>,
      strRule ''fortigate-firewall'' ''hostname'',
      strRule ''fortiswitch'' ''switchId'',
      strRule ''fortiap'' ''name'',
      strRule ''fortigate-endpoint'' ''hostname'']"

definition SERIAL_RULES :: "fieldRule list" where
  "SERIAL_RULES =
     [strRule ''polaris-agent'' ''serialNumber'', strRule ''intune'' ''serialNumber'', strRule ''fortigate-firewall'' ''serial'',
      strRule ''fortiswitch'' ''serial'', strRule ''fortiap'' ''serial'']"

definition MANUFACTURER_RULES :: "aliasMap \<Rightarrow> fieldRule list" where
  "MANUFACTURER_RULES am =
     [vendorRule am ''polaris-agent'' ''manufacturer'', vendorRule am ''intune'' ''manufacturer'',
      fixedRule ''fortigate-firewall'' ''Fortinet'', fixedRule ''fortiswitch'' ''Fortinet'', fixedRule ''fortiap'' ''Fortinet'',
      vendorRule am ''fortigate-endpoint'' ''hardwareVendor'']"

definition MODEL_RULES :: "fieldRule list" where
  "MODEL_RULES =
     [strRule ''polaris-agent'' ''model'', strRule ''intune'' ''model'', strRule ''fortigate-firewall'' ''model'',
      strRule ''fortiap'' ''model'', strRule ''fortigate-endpoint'' ''model'']"

definition OS_RULES :: "fieldRule list" where
  "OS_RULES =
     [strRule ''polaris-agent'' ''os'', strRule ''ad'' ''operatingSystem'', strRule ''intune'' ''operatingSystem'',
      strRule ''entra'' ''operatingSystem'', strRule ''fortigate-endpoint'' ''os'']"

definition OS_VERSION_RULES :: "fieldRule list" where
  "OS_VERSION_RULES =
     [strRule ''polaris-agent'' ''osVersion'', strRule ''intune'' ''osVersion'', strRule ''entra'' ''operatingSystemVersion'',
      strRule ''ad'' ''operatingSystemVersion'', strRule ''fortigate-firewall'' ''osVersion'', strRule ''fortiswitch'' ''osVersion'',
      strRule ''fortiap'' ''osVersion'', strRule ''fortigate-endpoint'' ''osVersion'']"

definition LEARNED_LOCATION_RULES :: "fieldRule list" where
  "LEARNED_LOCATION_RULES =
     [strRule ''ad'' ''ouPath'', strRule ''fortigate-endpoint'' ''learnedLocation'',
      strRule ''fortiswitch'' ''controllerFortigate'', strRule ''fortiap'' ''controllerFortigate'']"

definition IP_ADDRESS_RULES :: "fieldRule list" where
  "IP_ADDRESS_RULES =
     [strRule ''fortigate-endpoint'' ''ipAddress'', strRule ''fortigate-firewall'' ''mgmtIp'',
      strRule ''fortiswitch'' ''mgmtIp'', strRule ''fortiap'' ''mgmtIp'']"

definition LATITUDE_RULES :: "fieldRule list" where
  "LATITUDE_RULES =
     [coordRule True ''snmpGeocodedLatitude'' ''snmpGeocodedLongitude'',
      coordRule True ''metavarLatitude'' ''metavarLongitude'',
      coordRule True ''latitude'' ''longitude'']"

definition LONGITUDE_RULES :: "fieldRule list" where
  "LONGITUDE_RULES =
     [coordRule False ''snmpGeocodedLatitude'' ''snmpGeocodedLongitude'',
      coordRule False ''metavarLatitude'' ''metavarLongitude'',
      coordRule False ''latitude'' ''longitude'']"

definition SNMP_LOCATION_RULES :: "fieldRule list" where
  "SNMP_LOCATION_RULES = [strRule ''fortigate-firewall'' ''snmpLocation'']"

fun projectField :: "projSource list \<Rightarrow> fieldRule list \<Rightarrow> (fieldValue \<times> string) option" where
  "projectField sources [] = None"
| "projectField sources (r # rs) =
     (case find (\<lambda>s. ps_sourceKind s = fr_sourceKind r \<and> \<not> ps_inferred s) sources of
        None \<Rightarrow> projectField sources rs
      | Some candidate \<Rightarrow>
          (case fr_pick r (ps_observed candidate) of
             None \<Rightarrow> projectField sources rs
           | Some picked \<Rightarrow> if picked \<noteq> StrV [] then Some (picked, fr_sourceKind r) else projectField sources rs))"

text \<open>
  \<^verbatim>\<open>ProjectionResult\<close>: the projected fields and which kind of source each came from, by the name of the field; an
  absent entry is \<^verbatim>\<open>null\<close>. \<open>FIELD_RULES\<close> is the sequence of \<^verbatim>\<open>apply\<close> calls.
\<close>

record projection =
  pj_projected :: "string \<rightharpoonup> fieldValue"
  pj_provenance :: "string \<rightharpoonup> string"

definition FIELD_RULES :: "aliasMap \<Rightarrow> (string \<times> fieldRule list) list" where
  "FIELD_RULES am =
     [(''hostname'', HOSTNAME_RULES), (''serialNumber'', SERIAL_RULES), (''manufacturer'', MANUFACTURER_RULES am),
      (''model'', MODEL_RULES), (''os'', OS_RULES), (''osVersion'', OS_VERSION_RULES),
      (''learnedLocation'', LEARNED_LOCATION_RULES), (''ipAddress'', IP_ADDRESS_RULES),
      (''latitude'', LATITUDE_RULES), (''longitude'', LONGITUDE_RULES), (''snmpLocation'', SNMP_LOCATION_RULES)]"

definition applyField :: "projSource list \<Rightarrow> projection \<Rightarrow> string \<times> fieldRule list \<Rightarrow> projection" where
  "applyField sources p fr =
     (case projectField sources (snd fr) of
        None \<Rightarrow> p
      | Some (v, k) \<Rightarrow> \<lparr>pj_projected = (pj_projected p)(fst fr \<mapsto> v), pj_provenance = (pj_provenance p)(fst fr \<mapsto> k)\<rparr>)"

definition projectAssetFromSources :: "aliasMap \<Rightarrow> projSource list \<Rightarrow> projection" where
  "projectAssetFromSources am sources =
     foldl (applyField sources) \<lparr>pj_projected = Map.empty, pj_provenance = Map.empty\<rparr> (FIELD_RULES am)"

definition projStr :: "projection \<Rightarrow> string \<Rightarrow> string option" where
  "projStr p f = (case pj_projected p f of Some (StrV s) \<Rightarrow> Some s | _ \<Rightarrow> None)"

definition projNum :: "projection \<Rightarrow> string \<Rightarrow> rat option" where
  "projNum p f = (case pj_projected p f of Some (NumV n) \<Rightarrow> Some n | _ \<Rightarrow> None)"

section \<open>Asset rows\<close>

text \<open>The columns of an asset the derivation reads (\<^verbatim>\<open>AssetSnapshot\<close>); the row of the table extends it.\<close>

record assetSnapshot =
  an_id :: string
  an_assetTag :: "string option"
  an_tags :: "string list"
  an_discoveredBy :: "string option"
  an_hostname :: "string option"
  an_ipAddress :: "string option"
  an_os :: "string option"
  an_osVersion :: "string option"
  an_serialNumber :: "string option"
  an_manufacturer :: "string option"
  an_model :: "string option"
  an_assetType :: string
  an_status :: string
  an_learnedLocation :: "string option"
  an_dnsName :: "string option"
  an_latitude :: "rat option"
  an_longitude :: "rat option"
  an_acquiredAt :: "int option"
  an_lastSeen :: "int option"
  an_createdBy :: "string option"

text \<open>\<^verbatim>\<open>asset[field]\<close> for the fields the projection owns and the table has.\<close>

definition assetField :: "('a assetSnapshot_scheme) \<Rightarrow> string \<Rightarrow> fieldValue option" where
  "assetField a f =
     (if f = ''hostname'' then map_option StrV (an_hostname a)
      else if f = ''serialNumber'' then map_option StrV (an_serialNumber a)
      else if f = ''manufacturer'' then map_option StrV (an_manufacturer a)
      else if f = ''model'' then map_option StrV (an_model a)
      else if f = ''os'' then map_option StrV (an_os a)
      else if f = ''osVersion'' then map_option StrV (an_osVersion a)
      else if f = ''learnedLocation'' then map_option StrV (an_learnedLocation a)
      else if f = ''ipAddress'' then map_option StrV (an_ipAddress a)
      else if f = ''latitude'' then map_option NumV (an_latitude a)
      else if f = ''longitude'' then map_option NumV (an_longitude a)
      else None)"

section \<open>Drift\<close>

definition PROJECTED_FIELDS :: "string list" where
  "PROJECTED_FIELDS =
     [''hostname'', ''serialNumber'', ''manufacturer'', ''model'', ''os'', ''osVersion'', ''learnedLocation'', ''ipAddress'',
      ''latitude'', ''longitude'']"

definition valuesEqual :: "fieldValue option \<Rightarrow> fieldValue option \<Rightarrow> bool" where
  "valuesEqual a b =
     (if a = b then True
      else case (a, b) of
             (Some (StrV s), Some (StrV t)) \<Rightarrow> trim s = trim t
           | _ \<Rightarrow> False)"

record driftEntry =
  dv_field :: string
  dv_projected :: fieldValue
  dv_current :: "fieldValue option"
  dv_winningSource :: "string option"

definition driftEntries :: "aliasMap \<Rightarrow> ('a assetSnapshot_scheme) \<Rightarrow> projSource list \<Rightarrow> driftEntry list" where
  "driftEntries am a sources =
     (let p = projectAssetFromSources am sources
      in List.map_filter
           (\<lambda>f. case pj_projected p f of
                  None \<Rightarrow> None
                | Some v \<Rightarrow>
                    (if valuesEqual (Some v) (assetField a f) then None
                     else Some \<lparr>dv_field = f, dv_projected = v, dv_current = assetField a f, dv_winningSource = pj_provenance p f\<rparr>))
           PROJECTED_FIELDS)"

section \<open>Dates as text\<close>

text \<open>
  \<^verbatim>\<open>Date.prototype.toISOString\<close> of a time in milliseconds, for the years 0 to 9999: the day of the proleptic
  Gregorian calendar by the usual count from the first of March.
\<close>

definition civilDate :: "int \<Rightarrow> int \<times> int \<times> int" where
  "civilDate days =
     (let z = days + 719468; era = z div 146097; doe = z mod 146097;
          yoe = (doe - doe div 1460 + doe div 36524 - doe div 146096) div 365;
          doy = doe - (365 * yoe + yoe div 4 - yoe div 100);
          mp = (5 * doy + 2) div 153;
          d = doy - (153 * mp + 2) div 5 + 1;
          m = (if mp < 10 then mp + 3 else mp - 9)
      in (yoe + era * 400 + (if m \<le> 2 then 1 else 0), m, d))"

definition digits :: "nat \<Rightarrow> int \<Rightarrow> string" where
  "digits w n = padStart (string_of_nat (nat n)) w (CHR ''0'')"

definition toISOString :: "int \<Rightarrow> string" where
  "toISOString ms =
     (let (y, m, d) = civilDate (ms div 86400000); r = ms mod 86400000
      in digits 4 y @ ''-'' @ digits 2 m @ ''-'' @ digits 2 d @ ''T'' @ digits 2 (r div 3600000) @ '':'' @
         digits 2 (r div 60000 mod 60) @ '':'' @ digits 2 (r div 1000 mod 60) @ ''.'' @ digits 3 (r mod 1000) @ ''Z'')"

section \<open>Sources derived from an asset row\<close>

record derivedSource =
  ds_sourceKind :: string
  ds_externalId :: string
  ds_integrationId :: "string option"
  ds_inferred :: bool
  ds_observed :: json

definition jstr :: "string option \<Rightarrow> json" where
  "jstr v = (case v of None \<Rightarrow> JNull | Some s \<Rightarrow> JStr s)"

definition jnum :: "rat option \<Rightarrow> json" where
  "jnum v = (case v of None \<Rightarrow> JNull | Some n \<Rightarrow> JNum n)"

definition jdate :: "int option \<Rightarrow> json" where
  "jdate v = jstr (map_option toISOString v)"

fun findSidTag :: "string list \<Rightarrow> string option" where
  "findSidTag [] = None"
| "findSidTag (t # ts) = (if startsWith t ''sid:'' then or_null (Some (trim (drop 4 t))) else findSidTag ts)"

definition retired :: "('a assetSnapshot_scheme) \<Rightarrow> bool" where
  "retired a \<longleftrightarrow> an_status a = ''disabled'' \<or> an_status a = ''decommissioned''"

definition buildEntraObserved :: "('a assetSnapshot_scheme) \<Rightarrow> string \<Rightarrow> json" where
  "buildEntraObserved a deviceId =
     JObj ([(''deviceId'', JStr (toLowerCase deviceId)), (''displayName'', jstr (an_hostname a)),
            (''operatingSystem'', jstr (an_os a)), (''operatingSystemVersion'', jstr (an_osVersion a)),
            (''accountEnabled'', JBool (\<not> retired a))] @
           (case findSidTag (an_tags a) of None \<Rightarrow> [] | Some sid \<Rightarrow> [(''onPremisesSecurityIdentifier'', JStr sid)]))"

definition buildAdObserved :: "('a assetSnapshot_scheme) \<Rightarrow> string \<Rightarrow> json" where
  "buildAdObserved a guid =
     JObj ([(''objectGuid'', JStr (toLowerCase guid)), (''cn'', jstr (an_hostname a)),
            (''dnsHostName'', jstr (case an_dnsName a of None \<Rightarrow> an_hostname a | Some d \<Rightarrow> Some d)),
            (''ouPath'', jstr (an_learnedLocation a)), (''operatingSystem'', jstr (an_os a)),
            (''operatingSystemVersion'', jstr (an_osVersion a)), (''accountDisabled'', JBool (retired a)),
            (''whenCreated'', jdate (an_acquiredAt a)), (''lastLogonTimestamp'', jdate (an_lastSeen a))] @
           (case findSidTag (an_tags a) of None \<Rightarrow> [] | Some sid \<Rightarrow> [(''objectSid'', JStr sid)]))"

definition buildFortigateFirewallObserved :: "('a assetSnapshot_scheme) \<Rightarrow> string \<Rightarrow> json" where
  "buildFortigateFirewallObserved a serial =
     JObj [(''serial'', JStr serial), (''hostname'', jstr (an_hostname a)), (''model'', jstr (an_model a)),
           (''osVersion'', jstr (an_osVersion a)), (''mgmtIp'', jstr (an_ipAddress a)),
           (''latitude'', jnum (an_latitude a)), (''longitude'', jnum (an_longitude a))]"

definition buildFortiswitchObserved :: "('a assetSnapshot_scheme) \<Rightarrow> string \<Rightarrow> json" where
  "buildFortiswitchObserved a serial =
     JObj [(''serial'', JStr serial), (''switchId'', jstr (an_hostname a)), (''model'', jstr (an_model a)),
           (''osVersion'', jstr (an_osVersion a)), (''mgmtIp'', jstr (an_ipAddress a)),
           (''controllerFortigate'', jstr (an_learnedLocation a))]"

definition buildFortiapObserved :: "('a assetSnapshot_scheme) \<Rightarrow> string \<Rightarrow> json" where
  "buildFortiapObserved a serial =
     JObj [(''serial'', JStr serial), (''name'', jstr (an_hostname a)), (''model'', jstr (an_model a)),
           (''osVersion'', jstr (an_osVersion a)), (''mgmtIp'', jstr (an_ipAddress a)),
           (''controllerFortigate'', jstr (an_learnedLocation a))]"

text \<open>The source the prefix of the asset tag names; \<open>tag\<close> is trimmed and not empty.\<close>

definition primarySource :: "('a assetSnapshot_scheme) \<Rightarrow> string \<Rightarrow> derivedSource list" where
  "primarySource a tag =
     (if startsWith tag ''entra:'' then
        (let deviceId = trim (drop 6 tag)
         in if deviceId = [] then []
            else [\<lparr>ds_sourceKind = ''entra'', ds_externalId = toLowerCase deviceId, ds_integrationId = an_discoveredBy a,
                   ds_inferred = False, ds_observed = buildEntraObserved a deviceId\<rparr>])
      else if startsWith tag ''ad:'' then
        (let guid = trim (drop 3 tag)
         in if guid = [] then []
            else [\<lparr>ds_sourceKind = ''ad'', ds_externalId = toLowerCase guid, ds_integrationId = an_discoveredBy a,
                   ds_inferred = False, ds_observed = buildAdObserved a guid\<rparr>])
      else if startsWith tag ''fgt:'' then
        (let serial = trim (or_str (an_serialNumber a) (trim (drop 4 tag)))
         in if serial = [] then []
            else [\<lparr>ds_sourceKind = ''fortigate-firewall'', ds_externalId = serial, ds_integrationId = an_discoveredBy a,
                   ds_inferred = False, ds_observed = buildFortigateFirewallObserved a serial\<rparr>])
      else [])"

text \<open>Fortinet infrastructure without a tag is recognised by manufacturer, type and serial number.\<close>

definition infraSource :: "('a assetSnapshot_scheme) \<Rightarrow> derivedSource list" where
  "infraSource a =
     (if toLowerCase (or_str (an_manufacturer a) []) = ''fortinet'' \<and> truthy (an_serialNumber a) then
        (let serial = the (an_serialNumber a);
             source = (\<lambda>kind observed. \<lparr>ds_sourceKind = kind, ds_externalId = serial, ds_integrationId = an_discoveredBy a,
                                       ds_inferred = False, ds_observed = observed\<rparr>)
         in if an_assetType a = ''firewall'' then [source ''fortigate-firewall'' (buildFortigateFirewallObserved a serial)]
            else if an_assetType a = ''switch'' then [source ''fortiswitch'' (buildFortiswitchObserved a serial)]
            else if an_assetType a = ''access_point'' then [source ''fortiap'' (buildFortiapObserved a serial)]
            else [])
      else [])"

definition recoveredAd :: "string \<Rightarrow> derivedSource" where
  "recoveredAd guid =
     \<lparr>ds_sourceKind = ''ad'', ds_externalId = guid, ds_integrationId = None, ds_inferred = True,
      ds_observed = JObj [(''objectGuid'', JStr guid), (''recovered'', JStr ''ad-guid-tag'')]\<rparr>"

fun recoverAd :: "string list \<Rightarrow> derivedSource list \<Rightarrow> derivedSource list" where
  "recoverAd [] out = out"
| "recoverAd (t # ts) out =
     (let guid = trim (drop 8 t)
      in if \<not> startsWith t ''ad-guid:'' \<or> guid = [] then recoverAd ts out
         else if list_ex (\<lambda>s. ds_sourceKind s = ''ad'' \<and> ds_externalId s = toLowerCase guid) out then recoverAd ts out
         else recoverAd ts (out @ [recoveredAd (toLowerCase guid)]))"

definition deriveAssetSources :: "('a assetSnapshot_scheme) \<Rightarrow> derivedSource list" where
  "deriveAssetSources a =
     (let tag = or_null (map_option trim (an_assetTag a));
          tagged = (case tag of None \<Rightarrow> [] | Some t \<Rightarrow> primarySource a t);
          out = (if tagged = [] then infraSource a else tagged);
          out' = (case tag of None \<Rightarrow> out | Some t \<Rightarrow> if startsWith t ''entra:'' then recoverAd (an_tags a) out else out)
      in if out' = []
         then [\<lparr>ds_sourceKind = ''manual'', ds_externalId = an_id a, ds_integrationId = None, ds_inferred = False,
                ds_observed = JObj (if truthy (an_createdBy a) then [(''createdBy'', jstr (an_createdBy a))] else [])\<rparr>]
         else out')"

section \<open>Observations written by discovery\<close>

text \<open>\<^verbatim>\<open>v || null\<close> and \<^verbatim>\<open>typeof v === "boolean" ? v : null\<close>.\<close>

definition jor :: "string option \<Rightarrow> json" where
  "jor v = jstr (or_null v)"

definition jbool :: "bool option \<Rightarrow> json" where
  "jbool v = (case v of None \<Rightarrow> JNull | Some b \<Rightarrow> JBool b)"

record firewallDevice =
  fd_name :: "string option"
  fd_hostname :: "string option"
  fd_serial :: "string option"
  fd_model :: "string option"
  fd_mgmtIp :: "string option"
  fd_osVersion :: "string option"
  fd_coord :: "rat option \<times> rat option"
  fd_metavar :: "rat option \<times> rat option"
  fd_snmpLocation :: "string option"
  fd_snmpGeocoded :: "rat option \<times> rat option"

record haContext =
  ha_mode :: string
  ha_role :: string
  ha_peerSerial :: string

definition buildFortigateFirewallObservedBlob :: "firewallDevice \<Rightarrow> string \<Rightarrow> int \<Rightarrow> haContext option \<Rightarrow> json" where
  "buildFortigateFirewallObservedBlob d integrationType syncedAt ha =
     JObj ([(''kind'', JStr ''fortigate-firewall''), (''syncedAt'', JStr (toISOString syncedAt)), (''serial'', jor (fd_serial d)),
            (''hostname'', jstr (if truthy (fd_hostname d) then fd_hostname d else or_null (fd_name d))),
            (''model'', jor (fd_model d)), (''osVersion'', jor (fd_osVersion d)), (''mgmtIp'', jor (fd_mgmtIp d)),
            (''latitude'', jnum (fst (fd_coord d))), (''longitude'', jnum (snd (fd_coord d))),
            (''metavarLatitude'', jnum (fst (fd_metavar d))), (''metavarLongitude'', jnum (snd (fd_metavar d))),
            (''snmpLocation'', jor (fd_snmpLocation d)),
            (''snmpGeocodedLatitude'', jnum (fst (fd_snmpGeocoded d))), (''snmpGeocodedLongitude'', jnum (snd (fd_snmpGeocoded d))),
            (''managedBy'', JStr integrationType)] @
           (case ha of
              None \<Rightarrow> []
            | Some h \<Rightarrow> [(''haMode'', JStr (ha_mode h)), (''haRole'', JStr (ha_role h)), (''haPeerSerial'', JStr (ha_peerSerial h))]))"

record adDevice =
  dd_objectGuid :: string
  dd_objectSid :: string
  dd_cn :: string
  dd_dnsHostName :: string
  dd_distinguishedName :: string
  dd_operatingSystem :: string
  dd_operatingSystemVersion :: string
  dd_description :: string
  dd_whenCreated :: "string option"
  dd_lastLogonTimestamp :: "string option"
  dd_disabled :: bool
  dd_ouPath :: string

definition buildAdObservedBlob :: "adDevice \<Rightarrow> int \<Rightarrow> json" where
  "buildAdObservedBlob d syncedAt =
     JObj [(''kind'', JStr ''ad''), (''syncedAt'', JStr (toISOString syncedAt)), (''objectGuid'', JStr (toLowerCase (dd_objectGuid d))),
           (''objectSid'', jor (Some (dd_objectSid d))), (''cn'', jor (Some (dd_cn d))), (''dnsHostName'', jor (Some (dd_dnsHostName d))),
           (''distinguishedName'', jor (Some (dd_distinguishedName d))), (''ouPath'', jor (Some (dd_ouPath d))),
           (''operatingSystem'', jor (Some (dd_operatingSystem d))),
           (''operatingSystemVersion'', jor (Some (dd_operatingSystemVersion d))), (''description'', jor (Some (dd_description d))),
           (''whenCreated'', jor (dd_whenCreated d)), (''lastLogonTimestamp'', jor (dd_lastLogonTimestamp d)),
           (''accountDisabled'', JBool (dd_disabled d))]"

record entraDevice =
  ed_sources :: "string list"
  ed_entraDisplayName :: "string option"
  ed_intuneDeviceName :: "string option"
  ed_deviceId :: string
  ed_operatingSystem :: string
  ed_operatingSystemVersion :: string
  ed_trustType :: string
  ed_accountEnabled :: bool
  ed_onPremisesSecurityIdentifier :: "string option"
  ed_registrationDateTime :: "string option"
  ed_approximateLastSignInDateTime :: "string option"
  ed_isCompliant :: "bool option"
  ed_isManaged :: "bool option"
  ed_serialNumber :: "string option"
  ed_wifiMacAddress :: "string option"
  ed_ethernetMacAddress :: "string option"
  ed_manufacturer :: "string option"
  ed_model :: "string option"
  ed_userPrincipalName :: "string option"
  ed_chassisType :: "string option"
  ed_complianceState :: "string option"
  ed_lastSyncDateTime :: "string option"

definition buildEntraObservedBlob :: "entraDevice \<Rightarrow> int \<Rightarrow> json" where
  "buildEntraObservedBlob d syncedAt =
     JObj [(''kind'', JStr ''entra''), (''syncedAt'', JStr (toISOString syncedAt)), (''deviceId'', JStr (toLowerCase (ed_deviceId d))),
           (''displayName'', jstr (ed_entraDisplayName d)), (''operatingSystem'', jor (Some (ed_operatingSystem d))),
           (''operatingSystemVersion'', jor (Some (ed_operatingSystemVersion d))), (''trustType'', jor (Some (ed_trustType d))),
           (''accountEnabled'', JBool (ed_accountEnabled d)), (''isCompliant'', jbool (ed_isCompliant d)), (''isManaged'', jbool (ed_isManaged d)),
           (''registrationDateTime'', jor (ed_registrationDateTime d)),
           (''approximateLastSignInDateTime'', jor (ed_approximateLastSignInDateTime d)),
           (''onPremisesSecurityIdentifier'', jor (ed_onPremisesSecurityIdentifier d))]"

definition buildIntuneObservedBlob :: "entraDevice \<Rightarrow> int \<Rightarrow> json" where
  "buildIntuneObservedBlob d syncedAt =
     JObj [(''kind'', JStr ''intune''), (''syncedAt'', JStr (toISOString syncedAt)), (''azureADDeviceId'', JStr (toLowerCase (ed_deviceId d))),
           (''deviceName'', jstr (ed_intuneDeviceName d)), (''operatingSystem'', jor (Some (ed_operatingSystem d))),
           (''osVersion'', jor (Some (ed_operatingSystemVersion d))), (''serialNumber'', jor (ed_serialNumber d)),
           (''manufacturer'', jor (ed_manufacturer d)), (''model'', jor (ed_model d)),
           (''ethernetMacAddress'', jor (ed_ethernetMacAddress d)), (''wiFiMacAddress'', jor (ed_wifiMacAddress d)),
           (''userPrincipalName'', jor (ed_userPrincipalName d)), (''chassisType'', jor (ed_chassisType d)),
           (''complianceState'', jor (ed_complianceState d)), (''lastSyncDateTime'', jor (ed_lastSyncDateTime d))]"

end
