(* ===== verification/Inventory.thy ===== *)
theory Inventory
  imports AssetSources Blocks "HOL-Library.List_Lexorder" "HOL-Library.Char_ord"
begin

text \<open>
  The inventory tables around an asset: its rows, its sources, its addresses seen and the history of its IP
  addresses, and the aliases of manufacturers. Modelled are the query extension every write passes
  (\<^verbatim>\<open>src/db.ts\<close>), the start-up jobs \<^verbatim>\<open>backfillAssetSources.ts\<close>, \<^verbatim>\<open>backfillFortigateEndpointSources.ts\<close>, \<^verbatim>\<open>clampAssetAcquiredAt.ts\<close> and \<^verbatim>\<open>scrubLegacySidGuidTags.ts\<close>,
  \<^verbatim>\<open>src/utils/macAddresses.ts\<close>, \<^verbatim>\<open>src/utils/assetInvariants.ts\<close>, \<^verbatim>\<open>src/services/manufacturerAliasService.ts\<close> with its routes,
  \<^verbatim>\<open>src/services/assetIpHistoryService.ts\<close>, the routes that split a source off, delete an address and receive what an agent
  reports about its host, and the source writes of discovery. The routes are their handlers behind the permission guard of
  theory \<^verbatim>\<open>Access\<close>. Ids and clock readings are arguments; \<open>newId\<close> gives the id drawn for a new source of a kind and external id.
  A write of asset columns is the list of its columns: an object has each key once, and a key set again by the program comes
  later in the list and wins.
\<close>

section \<open>State\<close>

record invAsset = assetSnapshot +
  av_macAddress :: "string option"
  av_ipSource :: "string option"
  av_lastSeenSwitch :: "string option"
  av_lastSeenAp :: "string option"
  av_monitored :: bool
  av_consecutiveFailures :: nat
  av_createdAt :: int

record sourceRow =
  sr_id :: string
  sr_assetId :: string
  sr_sourceKind :: string
  sr_externalId :: string
  sr_integrationId :: "string option"
  sr_observed :: json
  sr_inferred :: bool
  sr_syncedAt :: "int option"
  sr_firstSeen :: int
  sr_lastSeen :: int

record ipHistoryRow =
  ih_assetId :: string
  ih_ip :: string
  ih_source :: string
  ih_firstSeen :: int
  ih_lastSeen :: int

record macRow =
  mr_assetId :: string
  mr_mac :: string
  mr_source :: string
  mr_device :: "string option"
  mr_subnetCidr :: "string option"
  mr_subnetName :: "string option"
  mr_lastSeen :: int
  mr_firstSeen :: int

record aliasRow =
  al_id :: string
  al_alias :: string
  al_canonical :: string

record mibRow =
  mi_id :: string
  mi_manufacturer :: "string option"
  mi_model :: "string option"
  mi_moduleName :: string

text \<open>
  Work the program starts without waiting for it: after an asset write the history of its address and the derivation of its
  sources (with the clock reading of the call), after a change of aliases the rewriting of stored names.
\<close>

datatype followUp = RecordIp string string string int | ShadowWrite invAsset int | ApplyAliases

record invState =
  nv_assets :: "invAsset list"
  nv_sources :: "sourceRow list"
  nv_ipHistory :: "ipHistoryRow list"
  nv_macs :: "macRow list"
  nv_aliases :: "aliasRow list"
  nv_aliasMap :: aliasMap
  nv_mibs :: "mibRow list"
  nv_agentVersions :: "(string \<times> string option) list"
  nv_integrations :: "(string \<times> string) list"
  nv_historySettings :: "json option"
  nv_pending :: "followUp list"
  nv_events :: "event list"

text \<open>The uniqueness constraints of the tables.\<close>

definition assetKey :: "invAsset \<Rightarrow> string option" where
  "assetKey a = an_assetTag a"

definition sourceKey :: "sourceRow \<Rightarrow> string \<times> string" where
  "sourceKey r = (sr_sourceKind r, sr_externalId r)"

definition ipHistoryKey :: "ipHistoryRow \<Rightarrow> string \<times> string" where
  "ipHistoryKey r = (ih_assetId r, ih_ip r)"

definition macKey :: "macRow \<Rightarrow> string \<times> string" where
  "macKey r = (mr_assetId r, mr_mac r)"

definition aliasKey :: "aliasRow \<Rightarrow> string option" where
  "aliasKey r = Some (al_alias r)"

definition mibTierKey :: "mibRow \<Rightarrow> (string \<times> string \<times> string) option" where
  "mibTierKey r = (case (mi_manufacturer r, mi_model r) of (Some a, Some b) \<Rightarrow> Some (a, b, mi_moduleName r) | _ \<Rightarrow> None)"

interpretation ast: keyed_table an_id assetKey "table_ok an_id assetKey" "insert_row an_id assetKey" "update_rows assetKey" delete_rows
  by (rule keyed_table_generic)

interpretation als: keyed_table al_id aliasKey "table_ok al_id aliasKey" "insert_row al_id aliasKey" "update_rows aliasKey" delete_rows
  by (rule keyed_table_generic)

interpretation mib: keyed_table mi_id mibTierKey "table_ok mi_id mibTierKey" "insert_row mi_id mibTierKey" "update_rows mibTierKey" delete_rows
  by (rule keyed_table_generic)

definition findAssetRow :: "string \<Rightarrow> invState \<Rightarrow> invAsset option" where
  "findAssetRow i s = find (\<lambda>a. an_id a = i) (nv_assets s)"

definition sourcesOf :: "string \<Rightarrow> invState \<Rightarrow> sourceRow list" where
  "sourcesOf i s = filter (\<lambda>r. sr_assetId r = i) (nv_sources s)"

definition forProjection :: "sourceRow \<Rightarrow> projSource" where
  "forProjection r = \<lparr>ps_sourceKind = sr_sourceKind r, ps_inferred = sr_inferred r, ps_observed = sr_observed r\<rparr>"

definition projectedAsset :: "string \<Rightarrow> invState \<Rightarrow> projection" where
  "projectedAsset i s = projectAssetFromSources (nv_aliasMap s) (map forProjection (sourcesOf i s))"

definition invEvent :: "string \<Rightarrow> string \<Rightarrow> string option \<Rightarrow> string option \<Rightarrow> string option \<Rightarrow> (invState, unit) io" where
  "invEvent action rtype i name actor =
     modifyIO (\<lambda>s. s\<lparr>nv_events := nv_events s @
       [\<lparr>ev_action = action, ev_level = ''info'', ev_resourceType = rtype, ev_resourceId = i, ev_resourceName = name, ev_actor = actor\<rparr>]\<rparr>)"

primrec eachIO :: "('a \<Rightarrow> ('s, unit) io) \<Rightarrow> 'a list \<Rightarrow> ('s, unit) io" where
  "eachIO f [] = returnIO ()"
| "eachIO f (x # xs) = bindIO (f x) (\<lambda>_. eachIO f xs)"

definition ignoring :: "('s, unit) io \<Rightarrow> ('s, unit) io" where
  "ignoring m = catchIO m (\<lambda>_. returnIO ())"

section \<open>Upserts\<close>

text \<open>
  \<^verbatim>\<open>INSERT ... ON CONFLICT (key) DO UPDATE\<close>, and \<^verbatim>\<open>upsert\<close> of the database client: the row with the key is changed, or the
  new one added. No modelled update changes a key.
\<close>

definition upsert_row :: "('r \<Rightarrow> 'k) \<Rightarrow> 'r \<Rightarrow> ('r \<Rightarrow> 'r) \<Rightarrow> 'r list \<Rightarrow> 'r list" where
  "upsert_row key new upd rows =
     (if key new \<in> key ` set rows then map (\<lambda>r. if key r = key new then upd r else r) rows else rows @ [new])"

definition assetNotFound :: error where
  "assetNotFound = NativeError ''Foreign key constraint violated''"

text \<open>A source refers to an asset and has an id of its own.\<close>

definition upsertSource :: "sourceRow \<Rightarrow> (sourceRow \<Rightarrow> sourceRow) \<Rightarrow> (invState, unit) io" where
  "upsertSource new upd s =
     (let rows = nv_sources s; found = find (\<lambda>r. sourceKey r = sourceKey new) rows;
          target = (case found of None \<Rightarrow> new | Some r \<Rightarrow> upd r)
      in if sr_assetId target \<notin> set (map an_id (nv_assets s)) then (Inl assetNotFound, s)
         else if found = None \<and> sr_id new \<in> set (map sr_id rows) then (Inl UniqueViolation, s)
         else (Inr (), s\<lparr>nv_sources := upsert_row sourceKey new upd rows\<rparr>))"

definition deleteSources :: "(sourceRow \<Rightarrow> bool) \<Rightarrow> (invState, unit) io" where
  "deleteSources P = modifyIO (\<lambda>s. s\<lparr>nv_sources := delete_rows P (nv_sources s)\<rparr>)"

section \<open>The query extension\<close>

datatype colWrite =
    CHostname "string option" | CDnsName "string option" | CSerialNumber "string option" | CManufacturer "string option"
  | CModel "string option" | COs "string option" | COsVersion "string option" | CLearnedLocation "string option"
  | CIpAddress "string option" | CIpSource "string option" | CMacAddress "string option" | CLatitude "rat option"
  | CLongitude "rat option" | CAssetTag "string option" | CTags "string list" | CDiscoveredBy "string option"
  | CAssetType string | CStatus string | CMonitored bool | CConsecutiveFailures nat | CAcquiredAt "int option"
  | CLastSeen "int option" | CCreatedBy "string option"

fun writeCol :: "colWrite \<Rightarrow> invAsset \<Rightarrow> invAsset" where
  "writeCol (CHostname v) a = a\<lparr>an_hostname := v\<rparr>"
| "writeCol (CDnsName v) a = a\<lparr>an_dnsName := v\<rparr>"
| "writeCol (CSerialNumber v) a = a\<lparr>an_serialNumber := v\<rparr>"
| "writeCol (CManufacturer v) a = a\<lparr>an_manufacturer := v\<rparr>"
| "writeCol (CModel v) a = a\<lparr>an_model := v\<rparr>"
| "writeCol (COs v) a = a\<lparr>an_os := v\<rparr>"
| "writeCol (COsVersion v) a = a\<lparr>an_osVersion := v\<rparr>"
| "writeCol (CLearnedLocation v) a = a\<lparr>an_learnedLocation := v\<rparr>"
| "writeCol (CIpAddress v) a = a\<lparr>an_ipAddress := v\<rparr>"
| "writeCol (CIpSource v) a = a\<lparr>av_ipSource := v\<rparr>"
| "writeCol (CMacAddress v) a = a\<lparr>av_macAddress := v\<rparr>"
| "writeCol (CLatitude v) a = a\<lparr>an_latitude := v\<rparr>"
| "writeCol (CLongitude v) a = a\<lparr>an_longitude := v\<rparr>"
| "writeCol (CAssetTag v) a = a\<lparr>an_assetTag := v\<rparr>"
| "writeCol (CTags v) a = a\<lparr>an_tags := v\<rparr>"
| "writeCol (CDiscoveredBy v) a = a\<lparr>an_discoveredBy := v\<rparr>"
| "writeCol (CAssetType v) a = a\<lparr>an_assetType := v\<rparr>"
| "writeCol (CStatus v) a = a\<lparr>an_status := v\<rparr>"
| "writeCol (CMonitored v) a = a\<lparr>av_monitored := v\<rparr>"
| "writeCol (CConsecutiveFailures v) a = a\<lparr>av_consecutiveFailures := v\<rparr>"
| "writeCol (CAcquiredAt v) a = a\<lparr>an_acquiredAt := v\<rparr>"
| "writeCol (CLastSeen v) a = a\<lparr>an_lastSeen := v\<rparr>"
| "writeCol (CCreatedBy v) a = a\<lparr>an_createdBy := v\<rparr>"

definition writeCols :: "colWrite list \<Rightarrow> invAsset \<Rightarrow> invAsset" where
  "writeCols data a = foldl (\<lambda>b c. writeCol c b) a data"

definition normalizeManufacturerInData :: "aliasMap \<Rightarrow> colWrite list \<Rightarrow> colWrite list" where
  "normalizeManufacturerInData am =
     map (\<lambda>c. case c of CManufacturer v \<Rightarrow> CManufacturer (normalizeManufacturer am v) | _ \<Rightarrow> c)"

text \<open>\<^verbatim>\<open>data.status\<close>, \<^verbatim>\<open>data.ipAddress\<close>, \<^verbatim>\<open>data.ipSource\<close>: the last write of the column, if any.\<close>

definition dataStatus :: "colWrite list \<Rightarrow> string option" where
  "dataStatus data = foldl (\<lambda>r c. case c of CStatus v \<Rightarrow> Some v | _ \<Rightarrow> r) None data"

definition dataIp :: "colWrite list \<Rightarrow> string option" where
  "dataIp data = foldl (\<lambda>r c. case c of CIpAddress v \<Rightarrow> v | _ \<Rightarrow> r) None data"

definition dataIpSource :: "colWrite list \<Rightarrow> string option" where
  "dataIpSource data = foldl (\<lambda>r c. case c of CIpSource v \<Rightarrow> v | _ \<Rightarrow> r) None data"

definition clampMonitoredForStatus :: "colWrite list \<Rightarrow> colWrite list" where
  "clampMonitoredForStatus data =
     (if dataStatus data = Some ''decommissioned'' \<or> dataStatus data = Some ''disabled''
      then data @ [CMonitored False, CConsecutiveFailures 0] else data)"

definition touchesAssetSources :: "colWrite list \<Rightarrow> bool" where
  "touchesAssetSources data =
     list_ex (\<lambda>c. case c of CAssetTag _ \<Rightarrow> True | CTags _ \<Rightarrow> True | CDiscoveredBy _ \<Rightarrow> True | _ \<Rightarrow> False) data"

text \<open>An address seen again: its first sighting counts from the last change of the source that reports it.\<close>

definition seenAgain :: "string \<Rightarrow> int \<Rightarrow> ipHistoryRow \<Rightarrow> ipHistoryRow" where
  "seenAgain src now r =
     r\<lparr>ih_lastSeen := now, ih_source := src, ih_firstSeen := (if ih_source r \<noteq> src then now else ih_firstSeen r)\<rparr>"

definition recordIpHistory :: "string \<Rightarrow> string \<Rightarrow> string \<Rightarrow> int \<Rightarrow> invState \<Rightarrow> invState" where
  "recordIpHistory assetId ip src now s =
     (if assetId \<notin> set (map an_id (nv_assets s)) then s
      else s\<lparr>nv_ipHistory :=
        upsert_row ipHistoryKey
          \<lparr>ih_assetId = assetId, ih_ip = ip, ih_source = src, ih_firstSeen = now, ih_lastSeen = now\<rparr>
          (seenAgain src now) (nv_ipHistory s)\<rparr>)"

text \<open>The row a derived source becomes, and what the update of an existing row changes.\<close>

definition newSource :: "(string \<times> string \<Rightarrow> string) \<Rightarrow> string \<Rightarrow> int \<Rightarrow> int \<Rightarrow> derivedSource \<Rightarrow> sourceRow" where
  "newSource newId assetId now seen d =
     \<lparr>sr_id = newId (ds_sourceKind d, ds_externalId d), sr_assetId = assetId, sr_sourceKind = ds_sourceKind d,
      sr_externalId = ds_externalId d, sr_integrationId = ds_integrationId d, sr_observed = ds_observed d,
      sr_inferred = ds_inferred d, sr_syncedAt = Some now, sr_firstSeen = seen, sr_lastSeen = seen\<rparr>"

definition relink :: "string \<Rightarrow> int \<Rightarrow> int \<Rightarrow> derivedSource \<Rightarrow> sourceRow \<Rightarrow> sourceRow" where
  "relink assetId now seen d r =
     r\<lparr>sr_assetId := assetId, sr_syncedAt := Some now, sr_lastSeen := seen,
       sr_inferred := (if ds_inferred d then sr_inferred r else False),
       sr_integrationId := (if truthy (ds_integrationId d) then ds_integrationId d else sr_integrationId r)\<rparr>"

definition shadowWriteAssetSources :: "(string \<times> string \<Rightarrow> string) \<Rightarrow> int \<Rightarrow> invAsset \<Rightarrow> (invState, unit) io" where
  "shadowWriteAssetSources newId now a =
     (let seen = keep (an_lastSeen a) now
      in eachIO (\<lambda>d. ignoring (upsertSource (newSource newId (an_id a) now seen d) (relink (an_id a) now seen d)))
           (deriveAssetSources a))"

text \<open>
  The extension awaits neither of the two: it leaves them behind, and they run later (\<^verbatim>\<open>settleFollowUp\<close> of theory \<^verbatim>\<open>InventoryRoutes\<close>). The
  reconciliation of DNS-resolved reservations it also starts is the call of theory \<^verbatim>\<open>DnsResolved\<close> on the IPAM tables; it writes
  no table of this theory.
\<close>

definition deferIO :: "followUp list \<Rightarrow> (invState, unit) io" where
  "deferIO fs = modifyIO (\<lambda>s. s\<lparr>nv_pending := nv_pending s @ fs\<rparr>)"

definition afterWrite :: "int \<Rightarrow> bool \<Rightarrow> colWrite list \<Rightarrow> invAsset \<Rightarrow> (invState, invAsset) io" where
  "afterWrite now derive data a =
     bindIO (deferIO (if truthy (dataIp data) then [RecordIp (an_id a) (the (dataIp data)) (keep (dataIpSource data) ''manual'') now] else [])) (\<lambda>_.
     bindIO (deferIO (if derive then [ShadowWrite a now] else [])) (\<lambda>_.
     returnIO a))"

definition blankAsset :: "string \<Rightarrow> int \<Rightarrow> invAsset" where
  "blankAsset uid now =
     \<lparr>an_id = uid, an_assetTag = None, an_tags = [], an_discoveredBy = None, an_hostname = None, an_ipAddress = None, an_os = None,
      an_osVersion = None, an_serialNumber = None, an_manufacturer = None, an_model = None, an_assetType = ''other'',
      an_status = ''active'', an_learnedLocation = None, an_dnsName = None, an_latitude = None, an_longitude = None,
      an_acquiredAt = None, an_lastSeen = None, an_createdBy = None, av_macAddress = None, av_ipSource = None, av_lastSeenSwitch = None,
      av_lastSeenAp = None, av_monitored = False, av_consecutiveFailures = 0, av_createdAt = now\<rparr>"

definition preparedData :: "aliasMap \<Rightarrow> colWrite list \<Rightarrow> colWrite list" where
  "preparedData am data = clampMonitoredForStatus (normalizeManufacturerInData am data)"

definition assetCreate :: "string \<Rightarrow> colWrite list \<Rightarrow> int \<Rightarrow> (invState, invAsset) io" where
  "assetCreate uid data now s =
     (let data' = preparedData (nv_aliasMap s) data; row = writeCols data' (blankAsset uid now)
      in case insert_row an_id assetKey row (nv_assets s) of
           Inl e \<Rightarrow> (Inl e, s)
         | Inr rows \<Rightarrow> afterWrite now True data' row (s\<lparr>nv_assets := rows\<rparr>))"

definition rowMissing :: error where
  "rowMissing = NativeError ''Record to update not found.''"

definition assetUpdate :: "string \<Rightarrow> colWrite list \<Rightarrow> int \<Rightarrow> (invState, invAsset) io" where
  "assetUpdate i data now s =
     (let data' = preparedData (nv_aliasMap s) data
      in case findAssetRow i s of
           None \<Rightarrow> (Inl rowMissing, s)
         | Some a \<Rightarrow>
             (case update_rows assetKey (\<lambda>r. an_id r = i) (writeCols data') (nv_assets s) of
                Inl e \<Rightarrow> (Inl e, s)
              | Inr rows \<Rightarrow> afterWrite now (touchesAssetSources data') data' (writeCols data' a) (s\<lparr>nv_assets := rows\<rparr>)))"

text \<open>\<^verbatim>\<open>updateMany\<close> prepares the data but derives nothing.\<close>

definition assetUpdateMany :: "(invAsset \<Rightarrow> bool) \<Rightarrow> colWrite list \<Rightarrow> (invState, nat) io" where
  "assetUpdateMany P data s =
     (case update_rows assetKey P (writeCols (preparedData (nv_aliasMap s) data)) (nv_assets s) of
        Inl e \<Rightarrow> (Inl e, s)
      | Inr rows \<Rightarrow> (Inr (length (filter P (nv_assets s))), s\<lparr>nv_assets := rows\<rparr>))"

section \<open>Sources written by discovery\<close>

text \<open>The row a discovery run writes; the update replaces the observation and vouches for it.\<close>

definition observedSource :: "(string \<times> string \<Rightarrow> string) \<Rightarrow> string \<Rightarrow> string \<Rightarrow> string \<Rightarrow> string \<Rightarrow> json \<Rightarrow> int \<Rightarrow> int \<Rightarrow> sourceRow" where
  "observedSource newId kind externalId assetId integrationId observed syncedAt lastSeen =
     \<lparr>sr_id = newId (kind, externalId), sr_assetId = assetId, sr_sourceKind = kind, sr_externalId = externalId,
      sr_integrationId = Some integrationId, sr_observed = observed, sr_inferred = False, sr_syncedAt = Some syncedAt,
      sr_firstSeen = lastSeen, sr_lastSeen = lastSeen\<rparr>"

definition observeAgain :: "string \<Rightarrow> string \<Rightarrow> json \<Rightarrow> int \<Rightarrow> int \<Rightarrow> sourceRow \<Rightarrow> sourceRow" where
  "observeAgain assetId integrationId observed syncedAt lastSeen r =
     r\<lparr>sr_assetId := assetId, sr_integrationId := Some integrationId, sr_observed := observed, sr_inferred := False,
       sr_syncedAt := Some syncedAt, sr_lastSeen := lastSeen\<rparr>"

definition upsertObserved :: "(string \<times> string \<Rightarrow> string) \<Rightarrow> string \<Rightarrow> string \<Rightarrow> string \<Rightarrow> string \<Rightarrow> json \<Rightarrow> int \<Rightarrow> int \<Rightarrow> (invState, unit) io" where
  "upsertObserved newId kind externalId assetId integrationId observed syncedAt lastSeen =
     upsertSource (observedSource newId kind externalId assetId integrationId observed syncedAt lastSeen)
       (observeAgain assetId integrationId observed syncedAt lastSeen)"

definition upsertFortigateFirewallAssetSource ::
  "(string \<times> string \<Rightarrow> string) \<Rightarrow> string \<Rightarrow> string \<Rightarrow> string \<Rightarrow> json \<Rightarrow> int \<Rightarrow> int \<Rightarrow> (invState, unit) io" where
  "upsertFortigateFirewallAssetSource newId assetId integrationId serial observed syncedAt lastSeen =
     bindIO (upsertObserved newId ''fortigate-firewall'' serial assetId integrationId observed syncedAt lastSeen) (\<lambda>_.
     deleteSources (\<lambda>r. sr_assetId r = assetId \<and> sr_sourceKind r = ''manual'' \<and> sr_externalId r = assetId))"

definition upsertFortinetInfraAssetSource ::
  "(string \<times> string \<Rightarrow> string) \<Rightarrow> string \<Rightarrow> string \<Rightarrow> string \<Rightarrow> string \<Rightarrow> json \<Rightarrow> int \<Rightarrow> int \<Rightarrow> (invState, unit) io" where
  "upsertFortinetInfraAssetSource newId kind assetId integrationId serial observed syncedAt lastSeen =
     bindIO (upsertObserved newId kind serial assetId integrationId observed syncedAt lastSeen) (\<lambda>_.
     deleteSources (\<lambda>r. sr_assetId r = assetId \<and> sr_sourceKind r = ''manual'' \<and> sr_externalId r = assetId))"

definition upsertAdAssetSource :: "(string \<times> string \<Rightarrow> string) \<Rightarrow> string \<Rightarrow> string \<Rightarrow> adDevice \<Rightarrow> int \<Rightarrow> int \<Rightarrow> (invState, unit) io" where
  "upsertAdAssetSource newId assetId integrationId dev syncedAt lastSeen =
     upsertObserved newId ''ad'' (toLowerCase (dd_objectGuid dev)) assetId integrationId (buildAdObservedBlob dev syncedAt) syncedAt lastSeen"

definition upsertEntraIntuneSources :: "(string \<times> string \<Rightarrow> string) \<Rightarrow> string \<Rightarrow> string \<Rightarrow> entraDevice \<Rightarrow> int \<Rightarrow> int \<Rightarrow> (invState, unit) io" where
  "upsertEntraIntuneSources newId assetId integrationId dev syncedAt lastSeen =
     (let externalId = toLowerCase (ed_deviceId dev);
          wantsEntra = ''entra'' \<in> set (ed_sources dev); wantsIntune = ''intune'' \<in> set (ed_sources dev);
          skip = returnIO ();
          drop_kind = (\<lambda>kind. deleteSources (\<lambda>r. sr_assetId r = assetId \<and> sr_sourceKind r = kind \<and> sr_externalId r = externalId))
      in bindIO (if wantsEntra then upsertObserved newId ''entra'' externalId assetId integrationId (buildEntraObservedBlob dev syncedAt) syncedAt lastSeen
                 else skip) (\<lambda>_.
         bindIO (if wantsIntune then upsertObserved newId ''intune'' externalId assetId integrationId (buildIntuneObservedBlob dev syncedAt) syncedAt lastSeen
                 else skip) (\<lambda>_.
         bindIO (deleteSources (\<lambda>r. sr_assetId r = assetId \<and> sr_sourceKind r \<in> {''entra'', ''intune''} \<and> sr_externalId r \<noteq> externalId)) (\<lambda>_.
         bindIO (if wantsEntra then skip else drop_kind ''entra'') (\<lambda>_.
         if wantsIntune then skip else drop_kind ''intune'')))))"

section \<open>Upper case\<close>

definition upper_char :: "char \<Rightarrow> char" where
  "upper_char c = (if 97 \<le> (of_char c :: nat) \<and> (of_char c :: nat) \<le> 122 then char_of ((of_char c :: nat) - 32) else c)"

definition toUpperCase :: "string \<Rightarrow> string" where
  "toUpperCase = map upper_char"

text \<open>\<^verbatim>\<open>mac.toUpperCase().replace(/-/g, ":")\<close>\<close>

definition canonicalMac :: "string \<Rightarrow> string" where
  "canonicalMac mac = map (\<lambda>c. if c = CHR ''-'' then CHR '':'' else c) (toUpperCase mac)"

fun pairsOf :: "string \<Rightarrow> string list" where
  "pairsOf (a # b # s) = [a, b] # pairsOf s"
| "pairsOf _ = []"

definition formatMacColonUpper :: "string option \<Rightarrow> string" where
  "formatMacColonUpper mac =
     (case mac of
        None \<Rightarrow> []
      | Some m \<Rightarrow>
          (let hex = toUpperCase (filter is_hex m)
           in if m = [] \<or> length hex \<noteq> 12 then [] else join '':'' (pairsOf hex)))"

section \<open>Endpoints seen by a FortiGate\<close>

text \<open>The observation is a copy of the asset row.\<close>

definition endpointObserved :: "string option \<Rightarrow> invAsset \<Rightarrow> string \<Rightarrow> json" where
  "endpointObserved mac a integrationType =
     JObj [(''mac'', jstr mac), (''hostname'', jstr (an_hostname a)), (''ipAddress'', jstr (an_ipAddress a)),
           (''ipSource'', jstr (av_ipSource a)), (''os'', jstr (an_os a)), (''osVersion'', jstr (an_osVersion a)),
           (''hardwareVendor'', jstr (an_manufacturer a)), (''model'', jstr (an_model a)),
           (''learnedLocation'', jstr (an_learnedLocation a)), (''lastSeenSwitch'', jstr (av_lastSeenSwitch a)),
           (''lastSeenAp'', jstr (av_lastSeenAp a)), (''discoveredVia'', JStr integrationType)]"

definition buildFortigateEndpointObservedBlob :: "invAsset \<Rightarrow> string \<Rightarrow> json" where
  "buildFortigateEndpointObservedBlob a integrationType = endpointObserved (map_option toUpperCase (av_macAddress a)) a integrationType"

text \<open>This update leaves the flag \<^verbatim>\<open>inferred\<close> alone.\<close>

definition observeEndpoint :: "string \<Rightarrow> string \<Rightarrow> json \<Rightarrow> int \<Rightarrow> int \<Rightarrow> sourceRow \<Rightarrow> sourceRow" where
  "observeEndpoint assetId integrationId observed now lastSeen r =
     r\<lparr>sr_assetId := assetId, sr_integrationId := Some integrationId, sr_observed := observed, sr_syncedAt := Some now, sr_lastSeen := lastSeen\<rparr>"

definition upsertFortigateEndpointSource ::
  "(string \<times> string \<Rightarrow> string) \<Rightarrow> string \<Rightarrow> string \<Rightarrow> invAsset \<Rightarrow> string \<Rightarrow> int \<Rightarrow> int \<Rightarrow> (invState, unit) io" where
  "upsertFortigateEndpointSource newId assetId integrationId a integrationType lastSeen now =
     (let externalId = toUpperCase (trim (or_str (av_macAddress a) [])); observed = buildFortigateEndpointObservedBlob a integrationType
      in if externalId = [] then returnIO ()
         else bindIO (upsertSource (observedSource newId ''fortigate-endpoint'' externalId assetId integrationId observed now lastSeen)
                        (observeEndpoint assetId integrationId observed now lastSeen)) (\<lambda>_.
              deleteSources (\<lambda>r. sr_assetId r = assetId \<and> sr_sourceKind r = ''manual'')))"

text \<open>The start-up job that stamps the same source on assets discovered before it existed.\<close>

definition endpointCandidate :: "(string \<times> string) list \<Rightarrow> invAsset \<Rightarrow> bool" where
  "endpointCandidate fortinet a \<longleftrightarrow>
     av_macAddress a \<noteq> None \<and> an_assetType a \<notin> {''firewall'', ''switch'', ''access_point''} \<and>
     (case an_discoveredBy a of None \<Rightarrow> False | Some i \<Rightarrow> i \<in> fst ` set fortinet)"

definition stampEndpoint :: "(string \<times> string \<Rightarrow> string) \<Rightarrow> (string \<times> string) list \<Rightarrow> string list \<Rightarrow> int \<Rightarrow> invAsset \<Rightarrow> (invState, unit) io" where
  "stampEndpoint newId fortinet existingMacs now a =
     (let mac = toUpperCase (or_str (av_macAddress a) []); integrationId = the (an_discoveredBy a);
          integrationType = or_str (map_of fortinet integrationId) ''fortimanager'';
          lastSeen = keep (an_lastSeen a) now; observed = endpointObserved (Some mac) a integrationType
      in if mac = [] \<or> mac \<in> set existingMacs then returnIO ()
         else ignoring
           (bindIO (upsertSource (observedSource newId ''fortigate-endpoint'' mac (an_id a) integrationId observed now lastSeen)
                      (observeEndpoint (an_id a) integrationId observed now lastSeen)) (\<lambda>_.
            deleteSources (\<lambda>r. sr_assetId r = an_id a \<and> sr_sourceKind r = ''manual''))))"

definition backfillFortigateEndpointSources :: "(string \<times> string \<Rightarrow> string) \<Rightarrow> int \<Rightarrow> (invState, unit) io" where
  "backfillFortigateEndpointSources newId now =
     bindIO (getIO (\<lambda>s. (filter (\<lambda>(_, ty). ty \<in> {''fortimanager'', ''fortigate''}) (nv_integrations s), nv_sources s, nv_assets s))) (\<lambda>(fortinet, sources, assets).
     if fortinet = [] then returnIO ()
     else eachIO (stampEndpoint newId fortinet (map sr_externalId (filter (\<lambda>r. sr_sourceKind r = ''fortigate-endpoint'') sources)) now)
            (filter (endpointCandidate fortinet) assets))"

section \<open>The backfill of sources\<close>

definition PAGE_SIZE :: nat where "PAGE_SIZE = 500"

text \<open>Unlike the shadow write, the update of an existing row replaces its observation.\<close>

definition rederive :: "string \<Rightarrow> int \<Rightarrow> int \<Rightarrow> derivedSource \<Rightarrow> sourceRow \<Rightarrow> sourceRow" where
  "rederive assetId now seen d r = (relink assetId now seen d r)\<lparr>sr_observed := ds_observed d\<rparr>"

definition seenKey :: "derivedSource \<Rightarrow> string" where
  "seenKey d = ds_sourceKind d @ ''::'' @ ds_externalId d"

fun backfillDerived :: "(string \<times> string \<Rightarrow> string) \<Rightarrow> int \<Rightarrow> invAsset \<Rightarrow> derivedSource list \<Rightarrow> string list \<Rightarrow> (invState, string list) io" where
  "backfillDerived newId now a [] seenKeys = returnIO seenKeys"
| "backfillDerived newId now a (d # ds) seenKeys =
     (let seen = keep (an_lastSeen a) now
      in if seenKey d \<in> set seenKeys then backfillDerived newId now a ds seenKeys
         else bindIO (ignoring (upsertSource (newSource newId (an_id a) now seen d) (rederive (an_id a) now seen d))) (\<lambda>_.
              backfillDerived newId now a ds (seenKeys @ [seenKey d])))"

fun backfillRows :: "(string \<times> string \<Rightarrow> string) \<Rightarrow> int \<Rightarrow> invAsset list \<Rightarrow> string list \<Rightarrow> (invState, string list) io" where
  "backfillRows newId now [] seenKeys = returnIO seenKeys"
| "backfillRows newId now (a # as) seenKeys =
     bindIO (backfillDerived newId now a (deriveAssetSources a) seenKeys) (\<lambda>ks. backfillRows newId now as ks)"

text \<open>The pages are read one after the other in the order of creation until one is not full; \<open>rest\<close> is what the pages to come hold.\<close>

function backfillPages :: "(string \<times> string \<Rightarrow> string) \<Rightarrow> int \<Rightarrow> invAsset list \<Rightarrow> string list \<Rightarrow> (invState, string list) io" where
  "backfillPages newId now rest seenKeys =
     (let rows = take PAGE_SIZE rest
      in if rows = [] then returnIO seenKeys
         else bindIO (backfillRows newId now rows seenKeys) (\<lambda>ks.
              if length rows < PAGE_SIZE then returnIO ks else backfillPages newId now (drop PAGE_SIZE rest) ks))"
  by pat_completeness auto
termination
  by (relation "measure (\<lambda>(_, _, rest, _). length rest)") (auto simp: PAGE_SIZE_def)

definition backfillAssetSources :: "(string \<times> string \<Rightarrow> string) \<Rightarrow> int \<Rightarrow> (invState, unit) io" where
  "backfillAssetSources newId now =
     bindIO (getIO (\<lambda>s. sort_key av_createdAt (nv_assets s))) (\<lambda>rows.
     bindIO (backfillPages newId now rows []) (\<lambda>_. returnIO ()))"

section \<open>Start-up jobs on asset rows\<close>

definition clampExistingAssetAcquiredAt :: "invState \<Rightarrow> invState" where
  "clampExistingAssetAcquiredAt s =
     s\<lparr>nv_assets := map (\<lambda>a. case (an_acquiredAt a, an_lastSeen a) of
                               (Some acq, Some seen) \<Rightarrow> if seen < acq then a\<lparr>an_acquiredAt := Some seen\<rparr> else a
                             | _ \<Rightarrow> a) (nv_assets s)\<rparr>"

definition LEGACY_PREFIXES :: "string list" where
  "LEGACY_PREFIXES = [''sid:'', ''ad-guid:'']"

definition scrubTags :: "string list \<Rightarrow> string list" where
  "scrubTags before = filter (\<lambda>t. \<not> list_ex (startsWith t) LEGACY_PREFIXES) before"

definition scrubLegacySidGuidTags :: "int \<Rightarrow> (invState, unit) io" where
  "scrubLegacySidGuidTags now =
     bindIO (getIO (\<lambda>s. filter (\<lambda>a. an_tags a \<noteq> []) (nv_assets s))) (\<lambda>rows.
     ignoring (eachIO (\<lambda>a. if length (scrubTags (an_tags a)) = length (an_tags a) then returnIO ()
                           else bindIO (assetUpdate (an_id a) [CTags (scrubTags (an_tags a))] now) (\<lambda>_. returnIO ())) rows))"

section \<open>Write-time invariant of dates\<close>

definition dataAcquired :: "colWrite list \<Rightarrow> int option option" where
  "dataAcquired data = foldl (\<lambda>r c. case c of CAcquiredAt v \<Rightarrow> Some v | _ \<Rightarrow> r) None data"

definition dataSeen :: "colWrite list \<Rightarrow> int option option" where
  "dataSeen data = foldl (\<lambda>r c. case c of CLastSeen v \<Rightarrow> Some v | _ \<Rightarrow> r) None data"

definition clampAcquiredToLastSeen :: "colWrite list \<Rightarrow> invAsset option \<Rightarrow> colWrite list" where
  "clampAcquiredToLastSeen data existing =
     (let acqRaw = keep (dataAcquired data) (case existing of None \<Rightarrow> None | Some a \<Rightarrow> an_acquiredAt a);
          seenRaw = keep (dataSeen data) (case existing of None \<Rightarrow> None | Some a \<Rightarrow> an_lastSeen a)
      in case (acqRaw, seenRaw) of
           (Some acq, Some seen) \<Rightarrow> if seen < acq then data @ [CAcquiredAt (Some seen)] else data
         | _ \<Rightarrow> data)"

section \<open>Corrections from the projection\<close>

definition diffCols :: "(string \<times> (string option \<Rightarrow> colWrite)) list \<Rightarrow> projection \<Rightarrow> invAsset \<Rightarrow> colWrite list" where
  "diffCols fds p a =
     List.map_filter (\<lambda>(f, col). case projStr p f of
         None \<Rightarrow> None
       | Some v \<Rightarrow> if assetField a f = Some (StrV v) then None else Some (col (Some v))) fds"

definition ENDPOINT_FIELDS :: "(string \<times> (string option \<Rightarrow> colWrite)) list" where
  "ENDPOINT_FIELDS =
     [(''hostname'', CHostname), (''os'', COs), (''osVersion'', COsVersion), (''manufacturer'', CManufacturer), (''model'', CModel),
      (''learnedLocation'', CLearnedLocation), (''ipAddress'', CIpAddress), (''serialNumber'', CSerialNumber)]"

text \<open>The last pass of a discovery run over one endpoint; \<open>a\<close> is the row as the run knows it.\<close>

definition applyProjection :: "string \<Rightarrow> invAsset \<Rightarrow> int \<Rightarrow> (invState, bool) io" where
  "applyProjection integrationType a now =
     bindIO (getIO (projectedAsset (an_id a))) (\<lambda>p.
     (let corrections = diffCols ENDPOINT_FIELDS p a;
          withIp = (if list_ex (\<lambda>c. case c of CIpAddress _ \<Rightarrow> True | _ \<Rightarrow> False) corrections
                    then corrections @ [CIpSource (Some (integrationType @ '':fortigate-endpoint''))] else corrections)
      in if corrections = [] then returnIO False
         else bindIO (assetUpdate (an_id a) (clampAcquiredToLastSeen withIp (Some a)) now) (\<lambda>_. returnIO True)))"

end
