(* ===== verification/InventoryRoutes.thy ===== *)
theory InventoryRoutes
  imports Inventory
begin

text \<open>
  The operations on the inventory that clients call: the lists of MAC addresses (\<^verbatim>\<open>src/utils/macAddresses.ts\<close> and the route
  that deletes one), what an agent reports about its host (\<^verbatim>\<open>POST /system-info\<close> of \<^verbatim>\<open>src/api/routes/agents.ts\<close>), the route that
  splits a source off its asset, the manufacturer aliases (\<^verbatim>\<open>src/services/manufacturerAliasService.ts\<close>,
  \<^verbatim>\<open>src/api/routes/manufacturerAliases.ts\<close>) and the history of IP addresses (\<^verbatim>\<open>src/services/assetIpHistoryService.ts\<close>). The ISO text of
  a time in a MAC entry is the time itself. A statement of the database that is retried after a deadlock is one step.
\<close>

section \<open>MAC addresses\<close>

record macEntry =
  me_mac :: string
  me_lastSeen :: "int option"
  me_source :: "string option"
  me_device :: "string option"
  me_subnetCidr :: "string option"
  me_subnetName :: "string option"

definition shapeMacRows :: "macRow list option \<Rightarrow> macEntry list" where
  "shapeMacRows rows =
     (case rows of
        None \<Rightarrow> []
      | Some rs \<Rightarrow>
          map (\<lambda>r. \<lparr>me_mac = mr_mac r, me_lastSeen = Some (mr_lastSeen r), me_source = Some (mr_source r),
                    me_device = or_null (mr_device r), me_subnetCidr = or_null (mr_subnetCidr r), me_subnetName = or_null (mr_subnetName r)\<rparr>)
            (sort_key (\<lambda>r. - mr_lastSeen r) rs))"

definition macRowOf :: "string \<Rightarrow> int \<Rightarrow> macEntry \<Rightarrow> macRow" where
  "macRowOf assetId now m =
     (let lastSeen = keep (me_lastSeen m) now
      in \<lparr>mr_assetId = assetId, mr_mac = me_mac m, mr_source = or_str (me_source m) ''unknown'', mr_device = me_device m,
          mr_subnetCidr = me_subnetCidr m, mr_subnetName = me_subnetName m, mr_lastSeen = lastSeen, mr_firstSeen = lastSeen\<rparr>)"

text \<open>What \<^verbatim>\<open>ON CONFLICT DO UPDATE\<close> takes from the excluded row: everything but \<^verbatim>\<open>firstSeen\<close>.\<close>

definition refreshMac :: "macRow \<Rightarrow> macRow \<Rightarrow> macRow" where
  "refreshMac e r =
     r\<lparr>mr_source := mr_source e, mr_device := mr_device e, mr_subnetCidr := mr_subnetCidr e, mr_subnetName := mr_subnetName e,
       mr_lastSeen := mr_lastSeen e\<rparr>"

definition upsertMacs :: "string \<Rightarrow> int \<Rightarrow> macEntry list \<Rightarrow> macRow list \<Rightarrow> macRow list" where
  "upsertMacs assetId now macs rows =
     foldl (\<lambda>rs m. upsert_row macKey (macRowOf assetId now m) (refreshMac (macRowOf assetId now m)) rs) rows macs"

definition macTwice :: error where
  "macTwice = NativeError ''ON CONFLICT DO UPDATE command cannot affect row a second time''"

text \<open>Two statements: the deletion stays when the second one fails.\<close>

definition reconcileMacAddresses :: "string \<Rightarrow> macEntry list \<Rightarrow> int \<Rightarrow> (invState, unit) io" where
  "reconcileMacAddresses assetId macs now s =
     (let newMacs = sort_key me_mac (filter (\<lambda>m. me_mac m \<noteq> []) macs)
      in if newMacs = [] then (Inr (), s\<lparr>nv_macs := delete_rows (\<lambda>r. mr_assetId r = assetId) (nv_macs s)\<rparr>)
         else
           (let s1 = s\<lparr>nv_macs := delete_rows (\<lambda>r. mr_assetId r = assetId \<and> mr_mac r \<notin> set (map me_mac newMacs)) (nv_macs s)\<rparr>
            in if \<not> distinct (map me_mac newMacs) then (Inl macTwice, s1)
               else if assetId \<notin> set (map an_id (nv_assets s)) then (Inl assetNotFound, s1)
               else (Inr (), s1\<lparr>nv_macs := upsertMacs assetId now newMacs (nv_macs s1)\<rparr>)))"

definition buildMacRowsForCreate :: "string \<Rightarrow> int \<Rightarrow> macEntry list \<Rightarrow> macRow list" where
  "buildMacRowsForCreate assetId now macs = map (macRowOf assetId now) (filter (\<lambda>m. me_mac m \<noteq> []) macs)"

definition macsOf :: "string \<Rightarrow> invState \<Rightarrow> macRow list" where
  "macsOf i s = filter (\<lambda>r. mr_assetId r = i) (nv_macs s)"

text \<open>\<^verbatim>\<open>DELETE /assets/:id/macs/:mac\<close>\<close>

definition deleteMac :: "string \<Rightarrow> string \<Rightarrow> string option \<Rightarrow> int \<Rightarrow> (invState, invAsset) io" where
  "deleteMac i mac actor now s =
     (let normalized = canonicalMac mac
      in case findAssetRow i s of
           None \<Rightarrow> (Inl (AppError 404 ''Asset not found''), s)
         | Some a \<Rightarrow>
             (case find (\<lambda>r. canonicalMac (mr_mac r) = normalized) (macsOf i s) of
                None \<Rightarrow> (Inl (AppError 404 ''MAC address not found on this asset''), s)
              | Some target \<Rightarrow>
                  (let survivors = sort_key (\<lambda>r. - mr_lastSeen r) (filter (\<lambda>r. mr_mac r \<noteq> mr_mac target) (macsOf i s));
                       isPrimary = (truthy (av_macAddress a) \<and> canonicalMac (the (av_macAddress a)) = normalized);
                       primary = (if isPrimary then (case survivors of [] \<Rightarrow> None | r # _ \<Rightarrow> Some (mr_mac r)) else av_macAddress a)
                   in bindIO (transactionIO
                        (bindIO (modifyIO (\<lambda>t. t\<lparr>nv_macs := delete_rows (\<lambda>r. mr_assetId r = i \<and> mr_mac r = mr_mac target) (nv_macs t)\<rparr>)) (\<lambda>_.
                         assetUpdate i [CMacAddress primary] now))) (\<lambda>updated.
                      bindIO (invEvent ''asset.mac_removed'' ''asset'' (Some i)
                        (if truthy (an_hostname updated) then an_hostname updated else or_null (an_ipAddress updated)) actor) (\<lambda>_.
                      returnIO updated)) s)))"

section \<open>What an agent reports about its host\<close>

record hostInfo =
  hi_hostname :: "string option"
  hi_os :: "string option"
  hi_osVersion :: "string option"
  hi_kernelVersion :: "string option"
  hi_kernelArch :: "string option"
  hi_manufacturer :: "string option"
  hi_model :: "string option"
  hi_serialNumber :: "string option"
  hi_biosVersion :: "string option"
  hi_primaryMac :: "string option"
  hi_primaryIp :: "string option"
  hi_agentVersion :: "string option"

definition hostEntries :: "hostInfo \<Rightarrow> (string \<times> string option \<times> nat) list" where
  "hostEntries b =
     [(''hostname'', hi_hostname b, 255), (''os'', hi_os b, 255), (''osVersion'', hi_osVersion b, 64),
      (''kernelVersion'', hi_kernelVersion b, 255), (''kernelArch'', hi_kernelArch b, 32), (''manufacturer'', hi_manufacturer b, 255),
      (''model'', hi_model b, 255), (''serialNumber'', hi_serialNumber b, 255), (''biosVersion'', hi_biosVersion b, 255),
      (''primaryMac'', hi_primaryMac b, 64), (''primaryIp'', hi_primaryIp b, 64), (''agentVersion'', hi_agentVersion b, 64)]"

definition SystemInfoSchema :: "hostInfo \<Rightarrow> bool" where
  "SystemInfoSchema b \<longleftrightarrow> list_all (\<lambda>(_, v, m). case v of None \<Rightarrow> True | Some t \<Rightarrow> length t \<le> m) (hostEntries b)"

definition hostObserved :: "hostInfo \<Rightarrow> json" where
  "hostObserved b = JObj (List.map_filter (\<lambda>(k, v, _). if truthy v then Some (k, jstr v) else None) (hostEntries b))"

definition AGENT_FIELDS :: "(string \<times> (string option \<Rightarrow> colWrite)) list" where
  "AGENT_FIELDS =
     [(''hostname'', CHostname), (''serialNumber'', CSerialNumber), (''manufacturer'', CManufacturer), (''model'', CModel), (''os'', COs),
      (''osVersion'', COsVersion)]"

definition agentEntry :: "string \<Rightarrow> int \<Rightarrow> macEntry" where
  "agentEntry mac now =
     \<lparr>me_mac = mac, me_lastSeen = Some now, me_source = Some ''polaris-agent'', me_device = None, me_subnetCidr = None, me_subnetName = None\<rparr>"

definition entryOfRow :: "macRow \<Rightarrow> macEntry" where
  "entryOfRow r =
     \<lparr>me_mac = mr_mac r, me_lastSeen = Some (mr_lastSeen r), me_source = Some (mr_source r), me_device = mr_device r,
      me_subnetCidr = mr_subnetCidr r, me_subnetName = mr_subnetName r\<rparr>"

text \<open>The MAC is unique per asset, so the first entry that has it is the only one.\<close>

definition mergeAgentMac :: "string \<Rightarrow> int \<Rightarrow> macRow list \<Rightarrow> macEntry list" where
  "mergeAgentMac mac now rows =
     (let entries = map entryOfRow rows;
          merged = (if mac \<in> set (map me_mac entries)
                    then map (\<lambda>m. if me_mac m = mac then m\<lparr>me_lastSeen := Some now, me_source := Some ''polaris-agent''\<rparr> else m) entries
                    else entries @ [agentEntry mac now])
      in sort_key (\<lambda>m. - keep (me_lastSeen m) 0) merged)"

definition agentMacWrite :: "string \<Rightarrow> hostInfo \<Rightarrow> invAsset \<Rightarrow> int \<Rightarrow> (invState, colWrite list) io" where
  "agentMacWrite assetId b current now =
     (let mac = formatMacColonUpper (hi_primaryMac b)
      in if mac = [] then returnIO []
         else bindIO (getIO (\<lambda>s. mergeAgentMac mac now (macsOf assetId s))) (\<lambda>merged.
              bindIO (reconcileMacAddresses assetId merged now) (\<lambda>_.
              (let primary = (case merged of [] \<Rightarrow> None | m # _ \<Rightarrow> Some (me_mac m))
               in returnIO (if truthy primary \<and> av_macAddress current \<noteq> primary then [CMacAddress primary] else [])))))"

definition bumpAgentVersion :: "string \<Rightarrow> hostInfo \<Rightarrow> invState \<Rightarrow> invState" where
  "bumpAgentVersion agentId b s =
     (if truthy (hi_agentVersion b)
      then s\<lparr>nv_agentVersions := map (\<lambda>(i, v). if i = agentId then (i, hi_agentVersion b) else (i, v)) (nv_agentVersions s)\<rparr> else s)"

definition agentSource :: "(string \<times> string \<Rightarrow> string) \<Rightarrow> string \<Rightarrow> string \<Rightarrow> json \<Rightarrow> int \<Rightarrow> sourceRow" where
  "agentSource newId assetId agentId observed now =
     \<lparr>sr_id = newId (''polaris-agent'', agentId), sr_assetId = assetId, sr_sourceKind = ''polaris-agent'', sr_externalId = agentId,
      sr_integrationId = None, sr_observed = observed, sr_inferred = False, sr_syncedAt = Some now, sr_firstSeen = now, sr_lastSeen = now\<rparr>"

definition postSystemInfo :: "(string \<times> string \<Rightarrow> string) \<Rightarrow> string \<Rightarrow> string \<Rightarrow> hostInfo \<Rightarrow> int \<Rightarrow> (invState, unit) io" where
  "postSystemInfo newId assetId agentId b now =
     (if \<not> SystemInfoSchema b then throwIO zodError
      else
        bindIO (upsertSource (agentSource newId assetId agentId (hostObserved b) now)
          (\<lambda>r. r\<lparr>sr_observed := hostObserved b, sr_syncedAt := Some now, sr_lastSeen := now, sr_inferred := False\<rparr>)) (\<lambda>_.
        bindIO (getIO (\<lambda>s. (projectedAsset assetId s, findAssetRow assetId s))) (\<lambda>(p, found).
        bindIO (case found of
                  None \<Rightarrow> returnIO ()
                | Some current \<Rightarrow>
                    bindIO (agentMacWrite assetId b current now) (\<lambda>macWrite.
                    (let diff = diffCols AGENT_FIELDS p current @ macWrite
                     in if diff = [] then returnIO ()
                        else bindIO (assetUpdate assetId diff now) (\<lambda>_. returnIO ())))) (\<lambda>_.
        modifyIO (bumpAgentVersion agentId b)))))"

section \<open>Splitting a source off\<close>

definition sourceAssetType :: "string \<Rightarrow> string" where
  "sourceAssetType kind =
     (if kind \<in> {''entra'', ''intune'', ''ad''} then ''workstation''
      else if kind = ''fortigate-firewall'' then ''firewall''
      else if kind = ''fortiswitch'' then ''switch''
      else if kind = ''fortiap'' then ''access_point'' else ''other'')"

definition splitTags :: "string \<Rightarrow> string list" where
  "splitTags kind =
     [''split-from-asset'', ''auto-discovered''] @
     (if kind = ''entra'' then [''entraid''] else if kind = ''intune'' then [''entraid'', ''intune'']
      else if kind = ''ad'' then [''activedirectory''] else if kind = ''fortigate-firewall'' then [''fortigate'']
      else if kind = ''fortiswitch'' then [''fortiswitch''] else if kind = ''fortiap'' then [''fortiap''] else [])"

definition splitData :: "aliasMap \<Rightarrow> sourceRow \<Rightarrow> string option \<Rightarrow> colWrite list" where
  "splitData am r actor =
     (let p = projectAssetFromSources am [forProjection r]; ty = sourceAssetType (sr_sourceKind r)
      in [CHostname (projStr p ''hostname''), CAssetType ty, CStatus ''active'', COs (projStr p ''os''), COsVersion (projStr p ''osVersion''),
          CSerialNumber (projStr p ''serialNumber''),
          CManufacturer (case projStr p ''manufacturer'' of
                           Some m \<Rightarrow> Some m
                         | None \<Rightarrow> if ty \<in> {''firewall'', ''switch'', ''access_point''} then Some ''Fortinet'' else None),
          CModel (projStr p ''model''), CLearnedLocation (projStr p ''learnedLocation''), CIpAddress (projStr p ''ipAddress''),
          CLatitude (projNum p ''latitude''), CLongitude (projNum p ''longitude''), CTags (splitTags (sr_sourceKind r))] @
         (if truthy (sr_integrationId r) then [CDiscoveredBy (sr_integrationId r)] else []) @
         [CCreatedBy (or_null actor)])"

text \<open>The transaction creates the asset and rebinds the source.\<close>

definition splitSource :: "string \<Rightarrow> string \<Rightarrow> string \<Rightarrow> string option \<Rightarrow> int \<Rightarrow> (invState, invAsset) io" where
  "splitSource uid i sourceId actor now s =
     (if i = [] \<or> sourceId = [] then (Inl zodError, s)
      else case findAssetRow i s of
        None \<Rightarrow> (Inl (AppError 404 ''Asset not found''), s)
      | Some original \<Rightarrow>
          (case find (\<lambda>r. sr_id r = sourceId) (sourcesOf i s) of
             None \<Rightarrow> (Inl (AppError 404 ''Source not found on this asset''), s)
           | Some target \<Rightarrow>
               (if sr_sourceKind target = ''manual''
                then (Inl (AppError 409 (''Cannot split a manual source '' @ emdash @ '' it'' @ [CHR 0x27] @ ''s a backfill marker, not a discovery source'')), s)
                else if length (sourcesOf i s) \<le> 1
                then (Inl (AppError 409 (''Cannot split the asset'' @ [CHR 0x27] @ ''s only source. Delete the asset instead and let discovery recreate it.'')), s)
                else
                  bindIO (transactionIO
                    (bindIO (assetCreate uid (splitData (nv_aliasMap s) target actor) now) (\<lambda>row.
                     bindIO (modifyIO (\<lambda>t. t\<lparr>nv_sources := map (\<lambda>r. if sr_id r = sr_id target then r\<lparr>sr_assetId := uid\<rparr> else r) (nv_sources t)\<rparr>)) (\<lambda>_.
                     returnIO row)))) (\<lambda>row.
                  bindIO (invEvent ''asset.split'' ''asset'' (Some i) (or_null (an_hostname original)) actor) (\<lambda>_.
                  returnIO row)) s)))"

section \<open>Manufacturer aliases\<close>

definition DEFAULT_ALIASES :: "(string \<times> string) list" where
  "DEFAULT_ALIASES =
     [(''Fortinet, Inc.'', ''Fortinet''), (''Fortinet Inc.'', ''Fortinet''),
      (''Fortinet Inc'', ''Fortinet''), (''Cisco Systems, Inc.'', ''Cisco''),
      (''Cisco Systems Inc'', ''Cisco''), (''Cisco Systems'', ''Cisco''),
      (''Cisco Meraki'', ''Cisco''), (''Juniper Networks, Inc.'', ''Juniper''),
      (''Juniper Networks Inc'', ''Juniper''), (''Juniper Networks'', ''Juniper''),
      (''Hewlett Packard Enterprise'', ''HPE''), (''HPE'', ''HPE''),
      (''Hewlett-Packard Company'', ''HP''), (''Hewlett Packard'', ''HP''),
      (''HP Inc.'', ''HP''), (''HP Inc'', ''HP''),
      (''Aruba, a Hewlett Packard Enterprise company'', ''Aruba''), (''Aruba Networks'', ''Aruba''),
      (''MikroTikls SIA'', ''MikroTik''), (''Mikrotikls SIA'', ''MikroTik''),
      (''Mikrotik'', ''MikroTik''), (''Microsoft Corporation'', ''Microsoft''),
      (''Microsoft Corp.'', ''Microsoft''), (''Dell Inc.'', ''Dell''),
      (''Dell Inc'', ''Dell''), (''Dell Computer Corp.'', ''Dell''),
      (''Dell Technologies, Inc.'', ''Dell''), (''Dell EMC'', ''Dell''),
      (''Palo Alto Networks'', ''Palo Alto''), (''Palo Alto Networks, Inc.'', ''Palo Alto''),
      (''Arista Networks, Inc.'', ''Arista''), (''Arista Networks'', ''Arista''),
      (''VMware, Inc.'', ''VMware''), (''VMware Inc'', ''VMware''),
      (''Apple, Inc.'', ''Apple''), (''Apple Inc.'', ''Apple''),
      (''Lenovo Group Ltd.'', ''Lenovo''), (''LENOVO'', ''Lenovo''),
      (''Ubiquiti Networks Inc.'', ''Ubiquiti''), (''Ubiquiti Networks'', ''Ubiquiti''),
      (''Ubiquiti Inc.'', ''Ubiquiti''), (''NETGEAR'', ''Netgear''),
      (''Netgear, Inc.'', ''Netgear''), (''Brocade Communications Systems, Inc.'', ''Brocade''),
      (''Extreme Networks, Inc.'', ''Extreme Networks''), (''Ruckus Wireless'', ''Ruckus''),
      (''Ruckus Networks'', ''Ruckus'')]"

definition listAliases :: "invState \<Rightarrow> aliasRow list" where
  "listAliases s = sort_key al_canonical (sort_key al_alias (nv_aliases s))"

definition refreshAliasCache :: "invState \<Rightarrow> invState" where
  "refreshAliasCache s = s\<lparr>nv_aliasMap := setAliasMap (map (\<lambda>r. (al_alias r, al_canonical r)) (nv_aliases s))\<rparr>"

text \<open>\<^verbatim>\<open>applyAliasesToExistingRows\<close>: the assets by distinct value, then the MIB files one by one.\<close>

definition applyToAssets :: "string \<Rightarrow> (invState, unit) io" where
  "applyToAssets raw =
     bindIO (getIO nv_aliasMap) (\<lambda>am.
     case normalizeManufacturer am (Some raw) of
       None \<Rightarrow> returnIO ()
     | Some c \<Rightarrow>
         (if raw = [] \<or> c = [] \<or> c = raw then returnIO ()
          else bindIO (assetUpdateMany (\<lambda>a. an_manufacturer a = Some raw) [CManufacturer (Some c)]) (\<lambda>_. returnIO ())))"

definition mibUpdate :: "string \<Rightarrow> string option \<Rightarrow> (invState, unit) io" where
  "mibUpdate i v s =
     (case update_rows mibTierKey (\<lambda>r. mi_id r = i) (\<lambda>r. r\<lparr>mi_manufacturer := normalizeManufacturer (nv_aliasMap s) v\<rparr>) (nv_mibs s) of
        Inl e \<Rightarrow> (Inl e, s)
      | Inr rows \<Rightarrow> if i \<in> set (map mi_id (nv_mibs s)) then (Inr (), s\<lparr>nv_mibs := rows\<rparr>) else (Inl rowMissing, s))"

definition applyToMib :: "mibRow \<Rightarrow> (invState, unit) io" where
  "applyToMib r =
     bindIO (getIO nv_aliasMap) (\<lambda>am.
     case normalizeManufacturer am (mi_manufacturer r) of
       None \<Rightarrow> returnIO ()
     | Some c \<Rightarrow>
         (if \<not> truthy (mi_manufacturer r) \<or> c = [] \<or> Some c = mi_manufacturer r then returnIO ()
          else ignoring (mibUpdate (mi_id r) (Some c))))"

definition applyAliasesToExistingRows :: "(invState, unit) io" where
  "applyAliasesToExistingRows =
     bindIO (getIO (\<lambda>s. remdups (List.map_filter an_manufacturer (nv_assets s)))) (\<lambda>raws.
     bindIO (eachIO applyToAssets raws) (\<lambda>_.
     bindIO (getIO (\<lambda>s. filter (\<lambda>r. mi_manufacturer r \<noteq> None) (nv_mibs s))) (\<lambda>mibs.
     eachIO applyToMib mibs)))"

definition insertAlias :: "aliasRow \<Rightarrow> (invState, unit) io" where
  "insertAlias r s =
     (case insert_row al_id aliasKey r (nv_aliases s) of Inl e \<Rightarrow> (Inl e, s) | Inr rows \<Rightarrow> (Inr (), s\<lparr>nv_aliases := rows\<rparr>))"

definition sameString :: error where
  "sameString = AppError 400 ''alias and canonical cannot be the same string''"

definition createAlias :: "string \<Rightarrow> string \<Rightarrow> string \<Rightarrow> (invState, aliasRow) io" where
  "createAlias uid inputAlias inputCanonical s =
     (let alias = toLowerCase (trim inputAlias); canonical = trim inputCanonical; row = \<lparr>al_id = uid, al_alias = alias, al_canonical = canonical\<rparr>
      in if alias = [] then (Inl (AppError 400 ''alias is required''), s)
         else if canonical = [] then (Inl (AppError 400 ''canonical is required''), s)
         else if alias = toLowerCase canonical then (Inl sameString, s)
         else if alias \<in> set (map al_alias (nv_aliases s)) then (Inl (AppError 409 (''An alias for \"'' @ inputAlias @ ''\" already exists'')), s)
         else bindIO (insertAlias row) (\<lambda>_.
              bindIO (modifyIO refreshAliasCache) (\<lambda>_.
              bindIO (deferIO [ApplyAliases]) (\<lambda>_.
              returnIO row))) s)"

definition aliasGone :: error where
  "aliasGone = AppError 404 ''Alias not found''"

definition updateAliasRow :: "string \<Rightarrow> string option \<Rightarrow> string option \<Rightarrow> (invState, aliasRow) io" where
  "updateAliasRow i alias canonical s =
     (case find (\<lambda>r. al_id r = i) (nv_aliases s) of
        None \<Rightarrow> (Inl aliasGone, s)
      | Some r \<Rightarrow>
          (let f = (\<lambda>q. q\<lparr>al_alias := keep alias (al_alias q), al_canonical := keep canonical (al_canonical q)\<rparr>)
           in case update_rows aliasKey (\<lambda>q. al_id q = i) f (nv_aliases s) of
                Inl e \<Rightarrow> (Inl aliasGone, s)
              | Inr rows \<Rightarrow> (Inr (f r), s\<lparr>nv_aliases := rows\<rparr>)))"

definition updateAlias :: "string \<Rightarrow> string option \<Rightarrow> string option \<Rightarrow> (invState, aliasRow) io" where
  "updateAlias i inputAlias inputCanonical =
     (let alias = map_option (toLowerCase \<circ> trim) inputAlias; canonical = map_option trim inputCanonical
      in if alias = Some [] then throwIO (AppError 400 ''alias cannot be empty'')
         else if canonical = Some [] then throwIO (AppError 400 ''canonical cannot be empty'')
         else if alias \<noteq> None \<and> alias = map_option toLowerCase canonical then throwIO sameString
         else bindIO (updateAliasRow i alias canonical) (\<lambda>row.
              bindIO (modifyIO refreshAliasCache) (\<lambda>_.
              bindIO (deferIO [ApplyAliases]) (\<lambda>_.
              returnIO row))))"

definition deleteAlias :: "string \<Rightarrow> (invState, unit) io" where
  "deleteAlias i s =
     (if i \<notin> set (map al_id (nv_aliases s)) then (Inl aliasGone, s)
      else (Inr (), refreshAliasCache (s\<lparr>nv_aliases := delete_rows (\<lambda>r. al_id r = i) (nv_aliases s)\<rparr>)))"

definition seedAlias :: "(string \<Rightarrow> string) \<Rightarrow> string \<times> string \<Rightarrow> (invState, unit) io" where
  "seedAlias uidOf e s =
     (let alias = toLowerCase (trim (fst e)); canonical = trim (snd e)
      in if alias = [] \<or> canonical = [] \<or> alias \<in> set (map al_alias (nv_aliases s)) then (Inr (), s)
         else ignoring (insertAlias \<lparr>al_id = uidOf alias, al_alias = alias, al_canonical = canonical\<rparr>) s)"

definition seedDefaultAliases :: "(string \<Rightarrow> string) \<Rightarrow> (invState, unit) io" where
  "seedDefaultAliases uidOf = eachIO (seedAlias uidOf) DEFAULT_ALIASES"

text \<open>The routes add the schemas (the fields are not empty) and an event.\<close>

definition postAlias :: "string \<Rightarrow> string \<Rightarrow> string \<Rightarrow> string option \<Rightarrow> (invState, aliasRow) io" where
  "postAlias uid alias canonical actor =
     (if alias = [] \<or> canonical = [] then throwIO zodError
      else bindIO (createAlias uid alias canonical) (\<lambda>saved.
           bindIO (invEvent ''manufacturer_alias.created'' ''manufacturer_alias'' (Some (al_id saved)) (Some (al_canonical saved)) actor) (\<lambda>_.
           returnIO saved)))"

definition putAlias :: "string \<Rightarrow> string option \<Rightarrow> string option \<Rightarrow> string option \<Rightarrow> (invState, aliasRow) io" where
  "putAlias i alias canonical actor =
     (if alias = Some [] \<or> canonical = Some [] then throwIO zodError
      else bindIO (updateAlias i alias canonical) (\<lambda>saved.
           bindIO (invEvent ''manufacturer_alias.updated'' ''manufacturer_alias'' (Some (al_id saved)) (Some (al_canonical saved)) actor) (\<lambda>_.
           returnIO saved)))"

definition removeAlias :: "string \<Rightarrow> string option \<Rightarrow> (invState, unit) io" where
  "removeAlias i actor =
     bindIO (getIO (\<lambda>s. find (\<lambda>r. al_id r = i) (listAliases s))) (\<lambda>existing.
     bindIO (deleteAlias i) (\<lambda>_.
     invEvent ''manufacturer_alias.deleted'' ''manufacturer_alias'' (Some i) (map_option al_canonical existing) actor))"

section \<open>History of IP addresses\<close>

definition getHistorySettings :: "invState \<Rightarrow> int" where
  "getHistorySettings s = (case nv_historySettings s of None \<Rightarrow> 0 | Some v \<Rightarrow> floor_or (Number (jprop v ''retentionDays'')) 0)"

definition updateHistorySettings :: "json \<Rightarrow> invState \<Rightarrow> invState" where
  "updateHistorySettings v s = s\<lparr>nv_historySettings := Some v\<rparr>"

definition getIpHistory :: "string \<Rightarrow> int \<Rightarrow> invState \<Rightarrow> ipHistoryRow list" where
  "getIpHistory assetId now s =
     (let days = getHistorySettings s
      in sort_key (\<lambda>r. - ih_lastSeen r)
           (filter (\<lambda>r. ih_assetId r = assetId \<and> (days > 0 \<longrightarrow> now - days * 86400000 \<le> ih_lastSeen r)) (nv_ipHistory s)))"

definition pruneOldHistory :: "int \<Rightarrow> (invState, nat) io" where
  "pruneOldHistory now s =
     (let days = getHistorySettings s; old = (\<lambda>r. ih_lastSeen r < now - days * 86400000)
      in if days \<le> 0 then (Inr 0, s)
         else (Inr (length (filter old (nv_ipHistory s))), s\<lparr>nv_ipHistory := delete_rows old (nv_ipHistory s)\<rparr>))"

section \<open>Follow-up work\<close>

definition runFollowUp :: "(string \<times> string \<Rightarrow> string) \<Rightarrow> followUp \<Rightarrow> (invState, unit) io" where
  "runFollowUp newId f =
     (case f of
        RecordIp i ip src now \<Rightarrow> modifyIO (recordIpHistory i ip src now)
      | ShadowWrite a now \<Rightarrow> shadowWriteAssetSources newId now a
      | ApplyAliases \<Rightarrow> ignoring applyAliasesToExistingRows)"

text \<open>
  The follow-ups left behind settle one by one, in any order and at any time: the \<open>k\<close>-th runs on the tables as they are then, or
  fails, which is swallowed (\<open>ok\<close> is false). The one of a row created in a transaction fails if it runs before the commit, since
  its connection does not see the row yet.
\<close>

definition settleFollowUp :: "(string \<times> string \<Rightarrow> string) \<Rightarrow> nat \<Rightarrow> bool \<Rightarrow> invState \<Rightarrow> invState" where
  "settleFollowUp newId k ok s =
     (let fs = nv_pending s; t = s\<lparr>nv_pending := take k fs @ drop (Suc k) fs\<rparr>
      in if k < length fs then (if ok then snd (runFollowUp newId (fs ! k) t) else t) else s)"

end
