(* ===== verification/ProjectionSpec.thy ===== *)
theory ProjectionSpec
  imports AssetSources
begin

text \<open>
  What the projection promises: every field is decided by the first rule whose source has an opinion, inferred sources have
  none, coordinates come in valid pairs, and one level of aliases is resolved.
\<close>

section \<open>Opinions\<close>

text \<open>The opinion of the first real source of the kind a rule names; an empty string is none.\<close>

definition opinion :: "projSource list \<Rightarrow> fieldRule \<Rightarrow> fieldValue option" where
  "opinion sources r =
     (case find (\<lambda>s. ps_sourceKind s = fr_sourceKind r \<and> \<not> ps_inferred s) sources of
        None \<Rightarrow> None
      | Some s \<Rightarrow> (case fr_pick r (ps_observed s) of Some v \<Rightarrow> if v = StrV [] then None else Some v | None \<Rightarrow> None))"

lemma projectField_Cons:
  "projectField sources (r # rs) =
     (case opinion sources r of None \<Rightarrow> projectField sources rs | Some v \<Rightarrow> Some (v, fr_sourceKind r))"
  by (auto simp: opinion_def split: option.splits)

lemma projectField_first:
  "projectField sources rules = Some (v, k) \<longleftrightarrow>
     (\<exists>above r below. rules = above @ r # below \<and> (\<forall>q \<in> set above. opinion sources q = None) \<and>
        opinion sources r = Some v \<and> fr_sourceKind r = k)"
proof (induction rules)
  case Nil
  then show ?case by simp
next
  case (Cons x xs)
  show ?case
  proof (cases "opinion sources x")
    case None
    have "(\<exists>above r below. x # xs = above @ r # below \<and> (\<forall>q \<in> set above. opinion sources q = None) \<and> opinion sources r = Some v \<and> fr_sourceKind r = k)
        \<longleftrightarrow> (\<exists>above r below. xs = above @ r # below \<and> (\<forall>q \<in> set above. opinion sources q = None) \<and> opinion sources r = Some v \<and> fr_sourceKind r = k)"
      (is "?L \<longleftrightarrow> ?R")
    proof
      assume ?L
      then obtain above r below where h: "x # xs = above @ r # below" "\<forall>q \<in> set above. opinion sources q = None" "opinion sources r = Some v" "fr_sourceKind r = k"
        by blast
      show ?R
      proof (cases above)
        case Nil
        then show ?thesis using h None by simp
      next
        case (Cons a as)
        then show ?thesis using h by auto
      qed
    next
      assume ?R
      then obtain above r below where "xs = above @ r # below" "\<forall>q \<in> set above. opinion sources q = None" "opinion sources r = Some v" "fr_sourceKind r = k"
        by blast
      then have "x # xs = (x # above) @ r # below \<and> (\<forall>q \<in> set (x # above). opinion sources q = None) \<and> opinion sources r = Some v \<and> fr_sourceKind r = k"
        using None by simp
      then show ?L by blast
    qed
    then show ?thesis using Cons None by (simp only: projectField_Cons option.case)
  next
    case (Some u)
    have "(\<exists>above r below. x # xs = above @ r # below \<and> (\<forall>q \<in> set above. opinion sources q = None) \<and> opinion sources r = Some v \<and> fr_sourceKind r = k)
        \<longleftrightarrow> u = v \<and> fr_sourceKind x = k" (is "?L \<longleftrightarrow> ?R")
    proof
      assume ?L
      then obtain above r below where h: "x # xs = above @ r # below" "\<forall>q \<in> set above. opinion sources q = None" "opinion sources r = Some v" "fr_sourceKind r = k"
        by blast
      then have "above = []" using Some by (cases above) auto
      then show ?R using h Some by simp
    next
      assume ?R
      then have "x # xs = [] @ x # xs \<and> (\<forall>q \<in> set []. opinion sources q = None) \<and> opinion sources x = Some v \<and> fr_sourceKind x = k"
        using Some by simp
      then show ?L by blast
    qed
    then show ?thesis using Some by (simp only: projectField_Cons option.case option.inject prod.inject)
  qed
qed

section \<open>The projection, field by field\<close>

lemma foldl_apply:
  "distinct (map fst rs) \<Longrightarrow>
     pj_projected (foldl (applyField sources) p rs) f =
       (case map_of rs f of None \<Rightarrow> pj_projected p f
        | Some rules \<Rightarrow> (case projectField sources rules of None \<Rightarrow> pj_projected p f | Some (v, k) \<Rightarrow> Some v))"
  "distinct (map fst rs) \<Longrightarrow>
     pj_provenance (foldl (applyField sources) p rs) f =
       (case map_of rs f of None \<Rightarrow> pj_provenance p f
        | Some rules \<Rightarrow> (case projectField sources rules of None \<Rightarrow> pj_provenance p f | Some (v, k) \<Rightarrow> Some k))"
  by (induction rs arbitrary: p) (auto simp: applyField_def map_of_eq_None_iff [symmetric] split: option.splits prod.splits)

lemma field_names_distinct: "distinct (map fst (FIELD_RULES am))"
  by (simp add: FIELD_RULES_def)

lemma projected_field:
  "pj_projected (projectAssetFromSources am sources) f =
     (case map_of (FIELD_RULES am) f of None \<Rightarrow> None | Some rules \<Rightarrow> map_option fst (projectField sources rules))"
  "pj_provenance (projectAssetFromSources am sources) f =
     (case map_of (FIELD_RULES am) f of None \<Rightarrow> None | Some rules \<Rightarrow> map_option snd (projectField sources rules))"
  unfolding projectAssetFromSources_def by (auto simp: foldl_apply field_names_distinct split: option.splits prod.splits)

lemma find_in_filter: "find P (filter Q xs) = find (\<lambda>x. Q x \<and> P x) xs"
  by (induction xs) auto

lemma opinion_real: "opinion (filter (\<lambda>s. \<not> ps_inferred s) sources) = opinion sources"
  by (rule ext) (simp add: opinion_def find_in_filter conj_commute cong: conj_cong)

lemma projectField_cong: "opinion ss = opinion ts \<Longrightarrow> projectField ss rules = projectField ts rules"
  by (induction rules) (auto simp only: projectField.simps(1) projectField_Cons split: option.splits)

lemma projection_cong:
  assumes "opinion ss = opinion ts"
  shows "projectAssetFromSources am ss = projectAssetFromSources am ts"
proof -
  have "projectField ss = projectField ts" by (rule ext) (rule projectField_cong [OF assms])
  then show ?thesis by (intro projection.equality ext) (simp_all add: projected_field split: option.split)
qed

lemma projectField_None: "projectField sources rules = None \<longleftrightarrow> list_all (\<lambda>r. opinion sources r = None) rules"
  by (induction rules) (auto simp only: projectField.simps(1) projectField_Cons list.pred_inject split: option.splits)

text \<open>
  C22. Every field of the projection is decided by its priority list alone: it has the value \<open>v\<close> from the kind \<open>k\<close> exactly if
  the list splits at a rule for \<open>k\<close> on which the first real source of this kind has the opinion \<open>v\<close>, and no rule above it finds
  an opinion. A field is empty exactly if no rule finds an opinion, and sources marked as inferred change nothing.
\<close>

theorem projection_authority:
  "(pj_projected (projectAssetFromSources am sources) f = Some v \<and> pj_provenance (projectAssetFromSources am sources) f = Some k \<longleftrightarrow>
     (\<exists>above r below. map_of (FIELD_RULES am) f = Some (above @ r # below) \<and> list_all (\<lambda>q. opinion sources q = None) above \<and>
        opinion sources r = Some v \<and> fr_sourceKind r = k)) \<and>
   (pj_projected (projectAssetFromSources am sources) f = None \<longleftrightarrow>
     (case map_of (FIELD_RULES am) f of None \<Rightarrow> True | Some rules \<Rightarrow> list_all (\<lambda>r. opinion sources r = None) rules)) \<and>
   projectAssetFromSources am (filter (\<lambda>s. \<not> ps_inferred s) sources) = projectAssetFromSources am sources"
proof (intro conjI)
  let ?p = "projectAssetFromSources am sources"
  have "pj_projected ?p f = Some v \<and> pj_provenance ?p f = Some k \<longleftrightarrow>
      (\<exists>rules. map_of (FIELD_RULES am) f = Some rules \<and> projectField sources rules = Some (v, k))"
    by (auto simp: projected_field split: option.splits)
  also have "\<dots> \<longleftrightarrow> (\<exists>above r below. map_of (FIELD_RULES am) f = Some (above @ r # below) \<and> list_all (\<lambda>q. opinion sources q = None) above \<and>
      opinion sources r = Some v \<and> fr_sourceKind r = k)"
    unfolding projectField_first list_all_iff by blast
  finally show "pj_projected ?p f = Some v \<and> pj_provenance ?p f = Some k \<longleftrightarrow>
      (\<exists>above r below. map_of (FIELD_RULES am) f = Some (above @ r # below) \<and> list_all (\<lambda>q. opinion sources q = None) above \<and>
        opinion sources r = Some v \<and> fr_sourceKind r = k)" .
  show "pj_projected ?p f = None \<longleftrightarrow>
      (case map_of (FIELD_RULES am) f of None \<Rightarrow> True | Some rules \<Rightarrow> list_all (\<lambda>r. opinion sources r = None) rules)"
    by (simp add: projected_field projectField_None split: option.splits)
  show "projectAssetFromSources am (filter (\<lambda>s. \<not> ps_inferred s) sources) = ?p"
    by (rule projection_cong [OF opinion_real])
qed

lemma projection_example:
  "projStr (projectAssetFromSources None
     [\<lparr>ps_sourceKind = ''entra'', ps_inferred = False, ps_observed = JObj [(''displayName'', JStr ''PC7'')]\<rparr>,
      \<lparr>ps_sourceKind = ''ad'', ps_inferred = True, ps_observed = JObj [(''dnsHostName'', JStr ''old.corp.local'')]\<rparr>,
      \<lparr>ps_sourceKind = ''ad'', ps_inferred = False, ps_observed = JObj [(''dnsHostName'', JStr ''pc7.corp.local'')]\<rparr>]) ''hostname'' = Some ''pc7.corp.local''"
  by code_simp

section \<open>Order of the sources\<close>

lemma find_unique:
  assumes "\<And>x y. x \<in> set xs \<Longrightarrow> y \<in> set xs \<Longrightarrow> P x \<Longrightarrow> P y \<Longrightarrow> x = y" "set xs = set ys"
  shows "find P xs = find P ys"
proof (cases "find P xs")
  case None
  then show ?thesis using assms(2) by (metis find_None_iff)
next
  case (Some x)
  then have x: "x \<in> set xs" "P x" by (simp_all add: find_SomeD)
  then obtain y where y: "find P ys = Some y" using find_Some_ex assms(2) by metis
  then have "y \<in> set xs" "P y" using find_SomeD [OF y] assms(2) by simp_all
  then have "x = y" using assms(1) x by blast
  then show ?thesis using y Some by simp
qed

text \<open>
  The order in which the database lists the sources is irrelevant as long as an asset has at most one real source of each kind.
  With two of one kind only the first listed has a say, and its silence is not made up for by the other.
\<close>

definition one_per_kind :: "projSource list \<Rightarrow> bool" where
  "one_per_kind ss \<longleftrightarrow> distinct (map ps_sourceKind (filter (\<lambda>s. \<not> ps_inferred s) ss))"

theorem projection_order_irrelevant:
  assumes "one_per_kind ss" "set ts = set ss"
  shows "projectAssetFromSources am ts = projectAssetFromSources am ss"
proof (rule projection_cong)
  have "find (\<lambda>s. ps_sourceKind s = k \<and> \<not> ps_inferred s) ts = find (\<lambda>s. ps_sourceKind s = k \<and> \<not> ps_inferred s) ss" for k
  proof (rule find_unique [symmetric])
    fix x y
    assume "x \<in> set ss" "y \<in> set ss" "ps_sourceKind x = k \<and> \<not> ps_inferred x" "ps_sourceKind y = k \<and> \<not> ps_inferred y"
    then show "x = y" using assms(1) unfolding one_per_kind_def distinct_map inj_on_def by simp
  qed (simp add: assms)
  then show "opinion ts = opinion ss" by (simp add: opinion_def fun_eq_iff)
qed

theorem second_source_ignored:
  "projStr (projectAssetFromSources None
     [\<lparr>ps_sourceKind = ''polaris-agent'', ps_inferred = False, ps_observed = JObj []\<rparr>,
      \<lparr>ps_sourceKind = ''polaris-agent'', ps_inferred = False, ps_observed = JObj [(''hostname'', JStr ''web1'')]\<rparr>]) ''hostname'' = None"
  by code_simp

section \<open>Coordinates\<close>










section \<open>Manufacturer names\<close>

text \<open>
  Writing a normalised name again leaves it as it is, for all inputs, exactly if no canonical name is itself an alias of something
  else. Nothing prevents such chains: the aliases \<^verbatim>\<open>a\<close> for \<^verbatim>\<open>b\<close> and \<^verbatim>\<open>b\<close> for \<^verbatim>\<open>c\<close> are both accepted.
\<close>

theorem normalize_idempotent_iff:
  "(\<forall>s. normalizeManufacturer (Some m) (normalizeManufacturer (Some m) s) = normalizeManufacturer (Some m) s) \<longleftrightarrow>
   (\<forall>s c. trim s \<noteq> [] \<longrightarrow> m (toLowerCase (trim s)) = Some c \<longrightarrow> normalizeManufacturer (Some m) (Some c) = Some c)"
  (is "?L \<longleftrightarrow> ?R")
proof
  assume L: ?L
  show ?R
  proof (intro allI impI)
    fix s c
    assume "trim s \<noteq> []" "m (toLowerCase (trim s)) = Some c"
    then have "normalizeManufacturer (Some m) (Some s) = Some c" by (simp add: normalizeManufacturer_def Let_def)
    then show "normalizeManufacturer (Some m) (Some c) = Some c" using L by metis
  qed
next
  assume R: ?R
  show ?L
  proof
    fix s
    show "normalizeManufacturer (Some m) (normalizeManufacturer (Some m) s) = normalizeManufacturer (Some m) s"
    proof (cases s)
      case None
      then show ?thesis by (simp add: normalizeManufacturer_def)
    next
      case (Some t)
      have direct: "normalizeManufacturer (Some m) (Some t) = Some (trim t)" if "trim t \<noteq> []" "m (toLowerCase (trim t)) = None"
        using that by (simp add: normalizeManufacturer_def)
      have again: "normalizeManufacturer (Some m) (Some (trim t)) = Some (trim t)" if "trim t \<noteq> []" "m (toLowerCase (trim t)) = None"
        using that by (simp add: normalizeManufacturer_def)
      show ?thesis
      proof (cases "trim t = []")
        case True
        then show ?thesis using Some by (simp add: normalizeManufacturer_def)
      next
        case False
        then show ?thesis
        proof (cases "m (toLowerCase (trim t))")
          case None
          then show ?thesis using Some False direct again by simp
        next
          case (Some c)
          then have "normalizeManufacturer (Some m) (Some t) = Some c" using False by (simp add: normalizeManufacturer_def)
          then show ?thesis using R False Some \<open>s = Some t\<close> by simp
        qed
      qed
    qed
  qed
qed

end
