(* ===== verification/InventorySpec.thy ===== *)
theory InventorySpec
  imports InventoryRoutes ProjectionSpec
begin

text \<open>
  The tables of the inventory. An upsert is a map update at its key (locale \<^verbatim>\<open>upserting\<close>, interpreted for the source, MAC
  and history tables). With it: what the start-up backfill leaves in the source table, exactly; asset writes never touch an
  observation, but the backfill replaces it and undoes a split; a MAC list is read back as it was written.
\<close>

section \<open>Upserts\<close>

lemma find_in_append: "find P (xs @ ys) = (case find P xs of None \<Rightarrow> find P ys | Some x \<Rightarrow> Some x)"
  by (induction xs) auto

locale upserting =
  fixes key :: "'r \<Rightarrow> 'k"
    and upd :: "'r \<Rightarrow> 'r"
  assumes upd_key: "key (upd r) = key r"
begin

lemma keys_upsert: "map key (upsert_row key new upd rows) = (if key new \<in> key ` set rows then map key rows else map key rows @ [key new])"
  by (simp add: upsert_row_def upd_key)

lemma distinct_upsert: "distinct (map key rows) \<Longrightarrow> distinct (map key (upsert_row key new upd rows))"
  unfolding keys_upsert by auto

lemma find_map_same: "(\<And>r. key (f r) = key r) \<Longrightarrow> find (\<lambda>r. key r = k) (map f rows) = map_option f (find (\<lambda>r. key r = k) rows)"
  by (induction rows) auto

lemma lookup_upsert:
  "find (\<lambda>r. key r = k) (upsert_row key new upd rows) =
     (if k = key new then Some (case find (\<lambda>r. key r = k) rows of None \<Rightarrow> new | Some r \<Rightarrow> upd r) else find (\<lambda>r. key r = k) rows)"
proof (cases "key new \<in> key ` set rows")
  case True
  then obtain r where r: "find (\<lambda>r. key r = key new) rows = Some r" by (metis (mono_tags, lifting) find_Some_ex image_iff)
  have same: "map_option (\<lambda>r. if key r = key new then upd r else r) (find (\<lambda>r. key r = k) rows) = find (\<lambda>r. key r = k) rows" if "k \<noteq> key new"
    using that by (cases "find (\<lambda>r. key r = k) rows") (auto dest: find_SomeD)
  have "find (\<lambda>r. key r = k) (upsert_row key new upd rows) =
      map_option (\<lambda>r. if key r = key new then upd r else r) (find (\<lambda>r. key r = k) rows)"
    using True by (simp add: upsert_row_def find_map_same upd_key)
  then show ?thesis using r same by (auto dest: find_SomeD)
next
  case False
  then have "find (\<lambda>r. key r = key new) rows = None"
    unfolding find_None_iff by (metis rev_image_eqI)
  then show ?thesis using False by (auto simp: upsert_row_def find_in_append split: option.split)
qed

end

interpretation relinked: upserting sourceKey "relink i now seen d" for i now seen d
  by unfold_locales (simp add: relink_def sourceKey_def)

interpretation rederived: upserting sourceKey "rederive i now seen d" for i now seen d
  by unfold_locales (simp add: rederive_def relink_def sourceKey_def)

interpretation observed: upserting sourceKey "observeAgain i integrationId obs syncedAt lastSeen" for i integrationId obs syncedAt lastSeen
  by unfold_locales (simp add: observeAgain_def sourceKey_def)

interpretation refreshed: upserting macKey "refreshMac e" for e
  by unfold_locales (simp add: refreshMac_def macKey_def)

interpretation revisited: upserting ipHistoryKey "seenAgain src now" for src now
  by unfold_locales (simp add: seenAgain_def ipHistoryKey_def)

definition srcAt :: "string \<times> string \<Rightarrow> invState \<Rightarrow> sourceRow option" where
  "srcAt k s = find (\<lambda>r. sourceKey r = k) (nv_sources s)"

lemma srcAt_SomeD: "srcAt k s = Some r \<Longrightarrow> r \<in> set (nv_sources s) \<and> sourceKey r = k"
  unfolding srcAt_def by (rule find_SomeD)

section \<open>A sample\<close>

text \<open>A laptop known to Entra ID and Active Directory, and a numbering of sources for the examples.\<close>

definition sampleId :: "string \<times> string \<Rightarrow> string" where
  "sampleId k = replicate (length (fst k)) (CHR ''a'') @ ''b'' @ fst k @ snd k"

definition sampleAsset :: invAsset where
  "sampleAsset = (blankAsset ''a1'' 1)\<lparr>an_assetTag := Some ''entra:e1'', an_hostname := Some ''pc7'', an_tags := [''sales'']\<rparr>"

definition sampleEntra :: sourceRow where
  "sampleEntra =
     \<lparr>sr_id = ''s1'', sr_assetId = ''a1'', sr_sourceKind = ''entra'', sr_externalId = ''e1'', sr_integrationId = Some ''i1'',
      sr_observed = JObj [(''displayName'', JStr ''PC7''), (''trustType'', JStr ''AzureAd'')], sr_inferred = False, sr_syncedAt = Some 2,
      sr_firstSeen = 1, sr_lastSeen = 2\<rparr>"

definition sampleAd :: sourceRow where
  "sampleAd = sampleEntra\<lparr>sr_id := ''s2'', sr_sourceKind := ''ad'', sr_externalId := ''g1'', sr_observed := JObj [(''cn'', JStr ''pc7'')]\<rparr>"

definition sampleMac :: macRow where
  "sampleMac =
     \<lparr>mr_assetId = ''a1'', mr_mac = ''AA:00'', mr_source = ''manual'', mr_device = None, mr_subnetCidr = None, mr_subnetName = None, mr_lastSeen = 3,
      mr_firstSeen = 3\<rparr>"

definition sampleInv :: invState where
  "sampleInv =
     \<lparr>nv_assets = [sampleAsset], nv_sources = [sampleEntra, sampleAd], nv_ipHistory = [], nv_macs = [sampleMac], nv_aliases = [], nv_aliasMap = None,
      nv_mibs = [], nv_agentVersions = [], nv_integrations = [], nv_historySettings = None, nv_pending = [], nv_events = []\<rparr>"

lemma sampleInv_entra: "srcAt (''entra'', ''e1'') sampleInv = Some sampleEntra"
  by (simp add: srcAt_def sampleInv_def sampleEntra_def sourceKey_def)

lemma replicate_sep: "x \<noteq> y \<Longrightarrow> replicate n x @ y # us = replicate m x @ y # vs \<longleftrightarrow> n = m \<and> us = vs"
proof (induction n arbitrary: m)
  case 0
  then show ?case by (cases m) auto
next
  case (Suc n)
  then show ?case by (cases m) auto
qed

lemma sampleId_inj: "inj sampleId"
  by (rule injI) (auto simp: sampleId_def replicate_sep prod_eq_iff)

section \<open>Asset writes and observations\<close>

text \<open>Every source of \<open>s\<close> is in \<open>t\<close> with the same id, observation and first sighting, and a real one is still real.\<close>

definition kept_obs :: "invState \<Rightarrow> invState \<Rightarrow> bool" where
  "kept_obs s t \<longleftrightarrow> (\<forall>k r. srcAt k s = Some r \<longrightarrow>
     (\<exists>r'. srcAt k t = Some r' \<and> sr_id r' = sr_id r \<and> sr_observed r' = sr_observed r \<and> sr_firstSeen r' = sr_firstSeen r \<and>
        (\<not> sr_inferred r \<longrightarrow> \<not> sr_inferred r')))"

definition keepsObs :: "(invState, 'a) io \<Rightarrow> bool" where
  "keepsObs m \<longleftrightarrow> (\<forall>s. kept_obs s (snd (m s)))"

lemma kept_obs_trans: "kept_obs s t \<Longrightarrow> kept_obs t u \<Longrightarrow> kept_obs s u"
  unfolding kept_obs_def by metis

lemma kept_obs_same: "nv_sources t = nv_sources s \<Longrightarrow> kept_obs s t"
  by (simp add: kept_obs_def srcAt_def)

lemma keeps_same: "(\<And>s. nv_sources (snd (m s)) = nv_sources s) \<Longrightarrow> keepsObs m"
  unfolding keepsObs_def by (blast intro: kept_obs_same)

lemma keepsObs_bind: "keepsObs m \<Longrightarrow> (\<And>x. keepsObs (f x)) \<Longrightarrow> keepsObs (bindIO m f)"
  unfolding keepsObs_def bindIO_def by (auto split: prod.splits sum.splits) (metis kept_obs_trans snd_conv)+

lemma keeps_ignoring: "keepsObs m \<Longrightarrow> keepsObs (ignoring m)"
  unfolding keepsObs_def ignoring_def catchIO_def returnIO_def by (auto split: prod.splits sum.splits) (metis snd_conv)+

lemma keeps_each: "(\<And>x. keepsObs (f x)) \<Longrightarrow> keepsObs (eachIO f xs)"
  by (induction xs) (auto intro: keepsObs_bind keeps_same simp: returnIO_def)

lemma keeps_relink: "keepsObs (upsertSource new (relink i now seen d))"
proof -
  have "kept_obs s (s\<lparr>nv_sources := upsert_row sourceKey new (relink i now seen d) (nv_sources s)\<rparr>)" for s
    unfolding kept_obs_def srcAt_def by (auto simp: relinked.lookup_upsert relink_def)
  then show ?thesis unfolding keepsObs_def upsertSource_def by (auto simp: Let_def kept_obs_same)
qed

lemma keeps_aliases: "keepsObs (ignoring applyAliasesToExistingRows)"
proof -
  have get: "keepsObs (getIO g)" for g :: "invState \<Rightarrow> 'b" by (rule keeps_same) (simp add: getIO_def)
  have "keepsObs (applyToAssets raw)" "keepsObs (applyToMib r)" for raw r
    by (auto intro!: keeps_same simp: applyToAssets_def applyToMib_def bindIO_def getIO_def returnIO_def assetUpdateMany_def mibUpdate_def
        ignoring_def catchIO_def split: option.splits sum.splits prod.splits)
  then show ?thesis unfolding applyAliasesToExistingRows_def by (intro keeps_ignoring keepsObs_bind keeps_each get)
qed

lemma keeps_followUp: "keepsObs (runFollowUp newId f)"
proof (cases f)
  case (RecordIp i ip src now)
  then show ?thesis by (auto intro!: keeps_same simp: runFollowUp_def modifyIO_def recordIpHistory_def)
next
  case (ShadowWrite a now)
  then show ?thesis by (auto intro!: keeps_each keeps_ignoring keeps_relink simp: runFollowUp_def shadowWriteAssetSources_def Let_def)
next
  case ApplyAliases
  then show ?thesis using keeps_aliases by (simp add: runFollowUp_def)
qed

inductive write_step :: "(string \<times> string \<Rightarrow> string) \<Rightarrow> invState \<Rightarrow> invState \<Rightarrow> bool" for newId where
  created: "write_step newId s (snd (assetCreate uid data now s))"
| updated: "write_step newId s (snd (assetUpdate i data now s))"
| updatedMany: "write_step newId s (snd (assetUpdateMany P data s))"
| followedUp: "write_step newId s (settleFollowUp newId n ok s)"

lemma keeps_writes: "keepsObs (assetCreate uid data now)" "keepsObs (assetUpdate i data now)" "keepsObs (assetUpdateMany P data)"
  by (auto intro!: keeps_same simp: assetCreate_def assetUpdate_def assetUpdateMany_def afterWrite_def deferIO_def bindIO_def modifyIO_def returnIO_def Let_def
      split: option.splits sum.splits)

lemma write_step_kept: "write_step newId s t \<Longrightarrow> kept_obs s t"
proof (induction rule: write_step.induct)
  case (followedUp s n ok)
  have "kept_obs s (snd (runFollowUp newId f (s\<lparr>nv_pending := fs\<rparr>)))" for f fs
    using keeps_followUp [of newId f] kept_obs_same [of "s\<lparr>nv_pending := fs\<rparr>" s] unfolding keepsObs_def by (auto intro: kept_obs_trans)
  then show ?case by (simp add: settleFollowUp_def Let_def kept_obs_same)
qed (use keeps_writes in \<open>auto simp: keepsObs_def\<close>)

text \<open>
  C23. No write of asset columns touches what a source observed: through any sequence of asset creations, updates and bulk updates and of
  the follow-ups they leave behind, settling late, in any order or not at all, every source keeps its id, its observation and the
  time it was first seen, and a real observation is not turned into an inferred one.
\<close>

theorem observations_kept:
  assumes "(write_step newId)\<^sup>*\<^sup>* s t" "srcAt k s = Some r"
  shows "\<exists>r'. srcAt k t = Some r' \<and> sr_id r' = sr_id r \<and> sr_observed r' = sr_observed r \<and> sr_firstSeen r' = sr_firstSeen r \<and>
    (\<not> sr_inferred r \<longrightarrow> \<not> sr_inferred r')"
proof -
  have "kept_obs s t" using assms(1)
    by (induction rule: rtranclp_induct) (auto intro: kept_obs_same kept_obs_trans write_step_kept)
  then show ?thesis using assms(2) unfolding kept_obs_def by blast
qed

theorem observations_kept_witness:
  "\<exists>r'. srcAt (''entra'', ''e1'') (settleFollowUp sampleId 0 True (snd (assetUpdate ''a1'' [CHostname (Some ''pc8''), CTags []] 7 sampleInv))) = Some r' \<and>
     sr_observed r' = JObj [(''displayName'', JStr ''PC7''), (''trustType'', JStr ''AzureAd'')]"
proof -
  have run: "(write_step sampleId)\<^sup>*\<^sup>* sampleInv (settleFollowUp sampleId 0 True (snd (assetUpdate ''a1'' [CHostname (Some ''pc8''), CTags []] 7 sampleInv)))"
    by (rule converse_rtranclp_into_rtranclp, rule updated, rule r_into_rtranclp, rule followedUp)
  show ?thesis using observations_kept [OF run sampleInv_entra] by (auto simp: sampleEntra_def)
qed

section \<open>The backfill, exactly\<close>

definition dkey :: "derivedSource \<Rightarrow> string \<times> string" where
  "dkey d = (ds_sourceKind d, ds_externalId d)"

definition claims :: "invAsset list \<Rightarrow> (invAsset \<times> derivedSource) list" where
  "claims as = concat (map (\<lambda>a. map (Pair a) (deriveAssetSources a)) as)"

definition claimant :: "string \<times> string \<Rightarrow> (invAsset \<times> derivedSource) list \<Rightarrow> (invAsset \<times> derivedSource) option" where
  "claimant k cs = find (\<lambda>c. dkey (snd c) = k) cs"

definition claimedRow :: "(string \<times> string \<Rightarrow> string) \<Rightarrow> int \<Rightarrow> invAsset \<times> derivedSource \<Rightarrow> sourceRow option \<Rightarrow> sourceRow" where
  "claimedRow newId now c old =
     (let a = fst c; d = snd c; seen = keep (an_lastSeen a) now
      in case old of None \<Rightarrow> newSource newId (an_id a) now seen d | Some r \<Rightarrow> rederive (an_id a) now seen d r)"

fun backfillClaims :: "(string \<times> string \<Rightarrow> string) \<Rightarrow> int \<Rightarrow> (invAsset \<times> derivedSource) list \<Rightarrow> string list \<Rightarrow> (invState, string list) io" where
  "backfillClaims newId now [] ks = returnIO ks"
| "backfillClaims newId now (c # cs) ks =
     (let a = fst c; d = snd c; seen = keep (an_lastSeen a) now
      in if seenKey d \<in> set ks then backfillClaims newId now cs ks
         else bindIO (ignoring (upsertSource (newSource newId (an_id a) now seen d) (rederive (an_id a) now seen d))) (\<lambda>_.
              backfillClaims newId now cs (ks @ [seenKey d])))"

lemma bindIO_assoc: "bindIO (bindIO m f) g = bindIO m (\<lambda>x. bindIO (f x) g)"
  by (auto simp: bindIO_def fun_eq_iff split: prod.splits sum.splits)

lemma bindIO_return: "bindIO m returnIO = m"
  by (auto simp: bindIO_def fun_eq_iff returnIO_def split: prod.splits sum.splits)

lemma backfillClaims_append:
  "backfillClaims newId now (cs @ ds) ks = bindIO (backfillClaims newId now cs ks) (backfillClaims newId now ds)"
  by (induction cs arbitrary: ks) (auto simp: Let_def bindIO_assoc)

lemma backfillDerived_claims: "backfillDerived newId now a ds ks = backfillClaims newId now (map (Pair a) ds) ks"
  by (induction ds arbitrary: ks) (auto simp: Let_def)

lemma backfillRows_claims: "backfillRows newId now as ks = backfillClaims newId now (claims as) ks"
proof (induction as arbitrary: ks)
  case (Cons a as)
  then have "backfillRows newId now as = backfillClaims newId now (claims as)" by (rule ext)
  then show ?case by (simp add: claims_def backfillDerived_claims backfillClaims_append)
qed (simp add: claims_def)

declare backfillPages.simps [simp del]

lemma backfillPages_rows: "backfillPages newId now rest ks = backfillRows newId now rest ks"
proof (induction "length rest" arbitrary: rest ks rule: less_induct)
  case less
  show ?case
  proof (cases "take PAGE_SIZE rest = [] \<or> length (take PAGE_SIZE rest) < PAGE_SIZE")
    case True
    then have all: "take PAGE_SIZE rest = rest" by (auto simp: PAGE_SIZE_def min_def split: if_splits)
    then show ?thesis using True by (subst backfillPages.simps) (auto simp: Let_def bindIO_return)
  next
    case False
    then have shorter: "length (drop PAGE_SIZE rest) < length rest" by (auto simp: PAGE_SIZE_def)
    have "backfillPages newId now rest ks =
        bindIO (backfillRows newId now (take PAGE_SIZE rest) ks) (backfillPages newId now (drop PAGE_SIZE rest))"
      using False by (subst backfillPages.simps) (auto simp: Let_def)
    also have "\<dots> = bindIO (backfillRows newId now (take PAGE_SIZE rest) ks) (backfillRows newId now (drop PAGE_SIZE rest))"
      by (rule arg_cong [where f = "bindIO _"]) (rule ext, rule less [OF shorter])
    also have "\<dots> = backfillClaims newId now (claims (take PAGE_SIZE rest) @ claims (drop PAGE_SIZE rest)) ks"
      unfolding backfillClaims_append backfillRows_claims by (rule refl)
    also have "claims (take PAGE_SIZE rest) @ claims (drop PAGE_SIZE rest) = claims rest"
      by (simp add: claims_def flip: concat_append map_append)
    finally show ?thesis by (simp add: backfillRows_claims)
  qed
qed

text \<open>The texts of the keys are unambiguous, since no kind contains a colon.\<close>

definition keyText :: "string \<times> string \<Rightarrow> string" where
  "keyText k = fst k @ ''::'' @ snd k"

lemma seenKey_text: "seenKey d = keyText (dkey d)"
  by (simp add: seenKey_def keyText_def dkey_def)

lemma keyText_inj:
  assumes "CHR '':'' \<notin> set (fst k)" "CHR '':'' \<notin> set (fst l)" "keyText k = keyText l"
  shows "k = l"
proof -
  have "takeWhile (\<lambda>c. c \<noteq> CHR '':'') (keyText k) = fst k" if "CHR '':'' \<notin> set (fst k)" for k
    using that by (simp add: keyText_def takeWhile_append)
  then have "fst k = fst l" using assms by metis
  then show ?thesis using assms(3) by (simp add: keyText_def prod_eq_iff)
qed

definition DERIVED_KINDS :: "string list" where
  "DERIVED_KINDS = [''entra'', ''ad'', ''fortigate-firewall'', ''fortiswitch'', ''fortiap'', ''manual'']"

lemma recoverAd_kinds: "list_all (\<lambda>d. ds_sourceKind d \<in> set DERIVED_KINDS) out \<Longrightarrow> list_all (\<lambda>d. ds_sourceKind d \<in> set DERIVED_KINDS) (recoverAd ts out)"
  by (induction ts arbitrary: out) (auto simp: Let_def recoveredAd_def DERIVED_KINDS_def)

lemma derived_kinds: "list_all (\<lambda>d. ds_sourceKind d \<in> set DERIVED_KINDS) (deriveAssetSources a)"
proof -
  have p: "list_all (\<lambda>d. ds_sourceKind d \<in> set DERIVED_KINDS) (primarySource a t)" for t
    by (simp add: primarySource_def DERIVED_KINDS_def Let_def)
  have i: "list_all (\<lambda>d. ds_sourceKind d \<in> set DERIVED_KINDS) (infraSource a)"
    by (simp add: infraSource_def DERIVED_KINDS_def Let_def)
  show ?thesis
    unfolding deriveAssetSources_def Let_def
    by (simp add: p i recoverAd_kinds split: option.split) (simp add: DERIVED_KINDS_def)
qed

lemma claim_kind: "c \<in> set (claims as) \<Longrightarrow> CHR '':'' \<notin> set (fst (dkey (snd c)))"
proof -
  assume "c \<in> set (claims as)"
  then have "\<exists>a :: invAsset. snd c \<in> set (deriveAssetSources a)" by (auto simp: claims_def)
  then obtain a :: invAsset where "snd c \<in> set (deriveAssetSources a)" by blast
  then have "ds_sourceKind (snd c) \<in> set DERIVED_KINDS" using derived_kinds [of a] by (simp add: list_all_iff)
  then show ?thesis by (auto simp: dkey_def DERIVED_KINDS_def)
qed

lemma claim_asset: "c \<in> set (claims as) \<Longrightarrow> fst c \<in> set as"
  by (auto simp: claims_def)

text \<open>The ids drawn for new sources are new.\<close>

definition fresh_ids :: "(string \<times> string \<Rightarrow> string) \<Rightarrow> invState \<Rightarrow> bool" where
  "fresh_ids newId s \<longleftrightarrow> inj newId \<and> (\<forall>k. srcAt k s = None \<longrightarrow> newId k \<notin> sr_id ` set (nv_sources s))"

lemma fresh_idsD: "fresh_ids newId s \<Longrightarrow> srcAt k s = None \<Longrightarrow> newId k \<notin> sr_id ` set (nv_sources s)"
  unfolding fresh_ids_def by blast

lemma sample_fresh: "fresh_ids sampleId sampleInv"
proof -
  have "sampleId k \<noteq> ''s1''" "sampleId k \<noteq> ''s2''" for k
    by (cases "length (fst k)"; simp add: sampleId_def)+
  then show ?thesis by (simp add: fresh_ids_def sampleId_inj sampleInv_def sampleEntra_def sampleAd_def)
qed

lemma newSource_fields: "sr_id (newSource newId i now seen d) = newId (dkey d)" "sr_assetId (newSource newId i now seen d) = i"
  "sr_observed (newSource newId i now seen d) = ds_observed d"
  by (simp_all add: newSource_def dkey_def)

lemma newSource_key: "sourceKey (newSource newId i now seen d) = dkey d"
  by (simp add: sourceKey_def newSource_def dkey_def)

lemma upsertSource_ok:
  assumes "i \<in> an_id ` set (nv_assets s)" "fresh_ids newId s"
    and "\<And>r. sr_assetId (upd r) = i"
  shows "upsertSource (newSource newId i now seen d) upd s =
    (Inr (), s\<lparr>nv_sources := upsert_row sourceKey (newSource newId i now seen d) upd (nv_sources s)\<rparr>)"
proof -
  have "newId (dkey d) \<notin> sr_id ` set (nv_sources s)" if "find (\<lambda>r. sourceKey r = dkey d) (nv_sources s) = None"
    using that fresh_idsD [OF assms(2), of "dkey d"] by (simp add: srcAt_def)
  then show ?thesis using assms(1,3)
    by (auto simp: upsertSource_def Let_def newSource_key newSource_fields split: option.split)
qed

lemma upsert_ids:
  "(\<And>r. sr_id (upd r) = sr_id r) \<Longrightarrow> sr_id ` set (upsert_row sourceKey new upd rows) \<subseteq> insert (sr_id new) (sr_id ` set rows)"
  by (auto simp: upsert_row_def)

lemma rederive_fields: "sr_id (rederive i now seen d r) = sr_id r" "sr_assetId (rederive i now seen d r) = i"
  "sr_observed (rederive i now seen d r) = ds_observed d"
  by (simp_all add: rederive_def relink_def)

lemma fresh_ids_upsert:
  assumes "fresh_ids newId s" "t = s\<lparr>nv_sources := upsert_row sourceKey (newSource newId i now seen d) (rederive i now seen d) (nv_sources s)\<rparr>"
  shows "fresh_ids newId t"
proof -
  have "newId k \<notin> sr_id ` set (nv_sources t)" if "srcAt k t = None" for k
  proof -
    have k: "k \<noteq> dkey d" "srcAt k s = None"
      using that assms(2) rederived.lookup_upsert [of k "newSource newId i now seen d" i now seen d "nv_sources s"]
      by (auto simp: srcAt_def newSource_key split: if_splits)
    have "newId k \<noteq> newId (dkey d)" using k assms(1) by (auto simp: fresh_ids_def dest: injD)
    moreover have "sr_id ` set (nv_sources t) \<subseteq> insert (newId (dkey d)) (sr_id ` set (nv_sources s))"
      using upsert_ids [of "rederive i now seen d" "newSource newId i now seen d" "nv_sources s"]
      by (simp add: assms(2) rederive_fields newSource_fields)
    ultimately show ?thesis using fresh_idsD [OF assms(1) k(2)] by blast
  qed
  then show ?thesis using assms(1) unfolding fresh_ids_def by blast
qed

lemma claimant_Cons: "claimant k (c # cs) = (if dkey (snd c) = k then Some c else claimant k cs)"
  by (simp add: claimant_def)

lemma claimant_text:
  assumes "\<And>e. e \<in> set cs \<Longrightarrow> CHR '':'' \<notin> set (fst (dkey (snd e)))" "CHR '':'' \<notin> set (fst (dkey d))"
    and "keyText k = keyText (dkey d)" "k \<noteq> dkey d"
  shows "claimant k cs = None"
proof (rule ccontr)
  assume "claimant k cs \<noteq> None"
  then obtain e where "e \<in> set cs" "dkey (snd e) = k" by (auto simp: claimant_def dest: find_SomeD)
  then show False using keyText_inj assms by metis
qed

lemma backfillClaims_exact:
  assumes "fresh_ids newId s" "\<And>c. c \<in> set cs \<Longrightarrow> an_id (fst c) \<in> an_id ` set (nv_assets s) \<and> CHR '':'' \<notin> set (fst (dkey (snd c)))"
  shows "\<exists>ks' rows. backfillClaims newId now cs ks s = (Inr ks', s\<lparr>nv_sources := rows\<rparr>) \<and>
    (\<forall>k. find (\<lambda>r. sourceKey r = k) rows =
       (if keyText k \<in> set ks then srcAt k s
        else case claimant k cs of None \<Rightarrow> srcAt k s | Some c \<Rightarrow> Some (claimedRow newId now c (srcAt k s))))"
  using assms
proof (induction cs arbitrary: ks s)
  case Nil
  have "s = s\<lparr>nv_sources := nv_sources s\<rparr>" by simp
  then show ?case by (force simp: claimant_def srcAt_def)
next
  case (Cons c cs)
  obtain a d where c: "c = (a, d)" by (cases c)
  have rest: "\<And>c. c \<in> set cs \<Longrightarrow> an_id (fst c) \<in> an_id ` set (nv_assets s) \<and> CHR '':'' \<notin> set (fst (dkey (snd c)))"
    and here: "an_id a \<in> an_id ` set (nv_assets s)" "CHR '':'' \<notin> set (fst (dkey d))"
    using Cons.prems(2) Cons.prems(2) [of c] by (simp_all add: c)
  show ?case
  proof (cases "seenKey d \<in> set ks")
    case True
    have skip: "claimant k (c # cs) = claimant k cs" if "keyText k \<notin> set ks" for k
      using that True by (auto simp: c claimant_Cons seenKey_text)
    from Cons.IH [OF Cons.prems(1) rest, of ks] True skip show ?thesis
      by (simp add: c Let_def cong: if_cong)
  next
    case False
    let ?seen = "keep (an_lastSeen a) now"
    let ?t = "s\<lparr>nv_sources := upsert_row sourceKey (newSource newId (an_id a) now ?seen d) (rederive (an_id a) now ?seen d) (nv_sources s)\<rparr>"
    have up: "ignoring (upsertSource (newSource newId (an_id a) now ?seen d) (rederive (an_id a) now ?seen d)) s = (Inr (), ?t)"
      using upsertSource_ok [OF here(1) Cons.prems(1)] rederive_fields(2) by (simp add: ignoring_def catchIO_def)
    have at: "srcAt k ?t = (if k = dkey d then Some (claimedRow newId now (a, d) (srcAt k s)) else srcAt k s)" for k
      using rederived.lookup_upsert [of k "newSource newId (an_id a) now ?seen d" "an_id a" now ?seen d "nv_sources s"]
      by (simp add: srcAt_def newSource_key claimedRow_def Let_def)
    have fr: "fresh_ids newId ?t" by (rule fresh_ids_upsert [OF Cons.prems(1) refl])
    have "\<And>c. c \<in> set cs \<Longrightarrow> an_id (fst c) \<in> an_id ` set (nv_assets ?t) \<and> CHR '':'' \<notin> set (fst (dkey (snd c)))"
      using rest by simp
    from Cons.IH [OF fr this, of "ks @ [seenKey d]"] obtain ks' rows where
      ih: "backfillClaims newId now cs (ks @ [seenKey d]) ?t = (Inr ks', ?t\<lparr>nv_sources := rows\<rparr>)"
        "\<And>k. find (\<lambda>r. sourceKey r = k) rows = (if keyText k \<in> set (ks @ [seenKey d]) then srcAt k ?t
           else case claimant k cs of None \<Rightarrow> srcAt k ?t | Some c \<Rightarrow> Some (claimedRow newId now c (srcAt k ?t)))" by blast
    have run: "backfillClaims newId now (c # cs) ks s = (Inr ks', s\<lparr>nv_sources := rows\<rparr>)"
      using False up ih(1) by (simp add: c Let_def bindIO_def)
    have "find (\<lambda>r. sourceKey r = k) rows = (if keyText k \<in> set ks then srcAt k s
        else case claimant k (c # cs) of None \<Rightarrow> srcAt k s | Some c \<Rightarrow> Some (claimedRow newId now c (srcAt k s)))" for k
    proof (cases "k = dkey d")
      case True
      then show ?thesis using False ih(2) [of k] at [of k] by (simp add: c claimant_Cons seenKey_text)
    next
      case other: False
      show ?thesis
      proof (cases "keyText k = keyText (dkey d)")
        case True
        then have "claimant k cs = None" using claimant_text rest here(2) other by metis
        then show ?thesis using other True ih(2) [of k] at [of k] by (simp add: c claimant_Cons seenKey_text)
      next
        case False
        then show ?thesis using other ih(2) [of k] at [of k] by (auto simp: c claimant_Cons seenKey_text split: option.split)
      qed
    qed
    then show ?thesis using run by blast
  qed
qed

lemma backfill_lookup:
  assumes "fresh_ids newId s"
  shows "\<exists>rows. backfillAssetSources newId now s = (Inr (), s\<lparr>nv_sources := rows\<rparr>) \<and>
    (\<forall>k. find (\<lambda>r. sourceKey r = k) rows =
       (case claimant k (claims (sort_key av_createdAt (nv_assets s))) of
          None \<Rightarrow> srcAt k s | Some c \<Rightarrow> Some (claimedRow newId now c (srcAt k s))))"
proof -
  let ?cs = "claims (sort_key av_createdAt (nv_assets s))"
  have "an_id (fst c) \<in> an_id ` set (nv_assets s) \<and> CHR '':'' \<notin> set (fst (dkey (snd c)))" if "c \<in> set ?cs" for c
    using that claim_asset claim_kind by fastforce
  from backfillClaims_exact [OF assms this, of ?cs now "[]"] obtain ks' rows where
    "backfillClaims newId now ?cs [] s = (Inr ks', s\<lparr>nv_sources := rows\<rparr>)"
    "\<forall>k. find (\<lambda>r. sourceKey r = k) rows = (case claimant k ?cs of None \<Rightarrow> srcAt k s | Some c \<Rightarrow> Some (claimedRow newId now c (srcAt k s)))"
    by auto
  then show ?thesis by (auto simp: backfillAssetSources_def backfillPages_rows backfillRows_claims bindIO_def)
qed

lemma backfill_claimed:
  assumes "fresh_ids newId s" "claimant k (claims (sort_key av_createdAt (nv_assets s))) = Some c"
  shows "\<exists>rows. backfillAssetSources newId now s = (Inr (), s\<lparr>nv_sources := rows\<rparr>) \<and>
    find (\<lambda>r. sourceKey r = k) rows = Some (claimedRow newId now c (srcAt k s))"
proof -
  obtain rows where rows: "backfillAssetSources newId now s = (Inr (), s\<lparr>nv_sources := rows\<rparr>)"
    "\<forall>k. find (\<lambda>r. sourceKey r = k) rows =
       (case claimant k (claims (sort_key av_createdAt (nv_assets s))) of
          None \<Rightarrow> srcAt k s | Some c \<Rightarrow> Some (claimedRow newId now c (srcAt k s)))"
    using backfill_lookup [OF assms(1)] by blast
  then have "find (\<lambda>r. sourceKey r = k) rows = Some (claimedRow newId now c (srcAt k s))" using rows(2) [rule_format, of k] assms(2) by simp
  then show ?thesis using rows(1) by blast
qed



lemma claimant_unique:
  assumes "c \<in> set cs" "\<And>e. e \<in> set cs \<Longrightarrow> dkey (snd e) = dkey (snd c) \<Longrightarrow> e = c"
  shows "claimant (dkey (snd c)) cs = Some c"
proof -
  obtain e where "claimant (dkey (snd c)) cs = Some e" using find_Some_ex [OF assms(1)] by (metis (mono_tags, lifting) claimant_def)
  then show ?thesis using assms(2) find_SomeD unfolding claimant_def by fastforce
qed

text \<open>Asset \<open>a\<close> alone claims the key of \<open>d\<close>.\<close>

definition sole_claim :: "invAsset \<Rightarrow> derivedSource \<Rightarrow> invState \<Rightarrow> bool" where
  "sole_claim a d s \<longleftrightarrow> (a, d) \<in> set (claims (nv_assets s)) \<and> (\<forall>c \<in> set (claims (nv_assets s)). dkey (snd c) = dkey d \<longrightarrow> c = (a, d))"

lemma set_claims_sort: "set (claims (sort_key f as)) = set (claims as)"
  by (simp add: claims_def)

lemma sole_claimant: "sole_claim a d s \<Longrightarrow> claimant (dkey d) (claims (sort_key av_createdAt (nv_assets s))) = Some (a, d)"
  using claimant_unique [of "(a, d)" "claims (sort_key av_createdAt (nv_assets s))"] by (auto simp: sole_claim_def set_claims_sort)

text \<open>
  A restart replaces what discovery observed. After the backfill the source of a Fortinet firewall, recognised by its serial number,
  holds the columns of the asset row and still counts as a real observation, but the SNMP location is gone.
\<close>

theorem restart_forgets_location:
  assumes "fresh_ids newId s" "sole_claim a d s" "ds_sourceKind d = ''fortigate-firewall''" "an_assetTag a = None"
    and "srcAt (dkey d) s = Some r"
  shows "\<exists>rows r'. backfillAssetSources newId now s = (Inr (), s\<lparr>nv_sources := rows\<rparr>) \<and>
    find (\<lambda>r. sourceKey r = dkey d) rows = Some r' \<and> \<not> sr_inferred r' \<and> obsString (sr_observed r') ''snmpLocation'' = None"
proof -
  let ?r = "rederive (an_id a) now (keep (an_lastSeen a) now) d r"
  have d: "d \<in> set (deriveAssetSources a)" using assms(2) by (auto simp: sole_claim_def claims_def)
  then have d_def: "ds_inferred d = False" "\<exists>serial. ds_observed d = buildFortigateFirewallObserved a serial"
    using assms(3,4) by (auto simp: deriveAssetSources_def infraSource_def Let_def or_null_def truthy_def split: if_splits)
  then have "\<not> sr_inferred ?r" "obsString (sr_observed ?r) ''snmpLocation'' = None"
    by (auto simp: rederive_def relink_def obsString_def buildFortigateFirewallObserved_def)
  moreover obtain rows where "backfillAssetSources newId now s = (Inr (), s\<lparr>nv_sources := rows\<rparr>)"
      "find (\<lambda>r. sourceKey r = dkey d) rows = Some ?r"
    using backfill_claimed [OF assms(1) sole_claimant [OF assms(2)], of now] assms(5) by (auto simp: claimedRow_def Let_def)
  ultimately show ?thesis by blast
qed

section \<open>Splitting a source off\<close>

lemma writeCols_keeps: "an_id (writeCols data a) = an_id a" "av_createdAt (writeCols data a) = av_createdAt a"
proof -
  have "an_id (writeCol c b) = an_id b \<and> av_createdAt (writeCol c b) = av_createdAt b" for c b by (cases c) auto
  then have "an_id (foldl (\<lambda>b c. writeCol c b) a data) = an_id a \<and> av_createdAt (foldl (\<lambda>b c. writeCol c b) a data) = av_createdAt a"
    by (induction data arbitrary: a) auto
  then show "an_id (writeCols data a) = an_id a" "av_createdAt (writeCols data a) = av_createdAt a" by (simp_all add: writeCols_def)
qed

lemma splitSource_done:
  assumes "splitSource uid i sourceId actor now s = (Inr row, t)"
  shows "\<exists>a r. findAssetRow i s = Some a \<and> find (\<lambda>r. sr_id r = sourceId) (sourcesOf i s) = Some r \<and> an_id row = uid \<and> av_createdAt row = now \<and>
    nv_assets t = nv_assets s @ [row] \<and> nv_sources t = map (\<lambda>q. if sr_id q = sr_id r then q\<lparr>sr_assetId := uid\<rparr> else q) (nv_sources s)"
  using assms
  by (auto simp: splitSource_def assetCreate_def afterWrite_def deferIO_def Let_def transactionIO_def bindIO_def invEvent_def insert_row_def writeCols_keeps blankAsset_def
      split: if_splits option.splits sum.splits prod.splits)

lemma insort_key_snoc: "(f y :: int) \<le> f x \<Longrightarrow> insort_key f y (zs @ [x]) = insort_key f y zs @ [x]"
  by (induction zs) auto

lemma sort_key_snoc: "(\<And>y. y \<in> set ys \<Longrightarrow> (f y :: int) \<le> f x) \<Longrightarrow> sort_key f (ys @ [x]) = sort_key f ys @ [x]"
  by (induction ys) (auto simp: sort_key_def insort_key_snoc)

lemma fresh_ids_rebind:
  assumes "fresh_ids newId s" "nv_sources t = map (\<lambda>q. if P q then q\<lparr>sr_assetId := i\<rparr> else q) (nv_sources s)"
  shows "fresh_ids newId t" "srcAt k t = map_option (\<lambda>q. if P q then q\<lparr>sr_assetId := i\<rparr> else q) (srcAt k s)"
proof -
  have at: "srcAt k t = map_option (\<lambda>q. if P q then q\<lparr>sr_assetId := i\<rparr> else q) (srcAt k s)" for k
    unfolding srcAt_def assms(2) by (rule rederived.find_map_same) (simp add: sourceKey_def)
  then show "srcAt k t = map_option (\<lambda>q. if P q then q\<lparr>sr_assetId := i\<rparr> else q) (srcAt k s)" .
  have "map sr_id (nv_sources t) = map sr_id (nv_sources s)" by (simp add: assms(2))
  then have "sr_id ` set (nv_sources t) = sr_id ` set (nv_sources s)" by (metis list.set_map)
  then show "fresh_ids newId t" using assms(1) at by (simp add: fresh_ids_def)
qed

text \<open>
  A split is undone by the next restart whenever the original asset still carries the identity of the source in its tag or serial
  number: right after the split the source belongs to the new asset, after the backfill to the original one again, with the
  observation derived from the original row.
\<close>

theorem restart_undoes_split:
  assumes "splitSource uid i sourceId actor now s = (Inr row, t)" "findAssetRow i s = Some a"
    and "srcAt (dkey d) s = Some r" "sr_id r = sourceId"
    and "sole_claim a d s" "\<And>b. b \<in> set (nv_assets s) \<Longrightarrow> av_createdAt b \<le> now" "fresh_ids newId s"
  shows "srcAt (dkey d) t = Some (r\<lparr>sr_assetId := uid\<rparr>) \<and>
    (\<exists>u x. backfillAssetSources newId later t = (Inr (), u) \<and> srcAt (dkey d) u = Some x \<and> sr_assetId x = i \<and> sr_observed x = ds_observed d)"
proof -
  from splitSource_done [OF assms(1)] obtain r' where
    split: "find (\<lambda>r. sr_id r = sourceId) (sourcesOf i s) = Some r'" "av_createdAt row = now" "nv_assets t = nv_assets s @ [row]"
      "nv_sources t = map (\<lambda>q. if sr_id q = sr_id r' then q\<lparr>sr_assetId := uid\<rparr> else q) (nv_sources s)" by blast
  have "sr_id r' = sourceId" using split(1) by (auto dest: find_SomeD)
  then have at: "srcAt (dkey d) t = Some (r\<lparr>sr_assetId := uid\<rparr>)" and fresh: "fresh_ids newId t"
    using fresh_ids_rebind [OF assms(7) split(4)] assms(3,4) by simp_all
  have "sort_key av_createdAt (nv_assets t) = sort_key av_createdAt (nv_assets s) @ [row]"
    unfolding split(3) using assms(6) split(2) by (intro sort_key_snoc) simp
  then have "claimant (dkey d) (claims (sort_key av_createdAt (nv_assets t))) = Some (a, d)"
    using sole_claimant [OF assms(5)] by (simp add: claims_def claimant_def find_in_append)
  then obtain rows where run: "backfillAssetSources newId later t = (Inr (), t\<lparr>nv_sources := rows\<rparr>)"
      "find (\<lambda>r. sourceKey r = dkey d) rows = Some (claimedRow newId later (a, d) (srcAt (dkey d) t))"
    using backfill_claimed [OF fresh, of "dkey d" _ later] by blast
  have "an_id a = i" using assms(2) by (auto simp: findAssetRow_def dest: find_SomeD)
  then have "sr_assetId (claimedRow newId later (a, d) (srcAt (dkey d) t)) = i" "sr_observed (claimedRow newId later (a, d) (srcAt (dkey d) t)) = ds_observed d"
    by (simp_all add: at claimedRow_def Let_def rederive_fields)
  then show ?thesis using at run by (auto simp: srcAt_def)
qed

text \<open>The source Entra ID of the laptop, split off and claimed again.\<close>

definition sampleClaim :: derivedSource where
  "sampleClaim =
     \<lparr>ds_sourceKind = ''entra'', ds_externalId = ''e1'', ds_integrationId = None, ds_inferred = False,
      ds_observed = buildEntraObserved sampleAsset ''e1''\<rparr>"

theorem restart_undoes_split_witness:
  "\<exists>row t u x. splitSource ''n1'' ''a1'' ''s1'' None 5 sampleInv = (Inr row, t) \<and> srcAt (''entra'', ''e1'') t = Some (sampleEntra\<lparr>sr_assetId := ''n1''\<rparr>) \<and>
     backfillAssetSources sampleId 9 t = (Inr (), u) \<and> srcAt (''entra'', ''e1'') u = Some x \<and> sr_assetId x = ''a1''"
proof -
  have "case splitSource ''n1'' ''a1'' ''s1'' None 5 sampleInv of (Inr row, t) \<Rightarrow> True | _ \<Rightarrow> False" by code_simp
  then obtain row t where split: "splitSource ''n1'' ''a1'' ''s1'' None 5 sampleInv = (Inr row, t)" by (auto split: prod.splits sum.splits)
  have key: "dkey sampleClaim = (''entra'', ''e1'')" by (simp add: dkey_def sampleClaim_def)
  have "claims (nv_assets sampleInv) = [(sampleAsset, sampleClaim)]" by code_simp
  then have sole: "sole_claim sampleAsset sampleClaim sampleInv" by (simp add: sole_claim_def)
  have found: "findAssetRow ''a1'' sampleInv = Some sampleAsset" by code_simp
  have "av_createdAt b \<le> 5" if "b \<in> set (nv_assets sampleInv)" for b
    using that by (simp add: sampleInv_def sampleAsset_def blankAsset_def)
  then show ?thesis
    using restart_undoes_split [OF split found _ _ sole _ sample_fresh, of sampleEntra 9] split sampleInv_entra
    by (auto simp: key sampleEntra_def)
qed

section \<open>MAC lists\<close>

lemma macRowOf_key: "macKey (macRowOf i now m) = (i, me_mac m)"
  by (simp add: macKey_def macRowOf_def Let_def)

lemma upsertMacs_Cons:
  "upsertMacs i now (m # ms) rows = upsertMacs i now ms (upsert_row macKey (macRowOf i now m) (refreshMac (macRowOf i now m)) rows)"
  by (simp add: upsertMacs_def)

lemma upsertMacs_keys: "distinct (map macKey rows) \<Longrightarrow> distinct (map macKey (upsertMacs i now ms rows))"
  by (induction ms arbitrary: rows) (simp_all add: upsertMacs_Cons refreshed.distinct_upsert, simp add: upsertMacs_def)

definition written :: "string \<Rightarrow> int \<Rightarrow> macEntry \<Rightarrow> macRow option \<Rightarrow> macRow" where
  "written i now m old = (case old of None \<Rightarrow> macRowOf i now m | Some r \<Rightarrow> refreshMac (macRowOf i now m) r)"

lemma upsertMacs_lookup:
  "distinct (map me_mac ms) \<Longrightarrow>
     find (\<lambda>r. macKey r = k) (upsertMacs i now ms rows) =
       (case find (\<lambda>m. (i, me_mac m) = k) ms of
          None \<Rightarrow> find (\<lambda>r. macKey r = k) rows
        | Some m \<Rightarrow> Some (written i now m (find (\<lambda>r. macKey r = k) rows)))"
proof (induction ms arbitrary: rows)
  case Nil
  then show ?case by (simp add: upsertMacs_def)
next
  case (Cons m ms)
  have "find (\<lambda>x. (i, me_mac x) = k) ms = None" if "k = (i, me_mac m)"
    using that Cons.prems unfolding find_None_iff by (metis (mono_tags, lifting) distinct.simps(2) image_eqI list.set_map list.simps(9) prod.inject)
  then show ?case
    using Cons by (simp add: upsertMacs_Cons refreshed.lookup_upsert macRowOf_key written_def split: option.split) auto
qed

lemma upsertMacs_others: "filter (\<lambda>r. mr_assetId r \<noteq> i) (upsertMacs i now ms rows) = filter (\<lambda>r. mr_assetId r \<noteq> i) rows"
proof (induction ms arbitrary: rows)
  case Nil
  then show ?case by (simp add: upsertMacs_def)
next
  case (Cons m ms)
  have "filter (\<lambda>r. mr_assetId r \<noteq> i) (map (\<lambda>r. if macKey r = (i, me_mac m) then refreshMac e r else r) rows) = filter (\<lambda>r. mr_assetId r \<noteq> i) rows" for e
    by (induction rows) (auto simp: macKey_def refreshMac_def)
  then show ?case using Cons by (simp add: upsertMacs_Cons upsert_row_def macRowOf_key) (simp add: macRowOf_def Let_def)
qed

lemma find_filter_key: "find (\<lambda>r. key r = k) (filter P rows) = (if P' then find (\<lambda>r. key r = k) rows else None)"
  if "\<And>r. key r = k \<Longrightarrow> P r = P'"
  using that by (induction rows) auto

text \<open>What \<^verbatim>\<open>shapeMacRows\<close> gives back unchanged: entries with a time and a source, and no empty strings.\<close>

definition completeEntry :: "macEntry \<Rightarrow> bool" where
  "completeEntry m \<longleftrightarrow> me_mac m \<noteq> [] \<and> me_lastSeen m \<noteq> None \<and> truthy (me_source m) \<and> or_null (me_device m) = me_device m \<and>
     or_null (me_subnetCidr m) = me_subnetCidr m \<and> or_null (me_subnetName m) = me_subnetName m"

definition shapeRow :: "macRow \<Rightarrow> macEntry" where
  "shapeRow r = \<lparr>me_mac = mr_mac r, me_lastSeen = Some (mr_lastSeen r), me_source = Some (mr_source r),
     me_device = or_null (mr_device r), me_subnetCidr = or_null (mr_subnetCidr r), me_subnetName = or_null (mr_subnetName r)\<rparr>"

lemma shape_rows: "shapeMacRows (Some rs) = map shapeRow (sort_key (\<lambda>r. - mr_lastSeen r) rs)"
  by (simp add: shapeMacRows_def shapeRow_def)

lemma shape_written: "completeEntry m \<Longrightarrow> (\<And>r. old = Some r \<Longrightarrow> mr_mac r = me_mac m) \<Longrightarrow> shapeRow (written i now m old) = m"
  by (cases old; cases m) (auto simp: completeEntry_def written_def shapeRow_def refreshMac_def macRowOf_def Let_def keep_def or_str_def truthy_def split: option.splits list.splits)

definition reconciled :: "string \<Rightarrow> macEntry list \<Rightarrow> int \<Rightarrow> macRow list \<Rightarrow> macRow list" where
  "reconciled i macs now rows =
     upsertMacs i now (sort_key me_mac macs) (delete_rows (\<lambda>r. mr_assetId r = i \<and> mr_mac r \<notin> me_mac ` set macs) rows)"

lemma reconcile_run:
  assumes "i \<in> an_id ` set (nv_assets s)" "distinct (map me_mac macs)" "list_all completeEntry macs"
  shows "reconcileMacAddresses i macs now s = (Inr (), s\<lparr>nv_macs := reconciled i macs now (nv_macs s)\<rparr>)"
proof -
  have all: "filter (\<lambda>m. me_mac m \<noteq> []) macs = macs"
    using assms(3) by (auto simp: list_all_iff completeEntry_def filter_id_conv)
  have "distinct (map me_mac (sort_key me_mac macs))"
    using assms(2) by (simp add: distinct_map)
  moreover have "sort_key me_mac macs = [] \<longleftrightarrow> macs = []" by (metis set_empty set_sort)
  ultimately show ?thesis
    using assms(1) unfolding reconcileMacAddresses_def all Let_def
    by (cases "macs = []") (simp_all add: reconciled_def upsertMacs_def delete_rows_def)
qed

lemma reconciled_lookup:
  assumes "distinct (map me_mac macs)"
  shows "find (\<lambda>r. macKey r = (i, x)) (reconciled i macs now rows) =
    (case find (\<lambda>m. me_mac m = x) macs of None \<Rightarrow> None | Some m \<Rightarrow> Some (written i now m (find (\<lambda>r. macKey r = (i, x)) rows)))"
proof -
  have "find (\<lambda>m. me_mac m = x) macs = find (\<lambda>m. me_mac m = x) (sort_key me_mac macs)"
    by (rule find_unique) (use assms in \<open>simp_all add: distinct_map inj_on_def\<close>)
  then have same: "find (\<lambda>m. (i, me_mac m) = (i, x)) (sort_key me_mac macs) = find (\<lambda>m. me_mac m = x) macs" by simp
  have kept: "find (\<lambda>r. macKey r = (i, x)) (delete_rows (\<lambda>r. mr_assetId r = i \<and> mr_mac r \<notin> me_mac ` set macs) rows) =
      (if x \<in> me_mac ` set macs then find (\<lambda>r. macKey r = (i, x)) rows else None)"
    unfolding delete_rows_def by (rule find_filter_key) (auto simp: macKey_def)
  have dist: "distinct (map me_mac (sort_key me_mac macs))" using assms by (simp add: distinct_map)
  show ?thesis
  proof (cases "find (\<lambda>m. me_mac m = x) macs")
    case None
    then have "x \<notin> me_mac ` set macs" unfolding find_None_iff by blast
    then show ?thesis unfolding reconciled_def upsertMacs_lookup [OF dist] same kept using None by simp
  next
    case (Some m)
    then have "x \<in> me_mac ` set macs" using find_SomeD [OF Some] by blast
    then show ?thesis unfolding reconciled_def upsertMacs_lookup [OF dist] same kept using Some by simp
  qed
qed

lemma reconciled_keys: "distinct (map macKey rows) \<Longrightarrow> distinct (map macKey (reconciled i macs now rows))"
  unfolding reconciled_def delete_rows_def by (rule upsertMacs_keys) (simp add: distinct_map_filter)

lemma reconciled_others: "filter (\<lambda>r. mr_assetId r \<noteq> i) (reconciled i macs now rows) = filter (\<lambda>r. mr_assetId r \<noteq> i) rows"
  unfolding reconciled_def upsertMacs_others delete_rows_def filter_filter by (rule filter_cong) auto

definition rewritten :: "string \<Rightarrow> int \<Rightarrow> macRow list \<Rightarrow> macEntry \<Rightarrow> macRow" where
  "rewritten i now rows m = written i now m (find (\<lambda>q. macKey q = (i, me_mac m)) rows)"

lemma found_key: "find (\<lambda>q. macKey q = (i, x)) rows = Some q \<Longrightarrow> mr_mac q = x \<and> mr_assetId q = i"
  by (drule find_SomeD) (simp add: macKey_def)

lemma refresh_key: "macKey (refreshMac e r) = macKey r"
  by (simp add: refreshMac_def macKey_def)

lemma rewritten_key: "macKey (rewritten i now rows m) = (i, me_mac m)"
proof (cases "find (\<lambda>q. macKey q = (i, me_mac m)) rows")
  case None
  then show ?thesis by (simp add: rewritten_def written_def macRowOf_key)
next
  case (Some q)
  then show ?thesis using find_SomeD [OF Some] by (simp add: rewritten_def written_def refresh_key)
qed

lemma rewritten_shape: "completeEntry m \<Longrightarrow> shapeRow (rewritten i now rows m) = m"
  unfolding rewritten_def by (rule shape_written) (auto dest: found_key)

lemma reconciled_member:
  assumes "distinct (map macKey rows)" "distinct (map me_mac macs)"
  shows "r \<in> set (filter (\<lambda>r. mr_assetId r = i) (reconciled i macs now rows)) \<longleftrightarrow> r \<in> rewritten i now rows ` set macs"
proof
  assume r: "r \<in> set (filter (\<lambda>r. mr_assetId r = i) (reconciled i macs now rows))"
  then have key: "macKey r = (i, mr_mac r)" and mem: "r \<in> set (reconciled i macs now rows)" by (simp_all add: macKey_def)
  have "find (\<lambda>q. macKey q = (i, mr_mac r)) (reconciled i macs now rows) = Some r"
    using find_distinct_key [OF reconciled_keys [OF assms(1)] mem] by (simp only: key)
  then obtain m where m: "find (\<lambda>m. me_mac m = mr_mac r) macs = Some m" "r = written i now m (find (\<lambda>q. macKey q = (i, mr_mac r)) rows)"
    unfolding reconciled_lookup [OF assms(2)] by (auto split: option.splits)
  then have in_list: "m \<in> set macs" and mac: "me_mac m = mr_mac r" using find_SomeD [OF m(1)] by simp_all
  have "r = rewritten i now rows m" unfolding rewritten_def mac by (rule m(2))
  then show "r \<in> rewritten i now rows ` set macs" using in_list by (rule image_eqI)
next
  assume "r \<in> rewritten i now rows ` set macs"
  then obtain m where m: "m \<in> set macs" "r = rewritten i now rows m" by blast
  have "find (\<lambda>y. me_mac y = me_mac m) macs = Some m" by (rule find_distinct_key [OF assms(2) m(1)])
  then have "find (\<lambda>q. macKey q = (i, me_mac m)) (reconciled i macs now rows) = Some r"
    unfolding reconciled_lookup [OF assms(2)] by (simp add: m(2) rewritten_def)
  then have "r \<in> set (reconciled i macs now rows)" by (rule find_SomeD [THEN conjunct1])
  then show "r \<in> set (filter (\<lambda>r. mr_assetId r = i) (reconciled i macs now rows))"
    using rewritten_key [of i now rows m] by (simp add: m(2) macKey_def)
qed

lemma reconciled_firstSeen:
  assumes "distinct (map macKey rows)" "distinct (map me_mac macs)" "r \<in> set (reconciled i macs now rows)"
  shows "case find (\<lambda>q. macKey q = macKey r) rows of None \<Rightarrow> True | Some q \<Rightarrow> mr_firstSeen r = mr_firstSeen q"
proof (cases "mr_assetId r = i")
  case True
  then obtain m where m: "r = rewritten i now rows m" using assms reconciled_member [OF assms(1,2), of r i now] by auto
  then have key: "macKey r = (i, me_mac m)" by (simp add: rewritten_key)
  show ?thesis unfolding key
    by (cases "find (\<lambda>q. macKey q = (i, me_mac m)) rows") (simp_all add: m rewritten_def written_def refreshMac_def)
next
  case False
  then have "r \<in> set (filter (\<lambda>r. mr_assetId r \<noteq> i) (reconciled i macs now rows))" using assms(3) by simp
  then have "r \<in> set rows" unfolding reconciled_others by simp
  then show ?thesis using find_distinct_key [OF assms(1)] by simp
qed

lemma reconciled_shape:
  assumes "distinct (map macKey rows)" "distinct (map me_mac macs)" "list_all completeEntry macs"
  shows "set (shapeMacRows (Some (filter (\<lambda>r. mr_assetId r = i) (reconciled i macs now rows)))) = set macs"
proof -
  have "set (filter (\<lambda>r. mr_assetId r = i) (reconciled i macs now rows)) = rewritten i now rows ` set macs"
    using reconciled_member [OF assms(1,2)] by blast
  moreover have "shapeRow ` rewritten i now rows ` set macs = set macs"
    using assms(3) by (force simp: image_image list_all_iff rewritten_shape)
  ultimately show ?thesis by (simp only: shape_rows list.set_map set_sort)
qed

lemma shape_sorted: "sorted (map (\<lambda>m. - the (me_lastSeen m)) (shapeMacRows (Some rs)))"
proof -
  have "map (\<lambda>m. - the (me_lastSeen m)) (shapeMacRows (Some rs)) = map (\<lambda>r. - mr_lastSeen r) (sort_key (\<lambda>r. - mr_lastSeen r) rs)"
    by (simp add: shape_rows shapeRow_def)
  then show ?thesis by (simp only: sorted_sort_key)
qed

text \<open>
  A list of MAC addresses written for an asset is read back as it was written, most recently seen first: the shaped rows of the asset are
  exactly the entries of the list, the rows of other assets stay as they are, and an address that was known keeps the time it was
  first seen.
\<close>

theorem mac_list_roundtrip:
  assumes "distinct (map macKey (nv_macs s))" "i \<in> an_id ` set (nv_assets s)" "distinct (map me_mac macs)" "list_all completeEntry macs"
  shows "\<exists>rows. reconcileMacAddresses i macs now s = (Inr (), s\<lparr>nv_macs := rows\<rparr>) \<and> distinct (map macKey rows) \<and>
    set (shapeMacRows (Some (filter (\<lambda>r. mr_assetId r = i) rows))) = set macs \<and>
    sorted (map (\<lambda>m. - the (me_lastSeen m)) (shapeMacRows (Some (filter (\<lambda>r. mr_assetId r = i) rows)))) \<and>
    filter (\<lambda>r. mr_assetId r \<noteq> i) rows = filter (\<lambda>r. mr_assetId r \<noteq> i) (nv_macs s) \<and>
    list_all (\<lambda>r. case find (\<lambda>q. macKey q = macKey r) (nv_macs s) of None \<Rightarrow> True | Some q \<Rightarrow> mr_firstSeen r = mr_firstSeen q) rows"
proof (rule exI, intro conjI)
  show "reconcileMacAddresses i macs now s = (Inr (), s\<lparr>nv_macs := reconciled i macs now (nv_macs s)\<rparr>)"
    by (rule reconcile_run [OF assms(2-4)])
  show "list_all (\<lambda>r. case find (\<lambda>q. macKey q = macKey r) (nv_macs s) of None \<Rightarrow> True | Some q \<Rightarrow> mr_firstSeen r = mr_firstSeen q)
      (reconciled i macs now (nv_macs s))"
    using reconciled_firstSeen [OF assms(1,3)] by (simp only: list_all_iff) blast
qed (rule reconciled_keys [OF assms(1)] reconciled_shape [OF assms(1,3,4)] shape_sorted reconciled_others)+

theorem mac_list_roundtrip_witness:
  "\<exists>rows. reconcileMacAddresses ''a1'' [agentEntry ''BB:01'' 7, agentEntry ''AA:00'' 9] 9 sampleInv = (Inr (), sampleInv\<lparr>nv_macs := rows\<rparr>) \<and>
     set (shapeMacRows (Some (filter (\<lambda>r. mr_assetId r = ''a1'') rows))) = {agentEntry ''BB:01'' 7, agentEntry ''AA:00'' 9}"
proof -
  have "distinct (map macKey (nv_macs sampleInv))" by code_simp
  moreover have "''a1'' \<in> an_id ` set (nv_assets sampleInv)" by (simp add: sampleInv_def sampleAsset_def blankAsset_def)
  moreover have "distinct (map me_mac [agentEntry ''BB:01'' 7, agentEntry ''AA:00'' 9])" by code_simp
  moreover have "list_all completeEntry [agentEntry ''BB:01'' 7, agentEntry ''AA:00'' 9]"
    by (simp add: completeEntry_def agentEntry_def truthy_def or_null_def)
  ultimately show ?thesis using mac_list_roundtrip [of sampleInv "''a1''" "[agentEntry ''BB:01'' 7, agentEntry ''AA:00'' 9]" 9] by auto
qed

end
