(* ===== verification/Spec2Isabelle.thy ===== *)
theory Spec2Isabelle
  imports CidrSpec SubnetsSpec BulkSpec ReservationsSpec QueueSpec StaleSpec PushSpec Lockout SlotPool IntegrationFilter
    DependencySpec SuppressionSpec SettingsSpec StatusSpec ScheduleSpec SampleBuffer RollupSpec RetentionSpec HistorySpec
    AccessSpec TokenSpec AgentSpec AgentChannel InventorySpec
begin

text \<open>
  A verification library for Polaris (repository shelob), an IP address management and asset
  inventory server in TypeScript: blocks of addresses, the subnets allocated in them, the reservations
  made in the subnets and their copies on Fortinet DHCP servers, and the monitoring of the assets: probes,
  their samples and the rollup, retention and display of the samples; roles, users, API tokens and the agents on the hosts; and the
  inventory of the assets: what each source observed of them and the row projected from it.

  \<^bold>\<open>The program and its model.\<close> The services keep their state in PostgreSQL through Prisma and reach
  devices over HTTP. The model has one state, the record \<^verbatim>\<open>world\<close> of theory \<^verbatim>\<open>Store\<close>: the tables the
  core reads and writes as lists of rows, two settings, the log of events, and the state of the devices
  (a type parameter). A service call is a function from the state to a result or an error and the new
  state, also when it throws: what was written before a throw stays, except in a transaction. Ids and
  clock readings are arguments. Uniqueness constraints and cascades of \<^verbatim>\<open>prisma/schema.prisma\<close> are part
  of the row operations, so a call that violates one fails as in the program.

  \<^item> \<^verbatim>\<open>Prelude\<close>, \<^verbatim>\<open>JsStd\<close>: shared lemmas, the locale of systems that keep an invariant, and the
    JavaScript primitives the sources use (string methods, number printing and parsing, 32-bit shifts).
  \<^item> \<^verbatim>\<open>Cidr\<close> (\<^verbatim>\<open>src/utils/cidr.ts\<close>): all IP arithmetic. \<^verbatim>\<open>CidrSpec\<close>: the meaning of a CIDR as a set of
    addresses, over the contract \<^verbatim>\<open>netmask_spec\<close> of the npm package \<^verbatim>\<open>netmask\<close>; overlap and containment are
    exact, the search for a free subnet is first fit and complete, template packing is sound, pages of
    addresses are complete; a template larger than its block escapes it.
  \<^item> \<^verbatim>\<open>Store\<close>: rows, row operations under the contract \<^verbatim>\<open>keyed_table\<close> (interpreted for blocks, subnets and
    reservations), effects. \<^verbatim>\<open>IoLogic\<close>: a small program logic for service calls.
  \<^item> \<^verbatim>\<open>Blocks\<close> (\<^verbatim>\<open>ipService.ts\<close>, \<^verbatim>\<open>blockService.ts\<close>), \<^verbatim>\<open>Subnets\<close> (\<^verbatim>\<open>subnetService.ts\<close>), \<^verbatim>\<open>Templates\<close>
    (\<^verbatim>\<open>allocationTemplateService.ts\<close>). \<^verbatim>\<open>SubnetsSpec\<close>: the address plan (subnets inside their block, pairwise
    disjoint) is an invariant of every sequence of calls that stay at /30 or coarser and allocate only templates that fit their block;
    allocation is first fit. \<^verbatim>\<open>BulkSpec\<close>: a bulk
    allocation does what its preview announced; stored templates stay valid.
  \<^item> \<^verbatim>\<open>PushService\<close> (\<^verbatim>\<open>reservationPushService.ts\<close>): the DHCP entries written to a FortiGate, over the record
    \<^verbatim>\<open>fortinet\<close> of the network clients. \<^verbatim>\<open>PushSpec\<close>: under the contract \<^verbatim>\<open>dhcp_device\<close> of a DHCP server (a
    read returns the entries, a POST appends one, a DELETE removes one) a push lands exactly once, is undone
    by an unpush that reports the entry removed, refuses a collision; which errors are permanent.
  \<^item> \<^verbatim>\<open>DnsResolved\<close> (\<^verbatim>\<open>dnsResolvedReservationService.ts\<close>), \<^verbatim>\<open>Reservations\<close> and \<^verbatim>\<open>PushQueue\<close>
    (\<^verbatim>\<open>reservationService.ts\<close>, \<^verbatim>\<open>retryQueuedReservationPushes.ts\<close>), \<^verbatim>\<open>Stale\<close> (\<^verbatim>\<open>reservationStaleService.ts\<close>).
    \<^verbatim>\<open>Invariant\<close>: every operation keeps the database well-formed; the step relation of the core.
    \<^verbatim>\<open>ReservationsSpec\<close>: no double booking, release always frees, a released address can be taken again,
    creation follows the push, automatic reservation takes the lowest free address, expiry.
    \<^verbatim>\<open>QueueSpec\<close>: the scan of the push queue completes, the back-off is bounded. \<^verbatim>\<open>StaleSpec\<close>: one alert per
    stale reservation, none while snoozed.
  \<^item> \<^verbatim>\<open>Lockout\<close> (\<^verbatim>\<open>loginLockout.ts\<close>, \<^verbatim>\<open>mfaPending.ts\<close>, the two login routes of \<^verbatim>\<open>routes/auth.ts\<close>): a login is what the route does before
    its waits on the database and the hash and what it does after them, as separate events that interleave. Five failures lock an account;
    a failure that ends late lifts the lock; codes can be guessed for ever by who knows the password.
  \<^item> \<^verbatim>\<open>SlotPool\<close> (\<^verbatim>\<open>workerSlotPool.ts\<close>), \<^verbatim>\<open>IntegrationFilter\<close>
    (\<^verbatim>\<open>integrationFilter.ts\<close>, \<^verbatim>\<open>pollingCompatibility.ts\<close>): models and properties in one theory each.
  \<^item> \<^verbatim>\<open>DependencyTree\<close> (\<^verbatim>\<open>dependencyTreeService.ts\<close>, the override and test routes of \<^verbatim>\<open>routes/assets.ts\<close>), over
    its own state \<^verbatim>\<open>depWorld\<close>. \<^verbatim>\<open>DependencySpec\<close>: layers are exact distances from the firewalls along cables,
    kept edges are acyclic. \<^verbatim>\<open>SuppressionSpec\<close>: suppression solves the all-parents-down equations, the
    reconciler converges, recomputation is idempotent, overrides keep the graph acyclic but clearing one may not.
  \<^item> \<^verbatim>\<open>Json\<close>: JSON values, JavaScript's \<^verbatim>\<open>Number\<close> and the zod schemas the routes use. \<^verbatim>\<open>Memo\<close>: the locale of a cache in
    front of a computation, interpreted for both caches of the monitor settings.
  \<^item> \<^verbatim>\<open>MonitorSettings\<close> (the settings hierarchy of \<^verbatim>\<open>monitoringService.ts\<close>, \<^verbatim>\<open>routes/monitorSettings.ts\<close>), over the state
    \<^verbatim>\<open>monState\<close> with its two caches. \<^verbatim>\<open>SettingsSpec\<close>: the caches are transparent for calls that follow one another, an
    accepted write takes effect; a load that overlaps a write can leave the old value cached, and a null timeout becomes 0.
  \<^item> \<^verbatim>\<open>SampleRows\<close>: the rows of the six sample tables. \<^verbatim>\<open>MonitorStatus\<close> (\<^verbatim>\<open>probeAsset\<close>, \<^verbatim>\<open>recordProbeResult\<close>, \<^verbatim>\<open>runProbeFor\<close>,
    the sample route of agents): the state \<^verbatim>\<open>monSys\<close> joins the settings, the dependency tree and the IPAM world, since a
    confirmed change of status starts the reconciliation of the suppression flags and the retry of queued pushes. Neither is awaited: the
    change leaves a \<^verbatim>\<open>hook\<close> behind, which settles at any later time or is lost. \<^verbatim>\<open>StatusSpec\<close>: the status is a
    function of the history of results however the hooks settle, events mark exactly the confirmed changes, the hook of a confirmed
    change brings the suppression flags up to date when it settles.
  \<^item> \<^verbatim>\<open>MonitorSchedule\<close> (the selection of due work by \<^verbatim>\<open>runMonitorPass\<close> and by \<^verbatim>\<open>publishDueWork\<close> of \<^verbatim>\<open>monitorAssets.ts\<close>).
    \<^verbatim>\<open>ScheduleSpec\<close>: heavy work only for healthy assets, probes always come due, where the two schedulers differ.
  \<^item> \<^verbatim>\<open>SampleBuffer\<close> (\<^verbatim>\<open>sampleWriteBuffer.ts\<close>, \<^verbatim>\<open>dbRetry.ts\<close>): a step relation with the flush in two halves, so that
    arrivals and deletions interleave with a write; no row is lost or doubled; a deleted asset blocks its table.
  \<^item> \<^verbatim>\<open>Rollup\<close> (\<^verbatim>\<open>sampleRollupService.ts\<close>, \<^verbatim>\<open>runSampleRollup.ts\<close>). \<^verbatim>\<open>RollupSpec\<close>: the locale \<^verbatim>\<open>statement\<close> of an upserting
    aggregate, interpreted for all twelve statements, gives idempotence; the locale \<^verbatim>\<open>staged\<close> relates daily buckets to the
    samples; what the moving window and the weights get wrong.
  \<^item> \<^verbatim>\<open>Retention\<close> (\<^verbatim>\<open>sampleRetentionService.ts\<close>, \<^verbatim>\<open>consolidateSampleRetention.ts\<close>, \<^verbatim>\<open>timescaleService.ts\<close>,
    \<^verbatim>\<open>sampleQueryRouter.ts\<close>, the prune functions of \<^verbatim>\<open>monitoringService.ts\<close>). \<^verbatim>\<open>RetentionSpec\<close>: a saved policy is read back,
    pruning is exact, the router picks complete tiers, and where these fail.
  \<^item> \<^verbatim>\<open>History\<close> (\<^verbatim>\<open>sampleHistoryService.ts\<close>). \<^verbatim>\<open>HistorySpec\<close>: hourly and detail tiers give the same statistics; rates of
    a bucket are understated.
  \<^item> \<^verbatim>\<open>Access\<close> (\<^verbatim>\<open>permissions.ts\<close>, \<^verbatim>\<open>roleService.ts\<close>, \<^verbatim>\<open>apiTokenService.ts\<close>, \<^verbatim>\<open>middleware/auth.ts\<close>, the routes of roles, users and
    API tokens), over the state \<^verbatim>\<open>accState\<close>: roles, users, tokens, the stored sessions and the version cache of the process.
    \<^verbatim>\<open>AccessSpec\<close>: \<^verbatim>\<open>tableStep\<close> specifies what a request may do to roles and users and every route refines it, so the tables
    stay well-formed, protected roles are fixed and an administrator is left; the guards decide by the role table although
    they look at a snapshot; a restart, the deletion of a user and the edit of a role break this. \<^verbatim>\<open>TokenSpec\<close>: a bearer token
    is accepted exactly from its creation to its end.
  \<^item> \<^verbatim>\<open>Agents\<close> (\<^verbatim>\<open>agentTokenService.ts\<close>, \<^verbatim>\<open>agentInstallService.ts\<close>, the agent routes of \<^verbatim>\<open>routes/assets.ts\<close> and
    \<^verbatim>\<open>routes/agents.ts\<close>), over the state \<^verbatim>\<open>agSys\<close>, which holds \<^verbatim>\<open>accState\<close> for the guards; runners and the exchange of a token are two
    calls each, so they interleave. \<^verbatim>\<open>AgentSpec\<close>: the locale \<^verbatim>\<open>token_rows\<close> carries a property of every row through all calls and
    is interpreted for enrollment tokens (good for one exchange) and for bearers (bound to one asset); races and
    the late end of an installation. \<^verbatim>\<open>AgentChannel\<close> (\<^verbatim>\<open>agentChannelService.ts\<close>): the web-socket sessions; every request is settled once,
    a reconnect loses its session; the text \<^verbatim>\<open>null\<close> makes the handler throw.
  \<^item> \<^verbatim>\<open>AssetSources\<close> (\<^verbatim>\<open>assetProjection.ts\<close>, \<^verbatim>\<open>assetSourceDerivation.ts\<close>, \<^verbatim>\<open>manufacturerNormalize.ts\<close>, \<^verbatim>\<open>projectionDriftService.ts\<close>, the observations
    discovery writes): pure functions. \<^verbatim>\<open>ProjectionSpec\<close>: a field has the opinion of the first rule that finds one, coordinates come in pairs,
    the order of the sources does not matter when there is one of a kind.
  \<^item> \<^verbatim>\<open>Inventory\<close> (the query extension of \<^verbatim>\<open>db.ts\<close>, the start-up jobs on sources, the source writes of \<^verbatim>\<open>routes/integrations.ts\<close>),
    \<^verbatim>\<open>InventoryRoutes\<close> (\<^verbatim>\<open>macAddresses.ts\<close>, \<^verbatim>\<open>manufacturerAliasService.ts\<close>, \<^verbatim>\<open>assetIpHistoryService.ts\<close>, the routes that split a source off, remove
    an address and receive the facts of a host), over the state \<^verbatim>\<open>invState\<close>; what the extension and the alias service do not await is a
    \<^verbatim>\<open>followUp\<close> that settles later. \<^verbatim>\<open>InventorySpec\<close>: the locale \<^verbatim>\<open>upserting\<close>, interpreted for sources and addresses; observations are kept by every
    write of an asset, the backfill is exact, a restart undoes a split and forgets what discovery observed, a list of addresses is read back.

  \<^bold>\<open>Parameters.\<close> Code outside the repository is a parameter: \<^verbatim>\<open>netmask_lib\<close>, \<^verbatim>\<open>fortinet\<close>, and \<^verbatim>\<open>pg_inet\<close>
  (the containment operators of PostgreSQL); the probes, a function from the call chosen to its result; whether a
  statement of the database throws, and the end of the TimescaleDB chunk of a time. Their contracts are locales with an instance each
  (\<^verbatim>\<open>ref_netmask\<close>, \<^verbatim>\<open>ref_fortinet\<close>), which the witnesses evaluate. The password hash of argon2 is a parameter under the
  hypothesis \<^verbatim>\<open>argon2Ok\<close>: a hash checks against the text it was made of and no other.

  \<^bold>\<open>Bounds.\<close> No definition uses fuel: the loops over addresses are functions with a measure, the others
  recursions over lists. Prefix lengths finer than /30 are excluded where the program relies on the
  broadcast address, which the library leaves undefined there.

  \<^bold>\<open>Not modelled.\<close> The probes and collectors themselves, the orchestration of discovery, the remote sessions that install agents, the
  clients of directories and of Fortinet, the migration to hypertables, the browser UI, start-up and update: network,
  process or file-system glue, DDL, or rendering. What the program starts without awaiting it is a step of its own (hooks, follow-ups). Except in
  \<^verbatim>\<open>Lockout\<close>, \<^verbatim>\<open>SampleBuffer\<close>, \<^verbatim>\<open>Agents\<close>, \<^verbatim>\<open>AgentChannel\<close> and the race of \<^verbatim>\<open>SettingsSpec\<close>, two calls
  never interleave within one service call: the model runs each call to its end. Averages are exact rationals
  where the program computes in floating point.
\<close>

end
